(* ===== verification/Prelude.thy ===== *)
theory Prelude
  imports Complex_Main "HOL-Library.Char_ord" "HOL-Library.List_Lexorder"
begin

text \<open>
  What every component shares: the exceptions of the Python code as values, the result
  type \<open>exn + 'a\<close> with its sequencing, the validation lists that the
  \<open>__post_init__\<close> methods run, the transactions of the repositories (a state-passing
  function whose exception rolls the state back), decimal printing of integers and a few
  list lemmas.

  Strings. A Python \<open>str\<close> is modelled by \<^typ>\<open>string\<close>, one \<^typ>\<open>char\<close> per code
  point; code points above U+00FF are outside the model. Python compares strings by code
  point, which is the lexicographic order of \<open>List_Lexorder\<close> over \<open>Char_ord\<close>.
\<close>

named_theorems result_simps \<open>unfolding of results, checks and transactions\<close>
named_theorems inv_intros \<open>rules that carry a state invariant through a transaction\<close>


section \<open>Exceptions and results\<close>

text \<open>The exception classes the modelled code raises, with their message or code.\<close>

datatype exn =
    ValueError string
  | TypeError string
  | LookupError string
  | AssertionError string
  | RuntimeError string
  | IntegrityError string
  | NoResultFound
  | MultipleResultsFound
  | CaseTransitionError string string
  | StaleCaseVersionError string string
  | ActionPersistenceError string string
  | RecoveryPersistenceError string string
  | MalformedRazorpayEventError string
  | UnsupportedRazorpayEventError string
  | ArithmeticError string
  | PlaybookPersistenceError string string

type_synonym 'a result = "exn + 'a"

definition bindR :: "'a result \<Rightarrow> ('a \<Rightarrow> 'b result) \<Rightarrow> 'b result" where
  "bindR r f = (case r of Inl e \<Rightarrow> Inl e | Inr x \<Rightarrow> f x)"

lemma bindR_simps [simp]:
  "bindR (Inl e) f = Inl e"
  "bindR (Inr x) f = f x"
  by (simp_all add: bindR_def)

lemma bindR_eq_Inr [result_simps]: "bindR r f = Inr y \<longleftrightarrow> (\<exists>x. r = Inr x \<and> f x = Inr y)"
  by (cases r) auto

lemma bindR_cong [fundef_cong]:
  "r = r' \<Longrightarrow> (\<And>x. r' = Inr x \<Longrightarrow> f x = f' x) \<Longrightarrow> bindR r f = bindR r' f'"
  by (cases r') auto

lemma Inr_totalI: "(\<And>e. r \<noteq> Inl e) \<Longrightarrow> \<exists>x. r = Inr x"
  by (cases r) auto

fun mapR :: "('a \<Rightarrow> 'b result) \<Rightarrow> 'a list \<Rightarrow> 'b list result" where
  "mapR f [] = Inr []"
| "mapR f (x # xs) = bindR (f x) (\<lambda>y. bindR (mapR f xs) (\<lambda>ys. Inr (y # ys)))"

lemma mapR_cong [fundef_cong]:
  "xs = ys \<Longrightarrow> (\<And>x. x \<in> set ys \<Longrightarrow> f x = g x) \<Longrightarrow> mapR f xs = mapR g ys"
  by (induction xs arbitrary: ys) auto

lemma mapR_eq_Inr:
  "mapR f xs = Inr ys \<longleftrightarrow> list_all2 (\<lambda>x y. f x = Inr y) xs ys"
  by (induction xs arbitrary: ys) (auto simp: bindR_eq_Inr list_all2_Cons1)

lemma mapR_total:
  "(\<And>x. x \<in> set xs \<Longrightarrow> f x = Inr (g x)) \<Longrightarrow> mapR f xs = Inr (map g xs)"
  by (induction xs) auto


section \<open>Validation lists\<close>

text \<open>
  A \<open>__post_init__\<close> is a sequence of \<open>if bad: raise e\<close>. It is modelled by the list of
  its conditions and exceptions in source order; the first condition that holds decides.
\<close>

fun raise_first :: "(bool \<times> exn) list \<Rightarrow> unit result" where
  "raise_first [] = Inr ()"
| "raise_first ((b, e) # cs) = (if b then Inl e else raise_first cs)"

lemma raise_first_ok_iff [result_simps]:
  "raise_first cs = Inr u \<longleftrightarrow> (\<forall>c\<in>set cs. \<not> fst c)"
  by (induction cs rule: raise_first.induct) auto

lemma raise_first_append [simp]:
  "raise_first (cs @ ds) = bindR (raise_first cs) (\<lambda>_. raise_first ds)"
  by (induction cs rule: raise_first.induct) auto

declare raise_first.simps [simp del]

text \<open>The rule that runs a validation list on a closed value that passes it.\<close>

lemma raise_first_okI: "(\<forall>c\<in>set cs. \<not> fst c) \<Longrightarrow> raise_first cs = Inr ()"
  by (simp add: raise_first_ok_iff)

text \<open>
  The checks of \<open>_identifier(name, value, maximum)\<close>, which each domain module repeats.
  The \<open>isinstance\<close> half of it is discharged by the types of the model.
\<close>

definition blank_or_longer :: "nat \<Rightarrow> string \<Rightarrow> bool" where
  "blank_or_longer maximum v \<longleftrightarrow> v = [] \<or> length v > maximum"

text \<open>Python's truth value of an optional string: \<open>None\<close> and \<open>""\<close> are false.\<close>

definition truthy :: "string option \<Rightarrow> bool" where
  "truthy v \<longleftrightarrow> (case v of None \<Rightarrow> False | Some s \<Rightarrow> s \<noteq> [])"

lemma truthy_simps [simp]: "\<not> truthy None" "truthy (Some s) \<longleftrightarrow> s \<noteq> []"
  by (simp_all add: truthy_def)

text \<open>Python's \<open>a or b\<close> on optional strings.\<close>

definition or_else :: "string option \<Rightarrow> string option \<Rightarrow> string option" where
  "or_else a b = (if truthy a then a else b)"

definition or_default :: "string option \<Rightarrow> string \<Rightarrow> string" where
  "or_default a d = (case a of Some s \<Rightarrow> (if s \<noteq> [] then s else d) | None \<Rightarrow> d)"

lemma or_default_simps [simp]:
  "or_default None d = d" "or_default (Some s) d = (if s \<noteq> [] then s else d)"
  by (simp_all add: or_default_def)


section \<open>Transactions\<close>

text \<open>
  A repository or service method runs inside one database transaction of its caller. It is a
  function from the database state to an exception or to its value and the new state: an
  exception rolls the transaction back, so no state goes with it.
\<close>

type_synonym ('s, 'a) tx = "'s \<Rightarrow> ('a \<times> 's) result"

definition returnT :: "'a \<Rightarrow> ('s, 'a) tx" where
  "returnT x s = Inr (x, s)"

definition raiseT :: "exn \<Rightarrow> ('s, 'a) tx" where
  "raiseT e s = Inl e"

definition bindT :: "('s, 'a) tx \<Rightarrow> ('a \<Rightarrow> ('s, 'b) tx) \<Rightarrow> ('s, 'b) tx" where
  "bindT m f s = (case m s of Inl e \<Rightarrow> Inl e | Inr (x, s') \<Rightarrow> f x s')"

definition seqT :: "('s, 'a) tx \<Rightarrow> ('s, 'b) tx \<Rightarrow> ('s, 'b) tx" where
  "seqT m n = bindT m (\<lambda>_. n)"

definition getT :: "('s \<Rightarrow> 'a) \<Rightarrow> ('s, 'a) tx" where
  "getT f s = Inr (f s, s)"

definition modifyT :: "('s \<Rightarrow> 's) \<Rightarrow> ('s, unit) tx" where
  "modifyT f s = Inr ((), f s)"

definition liftR :: "'a result \<Rightarrow> ('s, 'a) tx" where
  "liftR r s = (case r of Inl e \<Rightarrow> Inl e | Inr x \<Rightarrow> Inr (x, s))"

definition guardT :: "bool \<Rightarrow> exn \<Rightarrow> ('s, unit) tx" where
  "guardT bad e s = (if bad then Inl e else Inr ((), s))"

text \<open>A lookup that raises when the row is absent.\<close>

definition requireT :: "exn \<Rightarrow> 'a option \<Rightarrow> ('s, 'a) tx" where
  "requireT e v s = (case v of None \<Rightarrow> Inl e | Some x \<Rightarrow> Inr (x, s))"

text \<open>A query that must have at most one row, and one that must have exactly one.\<close>

definition one_or_noneT :: "'a list \<Rightarrow> ('s, 'a option) tx" where
  "one_or_noneT rows s = (case rows of
     [] \<Rightarrow> Inr (None, s) | [r] \<Rightarrow> Inr (Some r, s) | _ \<Rightarrow> Inl MultipleResultsFound)"

definition oneT :: "'a list \<Rightarrow> ('s, 'a) tx" where
  "oneT rows = bindT (one_or_noneT rows) (requireT NoResultFound)"

text \<open>A loop over a list that collects its results.\<close>

fun mapT :: "('a \<Rightarrow> ('s, 'b) tx) \<Rightarrow> 'a list \<Rightarrow> ('s, 'b list) tx" where
  "mapT f [] = returnT []"
| "mapT f (x # xs) = bindT (f x) (\<lambda>y. bindT (mapT f xs) (\<lambda>ys. returnT (y # ys)))"

lemma bindT_eq_Inr [result_simps]:
  "bindT m f s = Inr r \<longleftrightarrow> (\<exists>x s'. m s = Inr (x, s') \<and> f x s' = Inr r)"
  by (auto simp: bindT_def split: sum.splits prod.splits)

lemma seqT_eq_Inr [result_simps]:
  "seqT m n s = Inr r \<longleftrightarrow> (\<exists>x s'. m s = Inr (x, s') \<and> n s' = Inr r)"
  by (simp add: seqT_def bindT_eq_Inr)

lemma tx_eq_Inr [result_simps]:
  "returnT x s = Inr r \<longleftrightarrow> r = (x, s)"
  "raiseT e s = Inr r \<longleftrightarrow> False"
  "getT g s = Inr r \<longleftrightarrow> r = (g s, s)"
  "modifyT h s = Inr (u, s') \<longleftrightarrow> s' = h s"
  "liftR q s = Inr (x, s') \<longleftrightarrow> q = Inr x \<and> s' = s"
  "guardT b e s = Inr (u, s') \<longleftrightarrow> \<not> b \<and> s' = s"
  "requireT e v s = Inr (x, s') \<longleftrightarrow> v = Some x \<and> s' = s"
  by (auto simp: returnT_def raiseT_def getT_def modifyT_def liftR_def guardT_def
      requireT_def split: sum.splits option.splits)

lemma one_or_noneT_eq_Inr [result_simps]:
  "one_or_noneT rows s = Inr (x, s') \<longleftrightarrow>
     s' = s \<and> (case x of None \<Rightarrow> rows = [] | Some r \<Rightarrow> rows = [r])"
  by (cases rows rule: remdups_adj.cases) (auto simp: one_or_noneT_def split: option.splits)

lemma oneT_eq_Inr [result_simps]: "oneT rows s = Inr (x, s') \<longleftrightarrow> s' = s \<and> rows = [x]"
  by (auto simp: oneT_def bindT_eq_Inr tx_eq_Inr one_or_noneT_eq_Inr)

text \<open>The equations that run a transaction on a concrete state.\<close>

lemmas run_tx = returnT_def raiseT_def bindT_def seqT_def getT_def modifyT_def liftR_def
  guardT_def requireT_def one_or_noneT_def oneT_def

subsection \<open>Invariants of transactions\<close>

definition preserves :: "('s \<Rightarrow> bool) \<Rightarrow> ('s, 'a) tx \<Rightarrow> bool" where
  "preserves P m \<longleftrightarrow> (\<forall>s x s'. P s \<longrightarrow> m s = Inr (x, s') \<longrightarrow> P s')"

lemma preservesI: "(\<And>s x s'. P s \<Longrightarrow> m s = Inr (x, s') \<Longrightarrow> P s') \<Longrightarrow> preserves P m"
  by (auto simp: preserves_def)

lemma preservesD: "preserves P m \<Longrightarrow> P s \<Longrightarrow> m s = Inr (x, s') \<Longrightarrow> P s'"
  by (auto simp: preserves_def)

lemma preserves_bindT [inv_intros]:
  "preserves P m \<Longrightarrow> (\<And>x. preserves P (f x)) \<Longrightarrow> preserves P (bindT m f)"
  unfolding preserves_def bindT_eq_Inr by blast

lemma preserves_seqT [inv_intros]:
  "preserves P m \<Longrightarrow> preserves P n \<Longrightarrow> preserves P (seqT m n)"
  unfolding seqT_def by (rule preserves_bindT)

lemma preserves_pure [inv_intros]:
  "preserves P (returnT x)" "preserves P (raiseT e)" "preserves P (getT g)"
  "preserves P (liftR r)" "preserves P (guardT b e)" "preserves P (requireT e v)"
  by (auto simp: preserves_def tx_eq_Inr)

lemma preserves_mapT [inv_intros]:
  "(\<And>x. preserves P (f x)) \<Longrightarrow> preserves P (mapT f xs)"
  by (induction xs) (simp_all add: preserves_bindT preserves_pure)

lemma preserves_one [inv_intros]: "preserves P (one_or_noneT rows)" "preserves P (oneT rows)"
  by (auto simp: preserves_def one_or_noneT_eq_Inr oneT_eq_Inr)

lemma preserves_if [inv_intros]:
  "(b \<Longrightarrow> preserves P m) \<Longrightarrow> (\<not> b \<Longrightarrow> preserves P n) \<Longrightarrow> preserves P (if b then m else n)"
  by simp

lemma preserves_case_option [inv_intros]:
  "preserves P m \<Longrightarrow> (\<And>x. preserves P (f x)) \<Longrightarrow>
   preserves P (case v of None \<Rightarrow> m | Some x \<Rightarrow> f x)"
  by (cases v) auto

lemma preserves_modifyT: "(\<And>s. P s \<Longrightarrow> P (h s)) \<Longrightarrow> preserves P (modifyT h)"
  by (auto simp: preserves_def tx_eq_Inr)


section \<open>Decimal printing\<close>

text \<open>\<open>str(n)\<close> of a Python integer.\<close>

definition digit_char :: "nat \<Rightarrow> char" where
  "digit_char d = char_of (48 + d)"

fun show_nat :: "nat \<Rightarrow> string" where
  "show_nat n = (if n < 10 then [digit_char n]
     else show_nat (n div 10) @ [digit_char (n mod 10)])"

declare show_nat.simps [simp del]

definition show_int :: "int \<Rightarrow> string" where
  "show_int i = (if i < 0 then CHR ''-'' # show_nat (nat (- i)) else show_nat (nat i))"

definition is_digit :: "char \<Rightarrow> bool" where
  "is_digit c \<longleftrightarrow> 48 \<le> (of_char c :: nat) \<and> (of_char c :: nat) \<le> 57"

lemma of_char_digit_char [simp]: "d < 10 \<Longrightarrow> (of_char (digit_char d) :: nat) = 48 + d"
  by (simp add: digit_char_def)

lemma is_digit_digit_char [simp]: "d < 10 \<Longrightarrow> is_digit (digit_char d)"
  by (simp add: is_digit_def)

lemma show_nat_nonempty [simp]: "show_nat n \<noteq> []"
  by (subst show_nat.simps) simp

lemma show_nat_digits: "c \<in> set (show_nat n) \<Longrightarrow> is_digit c"
proof (induction n rule: show_nat.induct)
  case (1 n)
  then show ?case
    by (cases "n < 10") (auto simp: show_nat.simps [of n])
qed

text \<open>The value of a digit string, the left inverse of \<^const>\<open>show_nat\<close>.\<close>

definition digits_value :: "string \<Rightarrow> nat" where
  "digits_value s = foldl (\<lambda>v c. 10 * v + (of_char c - 48)) 0 s"

lemma digits_value_show_nat [simp]: "digits_value (show_nat n) = n"
proof (induction n rule: show_nat.induct)
  case (1 n)
  then show ?case
    by (cases "n < 10") (auto simp: show_nat.simps [of n] digits_value_def)
qed

lemma show_nat_inject [simp]: "show_nat m = show_nat n \<longleftrightarrow> m = n"
  by (metis digits_value_show_nat)


section \<open>List lemmas\<close>

text \<open>
  A printed number followed by a non-digit determines the number: two digit strings that
  are prefixes of one text and end at a non-digit are the same.
\<close>

definition no_digit_first :: "string \<Rightarrow> bool" where
  "no_digit_first s \<longleftrightarrow> (case s of [] \<Rightarrow> True | c # _ \<Rightarrow> \<not> is_digit c)"

lemma no_digit_first_simps [simp]:
  "no_digit_first []" "no_digit_first (c # s) \<longleftrightarrow> \<not> is_digit c"
  by (simp_all add: no_digit_first_def)

lemma digits_prefix_unique:
  assumes "xs @ r = ys @ r'"
    and "\<forall>c\<in>set xs. is_digit c" "\<forall>c\<in>set ys. is_digit c"
    and "no_digit_first r" "no_digit_first r'"
  shows "xs = ys \<and> r = r'"
  using assms
proof (induction xs arbitrary: ys)
  case Nil
  then show ?case by (cases ys) auto
next
  case (Cons x xs)
  then show ?case by (cases ys) auto
qed

lemma show_nat_prefix_unique:
  assumes "show_nat m @ r = show_nat n @ r'" "no_digit_first r" "no_digit_first r'"
  shows "m = n \<and> r = r'"
  using digits_prefix_unique [OF assms(1) _ _ assms(2,3)] show_nat_digits by auto

lemma show_int_prefix_unique:
  assumes "show_int i @ r = show_int j @ r'" "no_digit_first r" "no_digit_first r'"
  shows "i = j \<and> r = r'"
proof -
  have hd_digit: "\<And>n. is_digit (hd (show_nat n))"
    by (metis hd_in_set show_nat_digits show_nat_nonempty)
  have minus: "\<not> is_digit CHR ''-''" by (simp add: is_digit_def)
  have neg: "show_nat a @ r \<noteq> CHR ''-'' # t" for a r t
    using hd_digit [of a] minus by (metis hd_append2 list.sel(1) show_nat_nonempty)
  show ?thesis
  proof (cases "i < 0"; cases "j < 0")
    assume "i < 0" "j < 0"
    with assms show ?thesis
      by (auto simp: show_int_def dest: show_nat_prefix_unique)
  next
    assume "i < 0" "\<not> j < 0"
    with assms(1) neg show ?thesis by (fastforce simp: show_int_def dest: sym)
  next
    assume "\<not> i < 0" "j < 0"
    with assms(1) neg show ?thesis by (fastforce simp: show_int_def)
  next
    assume "\<not> i < 0" "\<not> j < 0"
    with assms show ?thesis
      by (auto simp: show_int_def dest: show_nat_prefix_unique)
  qed
qed

text \<open>\<open>list(dict.fromkeys(values))\<close>: first occurrences, in order.\<close>

definition first_occurrences :: "'a list \<Rightarrow> 'a list" where
  "first_occurrences xs = rev (remdups (rev xs))"

lemma set_first_occurrences [simp]: "set (first_occurrences xs) = set xs"
  by (simp add: first_occurrences_def)

lemma distinct_first_occurrences [simp]: "distinct (first_occurrences xs)"
  by (simp add: first_occurrences_def)

lemma first_occurrences_eq_Nil [simp]: "first_occurrences xs = [] \<longleftrightarrow> xs = []"
  by (simp add: first_occurrences_def)

lemma first_occurrences_snoc:
  "first_occurrences (xs @ [x]) =
     (if x \<in> set xs then first_occurrences xs else first_occurrences xs @ [x])"
  by (simp add: first_occurrences_def)

text \<open>\<open>sep.join(parts)\<close>.\<close>

fun join :: "string \<Rightarrow> string list \<Rightarrow> string" where
  "join sep [] = []"
| "join sep [x] = x"
| "join sep (x # y # xs) = x @ sep @ join sep (y # xs)"

lemma find_append_Some: "find p xs = Some x \<Longrightarrow> find p (xs @ ys) = Some x"
  by (induction xs) (auto split: if_splits)

lemma find_append_None: "find p xs = None \<Longrightarrow> find p (xs @ ys) = find p ys"
  by (induction xs) (auto split: if_splits)

lemma find_same_image:
  assumes "map f rs' = map f rs" "\<And>x y. f x = f y \<Longrightarrow> p x = p y \<and> g x = g y"
  shows "map_option g (find p rs') = map_option g (find p rs)"
  using assms(1)
proof (induction rs' arbitrary: rs)
  case (Cons x rs')
  then obtain y ys where "rs = y # ys" "f x = f y" "map f rs' = map f ys" by (cases rs) auto
  with Cons.IH [of ys] assms(2) [of x y] show ?case by simp
qed simp

lemma find_unique_key:
  "distinct (map key rs) \<Longrightarrow> r \<in> set rs \<Longrightarrow> find (\<lambda>x. key x = key r) rs = Some r"
  by (induction rs) force+

text \<open>\<open>d[key] = value\<close> on a dictionary with its insertion order.\<close>

fun dict_set :: "string \<Rightarrow> 'v \<Rightarrow> (string \<times> 'v) list \<Rightarrow> (string \<times> 'v) list" where
  "dict_set k v [] = [(k, v)]"
| "dict_set k v ((l, w) # kvs) = (if k = l then (k, v) # kvs else (l, w) # dict_set k v kvs)"

lemma map_of_dict_set [simp]: "map_of (dict_set k v kvs) = (map_of kvs)(k \<mapsto> v)"
  by (induction kvs) auto

text \<open>Update of the rows of a table that a \<open>where\<close> selects.\<close>

definition update_where :: "('a \<Rightarrow> bool) \<Rightarrow> ('a \<Rightarrow> 'a) \<Rightarrow> 'a list \<Rightarrow> 'a list" where
  "update_where p f = map (\<lambda>r. if p r then f r else r)"

lemma length_update_where [simp]: "length (update_where p f xs) = length xs"
  by (simp add: update_where_def)

lemma update_where_simps [simp]:
  "update_where p f [] = []"
  "update_where p f (x # xs) = (if p x then f x else x) # update_where p f xs"
  by (simp_all add: update_where_def)

lemma set_update_where:
  "set (update_where p f xs) = (\<lambda>r. if p r then f r else r) ` set xs"
  by (simp add: update_where_def)

lemma map_update_where_key:
  "(\<And>r. p r \<Longrightarrow> k (f r) = k r) \<Longrightarrow> map k (update_where p f xs) = map k xs"
  by (simp add: update_where_def)

lemma find_update_where_same:
  assumes "find q xs = Some r" "p r" "\<And>x. p x \<Longrightarrow> q (f x) = q x"
  shows "find q (update_where p f xs) = Some (f r)"
  using assms by (induction xs) (auto split: if_splits)

lemma find_update_where_other:
  assumes "\<And>r. p r \<Longrightarrow> \<not> q r" "\<And>r. p r \<Longrightarrow> \<not> q (f r)"
  shows "find q (update_where p f xs) = find q xs"
  using assms by (induction xs) auto


lemma find_update_where_key:
  assumes "\<And>r. key (f r) = key r"
  shows "find (\<lambda>r. key r = k') (update_where (\<lambda>r. key r = k) f xs) =
    (if k' = k then map_option f (find (\<lambda>r. key r = k) xs) else find (\<lambda>r. key r = k') xs)"
  using assms by (induction xs) auto

end
