(* ===== verification/Py_Time.thy ===== *)
theory Py_Time
  imports Prelude
begin

text \<open>
  What the code uses of Python's \<open>datetime\<close>: naive and timezone-aware timestamps at
  microsecond resolution, \<open>astimezone(UTC)\<close>, arithmetic with \<open>timedelta\<close>, the proleptic
  Gregorian calendar and \<open>isoformat\<close>.

  An aware timestamp is its instant, the microseconds since 1970-01-01T00:00:00Z: the code
  converts every timestamp to UTC before it uses it, so the original offset is never
  observed. A \<open>timedelta\<close> is its number of microseconds, a \<open>date\<close> its number of days since
  1970-01-01. The range limits of the types (years 1 to 9999) are not modelled.
\<close>


section \<open>Timestamps\<close>

datatype datetime = Naive int | Aware int

primrec instant :: "datetime \<Rightarrow> int" where
  "instant (Naive t) = t"
| "instant (Aware t) = t"

primrec is_aware :: "datetime \<Rightarrow> bool" where
  "is_aware (Naive t) = False"
| "is_aware (Aware t) = True"

text \<open>
  The order of two aware timestamps is the order of their instants. Python refuses to
  compare a naive with an aware one; here all naive ones come first, which no validated
  value exercises (every constructor converts with \<open>utc\<close>, which rejects naive values).
\<close>

instantiation datetime :: linorder
begin

definition less_eq_datetime :: "datetime \<Rightarrow> datetime \<Rightarrow> bool" where
  "less_eq_datetime a b \<longleftrightarrow>
     (if is_aware a = is_aware b then instant a \<le> instant b else is_aware b)"

definition less_datetime :: "datetime \<Rightarrow> datetime \<Rightarrow> bool" where
  "less_datetime a b \<longleftrightarrow>
     (if is_aware a = is_aware b then instant a < instant b else is_aware b)"

instance
proof
  fix x y z :: datetime
  show "(x < y) = (x \<le> y \<and> \<not> y \<le> x)"
    by (auto simp: less_eq_datetime_def less_datetime_def)
  show "x \<le> x"
    by (simp add: less_eq_datetime_def)
  show "x \<le> y \<Longrightarrow> y \<le> z \<Longrightarrow> x \<le> z"
    by (auto simp: less_eq_datetime_def split: if_splits)
  show "x \<le> y \<Longrightarrow> y \<le> x \<Longrightarrow> x = y"
    by (cases x; cases y) (auto simp: less_eq_datetime_def)
  show "x \<le> y \<or> y \<le> x"
    by (auto simp: less_eq_datetime_def)
qed

end

lemma Aware_order [simp]:
  "Aware s \<le> Aware t \<longleftrightarrow> s \<le> t" "Aware s < Aware t \<longleftrightarrow> s < t"
  by (simp_all add: less_eq_datetime_def less_datetime_def)

text \<open>
  \<open>_utc(name, value)\<close> of the domain modules: a naive timestamp raises, an aware one is
  converted to UTC.
\<close>

definition utc :: "string \<Rightarrow> datetime \<Rightarrow> datetime result" where
  "utc name v = (case v of
     Naive _ \<Rightarrow> Inl (ValueError (name @ '' must be timezone-aware''))
   | Aware t \<Rightarrow> Inr (Aware t))"

lemma utc_eq_Inr [result_simps]: "utc name v = Inr w \<longleftrightarrow> is_aware v \<and> w = v"
  by (cases v) (auto simp: utc_def)

lemma utc_Aware [simp]: "utc name (Aware t) = Inr (Aware t)"
  by (simp add: utc_def)

lemma utc_aware: "is_aware v \<Longrightarrow> utc name v = Inr v"
  by (cases v) (auto simp: utc_def)

text \<open>The conversion of an optional timestamp, skipped when it is \<open>None\<close>.\<close>

definition utc_opt :: "string \<Rightarrow> datetime option \<Rightarrow> datetime option result" where
  "utc_opt name v = (case v of
     None \<Rightarrow> Inr None
   | Some w \<Rightarrow> bindR (utc name w) (\<lambda>w'. Inr (Some w')))"

lemma utc_opt_simps [simp]:
  "utc_opt name None = Inr None"
  "utc_opt name (Some v) = bindR (utc name v) (\<lambda>w. Inr (Some w))"
  by (simp_all add: utc_opt_def)

lemma utc_opt_eq_Inr [result_simps]:
  "utc_opt name v = Inr w \<longleftrightarrow> (\<forall>t. v = Some t \<longrightarrow> is_aware t) \<and> w = v"
  by (cases v) (auto simp: utc_eq_Inr bindR_eq_Inr)


section \<open>Durations\<close>

text \<open>\<open>timedelta(seconds=n)\<close>, and timestamp plus duration.\<close>

definition seconds :: "int \<Rightarrow> int" where
  "seconds n = n * 1000000"

definition minutes :: "int \<Rightarrow> int" where
  "minutes n = seconds (n * 60)"

definition hours :: "int \<Rightarrow> int" where
  "hours n = seconds (n * 3600)"

definition days :: "int \<Rightarrow> int" where
  "days n = seconds (n * 86400)"

lemmas duration_defs = seconds_def minutes_def hours_def days_def

primrec plus_delta :: "datetime \<Rightarrow> int \<Rightarrow> datetime" where
  "plus_delta (Naive t) d = Naive (t + d)"
| "plus_delta (Aware t) d = Aware (t + d)"

lemma plus_delta_order [simp]:
  "plus_delta t d \<le> t \<longleftrightarrow> d \<le> 0" "t \<le> plus_delta t d \<longleftrightarrow> 0 \<le> d"
  "plus_delta t d < t \<longleftrightarrow> d < 0" "t < plus_delta t d \<longleftrightarrow> 0 < d"
  by (cases t; simp add: less_eq_datetime_def less_datetime_def)+

lemma is_aware_plus_delta [simp]: "is_aware (plus_delta t d) = is_aware t"
  by (cases t) simp_all

lemma instant_plus_delta [simp]: "instant (plus_delta t d) = instant t + d"
  by (cases t) simp_all


section \<open>Calendar\<close>

definition day_us :: int where
  "day_us = 86400000000"

text \<open>The date and the time of day of a UTC timestamp.\<close>

definition date_of :: "datetime \<Rightarrow> int" where
  "date_of t = instant t div day_us"

definition time_of_day :: "datetime \<Rightarrow> int" where
  "time_of_day t = instant t mod day_us"

definition hour_of :: "datetime \<Rightarrow> int" where
  "hour_of t = time_of_day t div 3600000000"

lemma time_of_day_bounds: "0 \<le> time_of_day t" "time_of_day t < day_us"
  by (simp_all add: time_of_day_def day_us_def)

lemma hour_of_bounds: "0 \<le> hour_of t" "hour_of t \<le> 23"
  using time_of_day_bounds [of t] by (auto simp: hour_of_def day_us_def)

text \<open>\<open>datetime.combine(date, time, UTC)\<close>.\<close>

definition combine_utc :: "int \<Rightarrow> int \<Rightarrow> datetime" where
  "combine_utc date tod = Aware (date * day_us + tod)"

lemma combine_utc_date_of: "combine_utc (date_of t) 0 \<le> Aware (instant t)"
  using time_of_day_bounds [of t]
  by (simp add: combine_utc_def date_of_def time_of_day_def minus_mod_eq_div_mult [symmetric])

text \<open>
  Year, month and day of a day number, in the proleptic Gregorian calendar. Years are
  counted from March, in eras of 400 years or 146097 days.
\<close>

definition ymd_of_days :: "int \<Rightarrow> int \<times> int \<times> int" where
  "ymd_of_days z =
     (let n = z + 719468;
          era = n div 146097;
          doe = n mod 146097;
          yoe = (doe - doe div 1460 + doe div 36524 - doe div 146096) div 365;
          doy = doe - (365 * yoe + yoe div 4 - yoe div 100);
          mp = (5 * doy + 2) div 153;
          d = doy - (153 * mp + 2) div 5 + 1;
          m = (if mp < 10 then mp + 3 else mp - 9)
      in (yoe + era * 400 + (if m \<le> 2 then 1 else 0), m, d))"

definition day_of_month :: "datetime \<Rightarrow> int" where
  "day_of_month t = snd (snd (ymd_of_days (date_of t)))"

lemma ymd_of_days_examples:
  "ymd_of_days 0 = (1970, 1, 1)"
  "ymd_of_days 11016 = (2000, 2, 29)"
  "ymd_of_days 20690 = (2026, 8, 25)"
  "ymd_of_days (-1) = (1969, 12, 31)"
  by code_simp+


section \<open>ISO formatting\<close>

text \<open>Zero-padded decimal of a given width.\<close>

definition padded :: "nat \<Rightarrow> int \<Rightarrow> string" where
  "padded w n = (let s = show_int n in replicate (w - length s) CHR ''0'' @ s)"

definition iso_date :: "int \<Rightarrow> string" where
  "iso_date z = (case ymd_of_days z of (y, m, d) \<Rightarrow>
     padded 4 y @ ''-'' @ padded 2 m @ ''-'' @ padded 2 d)"

definition iso_clock :: "int \<Rightarrow> string" where
  "iso_clock tod =
     padded 2 (tod div 3600000000) @ '':'' @
     padded 2 (tod div 60000000 mod 60) @ '':'' @
     padded 2 (tod div 1000000 mod 60)"

text \<open>
  \<open>value.isoformat(timespec="seconds").replace("+00:00", "Z")\<close> of a UTC timestamp, the
  \<open>_format\<close> of the domain modules, and its form for an optional timestamp.
\<close>

definition format_seconds :: "datetime \<Rightarrow> string" where
  "format_seconds t = iso_date (date_of t) @ ''T'' @ iso_clock (time_of_day t) @ ''Z''"

text \<open>\<open>value.isoformat().replace("+00:00", "Z")\<close>: microseconds only when there are any.\<close>

definition format_full :: "datetime \<Rightarrow> string" where
  "format_full t =
     (let us = time_of_day t mod 1000000
      in iso_date (date_of t) @ ''T'' @ iso_clock (time_of_day t) @
         (if us = 0 then '''' else ''.'' @ padded 6 us) @ ''Z'')"

end
