(* ===== verification/Py_Json.thy ===== *)
theory Py_Json
  imports Py_Time "HOL-Library.Word"
begin

text \<open>
  Python values that the code serialises, and what it uses of \<open>json.dumps\<close> and of
  \<open>str.encode\<close>: sorted keys, the separators \<open>(",", ":")\<close>, the escaping of strings with
  \<open>ensure_ascii\<close> on and off, UTF-8. The main results say that a canonical document
  determines its content: the printed text of a value can be read back in one way only.
\<close>


section \<open>Values\<close>

datatype json =
    JNull
  | JBool bool
  | JInt int
  | JStr string
  | JArr "json list"
  | JObj "(string \<times> json) list"

text \<open>
  A Python value inside a payload mapping: a JSON value, or one of the values the audit
  ledger converts (a timestamp) or refuses (a binary float, written as the rational it is).
\<close>

datatype pyval =
    PNone
  | PBool bool
  | PInt int
  | PFloat rat
  | PStr string
  | PDatetime datetime
  | PList "pyval list"
  | PDict "(string \<times> pyval) list"

definition opt_str :: "string option \<Rightarrow> pyval" where
  "opt_str v = (case v of None \<Rightarrow> PNone | Some s \<Rightarrow> PStr s)"

definition opt_time :: "datetime option \<Rightarrow> pyval" where
  "opt_time v = (case v of None \<Rightarrow> PNone | Some t \<Rightarrow> PStr (format_seconds t))"


section \<open>String escapes\<close>

definition hex_digit :: "nat \<Rightarrow> char" where
  "hex_digit d = (if d < 10 then char_of (48 + d) else char_of (87 + d))"

definition hex_value :: "char \<Rightarrow> nat" where
  "hex_value c = (let n = of_char c in if n < 58 then n - 48 else n - 87)"

lemma hex_value_hex_digit [simp]: "d < 16 \<Longrightarrow> hex_value (hex_digit d) = d"
  by (auto simp: hex_digit_def hex_value_def Let_def)

text \<open>
  One character of a JSON string. The escapes of \<open>json.encoder\<close>: quote, backslash and the
  five control characters with a short form, then \<open>\u00XX\<close> for what remains to be escaped,
  which is everything outside the printable ASCII range when \<open>ensure_ascii\<close> holds and the
  other control characters otherwise.
\<close>

definition esc_char :: "bool \<Rightarrow> char \<Rightarrow> string" where
  "esc_char ensure_ascii c =
     (if c = CHR 0x22 then [CHR 0x5C, CHR 0x22]
      else if c = CHR 0x5C then [CHR 0x5C, CHR 0x5C]
      else if c = CHR 0x0A then [CHR 0x5C, CHR ''n'']
      else if c = CHR 0x0D then [CHR 0x5C, CHR ''r'']
      else if c = CHR 0x09 then [CHR 0x5C, CHR ''t'']
      else if c = CHR 0x0C then [CHR 0x5C, CHR ''f'']
      else if c = CHR 0x08 then [CHR 0x5C, CHR ''b'']
      else let n = (of_char c :: nat) in
        if n < 32 \<or> (ensure_ascii \<and> 126 < n)
        then [CHR 0x5C, CHR ''u'', CHR ''0'', CHR ''0'',
              hex_digit (n div 16), hex_digit (n mod 16)]
        else [c])"

text \<open>Reading one escaped character back, as \<open>json.loads\<close> would.\<close>

fun unesc_char :: "string \<Rightarrow> (char \<times> string) option" where
  "unesc_char [] = None"
| "unesc_char (c # s) =
     (if c \<noteq> CHR 0x5C then Some (c, s)
      else case s of
        [] \<Rightarrow> None
      | d # t \<Rightarrow>
          (if d = CHR ''n'' then Some (CHR 0x0A, t)
           else if d = CHR ''r'' then Some (CHR 0x0D, t)
           else if d = CHR ''t'' then Some (CHR 0x09, t)
           else if d = CHR ''f'' then Some (CHR 0x0C, t)
           else if d = CHR ''b'' then Some (CHR 0x08, t)
           else if d = CHR ''u'' then
             (case t of
                _ # _ # h # l # u \<Rightarrow> Some (char_of (16 * hex_value h + hex_value l), u)
              | _ \<Rightarrow> None)
           else Some (d, t)))"

lemma hex_value_high [simp]: "hex_value (hex_digit (of_char c div 16)) = of_char c div 16"
proof -
  have "of_char c div 16 < (16::nat)"
    using nat_of_char_less_256 [of c] by linarith
  then show ?thesis by simp
qed

lemma unesc_esc_char [simp]: "unesc_char (esc_char a c @ s) = Some (c, s)"
  by (auto simp: esc_char_def Let_def)

lemma esc_char_no_quote: "esc_char a c @ s \<noteq> CHR 0x22 # t"
  by (auto simp: esc_char_def Let_def)

lemma esc_char_prefix_unique:
  assumes "esc_char a c @ s = esc_char a d @ t"
  shows "c = d \<and> s = t"
proof -
  from assms have "unesc_char (esc_char a c @ s) = unesc_char (esc_char a d @ t)" by simp
  then show ?thesis by simp
qed

definition json_str :: "bool \<Rightarrow> string \<Rightarrow> string" where
  "json_str ensure_ascii s = CHR 0x22 # concat (map (esc_char ensure_ascii) s) @ [CHR 0x22]"

lemma escaped_prefix_unique:
  assumes "concat (map (esc_char a) s) @ CHR 0x22 # r = concat (map (esc_char a) s') @ CHR 0x22 # r'"
  shows "s = s' \<and> r = r'"
  using assms
proof (induction s arbitrary: s')
  case Nil
  then show ?case
    by (cases s') (use esc_char_no_quote in \<open>auto dest: sym\<close>)
next
  case (Cons c s)
  show ?case
  proof (cases s')
    case Nil
    with Cons.prems show ?thesis using esc_char_no_quote by auto
  next
    case (Cons d t)
    with Cons.prems have
      "c = d \<and> concat (map (esc_char a) s) @ CHR 0x22 # r = concat (map (esc_char a) t) @ CHR 0x22 # r'"
      by (intro esc_char_prefix_unique [of a]) simp
    with Cons.IH Cons show ?thesis by simp
  qed
qed

lemma json_str_prefix_unique: "json_str a s @ r = json_str a s' @ r' \<Longrightarrow> s = s' \<and> r = r'"
  using escaped_prefix_unique [of a s r s' r'] by (simp add: json_str_def)


section \<open>Documents\<close>

text \<open>
  \<open>json.dumps(value, separators=(",", ":"))\<close>, the keys of objects in the order given; a list
  prints its elements separated by commas and an object its \<open>key:value\<close> pairs.
\<close>

fun comma_sep :: "string list \<Rightarrow> string" where
  "comma_sep [] = []"
| "comma_sep (x # xs) = x @ concat (map (\<lambda>y. CHR '','' # y) xs)"

fun json_enc :: "bool \<Rightarrow> json \<Rightarrow> string" where
  "json_enc a JNull = ''null''"
| "json_enc a (JBool b) = (if b then ''true'' else ''false'')"
| "json_enc a (JInt i) = show_int i"
| "json_enc a (JStr s) = json_str a s"
| "json_enc a (JArr xs) = CHR ''['' # comma_sep (map (json_enc a) xs) @ '']''"
| "json_enc a (JObj kvs) =
     CHR ''{'' # comma_sep (map (\<lambda>kv. json_str a (fst kv) @ CHR '':'' # json_enc a (snd kv)) kvs)
       @ ''}''"

text \<open>\<open>sort_keys=True\<close>: the pairs of every object in the order of their keys.\<close>

fun sort_keys :: "json \<Rightarrow> json" where
  "sort_keys (JArr xs) = JArr (map sort_keys xs)"
| "sort_keys (JObj kvs) = JObj (sort_key fst (map (\<lambda>kv. (fst kv, sort_keys (snd kv))) kvs))"
| "sort_keys j = j"

definition json_dumps :: "bool \<Rightarrow> json \<Rightarrow> string" where
  "json_dumps ensure_ascii j = json_enc ensure_ascii (sort_keys j)"

text \<open>
  Unique reading: what follows a value in the text starts with a comma, a closing bracket or
  nothing, never with a digit.
\<close>

lemma commas_prefix_unique:
  assumes "\<And>x y r r'. x \<in> set xs \<Longrightarrow> no_digit_first r \<Longrightarrow> no_digit_first r' \<Longrightarrow>
      e x @ r = e y @ r' \<Longrightarrow> x = y \<and> r = r'"
    and "concat (map (\<lambda>y. CHR '','' # e y) xs) @ c # r
       = concat (map (\<lambda>y. CHR '','' # e y) ys) @ c # r'"
    and "c \<noteq> CHR '',''" "\<not> is_digit c"
  shows "xs = ys \<and> r = r'"
  using assms(1,2)
proof (induction xs arbitrary: ys)
  case Nil
  then show ?case using assms(3) by (cases ys) auto
next
  case (Cons x xs)
  let ?rest = "\<lambda>zs q. concat (map (\<lambda>y. CHR '','' # e y) zs) @ c # q"
  have nd: "no_digit_first (?rest zs q)" for zs q
    using assms(4) by (cases zs) (auto simp: is_digit_def)
  obtain y ys' where ys: "ys = y # ys'"
    using Cons.prems(2) assms(3) by (cases ys) auto
  with Cons.prems(2) have "e x @ ?rest xs r = e y @ ?rest ys' r'" by simp
  then have "x = y \<and> ?rest xs r = ?rest ys' r'"
    by (intro Cons.prems(1) nd) simp_all
  moreover have "xs = ys' \<and> r = r'"
    by (rule Cons.IH) (use Cons.prems(1) calculation in auto)
  ultimately show ?case using ys by simp
qed

lemma comma_sep_prefix_unique:
  assumes "\<And>x y r r'. x \<in> set xs \<Longrightarrow> no_digit_first r \<Longrightarrow> no_digit_first r' \<Longrightarrow>
      e x @ r = e y @ r' \<Longrightarrow> x = y \<and> r = r'"
    and eq: "comma_sep (map e xs) @ c # r = comma_sep (map e ys) @ c # r'"
    and c: "c \<noteq> CHR '',''" "\<not> is_digit c" and start: "\<And>x t u. e x @ t \<noteq> c # u"
  shows "xs = ys \<and> r = r'"
proof (cases xs)
  case Nil
  with eq start show ?thesis by (cases ys) (auto dest: sym)
next
  case (Cons x xs')
  with eq start obtain y ys' where ys: "ys = y # ys'" by (cases ys) auto
  let ?rest = "\<lambda>zs q. concat (map (\<lambda>y. CHR '','' # e y) zs) @ c # q"
  have nd: "no_digit_first (?rest zs q)" for zs q
    using c(2) by (cases zs) (auto simp: is_digit_def)
  from eq Cons ys have "e x @ ?rest xs' r = e y @ ?rest ys' r'" by (simp add: comp_def)
  then have *: "x = y \<and> ?rest xs' r = ?rest ys' r'"
    by (intro assms(1) nd) (simp_all add: Cons)
  then show ?thesis
    using commas_prefix_unique [of xs' e c r ys' r'] assms(1) Cons ys c by auto
qed

text \<open>The first character of a value tells its constructor.\<close>

fun json_kind :: "json \<Rightarrow> nat" where
  "json_kind JNull = 0"
| "json_kind (JBool b) = (if b then 1 else 2)"
| "json_kind (JInt i) = 3"
| "json_kind (JStr s) = 4"
| "json_kind (JArr xs) = 5"
| "json_kind (JObj kvs) = 6"

definition kind_of_char :: "char \<Rightarrow> nat" where
  "kind_of_char c =
     (if c = CHR ''n'' then 0 else if c = CHR ''t'' then 1 else if c = CHR ''f'' then 2
      else if is_digit c \<or> c = CHR ''-'' then 3 else if c = CHR 0x22 then 4
      else if c = CHR ''['' then 5 else if c = CHR ''{'' then 6 else 7)"

lemma show_int_first: "\<exists>c t. show_int i = c # t \<and> kind_of_char c = 3"
proof -
  have ct: "\<exists>c t. show_nat n = c # t \<and> is_digit c" for n
    using show_nat_digits [of _ n] show_nat_nonempty [of n] by (cases "show_nat n") auto
  have digit: "kind_of_char c = 3" if "is_digit c" for c
    using that by (auto simp: kind_of_char_def is_digit_def)
  show ?thesis
  proof (cases "i < 0")
    case True
    then show ?thesis by (simp add: show_int_def kind_of_char_def)
  next
    case False
    with ct [of "nat i"] digit show ?thesis by (auto simp: show_int_def)
  qed
qed

lemma json_enc_first: "\<exists>c t. json_enc a j = c # t \<and> kind_of_char c = json_kind j"
  using show_int_first
  by (cases j) (auto simp: json_str_def kind_of_char_def is_digit_def)

lemma json_enc_same_kind:
  assumes "json_enc a j @ r = json_enc a k @ r'" shows "json_kind j = json_kind k"
  using assms json_enc_first [of a j] json_enc_first [of a k] by auto

lemma json_enc_not_closing: "json_enc a j @ r \<noteq> CHR '']'' # u"
  using json_enc_first [of a j] by (cases j) (auto simp: kind_of_char_def is_digit_def)

theorem json_enc_prefix_unique:
  "no_digit_first r \<Longrightarrow> no_digit_first r' \<Longrightarrow> json_enc a j @ r = json_enc a k @ r' \<Longrightarrow>
   j = k \<and> r = r'"
proof (induction a j arbitrary: k r r' rule: json_enc.induct)
  case (1 a)
  then show ?case using json_enc_same_kind [OF "1.prems"(3)] by (cases k) (auto split: if_splits)
next
  case (2 a b)
  then show ?case using json_enc_same_kind [OF "2.prems"(3)] by (cases k) (auto split: if_splits)
next
  case (3 a i)
  then show ?case using json_enc_same_kind [OF "3.prems"(3)]
    by (cases k) (auto split: if_splits dest: show_int_prefix_unique)
next
  case (4 a s)
  then show ?case using json_enc_same_kind [OF "4.prems"(3)]
    by (cases k) (auto split: if_splits dest: json_str_prefix_unique)
next
  case (5 a xs)
  then obtain ys where k: "k = JArr ys"
    using json_enc_same_kind [OF "5.prems"(3)] by (cases k) (auto split: if_splits)
  have "xs = ys \<and> r = r'"
  proof (rule comma_sep_prefix_unique [where e = "json_enc a" and c = "CHR '']''"])
    show "comma_sep (map (json_enc a) xs) @ CHR '']'' # r = comma_sep (map (json_enc a) ys) @ CHR '']'' # r'"
      using "5.prems"(3) k by simp
  qed (use "5.IH" in \<open>auto simp: is_digit_def json_enc_not_closing\<close>)
  with k show ?case by simp
next
  case (6 a kvs)
  let ?e = "\<lambda>kv. json_str a (fst kv) @ CHR '':'' # json_enc a (snd kv)"
  from 6 obtain lvs where k: "k = JObj lvs"
    using json_enc_same_kind [OF "6.prems"(3)] by (cases k) (auto split: if_splits)
  have "kvs = lvs \<and> r = r'"
  proof (rule comma_sep_prefix_unique [where e = ?e and c = "CHR ''}''"])
    fix x y q q'
    assume "x \<in> set kvs" "no_digit_first q" "no_digit_first q'" "?e x @ q = ?e y @ q'"
    then show "x = y \<and> q = q'"
      using json_str_prefix_unique [of a "fst x" "CHR '':'' # json_enc a (snd x) @ q" "fst y"
          "CHR '':'' # json_enc a (snd y) @ q'"] "6.IH" [of x q q' "snd y"]
      by (auto simp: prod_eq_iff)
  next
    show "comma_sep (map ?e kvs) @ CHR ''}'' # r = comma_sep (map ?e lvs) @ CHR ''}'' # r'"
      using "6.prems"(3) k by simp
  qed (auto simp: is_digit_def json_str_def)
  with k show ?case by simp
qed

text \<open>A printed document determines the document, up to the order of its keys.\<close>

theorem json_dumps_inject: "json_dumps a j = json_dumps a k \<longleftrightarrow> sort_keys j = sort_keys k"
  using json_enc_prefix_unique [of "[]" "[]" a "sort_keys j" "sort_keys k"]
  by (auto simp: json_dumps_def)


section \<open>UTF-8\<close>

type_synonym byte = "8 word"

definition byte_of_nat :: "nat \<Rightarrow> byte" where
  "byte_of_nat n = word_of_nat n"

lemma byte_of_nat_inject: "i < 256 \<Longrightarrow> j < 256 \<Longrightarrow> byte_of_nat i = byte_of_nat j \<longleftrightarrow> i = j"
  by (simp add: byte_of_nat_def word_of_nat_eq_iff take_bit_nat_eq_self)

definition utf8_char :: "char \<Rightarrow> byte list" where
  "utf8_char c =
     (let n = (of_char c :: nat) in
      if n < 128 then [byte_of_nat n] else [byte_of_nat (192 + n div 64), byte_of_nat (128 + n mod 64)])"

text \<open>\<open>s.encode()\<close>.\<close>

definition utf8 :: "string \<Rightarrow> byte list" where
  "utf8 s = concat (map utf8_char s)"

lemma utf8_char_prefix_unique:
  assumes "utf8_char c @ s = utf8_char d @ t"
  shows "c = d \<and> s = t"
proof -
  define n m where "n = (of_char c :: nat)" and "m = (of_char d :: nat)"
  have bounds: "n < 256" "m < 256" by (simp_all add: n_def m_def)
  have split: "n = m" if "n div 64 = m div 64" "n mod 64 = m mod 64"
    using that by (metis div_mult_mod_eq)
  have high: "128 + x mod 64 < 256" "x < 256 \<Longrightarrow> 192 + x div 64 < 256" for x :: nat
    using mod_less_divisor [of 64 x] by auto
  have "n = m \<and> s = t"
    using assms bounds split
    by (auto simp: utf8_char_def Let_def byte_of_nat_inject high n_def [symmetric]
        m_def [symmetric] split: if_splits)
  then show ?thesis by (metis char_of_char n_def m_def)
qed

theorem utf8_inject [simp]: "utf8 s = utf8 t \<longleftrightarrow> s = t"
proof -
  have nonempty: "utf8_char c \<noteq> []" for c by (simp add: utf8_char_def Let_def)
  have "utf8 s = utf8 t \<Longrightarrow> s = t"
  proof (induction s arbitrary: t)
    case Nil
    then show ?case using nonempty by (cases t) (auto simp: utf8_def)
  next
    case (Cons c s)
    then obtain d t' where "t = d # t'" using nonempty by (cases t) (auto simp: utf8_def)
    with Cons show ?case
      using utf8_char_prefix_unique [of c "utf8 s" d "utf8 t'"] by (auto simp: utf8_def)
  qed
  then show ?thesis by auto
qed

end
