(* ===== verification/Sha256.thy ===== *)
theory Sha256
  imports Py_Json
begin

unbundle bit_operations_syntax

text \<open>
  What the code uses of \<open>hashlib\<close> and \<open>hmac\<close>: SHA-256 of a byte string (FIPS 180-4), its
  lowercase hexadecimal digest, and HMAC-SHA256 (RFC 2104).  No collision freedom is assumed anywhere: a theorem that
  depends on it names the two documents whose digests would have to coincide.
\<close>


section \<open>Compression\<close>

type_synonym w32 = "32 word"

definition rotr :: "nat \<Rightarrow> w32 \<Rightarrow> w32" where
  "rotr n x = drop_bit n x OR push_bit (32 - n) x"

definition round_constants :: "w32 list" where
  "round_constants =
    [1116352408, 1899447441, 3049323471, 3921009573, 961987163, 1508970993,
     2453635748, 2870763221, 3624381080, 310598401, 607225278, 1426881987,
     1925078388, 2162078206, 2614888103, 3248222580, 3835390401, 4022224774,
     264347078, 604807628, 770255983, 1249150122, 1555081692, 1996064986,
     2554220882, 2821834349, 2952996808, 3210313671, 3336571891, 3584528711,
     113926993, 338241895, 666307205, 773529912, 1294757372, 1396182291,
     1695183700, 1986661051, 2177026350, 2456956037, 2730485921, 2820302411,
     3259730800, 3345764771, 3516065817, 3600352804, 4094571909, 275423344,
     430227734, 506948616, 659060556, 883997877, 958139571, 1322822218,
     1537002063, 1747873779, 1955562222, 2024104815, 2227730452, 2361852424,
     2428436474, 2756734187, 3204031479, 3329325298]"

datatype chain = Chain w32 w32 w32 w32 w32 w32 w32 w32

definition initial_chain :: chain where
  "initial_chain = Chain
     1779033703 3144134277 1013904242 2773480762
     1359893119 2600822924 528734635 1541459225"

definition be_word :: "byte list \<Rightarrow> w32" where
  "be_word bs = foldl (\<lambda>acc b. push_bit 8 acc OR ucast b) 0 bs"

fun chunks :: "nat \<Rightarrow> 'a list \<Rightarrow> 'a list list" where
  "chunks n xs = (if xs = [] \<or> n = 0 then [] else take n xs # chunks n (drop n xs))"

declare chunks.simps [simp del]

text \<open>The message schedule, latest word first; \<open>k\<close> words are still to come.\<close>

fun schedule :: "nat \<Rightarrow> w32 list \<Rightarrow> w32 list" where
  "schedule 0 ws = rev ws"
| "schedule (Suc k) ws =
     (let w2 = ws ! 1; w15 = ws ! 14;
          s0 = rotr 7 w15 XOR rotr 18 w15 XOR drop_bit 3 w15;
          s1 = rotr 17 w2 XOR rotr 19 w2 XOR drop_bit 10 w2
      in schedule k ((s1 + ws ! 6 + s0 + ws ! 15) # ws))"

fun sha_round :: "chain \<Rightarrow> w32 \<times> w32 \<Rightarrow> chain" where
  "sha_round (Chain a b c d e f g h) (k, w) =
     (let t1 = h + (rotr 6 e XOR rotr 11 e XOR rotr 25 e) + ((e AND f) XOR (NOT e AND g)) + k + w;
          t2 = (rotr 2 a XOR rotr 13 a XOR rotr 22 a) + ((a AND b) XOR (a AND c) XOR (b AND c))
      in Chain (t1 + t2) a b c (d + t1) e f g)"

fun add_chain :: "chain \<Rightarrow> chain \<Rightarrow> chain" where
  "add_chain (Chain a b c d e f g h) (Chain a' b' c' d' e' f' g' h') =
     Chain (a + a') (b + b') (c + c') (d + d') (e + e') (f + f') (g + g') (h + h')"

definition compress :: "chain \<Rightarrow> byte list \<Rightarrow> chain" where
  "compress hv block =
     (let ws = schedule 48 (rev (map be_word (chunks 4 block)))
      in add_chain hv (foldl sha_round hv (zip round_constants ws)))"


section \<open>Digests\<close>

definition be_bytes :: "64 word \<Rightarrow> byte list" where
  "be_bytes w = map (\<lambda>i. ucast (drop_bit (8 * i) w)) [7, 6, 5, 4, 3, 2, 1, 0]"

definition sha_pad :: "byte list \<Rightarrow> byte list" where
  "sha_pad bs =
     (let n = length bs in
      bs @ [128] @ replicate ((119 - n mod 64) mod 64) 0 @ be_bytes (word_of_nat (8 * n)))"

fun word_bytes :: "w32 \<Rightarrow> byte list" where
  "word_bytes w = [ucast (drop_bit 24 w), ucast (drop_bit 16 w), ucast (drop_bit 8 w), ucast w]"

fun chain_bytes :: "chain \<Rightarrow> byte list" where
  "chain_bytes (Chain a b c d e f g h) = concat (map word_bytes [a, b, c, d, e, f, g, h])"

definition sha256 :: "byte list \<Rightarrow> byte list" where
  "sha256 bs = chain_bytes (foldl compress initial_chain (chunks 64 (sha_pad bs)))"

definition hex_of_byte :: "byte \<Rightarrow> string" where
  "hex_of_byte b = [hex_digit (unat b div 16), hex_digit (unat b mod 16)]"

definition hexdigest :: "byte list \<Rightarrow> string" where
  "hexdigest bs = concat (map hex_of_byte bs)"

text \<open>\<open>sha256(text.encode()).hexdigest()\<close>.\<close>

definition sha256_hex :: "string \<Rightarrow> string" where
  "sha256_hex s = hexdigest (sha256 (utf8 s))"

text \<open>\<open>hmac.new(key, message, hashlib.sha256).digest()\<close>.\<close>

definition hmac_sha256 :: "byte list \<Rightarrow> byte list \<Rightarrow> byte list" where
  "hmac_sha256 key msg =
     (let k0 = (if length key > 64 then sha256 key else key);
          k = k0 @ replicate (64 - length k0) 0
      in sha256 (map (\<lambda>b. b XOR 92) k @ sha256 (map (\<lambda>b. b XOR 54) k @ msg)))"

lemma length_sha256 [simp]: "length (sha256 bs) = 32"
  by (cases "foldl compress initial_chain (chunks 64 (sha_pad bs))") (simp add: sha256_def)

lemma length_hexdigest [simp]: "length (hexdigest bs) = 2 * length bs"
  by (induction bs) (simp_all add: hexdigest_def hex_of_byte_def)

lemma length_sha256_hex [simp]: "length (sha256_hex s) = 64"
  by (simp add: sha256_hex_def)

lemma sha256_hex_nonempty [simp]: "sha256_hex s \<noteq> []"
  using length_sha256_hex [of s] by (metis list.size(3) zero_neq_numeral)

lemma unat_byte: "unat (b :: byte) < 256"
  using unsigned_less [of b] by simp

text \<open>Every character of a digest is a lowercase hexadecimal digit.\<close>

definition is_lower_hex :: "char \<Rightarrow> bool" where
  "is_lower_hex c \<longleftrightarrow> is_digit c \<or> (97 \<le> (of_char c :: nat) \<and> (of_char c :: nat) \<le> 102)"

lemma is_lower_hex_hex_digit [simp]: "d < 16 \<Longrightarrow> is_lower_hex (hex_digit d)"
  by (auto simp: is_lower_hex_def is_digit_def hex_digit_def)

lemma hexdigest_lower_hex: "c \<in> set (hexdigest bs) \<Longrightarrow> is_lower_hex c"
proof (induction bs)
  case (Cons b bs)
  have "unat b div 16 < 16" using unat_byte [of b] by simp
  with Cons show ?case by (auto simp: hexdigest_def hex_of_byte_def)
qed (simp add: hexdigest_def)

text \<open>The hexadecimal form determines the bytes.\<close>

lemma hexdigest_inject [simp]: "hexdigest a = hexdigest b \<longleftrightarrow> a = b"
proof -
  have byte: "hex_of_byte x = hex_of_byte y \<Longrightarrow> x = y" for x y
  proof -
    assume "hex_of_byte x = hex_of_byte y"
    then have "hex_value (hex_digit (unat x div 16)) = hex_value (hex_digit (unat y div 16))"
      and "hex_value (hex_digit (unat x mod 16)) = hex_value (hex_digit (unat y mod 16))"
      by (simp_all add: hex_of_byte_def)
    moreover have "unat x div 16 < 16" "unat y div 16 < 16"
      using unat_byte [of x] unat_byte [of y] by simp_all
    ultimately have "unat x = unat y" by (metis div_mult_mod_eq hex_value_hex_digit mod_less_divisor zero_less_numeral)
    then show "x = y" by (simp add: word_unat_eq_iff)
  qed
  have "hexdigest a = hexdigest b \<Longrightarrow> a = b"
  proof (induction a arbitrary: b)
    case Nil
    then show ?case by (cases b) (auto simp: hexdigest_def hex_of_byte_def)
  next
    case (Cons x a)
    then obtain y b' where "b = y # b'" by (cases b) (auto simp: hexdigest_def hex_of_byte_def)
    with Cons byte [of x y] show ?case by (auto simp: hexdigest_def hex_of_byte_def)
  qed
  then show ?thesis by auto
qed

end
