(* ===== verification/State_Tables.thy ===== *)
theory State_Tables
  imports Prelude
begin

text \<open>
  The interface of a transition table: a status type with the successors the code allows
  for each status and its terminal statuses. Recovery cases, human reviews, promises and
  action outcomes each provide one; what follows from the laws is proved here once.
\<close>

locale state_table =
  fixes allowed :: "'s \<Rightarrow> 's set"
    and terminal :: "'s \<Rightarrow> bool"
  assumes terminal_iff: "terminal s \<longleftrightarrow> allowed s = {}"
begin

text \<open>\<open>allowed_path s ts\<close>: the statuses \<open>ts\<close> can be entered one after the other from \<open>s\<close>.\<close>

fun allowed_path :: "'s \<Rightarrow> 's list \<Rightarrow> bool" where
  "allowed_path s [] \<longleftrightarrow> True"
| "allowed_path s (t # ts) \<longleftrightarrow> t \<in> allowed s \<and> allowed_path t ts"

lemma terminal_no_successor: "terminal s \<Longrightarrow> t \<notin> allowed s"
  by (simp add: terminal_iff)

lemma terminal_path: "terminal s \<Longrightarrow> allowed_path s ts \<longleftrightarrow> ts = []"
  by (cases ts) (auto simp: terminal_iff)

lemma allowed_path_append:
  "allowed_path s (ts @ us) \<longleftrightarrow> allowed_path s ts \<and> allowed_path (last (s # ts)) us"
  by (induction ts arbitrary: s) auto

lemma terminal_last: "allowed_path s (ts @ t # us) \<Longrightarrow> terminal t \<Longrightarrow> us = []"
  by (simp add: allowed_path_append terminal_path)

text \<open>A terminal status is entered at most once on a path.\<close>

lemma terminal_once: "allowed_path s ts \<Longrightarrow> terminal t \<Longrightarrow> count_list ts t \<le> 1"
proof (induction ts arbitrary: s)
  case (Cons u ts)
  then show ?case
    by (cases "u = t") (auto simp: terminal_path)
qed simp

end

text \<open>A table with a rank that every step raises has no cycle, so paths are bounded.\<close>

locale ranked_table = state_table allowed terminal
  for allowed :: "'s \<Rightarrow> 's set" and terminal :: "'s \<Rightarrow> bool" +
  fixes rank :: "'s \<Rightarrow> nat" and bound :: nat
  assumes rank_step: "t \<in> allowed s \<Longrightarrow> rank s < rank t"
    and rank_bound: "rank s \<le> bound"
begin

lemma path_length: "allowed_path s ts \<Longrightarrow> rank s + length ts \<le> bound"
proof (induction ts arbitrary: s)
  case Nil
  show ?case by (simp add: rank_bound)
next
  case (Cons t ts)
  then show ?case using rank_step [of t s] by fastforce
qed

end

end
