(* ===== verification/Events.thy ===== *)
theory Events
  imports Sha256 State_Tables
begin

text \<open>
  \<open>revenueguard_domain/events.py\<close>: the canonical revenue-risk event that the provider
  adapters hand to the domain, its validation and its contract document.
\<close>

abbreviation SCHEMA_VERSION :: string where
  "SCHEMA_VERSION \<equiv> ''1.0''"

datatype EventSource = RAZORPAY | MERCHANT | SYNTHETIC

primrec event_source_value :: "EventSource \<Rightarrow> string" where
  "event_source_value RAZORPAY = ''RAZORPAY''"
| "event_source_value MERCHANT = ''MERCHANT''"
| "event_source_value SYNTHETIC = ''SYNTHETIC''"

datatype NormalizedFailureCategory =
    NONE | INSUFFICIENT_FUNDS | EXPIRED_PAYMENT_METHOD | AUTHENTICATION_FAILURE
  | ISSUER_UNAVAILABLE | GATEWAY_UNAVAILABLE | CUSTOMER_ACTION_REQUIRED | DISPUTE | UNKNOWN

primrec failure_category_value :: "NormalizedFailureCategory \<Rightarrow> string" where
  "failure_category_value NONE = ''NONE''"
| "failure_category_value INSUFFICIENT_FUNDS = ''INSUFFICIENT_FUNDS''"
| "failure_category_value EXPIRED_PAYMENT_METHOD = ''EXPIRED_PAYMENT_METHOD''"
| "failure_category_value AUTHENTICATION_FAILURE = ''AUTHENTICATION_FAILURE''"
| "failure_category_value ISSUER_UNAVAILABLE = ''ISSUER_UNAVAILABLE''"
| "failure_category_value GATEWAY_UNAVAILABLE = ''GATEWAY_UNAVAILABLE''"
| "failure_category_value CUSTOMER_ACTION_REQUIRED = ''CUSTOMER_ACTION_REQUIRED''"
| "failure_category_value DISPUTE = ''DISPUTE''"
| "failure_category_value UNKNOWN = ''UNKNOWN''"

record RevenueRiskEvent =
  ev_event_id :: string
  ev_merchant_id :: string
  ev_source :: EventSource
  ev_source_event_id :: string
  ev_event_type :: string
  ev_occurred_at :: datetime
  ev_received_at :: datetime
  ev_amount_minor :: int
  ev_currency :: string
  ev_failure_category :: NormalizedFailureCategory
  ev_correlation_id :: string
  ev_source_payload_reference :: string
  ev_customer_id :: "string option"
  ev_payment_id :: "string option"
  ev_order_id :: "string option"
  ev_subscription_id :: "string option"
  ev_invoice_id :: "string option"
  ev_payment_link_id :: "string option"
  ev_failure_code :: "string option"
  ev_causation_id :: "string option"
  ev_schema_version :: string

text \<open>\<open>re.compile(r"^[A-Z]{3}$").fullmatch(currency)\<close>.\<close>

definition is_ascii_upper :: "char \<Rightarrow> bool" where
  "is_ascii_upper c \<longleftrightarrow> 65 \<le> (of_char c :: nat) \<and> (of_char c :: nat) \<le> 90"

definition currency_pattern :: "string \<Rightarrow> bool" where
  "currency_pattern s \<longleftrightarrow> length s = 3 \<and> (\<forall>c\<in>set s. is_ascii_upper c)"

definition identifier_check :: "string \<Rightarrow> string \<Rightarrow> nat \<Rightarrow> bool \<times> exn" where
  "identifier_check name v maximum =
     (blank_or_longer maximum v,
      ValueError (name @ '' must contain between 1 and '' @ show_nat maximum @ '' characters''))"

definition optional_identifier_check :: "string \<Rightarrow> string option \<Rightarrow> nat \<Rightarrow> bool \<times> exn" where
  "optional_identifier_check name v maximum =
     (case v of
        None \<Rightarrow> (False, ValueError '''')
      | Some s \<Rightarrow> identifier_check name s maximum)"

lemma fst_identifier_check [simp]: "fst (identifier_check n v k) = blank_or_longer k v"
  by (simp add: identifier_check_def)

lemma fst_optional_identifier_check [simp]:
  "fst (optional_identifier_check n v k) \<longleftrightarrow> (\<exists>s. v = Some s \<and> blank_or_longer k s)"
  by (cases v) (auto simp: optional_identifier_check_def)

text \<open>\<open>repr\<close> of a string without quotes or characters that need an escape.\<close>

definition quoted :: "string \<Rightarrow> string" where
  "quoted s = CHR 0x27 # s @ [CHR 0x27]"

definition post_init_event :: "RevenueRiskEvent \<Rightarrow> RevenueRiskEvent result" where
  "post_init_event e =
     bindR (raise_first
       [(ev_schema_version e \<noteq> SCHEMA_VERSION,
           ValueError (''unsupported RevenueRiskEvent schema: '' @ quoted (ev_schema_version e))),
        identifier_check ''event_id'' (ev_event_id e) 128,
        identifier_check ''merchant_id'' (ev_merchant_id e) 128,
        identifier_check ''source_event_id'' (ev_source_event_id e) 256,
        identifier_check ''event_type'' (ev_event_type e) 128,
        identifier_check ''correlation_id'' (ev_correlation_id e) 128,
        identifier_check ''source_payload_reference'' (ev_source_payload_reference e) 512,
        optional_identifier_check ''customer_id'' (ev_customer_id e) 128,
        optional_identifier_check ''payment_id'' (ev_payment_id e) 128,
        optional_identifier_check ''order_id'' (ev_order_id e) 128,
        optional_identifier_check ''subscription_id'' (ev_subscription_id e) 128,
        optional_identifier_check ''invoice_id'' (ev_invoice_id e) 128,
        optional_identifier_check ''payment_link_id'' (ev_payment_link_id e) 128,
        optional_identifier_check ''failure_code'' (ev_failure_code e) 128,
        optional_identifier_check ''causation_id'' (ev_causation_id e) 128,
        (\<not> (truthy (ev_customer_id e) \<or> truthy (ev_payment_id e) \<or> truthy (ev_subscription_id e)
            \<or> truthy (ev_invoice_id e) \<or> truthy (ev_payment_link_id e)),
           ValueError ''a RevenueRiskEvent requires at least one subject reference''),
        (ev_amount_minor e < 0, ValueError ''amount_minor cannot be negative''),
        (\<not> currency_pattern (ev_currency e),
           ValueError ''currency must be a three-letter uppercase ISO code'')])
     (\<lambda>_. bindR (utc ''occurred_at'' (ev_occurred_at e)) (\<lambda>occurred.
     bindR (utc ''received_at'' (ev_received_at e)) (\<lambda>received.
     Inr (e\<lparr>ev_occurred_at := occurred, ev_received_at := received\<rparr>))))"

definition event_to_dict :: "RevenueRiskEvent \<Rightarrow> (string \<times> pyval) list" where
  "event_to_dict e =
     [(''schema_version'', PStr (ev_schema_version e)),
      (''event_id'', PStr (ev_event_id e)),
      (''merchant_id'', PStr (ev_merchant_id e)),
      (''source'', PStr (event_source_value (ev_source e))),
      (''source_event_id'', PStr (ev_source_event_id e)),
      (''event_type'', PStr (ev_event_type e)),
      (''occurred_at'', PStr (format_seconds (ev_occurred_at e))),
      (''received_at'', PStr (format_seconds (ev_received_at e))),
      (''customer_id'', opt_str (ev_customer_id e)),
      (''payment_id'', opt_str (ev_payment_id e)),
      (''order_id'', opt_str (ev_order_id e)),
      (''subscription_id'', opt_str (ev_subscription_id e)),
      (''invoice_id'', opt_str (ev_invoice_id e)),
      (''payment_link_id'', opt_str (ev_payment_link_id e)),
      (''amount_minor'', PInt (ev_amount_minor e)),
      (''currency'', PStr (ev_currency e)),
      (''failure_code'', opt_str (ev_failure_code e)),
      (''normalized_failure_category'', PStr (failure_category_value (ev_failure_category e))),
      (''correlation_id'', PStr (ev_correlation_id e)),
      (''causation_id'', opt_str (ev_causation_id e)),
      (''source_payload_reference'', PStr (ev_source_payload_reference e))]"

text \<open>
  Validation accepts an event unchanged or raises; what an accepted event satisfies is what
  the later components rely on.
\<close>

definition wf_event :: "RevenueRiskEvent \<Rightarrow> bool" where
  "wf_event e \<longleftrightarrow> post_init_event e = Inr e"

lemma post_init_event_Inr: "post_init_event e = Inr e' \<Longrightarrow> e' = e \<and> wf_event e"
  by (auto simp: post_init_event_def wf_event_def bindR_eq_Inr utc_eq_Inr)

lemma wf_eventD:
  assumes "wf_event e"
  shows "ev_event_id e \<noteq> []" "ev_merchant_id e \<noteq> []" "0 \<le> ev_amount_minor e"
    "currency_pattern (ev_currency e)" "is_aware (ev_occurred_at e)"
    "is_aware (ev_received_at e)" "ev_correlation_id e \<noteq> []"
    "ev_customer_id e \<noteq> Some []" "ev_payment_id e \<noteq> Some []"
    "ev_subscription_id e \<noteq> Some []" "ev_invoice_id e \<noteq> Some []"
  using assms
  by (auto simp: wf_event_def post_init_event_def bindR_eq_Inr utc_eq_Inr raise_first_ok_iff
      blank_or_longer_def)

end
