(* ===== verification/Cases.thy ===== *)
theory Cases
  imports Events
begin

text \<open>
  \<open>revenueguard_domain/cases.py\<close>: the recovery case, its frozen state machine and the one
  function that moves a case, \<open>transition_case\<close>.
\<close>


section \<open>Data\<close>

datatype WorkflowType = FAILED_SUBSCRIPTION | PAYMENT_DEGRADATION | B2B_PROMISE_TO_PAY

primrec workflow_value :: "WorkflowType \<Rightarrow> string" where
  "workflow_value FAILED_SUBSCRIPTION = ''FAILED_SUBSCRIPTION''"
| "workflow_value PAYMENT_DEGRADATION = ''PAYMENT_DEGRADATION''"
| "workflow_value B2B_PROMISE_TO_PAY = ''B2B_PROMISE_TO_PAY''"

datatype SubjectType = PAYMENT | SUBSCRIPTION | INVOICE | PORTFOLIO_INCIDENT

primrec subject_value :: "SubjectType \<Rightarrow> string" where
  "subject_value PAYMENT = ''PAYMENT''"
| "subject_value SUBSCRIPTION = ''SUBSCRIPTION''"
| "subject_value INVOICE = ''INVOICE''"
| "subject_value PORTFOLIO_INCIDENT = ''PORTFOLIO_INCIDENT''"

datatype CaseState =
    DETECTED | DIAGNOSING | DECISION_PENDING | POLICY_CHECK | READY | EXECUTING
  | VERIFYING | UNKNOWN | DEFERRED | ESCALATED | RECOVERED | STOPPED

primrec case_state_value :: "CaseState \<Rightarrow> string" where
  "case_state_value DETECTED = ''DETECTED''"
| "case_state_value DIAGNOSING = ''DIAGNOSING''"
| "case_state_value DECISION_PENDING = ''DECISION_PENDING''"
| "case_state_value POLICY_CHECK = ''POLICY_CHECK''"
| "case_state_value READY = ''READY''"
| "case_state_value EXECUTING = ''EXECUTING''"
| "case_state_value VERIFYING = ''VERIFYING''"
| "case_state_value CaseState.UNKNOWN = ''UNKNOWN''"
| "case_state_value DEFERRED = ''DEFERRED''"
| "case_state_value ESCALATED = ''ESCALATED''"
| "case_state_value RECOVERED = ''RECOVERED''"
| "case_state_value STOPPED = ''STOPPED''"

definition TERMINAL_STATES :: "CaseState set" where
  "TERMINAL_STATES = {RECOVERED, STOPPED}"

fun ALLOWED_TRANSITIONS :: "CaseState \<Rightarrow> CaseState set" where
  "ALLOWED_TRANSITIONS DETECTED = {DIAGNOSING}"
| "ALLOWED_TRANSITIONS DIAGNOSING = {DECISION_PENDING}"
| "ALLOWED_TRANSITIONS DECISION_PENDING = {POLICY_CHECK}"
| "ALLOWED_TRANSITIONS POLICY_CHECK = {READY, DEFERRED, DECISION_PENDING, ESCALATED, STOPPED}"
| "ALLOWED_TRANSITIONS READY = {EXECUTING}"
| "ALLOWED_TRANSITIONS EXECUTING = {VERIFYING, CaseState.UNKNOWN}"
| "ALLOWED_TRANSITIONS VERIFYING = {RECOVERED, DECISION_PENDING, CaseState.UNKNOWN, STOPPED}"
| "ALLOWED_TRANSITIONS CaseState.UNKNOWN = {VERIFYING, ESCALATED}"
| "ALLOWED_TRANSITIONS DEFERRED = {DECISION_PENDING}"
| "ALLOWED_TRANSITIONS ESCALATED = {DECISION_PENDING, STOPPED}"
| "ALLOWED_TRANSITIONS RECOVERED = {}"
| "ALLOWED_TRANSITIONS STOPPED = {}"

definition can_transition :: "CaseState \<Rightarrow> CaseState \<Rightarrow> bool" where
  "can_transition before after \<longleftrightarrow> after \<in> ALLOWED_TRANSITIONS before"

record RecoveryCase =
  rc_case_id :: string
  rc_merchant_id :: string
  rc_workflow_type :: WorkflowType
  rc_subject_type :: SubjectType
  rc_subject_id :: string
  rc_revenue_at_risk_minor :: int
  rc_currency :: string
  rc_state :: CaseState
  rc_state_version :: int
  rc_retry_count :: int
  rc_contact_count :: int
  rc_created_at :: datetime
  rc_updated_at :: datetime
  rc_customer_id :: "string option"
  rc_diagnosis :: "string option"
  rc_diagnosis_confidence :: "rat option"
  rc_active_incident_id :: "string option"
  rc_next_evaluation_at :: "datetime option"
  rc_terminal_reason :: "string option"
  rc_schema_version :: string

definition minimum_check :: "string \<Rightarrow> int \<Rightarrow> int \<Rightarrow> bool \<times> exn" where
  "minimum_check name v minimum =
     (v < minimum, ValueError (name @ '' must be at least '' @ show_int minimum))"

lemma fst_minimum_check [simp]: "fst (minimum_check n v m) \<longleftrightarrow> v < m"
  by (simp add: minimum_check_def)

definition post_init_case :: "RecoveryCase \<Rightarrow> RecoveryCase result" where
  "post_init_case c =
     bindR (raise_first
       [(rc_schema_version c \<noteq> SCHEMA_VERSION, ValueError ''unsupported RecoveryCase schema''),
        identifier_check ''case_id'' (rc_case_id c) 128,
        identifier_check ''merchant_id'' (rc_merchant_id c) 128,
        identifier_check ''subject_id'' (rc_subject_id c) 128,
        optional_identifier_check ''customer_id'' (rc_customer_id c) 128,
        optional_identifier_check ''diagnosis'' (rc_diagnosis c) 128,
        optional_identifier_check ''active_incident_id'' (rc_active_incident_id c) 128,
        optional_identifier_check ''terminal_reason'' (rc_terminal_reason c) 256,
        minimum_check ''revenue_at_risk_minor'' (rc_revenue_at_risk_minor c) 0,
        minimum_check ''state_version'' (rc_state_version c) 1,
        minimum_check ''retry_count'' (rc_retry_count c) 0,
        minimum_check ''contact_count'' (rc_contact_count c) 0,
        (\<not> currency_pattern (rc_currency c),
           ValueError ''currency must be a three-letter uppercase ISO code''),
        (case rc_diagnosis_confidence c of None \<Rightarrow> False | Some x \<Rightarrow> \<not> (0 \<le> x \<and> x \<le> 1),
           ValueError ''diagnosis_confidence must be between zero and one''),
        (rc_state c \<in> TERMINAL_STATES \<and> rc_terminal_reason c = None,
           ValueError ''terminal cases require terminal_reason''),
        (rc_state c \<notin> TERMINAL_STATES \<and> rc_terminal_reason c \<noteq> None,
           ValueError ''nonterminal cases cannot have terminal_reason'')])
     (\<lambda>_. bindR (utc ''created_at'' (rc_created_at c)) (\<lambda>created.
     bindR (utc ''updated_at'' (rc_updated_at c)) (\<lambda>updated.
     bindR (utc_opt ''next_evaluation_at'' (rc_next_evaluation_at c)) (\<lambda>next_evaluation.
     if updated < created then Inl (ValueError ''updated_at cannot precede created_at'')
     else Inr (c\<lparr>rc_created_at := created, rc_updated_at := updated,
                  rc_next_evaluation_at := next_evaluation\<rparr>)))))"

definition case_to_dict :: "RecoveryCase \<Rightarrow> (string \<times> pyval) list" where
  "case_to_dict c =
     [(''schema_version'', PStr (rc_schema_version c)),
      (''case_id'', PStr (rc_case_id c)),
      (''merchant_id'', PStr (rc_merchant_id c)),
      (''workflow_type'', PStr (workflow_value (rc_workflow_type c))),
      (''subject_type'', PStr (subject_value (rc_subject_type c))),
      (''subject_id'', PStr (rc_subject_id c)),
      (''customer_id'', opt_str (rc_customer_id c)),
      (''revenue_at_risk_minor'', PInt (rc_revenue_at_risk_minor c)),
      (''currency'', PStr (rc_currency c)),
      (''state'', PStr (case_state_value (rc_state c))),
      (''state_version'', PInt (rc_state_version c)),
      (''diagnosis'', opt_str (rc_diagnosis c)),
      (''diagnosis_confidence'',
         case rc_diagnosis_confidence c of None \<Rightarrow> PNone | Some x \<Rightarrow> PFloat x),
      (''retry_count'', PInt (rc_retry_count c)),
      (''contact_count'', PInt (rc_contact_count c)),
      (''active_incident_id'', opt_str (rc_active_incident_id c)),
      (''next_evaluation_at'', opt_time (rc_next_evaluation_at c)),
      (''terminal_reason'', opt_str (rc_terminal_reason c)),
      (''created_at'', PStr (format_seconds (rc_created_at c))),
      (''updated_at'', PStr (format_seconds (rc_updated_at c)))]"

record CaseTransition =
  ct_case_id :: string
  ct_merchant_id :: string
  ct_before_state :: CaseState
  ct_after_state :: CaseState
  ct_before_version :: int
  ct_after_version :: int
  ct_actor :: string
  ct_reason_code :: string
  ct_reason_detail :: "string option"
  ct_correlation_id :: string
  ct_policy_version :: string
  ct_authoritative_evidence_reference :: "string option"
  ct_occurred_at :: datetime

definition post_init_transition :: "CaseTransition \<Rightarrow> CaseTransition result" where
  "post_init_transition t =
     bindR (raise_first
       [identifier_check ''case_id'' (ct_case_id t) 128,
        identifier_check ''merchant_id'' (ct_merchant_id t) 128,
        identifier_check ''actor'' (ct_actor t) 128,
        identifier_check ''reason_code'' (ct_reason_code t) 128,
        identifier_check ''correlation_id'' (ct_correlation_id t) 128,
        identifier_check ''policy_version'' (ct_policy_version t) 128,
        (case ct_reason_detail t of None \<Rightarrow> False | Some d \<Rightarrow> length d > 2000,
           ValueError ''reason_detail cannot exceed 2000 characters''),
        (ct_after_version t \<noteq> ct_before_version t + 1,
           ValueError ''after_version must equal before_version + 1''),
        (ct_after_state t \<notin> ALLOWED_TRANSITIONS (ct_before_state t),
           ValueError ''transition is not allowed''),
        (ct_after_state t = RECOVERED \<and> \<not> truthy (ct_authoritative_evidence_reference t),
           ValueError ''recovered transition requires authoritative evidence''),
        (case ct_authoritative_evidence_reference t of None \<Rightarrow> False | Some r \<Rightarrow> length r > 512,
           ValueError ''authoritative evidence reference cannot exceed 512 characters'')])
     (\<lambda>_. bindR (utc ''occurred_at'' (ct_occurred_at t)) (\<lambda>occurred.
     Inr (t\<lparr>ct_occurred_at := occurred\<rparr>)))"

text \<open>The keyword arguments of \<open>transition_case\<close>.\<close>

record TransitionRequest =
  tr_expected_version :: int
  tr_to_state :: CaseState
  tr_actor :: string
  tr_reason_code :: string
  tr_correlation_id :: string
  tr_occurred_at :: datetime
  tr_reason_detail :: "string option"
  tr_policy_version :: string
  tr_authoritative_evidence_reference :: "string option"
  tr_terminal_reason :: "string option"
  tr_next_evaluation_at :: "datetime option"

definition transition_guards :: "RecoveryCase \<Rightarrow> TransitionRequest \<Rightarrow> datetime \<Rightarrow> (bool \<times> exn) list" where
  "transition_guards c q transitioned_at =
     [(transitioned_at < rc_updated_at c,
         CaseTransitionError ''TRANSITION_TIME_REGRESSION'' ''transition time precedes case update''),
      (tr_to_state q \<in> TERMINAL_STATES \<and> \<not> truthy (tr_terminal_reason q),
         CaseTransitionError ''TERMINAL_REASON_REQUIRED'' ''terminal transition requires a reason''),
      (tr_to_state q \<notin> TERMINAL_STATES \<and> tr_terminal_reason q \<noteq> None,
         CaseTransitionError ''UNEXPECTED_TERMINAL_REASON'' ''nonterminal transition has a reason''),
      (tr_to_state q = RECOVERED \<and> \<not> truthy (tr_authoritative_evidence_reference q),
         CaseTransitionError ''AUTHORITATIVE_EVIDENCE_REQUIRED''
           ''recovered transition requires authoritative evidence'')]"

definition transition_case ::
    "RecoveryCase \<Rightarrow> TransitionRequest \<Rightarrow> (RecoveryCase \<times> CaseTransition) result" where
  "transition_case c q =
     bindR (raise_first
       [(rc_state_version c \<noteq> tr_expected_version q,
           StaleCaseVersionError ''STALE_CASE_VERSION''
             (''expected version '' @ show_int (tr_expected_version q) @
              '', found '' @ show_int (rc_state_version c))),
        (\<not> can_transition (rc_state c) (tr_to_state q),
           CaseTransitionError ''ILLEGAL_CASE_TRANSITION''
             (''cannot transition '' @ case_state_value (rc_state c) @ '' to '' @
              case_state_value (tr_to_state q)))])
     (\<lambda>_. bindR (utc ''occurred_at'' (tr_occurred_at q)) (\<lambda>transitioned_at.
     bindR (raise_first (transition_guards c q transitioned_at)) (\<lambda>_.
     bindR (post_init_case
       (c\<lparr>rc_state := tr_to_state q, rc_state_version := rc_state_version c + 1,
          rc_updated_at := transitioned_at, rc_terminal_reason := tr_terminal_reason q,
          rc_next_evaluation_at := tr_next_evaluation_at q\<rparr>)) (\<lambda>updated.
     bindR (post_init_transition
       \<lparr>ct_case_id = rc_case_id c, ct_merchant_id = rc_merchant_id c,
        ct_before_state = rc_state c, ct_after_state = tr_to_state q,
        ct_before_version = rc_state_version c, ct_after_version = rc_state_version updated,
        ct_actor = tr_actor q, ct_reason_code = tr_reason_code q,
        ct_reason_detail = tr_reason_detail q, ct_correlation_id = tr_correlation_id q,
        ct_policy_version = tr_policy_version q,
        ct_authoritative_evidence_reference = tr_authoritative_evidence_reference q,
        ct_occurred_at = transitioned_at\<rparr>) (\<lambda>transition.
     Inr (updated, transition))))))"


section \<open>Validation\<close>

definition wf_case :: "RecoveryCase \<Rightarrow> bool" where
  "wf_case c \<longleftrightarrow> post_init_case c = Inr c"

lemma post_init_case_Inr: "post_init_case c = Inr c' \<Longrightarrow> c' = c \<and> wf_case c"
  by (auto simp: post_init_case_def wf_case_def bindR_eq_Inr utc_eq_Inr utc_opt_eq_Inr
      split: if_splits)

lemma wf_caseD:
  assumes "wf_case c"
  shows "rc_state c \<in> TERMINAL_STATES \<longleftrightarrow> rc_terminal_reason c \<noteq> None"
    "0 \<le> rc_revenue_at_risk_minor c" "1 \<le> rc_state_version c" "0 \<le> rc_retry_count c"
    "0 \<le> rc_contact_count c" "currency_pattern (rc_currency c)"
    "rc_created_at c \<le> rc_updated_at c" "is_aware (rc_updated_at c)" "is_aware (rc_created_at c)"
    "rc_case_id c \<noteq> []" "rc_merchant_id c \<noteq> []" "rc_subject_id c \<noteq> []"
    "length (rc_case_id c) \<le> 128" "length (rc_merchant_id c) \<le> 128"
    "length (rc_subject_id c) \<le> 128"
    "rc_diagnosis_confidence c = Some x \<Longrightarrow> 0 \<le> x \<and> x \<le> 1"
  using assms
  by (auto simp: wf_case_def post_init_case_def bindR_eq_Inr utc_eq_Inr utc_opt_eq_Inr
      raise_first_ok_iff blank_or_longer_def not_less split: if_splits)

lemma post_init_transition_Inr: "post_init_transition t = Inr t' \<Longrightarrow> t' = t"
  by (auto simp: post_init_transition_def bindR_eq_Inr utc_eq_Inr)


section \<open>One transition\<close>

interpretation case_table: state_table ALLOWED_TRANSITIONS "\<lambda>s. s \<in> TERMINAL_STATES"
proof
  show "s \<in> TERMINAL_STATES \<longleftrightarrow> ALLOWED_TRANSITIONS s = {}" for s
    by (cases s) (simp_all add: TERMINAL_STATES_def)
qed

lemma terminal_no_transition: "s \<in> TERMINAL_STATES \<Longrightarrow> \<not> can_transition s t"
  unfolding can_transition_def by (rule case_table.terminal_no_successor)

text \<open>The case a request asks for, before validation.\<close>

definition moved :: "RecoveryCase \<Rightarrow> TransitionRequest \<Rightarrow> RecoveryCase" where
  "moved c q =
     c\<lparr>rc_state := tr_to_state q, rc_state_version := rc_state_version c + 1,
       rc_updated_at := tr_occurred_at q, rc_terminal_reason := tr_terminal_reason q,
       rc_next_evaluation_at := tr_next_evaluation_at q\<rparr>"

lemma moved_simps [simp]:
  "rc_state (moved c q) = tr_to_state q"
  "rc_state_version (moved c q) = rc_state_version c + 1"
  "rc_updated_at (moved c q) = tr_occurred_at q"
  "rc_terminal_reason (moved c q) = tr_terminal_reason q"
  "rc_next_evaluation_at (moved c q) = tr_next_evaluation_at q"
  "rc_case_id (moved c q) = rc_case_id c"
  "rc_merchant_id (moved c q) = rc_merchant_id c"
  "rc_revenue_at_risk_minor (moved c q) = rc_revenue_at_risk_minor c"
  "rc_currency (moved c q) = rc_currency c"
  "rc_retry_count (moved c q) = rc_retry_count c"
  "rc_contact_count (moved c q) = rc_contact_count c"
  "rc_customer_id (moved c q) = rc_customer_id c"
  "rc_diagnosis (moved c q) = rc_diagnosis c"
  "rc_diagnosis_confidence (moved c q) = rc_diagnosis_confidence c"
  "rc_subject_id (moved c q) = rc_subject_id c"
  "rc_subject_type (moved c q) = rc_subject_type c"
  "rc_workflow_type (moved c q) = rc_workflow_type c"
  "rc_created_at (moved c q) = rc_created_at c"
  "rc_schema_version (moved c q) = rc_schema_version c"
  by (simp_all add: moved_def)

lemma transition_case_InrD:
  assumes "transition_case c q = Inr (c', t)"
  shows "c' = moved c q" "wf_case c'" "rc_state_version c = tr_expected_version q"
    "can_transition (rc_state c) (tr_to_state q)" "is_aware (tr_occurred_at q)"
    "rc_updated_at c \<le> tr_occurred_at q"
    "tr_to_state q \<in> TERMINAL_STATES \<longleftrightarrow> truthy (tr_terminal_reason q)"
    "tr_to_state q = RECOVERED \<longrightarrow> truthy (tr_authoritative_evidence_reference q)"
    "ct_before_state t = rc_state c" "ct_after_state t = tr_to_state q"
    "ct_before_version t = rc_state_version c" "ct_after_version t = rc_state_version c + 1"
    "ct_case_id t = rc_case_id c" "ct_merchant_id t = rc_merchant_id c"
    "ct_authoritative_evidence_reference t = tr_authoritative_evidence_reference q"
    "ct_reason_code t = tr_reason_code q" "ct_actor t = tr_actor q"
    "ct_occurred_at t = tr_occurred_at q"
  using assms
  by (auto simp: transition_case_def bindR_eq_Inr utc_eq_Inr raise_first_ok_iff
      transition_guards_def not_less moved_def
      dest!: post_init_case_Inr post_init_transition_Inr)

lemma transition_case_state: "transition_case c q = Inr (c', t) \<Longrightarrow> rc_state c' = tr_to_state q"
  by (frule transition_case_InrD(1)) simp

text \<open>
  Property C12. A transition that \<open>transition_case\<close> accepts is one edge of the frozen table,
  taken from the version the caller expected; it yields a valid case whose version is one
  higher and whose identity, money, counters and creation time are untouched, a terminal
  case exactly when a reason was given, and a transition record that tells the same story.
\<close>

theorem transition_case_sound:
  assumes "transition_case c q = Inr (c', t)"
  shows "can_transition (rc_state c) (rc_state c') \<and> wf_case c'
    \<and> rc_state_version c = tr_expected_version q \<and> rc_state_version c' = rc_state_version c + 1
    \<and> rc_updated_at c \<le> rc_updated_at c'
    \<and> (rc_state c' \<in> TERMINAL_STATES \<longleftrightarrow> truthy (rc_terminal_reason c'))
    \<and> (rc_state c' = RECOVERED \<longrightarrow> truthy (ct_authoritative_evidence_reference t))
    \<and> c'\<lparr>rc_state := rc_state c, rc_state_version := rc_state_version c,
         rc_updated_at := rc_updated_at c, rc_terminal_reason := rc_terminal_reason c,
         rc_next_evaluation_at := rc_next_evaluation_at c\<rparr> = c
    \<and> ct_before_state t = rc_state c \<and> ct_after_state t = rc_state c'
    \<and> ct_before_version t = rc_state_version c \<and> ct_after_version t = rc_state_version c'"
proof -
  note D = transition_case_InrD [OF assms]
  show ?thesis
  proof (intro conjI)
    show "c'\<lparr>rc_state := rc_state c, rc_state_version := rc_state_version c,
         rc_updated_at := rc_updated_at c, rc_terminal_reason := rc_terminal_reason c,
         rc_next_evaluation_at := rc_next_evaluation_at c\<rparr> = c"
      unfolding D(1) by (simp add: moved_def)
  qed (use D(2-) in \<open>simp_all add: D(1)\<close>)
qed

text \<open>A case and a request that the witnesses of this theory use.\<close>

definition sample_case :: RecoveryCase where
  "sample_case =
     \<lparr>rc_case_id = ''case_1'', rc_merchant_id = ''merchant_1'',
      rc_workflow_type = PAYMENT_DEGRADATION, rc_subject_type = PAYMENT, rc_subject_id = ''pay_1'',
      rc_revenue_at_risk_minor = 12000, rc_currency = ''INR'', rc_state = DETECTED,
      rc_state_version = 1, rc_retry_count = 0, rc_contact_count = 0, rc_created_at = Aware 1000,
      rc_updated_at = Aware 1000, rc_customer_id = Some ''cust_1'', rc_diagnosis = None,
      rc_diagnosis_confidence = None, rc_active_incident_id = None, rc_next_evaluation_at = None,
      rc_terminal_reason = None, rc_schema_version = ''1.0''\<rparr>"

definition sample_request :: "RecoveryCase \<Rightarrow> CaseState \<Rightarrow> TransitionRequest" where
  "sample_request c to =
     \<lparr>tr_expected_version = rc_state_version c, tr_to_state = to, tr_actor = ''SYSTEM'',
      tr_reason_code = ''SAMPLE'', tr_correlation_id = ''corr_1'', tr_occurred_at = Aware 2000,
      tr_reason_detail = None, tr_policy_version = ''policy_1'',
      tr_authoritative_evidence_reference =
        (if to = RECOVERED then Some ''webhook_events/1'' else None),
      tr_terminal_reason = (if to \<in> TERMINAL_STATES then Some ''SAMPLE'' else None),
      tr_next_evaluation_at = None\<rparr>"

text \<open>The equations that run the validations on a closed value.\<close>

lemmas run_validation = raise_first_okI blank_or_longer_def currency_pattern_def
  is_ascii_upper_def

lemmas run_transition = transition_case_def transition_guards_def post_init_case_def
  post_init_transition_def can_transition_def TERMINAL_STATES_def run_validation

lemma sample_transition:
  "\<exists>t. transition_case sample_case (sample_request sample_case DIAGNOSING) =
     Inr (moved sample_case (sample_request sample_case DIAGNOSING), t)"
  by (simp add: run_transition sample_case_def sample_request_def moved_def)

theorem transition_case_sound_witness:
  "\<exists>c' t. transition_case sample_case (sample_request sample_case DIAGNOSING) = Inr (c', t)
     \<and> rc_state c' = DIAGNOSING \<and> rc_state_version c' = 2"
proof -
  obtain t where t: "transition_case sample_case (sample_request sample_case DIAGNOSING) =
     Inr (moved sample_case (sample_request sample_case DIAGNOSING), t)"
    using sample_transition by blast
  from transition_case_sound [OF t] t show ?thesis
    by (auto simp: sample_request_def sample_case_def)
qed

text \<open>The requests that are carried out.\<close>

definition acceptable_request :: "RecoveryCase \<Rightarrow> TransitionRequest \<Rightarrow> bool" where
  "acceptable_request c q \<longleftrightarrow>
     tr_expected_version q = rc_state_version c \<and> can_transition (rc_state c) (tr_to_state q)
     \<and> is_aware (tr_occurred_at q) \<and> rc_updated_at c \<le> tr_occurred_at q
     \<and> (if tr_to_state q \<in> TERMINAL_STATES
        then (\<exists>r. tr_terminal_reason q = Some r \<and> \<not> blank_or_longer 256 r)
        else tr_terminal_reason q = None)
     \<and> (tr_to_state q = RECOVERED \<longrightarrow> truthy (tr_authoritative_evidence_reference q))
     \<and> (\<forall>r. tr_authoritative_evidence_reference q = Some r \<longrightarrow> length r \<le> 512)
     \<and> (\<forall>d. tr_reason_detail q = Some d \<longrightarrow> length d \<le> 2000)
     \<and> (\<forall>t. tr_next_evaluation_at q = Some t \<longrightarrow> is_aware t)
     \<and> (\<forall>v\<in>{tr_actor q, tr_reason_code q, tr_correlation_id q, tr_policy_version q}.
          \<not> blank_or_longer 128 v)"

lemma wf_moved:
  assumes "wf_case c" "acceptable_request c q" shows "post_init_case (moved c q) = Inr (moved c q)"
proof -
  have created: "rc_created_at c \<le> tr_occurred_at q"
    using wf_caseD(7) [OF assms(1)] assms(2) by (auto simp: acceptable_request_def)
  from assms created show ?thesis
    by (auto simp: wf_case_def post_init_case_def bindR_eq_Inr utc_eq_Inr utc_opt_eq_Inr
        raise_first_ok_iff acceptable_request_def moved_def not_less split: if_splits)
qed

lemma acceptable_guards:
  assumes "acceptable_request c q"
  shows "raise_first (transition_guards c q (tr_occurred_at q)) = Inr ()"
  using assms
  by (auto simp: acceptable_request_def transition_guards_def raise_first_ok_iff
      blank_or_longer_def not_less split: if_splits)

text \<open>The record of an accepted request.\<close>

definition transition_record :: "RecoveryCase \<Rightarrow> TransitionRequest \<Rightarrow> CaseTransition" where
  "transition_record c q =
     \<lparr>ct_case_id = rc_case_id c, ct_merchant_id = rc_merchant_id c,
      ct_before_state = rc_state c, ct_after_state = tr_to_state q,
      ct_before_version = rc_state_version c, ct_after_version = rc_state_version c + 1,
      ct_actor = tr_actor q, ct_reason_code = tr_reason_code q,
      ct_reason_detail = tr_reason_detail q, ct_correlation_id = tr_correlation_id q,
      ct_policy_version = tr_policy_version q,
      ct_authoritative_evidence_reference = tr_authoritative_evidence_reference q,
      ct_occurred_at = tr_occurred_at q\<rparr>"

lemma acceptable_record:
  assumes "acceptable_request c q" "wf_case c"
  shows "post_init_transition (transition_record c q) = Inr (transition_record c q)"
proof -
  have "\<not> blank_or_longer 128 (rc_case_id c)" "\<not> blank_or_longer 128 (rc_merchant_id c)"
    using wf_caseD(10,11,13,14) [OF assms(2)] by (auto simp: blank_or_longer_def)
  with assms(1) show ?thesis
    by (auto simp: post_init_transition_def transition_record_def bindR_eq_Inr utc_eq_Inr
        raise_first_ok_iff acceptable_request_def can_transition_def not_less
        split: option.splits)
qed

lemma transition_case_accepts:
  assumes "acceptable_request c q" and "wf_case c"
  shows "transition_case c q = Inr (moved c q, transition_record c q)"
proof -
  have entry: "raise_first
       [(rc_state_version c \<noteq> tr_expected_version q, e1),
        (\<not> can_transition (rc_state c) (tr_to_state q), e2)] = Inr ()" for e1 e2
    using assms(1) by (simp add: acceptable_request_def raise_first_ok_iff)
  have "utc n (tr_occurred_at q) = Inr (tr_occurred_at q)" for n
    using assms(1) by (simp add: acceptable_request_def utc_aware)
  then show ?thesis
    using entry acceptable_guards [OF assms(1)] wf_moved [OF assms(2,1)] acceptable_record [OF assms]
    unfolding moved_def transition_record_def transition_case_def by simp
qed

text \<open>
  Nothing else is needed: for a valid case, a request that names its version, one
  of the table's edges, a time that does not go back, a reason exactly for a terminal state,
  evidence for \<open>RECOVERED\<close> and fields within their limits is always carried out.
\<close>

theorem transition_case_complete:
  assumes "acceptable_request c q" and "wf_case c"
  shows "transition_case c q = Inr (moved c q, transition_record c q)"
  using assms by (rule transition_case_accepts)

section \<open>Optimistic concurrency\<close>

text \<open>
  Of two writers that read the same case version, the second one fails: after
  an accepted transition every further request that names the version the first one
  expected is refused as stale, whatever it asks for.
\<close>

theorem transition_case_stale:
  assumes "transition_case c q = Inr (c', t)"
    and "tr_expected_version q' = tr_expected_version q"
  shows "\<exists>detail. transition_case c' q' = Inl (StaleCaseVersionError ''STALE_CASE_VERSION'' detail)"
proof -
  from transition_case_InrD(1,3) [OF assms(1)] assms(2)
  have "rc_state_version c' \<noteq> tr_expected_version q'" by simp
  then show ?thesis by (simp add: transition_case_def raise_first.simps)
qed

theorem transition_case_stale_witness:
  "\<exists>c' t detail. transition_case sample_case (sample_request sample_case DIAGNOSING) = Inr (c', t)
     \<and> transition_case c' (sample_request sample_case STOPPED) =
         Inl (StaleCaseVersionError ''STALE_CASE_VERSION'' detail)"
proof -
  obtain t where t: "transition_case sample_case (sample_request sample_case DIAGNOSING) =
     Inr (moved sample_case (sample_request sample_case DIAGNOSING), t)"
    using sample_transition by blast
  from transition_case_stale [OF t, of "sample_request sample_case STOPPED"] t show ?thesis
    by (auto simp: sample_request_def)
qed


lemma sample_request_acceptable:
  "can_transition (rc_state c) s \<Longrightarrow> rc_updated_at c \<le> Aware 2000 \<Longrightarrow>
   acceptable_request c (sample_request c s)"
  by (auto simp: acceptable_request_def sample_request_def blank_or_longer_def)

theorem transition_case_complete_witness:
  "transition_case sample_case (sample_request sample_case DIAGNOSING) =
     Inr (moved sample_case (sample_request sample_case DIAGNOSING),
          transition_record sample_case (sample_request sample_case DIAGNOSING))"
proof (rule transition_case_complete)
  show "acceptable_request sample_case (sample_request sample_case DIAGNOSING)"
    by (rule sample_request_acceptable) (simp_all add: sample_case_def can_transition_def)
  show "wf_case sample_case"
    by (simp add: wf_case_def post_init_case_def sample_case_def run_validation TERMINAL_STATES_def)
qed

section \<open>Histories\<close>

text \<open>
  The life of a case: transitions through \<open>transition_case\<close>, and between them the edits the
  services make with \<open>dataclasses.replace\<close> (diagnosis, counters, incident), which leave the
  identity and the lifecycle fields alone. The transition records accumulate in order.
\<close>

definition same_lifecycle :: "RecoveryCase \<Rightarrow> RecoveryCase \<Rightarrow> bool" where
  "same_lifecycle c d \<longleftrightarrow>
     rc_state d = rc_state c \<and> rc_state_version d = rc_state_version c
     \<and> rc_terminal_reason d = rc_terminal_reason c \<and> rc_case_id d = rc_case_id c
     \<and> rc_merchant_id d = rc_merchant_id c"

inductive case_history :: "RecoveryCase \<Rightarrow> CaseTransition list \<Rightarrow> RecoveryCase \<Rightarrow> bool" where
  start: "case_history c [] c"
| transition: "case_history c ts d \<Longrightarrow> transition_case d q = Inr (e, t) \<Longrightarrow>
    case_history c (ts @ [t]) e"
| edit: "case_history c ts d \<Longrightarrow> same_lifecycle d e \<Longrightarrow> wf_case e \<Longrightarrow> case_history c ts e"

text \<open>The versions of a history count its transitions.\<close>

lemma case_history_versions:
  "case_history c ts d \<Longrightarrow>
   rc_state_version d = rc_state_version c + int (length ts)
   \<and> (\<forall>i<length ts. ct_before_version (ts ! i) = rc_state_version c + int i
        \<and> ct_after_version (ts ! i) = rc_state_version c + int i + 1)"
proof (induction rule: case_history.induct)
  case (transition c ts d q e t)
  note D = transition_case_InrD [OF transition.hyps(2)]
  with transition.IH show ?case by (auto simp: nth_append less_Suc_eq)
qed (auto simp: same_lifecycle_def)

text \<open>The states of a history are a path of the table.\<close>

lemma case_history_path:
  "case_history c ts d \<Longrightarrow>
   case_table.allowed_path (rc_state c) (map ct_after_state ts)
   \<and> rc_state d = last (rc_state c # map ct_after_state ts)"
proof (induction rule: case_history.induct)
  case (transition c ts d q e t)
  note D = transition_case_InrD [OF transition.hyps(2)]
  have "tr_to_state q \<in> ALLOWED_TRANSITIONS (rc_state d)"
    using D(4) by (simp add: can_transition_def)
  with transition.IH D(1,10) show ?case
    by (simp add: case_table.allowed_path_append)
qed (auto simp: same_lifecycle_def)

lemma case_history_evidence:
  "case_history c ts d \<Longrightarrow> t \<in> set ts \<Longrightarrow> ct_after_state t = RECOVERED \<Longrightarrow>
   truthy (ct_authoritative_evidence_reference t)"
proof (induction rule: case_history.induct)
  case (transition c ts d q e u)
  then show ?case using transition_case_InrD(8,10,15) [OF transition.hyps(2)] by auto
qed auto

text \<open>
  Property C13. A case is closed once and for good: in any history the transition into
  \<open>RECOVERED\<close> or \<open>STOPPED\<close> is the last one and the only one, and one into
  \<open>RECOVERED\<close> carries an authoritative evidence reference.
\<close>

theorem case_history_closed_once:
  assumes "case_history c (ts @ t # us) d" and "ct_after_state t \<in> TERMINAL_STATES"
  shows "us = [] \<and> rc_state d = ct_after_state t
    \<and> (\<forall>u\<in>set ts. ct_after_state u \<notin> TERMINAL_STATES)
    \<and> (ct_after_state t = RECOVERED \<longrightarrow> truthy (ct_authoritative_evidence_reference t))"
proof -
  note path = case_history_path [OF assms(1)]
  then have us: "us = []"
    using case_table.terminal_last [of "rc_state c" "map ct_after_state ts" "ct_after_state t"
        "map ct_after_state us"] assms(2) by simp
  have "ct_after_state u \<notin> TERMINAL_STATES" if "u \<in> set ts" for u
  proof
    assume terminal: "ct_after_state u \<in> TERMINAL_STATES"
    from that obtain xs ys where "ts = xs @ u # ys" by (auto simp: in_set_conv_decomp)
    with path terminal show False
      using case_table.terminal_last [of "rc_state c" "map ct_after_state xs" "ct_after_state u"
          "map ct_after_state (ys @ t # us)"] by simp
  qed
  with us path case_history_evidence [OF assms(1), of t] show ?thesis by simp
qed

text \<open>The only way into execution.\<close>

lemma path_predecessors:
  assumes "case_table.allowed_path s (xs @ t # ys)"
  shows "t \<in> ALLOWED_TRANSITIONS (last (s # xs))"
  using assms by (simp add: case_table.allowed_path_append)

lemma into_executing: "EXECUTING \<in> ALLOWED_TRANSITIONS s \<Longrightarrow> s = READY"
  by (cases s) auto

lemma into_ready: "READY \<in> ALLOWED_TRANSITIONS s \<Longrightarrow> s = POLICY_CHECK"
  by (cases s) auto

text \<open>
  Property C14. No action starts without a policy decision: in the history of a case that
  began in \<open>DETECTED\<close>, a transition into \<open>EXECUTING\<close> comes right after one into \<open>READY\<close>,
  which comes right after one into \<open>POLICY_CHECK\<close>.
\<close>

theorem case_history_policy_before_execution:
  assumes "case_history c (ts @ t # us) d" and "rc_state c = DETECTED"
    and "ct_after_state t = EXECUTING"
  shows "\<exists>vs p r. ts = vs @ [p, r] \<and> ct_after_state p = POLICY_CHECK \<and> ct_after_state r = READY"
proof -
  let ?f = "map ct_after_state"
  have path: "case_table.allowed_path DETECTED (?f (ts @ t # us))"
    using case_history_path [OF assms(1)] assms(2) by simp
  then have "last (DETECTED # ?f ts) = READY"
    using path_predecessors [of DETECTED "?f ts" "ct_after_state t" "?f us"] assms(3)
    by (auto intro: into_executing)
  then have ts: "ts \<noteq> []" and r: "ct_after_state (last ts) = READY"
    by (auto simp: last_map split: if_splits)
  define ws where "ws = butlast ts"
  have split: "ts = ws @ [last ts]" using ts by (simp add: ws_def)
  have "last (DETECTED # ?f ws) = POLICY_CHECK"
    using path_predecessors [of DETECTED "?f ws" "ct_after_state (last ts)" "?f (t # us)"] path r
    by (subst (asm) split) (auto intro: into_ready)
  then have ws: "ws \<noteq> []" and p: "ct_after_state (last ws) = POLICY_CHECK"
    by (auto simp: last_map split: if_splits)
  have "ts = butlast ws @ [last ws, last ts]"
    using split ws by (metis append.assoc append_Cons append_Nil append_butlast_last_id)
  with r p show ?thesis by blast
qed

text \<open>A concrete history, state by state, for the witnesses.\<close>

fun sample_history :: "RecoveryCase \<Rightarrow> CaseState list \<Rightarrow> (RecoveryCase \<times> CaseTransition list) result" where
  "sample_history c [] = Inr (c, [])"
| "sample_history c (s # ss) =
     bindR (transition_case c (sample_request c s)) (\<lambda>r.
     bindR (sample_history (fst r) ss) (\<lambda>h. Inr (fst h, snd r # snd h)))"

lemma case_history_prepend:
  assumes "transition_case c q = Inr (d, t)"
  shows "case_history d ts e \<Longrightarrow> case_history c (t # ts) e"
proof (induction d\<equiv>d ts e rule: case_history.induct)
  case start
  show ?case using case_history.transition [OF case_history.start assms] by simp
next
  case (transition ts d' q' e t')
  then show ?case using case_history.transition [of c "t # ts" d' q' e t'] by simp
next
  case (edit ts d' e)
  then show ?case using case_history.edit by blast
qed

lemma sample_history_case_history: "sample_history c ss = Inr (d, ts) \<Longrightarrow> case_history c ts d"
proof (induction ss arbitrary: c ts)
  case Nil
  then show ?case by (auto intro: case_history.start)
next
  case (Cons s ss)
  then show ?case by (force simp: bindR_eq_Inr intro: case_history_prepend)
qed

lemma sample_history_ok:
  assumes "case_table.allowed_path (rc_state c) ss" "wf_case c" "rc_updated_at c \<le> Aware 2000"
  shows "\<exists>d ts. sample_history c ss = Inr (d, ts) \<and> map ct_after_state ts = ss"
  using assms
proof (induction ss arbitrary: c)
  case (Cons s ss)
  then have "can_transition (rc_state c) s" by (simp add: can_transition_def)
  with Cons.prems obtain t where t:
    "transition_case c (sample_request c s) = Inr (moved c (sample_request c s), t)"
    using transition_case_accepts [OF sample_request_acceptable] by blast
  note D = transition_case_InrD [OF t]
  have "\<exists>d ts. sample_history (moved c (sample_request c s)) ss = Inr (d, ts)
      \<and> map ct_after_state ts = ss"
    by (rule Cons.IH) (use Cons.prems D(2) in \<open>simp_all add: sample_request_def\<close>)
  with t D(10) show ?case by (auto simp: sample_request_def)
qed simp

lemma wf_sample_case: "wf_case sample_case"
  by (simp add: wf_case_def post_init_case_def sample_case_def run_validation TERMINAL_STATES_def)

text \<open>A history that starts at the sample case and enters the given states.\<close>

lemma sample_history_exists:
  assumes "case_table.allowed_path DETECTED ss"
  shows "\<exists>ts d. case_history sample_case ts d \<and> map ct_after_state ts = ss"
  using sample_history_ok [of sample_case ss] assms wf_sample_case sample_history_case_history
  by (fastforce simp: sample_case_def)

theorem case_history_closed_once_witness:
  "\<exists>ts t d. case_history sample_case (ts @ [t]) d \<and> ct_after_state t = RECOVERED
     \<and> truthy (ct_authoritative_evidence_reference t)"
proof -
  obtain us d where us: "case_history sample_case us d"
      "map ct_after_state us =
         [DIAGNOSING, DECISION_PENDING, POLICY_CHECK, READY, EXECUTING, VERIFYING] @ [RECOVERED]"
    using sample_history_exists
      [of "[DIAGNOSING, DECISION_PENDING, POLICY_CHECK, READY, EXECUTING, VERIFYING, RECOVERED]"]
    by auto
  then obtain ts t where "us = ts @ [t]" "ct_after_state t = RECOVERED"
    by (auto simp: map_eq_append_conv)
  with case_history_closed_once [of sample_case ts t "[]" d] us(1) show ?thesis
    by (auto simp: TERMINAL_STATES_def)
qed

theorem case_history_policy_before_execution_witness:
  "\<exists>ts p r t d. case_history sample_case (ts @ [p, r] @ [t]) d \<and> ct_after_state t = EXECUTING
     \<and> ct_after_state p = POLICY_CHECK \<and> ct_after_state r = READY"
proof -
  obtain us d where us: "case_history sample_case us d"
      "map ct_after_state us = [DIAGNOSING, DECISION_PENDING, POLICY_CHECK, READY] @ [EXECUTING]"
    using sample_history_exists [of "[DIAGNOSING, DECISION_PENDING, POLICY_CHECK, READY, EXECUTING]"]
    by auto
  then obtain ts t where ts: "us = ts @ [t]" "ct_after_state t = EXECUTING"
    by (auto simp: map_eq_append_conv)
  with case_history_policy_before_execution [of sample_case ts t "[]" d] us(1) show ?thesis
    by (fastforce simp: sample_case_def)
qed

end
