(* ===== verification/Digests.thy ===== *)
theory Digests
  imports Py_Json Sha256 "HOL-Library.Multiset"
begin

text \<open>
  The interface of a content digest: an identifier computed as the SHA-256 digest of a
  printed document. Action fingerprints, policy snapshots, idempotency keys and the hash
  chain of the audit ledger each provide one. SHA-256 is the real function, which is not
  injective; equal digests of different documents are stated as a collision, the two
  concrete texts whose digests agree.
\<close>

definition sha_collision :: "string \<Rightarrow> string \<Rightarrow> bool" where
  "sha_collision x y \<longleftrightarrow> x \<noteq> y \<and> sha256 (utf8 x) = sha256 (utf8 y)"

lemma sha256_hex_eq_iff: "sha256_hex x = sha256_hex y \<longleftrightarrow> x = y \<or> sha_collision x y"
  by (auto simp: sha256_hex_def sha_collision_def)

lemma sha_collision_sym: "sha_collision x y \<longleftrightarrow> sha_collision y x"
  by (auto simp: sha_collision_def)

locale digest_scheme =
  fixes document :: "'a \<Rightarrow> string" and content :: "'a \<Rightarrow> 'c"
  assumes document_content: "document a = document b \<longleftrightarrow> content a = content b"
begin

definition digest :: "'a \<Rightarrow> string" where
  "digest a = sha256_hex (document a)"

lemma digest_length: "length (digest a) = 64"
  by (simp add: digest_def)

lemma digest_eq_iff:
  "digest a = digest b \<longleftrightarrow> content a = content b \<or> sha_collision (document a) (document b)"
  by (simp add: digest_def sha256_hex_eq_iff document_content)

lemma digest_binds:
  "digest a = digest b \<Longrightarrow> \<not> sha_collision (document a) (document b) \<Longrightarrow> content a = content b"
  by (simp add: digest_eq_iff)

end

text \<open>A JSON document whose keys are already in order prints as it stands.\<close>

lemma sort_keys_sorted_object:
  assumes "sorted (map fst kvs)" "\<And>kv. kv \<in> set kvs \<Longrightarrow> sort_keys (snd kv) = snd kv"
  shows "sort_keys (JObj kvs) = JObj kvs"
proof -
  have "map (\<lambda>kv. (fst kv, sort_keys (snd kv))) kvs = kvs"
    using assms(2) by (induction kvs) auto
  with assms(1) show ?thesis by (simp add: sorted_sort_id sort_key_id_if_sorted)
qed

text \<open>
  Sorting keys loses nothing: two objects with the same distinct keys in the same order have
  equal sorted forms only when their values do.
\<close>


lemma same_keys_mset:
  assumes "mset xs = mset ys" "map fst xs = map fst ys" "distinct (map fst xs)"
  shows "xs = ys"
proof (rule nth_equalityI)
  show l: "length xs = length ys" using assms(2) by (metis length_map)
  fix i assume i: "i < length xs"
  then have "xs ! i \<in> set ys" using assms(1) by (metis nth_mem set_mset_mset)
  then obtain j where j: "j < length ys" "xs ! i = ys ! j" by (metis in_set_conv_nth)
  have "map fst xs ! i = map fst xs ! j" using i j l assms(2) by (metis nth_map)
  then have "i = j" using assms(3) i j l by (metis distinct_conv_nth length_map)
  with j show "xs ! i = ys ! i" by simp
qed

lemma sort_keys_same_keys:
  assumes "sort_keys (JObj kvs) = sort_keys (JObj lvs)" "map fst kvs = map fst lvs"
    "distinct (map fst kvs)"
  shows "map (\<lambda>kv. sort_keys (snd kv)) kvs = map (\<lambda>kv. sort_keys (snd kv)) lvs"
proof -
  let ?f = "\<lambda>kv. (fst kv, sort_keys (snd kv))"
  from assms(1) have "sort_key fst (map ?f kvs) = sort_key fst (map ?f lvs)" by simp
  then have "mset (sort_key fst (map ?f kvs)) = mset (sort_key fst (map ?f lvs))" by (rule arg_cong)
  then have "mset (map ?f kvs) = mset (map ?f lvs)" by (simp only: mset_sort)
  then have "map ?f kvs = map ?f lvs"
    by (rule same_keys_mset) (use assms(2,3) in \<open>simp_all add: comp_def\<close>)
  then have "map snd (map ?f kvs) = map snd (map ?f lvs)" by simp
  then show ?thesis by (simp add: comp_def)
qed


section \<open>Hash chains\<close>

text \<open>
  The interface of a hash chain: every entry names the hash of the one before it and carries
  the digest of its own document, which includes that name. A chain is then determined by its
  length and its last hash.
\<close>

locale hash_chain =
  fixes previous :: "'e \<Rightarrow> string" and own :: "'e \<Rightarrow> string" and document :: "'e \<Rightarrow> string"
  assumes document_previous: "document e = document f \<Longrightarrow> previous e = previous f"
begin

fun chained :: "string \<Rightarrow> 'e list \<Rightarrow> bool" where
  "chained p [] \<longleftrightarrow> True"
| "chained p (e # es) \<longleftrightarrow> previous e = p \<and> own e = sha256_hex (document e) \<and> chained (own e) es"

fun last_hash :: "string \<Rightarrow> 'e list \<Rightarrow> string" where
  "last_hash p [] = p"
| "last_hash p (e # es) = last_hash (own e) es"

lemma chained_append: "chained p (es @ fs) \<longleftrightarrow> chained p es \<and> chained (last_hash p es) fs"
  by (induction es arbitrary: p) auto

lemma last_hash_append: "last_hash p (es @ fs) = last_hash (last_hash p es) fs"
  by (induction es arbitrary: p) auto

text \<open>Chains of one length with one last hash agree entry by entry, or two of their documents collide.\<close>

lemma chain_agrees:
  assumes "chained p es" "chained q fs" "length es = length fs" "last_hash p es = last_hash q fs"
  shows "(\<exists>e\<in>set es. \<exists>f\<in>set fs. sha_collision (document e) (document f))
    \<or> map document es = map document fs"
  using assms
proof (induction es arbitrary: fs rule: rev_induct)
  case (snoc e es)
  then obtain f fs' where fs: "fs = fs' @ [f]" by (cases fs rule: rev_exhaust) auto
  show ?case
  proof (cases "sha_collision (document e) (document f)")
    case True
    then show ?thesis using fs by auto
  next
    case False
    have "own e = own f" "own e = sha256_hex (document e)" "own f = sha256_hex (document f)"
      using snoc.prems fs by (simp_all add: chained_append last_hash_append)
    with False have doc: "document e = document f" by (metis sha256_hex_eq_iff)
    then have "previous e = previous f" by (rule document_previous)
    then have "last_hash p es = last_hash q fs'"
      using snoc.prems fs by (simp add: chained_append)
    with snoc.IH [of fs'] snoc.prems fs doc show ?thesis by (auto simp: chained_append)
  qed
qed simp

end

end
