(* ===== verification/Reviews.thy ===== *)
theory Reviews
  imports Digests State_Tables
begin

text \<open>
  \<open>revenueguard_domain/reviews.py\<close>: the life of a human review and the fingerprint that
  binds an approval to one exact action under one exact policy.
\<close>


section \<open>Data\<close>

datatype ReviewStatus = REQUESTED | APPROVED | REJECTED | EXPIRED

datatype ReviewDecisionType = APPROVE | REJECT

record ActionFingerprintInput =
  fi_case_id :: string
  fi_action_type :: string
  fi_target :: string
  fi_amount_minor :: int
  fi_currency :: string
  fi_logical_attempt :: int
  fi_policy_digest :: string

text \<open>
  \<open>str.isupper\<close>: at least one uppercase character and no lowercase one, over the code points
  up to U+00FF.
\<close>

definition is_upper_char :: "char \<Rightarrow> bool" where
  "is_upper_char c \<longleftrightarrow>
     (let n = (of_char c :: nat) in 65 \<le> n \<and> n \<le> 90 \<or> 192 \<le> n \<and> n \<le> 222 \<and> n \<noteq> 215)"

definition is_lower_char :: "char \<Rightarrow> bool" where
  "is_lower_char c \<longleftrightarrow>
     (let n = (of_char c :: nat)
      in 97 \<le> n \<and> n \<le> 122 \<or> n = 170 \<or> n = 181 \<or> n = 186 \<or> 223 \<le> n \<and> n \<noteq> 247)"

definition isupper :: "string \<Rightarrow> bool" where
  "isupper s \<longleftrightarrow> (\<exists>c\<in>set s. is_upper_char c) \<and> (\<forall>c\<in>set s. \<not> is_lower_char c)"

text \<open>The repeated check \<open>if not value: raise ValueError(f"{name} is required")\<close>.\<close>

definition required :: "string \<Rightarrow> string \<Rightarrow> bool \<times> exn" where
  "required name v = (v = [], ValueError (name @ '' is required''))"

lemma fst_required [simp]: "fst (required n v) \<longleftrightarrow> v = []"
  by (simp add: required_def)

definition post_init_fingerprint :: "ActionFingerprintInput \<Rightarrow> ActionFingerprintInput result" where
  "post_init_fingerprint i =
     bindR (raise_first
       [required ''case_id'' (fi_case_id i),
        required ''action_type'' (fi_action_type i),
        required ''target'' (fi_target i),
        required ''currency'' (fi_currency i),
        required ''policy_digest'' (fi_policy_digest i),
        (fi_amount_minor i < 0, ValueError ''amount_minor cannot be negative''),
        (length (fi_currency i) \<noteq> 3 \<or> \<not> isupper (fi_currency i),
           ValueError ''currency must be a three-letter uppercase code''),
        (fi_logical_attempt i < 0, ValueError ''logical_attempt cannot be negative'')])
     (\<lambda>_. Inr i)"

definition fingerprint_document :: "ActionFingerprintInput \<Rightarrow> string" where
  "fingerprint_document i = json_dumps True (JObj
     [(''action_type'', JStr (fi_action_type i)),
      (''amount_minor'', JInt (fi_amount_minor i)),
      (''case_id'', JStr (fi_case_id i)),
      (''currency'', JStr (fi_currency i)),
      (''logical_attempt'', JInt (fi_logical_attempt i)),
      (''policy_digest'', JStr (fi_policy_digest i)),
      (''target'', JStr (fi_target i))])"

definition fingerprint_digest :: "ActionFingerprintInput \<Rightarrow> string" where
  "fingerprint_digest i = sha256_hex (fingerprint_document i)"

record HumanReviewRequest =
  rv_review_id :: string
  rv_merchant_id :: string
  rv_case_id :: string
  rv_action_fingerprint :: string
  rv_proposed_action_type :: string
  rv_evidence_references :: "string list"
  rv_policy_version :: string
  rv_policy_digest :: string
  rv_reason_code :: string
  rv_risk_detail :: string
  rv_requested_at :: datetime
  rv_expires_at :: datetime
  rv_status :: ReviewStatus
  rv_reviewer_id :: "string option"
  rv_rationale :: "string option"
  rv_decided_at :: "datetime option"

text \<open>The checks of the decision metadata, run once the timestamps are converted.\<close>

definition review_decision_checks :: "HumanReviewRequest \<Rightarrow> (bool \<times> exn) list" where
  "review_decision_checks r =
     (if rv_status r = REQUESTED then
        [(truthy (rv_reviewer_id r) \<or> truthy (rv_rationale r) \<or> rv_decided_at r \<noteq> None,
            ValueError ''requested review cannot contain decision metadata'')]
      else case rv_decided_at r of
        None \<Rightarrow> [(True, ValueError ''decided review requires reviewer, rationale, and time'')]
      | Some decided \<Rightarrow>
          [(\<not> truthy (rv_reviewer_id r) \<or> \<not> truthy (rv_rationale r),
              ValueError ''decided review requires reviewer, rationale, and time''),
           (decided < rv_requested_at r,
              ValueError ''review decision cannot precede its request''),
           (rv_status r \<in> {APPROVED, REJECTED} \<and> rv_expires_at r \<le> decided,
              ValueError ''approval or rejection must precede review expiry''),
           (rv_status r = EXPIRED \<and> decided < rv_expires_at r,
              ValueError ''expired review decision cannot precede expiry'')])"

definition post_init_review :: "HumanReviewRequest \<Rightarrow> HumanReviewRequest result" where
  "post_init_review r =
     bindR (raise_first
       [required ''review_id'' (rv_review_id r),
        required ''merchant_id'' (rv_merchant_id r),
        required ''case_id'' (rv_case_id r),
        required ''action_fingerprint'' (rv_action_fingerprint r),
        required ''proposed_action_type'' (rv_proposed_action_type r),
        required ''policy_version'' (rv_policy_version r),
        required ''policy_digest'' (rv_policy_digest r),
        required ''reason_code'' (rv_reason_code r),
        required ''risk_detail'' (rv_risk_detail r),
        (length (rv_action_fingerprint r) \<noteq> 64 \<or> length (rv_policy_digest r) \<noteq> 64,
           ValueError ''fingerprint and policy digest must be SHA-256 hex digests''),
        (rv_evidence_references r = [] \<or> \<not> distinct (rv_evidence_references r),
           ValueError ''evidence references must be non-empty and unique'')])
     (\<lambda>_. bindR (utc ''requested_at'' (rv_requested_at r)) (\<lambda>requested_at.
     bindR (utc ''expires_at'' (rv_expires_at r)) (\<lambda>expires_at.
     if expires_at \<le> requested_at then Inl (ValueError ''review expiry must follow request time'')
     else bindR (utc_opt ''decided_at'' (rv_decided_at r)) (\<lambda>decided.
     let r' = r\<lparr>rv_requested_at := requested_at, rv_expires_at := expires_at,
                rv_decided_at := decided\<rparr>
     in bindR (raise_first (review_decision_checks r')) (\<lambda>_. Inr r')))))"

definition is_matching_approval ::
    "HumanReviewRequest \<Rightarrow> string \<Rightarrow> string \<Rightarrow> datetime \<Rightarrow> bool result" where
  "is_matching_approval r fingerprint policy_digest evaluated_at =
     bindR (utc ''evaluated_at'' evaluated_at) (\<lambda>now.
     Inr (rv_status r = APPROVED \<and> now < rv_expires_at r
          \<and> rv_action_fingerprint r = fingerprint \<and> rv_policy_digest r = policy_digest))"

record HumanReviewDecision =
  rd_review_id :: string
  rd_decision :: ReviewDecisionType
  rd_reviewer_id :: string
  rd_rationale :: string
  rd_decided_at :: datetime

definition post_init_review_decision :: "HumanReviewDecision \<Rightarrow> HumanReviewDecision result" where
  "post_init_review_decision d =
     bindR (raise_first
       [required ''review_id'' (rd_review_id d),
        required ''reviewer_id'' (rd_reviewer_id d),
        required ''rationale'' (rd_rationale d)])
     (\<lambda>_. bindR (utc ''decided_at'' (rd_decided_at d)) (\<lambda>decided.
     Inr (d\<lparr>rd_decided_at := decided\<rparr>)))"

definition decide_review ::
    "HumanReviewRequest \<Rightarrow> HumanReviewDecision \<Rightarrow> HumanReviewRequest result" where
  "decide_review request decision =
     bindR (raise_first
       [(rv_status request \<noteq> REQUESTED, ValueError ''only a requested review can be decided''),
        (rv_review_id request \<noteq> rd_review_id decision,
           ValueError ''review decision targets a different request''),
        (rv_expires_at request \<le> rd_decided_at decision,
           ValueError ''expired review cannot be approved or rejected''),
        (rd_decided_at decision < rv_requested_at request,
           ValueError ''review decision cannot precede its request'')])
     (\<lambda>_. let status = (if rd_decision decision = APPROVE then APPROVED else REJECTED)
     in post_init_review
          (request\<lparr>rv_status := status, rv_reviewer_id := Some (rd_reviewer_id decision),
             rv_rationale := Some (rd_rationale decision),
             rv_decided_at := Some (rd_decided_at decision)\<rparr>))"

definition expire_review :: "HumanReviewRequest \<Rightarrow> datetime \<Rightarrow> string \<Rightarrow> HumanReviewRequest result" where
  "expire_review request expired_at actor =
     bindR (utc ''expired_at'' expired_at) (\<lambda>now.
     bindR (raise_first
       [(rv_status request \<noteq> REQUESTED, ValueError ''only a requested review can expire''),
        (now < rv_expires_at request, ValueError ''review has not reached its expiry''),
        (actor = [], ValueError ''actor is required'')])
     (\<lambda>_. post_init_review
          (request\<lparr>rv_status := EXPIRED, rv_reviewer_id := Some actor,
             rv_rationale := Some ''REVIEW_EXPIRED'', rv_decided_at := Some now\<rparr>)))"


section \<open>Validation\<close>

definition wf_review :: "HumanReviewRequest \<Rightarrow> bool" where
  "wf_review r \<longleftrightarrow> post_init_review r = Inr r"

definition wf_review_decision :: "HumanReviewDecision \<Rightarrow> bool" where
  "wf_review_decision d \<longleftrightarrow> post_init_review_decision d = Inr d"

lemma post_init_review_Inr: "post_init_review r = Inr r' \<Longrightarrow> r' = r \<and> wf_review r"
  by (auto simp: post_init_review_def wf_review_def bindR_eq_Inr utc_eq_Inr utc_opt_eq_Inr
      Let_def split: if_splits)

lemma wf_reviewD:
  assumes "wf_review r"
  shows "is_aware (rv_requested_at r)" "is_aware (rv_expires_at r)"
    "rv_requested_at r < rv_expires_at r" "length (rv_action_fingerprint r) = 64"
    "length (rv_policy_digest r) = 64"
    "\<forall>c\<in>set (review_decision_checks r). \<not> fst c"
    "rv_review_id r \<noteq> []" "rv_case_id r \<noteq> []" "rv_merchant_id r \<noteq> []"
  using assms
  by (auto simp: wf_review_def post_init_review_def bindR_eq_Inr utc_eq_Inr utc_opt_eq_Inr
      Let_def raise_first_ok_iff not_le split: if_splits)

lemma wf_review_decisionD:
  assumes "wf_review_decision d"
  shows "is_aware (rd_decided_at d)" "rd_reviewer_id d \<noteq> []" "rd_rationale d \<noteq> []"
    "rd_review_id d \<noteq> []"
  using assms
  by (auto simp: wf_review_decision_def post_init_review_decision_def bindR_eq_Inr utc_eq_Inr
      raise_first_ok_iff)

text \<open>A valid review stays valid when its decision fields change to ones that pass the checks.\<close>

lemma wf_review_decided:
  assumes "wf_review r" "is_aware t" "\<forall>c\<in>set (review_decision_checks
      (r\<lparr>rv_status := s, rv_reviewer_id := u, rv_rationale := v, rv_decided_at := Some t\<rparr>)). \<not> fst c"
  shows "post_init_review
      (r\<lparr>rv_status := s, rv_reviewer_id := u, rv_rationale := v, rv_decided_at := Some t\<rparr>) =
      Inr (r\<lparr>rv_status := s, rv_reviewer_id := u, rv_rationale := v, rv_decided_at := Some t\<rparr>)"
  using assms
  by (auto simp: wf_review_def post_init_review_def bindR_eq_Inr utc_eq_Inr utc_opt_eq_Inr
      Let_def raise_first_ok_iff not_le split: if_splits)


section \<open>The fingerprint binds an approval\<close>

lemma fingerprint_document_inject: "fingerprint_document i = fingerprint_document j \<longleftrightarrow> i = j"
proof -
  have "sort_keys (JObj
     [(''action_type'', JStr (fi_action_type i)), (''amount_minor'', JInt (fi_amount_minor i)),
      (''case_id'', JStr (fi_case_id i)), (''currency'', JStr (fi_currency i)),
      (''logical_attempt'', JInt (fi_logical_attempt i)),
      (''policy_digest'', JStr (fi_policy_digest i)), (''target'', JStr (fi_target i))]) =
     JObj
     [(''action_type'', JStr (fi_action_type i)), (''amount_minor'', JInt (fi_amount_minor i)),
      (''case_id'', JStr (fi_case_id i)), (''currency'', JStr (fi_currency i)),
      (''logical_attempt'', JInt (fi_logical_attempt i)),
      (''policy_digest'', JStr (fi_policy_digest i)), (''target'', JStr (fi_target i))]" for i
    by (rule sort_keys_sorted_object) auto
  then show ?thesis
    unfolding fingerprint_document_def json_dumps_inject
    by (auto intro: ActionFingerprintInput.equality)
qed

interpretation fingerprint: digest_scheme fingerprint_document "\<lambda>i. i"
  rewrites "digest_scheme.digest fingerprint_document = fingerprint_digest"
proof -
  show dig: "digest_scheme fingerprint_document (\<lambda>i. i)"
    by unfold_locales (rule fingerprint_document_inject)
  show "digest_scheme.digest fingerprint_document = fingerprint_digest"
    by (rule ext) (simp add: digest_scheme.digest_def [OF dig] fingerprint_digest_def)
qed

text \<open>
  An approval is bound to the whole action: a review that matches as an approval
  of two fingerprint inputs was given for one and the same case, action type, target, amount,
  currency, attempt and policy digest, unless the two documents are a SHA-256 collision. It
  matches only while the review is \<open>APPROVED\<close> and before its expiry.
\<close>

theorem approval_binds_action:
  assumes "is_matching_approval r (fingerprint_digest i) p t = Inr True"
    and "is_matching_approval r (fingerprint_digest j) q u = Inr True"
  shows "(i = j \<or> sha_collision (fingerprint_document i) (fingerprint_document j))
    \<and> p = q \<and> rv_status r = APPROVED \<and> t < rv_expires_at r \<and> u < rv_expires_at r"
  using assms 
  by (auto simp: is_matching_approval_def bindR_eq_Inr utc_eq_Inr fingerprint.digest_eq_iff [symmetric])

definition sample_input :: ActionFingerprintInput where
  "sample_input = \<lparr>fi_case_id = ''case_1'', fi_action_type = ''SEND_REMINDER'',
     fi_target = ''cust_1'', fi_amount_minor = 60000, fi_currency = ''INR'',
     fi_logical_attempt = 1, fi_policy_digest = replicate 64 CHR ''a''\<rparr>"

definition sample_review :: HumanReviewRequest where
  "sample_review = \<lparr>rv_review_id = ''review_1'', rv_merchant_id = ''merchant_1'',
     rv_case_id = ''case_1'', rv_action_fingerprint = fingerprint_digest sample_input,
     rv_proposed_action_type = ''SEND_REMINDER'', rv_evidence_references = [''event/1''],
     rv_policy_version = ''p1'', rv_policy_digest = replicate 64 CHR ''a'',
     rv_reason_code = ''HUMAN_REVIEW_REQUIRED'', rv_risk_detail = ''amount'',
     rv_requested_at = Aware 100, rv_expires_at = Aware 900, rv_status = REQUESTED,
     rv_reviewer_id = None, rv_rationale = None, rv_decided_at = None\<rparr>"

definition sample_approval :: HumanReviewDecision where
  "sample_approval = \<lparr>rd_review_id = ''review_1'', rd_decision = APPROVE,
     rd_reviewer_id = ''alice'', rd_rationale = ''ok'', rd_decided_at = Aware 500\<rparr>"

lemma wf_sample_review: "wf_review sample_review"
  by (simp add: wf_review_def post_init_review_def sample_review_def raise_first_okI
      review_decision_checks_def fingerprint_digest_def Let_def)

lemma wf_sample_approval: "wf_review_decision sample_approval"
  by (simp add: wf_review_decision_def post_init_review_decision_def sample_approval_def
      raise_first_okI)

theorem approval_binds_action_witness:
  "\<exists>r. is_matching_approval r (fingerprint_digest sample_input) (replicate 64 CHR ''a'') (Aware 600)
       = Inr True
     \<and> Aware 600 < rv_expires_at r"
proof -
  let ?r = "sample_review\<lparr>rv_status := APPROVED, rv_reviewer_id := Some ''alice'',
    rv_rationale := Some ''ok'', rv_decided_at := Some (Aware 500)\<rparr>"
  have m: "is_matching_approval ?r (fingerprint_digest sample_input) (replicate 64 CHR ''a'')
      (Aware 600) = Inr True"
    by (simp add: is_matching_approval_def sample_review_def)
  from approval_binds_action [OF m m] m show ?thesis by blast
qed


section \<open>Deciding and expiring\<close>

text \<open>The review an accepted decision or an expiry leaves behind.\<close>

definition decided_review :: "HumanReviewRequest \<Rightarrow> HumanReviewDecision \<Rightarrow> HumanReviewRequest" where
  "decided_review r d =
     r\<lparr>rv_status := (if rd_decision d = APPROVE then APPROVED else REJECTED),
       rv_reviewer_id := Some (rd_reviewer_id d), rv_rationale := Some (rd_rationale d),
       rv_decided_at := Some (rd_decided_at d)\<rparr>"

definition expired_review :: "HumanReviewRequest \<Rightarrow> datetime \<Rightarrow> string \<Rightarrow> HumanReviewRequest" where
  "expired_review r t actor =
     r\<lparr>rv_status := EXPIRED, rv_reviewer_id := Some actor,
       rv_rationale := Some ''REVIEW_EXPIRED'', rv_decided_at := Some t\<rparr>"

lemma decide_review_eq:
  assumes "wf_review r" "wf_review_decision d" "rv_status r = REQUESTED"
    "rv_review_id r = rd_review_id d" "rv_requested_at r \<le> rd_decided_at d"
    "rd_decided_at d < rv_expires_at r"
  shows "decide_review r d = Inr (decided_review r d)"
proof -
  have "\<forall>c\<in>set (review_decision_checks (decided_review r d)). \<not> fst c"
    using assms wf_review_decisionD [OF assms(2)]
    by (auto simp: review_decision_checks_def decided_review_def)
  then have "post_init_review (decided_review r d) = Inr (decided_review r d)"
    using wf_review_decided [OF assms(1), of "rd_decided_at d"] wf_review_decisionD [OF assms(2)]
    unfolding decided_review_def by simp
  with assms(3-) show ?thesis
    by (simp add: decide_review_def raise_first_okI not_le not_less decided_review_def)
qed

lemma expire_review_eq:
  assumes "wf_review r" "rv_status r = REQUESTED" "is_aware t" "rv_expires_at r \<le> t" "a \<noteq> []"
  shows "expire_review r t a = Inr (expired_review r t a)"
proof -
  have "\<forall>c\<in>set (review_decision_checks (expired_review r t a)). \<not> fst c"
    using assms wf_reviewD(3) [OF assms(1)]
    by (auto simp: review_decision_checks_def expired_review_def)
  then have "post_init_review (expired_review r t a) = Inr (expired_review r t a)"
    using wf_review_decided [OF assms(1,3)] unfolding expired_review_def by simp
  with assms(2-) show ?thesis
    by (simp add: expire_review_def utc_aware raise_first_okI not_less expired_review_def)
qed

lemma decide_review_InrD:
  assumes "decide_review r d = Inr r'"
  shows "r' = decided_review r d" "wf_review r'" "rv_status r = REQUESTED"
    "rv_review_id r = rd_review_id d" "rv_requested_at r \<le> rd_decided_at d"
    "rd_decided_at d < rv_expires_at r"
  using assms
  by (auto simp: decide_review_def bindR_eq_Inr raise_first_ok_iff not_le not_less
      decided_review_def dest!: post_init_review_Inr)

lemma expire_review_InrD:
  assumes "expire_review r t a = Inr r'"
  shows "r' = expired_review r t a" "wf_review r'" "rv_status r = REQUESTED" "is_aware t"
    "rv_expires_at r \<le> t" "a \<noteq> []"
  using assms
  by (auto simp: expire_review_def bindR_eq_Inr utc_eq_Inr raise_first_ok_iff not_less
      expired_review_def dest!: post_init_review_Inr)

text \<open>
  A pending review is settled in one way, which time decides: a valid decision
  that names the review is carried out exactly when it falls between the request and the
  expiry, an expiry exactly from the expiry time on; what is left is a valid review, and
  neither a decision nor an expiry is accepted for it again.
\<close>

theorem review_settled_once:
  assumes "wf_review r" and "rv_status r = REQUESTED"
    and "wf_review_decision d" and "rv_review_id r = rd_review_id d"
    and "is_aware t" and "actor \<noteq> []"
  shows "((\<exists>r'. decide_review r d = Inr r') \<longleftrightarrow>
        rv_requested_at r \<le> rd_decided_at d \<and> rd_decided_at d < rv_expires_at r)
    \<and> ((\<exists>r'. expire_review r t actor = Inr r') \<longleftrightarrow> rv_expires_at r \<le> t)
    \<and> (\<forall>r'. decide_review r d = Inr r' \<or> expire_review r t actor = Inr r' \<longrightarrow>
        wf_review r' \<and> (\<forall>e. \<exists>x. decide_review r' e = Inl x)
        \<and> (\<forall>u a. \<exists>x. expire_review r' u a = Inl x))"
proof (intro conjI allI impI)
  show "(\<exists>r'. decide_review r d = Inr r') \<longleftrightarrow>
      rv_requested_at r \<le> rd_decided_at d \<and> rd_decided_at d < rv_expires_at r"
    using decide_review_eq [OF assms(1,3,2,4)] decide_review_InrD by metis
  show "(\<exists>r'. expire_review r t actor = Inr r') \<longleftrightarrow> rv_expires_at r \<le> t"
    using expire_review_eq [OF assms(1,2,5) _ assms(6)] expire_review_InrD by metis
next
  fix r'
  assume settled: "decide_review r d = Inr r' \<or> expire_review r t actor = Inr r'"
  then show "wf_review r'" by (auto dest: decide_review_InrD(2) expire_review_InrD(2))
  from settled have s: "rv_status r' \<noteq> REQUESTED"
    by (auto dest!: decide_review_InrD(1) expire_review_InrD(1)
          simp: decided_review_def expired_review_def split: if_splits)
  show "\<exists>x. decide_review r' e = Inl x" for e
    using s decide_review_InrD(3) by (cases "decide_review r' e") auto
  show "\<exists>x. expire_review r' u a = Inl x" for u a
    using s expire_review_InrD(3) by (cases "expire_review r' u a") auto
qed

theorem review_settled_once_witness:
  "(\<exists>r'. decide_review sample_review sample_approval = Inr r')
   \<and> (\<exists>r'. expire_review sample_review (Aware 900) ''SYSTEM'' = Inr r')
   \<and> \<not> (\<exists>r'. expire_review sample_review (Aware 899) ''SYSTEM'' = Inr r')"
proof -
  have r: "rv_status sample_review = REQUESTED" "rv_review_id sample_review = rd_review_id sample_approval"
    "rv_requested_at sample_review = Aware 100" "rv_expires_at sample_review = Aware 900"
    "rd_decided_at sample_approval = Aware 500"
    by (simp_all add: sample_review_def sample_approval_def)
  have aware: "is_aware (Aware t)" "''SYSTEM'' \<noteq> []" for t by simp_all
  note H = review_settled_once [OF wf_sample_review r(1) wf_sample_approval r(2) aware]
  note decides = H [THEN conjunct1, unfolded r(3-5)]
  note expires = H [THEN conjunct2, THEN conjunct1, unfolded r(4)]
  show ?thesis using decides expires by simp
qed


section \<open>The table of review statuses\<close>

fun review_next :: "ReviewStatus \<Rightarrow> ReviewStatus set" where
  "review_next REQUESTED = {APPROVED, REJECTED, EXPIRED}"
| "review_next s = {}"

text \<open>A step of the review of one request: one of the two operations succeeds.\<close>

inductive review_step :: "HumanReviewRequest \<Rightarrow> HumanReviewRequest \<Rightarrow> bool" where
  decide: "decide_review r d = Inr r' \<Longrightarrow> review_step r r'"
| expire: "expire_review r t actor = Inr r' \<Longrightarrow> review_step r r'"

inductive_cases review_stepE: "review_step r r'"

lemma review_step_table: "review_step r r' \<Longrightarrow> rv_status r' \<in> review_next (rv_status r)"
proof (erule review_stepE)
  fix d
  assume "decide_review r d = Inr r'"
  note decide_review_InrD(1,3) [OF this]
  then show ?thesis by (simp add: decided_review_def)
next
  fix t actor
  assume "expire_review r t actor = Inr r'"
  note expire_review_InrD(1,3) [OF this]
  then show ?thesis by (simp add: expired_review_def)
qed

interpretation review_table: ranked_table review_next "\<lambda>s. s \<noteq> REQUESTED"
  "\<lambda>s. if s = REQUESTED then 0 else 1" 1
proof
  show "s \<noteq> REQUESTED \<longleftrightarrow> review_next s = {}" for s by (cases s) simp_all
  show "t \<in> review_next s \<Longrightarrow>
    (if s = REQUESTED then 0 else 1) < (if t = REQUESTED then 0 else 1 :: nat)" for s t
    by (cases s) auto
qed simp

end
