(* ===== verification/Policy.thy ===== *)
theory Policy
  imports Cases Reviews "HOL-Library.Product_Lexorder"
begin

text \<open>
  \<open>revenueguard_domain/policy.py\<close>: the deterministic merchant policy. The definitions follow
  the module from its enumerations to \<open>evaluate_policy\<close>.

  Time zones. \<open>ZoneInfo\<close> reads the time-zone database of the host, which is data outside the
  program. A zone is a parameter: the offset in force at an instant, and the offset that
  \<open>astimezone\<close> takes for a wall-clock time (\<open>fold=0\<close>), both in microseconds; \<open>zones\<close> is the
  database, \<open>None\<close> for a name it does not know.
\<close>


section \<open>Data\<close>

datatype ActionType =
    DEFER_RETRY | CREATE_PAYMENT_LINK | REQUEST_PAYMENT_METHOD_UPDATE | SEND_REMINDER
  | SCHEDULE_PROMISE_REMINDER | PAUSE_RETRIES | RESUME_DEFERRED_CASE | ESCALATE_HUMAN
  | STOP_AUTOMATION | NO_ACTION

primrec action_value :: "ActionType \<Rightarrow> string" where
  "action_value DEFER_RETRY = ''DEFER_RETRY''"
| "action_value CREATE_PAYMENT_LINK = ''CREATE_PAYMENT_LINK''"
| "action_value REQUEST_PAYMENT_METHOD_UPDATE = ''REQUEST_PAYMENT_METHOD_UPDATE''"
| "action_value SEND_REMINDER = ''SEND_REMINDER''"
| "action_value SCHEDULE_PROMISE_REMINDER = ''SCHEDULE_PROMISE_REMINDER''"
| "action_value PAUSE_RETRIES = ''PAUSE_RETRIES''"
| "action_value RESUME_DEFERRED_CASE = ''RESUME_DEFERRED_CASE''"
| "action_value ESCALATE_HUMAN = ''ESCALATE_HUMAN''"
| "action_value STOP_AUTOMATION = ''STOP_AUTOMATION''"
| "action_value ActionType.NO_ACTION = ''NO_ACTION''"

lemma action_value_inject [simp]: "action_value a = action_value b \<longleftrightarrow> a = b"
  by (cases a; cases b) simp_all

datatype ActionClass =
    RETRY | MONEY_INTENT | CUSTOMER_CONTACT | INTERNAL | ESCALATION | STOP | NO_ACTION

datatype ContactChannel = EMAIL | SMS | WHATSAPP

primrec channel_value :: "ContactChannel \<Rightarrow> string" where
  "channel_value EMAIL = ''EMAIL''"
| "channel_value SMS = ''SMS''"
| "channel_value WHATSAPP = ''WHATSAPP''"

datatype ConsentState = GRANTED | DENIED | UNKNOWN

datatype IncidentScope = PAYMENT_RAIL | GATEWAY | ISSUER | CONTACT_CHANNEL | ALL_AUTOMATION

datatype PolicyResult = PROCEED | DEFER | SKIP | STOP | REQUIRE_HUMAN

primrec policy_result_value :: "PolicyResult \<Rightarrow> string" where
  "policy_result_value PROCEED = ''PROCEED''"
| "policy_result_value DEFER = ''DEFER''"
| "policy_result_value SKIP = ''SKIP''"
| "policy_result_value PolicyResult.STOP = ''STOP''"
| "policy_result_value REQUIRE_HUMAN = ''REQUIRE_HUMAN''"

primrec ACTION_CLASSES :: "ActionType \<Rightarrow> ActionClass" where
  "ACTION_CLASSES DEFER_RETRY = RETRY"
| "ACTION_CLASSES CREATE_PAYMENT_LINK = MONEY_INTENT"
| "ACTION_CLASSES REQUEST_PAYMENT_METHOD_UPDATE = CUSTOMER_CONTACT"
| "ACTION_CLASSES SEND_REMINDER = CUSTOMER_CONTACT"
| "ACTION_CLASSES SCHEDULE_PROMISE_REMINDER = CUSTOMER_CONTACT"
| "ACTION_CLASSES PAUSE_RETRIES = INTERNAL"
| "ACTION_CLASSES RESUME_DEFERRED_CASE = INTERNAL"
| "ACTION_CLASSES ESCALATE_HUMAN = ESCALATION"
| "ACTION_CLASSES STOP_AUTOMATION = ActionClass.STOP"
| "ACTION_CLASSES ActionType.NO_ACTION = ActionClass.NO_ACTION"

definition ALWAYS_ALLOWED_CLASSES :: "ActionClass set" where
  "ALWAYS_ALLOWED_CLASSES = {ESCALATION, ActionClass.STOP, ActionClass.NO_ACTION}"

definition EXPECTED_VALUE_EXEMPT_CLASSES :: "ActionClass set" where
  "EXPECTED_VALUE_EXEMPT_CLASSES =
     {INTERNAL, ESCALATION, ActionClass.STOP, ActionClass.NO_ACTION}"

text \<open>\<open>REASON_PATTERN.fullmatch\<close>: an uppercase letter, then uppercase letters, digits and \<open>_\<close>.\<close>

definition reason_pattern :: "string \<Rightarrow> bool" where
  "reason_pattern s \<longleftrightarrow>
     (case s of
        [] \<Rightarrow> False
      | c # cs \<Rightarrow> is_ascii_upper c
          \<and> (\<forall>d\<in>set cs. is_ascii_upper d \<or> is_digit d \<or> d = CHR ''_''))"

record CandidateAction =
  ca_action_type :: ActionType
  ca_recovery_probability_basis_points :: int
  ca_expected_net_recovery_minor :: int
  ca_rank :: int
  ca_target :: string
  ca_logical_attempt :: int
  ca_channel :: "ContactChannel option"
  ca_action_cost_minor :: int
  ca_risk_penalty_minor :: int
  ca_customer_friction_penalty_minor :: int

definition non_negative_check :: "string \<Rightarrow> int \<Rightarrow> bool \<times> exn" where
  "non_negative_check name v = (v < 0, ValueError (name @ '' must be a non-negative integer''))"

lemma fst_non_negative_check [simp]: "fst (non_negative_check n v) \<longleftrightarrow> v < 0"
  by (simp add: non_negative_check_def)

definition post_init_candidate :: "CandidateAction \<Rightarrow> CandidateAction result" where
  "post_init_candidate a =
     bindR (raise_first
       [minimum_check ''recovery_probability_basis_points'' (ca_recovery_probability_basis_points a) 0,
        minimum_check ''rank'' (ca_rank a) 1,
        minimum_check ''logical_attempt'' (ca_logical_attempt a) 1,
        (ca_recovery_probability_basis_points a > 10000,
           ValueError ''recovery probability cannot exceed 10000 basis points''),
        non_negative_check ''action_cost_minor'' (ca_action_cost_minor a),
        non_negative_check ''risk_penalty_minor'' (ca_risk_penalty_minor a),
        non_negative_check ''customer_friction_penalty_minor'' (ca_customer_friction_penalty_minor a),
        required ''target'' (ca_target a),
        (ACTION_CLASSES (ca_action_type a) = CUSTOMER_CONTACT \<and> ca_channel a = None,
           ValueError ''customer-contact actions require a channel''),
        (ACTION_CLASSES (ca_action_type a) \<noteq> CUSTOMER_CONTACT \<and> ca_channel a \<noteq> None,
           ValueError ''only customer-contact actions accept a channel'')])
     (\<lambda>_. Inr a)"

definition candidate_to_dict :: "CandidateAction \<Rightarrow> (string \<times> pyval) list" where
  "candidate_to_dict a =
     [(''action_type'', PStr (action_value (ca_action_type a))),
      (''recovery_probability'', PFloat (of_int (ca_recovery_probability_basis_points a) / 10000)),
      (''expected_net_recovery_minor'', PInt (ca_expected_net_recovery_minor a)),
      (''rank'', PInt (ca_rank a)),
      (''target'', PStr (ca_target a)),
      (''logical_attempt'', PInt (ca_logical_attempt a)),
      (''channel'', case ca_channel a of None \<Rightarrow> PNone | Some c \<Rightarrow> PStr (channel_value c)),
      (''action_cost_minor'', PInt (ca_action_cost_minor a)),
      (''risk_penalty_minor'', PInt (ca_risk_penalty_minor a)),
      (''customer_friction_penalty_minor'', PInt (ca_customer_friction_penalty_minor a))]"

record IncidentConstraint =
  ic_incident_id :: string
  ic_scope :: IncidentScope
  ic_starts_at :: datetime
  ic_ends_at :: datetime
  ic_channel :: "ContactChannel option"

definition post_init_incident :: "IncidentConstraint \<Rightarrow> IncidentConstraint result" where
  "post_init_incident i =
     bindR (raise_first [required ''incident_id'' (ic_incident_id i)]) (\<lambda>_.
     bindR (utc ''starts_at'' (ic_starts_at i)) (\<lambda>starts.
     bindR (utc ''ends_at'' (ic_ends_at i)) (\<lambda>ends.
     bindR (raise_first
       [(ends \<le> starts, ValueError ''incident end must follow its start''),
        (ic_scope i = CONTACT_CHANNEL \<and> ic_channel i = None,
           ValueError ''contact-channel incident requires a channel''),
        (ic_scope i \<noteq> CONTACT_CHANNEL \<and> ic_channel i \<noteq> None,
           ValueError ''channel only applies to contact-channel incidents'')])
     (\<lambda>_. Inr (i\<lparr>ic_starts_at := starts, ic_ends_at := ends\<rparr>)))))"

definition applies :: "IncidentConstraint \<Rightarrow> CandidateAction \<Rightarrow> datetime \<Rightarrow> bool" where
  "applies i candidate evaluated_at =
     (if \<not> (ic_starts_at i \<le> evaluated_at \<and> evaluated_at < ic_ends_at i) then False
      else let action_class = ACTION_CLASSES (ca_action_type candidate) in
        if action_class \<in> {ActionClass.STOP, ActionClass.NO_ACTION, ESCALATION} then False
        else if ic_scope i = ALL_AUTOMATION then True
        else if ic_scope i \<in> {PAYMENT_RAIL, GATEWAY, ISSUER}
          then action_class \<in> {RETRY, MONEY_INTENT}
        else action_class = CUSTOMER_CONTACT \<and> ca_channel candidate = ic_channel i)"

text \<open>A zone of the database and a time of day, in microseconds since midnight.\<close>

record zone =
  offset_at :: "int \<Rightarrow> int"
  wall_offset :: "int \<Rightarrow> int"

record MerchantPolicySnapshot =
  mp_version :: string
  mp_effective_at :: datetime
  mp_allowed_actions :: "ActionType set"
  mp_retry_limit :: int
  mp_contact_limit :: int
  mp_minimum_expected_net_recovery_minor :: int
  mp_human_review_amount_minor :: int
  mp_minimum_confidence_basis_points :: int
  mp_default_defer_seconds :: int
  mp_timezone :: string
  mp_quiet_hours_start :: int
  mp_quiet_hours_end :: int
  mp_currency :: string
  mp_features_version :: string

definition not_negative_check :: "string \<Rightarrow> int \<Rightarrow> bool \<times> exn" where
  "not_negative_check name v = (v < 0, ValueError (name @ '' cannot be negative''))"

lemma fst_not_negative_check [simp]: "fst (not_negative_check n v) \<longleftrightarrow> v < 0"
  by (simp add: not_negative_check_def)

definition post_init_policy ::
    "(string \<Rightarrow> zone option) \<Rightarrow> MerchantPolicySnapshot \<Rightarrow> MerchantPolicySnapshot result" where
  "post_init_policy zones p =
     bindR (raise_first
       [(mp_version p = [] \<or> mp_features_version p = [],
           ValueError ''policy and feature versions are required'')]) (\<lambda>_.
     bindR (utc ''effective_at'' (mp_effective_at p)) (\<lambda>effective.
     bindR (raise_first
       [(mp_allowed_actions p = {}, ValueError ''allowed_actions cannot be empty''),
        not_negative_check ''retry_limit'' (mp_retry_limit p),
        not_negative_check ''contact_limit'' (mp_contact_limit p),
        not_negative_check ''minimum_expected_net_recovery_minor''
          (mp_minimum_expected_net_recovery_minor p),
        not_negative_check ''human_review_amount_minor'' (mp_human_review_amount_minor p),
        not_negative_check ''minimum_confidence_basis_points'' (mp_minimum_confidence_basis_points p),
        not_negative_check ''default_defer_seconds'' (mp_default_defer_seconds p),
        (mp_default_defer_seconds p = 0, ValueError ''default_defer_seconds must be positive''),
        (mp_minimum_confidence_basis_points p > 10000,
           ValueError ''minimum confidence cannot exceed 10000 basis points''),
        (zones (mp_timezone p) = None, ValueError ''timezone must be a valid IANA zone''),
        (\<not> currency_pattern (mp_currency p),
           ValueError ''policy currency must be a three-letter uppercase ISO code'')])
     (\<lambda>_. Inr (p\<lparr>mp_effective_at := effective\<rparr>))))"

text \<open>The frozenset's values in order: \<open>sorted(action.value for action in allowed_actions)\<close>.\<close>

definition sorted_action_values :: "ActionType set \<Rightarrow> string list" where
  "sorted_action_values actions = sorted_list_of_set (action_value ` actions)"

definition canonical_document :: "MerchantPolicySnapshot \<Rightarrow> (string \<times> json) list" where
  "canonical_document p =
     [(''allowed_actions'', JArr (map JStr (sorted_action_values (mp_allowed_actions p)))),
      (''contact_limit'', JInt (mp_contact_limit p)),
      (''currency'', JStr (mp_currency p)),
      (''default_defer_seconds'', JInt (mp_default_defer_seconds p)),
      (''effective_at'', JStr (format_seconds (mp_effective_at p))),
      (''features_version'', JStr (mp_features_version p)),
      (''human_review_amount_minor'', JInt (mp_human_review_amount_minor p)),
      (''minimum_confidence_basis_points'', JInt (mp_minimum_confidence_basis_points p)),
      (''minimum_expected_net_recovery_minor'', JInt (mp_minimum_expected_net_recovery_minor p)),
      (''quiet_hours_end'', JStr (iso_clock (mp_quiet_hours_end p))),
      (''quiet_hours_start'', JStr (iso_clock (mp_quiet_hours_start p))),
      (''retry_limit'', JInt (mp_retry_limit p)),
      (''timezone'', JStr (mp_timezone p)),
      (''version'', JStr (mp_version p))]"

definition content_digest :: "MerchantPolicySnapshot \<Rightarrow> string" where
  "content_digest p = sha256_hex (json_dumps True (JObj (canonical_document p)))"

record PolicyEvaluationInput =
  pe_case_id :: string
  pe_amount_minor :: int
  pe_currency :: string
  pe_confidence_basis_points :: int
  pe_retry_count :: int
  pe_contact_count :: int
  pe_evaluated_at :: datetime
  pe_candidates :: "CandidateAction list"
  pe_evidence_references :: "string list"
  pe_consent_by_channel :: "(ContactChannel \<times> ConsentState) list"
  pe_opted_out_channels :: "ContactChannel set"
  pe_incidents :: "IncidentConstraint list"
  pe_already_paid :: bool
  pe_disputed :: bool
  pe_cancelled :: bool
  pe_terminal :: bool
  pe_diagnosis_defer_until :: "datetime option"
  pe_approval :: "HumanReviewRequest option"
  pe_unknown_equivalent_action :: bool
  pe_customer_contact_in_progress :: bool
  pe_customer_identity_resolved :: bool
  pe_active_promise_to_pay :: bool
  pe_promise_due_at :: "datetime option"

text \<open>\<open>tuple(range(1, n + 1))\<close>.\<close>

definition ranks_from_one :: "nat \<Rightarrow> int list" where
  "ranks_from_one n = [1..int n]"

definition post_init_evaluation :: "PolicyEvaluationInput \<Rightarrow> PolicyEvaluationInput result" where
  "post_init_evaluation e =
     bindR (raise_first
       [(pe_case_id e = [] \<or> pe_currency e = [], ValueError ''case_id and currency are required''),
        not_negative_check ''amount_minor'' (pe_amount_minor e),
        not_negative_check ''confidence_basis_points'' (pe_confidence_basis_points e),
        not_negative_check ''retry_count'' (pe_retry_count e),
        not_negative_check ''contact_count'' (pe_contact_count e),
        (pe_confidence_basis_points e > 10000,
           ValueError ''confidence cannot exceed 10000 basis points'')]) (\<lambda>_.
     bindR (utc ''evaluated_at'' (pe_evaluated_at e)) (\<lambda>evaluated_at.
     bindR (utc_opt ''diagnosis_defer_until'' (pe_diagnosis_defer_until e)) (\<lambda>defer_until.
     bindR (raise_first
       [(pe_candidates e = [] \<or>
           map ca_rank (pe_candidates e) \<noteq> ranks_from_one (length (pe_candidates e)),
           ValueError ''candidate ranks must be ordered and contiguous from one''),
        (pe_candidates e \<noteq> [] \<and> ca_action_type (last (pe_candidates e)) \<noteq> ActionType.NO_ACTION,
           ValueError ''candidate list must end with NO_ACTION''),
        (pe_evidence_references e = [] \<or> \<not> distinct (pe_evidence_references e),
           ValueError ''evidence references must be non-empty and unique'')]) (\<lambda>_.
     bindR (utc_opt ''promise_due_at'' (pe_promise_due_at e)) (\<lambda>promise_due.
     bindR (raise_first
       [(pe_active_promise_to_pay e \<and> promise_due = None,
           ValueError ''active promise requires promise_due_at'')]) (\<lambda>_.
     Inr (e\<lparr>pe_evaluated_at := evaluated_at, pe_diagnosis_defer_until := defer_until,
            pe_promise_due_at := promise_due\<rparr>)))))))"

record VersionBundle =
  vb_policy :: string
  vb_features :: string
  vb_application :: string
  vb_model :: string
  vb_prompt :: string
  vb_schema :: string

definition versions_to_dict :: "VersionBundle \<Rightarrow> (string \<times> pyval) list" where
  "versions_to_dict v =
     [(''policy'', PStr (vb_policy v)), (''model'', PStr (vb_model v)),
      (''prompt'', PStr (vb_prompt v)), (''schema'', PStr (vb_schema v)),
      (''features'', PStr (vb_features v)), (''application'', PStr (vb_application v))]"

record PolicyDecision =
  pd_selected_action :: CandidateAction
  pd_result :: PolicyResult
  pd_reason_codes :: "string list"
  pd_resulting_state :: CaseState
  pd_next_evaluation_at :: "datetime option"
  pd_evaluated_candidates :: "CandidateAction list"

record DecisionReceipt =
  dr_receipt_id :: string
  dr_case_id :: string
  dr_merchant_id :: string
  dr_correlation_id :: string
  dr_evidence_references :: "string list"
  dr_candidate_actions :: "CandidateAction list"
  dr_selected_action_type :: ActionType
  dr_explanation :: string
  dr_policy_result :: PolicyResult
  dr_policy_reason_codes :: "string list"
  dr_versions :: VersionBundle
  dr_created_at :: datetime
  dr_resulting_state :: CaseState
  dr_human_review_id :: "string option"
  dr_resulting_action_id :: "string option"
  dr_audit_entry_id :: "string option"
  dr_model_prediction_ids :: "string list"
  dr_scoring_model_version :: string
  dr_scoring_feature_version :: string
  dr_scoring_economics_version :: string
  dr_scoring_artifact_classification :: string
  dr_scoring_fallback_reason :: "string option"
  dr_schema_version :: string

definition version_length_check :: "string \<Rightarrow> string \<Rightarrow> bool \<times> exn" where
  "version_length_check name v =
     (blank_or_longer 128 v, ValueError (name @ '' must contain 1 to 128 characters''))"

lemma fst_version_length_check [simp]: "fst (version_length_check n v) = blank_or_longer 128 v"
  by (simp add: version_length_check_def)

definition post_init_receipt :: "DecisionReceipt \<Rightarrow> DecisionReceipt result" where
  "post_init_receipt r =
     bindR (raise_first
       [required ''receipt_id'' (dr_receipt_id r),
        required ''case_id'' (dr_case_id r),
        required ''merchant_id'' (dr_merchant_id r),
        required ''correlation_id'' (dr_correlation_id r),
        required ''explanation'' (dr_explanation r),
        (dr_evidence_references r = [] \<or> dr_candidate_actions r = [],
           ValueError ''receipt requires evidence and candidate actions''),
        (dr_policy_reason_codes r = [] \<or>
           (\<exists>code\<in>set (dr_policy_reason_codes r). \<not> reason_pattern code),
           ValueError ''receipt requires machine-readable reason codes''),
        (\<not> distinct (dr_policy_reason_codes r), ValueError ''receipt reason codes must be unique''),
        (\<not> distinct (dr_model_prediction_ids r) \<or> [] \<in> set (dr_model_prediction_ids r),
           ValueError ''model prediction IDs must be non-empty and unique''),
        version_length_check ''scoring_model_version'' (dr_scoring_model_version r),
        version_length_check ''scoring_feature_version'' (dr_scoring_feature_version r),
        version_length_check ''scoring_economics_version'' (dr_scoring_economics_version r),
        (dr_scoring_artifact_classification r
           \<notin> {''SYNTHETIC'', ''PRODUCTION'', ''NOT_APPLICABLE''},
           ValueError ''unsupported scoring artifact classification''),
        (case dr_scoring_fallback_reason r of None \<Rightarrow> False | Some c \<Rightarrow> \<not> reason_pattern c,
           ValueError ''scoring fallback reason must be machine-readable'')])
     (\<lambda>_. bindR (utc ''created_at'' (dr_created_at r)) (\<lambda>created.
     Inr (r\<lparr>dr_created_at := created\<rparr>)))"

definition receipt_to_dict :: "DecisionReceipt \<Rightarrow> (string \<times> pyval) list" where
  "receipt_to_dict r =
     [(''schema_version'', PStr (dr_schema_version r)),
      (''receipt_id'', PStr (dr_receipt_id r)),
      (''case_id'', PStr (dr_case_id r)),
      (''merchant_id'', PStr (dr_merchant_id r)),
      (''correlation_id'', PStr (dr_correlation_id r)),
      (''evidence_references'', PList (map PStr (dr_evidence_references r))),
      (''candidate_actions'', PList (map (\<lambda>a. PDict (candidate_to_dict a)) (dr_candidate_actions r))),
      (''selected_action_type'', PStr (action_value (dr_selected_action_type r))),
      (''explanation'', PStr (dr_explanation r)),
      (''policy_result'', PStr (policy_result_value (dr_policy_result r))),
      (''policy_reason_codes'', PList (map PStr (dr_policy_reason_codes r))),
      (''versions'', PDict (versions_to_dict (dr_versions r))),
      (''human_review_id'', opt_str (dr_human_review_id r)),
      (''resulting_action_id'', opt_str (dr_resulting_action_id r)),
      (''resulting_state'', PStr (case_state_value (dr_resulting_state r))),
      (''audit_entry_id'', opt_str (dr_audit_entry_id r)),
      (''model_prediction_ids'', PList (map PStr (dr_model_prediction_ids r))),
      (''scoring'', PDict
         [(''model_version'', PStr (dr_scoring_model_version r)),
          (''feature_version'', PStr (dr_scoring_feature_version r)),
          (''economics_version'', PStr (dr_scoring_economics_version r)),
          (''artifact_classification'', PStr (dr_scoring_artifact_classification r)),
          (''fallback_reason'', opt_str (dr_scoring_fallback_reason r))]),
      (''created_at'', PStr (format_seconds (dr_created_at r)))]"

end
