(* ===== verification/Policy_Evaluation.thy ===== *)
theory Policy_Evaluation
  imports Policy
begin

text \<open>
  \<open>revenueguard_domain/policy.py\<close>, the evaluation: \<open>evaluate_policy\<close>, its candidate loop and
  the guards of \<open>_evaluate_candidate\<close>, and what a decision guarantees.
\<close>


section \<open>The evaluation\<close>

definition conservative_default_policy ::
    "(string \<Rightarrow> zone option) \<Rightarrow> MerchantPolicySnapshot result" where
  "conservative_default_policy zones = post_init_policy zones
     \<lparr>mp_version = ''phase3-conservative-default-1.0'',
      mp_effective_at = Aware (20690 * day_us),
      mp_allowed_actions = {DEFER_RETRY, CREATE_PAYMENT_LINK, REQUEST_PAYMENT_METHOD_UPDATE,
        SEND_REMINDER, SCHEDULE_PROMISE_REMINDER, PAUSE_RETRIES, RESUME_DEFERRED_CASE,
        ESCALATE_HUMAN, STOP_AUTOMATION, ActionType.NO_ACTION},
      mp_retry_limit = 3, mp_contact_limit = 2,
      mp_minimum_expected_net_recovery_minor = 100, mp_human_review_amount_minor = 50000,
      mp_minimum_confidence_basis_points = 5000, mp_default_defer_seconds = 3600,
      mp_timezone = ''UTC'', mp_quiet_hours_start = hours 22, mp_quiet_hours_end = hours 7,
      mp_currency = ''INR'', mp_features_version = ''phase3-v1''\<rparr>"

definition global_stop_reason :: "PolicyEvaluationInput \<Rightarrow> string option" where
  "global_stop_reason e =
     (if pe_terminal e then Some ''CASE_ALREADY_TERMINAL''
      else if pe_already_paid e then Some ''ALREADY_PAID''
      else if pe_disputed e then Some ''PAYMENT_DISPUTED''
      else if pe_cancelled e then Some ''SUBJECT_CANCELLED''
      else None)"

primrec state_for :: "PolicyResult \<Rightarrow> CaseState" where
  "state_for PROCEED = READY"
| "state_for DEFER = DEFERRED"
| "state_for SKIP = DECISION_PENDING"
| "state_for PolicyResult.STOP = STOPPED"
| "state_for REQUIRE_HUMAN = ESCALATED"

text \<open>The wall clock of a zone at an instant, in microseconds since the epoch.\<close>

definition local_wall :: "zone \<Rightarrow> datetime \<Rightarrow> int" where
  "local_wall z t = instant t + offset_at z (instant t)"

definition in_quiet_hours :: "zone \<Rightarrow> MerchantPolicySnapshot \<Rightarrow> datetime \<Rightarrow> bool" where
  "in_quiet_hours z p evaluated_at =
     (let local_time = local_wall z evaluated_at mod day_us;
          start = mp_quiet_hours_start p;
          end_time = mp_quiet_hours_end p
      in if start = end_time then False
         else if start < end_time then start \<le> local_time \<and> local_time < end_time
         else start \<le> local_time \<or> local_time < end_time)"

definition quiet_hours_end :: "zone \<Rightarrow> MerchantPolicySnapshot \<Rightarrow> datetime \<Rightarrow> datetime" where
  "quiet_hours_end z p evaluated_at =
     (let local = local_wall z evaluated_at;
          candidate = local div day_us * day_us + mp_quiet_hours_end p;
          candidate = (if candidate \<le> local then candidate + days 1 else candidate)
      in Aware (candidate - wall_offset z candidate))"

definition approval_matches ::
    "MerchantPolicySnapshot \<Rightarrow> PolicyEvaluationInput \<Rightarrow> CandidateAction \<Rightarrow> bool result" where
  "approval_matches p e candidate =
     (case pe_approval e of
        None \<Rightarrow> Inr False
      | Some approval \<Rightarrow>
          bindR (post_init_fingerprint
            \<lparr>fi_case_id = pe_case_id e, fi_action_type = action_value (ca_action_type candidate),
             fi_target = ca_target candidate, fi_amount_minor = pe_amount_minor e,
             fi_currency = pe_currency e, fi_logical_attempt = ca_logical_attempt candidate,
             fi_policy_digest = content_digest p\<rparr>) (\<lambda>i.
          is_matching_approval approval (fingerprint_digest i) (content_digest p)
            (pe_evaluated_at e)))"

definition default_wake :: "MerchantPolicySnapshot \<Rightarrow> PolicyEvaluationInput \<Rightarrow> datetime" where
  "default_wake p e = plus_delta (pe_evaluated_at e) (seconds (mp_default_defer_seconds p))"

text \<open>\<open>dict(pairs).get(channel, ConsentState.UNKNOWN)\<close>: the last pair of a channel counts.\<close>

definition consent_of :: "(ContactChannel \<times> ConsentState) list \<Rightarrow> ContactChannel \<Rightarrow> ConsentState" where
  "consent_of pairs channel =
     (case map_of (rev pairs) channel of None \<Rightarrow> ConsentState.UNKNOWN | Some c \<Rightarrow> c)"

text \<open>
  The guards of a customer contact; \<open>None\<close> when none of them decides. A candidate without
  channel, which validation excludes, hits the assertion of the code.
\<close>

definition contact_guards ::
    "MerchantPolicySnapshot \<Rightarrow> PolicyEvaluationInput \<Rightarrow> CandidateAction \<Rightarrow>
     (PolicyResult \<times> string \<times> datetime option) option result" where
  "contact_guards p e candidate =
     (if \<not> pe_customer_identity_resolved e
        then Inr (Some (SKIP, ''CUSTOMER_IDENTITY_UNRESOLVED'', None))
      else if pe_customer_contact_in_progress e
        then Inr (Some (DEFER, ''CUSTOMER_CONTACT_ALREADY_IN_PROGRESS'', Some (default_wake p e)))
      else if mp_contact_limit p \<le> pe_contact_count e
        then Inr (Some (SKIP, ''CONTACT_LIMIT_REACHED'', None))
      else if ca_channel candidate \<in> Some ` pe_opted_out_channels e
        then Inr (Some (SKIP, ''CHANNEL_OPTED_OUT'', None))
      else case ca_channel candidate of
        None \<Rightarrow> Inl (AssertionError ''validated customer-contact candidate requires a channel'')
      | Some channel \<Rightarrow>
          if consent_of (pe_consent_by_channel e) channel \<noteq> GRANTED
          then Inr (Some (SKIP, ''CHANNEL_CONSENT_NOT_GRANTED'', None))
          else Inr None)"

text \<open>The classes of the actions that touch a provider or a customer.\<close>

definition external_classes :: "ActionClass set" where
  "external_classes = {RETRY, MONEY_INTENT, CUSTOMER_CONTACT}"

text \<open>What follows the incident check of \<open>_evaluate_candidate\<close>.\<close>

definition evaluate_value ::
    "MerchantPolicySnapshot \<Rightarrow> PolicyEvaluationInput \<Rightarrow> CandidateAction \<Rightarrow>
     (PolicyResult \<times> string \<times> datetime option) result" where
  "evaluate_value p e candidate =
     (let action_class = ACTION_CLASSES (ca_action_type candidate) in
      if action_class \<notin> EXPECTED_VALUE_EXEMPT_CLASSES
         \<and> ca_expected_net_recovery_minor candidate < mp_minimum_expected_net_recovery_minor p
      then Inr (SKIP, ''EXPECTED_VALUE_BELOW_MINIMUM'', None)
      else if action_class \<notin> EXPECTED_VALUE_EXEMPT_CLASSES
         \<and> (mp_human_review_amount_minor p \<le> pe_amount_minor e
            \<or> pe_confidence_basis_points e < mp_minimum_confidence_basis_points p)
      then bindR (approval_matches p e candidate) (\<lambda>approved.
        if approved then Inr (PROCEED, ''POLICY_AUTHORIZED'', None)
        else Inr (REQUIRE_HUMAN, ''HUMAN_REVIEW_REQUIRED'', None))
      else Inr (PROCEED, ''POLICY_AUTHORIZED'', None))"

text \<open>The checks of confidence, diagnosis delay and quiet hours, then of the value.\<close>

definition evaluate_timing ::
    "(string \<Rightarrow> zone option) \<Rightarrow> MerchantPolicySnapshot \<Rightarrow> PolicyEvaluationInput \<Rightarrow>
     CandidateAction \<Rightarrow> (PolicyResult \<times> string \<times> datetime option) result" where
  "evaluate_timing zones p e candidate =
     bindR (if ca_action_type candidate = DEFER_RETRY
              \<and> pe_confidence_basis_points e < mp_minimum_confidence_basis_points p
            then bindR (approval_matches p e candidate) (\<lambda>approved. Inr (\<not> approved))
            else Inr False)
     (\<lambda>low_confidence.
     if low_confidence
     then Inr (DEFER, ''LOW_CONFIDENCE_RETRY_DEFERRED'',
       case pe_diagnosis_defer_until e of
         None \<Rightarrow> Some (default_wake p e)
       | Some until \<Rightarrow> if until \<le> pe_evaluated_at e then Some (default_wake p e) else Some until)
     else if (\<exists>until\<in>set_option (pe_diagnosis_defer_until e). pe_evaluated_at e < until)
     then Inr (DEFER, ''DIAGNOSIS_DELAY'', pe_diagnosis_defer_until e)
     else if ACTION_CLASSES (ca_action_type candidate) = CUSTOMER_CONTACT
     then (case zones (mp_timezone p) of
             None \<Rightarrow> Inl (LookupError ''ZoneInfoNotFoundError'')
           | Some z \<Rightarrow>
               if in_quiet_hours z p (pe_evaluated_at e)
               then Inr (DEFER, ''QUIET_HOURS'', Some (quiet_hours_end z p (pe_evaluated_at e)))
               else evaluate_value p e candidate)
     else evaluate_value p e candidate)"

text \<open>The checks of equivalent actions, promises and incidents, then of the timing.\<close>

definition evaluate_availability ::
    "(string \<Rightarrow> zone option) \<Rightarrow> MerchantPolicySnapshot \<Rightarrow> PolicyEvaluationInput \<Rightarrow>
     CandidateAction \<Rightarrow> (PolicyResult \<times> string \<times> datetime option) result" where
  "evaluate_availability zones p e candidate =
     (let action_class = ACTION_CLASSES (ca_action_type candidate);
          matching = filter (\<lambda>i. applies i candidate (pe_evaluated_at e)) (pe_incidents e) in
      if pe_unknown_equivalent_action e \<and> action_class \<in> external_classes
      then Inr (DEFER, ''EQUIVALENT_ACTION_OUTCOME_UNKNOWN'', Some (default_wake p e))
      else if pe_active_promise_to_pay e \<and> ca_action_type candidate \<noteq> SCHEDULE_PROMISE_REMINDER
        \<and> action_class \<in> external_classes
      then Inr (DEFER, ''ACTIVE_PROMISE_TO_PAY'', pe_promise_due_at e)
      else if matching \<noteq> []
      then Inr (DEFER, ''ACTIVE_INCIDENT'', Some (Min (set (map ic_ends_at matching))))
      else evaluate_timing zones p e candidate)"

definition evaluate_candidate ::
    "(string \<Rightarrow> zone option) \<Rightarrow> MerchantPolicySnapshot \<Rightarrow> PolicyEvaluationInput \<Rightarrow>
     CandidateAction \<Rightarrow> (PolicyResult \<times> string \<times> datetime option) result" where
  "evaluate_candidate zones p e candidate =
     (let action_class = ACTION_CLASSES (ca_action_type candidate) in
      if ca_action_type candidate \<notin> mp_allowed_actions p \<and> action_class \<notin> ALWAYS_ALLOWED_CLASSES
      then Inr (SKIP, ''ACTION_NOT_ALLOWED'', None)
      else if ca_action_type candidate = ESCALATE_HUMAN
      then Inr (REQUIRE_HUMAN, ''AGENT_ESCALATION_REQUESTED'', None)
      else if action_class = RETRY \<and> mp_retry_limit p \<le> pe_retry_count e
      then Inr (SKIP, ''RETRY_LIMIT_REACHED'', None)
      else
        bindR (if action_class = CUSTOMER_CONTACT then contact_guards p e candidate else Inr None)
        (\<lambda>decided. case decided of
           Some r \<Rightarrow> Inr r
         | None \<Rightarrow> evaluate_availability zones p e candidate))"

text \<open>The candidate of a forced stop.\<close>

definition stop_candidate :: "PolicyEvaluationInput \<Rightarrow> CandidateAction result" where
  "stop_candidate e = post_init_candidate
     \<lparr>ca_action_type = STOP_AUTOMATION, ca_recovery_probability_basis_points = 0,
      ca_expected_net_recovery_minor = 0, ca_rank = 1, ca_target = pe_case_id e,
      ca_logical_attempt = 1, ca_channel = None, ca_action_cost_minor = 0,
      ca_risk_penalty_minor = 0, ca_customer_friction_penalty_minor = 0\<rparr>"

definition stop_decision :: "PolicyEvaluationInput \<Rightarrow> string \<Rightarrow> PolicyDecision result" where
  "stop_decision e reason =
     bindR (stop_candidate e) (\<lambda>selected.
     Inr \<lparr>pd_selected_action = selected, pd_result = PolicyResult.STOP,
          pd_reason_codes = [reason], pd_resulting_state = STOPPED,
          pd_next_evaluation_at = None, pd_evaluated_candidates = [selected]\<rparr>)"

text \<open>The loop over the sorted candidates, with its two accumulators.\<close>

fun evaluate_candidates ::
    "(string \<Rightarrow> zone option) \<Rightarrow> MerchantPolicySnapshot \<Rightarrow> PolicyEvaluationInput \<Rightarrow>
     string list \<Rightarrow> CandidateAction list \<Rightarrow> CandidateAction list \<Rightarrow> PolicyDecision result" where
  "evaluate_candidates zones p e skipped evaluated [] =
     Inl (AssertionError ''validated candidate list must contain NO_ACTION'')"
| "evaluate_candidates zones p e skipped evaluated (candidate # rest) =
     (if ca_action_type candidate = ActionType.NO_ACTION
      then Inr \<lparr>pd_selected_action = candidate, pd_result = SKIP,
        pd_reason_codes = first_occurrences (skipped @ [''NO_ELIGIBLE_ACTION'']),
        pd_resulting_state = DECISION_PENDING, pd_next_evaluation_at = None,
        pd_evaluated_candidates = evaluated @ [candidate]\<rparr>
      else bindR (evaluate_candidate zones p e candidate) (\<lambda>(result, reason, wake).
        if result = SKIP
        then evaluate_candidates zones p e (skipped @ [reason]) (evaluated @ [candidate]) rest
        else Inr \<lparr>pd_selected_action = candidate, pd_result = result,
          pd_reason_codes = first_occurrences (skipped @ [reason]),
          pd_resulting_state = state_for result, pd_next_evaluation_at = wake,
          pd_evaluated_candidates = evaluated @ [candidate]\<rparr>))"

definition sorted_candidates :: "CandidateAction list \<Rightarrow> CandidateAction list" where
  "sorted_candidates =
     sort_key (\<lambda>a. (ca_rank a, action_value (ca_action_type a)))"

definition evaluate_policy ::
    "(string \<Rightarrow> zone option) \<Rightarrow> MerchantPolicySnapshot \<Rightarrow> PolicyEvaluationInput \<Rightarrow>
     PolicyDecision result" where
  "evaluate_policy zones p e =
     (if pe_evaluated_at e < mp_effective_at p
      then Inl (ValueError ''policy is not yet effective'')
      else if mp_currency p \<noteq> pe_currency e then stop_decision e ''POLICY_CURRENCY_MISMATCH''
      else case global_stop_reason e of
        Some reason \<Rightarrow> stop_decision e reason
      | None \<Rightarrow> evaluate_candidates zones p e [] [] (sorted_candidates (pe_candidates e)))"


section \<open>Validated inputs\<close>

definition wf_policy :: "(string \<Rightarrow> zone option) \<Rightarrow> MerchantPolicySnapshot \<Rightarrow> bool" where
  "wf_policy zones p \<longleftrightarrow> post_init_policy zones p = Inr p"

definition wf_candidate :: "CandidateAction \<Rightarrow> bool" where
  "wf_candidate a \<longleftrightarrow> post_init_candidate a = Inr a"

text \<open>
  A validated evaluation: its own checks passed, and so did those of the candidates,
  incidents and the approval it is built from.
\<close>

definition wf_evaluation :: "PolicyEvaluationInput \<Rightarrow> bool" where
  "wf_evaluation e \<longleftrightarrow> post_init_evaluation e = Inr e
     \<and> (\<forall>a\<in>set (pe_candidates e). wf_candidate a)
     \<and> (\<forall>i\<in>set (pe_incidents e). post_init_incident i = Inr i)
     \<and> (\<forall>r\<in>set_option (pe_approval e). wf_review r)"

lemma wf_evaluation_iff:
  "wf_evaluation e \<longleftrightarrow>
     pe_case_id e \<noteq> [] \<and> pe_currency e \<noteq> [] \<and> 0 \<le> pe_amount_minor e
     \<and> 0 \<le> pe_confidence_basis_points e \<and> pe_confidence_basis_points e \<le> 10000
     \<and> 0 \<le> pe_retry_count e \<and> 0 \<le> pe_contact_count e \<and> is_aware (pe_evaluated_at e)
     \<and> (\<forall>t\<in>set_option (pe_diagnosis_defer_until e). is_aware t)
     \<and> pe_candidates e \<noteq> []
     \<and> map ca_rank (pe_candidates e) = ranks_from_one (length (pe_candidates e))
     \<and> ca_action_type (last (pe_candidates e)) = ActionType.NO_ACTION
     \<and> pe_evidence_references e \<noteq> [] \<and> distinct (pe_evidence_references e)
     \<and> (\<forall>t\<in>set_option (pe_promise_due_at e). is_aware t)
     \<and> (pe_active_promise_to_pay e \<longrightarrow> pe_promise_due_at e \<noteq> None)
     \<and> (\<forall>a\<in>set (pe_candidates e). wf_candidate a)
     \<and> (\<forall>i\<in>set (pe_incidents e). post_init_incident i = Inr i)
     \<and> (\<forall>r\<in>set_option (pe_approval e). wf_review r)"
  by (simp add: wf_evaluation_def post_init_evaluation_def bindR_eq_Inr utc_eq_Inr
      utc_opt_eq_Inr raise_first_ok_iff not_less) blast

lemma wf_policyD:
  assumes "wf_policy zones p"
  shows "0 < mp_default_defer_seconds p" "zones (mp_timezone p) \<noteq> None"
    "currency_pattern (mp_currency p)" "is_aware (mp_effective_at p)"
    "0 \<le> mp_retry_limit p" "0 \<le> mp_contact_limit p" "mp_version p \<noteq> []"
  using assms
  by (auto simp: wf_policy_def post_init_policy_def bindR_eq_Inr utc_eq_Inr raise_first_ok_iff)

lemma wf_candidateD:
  assumes "wf_candidate a"
  shows "ca_target a \<noteq> []" "1 \<le> ca_logical_attempt a" "1 \<le> ca_rank a"
    "ACTION_CLASSES (ca_action_type a) = CUSTOMER_CONTACT \<longleftrightarrow> ca_channel a \<noteq> None"
    "0 \<le> ca_recovery_probability_basis_points a" "ca_recovery_probability_basis_points a \<le> 10000"
  using assms
  by (auto simp: wf_candidate_def post_init_candidate_def bindR_eq_Inr raise_first_ok_iff)

lemma wf_evaluationD:
  assumes "wf_evaluation e"
  shows "pe_case_id e \<noteq> []" "0 \<le> pe_amount_minor e" "is_aware (pe_evaluated_at e)"
    "map ca_rank (pe_candidates e) = ranks_from_one (length (pe_candidates e))"
    "pe_candidates e \<noteq> []" "ca_action_type (last (pe_candidates e)) = ActionType.NO_ACTION"
    "pe_active_promise_to_pay e \<Longrightarrow> pe_promise_due_at e \<noteq> None"
    "a \<in> set (pe_candidates e) \<Longrightarrow> wf_candidate a" "0 \<le> pe_retry_count e"
  using assms by (simp_all add: wf_evaluation_iff)

text \<open>Validated candidates are in rank order already: the sort changes nothing.\<close>

lemma sorted_candidates_id:
  assumes "wf_evaluation e"
  shows "sorted_candidates (pe_candidates e) = pe_candidates e"
proof -
  have "sorted_wrt (<) (map ca_rank (pe_candidates e))"
    unfolding wf_evaluationD(4) [OF assms] ranks_from_one_def by simp
  then have "sorted_wrt (\<lambda>a b. ca_rank a < ca_rank b) (pe_candidates e)"
    by (simp add: sorted_wrt_map)
  then have "sorted (map (\<lambda>a. (ca_rank a, action_value (ca_action_type a))) (pe_candidates e))"
    unfolding sorted_map by (rule sorted_wrt_mono_rel [rotated]) (auto simp: less_eq_prod_def)
  then show ?thesis
    unfolding sorted_candidates_def by (rule sort_key_id_if_sorted)
qed

end
