(* ===== verification/Policy_Guards.thy ===== *)
theory Policy_Guards
  imports Policy_Evaluation
begin

text \<open>
  The guards of \<open>_evaluate_candidate\<close>: validated inputs always get an answer, and what each
  answer stands for.
\<close>


section \<open>One candidate\<close>

lemma currency_isupper: "currency_pattern s \<Longrightarrow> isupper s"
proof -
  assume "currency_pattern s"
  then have "\<forall>c\<in>set s. is_upper_char c \<and> \<not> is_lower_char c" "s \<noteq> []"
    by (auto simp: currency_pattern_def is_ascii_upper_def is_upper_char_def is_lower_char_def
        Let_def)
  then show ?thesis by (cases s) (auto simp: isupper_def)
qed

lemma action_value_nonempty [simp]: "action_value t \<noteq> []"
  by (cases t) simp_all

lemma content_digest_nonempty [simp]: "content_digest p \<noteq> []"
  by (simp add: content_digest_def)

lemma approval_matches_total:
  assumes "wf_evaluation e" "wf_candidate a" "currency_pattern (pe_currency e)"
  shows "\<exists>b. approval_matches p e a = Inr b"
proof -
  let ?i = "\<lparr>fi_case_id = pe_case_id e, fi_action_type = action_value (ca_action_type a),
    fi_target = ca_target a, fi_amount_minor = pe_amount_minor e, fi_currency = pe_currency e,
    fi_logical_attempt = ca_logical_attempt a, fi_policy_digest = content_digest p\<rparr>"
  have "pe_currency e \<noteq> []" "length (pe_currency e) = 3"
    using assms(3) by (auto simp: currency_pattern_def)
  then have "post_init_fingerprint ?i = Inr ?i"
    using wf_evaluationD(1,2) [OF assms(1)] wf_candidateD(1,2) [OF assms(2)]
      currency_isupper [OF assms(3)]
    by (simp add: post_init_fingerprint_def raise_first_okI not_less)
  then show ?thesis
    using wf_evaluationD(3) [OF assms(1)]
    by (cases "pe_approval e") (auto simp: approval_matches_def is_matching_approval_def utc_aware)
qed

lemma contact_guards_total:
  assumes "wf_candidate a" "ACTION_CLASSES (ca_action_type a) = CUSTOMER_CONTACT"
  shows "\<exists>r. contact_guards p e a = Inr r"
  using wf_candidateD(4) [OF assms(1)] assms(2) by (auto simp: contact_guards_def)

lemma evaluate_value_total:
  assumes "wf_evaluation e" "wf_candidate a" "currency_pattern (pe_currency e)"
  shows "\<exists>r. evaluate_value p e a = Inr r"
  using approval_matches_total [OF assms, of p] by (auto simp: evaluate_value_def Let_def)

lemma evaluate_timing_total:
  assumes "wf_policy zones p" "wf_evaluation e" "wf_candidate a" "mp_currency p = pe_currency e"
  shows "\<exists>r. evaluate_timing zones p e a = Inr r"
proof -
  have cur: "currency_pattern (pe_currency e)" using wf_policyD(3) [OF assms(1)] assms(4) by simp
  obtain b where b: "approval_matches p e a = Inr b"
    using approval_matches_total [OF assms(2,3) cur] by blast
  obtain r reason w where v: "evaluate_value p e a = Inr (r, reason, w)"
    using evaluate_value_total [OF assms(2,3) cur] by (metis prod_cases3)
  obtain z where z: "zones (mp_timezone p) = Some z" using wf_policyD(2) [OF assms(1)] by blast
  show ?thesis by (rule Inr_totalI) (simp add: evaluate_timing_def b v z)
qed

lemma evaluate_candidate_total:
  assumes "wf_policy zones p" "wf_evaluation e" "wf_candidate a" "mp_currency p = pe_currency e"
  shows "\<exists>r. evaluate_candidate zones p e a = Inr r"
proof -
  obtain t where "evaluate_timing zones p e a = Inr t"
    using evaluate_timing_total [OF assms] by blast
  then obtain v where v: "evaluate_availability zones p e a = Inr v"
    by (cases "evaluate_availability zones p e a") (auto simp: evaluate_availability_def Let_def split: if_splits)
  obtain c where c: "(if ACTION_CLASSES (ca_action_type a) = CUSTOMER_CONTACT
      then contact_guards p e a else Inr None) = Inr c"
    using contact_guards_total [OF assms(3)] by (cases "ACTION_CLASSES (ca_action_type a) = CUSTOMER_CONTACT") auto
  show ?thesis
    by (rule Inr_totalI) (auto simp: evaluate_candidate_def Let_def c v split: option.splits)
qed

text \<open>What each guard reports: the result its reason stands for, and its wake-up time.\<close>

definition skip_reasons :: "string set" where
  "skip_reasons = {''ACTION_NOT_ALLOWED'', ''RETRY_LIMIT_REACHED'', ''CUSTOMER_IDENTITY_UNRESOLVED'',
     ''CONTACT_LIMIT_REACHED'', ''CHANNEL_OPTED_OUT'', ''CHANNEL_CONSENT_NOT_GRANTED'',
     ''EXPECTED_VALUE_BELOW_MINIMUM''}"

definition defer_reasons :: "string set" where
  "defer_reasons = {''CUSTOMER_CONTACT_ALREADY_IN_PROGRESS'', ''EQUIVALENT_ACTION_OUTCOME_UNKNOWN'',
     ''ACTIVE_PROMISE_TO_PAY'', ''ACTIVE_INCIDENT'', ''LOW_CONFIDENCE_RETRY_DEFERRED'',
     ''DIAGNOSIS_DELAY'', ''QUIET_HOURS''}"

lemma guard_reasons [simp]:
  "''ACTION_NOT_ALLOWED'' \<in> skip_reasons" "''RETRY_LIMIT_REACHED'' \<in> skip_reasons"
  "''CUSTOMER_IDENTITY_UNRESOLVED'' \<in> skip_reasons" "''CONTACT_LIMIT_REACHED'' \<in> skip_reasons"
  "''CHANNEL_OPTED_OUT'' \<in> skip_reasons" "''CHANNEL_CONSENT_NOT_GRANTED'' \<in> skip_reasons"
  "''EXPECTED_VALUE_BELOW_MINIMUM'' \<in> skip_reasons"
  "''CUSTOMER_CONTACT_ALREADY_IN_PROGRESS'' \<in> defer_reasons"
  "''EQUIVALENT_ACTION_OUTCOME_UNKNOWN'' \<in> defer_reasons"
  "''ACTIVE_PROMISE_TO_PAY'' \<in> defer_reasons" "''ACTIVE_INCIDENT'' \<in> defer_reasons"
  "''LOW_CONFIDENCE_RETRY_DEFERRED'' \<in> defer_reasons" "''DIAGNOSIS_DELAY'' \<in> defer_reasons"
  "''QUIET_HOURS'' \<in> defer_reasons"
  by (simp_all add: skip_reasons_def defer_reasons_def)

lemma contact_guards_cases:
  assumes "contact_guards p e a = Inr (Some (r, reason, w))"
  shows "r = SKIP \<and> reason \<in> skip_reasons \<and> w = None
    \<or> r = DEFER \<and> reason = ''CUSTOMER_CONTACT_ALREADY_IN_PROGRESS'' \<and> w = Some (default_wake p e)"
  using assms
  by (auto simp: contact_guards_def split: if_splits option.splits)

lemma evaluate_value_cases:
  assumes "evaluate_value p e a = Inr (r, reason, w)"
  shows "w = None \<and> (r = SKIP \<and> reason \<in> skip_reasons
    \<or> r = REQUIRE_HUMAN \<and> reason = ''HUMAN_REVIEW_REQUIRED''
    \<or> r = PROCEED \<and> reason = ''POLICY_AUTHORIZED'')"
  using assms
  by (auto simp: evaluate_value_def Let_def bindR_eq_Inr split: if_splits)

lemma evaluate_timing_cases:
  assumes "evaluate_timing zones p e a = Inr (r, reason, w)"
  shows "evaluate_value p e a = Inr (r, reason, w)
    \<or> r = DEFER \<and> reason \<in> {''LOW_CONFIDENCE_RETRY_DEFERRED'', ''DIAGNOSIS_DELAY''}
        \<and> (\<exists>t. w = Some t \<and> (pe_evaluated_at e < t \<or> t = default_wake p e))
    \<or> r = DEFER \<and> reason = ''QUIET_HOURS'' \<and> (\<exists>z. zones (mp_timezone p) = Some z
        \<and> in_quiet_hours z p (pe_evaluated_at e)
        \<and> w = Some (quiet_hours_end z p (pe_evaluated_at e)))"
  using assms
  by (auto simp: evaluate_timing_def bindR_eq_Inr not_le split: if_splits option.splits)

lemma evaluate_availability_cases:
  assumes "evaluate_availability zones p e a = Inr (r, reason, w)"
  shows "evaluate_timing zones p e a = Inr (r, reason, w)
    \<or> r = DEFER \<and> reason = ''EQUIVALENT_ACTION_OUTCOME_UNKNOWN'' \<and> w = Some (default_wake p e)
    \<or> r = DEFER \<and> reason = ''ACTIVE_PROMISE_TO_PAY'' \<and> w = pe_promise_due_at e
        \<and> pe_active_promise_to_pay e
    \<or> r = DEFER \<and> reason = ''ACTIVE_INCIDENT'' \<and> (\<exists>i\<in>set (pe_incidents e).
        applies i a (pe_evaluated_at e) \<and> w = Some (ic_ends_at i))"
    (is "?timing \<or> ?unknown \<or> ?promise \<or> ?incident")
proof (rule ccontr)
  let ?m = "filter (\<lambda>i. applies i a (pe_evaluated_at e)) (pe_incidents e)"
  assume none: "\<not> (?timing \<or> ?unknown \<or> ?promise \<or> ?incident)"
  have "?m \<noteq> []" and w: "r = DEFER" "reason = ''ACTIVE_INCIDENT''" "w = Some (Min (ic_ends_at ` set ?m))"
    using assms none by (auto simp only: evaluate_availability_def Let_def set_map sum.inject
        prod.inject simp_thms split: if_split_asm)
  then have "Min (ic_ends_at ` set ?m) \<in> ic_ends_at ` set ?m"
    by (intro Min_in) (simp_all del: set_filter)
  with w none show False by auto
qed

lemma evaluate_candidate_cases:
  assumes "evaluate_candidate zones p e a = Inr (r, reason, w)"
  shows "r = SKIP \<and> reason \<in> skip_reasons \<and> w = None
    \<or> r = REQUIRE_HUMAN \<and> reason = ''AGENT_ESCALATION_REQUESTED'' \<and> w = None
    \<or> r = DEFER \<and> reason = ''CUSTOMER_CONTACT_ALREADY_IN_PROGRESS'' \<and> w = Some (default_wake p e)
    \<or> evaluate_availability zones p e a = Inr (r, reason, w)"
    (is "?skip \<or> ?escalate \<or> ?contact \<or> ?later")
proof (rule ccontr)
  let ?cls = "ACTION_CLASSES (ca_action_type a)"
  assume none: "\<not> (?skip \<or> ?escalate \<or> ?contact \<or> ?later)"
  have "bindR (if ?cls = CUSTOMER_CONTACT then contact_guards p e a else Inr None)
     (\<lambda>d. case d of Some r \<Rightarrow> Inr r | None \<Rightarrow> evaluate_availability zones p e a) = Inr (r, reason, w)"
    using assms none guard_reasons(1,2) by (simp only: evaluate_candidate_def Let_def sum.inject
        prod.inject simp_thms split: if_split_asm)
  then obtain d where d: "(if ?cls = CUSTOMER_CONTACT then contact_guards p e a else Inr None) = Inr d"
      "(case d of Some r \<Rightarrow> Inr r | None \<Rightarrow> evaluate_availability zones p e a) = Inr (r, reason, w)"
    unfolding bindR_eq_Inr by blast
  with none contact_guards_cases [of p e a r reason w] show False
    by (cases d) (auto split: if_splits)
qed

text \<open>The result and the reason of a candidate, for every branch.\<close>

lemma evaluate_candidate_result:
  assumes "evaluate_candidate zones p e a = Inr (r, reason, w)"
  shows "r = SKIP \<and> reason \<in> skip_reasons \<and> w = None
    \<or> r = REQUIRE_HUMAN \<and> reason \<in> {''AGENT_ESCALATION_REQUESTED'', ''HUMAN_REVIEW_REQUIRED''} \<and> w = None
    \<or> r = PROCEED \<and> reason = ''POLICY_AUTHORIZED'' \<and> w = None
    \<or> r = DEFER \<and> reason \<in> defer_reasons"
  using evaluate_candidate_cases [OF assms]
proof (elim disjE)
  assume "evaluate_availability zones p e a = Inr (r, reason, w)"
  from evaluate_availability_cases [OF this] show ?thesis
  proof (elim disjE)
    assume "evaluate_timing zones p e a = Inr (r, reason, w)"
    from evaluate_timing_cases [OF this] show ?thesis
    proof (elim disjE)
      assume "evaluate_value p e a = Inr (r, reason, w)"
      from evaluate_value_cases [OF this] show ?thesis by auto
    qed auto
  qed auto
qed auto


section \<open>What an authorised action satisfies\<close>

text \<open>
  The conditions of the merchant policy for acting, stated as such: no order, no results, no
  reasons, one line per rule.
\<close>

definition contact_permitted :: "(string \<Rightarrow> zone option) \<Rightarrow> MerchantPolicySnapshot \<Rightarrow>
    PolicyEvaluationInput \<Rightarrow> CandidateAction \<Rightarrow> bool" where
  "contact_permitted zones p e a \<longleftrightarrow>
     pe_customer_identity_resolved e \<and> \<not> pe_customer_contact_in_progress e
     \<and> pe_contact_count e < mp_contact_limit p
     \<and> (\<exists>ch\<in>set_option (ca_channel a). ch \<notin> pe_opted_out_channels e
          \<and> consent_of (pe_consent_by_channel e) ch = GRANTED)
     \<and> (\<exists>z\<in>set_option (zones (mp_timezone p)). \<not> in_quiet_hours z p (pe_evaluated_at e))"

definition review_satisfied :: "MerchantPolicySnapshot \<Rightarrow> PolicyEvaluationInput \<Rightarrow>
    CandidateAction \<Rightarrow> bool" where
  "review_satisfied p e a \<longleftrightarrow>
     pe_amount_minor e < mp_human_review_amount_minor p
       \<and> mp_minimum_confidence_basis_points p \<le> pe_confidence_basis_points e
     \<or> approval_matches p e a = Inr True"

definition authorized :: "(string \<Rightarrow> zone option) \<Rightarrow> MerchantPolicySnapshot \<Rightarrow>
    PolicyEvaluationInput \<Rightarrow> CandidateAction \<Rightarrow> bool" where
  "authorized zones p e a \<longleftrightarrow>
     (let action_class = ACTION_CLASSES (ca_action_type a) in
        ca_action_type a \<noteq> ESCALATE_HUMAN
        \<and> (ca_action_type a \<in> mp_allowed_actions p \<or> action_class \<in> ALWAYS_ALLOWED_CLASSES)
        \<and> (action_class = RETRY \<longrightarrow> pe_retry_count e < mp_retry_limit p)
        \<and> (action_class = CUSTOMER_CONTACT \<longrightarrow> contact_permitted zones p e a)
        \<and> (action_class \<in> external_classes \<longrightarrow> \<not> pe_unknown_equivalent_action e)
        \<and> (action_class \<in> external_classes \<and> pe_active_promise_to_pay e
             \<longrightarrow> ca_action_type a = SCHEDULE_PROMISE_REMINDER)
        \<and> (\<forall>i\<in>set (pe_incidents e). \<not> applies i a (pe_evaluated_at e))
        \<and> (\<forall>until\<in>set_option (pe_diagnosis_defer_until e). until \<le> pe_evaluated_at e)
        \<and> (action_class \<in> external_classes \<longrightarrow>
             mp_minimum_expected_net_recovery_minor p \<le> ca_expected_net_recovery_minor a
             \<and> review_satisfied p e a))"

lemma exempt_iff: "c \<notin> EXPECTED_VALUE_EXEMPT_CLASSES \<longleftrightarrow> c \<in> external_classes"
  by (cases c) (simp_all add: EXPECTED_VALUE_EXEMPT_CLASSES_def external_classes_def)

lemma class_DEFER_RETRY: "ca_action_type a = DEFER_RETRY \<Longrightarrow> ACTION_CLASSES (ca_action_type a) \<in> external_classes"
  by (simp add: external_classes_def)

lemma evaluate_value_proceed:
  "(\<exists>reason w. evaluate_value p e a = Inr (PROCEED, reason, w)) \<longleftrightarrow>
   (ACTION_CLASSES (ca_action_type a) \<in> external_classes \<longrightarrow>
     mp_minimum_expected_net_recovery_minor p \<le> ca_expected_net_recovery_minor a
     \<and> review_satisfied p e a)"
  by (auto simp: evaluate_value_def Let_def exempt_iff review_satisfied_def bindR_eq_Inr not_le not_less
      split: if_splits)

lemma evaluate_timing_proceed:
  assumes "approval_matches p e a = Inr b"
  shows "(\<exists>reason w. evaluate_timing zones p e a = Inr (PROCEED, reason, w)) \<longleftrightarrow>
    (\<forall>until\<in>set_option (pe_diagnosis_defer_until e). until \<le> pe_evaluated_at e)
    \<and> (ACTION_CLASSES (ca_action_type a) = CUSTOMER_CONTACT \<longrightarrow>
        (\<exists>z\<in>set_option (zones (mp_timezone p)). \<not> in_quiet_hours z p (pe_evaluated_at e)))
    \<and> (\<exists>reason w. evaluate_value p e a = Inr (PROCEED, reason, w))"
proof (cases "ca_action_type a = DEFER_RETRY
    \<and> pe_confidence_basis_points e < mp_minimum_confidence_basis_points p \<and> \<not> b")
  case True
  then have "\<not> (\<exists>reason w. evaluate_value p e a = Inr (PROCEED, reason, w))"
    unfolding evaluate_value_proceed
    using assms class_DEFER_RETRY [of a] by (auto simp: review_satisfied_def)
  with True assms show ?thesis by (simp add: evaluate_timing_def)
next
  case False
  show ?thesis
  proof (cases "\<forall>until\<in>set_option (pe_diagnosis_defer_until e). until \<le> pe_evaluated_at e")
    case True
    with False assms show ?thesis
      by (cases "zones (mp_timezone p)") (auto simp: evaluate_timing_def not_le [symmetric])
  next
    case later: False
    with False assms show ?thesis by (auto simp: evaluate_timing_def not_le)
  qed
qed

lemma evaluate_availability_proceed:
  assumes "approval_matches p e a = Inr b"
  shows "(\<exists>reason w. evaluate_availability zones p e a = Inr (PROCEED, reason, w)) \<longleftrightarrow>
    (ACTION_CLASSES (ca_action_type a) \<in> external_classes \<longrightarrow> \<not> pe_unknown_equivalent_action e)
    \<and> (ACTION_CLASSES (ca_action_type a) \<in> external_classes \<and> pe_active_promise_to_pay e
         \<longrightarrow> ca_action_type a = SCHEDULE_PROMISE_REMINDER)
    \<and> (\<forall>i\<in>set (pe_incidents e). \<not> applies i a (pe_evaluated_at e))
    \<and> (\<exists>reason w. evaluate_timing zones p e a = Inr (PROCEED, reason, w))"
  unfolding evaluate_availability_def Let_def by (auto simp: filter_empty_conv)

lemma contact_guards_pass:
  assumes "wf_candidate a" "ACTION_CLASSES (ca_action_type a) = CUSTOMER_CONTACT"
  shows "contact_guards p e a = Inr None \<longleftrightarrow>
    pe_customer_identity_resolved e \<and> \<not> pe_customer_contact_in_progress e
    \<and> pe_contact_count e < mp_contact_limit p
    \<and> (\<exists>ch\<in>set_option (ca_channel a). ch \<notin> pe_opted_out_channels e
         \<and> consent_of (pe_consent_by_channel e) ch = GRANTED)"
  using wf_candidateD(4) [OF assms(1)] assms(2)
  by (auto simp: contact_guards_def not_le split: if_splits)

lemma evaluate_candidate_proceed:
  assumes "wf_policy zones p" "wf_evaluation e" "wf_candidate a" "mp_currency p = pe_currency e"
  shows "(\<exists>reason w. evaluate_candidate zones p e a = Inr (PROCEED, reason, w)) \<longleftrightarrow>
    authorized zones p e a"
proof -
  let ?cls = "ACTION_CLASSES (ca_action_type a)"
  obtain b where b: "approval_matches p e a = Inr b"
    using approval_matches_total [OF assms(2,3)] wf_policyD(3) [OF assms(1)] assms(4) by auto
  have contact: "c = None" if "contact_guards p e a = Inr c"
      "(case c of Some r \<Rightarrow> Inr r | None \<Rightarrow> evaluate_availability zones p e a) = Inr (PROCEED, x, y)" for c x y
    using that contact_guards_cases [of p e a PROCEED x y] by (cases c) auto
  have tail: "(\<exists>reason w. bindR (if ?cls = CUSTOMER_CONTACT then contact_guards p e a else Inr None)
      (\<lambda>d. case d of Some r \<Rightarrow> Inr r | None \<Rightarrow> evaluate_availability zones p e a) = Inr (PROCEED, reason, w))
    \<longleftrightarrow> (?cls = CUSTOMER_CONTACT \<longrightarrow> contact_guards p e a = Inr None)
      \<and> (\<exists>reason w. evaluate_availability zones p e a = Inr (PROCEED, reason, w))"
  proof (cases "?cls = CUSTOMER_CONTACT")
    case True
    then show ?thesis using contact by (cases "contact_guards p e a") (auto, fastforce+)
  qed simp
  have "(\<exists>reason w. evaluate_candidate zones p e a = Inr (PROCEED, reason, w)) \<longleftrightarrow>
      ca_action_type a \<noteq> ESCALATE_HUMAN
      \<and> (ca_action_type a \<in> mp_allowed_actions p \<or> ?cls \<in> ALWAYS_ALLOWED_CLASSES)
      \<and> (?cls = RETRY \<longrightarrow> pe_retry_count e < mp_retry_limit p)
      \<and> (?cls = CUSTOMER_CONTACT \<longrightarrow> contact_guards p e a = Inr None)
      \<and> (\<exists>reason w. evaluate_availability zones p e a = Inr (PROCEED, reason, w))"
    (is "?lhs \<longleftrightarrow> ?rhs")
  proof (cases "(ca_action_type a \<notin> mp_allowed_actions p \<and> ?cls \<notin> ALWAYS_ALLOWED_CLASSES)
      \<or> ca_action_type a = ESCALATE_HUMAN \<or> (?cls = RETRY \<and> mp_retry_limit p \<le> pe_retry_count e)")
    case True
    then have "\<not> ?lhs" by (auto simp only: evaluate_candidate_def Let_def sum.inject prod.inject
        PolicyResult.distinct simp_thms split: if_split_asm)
    moreover have "\<not> ?rhs" using True by (auto simp: not_less)
    ultimately show ?thesis by (simp only:)
  next
    case False
    then have eq: "evaluate_candidate zones p e a =
        bindR (if ?cls = CUSTOMER_CONTACT then contact_guards p e a else Inr None)
        (\<lambda>d. case d of Some r \<Rightarrow> Inr r | None \<Rightarrow> evaluate_availability zones p e a)"
      unfolding evaluate_candidate_def Let_def by (simp only: de_Morgan_disj if_False)
    from False show ?thesis unfolding eq tail de_Morgan_disj not_less [symmetric] by blast
  qed
  note main = this [unfolded evaluate_availability_proceed [OF b] evaluate_timing_proceed [OF b]
    evaluate_value_proceed]
  show ?thesis
  proof (cases "?cls = CUSTOMER_CONTACT")
    case True
    show ?thesis
      unfolding main authorized_def Let_def contact_permitted_def
      using True contact_guards_pass [OF assms(3) True, of p e] by (simp only: simp_thms; blast)
  next
    case False
    then show ?thesis
      unfolding main authorized_def Let_def by (simp only: simp_thms; blast)
  qed
qed

end
