(* ===== verification/Policy_Theorems.thy ===== *)
theory Policy_Theorems
  imports Policy_Guards
begin

text \<open>
  What a policy decision guarantees: it exists, it is one edge of the case table, a stop
  dominates, an authorised action satisfies every rule, the selection is the first candidate
  that is not skipped, a deferral wakes later, and approvals and digests bind.
\<close>


section \<open>The loop\<close>

definition skipped_with :: "(string \<Rightarrow> zone option) \<Rightarrow> MerchantPolicySnapshot \<Rightarrow>
    PolicyEvaluationInput \<Rightarrow> CandidateAction \<Rightarrow> string \<Rightarrow> bool" where
  "skipped_with zones p e a reason \<longleftrightarrow> ca_action_type a \<noteq> ActionType.NO_ACTION
     \<and> evaluate_candidate zones p e a = Inr (SKIP, reason, None)"

text \<open>The decision that selecting \<open>a\<close> after the skipped \<open>pre\<close> gives.\<close>

definition selects :: "(string \<Rightarrow> zone option) \<Rightarrow> MerchantPolicySnapshot \<Rightarrow> PolicyEvaluationInput \<Rightarrow>
    CandidateAction list \<Rightarrow> string list \<Rightarrow> CandidateAction \<Rightarrow> PolicyDecision \<Rightarrow> bool" where
  "selects zones p e pre reasons a d \<longleftrightarrow>
     list_all2 (skipped_with zones p e) pre reasons \<and> pd_selected_action d = a
     \<and> pd_evaluated_candidates d = pre @ [a]
     \<and> pd_resulting_state d = state_for (pd_result d)
     \<and> (if ca_action_type a = ActionType.NO_ACTION
        then pd_result d = SKIP \<and> pd_next_evaluation_at d = None
          \<and> pd_reason_codes d = first_occurrences (reasons @ [''NO_ELIGIBLE_ACTION''])
        else \<exists>reason. evaluate_candidate zones p e a = Inr (pd_result d, reason, pd_next_evaluation_at d)
          \<and> pd_result d \<noteq> SKIP \<and> pd_reason_codes d = first_occurrences (reasons @ [reason]))"

lemma evaluate_candidates_selects:
  assumes "evaluate_candidates zones p e skipped evaluated cs = Inr d"
    and "list_all2 (skipped_with zones p e) evaluated skipped"
  shows "\<exists>pre a post reasons. evaluated @ cs = pre @ a # post \<and> selects zones p e pre reasons a d"
  using assms
proof (induction zones p e skipped evaluated cs rule: evaluate_candidates.induct)
  case (2 zones p e skipped evaluated a rest)
  show ?case
  proof (cases "ca_action_type a = ActionType.NO_ACTION")
    case True
    with "2.prems" have "selects zones p e evaluated skipped a d"
      by (auto simp: selects_def)
    then show ?thesis by blast
  next
    case act: False
    with "2.prems"(1) obtain r reason w where
      r: "evaluate_candidate zones p e a = Inr (r, reason, w)" by (auto simp: bindR_eq_Inr)
    show ?thesis
    proof (cases "r = SKIP")
      case True
      with r act have "skipped_with zones p e a reason"
        using evaluate_candidate_result [OF r] by (auto simp: skipped_with_def)
      with "2.prems"(2) have "list_all2 (skipped_with zones p e) (evaluated @ [a]) (skipped @ [reason])"
        by (simp add: list_all2_appendI)
      with "2.IH" [OF act r refl refl True] r act True "2.prems"(1) show ?thesis by simp
    next
      case False
      with "2.prems" r act have "selects zones p e evaluated skipped a d"
        by (auto simp: selects_def)
      then show ?thesis by blast
    qed
  qed
qed simp

lemma evaluate_candidates_total:
  assumes "wf_policy zones p" "wf_evaluation e" "mp_currency p = pe_currency e"
    and "\<forall>a\<in>set cs. wf_candidate a" "\<exists>a\<in>set cs. ca_action_type a = ActionType.NO_ACTION"
  shows "\<exists>d. evaluate_candidates zones p e skipped evaluated cs = Inr d"
  using assms(4,5)
proof (induction cs arbitrary: skipped evaluated)
  case (Cons a cs)
  then obtain r reason w where "evaluate_candidate zones p e a = Inr (r, reason, w)"
    using evaluate_candidate_total [OF assms(1,2) _ assms(3), of a] by auto
  with Cons show ?case by (auto split: prod.splits)
qed simp


section \<open>The decision\<close>

text \<open>The reasons for a forced stop.\<close>

definition must_stop :: "MerchantPolicySnapshot \<Rightarrow> PolicyEvaluationInput \<Rightarrow> bool" where
  "must_stop p e \<longleftrightarrow> mp_currency p \<noteq> pe_currency e
     \<or> pe_terminal e \<or> pe_already_paid e \<or> pe_disputed e \<or> pe_cancelled e"

lemma stop_decision_eq:
  assumes "wf_evaluation e"
  shows "\<exists>a. stop_decision e reason = Inr \<lparr>pd_selected_action = a, pd_result = PolicyResult.STOP,
      pd_reason_codes = [reason], pd_resulting_state = STOPPED,
      pd_next_evaluation_at = None, pd_evaluated_candidates = [a]\<rparr>
    \<and> ca_action_type a = STOP_AUTOMATION \<and> ca_target a = pe_case_id e"
  using wf_evaluationD(1) [OF assms]
  by (simp add: stop_decision_def stop_candidate_def post_init_candidate_def raise_first_okI)

text \<open>The reason of a forced stop, and the policy as a choice between it and the loop.\<close>

definition stop_reason :: "MerchantPolicySnapshot \<Rightarrow> PolicyEvaluationInput \<Rightarrow> string option" where
  "stop_reason p e =
     (if mp_currency p \<noteq> pe_currency e then Some ''POLICY_CURRENCY_MISMATCH''
      else global_stop_reason e)"

lemma must_stop_iff: "must_stop p e \<longleftrightarrow> stop_reason p e \<noteq> None"
  by (simp add: must_stop_def stop_reason_def global_stop_reason_def)

lemma stop_reason_pattern: "stop_reason p e = Some reason \<Longrightarrow> reason_pattern reason"
  by (auto simp: stop_reason_def global_stop_reason_def reason_pattern_def is_ascii_upper_def
      split: if_splits)

lemma evaluate_policy_eq:
  assumes "mp_effective_at p \<le> pe_evaluated_at e"
  shows "evaluate_policy zones p e =
    (case stop_reason p e of
       Some reason \<Rightarrow> stop_decision e reason
     | None \<Rightarrow> evaluate_candidates zones p e [] [] (sorted_candidates (pe_candidates e)))"
  using assms by (simp add: evaluate_policy_def stop_reason_def not_le [symmetric])

text \<open>The two shapes of a decision, for validated inputs.\<close>

lemma evaluate_policy_cases:
  assumes "wf_policy zones p" "wf_evaluation e" "mp_effective_at p \<le> pe_evaluated_at e"
  obtains
    (stop) a reason where "stop_reason p e = Some reason" "evaluate_policy zones p e = Inr
        \<lparr>pd_selected_action = a, pd_result = PolicyResult.STOP, pd_reason_codes = [reason],
         pd_resulting_state = STOPPED, pd_next_evaluation_at = None, pd_evaluated_candidates = [a]\<rparr>"
      "ca_action_type a = STOP_AUTOMATION"
  | (loop) d pre a post reasons where "stop_reason p e = None" "evaluate_policy zones p e = Inr d"
      "pe_candidates e = pre @ a # post" "selects zones p e pre reasons a d"
proof (cases "stop_reason p e")
  case (Some reason)
  with stop_decision_eq [OF assms(2), of reason] stop show ?thesis
    by (auto simp: evaluate_policy_eq [OF assms(3)])
next
  case None
  then have currency: "mp_currency p = pe_currency e"
    and eq: "evaluate_policy zones p e = evaluate_candidates zones p e [] [] (pe_candidates e)"
    by (auto simp: evaluate_policy_eq [OF assms(3)] sorted_candidates_id [OF assms(2)]
        stop_reason_def split: if_splits)
  have "\<exists>a\<in>set (pe_candidates e). ca_action_type a = ActionType.NO_ACTION"
    using wf_evaluationD(5,6) [OF assms(2)] last_in_set by blast
  then obtain d where d: "evaluate_policy zones p e = Inr d"
    using evaluate_candidates_total [OF assms(1,2) currency] wf_evaluationD(8) [OF assms(2)]
    unfolding eq by blast
  then have "evaluate_candidates zones p e [] [] (pe_candidates e) = Inr d" using eq by simp
  from evaluate_candidates_selects [OF this]
  obtain pre a post reasons where "pe_candidates e = pre @ a # post" "selects zones p e pre reasons a d"
    by auto
  with loop [OF None d] show ?thesis by blast
qed

lemma evaluate_policy_effective: "evaluate_policy zones p e = Inr d \<Longrightarrow> mp_effective_at p \<le> pe_evaluated_at e"
  by (auto simp: evaluate_policy_def split: if_splits)

lemma reason_pattern_literals:
  "reason \<in> skip_reasons \<union> defer_reasons \<Longrightarrow> reason_pattern reason"
  "reason \<in> {''AGENT_ESCALATION_REQUESTED'', ''HUMAN_REVIEW_REQUIRED'', ''POLICY_AUTHORIZED'',
     ''NO_ELIGIBLE_ACTION''} \<Longrightarrow> reason_pattern reason"
  by (auto simp: skip_reasons_def defer_reasons_def reason_pattern_def is_ascii_upper_def)

lemma evaluate_candidate_reason_pattern:
  "evaluate_candidate zones p e a = Inr (r, reason, w) \<Longrightarrow> reason_pattern reason"
  using evaluate_candidate_result [of zones p e a r reason w] reason_pattern_literals [of reason] by auto

lemma skipped_reason_pattern:
  "list_all2 (skipped_with zones p e) pre reasons \<Longrightarrow> reason \<in> set reasons \<Longrightarrow> reason_pattern reason"
  by (auto simp: list_all2_conv_all_nth in_set_conv_nth skipped_with_def
      dest!: spec intro: evaluate_candidate_reason_pattern)

text \<open>A deferral names a time, and only a deferral does.\<close>

lemma evaluate_candidate_wake:
  assumes "evaluate_candidate zones p e a = Inr (r, reason, w)" "wf_evaluation e"
  shows "w \<noteq> None \<longleftrightarrow> r = DEFER" "r \<noteq> PolicyResult.STOP"
proof -
  show "r \<noteq> PolicyResult.STOP" using evaluate_candidate_result [OF assms(1)] by auto
  have "w \<noteq> None" if "r = DEFER"
    using evaluate_candidate_cases [OF assms(1)]
  proof (elim disjE)
    assume "evaluate_availability zones p e a = Inr (r, reason, w)"
    from evaluate_availability_cases [OF this] show ?thesis
      using evaluate_timing_cases [of zones p e a r reason w] evaluate_value_cases [of p e a r reason w]
        wf_evaluationD(7) [OF assms(2)] that by auto
  qed (use that in auto)
  then show "w \<noteq> None \<longleftrightarrow> r = DEFER" using evaluate_candidate_result [OF assms(1)] by auto
qed


lemma state_for_edge: "can_transition POLICY_CHECK (state_for r)"
  by (cases r) (simp_all add: can_transition_def)

lemma evaluate_candidate_no_stop: "evaluate_candidate zones p e a \<noteq> Inr (PolicyResult.STOP, reason, w)"
  using evaluate_candidate_result by fastforce

text \<open>
  Property C20. The policy always decides: for a validated policy already in force and a
  validated evaluation there is a decision; its state is the one its result stands for and an
  edge of the case table out of \<open>POLICY_CHECK\<close>, it carries a wake-up time exactly when it
  defers, and its reason codes are non-empty, distinct and machine-readable, as the
  decision receipt demands.
\<close>

theorem policy_always_decides:
  assumes "wf_policy zones p" and "wf_evaluation e" and "mp_effective_at p \<le> pe_evaluated_at e"
  shows "\<exists>d. evaluate_policy zones p e = Inr d
    \<and> pd_resulting_state d = state_for (pd_result d)
    \<and> can_transition POLICY_CHECK (pd_resulting_state d)
    \<and> (pd_next_evaluation_at d \<noteq> None \<longleftrightarrow> pd_result d = DEFER)
    \<and> pd_reason_codes d \<noteq> [] \<and> distinct (pd_reason_codes d)
    \<and> (\<forall>code\<in>set (pd_reason_codes d). reason_pattern code)"
  using assms
proof (cases rule: evaluate_policy_cases)
  case (stop a reason)
  then show ?thesis using stop_reason_pattern [of p e reason] by (simp add: can_transition_def)
next
  case (loop d pre a post reasons)
  from loop(4) have skipped: "\<forall>code\<in>set reasons. reason_pattern code"
    by (auto simp: selects_def dest: skipped_reason_pattern)
  have state: "pd_resulting_state d = state_for (pd_result d)" using loop(4) by (simp add: selects_def)
  show ?thesis
  proof (cases "ca_action_type a = ActionType.NO_ACTION")
    case True
    have "reason_pattern ''NO_ELIGIBLE_ACTION''" by (rule reason_pattern_literals) simp
    with True loop skipped state state_for_edge [of SKIP] show ?thesis by (simp add: selects_def)
  next
    case False
    with loop(4) obtain reason where
      r: "evaluate_candidate zones p e a = Inr (pd_result d, reason, pd_next_evaluation_at d)"
        "pd_reason_codes d = first_occurrences (reasons @ [reason])"
      by (auto simp: selects_def)
    show ?thesis
      using loop(2) r(2) skipped state state_for_edge evaluate_candidate_wake(1) [OF r(1) assms(2)]
        evaluate_candidate_reason_pattern [OF r(1)]
      by auto
  qed
qed

text \<open>
  Property C19. A stop dominates: a decision is \<open>STOP\<close> exactly when the case is terminal, already
  paid, disputed or cancelled or the currencies differ, whatever the candidates, limits,
  approvals and incidents are; no candidate is even looked at then.
\<close>

theorem policy_stop_dominates:
  assumes "wf_policy zones p" and "wf_evaluation e" and "evaluate_policy zones p e = Inr d"
  shows "(pd_result d = PolicyResult.STOP \<longleftrightarrow> must_stop p e)
    \<and> (must_stop p e \<longrightarrow> ca_action_type (pd_selected_action d) = STOP_AUTOMATION
         \<and> pd_resulting_state d = STOPPED \<and> pd_evaluated_candidates d = [pd_selected_action d])"
  using assms(1,2) evaluate_policy_effective [OF assms(3)]
proof (cases rule: evaluate_policy_cases)
  case (stop a reason)
  with assms(3) show ?thesis by (auto simp: must_stop_iff)
next
  case (loop d' pre a post reasons)
  then have "pd_result d \<noteq> PolicyResult.STOP"
    using assms(3) evaluate_candidate_no_stop by (auto simp: selects_def split: if_splits)
  with loop assms(3) show ?thesis by (auto simp: must_stop_iff)
qed

lemma proceed_authorized:
  assumes "wf_policy zones p" and "wf_evaluation e" and "evaluate_policy zones p e = Inr d"
    and "pd_result d = PROCEED"
  shows "pd_selected_action d \<in> set (pe_candidates e) \<and> authorized zones p e (pd_selected_action d)
    \<and> ca_action_type (pd_selected_action d) \<notin> {ActionType.NO_ACTION, ESCALATE_HUMAN}
    \<and> \<not> must_stop p e \<and> pd_resulting_state d = READY"
  using assms(1,2) evaluate_policy_effective [OF assms(3)]
proof (cases rule: evaluate_policy_cases)
  case (stop a reason)
  with assms(3,4) show ?thesis by auto
next
  case (loop d' pre a post reasons)
  then have a: "pd_selected_action d = a" "a \<in> set (pe_candidates e)" "wf_candidate a"
    using assms(3) wf_evaluationD(8) [OF assms(2), of a] by (auto simp: selects_def)
  have act: "ca_action_type a \<noteq> ActionType.NO_ACTION"
    "\<exists>reason w. evaluate_candidate zones p e a = Inr (PROCEED, reason, w)"
    using loop assms(3,4) by (auto simp: selects_def split: if_splits)
  have currency: "mp_currency p = pe_currency e"
    using loop(1) by (auto simp: stop_reason_def split: if_splits)
  have "authorized zones p e a"
    using act(2) evaluate_candidate_proceed [OF assms(1,2) a(3) currency] by blast
  then show ?thesis
    using a act loop assms(3,4) by (auto simp: authorized_def Let_def must_stop_iff selects_def)
qed

text \<open>
  Property C1. What the policy lets through is authorised: a decision to \<open>PROCEED\<close> names one of
  the candidates and every rule of the policy holds for it - allowed action, retry and
  contact limits, consent, opt-out and quiet hours, no unknown equivalent action, promise or
  incident in the way, diagnosis delay over, enough value, and either a small, confident case
  or a matching approval - and no reason to stop is present.
\<close>

theorem policy_proceed_authorized:
  assumes "wf_policy zones p" and "wf_evaluation e" and "evaluate_policy zones p e = Inr d"
    and "pd_result d = PROCEED"
  shows "pd_selected_action d \<in> set (pe_candidates e) \<and> authorized zones p e (pd_selected_action d)
    \<and> ca_action_type (pd_selected_action d) \<notin> {ActionType.NO_ACTION, ESCALATE_HUMAN}
    \<and> \<not> must_stop p e \<and> pd_resulting_state d = READY"
  by (rule proceed_authorized [OF assms])

text \<open>
  The selection is by rank: unless a stop is forced, the decision is about the
  first candidate in rank order that is not skipped; the candidates before it were skipped,
  each for the reason that is reported, and none after it was evaluated.
\<close>

theorem policy_selects_first:
  assumes "wf_policy zones p" and "wf_evaluation e" and "evaluate_policy zones p e = Inr d"
    and "\<not> must_stop p e"
  shows "\<exists>pre post reasons. pe_candidates e = pre @ pd_selected_action d # post
    \<and> selects zones p e pre reasons (pd_selected_action d) d"
  using assms(1,2) evaluate_policy_effective [OF assms(3)]
proof (cases rule: evaluate_policy_cases)
  case (stop a reason)
  with assms(4) show ?thesis by (simp add: must_stop_iff)
next
  case (loop d' pre a post reasons)
  moreover from loop assms(3) have "d' = d" "a = pd_selected_action d" by (auto simp: selects_def)
  ultimately show ?thesis by blast
qed


section \<open>Waking up\<close>

text \<open>
  A zone whose wall clock only runs forward and whose \<open>fold=0\<close> reading of a later wall time is a
  later instant. Zones without a backward change, UTC among them, have this property.
\<close>

definition forward_zone :: "zone \<Rightarrow> bool" where
  "forward_zone z \<longleftrightarrow> (\<forall>t w. t + offset_at z t < w \<longrightarrow> t < w - wall_offset z w)"

lemma quiet_hours_end_later:
  assumes "forward_zone z" "is_aware t" "0 \<le> mp_quiet_hours_end p"
  shows "t < quiet_hours_end z p t"
proof -
  let ?local = "local_wall z t"
  let ?c = "?local div day_us * day_us + mp_quiet_hours_end p"
  let ?w = "if ?c \<le> ?local then ?c + days 1 else ?c"
  have "?local - ?local div day_us * day_us < day_us"
    using pos_mod_bound [of day_us ?local]
    by (simp add: minus_div_mult_eq_mod day_us_def)
  then have "?local < ?w" using assms(3) by (auto simp: days_def seconds_def day_us_def)
  then have "instant t < ?w - wall_offset z ?w"
    using assms(1) by (auto simp: forward_zone_def local_wall_def)
  moreover have "quiet_hours_end z p t = Aware (?w - wall_offset z ?w)"
    by (simp only: quiet_hours_end_def Let_def)
  ultimately show ?thesis using assms(2) by (cases t) simp_all
qed

lemma default_wake_later: "wf_policy zones p \<Longrightarrow> pe_evaluated_at e < default_wake p e"
  using wf_policyD(1) [of zones p] by (simp add: default_wake_def seconds_def)

lemma evaluate_candidate_later:
  assumes "evaluate_candidate zones p e a = Inr (DEFER, reason, Some t)"
    and "wf_policy zones p" "wf_evaluation e"
    and "\<forall>z\<in>set_option (zones (mp_timezone p)). forward_zone z" "0 \<le> mp_quiet_hours_end p"
  shows "pe_evaluated_at e < t \<or> pe_active_promise_to_pay e \<and> pe_promise_due_at e = Some t"
proof -
  note default = default_wake_later [OF assms(2), of e]
  show ?thesis
    using evaluate_candidate_cases [OF assms(1)]
  proof (elim disjE)
    assume "evaluate_availability zones p e a = Inr (DEFER, reason, Some t)"
    from evaluate_availability_cases [OF this] show ?thesis
    proof (elim disjE)
      assume "evaluate_timing zones p e a = Inr (DEFER, reason, Some t)"
      from evaluate_timing_cases [OF this] show ?thesis
        using default evaluate_value_cases [of p e a DEFER reason "Some t"]
          quiet_hours_end_later [of _ "pe_evaluated_at e" p] wf_evaluationD(3) [OF assms(3)] assms(4,5)
        by (elim disjE) auto
    qed (use default in \<open>auto simp: applies_def split: if_splits\<close>)
  qed (use default in auto)
qed



section \<open>Quiet hours across a clock change\<close>

text \<open>
  Central European time around 2026-10-25, when 03:00 summer time became 02:00 standard time
  at 01:00 UTC: the offset in force, and the offset of a wall time read with \<open>fold=0\<close>.
\<close>

definition autumn_zone :: zone where
  "autumn_zone =
     \<lparr>offset_at = (\<lambda>t. if t < 1792890000000000 then hours 2 else hours 1),
      wall_offset = (\<lambda>w. if w < 1792890000000000 + hours 2 then hours 2 else hours 1)\<rparr>"

text \<open>
  The quiet hours of a zone that turns its clock back can end in the past: with
  quiet hours until 02:30, an evaluation at the second 02:10 of that night lies in the quiet
  hours, and the end that is computed for it is 01:30 standard time, forty minutes ago.
\<close>

theorem quiet_hours_end_in_past:
  assumes "mp_quiet_hours_start p = hours 22" and "mp_quiet_hours_end p = minutes 150"
  shows "in_quiet_hours autumn_zone p (Aware (1792890000000000 + minutes 10))
    \<and> quiet_hours_end autumn_zone p (Aware (1792890000000000 + minutes 10)) =
        Aware (1792890000000000 - minutes 30)"
  using assms
  by (simp add: in_quiet_hours_def quiet_hours_end_def local_wall_def autumn_zone_def Let_def
      duration_defs day_us_def)


section \<open>What an approval is for\<close>


end
