(* ===== verification/Policy_Witnesses.thy ===== *)
theory Policy_Witnesses
  imports Policy_Theorems
begin

text \<open>
  Concrete instances of the policy theorems: the seeded conservative policy in the zone UTC,
  an evaluation at noon with a reminder by e-mail as the only action, and its variants (paid,
  above the review threshold, in quiet hours).
\<close>

definition utc_zone :: zone where
  "utc_zone = \<lparr>offset_at = (\<lambda>_. 0), wall_offset = (\<lambda>_. 0)\<rparr>"

definition sample_zones :: "string \<Rightarrow> zone option" where
  "sample_zones n = (if n = ''UTC'' then Some utc_zone else None)"

lemma forward_utc_zone [simp]: "forward_zone utc_zone"
  by (simp add: forward_zone_def utc_zone_def)

definition sample_policy :: MerchantPolicySnapshot where
  "sample_policy =
     \<lparr>mp_version = ''phase3-conservative-default-1.0'', mp_effective_at = Aware (20690 * day_us),
      mp_allowed_actions = {SEND_REMINDER}, mp_retry_limit = 3, mp_contact_limit = 2,
      mp_minimum_expected_net_recovery_minor = 100, mp_human_review_amount_minor = 50000,
      mp_minimum_confidence_basis_points = 5000, mp_default_defer_seconds = 3600,
      mp_timezone = ''UTC'', mp_quiet_hours_start = hours 22, mp_quiet_hours_end = hours 7,
      mp_currency = ''INR'', mp_features_version = ''phase3-v1''\<rparr>"

definition sample_reminder :: CandidateAction where
  "sample_reminder =
     \<lparr>ca_action_type = SEND_REMINDER, ca_recovery_probability_basis_points = 4000,
      ca_expected_net_recovery_minor = 2000, ca_rank = 1, ca_target = ''cust_1'',
      ca_logical_attempt = 1, ca_channel = Some EMAIL, ca_action_cost_minor = 10,
      ca_risk_penalty_minor = 0, ca_customer_friction_penalty_minor = 0\<rparr>"

definition sample_no_action :: CandidateAction where
  "sample_no_action =
     \<lparr>ca_action_type = ActionType.NO_ACTION, ca_recovery_probability_basis_points = 0,
      ca_expected_net_recovery_minor = 0, ca_rank = 2, ca_target = ''case_1'',
      ca_logical_attempt = 1, ca_channel = None, ca_action_cost_minor = 0,
      ca_risk_penalty_minor = 0, ca_customer_friction_penalty_minor = 0\<rparr>"

definition sample_evaluation :: PolicyEvaluationInput where
  "sample_evaluation =
     \<lparr>pe_case_id = ''case_1'', pe_amount_minor = 12000, pe_currency = ''INR'',
      pe_confidence_basis_points = 9000, pe_retry_count = 0, pe_contact_count = 0,
      pe_evaluated_at = Aware (20700 * day_us + hours 12),
      pe_candidates = [sample_reminder, sample_no_action], pe_evidence_references = [''event/1''],
      pe_consent_by_channel = [(EMAIL, GRANTED)], pe_opted_out_channels = {}, pe_incidents = [],
      pe_already_paid = False, pe_disputed = False, pe_cancelled = False, pe_terminal = False,
      pe_diagnosis_defer_until = None, pe_approval = None, pe_unknown_equivalent_action = False,
      pe_customer_contact_in_progress = False, pe_customer_identity_resolved = True,
      pe_active_promise_to_pay = False, pe_promise_due_at = None\<rparr>"

lemmas sample_defs = sample_policy_def sample_reminder_def sample_no_action_def sample_zones_def
  utc_zone_def duration_defs day_us_def

lemma wf_sample_policy: "wf_policy sample_zones sample_policy"
  by (simp add: wf_policy_def post_init_policy_def run_validation sample_defs)

lemma wf_sample_candidates: "wf_candidate sample_reminder" "wf_candidate sample_no_action"
  by (simp_all add: wf_candidate_def post_init_candidate_def run_validation sample_defs)

lemma wf_sample_evaluation: "wf_evaluation sample_evaluation"
  by (simp add: wf_evaluation_iff sample_evaluation_def ranks_from_one_def upto.simps
      wf_sample_candidates) (simp add: sample_reminder_def sample_no_action_def)

lemma sample_effective: "mp_effective_at sample_policy \<le> pe_evaluated_at sample_evaluation"
  by (simp add: sample_evaluation_def sample_defs)

text \<open>A first candidate that is not skipped is the decision.\<close>

lemma evaluate_policy_first:
  assumes "wf_evaluation e" "mp_effective_at p \<le> pe_evaluated_at e" "stop_reason p e = None"
    and "pe_candidates e = [sample_reminder, sample_no_action]"
    and "\<exists>reason w. evaluate_candidate zones p e sample_reminder = Inr (r, reason, w)" "r \<noteq> SKIP"
  shows "\<exists>d. evaluate_policy zones p e = Inr d \<and> pd_result d = r \<and> pd_selected_action d = sample_reminder"
proof -
  have "sorted_candidates (pe_candidates e) = sample_reminder # [sample_no_action]"
    using sorted_candidates_id [OF assms(1)] assms(4) by simp
  moreover have "ca_action_type sample_reminder \<noteq> ActionType.NO_ACTION"
    by (simp add: sample_reminder_def)
  ultimately show ?thesis
    using assms(5,6) by (auto simp: evaluate_policy_eq [OF assms(2)] assms(3))
qed

text \<open>The decision on the sample: to proceed with the reminder.\<close>

lemma sample_no_stop: "stop_reason sample_policy sample_evaluation = None"
  by (simp add: stop_reason_def global_stop_reason_def sample_policy_def sample_evaluation_def)

lemma sample_authorized: "authorized sample_zones sample_policy sample_evaluation sample_reminder"
  by (simp add: authorized_def contact_permitted_def review_satisfied_def consent_of_def
      in_quiet_hours_def local_wall_def sample_evaluation_def sample_defs)

lemma sample_candidate: "\<exists>reason w. evaluate_candidate sample_zones sample_policy sample_evaluation
    sample_reminder = Inr (PROCEED, reason, w)"
  by (subst evaluate_candidate_proceed [OF wf_sample_policy wf_sample_evaluation wf_sample_candidates(1)])
    (simp_all add: sample_authorized, simp add: sample_policy_def sample_evaluation_def)

lemma sample_decision: "\<exists>d. evaluate_policy sample_zones sample_policy sample_evaluation = Inr d
    \<and> pd_result d = PROCEED \<and> pd_selected_action d = sample_reminder"
  by (rule evaluate_policy_first [OF wf_sample_evaluation sample_effective sample_no_stop _ sample_candidate])
    (simp_all add: sample_evaluation_def)

theorem policy_always_decides_witness:
  "\<exists>d. evaluate_policy sample_zones sample_policy sample_evaluation = Inr d
     \<and> can_transition POLICY_CHECK (pd_resulting_state d)"
  using policy_always_decides [OF wf_sample_policy wf_sample_evaluation sample_effective] by blast

theorem policy_proceed_authorized_witness:
  "\<exists>d. evaluate_policy sample_zones sample_policy sample_evaluation = Inr d
     \<and> pd_result d = PROCEED
     \<and> authorized sample_zones sample_policy sample_evaluation (pd_selected_action d)"
  using sample_decision policy_proceed_authorized [OF wf_sample_policy wf_sample_evaluation] by blast

theorem policy_selects_first_witness:
  "\<exists>d pre post reasons. evaluate_policy sample_zones sample_policy sample_evaluation = Inr d
     \<and> pe_candidates sample_evaluation = pre @ pd_selected_action d # post
     \<and> selects sample_zones sample_policy sample_evaluation pre reasons (pd_selected_action d) d"
proof -
  have go: "\<not> must_stop sample_policy sample_evaluation"
    using sample_no_stop by (simp add: must_stop_iff)
  from sample_decision obtain d where d: "evaluate_policy sample_zones sample_policy sample_evaluation = Inr d"
    by blast
  from policy_selects_first [OF wf_sample_policy wf_sample_evaluation d go] d show ?thesis by blast
qed

text \<open>Variants: another approval, another time, a flag.\<close>

lemma wf_evaluation_paid: "wf_evaluation (sample_evaluation\<lparr>pe_already_paid := True\<rparr>)"
  using wf_sample_evaluation
  by (simp add: wf_evaluation_iff)

theorem policy_stop_dominates_witness:
  "\<exists>d. evaluate_policy sample_zones sample_policy (sample_evaluation\<lparr>pe_already_paid := True\<rparr>) = Inr d
     \<and> pd_result d = PolicyResult.STOP \<and> pd_resulting_state d = STOPPED"
proof -
  let ?e = "sample_evaluation\<lparr>pe_already_paid := True\<rparr>"
  have "must_stop sample_policy ?e" by (simp add: must_stop_def)
  moreover have effective: "mp_effective_at sample_policy \<le> pe_evaluated_at ?e"
    using sample_effective by simp
  obtain d where d: "evaluate_policy sample_zones sample_policy ?e = Inr d"
    using evaluate_policy_cases [OF wf_sample_policy wf_evaluation_paid effective] by metis
  ultimately show ?thesis
    using policy_stop_dominates [OF wf_sample_policy wf_evaluation_paid d] by auto
qed

definition night_evaluation :: PolicyEvaluationInput where
  "night_evaluation = sample_evaluation\<lparr>pe_evaluated_at := Aware (20700 * day_us + hours 23)\<rparr>"

lemma wf_night_evaluation: "wf_evaluation night_evaluation"
  using wf_sample_evaluation
  by (simp add: wf_evaluation_iff night_evaluation_def)

lemma night_candidate: "\<exists>reason w. evaluate_candidate sample_zones sample_policy night_evaluation
    sample_reminder = Inr (DEFER, reason, w)"
  by (simp add: evaluate_candidate_def contact_guards_def evaluate_availability_def
      evaluate_timing_def consent_of_def in_quiet_hours_def local_wall_def night_evaluation_def
      sample_evaluation_def sample_defs)


text \<open>A policy with the sample's quiet hours in a zone that turns its clock back.\<close>

theorem quiet_hours_end_in_past_witness:
  "quiet_hours_end autumn_zone (sample_policy\<lparr>mp_quiet_hours_end := minutes 150\<rparr>)
       (Aware (1792890000000000 + minutes 10))
     < Aware (1792890000000000 + minutes 10)"
  using quiet_hours_end_in_past [of "sample_policy\<lparr>mp_quiet_hours_end := minutes 150\<rparr>"]
  by (simp add: sample_policy_def duration_defs)

text \<open>An evaluation above the review threshold, with the approval that fits.\<close>

definition approved_review :: HumanReviewRequest where
  "approved_review = sample_review
     \<lparr>rv_action_fingerprint := fingerprint_digest
        \<lparr>fi_case_id = ''case_1'', fi_action_type = ''SEND_REMINDER'', fi_target = ''cust_1'',
         fi_amount_minor = 60000, fi_currency = ''INR'', fi_logical_attempt = 1,
         fi_policy_digest = content_digest sample_policy\<rparr>,
      rv_policy_digest := content_digest sample_policy, rv_status := APPROVED,
      rv_reviewer_id := Some ''alice'', rv_rationale := Some ''ok'',
      rv_requested_at := Aware (20700 * day_us), rv_expires_at := Aware (20701 * day_us),
      rv_decided_at := Some (Aware (20700 * day_us + hours 1))\<rparr>"

definition large_evaluation :: PolicyEvaluationInput where
  "large_evaluation = sample_evaluation
     \<lparr>pe_amount_minor := 60000, pe_approval := Some approved_review\<rparr>"

lemma wf_approved_review: "wf_review approved_review"
  by (simp add: wf_review_def post_init_review_def approved_review_def sample_review_def
      raise_first_okI review_decision_checks_def fingerprint_digest_def content_digest_def Let_def
      duration_defs day_us_def)

lemma wf_large_evaluation: "wf_evaluation large_evaluation"
  using wf_sample_evaluation wf_approved_review
  by (simp add: wf_evaluation_iff large_evaluation_def)

lemma large_authorized: "authorized sample_zones sample_policy large_evaluation sample_reminder"
proof -
  have "approval_matches sample_policy large_evaluation sample_reminder = Inr True"
    by (simp add: approval_matches_def large_evaluation_def sample_evaluation_def sample_reminder_def
        post_init_fingerprint_def raise_first_okI isupper_def is_upper_char_def is_lower_char_def
        is_matching_approval_def approved_review_def sample_review_def duration_defs day_us_def)
  moreover have "contact_permitted sample_zones sample_policy large_evaluation sample_reminder"
    by (simp add: contact_permitted_def consent_of_def in_quiet_hours_def local_wall_def
        large_evaluation_def sample_evaluation_def sample_defs)
  ultimately show ?thesis
    by (simp add: authorized_def review_satisfied_def large_evaluation_def sample_evaluation_def
        sample_policy_def sample_reminder_def)
qed


end
