(* ===== verification/Policy_Digest.thy ===== *)
theory Policy_Digest
  imports Policy_Evaluation
begin

text \<open>
  The content digest of a policy snapshot, which decisions and approvals quote: what two
  policies with one digest have in common.
\<close>

lemma finite_actions [simp]: "finite (A :: ActionType set)"
proof (rule finite_subset [OF subset_UNIV])
  have "(UNIV :: ActionType set) \<subseteq> {DEFER_RETRY, CREATE_PAYMENT_LINK,
      REQUEST_PAYMENT_METHOD_UPDATE, SEND_REMINDER, SCHEDULE_PROMISE_REMINDER, PAUSE_RETRIES,
      RESUME_DEFERRED_CASE, ESCALATE_HUMAN, STOP_AUTOMATION, ActionType.NO_ACTION}"
    using ActionType.exhaust by blast
  then show "finite (UNIV :: ActionType set)" by (rule finite_subset) simp
qed

lemma sorted_action_values_inject [simp]:
  "sorted_action_values A = sorted_action_values B \<longleftrightarrow> A = B"
proof -
  have "inj action_value" by (simp add: inj_on_def)
  then show ?thesis
    unfolding sorted_action_values_def by (metis finite_actions finite_imageI inj_image_eq_iff set_sorted_list_of_set)
qed

text \<open>What the document of a policy shows: every field, the times at the precision printed.\<close>

definition policy_content :: "MerchantPolicySnapshot \<Rightarrow>
    (ActionType set \<times> string \<times> string \<times> string \<times> string) \<times>
    (int \<times> int \<times> int \<times> int \<times> int \<times> int) \<times> (string \<times> string \<times> string)" where
  "policy_content p =
     ((mp_allowed_actions p, mp_version p, mp_features_version p, mp_currency p, mp_timezone p),
      (mp_retry_limit p, mp_contact_limit p, mp_minimum_expected_net_recovery_minor p,
       mp_human_review_amount_minor p, mp_minimum_confidence_basis_points p,
       mp_default_defer_seconds p),
      (format_seconds (mp_effective_at p), iso_clock (mp_quiet_hours_start p),
       iso_clock (mp_quiet_hours_end p)))"

lemma map_JStr_inject [simp]: "map JStr xs = map JStr ys \<longleftrightarrow> xs = ys"
  by (simp add: inj_map_eq_map inj_on_def)

lemma policy_document_inject:
  "json_dumps True (JObj (canonical_document p)) = json_dumps True (JObj (canonical_document q))
   \<longleftrightarrow> policy_content p = policy_content q"
proof -
  have doc: "sort_keys (JObj (canonical_document p)) = JObj (canonical_document p)" for p
    by (rule sort_keys_sorted_object) (auto simp: canonical_document_def)
  show ?thesis
    unfolding json_dumps_inject doc by (auto simp: canonical_document_def policy_content_def)
qed

interpretation policy_digest: digest_scheme
  "\<lambda>p. json_dumps True (JObj (canonical_document p))" policy_content
  rewrites "digest_scheme.digest (\<lambda>p. json_dumps True (JObj (canonical_document p))) = content_digest"
proof -
  show dig: "digest_scheme (\<lambda>p. json_dumps True (JObj (canonical_document p))) policy_content"
    by unfold_locales (rule policy_document_inject)
  show "digest_scheme.digest (\<lambda>p. json_dumps True (JObj (canonical_document p))) = content_digest"
    by (rule ext) (simp add: digest_scheme.digest_def [OF dig] content_digest_def)
qed

text \<open>
  A policy digest identifies the policy: two snapshots with one digest agree on the
  allowed actions, versions, currency, time zone and every limit and threshold, and on the
  printed effective time and quiet hours, unless their two documents are a SHA-256 collision.
\<close>

theorem content_digest_identifies:
  "content_digest p = content_digest q \<longleftrightarrow>
     policy_content p = policy_content q
     \<or> sha_collision (json_dumps True (JObj (canonical_document p)))
         (json_dumps True (JObj (canonical_document q)))"
  by (rule policy_digest.digest_eq_iff)

end
