(* ===== verification/Actions.thy ===== *)
theory Actions
  imports Policy
begin

text \<open>
  \<open>revenueguard_domain/actions.py\<close>: the idempotency key of an action, the action record and
  the verified outcome that decides whether money was recovered.
\<close>


section \<open>Data\<close>

datatype ActionStatus = PENDING | SUCCEEDED | FAILED | UNKNOWN

primrec action_status_value :: "ActionStatus \<Rightarrow> string" where
  "action_status_value PENDING = ''PENDING''"
| "action_status_value SUCCEEDED = ''SUCCEEDED''"
| "action_status_value FAILED = ''FAILED''"
| "action_status_value ActionStatus.UNKNOWN = ''UNKNOWN''"

datatype EvidenceSource =
  SIGNED_WEBHOOK | PROVIDER_LOOKUP | PROVIDER_RESPONSE | SIMULATOR | NONE

primrec evidence_source_value :: "EvidenceSource \<Rightarrow> string" where
  "evidence_source_value SIGNED_WEBHOOK = ''SIGNED_WEBHOOK''"
| "evidence_source_value PROVIDER_LOOKUP = ''PROVIDER_LOOKUP''"
| "evidence_source_value PROVIDER_RESPONSE = ''PROVIDER_RESPONSE''"
| "evidence_source_value EvidenceSource.SIMULATOR = ''SIMULATOR''"
| "evidence_source_value NONE = ''NONE''"

text \<open>\<open>_identifier\<close> of this module, whose message differs from the other modules'.\<close>

definition id_check :: "string \<Rightarrow> string \<Rightarrow> nat \<Rightarrow> bool \<times> exn" where
  "id_check name v maximum =
     (blank_or_longer maximum v,
      ValueError (name @ '' must contain 1 to '' @ show_nat maximum @ '' characters''))"

lemma fst_id_check [simp]: "fst (id_check n v k) = blank_or_longer k v"
  by (simp add: id_check_def)

text \<open>The keyword arguments of \<open>action_idempotency_key\<close>: the logical identity of an action.\<close>

record ActionIdentity =
  ai_merchant_id :: string
  ai_case_id :: string
  ai_action_type :: ActionType
  ai_target_type :: SubjectType
  ai_target_id :: string
  ai_logical_attempt :: int

definition identity_document :: "ActionIdentity \<Rightarrow> string" where
  "identity_document i = json_dumps True (JObj
     [(''action_type'', JStr (action_value (ai_action_type i))),
      (''case_id'', JStr (ai_case_id i)),
      (''logical_attempt'', JInt (ai_logical_attempt i)),
      (''merchant_id'', JStr (ai_merchant_id i)),
      (''target_id'', JStr (ai_target_id i)),
      (''target_type'', JStr (subject_value (ai_target_type i))),
      (''version'', JInt 1)])"

definition action_idempotency_key :: "ActionIdentity \<Rightarrow> string result" where
  "action_idempotency_key i =
     bindR (raise_first
       [id_check ''merchant_id'' (ai_merchant_id i) 128,
        id_check ''case_id'' (ai_case_id i) 128,
        id_check ''target_id'' (ai_target_id i) 128,
        (ai_logical_attempt i < 1, ValueError ''logical_attempt must be at least one'')])
     (\<lambda>_. Inr (''rg:v1:'' @ sha256_hex (identity_document i)))"

record RecoveryAction =
  ra_action_id :: string
  ra_case_id :: string
  ra_merchant_id :: string
  ra_decision_receipt_id :: string
  ra_action_type :: ActionType
  ra_target_type :: SubjectType
  ra_target_id :: string
  ra_logical_attempt :: int
  ra_idempotency_key :: string
  ra_status :: ActionStatus
  ra_parameters :: "(string \<times> pyval) list"
  ra_authorized_at :: datetime
  ra_execute_after :: datetime
  ra_created_at :: datetime
  ra_updated_at :: "datetime option"
  ra_schema_version :: string

definition action_identity :: "RecoveryAction \<Rightarrow> ActionIdentity" where
  "action_identity a =
     \<lparr>ai_merchant_id = ra_merchant_id a, ai_case_id = ra_case_id a,
      ai_action_type = ra_action_type a, ai_target_type = ra_target_type a,
      ai_target_id = ra_target_id a, ai_logical_attempt = ra_logical_attempt a\<rparr>"

definition amount_parameter_ok :: "pyval option \<Rightarrow> bool" where
  "amount_parameter_ok v \<longleftrightarrow> (case v of Some (PInt n) \<Rightarrow> 0 \<le> n | _ \<Rightarrow> False)"

definition currency_parameter_ok :: "pyval option \<Rightarrow> bool" where
  "currency_parameter_ok v \<longleftrightarrow> (case v of Some (PStr s) \<Rightarrow> currency_pattern s | _ \<Rightarrow> False)"

definition post_init_action :: "RecoveryAction \<Rightarrow> RecoveryAction result" where
  "post_init_action a =
     bindR (raise_first
       [(ra_schema_version a \<noteq> ''1.0'', ValueError ''unsupported RecoveryAction schema''),
        id_check ''action_id'' (ra_action_id a) 128,
        id_check ''case_id'' (ra_case_id a) 128,
        id_check ''merchant_id'' (ra_merchant_id a) 128,
        id_check ''decision_receipt_id'' (ra_decision_receipt_id a) 128,
        id_check ''target_id'' (ra_target_id a) 128,
        (ra_logical_attempt a < 1, ValueError ''logical_attempt must be at least one'')]) (\<lambda>_.
     bindR (action_idempotency_key (action_identity a)) (\<lambda>expected_key.
     bindR (raise_first
       [(ra_idempotency_key a \<noteq> expected_key,
           ValueError ''idempotency_key does not match logical action identity''),
        (\<not> amount_parameter_ok (map_of (ra_parameters a) ''amount_minor''),
           ValueError ''parameters.amount_minor must be a non-negative integer''),
        (\<not> currency_parameter_ok (map_of (ra_parameters a) ''currency''),
           ValueError ''parameters.currency must be a three-letter uppercase ISO code''),
        (map_of (ra_parameters a) ''provider_mode'' \<noteq> Some (PStr ''TEST''),
           ValueError ''only TEST provider mode is supported'')]) (\<lambda>_.
     bindR (utc ''authorized_at'' (ra_authorized_at a)) (\<lambda>authorized.
     bindR (utc ''execute_after'' (ra_execute_after a)) (\<lambda>execute_after.
     bindR (utc ''created_at'' (ra_created_at a)) (\<lambda>created.
     bindR (raise_first
       [(execute_after < authorized \<or> created < authorized,
           ValueError ''action chronology is invalid'')]) (\<lambda>_.
     bindR (utc_opt ''updated_at'' (ra_updated_at a)) (\<lambda>updated.
     bindR (raise_first
       [(case updated of None \<Rightarrow> False | Some u \<Rightarrow> u < created,
           ValueError ''updated_at cannot precede created_at'')]) (\<lambda>_.
     Inr (a\<lparr>ra_authorized_at := authorized, ra_execute_after := execute_after,
            ra_created_at := created, ra_updated_at := updated\<rparr>))))))))))"

definition action_to_dict :: "RecoveryAction \<Rightarrow> (string \<times> pyval) list" where
  "action_to_dict a =
     [(''schema_version'', PStr (ra_schema_version a)),
      (''action_id'', PStr (ra_action_id a)),
      (''case_id'', PStr (ra_case_id a)),
      (''merchant_id'', PStr (ra_merchant_id a)),
      (''decision_receipt_id'', PStr (ra_decision_receipt_id a)),
      (''action_type'', PStr (action_value (ra_action_type a))),
      (''target_type'', PStr (subject_value (ra_target_type a))),
      (''target_id'', PStr (ra_target_id a)),
      (''logical_attempt'', PInt (ra_logical_attempt a)),
      (''idempotency_key'', PStr (ra_idempotency_key a)),
      (''status'', PStr (action_status_value (ra_status a))),
      (''parameters'', PDict (ra_parameters a)),
      (''authorized_at'', PStr (format_seconds (ra_authorized_at a))),
      (''execute_after'', PStr (format_seconds (ra_execute_after a))),
      (''created_at'', PStr (format_seconds (ra_created_at a))),
      (''updated_at'', opt_time (ra_updated_at a))]"

record VerifiedOutcome =
  vo_outcome_id :: string
  vo_action_id :: string
  vo_case_id :: string
  vo_merchant_id :: string
  vo_outcome_status :: ActionStatus
  vo_is_authoritative :: bool
  vo_evidence_source :: EvidenceSource
  vo_recovered_amount_minor :: int
  vo_currency :: string
  vo_observed_at :: datetime
  vo_created_at :: datetime
  vo_evidence_reference :: "string option"
  vo_provider_object_id :: "string option"
  vo_reason_code :: "string option"
  vo_verified_at :: "datetime option"
  vo_schema_version :: string

definition post_init_outcome :: "VerifiedOutcome \<Rightarrow> VerifiedOutcome result" where
  "post_init_outcome v =
     bindR (raise_first
       [(vo_schema_version v \<noteq> ''1.0'', ValueError ''unsupported VerifiedOutcome schema''),
        id_check ''outcome_id'' (vo_outcome_id v) 128,
        id_check ''action_id'' (vo_action_id v) 128,
        id_check ''case_id'' (vo_case_id v) 128,
        id_check ''merchant_id'' (vo_merchant_id v) 128,
        (vo_recovered_amount_minor v < 0, ValueError ''recovered_amount_minor cannot be negative''),
        (\<not> currency_pattern (vo_currency v),
           ValueError ''currency must be a three-letter uppercase ISO code''),
        (vo_outcome_status v = ActionStatus.UNKNOWN
           \<and> (vo_is_authoritative v \<or> vo_recovered_amount_minor v \<noteq> 0 \<or> vo_verified_at v \<noteq> None),
           ValueError ''UNKNOWN outcomes cannot be authoritative or recover money''),
        (vo_recovered_amount_minor v \<noteq> 0
           \<and> (vo_outcome_status v \<noteq> SUCCEEDED \<or> \<not> vo_is_authoritative v),
           ValueError ''recovered money requires authoritative success''),
        (vo_recovered_amount_minor v \<noteq> 0
           \<and> (vo_evidence_reference v = None \<or> vo_verified_at v = None),
           ValueError ''recovered money requires evidence and verification time''),
        (vo_is_authoritative v \<and> vo_verified_at v = None,
           ValueError ''authoritative outcomes require verified_at'')]) (\<lambda>_.
     bindR (utc ''observed_at'' (vo_observed_at v)) (\<lambda>observed.
     bindR (utc ''created_at'' (vo_created_at v)) (\<lambda>created.
     bindR (utc_opt ''verified_at'' (vo_verified_at v)) (\<lambda>verified.
     bindR (raise_first
       [(case verified of None \<Rightarrow> False | Some t \<Rightarrow> t < observed,
           ValueError ''verified_at cannot precede observed_at'')]) (\<lambda>_.
     Inr (v\<lparr>vo_observed_at := observed, vo_created_at := created, vo_verified_at := verified\<rparr>))))))"

definition outcome_to_dict :: "VerifiedOutcome \<Rightarrow> (string \<times> pyval) list" where
  "outcome_to_dict v =
     [(''schema_version'', PStr (vo_schema_version v)),
      (''outcome_id'', PStr (vo_outcome_id v)),
      (''action_id'', PStr (vo_action_id v)),
      (''case_id'', PStr (vo_case_id v)),
      (''merchant_id'', PStr (vo_merchant_id v)),
      (''outcome_status'', PStr (action_status_value (vo_outcome_status v))),
      (''is_authoritative'', PBool (vo_is_authoritative v)),
      (''evidence_source'', PStr (evidence_source_value (vo_evidence_source v))),
      (''evidence_reference'', opt_str (vo_evidence_reference v)),
      (''provider_object_id'', opt_str (vo_provider_object_id v)),
      (''recovered_amount_minor'', PInt (vo_recovered_amount_minor v)),
      (''currency'', PStr (vo_currency v)),
      (''reason_code'', opt_str (vo_reason_code v)),
      (''observed_at'', PStr (format_seconds (vo_observed_at v))),
      (''verified_at'', opt_time (vo_verified_at v)),
      (''created_at'', PStr (format_seconds (vo_created_at v)))]"


section \<open>The key identifies the action\<close>

lemma subject_value_inject [simp]: "subject_value a = subject_value b \<longleftrightarrow> a = b"
  by (cases a; cases b) simp_all

lemma identity_document_inject: "identity_document i = identity_document j \<longleftrightarrow> i = j"
proof -
  have doc: "sort_keys (JObj
     [(''action_type'', JStr (action_value (ai_action_type i))), (''case_id'', JStr (ai_case_id i)),
      (''logical_attempt'', JInt (ai_logical_attempt i)), (''merchant_id'', JStr (ai_merchant_id i)),
      (''target_id'', JStr (ai_target_id i)), (''target_type'', JStr (subject_value (ai_target_type i))),
      (''version'', JInt 1)]) = JObj
     [(''action_type'', JStr (action_value (ai_action_type i))), (''case_id'', JStr (ai_case_id i)),
      (''logical_attempt'', JInt (ai_logical_attempt i)), (''merchant_id'', JStr (ai_merchant_id i)),
      (''target_id'', JStr (ai_target_id i)), (''target_type'', JStr (subject_value (ai_target_type i))),
      (''version'', JInt 1)]" for i
    by (rule sort_keys_sorted_object) auto
  show ?thesis
    unfolding identity_document_def json_dumps_inject doc
    by (auto intro: ActionIdentity.equality)
qed

interpretation identity: digest_scheme identity_document "\<lambda>i. i"
  by unfold_locales (rule identity_document_inject)

lemma action_idempotency_key_eq:
  "action_idempotency_key i = Inr k \<Longrightarrow> k = ''rg:v1:'' @ identity.digest i"
  by (auto simp: action_idempotency_key_def bindR_eq_Inr identity.digest_def)

text \<open>
  One key, one action: two actions with the same idempotency key have the same
  merchant, case, action type, target and attempt, unless their two identity documents are a
  SHA-256 collision; and the key is computed from these alone.
\<close>

theorem idempotency_key_identifies:
  assumes "action_idempotency_key i = Inr k" and "action_idempotency_key j = Inr l"
  shows "k = l \<longleftrightarrow> i = j \<or> sha_collision (identity_document i) (identity_document j)"
  unfolding action_idempotency_key_eq [OF assms(1)] action_idempotency_key_eq [OF assms(2)]
  by (simp add: identity.digest_eq_iff)

definition sample_identity :: "int \<Rightarrow> ActionIdentity" where
  "sample_identity n = \<lparr>ai_merchant_id = ''merchant_1'', ai_case_id = ''case_1'',
     ai_action_type = CREATE_PAYMENT_LINK, ai_target_type = PAYMENT, ai_target_id = ''pay_1'',
     ai_logical_attempt = n\<rparr>"

lemma sample_identity_key:
  "1 \<le> n \<Longrightarrow> action_idempotency_key (sample_identity n) =
     Inr (''rg:v1:'' @ sha256_hex (identity_document (sample_identity n)))"
  by (simp add: action_idempotency_key_def sample_identity_def raise_first_okI blank_or_longer_def)

theorem idempotency_key_identifies_witness:
  "action_idempotency_key (sample_identity 1) = action_idempotency_key (sample_identity 2) \<longleftrightarrow>
     sha_collision (identity_document (sample_identity 1)) (identity_document (sample_identity 2))"
proof -
  have "sample_identity 1 \<noteq> sample_identity 2" by (simp add: sample_identity_def)
  with idempotency_key_identifies [OF sample_identity_key sample_identity_key, of 1 2]
  show ?thesis by (simp add: sample_identity_key)
qed


section \<open>Validation\<close>

definition wf_action :: "RecoveryAction \<Rightarrow> bool" where
  "wf_action a \<longleftrightarrow> post_init_action a = Inr a"

definition wf_outcome :: "VerifiedOutcome \<Rightarrow> bool" where
  "wf_outcome v \<longleftrightarrow> post_init_outcome v = Inr v"

lemma post_init_outcome_Inr: "post_init_outcome v = Inr v' \<Longrightarrow> v' = v \<and> wf_outcome v"
  by (auto simp: post_init_outcome_def wf_outcome_def bindR_eq_Inr utc_eq_Inr utc_opt_eq_Inr)

lemma post_init_action_Inr: "post_init_action a = Inr a' \<Longrightarrow> a' = a \<and> wf_action a"
  by (auto simp: post_init_action_def wf_action_def bindR_eq_Inr utc_eq_Inr utc_opt_eq_Inr)

text \<open>
  No money without proof: a validated outcome that recovers money is an
  authoritative success with an evidence reference and a verification time that does not
  precede the observation; an \<open>UNKNOWN\<close> outcome is never authoritative and recovers nothing.
\<close>

theorem recovered_money_is_proved:
  assumes "post_init_outcome v = Inr w"
  shows "(vo_recovered_amount_minor w \<noteq> 0 \<longrightarrow>
      0 < vo_recovered_amount_minor w \<and> vo_outcome_status w = SUCCEEDED \<and> vo_is_authoritative w
      \<and> vo_evidence_reference w \<noteq> None
      \<and> (\<exists>t. vo_verified_at w = Some t \<and> vo_observed_at w \<le> t))
    \<and> (vo_outcome_status w = ActionStatus.UNKNOWN \<longrightarrow>
      \<not> vo_is_authoritative w \<and> vo_recovered_amount_minor w = 0 \<and> vo_verified_at w = None)"
  using assms
  by (auto simp: post_init_outcome_def bindR_eq_Inr utc_eq_Inr utc_opt_eq_Inr raise_first_ok_iff
      not_less)

definition sample_outcome :: VerifiedOutcome where
  "sample_outcome =
     \<lparr>vo_outcome_id = ''outcome_1'', vo_action_id = ''action_1'', vo_case_id = ''case_1'',
      vo_merchant_id = ''merchant_1'', vo_outcome_status = SUCCEEDED, vo_is_authoritative = True,
      vo_evidence_source = SIGNED_WEBHOOK, vo_recovered_amount_minor = 12000,
      vo_currency = ''INR'', vo_observed_at = Aware 100, vo_created_at = Aware 120,
      vo_evidence_reference = Some ''webhook_events/1'', vo_provider_object_id = Some ''plink_1'',
      vo_reason_code = None, vo_verified_at = Some (Aware 110), vo_schema_version = ''1.0''\<rparr>"

theorem recovered_money_is_proved_witness:
  "post_init_outcome sample_outcome = Inr sample_outcome \<and> vo_recovered_amount_minor sample_outcome \<noteq> 0
   \<and> vo_is_authoritative sample_outcome"
proof -
  have ok: "post_init_outcome sample_outcome = Inr sample_outcome"
    by (simp add: post_init_outcome_def sample_outcome_def run_validation)
  from recovered_money_is_proved [OF ok] ok show ?thesis by (simp add: sample_outcome_def)
qed

end
