(* ===== verification/Audit_Ledger.thy ===== *)
theory Audit_Ledger
  imports Digests
begin

text \<open>
  \<open>persistence/audit_ledger.py\<close>: the forward-only audit ledger of a merchant, its hash chain
  and its verification.

  The two tables it uses, \<open>audit_entries\<close> and \<open>audit_ledger_heads\<close>, are a record that the
  repositories extend with their own tables; the rows are kept in insertion order. What
  \<open>uuid4().hex\<close> returns is a parameter, the sequence of identifiers drawn; the state counts
  how many were.
\<close>


section \<open>Data\<close>

definition ZERO_HASH :: string where
  "ZERO_HASH = replicate 64 CHR ''0''"

datatype AuditVerificationStatus =
    VALID | MISSING_GENESIS | SEQUENCE_GAP | PREVIOUS_HASH_MISMATCH | PAYLOAD_HASH_MISMATCH
  | ENTRY_HASH_MISMATCH | HEAD_MISMATCH

record AuditAppend =
  aa_merchant_id :: string
  aa_event_type :: string
  aa_aggregate_type :: string
  aa_aggregate_id :: string
  aa_correlation_id :: string
  aa_actor_type :: string
  aa_actor_reference :: string
  aa_payload :: "(string \<times> pyval) list"
  aa_recorded_at :: datetime
  aa_causation_id :: "string option"
  aa_policy_version :: "string option"
  aa_model_version :: "string option"
  aa_prompt_version :: "string option"
  aa_schema_version :: "string option"
  aa_feature_version :: "string option"
  aa_application_version :: "string option"

record AuditVerificationResult =
  av_merchant_id :: string
  av_status :: AuditVerificationStatus
  av_checked_entries :: int
  av_first_broken_sequence :: "int option"

record AuditEntry =
  ae_merchant_id :: string
  ae_sequence :: int
  ae_entry_id :: string
  ae_event_type :: string
  ae_aggregate_type :: string
  ae_aggregate_id :: string
  ae_correlation_id :: string
  ae_causation_id :: "string option"
  ae_actor_type :: string
  ae_actor_reference :: string
  ae_payload :: json
  ae_payload_sha256 :: string
  ae_previous_entry_hash :: string
  ae_entry_hash :: string
  ae_policy_version :: "string option"
  ae_model_version :: "string option"
  ae_prompt_version :: "string option"
  ae_schema_version :: "string option"
  ae_feature_version :: "string option"
  ae_application_version :: "string option"
  ae_recorded_at :: datetime

text \<open>The row of \<open>audit_ledger_heads\<close>: latest sequence and latest entry hash.\<close>

record audit_db =
  db_audit_entries :: "AuditEntry list"
  db_audit_heads :: "string \<rightharpoonup> int \<times> string"
  db_uuids :: nat


section \<open>Canonical payloads\<close>

definition audit_utc :: "datetime \<Rightarrow> datetime result" where
  "audit_utc t =
     (if is_aware t then Inr t else Inl (ValueError ''audit timestamps must be timezone-aware''))"

lemma size_pair_list: "kv \<in> set kvs \<Longrightarrow> size (snd kv) < Suc (size_list (size_prod (\<lambda>_. 0) size) kvs)"
  by (induction kvs) (auto simp: less_Suc_eq_le)

function canonical_value :: "pyval \<Rightarrow> json result" where
  "canonical_value PNone = Inr JNull"
| "canonical_value (PBool b) = Inr (JBool b)"
| "canonical_value (PInt n) = Inr (JInt n)"
| "canonical_value (PStr s) = Inr (JStr s)"
| "canonical_value (PFloat x) =
     Inl (ValueError ''audit payloads cannot contain binary floating point'')"
| "canonical_value (PDatetime t) = bindR (audit_utc t) (\<lambda>u. Inr (JStr (format_full u)))"
| "canonical_value (PList vs) = bindR (mapR canonical_value vs) (\<lambda>js. Inr (JArr js))"
| "canonical_value (PDict kvs) =
     bindR (mapR (\<lambda>kv. bindR (canonical_value (snd kv)) (\<lambda>j. Inr (fst kv, j))) (sort_key fst kvs))
       (\<lambda>ljs. Inr (JObj ljs))"
  by pat_completeness auto

termination
  by (relation "measure size") (auto simp: less_Suc_eq_le size_list_estimation' dest: size_pair_list)

text \<open>\<open>_canonical_bytes\<close> of a JSON value, as text: canonicalising it again only sorts its keys.\<close>

definition canonical_text :: "json \<Rightarrow> string" where
  "canonical_text j = json_dumps False (sort_keys j)"

definition digest_payload :: "json \<Rightarrow> string" where
  "digest_payload j = sha256_hex (canonical_text j)"

definition json_opt :: "string option \<Rightarrow> json" where
  "json_opt v = (case v of None \<Rightarrow> JNull | Some s \<Rightarrow> JStr s)"

definition entry_fields :: "AuditEntry \<Rightarrow> string \<Rightarrow> (string \<times> json) list" where
  "entry_fields e payload_sha256 =
     [(''aggregate_id'', JStr (ae_aggregate_id e)),
      (''aggregate_type'', JStr (ae_aggregate_type e)),
      (''application_version'', json_opt (ae_application_version e)),
      (''actor_reference'', JStr (ae_actor_reference e)),
      (''actor_type'', JStr (ae_actor_type e)),
      (''causation_id'', json_opt (ae_causation_id e)),
      (''correlation_id'', JStr (ae_correlation_id e)),
      (''entry_id'', JStr (ae_entry_id e)),
      (''event_type'', JStr (ae_event_type e)),
      (''feature_version'', json_opt (ae_feature_version e)),
      (''merchant_id'', JStr (ae_merchant_id e)),
      (''model_version'', json_opt (ae_model_version e)),
      (''payload_sha256'', JStr payload_sha256),
      (''policy_version'', json_opt (ae_policy_version e)),
      (''previous_entry_hash'', JStr (ae_previous_entry_hash e)),
      (''prompt_version'', json_opt (ae_prompt_version e)),
      (''recorded_at'', JStr (format_full (ae_recorded_at e))),
      (''schema_version'', json_opt (ae_schema_version e)),
      (''sequence'', JInt (ae_sequence e))]"

definition entry_digest :: "AuditEntry \<Rightarrow> string \<Rightarrow> string" where
  "entry_digest e payload_sha256 = sha256_hex (canonical_text (JObj (entry_fields e payload_sha256)))"


section \<open>Appending\<close>

definition too_long :: "string list \<Rightarrow> nat \<Rightarrow> bool" where
  "too_long vs maximum \<longleftrightarrow> (\<exists>v\<in>set vs. length v > maximum)"

definition validate_append :: "AuditAppend \<Rightarrow> unit result" where
  "validate_append r =
     (let fields = [aa_merchant_id r, aa_event_type r, aa_aggregate_type r, aa_aggregate_id r,
        aa_correlation_id r, aa_actor_type r, aa_actor_reference r] in
      bindR (raise_first
        [([] \<in> set fields \<or> too_long fields 128,
            ValueError ''audit identity fields must be non-empty and at most 128 characters''),
         (too_long [aa_event_type r, aa_aggregate_type r] 64,
            ValueError ''audit event and aggregate types must be at most 64 characters'')]) (\<lambda>_.
      bindR (canonical_value (PDict (aa_payload r))) (\<lambda>_.
      bindR (audit_utc (aa_recorded_at r)) (\<lambda>_. Inr ()))))"

definition locked_head :: "string \<Rightarrow> ('a audit_db_scheme, int \<times> string) tx" where
  "locked_head m =
     seqT (modifyT (\<lambda>s. if db_audit_heads s m = None
             then s\<lparr>db_audit_heads := (db_audit_heads s)(m \<mapsto> (0, ZERO_HASH))\<rparr> else s))
     (bindT (getT (\<lambda>s. db_audit_heads s m)) (requireT NoResultFound))"

definition draw_uuid :: "(nat \<Rightarrow> string) \<Rightarrow> ('a audit_db_scheme, string) tx" where
  "draw_uuid uuids =
     bindT (getT (\<lambda>s. uuids (db_uuids s))) (\<lambda>u.
     seqT (modifyT (\<lambda>s. s\<lparr>db_uuids := Suc (db_uuids s)\<rparr>)) (returnT u))"

definition entry_row :: "AuditAppend \<Rightarrow> int \<Rightarrow> string \<Rightarrow> json \<Rightarrow> string \<Rightarrow> datetime \<Rightarrow> AuditEntry" where
  "entry_row r sequence previous_entry_hash payload entry_id recorded_at =
     \<lparr>ae_merchant_id = aa_merchant_id r, ae_sequence = sequence, ae_entry_id = entry_id,
      ae_event_type = aa_event_type r, ae_aggregate_type = aa_aggregate_type r,
      ae_aggregate_id = aa_aggregate_id r, ae_correlation_id = aa_correlation_id r,
      ae_causation_id = aa_causation_id r, ae_actor_type = aa_actor_type r,
      ae_actor_reference = aa_actor_reference r, ae_payload = payload,
      ae_payload_sha256 = digest_payload payload, ae_previous_entry_hash = previous_entry_hash,
      ae_entry_hash = [], ae_policy_version = aa_policy_version r,
      ae_model_version = aa_model_version r, ae_prompt_version = aa_prompt_version r,
      ae_schema_version = aa_schema_version r, ae_feature_version = aa_feature_version r,
      ae_application_version = aa_application_version r, ae_recorded_at = recorded_at\<rparr>"

definition entry_from_request ::
    "(nat \<Rightarrow> string) \<Rightarrow> AuditAppend \<Rightarrow> int \<Rightarrow> string \<Rightarrow> ('a audit_db_scheme, AuditEntry) tx" where
  "entry_from_request uuids r sequence previous_entry_hash =
     bindT (liftR (canonical_value (PDict (aa_payload r)))) (\<lambda>payload.
     bindT (draw_uuid uuids) (\<lambda>uuid.
     bindT (liftR (audit_utc (aa_recorded_at r))) (\<lambda>recorded_at.
     let e = entry_row r sequence previous_entry_hash payload (''audit_'' @ uuid) recorded_at
     in returnT (e\<lparr>ae_entry_hash := entry_digest e (ae_payload_sha256 e)\<rparr>))))"

definition genesis_request :: "AuditAppend \<Rightarrow> AuditAppend" where
  "genesis_request r =
     \<lparr>aa_merchant_id = aa_merchant_id r, aa_event_type = ''LEDGER_GENESIS'',
      aa_aggregate_type = ''MERCHANT'', aa_aggregate_id = aa_merchant_id r,
      aa_correlation_id = aa_correlation_id r, aa_actor_type = ''SYSTEM'',
      aa_actor_reference = ''audit-ledger'',
      aa_payload = [(''coverage'', PStr ''FORWARD_ONLY''),
                    (''previous_records_backfilled'', PBool False)],
      aa_recorded_at = aa_recorded_at r, aa_causation_id = None, aa_policy_version = None,
      aa_model_version = None, aa_prompt_version = None, aa_schema_version = None,
      aa_feature_version = None, aa_application_version = aa_application_version r\<rparr>"

text \<open>\<open>session.add(entry)\<close> and the update of the locked head row.\<close>

definition add_entry :: "AuditEntry \<Rightarrow> ('a audit_db_scheme, unit) tx" where
  "add_entry e = modifyT (\<lambda>s. s\<lparr>db_audit_entries := db_audit_entries s @ [e],
     db_audit_heads := (db_audit_heads s)(ae_merchant_id e \<mapsto> (ae_sequence e, ae_entry_hash e))\<rparr>)"

definition append_entry ::
    "(nat \<Rightarrow> string) \<Rightarrow> AuditAppend \<Rightarrow> ('a audit_db_scheme, AuditEntry) tx" where
  "append_entry uuids r =
     seqT (liftR (validate_append r))
     (bindT (locked_head (aa_merchant_id r)) (\<lambda>(latest_sequence, latest_hash).
      bindT (if latest_sequence = 0
             then bindT (entry_from_request uuids (genesis_request r) 1 ZERO_HASH) (\<lambda>genesis.
                  seqT (add_entry genesis) (returnT (ae_sequence genesis, ae_entry_hash genesis)))
             else returnT (latest_sequence, latest_hash)) (\<lambda>(sequence, hash).
      bindT (entry_from_request uuids r (sequence + 1) hash) (\<lambda>entry.
      seqT (add_entry entry) (returnT entry)))))"


section \<open>Verifying\<close>

text \<open>Python's \<open>==\<close> on dictionaries ignores the order of the keys, and \<open>False == 0\<close> holds.\<close>

definition is_genesis :: "AuditEntry \<Rightarrow> bool" where
  "is_genesis e \<longleftrightarrow>
     ae_event_type e = ''LEDGER_GENESIS'' \<and> ae_aggregate_type e = ''MERCHANT''
     \<and> ae_aggregate_id e = ae_merchant_id e \<and> ae_previous_entry_hash e = ZERO_HASH
     \<and> (\<exists>b\<in>{JBool False, JInt 0}. sort_keys (ae_payload e) =
           JObj [(''coverage'', JStr ''FORWARD_ONLY''), (''previous_records_backfilled'', b)])"

definition broken :: "string \<Rightarrow> AuditVerificationStatus \<Rightarrow> int \<Rightarrow> int \<Rightarrow> AuditVerificationResult" where
  "broken m status checked sequence =
     \<lparr>av_merchant_id = m, av_status = status, av_checked_entries = checked,
      av_first_broken_sequence = Some sequence\<rparr>"

text \<open>
  The loop over the entries: the number expected next and the hash of the entry before; either
  the broken entry is reported or the last hash is returned.
\<close>

fun verify_entries ::
    "string \<Rightarrow> int \<Rightarrow> string \<Rightarrow> AuditEntry list \<Rightarrow> AuditVerificationResult + string" where
  "verify_entries m expected previous_hash [] = Inr previous_hash"
| "verify_entries m expected previous_hash (e # es) =
     (if ae_sequence e \<noteq> expected then Inl (broken m SEQUENCE_GAP (expected - 1) (ae_sequence e))
      else if expected = 1 \<and> \<not> is_genesis e then Inl (broken m MISSING_GENESIS 0 (ae_sequence e))
      else if ae_previous_entry_hash e \<noteq> previous_hash
        then Inl (broken m PREVIOUS_HASH_MISMATCH (expected - 1) (ae_sequence e))
      else if ae_payload_sha256 e \<noteq> digest_payload (ae_payload e)
        then Inl (broken m PAYLOAD_HASH_MISMATCH (expected - 1) (ae_sequence e))
      else if ae_entry_hash e \<noteq> entry_digest e (digest_payload (ae_payload e))
        then Inl (broken m ENTRY_HASH_MISMATCH (expected - 1) (ae_sequence e))
      else verify_entries m (expected + 1) (ae_entry_hash e) es)"

definition merchant_entries :: "'a audit_db_scheme \<Rightarrow> string \<Rightarrow> AuditEntry list" where
  "merchant_entries s m = sort_key ae_sequence (filter (\<lambda>e. ae_merchant_id e = m) (db_audit_entries s))"

definition verify :: "'a audit_db_scheme \<Rightarrow> string \<Rightarrow> AuditVerificationResult" where
  "verify s m =
     (let entries = merchant_entries s m in
      if entries = [] then
        \<lparr>av_merchant_id = m, av_status = VALID, av_checked_entries = 0,
         av_first_broken_sequence = None\<rparr>
      else case db_audit_heads s m of
        None \<Rightarrow> broken m HEAD_MISMATCH 0 (ae_sequence (hd entries))
      | Some (latest_sequence, latest_hash) \<Rightarrow>
          (case verify_entries m 1 ZERO_HASH entries of
             Inl b \<Rightarrow> b
           | Inr previous_hash \<Rightarrow>
               if latest_sequence \<noteq> int (length entries) \<or> latest_hash \<noteq> previous_hash
               then broken m HEAD_MISMATCH (int (length entries)) latest_sequence
               else \<lparr>av_merchant_id = m, av_status = VALID,
                 av_checked_entries = int (length entries), av_first_broken_sequence = None\<rparr>))"

end
