(* ===== verification/Audit_Chain.thy ===== *)
theory Audit_Chain
  imports Audit_Ledger
begin

text \<open>
  The audit ledger as a hash chain: appending keeps every merchant's ledger verifiable and
  adds at the end only, and a verifiable ledger is determined by its head.
\<close>


section \<open>Documents\<close>

lemma map_sort_key_fst:
  assumes "\<And>x. fst (g x) = fst x"
  shows "map g (sort_key fst xs) = sort_key fst (map g xs)"
proof (induction xs)
  case (Cons x xs)
  have "map g (insort_key fst x ys) = insort_key fst (g x) (map g ys)" for ys
    by (induction ys) (simp_all add: assms)
  with Cons show ?case by simp
qed simp

lemma sort_keys_idem [simp]: "sort_keys (sort_keys j) = sort_keys j"
proof (induction j rule: sort_keys.induct)
  case (2 kvs)
  let ?f = "\<lambda>kv. (fst kv, sort_keys (snd kv))"
  have "map ?f (sort_key fst (map ?f kvs)) = sort_key fst (map ?f (map ?f kvs))"
    by (rule map_sort_key_fst) simp
  also have "map ?f (map ?f kvs) = map ?f kvs" using 2 by auto
  finally have "map ?f (sort_key fst (map ?f kvs)) = sort_key fst (map ?f kvs)" .
  then show ?case by (simp del: map_map add: sort_key_id_if_sorted)
qed auto

lemma canonical_text_inject: "canonical_text j = canonical_text k \<longleftrightarrow> sort_keys j = sort_keys k"
  by (simp add: canonical_text_def json_dumps_inject)

lemma json_opt_inject [simp]: "json_opt a = json_opt b \<longleftrightarrow> a = b"
  by (auto simp: json_opt_def split: option.splits)

lemma sort_keys_json_opt [simp]: "sort_keys (json_opt v) = json_opt v"
  by (cases v) (simp_all add: json_opt_def)

definition entry_document :: "AuditEntry \<Rightarrow> string" where
  "entry_document e = canonical_text (JObj (entry_fields e (ae_payload_sha256 e)))"

text \<open>What a document shows of its entry.\<close>

definition same_header :: "AuditEntry \<Rightarrow> AuditEntry \<Rightarrow> bool" where
  "same_header e f \<longleftrightarrow>
     (let bare = (\<lambda>x. x\<lparr>ae_payload := JNull, ae_recorded_at := Aware 0, ae_entry_hash := []\<rparr>)
      in bare e = bare f \<and> format_full (ae_recorded_at e) = format_full (ae_recorded_at f))"

lemma entry_document_inject: "entry_document e = entry_document f \<Longrightarrow> same_header e f"
proof -
  assume "entry_document e = entry_document f"
  then have "sort_keys (JObj (entry_fields e (ae_payload_sha256 e))) =
      sort_keys (JObj (entry_fields f (ae_payload_sha256 f)))"
    by (simp only: entry_document_def canonical_text_inject)
  then have "map (\<lambda>kv. sort_keys (snd kv)) (entry_fields e (ae_payload_sha256 e)) =
      map (\<lambda>kv. sort_keys (snd kv)) (entry_fields f (ae_payload_sha256 f))"
    by (rule sort_keys_same_keys) (simp_all add: entry_fields_def)
  then show ?thesis
    by (simp add: entry_fields_def same_header_def AuditEntry.equality)
qed

interpretation audit_chain: hash_chain ae_previous_entry_hash ae_entry_hash entry_document
proof
  fix e f
  assume "entry_document e = entry_document f"
  then have "same_header e f" by (rule entry_document_inject)
  then have "ae_previous_entry_hash (e\<lparr>ae_payload := JNull, ae_recorded_at := Aware 0, ae_entry_hash := []\<rparr>)
      = ae_previous_entry_hash (f\<lparr>ae_payload := JNull, ae_recorded_at := Aware 0, ae_entry_hash := []\<rparr>)"
    by (simp only: same_header_def Let_def)
  then show "ae_previous_entry_hash e = ae_previous_entry_hash f" by simp
qed


section \<open>What verification checks\<close>

definition payload_ok :: "AuditEntry \<Rightarrow> bool" where
  "payload_ok e \<longleftrightarrow> ae_payload_sha256 e = digest_payload (ae_payload e)"

definition numbered :: "int \<Rightarrow> AuditEntry list \<Rightarrow> bool" where
  "numbered k es \<longleftrightarrow> map ae_sequence es = map (\<lambda>i. k + int i) [0..<length es]"

lemma numbered_simps [simp]:
  "numbered k []"
  "numbered k (e # es) \<longleftrightarrow> ae_sequence e = k \<and> numbered (k + 1) es"
proof -
  show "numbered k []" by (simp add: numbered_def)
  have "map (\<lambda>i. k + int i) [0..<Suc n] = k # map (\<lambda>i. k + 1 + int i) [0..<n]" for n
    unfolding upt_conv_Cons [OF zero_less_Suc] map_Suc_upt [symmetric] by (simp add: comp_def)
  then show "numbered k (e # es) \<longleftrightarrow> ae_sequence e = k \<and> numbered (k + 1) es"
    by (simp add: numbered_def)
qed

lemma numbered_append:
  "numbered k (es @ fs) \<longleftrightarrow> numbered k es \<and> numbered (k + int (length es)) fs"
  by (induction es arbitrary: k) (auto simp: algebra_simps)

lemma verify_entries_step:
  "verify_entries m k p (e # es) = Inr h \<longleftrightarrow>
    ae_sequence e = k \<and> (k = 1 \<longrightarrow> is_genesis e) \<and> ae_previous_entry_hash e = p \<and> payload_ok e
    \<and> ae_entry_hash e = sha256_hex (entry_document e)
    \<and> verify_entries m (k + 1) (ae_entry_hash e) es = Inr h"
proof (cases "payload_ok e")
  case True
  then have "entry_digest e (digest_payload (ae_payload e)) = sha256_hex (entry_document e)"
    by (simp only: payload_ok_def entry_digest_def entry_document_def)
  with True show ?thesis by (simp add: payload_ok_def)
qed (simp add: payload_ok_def)

lemma verify_entries_iff:
  "1 \<le> k \<Longrightarrow> verify_entries m k p es = Inr h \<longleftrightarrow>
    numbered k es \<and> (k = 1 \<and> es \<noteq> [] \<longrightarrow> is_genesis (hd es))
    \<and> (\<forall>e\<in>set es. payload_ok e) \<and> audit_chain.chained p es \<and> audit_chain.last_hash p es = h"
proof (induction es arbitrary: k p)
  case (Cons e es)
  then have IH: "verify_entries m (k + 1) (ae_entry_hash e) es = Inr h \<longleftrightarrow>
    numbered (k + 1) es \<and> (\<forall>e\<in>set es. payload_ok e)
    \<and> audit_chain.chained (ae_entry_hash e) es \<and> audit_chain.last_hash (ae_entry_hash e) es = h"
    by simp
  show ?case unfolding verify_entries_step IH by auto
qed auto

lemma verify_entries_broken: "verify_entries m k p es = Inl b \<Longrightarrow> av_status b \<noteq> VALID"
  by (induction m k p es rule: verify_entries.induct) (auto simp: broken_def split: if_splits)

text \<open>The ledger of one merchant, in insertion order, with its head.\<close>

definition own_entries :: "'a audit_db_scheme \<Rightarrow> string \<Rightarrow> AuditEntry list" where
  "own_entries s m = filter (\<lambda>e. ae_merchant_id e = m) (db_audit_entries s)"

definition ledger_ok :: "'a audit_db_scheme \<Rightarrow> string \<Rightarrow> bool" where
  "ledger_ok s m \<longleftrightarrow>
     (let es = own_entries s m in
      numbered 1 es \<and> (es \<noteq> [] \<longrightarrow> is_genesis (hd es)) \<and> (\<forall>e\<in>set es. payload_ok e)
      \<and> audit_chain.chained ZERO_HASH es
      \<and> (case db_audit_heads s m of
           None \<Rightarrow> es = []
         | Some h \<Rightarrow> h = (int (length es), audit_chain.last_hash ZERO_HASH es)))"

lemma numbered_sorted: "numbered k es \<Longrightarrow> sorted (map ae_sequence es)"
  unfolding numbered_def by (simp add: sorted_map sorted_wrt_upt sorted_wrt_mono_rel)

lemma merchant_entries_numbered: "numbered k (own_entries s m) \<Longrightarrow> merchant_entries s m = own_entries s m"
  unfolding merchant_entries_def own_entries_def by (rule sort_key_id_if_sorted) (rule numbered_sorted)

lemma ledger_ok_valid:
  assumes "ledger_ok s m" shows "av_status (verify s m) = VALID"
proof (cases "own_entries s m = []")
  case True
  with assms show ?thesis by (simp add: ledger_ok_def verify_def merchant_entries_numbered [of 1])
next
  case False
  with assms have entries: "merchant_entries s m = own_entries s m"
    and head: "db_audit_heads s m = Some (int (length (own_entries s m)),
      audit_chain.last_hash ZERO_HASH (own_entries s m))"
    by (auto simp: ledger_ok_def Let_def merchant_entries_numbered [of 1] split: option.splits)
  have "verify_entries m 1 ZERO_HASH (own_entries s m) =
      Inr (audit_chain.last_hash ZERO_HASH (own_entries s m))"
    using assms by (subst verify_entries_iff) (auto simp: ledger_ok_def Let_def)
  then show ?thesis using False by (simp add: verify_def Let_def entries head)
qed

text \<open>A non-empty ledger that verifies has all this, whatever its insertion order.\<close>

lemma verify_validD:
  assumes "av_status (verify s m) = VALID" "merchant_entries s m \<noteq> []"
  shows "numbered 1 (merchant_entries s m)" "\<forall>e\<in>set (merchant_entries s m). payload_ok e"
    "audit_chain.chained ZERO_HASH (merchant_entries s m)"
    "db_audit_heads s m = Some (int (length (merchant_entries s m)),
       audit_chain.last_hash ZERO_HASH (merchant_entries s m))"
proof -
  from assms obtain n h where head: "db_audit_heads s m = Some (n, h)"
    by (auto simp: verify_def Let_def broken_def split: option.splits)
  have entries: "verify_entries m 1 ZERO_HASH (merchant_entries s m) = Inr h"
    and n: "n = int (length (merchant_entries s m))"
    using assms head verify_entries_broken [of m 1 ZERO_HASH "merchant_entries s m"]
    by (auto simp: verify_def Let_def broken_def split: sum.splits if_splits)
  have "1 \<le> (1::int)" by simp
  from entries [unfolded verify_entries_iff [OF this]] head n
  show "numbered 1 (merchant_entries s m)" "\<forall>e\<in>set (merchant_entries s m). payload_ok e"
    "audit_chain.chained ZERO_HASH (merchant_entries s m)"
    "db_audit_heads s m = Some (int (length (merchant_entries s m)),
       audit_chain.last_hash ZERO_HASH (merchant_entries s m))"
    by simp_all
qed


section \<open>Tampering\<close>

definition same_entry :: "AuditEntry \<Rightarrow> AuditEntry \<Rightarrow> bool" where
  "same_entry e f \<longleftrightarrow> same_header e f \<and> sort_keys (ae_payload e) = sort_keys (ae_payload f)"

definition entries_collide :: "AuditEntry list \<Rightarrow> AuditEntry list \<Rightarrow> bool" where
  "entries_collide es fs \<longleftrightarrow> (\<exists>e\<in>set es. \<exists>f\<in>set fs.
     sha_collision (entry_document e) (entry_document f)
     \<or> sha_collision (canonical_text (ae_payload e)) (canonical_text (ae_payload f)))"

lemma same_header_payload_hash: "same_header e f \<Longrightarrow> ae_payload_sha256 e = ae_payload_sha256 f"
proof -
  assume "same_header e f"
  then have "ae_payload_sha256 (e\<lparr>ae_payload := JNull, ae_recorded_at := Aware 0, ae_entry_hash := []\<rparr>)
      = ae_payload_sha256 (f\<lparr>ae_payload := JNull, ae_recorded_at := Aware 0, ae_entry_hash := []\<rparr>)"
    by (simp only: same_header_def Let_def)
  then show ?thesis by simp
qed


section \<open>Appending\<close>

lemma canonical_genesis_payload:
  "canonical_value (PDict (aa_payload (genesis_request r))) =
     Inr (JObj [(''coverage'', JStr ''FORWARD_ONLY''), (''previous_records_backfilled'', JBool False)])"
  by (simp add: genesis_request_def)

text \<open>An entry built from a request belongs to the chain at the place it is built for.\<close>

lemma entry_from_request_InrD:
  assumes "entry_from_request uuids r n p s = Inr (e, s')"
  shows "ae_merchant_id e = aa_merchant_id r" "ae_sequence e = n" "ae_previous_entry_hash e = p"
    "payload_ok e" "ae_entry_hash e = sha256_hex (entry_document e)"
    "s' = s\<lparr>db_uuids := Suc (db_uuids s)\<rparr>"
    "canonical_value (PDict (aa_payload r)) = Inr (ae_payload e)"
    "ae_event_type e = aa_event_type r" "ae_aggregate_type e = aa_aggregate_type r"
    "ae_aggregate_id e = aa_aggregate_id r" "ae_recorded_at e = aa_recorded_at r"
    "is_aware (aa_recorded_at r)"
proof -
  from assms obtain payload where p: "canonical_value (PDict (aa_payload r)) = Inr payload"
      "is_aware (aa_recorded_at r)" "s' = s\<lparr>db_uuids := Suc (db_uuids s)\<rparr>"
    and e: "e = (entry_row r n p payload (''audit_'' @ uuids (db_uuids s)) (aa_recorded_at r))
      \<lparr>ae_entry_hash := entry_digest (entry_row r n p payload (''audit_'' @ uuids (db_uuids s))
          (aa_recorded_at r)) (digest_payload payload)\<rparr>"
    by (auto simp: entry_from_request_def draw_uuid_def Let_def result_simps audit_utc_def
        entry_row_def split: if_splits)
  have fields: "entry_fields (x\<lparr>ae_entry_hash := h\<rparr>) q = entry_fields x q" for x h q
    by (simp add: entry_fields_def)
  show "ae_entry_hash e = sha256_hex (entry_document e)"
    unfolding e entry_document_def fields by (simp add: entry_digest_def entry_row_def)
  show "ae_merchant_id e = aa_merchant_id r" "ae_sequence e = n" "ae_previous_entry_hash e = p"
    "payload_ok e" "s' = s\<lparr>db_uuids := Suc (db_uuids s)\<rparr>"
    "canonical_value (PDict (aa_payload r)) = Inr (ae_payload e)"
    "ae_event_type e = aa_event_type r" "ae_aggregate_type e = aa_aggregate_type r"
    "ae_aggregate_id e = aa_aggregate_id r" "ae_recorded_at e = aa_recorded_at r"
    "is_aware (aa_recorded_at r)"
    using p by (simp_all add: e entry_row_def payload_ok_def)
qed

text \<open>Adding an entry that continues the chain of its merchant.\<close>

definition continues :: "'a audit_db_scheme \<Rightarrow> AuditEntry \<Rightarrow> bool" where
  "continues s e \<longleftrightarrow>
     (let es = own_entries s (ae_merchant_id e) in
      ae_sequence e = 1 + int (length es)
      \<and> ae_previous_entry_hash e = audit_chain.last_hash ZERO_HASH es
      \<and> payload_ok e \<and> ae_entry_hash e = sha256_hex (entry_document e)
      \<and> (es = [] \<longrightarrow> is_genesis e))"

definition added :: "'a audit_db_scheme \<Rightarrow> AuditEntry \<Rightarrow> 'a audit_db_scheme" where
  "added s e = s\<lparr>db_audit_entries := db_audit_entries s @ [e],
     db_audit_heads := (db_audit_heads s)(ae_merchant_id e \<mapsto> (ae_sequence e, ae_entry_hash e))\<rparr>"

lemma own_entries_added:
  "own_entries (added s e) m = own_entries s m @ (if ae_merchant_id e = m then [e] else [])"
  by (simp add: own_entries_def added_def)

lemma ledger_ok_added:
  assumes "ledger_ok s m" "continues s e" shows "ledger_ok (added s e) m"
proof (cases "ae_merchant_id e = m")
  case True
  let ?es = "own_entries s m"
  have "(?es @ [e]) ! 0 = hd (?es @ [e])" by (simp add: hd_conv_nth)
  with True assms show ?thesis
    by (auto simp: ledger_ok_def own_entries_added Let_def continues_def numbered_append
        audit_chain.chained_append audit_chain.last_hash_append hd_append
        added_def [THEN arg_cong [where f = db_audit_heads]] split: option.splits)
next
  case False
  then show ?thesis
    using assms(1) by (simp add: ledger_ok_def own_entries_added Let_def)
      (simp add: added_def)
qed

text \<open>The head row that \<open>_locked_head\<close> inserts says what the empty ledger is.\<close>

definition with_head :: "'a audit_db_scheme \<Rightarrow> string \<Rightarrow> 'a audit_db_scheme" where
  "with_head s m = (if db_audit_heads s m = None
     then s\<lparr>db_audit_heads := (db_audit_heads s)(m \<mapsto> (0, ZERO_HASH))\<rparr> else s)"

lemma own_entries_updates [simp]:
  "own_entries (with_head s m) k = own_entries s k"
  "own_entries (s\<lparr>db_uuids := n\<rparr>) k = own_entries s k"
  "own_entries (s\<lparr>db_audit_heads := hs\<rparr>) k = own_entries s k"
  by (simp_all add: own_entries_def with_head_def)

lemma ledger_ok_updates [simp]:
  "ledger_ok s k \<Longrightarrow> ledger_ok (with_head s m) k"
  "ledger_ok (s\<lparr>db_uuids := n\<rparr>) k = ledger_ok s k"
  "continues (s\<lparr>db_uuids := n\<rparr>) e = continues s e"
  "continues (with_head s m) e = continues s e"
  by (auto simp: ledger_ok_def continues_def Let_def with_head_def split: option.splits)

lemma locked_head_InrD:
  assumes "locked_head m s = Inr (h, s')" "ledger_ok s m"
  shows "s' = with_head s m"
    "h = (int (length (own_entries s m)), audit_chain.last_hash ZERO_HASH (own_entries s m))"
  using assms
  by (auto simp: locked_head_def result_simps with_head_def ledger_ok_def Let_def
      split: option.splits if_splits)

text \<open>The two shapes of an append: with the genesis entry before it, or alone.\<close>

lemma append_entry_cases:
  assumes "append_entry uuids r s = Inr (e, s')" "ledger_ok s (aa_merchant_id r)"
  obtains
    (first) g t k n where "own_entries s (aa_merchant_id r) = []" "ae_merchant_id g = aa_merchant_id r"
      "ae_merchant_id e = aa_merchant_id r" "continues s g"
      "t = added ((with_head s (aa_merchant_id r))\<lparr>db_uuids := k\<rparr>) g" "continues t e"
      "s' = added (t\<lparr>db_uuids := n\<rparr>) e"
  | (later) n where "own_entries s (aa_merchant_id r) \<noteq> []" "ae_merchant_id e = aa_merchant_id r"
      "continues s e" "s' = added ((with_head s (aa_merchant_id r))\<lparr>db_uuids := n\<rparr>) e"
proof -
  let ?m = "aa_merchant_id r"
  let ?es = "own_entries s ?m"
  from assms(1) obtain h s1 where head: "locked_head ?m s = Inr (h, s1)"
    and rest: "(\<lambda>(latest_sequence, latest_hash).
      bindT (if latest_sequence = 0
             then bindT (entry_from_request uuids (genesis_request r) 1 ZERO_HASH) (\<lambda>genesis.
                  seqT (add_entry genesis) (returnT (ae_sequence genesis, ae_entry_hash genesis)))
             else returnT (latest_sequence, latest_hash)) (\<lambda>(sequence, hash).
      bindT (entry_from_request uuids r (sequence + 1) hash) (\<lambda>entry.
      seqT (add_entry entry) (returnT entry)))) h s1 = Inr (e, s')"
    unfolding append_entry_def result_simps by blast
  note H = locked_head_InrD [OF head assms(2)]
  show ?thesis
  proof (cases "?es = []")
    case True
    with rest H obtain g s2 s3 s4 where
      g: "entry_from_request uuids (genesis_request r) 1 ZERO_HASH (with_head s ?m) = Inr (g, s2)"
      and s3: "s3 = added s2 g"
      and e: "entry_from_request uuids r (ae_sequence g + 1) (ae_entry_hash g) s3 = Inr (e, s4)"
      and s': "s' = added s4 e"
      by (auto simp: result_simps add_entry_def added_def)
    note G = entry_from_request_InrD [OF g] and E = entry_from_request_InrD [OF e]
    have m: "ae_merchant_id g = ?m" "ae_merchant_id e = ?m"
      using G(1) E(1) by (simp_all add: genesis_request_def)
    have genesis: "is_genesis g"
    proof -
      have "ae_payload g = JObj [(''coverage'', JStr ''FORWARD_ONLY''),
          (''previous_records_backfilled'', JBool False)]"
        using G(7) canonical_genesis_payload [of r] by simp
      then show ?thesis
        using G(1,3,8-10) by (simp add: is_genesis_def genesis_request_def)
    qed
    have cg: "continues s g"
      using True G(2-5) genesis m by (simp add: continues_def)
    have ce: "continues s3 e"
      using True E(2-5) G(2) m s3 G(6)
      by (simp add: continues_def own_entries_added)
    show ?thesis
      by (rule first [OF True m cg s3 [unfolded G(6)] ce s' [unfolded E(6)]])
  next
    case False
    with rest H obtain s2 where
      e: "entry_from_request uuids r (int (length ?es) + 1) (audit_chain.last_hash ZERO_HASH ?es)
          (with_head s ?m) = Inr (e, s2)"
      and s': "s' = added s2 e"
      by (auto simp: result_simps add_entry_def added_def)
    note E = entry_from_request_InrD [OF e]
    have "continues s e" using False E(1-5) by (simp add: continues_def)
    with later [OF False E(1)] E(6) s' show ?thesis by simp
  qed
qed

lemma append_entry_ledgers:
  assumes "append_entry uuids r s = Inr (e, s')" "\<forall>m. ledger_ok s m"
  shows "\<forall>m. ledger_ok s' m"
    "\<exists>new. db_audit_entries s' = db_audit_entries s @ new @ [e]
      \<and> (\<forall>x\<in>set (new @ [e]). ae_merchant_id x = aa_merchant_id r)"
    "\<exists>es hs n. s' = s\<lparr>db_audit_entries := es, db_audit_heads := hs, db_uuids := n\<rparr>"
proof -
  have "ledger_ok s (aa_merchant_id r)" using assms(2) by blast
  with assms(1) have "(\<forall>m. ledger_ok s' m)
    \<and> (\<exists>new. db_audit_entries s' = db_audit_entries s @ new @ [e]
        \<and> (\<forall>x\<in>set (new @ [e]). ae_merchant_id x = aa_merchant_id r))
    \<and> (\<exists>es hs n. s' = s\<lparr>db_audit_entries := es, db_audit_heads := hs, db_uuids := n\<rparr>)"
  proof (cases rule: append_entry_cases)
    case (first g t k n)
    have "ledger_ok t m" for m
      unfolding first(5) by (rule ledger_ok_added) (simp_all add: assms(2) first(4))
    then have "ledger_ok s' m" for m
      unfolding first(7) by (intro ledger_ok_added) (simp_all add: first(6))
    moreover have "db_audit_entries s' = db_audit_entries s @ [g] @ [e]"
      by (simp add: first(5,7) added_def with_head_def)
    moreover have "\<exists>es hs n. s' = s\<lparr>db_audit_entries := es, db_audit_heads := hs, db_uuids := n\<rparr>"
      unfolding first(5,7) added_def with_head_def
      by (cases s) (auto intro!: exI simp: audit_db.defs)
    moreover have "\<forall>x\<in>set ([g] @ [e]). ae_merchant_id x = aa_merchant_id r"
      using first(2,3) by simp
    ultimately show ?thesis by blast
  next
    case (later n)
    then have "ledger_ok s' m" for m
      by (simp add: ledger_ok_added assms(2))
    moreover have "db_audit_entries s' = db_audit_entries s @ [] @ [e]"
      by (simp add: later(4) added_def with_head_def)
    moreover have "\<exists>es hs n. s' = s\<lparr>db_audit_entries := es, db_audit_heads := hs, db_uuids := n\<rparr>"
      unfolding later(4) added_def with_head_def
      by (cases s) (auto intro!: exI simp: audit_db.defs)
    moreover have "\<forall>x\<in>set ([] @ [e]). ae_merchant_id x = aa_merchant_id r"
      using later(2) by simp
    ultimately show ?thesis by blast
  qed
  then show "\<forall>m. ledger_ok s' m"
    "\<exists>new. db_audit_entries s' = db_audit_entries s @ new @ [e]
      \<and> (\<forall>x\<in>set (new @ [e]). ae_merchant_id x = aa_merchant_id r)"
    "\<exists>es hs n. s' = s\<lparr>db_audit_entries := es, db_audit_heads := hs, db_uuids := n\<rparr>" by blast+
qed

lemma append_entry_preserves: "preserves (\<lambda>s. \<forall>m. ledger_ok s m) (append_entry uuids r)"
  using append_entry_ledgers(1) by (rule preservesI)

text \<open>
  Property C27. The ledger only grows, and stays verifiable: an append to a database whose ledgers
  are sound adds entries of its merchant at the end, the requested one last, changes no
  earlier entry, and afterwards the ledger of every merchant verifies as \<open>VALID\<close>.
\<close>

theorem append_keeps_ledgers_valid:
  assumes "append_entry uuids r s = Inr (e, s')" and "\<forall>m. ledger_ok s m"
  shows "(\<forall>m. ledger_ok s' m \<and> av_status (verify s' m) = VALID)
    \<and> (\<exists>new. db_audit_entries s' = db_audit_entries s @ new @ [e]
        \<and> (\<forall>x\<in>set (new @ [e]). ae_merchant_id x = aa_merchant_id r))
    \<and> ae_event_type e = aa_event_type r \<and> ae_aggregate_id e = aa_aggregate_id r"
proof (intro conjI allI)
  show "ledger_ok s' m" for m using append_entry_ledgers(1) [OF assms] by blast
  then show "av_status (verify s' m) = VALID" for m by (rule ledger_ok_valid)
  show "\<exists>new. db_audit_entries s' = db_audit_entries s @ new @ [e]
        \<and> (\<forall>x\<in>set (new @ [e]). ae_merchant_id x = aa_merchant_id r)"
    by (rule append_entry_ledgers(2) [OF assms])
  show "ae_event_type e = aa_event_type r" "ae_aggregate_id e = aa_aggregate_id r"
    using assms(1) by (auto simp: append_entry_def result_simps dest: entry_from_request_InrD(8,10))
qed


text \<open>An append goes through exactly when its request is valid.\<close>

lemma append_entry_returns:
  assumes "validate_append r = Inr ()"
  shows "\<exists>e s'. append_entry uuids r s = Inr (e, s')"
proof -
  from assms obtain j t where j: "canonical_value (PDict (aa_payload r)) = Inr j"
    and t: "audit_utc (aa_recorded_at r) = Inr t"
    by (auto simp: validate_append_def result_simps Let_def)
  obtain g where "canonical_value (PDict (aa_payload (genesis_request r))) = Inr g"
    using canonical_genesis_payload by blast
  with assms j t show ?thesis
    by (auto simp: append_entry_def run_tx locked_head_def entry_from_request_def draw_uuid_def
        add_entry_def Let_def genesis_request_def)
qed


section \<open>An example\<close>

definition empty_ledger :: audit_db where
  "empty_ledger = \<lparr>db_audit_entries = [], db_audit_heads = Map.empty, db_uuids = 0\<rparr>"

definition sample_append :: AuditAppend where
  "sample_append =
     \<lparr>aa_merchant_id = ''merchant_1'', aa_event_type = ''ACTION_AUTHORIZED'',
      aa_aggregate_type = ''RECOVERY_ACTION'', aa_aggregate_id = ''action_1'',
      aa_correlation_id = ''corr_1'', aa_actor_type = ''SYSTEM'',
      aa_actor_reference = ''recovery-service'', aa_payload = [(''status'', PStr ''PENDING'')],
      aa_recorded_at = Aware 1000, aa_causation_id = None, aa_policy_version = None,
      aa_model_version = None, aa_prompt_version = None, aa_schema_version = None,
      aa_feature_version = None, aa_application_version = None\<rparr>"

definition sample_uuids :: "nat \<Rightarrow> string" where
  "sample_uuids n = show_nat n"

lemma empty_ledger_ok: "ledger_ok empty_ledger m"
  by (simp add: ledger_ok_def own_entries_def empty_ledger_def)

lemma sample_append_ok: "\<exists>e s'. append_entry sample_uuids sample_append empty_ledger = Inr (e, s')"
  by (simp add: append_entry_def run_tx validate_append_def raise_first_okI too_long_def
      sample_append_def audit_utc_def locked_head_def empty_ledger_def entry_from_request_def
      genesis_request_def draw_uuid_def add_entry_def Let_def)

theorem append_keeps_ledgers_valid_witness:
  "\<exists>e s'. append_entry sample_uuids sample_append empty_ledger = Inr (e, s')
     \<and> av_status (verify s' ''merchant_1'') = VALID
     \<and> (\<exists>new. db_audit_entries s' = new @ [e])"
proof -
  obtain e s' where a: "append_entry sample_uuids sample_append empty_ledger = Inr (e, s')"
    using sample_append_ok by blast
  have "\<forall>m. ledger_ok empty_ledger m" using empty_ledger_ok by blast
  from append_keeps_ledgers_valid [OF a this] a show ?thesis by auto
qed


end
