(* ===== verification/Versioned.thy ===== *)
theory Versioned
  imports Prelude
begin

text \<open>
  The interface of a table whose rows are updated by compare and set: a write names the key of
  a row and the version it was prepared from, and goes through only if the row still has that
  version, which it raises by one. What optimistic concurrency gives to the clients of such a
  table is proved here once. Between the writes other operations may run, which may add rows
  but leave the versions of the rows there are.
\<close>

locale versioned_store =
  fixes version :: "'s \<Rightarrow> 'k \<Rightarrow> int option"
    and ok :: "'s \<Rightarrow> bool"
    and cas :: "'w \<Rightarrow> ('s, 'a) tx"
    and other :: "'s \<Rightarrow> 's \<Rightarrow> bool"
    and key :: "'w \<Rightarrow> 'k"
    and expected :: "'w \<Rightarrow> int"
  assumes cas_ok: "ok s \<Longrightarrow> cas w s = Inr (x, s') \<Longrightarrow> ok s'"
    and cas_current: "ok s \<Longrightarrow> cas w s = Inr (x, s') \<Longrightarrow> version s (key w) = Some (expected w)"
    and cas_version: "ok s \<Longrightarrow> cas w s = Inr (x, s') \<Longrightarrow>
      version s' = (version s)(key w := Some (expected w + 1))"
    and other_ok: "ok s \<Longrightarrow> other s s' \<Longrightarrow> ok s'"
    and other_version: "ok s \<Longrightarrow> other s s' \<Longrightarrow> version s k = Some v \<Longrightarrow> version s' k = Some v"
begin

text \<open>\<open>writes s ws s'\<close>: a run from \<open>s\<close> to \<open>s'\<close> in which the writes \<open>ws\<close> went through.\<close>

inductive writes :: "'s \<Rightarrow> 'w list \<Rightarrow> 's \<Rightarrow> bool" where
  none: "writes s [] s"
| more: "writes s ws s' \<Longrightarrow> cas w s' = Inr (x, s'') \<Longrightarrow> writes s (ws @ [w]) s''"
| other: "writes s ws s' \<Longrightarrow> other s' s'' \<Longrightarrow> writes s ws s''"

lemma writes_ok: "writes s ws s' \<Longrightarrow> ok s \<Longrightarrow> ok s'"
  by (induction rule: writes.induct) (auto intro: cas_ok other_ok)

text \<open>The version of a row counts the writes to it.\<close>

lemma writes_version:
  "writes s ws s' \<Longrightarrow> ok s \<Longrightarrow> version s k = Some v \<Longrightarrow>
   version s' k = Some (v + int (length (filter (\<lambda>w. key w = k) ws)))"
proof (induction rule: writes.induct)
  case (more s ws s' w x s'')
  have "ok s'" using writes_ok more by blast
  note cas_version [OF this more.hyps(2)] cas_current [OF this more.hyps(2)]
  with more show ?case by auto
next
  case (other s ws s' s'')
  have "ok s'" using writes_ok other by blast
  with other show ?case using other_version [OF _ other.hyps(2)] by blast
qed simp

text \<open>
  Every write that goes through has taken the place of no other: the writes before it to the
  same row were prepared from smaller versions.
\<close>

lemma writes_expected:
  "writes s ws s' \<Longrightarrow> ok s \<Longrightarrow> w \<in> set ws \<Longrightarrow> \<exists>v. version s' (key w) = Some v \<and> expected w < v"
proof (induction rule: writes.induct)
  case (more s ws s' w' x s'')
  have "ok s'" using writes_ok more by blast
  note cas_version [OF this more.hyps(2)] cas_current [OF this more.hyps(2)]
  with more show ?case by fastforce
next
  case (other s ws s' s'')
  have "ok s'" using writes_ok other by blast
  with other show ?case using other_version [OF _ other.hyps(2)] by blast
qed simp

lemma writes_distinct: "writes s ws s' \<Longrightarrow> ok s \<Longrightarrow> distinct (map (\<lambda>w. (key w, expected w)) ws)"
proof (induction rule: writes.induct)
  case (more s ws s' w' x s'')
  have "ok s'" using writes_ok more by blast
  note cur = cas_current [OF this more.hyps(2)]
  have "(key w', expected w') \<noteq> (key w, expected w)" if "w \<in> set ws" for w
    using writes_expected [OF more.hyps(1) more.prems that] cur by auto
  with more show ?case by fastforce
qed simp_all

text \<open>A write prepared from a version that another write has used never goes through.\<close>

lemma lost_update_impossible:
  assumes "writes s ws s'" "ok s" "w \<in> set ws" "key w' = key w" "expected w' \<le> expected w"
  shows "cas w' s' \<noteq> Inr (x, s'')"
proof
  assume go: "cas w' s' = Inr (x, s'')"
  show False
    using writes_expected [OF assms(1-3)] cas_current [OF writes_ok [OF assms(1,2)] go] assms(4,5)
    by auto
qed

end

end
