(* ===== verification/Case_Store.thy ===== *)
theory Case_Store
  imports Cases Audit_Chain Versioned "HOL-Library.Product_Lexorder"
begin

text \<open>
  The case part of \<open>persistence/recovery_repositories.py\<close>, with the tables \<open>recovery_cases\<close>,
  \<open>case_transitions\<close> and \<open>recovery_case_events\<close> of \<open>persistence/models.py\<close> and the constraints
  the database enforces on them.

  A row of \<open>recovery_cases\<close> is the domain case with the columns the domain does not have. The
  confidence column holds basis points; the row keeps the value they denote. Constraints are
  checked when a statement is flushed; a violated one raises \<open>IntegrityError\<close>. Foreign keys to
  tables outside the model (merchants, customers, events, incidents, policies) are not checked.
\<close>


section \<open>Tables\<close>

datatype EvidenceDisposition = APPLIED | IGNORED_STALE | AUDIT_ONLY

record CaseRow =
  cw_case :: RecoveryCase
  cw_recovery_episode_key :: "string option"
  cw_latest_evidence_event_id :: "string option"
  cw_latest_evidence_occurred_at :: "datetime option"

record CaseEventRow =
  ce_merchant_id :: string
  ce_recovery_case_id :: "string option"
  ce_normalized_event_id :: string
  ce_disposition :: EvidenceDisposition
  ce_reason_code :: string

record EvidenceLinkResult =
  el_link :: CaseEventRow
  el_created :: bool

record case_db = audit_db +
  db_cases :: "CaseRow list"
  db_transitions :: "CaseTransition list"
  db_case_events :: "CaseEventRow list"

abbreviation row_key :: "CaseRow \<Rightarrow> string \<times> string" where
  "row_key r \<equiv> (rc_merchant_id (cw_case r), rc_case_id (cw_case r))"

text \<open>
  \<open>round\<close> of a Python float: the nearest integer, the even one of two. The confidences are
  exact multiples of \<open>1/10000\<close>, on which the float computation agrees with the rational one.
\<close>

definition round_half_even :: "rat \<Rightarrow> int" where
  "round_half_even x =
     (let f = \<lfloor>x\<rfloor>; d = x - of_int f in
      if d < 1 / 2 then f else if 1 / 2 < d then f + 1 else if even f then f else f + 1)"

lemma round_half_even_of_int [simp]: "round_half_even (of_int n) = n"
  by (simp add: round_half_even_def)

text \<open>The value a confidence has after its column: stored as basis points and read back.\<close>

definition stored_confidence :: "rat option \<Rightarrow> rat option" where
  "stored_confidence c = map_option (\<lambda>x. of_int (round_half_even (x * 10000)) / 10000) c"

lemma stored_confidence_idem [simp]: "stored_confidence (stored_confidence c) = stored_confidence c"
  by (cases c) (simp_all add: stored_confidence_def)


section \<open>Constraints\<close>

text \<open>The check constraints of \<open>recovery_cases\<close>, and its two partial unique indexes.\<close>

definition hex64 :: "string \<Rightarrow> bool" where
  "hex64 s \<longleftrightarrow> length s = 64 \<and> (\<forall>c\<in>set s. is_lower_hex c)"

lemma hex64_sha [simp]: "hex64 (sha256_hex m)"
  by (auto simp: hex64_def sha256_hex_def dest: hexdigest_lower_hex)

definition case_row_ok :: "CaseRow \<Rightarrow> bool" where
  "case_row_ok r \<longleftrightarrow>
     (let c = cw_case r in
      rc_schema_version c = ''1.0'' \<and> 1 \<le> rc_state_version c \<and> 0 \<le> rc_revenue_at_risk_minor c
      \<and> currency_pattern (rc_currency c) \<and> 0 \<le> rc_retry_count c \<and> 0 \<le> rc_contact_count c
      \<and> (\<forall>x\<in>set_option (rc_diagnosis_confidence c). 0 \<le> x \<and> x \<le> 1)
      \<and> (rc_state c \<in> TERMINAL_STATES \<longleftrightarrow> rc_terminal_reason c \<noteq> None)
      \<and> (\<forall>k\<in>set_option (cw_recovery_episode_key r). hex64 k))"

text \<open>A partial unique index: the keys of the rows it covers are distinct.\<close>

definition unique_index :: "('r \<Rightarrow> bool) \<Rightarrow> ('r \<Rightarrow> 'k) \<Rightarrow> 'r list \<Rightarrow> bool" where
  "unique_index covers key rows \<longleftrightarrow> distinct (map key (filter covers rows))"

definition active_subject :: "CaseRow \<Rightarrow> string \<times> WorkflowType \<times> SubjectType \<times> string" where
  "active_subject r = (let c = cw_case r in
     (rc_merchant_id c, rc_workflow_type c, rc_subject_type c, rc_subject_id c))"

definition episode :: "CaseRow \<Rightarrow> string \<times> WorkflowType \<times> SubjectType \<times> string option" where
  "episode r = (let c = cw_case r in
     (rc_merchant_id c, rc_workflow_type c, rc_subject_type c, cw_recovery_episode_key r))"

definition cases_ok :: "CaseRow list \<Rightarrow> bool" where
  "cases_ok rows \<longleftrightarrow>
     distinct (map row_key rows) \<and> (\<forall>r\<in>set rows. case_row_ok r)
     \<and> unique_index (\<lambda>r. rc_state (cw_case r) \<notin> TERMINAL_STATES) active_subject rows
     \<and> unique_index (\<lambda>r. cw_recovery_episode_key r \<noteq> None) episode rows"

text \<open>\<open>ck_case_transitions_allowed_edge\<close>, the copy of the state machine the database enforces.\<close>

fun ck_case_transitions_allowed_edge :: "CaseState \<Rightarrow> CaseState \<Rightarrow> bool" where
  "ck_case_transitions_allowed_edge DETECTED a \<longleftrightarrow> a \<in> {DIAGNOSING}"
| "ck_case_transitions_allowed_edge DIAGNOSING a \<longleftrightarrow> a \<in> {DECISION_PENDING}"
| "ck_case_transitions_allowed_edge DECISION_PENDING a \<longleftrightarrow> a \<in> {POLICY_CHECK}"
| "ck_case_transitions_allowed_edge POLICY_CHECK a \<longleftrightarrow>
     a \<in> {READY, DEFERRED, DECISION_PENDING, ESCALATED, STOPPED}"
| "ck_case_transitions_allowed_edge READY a \<longleftrightarrow> a \<in> {EXECUTING}"
| "ck_case_transitions_allowed_edge EXECUTING a \<longleftrightarrow> a \<in> {VERIFYING, CaseState.UNKNOWN}"
| "ck_case_transitions_allowed_edge VERIFYING a \<longleftrightarrow>
     a \<in> {RECOVERED, DECISION_PENDING, STOPPED, CaseState.UNKNOWN}"
| "ck_case_transitions_allowed_edge CaseState.UNKNOWN a \<longleftrightarrow> a \<in> {VERIFYING, ESCALATED}"
| "ck_case_transitions_allowed_edge DEFERRED a \<longleftrightarrow> a \<in> {DECISION_PENDING}"
| "ck_case_transitions_allowed_edge ESCALATED a \<longleftrightarrow> a \<in> {DECISION_PENDING, STOPPED}"
| "ck_case_transitions_allowed_edge s a \<longleftrightarrow> False"

definition transition_row_ok :: "CaseTransition \<Rightarrow> bool" where
  "transition_row_ok t \<longleftrightarrow>
     ct_after_version t = ct_before_version t + 1
     \<and> ck_case_transitions_allowed_edge (ct_before_state t) (ct_after_state t)
     \<and> (ct_after_state t = RECOVERED \<longrightarrow> ct_authoritative_evidence_reference t \<noteq> None)"

definition transitions_ok :: "CaseTransition list \<Rightarrow> bool" where
  "transitions_ok ts \<longleftrightarrow>
     (\<forall>t\<in>set ts. transition_row_ok t)
     \<and> unique_index (\<lambda>_. True) (\<lambda>t. (ct_merchant_id t, ct_case_id t, ct_after_version t)) ts"

definition checkT :: "('s \<Rightarrow> bool) \<Rightarrow> string \<Rightarrow> ('s, unit) tx" where
  "checkT ok table = bindT (getT ok) (\<lambda>b. guardT (\<not> b) (IntegrityError table))"

lemma checkT_eq_Inr [result_simps]: "checkT ok n s = Inr (u, s') \<longleftrightarrow> ok s \<and> s' = s"
  by (auto simp: checkT_def result_simps)


section \<open>Operations\<close>

definition case_row :: "'a case_db_scheme \<Rightarrow> string \<Rightarrow> string \<Rightarrow> CaseRow option" where
  "case_row s m c = find (\<lambda>r. row_key r = (m, c)) (db_cases s)"

definition get_case :: "string \<Rightarrow> string \<Rightarrow> ('a case_db_scheme, RecoveryCase option) tx" where
  "get_case m c = getT (\<lambda>s. map_option cw_case (case_row s m c))"

definition find_active_case ::
    "string \<Rightarrow> WorkflowType \<Rightarrow> SubjectType \<Rightarrow> string \<Rightarrow> ('a case_db_scheme, CaseRow option) tx" where
  "find_active_case m workflow subject_type subject_id =
     getT (\<lambda>s. find (\<lambda>r. active_subject r = (m, workflow, subject_type, subject_id)
       \<and> rc_state (cw_case r) \<notin> TERMINAL_STATES) (db_cases s))"

definition find_episode_case ::
    "string \<Rightarrow> WorkflowType \<Rightarrow> SubjectType \<Rightarrow> string \<Rightarrow> ('a case_db_scheme, CaseRow option) tx" where
  "find_episode_case m workflow subject_type key =
     getT (\<lambda>s. find (\<lambda>r. episode r = (m, workflow, subject_type, Some key)) (db_cases s))"

definition create_case ::
    "RecoveryCase \<Rightarrow> string option \<Rightarrow> string \<Rightarrow> datetime \<Rightarrow> int option \<Rightarrow>
     ('a case_db_scheme, CaseRow) tx" where
  "create_case c episode_key event_id occurred_at confidence =
     (let r = \<lparr>cw_case = c\<lparr>rc_diagnosis_confidence := map_option (\<lambda>b. of_int b / 10000) confidence\<rparr>,
               cw_recovery_episode_key = episode_key,
               cw_latest_evidence_event_id = Some event_id,
               cw_latest_evidence_occurred_at = Some occurred_at\<rparr>
      in seqT (modifyT (\<lambda>s. s\<lparr>db_cases := db_cases s @ [r]\<rparr>))
         (seqT (checkT (\<lambda>s. cases_ok (db_cases s)) ''recovery_cases'') (returnT r)))"

definition link_evidence ::
    "string \<Rightarrow> string \<Rightarrow> string option \<Rightarrow> EvidenceDisposition \<Rightarrow> string \<Rightarrow>
     ('a case_db_scheme, EvidenceLinkResult) tx" where
  "link_evidence m event_id case_id disposition reason =
     bindT (getT (\<lambda>s. find (\<lambda>l. (ce_merchant_id l, ce_normalized_event_id l) = (m, event_id))
       (db_case_events s))) (\<lambda>existing.
     case existing of
       Some l \<Rightarrow> returnT \<lparr>el_link = l, el_created = False\<rparr>
     | None \<Rightarrow>
         let l = \<lparr>ce_merchant_id = m, ce_recovery_case_id = case_id,
                  ce_normalized_event_id = event_id, ce_disposition = disposition,
                  ce_reason_code = reason\<rparr>
         in seqT (modifyT (\<lambda>s. s\<lparr>db_case_events := db_case_events s @ [l]\<rparr>))
            (returnT \<lparr>el_link = l, el_created = True\<rparr>))"

text \<open>The columns that \<open>apply_transition\<close> writes.\<close>

definition transition_columns :: "RecoveryCase \<Rightarrow> RecoveryCase \<Rightarrow> RecoveryCase" where
  "transition_columns u c =
     c\<lparr>rc_state := rc_state u, rc_state_version := rc_state_version u,
       rc_updated_at := rc_updated_at u, rc_next_evaluation_at := rc_next_evaluation_at u,
       rc_terminal_reason := rc_terminal_reason u, rc_diagnosis := rc_diagnosis u,
       rc_diagnosis_confidence := stored_confidence (rc_diagnosis_confidence u),
       rc_retry_count := rc_retry_count u, rc_contact_count := rc_contact_count u,
       rc_active_incident_id := rc_active_incident_id u\<rparr>"

definition transition_update ::
    "RecoveryCase \<Rightarrow> (string \<times> datetime option) option \<Rightarrow> CaseRow \<Rightarrow> CaseRow" where
  "transition_update u evidence r =
     (let r' = r\<lparr>cw_case := transition_columns u (cw_case r)\<rparr> in
      case evidence of
        None \<Rightarrow> r'
      | Some (event_id, occurred_at) \<Rightarrow>
          r'\<lparr>cw_latest_evidence_event_id := Some event_id,
             cw_latest_evidence_occurred_at := occurred_at\<rparr>)"

definition transition_matches :: "CaseTransition \<Rightarrow> CaseRow \<Rightarrow> bool" where
  "transition_matches t r \<longleftrightarrow>
     row_key r = (ct_merchant_id t, ct_case_id t) \<and> rc_state (cw_case r) = ct_before_state t
     \<and> rc_state_version (cw_case r) = ct_before_version t"

definition transition_append :: "CaseTransition \<Rightarrow> AuditAppend" where
  "transition_append t =
     \<lparr>aa_merchant_id = ct_merchant_id t, aa_event_type = ''CASE_TRANSITION'',
      aa_aggregate_type = ''RECOVERY_CASE'', aa_aggregate_id = ct_case_id t,
      aa_correlation_id = ct_correlation_id t, aa_actor_type = ''SYSTEM'',
      aa_actor_reference = ct_actor t,
      aa_payload =
        [(''after_state'', PStr (case_state_value (ct_after_state t))),
         (''after_version'', PInt (ct_after_version t)),
         (''before_state'', PStr (case_state_value (ct_before_state t))),
         (''before_version'', PInt (ct_before_version t)),
         (''reason_code'', PStr (ct_reason_code t))],
      aa_recorded_at = ct_occurred_at t, aa_causation_id = None,
      aa_policy_version = Some (ct_policy_version t), aa_model_version = None,
      aa_prompt_version = None, aa_schema_version = None, aa_feature_version = None,
      aa_application_version = None\<rparr>"

definition stale_case :: "string \<Rightarrow> exn" where
  "stale_case detail = RecoveryPersistenceError ''STALE_CASE_VERSION'' detail"

definition apply_transition ::
    "(nat \<Rightarrow> string) \<Rightarrow> RecoveryCase \<Rightarrow> CaseTransition \<Rightarrow> (string \<times> datetime option) option \<Rightarrow>
     ('a case_db_scheme, CaseRow) tx" where
  "apply_transition uuids u t evidence =
     bindT (getT (\<lambda>s. length (filter (transition_matches t) (db_cases s)))) (\<lambda>rowcount.
     seqT (modifyT (\<lambda>s. s\<lparr>db_cases :=
             update_where (transition_matches t) (transition_update u evidence) (db_cases s)\<rparr>))
     (seqT (checkT (\<lambda>s. cases_ok (db_cases s)) ''recovery_cases'')
     (seqT (guardT (rowcount \<noteq> 1)
             (stale_case ''case state or version changed before the transition was persisted''))
     (seqT (modifyT (\<lambda>s. s\<lparr>db_transitions := db_transitions s @ [t]\<rparr>))
     (seqT (checkT (\<lambda>s. transitions_ok (db_transitions s)) ''case_transitions'')
     (seqT (append_entry uuids (transition_append t))
     (bindT (getT (\<lambda>s. case_row s (ct_merchant_id t) (ct_case_id t))) (requireT NoResultFound))))))))"

definition record_execution_attempt_counters ::
    "RecoveryCase \<Rightarrow> int \<Rightarrow> int \<Rightarrow> datetime \<Rightarrow> ('a case_db_scheme, RecoveryCase) tx" where
  "record_execution_attempt_counters c retry_increment contact_increment occurred_at =
     (if retry_increment \<notin> {0, 1} \<or> contact_increment \<notin> {0, 1}
      then raiseT (ValueError ''attempt counter increments must be zero or one'')
      else if retry_increment + contact_increment > 1
      then raiseT (ValueError ''one attempt cannot be both a retry and customer contact'')
      else if retry_increment = 0 \<and> contact_increment = 0 then returnT c
      else
        bindT (liftR (utc ''timestamp'' occurred_at)) (\<lambda>now.
        bindT (liftR (post_init_case
          (c\<lparr>rc_retry_count := rc_retry_count c + retry_increment,
             rc_contact_count := rc_contact_count c + contact_increment, rc_updated_at := now\<rparr>)))
        (\<lambda>u.
        let matches = (\<lambda>r. row_key r = (rc_merchant_id c, rc_case_id c)
              \<and> rc_state (cw_case r) = rc_state c \<and> rc_state_version (cw_case r) = rc_state_version c)
        in
        bindT (getT (\<lambda>s. length (filter matches (db_cases s)))) (\<lambda>rowcount.
        seqT (modifyT (\<lambda>s. s\<lparr>db_cases := update_where matches
               (\<lambda>r. r\<lparr>cw_case := (cw_case r)\<lparr>rc_retry_count := rc_retry_count u,
                  rc_contact_count := rc_contact_count u, rc_updated_at := rc_updated_at u\<rparr>\<rparr>)
               (db_cases s)\<rparr>))
        (seqT (checkT (\<lambda>s. cases_ok (db_cases s)) ''recovery_cases'')
        (seqT (guardT (rowcount \<noteq> 1)
               (stale_case ''case changed before execution attempt counters were persisted''))
        (returnT u)))))))"

definition due_deferred_cases :: "datetime \<Rightarrow> nat \<Rightarrow> ('a case_db_scheme, CaseRow list) tx" where
  "due_deferred_cases due_at limit = getT (\<lambda>s.
     take limit (sort_key (\<lambda>r. (the (rc_next_evaluation_at (cw_case r)), row_key r))
       (filter (\<lambda>r. rc_state (cw_case r) = DEFERRED
          \<and> (\<exists>t\<in>set_option (rc_next_evaluation_at (cw_case r)). t \<le> due_at)) (db_cases s))))"

section \<open>The state machine and its copy\<close>

text \<open>
  The database enforces the domain's state machine: the check constraint of
  \<open>case_transitions\<close> admits exactly the edges of \<open>ALLOWED_TRANSITIONS\<close>.
\<close>

theorem database_edges_are_domain_edges:
  "ck_case_transitions_allowed_edge before after \<longleftrightarrow> can_transition before after"
  by (cases before) (auto simp: can_transition_def)


section \<open>Constraints hold in every state\<close>

lemma ledger_ok_case_tables [simp]:
  "ledger_ok (s\<lparr>db_cases := x\<rparr>) m = ledger_ok s m"
  "ledger_ok (s\<lparr>db_transitions := y\<rparr>) m = ledger_ok s m"
  "ledger_ok (s\<lparr>db_case_events := z\<rparr>) m = ledger_ok s m"
  by (simp_all add: ledger_ok_def own_entries_def)

text \<open>What the constraints and the ledger guarantee together.\<close>

definition store_ok :: "'a case_db_scheme \<Rightarrow> bool" where
  "store_ok s \<longleftrightarrow> cases_ok (db_cases s) \<and> transitions_ok (db_transitions s) \<and> (\<forall>m. ledger_ok s m)"

lemma append_entry_case_tables:
  assumes "append_entry uuids r s = Inr (e, s')" "\<forall>m. ledger_ok s m"
  shows "db_cases s' = db_cases s" "db_transitions s' = db_transitions s"
    "db_case_events s' = db_case_events s"
  using append_entry_ledgers(3) [OF assms] by auto

lemma apply_transition_InrD:
  assumes "apply_transition uuids u t ev s = Inr (r, s')" "\<forall>m. ledger_ok s m"
  shows "\<exists>s1. length (filter (transition_matches t) (db_cases s)) = 1
    \<and> db_cases s1 = update_where (transition_matches t) (transition_update u ev) (db_cases s)
    \<and> db_transitions s1 = db_transitions s @ [t] \<and> cases_ok (db_cases s1) \<and> transitions_ok (db_transitions s1)
    \<and> (\<forall>m. ledger_ok s1 m)
    \<and> (\<exists>e. append_entry uuids (transition_append t) s1 = Inr (e, s'))
    \<and> db_cases s' = db_cases s1 \<and> db_transitions s' = db_transitions s1
    \<and> case_row s' (ct_merchant_id t) (ct_case_id t) = Some r \<and> (\<forall>m. ledger_ok s' m)"
proof -
  let ?s1 = "s\<lparr>db_cases := update_where (transition_matches t) (transition_update u ev) (db_cases s),
    db_transitions := db_transitions s @ [t]\<rparr>"
  from assms(1) obtain e where
    "length (filter (transition_matches t) (db_cases s)) = 1"
    "cases_ok (db_cases ?s1)" "transitions_ok (db_transitions ?s1)"
    "append_entry uuids (transition_append t) ?s1 = Inr (e, s')"
    "case_row s' (ct_merchant_id t) (ct_case_id t) = Some r"
    by (auto simp: apply_transition_def result_simps)
  moreover have "\<forall>m. ledger_ok ?s1 m" using assms(2) by simp
  ultimately show ?thesis
    using append_entry_case_tables [of uuids "transition_append t" ?s1 e s']
      append_entry_ledgers(1) [of uuids "transition_append t" ?s1 e s']
    by (intro exI [of _ ?s1]) auto
qed

lemma apply_transition_tables:
  assumes "apply_transition uuids u t ev s = Inr (r, s')" "\<forall>m. ledger_ok s m"
  shows "db_cases s' = update_where (transition_matches t) (transition_update u ev) (db_cases s)"
    "db_transitions s' = db_transitions s @ [t]"
    "length (filter (transition_matches t) (db_cases s)) = 1"
    "case_row s' (ct_merchant_id t) (ct_case_id t) = Some r"
  using apply_transition_InrD [OF assms] by auto

lemma apply_transition_preserves: "preserves store_ok (apply_transition uuids u t ev)"
proof (rule preservesI)
  fix s r s'
  assume "store_ok s" "apply_transition uuids u t ev s = Inr (r, s')"
  then show "store_ok s'" using apply_transition_InrD [of uuids u t ev s r s'] by (auto simp: store_ok_def)
qed

lemma create_case_preserves: "preserves store_ok (create_case c key ev at_time conf)"
  by (rule preservesI) (auto simp: create_case_def result_simps store_ok_def Let_def)

lemma link_evidence_preserves: "preserves store_ok (link_evidence m e c d reason)"
  by (rule preservesI) (auto simp: link_evidence_def result_simps store_ok_def Let_def split: option.splits)

lemma counters_preserve: "preserves store_ok (record_execution_attempt_counters c r k t)"
  by (rule preservesI)
    (auto simp: record_execution_attempt_counters_def result_simps store_ok_def Let_def split: if_splits)

section \<open>Rows and their history\<close>

text \<open>The persisted transitions of a case, newest first, and that they lead to a state and version.\<close>

definition case_log :: "'a case_db_scheme \<Rightarrow> string \<times> string \<Rightarrow> CaseTransition list" where
  "case_log s k = rev (filter (\<lambda>t. (ct_merchant_id t, ct_case_id t) = k) (db_transitions s))"

fun leads_to :: "CaseState \<Rightarrow> int \<Rightarrow> CaseTransition list \<Rightarrow> bool" where
  "leads_to state version [] \<longleftrightarrow> True"
| "leads_to state version (t # ts) \<longleftrightarrow>
     ct_after_state t = state \<and> ct_after_version t = version
     \<and> can_transition (ct_before_state t) (ct_after_state t)
     \<and> ct_after_version t = ct_before_version t + 1
     \<and> leads_to (ct_before_state t) (ct_before_version t) ts"

definition history_ok :: "'a case_db_scheme \<Rightarrow> bool" where
  "history_ok s \<longleftrightarrow>
     (\<forall>r\<in>set (db_cases s). leads_to (rc_state (cw_case r)) (rc_state_version (cw_case r))
        (case_log s (row_key r)))
     \<and> (\<forall>t\<in>set (db_transitions s). (ct_merchant_id t, ct_case_id t) \<in> row_key ` set (db_cases s))"

lemma row_key_transition_update [simp]:
  "rc_merchant_id (cw_case (transition_update u ev r)) = rc_merchant_id (cw_case r)"
  "rc_case_id (cw_case (transition_update u ev r)) = rc_case_id (cw_case r)"
  by (simp_all add: transition_update_def transition_columns_def Let_def split: option.splits prod.splits)

lemma transition_update_columns [simp]:
  "rc_state (cw_case (transition_update u ev r)) = rc_state u"
  "rc_state_version (cw_case (transition_update u ev r)) = rc_state_version u"
  by (simp_all add: transition_update_def transition_columns_def Let_def split: option.splits prod.splits)

lemma row_key_image_update:
  "row_key ` set (update_where p (transition_update u ev) rows) = row_key ` set rows"
  unfolding set_update_where image_image by (rule image_cong) auto

lemma case_log_snoc:
  "case_log (s\<lparr>db_transitions := ts @ [t]\<rparr>) k =
     (if (ct_merchant_id t, ct_case_id t) = k then [t] else []) @ case_log (s\<lparr>db_transitions := ts\<rparr>) k"
  by (simp add: case_log_def)

lemma case_log_cong: "db_transitions s = db_transitions s' \<Longrightarrow> case_log s k = case_log s' k"
  by (simp add: case_log_def)

lemma history_ok_cong:
  "db_cases s = db_cases s' \<Longrightarrow> db_transitions s = db_transitions s' \<Longrightarrow> history_ok s = history_ok s'"
  by (simp add: history_ok_def case_log_def)

lemma apply_transition_history:
  assumes "apply_transition uuids u t ev s = Inr (r, s')" "store_ok s" "history_ok s"
    and "transition_case c q = Inr (v, t)" "same_lifecycle v u"
  shows "history_ok s'"
proof -
  note D = transition_case_InrD [OF assms(4)]
  have after: "rc_state u = ct_after_state t" "rc_state_version u = ct_after_version t"
    "ct_after_version t = ct_before_version t + 1" "can_transition (ct_before_state t) (ct_after_state t)"
    using D assms(5) by (auto simp: same_lifecycle_def)
  have "\<forall>m. ledger_ok s m" using assms(2) by (simp add: store_ok_def)
  note s1 = apply_transition_tables(1,2) [OF assms(1) this]
    and one = apply_transition_tables(3) [OF assms(1) this]
  have distinct: "distinct (map row_key (db_cases s))"
    using assms(2) by (simp add: store_ok_def cases_ok_def)
  from one have "filter (transition_matches t) (db_cases s) \<noteq> []" by auto
  then obtain r0 where r0: "r0 \<in> set (db_cases s)" "transition_matches t r0"
    by (auto simp: filter_empty_conv)
  have log: "case_log s' k = (if (ct_merchant_id t, ct_case_id t) = k then [t] else []) @ case_log s k" for k
    using s1 by (simp add: case_log_def)
  have "leads_to (rc_state (cw_case x)) (rc_state_version (cw_case x)) (case_log s' (row_key x))"
    if x: "x \<in> set (db_cases s')" for x
  proof -
    from x s1 obtain y where y: "y \<in> set (db_cases s)"
      and x_eq: "x = (if transition_matches t y then transition_update u ev y else y)"
      by (auto simp: set_update_where)
    have old: "leads_to (rc_state (cw_case y)) (rc_state_version (cw_case y)) (case_log s (row_key y))"
      using assms(3) y by (simp add: history_ok_def)
    show ?thesis
    proof (cases "transition_matches t y")
      case True
      with old x_eq after show ?thesis by (simp add: log transition_matches_def)
    next
      case False
      have "row_key y \<noteq> (ct_merchant_id t, ct_case_id t)"
      proof
        assume "row_key y = (ct_merchant_id t, ct_case_id t)"
        then have "row_key y = row_key r0" using r0(2) by (simp add: transition_matches_def)
        with distinct y r0(1) have "y = r0" by (auto simp: distinct_map inj_on_def)
        with False r0(2) show False by simp
      qed
      then have "case_log s' (row_key y) = case_log s (row_key y)" by (auto simp: log)
      with old x_eq False show ?thesis by simp
    qed
  qed
  moreover have "(ct_merchant_id x, ct_case_id x) \<in> row_key ` set (db_cases s')"
    if "x \<in> set (db_transitions s')" for x
  proof -
    have keys: "row_key ` set (db_cases s') = row_key ` set (db_cases s)"
      unfolding s1 by (rule row_key_image_update)
    show ?thesis
    proof (cases "x = t")
      case True
      have "(ct_merchant_id t, ct_case_id t) = row_key r0" using r0(2) by (simp add: transition_matches_def)
      with True keys r0(1) show ?thesis by simp
    next
      case False
      with that s1 have "x \<in> set (db_transitions s)" by simp
      with assms(3) keys show ?thesis by (auto simp: history_ok_def)
    qed
  qed
  ultimately show ?thesis by (simp add: history_ok_def)
qed

text \<open>
  The other operations keep the history consistent: a new row has no history yet, and the other
  two leave states, versions and transitions alone.
\<close>

lemma new_key_has_no_log:
  assumes "history_ok s" "k \<notin> row_key ` set (db_cases s)"
  shows "case_log s k = []"
proof -
  have "(ct_merchant_id t, ct_case_id t) \<noteq> k" if "t \<in> set (db_transitions s)" for t
    using assms that by (auto simp: history_ok_def)
  then show ?thesis by (auto simp: case_log_def filter_empty_conv)
qed

lemma create_case_history:
  assumes "create_case c key ev now conf s = Inr (r, s')" "history_ok s"
  shows "history_ok s'"
proof -
  from assms(1) have s': "db_cases s' = db_cases s @ [r]" "db_transitions s' = db_transitions s"
    and distinct: "distinct (map row_key (db_cases s @ [r]))"
    by (auto simp: create_case_def result_simps Let_def cases_ok_def)
  have log: "case_log s' k = case_log s k" for k by (rule case_log_cong) (simp add: s')
  have "case_log s (row_key r) = []"
    using distinct by (intro new_key_has_no_log [OF assms(2)]) auto
  with assms(2) show ?thesis by (auto simp: history_ok_def s' log)
qed

lemma link_evidence_tables:
  assumes "link_evidence m e c d reason s = Inr (r, s')"
  shows "db_cases s' = db_cases s" "db_transitions s' = db_transitions s"
  using assms by (auto simp: link_evidence_def result_simps Let_def split: option.splits)

definition only_counters :: "CaseRow list \<Rightarrow> CaseRow list \<Rightarrow> bool" where
  "only_counters rs rs' \<longleftrightarrow>
     map (\<lambda>r. (row_key r, rc_state (cw_case r), rc_state_version (cw_case r))) rs' =
     map (\<lambda>r. (row_key r, rc_state (cw_case r), rc_state_version (cw_case r))) rs"

lemma only_counters_update:
  "only_counters rows (update_where p (\<lambda>r. r\<lparr>cw_case := (cw_case r)\<lparr>rc_retry_count := i,
     rc_contact_count := j, rc_updated_at := now\<rparr>\<rparr>) rows)"
  by (simp add: only_counters_def update_where_def)

lemma counters_tables:
  assumes "record_execution_attempt_counters c i j now s = Inr (u, s')"
  shows "only_counters (db_cases s) (db_cases s') \<and> db_transitions s' = db_transitions s"
proof (cases "s' = s")
  case True
  then show ?thesis by (simp add: only_counters_def)
next
  case False
  let ?m = "\<lambda>r. row_key r = (rc_merchant_id c, rc_case_id c) \<and> rc_state (cw_case r) = rc_state c
    \<and> rc_state_version (cw_case r) = rc_state_version c"
  let ?f = "\<lambda>u r. r\<lparr>cw_case := (cw_case r)\<lparr>rc_retry_count := rc_retry_count u,
    rc_contact_count := rc_contact_count u, rc_updated_at := rc_updated_at u\<rparr>\<rparr>"
  from assms False have "s' = s\<lparr>db_cases := update_where ?m (?f u) (db_cases s)\<rparr>"
    unfolding record_execution_attempt_counters_def
    by (simp only: if_distrib [of "\<lambda>m. m s = Inr (u, s')"] bindT_eq_Inr seqT_eq_Inr tx_eq_Inr checkT_eq_Inr
        Let_def split: if_split_asm) (simp, elim exE conjE, simp)
  then show ?thesis by (simp add: only_counters_update)
qed

lemma only_counters_history:
  assumes "only_counters (db_cases s) (db_cases s')" "db_transitions s' = db_transitions s" "history_ok s"
  shows "history_ok s'"
proof -
  let ?f = "\<lambda>r. (row_key r, rc_state (cw_case r), rc_state_version (cw_case r))"
  have log: "case_log s' k = case_log s k" for k by (rule case_log_cong) (simp add: assms(2))
  have imgs: "?f ` set (db_cases s') = ?f ` set (db_cases s)"
    using arg_cong [OF assms(1) [unfolded only_counters_def], of set] by (simp only: set_map)
  have keys: "row_key ` set (db_cases s') = row_key ` set (db_cases s)"
  proof -
    have "fst ` ?f ` set (db_cases s') = fst ` ?f ` set (db_cases s)" by (simp only: imgs)
    then show ?thesis by (simp only: image_image fst_conv)
  qed
  have "leads_to (rc_state (cw_case x)) (rc_state_version (cw_case x)) (case_log s' (row_key x))"
    if "x \<in> set (db_cases s')" for x
  proof -
    from that have "?f x \<in> ?f ` set (db_cases s)" unfolding imgs [symmetric] by (rule imageI)
    then obtain y where "y \<in> set (db_cases s)" "?f x = ?f y" by (rule imageE)
    with assms(3) show ?thesis by (simp add: history_ok_def log)
  qed
  with assms(2,3) keys show ?thesis by (simp add: history_ok_def)
qed

subsection \<open>Compare and set\<close>

text \<open>
  A change of lifecycle as the services make it: \<open>transition_case\<close> on the case they hold, other
  columns replaced in its result, then \<open>apply_transition\<close>. It is a compare and set on the
  version of the row.
\<close>

record CaseWrite =
  wr_uuids :: "nat \<Rightarrow> string"
  wr_case :: RecoveryCase
  wr_request :: TransitionRequest
  wr_edit :: "RecoveryCase \<Rightarrow> RecoveryCase"
  wr_evidence :: "(string \<times> datetime option) option"

definition write_case :: "CaseWrite \<Rightarrow> ('a case_db_scheme, CaseRow) tx" where
  "write_case w =
     bindT (liftR (transition_case (wr_case w) (wr_request w))) (\<lambda>(v, t).
     seqT (guardT (\<not> same_lifecycle v (wr_edit w v)) (AssertionError ''replace keeps the lifecycle''))
     (apply_transition (wr_uuids w) (wr_edit w v) t (wr_evidence w)))"

abbreviation write_key :: "CaseWrite \<Rightarrow> string \<times> string" where
  "write_key w \<equiv> (rc_merchant_id (wr_case w), rc_case_id (wr_case w))"

definition row_version :: "'a case_db_scheme \<Rightarrow> string \<times> string \<Rightarrow> int option" where
  "row_version s k = map_option (\<lambda>r. rc_state_version (cw_case r)) (find (\<lambda>r. row_key r = k) (db_cases s))"

definition consistent :: "'a case_db_scheme \<Rightarrow> bool" where
  "consistent s \<longleftrightarrow> store_ok s \<and> history_ok s"

text \<open>The other operations on the case tables.\<close>

inductive other_operation :: "'a case_db_scheme \<Rightarrow> 'a case_db_scheme \<Rightarrow> bool" where
  create: "create_case c key ev now conf s = Inr (r, s') \<Longrightarrow> other_operation s s'"
| link: "link_evidence m e c d reason s = Inr (l, s') \<Longrightarrow> other_operation s s'"
| count: "record_execution_attempt_counters c i j now s = Inr (u, s') \<Longrightarrow> other_operation s s'"

lemma create_case_consistent:
  assumes "create_case c key ev now conf s = Inr (r, s')" "consistent s"
  shows "consistent s'"
  using preservesD [OF create_case_preserves _ assms(1)] create_case_history [OF assms(1)] assms(2)
  by (simp add: consistent_def)

lemma link_evidence_consistent:
  assumes "link_evidence m e c d reason s = Inr (r, s')" "consistent s"
  shows "consistent s'"
  using preservesD [OF link_evidence_preserves _ assms(1)] assms(2) link_evidence_tables [OF assms(1)]
    history_ok_cong [of s s'] by (simp add: consistent_def)

lemma counters_consistent:
  assumes "record_execution_attempt_counters c i j now s = Inr (r, s')" "consistent s"
  shows "consistent s'"
  using preservesD [OF counters_preserve _ assms(1)] assms(2) counters_tables [OF assms(1)]
    only_counters_history [of s s'] by (simp add: consistent_def)

lemma other_operation_consistent: "other_operation s s' \<Longrightarrow> consistent s \<Longrightarrow> consistent s'"
  by (induction rule: other_operation.induct)
    (fact create_case_consistent link_evidence_consistent counters_consistent)+

lemma only_counters_version:
  "only_counters (db_cases s) (db_cases s') \<Longrightarrow> row_version s' k = row_version s k"
  unfolding row_version_def only_counters_def by (rule find_same_image) auto

lemma create_case_version:
  assumes "create_case c key ev now conf s = Inr (r, s')" "row_version s k = Some v"
  shows "row_version s' k = Some v"
proof -
  from assms(1) have "db_cases s' = db_cases s @ [r]" by (auto simp: create_case_def result_simps Let_def)
  with assms(2) show ?thesis by (auto simp: row_version_def dest: find_append_Some)
qed

lemma other_operation_version:
  "other_operation s s' \<Longrightarrow> row_version s k = Some v \<Longrightarrow> row_version s' k = Some v"
proof (induction rule: other_operation.induct)
  case (create c key ev now conf s r s')
  then show ?case by (rule create_case_version)
next
  case (link m e c d reason s l s')
  then show ?case using link_evidence_tables(1) [OF link.hyps] by (simp add: row_version_def)
next
  case (count c i j now s u s')
  then show ?case using counters_tables [OF count.hyps] only_counters_version [of s s'] by simp
qed

lemma write_case_InrD:
  assumes "write_case w s = Inr (r, s')"
  obtains v t where "transition_case (wr_case w) (wr_request w) = Inr (v, t)"
    "same_lifecycle v (wr_edit w v)"
    "apply_transition (wr_uuids w) (wr_edit w v) t (wr_evidence w) s = Inr (r, s')"
  using assms by (auto simp: write_case_def result_simps split: prod.splits)

lemma write_case_consistent: "consistent s \<Longrightarrow> write_case w s = Inr (r, s') \<Longrightarrow> consistent s'"
  by (erule write_case_InrD)
    (auto simp: consistent_def intro: apply_transition_history preservesD [OF apply_transition_preserves])

lemma row_version_update:
  assumes "distinct (map row_key rows)" "r0 \<in> set rows" "p r0"
    and "\<And>r. p r \<Longrightarrow> row_key r = k" "\<And>r. row_key (f r) = row_key r"
    and "\<And>r. rc_state_version (cw_case (f r)) = v"
  shows "map_option (\<lambda>r. rc_state_version (cw_case r)) (find (\<lambda>r. row_key r = k') (update_where p f rows)) =
    (if k' = k then Some v
     else map_option (\<lambda>r. rc_state_version (cw_case r)) (find (\<lambda>r. row_key r = k') rows))"
proof (cases "k' = k")
  case True
  have "find (\<lambda>r. row_key r = row_key r0) rows = Some r0" by (rule find_unique_key [OF assms(1,2)])
  then have "find (\<lambda>r. row_key r = row_key r0) (update_where p f rows) = Some (f r0)"
    by (rule find_update_where_same) (simp_all add: assms(3,5))
  with True assms(3,4,6) show ?thesis by simp
next
  case False
  with assms(4,5) have "find (\<lambda>r. row_key r = k') (update_where p f rows) = find (\<lambda>r. row_key r = k') rows"
    by (intro find_update_where_other) auto
  with False show ?thesis by simp
qed

lemma write_case_tables:
  assumes "write_case w s = Inr (r, s')" "consistent s"
  shows "row_version s (write_key w) = Some (rc_state_version (wr_case w))
    \<and> row_version s' = (row_version s)(write_key w := Some (rc_state_version (wr_case w) + 1))"
proof -
  from assms(1) obtain v t where
    t: "transition_case (wr_case w) (wr_request w) = Inr (v, t)" "same_lifecycle v (wr_edit w v)" and
    a: "apply_transition (wr_uuids w) (wr_edit w v) t (wr_evidence w) s = Inr (r, s')"
    by (rule write_case_InrD)
  note D = transition_case_InrD [OF t(1)]
  have ok: "\<forall>m. ledger_ok s m" and distinct: "distinct (map row_key (db_cases s))"
    using assms(2) by (auto simp: consistent_def store_ok_def cases_ok_def)
  note tables = apply_transition_tables [OF a ok]
  from tables(3) have "filter (transition_matches t) (db_cases s) \<noteq> []" by auto
  then obtain r0 where r0: "r0 \<in> set (db_cases s)" "transition_matches t r0"
    by (auto simp: filter_empty_conv)
  have key: "row_key r0 = write_key w" "rc_state_version (cw_case r0) = rc_state_version (wr_case w)"
    using r0(2) D by (simp_all add: transition_matches_def)
  have "row_version s (write_key w) = Some (rc_state_version (wr_case w))"
    using find_unique_key [OF distinct r0(1)] key by (simp add: row_version_def)
  moreover have "row_version s' k = (if k = write_key w then Some (rc_state_version (wr_case w) + 1)
      else row_version s k)" for k
    unfolding row_version_def tables(1)
  proof (rule row_version_update [OF distinct r0(1), where p = "transition_matches t"])
    show "rc_state_version (cw_case (transition_update (wr_edit w v) (wr_evidence w) x)) =
      rc_state_version (wr_case w) + 1" for x
      using D(1) t(2) by (simp add: same_lifecycle_def)
  qed (use D r0 in \<open>simp_all add: transition_matches_def\<close>)
  ultimately show ?thesis by auto
qed

interpretation case_rows: versioned_store row_version consistent write_case other_operation
    write_key "\<lambda>w. rc_state_version (wr_case w)"
  by unfold_locales
    (use write_case_consistent write_case_tables other_operation_consistent other_operation_version in blast)+


section \<open>Properties\<close>

lemma leads_to_path:
  "leads_to st v ts \<Longrightarrow> ts \<noteq> [] \<Longrightarrow>
   st = ct_after_state (hd ts) \<and> v = ct_after_version (hd ts)
   \<and> case_table.allowed_path (ct_before_state (last ts)) (map ct_after_state (rev ts))
   \<and> last (ct_before_state (last ts) # map ct_after_state (rev ts)) = st"
proof (induction st v ts rule: leads_to.induct)
  case (2 st v t ts)
  then show ?case
    by (cases "ts = []") (auto simp: case_table.allowed_path_append can_transition_def)
qed simp

lemma leads_to_versions:
  "leads_to st v ts \<Longrightarrow> i < length ts \<Longrightarrow>
   ct_after_version (ts ! i) = v - int i \<and> ct_before_version (ts ! i) = v - int i - 1"
  by (induction st v ts arbitrary: i rule: leads_to.induct) (auto simp: less_Suc_eq_0_disj)

lemma leads_to_distinct: "leads_to st v ts \<Longrightarrow> distinct (map ct_before_version ts)"
  using leads_to_versions [of st v ts] by (auto simp: distinct_conv_nth)

text \<open>
  Property C28. Whatever mix of transitions, case creations, evidence links and counter
  updates has run, the stored row of a case is what its stored transitions say: its state and
  version are those of the last one, the transitions are a path of the state machine that no
  terminal state interrupts, and no version of the case was left twice.
\<close>

theorem rows_agree_with_history:
  assumes "case_rows.writes s ws s'" "consistent s" "r \<in> set (db_cases s')"
    and "filter (\<lambda>t. (ct_merchant_id t, ct_case_id t) = row_key r) (db_transitions s') = ts" "ts \<noteq> []"
  shows "rc_state (cw_case r) = ct_after_state (last ts)
    \<and> rc_state_version (cw_case r) = ct_after_version (last ts)
    \<and> case_table.allowed_path (ct_before_state (hd ts)) (map ct_after_state ts)
    \<and> (\<forall>t\<in>set (butlast ts). ct_after_state t \<notin> TERMINAL_STATES)
    \<and> distinct (map ct_before_version ts)"
proof -
  have "consistent s'" using case_rows.writes_ok assms(1,2) by blast
  with assms(3,4) have leads: "leads_to (rc_state (cw_case r)) (rc_state_version (cw_case r)) (rev ts)"
    by (auto simp: consistent_def history_ok_def case_log_def)
  note path = leads_to_path [OF leads]
  have path': "case_table.allowed_path (ct_before_state (hd ts)) (map ct_after_state ts)"
    using path assms(5) by (simp add: last_rev)
  have "ct_after_state t \<notin> TERMINAL_STATES" if t: "t \<in> set (butlast ts)" for t
  proof
    assume terminal: "ct_after_state t \<in> TERMINAL_STATES"
    from t obtain xs ys where "butlast ts = xs @ t # ys" by (auto simp: in_set_conv_decomp)
    with assms(5) have "ts = xs @ t # (ys @ [last ts])"
      by (metis append.assoc append_Cons append_butlast_last_id)
    with path' terminal case_table.terminal_last [of _ "map ct_after_state xs" "ct_after_state t"
        "map ct_after_state (ys @ [last ts])"] show False by (metis list.map(2) list.map_disc_iff map_append snoc_eq_iff_butlast)
  qed
  moreover have "distinct (map ct_before_version ts)"
    using leads_to_distinct [OF leads] by (simp add: rev_map [symmetric])
  ultimately show ?thesis using path path' assms(5) by (simp add: hd_rev)
qed

text \<open>
  Property C29. Of the transitions prepared from one version of a case at most one is stored:
  once one of them has gone through, every other fails, whatever happens in between.
\<close>

theorem one_transition_per_version:
  assumes "case_rows.writes s ws s'" "consistent s" "w \<in> set ws"
    and "write_key w' = write_key w"
    and "rc_state_version (wr_case w') \<le> rc_state_version (wr_case w)"
  shows "\<exists>e. write_case w' s' = Inl e"
  using case_rows.lost_update_impossible [OF assms] by (cases "write_case w' s'") auto

text \<open>
  A subject has at most one active case: while a case about it is open, a second
  one for the same merchant, workflow and subject is refused.
\<close>

theorem second_active_case_refused:
  assumes "r \<in> set (db_cases s)" "rc_state (cw_case r) \<notin> TERMINAL_STATES"
    and "rc_merchant_id c = rc_merchant_id (cw_case r)" "rc_workflow_type c = rc_workflow_type (cw_case r)"
    and "rc_subject_type c = rc_subject_type (cw_case r)" "rc_subject_id c = rc_subject_id (cw_case r)"
    and "rc_state c \<notin> TERMINAL_STATES"
  shows "create_case c key ev now conf s = Inl (IntegrityError ''recovery_cases'')"
proof -
  let ?new = "\<lparr>cw_case = c\<lparr>rc_diagnosis_confidence := map_option (\<lambda>b. of_int b / 10000) conf\<rparr>,
    cw_recovery_episode_key = key, cw_latest_evidence_event_id = Some ev,
    cw_latest_evidence_occurred_at = Some now\<rparr>"
  have "active_subject ?new = active_subject r" using assms by (simp add: active_subject_def Let_def)
  with assms have "\<not> cases_ok (db_cases s @ [?new])"
    by (auto simp: cases_ok_def unique_index_def intro: rev_image_eqI)
  then show ?thesis
    by (simp add: create_case_def Let_def run_tx checkT_def)
qed

text \<open>
  An event is linked once: the second call with the same event returns the first
  link, whatever case, disposition or reason it names, and changes nothing.
\<close>

theorem link_evidence_once:
  assumes "link_evidence m ev c d reason s = Inr (l, s')"
  shows "link_evidence m ev c' d' reason' s' = Inr (\<lparr>el_link = el_link l, el_created = False\<rparr>, s')"
proof (cases "find (\<lambda>l. (ce_merchant_id l, ce_normalized_event_id l) = (m, ev)) (db_case_events s)")
  case None
  with assms have new: "ce_merchant_id (el_link l) = m" "ce_normalized_event_id (el_link l) = ev"
    and "db_case_events s' = db_case_events s @ [el_link l]"
    by (auto simp: link_evidence_def result_simps Let_def)
  with None have "find (\<lambda>l. (ce_merchant_id l, ce_normalized_event_id l) = (m, ev)) (db_case_events s')
    = Some (el_link l)"
    by (simp add: find_append_None [where xs = "db_case_events s"])
  then show ?thesis by (simp add: link_evidence_def run_tx)
next
  case (Some x)
  with assms have "l = \<lparr>el_link = x, el_created = False\<rparr>" "s' = s"
    by (auto simp: link_evidence_def result_simps)
  with Some show ?thesis by (simp add: link_evidence_def run_tx)
qed

section \<open>An example\<close>

definition sample_row :: CaseRow where
  "sample_row = \<lparr>cw_case = sample_case, cw_recovery_episode_key = None,
     cw_latest_evidence_event_id = Some ''event_1'', cw_latest_evidence_occurred_at = Some (Aware 1000)\<rparr>"

definition sample_store :: case_db where
  "sample_store = \<lparr>db_audit_entries = [], db_audit_heads = Map.empty, db_uuids = 0,
     db_cases = [sample_row], db_transitions = [], db_case_events = []\<rparr>"

definition sample_write :: CaseWrite where
  "sample_write = \<lparr>wr_uuids = sample_uuids, wr_case = sample_case,
     wr_request = sample_request sample_case DIAGNOSING, wr_edit = (\<lambda>c. c), wr_evidence = None\<rparr>"

lemma cases_ok_single: "cases_ok [r] \<longleftrightarrow> case_row_ok r"
  by (auto simp: cases_ok_def unique_index_def)

lemma sample_store_consistent: "consistent sample_store"
  by (simp add: consistent_def store_ok_def sample_store_def cases_ok_single case_row_ok_def
      sample_row_def sample_case_def currency_pattern_def is_ascii_upper_def transitions_ok_def
      unique_index_def ledger_ok_def own_entries_def history_ok_def case_log_def TERMINAL_STATES_def)

text \<open>A transition goes through when its row matches and the changed tables keep their constraints.\<close>

lemma apply_transition_returns:
  assumes "filter (transition_matches t) (db_cases s) = [r0]"
    and "cases_ok (update_where (transition_matches t) (transition_update u ev) (db_cases s))"
    and "transitions_ok (db_transitions s @ [t])"
    and "validate_append (transition_append t) = Inr ()" "\<forall>m. ledger_ok s m"
  shows "\<exists>r s'. apply_transition uuids u t ev s = Inr (r, s')"
proof -
  let ?s1 = "s\<lparr>db_cases := update_where (transition_matches t) (transition_update u ev) (db_cases s),
    db_transitions := db_transitions s @ [t]\<rparr>"
  obtain e s' where a: "append_entry uuids (transition_append t) ?s1 = Inr (e, s')"
    using append_entry_returns [OF assms(4)] by blast
  have "db_cases s' = db_cases ?s1"
    using append_entry_case_tables(1) [OF a] assms(5) by simp
  moreover have "r0 \<in> set (db_cases s)" "transition_matches t r0"
    using assms(1) by (metis filter_eq_ConsD list.set_intros in_set_conv_decomp)+
  then have "transition_update u ev r0 \<in> set (db_cases ?s1)"
    and "row_key (transition_update u ev r0) = (ct_merchant_id t, ct_case_id t)"
    by (auto simp: set_update_where transition_matches_def)
  then have "find (\<lambda>r. row_key r = (ct_merchant_id t, ct_case_id t)) (db_cases ?s1) \<noteq> None"
    unfolding find_None_iff by blast
  ultimately have "\<exists>r. case_row s' (ct_merchant_id t) (ct_case_id t) = Some r"
    by (auto simp: case_row_def)
  with a assms show ?thesis by (auto simp: apply_transition_def run_tx checkT_def)
qed

lemma sample_write_ok: "\<exists>r s'. write_case sample_write sample_store = Inr (r, s')"
proof -
  obtain t where t: "transition_case sample_case (sample_request sample_case DIAGNOSING) =
      Inr (moved sample_case (sample_request sample_case DIAGNOSING), t)"
    using sample_transition by blast
  note D = transition_case_InrD [OF t]
  note tr = D(9-18)
  have detail: "ct_correlation_id t = ''corr_1'' \<and> ct_policy_version t = ''policy_1''"
    using t by (simp add: run_transition sample_case_def sample_request_def moved_def) auto
  have "\<exists>r s'. apply_transition sample_uuids (moved sample_case (sample_request sample_case DIAGNOSING)) t None
      sample_store = Inr (r, s')"
  proof (rule apply_transition_returns)
    have m: "transition_matches t sample_row"
      using tr by (simp add: transition_matches_def sample_row_def sample_case_def)
    then show "filter (transition_matches t) (db_cases sample_store) = [sample_row]"
      by (simp add: sample_store_def)
    show "cases_ok (update_where (transition_matches t)
        (transition_update (moved sample_case (sample_request sample_case DIAGNOSING)) None) (db_cases sample_store))"
      using m by (simp add: sample_store_def cases_ok_single case_row_ok_def transition_update_def
          transition_columns_def sample_row_def sample_case_def sample_request_def moved_def stored_confidence_def
          currency_pattern_def is_ascii_upper_def TERMINAL_STATES_def)
    show "transitions_ok (db_transitions sample_store @ [t])"
      using tr by (simp add: sample_store_def transitions_ok_def unique_index_def transition_row_ok_def
          sample_case_def sample_request_def)
    show "validate_append (transition_append t) = Inr ()"
      using tr detail
      by (simp add: validate_append_def raise_first_okI too_long_def transition_append_def audit_utc_def
          sample_case_def sample_request_def Let_def)
    show "\<forall>m. ledger_ok sample_store m"
      using sample_store_consistent by (simp add: consistent_def store_ok_def)
  qed
  then show ?thesis
    by (simp add: write_case_def sample_write_def t run_tx same_lifecycle_def)
qed

theorem rows_agree_with_history_witness:
  "\<exists>s' r t. case_rows.writes sample_store [sample_write] s' \<and> r \<in> set (db_cases s')
     \<and> db_transitions s' = [t] \<and> rc_state (cw_case r) = ct_after_state t"
proof -
  obtain r s' where w: "write_case sample_write sample_store = Inr (r, s')" using sample_write_ok by blast
  then have run: "case_rows.writes sample_store [sample_write] s'"
    using case_rows.more [OF case_rows.none, of sample_write sample_store r s'] by simp
  from w obtain v t where t: "transition_case sample_case (sample_request sample_case DIAGNOSING) = Inr (v, t)"
    and a: "apply_transition sample_uuids v t None sample_store = Inr (r, s')"
    by (elim write_case_InrD) (auto simp: sample_write_def)
  note D = transition_case_InrD [OF t]
  have "\<forall>m. ledger_ok sample_store m"
    using sample_store_consistent by (simp add: consistent_def store_ok_def)
  note T = apply_transition_tables [OF a this]
  have rows: "db_cases s' = [transition_update v None sample_row]" and ts: "db_transitions s' = [t]"
    using T D by (simp_all add: sample_store_def transition_matches_def sample_row_def)
  have key: "row_key (transition_update v None sample_row) = (ct_merchant_id t, ct_case_id t)"
    using D by (simp add: sample_row_def)
  have "rc_state (cw_case (transition_update v None sample_row)) = ct_after_state (last [t])"
    by (rule conjunct1 [OF rows_agree_with_history [OF run sample_store_consistent]])
      (use rows ts key in simp_all)
  with run rows ts show ?thesis by auto
qed

theorem one_transition_per_version_witness:
  "\<exists>s' e. case_rows.writes sample_store [sample_write] s' \<and> write_case sample_write s' = Inl e"
proof -
  obtain r s' where "write_case sample_write sample_store = Inr (r, s')" using sample_write_ok by blast
  then have run: "case_rows.writes sample_store [sample_write] s'"
    using case_rows.more [OF case_rows.none, of sample_write sample_store r s'] by simp
  with one_transition_per_version [OF run sample_store_consistent, of sample_write sample_write]
  show ?thesis by auto
qed

theorem second_active_case_refused_witness:
  "create_case (sample_case\<lparr>rc_case_id := ''case_2''\<rparr>) None ''event_2'' (Aware 2000) None sample_store =
     Inl (IntegrityError ''recovery_cases'')"
  by (rule second_active_case_refused [of sample_row])
    (simp_all add: sample_store_def sample_row_def sample_case_def TERMINAL_STATES_def)

theorem link_evidence_once_witness:
  "\<exists>l s'. link_evidence ''merchant_1'' ''event_1'' (Some ''case_1'') APPLIED ''NEW'' sample_store = Inr (l, s')
     \<and> link_evidence ''merchant_1'' ''event_1'' None AUDIT_ONLY ''AGAIN'' s' =
         Inr (\<lparr>el_link = el_link l, el_created = False\<rparr>, s')"
proof -
  obtain l s' where l: "link_evidence ''merchant_1'' ''event_1'' (Some ''case_1'') APPLIED ''NEW'' sample_store
      = Inr (l, s')"
    by (auto simp: link_evidence_def run_tx sample_store_def Let_def)
  from link_evidence_once [OF l] l show ?thesis by blast
qed

end
