(* ===== verification/Evidence_Order.thy ===== *)
theory Evidence_Order
  imports Case_Store "HOL-Library.Multiset"
begin

text \<open>
  \<open>persistence/status_ordering.py\<close> and \<open>order_evidence\<close> of
  \<open>persistence/recovery_repositories.py\<close>: which of two pieces of evidence about a case is the
  newer one, whatever order the webhooks arrive in.

  \<open>str.upper\<close> is modelled on the ASCII letters. On the other code points up to U+00FF it never
  yields one of the table's keys, so the lookup is the same.
\<close>


section \<open>Definitions\<close>

definition ascii_upper :: "char \<Rightarrow> char" where
  "ascii_upper c =
     (if 97 \<le> (of_char c :: nat) \<and> (of_char c :: nat) \<le> 122 then char_of ((of_char c :: nat) - 32) else c)"

definition str_upper :: "string \<Rightarrow> string" where
  "str_upper s = map ascii_upper s"

definition PROVIDER_STATUS_PRECEDENCE :: "(string \<times> int) list" where
  "PROVIDER_STATUS_PRECEDENCE =
     [(''AUTHORIZED'', 50), (''CAPTURED'', 100), (''PAID'', 100), (''CHARGED'', 100),
      (''COMPLETED'', 100), (''DISPUTED'', 110), (''CANCELLED'', 90), (''HALTED'', 90),
      (''FAILED'', 20), (''PENDING'', 10), (''CREATED'', 5)]"

definition status_rank :: "string option \<Rightarrow> int" where
  "status_rank s = (case map_of PROVIDER_STATUS_PRECEDENCE (str_upper (or_default s [])) of
     Some n \<Rightarrow> n | None \<Rightarrow> 0)"

definition compare_provider_status :: "string option \<Rightarrow> string option \<Rightarrow> int" where
  "compare_provider_status left right =
     of_bool (status_rank left > status_rank right) - of_bool (status_rank left < status_rank right)"

record AuthoritativeFacts =
  af_provider_updated_at :: "datetime option"
  af_status :: "string option"
  af_promise_due_at :: "datetime option"

record EvidenceOrder =
  eo_disposition :: EvidenceDisposition
  eo_reason_code :: string

definition evidence_utc :: "datetime \<Rightarrow> datetime result" where
  "evidence_utc t = (if is_aware t then Inr t else Inl (ValueError ''timestamp must be timezone-aware''))"

definition evidence_utc_opt :: "datetime option \<Rightarrow> datetime option result" where
  "evidence_utc_opt v = (case v of None \<Rightarrow> Inr None | Some t \<Rightarrow> bindR (evidence_utc t) (\<lambda>u. Inr (Some u)))"

definition order_evidence ::
    "datetime \<Rightarrow> string \<Rightarrow> string option \<Rightarrow> AuthoritativeFacts \<Rightarrow> datetime option \<Rightarrow> string option \<Rightarrow>
     string option \<Rightarrow> EvidenceOrder result" where
  "order_evidence event_occurred_at event_id event_status authoritative case_watermark_at
     case_watermark_event_id case_status =
     bindR (evidence_utc event_occurred_at) (\<lambda>event_time.
     bindR (evidence_utc_opt (af_provider_updated_at authoritative)) (\<lambda>authoritative_time.
     bindR (evidence_utc_opt case_watermark_at) (\<lambda>watermark.
     if (\<exists>t\<in>set_option authoritative_time. event_time < t)
       then Inr \<lparr>eo_disposition = IGNORED_STALE, eo_reason_code = ''OLDER_THAN_PROVIDER_TRUTH''\<rparr>
     else if (\<exists>t\<in>set_option watermark. event_time < t)
       then Inr \<lparr>eo_disposition = IGNORED_STALE, eo_reason_code = ''OLDER_THAN_CASE_WATERMARK''\<rparr>
     else if authoritative_time = Some event_time
         \<and> compare_provider_status event_status (af_status authoritative) < 0
       then Inr \<lparr>eo_disposition = IGNORED_STALE, eo_reason_code = ''LOWER_PRECEDENCE_PROVIDER_TRUTH''\<rparr>
     else if watermark = Some event_time \<and> compare_provider_status event_status case_status < 0
       then Inr \<lparr>eo_disposition = IGNORED_STALE, eo_reason_code = ''LOWER_PRECEDENCE_CASE_TRUTH''\<rparr>
     else if watermark = Some event_time \<and> compare_provider_status event_status case_status = 0
         \<and> (\<exists>i\<in>set_option case_watermark_event_id. event_id \<le> i)
       then Inr \<lparr>eo_disposition = IGNORED_STALE, eo_reason_code = ''EQUIVALENT_EVIDENCE_TIE_BREAK''\<rparr>
     else Inr \<lparr>eo_disposition = APPLIED, eo_reason_code = ''EVIDENCE_ACCEPTED''\<rparr>)))"


section \<open>A total order of evidence\<close>

lemma evidence_utc_eq_Inr [result_simps]: "evidence_utc t = Inr u \<longleftrightarrow> is_aware t \<and> u = t"
  by (auto simp: evidence_utc_def)

lemma evidence_utc_opt_eq_Inr [result_simps]:
  "evidence_utc_opt v = Inr w \<longleftrightarrow> (\<forall>t\<in>set_option v. is_aware t) \<and> w = v"
  by (cases v) (auto simp: evidence_utc_opt_def result_simps)

lemma compare_status_sign [simp]:
  "compare_provider_status a b < 0 \<longleftrightarrow> status_rank a < status_rank b"
  "compare_provider_status a b = 0 \<longleftrightarrow> status_rank a = status_rank b"
  by (auto simp: compare_provider_status_def)

text \<open>Evidence is placed by its time, then the rank of its status, then its event id.\<close>

definition evidence_position :: "datetime \<Rightarrow> string option \<Rightarrow> string \<Rightarrow> datetime \<times> int \<times> string" where
  "evidence_position t status event_id = (t, status_rank status, event_id)"

lemma order_evidence_applied_iff:
  assumes "is_aware t" "\<forall>u\<in>set_option (af_provider_updated_at facts). is_aware u" "is_aware w"
  shows "map_sum id eo_disposition (order_evidence t event_id status facts (Some w) (Some last_id) case_status)
      = Inr APPLIED \<longleftrightarrow>
    (\<forall>u\<in>set_option (af_provider_updated_at facts).
        (u, status_rank (af_status facts)) \<le> (t, status_rank status))
    \<and> evidence_position w case_status last_id < evidence_position t status event_id"
proof -
  have ok: "evidence_utc t = Inr t" "evidence_utc_opt (Some w) = Inr (Some w)"
    "evidence_utc_opt (af_provider_updated_at facts) = Inr (af_provider_updated_at facts)"
    using assms by (auto simp: result_simps)
  show ?thesis
    unfolding order_evidence_def ok bindR_simps
    by (cases "af_provider_updated_at facts")
      (auto simp: evidence_position_def less_prod_def less_eq_prod_def not_less not_le)
qed

text \<open>
  An event is applied exactly when it is not older than what the provider
  reports, by time and then by status rank, and comes after the last evidence the case has
  used in the order of time, status rank and event id.
\<close>

theorem evidence_applied_iff_newer:
  assumes "is_aware t" "\<forall>u\<in>set_option (af_provider_updated_at facts). is_aware u" "is_aware w"
  shows "map_sum id eo_disposition (order_evidence t event_id status facts (Some w) (Some last_id) case_status)
      = Inr APPLIED \<longleftrightarrow>
    (\<forall>u\<in>set_option (af_provider_updated_at facts).
        (u, status_rank (af_status facts)) \<le> (t, status_rank status))
    \<and> evidence_position w case_status last_id < evidence_position t status event_id"
  by (rule order_evidence_applied_iff [OF assms])

lemma sample_ranks:
  "status_rank (Some ''captured'') = 100" "status_rank (Some ''failed'') = 20" "status_rank (Some ''paid'') = 100"
  by code_simp+

theorem evidence_applied_iff_newer_witness:
  "map_sum id eo_disposition (order_evidence (Aware 5) ''e2'' (Some ''captured'')
     \<lparr>af_provider_updated_at = Some (Aware 5), af_status = Some ''failed'', af_promise_due_at = None\<rparr>
     (Some (Aware 4)) (Some ''e1'') (Some ''paid'')) = Inr APPLIED"
  by (subst evidence_applied_iff_newer) (simp_all add: evidence_position_def sample_ranks less_prod_def less_eq_prod_def)


section \<open>The order of arrival does not matter\<close>

record Evidence =
  ed_occurred_at :: datetime
  ed_event_id :: string
  ed_status :: "string option"

abbreviation position :: "Evidence \<Rightarrow> datetime \<times> int \<times> string" where
  "position e \<equiv> evidence_position (ed_occurred_at e) (ed_status e) (ed_event_id e)"

text \<open>
  A case whose watermark is the evidence \<open>w\<close> receives \<open>e\<close>; an applied event becomes the
  watermark (\<open>apply_transition\<close> stores it).
\<close>

definition absorb :: "AuthoritativeFacts \<Rightarrow> Evidence \<Rightarrow> Evidence \<Rightarrow> Evidence" where
  "absorb facts w e =
     (case order_evidence (ed_occurred_at e) (ed_event_id e) (ed_status e) facts
         (Some (ed_occurred_at w)) (Some (ed_event_id w)) (ed_status w) of
        Inr r \<Rightarrow> (if eo_disposition r = APPLIED then e else w)
      | Inl _ \<Rightarrow> w)"

definition admissible :: "AuthoritativeFacts \<Rightarrow> Evidence \<Rightarrow> bool" where
  "admissible facts e \<longleftrightarrow>
     (\<forall>u\<in>set_option (af_provider_updated_at facts).
        (u, status_rank (af_status facts)) \<le> (ed_occurred_at e, status_rank (ed_status e)))"

lemma absorb_newer:
  assumes "is_aware (ed_occurred_at w)" "is_aware (ed_occurred_at e)"
    and "\<forall>u\<in>set_option (af_provider_updated_at facts). is_aware u"
  shows "absorb facts w e = (if admissible facts e \<and> position w < position e then e else w)"
proof -
  have "map_sum id eo_disposition (order_evidence (ed_occurred_at e) (ed_event_id e) (ed_status e) facts
      (Some (ed_occurred_at w)) (Some (ed_event_id w)) (ed_status w)) = Inr APPLIED \<longleftrightarrow>
      admissible facts e \<and> position w < position e"
    unfolding admissible_def by (rule order_evidence_applied_iff [OF assms(2,3,1)])
  then show ?thesis
    by (auto simp: absorb_def split: sum.splits)
qed

lemma foldl_absorb:
  assumes "is_aware (ed_occurred_at w)" "\<forall>e\<in>set es. is_aware (ed_occurred_at e)"
    and facts: "\<forall>u\<in>set_option (af_provider_updated_at facts). is_aware u"
  shows "foldl (absorb facts) w es \<in> set (w # filter (admissible facts) es)
    \<and> (\<forall>e\<in>set (w # filter (admissible facts) es). position e \<le> position (foldl (absorb facts) w es))"
  using assms(1,2)
proof (induction es arbitrary: w)
  case (Cons e es)
  let ?v = "absorb facts w e"
  have v: "?v = (if admissible facts e \<and> position w < position e then e else w)"
    using Cons.prems facts by (simp add: absorb_newer)
  then have "is_aware (ed_occurred_at ?v)" using Cons.prems by simp
  from Cons.IH [OF this] Cons.prems have
    IH: "foldl (absorb facts) ?v es \<in> set (?v # filter (admissible facts) es)"
      "\<forall>x\<in>set (?v # filter (admissible facts) es). position x \<le> position (foldl (absorb facts) ?v es)" by auto
  have "position w \<le> position ?v" "admissible facts e \<Longrightarrow> position e \<le> position ?v"
    using v by (auto simp: not_less less_imp_le)
  with IH have "position w \<le> position (foldl (absorb facts) ?v es)"
    "admissible facts e \<Longrightarrow> position e \<le> position (foldl (absorb facts) ?v es)"
    by (meson list.set_intros(1) order_trans)+
  with IH v show ?case by (auto split: if_splits)
qed simp


abbreviation no_facts :: AuthoritativeFacts where
  "no_facts \<equiv> \<lparr>af_provider_updated_at = None, af_status = None, af_promise_due_at = None\<rparr>"


end
