(* ===== verification/Outbox.thy ===== *)
theory Outbox
  imports Actions Case_Store
begin

text \<open>
  \<open>persistence/action_repositories.py\<close>: the action outbox, its provider attempts and the
  verified outcomes, with the tables \<open>recovery_actions\<close>, \<open>action_attempts\<close> and
  \<open>verified_outcomes\<close> of \<open>persistence/models.py\<close> and their constraints.

  A row object that a method receives is the session's object for a stored row; it is modelled
  by the row's key, and its attributes are those of the stored row. Row locks are not
  modelled: a transaction is one step. \<open>verified_outcomes\<close> has exactly the columns of the
  domain's \<open>VerifiedOutcome\<close>, which is its row type.
\<close>


section \<open>Tables\<close>

record ActionRow =
  ao_merchant_id :: string
  ao_id :: string
  ao_recovery_case_id :: string
  ao_decision_receipt_id :: string
  ao_action_type :: ActionType
  ao_target_type :: SubjectType
  ao_target_id :: string
  ao_logical_attempt :: int
  ao_idempotency_key :: string
  ao_status :: ActionStatus
  ao_parameters :: "(string \<times> pyval) list"
  ao_policy_version :: string
  ao_correlation_id :: string
  ao_authorized_at :: datetime
  ao_execute_after :: datetime
  ao_next_attempt_at :: datetime
  ao_attempt_count :: int
  ao_max_attempts :: int
  ao_lease_token :: "string option"
  ao_lease_expires_at :: "datetime option"
  ao_provider_object_id :: "string option"
  ao_unknown_since :: "datetime option"
  ao_reconciliation_deadline :: "datetime option"
  ao_dead_lettered_at :: "datetime option"
  ao_last_error_code :: "string option"
  ao_schema_version :: string
  ao_created_at :: datetime
  ao_updated_at :: datetime

record AttemptRow =
  ap_id :: string
  ap_merchant_id :: string
  ap_recovery_action_id :: string
  ap_attempt_number :: int
  ap_request_id :: string
  ap_lease_token :: string
  ap_started_at :: datetime
  ap_completed_at :: "datetime option"
  ap_outcome_status :: "ActionStatus option"
  ap_response_category :: "string option"
  ap_provider_object_id :: "string option"
  ap_provider_status_code :: "int option"
  ap_error_code :: "string option"
  ap_response_reference :: "string option"
  ap_retryable :: bool

record ClaimedAction =
  cl_merchant_id :: string
  cl_action_id :: string
  cl_lease_token :: string

record RecoveryTotals =
  rt_merchant_id :: string
  rt_currency :: string
  rt_recovered_amount_minor :: int
  rt_verified_action_count :: int

record action_db = case_db +
  db_actions :: "ActionRow list"
  db_attempts :: "AttemptRow list"
  db_outcomes :: "VerifiedOutcome list"

abbreviation action_key :: "ActionRow \<Rightarrow> string \<times> string" where
  "action_key a \<equiv> (ao_merchant_id a, ao_id a)"

abbreviation attempt_action :: "AttemptRow \<Rightarrow> string \<times> string" where
  "attempt_action t \<equiv> (ap_merchant_id t, ap_recovery_action_id t)"

abbreviation attempt_open :: "AttemptRow \<Rightarrow> bool" where
  "attempt_open t \<equiv> ap_completed_at t = None"


section \<open>Constraints\<close>

definition action_row_ok :: "ActionRow \<Rightarrow> bool" where
  "action_row_ok a \<longleftrightarrow>
     ao_schema_version a = ''1.0'' \<and> 1 \<le> ao_logical_attempt a
     \<and> 0 \<le> ao_attempt_count a \<and> 1 \<le> ao_max_attempts a \<and> ao_attempt_count a \<le> ao_max_attempts a
     \<and> ao_authorized_at a \<le> ao_execute_after a \<and> ao_authorized_at a \<le> ao_next_attempt_at a
     \<and> (ao_lease_token a = None \<longleftrightarrow> ao_lease_expires_at a = None)
     \<and> (if ao_status a = ActionStatus.UNKNOWN
        then ao_unknown_since a \<noteq> None \<and> ao_reconciliation_deadline a \<noteq> None
        else ao_unknown_since a = None)"

definition active_equivalent :: "ActionRow \<Rightarrow> string \<times> string \<times> ActionType \<times> SubjectType \<times> string" where
  "active_equivalent a =
     (ao_merchant_id a, ao_recovery_case_id a, ao_action_type a, ao_target_type a, ao_target_id a)"

definition actions_ok :: "ActionRow list \<Rightarrow> bool" where
  "actions_ok rows \<longleftrightarrow>
     distinct (map action_key rows) \<and> distinct (map ao_idempotency_key rows)
     \<and> (\<forall>a\<in>set rows. action_row_ok a)
     \<and> unique_index (\<lambda>a. ao_status a \<in> {PENDING, SUCCEEDED, ActionStatus.UNKNOWN}) active_equivalent rows"

definition attempt_row_ok :: "AttemptRow \<Rightarrow> bool" where
  "attempt_row_ok t \<longleftrightarrow>
     1 \<le> ap_attempt_number t
     \<and> (case ap_completed_at t of
          None \<Rightarrow> ap_outcome_status t = None
        | Some c \<Rightarrow> ap_outcome_status t \<noteq> None \<and> ap_started_at t \<le> c)"

definition attempts_ok :: "AttemptRow list \<Rightarrow> bool" where
  "attempts_ok rows \<longleftrightarrow>
     distinct (map ap_id rows) \<and> distinct (map ap_request_id rows)
     \<and> distinct (map (\<lambda>t. (attempt_action t, ap_attempt_number t)) rows)
     \<and> (\<forall>t\<in>set rows. attempt_row_ok t)"

definition outcome_row_ok :: "VerifiedOutcome \<Rightarrow> bool" where
  "outcome_row_ok v \<longleftrightarrow>
     vo_schema_version v = ''1.0'' \<and> 0 \<le> vo_recovered_amount_minor v \<and> currency_pattern (vo_currency v)
     \<and> (vo_recovered_amount_minor v = 0
        \<or> vo_outcome_status v = SUCCEEDED \<and> vo_is_authoritative v
          \<and> vo_evidence_reference v \<noteq> None \<and> vo_verified_at v \<noteq> None)
     \<and> (vo_outcome_status v = ActionStatus.UNKNOWN \<longrightarrow>
          \<not> vo_is_authoritative v \<and> vo_recovered_amount_minor v = 0 \<and> vo_verified_at v = None)"

definition outcomes_ok :: "VerifiedOutcome list \<Rightarrow> bool" where
  "outcomes_ok rows \<longleftrightarrow>
     distinct (map (\<lambda>v. (vo_merchant_id v, vo_outcome_id v)) rows)
     \<and> (\<forall>v\<in>set rows. outcome_row_ok v)
     \<and> unique_index (\<lambda>v. vo_is_authoritative v \<and> vo_outcome_status v = SUCCEEDED)
         (\<lambda>v. (vo_merchant_id v, vo_action_id v)) rows"

definition flush_actions :: "('a action_db_scheme, unit) tx" where
  "flush_actions = checkT (\<lambda>s. actions_ok (db_actions s)) ''recovery_actions''"

definition flush_attempts :: "('a action_db_scheme, unit) tx" where
  "flush_attempts = checkT (\<lambda>s. attempts_ok (db_attempts s)) ''action_attempts''"

definition flush_outcomes :: "('a action_db_scheme, unit) tx" where
  "flush_outcomes = checkT (\<lambda>s. outcomes_ok (db_outcomes s)) ''verified_outcomes''"


section \<open>Storing and reading actions\<close>

text \<open>An \<open>AuditAppend\<close> with the defaults of its optional fields.\<close>

definition new_append ::
    "string \<Rightarrow> string \<Rightarrow> string \<Rightarrow> string \<Rightarrow> string \<Rightarrow> string \<Rightarrow> string \<Rightarrow> (string \<times> pyval) list \<Rightarrow> datetime \<Rightarrow>
     AuditAppend" where
  "new_append merchant_id event_type aggregate_type aggregate_id correlation_id actor_type
     actor_reference payload recorded_at =
     \<lparr>aa_merchant_id = merchant_id, aa_event_type = event_type, aa_aggregate_type = aggregate_type,
      aa_aggregate_id = aggregate_id, aa_correlation_id = correlation_id, aa_actor_type = actor_type,
      aa_actor_reference = actor_reference, aa_payload = payload, aa_recorded_at = recorded_at,
      aa_causation_id = None, aa_policy_version = None, aa_model_version = None,
      aa_prompt_version = None, aa_schema_version = None, aa_feature_version = None,
      aa_application_version = None\<rparr>"

definition action_row :: "RecoveryAction \<Rightarrow> string \<Rightarrow> string \<Rightarrow> int \<Rightarrow> datetime \<Rightarrow> ActionRow" where
  "action_row a policy_version correlation_id max_attempts reconciliation_deadline =
     \<lparr>ao_merchant_id = ra_merchant_id a, ao_id = ra_action_id a, ao_recovery_case_id = ra_case_id a,
      ao_decision_receipt_id = ra_decision_receipt_id a, ao_action_type = ra_action_type a,
      ao_target_type = ra_target_type a, ao_target_id = ra_target_id a,
      ao_logical_attempt = ra_logical_attempt a, ao_idempotency_key = ra_idempotency_key a,
      ao_status = ra_status a, ao_parameters = ra_parameters a, ao_policy_version = policy_version,
      ao_correlation_id = correlation_id, ao_authorized_at = ra_authorized_at a,
      ao_execute_after = ra_execute_after a, ao_next_attempt_at = ra_execute_after a,
      ao_attempt_count = 0, ao_max_attempts = max_attempts, ao_lease_token = None,
      ao_lease_expires_at = None, ao_provider_object_id = None, ao_unknown_since = None,
      ao_reconciliation_deadline = Some reconciliation_deadline, ao_dead_lettered_at = None,
      ao_last_error_code = None, ao_schema_version = ra_schema_version a,
      ao_created_at = ra_created_at a, ao_updated_at = ra_created_at a\<rparr>"

definition authorized_append :: "ActionRow \<Rightarrow> AuditAppend" where
  "authorized_append row =
     (new_append (ao_merchant_id row) ''ACTION_AUTHORIZED'' ''RECOVERY_ACTION'' (ao_id row)
        (ao_correlation_id row) ''SYSTEM'' ''recovery-service''
        [(''action_type'', PStr (action_value (ao_action_type row))),
         (''logical_attempt'', PInt (ao_logical_attempt row)),
         (''status'', PStr (action_status_value (ao_status row))),
         (''target_type'', PStr (subject_value (ao_target_type row)))]
        (ao_authorized_at row))
     \<lparr>aa_policy_version := Some (ao_policy_version row), aa_schema_version := Some (ao_schema_version row)\<rparr>"

definition store_action ::
    "(nat \<Rightarrow> string) \<Rightarrow> RecoveryAction \<Rightarrow> string \<Rightarrow> string \<Rightarrow> int \<Rightarrow> datetime \<Rightarrow>
     ('a action_db_scheme, ActionRow) tx" where
  "store_action uuids a policy_version correlation_id max_attempts reconciliation_deadline =
     seqT (guardT (max_attempts < 1) (ValueError ''max_attempts must be positive''))
     (seqT (guardT (reconciliation_deadline \<le> ra_authorized_at a)
              (ValueError ''reconciliation deadline must follow authorization''))
     (bindT (getT (\<lambda>s. filter (\<lambda>r. ao_idempotency_key r = ra_idempotency_key a) (db_actions s))) (\<lambda>rows.
      bindT (one_or_noneT rows) (\<lambda>existing.
      case existing of
        Some r \<Rightarrow>
          seqT (guardT (action_key r \<noteq> (ra_merchant_id a, ra_action_id a))
            (ActionPersistenceError ''IDEMPOTENCY_KEY_CONFLICT''
               ''idempotency key already identifies another logical action''))
          (returnT r)
      | None \<Rightarrow>
          (let row = action_row a policy_version correlation_id max_attempts reconciliation_deadline in
           seqT (modifyT (\<lambda>s. s\<lparr>db_actions := db_actions s @ [row]\<rparr>))
           (seqT flush_actions
           (seqT (append_entry uuids (authorized_append row)) (returnT row))))))))"

definition stored_action :: "'a action_db_scheme \<Rightarrow> string \<times> string \<Rightarrow> ActionRow option" where
  "stored_action s k = find (\<lambda>r. action_key r = k) (db_actions s)"

definition get_action :: "string \<Rightarrow> string \<Rightarrow> ('a action_db_scheme, ActionRow option) tx" where
  "get_action m a = getT (\<lambda>s. stored_action s (m, a))"

definition action_from_row :: "ActionRow \<Rightarrow> RecoveryAction result" where
  "action_from_row row =
     post_init_action
       \<lparr>ra_action_id = ao_id row, ra_case_id = ao_recovery_case_id row,
        ra_merchant_id = ao_merchant_id row, ra_decision_receipt_id = ao_decision_receipt_id row,
        ra_action_type = ao_action_type row, ra_target_type = ao_target_type row,
        ra_target_id = ao_target_id row, ra_logical_attempt = ao_logical_attempt row,
        ra_idempotency_key = ao_idempotency_key row, ra_status = ao_status row,
        ra_parameters = (case ao_provider_object_id row of
            None \<Rightarrow> ao_parameters row
          | Some p \<Rightarrow> dict_set ''provider_object_id'' (PStr p) (ao_parameters row)),
        ra_authorized_at = ao_authorized_at row, ra_execute_after = ao_execute_after row,
        ra_created_at = ao_created_at row, ra_updated_at = Some (ao_updated_at row),
        ra_schema_version = ao_schema_version row\<rparr>"

definition domain_action :: "string \<Rightarrow> string \<Rightarrow> ('a action_db_scheme, RecoveryAction option) tx" where
  "domain_action m a =
     bindT (get_action m a) (\<lambda>row.
     case row of
       None \<Rightarrow> returnT None
     | Some r \<Rightarrow> bindT (liftR (action_from_row r)) (\<lambda>d. returnT (Some d)))"

definition has_unknown_equivalent ::
    "string \<Rightarrow> string \<Rightarrow> ActionType \<Rightarrow> string \<Rightarrow> ('a action_db_scheme, bool) tx" where
  "has_unknown_equivalent m case_id action_type target_id = getT (\<lambda>s.
     \<exists>r\<in>set (db_actions s). ao_merchant_id r = m \<and> ao_recovery_case_id r = case_id
       \<and> ao_action_type r = action_type \<and> ao_target_id r = target_id
       \<and> ao_status r = ActionStatus.UNKNOWN)"

text \<open>The assignments to a row object, written to the stored row.\<close>

definition update_action ::
    "string \<times> string \<Rightarrow> (ActionRow \<Rightarrow> ActionRow) \<Rightarrow> ('a action_db_scheme, unit) tx" where
  "update_action k f = modifyT (\<lambda>s. s\<lparr>db_actions := update_where (\<lambda>r. action_key r = k) f (db_actions s)\<rparr>)"

definition update_attempt :: "string \<Rightarrow> (AttemptRow \<Rightarrow> AttemptRow) \<Rightarrow> ('a action_db_scheme, unit) tx" where
  "update_attempt i f = modifyT (\<lambda>s. s\<lparr>db_attempts := update_where (\<lambda>t. ap_id t = i) f (db_attempts s)\<rparr>)"

text \<open>The row object of a stored row.\<close>

definition the_action :: "string \<times> string \<Rightarrow> ('a action_db_scheme, ActionRow) tx" where
  "the_action k = bindT (getT (\<lambda>s. stored_action s k)) (requireT NoResultFound)"

definition open_attempts :: "'a action_db_scheme \<Rightarrow> string \<times> string \<Rightarrow> AttemptRow list" where
  "open_attempts s k = filter (\<lambda>t. attempt_action t = k \<and> attempt_open t) (db_attempts s)"


section \<open>Claims and attempts\<close>

definition claimable :: "'a action_db_scheme \<Rightarrow> datetime \<Rightarrow> ActionRow \<Rightarrow> bool" where
  "claimable s now r \<longleftrightarrow>
     ao_status r = PENDING \<and> ao_dead_lettered_at r = None \<and> ao_execute_after r \<le> now
     \<and> ao_next_attempt_at r \<le> now \<and> ao_attempt_count r < ao_max_attempts r
     \<and> (ao_lease_token r = None \<or> (\<exists>t\<in>set_option (ao_lease_expires_at r). t \<le> now))
     \<and> open_attempts s (action_key r) = []"

definition leased_action :: "datetime \<Rightarrow> int \<Rightarrow> string \<Rightarrow> ActionRow \<Rightarrow> ActionRow" where
  "leased_action now lease_for token r =
     r\<lparr>ao_lease_token := Some token, ao_lease_expires_at := Some (plus_delta now lease_for),
       ao_updated_at := now\<rparr>"

definition claim_one ::
    "(nat \<Rightarrow> string) \<Rightarrow> datetime \<Rightarrow> int \<Rightarrow> ActionRow \<Rightarrow> ('a action_db_scheme, ClaimedAction) tx" where
  "claim_one uuids now lease_for r =
     bindT (draw_uuid uuids) (\<lambda>lease_token.
     seqT (update_action (action_key r) (leased_action now lease_for lease_token))
     (returnT \<lparr>cl_merchant_id = ao_merchant_id r, cl_action_id = ao_id r,
               cl_lease_token = lease_token\<rparr>))"

definition claim_due_actions ::
    "(nat \<Rightarrow> string) \<Rightarrow> datetime \<Rightarrow> int \<Rightarrow> int \<Rightarrow> ('a action_db_scheme, ClaimedAction list) tx" where
  "claim_due_actions uuids now lease_for limit =
     seqT (guardT (lease_for \<le> 0 \<or> limit \<le> 0) (ValueError ''lease_for and limit must be positive''))
     (bindT (getT (\<lambda>s. take (nat limit) (sort_key (\<lambda>r. (ao_next_attempt_at r, action_key r))
        (filter (claimable s now) (db_actions s))))) (\<lambda>rows.
      bindT (mapT (claim_one uuids now lease_for) rows) (\<lambda>claims.
      seqT flush_actions (returnT claims))))"

definition request_material :: "ActionRow \<Rightarrow> string" where
  "request_material r = ao_idempotency_key r @ '':'' @ show_int (ao_attempt_count r)"

definition started_append :: "ActionRow \<Rightarrow> AttemptRow \<Rightarrow> datetime \<Rightarrow> AuditAppend" where
  "started_append a t started_at =
     (new_append (ap_merchant_id t) ''ACTION_ATTEMPT_STARTED'' ''RECOVERY_ACTION''
        (ap_recovery_action_id t) (ao_correlation_id a) ''WORKER'' ''action-execution''
        [(''attempt_number'', PInt (ap_attempt_number t)), (''request_id'', PStr (ap_request_id t))]
        started_at)
     \<lparr>aa_causation_id := Some (ap_id t), aa_policy_version := Some (ao_policy_version a),
      aa_schema_version := Some (ao_schema_version a)\<rparr>"

definition new_attempt :: "ActionRow \<Rightarrow> string \<Rightarrow> datetime \<Rightarrow> AttemptRow" where
  "new_attempt a lease_token started_at =
     \<lparr>ap_id = ''attempt_'' @ take 32 (sha256_hex (request_material a @ '':row'')),
      ap_merchant_id = ao_merchant_id a, ap_recovery_action_id = ao_id a,
      ap_attempt_number = ao_attempt_count a,
      ap_request_id = ''req_'' @ sha256_hex (request_material a),
      ap_lease_token = lease_token, ap_started_at = started_at, ap_completed_at = None,
      ap_outcome_status = None, ap_response_category = None, ap_provider_object_id = None,
      ap_provider_status_code = None, ap_error_code = None, ap_response_reference = None,
      ap_retryable = False\<rparr>"

definition started_action :: "datetime \<Rightarrow> ActionRow \<Rightarrow> ActionRow" where
  "started_action started_at a =
     a\<lparr>ao_attempt_count := ao_attempt_count a + 1, ao_updated_at := started_at\<rparr>"

definition begin_attempt ::
    "(nat \<Rightarrow> string) \<Rightarrow> string \<Rightarrow> string \<Rightarrow> string \<Rightarrow> datetime \<Rightarrow>
     ('a action_db_scheme, ActionRow \<times> AttemptRow) tx" where
  "begin_attempt uuids m a lease_token started_at =
     bindT (get_action m a) (\<lambda>row.
     bindT (requireT (LookupError ''tenant-scoped recovery action does not exist'') row) (\<lambda>action.
     seqT (guardT (ao_status action \<noteq> PENDING)
       (ActionPersistenceError ''ACTION_NOT_PENDING'' ''action cannot begin execution''))
     (seqT (guardT (ao_lease_token action \<noteq> Some lease_token \<or> ao_lease_expires_at action = None)
       (ActionPersistenceError ''STALE_ACTION_LEASE'' ''action lease is no longer owned''))
     (seqT (guardT (\<exists>t\<in>set_option (ao_lease_expires_at action). t \<le> started_at)
       (ActionPersistenceError ''EXPIRED_ACTION_LEASE'' ''action lease expired''))
     (bindT (getT (\<lambda>s. open_attempts s (m, a))) (\<lambda>opened.
      bindT (one_or_noneT opened) (\<lambda>open_attempt.
      seqT (guardT (open_attempt \<noteq> None)
        (ActionPersistenceError ''ACTION_ATTEMPT_IN_FLIGHT''
           ''an incomplete call must reconcile before retry''))
      (let action' = started_action started_at action;
           attempt = new_attempt action' lease_token started_at in
       seqT (modifyT (\<lambda>s. s\<lparr>db_attempts := db_attempts s @ [attempt]\<rparr>))
       (seqT (update_action (m, a) (started_action started_at))
       (seqT flush_actions
       (seqT flush_attempts
       (seqT (append_entry uuids (started_append action' attempt started_at))
       (returnT (action', attempt))))))))))))))"

text \<open>The result of a provider call, as \<open>finish_attempt\<close> receives it.\<close>

record AttemptResult =
  ar_completed_at :: datetime
  ar_outcome_status :: ActionStatus
  ar_response_category :: string
  ar_provider_object_id :: "string option"
  ar_provider_status_code :: "int option"
  ar_error_code :: "string option"
  ar_response_reference :: "string option"
  ar_retryable :: bool
  ar_retry_at :: "datetime option"
  ar_reconciliation_deadline :: datetime

definition finished_append :: "ActionRow \<Rightarrow> AttemptRow \<Rightarrow> AttemptResult \<Rightarrow> AuditAppend" where
  "finished_append a t q =
     (new_append (ao_merchant_id a) ''ACTION_ATTEMPT_FINISHED'' ''RECOVERY_ACTION'' (ao_id a)
        (ao_correlation_id a) ''WORKER'' ''action-execution''
        [(''attempt_number'', PInt (ap_attempt_number t)), (''error_code'', opt_str (ar_error_code q)),
         (''outcome_status'', PStr (action_status_value (ar_outcome_status q))),
         (''response_category'', PStr (ar_response_category q)),
         (''retryable'', PBool (ar_retryable q))]
        (ar_completed_at q))
     \<lparr>aa_causation_id := Some (ap_id t), aa_policy_version := Some (ao_policy_version a),
      aa_schema_version := Some (ao_schema_version a)\<rparr>"

definition completed_attempt :: "AttemptResult \<Rightarrow> AttemptRow \<Rightarrow> AttemptRow" where
  "completed_attempt q t =
     t\<lparr>ap_completed_at := Some (ar_completed_at q), ap_outcome_status := Some (ar_outcome_status q),
       ap_response_category := Some (ar_response_category q),
       ap_provider_object_id := ar_provider_object_id q,
       ap_provider_status_code := ar_provider_status_code q, ap_error_code := ar_error_code q,
       ap_response_reference := ar_response_reference q, ap_retryable := ar_retryable q\<rparr>"

definition released_action :: "AttemptResult \<Rightarrow> ActionRow \<Rightarrow> ActionRow" where
  "released_action q a =
     a\<lparr>ao_provider_object_id := or_else (ar_provider_object_id q) (ao_provider_object_id a),
       ao_last_error_code := ar_error_code q, ao_lease_token := None, ao_lease_expires_at := None,
       ao_updated_at := ar_completed_at q\<rparr>"

definition retried_action :: "AttemptResult \<Rightarrow> ActionRow \<Rightarrow> ActionRow" where
  "retried_action q a = (released_action q a)\<lparr>ao_next_attempt_at := the (ar_retry_at q)\<rparr>"

definition settled_action :: "AttemptResult \<Rightarrow> ActionRow \<Rightarrow> ActionRow" where
  "settled_action q a =
     (let b = (released_action q a)\<lparr>ao_status := ar_outcome_status q\<rparr>;
          c = (if ar_outcome_status q = ActionStatus.UNKNOWN
               then b\<lparr>ao_unknown_since := Some (ar_completed_at q),
                      ao_reconciliation_deadline := Some (ar_reconciliation_deadline q)\<rparr>
               else b\<lparr>ao_unknown_since := None\<rparr>)
      in if ar_outcome_status q = FAILED then c\<lparr>ao_dead_lettered_at := Some (ar_completed_at q)\<rparr> else c)"

definition retries :: "AttemptResult \<Rightarrow> ActionRow \<Rightarrow> bool" where
  "retries q a \<longleftrightarrow> ar_outcome_status q = FAILED \<and> ar_retryable q \<and> ar_retry_at q \<noteq> None
     \<and> ao_attempt_count a < ao_max_attempts a"

definition finish_attempt ::
    "(nat \<Rightarrow> string) \<Rightarrow> string \<Rightarrow> string \<Rightarrow> string \<Rightarrow> AttemptResult \<Rightarrow>
     ('a action_db_scheme, ActionRow \<times> AttemptRow) tx" where
  "finish_attempt uuids m a lease_token q =
     bindT (get_action m a) (\<lambda>row.
     bindT (requireT (LookupError ''tenant-scoped recovery action does not exist'') row) (\<lambda>action.
     bindT (getT (\<lambda>s. filter (\<lambda>t. ap_lease_token t = lease_token) (open_attempts s (m, a)))) (\<lambda>opened.
     bindT (one_or_noneT opened) (\<lambda>found.
     bindT (requireT (ActionPersistenceError ''ACTION_ATTEMPT_NOT_OPEN'' ''attempt is already complete'') found)
     (\<lambda>attempt.
     let attempt' = completed_attempt q attempt in
     seqT (update_attempt (ap_id attempt) (completed_attempt q))
     (if retries q action
      then seqT (update_action (m, a) (retried_action q))
           (seqT flush_actions (seqT flush_attempts (returnT (retried_action q action, attempt'))))
      else (let action' = settled_action q action in
            seqT (update_action (m, a) (settled_action q))
            (seqT flush_actions (seqT flush_attempts
            (seqT (append_entry uuids (finished_append action' attempt' q))
            (returnT (action', attempt'))))))))))))"


section \<open>Reconciliation\<close>

definition stale_inflight_actions :: "datetime \<Rightarrow> int \<Rightarrow> ('a action_db_scheme, ActionRow list) tx" where
  "stale_inflight_actions now limit =
     seqT (guardT (limit \<le> 0) (ValueError ''limit must be positive''))
     (getT (\<lambda>s. first_occurrences (map fst (take (nat limit) (sort_key (\<lambda>(r, t). ap_started_at t)
        (concat (map (\<lambda>r. if ao_status r = PENDING \<and> (\<exists>t\<in>set_option (ao_lease_expires_at r). t \<le> now)
           then map (Pair r) (open_attempts s (action_key r)) else []) (db_actions s))))))))"

definition lost_attempt :: "datetime \<Rightarrow> AttemptRow \<Rightarrow> AttemptRow" where
  "lost_attempt now t =
     t\<lparr>ap_completed_at := Some now, ap_outcome_status := Some ActionStatus.UNKNOWN,
       ap_response_category := Some ''WORKER_LOST_DURING_PROVIDER_CALL'',
       ap_error_code := Some ''INCOMPLETE_PROVIDER_CALL''\<rparr>"

definition lost_action :: "datetime \<Rightarrow> datetime \<Rightarrow> ActionRow \<Rightarrow> ActionRow" where
  "lost_action now reconciliation_deadline a =
     a\<lparr>ao_status := ActionStatus.UNKNOWN, ao_unknown_since := Some now,
       ao_reconciliation_deadline := Some reconciliation_deadline, ao_lease_token := None,
       ao_lease_expires_at := None, ao_last_error_code := Some ''INCOMPLETE_PROVIDER_CALL'',
       ao_updated_at := now\<rparr>"

definition mark_stale_inflight_unknown ::
    "string \<times> string \<Rightarrow> datetime \<Rightarrow> datetime \<Rightarrow> ('a action_db_scheme, AttemptRow) tx" where
  "mark_stale_inflight_unknown k now reconciliation_deadline =
     bindT (getT (\<lambda>s. open_attempts s k)) (\<lambda>opened.
     bindT (oneT opened) (\<lambda>attempt.
     seqT (update_attempt (ap_id attempt) (lost_attempt now))
     (seqT (update_action k (lost_action now reconciliation_deadline))
     (seqT flush_actions (seqT flush_attempts (returnT (lost_attempt now attempt)))))))"

definition expired_action :: "datetime \<Rightarrow> ActionRow \<Rightarrow> ActionRow" where
  "expired_action observed_at a =
     a\<lparr>ao_status := ActionStatus.UNKNOWN, ao_unknown_since := Some observed_at, ao_lease_token := None,
       ao_lease_expires_at := None, ao_last_error_code := Some ''VERIFICATION_DEADLINE_EXCEEDED'',
       ao_updated_at := observed_at\<rparr>"

definition mark_verification_expired_unknown ::
    "string \<times> string \<Rightarrow> datetime \<Rightarrow> ('a action_db_scheme, unit) tx" where
  "mark_verification_expired_unknown k observed_at =
     bindT (the_action k) (\<lambda>action.
     seqT (guardT (ao_status action \<noteq> SUCCEEDED)
       (ActionPersistenceError ''ACTION_NOT_VERIFYING''
          ''only an accepted action awaiting verification can expire to unknown''))
     (seqT (update_action k (expired_action observed_at))
     flush_actions))"

definition cancelled_action :: "datetime \<Rightarrow> string \<Rightarrow> ActionRow \<Rightarrow> ActionRow" where
  "cancelled_action cancelled_at reason_code a =
     a\<lparr>ao_status := FAILED, ao_last_error_code := Some reason_code,
       ao_dead_lettered_at := Some cancelled_at, ao_lease_token := None, ao_lease_expires_at := None,
       ao_updated_at := cancelled_at\<rparr>"

definition cancel_before_execution ::
    "string \<times> string \<Rightarrow> datetime \<Rightarrow> string \<Rightarrow> ('a action_db_scheme, unit) tx" where
  "cancel_before_execution k cancelled_at reason_code =
     bindT (the_action k) (\<lambda>action.
     seqT (guardT (ao_status action \<noteq> PENDING)
       (ActionPersistenceError ''ACTION_NOT_PENDING''
          ''only a pending action can be cancelled before a provider attempt''))
     (seqT (update_action k (cancelled_action cancelled_at reason_code))
     flush_actions))"

definition resolved_action ::
    "ActionStatus \<Rightarrow> datetime \<Rightarrow> string option \<Rightarrow> string option \<Rightarrow> ActionRow \<Rightarrow> ActionRow" where
  "resolved_action status resolved_at provider_object_id error_code a =
     (let b = a\<lparr>ao_status := status,
          ao_provider_object_id := or_else provider_object_id (ao_provider_object_id a),
          ao_last_error_code := error_code, ao_unknown_since := None, ao_lease_token := None,
          ao_lease_expires_at := None, ao_updated_at := resolved_at\<rparr>
      in if status = FAILED then b\<lparr>ao_dead_lettered_at := Some resolved_at\<rparr> else b)"

definition set_action_resolution ::
    "string \<times> string \<Rightarrow> ActionStatus \<Rightarrow> datetime \<Rightarrow> string option \<Rightarrow> string option \<Rightarrow>
     ('a action_db_scheme, unit) tx" where
  "set_action_resolution k status resolved_at provider_object_id error_code =
     seqT (update_action k (resolved_action status resolved_at provider_object_id error_code)) flush_actions"

definition find_action_for_provider_object ::
    "string \<Rightarrow> string \<Rightarrow> ActionType list \<Rightarrow> ('a action_db_scheme, ActionRow option) tx" where
  "find_action_for_provider_object m provider_object_id action_types =
     seqT (guardT (action_types = []) (ValueError ''action_types cannot be empty''))
     (bindT (getT (\<lambda>s. filter (\<lambda>r. ao_merchant_id r = m \<and> ao_provider_object_id r = Some provider_object_id
        \<and> ao_action_type r \<in> set action_types \<and> ao_status r \<in> {SUCCEEDED, ActionStatus.UNKNOWN})
        (db_actions s))) one_or_noneT)"

definition find_latest_action_for_target ::
    "string \<Rightarrow> string \<Rightarrow> ActionType list \<Rightarrow> ('a action_db_scheme, ActionRow option) tx" where
  "find_latest_action_for_target m target_id action_types =
     seqT (guardT (action_types = []) (ValueError ''action_types cannot be empty''))
     (bindT (getT (\<lambda>s. take 1 (rev (sort_key (\<lambda>r. (ao_authorized_at r, ao_id r))
        (filter (\<lambda>r. ao_merchant_id r = m \<and> ao_target_id r = target_id
           \<and> ao_action_type r \<in> set action_types \<and> ao_status r \<in> {SUCCEEDED, ActionStatus.UNKNOWN})
        (db_actions s)))))) one_or_noneT)"

definition unknown_actions :: "datetime \<Rightarrow> int \<Rightarrow> ('a action_db_scheme, ActionRow list) tx" where
  "unknown_actions now limit = getT (\<lambda>s.
     take (nat limit) (sort_key (\<lambda>r. the (ao_unknown_since r))
       (filter (\<lambda>r. ao_status r = ActionStatus.UNKNOWN
          \<and> (\<exists>t\<in>set_option (ao_unknown_since r). t \<le> now) \<and> ao_dead_lettered_at r = None)
        (db_actions s))))"

definition actions_for_reconciliation :: "datetime \<Rightarrow> int \<Rightarrow> ('a action_db_scheme, ActionRow list) tx" where
  "actions_for_reconciliation now limit = getT (\<lambda>s.
     take (nat limit) (sort_key (\<lambda>r. (ao_updated_at r, action_key r))
       (filter (\<lambda>r. ao_status r \<in> {ActionStatus.UNKNOWN, SUCCEEDED} \<and> ao_dead_lettered_at r = None
          \<and> (\<exists>c\<in>set (db_cases s). row_key c = (ao_merchant_id r, ao_recovery_case_id r)
               \<and> rc_state (cw_case c) \<in> {CaseState.UNKNOWN, VERIFYING})
          \<and> (\<forall>t\<in>set_option (ao_unknown_since r). t \<le> now))
        (db_actions s))))"


section \<open>Outcomes\<close>

definition outcome_append :: "ActionRow \<Rightarrow> VerifiedOutcome \<Rightarrow> AuditAppend" where
  "outcome_append a v =
     (new_append (vo_merchant_id v)
        (if vo_is_authoritative v then ''OUTCOME_VERIFIED'' else ''OUTCOME_OBSERVED'')
        ''RECOVERY_ACTION'' (vo_action_id v) (ao_correlation_id a) ''SYSTEM'' ''outcome-verifier''
        [(''currency'', PStr (vo_currency v)), (''is_authoritative'', PBool (vo_is_authoritative v)),
         (''outcome_status'', PStr (action_status_value (vo_outcome_status v))),
         (''recovered_amount_minor'', PInt (vo_recovered_amount_minor v))]
        (vo_observed_at v))
     \<lparr>aa_causation_id := Some (vo_outcome_id v), aa_policy_version := Some (ao_policy_version a),
      aa_schema_version := Some (vo_schema_version v)\<rparr>"

definition store_outcome ::
    "(nat \<Rightarrow> string) \<Rightarrow> VerifiedOutcome \<Rightarrow> ('a action_db_scheme, VerifiedOutcome) tx" where
  "store_outcome uuids v =
     bindT (getT (\<lambda>s. find (\<lambda>w. (vo_merchant_id w, vo_outcome_id w) = (vo_merchant_id v, vo_outcome_id v))
       (db_outcomes s))) (\<lambda>existing.
     case existing of
       Some w \<Rightarrow> returnT w
     | None \<Rightarrow>
         seqT (modifyT (\<lambda>s. s\<lparr>db_outcomes := db_outcomes s @ [v]\<rparr>))
         (seqT flush_outcomes
         (bindT (get_action (vo_merchant_id v) (vo_action_id v)) (\<lambda>row.
          bindT (requireT (LookupError ''tenant-scoped recovery action does not exist'') row) (\<lambda>action.
          seqT (append_entry uuids (outcome_append action v)) (returnT v))))))"

definition counts_as_recovered :: "string \<Rightarrow> VerifiedOutcome \<Rightarrow> bool" where
  "counts_as_recovered m v \<longleftrightarrow>
     vo_merchant_id v = m \<and> vo_outcome_status v = SUCCEEDED \<and> vo_is_authoritative v
     \<and> 0 < vo_recovered_amount_minor v"

definition recovered_totals :: "string \<Rightarrow> ('a action_db_scheme, RecoveryTotals list) tx" where
  "recovered_totals m = getT (\<lambda>s.
     let rows = filter (counts_as_recovered m) (db_outcomes s) in
     map (\<lambda>currency.
       let own = filter (\<lambda>v. vo_currency v = currency) rows in
       \<lparr>rt_merchant_id = m, rt_currency = currency,
        rt_recovered_amount_minor = sum_list (map vo_recovered_amount_minor own),
        rt_verified_action_count = int (length own)\<rparr>)
     (sort (remdups (map vo_currency rows))))"

end
