(* ===== verification/Outbox_Invariant.thy ===== *)
theory Outbox_Invariant
  imports Outbox
begin

text \<open>
  The invariant of the action outbox: the constraints of its tables, the soundness of the case
  tables and of the audit ledger under it, and what the operations keep besides: every attempt
  belongs to a stored action, its number is at most the action's attempt count, and an action
  has at most one open attempt. Every operation preserves it.
\<close>


section \<open>The invariant\<close>

definition attempts_inv :: "'a action_db_scheme \<Rightarrow> bool" where
  "attempts_inv s \<longleftrightarrow>
     (\<forall>t\<in>set (db_attempts s). \<exists>a. stored_action s (attempt_action t) = Some a
        \<and> ap_attempt_number t \<le> ao_attempt_count a)
     \<and> (\<forall>k. length (open_attempts s k) \<le> 1)"

definition outbox_core :: "'a action_db_scheme \<Rightarrow> bool" where
  "outbox_core s \<longleftrightarrow> consistent s \<and> attempts_inv s \<and> outcomes_ok (db_outcomes s)"

definition outbox_ok :: "'a action_db_scheme \<Rightarrow> bool" where
  "outbox_ok s \<longleftrightarrow> outbox_core s \<and> actions_ok (db_actions s) \<and> attempts_ok (db_attempts s)"

lemma open_attempts_le: "outbox_core s \<Longrightarrow> length (open_attempts s k) \<le> 1"
  unfolding outbox_core_def attempts_inv_def by blast

lemma consistent_action_tables [simp]:
  "consistent (s\<lparr>db_actions := x\<rparr>) = consistent s"
  "consistent (s\<lparr>db_attempts := y\<rparr>) = consistent s"
  "consistent (s\<lparr>db_outcomes := z\<rparr>) = consistent s"
  "consistent (s\<lparr>db_uuids := n\<rparr>) = consistent s"
  by (simp_all add: consistent_def store_ok_def history_ok_def case_log_def ledger_ok_def own_entries_def)

lemma attempts_inv_other_tables [simp]:
  "attempts_inv (s\<lparr>db_outcomes := z\<rparr>) = attempts_inv s"
  "attempts_inv (s\<lparr>db_uuids := n\<rparr>) = attempts_inv s"
  by (simp_all add: attempts_inv_def stored_action_def open_attempts_def)

lemma open_attempts_other_tables [simp]:
  "open_attempts (s\<lparr>db_actions := x\<rparr>) k = open_attempts s k"
  "open_attempts (s\<lparr>db_outcomes := z\<rparr>) k = open_attempts s k"
  "open_attempts (s\<lparr>db_uuids := n\<rparr>) k = open_attempts s k"
  by (simp_all add: open_attempts_def)

lemma stored_action_other_tables [simp]:
  "stored_action (s\<lparr>db_attempts := y\<rparr>) k = stored_action s k"
  "stored_action (s\<lparr>db_outcomes := z\<rparr>) k = stored_action s k"
  "stored_action (s\<lparr>db_uuids := n\<rparr>) k = stored_action s k"
  by (simp_all add: stored_action_def)

text \<open>An audit entry leaves every other table alone.\<close>

lemma append_entry_action_tables:
  assumes "append_entry uuids r s = Inr (e, s')" "consistent s"
  shows "db_actions s' = db_actions s" "db_attempts s' = db_attempts s" "db_outcomes s' = db_outcomes s"
    "consistent s'"
proof -
  have ok: "\<forall>m. ledger_ok s m" using assms(2) by (simp add: consistent_def store_ok_def)
  from append_entry_ledgers(3) [OF assms(1) ok]
  show "db_actions s' = db_actions s" "db_attempts s' = db_attempts s" "db_outcomes s' = db_outcomes s"
    by auto
  note T = append_entry_case_tables [OF assms(1) ok]
  show "consistent s'"
    using assms(2) T append_entry_ledgers(1) [OF assms(1) ok] history_ok_cong [of s s']
    by (simp add: consistent_def store_ok_def)
qed

lemma append_entry_outbox:
  assumes "append_entry uuids r s = Inr (e, s')" "outbox_ok s"
  shows "outbox_ok s' \<and> db_actions s' = db_actions s \<and> db_attempts s' = db_attempts s
    \<and> db_outcomes s' = db_outcomes s"
proof -
  have "consistent s" using assms(2) by (simp add: outbox_ok_def outbox_core_def)
  note T = append_entry_action_tables [OF assms(1) this]
  with assms(2) show ?thesis
    by (simp add: outbox_ok_def outbox_core_def attempts_inv_def stored_action_def open_attempts_def)
qed


section \<open>Updates of actions and attempts\<close>

text \<open>An update of an action that keeps its identity and its attempt count.\<close>

definition keeps_identity :: "(ActionRow \<Rightarrow> ActionRow) \<Rightarrow> bool" where
  "keeps_identity f \<longleftrightarrow> (\<forall>a. action_key (f a) = action_key a \<and> ao_idempotency_key (f a) = ao_idempotency_key a
     \<and> ao_max_attempts (f a) = ao_max_attempts a)"

lemma keeps_identity_updates [simp]:
  "keeps_identity (started_action t)" "keeps_identity (released_action q)"
  "keeps_identity (retried_action q)" "keeps_identity (settled_action q)"
  "keeps_identity (lost_action t d)" "keeps_identity (resolved_action st t p e)"
  "keeps_identity (expired_action t)" "keeps_identity (cancelled_action t reason)"
  "keeps_identity (leased_action t dur token)"
  by (auto simp: leased_action_def keeps_identity_def expired_action_def cancelled_action_def started_action_def released_action_def retried_action_def
      settled_action_def lost_action_def resolved_action_def Let_def)

lemma attempt_count_updates [simp]:
  "ao_attempt_count (released_action q a) = ao_attempt_count a"
  "ao_attempt_count (retried_action q a) = ao_attempt_count a"
  "ao_attempt_count (settled_action q a) = ao_attempt_count a"
  "ao_attempt_count (lost_action t d a) = ao_attempt_count a"
  "ao_attempt_count (resolved_action st t p e a) = ao_attempt_count a"
  "ao_attempt_count (expired_action t a) = ao_attempt_count a"
  "ao_attempt_count (cancelled_action t reason a) = ao_attempt_count a"
  "ao_attempt_count (leased_action t dur token a) = ao_attempt_count a"
  "ao_attempt_count (started_action t a) = ao_attempt_count a + 1"
  by (simp_all add: leased_action_def expired_action_def cancelled_action_def started_action_def released_action_def retried_action_def
      settled_action_def lost_action_def resolved_action_def Let_def)

lemma stored_action_update:
  assumes "keeps_identity f"
  shows "stored_action (s\<lparr>db_actions := update_where (\<lambda>r. action_key r = k) f (db_actions s)\<rparr>) k' =
    (if k' = k then map_option f (stored_action s k) else stored_action s k')"
  using find_update_where_key [where key = action_key, of f k' k "db_actions s"] assms
  by (simp add: stored_action_def keeps_identity_def)

lemma attempts_inv_update_action:
  assumes "attempts_inv s" "keeps_identity f" "\<And>a. ao_attempt_count a \<le> ao_attempt_count (f a)"
  shows "attempts_inv (s\<lparr>db_actions := update_where (\<lambda>r. action_key r = k) f (db_actions s)\<rparr>)"
proof -
  have "\<exists>b. stored_action (s\<lparr>db_actions := update_where (\<lambda>r. action_key r = k) f (db_actions s)\<rparr>) (attempt_action t) = Some b
      \<and> ap_attempt_number t \<le> ao_attempt_count b" if "t \<in> set (db_attempts s)" for t
  proof -
    from assms(1) that obtain a where "stored_action s (attempt_action t) = Some a"
      "ap_attempt_number t \<le> ao_attempt_count a" by (auto simp: attempts_inv_def)
    then show ?thesis
      using order_trans [OF _ assms(3) [of a]] by (auto simp: stored_action_update [OF assms(2)])
  qed
  with assms(1) show ?thesis by (simp add: attempts_inv_def)
qed

lemma update_action_core:
  assumes "outbox_core s" "keeps_identity f" "\<And>a. ao_attempt_count a \<le> ao_attempt_count (f a)"
  shows "outbox_core (s\<lparr>db_actions := update_where (\<lambda>r. action_key r = k) f (db_actions s)\<rparr>)"
  using assms by (simp add: outbox_core_def attempts_inv_update_action)

text \<open>An update of an attempt that completes it.\<close>

definition completes :: "(AttemptRow \<Rightarrow> AttemptRow) \<Rightarrow> bool" where
  "completes f \<longleftrightarrow> (\<forall>t. attempt_action (f t) = attempt_action t \<and> ap_attempt_number (f t) = ap_attempt_number t
     \<and> ap_request_id (f t) = ap_request_id t \<and> ap_id (f t) = ap_id t \<and> \<not> attempt_open (f t))"

lemma completes_updates [simp]: "completes (completed_attempt q)" "completes (lost_attempt t)"
  by (auto simp: completes_def completed_attempt_def lost_attempt_def)

lemma open_attempts_completed:
  assumes "completes f"
  shows "open_attempts (s\<lparr>db_attempts := update_where p f (db_attempts s)\<rparr>) k =
    filter (\<lambda>t. \<not> p t) (open_attempts s k)"
proof -
  have "filter (\<lambda>t. attempt_action t = k \<and> attempt_open t) (update_where p f ts) =
      filter (\<lambda>t. \<not> p t) (filter (\<lambda>t. attempt_action t = k \<and> attempt_open t) ts)" for ts
    using assms by (induction ts) (auto simp: completes_def)
  then show ?thesis by (simp add: open_attempts_def)
qed

lemma update_attempt_core:
  assumes "outbox_core s" "completes f"
  shows "outbox_core (s\<lparr>db_attempts := update_where p f (db_attempts s)\<rparr>)"
proof -
  have "length (filter (\<lambda>t. \<not> p t) (open_attempts s k)) \<le> 1" for k
    using order_trans [OF length_filter_le open_attempts_le [OF assms(1)]] .
  moreover have "\<exists>a. stored_action s (attempt_action t) = Some a \<and> ap_attempt_number t \<le> ao_attempt_count a"
    if "t \<in> set (update_where p f (db_attempts s))" for t
  proof -
    from that obtain u where u: "u \<in> set (db_attempts s)"
      and t: "t = (if p u then f u else u)" by (auto simp: set_update_where)
    have "attempt_action t = attempt_action u" "ap_attempt_number t = ap_attempt_number u"
      using t assms(2) by (auto simp: completes_def)
    with u assms(1) show ?thesis by (auto simp: outbox_core_def attempts_inv_def)
  qed
  ultimately show ?thesis
    using assms by (simp add: outbox_core_def attempts_inv_def open_attempts_completed)
qed

lemma flush_eq_Inr [result_simps]:
  "flush_actions s = Inr (u, s') \<longleftrightarrow> actions_ok (db_actions s) \<and> s' = s"
  "flush_attempts s = Inr (u, s') \<longleftrightarrow> attempts_ok (db_attempts s) \<and> s' = s"
  "flush_outcomes s = Inr (u, s') \<longleftrightarrow> outcomes_ok (db_outcomes s) \<and> s' = s"
  by (simp_all add: flush_actions_def flush_attempts_def flush_outcomes_def result_simps)

section \<open>Every operation keeps the invariant\<close>

text \<open>Actions are never removed and keep their identity and their attempt limit.\<close>

definition grows :: "'a action_db_scheme \<Rightarrow> 'a action_db_scheme \<Rightarrow> bool" where
  "grows s s' \<longleftrightarrow> (\<forall>k a. stored_action s k = Some a \<longrightarrow>
     (\<exists>b. stored_action s' k = Some b \<and> ao_idempotency_key b = ao_idempotency_key a
        \<and> ao_max_attempts b = ao_max_attempts a))"

lemma grows_refl [simp]: "grows s s"
  by (simp add: grows_def)

lemma grows_trans: "grows s t \<Longrightarrow> grows t u \<Longrightarrow> grows s u"
  by (fastforce simp: grows_def)

lemma grows_same: "db_actions s' = db_actions s \<Longrightarrow> grows s s'"
  by (simp add: grows_def stored_action_def)

lemma grows_update:
  assumes "keeps_identity f" "db_actions s' = update_where (\<lambda>r. action_key r = k) f (db_actions s)"
  shows "grows s s'"
proof -
  have "stored_action s' k' = (if k' = k then map_option f (stored_action s k) else stored_action s k')" for k'
    using stored_action_update [OF assms(1), where s = s and k = k and k' = k'] assms(2) by (simp add: stored_action_def)
  with assms(1) show ?thesis by (auto simp: grows_def keeps_identity_def)
qed

lemma grows_append: "db_actions s' = db_actions s @ xs \<Longrightarrow> grows s s'"
  by (auto simp: grows_def stored_action_def dest: find_append_Some)

definition keeps :: "('a action_db_scheme, 'x) tx \<Rightarrow> bool" where
  "keeps m \<longleftrightarrow> (\<forall>s x s'. outbox_ok s \<longrightarrow> m s = Inr (x, s') \<longrightarrow> outbox_ok s' \<and> grows s s')"

lemma keepsI:
  "(\<And>s x s'. outbox_ok s \<Longrightarrow> m s = Inr (x, s') \<Longrightarrow> outbox_ok s' \<and> grows s s') \<Longrightarrow> keeps m"
  by (auto simp: keeps_def)

lemma keepsD: "keeps m \<Longrightarrow> outbox_ok s \<Longrightarrow> m s = Inr (x, s') \<Longrightarrow> outbox_ok s' \<and> grows s s'"
  by (auto simp: keeps_def)

text \<open>Updates of one action, checked at the flush.\<close>

lemma updated_action_ok:
  assumes "outbox_ok s" "keeps_identity f" "\<And>a. ao_attempt_count a \<le> ao_attempt_count (f a)"
    and "s' = s\<lparr>db_actions := update_where (\<lambda>r. action_key r = k) f (db_actions s)\<rparr>"
    and "actions_ok (db_actions s')"
  shows "outbox_ok s' \<and> grows s s'"
proof -
  have "outbox_core s'" unfolding assms(4)
    by (rule update_action_core) (use assms(1-3) in \<open>simp_all add: outbox_ok_def\<close>)
  moreover have "db_attempts s' = db_attempts s" using assms(4) by simp
  moreover have "grows s s'" by (rule grows_update [OF assms(2)]) (simp add: assms(4))
  ultimately show ?thesis using assms(1,5) by (simp add: outbox_ok_def)
qed

lemma keeps_cancel: "keeps (cancel_before_execution k t reason)"
proof (rule keepsI)
  fix s :: "'a action_db_scheme" and x s'
  assume ok: "outbox_ok s" and "cancel_before_execution k t reason s = Inr (x, s')"
  then show "outbox_ok s' \<and> grows s s'"
    by (intro updated_action_ok [OF ok, where f = "cancelled_action t reason"])
      (auto simp: cancel_before_execution_def the_action_def update_action_def result_simps)
qed

lemma keeps_verification_expired: "keeps (mark_verification_expired_unknown k t)"
proof (rule keepsI)
  fix s :: "'a action_db_scheme" and x s'
  assume ok: "outbox_ok s" and "mark_verification_expired_unknown k t s = Inr (x, s')"
  then show "outbox_ok s' \<and> grows s s'"
    by (intro updated_action_ok [OF ok, where f = "expired_action t"])
      (auto simp: mark_verification_expired_unknown_def the_action_def update_action_def result_simps)
qed

lemma keeps_resolution: "keeps (set_action_resolution k st t p e)"
proof (rule keepsI)
  fix s :: "'a action_db_scheme" and x s'
  assume ok: "outbox_ok s" and "set_action_resolution k st t p e s = Inr (x, s')"
  then show "outbox_ok s' \<and> grows s s'"
    by (intro updated_action_ok [OF ok, where f = "resolved_action st t p e"])
      (auto simp: set_action_resolution_def update_action_def result_simps)
qed

text \<open>Claims: one update for each claimed action, checked at the end.\<close>

lemma claim_one_core:
  assumes "claim_one uuids now d r s = Inr (c, s')" "outbox_core s" "attempts_ok (db_attempts s)"
  shows "outbox_core s' \<and> grows s s' \<and> attempts_ok (db_attempts s')"
proof -
  let ?f = "leased_action now d"
  let ?s = "s\<lparr>db_uuids := Suc (db_uuids s)\<rparr>"
  from assms(1) obtain lease where
    s': "s' = ?s\<lparr>db_actions := update_where (\<lambda>x. action_key x = action_key r) (?f lease) (db_actions ?s)\<rparr>"
    by (auto simp: claim_one_def draw_uuid_def update_action_def result_simps)
  have f: "keeps_identity (?f lease)" by simp
  have "outbox_core ?s" using assms(2) by (simp add: outbox_core_def)
  then have "outbox_core s'" unfolding s' by (rule update_action_core [OF _ f]) simp
  moreover have "grows s s'" by (rule grows_update [OF f, of _ "action_key r"]) (simp add: s')
  ultimately show ?thesis using assms(3) s' by simp
qed

lemma claim_all_core:
  "mapT (claim_one uuids now d) rs s = Inr (cs, s') \<Longrightarrow> outbox_core s \<Longrightarrow> attempts_ok (db_attempts s) \<Longrightarrow>
   outbox_core s' \<and> grows s s' \<and> attempts_ok (db_attempts s')"
proof (induction rs arbitrary: s cs)
  case Nil
  then show ?case by (simp add: result_simps)
next
  case (Cons r rs)
  from Cons.prems(1) obtain c t cs' where c: "claim_one uuids now d r s = Inr (c, t)"
    and rest: "mapT (claim_one uuids now d) rs t = Inr (cs', s')"
    by (auto simp: result_simps)
  note C = claim_one_core [OF c Cons.prems(2,3)]
  with Cons.IH [OF rest] show ?case using grows_trans by blast
qed

lemma keeps_claim: "keeps (claim_due_actions uuids now d limit)"
proof (rule keepsI)
  fix s :: "'a action_db_scheme" and x s'
  assume ok: "outbox_ok s" and op: "claim_due_actions uuids now d limit s = Inr (x, s')"
  from op obtain rs where "mapT (claim_one uuids now d) rs s = Inr (x, s')" "actions_ok (db_actions s')"
    by (auto simp: claim_due_actions_def result_simps)
  with ok claim_all_core [of uuids now d rs s x s'] show "outbox_ok s' \<and> grows s s'"
    by (simp add: outbox_ok_def)
qed

text \<open>Operations that end with an audit entry.\<close>

lemma then_append:
  assumes "outbox_ok s1 \<and> grows s s1" "append_entry uuids r s1 = Inr (e, s')"
  shows "outbox_ok s' \<and> grows s s'"
proof -
  have "outbox_ok s1" using assms(1) by simp
  note A = append_entry_outbox [OF assms(2) this]
  then have "grows s1 s'" by (intro grows_same) simp
  with A assms(1) grows_trans show ?thesis by blast
qed

lemma append_action_core:
  assumes "outbox_core s"
  shows "outbox_core (s\<lparr>db_actions := db_actions s @ [row]\<rparr>)"
proof -
  have "\<exists>a. stored_action (s\<lparr>db_actions := db_actions s @ [row]\<rparr>) (attempt_action t) = Some a
      \<and> ap_attempt_number t \<le> ao_attempt_count a" if "t \<in> set (db_attempts s)" for t
  proof -
    from assms that obtain a where "stored_action s (attempt_action t) = Some a"
      "ap_attempt_number t \<le> ao_attempt_count a" by (auto simp: outbox_core_def attempts_inv_def)
    then show ?thesis by (auto simp: stored_action_def dest: find_append_Some)
  qed
  with assms show ?thesis by (simp add: outbox_core_def attempts_inv_def)
qed

lemma keeps_store_action: "keeps (store_action uuids a p c n d)"
proof (rule keepsI)
  fix s :: "'a action_db_scheme" and x s'
  assume ok: "outbox_ok s" and op: "store_action uuids a p c n d s = Inr (x, s')"
  show "outbox_ok s' \<and> grows s s'"
  proof (cases "s' = s")
    case True
    with ok show ?thesis by simp
  next
    case False
    let ?s1 = "s\<lparr>db_actions := db_actions s @ [action_row a p c n d]\<rparr>"
    from op False obtain e where "actions_ok (db_actions ?s1)"
      and a: "append_entry uuids (authorized_append (action_row a p c n d)) ?s1 = Inr (e, s')"
      by (auto simp: store_action_def result_simps Let_def split: option.splits)
    moreover have "outbox_core ?s1" using ok append_action_core [of s] by (simp add: outbox_ok_def)
    ultimately have "outbox_ok ?s1 \<and> grows s ?s1"
      using ok grows_append [of ?s1 s] by (simp add: outbox_ok_def)
    from then_append [OF this a] show ?thesis .
  qed
qed

lemma keeps_store_outcome: "keeps (store_outcome uuids v)"
proof (rule keepsI)
  fix s :: "'a action_db_scheme" and x s'
  assume ok: "outbox_ok s" and op: "store_outcome uuids v s = Inr (x, s')"
  show "outbox_ok s' \<and> grows s s'"
  proof (cases "s' = s")
    case True
    with ok show ?thesis by simp
  next
    case False
    let ?s1 = "s\<lparr>db_outcomes := db_outcomes s @ [v]\<rparr>"
    from op False obtain r e where "outcomes_ok (db_outcomes ?s1)"
      and a: "append_entry uuids r ?s1 = Inr (e, s')"
      by (auto simp: store_outcome_def get_action_def result_simps Let_def split: option.splits)
    then have "outbox_ok ?s1 \<and> grows s ?s1"
      using ok grows_same [of ?s1 s] by (simp add: outbox_ok_def outbox_core_def)
    from then_append [OF this a] show ?thesis .
  qed
qed

text \<open>Completing an attempt and updating its action.\<close>

lemma completed_ok:
  assumes "outbox_ok s" "completes g" "keeps_identity f" "\<And>a. ao_attempt_count a \<le> ao_attempt_count (f a)"
    and "s' = s\<lparr>db_attempts := update_where p g (db_attempts s),
       db_actions := update_where (\<lambda>r. action_key r = k) f (db_actions s)\<rparr>"
    and "actions_ok (db_actions s')" "attempts_ok (db_attempts s')"
  shows "outbox_ok s' \<and> grows s s'"
proof -
  let ?s1 = "s\<lparr>db_attempts := update_where p g (db_attempts s)\<rparr>"
  have "outbox_core ?s1" by (rule update_attempt_core) (use assms(1,2) in \<open>simp_all add: outbox_ok_def\<close>)
  then have "outbox_core (?s1\<lparr>db_actions := update_where (\<lambda>r. action_key r = k) f (db_actions ?s1)\<rparr>)"
    by (rule update_action_core [OF _ assms(3,4)])
  moreover have "grows s s'" by (rule grows_update [OF assms(3)]) (simp add: assms(5))
  ultimately show ?thesis using assms(5-7) by (simp add: outbox_ok_def)
qed

lemma keeps_mark_stale: "keeps (mark_stale_inflight_unknown k now d)"
proof (rule keepsI)
  fix s :: "'a action_db_scheme" and x s'
  assume ok: "outbox_ok s" and op: "mark_stale_inflight_unknown k now d s = Inr (x, s')"
  then obtain t where t: "open_attempts s k = [t]"
    by (auto simp: mark_stale_inflight_unknown_def result_simps)
  with op have "s' = s\<lparr>db_attempts := update_where (\<lambda>u. ap_id u = ap_id t) (lost_attempt now) (db_attempts s),
      db_actions := update_where (\<lambda>r. action_key r = k) (lost_action now d) (db_actions s)\<rparr>"
    "actions_ok (db_actions s')" "attempts_ok (db_attempts s')"
    by (auto simp: mark_stale_inflight_unknown_def update_action_def update_attempt_def result_simps)
  then show "outbox_ok s' \<and> grows s s'" by (intro completed_ok [OF ok completes_updates(2) keeps_identity_updates(5)]) auto
qed

text \<open>What a successful \<open>finish_attempt\<close> has done.\<close>

lemma finish_attempt_InrD:
  assumes "finish_attempt uuids m a token q s = Inr (x, s')"
  obtains action t s1 where "stored_action s (m, a) = Some action"
    "filter (\<lambda>t. ap_lease_token t = token) (open_attempts s (m, a)) = [t]"
    "s1 = s\<lparr>db_attempts := update_where (\<lambda>u. ap_id u = ap_id t) (completed_attempt q) (db_attempts s),
       db_actions := update_where (\<lambda>r. action_key r = (m, a))
         (if retries q action then retried_action q else settled_action q) (db_actions s)\<rparr>"
    "actions_ok (db_actions s1)" "attempts_ok (db_attempts s1)"
    "if retries q action then s' = s1
     else \<exists>e. append_entry uuids (finished_append (settled_action q action) (completed_attempt q t) q) s1 = Inr (e, s')"
proof -
  from assms obtain action t where *: "stored_action s (m, a) = Some action"
      "filter (\<lambda>t. ap_lease_token t = token) (open_attempts s (m, a)) = [t]"
    by (auto simp: finish_attempt_def get_action_def result_simps Let_def split: option.splits)
  let ?s1 = "s\<lparr>db_attempts := update_where (\<lambda>u. ap_id u = ap_id t) (completed_attempt q) (db_attempts s),
       db_actions := update_where (\<lambda>r. action_key r = (m, a))
         (if retries q action then retried_action q else settled_action q) (db_actions s)\<rparr>"
  have "actions_ok (db_actions ?s1) \<and> attempts_ok (db_attempts ?s1) \<and>
    (if retries q action then s' = ?s1
     else \<exists>e. append_entry uuids (finished_append (settled_action q action) (completed_attempt q t) q) ?s1 = Inr (e, s'))"
    using assms *
    by (cases "retries q action")
      (auto simp: finish_attempt_def get_action_def update_action_def update_attempt_def result_simps Let_def)
  with that * show ?thesis by blast
qed

lemma keeps_finish: "keeps (finish_attempt uuids m a token q)"
proof (rule keepsI)
  fix s :: "'a action_db_scheme" and x s'
  assume ok: "outbox_ok s" and op: "finish_attempt uuids m a token q s = Inr (x, s')"
  from op obtain action t s1 where D:
    "s1 = s\<lparr>db_attempts := update_where (\<lambda>u. ap_id u = ap_id t) (completed_attempt q) (db_attempts s),
       db_actions := update_where (\<lambda>r. action_key r = (m, a))
         (if retries q action then retried_action q else settled_action q) (db_actions s)\<rparr>"
    "actions_ok (db_actions s1)" "attempts_ok (db_attempts s1)"
    "if retries q action then s' = s1
     else \<exists>e. append_entry uuids (finished_append (settled_action q action) (completed_attempt q t) q) s1 = Inr (e, s')"
    by (rule finish_attempt_InrD)
  have "outbox_ok s1 \<and> grows s s1"
    by (rule completed_ok [OF ok completes_updates(1) _ _ D(1-3)]) simp_all
  with D(4) show "outbox_ok s' \<and> grows s s'" using then_append [of s1 s uuids _ _ s'] by (auto split: if_splits)
qed

text \<open>What a successful \<open>begin_attempt\<close> has found and done.\<close>

lemma begin_attempt_InrD:
  assumes "begin_attempt uuids m a token now s = Inr (x, s')"
  obtains action s1 e where "stored_action s (m, a) = Some action" "ao_status action = PENDING"
    "ao_lease_token action = Some token" "\<forall>t\<in>set_option (ao_lease_expires_at action). now < t"
    "open_attempts s (m, a) = []"
    "s1 = s\<lparr>db_attempts := db_attempts s @ [new_attempt (started_action now action) token now],
       db_actions := update_where (\<lambda>r. action_key r = (m, a)) (started_action now) (db_actions s)\<rparr>"
    "actions_ok (db_actions s1)" "attempts_ok (db_attempts s1)"
    "append_entry uuids (started_append (started_action now action)
       (new_attempt (started_action now action) token now) now) s1 = Inr (e, s')"
    "x = (started_action now action, new_attempt (started_action now action) token now)"
proof -
  from assms obtain action where *: "stored_action s (m, a) = Some action" "ao_status action = PENDING"
    "ao_lease_token action = Some token" "\<forall>t\<in>set_option (ao_lease_expires_at action). now < t"
    "open_attempts s (m, a) = []"
    by (auto simp: begin_attempt_def get_action_def result_simps Let_def not_le split: option.splits)
  let ?t = "new_attempt (started_action now action) token now"
  let ?s1 = "s\<lparr>db_attempts := db_attempts s @ [?t],
       db_actions := update_where (\<lambda>r. action_key r = (m, a)) (started_action now) (db_actions s)\<rparr>"
  have "actions_ok (db_actions ?s1) \<and> attempts_ok (db_attempts ?s1) \<and> x = (started_action now action, ?t)
    \<and> (\<exists>e. append_entry uuids (started_append (started_action now action) ?t now) ?s1 = Inr (e, s'))"
    using assms * by (auto simp: begin_attempt_def get_action_def update_action_def result_simps Let_def)
  with that * show ?thesis by blast
qed

lemma stored_action_key: "stored_action s k = Some a \<Longrightarrow> action_key a = k"
  by (auto simp: stored_action_def find_Some_iff)

lemma new_attempt_simps [simp]:
  "attempt_action (new_attempt a token now) = action_key a" "ap_attempt_number (new_attempt a token now) = ao_attempt_count a"
  "ap_lease_token (new_attempt a token now) = token" "attempt_open (new_attempt a token now)"
  by (simp_all add: new_attempt_def)

lemma begun_core:
  assumes "outbox_core s" "stored_action s (m, a) = Some action" "open_attempts s (m, a) = []"
    and "s1 = s\<lparr>db_attempts := db_attempts s @ [new_attempt (started_action now action) token now],
       db_actions := update_where (\<lambda>r. action_key r = (m, a)) (started_action now) (db_actions s)\<rparr>"
  shows "outbox_core s1"
proof -
  let ?t = "new_attempt (started_action now action) token now"
  let ?s0 = "s\<lparr>db_actions := update_where (\<lambda>r. action_key r = (m, a)) (started_action now) (db_actions s)\<rparr>"
  have core: "outbox_core ?s0" by (rule update_action_core [OF assms(1)]) simp_all
  have key: "action_key (started_action now action) = (m, a)"
    using stored_action_key [OF assms(2)] keeps_identity_updates(1) [of now] by (simp add: keeps_identity_def)
  have stored: "stored_action ?s0 (m, a) = Some (started_action now action)"
    using stored_action_update [OF keeps_identity_updates(1), where s = s and k = "(m, a)" and k' = "(m, a)"] assms(2) by simp
  have opened: "open_attempts s1 k = open_attempts s k @ (if k = (m, a) then [?t] else [])" for k
    using key by (simp add: open_attempts_def assms(4))
  have "length (open_attempts s1 k) \<le> 1" for k
  proof (cases "k = (m, a)")
    case True
    then show ?thesis using assms(3) by (simp add: opened)
  next
    case False
    then show ?thesis using open_attempts_le [OF assms(1)] by (simp add: opened)
  qed
  moreover have "\<exists>b. stored_action s1 (attempt_action t) = Some b \<and> ap_attempt_number t \<le> ao_attempt_count b"
    if "t \<in> set (db_attempts s1)" for t
  proof (cases "t = ?t")
    case True
    have same: "stored_action s1 k = stored_action ?s0 k" for k by (simp add: stored_action_def assms(4))
    show ?thesis unfolding True new_attempt_simps(1) key same stored by simp
  next
    case False
    with that core show ?thesis
      by (auto simp: assms(4) outbox_core_def attempts_inv_def stored_action_def)
  qed
  ultimately show ?thesis using core by (simp add: outbox_core_def attempts_inv_def assms(4))
qed

lemma keeps_begin: "keeps (begin_attempt uuids m a token now)"
proof (rule keepsI)
  fix s :: "'a action_db_scheme" and x s'
  assume ok: "outbox_ok s" and op: "begin_attempt uuids m a token now s = Inr (x, s')"
  from op obtain action s1 e where D: "stored_action s (m, a) = Some action" "open_attempts s (m, a) = []"
    "s1 = s\<lparr>db_attempts := db_attempts s @ [new_attempt (started_action now action) token now],
       db_actions := update_where (\<lambda>r. action_key r = (m, a)) (started_action now) (db_actions s)\<rparr>"
    "actions_ok (db_actions s1)" "attempts_ok (db_attempts s1)"
    and e: "append_entry uuids (started_append (started_action now action)
       (new_attempt (started_action now action) token now) now) s1 = Inr (e, s')"
    by (rule begin_attempt_InrD)
  have "outbox_core s1" by (rule begun_core [OF _ D(1-3)]) (use ok in \<open>simp add: outbox_ok_def\<close>)
  moreover have "grows s s1" by (rule grows_update [OF keeps_identity_updates(1), of _ "(m, a)" now]) (simp add: D(3))
  ultimately have "outbox_ok s1 \<and> grows s s1" using D by (simp add: outbox_ok_def)
  from then_append [OF this e] show "outbox_ok s' \<and> grows s s'" .
qed


section \<open>Runs\<close>

text \<open>The operations that write, in any order.\<close>

inductive outbox_run :: "'a action_db_scheme \<Rightarrow> 'a action_db_scheme \<Rightarrow> bool" where
  none: "outbox_run s s"
| store: "outbox_run s t \<Longrightarrow> store_action uuids a p c n d t = Inr (r, u) \<Longrightarrow> outbox_run s u"
| claim: "outbox_run s t \<Longrightarrow> claim_due_actions uuids now d limit t = Inr (cs, u) \<Longrightarrow> outbox_run s u"
| started: "outbox_run s t \<Longrightarrow> begin_attempt uuids m i token now t = Inr (x, u) \<Longrightarrow> outbox_run s u"
| finish: "outbox_run s t \<Longrightarrow> finish_attempt uuids m i token q t = Inr (x, u) \<Longrightarrow> outbox_run s u"
| stale: "outbox_run s t \<Longrightarrow> mark_stale_inflight_unknown k now d t = Inr (y, u) \<Longrightarrow> outbox_run s u"
| expire: "outbox_run s t \<Longrightarrow> mark_verification_expired_unknown k now t = Inr (z, u) \<Longrightarrow> outbox_run s u"
| cancel: "outbox_run s t \<Longrightarrow> cancel_before_execution k now reason t = Inr (z, u) \<Longrightarrow> outbox_run s u"
| resolve: "outbox_run s t \<Longrightarrow> set_action_resolution k st now po er t = Inr (z, u) \<Longrightarrow> outbox_run s u"
| outcome: "outbox_run s t \<Longrightarrow> store_outcome uuids v t = Inr (w, u) \<Longrightarrow> outbox_run s u"

lemma outbox_run_ok: "outbox_run s s' \<Longrightarrow> outbox_ok s \<Longrightarrow> outbox_ok s' \<and> grows s s'"
proof (induction rule: outbox_run.induct)
  case (none s)
  then show ?case by simp
qed (metis keepsD grows_trans keeps_store_action keeps_claim keeps_begin keeps_finish keeps_mark_stale
      keeps_verification_expired keeps_cancel keeps_resolution keeps_store_outcome)+

end
