(* ===== verification/Outbox_Theorems.thy ===== *)
theory Outbox_Theorems
  imports Outbox_Invariant
begin

text \<open>
  What the outbox guarantees: a provider is called a bounded number of times and never twice at
  once for an action, leases are exclusive, a result is recorded once, storing an action is
  idempotent, and recovered money is counted once for each action.
\<close>


section \<open>Provider calls\<close>

lemma distinct_ints_bounded:
  assumes "distinct (ns :: int list)" "\<forall>n\<in>set ns. 1 \<le> n \<and> n \<le> k"
  shows "length ns \<le> nat k"
proof -
  have "length ns = card (set ns)" using assms(1) by (simp add: distinct_card)
  also have "\<dots> \<le> card {1..k}" using assms(2) by (intro card_mono) auto
  finally show ?thesis by simp
qed

text \<open>
  Property C31. Whatever sequence of claims, attempts, retries, reconciliations and
  cancellations has run, an action has at most as many provider attempts as its limit allows,
  at most one of them is open, and no two carry the same request id.
\<close>

theorem provider_calls_bounded:
  assumes "outbox_run s s'" "outbox_ok s" "stored_action s' k = Some a"
  shows "length (filter (\<lambda>t. attempt_action t = k) (db_attempts s')) \<le> nat (ao_max_attempts a)
    \<and> length (open_attempts s' k) \<le> 1
    \<and> distinct (map ap_request_id (filter (\<lambda>t. attempt_action t = k) (db_attempts s')))"
proof -
  let ?ts = "filter (\<lambda>t. attempt_action t = k) (db_attempts s')"
  have ok: "outbox_ok s'" using outbox_run_ok [OF assms(1,2)] by simp
  then have attempts: "attempts_ok (db_attempts s')" and core: "outbox_core s'" by (simp_all add: outbox_ok_def)
  have "distinct (map (\<lambda>t. (attempt_action t, ap_attempt_number t)) ?ts)"
    using attempts distinct_map_filter unfolding attempts_ok_def by blast
  then have "distinct (map ap_attempt_number ?ts)"
    by (auto simp: distinct_map inj_on_def)
  moreover have "\<forall>n\<in>set (map ap_attempt_number ?ts). 1 \<le> n \<and> n \<le> ao_attempt_count a"
    using attempts core assms(3) by (auto simp: attempts_ok_def attempt_row_ok_def outbox_core_def attempts_inv_def)
  ultimately have "length (map ap_attempt_number ?ts) \<le> nat (ao_attempt_count a)"
    by (rule distinct_ints_bounded)
  moreover have "a \<in> set (db_actions s')"
    using assms(3) by (auto simp: stored_action_def find_Some_iff)
  then have "ao_attempt_count a \<le> ao_max_attempts a"
    using ok by (auto simp: outbox_ok_def actions_ok_def action_row_ok_def)
  moreover have "distinct (map ap_request_id ?ts)"
    using attempts distinct_map_filter unfolding attempts_ok_def by blast
  ultimately show ?thesis using open_attempts_le [OF core] by simp
qed


section \<open>Results\<close>

lemma finish_without_open:
  assumes "stored_action s (m, a) = Some r" "open_attempts s (m, a) = []"
  shows "finish_attempt uuids m a token q s =
    Inl (ActionPersistenceError ''ACTION_ATTEMPT_NOT_OPEN'' ''attempt is already complete'')"
  using assms by (simp add: finish_attempt_def get_action_def run_tx)

lemma only_open_attempt:
  assumes "outbox_core s" "t \<in> set (open_attempts s k)"
  shows "open_attempts s k = [t]"
  using open_attempts_le [OF assms(1), of k] assms(2) by (cases "open_attempts s k") auto

lemma finish_closes:
  assumes "outbox_ok s" "finish_attempt uuids m a token q s = Inr (x, s')"
  shows "open_attempts s' (m, a) = [] \<and> (\<exists>r. stored_action s' (m, a) = Some r)"
proof -
  from assms(2) obtain action t s1 where D: "stored_action s (m, a) = Some action"
    "filter (\<lambda>t. ap_lease_token t = token) (open_attempts s (m, a)) = [t]"
    "s1 = s\<lparr>db_attempts := update_where (\<lambda>u. ap_id u = ap_id t) (completed_attempt q) (db_attempts s),
       db_actions := update_where (\<lambda>r. action_key r = (m, a))
         (if retries q action then retried_action q else settled_action q) (db_actions s)\<rparr>"
    "if retries q action then s' = s1
     else \<exists>e. append_entry uuids (finished_append (settled_action q action) (completed_attempt q t) q) s1 = Inr (e, s')"
    by (rule finish_attempt_InrD)
  have core: "outbox_core s" using assms(1) by (simp add: outbox_ok_def)
  have "t \<in> set (open_attempts s (m, a))" using arg_cong [OF D(2), of set] by auto
  with core have one: "open_attempts s (m, a) = [t]" by (rule only_open_attempt)
  have s1: "open_attempts s1 (m, a) = []"
    using open_attempts_completed [OF completes_updates(1), where s = s and k = "(m, a)" and p = "\<lambda>u. ap_id u = ap_id t"]
    by (simp add: D(3) one)
  have "db_attempts s' = db_attempts s1"
  proof (cases "retries q action")
    case True
    with D(4) show ?thesis by simp
  next
    case False
    with D(4) obtain e where e: "append_entry uuids (finished_append (settled_action q action)
        (completed_attempt q t) q) s1 = Inr (e, s')" by auto
    have "consistent s1" using core by (simp add: D(3) outbox_core_def)
    from append_entry_action_tables(2) [OF e this] show ?thesis .
  qed
  then have "open_attempts s' (m, a) = []" using s1 by (simp add: open_attempts_def)
  moreover have "grows s s'" using keepsD [OF keeps_finish assms(1,2)] by simp
  ultimately show ?thesis using D(1) unfolding grows_def by blast
qed

text \<open>
  The result of a provider call is recorded once: after a recorded result, no
  worker, with whatever lease token, can record another one until a new attempt begins.
\<close>

theorem result_recorded_once:
  assumes "outbox_ok s" "finish_attempt uuids m a token q s = Inr (x, s')"
  shows "finish_attempt uuids' m a token' q' s' =
    Inl (ActionPersistenceError ''ACTION_ATTEMPT_NOT_OPEN'' ''attempt is already complete'')"
  using finish_closes [OF assms] finish_without_open by blast

text \<open>
  A worker that is reported lost cannot come back: once reconciliation has marked
  an in-flight action \<open>UNKNOWN\<close>, the late result of the lost worker is refused, and no worker
  can begin another attempt.
\<close>

theorem lost_worker_cannot_report:
  assumes "outbox_ok s" "mark_stale_inflight_unknown (m, a) now d s = Inr (x, s')"
  shows "finish_attempt uuids m a token q s' =
      Inl (ActionPersistenceError ''ACTION_ATTEMPT_NOT_OPEN'' ''attempt is already complete'')
    \<and> begin_attempt uuids m a token later s' =
      Inl (ActionPersistenceError ''ACTION_NOT_PENDING'' ''action cannot begin execution'')"
proof -
  from assms(2) obtain t where t: "open_attempts s (m, a) = [t]"
    by (auto simp: mark_stale_inflight_unknown_def result_simps)
  with assms(2) have s': "s' = s\<lparr>db_attempts := update_where (\<lambda>u. ap_id u = ap_id t) (lost_attempt now) (db_attempts s),
      db_actions := update_where (\<lambda>r. action_key r = (m, a)) (lost_action now d) (db_actions s)\<rparr>"
    by (auto simp: mark_stale_inflight_unknown_def update_action_def update_attempt_def result_simps)
  have closed: "open_attempts s' (m, a) = []"
    using open_attempts_completed [OF completes_updates(2), where s = s and k = "(m, a)" and p = "\<lambda>u. ap_id u = ap_id t"]
    by (simp add: s' t)
  have core: "outbox_core s" using assms(1) by (simp add: outbox_ok_def)
  have "t \<in> set (db_attempts s)" "attempt_action t = (m, a)"
    using t by (auto simp: open_attempts_def filter_eq_Cons_iff)
  with core obtain r where r: "stored_action s (m, a) = Some r"
    unfolding outbox_core_def attempts_inv_def by metis
  have "stored_action s' (m, a) = Some (lost_action now d r)"
    using stored_action_update [OF keeps_identity_updates(5), where s = s and k = "(m, a)" and k' = "(m, a)"] r
    by (simp add: s' stored_action_def)
  with closed show ?thesis
    by (simp add: finish_without_open) (simp add: begin_attempt_def get_action_def run_tx lost_action_def)
qed

section \<open>Leases\<close>

definition leased_to :: "'a action_db_scheme \<Rightarrow> ClaimedAction \<Rightarrow> datetime \<Rightarrow> bool" where
  "leased_to s c until \<longleftrightarrow> (\<exists>r. stored_action s (cl_merchant_id c, cl_action_id c) = Some r
     \<and> ao_status r = PENDING \<and> ao_lease_token r = Some (cl_lease_token c) \<and> ao_lease_expires_at r = Some until)"

lemma claim_one_InrD:
  assumes "claim_one uuids now d r s = Inr (c, s')"
  shows "c = \<lparr>cl_merchant_id = ao_merchant_id r, cl_action_id = ao_id r, cl_lease_token = cl_lease_token c\<rparr>
    \<and> (\<forall>k. stored_action s' k =
         (if k = action_key r then map_option (leased_action now d (cl_lease_token c)) (stored_action s k)
          else stored_action s k))"
proof -
  let ?s = "s\<lparr>db_uuids := Suc (db_uuids s)\<rparr>"
  from assms obtain token where
    c: "c = \<lparr>cl_merchant_id = ao_merchant_id r, cl_action_id = ao_id r, cl_lease_token = token\<rparr>" and
    s': "s' = ?s\<lparr>db_actions := update_where (\<lambda>x. action_key x = action_key r) (leased_action now d token) (db_actions ?s)\<rparr>"
    by (auto simp: claim_one_def draw_uuid_def update_action_def result_simps)
  have "stored_action s' k = (if k = action_key r then map_option (leased_action now d token) (stored_action s k)
      else stored_action s k)" for k
    unfolding s' stored_action_update [OF keeps_identity_updates(9)] by simp
  with c show ?thesis by simp
qed

lemma claim_all_leased:
  assumes "mapT (claim_one uuids now d) rs s = Inr (cs, s')" "distinct (map action_key rs)"
    and "\<forall>r\<in>set rs. \<exists>x. stored_action s (action_key r) = Some x \<and> ao_status x = PENDING"
  shows "(\<forall>c\<in>set cs. leased_to s' c (plus_delta now d))
    \<and> (\<forall>k. k \<notin> action_key ` set rs \<longrightarrow> stored_action s' k = stored_action s k)"
  using assms
proof (induction rs arbitrary: s cs)
  case Nil
  then show ?case by (simp add: result_simps)
next
  case (Cons r rs)
  from Cons.prems(1) obtain c t cs' where c: "claim_one uuids now d r s = Inr (c, t)"
    and rest: "mapT (claim_one uuids now d) rs t = Inr (cs', s')" and cs: "cs = c # cs'"
    by (auto simp: result_simps)
  note C = claim_one_InrD [OF c]
  have other: "stored_action t (action_key x) = stored_action s (action_key x)" if "x \<in> set rs" for x
  proof -
    have "action_key x \<noteq> action_key r" using Cons.prems(2) that by (auto simp: image_iff)
    with conjunct2 [OF C] show ?thesis by metis
  qed
  have IH: "\<forall>c\<in>set cs'. leased_to s' c (plus_delta now d)"
    "\<And>k. k \<notin> action_key ` set rs \<Longrightarrow> stored_action s' k = stored_action t k"
    using Cons.IH [OF rest] Cons.prems(2,3) other by auto
  from Cons.prems(3) obtain x where x: "stored_action s (action_key r) = Some x" "ao_status x = PENDING" by auto
  have "stored_action s' (action_key r) = stored_action t (action_key r)"
    using Cons.prems(2) by (intro IH(2)) auto
  then have "stored_action s' (action_key r) = Some (leased_action now d (cl_lease_token c) x)"
    using C x(1) by simp
  with x(2) have "leased_to s' c (plus_delta now d)"
    using conjunct1 [OF C] by (cases c) (simp add: leased_to_def leased_action_def)
  with IH(1) have "\<forall>c\<in>set cs. leased_to s' c (plus_delta now d)" by (simp add: cs)
  moreover have "stored_action s' k = stored_action s k" if "k \<notin> action_key ` set (r # rs)" for k
    using IH(2) [of k] that C by auto
  ultimately show ?case by blast
qed

lemma distinct_map_sort_key_filter: "distinct (map f xs) \<Longrightarrow> distinct (map f (sort_key g (filter p xs)))"
  using distinct_map_filter [of f xs p] by (simp add: distinct_map)

lemma claim_leases:
  assumes "claim_due_actions uuids now d limit s = Inr (cs, s')" "outbox_ok s" "c \<in> set cs"
  shows "leased_to s' c (plus_delta now d)"
proof -
  let ?rs = "take (nat limit) (sort_key (\<lambda>r. (ao_next_attempt_at r, action_key r)) (filter (claimable s now) (db_actions s)))"
  from assms(1) have all: "mapT (claim_one uuids now d) ?rs s = Inr (cs, s')"
    by (auto simp: claim_due_actions_def result_simps)
  have keys: "distinct (map action_key (db_actions s))"
    using assms(2) by (simp add: outbox_ok_def actions_ok_def)
  have "distinct (map action_key ?rs)"
    unfolding take_map [symmetric] by (rule distinct_take [OF distinct_map_sort_key_filter [OF keys]])
  moreover have "\<exists>x. stored_action s (action_key r) = Some x \<and> ao_status x = PENDING" if "r \<in> set ?rs" for r
  proof -
    from that have "r \<in> set (db_actions s)" "claimable s now r" by (auto dest: in_set_takeD)
    then show ?thesis using find_unique_key [OF keys] by (auto simp: stored_action_def claimable_def)
  qed
  ultimately show ?thesis using claim_all_leased [OF all] assms(3) by blast
qed

text \<open>
  Property C32. A lease is exclusive: until it expires, nobody else can claim a claimed action,
  and an attempt begun with any other token is refused.
\<close>

theorem lease_is_exclusive:
  assumes "claim_due_actions uuids now d limit s = Inr (cs, s')" "outbox_ok s" "c \<in> set cs"
    and "later < plus_delta now d" "token \<noteq> cl_lease_token c"
  shows "begin_attempt uuids' (cl_merchant_id c) (cl_action_id c) token later s' =
      Inl (ActionPersistenceError ''STALE_ACTION_LEASE'' ''action lease is no longer owned'')
    \<and> (\<forall>r\<in>set (db_actions s'). action_key r = (cl_merchant_id c, cl_action_id c) \<longrightarrow> \<not> claimable s' later r)"
proof -
  obtain r where r: "stored_action s' (cl_merchant_id c, cl_action_id c) = Some r" "ao_status r = PENDING"
    "ao_lease_token r = Some (cl_lease_token c)" "ao_lease_expires_at r = Some (plus_delta now d)"
    using claim_leases [OF assms(1-3)] by (auto simp: leased_to_def)
  have "outbox_ok s'" using keepsD [OF keeps_claim assms(2,1)] by simp
  then have "distinct (map action_key (db_actions s'))" by (simp add: outbox_ok_def actions_ok_def)
  then have "x = r" if "x \<in> set (db_actions s')" "action_key x = (cl_merchant_id c, cl_action_id c)" for x
    using find_unique_key [of action_key "db_actions s'" x] that r(1) by (simp add: stored_action_def)
  then show ?thesis using r assms(4,5) by (auto simp: claimable_def begin_attempt_def get_action_def run_tx)
qed

section \<open>Storing an action once\<close>

lemma filter_unique_key: "distinct (map key xs) \<Longrightarrow> x \<in> set xs \<Longrightarrow> filter (\<lambda>y. key y = key x) xs = [x]"
proof (induction xs)
  case (Cons y ys)
  show ?case
  proof (cases "x = y")
    case True
    with Cons.prems(1) have "filter (\<lambda>z. key z = key x) ys = []" by (auto simp: filter_empty_conv image_iff)
    with True show ?thesis by simp
  next
    case False
    with Cons show ?thesis by auto
  qed
qed simp

lemma store_existing:
  assumes "outbox_ok s" "stored_action s (ra_merchant_id a, ra_action_id a) = Some r"
    and "ao_idempotency_key r = ra_idempotency_key a" "1 \<le> n" "ra_authorized_at a < d"
  shows "store_action uuids a p c n d s = Inr (r, s)"
proof -
  have r: "r \<in> set (db_actions s)" "action_key r = (ra_merchant_id a, ra_action_id a)"
    using assms(2) by (auto simp: stored_action_def find_Some_iff)
  have "filter (\<lambda>x. ao_idempotency_key x = ao_idempotency_key r) (db_actions s) = [r]"
    by (rule filter_unique_key [OF _ r(1)]) (use assms(1) in \<open>simp add: outbox_ok_def actions_ok_def\<close>)
  with assms(3-5) r(2) show ?thesis by (simp add: store_action_def run_tx)
qed

lemma store_action_stores:
  assumes "store_action uuids a p c n d s = Inr (r, s')" "outbox_ok s"
  shows "stored_action s' (ra_merchant_id a, ra_action_id a) = Some r
    \<and> ao_idempotency_key r = ra_idempotency_key a"
proof -
  have ok: "outbox_ok s'" using keepsD [OF keeps_store_action assms(2,1)] by simp
  have r: "r \<in> set (db_actions s') \<and> action_key r = (ra_merchant_id a, ra_action_id a)
    \<and> ao_idempotency_key r = ra_idempotency_key a"
  proof (cases "s' = s")
    case True
    from assms(1) have f: "filter (\<lambda>x. ao_idempotency_key x = ra_idempotency_key a) (db_actions s) = [r]
        \<and> action_key r = (ra_merchant_id a, ra_action_id a) \<or> s' \<noteq> s"
    proof (cases "filter (\<lambda>x. ao_idempotency_key x = ra_idempotency_key a) (db_actions s) = []")
      case True
      with assms(1) obtain e where "append_entry uuids (authorized_append (action_row a p c n d))
          (s\<lparr>db_actions := db_actions s @ [action_row a p c n d]\<rparr>) = Inr (e, s')"
        by (auto simp: store_action_def result_simps Let_def split: option.splits)
      from append_entry_action_tables(1) [OF this] assms(2)
      have "db_actions s' = db_actions s @ [action_row a p c n d]" by (simp add: outbox_ok_def outbox_core_def)
      then show ?thesis by auto
    next
      case False
      with assms(1) show ?thesis
        by (auto simp: store_action_def result_simps Let_def split: option.splits)
    qed
    with True have "r \<in> set (filter (\<lambda>x. ao_idempotency_key x = ra_idempotency_key a) (db_actions s))" by auto
    then have "r \<in> set (db_actions s) \<and> ao_idempotency_key r = ra_idempotency_key a" by simp
    with f True show ?thesis by auto
  next
    case False
    with assms(1) obtain e where r: "r = action_row a p c n d"
      and e: "append_entry uuids (authorized_append r) (s\<lparr>db_actions := db_actions s @ [r]\<rparr>) = Inr (e, s')"
      by (auto simp: store_action_def result_simps Let_def split: option.splits)
    from append_entry_action_tables(1) [OF e] assms(2)
    have "db_actions s' = db_actions s @ [r]" by (simp add: outbox_ok_def outbox_core_def)
    with r show ?thesis by (simp add: action_row_def)
  qed
  have "distinct (map action_key (db_actions s'))" using ok by (simp add: outbox_ok_def actions_ok_def)
  with r find_unique_key [of action_key "db_actions s'" r] show ?thesis by (simp add: stored_action_def)
qed

text \<open>
  Authorising an action is idempotent: after it is stored, and whatever the outbox
  has done since, storing it again returns the stored row as it stands and writes nothing.
\<close>

theorem store_action_idempotent:
  assumes "store_action uuids a p c n d s = Inr (r, s1)" "outbox_ok s" "outbox_run s1 s2"
    and "1 \<le> n'" "ra_authorized_at a < d'"
  shows "\<exists>r2. store_action uuids' a p' c' n' d' s2 = Inr (r2, s2)
    \<and> stored_action s2 (ra_merchant_id a, ra_action_id a) = Some r2"
proof -
  have "outbox_ok s1" using keepsD [OF keeps_store_action assms(2,1)] by simp
  note R = outbox_run_ok [OF assms(3) this]
  note S = store_action_stores [OF assms(1,2)]
  then obtain r2 where r2: "stored_action s2 (ra_merchant_id a, ra_action_id a) = Some r2"
    "ao_idempotency_key r2 = ra_idempotency_key a"
    using R unfolding grows_def by metis
  with store_existing [OF conjunct1 [OF R] this assms(4,5)] show ?thesis by blast
qed

text \<open>
  A failed action cannot be authorised again under its key: storing the same
  logical action returns the failed row, which no worker will ever claim.
\<close>

theorem failed_action_is_not_retried:
  assumes "outbox_ok s" "stored_action s (ra_merchant_id a, ra_action_id a) = Some r"
    and "ao_idempotency_key r = ra_idempotency_key a" "ao_status r = FAILED"
    and "1 \<le> n" "ra_authorized_at a < d"
  shows "store_action uuids a p c n d s = Inr (r, s) \<and> \<not> claimable s now r"
  using store_existing [OF assms(1-3,5,6)] assms(4) by (simp add: claimable_def)


section \<open>Recovered money\<close>

lemma counted_outcome_action:
  assumes "outcomes_ok rows" "v \<in> set rows" "w \<in> set rows" "counts_as_recovered m v" "counts_as_recovered m w"
    and "vo_action_id v = vo_action_id w"
  shows "v = w"
proof -
  let ?p = "\<lambda>v. vo_is_authoritative v \<and> vo_outcome_status v = SUCCEEDED"
  from assms(1) have "inj_on (\<lambda>v. (vo_merchant_id v, vo_action_id v)) (set (filter ?p rows))"
    by (simp add: outcomes_ok_def unique_index_def distinct_map)
  then show ?thesis
    by (rule inj_onD) (use assms(2-6) in \<open>auto simp: counts_as_recovered_def\<close>)
qed

text \<open>
  Recovered money is counted once: in the totals of a merchant each currency
  appears once, its amount and count are those of its verified outcomes, and no action
  contributes two outcomes, in whatever currency.
\<close>

theorem recovered_totals_once:
  assumes "outbox_ok s" "recovered_totals m s = Inr (ts, s')"
  shows "s' = s \<and> distinct (map rt_currency ts)
    \<and> (\<forall>t\<in>set ts. rt_recovered_amount_minor t =
          (\<Sum>v | v \<in> set (db_outcomes s) \<and> counts_as_recovered m v \<and> vo_currency v = rt_currency t.
             vo_recovered_amount_minor v)
        \<and> rt_verified_action_count t =
          int (card (vo_action_id ` {v \<in> set (db_outcomes s). counts_as_recovered m v \<and> vo_currency v = rt_currency t})))
    \<and> inj_on vo_action_id {v \<in> set (db_outcomes s). counts_as_recovered m v}"
proof -
  let ?rows = "filter (counts_as_recovered m) (db_outcomes s)"
  have ok: "outcomes_ok (db_outcomes s)" using assms(1) by (simp add: outbox_ok_def outbox_core_def)
  then have "distinct (map (\<lambda>v. (vo_merchant_id v, vo_outcome_id v)) (db_outcomes s))" by (simp add: outcomes_ok_def)
  then have rows: "distinct (db_outcomes s)" by (simp add: distinct_map)
  have inj: "inj_on vo_action_id {v \<in> set (db_outcomes s). counts_as_recovered m v}"
    using counted_outcome_action [OF ok] by (auto simp: inj_on_def)
  have s': "s' = s" and ts: "ts = map (\<lambda>currency.
       \<lparr>rt_merchant_id = m, rt_currency = currency,
        rt_recovered_amount_minor = sum_list (map vo_recovered_amount_minor (filter (\<lambda>v. vo_currency v = currency) ?rows)),
        rt_verified_action_count = int (length (filter (\<lambda>v. vo_currency v = currency) ?rows))\<rparr>)
     (sort (remdups (map vo_currency ?rows)))"
    using assms(2) by (auto simp: recovered_totals_def result_simps Let_def)
  have amount: "sum_list (map vo_recovered_amount_minor (filter (\<lambda>v. vo_currency v = cur) ?rows)) =
      (\<Sum>v | v \<in> set (db_outcomes s) \<and> counts_as_recovered m v \<and> vo_currency v = cur. vo_recovered_amount_minor v)" for cur
  proof -
    have d: "distinct (filter (\<lambda>v. vo_currency v = cur) ?rows)" using rows by simp
    have "set (filter (\<lambda>v. vo_currency v = cur) ?rows) =
      {v. v \<in> set (db_outcomes s) \<and> counts_as_recovered m v \<and> vo_currency v = cur}" by auto
    with sum_list_distinct_conv_sum_set [OF d] show ?thesis by simp
  qed
  have count: "length (filter (\<lambda>v. vo_currency v = cur) ?rows) =
      card (vo_action_id ` {v \<in> set (db_outcomes s). counts_as_recovered m v \<and> vo_currency v = cur})" for cur
  proof -
    have "inj_on vo_action_id {v \<in> set (db_outcomes s). counts_as_recovered m v \<and> vo_currency v = cur}"
      using inj by (rule inj_on_subset) auto
    moreover have "set (filter (\<lambda>v. vo_currency v = cur) ?rows) =
      {v \<in> set (db_outcomes s). counts_as_recovered m v \<and> vo_currency v = cur}" by auto
    ultimately show ?thesis
      using distinct_card [of "filter (\<lambda>v. vo_currency v = cur) ?rows"] rows by (simp add: card_image)
  qed
  have "map rt_currency ts = sort (remdups (map vo_currency ?rows))" by (simp add: ts comp_def)
  then have "distinct (map rt_currency ts)" by simp
  moreover have "\<forall>t\<in>set ts. rt_recovered_amount_minor t =
        (\<Sum>v | v \<in> set (db_outcomes s) \<and> counts_as_recovered m v \<and> vo_currency v = rt_currency t. vo_recovered_amount_minor v)
      \<and> rt_verified_action_count t =
        int (card (vo_action_id ` {v \<in> set (db_outcomes s). counts_as_recovered m v \<and> vo_currency v = rt_currency t}))"
    unfolding ts set_map ball_simps by (simp only: amount count RecoveryTotals.select_convs) simp
  ultimately show ?thesis using s' inj by blast
qed

text \<open>
  A second authoritative success for an action is refused, so an action cannot
  recover its money twice.
\<close>

theorem second_success_refused:
  assumes "w \<in> set (db_outcomes s)" "vo_is_authoritative w" "vo_outcome_status w = SUCCEEDED"
    and "vo_is_authoritative v" "vo_outcome_status v = SUCCEEDED"
    and "vo_merchant_id v = vo_merchant_id w" "vo_action_id v = vo_action_id w"
    and "\<forall>x\<in>set (db_outcomes s). (vo_merchant_id x, vo_outcome_id x) \<noteq> (vo_merchant_id v, vo_outcome_id v)"
  shows "store_outcome uuids v s = Inl (IntegrityError ''verified_outcomes'')"
proof -
  have none: "find (\<lambda>w. (vo_merchant_id w, vo_outcome_id w) = (vo_merchant_id v, vo_outcome_id v)) (db_outcomes s) = None"
    using assms(8) by (auto simp: find_None_iff)
  have "\<not> outcomes_ok (db_outcomes s @ [v])"
    using assms(1-7) by (auto simp: outcomes_ok_def unique_index_def intro: rev_image_eqI)
  with none show ?thesis
    by (simp add: store_outcome_def run_tx flush_outcomes_def checkT_def)
qed

end
