(* ===== verification/Outbox_Witnesses.thy ===== *)
theory Outbox_Witnesses
  imports Outbox_Theorems
begin

text \<open>A small outbox that runs through a claim, an attempt and its result.\<close>


section \<open>The sample\<close>

definition sample_action :: RecoveryAction where
  "sample_action =
     \<lparr>ra_action_id = ''action_1'', ra_case_id = ''case_1'', ra_merchant_id = ''merchant_1'',
      ra_decision_receipt_id = ''receipt_1'', ra_action_type = CREATE_PAYMENT_LINK,
      ra_target_type = PAYMENT, ra_target_id = ''pay_1'', ra_logical_attempt = 1,
      ra_idempotency_key = ''rg:v1:key'', ra_status = PENDING,
      ra_parameters = [(''amount_minor'', PInt 12000), (''currency'', PStr ''INR''),
        (''provider_mode'', PStr ''TEST'')],
      ra_authorized_at = Aware 100, ra_execute_after = Aware 100, ra_created_at = Aware 100,
      ra_updated_at = None, ra_schema_version = ''1.0''\<rparr>"

definition sample_action_row :: ActionRow where
  "sample_action_row = action_row sample_action ''policy_1'' ''corr_1'' 3 (Aware 90000)"

definition sample_outbox_with :: "ActionRow \<Rightarrow> action_db" where
  "sample_outbox_with r = \<lparr>db_audit_entries = [], db_audit_heads = Map.empty, db_uuids = 0,
     db_cases = [sample_row], db_transitions = [], db_case_events = [],
     db_actions = [r], db_attempts = [], db_outcomes = []\<rparr>"

definition sample_leased_row :: ActionRow where
  "sample_leased_row = leased_action (Aware 200) 600 ''lease_1'' sample_action_row"

lemma sample_consistent: "consistent (sample_outbox_with r)"
  by (simp add: consistent_def store_ok_def sample_outbox_with_def cases_ok_single case_row_ok_def
      sample_row_def sample_case_def currency_pattern_def is_ascii_upper_def transitions_ok_def
      unique_index_def ledger_ok_def own_entries_def history_ok_def case_log_def TERMINAL_STATES_def)

lemma sample_outbox_ok: "action_row_ok r \<Longrightarrow> outbox_ok (sample_outbox_with r)"
  by (simp add: outbox_ok_def outbox_core_def sample_consistent)
    (simp add: attempts_inv_def open_attempts_def sample_outbox_with_def outcomes_ok_def unique_index_def
      actions_ok_def attempts_ok_def)

lemma sample_row_ok [simp]: "action_row_ok sample_action_row" "action_row_ok sample_leased_row"
  by (simp_all add: action_row_ok_def sample_leased_row_def sample_action_row_def leased_action_def
      action_row_def sample_action_def)

lemma sample_stored [simp]:
  "stored_action (sample_outbox_with r) (ao_merchant_id r, ao_id r) = Some r"
  "db_attempts (sample_outbox_with r) = []" "db_outcomes (sample_outbox_with r) = []"
  "db_actions (sample_outbox_with r) = [r]"
  by (simp_all add: stored_action_def sample_outbox_with_def)

lemma sample_key [simp]:
  "ao_merchant_id sample_action_row = ''merchant_1''" "ao_id sample_action_row = ''action_1''"
  "ao_merchant_id sample_leased_row = ''merchant_1''" "ao_id sample_leased_row = ''action_1''"
  "ao_status sample_leased_row = PENDING" "ao_lease_token sample_leased_row = Some ''lease_1''"
  "ao_lease_expires_at sample_leased_row = Some (Aware 800)" "ao_attempt_count sample_leased_row = 0"
  "ao_max_attempts sample_action_row = 3" "ao_max_attempts sample_leased_row = 3"
  "ao_correlation_id sample_leased_row = ''corr_1''" "ao_correlation_id sample_action_row = ''corr_1''"
  by (simp_all add: sample_action_row_def sample_leased_row_def leased_action_def action_row_def sample_action_def)

abbreviation sample_outbox :: action_db where
  "sample_outbox \<equiv> sample_outbox_with sample_leased_row"

lemma sample_leased_stored [simp]:
  "stored_action sample_outbox (''merchant_1'', ''action_1'') = Some sample_leased_row"
  "stored_action (sample_outbox_with sample_action_row) (''merchant_1'', ''action_1'') = Some sample_action_row"
  using sample_stored(1) [of sample_leased_row] sample_stored(1) [of sample_action_row] by simp_all


section \<open>Its operations go through\<close>

lemma sample_claim:
  "\<exists>s' c. claim_due_actions (\<lambda>_. ''lease_1'') (Aware 200) 600 10 (sample_outbox_with sample_action_row) = Inr ([c], s')
     \<and> cl_merchant_id c = ''merchant_1'' \<and> cl_action_id c = ''action_1'' \<and> cl_lease_token c = ''lease_1''"
proof -
  have "claimable (sample_outbox_with sample_action_row) (Aware 200) sample_action_row"
    by (simp add: claimable_def open_attempts_def)
      (simp add: sample_action_row_def action_row_def sample_action_def)
  moreover have "actions_ok [sample_leased_row]"
    by (simp add: actions_ok_def unique_index_def)
  then have "actions_ok [leased_action (Aware 200) 600 ''lease_1'' sample_action_row]"
    by (simp add: sample_leased_row_def)
  ultimately show ?thesis
    by (simp add: claim_due_actions_def run_tx claim_one_def draw_uuid_def update_action_def
        flush_actions_def checkT_def sample_outbox_with_def)
qed

lemma sample_begin:
  "\<exists>x s'. begin_attempt sample_uuids ''merchant_1'' ''action_1'' ''lease_1'' (Aware 300) sample_outbox = Inr (x, s')"
proof -
  let ?a = "started_action (Aware 300) sample_leased_row"
  let ?t = "new_attempt ?a ''lease_1'' (Aware 300)"
  have a: "actions_ok [?a]"
    by (simp add: actions_ok_def unique_index_def action_row_ok_def started_action_def)
      (simp add: sample_leased_row_def sample_action_row_def leased_action_def action_row_def sample_action_def)
  have t: "attempts_ok [?t]"
    by (simp add: attempts_ok_def attempt_row_ok_def) (simp add: new_attempt_def)
  have "validate_append (started_append ?a ?t (Aware 300)) = Inr ()"
    by (simp add: validate_append_def started_append_def new_append_def raise_first_okI too_long_def
        audit_utc_def Let_def new_attempt_def started_action_def)
  then obtain e s' where "append_entry sample_uuids (started_append ?a ?t (Aware 300))
      (sample_outbox\<lparr>db_attempts := [?t], db_actions := [?a]\<rparr>) = Inr (e, s')"
    using append_entry_returns by blast
  with a t show ?thesis
    by (simp add: begin_attempt_def get_action_def run_tx open_attempts_def update_action_def
        flush_actions_def flush_attempts_def checkT_def Let_def)
qed

definition sample_result :: AttemptResult where
  "sample_result = \<lparr>ar_completed_at = Aware 400, ar_outcome_status = FAILED, ar_response_category = ''TIMEOUT'',
     ar_provider_object_id = None, ar_provider_status_code = None, ar_error_code = Some ''TIMEOUT'',
     ar_response_reference = None, ar_retryable = True, ar_retry_at = Some (Aware 5000),
     ar_reconciliation_deadline = Aware 90000\<rparr>"

text \<open>The outbox after the attempt has begun.\<close>

definition begun_outbox :: action_db where
  "begun_outbox = snd (projr (begin_attempt sample_uuids ''merchant_1'' ''action_1'' ''lease_1'' (Aware 300) sample_outbox))"

lemma begun: "\<exists>x. begin_attempt sample_uuids ''merchant_1'' ''action_1'' ''lease_1'' (Aware 300) sample_outbox = Inr (x, begun_outbox)"
  using sample_begin by (auto simp: begun_outbox_def)

lemma begun_ok: "outbox_ok begun_outbox"
  using begun keepsD [OF keeps_begin sample_outbox_ok [OF sample_row_ok(2)]] by blast

lemma begun_tables:
  "db_actions begun_outbox = [started_action (Aware 300) sample_leased_row]"
  "db_attempts begun_outbox = [new_attempt (started_action (Aware 300) sample_leased_row) ''lease_1'' (Aware 300)]"
proof -
  from begun obtain x where "begin_attempt sample_uuids ''merchant_1'' ''action_1'' ''lease_1'' (Aware 300) sample_outbox
      = Inr (x, begun_outbox)" by blast
  then obtain action s1 e where D: "stored_action sample_outbox (''merchant_1'', ''action_1'') = Some action"
    "s1 = sample_outbox\<lparr>db_attempts := db_attempts sample_outbox @ [new_attempt (started_action (Aware 300) action) ''lease_1'' (Aware 300)],
       db_actions := update_where (\<lambda>r. action_key r = (''merchant_1'', ''action_1'')) (started_action (Aware 300)) (db_actions sample_outbox)\<rparr>"
    "append_entry sample_uuids (started_append (started_action (Aware 300) action)
       (new_attempt (started_action (Aware 300) action) ''lease_1'' (Aware 300)) (Aware 300)) s1 = Inr (e, begun_outbox)"
    by (rule begin_attempt_InrD)
  have "consistent s1" using sample_consistent by (simp add: D(2))
  from append_entry_action_tables [OF D(3) this] D(1)
  show "db_actions begun_outbox = [started_action (Aware 300) sample_leased_row]"
    "db_attempts begun_outbox = [new_attempt (started_action (Aware 300) sample_leased_row) ''lease_1'' (Aware 300)]"
    by (simp_all add: D(2))
qed

lemma begun_open: "open_attempts begun_outbox (''merchant_1'', ''action_1'') =
    [new_attempt (started_action (Aware 300) sample_leased_row) ''lease_1'' (Aware 300)]"
  by (simp add: open_attempts_def begun_tables new_attempt_def started_action_def)

lemma begun_stored: "stored_action begun_outbox (''merchant_1'', ''action_1'') = Some (started_action (Aware 300) sample_leased_row)"
  by (simp add: stored_action_def begun_tables started_action_def)

lemma begun_finish:
  "\<exists>x s'. finish_attempt sample_uuids ''merchant_1'' ''action_1'' ''lease_1'' sample_result begun_outbox = Inr (x, s')"
proof -
  let ?a = "started_action (Aware 300) sample_leased_row"
  have r: "retries sample_result ?a" by (simp add: retries_def sample_result_def started_action_def)
  have "actions_ok [retried_action sample_result ?a]"
    by (simp add: actions_ok_def unique_index_def action_row_ok_def retried_action_def released_action_def
        started_action_def sample_result_def)
      (simp add: sample_leased_row_def sample_action_row_def leased_action_def action_row_def sample_action_def)
  moreover have "attempts_ok [completed_attempt sample_result (new_attempt ?a ''lease_1'' (Aware 300))]"
    by (simp add: attempts_ok_def attempt_row_ok_def completed_attempt_def sample_result_def new_attempt_def)
  ultimately show ?thesis
    using r by (simp add: finish_attempt_def get_action_def run_tx begun_stored begun_open begun_tables
        update_action_def update_attempt_def flush_actions_def flush_attempts_def checkT_def Let_def)
      (simp add: started_action_def)
qed

lemma begun_stale:
  "\<exists>x s'. mark_stale_inflight_unknown (''merchant_1'', ''action_1'') (Aware 900) (Aware 90000) begun_outbox = Inr (x, s')"
proof -
  let ?a = "started_action (Aware 300) sample_leased_row"
  have "actions_ok [lost_action (Aware 900) (Aware 90000) ?a]"
    by (simp add: actions_ok_def unique_index_def action_row_ok_def lost_action_def started_action_def)
      (simp add: sample_leased_row_def sample_action_row_def leased_action_def action_row_def sample_action_def)
  moreover have "attempts_ok [lost_attempt (Aware 900) (new_attempt ?a ''lease_1'' (Aware 300))]"
    by (simp add: attempts_ok_def attempt_row_ok_def lost_attempt_def new_attempt_def)
  ultimately show ?thesis
    by (simp add: mark_stale_inflight_unknown_def run_tx begun_open begun_tables
        update_action_def update_attempt_def flush_actions_def flush_attempts_def checkT_def)
      (simp add: started_action_def)
qed

section \<open>Witnesses\<close>

lemma sample_run: "outbox_run sample_outbox begun_outbox"
proof -
  from begun obtain x where "begin_attempt sample_uuids ''merchant_1'' ''action_1'' ''lease_1'' (Aware 300) sample_outbox
      = Inr (x, begun_outbox)" by blast
  then show ?thesis by (rule outbox_run.started [OF outbox_run.none])
qed

theorem provider_calls_bounded_witness:
  "outbox_run sample_outbox begun_outbox
   \<and> length (open_attempts begun_outbox (''merchant_1'', ''action_1'')) = 1
   \<and> length (filter (\<lambda>t. attempt_action t = (''merchant_1'', ''action_1'')) (db_attempts begun_outbox)) \<le> 3"
proof -
  have "ao_max_attempts (started_action (Aware 300) sample_leased_row) = 3" by (simp add: started_action_def)
  with provider_calls_bounded [OF sample_run sample_outbox_ok [OF sample_row_ok(2)] begun_stored] sample_run
  show ?thesis by (simp add: begun_open)
qed

theorem result_recorded_once_witness:
  "\<exists>x s'. finish_attempt sample_uuids ''merchant_1'' ''action_1'' ''lease_1'' sample_result begun_outbox = Inr (x, s')
     \<and> finish_attempt sample_uuids ''merchant_1'' ''action_1'' ''lease_1'' sample_result s' =
         Inl (ActionPersistenceError ''ACTION_ATTEMPT_NOT_OPEN'' ''attempt is already complete'')"
  using begun_finish result_recorded_once [OF begun_ok] by blast

theorem lost_worker_cannot_report_witness:
  "\<exists>x s'. mark_stale_inflight_unknown (''merchant_1'', ''action_1'') (Aware 900) (Aware 90000) begun_outbox = Inr (x, s')
     \<and> finish_attempt sample_uuids ''merchant_1'' ''action_1'' ''lease_1'' sample_result s' =
         Inl (ActionPersistenceError ''ACTION_ATTEMPT_NOT_OPEN'' ''attempt is already complete'')"
  using begun_stale lost_worker_cannot_report [OF begun_ok] by blast

theorem lease_is_exclusive_witness:
  "\<exists>s' :: action_db. begin_attempt sample_uuids ''merchant_1'' ''action_1'' ''other'' (Aware 500) s' =
      Inl (ActionPersistenceError ''STALE_ACTION_LEASE'' ''action lease is no longer owned'')
    \<and> db_actions s' \<noteq> []"
proof -
  obtain s' c where claim: "claim_due_actions (\<lambda>_. ''lease_1'') (Aware 200) 600 10 (sample_outbox_with sample_action_row)
      = Inr ([c], s')"
    and c: "cl_merchant_id c = ''merchant_1''" "cl_action_id c = ''action_1''" "cl_lease_token c = ''lease_1''"
    using sample_claim by blast
  have ok: "outbox_ok (sample_outbox_with sample_action_row)" by (rule sample_outbox_ok) simp
  have "grows (sample_outbox_with sample_action_row) s'"
    using keepsD [OF keeps_claim ok claim] by simp
  then have "\<exists>r. stored_action s' (''merchant_1'', ''action_1'') = Some r"
    unfolding grows_def using sample_leased_stored(2) by blast
  then have "db_actions s' \<noteq> []" by (auto simp: stored_action_def)
  moreover have "begin_attempt sample_uuids ''merchant_1'' ''action_1'' ''other'' (Aware 500) s' =
      Inl (ActionPersistenceError ''STALE_ACTION_LEASE'' ''action lease is no longer owned'')"
    using lease_is_exclusive [OF claim ok, of c "Aware 500" "''other''" sample_uuids] c by simp
  ultimately show ?thesis by blast
qed

theorem store_action_idempotent_witness:
  "\<exists>r s1. store_action sample_uuids sample_action ''policy_1'' ''corr_1'' 3 (Aware 90000) sample_outbox = Inr (r, s1)
     \<and> (\<exists>r2. store_action sample_uuids sample_action ''policy_1'' ''corr_1'' 3 (Aware 90000) s1 = Inr (r2, s1))"
proof -
  have ok: "outbox_ok sample_outbox" by (rule sample_outbox_ok) simp
  have s: "store_action sample_uuids sample_action ''policy_1'' ''corr_1'' 3 (Aware 90000) sample_outbox
      = Inr (sample_leased_row, sample_outbox)"
    by (rule store_existing [OF ok]) (simp_all add: sample_action_def
      , simp add: sample_leased_row_def sample_action_row_def leased_action_def action_row_def sample_action_def)
  have "ra_authorized_at sample_action < Aware 90000" by (simp add: sample_action_def)
  from store_action_idempotent [OF s ok outbox_run.none _ this, of 3] s show ?thesis by auto
qed

definition failed_row :: ActionRow where
  "failed_row = cancelled_action (Aware 250) ''CASE_CLOSED'' sample_action_row"

theorem failed_action_is_not_retried_witness:
  "store_action sample_uuids sample_action ''policy_1'' ''corr_1'' 3 (Aware 90000) (sample_outbox_with failed_row)
     = Inr (failed_row, sample_outbox_with failed_row)
   \<and> \<not> claimable (sample_outbox_with failed_row) (Aware 1000) failed_row"
proof (rule failed_action_is_not_retried)
  show "outbox_ok (sample_outbox_with failed_row)"
    by (rule sample_outbox_ok)
      (simp add: action_row_ok_def failed_row_def cancelled_action_def sample_action_row_def action_row_def sample_action_def)
  show "stored_action (sample_outbox_with failed_row) (ra_merchant_id sample_action, ra_action_id sample_action) = Some failed_row"
    using sample_stored(1) [of failed_row]
    by (simp add: failed_row_def cancelled_action_def sample_action_def)
qed (simp_all add: failed_row_def cancelled_action_def sample_action_row_def action_row_def sample_action_def)

definition paid_outbox :: action_db where
  "paid_outbox = sample_outbox\<lparr>db_outcomes := [sample_outcome]\<rparr>"

lemma paid_ok: "outbox_ok paid_outbox"
proof -
  have "outcomes_ok [sample_outcome]"
    by (simp add: outcomes_ok_def unique_index_def outcome_row_ok_def sample_outcome_def currency_pattern_def
        is_ascii_upper_def)
  with sample_outbox_ok [OF sample_row_ok(2)] show ?thesis
    by (simp add: outbox_ok_def outbox_core_def paid_outbox_def)
qed

theorem recovered_totals_once_witness:
  "\<exists>t s'. recovered_totals ''merchant_1'' paid_outbox = Inr ([t], s')
     \<and> rt_recovered_amount_minor t = 12000 \<and> rt_verified_action_count t = 1 \<and> s' = paid_outbox"
proof -
  have c: "counts_as_recovered ''merchant_1'' sample_outcome"
    by (simp add: counts_as_recovered_def sample_outcome_def)
  then obtain t where r: "recovered_totals ''merchant_1'' paid_outbox = Inr ([t], paid_outbox)"
    "rt_recovered_amount_minor t = 12000" "rt_verified_action_count t = 1"
    by (auto simp: recovered_totals_def run_tx Let_def paid_outbox_def) (simp add: sample_outcome_def)
  from recovered_totals_once [OF paid_ok r(1)] r show ?thesis by blast
qed

theorem second_success_refused_witness:
  "store_outcome sample_uuids (sample_outcome\<lparr>vo_outcome_id := ''outcome_2''\<rparr>) paid_outbox =
     Inl (IntegrityError ''verified_outcomes'')"
  by (rule second_success_refused [of sample_outcome]) (simp_all add: paid_outbox_def sample_outcome_def)

end
