(* ===== verification/Diagnosis.thy ===== *)
theory Diagnosis
  imports Policy_Evaluation Digests
begin

text \<open>
  \<open>revenueguard_domain/diagnosis.py\<close>: the case an event belongs to, and the deterministic
  diagnosis with its ranked recovery candidates.
\<close>


section \<open>Data\<close>

record CaseIdentity =
  id_workflow_type :: WorkflowType
  id_subject_type :: SubjectType
  id_subject_id :: string
  id_episode_key :: "string option"

record Diagnosis =
  dg_code :: string
  dg_confidence_basis_points :: int
  dg_candidates :: "CandidateAction list"
  dg_defer_until :: "datetime option"
  dg_terminal :: bool

datatype CandidateTemplate =
  CandidateTemplate (tp_action_type: ActionType) (tp_probability_basis_points: int)
    (tp_expected_value_basis_points: int) (tp_channel: "ContactChannel option")

text \<open>The table \<open>_DIAGNOSES\<close>: code, confidence, templates and seconds to defer.\<close>

fun DIAGNOSES :: "NormalizedFailureCategory \<Rightarrow> (string \<times> int \<times> CandidateTemplate list \<times> int) option" where
  "DIAGNOSES INSUFFICIENT_FUNDS = Some (''TEMPORARY_INSUFFICIENT_FUNDS'', 9000,
     [CandidateTemplate DEFER_RETRY 7200 7000 None,
      CandidateTemplate REQUEST_PAYMENT_METHOD_UPDATE 5200 4800 (Some EMAIL)], 86400)"
| "DIAGNOSES EXPIRED_PAYMENT_METHOD = Some (''EXPIRED_PAYMENT_METHOD'', 9700,
     [CandidateTemplate REQUEST_PAYMENT_METHOD_UPDATE 8000 7500 (Some EMAIL),
      CandidateTemplate CREATE_PAYMENT_LINK 6200 5500 None], 0)"
| "DIAGNOSES AUTHENTICATION_FAILURE = Some (''PAYMENT_AUTHENTICATION_REQUIRED'', 9300,
     [CandidateTemplate REQUEST_PAYMENT_METHOD_UPDATE 7200 6500 (Some EMAIL),
      CandidateTemplate CREATE_PAYMENT_LINK 6100 5300 None], 0)"
| "DIAGNOSES CUSTOMER_ACTION_REQUIRED = Some (''CUSTOMER_ACTION_REQUIRED'', 9400,
     [CandidateTemplate REQUEST_PAYMENT_METHOD_UPDATE 7600 6800 (Some EMAIL),
      CandidateTemplate SEND_REMINDER 5600 4500 (Some EMAIL)], 0)"
| "DIAGNOSES ISSUER_UNAVAILABLE = Some (''ISSUER_TEMPORARILY_UNAVAILABLE'', 8800,
     [CandidateTemplate DEFER_RETRY 7800 7300 None,
      CandidateTemplate PAUSE_RETRIES 1000 0 None], 3600)"
| "DIAGNOSES GATEWAY_UNAVAILABLE = Some (''GATEWAY_TEMPORARILY_UNAVAILABLE'', 9000,
     [CandidateTemplate PAUSE_RETRIES 1000 0 None,
      CandidateTemplate DEFER_RETRY 7600 7100 None], 1800)"
| "DIAGNOSES NormalizedFailureCategory.UNKNOWN = Some (''UNKNOWN_PAYMENT_FAILURE'', 3000,
     [CandidateTemplate DEFER_RETRY 3000 0 None,
      CandidateTemplate ESCALATE_HUMAN 1000 0 None], 900)"
| "DIAGNOSES c = None"


section \<open>The case of an event\<close>

definition case_subject :: "RevenueRiskEvent \<Rightarrow> (SubjectType \<times> string \<times> WorkflowType) option" where
  "case_subject e =
     (if truthy (ev_subscription_id e) then Some (SUBSCRIPTION, the (ev_subscription_id e), FAILED_SUBSCRIPTION)
      else if truthy (ev_invoice_id e) then Some (INVOICE, the (ev_invoice_id e), B2B_PROMISE_TO_PAY)
      else if truthy (ev_payment_id e) then Some (PAYMENT, the (ev_payment_id e), PAYMENT_DEGRADATION)
      else None)"

definition episode_reference :: "RevenueRiskEvent \<Rightarrow> WorkflowType \<Rightarrow> string option" where
  "episode_reference e workflow =
     (if workflow = PAYMENT_DEGRADATION
      then or_else (or_else (ev_order_id e) (ev_payment_link_id e)) (ev_payment_id e)
      else if workflow = FAILED_SUBSCRIPTION then or_else (ev_payment_id e) (ev_subscription_id e)
      else ev_invoice_id e)"

definition episode_material :: "string \<Rightarrow> WorkflowType \<Rightarrow> SubjectType \<Rightarrow> string \<Rightarrow> string" where
  "episode_material merchant_id workflow subject_type reference =
     join '':'' [merchant_id, workflow_value workflow, subject_value subject_type, reference]"

definition select_case_identity :: "RevenueRiskEvent \<Rightarrow> CaseIdentity option" where
  "select_case_identity e =
     (case case_subject e of
        None \<Rightarrow> None
      | Some (subject_type, subject_id, workflow) \<Rightarrow>
          let reference = episode_reference e workflow in
          Some \<lparr>id_workflow_type = workflow, id_subject_type = subject_type, id_subject_id = subject_id,
            id_episode_key =
              (if truthy reference
               then Some (sha256_hex (episode_material (ev_merchant_id e) workflow subject_type (the reference)))
               else None)\<rparr>)"


section \<open>Diagnosis\<close>

definition event_target :: "RevenueRiskEvent \<Rightarrow> string" where
  "event_target e =
     or_default (or_else (or_else (or_else (ev_subscription_id e) (ev_invoice_id e)) (ev_payment_id e))
       (ev_customer_id e)) (ev_event_id e)"

text \<open>\<open>CandidateAction(...)\<close> with the defaults of the fields a diagnosis does not set.\<close>

definition new_candidate ::
    "ActionType \<Rightarrow> int \<Rightarrow> int \<Rightarrow> int \<Rightarrow> string \<Rightarrow> ContactChannel option \<Rightarrow> CandidateAction result" where
  "new_candidate action_type probability value rank target channel =
     post_init_candidate
       \<lparr>ca_action_type = action_type, ca_recovery_probability_basis_points = probability,
        ca_expected_net_recovery_minor = value, ca_rank = rank, ca_target = target,
        ca_logical_attempt = 1, ca_channel = channel, ca_action_cost_minor = 0,
        ca_risk_penalty_minor = 0, ca_customer_friction_penalty_minor = 0\<rparr>"

definition no_action :: "RevenueRiskEvent \<Rightarrow> int \<Rightarrow> CandidateAction result" where
  "no_action e rank = new_candidate ActionType.NO_ACTION 0 0 rank (event_target e) None"

fun template_candidates :: "RevenueRiskEvent \<Rightarrow> int \<Rightarrow> CandidateTemplate list \<Rightarrow> CandidateAction list result" where
  "template_candidates e rank [] = Inr []"
| "template_candidates e rank (t # ts) =
     bindR (new_candidate (tp_action_type t) (tp_probability_basis_points t)
       (ev_amount_minor e * tp_expected_value_basis_points t div 10000) rank (event_target e) (tp_channel t)) (\<lambda>c.
     bindR (template_candidates e (rank + 1) ts) (\<lambda>cs. Inr (c # cs)))"

definition diagnose_event :: "RevenueRiskEvent \<Rightarrow> Diagnosis option result" where
  "diagnose_event e =
     (if ev_event_type e = ''invoice.overdue'' \<and> truthy (ev_invoice_id e) then
        bindR (new_candidate SEND_REMINDER 6500 (ev_amount_minor e * 6000 div 10000) 1
          (the (ev_invoice_id e)) (Some EMAIL)) (\<lambda>reminder.
        bindR (new_candidate ESCALATE_HUMAN 1000 0 2 (the (ev_invoice_id e)) None) (\<lambda>escalate.
        bindR (no_action e 3) (\<lambda>nothing.
        Inr (Some \<lparr>dg_code = ''INVOICE_OVERDUE'', dg_confidence_basis_points = 10000,
          dg_candidates = [reminder, escalate, nothing], dg_defer_until = None, dg_terminal = False\<rparr>))))
      else if ev_failure_category e = NormalizedFailureCategory.NONE then Inr None
      else if ev_failure_category e = DISPUTE then
        bindR (new_candidate STOP_AUTOMATION 0 0 1 (event_target e) None) (\<lambda>stop.
        bindR (no_action e 2) (\<lambda>nothing.
        Inr (Some \<lparr>dg_code = ''PAYMENT_DISPUTED'', dg_confidence_basis_points = 10000,
          dg_candidates = [stop, nothing], dg_defer_until = None, dg_terminal = True\<rparr>)))
      else (case DIAGNOSES (ev_failure_category e) of
          None \<Rightarrow> Inl (LookupError (failure_category_value (ev_failure_category e)))
        | Some (code, confidence, templates, defer_seconds) \<Rightarrow>
            bindR (template_candidates e 1 templates) (\<lambda>candidates.
            bindR (no_action e (int (length candidates) + 1)) (\<lambda>nothing.
            Inr (Some \<lparr>dg_code = code, dg_confidence_basis_points = confidence,
              dg_candidates = candidates @ [nothing],
              dg_defer_until = (if defer_seconds \<noteq> 0
                then Some (plus_delta (ev_occurred_at e) (seconds defer_seconds)) else None),
              dg_terminal = False\<rparr>)))))"

section \<open>One episode, one case\<close>

lemma episode_material_inject:
  "episode_material m w s r = episode_material m w' s' r' \<longleftrightarrow> w = w' \<and> s = s' \<and> r = r'"
  by (cases w; cases w'; cases s; cases s') (simp_all add: episode_material_def)

interpretation episodes: digest_scheme "\<lambda>(w, s, r). episode_material m w s r" "\<lambda>x. x" for m
  by unfold_locales (auto simp: episode_material_inject)

text \<open>
  Two events of a merchant are about the same recovery episode exactly when they
  agree on the workflow, the kind of subject and the reference that delimits it (the order of
  a payment, the payment of a subscription, the invoice), up to a SHA-256 collision.
\<close>

theorem episode_key_identifies:
  assumes "select_case_identity e = Some i" "select_case_identity f = Some j"
    and "id_episode_key i = Some k" "id_episode_key j = Some l" "ev_merchant_id e = ev_merchant_id f"
  shows "k = l \<longleftrightarrow>
    (id_workflow_type i = id_workflow_type j \<and> id_subject_type i = id_subject_type j
       \<and> episode_reference e (id_workflow_type i) = episode_reference f (id_workflow_type j))
    \<or> sha_collision
        (episode_material (ev_merchant_id e) (id_workflow_type i) (id_subject_type i)
           (the (episode_reference e (id_workflow_type i))))
        (episode_material (ev_merchant_id f) (id_workflow_type j) (id_subject_type j)
           (the (episode_reference f (id_workflow_type j))))"
proof -
  have "k = episodes.digest (ev_merchant_id e)
      (id_workflow_type i, id_subject_type i, the (episode_reference e (id_workflow_type i)))
    \<and> episode_reference e (id_workflow_type i) \<noteq> None"
    using assms(1,3)
    by (auto simp: select_case_identity_def episodes.digest_def Let_def truthy_def split: option.splits if_splits)
  moreover have "l = episodes.digest (ev_merchant_id e)
      (id_workflow_type j, id_subject_type j, the (episode_reference f (id_workflow_type j)))
    \<and> episode_reference f (id_workflow_type j) \<noteq> None"
    using assms(2,4,5)
    by (auto simp: select_case_identity_def episodes.digest_def Let_def truthy_def split: option.splits if_splits)
  ultimately show ?thesis
    using assms(5) by (auto simp: episodes.digest_eq_iff)
qed


section \<open>A diagnosis fits the policy\<close>

lemma new_candidate_Inr:
  "new_candidate t p v r g c = Inr a \<Longrightarrow>
   wf_candidate a \<and> ca_rank a = r \<and> ca_action_type a = t \<and> ca_expected_net_recovery_minor a = v
   \<and> ca_target a = g"
  by (auto simp: new_candidate_def post_init_candidate_def wf_candidate_def bindR_eq_Inr)

lemma new_candidate_ok:
  assumes "0 \<le> p" "p \<le> 10000" "1 \<le> r" "g \<noteq> []" "ACTION_CLASSES t = CUSTOMER_CONTACT \<longleftrightarrow> c \<noteq> None"
  shows "\<exists>a. new_candidate t p v r g c = Inr a"
  using assms by (auto simp: new_candidate_def post_init_candidate_def raise_first_okI)

lemma event_target_nonempty: "wf_event e \<Longrightarrow> event_target e \<noteq> []"
  using wf_eventD(1) by (auto simp: event_target_def or_else_def or_default_def split: option.splits)

lemma no_action_ok: "wf_event e \<Longrightarrow> 1 \<le> r \<Longrightarrow> \<exists>a. no_action e r = Inr a"
  unfolding no_action_def using event_target_nonempty by (intro new_candidate_ok) auto

definition template_ok :: "CandidateTemplate \<Rightarrow> bool" where
  "template_ok t \<longleftrightarrow> 0 \<le> tp_probability_basis_points t \<and> tp_probability_basis_points t \<le> 10000
     \<and> 0 \<le> tp_expected_value_basis_points t \<and> tp_expected_value_basis_points t \<le> 10000
     \<and> (ACTION_CLASSES (tp_action_type t) = CUSTOMER_CONTACT \<longleftrightarrow> tp_channel t \<noteq> None)"

lemma DIAGNOSES_ok:
  "DIAGNOSES c = Some (code, confidence, ts, d) \<Longrightarrow>
   (\<forall>t\<in>set ts. template_ok t) \<and> 0 \<le> confidence \<and> confidence \<le> 10000 \<and> 0 \<le> d"
  by (cases c) (auto simp: template_ok_def)

lemma DIAGNOSES_total: "c \<noteq> NormalizedFailureCategory.NONE \<Longrightarrow> c \<noteq> DISPUTE \<Longrightarrow> DIAGNOSES c \<noteq> None"
  by (cases c) auto

lemma share_bounds:
  assumes "0 \<le> (a :: int)" "0 \<le> b" "b \<le> 10000"
  shows "0 \<le> a * b div 10000" "a * b div 10000 \<le> a"
proof -
  show "0 \<le> a * b div 10000" using assms by (simp add: pos_imp_zdiv_nonneg_iff)
  have "a * b \<le> a * 10000" using assms by (intro mult_left_mono) auto
  then have "a * b div 10000 \<le> a * 10000 div 10000" by (intro zdiv_mono1) auto
  then show "a * b div 10000 \<le> a" by simp
qed

definition candidate_fits :: "RevenueRiskEvent \<Rightarrow> CandidateAction \<Rightarrow> bool" where
  "candidate_fits e a \<longleftrightarrow> wf_candidate a \<and> 0 \<le> ca_expected_net_recovery_minor a
     \<and> ca_expected_net_recovery_minor a \<le> ev_amount_minor e"

lemma template_candidates_ok:
  assumes "wf_event e" "\<forall>t\<in>set ts. template_ok t" "1 \<le> r"
  shows "\<exists>cs. template_candidates e r ts = Inr cs \<and> length cs = length ts
    \<and> map ca_rank cs = [r..r + int (length ts) - 1] \<and> (\<forall>a\<in>set cs. candidate_fits e a)"
  using assms(2,3)
proof (induction ts arbitrary: r)
  case (Cons t ts)
  have t: "template_ok t" using Cons.prems by simp
  then obtain a where a: "new_candidate (tp_action_type t) (tp_probability_basis_points t)
      (ev_amount_minor e * tp_expected_value_basis_points t div 10000) r (event_target e) (tp_channel t) = Inr a"
    using new_candidate_ok event_target_nonempty [OF assms(1)] Cons.prems(2) by (metis template_ok_def)
  note A = new_candidate_Inr [OF a]
  from Cons.IH [of "r + 1"] Cons.prems obtain cs where cs: "template_candidates e (r + 1) ts = Inr cs"
    "length cs = length ts" "map ca_rank cs = [r + 1..r + 1 + int (length ts) - 1]" "\<forall>a\<in>set cs. candidate_fits e a"
    by auto
  have "candidate_fits e a"
    using A share_bounds [OF wf_eventD(3) [OF assms(1)]] t by (simp add: candidate_fits_def template_ok_def)
  moreover have "[r..r + int (length (t # ts)) - 1] = r # [r + 1..r + 1 + int (length ts) - 1]"
    by (subst upto.simps) simp
  ultimately show ?case using a A cs by simp
qed simp

text \<open>What \<open>PolicyEvaluationInput\<close> requires of the candidates of a diagnosis.\<close>

definition diagnosis_fits :: "RevenueRiskEvent \<Rightarrow> Diagnosis \<Rightarrow> bool" where
  "diagnosis_fits e d \<longleftrightarrow>
     map ca_rank (dg_candidates d) = ranks_from_one (length (dg_candidates d))
     \<and> dg_candidates d \<noteq> [] \<and> ca_action_type (last (dg_candidates d)) = ActionType.NO_ACTION
     \<and> (\<forall>a\<in>set (dg_candidates d). candidate_fits e a)
     \<and> 0 \<le> dg_confidence_basis_points d \<and> dg_confidence_basis_points d \<le> 10000
     \<and> (\<forall>t\<in>set_option (dg_defer_until d). is_aware t \<and> ev_occurred_at e < t)"

lemma overdue_diagnosis:
  assumes "wf_event e" "ev_event_type e = ''invoice.overdue''" "truthy (ev_invoice_id e)"
  shows "\<exists>d. diagnose_event e = Inr (Some d) \<and> diagnosis_fits e d \<and> \<not> dg_terminal d"
proof -
  have target: "the (ev_invoice_id e) \<noteq> []" using assms(3) by (auto simp: truthy_def split: option.splits)
  obtain a where a: "new_candidate SEND_REMINDER 6500 (ev_amount_minor e * 6000 div 10000) 1
      (the (ev_invoice_id e)) (Some EMAIL) = Inr a"
    using new_candidate_ok [of 6500 1 "the (ev_invoice_id e)" SEND_REMINDER "Some EMAIL"] target by auto
  obtain b where b: "new_candidate ESCALATE_HUMAN 1000 0 2 (the (ev_invoice_id e)) None = Inr b"
    using new_candidate_ok [of 1000 2 "the (ev_invoice_id e)" ESCALATE_HUMAN None] target by auto
  obtain c where c: "no_action e 3 = Inr c" using no_action_ok [OF assms(1)] by fastforce
  note A = new_candidate_Inr [OF a] new_candidate_Inr [OF b] new_candidate_Inr [OF c [unfolded no_action_def]]
  have "diagnosis_fits e \<lparr>dg_code = ''INVOICE_OVERDUE'', dg_confidence_basis_points = 10000,
      dg_candidates = [a, b, c], dg_defer_until = None, dg_terminal = False\<rparr>"
    using A share_bounds [OF wf_eventD(3) [OF assms(1)], of 6000] wf_eventD(3) [OF assms(1)]
    by (simp add: diagnosis_fits_def candidate_fits_def ranks_from_one_def upto.simps)
  with assms(2,3) a b c show ?thesis by (simp add: diagnose_event_def)
qed

lemma dispute_diagnosis:
  assumes "wf_event e" "ev_failure_category e = DISPUTE"
    "\<not> (ev_event_type e = ''invoice.overdue'' \<and> truthy (ev_invoice_id e))"
  shows "\<exists>d. diagnose_event e = Inr (Some d) \<and> diagnosis_fits e d \<and> dg_terminal d"
proof -
  obtain b where b: "new_candidate STOP_AUTOMATION 0 0 1 (event_target e) None = Inr b"
    using new_candidate_ok [of 0 1 "event_target e" STOP_AUTOMATION None] event_target_nonempty [OF assms(1)] by auto
  obtain c where c: "no_action e 2 = Inr c" using no_action_ok [OF assms(1)] by fastforce
  note A = new_candidate_Inr [OF b] new_candidate_Inr [OF c [unfolded no_action_def]]
  have "diagnosis_fits e \<lparr>dg_code = ''PAYMENT_DISPUTED'', dg_confidence_basis_points = 10000,
      dg_candidates = [b, c], dg_defer_until = None, dg_terminal = True\<rparr>"
    using A wf_eventD(3) [OF assms(1)]
    by (simp add: diagnosis_fits_def candidate_fits_def ranks_from_one_def upto.simps)
  with assms(2,3) b c show ?thesis by (auto simp: diagnose_event_def)
qed

lemma table_diagnosis:
  assumes "wf_event e" "ev_failure_category e \<noteq> NormalizedFailureCategory.NONE" "ev_failure_category e \<noteq> DISPUTE"
    "\<not> (ev_event_type e = ''invoice.overdue'' \<and> truthy (ev_invoice_id e))"
  shows "\<exists>d. diagnose_event e = Inr (Some d) \<and> diagnosis_fits e d \<and> \<not> dg_terminal d"
proof -
  obtain code confidence ts n where t: "DIAGNOSES (ev_failure_category e) = Some (code, confidence, ts, n)"
    using DIAGNOSES_total [OF assms(2,3)] by auto
  note T = DIAGNOSES_ok [OF t]
  obtain cs where cs: "template_candidates e 1 ts = Inr cs" "length cs = length ts"
    "map ca_rank cs = [1..1 + int (length ts) - 1]" "\<forall>a\<in>set cs. candidate_fits e a"
    using template_candidates_ok [OF assms(1), of ts 1] T by auto
  obtain c where c: "no_action e (int (length cs) + 1) = Inr c" using no_action_ok [OF assms(1)] by fastforce
  note A = new_candidate_Inr [OF c [unfolded no_action_def]]
  have ranks: "[1..int (length cs) + 1] = [1..int (length cs)] @ [int (length cs) + 1]"
    using upto_rec2 [of 1 "int (length cs) + 1"] by simp
  have "diagnosis_fits e \<lparr>dg_code = code, dg_confidence_basis_points = confidence, dg_candidates = cs @ [c],
      dg_defer_until = (if n \<noteq> 0 then Some (plus_delta (ev_occurred_at e) (seconds n)) else None), dg_terminal = False\<rparr>"
    using A T cs ranks wf_eventD(3,5) [OF assms(1)]
    by (simp add: diagnosis_fits_def candidate_fits_def ranks_from_one_def seconds_def add.commute)
  with assms t cs c show ?thesis by (auto simp: diagnose_event_def)
qed

lemma diagnose_event_fits:
  assumes "wf_event e" "diagnose_event e = Inr (Some d)"
  shows "diagnosis_fits e d"
proof (cases "ev_event_type e = ''invoice.overdue'' \<and> truthy (ev_invoice_id e)")
  case True
  with overdue_diagnosis [OF assms(1)] assms(2) show ?thesis by auto
next
  case False
  then have "ev_failure_category e \<noteq> NormalizedFailureCategory.NONE" using assms(2) by (auto simp: diagnose_event_def)
  with False table_diagnosis [OF assms(1)] dispute_diagnosis [OF assms(1)] assms(2) show ?thesis by auto
qed

text \<open>
  Every valid event is diagnosed: no failure category lacks a playbook and no
  candidate is malformed. A diagnosis exists unless the event reports no failure; its
  candidates are ranked from one, end with \<open>NO_ACTION\<close>, promise no more than the amount at
  risk and satisfy the policy's input checks; it is terminal exactly for a dispute.
\<close>

theorem diagnosis_is_valid:
  assumes "wf_event e"
  shows "\<exists>r. diagnose_event e = Inr r
    \<and> (r = None \<longleftrightarrow> ev_failure_category e = NormalizedFailureCategory.NONE
         \<and> \<not> (ev_event_type e = ''invoice.overdue'' \<and> truthy (ev_invoice_id e)))
    \<and> (\<forall>d. r = Some d \<longrightarrow> diagnosis_fits e d
         \<and> (dg_terminal d \<longleftrightarrow> ev_failure_category e = DISPUTE
              \<and> \<not> (ev_event_type e = ''invoice.overdue'' \<and> truthy (ev_invoice_id e))))"
proof (cases "ev_event_type e = ''invoice.overdue'' \<and> truthy (ev_invoice_id e)")
  case True
  with overdue_diagnosis [OF assms] show ?thesis by auto
next
  case overdue: False
  show ?thesis
  proof (cases "ev_failure_category e = NormalizedFailureCategory.NONE \<or> ev_failure_category e = DISPUTE")
    case True
    with overdue dispute_diagnosis [OF assms] show ?thesis by (auto simp: diagnose_event_def)
  next
    case False
    with overdue table_diagnosis [OF assms] show ?thesis by auto
  qed
qed

definition sample_event :: RevenueRiskEvent where
  "sample_event = \<lparr>ev_event_id = ''event_1'', ev_merchant_id = ''merchant_1'', ev_source = RAZORPAY,
     ev_source_event_id = ''rzp_1'', ev_event_type = ''payment.failed'', ev_occurred_at = Aware 1000,
     ev_received_at = Aware 1100, ev_amount_minor = 12000, ev_currency = ''INR'',
     ev_failure_category = INSUFFICIENT_FUNDS, ev_correlation_id = ''corr_1'',
     ev_source_payload_reference = ''webhook_events/1'', ev_customer_id = Some ''cust_1'',
     ev_payment_id = Some ''pay_1'', ev_order_id = Some ''order_1'', ev_subscription_id = None,
     ev_invoice_id = None, ev_payment_link_id = None, ev_failure_code = None, ev_causation_id = None,
     ev_schema_version = ''1.0''\<rparr>"

lemma wf_sample_event: "wf_event sample_event"
  by (simp add: wf_event_def post_init_event_def sample_event_def run_validation
      identifier_check_def optional_identifier_check_def)

theorem diagnosis_is_valid_witness:
  "\<exists>d. diagnose_event sample_event = Inr (Some d) \<and> diagnosis_fits sample_event d \<and> \<not> dg_terminal d"
proof -
  have "ev_failure_category sample_event = INSUFFICIENT_FUNDS" by (simp add: sample_event_def)
  with diagnosis_is_valid [OF wf_sample_event] show ?thesis by (auto simp del: not_None_eq)
qed

theorem episode_key_identifies_witness:
  "\<exists>i j. select_case_identity sample_event = Some i
     \<and> select_case_identity (sample_event\<lparr>ev_payment_id := Some ''pay_2''\<rparr>) = Some j
     \<and> id_episode_key i = id_episode_key j \<and> id_subject_id i \<noteq> id_subject_id j"
proof -
  let ?f = "sample_event\<lparr>ev_payment_id := Some ''pay_2''\<rparr>"
  let ?k = "sha256_hex (episode_material ''merchant_1'' PAYMENT_DEGRADATION PAYMENT ''order_1'')"
  have i: "select_case_identity sample_event = Some \<lparr>id_workflow_type = PAYMENT_DEGRADATION,
      id_subject_type = PAYMENT, id_subject_id = ''pay_1'', id_episode_key = Some ?k\<rparr>"
    and j: "select_case_identity ?f = Some \<lparr>id_workflow_type = PAYMENT_DEGRADATION,
      id_subject_type = PAYMENT, id_subject_id = ''pay_2'', id_episode_key = Some ?k\<rparr>"
    by (simp_all add: select_case_identity_def case_subject_def episode_reference_def or_else_def sample_event_def)
  have "?k = ?k \<longleftrightarrow> True"
    using episode_key_identifies [OF i j, of ?k ?k]
    by (simp add: sample_event_def episode_reference_def or_else_def)
  with i j show ?thesis by simp
qed

end
