(* ===== verification/Portfolio.thy ===== *)
theory Portfolio
  imports Policy_Witnesses "HOL-Library.Multiset" "HOL-Library.Product_Lexorder"
begin

text \<open>
  \<open>revenueguard_domain/portfolio.py\<close>: customer interventions and the scoring that ranks the
  recovery candidates of a case by expected net recovery.

  The probability is computed with the decimal library at 40 digits and rounded half up to
  basis points. It is modelled by the real logistic function rounded half up; the two agree
  unless the exact value lies within \<open>1/10^35\<close> of a rounding boundary. Mappings are association
  lists with distinct keys; their order is never used.
\<close>


section \<open>Customer interventions\<close>

datatype CustomerInterventionStatus = ACTIVE | CLOSED

record CustomerIntervention =
  ci_intervention_id :: string
  ci_merchant_id :: string
  ci_customer_id :: string
  ci_owner_case_id :: string
  ci_action_id :: string
  ci_coordinated_case_ids :: "string list"
  ci_status :: CustomerInterventionStatus
  ci_cooldown_until :: datetime
  ci_model_version :: string
  ci_policy_version :: string
  ci_created_at :: datetime
  ci_updated_at :: datetime
  ci_closed_at :: "datetime option"
  ci_close_reason :: "string option"

definition portfolio_identifier :: "string \<Rightarrow> string \<Rightarrow> bool \<times> exn" where
  "portfolio_identifier name v =
     (blank_or_longer 128 v, ValueError (name @ '' must contain 1 to 128 characters''))"

lemma fst_portfolio_identifier [simp]: "fst (portfolio_identifier n v) = blank_or_longer 128 v"
  by (simp add: portfolio_identifier_def)

definition post_init_intervention :: "CustomerIntervention \<Rightarrow> CustomerIntervention result" where
  "post_init_intervention c =
     bindR (raise_first
       [portfolio_identifier ''intervention_id'' (ci_intervention_id c),
        portfolio_identifier ''merchant_id'' (ci_merchant_id c),
        portfolio_identifier ''customer_id'' (ci_customer_id c),
        portfolio_identifier ''owner_case_id'' (ci_owner_case_id c),
        portfolio_identifier ''action_id'' (ci_action_id c),
        portfolio_identifier ''model_version'' (ci_model_version c),
        portfolio_identifier ''policy_version'' (ci_policy_version c),
        (ci_coordinated_case_ids c = [] \<or> \<not> distinct (ci_coordinated_case_ids c),
           ValueError ''coordinated_case_ids must be non-empty and unique''),
        (ci_owner_case_id c \<notin> set (ci_coordinated_case_ids c),
           ValueError ''owner case must be included in coordinated cases'')]) (\<lambda>_.
     bindR (utc ''cooldown_until'' (ci_cooldown_until c)) (\<lambda>cooldown.
     bindR (utc ''created_at'' (ci_created_at c)) (\<lambda>created.
     bindR (utc ''updated_at'' (ci_updated_at c)) (\<lambda>updated.
     bindR (raise_first
       [(cooldown \<le> created, ValueError ''cooldown_until must follow created_at''),
        (updated < created, ValueError ''updated_at cannot precede created_at'')]) (\<lambda>_.
     let d = c\<lparr>ci_cooldown_until := cooldown, ci_created_at := created, ci_updated_at := updated\<rparr> in
     if ci_status c = ACTIVE then
       bindR (raise_first
         [(ci_closed_at c \<noteq> None \<or> ci_close_reason c \<noteq> None,
             ValueError ''active intervention cannot have close metadata'')]) (\<lambda>_. Inr d)
     else
       bindR (raise_first
         [(ci_closed_at c = None \<or> \<not> truthy (ci_close_reason c),
             ValueError ''closed intervention requires close metadata'')]) (\<lambda>_.
       bindR (utc ''closed_at'' (the (ci_closed_at c))) (\<lambda>closed.
       bindR (raise_first
         [(closed < created, ValueError ''closed_at cannot precede created_at'')]) (\<lambda>_.
       Inr (d\<lparr>ci_closed_at := Some closed\<rparr>)))))))))"


section \<open>Scoring data\<close>

definition SCORING_FEATURE_NAMES :: "string list" where
  "SCORING_FEATURE_NAMES =
     [''amount_bucket'', ''retry_count'', ''aggregate_contact_count'', ''diagnosis_confidence_decile'',
      ''active_systemic_incident'', ''hour_bucket'', ''day_of_month_bucket'']"

datatype ArtifactClassification = SYNTHETIC | PRODUCTION

record LogisticScoringArtifact =
  sa_model_version :: string
  sa_feature_version :: string
  sa_classification :: ArtifactClassification
  sa_intercept_millilogits :: int
  sa_feature_weights_millilogits :: "(string \<times> int) list"
  sa_action_bias_millilogits :: "(ActionType \<times> int) list"
  sa_failure_category_bias_millilogits :: "(string \<times> int) list"

definition post_init_artifact :: "LogisticScoringArtifact \<Rightarrow> LogisticScoringArtifact result" where
  "post_init_artifact a =
     bindR (raise_first
       [portfolio_identifier ''model_version'' (sa_model_version a),
        portfolio_identifier ''feature_version'' (sa_feature_version a),
        (set (map fst (sa_feature_weights_millilogits a)) \<noteq> set SCORING_FEATURE_NAMES,
           ValueError ''feature weights must exactly match the Phase 7 feature schema''),
        ([] \<in> set (map fst (sa_failure_category_bias_millilogits a)),
           ValueError ''failure-category bias keys must be non-empty strings'')])
     (\<lambda>_. Inr a)"

definition zero_weighted :: "string \<Rightarrow> string \<Rightarrow> ArtifactClassification \<Rightarrow> LogisticScoringArtifact result" where
  "zero_weighted model_version feature_version classification =
     post_init_artifact
       \<lparr>sa_model_version = model_version, sa_feature_version = feature_version,
        sa_classification = classification, sa_intercept_millilogits = 0,
        sa_feature_weights_millilogits = map (\<lambda>name. (name, 0)) SCORING_FEATURE_NAMES,
        sa_action_bias_millilogits = [], sa_failure_category_bias_millilogits = []\<rparr>"

record ActionEconomics =
  ec_version :: string
  ec_action_cost_minor :: "(ActionType \<times> int) list"
  ec_risk_penalty_minor :: "(ActionType \<times> int) list"
  ec_customer_friction_penalty_minor :: "(ActionType \<times> int) list"

definition negative_value :: "(ActionType \<times> int) list \<Rightarrow> bool" where
  "negative_value m \<longleftrightarrow> (\<exists>v\<in>set (map snd m). v < 0)"

definition post_init_economics :: "ActionEconomics \<Rightarrow> ActionEconomics result" where
  "post_init_economics e =
     bindR (raise_first
       [portfolio_identifier ''version'' (ec_version e),
        (negative_value (ec_action_cost_minor e),
           ValueError ''action_cost_minor values must be non-negative integers''),
        (negative_value (ec_risk_penalty_minor e),
           ValueError ''risk_penalty_minor values must be non-negative integers''),
        (negative_value (ec_customer_friction_penalty_minor e),
           ValueError ''customer_friction_penalty_minor values must be non-negative integers'')])
     (\<lambda>_. Inr e)"

record RecoveryScoringContext =
  sx_amount_minor :: int
  sx_retry_count :: int
  sx_aggregate_contact_count :: int
  sx_diagnosis_confidence_basis_points :: int
  sx_failure_category :: string
  sx_active_systemic_incident :: bool
  sx_evaluated_at :: datetime

definition post_init_context :: "RecoveryScoringContext \<Rightarrow> RecoveryScoringContext result" where
  "post_init_context c =
     bindR (raise_first
       [(sx_amount_minor c < 0, ValueError ''amount_minor must be a non-negative integer''),
        (sx_retry_count c < 0, ValueError ''retry_count must be a non-negative integer''),
        (sx_aggregate_contact_count c < 0,
           ValueError ''aggregate_contact_count must be a non-negative integer''),
        (sx_diagnosis_confidence_basis_points c < 0 \<or> sx_diagnosis_confidence_basis_points c > 10000,
           ValueError ''diagnosis confidence must be between 0 and 10000''),
        portfolio_identifier ''failure_category'' (sx_failure_category c)]) (\<lambda>_.
     bindR (utc ''evaluated_at'' (sx_evaluated_at c)) (\<lambda>evaluated.
     Inr (c\<lparr>sx_evaluated_at := evaluated\<rparr>)))"

record RecoveryScoringResult =
  sr_candidates :: "CandidateAction list"
  sr_model_version :: string
  sr_feature_version :: string
  sr_economics_version :: string
  sr_artifact_classification :: ArtifactClassification
  sr_fallback_reason :: "string option"

definition synthetic_default_scoring_artifact :: "LogisticScoringArtifact result" where
  "synthetic_default_scoring_artifact =
     post_init_artifact
       \<lparr>sa_model_version = ''phase7-synthetic-logit-1.0'',
        sa_feature_version = ''phase7-portfolio-features-1.0'', sa_classification = SYNTHETIC,
        sa_intercept_millilogits = -200,
        sa_feature_weights_millilogits =
          [(''amount_bucket'', 8), (''retry_count'', -300), (''aggregate_contact_count'', -450),
           (''diagnosis_confidence_decile'', 90), (''active_systemic_incident'', -2000),
           (''hour_bucket'', 20), (''day_of_month_bucket'', 15)],
        sa_action_bias_millilogits =
          [(DEFER_RETRY, 800), (REQUEST_PAYMENT_METHOD_UPDATE, 700), (CREATE_PAYMENT_LINK, 500),
           (SEND_REMINDER, 400), (SCHEDULE_PROMISE_REMINDER, 400), (PAUSE_RETRIES, 100),
           (RESUME_DEFERRED_CASE, 100), (ESCALATE_HUMAN, -1000), (STOP_AUTOMATION, -2000)],
        sa_failure_category_bias_millilogits =
          [(''INSUFFICIENT_FUNDS'', 100), (''EXPIRED_PAYMENT_METHOD'', 250),
           (''AUTHENTICATION_FAILURE'', 100), (''CUSTOMER_ACTION_REQUIRED'', 150),
           (''ISSUER_UNAVAILABLE'', -700), (''GATEWAY_UNAVAILABLE'', -900), (''UNKNOWN'', -1200)]\<rparr>"

definition default_action_economics :: "ActionEconomics result" where
  "default_action_economics =
     post_init_economics
       \<lparr>ec_version = ''phase7-action-economics-1.0'',
        ec_action_cost_minor =
          [(DEFER_RETRY, 25), (CREATE_PAYMENT_LINK, 75), (REQUEST_PAYMENT_METHOD_UPDATE, 100),
           (SEND_REMINDER, 100), (SCHEDULE_PROMISE_REMINDER, 100)],
        ec_risk_penalty_minor =
          [(DEFER_RETRY, 50), (CREATE_PAYMENT_LINK, 100), (REQUEST_PAYMENT_METHOD_UPDATE, 100),
           (SEND_REMINDER, 75), (SCHEDULE_PROMISE_REMINDER, 75)],
        ec_customer_friction_penalty_minor =
          [(DEFER_RETRY, 25), (CREATE_PAYMENT_LINK, 75), (REQUEST_PAYMENT_METHOD_UPDATE, 250),
           (SEND_REMINDER, 200), (SCHEDULE_PROMISE_REMINDER, 150)]\<rparr>"


section \<open>Scoring\<close>

definition feature_values :: "RecoveryScoringContext \<Rightarrow> (string \<times> int) list" where
  "feature_values c =
     [(''amount_bucket'', min (sx_amount_minor c div 10000) 100),
      (''retry_count'', min (sx_retry_count c) 10),
      (''aggregate_contact_count'', min (sx_aggregate_contact_count c) 10),
      (''diagnosis_confidence_decile'', sx_diagnosis_confidence_basis_points c div 1000),
      (''active_systemic_incident'', of_bool (sx_active_systemic_incident c)),
      (''hour_bucket'', hour_of (sx_evaluated_at c) div 6),
      (''day_of_month_bucket'', (day_of_month (sx_evaluated_at c) - 1) div 7)]"

definition lookup :: "('k \<times> int) list \<Rightarrow> 'k \<Rightarrow> int" where
  "lookup m k = (case map_of m k of None \<Rightarrow> 0 | Some v \<Rightarrow> v)"

definition millilogits :: "LogisticScoringArtifact \<Rightarrow> ActionType \<Rightarrow> string \<Rightarrow> (string \<times> int) list \<Rightarrow> int" where
  "millilogits a action_type failure_category features =
     (let m = sa_intercept_millilogits a + lookup (sa_action_bias_millilogits a) action_type
        + lookup (sa_failure_category_bias_millilogits a) failure_category
        + sum_list (map (\<lambda>name. lookup (sa_feature_weights_millilogits a) name * lookup features name)
            SCORING_FEATURE_NAMES)
      in max (-20000) (min 20000 m))"

definition logistic_basis_points :: "int \<Rightarrow> int" where
  "logistic_basis_points m = \<lfloor>10000 / (1 + exp (- (real_of_int m / 1000))) + 1 / 2\<rfloor>"

definition probability_basis_points ::
    "LogisticScoringArtifact \<Rightarrow> ActionType \<Rightarrow> string \<Rightarrow> (string \<times> int) list \<Rightarrow> int" where
  "probability_basis_points a action_type failure_category features =
     logistic_basis_points (millilogits a action_type failure_category features)"

definition scored ::
    "RecoveryScoringContext \<Rightarrow> LogisticScoringArtifact \<Rightarrow> ActionEconomics \<Rightarrow> CandidateAction \<Rightarrow> CandidateAction" where
  "scored context artifact economics c =
     (let t = ca_action_type c;
          probability = probability_basis_points artifact t (sx_failure_category context) (feature_values context);
          action_cost = lookup (ec_action_cost_minor economics) t;
          risk_penalty = lookup (ec_risk_penalty_minor economics) t;
          friction_penalty = lookup (ec_customer_friction_penalty_minor economics) t;
          expected_gross = probability * sx_amount_minor context div 10000
      in c\<lparr>ca_recovery_probability_basis_points := probability,
           ca_expected_net_recovery_minor := expected_gross - action_cost - risk_penalty - friction_penalty,
           ca_action_cost_minor := action_cost, ca_risk_penalty_minor := risk_penalty,
           ca_customer_friction_penalty_minor := friction_penalty\<rparr>)"

definition value_exempt :: "CandidateAction \<Rightarrow> bool" where
  "value_exempt c \<longleftrightarrow> ACTION_CLASSES (ca_action_type c) \<in> EXPECTED_VALUE_EXEMPT_CLASSES"

definition eligible :: "ActionType set \<Rightarrow> CandidateAction \<Rightarrow> bool" where
  "eligible allowed c \<longleftrightarrow> ca_action_type c \<noteq> ActionType.NO_ACTION
     \<and> (ca_action_type c \<in> allowed \<or> ACTION_CLASSES (ca_action_type c) \<in> ALWAYS_ALLOWED_CLASSES)"

definition no_value :: "CandidateAction \<Rightarrow> CandidateAction" where
  "no_value c = c\<lparr>ca_recovery_probability_basis_points := 0, ca_expected_net_recovery_minor := 0,
     ca_action_cost_minor := 0, ca_risk_penalty_minor := 0, ca_customer_friction_penalty_minor := 0\<rparr>"

text \<open>The sort key of the scored candidates.\<close>

definition score_key :: "CandidateAction \<Rightarrow> int \<times> int \<times> string" where
  "score_key c = (- ca_expected_net_recovery_minor c, - ca_recovery_probability_basis_points c,
     action_value (ca_action_type c))"

text \<open>
  The exempt candidates keep their places; the others are drawn in order from the scored ones
  (\<open>next\<close> on an exhausted iterator would raise \<open>StopIteration\<close>, here the candidate stays).
\<close>

fun fill :: "CandidateAction list \<Rightarrow> CandidateAction list \<Rightarrow> CandidateAction list" where
  "fill [] ss = []"
| "fill (c # cs) ss =
     (if value_exempt c then c # fill cs ss
      else case ss of [] \<Rightarrow> c # fill cs [] | s # ss' \<Rightarrow> s # fill cs ss')"

fun enumerate_ranks :: "int \<Rightarrow> CandidateAction list \<Rightarrow> CandidateAction list" where
  "enumerate_ranks n [] = []"
| "enumerate_ranks n (c # cs) = c\<lparr>ca_rank := n\<rparr> # enumerate_ranks (n + 1) cs"

definition rank_candidates_by_expected_net_recovery ::
    "CandidateAction list \<Rightarrow> RecoveryScoringContext \<Rightarrow> LogisticScoringArtifact \<Rightarrow> ActionEconomics \<Rightarrow>
     ActionType set \<Rightarrow> RecoveryScoringResult result" where
  "rank_candidates_by_expected_net_recovery candidates context artifact economics allowed =
     (if candidates = [] \<or> ca_action_type (last candidates) \<noteq> ActionType.NO_ACTION
      then Inl (ValueError ''candidate list must end with NO_ACTION'')
      else
        let original = filter (eligible allowed) candidates;
            scores = sort_key score_key
              (map (scored context artifact economics) (filter (\<lambda>c. \<not> value_exempt c) original));
            nothing = no_value (last candidates)
        in bindR (mapR post_init_candidate (enumerate_ranks 1 (fill original scores @ [nothing]))) (\<lambda>ranked.
           Inr \<lparr>sr_candidates = ranked, sr_model_version = sa_model_version artifact,
                sr_feature_version = sa_feature_version artifact,
                sr_economics_version = ec_version economics,
                sr_artifact_classification = sa_classification artifact, sr_fallback_reason = None\<rparr>))"

section \<open>The probability\<close>

lemma logistic_basis_points_bounds: "0 \<le> logistic_basis_points m" "logistic_basis_points m \<le> 10000"
proof -
  let ?p = "10000 / (1 + exp (- (real_of_int m / 1000)))"
  have "0 < ?p" by (simp add: add_pos_pos)
  moreover have "?p < 10000"
    by (simp add: divide_less_eq add_pos_pos)
  ultimately show "0 \<le> logistic_basis_points m" "logistic_basis_points m \<le> 10000"
    unfolding logistic_basis_points_def by linarith+
qed

lemma logistic_basis_points_mono: "m \<le> n \<Longrightarrow> logistic_basis_points m \<le> logistic_basis_points n"
  unfolding logistic_basis_points_def
  by (intro floor_mono add_right_mono divide_left_mono add_left_mono) (auto intro!: mult_pos_pos add_pos_pos)

lemma logistic_basis_points_zero: "logistic_basis_points 0 = 5000"
  by (simp add: logistic_basis_points_def)


section \<open>The ranking\<close>

lemma fill_Nil [simp]: "fill cs [] = cs"
  by (induction cs) auto

lemma length_fill [simp]: "length (fill cs ss) = length cs"
  by (induction cs ss rule: fill.induct) (auto split: list.splits)

lemma enumerate_ranks_length [simp]: "length (enumerate_ranks n cs) = length cs"
  by (induction cs arbitrary: n) auto

lemma enumerate_ranks_ranks: "map ca_rank (enumerate_ranks n cs) = [n..n + int (length cs) - 1]"
proof (induction cs arbitrary: n)
  case (Cons c cs)
  have "[n..n + int (length (c # cs)) - 1] = n # [n + 1..n + 1 + int (length cs) - 1]"
    by (subst upto.simps) simp
  with Cons [of "n + 1"] show ?case by simp
qed simp

text \<open>A candidate without its rank.\<close>

definition unranked :: "CandidateAction \<Rightarrow> CandidateAction" where
  "unranked c = c\<lparr>ca_rank := 0\<rparr>"

lemma unranked_simps [simp]:
  "unranked (c\<lparr>ca_rank := n\<rparr>) = unranked c" "value_exempt (unranked c) = value_exempt c"
  "score_key (unranked c) = score_key c" "value_exempt (c\<lparr>ca_rank := n\<rparr>) = value_exempt c"
  "ca_action_type (unranked c) = ca_action_type c" "score_key (c\<lparr>ca_rank := n\<rparr>) = score_key c"
  by (simp_all add: unranked_def value_exempt_def score_key_def)

lemma enumerate_ranks_unranked: "map unranked (enumerate_ranks n cs) = map unranked cs"
  by (induction cs arbitrary: n) auto

lemma enumerate_ranks_exempt: "map value_exempt (enumerate_ranks n cs) = map value_exempt cs"
  by (induction cs arbitrary: n) auto

lemma enumerate_ranks_scores:
  "map score_key (filter (\<lambda>c. \<not> value_exempt c) (enumerate_ranks n cs)) =
   map score_key (filter (\<lambda>c. \<not> value_exempt c) cs)"
  by (induction cs arbitrary: n) auto

lemma enumerate_ranks_append:
  "enumerate_ranks n (cs @ ds) = enumerate_ranks n cs @ enumerate_ranks (n + int (length cs)) ds"
  by (induction cs arbitrary: n) (auto simp: algebra_simps)

lemma fill_correct:
  "length ss = length (filter (\<lambda>c. \<not> value_exempt c) cs) \<Longrightarrow> \<forall>s\<in>set ss. \<not> value_exempt s \<Longrightarrow>
   filter (\<lambda>c. \<not> value_exempt c) (fill cs ss) = ss \<and> filter value_exempt (fill cs ss) = filter value_exempt cs
   \<and> map value_exempt (fill cs ss) = map value_exempt cs"
  by (induction cs ss rule: fill.induct) (auto split: list.splits if_splits)

lemma scored_simps [simp]:
  "ca_action_type (scored x a e c) = ca_action_type c" "ca_target (scored x a e c) = ca_target c"
  "ca_channel (scored x a e c) = ca_channel c" "value_exempt (scored x a e c) = value_exempt c"
  "ca_rank (scored x a e c) = ca_rank c"
  by (simp_all add: scored_def value_exempt_def Let_def)

lemma lookup_nonneg: "\<not> negative_value m \<Longrightarrow> 0 \<le> lookup m k"
  by (force simp: lookup_def negative_value_def split: option.splits dest: map_of_SomeD)

lemma wf_scored:
  assumes "wf_candidate c" "post_init_economics e = Inr e"
  shows "wf_candidate (scored x a e c)"
proof -
  have "\<not> negative_value (ec_action_cost_minor e)" "\<not> negative_value (ec_risk_penalty_minor e)"
    "\<not> negative_value (ec_customer_friction_penalty_minor e)"
    using assms(2) by (auto simp: post_init_economics_def bindR_eq_Inr raise_first_ok_iff)
  moreover have "ca_logical_attempt (scored x a e c) = ca_logical_attempt c" by (simp add: scored_def Let_def)
  ultimately show ?thesis
    using assms(1) logistic_basis_points_bounds
    by (simp add: wf_candidate_def post_init_candidate_def bindR_eq_Inr raise_first_ok_iff)
      (simp add: scored_def Let_def lookup_nonneg probability_basis_points_def not_less)
qed

lemma wf_ranked: "wf_candidate c \<Longrightarrow> 1 \<le> n \<Longrightarrow> wf_candidate (c\<lparr>ca_rank := n\<rparr>)"
  by (simp add: wf_candidate_def post_init_candidate_def bindR_eq_Inr raise_first_ok_iff)

lemma wf_no_value: "wf_candidate c \<Longrightarrow> wf_candidate (no_value c)"
  by (simp add: wf_candidate_def post_init_candidate_def bindR_eq_Inr raise_first_ok_iff no_value_def)

lemma wf_enumerate: "\<forall>c\<in>set cs. wf_candidate c \<Longrightarrow> 1 \<le> n \<Longrightarrow> \<forall>c\<in>set (enumerate_ranks n cs). wf_candidate c"
proof (induction cs arbitrary: n)
  case (Cons c cs)
  have "\<forall>c\<in>set (enumerate_ranks (n + 1) cs). wf_candidate c"
    using Cons.IH [of "n + 1"] Cons.prems by simp
  with Cons.prems show ?case by (auto intro: wf_ranked)
qed simp

lemma mapR_wf: "\<forall>c\<in>set cs. wf_candidate c \<Longrightarrow> mapR post_init_candidate cs = Inr cs"
  using mapR_total [of cs post_init_candidate "\<lambda>c. c"] by (simp add: wf_candidate_def)

lemma set_fill: "set (fill cs ss) \<subseteq> set cs \<union> set ss"
  by (induction cs ss rule: fill.induct) (auto split: list.splits)

lemma mset_map_split: "mset (map (\<lambda>c. if p c then c else g c) cs) = mset (filter p cs) + mset (map g (filter (\<lambda>c. \<not> p c) cs))"
  by (induction cs) auto

lemma mset_split: "mset cs = mset (filter p cs) + mset (filter (\<lambda>c. \<not> p c) cs)"
  by (induction cs) auto

text \<open>
  Ranking neither loses nor invents a candidate: for valid inputs it returns, in
  ranks from one, exactly the candidates the merchant allows (the money-related ones with
  their score, the exempt ones untouched and in their places), then \<open>NO_ACTION\<close>; the scored
  ones come in descending order of expected net recovery, and all of them are valid.
\<close>

theorem ranking_is_correct:
  assumes "\<forall>c\<in>set candidates. wf_candidate c" "candidates \<noteq> []"
    and "ca_action_type (last candidates) = ActionType.NO_ACTION" "post_init_economics economics = Inr economics"
  shows "\<exists>r cs nothing. rank_candidates_by_expected_net_recovery candidates context artifact economics allowed = Inr r
    \<and> sr_candidates r = cs @ [nothing] \<and> ca_action_type nothing = ActionType.NO_ACTION
    \<and> map ca_rank (sr_candidates r) = ranks_from_one (length (sr_candidates r))
    \<and> (\<forall>c\<in>set (sr_candidates r). wf_candidate c)
    \<and> mset (map unranked cs) = mset (map unranked
         (map (\<lambda>c. if value_exempt c then c else scored context artifact economics c)
            (filter (eligible allowed) candidates)))
    \<and> map value_exempt cs = map value_exempt (filter (eligible allowed) candidates)
    \<and> sorted (map score_key (filter (\<lambda>c. \<not> value_exempt c) cs))"
proof -
  let ?orig = "filter (eligible allowed) candidates"
  let ?sc = "scored context artifact economics"
  let ?scores = "sort_key score_key (map ?sc (filter (\<lambda>c. \<not> value_exempt c) ?orig))"
  let ?f = "fill ?orig ?scores" and ?nothing = "no_value (last candidates)"
  have scores: "\<forall>s\<in>set ?scores. \<not> value_exempt s" by auto
  note F = fill_correct [OF _ scores, of ?orig, simplified]
  have wf: "\<forall>c\<in>set (?f @ [?nothing]). wf_candidate c"
    using assms(1,2) set_fill [of ?orig ?scores] wf_scored [OF _ assms(4)] wf_no_value by auto
  let ?out = "enumerate_ranks 1 (?f @ [?nothing])"
  have run: "rank_candidates_by_expected_net_recovery candidates context artifact economics allowed = Inr
      \<lparr>sr_candidates = ?out, sr_model_version = sa_model_version artifact,
       sr_feature_version = sa_feature_version artifact, sr_economics_version = ec_version economics,
       sr_artifact_classification = sa_classification artifact, sr_fallback_reason = None\<rparr>"
    using mapR_wf [OF wf_enumerate [OF wf, of 1]] assms(2,3)
    by (simp add: rank_candidates_by_expected_net_recovery_def)
  let ?cs = "enumerate_ranks 1 ?f" and ?last = "?nothing\<lparr>ca_rank := 1 + int (length ?f)\<rparr>"
  have out: "?out = ?cs @ [?last]" by (simp add: enumerate_ranks_append)
  have same: "map unranked ?cs = map unranked ?f" by (rule enumerate_ranks_unranked)
  have parts: "filter value_exempt ?f = filter value_exempt ?orig" "filter (\<lambda>c. \<not> value_exempt c) ?f = ?scores"
    "map value_exempt ?f = map value_exempt ?orig" using F by simp_all
  then have "mset ?f = mset (map (\<lambda>c. if value_exempt c then c else ?sc c) ?orig)"
    unfolding mset_map_split mset_split [of ?f value_exempt] by simp
  then have "mset (map unranked ?cs) = mset (map unranked (map (\<lambda>c. if value_exempt c then c else ?sc c) ?orig))"
    unfolding same mset_map by (rule arg_cong)
  moreover have "map value_exempt ?cs = map value_exempt ?orig"
    unfolding enumerate_ranks_exempt parts ..
  moreover have "sorted (map score_key (filter (\<lambda>c. \<not> value_exempt c) ?cs))"
    unfolding enumerate_ranks_scores parts by (rule sorted_sort_key)
  moreover have "\<forall>c\<in>set ?out. wf_candidate c" by (rule wf_enumerate [OF wf]) simp
  moreover have "map ca_rank ?out = ranks_from_one (length ?out)"
    unfolding enumerate_ranks_ranks ranks_from_one_def by simp
  moreover have "ca_action_type ?last = ActionType.NO_ACTION" using assms(3) by (simp add: no_value_def)
  ultimately show ?thesis unfolding run using out
    by (intro exI [of _ ?cs] exI [of _ ?last] exI conjI) (rule refl | simp)+
qed

text \<open>
  The recovery probability is a basis-point value, it never falls when the score
  rises, and a neutral score means an even chance.
\<close>

theorem probability_is_sound:
  "0 \<le> probability_basis_points a t f v \<and> probability_basis_points a t f v \<le> 10000
   \<and> (millilogits a t f v \<le> millilogits b u g w \<longrightarrow>
        probability_basis_points a t f v \<le> probability_basis_points b u g w)
   \<and> (millilogits a t f v = 0 \<longrightarrow> probability_basis_points a t f v = 5000)"
  using logistic_basis_points_bounds logistic_basis_points_mono logistic_basis_points_zero
  by (simp add: probability_basis_points_def)

definition sample_artifact :: LogisticScoringArtifact where
  "sample_artifact = \<lparr>sa_model_version = ''m'', sa_feature_version = ''f'', sa_classification = SYNTHETIC,
     sa_intercept_millilogits = 0, sa_feature_weights_millilogits = map (\<lambda>name. (name, 0)) SCORING_FEATURE_NAMES,
     sa_action_bias_millilogits = [], sa_failure_category_bias_millilogits = []\<rparr>"

lemma sample_millilogits: "millilogits sample_artifact t f v = 0"
  by (simp add: millilogits_def sample_artifact_def lookup_def SCORING_FEATURE_NAMES_def Let_def)

theorem probability_is_sound_witness: "probability_basis_points sample_artifact SEND_REMINDER ''X'' [] = 5000"
  using probability_is_sound [of sample_artifact SEND_REMINDER "''X''" "[]"] sample_millilogits by blast

definition sample_context :: RecoveryScoringContext where
  "sample_context = \<lparr>sx_amount_minor = 12000, sx_retry_count = 1, sx_aggregate_contact_count = 0,
     sx_diagnosis_confidence_basis_points = 9000, sx_failure_category = ''INSUFFICIENT_FUNDS'',
     sx_active_systemic_incident = False, sx_evaluated_at = Aware 1000\<rparr>"

theorem ranking_is_correct_witness:
  "\<exists>r. rank_candidates_by_expected_net_recovery [sample_reminder, sample_no_action] sample_context sample_artifact
      \<lparr>ec_version = ''v'', ec_action_cost_minor = [], ec_risk_penalty_minor = [],
        ec_customer_friction_penalty_minor = []\<rparr> {} = Inr r \<and> length (sr_candidates r) = 1"
proof -
  let ?e = "\<lparr>ec_version = ''v'', ec_action_cost_minor = [], ec_risk_penalty_minor = [],
        ec_customer_friction_penalty_minor = []\<rparr>"
  have "eligible {} sample_reminder = False" "eligible {} sample_no_action = False"
    by (simp_all add: eligible_def sample_reminder_def sample_no_action_def ALWAYS_ALLOWED_CLASSES_def)
  moreover have "post_init_economics ?e = Inr ?e"
    by (simp add: post_init_economics_def raise_first_okI negative_value_def blank_or_longer_def)
  then obtain r cs nothing where
    "rank_candidates_by_expected_net_recovery [sample_reminder, sample_no_action] sample_context sample_artifact ?e {} = Inr r"
    "sr_candidates r = cs @ [nothing]"
    "map value_exempt cs = map value_exempt (filter (eligible {}) [sample_reminder, sample_no_action])"
    using ranking_is_correct [of "[sample_reminder, sample_no_action]" ?e sample_context sample_artifact "{}"]
      wf_sample_candidates by (auto simp: sample_no_action_def)
  ultimately show ?thesis by auto
qed

end
