(* ===== verification/Intelligence.thy ===== *)
theory Intelligence
  imports Case_Store Reviews
begin

text \<open>\<open>revenueguard_domain/intelligence.py\<close>: the record of a model prediction.\<close>

datatype ModelNode = DIAGNOSIS_ASSISTANCE | STRATEGY_GENERATION | RANKING | EXPLANATION | GRAPH

primrec model_node_value :: "ModelNode \<Rightarrow> string" where
  "model_node_value DIAGNOSIS_ASSISTANCE = ''DIAGNOSIS_ASSISTANCE''"
| "model_node_value STRATEGY_GENERATION = ''STRATEGY_GENERATION''"
| "model_node_value RANKING = ''RANKING''"
| "model_node_value EXPLANATION = ''EXPLANATION''"
| "model_node_value GRAPH = ''GRAPH''"

datatype PredictionStatus = SUCCEEDED | FALLBACK

primrec prediction_status_value :: "PredictionStatus \<Rightarrow> string" where
  "prediction_status_value PredictionStatus.SUCCEEDED = ''SUCCEEDED''"
| "prediction_status_value FALLBACK = ''FALLBACK''"

record ModelPrediction =
  mo_prediction_id :: string
  mo_run_id :: string
  mo_case_id :: string
  mo_merchant_id :: string
  mo_correlation_id :: string
  mo_node :: ModelNode
  mo_status :: PredictionStatus
  mo_input_sha256 :: string
  mo_output_payload :: "(string \<times> pyval) list"
  mo_model_version :: string
  mo_prompt_version :: string
  mo_schema_version :: string
  mo_feature_version :: string
  mo_latency_ms :: int
  mo_input_tokens :: int
  mo_output_tokens :: int
  mo_created_at :: datetime
  mo_failure_code :: "string option"

definition prediction_identifier :: "string \<Rightarrow> string \<Rightarrow> bool \<times> exn" where
  "prediction_identifier name v =
     (blank_or_longer 128 v, ValueError (name @ '' must contain 1 to 128 characters''))"

definition prediction_count :: "string \<Rightarrow> int \<Rightarrow> bool \<times> exn" where
  "prediction_count name v = (v < 0, ValueError (name @ '' must be a non-negative integer''))"

definition post_init_prediction :: "ModelPrediction \<Rightarrow> ModelPrediction result" where
  "post_init_prediction p =
     bindR (raise_first
       [prediction_identifier ''prediction_id'' (mo_prediction_id p),
        prediction_identifier ''run_id'' (mo_run_id p),
        prediction_identifier ''case_id'' (mo_case_id p),
        prediction_identifier ''merchant_id'' (mo_merchant_id p),
        prediction_identifier ''correlation_id'' (mo_correlation_id p),
        prediction_identifier ''model_version'' (mo_model_version p),
        prediction_identifier ''prompt_version'' (mo_prompt_version p),
        prediction_identifier ''schema_version'' (mo_schema_version p),
        prediction_identifier ''feature_version'' (mo_feature_version p),
        (\<not> hex64 (mo_input_sha256 p), ValueError ''input_sha256 must be a lowercase SHA-256 digest''),
        prediction_count ''latency_ms'' (mo_latency_ms p),
        prediction_count ''input_tokens'' (mo_input_tokens p),
        prediction_count ''output_tokens'' (mo_output_tokens p),
        (mo_status p = PredictionStatus.SUCCEEDED \<and> mo_failure_code p \<noteq> None,
           ValueError ''successful predictions cannot have a failure code''),
        (mo_status p = FALLBACK \<and> \<not> truthy (mo_failure_code p),
           ValueError ''fallback predictions require a failure code''),
        (\<exists>c\<in>set_option (mo_failure_code p). \<not> isupper c \<or> length c > 128,
           ValueError ''failure_code must be an uppercase machine-readable code''),
        (\<not> is_aware (mo_created_at p), ValueError ''created_at must be timezone-aware'')])
     (\<lambda>_. Inr p)"

definition prediction_to_dict :: "ModelPrediction \<Rightarrow> (string \<times> pyval) list" where
  "prediction_to_dict p =
     [(''prediction_id'', PStr (mo_prediction_id p)), (''run_id'', PStr (mo_run_id p)),
      (''case_id'', PStr (mo_case_id p)), (''merchant_id'', PStr (mo_merchant_id p)),
      (''correlation_id'', PStr (mo_correlation_id p)), (''node'', PStr (model_node_value (mo_node p))),
      (''status'', PStr (prediction_status_value (mo_status p))),
      (''input_sha256'', PStr (mo_input_sha256 p)), (''output_payload'', PDict (mo_output_payload p)),
      (''model_version'', PStr (mo_model_version p)), (''prompt_version'', PStr (mo_prompt_version p)),
      (''schema_version'', PStr (mo_schema_version p)), (''feature_version'', PStr (mo_feature_version p)),
      (''latency_ms'', PInt (mo_latency_ms p)), (''input_tokens'', PInt (mo_input_tokens p)),
      (''output_tokens'', PInt (mo_output_tokens p)), (''failure_code'', opt_str (mo_failure_code p)),
      (''created_at'', PStr (format_seconds (mo_created_at p)))]"

lemma post_init_prediction_Inr:
  "post_init_prediction p = Inr q \<Longrightarrow> q = p \<and> (mo_failure_code p = None \<longleftrightarrow> mo_status p = PredictionStatus.SUCCEEDED)"
  by (cases "mo_status p") (auto simp: post_init_prediction_def bindR_eq_Inr raise_first_ok_iff truthy_def split: option.splits)

end
