(* ===== verification/Playbooks.thy ===== *)
theory Playbooks
  imports Events "HOL-Library.Multiset" "HOL-Library.Product_Lexorder"
begin

text \<open>
  \<open>revenueguard_domain/playbooks.py\<close>: promises to pay and the detection of payment
  degradation. A \<open>date\<close> is its number of days since 1970-01-01, a \<open>timedelta\<close> its number
  of microseconds.
\<close>


section \<open>Promises\<close>

datatype PromiseIntent = PROMISE_TO_PAY | DISPUTE | ALREADY_PAID | NEEDS_HELP | UNKNOWN

datatype PromiseStatus = ACTIVE | FULFILLED | BROKEN | DISPUTED | CANCELLED

datatype IncidentStatus = ACTIVE | RESOLVED

definition PLAYBOOK_FEATURE_VERSION :: string where
  "PLAYBOOK_FEATURE_VERSION = ''phase6-playbooks-1.0''"

record PromiseExtraction =
  px_intent :: PromiseIntent
  px_confidence_basis_points :: int
  px_extractor_version :: string
  px_promised_date :: "int option"
  px_amount_minor :: "int option"
  px_currency :: "string option"

definition post_init_extraction :: "PromiseExtraction \<Rightarrow> PromiseExtraction result" where
  "post_init_extraction x =
     bindR (raise_first
       [(px_confidence_basis_points x < 0 \<or> px_confidence_basis_points x > 10000,
           ValueError ''confidence_basis_points must be between 0 and 10000''),
        identifier_check ''extractor_version'' (px_extractor_version x) 128,
        (px_intent x = PROMISE_TO_PAY
           \<and> (px_promised_date x = None \<or> px_amount_minor x = None \<or> px_currency x = None),
           ValueError ''promise-to-pay intent requires date, amount, and currency''),
        (px_intent x \<noteq> PROMISE_TO_PAY
           \<and> (px_promised_date x \<noteq> None \<or> px_amount_minor x \<noteq> None \<or> px_currency x \<noteq> None),
           ValueError ''non-promise intents cannot contain promise terms''),
        (\<exists>n\<in>set_option (px_amount_minor x). n \<le> 0, ValueError ''promised amount must be positive''),
        (\<exists>c\<in>set_option (px_currency x). \<not> currency_pattern c,
           ValueError ''currency must be a three-letter uppercase ISO code'')])
     (\<lambda>_. Inr x)"

record PromiseToPay =
  pp_promise_id :: string
  pp_merchant_id :: string
  pp_case_id :: string
  pp_invoice_id :: string
  pp_customer_id :: string
  pp_amount_minor :: int
  pp_currency :: string
  pp_promised_for :: int
  pp_reminder_at :: datetime
  pp_status :: PromiseStatus
  pp_source_response_id :: string
  pp_extractor_version :: string
  pp_extraction_confidence_basis_points :: int
  pp_created_at :: datetime
  pp_updated_at :: datetime

definition post_init_promise :: "PromiseToPay \<Rightarrow> PromiseToPay result" where
  "post_init_promise p =
     bindR (raise_first
       [identifier_check ''promise_id'' (pp_promise_id p) 128,
        identifier_check ''merchant_id'' (pp_merchant_id p) 128,
        identifier_check ''case_id'' (pp_case_id p) 128,
        identifier_check ''invoice_id'' (pp_invoice_id p) 128,
        identifier_check ''customer_id'' (pp_customer_id p) 128,
        identifier_check ''source_response_id'' (pp_source_response_id p) 128,
        identifier_check ''extractor_version'' (pp_extractor_version p) 128,
        (pp_amount_minor p \<le> 0, ValueError ''promise amount must be positive''),
        (\<not> currency_pattern (pp_currency p),
           ValueError ''currency must be a three-letter uppercase ISO code''),
        (pp_extraction_confidence_basis_points p < 0 \<or> pp_extraction_confidence_basis_points p > 10000,
           ValueError ''extraction confidence must be between 0 and 10000'')]) (\<lambda>_.
     bindR (utc ''reminder_at'' (pp_reminder_at p)) (\<lambda>reminder_at.
     bindR (utc ''created_at'' (pp_created_at p)) (\<lambda>created_at.
     bindR (utc ''updated_at'' (pp_updated_at p)) (\<lambda>updated_at.
     bindR (raise_first
       [(updated_at < created_at, ValueError ''updated_at cannot precede created_at'')]) (\<lambda>_.
     Inr (p\<lparr>pp_reminder_at := reminder_at, pp_created_at := created_at, pp_updated_at := updated_at\<rparr>))))))"

text \<open>The keyword arguments of \<open>create_promise\<close>.\<close>

record PromiseRequest =
  pq_promise_id :: string
  pq_merchant_id :: string
  pq_case_id :: string
  pq_invoice_id :: string
  pq_customer_id :: string
  pq_outstanding_amount_minor :: int
  pq_invoice_currency :: string
  pq_extraction :: PromiseExtraction
  pq_source_response_id :: string
  pq_received_at :: datetime
  pq_reminder_lead :: int

definition create_promise :: "PromiseRequest \<Rightarrow> PromiseToPay result" where
  "create_promise q =
     (let x = pq_extraction q in
      bindR (raise_first
        [(px_intent x \<noteq> PROMISE_TO_PAY, ValueError ''only PROMISE_TO_PAY extraction can create a promise''),
         (px_amount_minor x = None \<or> px_currency x = None,
            AssertionError ''validated promise extraction is missing money terms''),
         (px_promised_date x = None, AssertionError ''validated promise extraction is missing a date''),
         (px_currency x \<noteq> Some (pq_invoice_currency q),
            ValueError ''promise currency must equal invoice currency''),
         (\<exists>n\<in>set_option (px_amount_minor x). n > pq_outstanding_amount_minor q,
            ValueError ''promise amount cannot exceed invoice outstanding amount''),
         (pq_reminder_lead q < 0, ValueError ''reminder_lead cannot be negative'')]) (\<lambda>_.
      bindR (utc ''received_at'' (pq_received_at q)) (\<lambda>received.
      let promised_at = combine_utc (the (px_promised_date x)) 0 in
      bindR (raise_first
        [(promised_at < combine_utc (date_of received) 0, ValueError ''promise date cannot be in the past'')]) (\<lambda>_.
      post_init_promise
        \<lparr>pp_promise_id = pq_promise_id q, pp_merchant_id = pq_merchant_id q, pp_case_id = pq_case_id q,
         pp_invoice_id = pq_invoice_id q, pp_customer_id = pq_customer_id q,
         pp_amount_minor = the (px_amount_minor x), pp_currency = the (px_currency x),
         pp_promised_for = the (px_promised_date x),
         pp_reminder_at = max received (plus_delta promised_at (- pq_reminder_lead q)),
         pp_status = PromiseStatus.ACTIVE, pp_source_response_id = pq_source_response_id q,
         pp_extractor_version = px_extractor_version x,
         pp_extraction_confidence_basis_points = px_confidence_basis_points x,
         pp_created_at = received, pp_updated_at = received\<rparr>))))"


section \<open>Payment degradation\<close>

record PaymentOutcomeObservation =
  po_observation_id :: string
  po_merchant_id :: string
  po_payment_id :: string
  po_succeeded :: bool
  po_payment_method :: string
  po_issuer_family :: string
  po_error_family :: string
  po_occurred_at :: datetime

definition post_init_observation :: "PaymentOutcomeObservation \<Rightarrow> PaymentOutcomeObservation result" where
  "post_init_observation p =
     bindR (raise_first
       [identifier_check ''observation_id'' (po_observation_id p) 128,
        identifier_check ''merchant_id'' (po_merchant_id p) 128,
        identifier_check ''payment_id'' (po_payment_id p) 128,
        identifier_check ''payment_method'' (po_payment_method p) 128,
        identifier_check ''issuer_family'' (po_issuer_family p) 128,
        identifier_check ''error_family'' (po_error_family p) 128]) (\<lambda>_.
     bindR (utc ''occurred_at'' (po_occurred_at p)) (\<lambda>t. Inr (p\<lparr>po_occurred_at := t\<rparr>)))"

record DegradationPolicy =
  dp_baseline_window :: int
  dp_current_window :: int
  dp_minimum_baseline_count :: int
  dp_minimum_current_count :: int
  dp_minimum_failure_rate_basis_points :: int
  dp_minimum_rate_increase_basis_points :: int
  dp_minimum_rate_ratio_basis_points :: int
  dp_incident_ttl :: int
  dp_clear_consecutive_windows :: int
  dp_version :: string

definition default_degradation_policy :: DegradationPolicy where
  "default_degradation_policy =
     \<lparr>dp_baseline_window = hours 24, dp_current_window = minutes 15, dp_minimum_baseline_count = 20,
      dp_minimum_current_count = 10, dp_minimum_failure_rate_basis_points = 2500,
      dp_minimum_rate_increase_basis_points = 1500, dp_minimum_rate_ratio_basis_points = 20000,
      dp_incident_ttl = minutes 30, dp_clear_consecutive_windows = 2,
      dp_version = PLAYBOOK_FEATURE_VERSION\<rparr>"

definition threshold_check :: "string \<Rightarrow> int \<Rightarrow> bool \<times> exn" where
  "threshold_check name v = (v < 0, ValueError (name @ '' must be a non-negative integer''))"

definition post_init_degradation :: "DegradationPolicy \<Rightarrow> DegradationPolicy result" where
  "post_init_degradation p =
     bindR (raise_first
       [(dp_baseline_window p \<le> dp_current_window p \<or> dp_current_window p \<le> 0,
           ValueError ''baseline window must be longer than the positive current window''),
        (dp_incident_ttl p \<le> 0, ValueError ''incident_ttl must be positive''),
        threshold_check ''minimum_baseline_count'' (dp_minimum_baseline_count p),
        threshold_check ''minimum_current_count'' (dp_minimum_current_count p),
        threshold_check ''minimum_failure_rate_basis_points'' (dp_minimum_failure_rate_basis_points p),
        threshold_check ''minimum_rate_increase_basis_points'' (dp_minimum_rate_increase_basis_points p),
        threshold_check ''minimum_rate_ratio_basis_points'' (dp_minimum_rate_ratio_basis_points p),
        threshold_check ''clear_consecutive_windows'' (dp_clear_consecutive_windows p),
        (dp_minimum_baseline_count p = 0 \<or> dp_minimum_current_count p = 0,
           ValueError ''sample-count thresholds must be positive''),
        (dp_clear_consecutive_windows p = 0, ValueError ''clear_consecutive_windows must be positive''),
        (dp_minimum_failure_rate_basis_points p > 10000,
           ValueError ''minimum_failure_rate_basis_points cannot exceed 10000''),
        (dp_minimum_rate_increase_basis_points p > 10000,
           ValueError ''minimum_rate_increase_basis_points cannot exceed 10000''),
        identifier_check ''version'' (dp_version p) 128])
     (\<lambda>_. Inr p)"

record DegradationAssessment =
  da_merchant_id :: string
  da_payment_method :: string
  da_issuer_family :: string
  da_error_family :: string
  da_baseline_total :: int
  da_baseline_failures :: int
  da_current_total :: int
  da_current_failures :: int
  da_baseline_failure_rate_basis_points :: int
  da_current_failure_rate_basis_points :: int
  da_failure_rate_increase_basis_points :: int
  da_failure_rate_ratio_basis_points :: int
  da_degraded :: bool
  da_evaluated_at :: datetime
  da_policy_version :: string

definition rate_basis_points :: "int \<Rightarrow> int \<Rightarrow> int" where
  "rate_basis_points failures observed = (if observed \<noteq> 0 then failures * 10000 div observed else 0)"

type_synonym dimension = "string \<times> string \<times> string \<times> string"

definition dimension_of :: "PaymentOutcomeObservation \<Rightarrow> dimension" where
  "dimension_of p = (po_merchant_id p, po_payment_method p, po_issuer_family p, po_error_family p)"

definition relevant :: "dimension \<Rightarrow> PaymentOutcomeObservation \<Rightarrow> bool" where
  "relevant k p = (case k of (m, method, issuer, error) \<Rightarrow>
     po_merchant_id p = m \<and> po_payment_method p = method \<and> po_issuer_family p = issuer
     \<and> (po_succeeded p \<or> po_error_family p = error))"

definition count_where :: "('a \<Rightarrow> bool) \<Rightarrow> 'a list \<Rightarrow> int" where
  "count_where p xs = int (length (filter p xs))"

definition assess_dimension ::
    "PaymentOutcomeObservation list \<Rightarrow> datetime \<Rightarrow> datetime \<Rightarrow> DegradationPolicy \<Rightarrow> dimension \<Rightarrow>
     DegradationAssessment" where
  "assess_dimension in_window current_start evaluated policy k =
     (let baseline = (\<lambda>p. relevant k p \<and> po_occurred_at p < current_start);
          current = (\<lambda>p. relevant k p \<and> current_start \<le> po_occurred_at p);
          baseline_total = count_where baseline in_window;
          current_total = count_where current in_window;
          baseline_failures = count_where (\<lambda>p. baseline p \<and> \<not> po_succeeded p) in_window;
          current_failures = count_where (\<lambda>p. current p \<and> \<not> po_succeeded p) in_window;
          baseline_rate = rate_basis_points baseline_failures baseline_total;
          current_rate = rate_basis_points current_failures current_total;
          increase = current_rate - baseline_rate;
          ratio = (if baseline_rate > 0 then current_rate * 10000 div baseline_rate
                   else if current_rate > 0 then 100000 else 10000)
      in case k of (m, method, issuer, error) \<Rightarrow>
        \<lparr>da_merchant_id = m, da_payment_method = method, da_issuer_family = issuer, da_error_family = error,
         da_baseline_total = baseline_total, da_baseline_failures = baseline_failures,
         da_current_total = current_total, da_current_failures = current_failures,
         da_baseline_failure_rate_basis_points = baseline_rate,
         da_current_failure_rate_basis_points = current_rate,
         da_failure_rate_increase_basis_points = increase, da_failure_rate_ratio_basis_points = ratio,
         da_degraded =
           (baseline_total \<ge> dp_minimum_baseline_count policy
            \<and> current_total \<ge> dp_minimum_current_count policy
            \<and> current_rate \<ge> dp_minimum_failure_rate_basis_points policy
            \<and> increase \<ge> dp_minimum_rate_increase_basis_points policy
            \<and> ratio \<ge> dp_minimum_rate_ratio_basis_points policy),
         da_evaluated_at = evaluated, da_policy_version = dp_version policy\<rparr>)"

definition assess_payment_degradation ::
    "PaymentOutcomeObservation list \<Rightarrow> datetime \<Rightarrow> DegradationPolicy \<Rightarrow> DegradationAssessment list result" where
  "assess_payment_degradation observations evaluated_at policy =
     bindR (utc ''evaluated_at'' evaluated_at) (\<lambda>evaluated.
     let baseline_start = plus_delta evaluated (- dp_baseline_window policy);
         current_start = plus_delta evaluated (- dp_current_window policy);
         in_window = filter (\<lambda>p. baseline_start \<le> po_occurred_at p \<and> po_occurred_at p \<le> evaluated) observations;
         dimensions = sorted_list_of_set (dimension_of ` set (filter (\<lambda>p. \<not> po_succeeded p) in_window))
     in Inr (map (assess_dimension in_window current_start evaluated policy) dimensions))"

section \<open>Promises are sound\<close>

lemma day_start_le: "combine_utc (date_of t) 0 \<le> Aware (instant t)"
  by (rule combine_utc_date_of)

text \<open>
  A promise is never worth more than the invoice: an accepted promise is for a
  positive amount in the invoice's currency, at most what is outstanding, for a day that has
  not passed; its reminder never lies before the response, and precedes the promised day by
  the lead unless that is already past; it starts \<open>ACTIVE\<close>.
\<close>

theorem promise_is_covered:
  assumes "create_promise q = Inr p"
  shows "0 < pp_amount_minor p \<and> pp_amount_minor p \<le> pq_outstanding_amount_minor q
    \<and> pp_currency p = pq_invoice_currency q
    \<and> combine_utc (date_of (pq_received_at q)) 0 \<le> combine_utc (pp_promised_for p) 0
    \<and> pq_received_at q \<le> pp_reminder_at p
    \<and> (pp_reminder_at p = pq_received_at q
         \<or> plus_delta (pp_reminder_at p) (pq_reminder_lead q) = combine_utc (pp_promised_for p) 0)
    \<and> pp_status p = PromiseStatus.ACTIVE \<and> px_intent (pq_extraction q) = PROMISE_TO_PAY"
proof -
  have shift: "plus_delta (plus_delta t (- d)) d = t" for t d by (cases t) simp_all
  from assms show ?thesis
    by (auto simp: create_promise_def post_init_promise_def bindR_eq_Inr utc_eq_Inr raise_first_ok_iff
        Let_def not_less max_def shift split: if_splits)
qed

definition sample_promise_request :: PromiseRequest where
  "sample_promise_request = \<lparr>pq_promise_id = ''promise_1'', pq_merchant_id = ''merchant_1'',
     pq_case_id = ''case_1'', pq_invoice_id = ''inv_1'', pq_customer_id = ''cust_1'',
     pq_outstanding_amount_minor = 5000, pq_invoice_currency = ''INR'',
     pq_extraction = \<lparr>px_intent = PROMISE_TO_PAY, px_confidence_basis_points = 9000,
       px_extractor_version = ''v1'', px_promised_date = Some 3, px_amount_minor = Some 4000,
       px_currency = Some ''INR''\<rparr>,
     pq_source_response_id = ''resp_1'', pq_received_at = Aware 1000, pq_reminder_lead = hours 24\<rparr>"

theorem promise_is_covered_witness:
  "\<exists>p. create_promise sample_promise_request = Inr p \<and> pp_amount_minor p \<le> 5000"
proof -
  have "\<exists>p. create_promise sample_promise_request = Inr p"
    by (simp add: create_promise_def sample_promise_request_def post_init_promise_def raise_first_okI
        blank_or_longer_def currency_pattern_def is_ascii_upper_def combine_utc_def date_of_def day_us_def
        hours_def seconds_def Let_def max_def)
  then obtain p where p: "create_promise sample_promise_request = Inr p" ..
  from promise_is_covered [OF p] p show ?thesis by (auto simp: sample_promise_request_def)
qed


section \<open>Degradation is assessed from the counts alone\<close>

lemma count_where_mset: "mset xs = mset ys \<Longrightarrow> count_where p xs = count_where p ys"
  by (metis count_where_def mset_filter size_mset)

lemma assess_dimension_mset: "mset xs = mset ys \<Longrightarrow> assess_dimension xs = assess_dimension ys"
  by (intro ext) (simp add: assess_dimension_def count_where_mset [of xs ys])

lemma count_where_mono: "(\<And>x. p x \<Longrightarrow> q x) \<Longrightarrow> count_where p xs \<le> count_where q xs"
  by (induction xs) (auto simp: count_where_def)

lemma rate_bounds:
  assumes "0 \<le> f" "f \<le> n"
  shows "0 \<le> rate_basis_points f n \<and> rate_basis_points f n \<le> 10000"
proof (cases "n = 0")
  case False
  with assms have n: "0 < n" by simp
  have "f * 10000 div n \<le> n * 10000 div n" using assms n by (intro zdiv_mono1) auto
  with n assms show ?thesis by (simp add: rate_basis_points_def pos_imp_zdiv_nonneg_iff)
qed (simp add: rate_basis_points_def)

lemma assess_dimension_sound:
  assumes "0 < dp_minimum_rate_increase_basis_points policy"
  shows "0 \<le> da_current_failures (assess_dimension w c e policy k)
    \<and> da_current_failures (assess_dimension w c e policy k) \<le> da_current_total (assess_dimension w c e policy k)
    \<and> da_baseline_failures (assess_dimension w c e policy k) \<le> da_baseline_total (assess_dimension w c e policy k)
    \<and> 0 \<le> da_current_failure_rate_basis_points (assess_dimension w c e policy k)
    \<and> da_current_failure_rate_basis_points (assess_dimension w c e policy k) \<le> 10000
    \<and> (da_degraded (assess_dimension w c e policy k) \<longrightarrow>
         da_baseline_failure_rate_basis_points (assess_dimension w c e policy k)
           < da_current_failure_rate_basis_points (assess_dimension w c e policy k))"
proof -
  obtain m t i r where k: "k = (m, t, i, r)" by (cases k) auto
  have le: "count_where (\<lambda>p. q p \<and> \<not> po_succeeded p) w \<le> count_where q w" for q
    by (rule count_where_mono) simp
  have rate: "0 \<le> rate_basis_points (count_where (\<lambda>p. q p \<and> \<not> po_succeeded p) w) (count_where q w)
    \<and> rate_basis_points (count_where (\<lambda>p. q p \<and> \<not> po_succeeded p) w) (count_where q w) \<le> 10000" for q
    by (rule rate_bounds [OF _ le]) (simp add: count_where_def)
  let ?q = "\<lambda>p. relevant k p \<and> c \<le> po_occurred_at p" and ?b = "\<lambda>p. relevant k p \<and> po_occurred_at p < c"
  have "0 \<le> count_where (\<lambda>p. ?q p \<and> \<not> po_succeeded p) w" by (simp add: count_where_def)
  with le [of ?q] le [of ?b] rate [of ?q] assms show ?thesis
    by (simp add: assess_dimension_def k Let_def)
qed

text \<open>
  The assessment depends only on the observations, not on the order they were
  recorded in, and its numbers are sound: failures are among the observations counted, rates
  are basis points, there is one assessment for each failing dimension, and a dimension
  whose failure rate has not risen is never reported degraded.
\<close>

theorem degradation_assessment_sound:
  assumes "assess_payment_degradation obs now policy = Inr as" "mset obs' = mset obs"
    and "0 < dp_minimum_rate_increase_basis_points policy"
  shows "assess_payment_degradation obs' now policy = Inr as
    \<and> distinct (map (\<lambda>a. (da_merchant_id a, da_payment_method a, da_issuer_family a, da_error_family a)) as)
    \<and> (\<forall>a\<in>set as. 0 \<le> da_current_failures a \<and> da_current_failures a \<le> da_current_total a
         \<and> da_baseline_failures a \<le> da_baseline_total a
         \<and> 0 \<le> da_current_failure_rate_basis_points a \<and> da_current_failure_rate_basis_points a \<le> 10000
         \<and> (da_degraded a \<longrightarrow>
              da_baseline_failure_rate_basis_points a < da_current_failure_rate_basis_points a))"
proof -
  have filters: "mset (filter p obs') = mset (filter p obs)" for p using assms(2) by simp
  then have sets: "set (filter p obs') = set (filter p obs)" for p by (metis set_mset_mset)
  have "assess_payment_degradation obs' now policy = assess_payment_degradation obs now policy"
    using assess_dimension_mset [OF filters] sets
    by (simp add: assess_payment_degradation_def Let_def)
  moreover from assms(1) obtain w c e ks where as: "as = map (assess_dimension w c e policy) ks" "distinct ks"
    by (auto simp: assess_payment_degradation_def bindR_eq_Inr Let_def)
  have "(\<lambda>a. (da_merchant_id a, da_payment_method a, da_issuer_family a, da_error_family a)) \<circ>
      assess_dimension w c e policy = id"
    by (rule ext) (auto simp: assess_dimension_def Let_def split: prod.splits)
  with as have "distinct (map (\<lambda>a. (da_merchant_id a, da_payment_method a, da_issuer_family a, da_error_family a)) as)"
    by simp
  ultimately show ?thesis
    using assms(1) assess_dimension_sound [OF assms(3)] by (simp add: as(1))
qed

theorem degradation_assessment_sound_witness:
  "\<exists>as. assess_payment_degradation [] (Aware 1000) default_degradation_policy = Inr as \<and> distinct as"
proof -
  obtain as where as: "assess_payment_degradation [] (Aware 1000) default_degradation_policy = Inr as"
    by (simp add: assess_payment_degradation_def Let_def)
  have "0 < dp_minimum_rate_increase_basis_points default_degradation_policy"
    by (simp add: default_degradation_policy_def)
  from degradation_assessment_sound [OF as refl this] as show ?thesis by (auto simp: distinct_map)
qed

end
