(* ===== verification/Razorpay.thy ===== *)
theory Razorpay
  imports Reviews Events
begin

text \<open>
  \<open>razorpay/signatures.py\<close> and \<open>razorpay/events.py\<close>: the verification of a webhook's signature
  and the normalisation of its body into the domain's event.

  Decoding the body (\<open>bytes.decode("utf-8")\<close> and \<open>json.loads\<close>) is the parameter \<open>loads\<close>, which
  yields no value for a body it refuses; every statement holds for any decoder.
\<close>


section \<open>Characters\<close>

text \<open>\<open>str.lower\<close> and \<open>str.strip\<close> on the code points up to U+00FF.\<close>

definition lower_char :: "char \<Rightarrow> char" where
  "lower_char c = (if is_upper_char c then char_of ((of_char c :: nat) + 32) else c)"

definition str_lower :: "string \<Rightarrow> string" where
  "str_lower s = map lower_char s"

definition is_space :: "char \<Rightarrow> bool" where
  "is_space c \<longleftrightarrow>
     (let n = (of_char c :: nat) in 9 \<le> n \<and> n \<le> 13 \<or> 28 \<le> n \<and> n \<le> 32 \<or> n = 133 \<or> n = 160)"

definition strip :: "string \<Rightarrow> string" where
  "strip s = rev (dropWhile is_space (rev (dropWhile is_space s)))"

text \<open>\<open>token in text\<close>.\<close>

fun contains :: "string \<Rightarrow> string \<Rightarrow> bool" where
  "contains t [] \<longleftrightarrow> t = []"
| "contains t (c # s) \<longleftrightarrow> take (length t) (c # s) = t \<or> contains t s"


section \<open>Signatures\<close>

text \<open>\<open>re.compile(r"^[0-9a-fA-F]{64}$").fullmatch(signature)\<close>.\<close>

definition is_hex_char :: "char \<Rightarrow> bool" where
  "is_hex_char c \<longleftrightarrow> is_lower_hex c \<or> (65 \<le> (of_char c :: nat) \<and> (of_char c :: nat) \<le> 70)"

definition sha256_hex_pattern :: "string \<Rightarrow> bool" where
  "sha256_hex_pattern s \<longleftrightarrow> length s = 64 \<and> (\<forall>c\<in>set s. is_hex_char c)"

definition verify_webhook_signature :: "byte list \<Rightarrow> string option \<Rightarrow> byte list \<Rightarrow> bool result" where
  "verify_webhook_signature raw_body signature webhook_secret =
     (if webhook_secret = [] then Inl (ValueError ''webhook_secret cannot be empty'')
      else Inr (case signature of
          None \<Rightarrow> False
        | Some s \<Rightarrow> sha256_hex_pattern s \<and> hexdigest (hmac_sha256 webhook_secret raw_body) = str_lower s))"


section \<open>The document of a body\<close>

type_synonym doc = "(string \<times> pyval) list"
type_synonym decoder = "byte list \<Rightarrow> pyval option"

abbreviation malformed :: "string \<Rightarrow> exn" where
  "malformed \<equiv> MalformedRazorpayEventError"

text \<open>\<open>value.get(field)\<close>.\<close>

definition dict_get :: "doc \<Rightarrow> string \<Rightarrow> pyval" where
  "dict_get d field = (case map_of d field of None \<Rightarrow> PNone | Some v \<Rightarrow> v)"

definition parse_document :: "decoder \<Rightarrow> byte list \<Rightarrow> doc result" where
  "parse_document loads raw_body =
     (case loads raw_body of
        None \<Rightarrow> Inl (malformed ''body must be a UTF-8 JSON object'')
      | Some (PDict d) \<Rightarrow> Inr d
      | Some _ \<Rightarrow> Inl (malformed ''top-level JSON value must be an object''))"

definition required_mapping :: "doc \<Rightarrow> string \<Rightarrow> doc result" where
  "required_mapping value field =
     (case dict_get value field of
        PDict d \<Rightarrow> Inr d | _ \<Rightarrow> Inl (malformed (field @ '' must be an object'')))"

definition required_string :: "doc \<Rightarrow> string \<Rightarrow> string result" where
  "required_string value field =
     (case dict_get value field of
        PStr s \<Rightarrow> if s = [] then Inl (malformed (field @ '' must be a non-empty string'')) else Inr s
      | _ \<Rightarrow> Inl (malformed (field @ '' must be a non-empty string'')))"

definition optional_entity :: "doc \<Rightarrow> string \<Rightarrow> bool \<Rightarrow> doc option result" where
  "optional_entity payload entity_name allow_missing_declaration =
     (case dict_get payload entity_name of
        PNone \<Rightarrow> Inr None
      | PDict wrapper \<Rightarrow>
          (case dict_get wrapper ''entity'' of
             PDict entity \<Rightarrow>
               if dict_get entity ''entity'' = PNone \<and> allow_missing_declaration then Inr (Some entity)
               else if dict_get entity ''entity'' \<noteq> PStr entity_name
               then Inl (malformed (''payload.'' @ entity_name @ ''.entity.entity must be '' @ quoted entity_name))
               else Inr (Some entity)
           | _ \<Rightarrow> Inl (malformed (''payload.'' @ entity_name @ ''.entity must be an object'')))
      | _ \<Rightarrow> Inl (malformed (''payload.'' @ entity_name @ '' must be an object'')))"

definition entity_identifier :: "doc option \<Rightarrow> string \<Rightarrow> string option result" where
  "entity_identifier entity field =
     (case entity of
        None \<Rightarrow> Inr None
      | Some d \<Rightarrow>
          (case dict_get d field of
             PNone \<Rightarrow> Inr None
           | PStr s \<Rightarrow>
               if s = [] then Inl (malformed (''entity field '' @ field @ '' must be a non-empty string''))
               else Inr (Some s)
           | _ \<Rightarrow> Inl (malformed (''entity field '' @ field @ '' must be a non-empty string''))))"

fun first_identifier :: "doc option list \<Rightarrow> string \<Rightarrow> string option result" where
  "first_identifier [] field = Inr None"
| "first_identifier (entity # entities) field =
     bindR (entity_identifier entity field) (\<lambda>found.
     case found of Some s \<Rightarrow> Inr (Some s) | None \<Rightarrow> first_identifier entities field)"

definition required_nonnegative_integer :: "doc \<Rightarrow> string \<Rightarrow> int result" where
  "required_nonnegative_integer entity field =
     (case dict_get entity field of
        PInt n \<Rightarrow> if n < 0 then Inl (malformed (field @ '' must be a non-negative integer'')) else Inr n
      | _ \<Rightarrow> Inl (malformed (field @ '' must be a non-negative integer'')))"

definition is_ascii_alpha :: "char \<Rightarrow> bool" where
  "is_ascii_alpha c \<longleftrightarrow> (of_char c :: nat) < 128 \<and> (is_upper_char c \<or> is_lower_char c)"

definition required_currency :: "doc \<Rightarrow> string result" where
  "required_currency entity =
     bindR (required_string entity ''currency'') (\<lambda>value.
     if length value \<noteq> 3 \<or> \<not> (\<forall>c\<in>set value. is_ascii_alpha c) \<or> \<not> isupper value
     then Inl (malformed ''currency must be a three-letter uppercase ISO code'')
     else Inr value)"

text \<open>\<open>datetime.fromtimestamp(value, UTC)\<close>: the last representable second is that of the year 9999.\<close>

definition from_timestamp :: "int \<Rightarrow> datetime option" where
  "from_timestamp n = (if n \<le> 253402300799 then Some (Aware (seconds n)) else None)"

definition event_timestamp :: "doc \<Rightarrow> string \<Rightarrow> datetime result" where
  "event_timestamp document field =
     (case dict_get document field of
        PInt n \<Rightarrow>
          if n < 0 then Inl (malformed (field @ '' must be a non-negative Unix timestamp''))
          else (case from_timestamp n of
              None \<Rightarrow> Inl (malformed (field @ '' is outside the supported range''))
            | Some t \<Rightarrow> Inr t)
      | _ \<Rightarrow> Inl (malformed (field @ '' must be a non-negative Unix timestamp'')))"


section \<open>Normalisation\<close>

definition PAYMENT_EVENTS :: "string list" where
  "PAYMENT_EVENTS = [''payment.authorized'', ''payment.captured'', ''payment.failed'']"

definition SUBSCRIPTION_EVENTS :: "string list" where
  "SUBSCRIPTION_EVENTS = [''subscription.pending'', ''subscription.charged'', ''subscription.halted'']"

definition PAYMENT_LINK_EVENTS :: "string list" where
  "PAYMENT_LINK_EVENTS = [''payment_link.paid'', ''payment_link.cancelled'', ''payment_link.expired'']"

definition SUPPORTED_EVENT_TYPES :: "string list" where
  "SUPPORTED_EVENT_TYPES =
     [''payment.authorized'', ''payment.captured'', ''payment.failed'', ''subscription.pending'',
      ''subscription.charged'', ''subscription.halted'', ''payment_link.paid'',
      ''payment_link.cancelled'', ''payment_link.expired'']"

definition FAILURE_EVENTS :: "string list" where
  "FAILURE_EVENTS = [''payment.failed'', ''subscription.pending'', ''subscription.halted'']"

definition failure_tokens :: "(string list \<times> NormalizedFailureCategory) list" where
  "failure_tokens =
     [([''insufficient_funds'', ''insufficient fund''], INSUFFICIENT_FUNDS),
      ([''expired_card'', ''card_expired'', ''expired payment''], EXPIRED_PAYMENT_METHOD),
      ([''authentication'', ''incorrect_otp'', ''otp_failed''], AUTHENTICATION_FAILURE),
      ([''issuer_down'', ''bank_down'', ''issuer_unavailable''], ISSUER_UNAVAILABLE),
      ([''gateway_down'', ''gateway_unavailable''], GATEWAY_UNAVAILABLE),
      ([''customer_action_required''], CUSTOMER_ACTION_REQUIRED),
      ([''dispute''], DISPUTE)]"

definition failure_evidence :: "string option list \<Rightarrow> string" where
  "failure_evidence items =
     join '' '' (map (\<lambda>i. str_lower (the i)) (filter truthy items))"

definition categorize :: "string \<Rightarrow> NormalizedFailureCategory" where
  "categorize evidence =
     (case find (\<lambda>(tokens, category). \<exists>t\<in>set tokens. contains t evidence) failure_tokens of
        Some (tokens, category) \<Rightarrow> category
      | None \<Rightarrow> NormalizedFailureCategory.UNKNOWN)"

definition failure_details :: "string \<Rightarrow> doc option \<Rightarrow> (string option \<times> NormalizedFailureCategory) result" where
  "failure_details event_type payment =
     (if event_type \<notin> set FAILURE_EVENTS then Inr (None, NormalizedFailureCategory.NONE)
      else if payment = None then Inr (None, NormalizedFailureCategory.UNKNOWN)
      else
        bindR (entity_identifier payment ''error_code'') (\<lambda>code.
        bindR (entity_identifier payment ''error_reason'') (\<lambda>reason.
        bindR (entity_identifier payment ''error_description'') (\<lambda>description.
        Inr (or_else code reason, categorize (failure_evidence [code, reason, description]))))))"

text \<open>The keyword arguments of \<open>normalize_razorpay_event\<close>.\<close>

record NormalizeRequest =
  nq_raw_body :: "byte list"
  nq_merchant_id :: string
  nq_provider_event_id :: string
  nq_event_id :: string
  nq_received_at :: datetime
  nq_correlation_id :: string
  nq_source_payload_reference :: string
  nq_causation_id :: "string option"
  nq_source :: EventSource

definition entity_checks ::
    "string \<Rightarrow> doc option \<Rightarrow> doc option \<Rightarrow> doc option \<Rightarrow> (bool \<times> exn) list" where
  "entity_checks event_type payment subscription payment_link =
     [(event_type \<in> set PAYMENT_EVENTS \<and> payment = None,
         malformed (event_type @ '' requires payload.payment.entity'')),
      (event_type \<in> set SUBSCRIPTION_EVENTS \<and> subscription = None,
         malformed (event_type @ '' requires payload.subscription.entity'')),
      (event_type \<in> set PAYMENT_LINK_EVENTS \<and> payment_link = None,
         malformed (event_type @ '' requires payload.payment_link.entity'')),
      (payment = None \<and> payment_link = None,
         malformed (event_type @ '' requires a payment or payment-link amount''))]"

definition normalized_event ::
    "NormalizeRequest \<Rightarrow> doc \<Rightarrow> string \<Rightarrow> doc option \<Rightarrow> doc option \<Rightarrow> doc option \<Rightarrow> RevenueRiskEvent result" where
  "normalized_event q document event_type payment subscription payment_link =
     (let financial_entity = the (if payment \<noteq> None then payment else payment_link) in
      bindR (required_nonnegative_integer financial_entity ''amount'') (\<lambda>amount_minor.
      bindR (required_currency financial_entity) (\<lambda>currency.
      bindR (failure_details event_type payment) (\<lambda>(failure_code, failure_category).
      bindR (event_timestamp document ''created_at'') (\<lambda>occurred_at.
      bindR (first_identifier [payment, subscription, payment_link] ''customer_id'') (\<lambda>customer_id.
      bindR (entity_identifier payment ''id'') (\<lambda>payment_id.
      bindR (entity_identifier payment ''order_id'') (\<lambda>order_id.
      bindR (entity_identifier subscription ''id'') (\<lambda>subscription_id.
      bindR (entity_identifier payment ''invoice_id'') (\<lambda>invoice_id.
      bindR (entity_identifier payment_link ''id'') (\<lambda>payment_link_id.
      post_init_event
        \<lparr>ev_event_id = nq_event_id q, ev_merchant_id = nq_merchant_id q, ev_source = nq_source q,
         ev_source_event_id = nq_provider_event_id q, ev_event_type = event_type,
         ev_occurred_at = occurred_at, ev_received_at = nq_received_at q,
         ev_amount_minor = amount_minor, ev_currency = currency, ev_failure_category = failure_category,
         ev_correlation_id = nq_correlation_id q,
         ev_source_payload_reference = nq_source_payload_reference q,
         ev_customer_id = customer_id, ev_payment_id = payment_id, ev_order_id = order_id,
         ev_subscription_id = subscription_id, ev_invoice_id = invoice_id,
         ev_payment_link_id = payment_link_id, ev_failure_code = failure_code,
         ev_causation_id = nq_causation_id q, ev_schema_version = SCHEMA_VERSION\<rparr>)))))))))))"

definition normalize_razorpay_event :: "decoder \<Rightarrow> NormalizeRequest \<Rightarrow> RevenueRiskEvent result" where
  "normalize_razorpay_event loads q =
     bindR (parse_document loads (nq_raw_body q)) (\<lambda>document.
     bindR (required_string document ''event'') (\<lambda>event_type.
     if event_type \<notin> set SUPPORTED_EVENT_TYPES then Inl (UnsupportedRazorpayEventError event_type)
     else
       bindR (required_string document ''entity'') (\<lambda>entity.
       if entity \<noteq> ''event'' then Inl (malformed (''top-level entity must be '' @ quoted ''event''))
       else
         bindR (required_mapping document ''payload'') (\<lambda>payload.
         bindR (optional_entity payload ''payment'' False) (\<lambda>payment.
         bindR (optional_entity payload ''subscription'' False) (\<lambda>subscription.
         bindR (optional_entity payload ''payment_link'' True) (\<lambda>payment_link.
         bindR (raise_first (entity_checks event_type payment subscription payment_link)) (\<lambda>_.
         normalized_event q document event_type payment subscription payment_link))))))))"

section \<open>A signature binds the body\<close>

definition hmac_key :: "byte list \<Rightarrow> byte list" where
  "hmac_key key = (let k = (if length key > 64 then sha256 key else key) in k @ replicate (64 - length k) 0)"

definition hmac_inner :: "byte list \<Rightarrow> byte list \<Rightarrow> byte list" where
  "hmac_inner key msg = map (\<lambda>b. b XOR 54) (hmac_key key) @ msg"

definition hmac_outer :: "byte list \<Rightarrow> byte list \<Rightarrow> byte list" where
  "hmac_outer key msg = map (\<lambda>b. b XOR 92) (hmac_key key) @ sha256 (hmac_inner key msg)"

lemma hmac_sha256_parts: "hmac_sha256 key msg = sha256 (hmac_outer key msg)"
  by (simp add: hmac_sha256_def hmac_outer_def hmac_inner_def hmac_key_def Let_def)

definition bytes_collision :: "byte list \<Rightarrow> byte list \<Rightarrow> bool" where
  "bytes_collision x y \<longleftrightarrow> x \<noteq> y \<and> sha256 x = sha256 y"

lemma hmac_sha256_eq:
  "hmac_sha256 key b = hmac_sha256 key c \<Longrightarrow>
   b = c \<or> bytes_collision (hmac_inner key b) (hmac_inner key c) \<or> bytes_collision (hmac_outer key b) (hmac_outer key c)"
  by (auto simp: hmac_sha256_parts bytes_collision_def hmac_outer_def hmac_inner_def)



section \<open>A normalised event is what the provider reported\<close>

lemma required_string_Inr: "required_string d k = Inr s \<Longrightarrow> dict_get d k = PStr s \<and> s \<noteq> []"
  by (auto simp: required_string_def split: pyval.splits if_splits)

lemma required_mapping_Inr: "required_mapping d k = Inr m \<Longrightarrow> dict_get d k = PDict m"
  by (auto simp: required_mapping_def split: pyval.splits)

lemma required_nonnegative_integer_Inr:
  "required_nonnegative_integer d k = Inr n \<Longrightarrow> dict_get d k = PInt n \<and> 0 \<le> n"
  by (auto simp: required_nonnegative_integer_def split: pyval.splits if_splits)

lemma required_currency_Inr: "required_currency d = Inr s \<Longrightarrow> dict_get d ''currency'' = PStr s"
  by (auto simp: required_currency_def bindR_eq_Inr dest: required_string_Inr split: if_splits)

lemma event_timestamp_Inr:
  "event_timestamp d k = Inr t \<Longrightarrow> \<exists>n. dict_get d k = PInt n \<and> 0 \<le> n \<and> t = Aware (seconds n)"
  by (auto simp: event_timestamp_def from_timestamp_def split: pyval.splits if_splits)

lemma parse_document_Inr: "parse_document loads b = Inr d \<Longrightarrow> loads b = Some (PDict d)"
  by (auto simp: parse_document_def split: option.splits pyval.splits)

text \<open>The entity of a name in the payload.\<close>

definition entity_of :: "doc \<Rightarrow> string \<Rightarrow> doc option" where
  "entity_of payload name =
     (case dict_get payload name of
        PDict w \<Rightarrow> (case dict_get w ''entity'' of PDict e \<Rightarrow> Some e | _ \<Rightarrow> None)
      | _ \<Rightarrow> None)"

lemma optional_entity_Inr: "optional_entity p n a = Inr x \<Longrightarrow> x = entity_of p n"
  by (auto simp: optional_entity_def entity_of_def split: pyval.splits if_splits)

lemma categorize_not_NONE: "categorize s \<noteq> NormalizedFailureCategory.NONE"
proof -
  have all: "\<forall>a\<in>set failure_tokens. snd a \<noteq> NormalizedFailureCategory.NONE" by (simp add: failure_tokens_def)
  show ?thesis
  proof (cases "find (\<lambda>(tokens, category). \<exists>t\<in>set tokens. contains t s) failure_tokens")
    case (Some a)
    then have "a \<in> set failure_tokens" unfolding find_Some_iff by (metis nth_mem)
    with all have "snd a \<noteq> NormalizedFailureCategory.NONE" by blast
    with Some show ?thesis by (cases a) (simp add: categorize_def)
  qed (simp add: categorize_def)
qed

lemma failure_details_Inr:
  "failure_details t p = Inr (c, g) \<Longrightarrow> g = NormalizedFailureCategory.NONE \<longleftrightarrow> t \<notin> set FAILURE_EVENTS"
proof (cases "t \<in> set FAILURE_EVENTS")
  case True
  moreover assume "failure_details t p = Inr (c, g)"
  ultimately have "g = NormalizedFailureCategory.UNKNOWN \<or> (\<exists>s. g = categorize s)"
    by (simp only: failure_details_def not_not if_False simp_thms split: if_split_asm) (auto simp: bindR_eq_Inr)
  then have "g \<noteq> NormalizedFailureCategory.NONE"
    by (elim disjE exE) (simp_all add: categorize_not_NONE)
  with True show ?thesis by simp
qed (simp add: failure_details_def)

lemma normalized_event_Inr:
  assumes "normalized_event q document event_type payment subscription payment_link = Inr e"
  shows "wf_event e \<and> ev_merchant_id e = nq_merchant_id q \<and> ev_event_id e = nq_event_id q
    \<and> ev_source e = nq_source q \<and> ev_source_event_id e = nq_provider_event_id q
    \<and> ev_received_at e = nq_received_at q \<and> ev_event_type e = event_type
    \<and> (ev_failure_category e = NormalizedFailureCategory.NONE \<longleftrightarrow> event_type \<notin> set FAILURE_EVENTS)
    \<and> dict_get (the (if payment \<noteq> None then payment else payment_link)) ''amount'' = PInt (ev_amount_minor e)
    \<and> dict_get (the (if payment \<noteq> None then payment else payment_link)) ''currency'' = PStr (ev_currency e)
    \<and> (\<exists>n. dict_get document ''created_at'' = PInt n \<and> 0 \<le> n \<and> ev_occurred_at e = Aware (seconds n))"
  using assms unfolding normalized_event_def Let_def bindR_eq_Inr split_paired_Ex prod.case
  by (elim exE conjE)
    (frule required_nonnegative_integer_Inr, frule required_currency_Inr, frule failure_details_Inr,
     drule event_timestamp_Inr, drule post_init_event_Inr, elim conjE exE, simp)

text \<open>
  A normalised event says what the provider's document says and belongs to the
  tenant the webhook was routed to: its type is supported, its amount and currency are those of
  the payment (of the payment link when there is no payment), its time is the document's, it
  is a failure exactly for the failure events, and the event is valid; the merchant is never
  taken from the body.
\<close>

theorem normalized_event_faithful:
  assumes "normalize_razorpay_event loads q = Inr e"
  shows "wf_event e \<and> ev_merchant_id e = nq_merchant_id q \<and> ev_event_id e = nq_event_id q
    \<and> ev_source e = nq_source q \<and> ev_source_event_id e = nq_provider_event_id q
    \<and> ev_event_type e \<in> set SUPPORTED_EVENT_TYPES
    \<and> (ev_failure_category e = NormalizedFailureCategory.NONE \<longleftrightarrow> ev_event_type e \<notin> set FAILURE_EVENTS)
    \<and> (\<exists>document payload entity n.
         loads (nq_raw_body q) = Some (PDict document)
       \<and> dict_get document ''event'' = PStr (ev_event_type e)
       \<and> dict_get document ''payload'' = PDict payload
       \<and> entity_of payload (if entity_of payload ''payment'' \<noteq> None then ''payment'' else ''payment_link'') = Some entity
       \<and> dict_get entity ''amount'' = PInt (ev_amount_minor e)
       \<and> dict_get entity ''currency'' = PStr (ev_currency e)
       \<and> dict_get document ''created_at'' = PInt n \<and> ev_occurred_at e = Aware (seconds n))"
proof -
  from assms obtain document event_type payload payment subscription payment_link where
    d: "loads (nq_raw_body q) = Some (PDict document)"
    and t: "dict_get document ''event'' = PStr event_type" "event_type \<in> set SUPPORTED_EVENT_TYPES"
    and p: "dict_get document ''payload'' = PDict payload"
    and e: "payment = entity_of payload ''payment''" "payment_link = entity_of payload ''payment_link''"
    and c: "raise_first (entity_checks event_type payment subscription payment_link) = Inr ()"
    and n: "normalized_event q document event_type payment subscription payment_link = Inr e"
    unfolding normalize_razorpay_event_def
    by (auto simp: bindR_eq_Inr dest!: parse_document_Inr required_string_Inr required_mapping_Inr
        optional_entity_Inr split: if_splits)
  have "payment \<noteq> None \<or> payment_link \<noteq> None" using c by (auto simp: raise_first_ok_iff entity_checks_def)
  with e obtain entity where
    entity: "entity_of payload (if entity_of payload ''payment'' \<noteq> None then ''payment'' else ''payment_link'') = Some entity"
    and f: "the (if payment \<noteq> None then payment else payment_link) = entity"
    by (cases "entity_of payload ''payment''") auto
  from normalized_event_Inr [OF n] show ?thesis
    unfolding f using d t p entity by auto
qed

section \<open>Witnesses\<close>

lemma lower_char_lower_hex: "is_lower_hex c \<Longrightarrow> lower_char c = c"
  by (auto simp: lower_char_def is_upper_char_def is_lower_hex_def is_digit_def Let_def)

lemma str_lower_hexdigest: "str_lower (hexdigest bs) = hexdigest bs"
  using hexdigest_lower_hex lower_char_lower_hex by (simp add: str_lower_def map_idI)

lemma own_signature_verifies:
  "secret \<noteq> [] \<Longrightarrow> verify_webhook_signature body (Some (hexdigest (hmac_sha256 secret body))) secret = Inr True"
  using hexdigest_lower_hex
  by (auto simp: verify_webhook_signature_def sha256_hex_pattern_def is_hex_char_def str_lower_hexdigest hmac_sha256_parts)


definition sample_document :: doc where
  "sample_document =
     [(''event'', PStr ''payment.failed''), (''entity'', PStr ''event''),
      (''created_at'', PInt 1700000000),
      (''payload'', PDict [(''payment'', PDict [(''entity'', PDict
         [(''entity'', PStr ''payment''), (''id'', PStr ''pay_1''), (''amount'', PInt 4200),
          (''currency'', PStr ''INR''), (''error_code'', PStr ''Insufficient_Funds'')])])])]"

definition sample_normalize :: NormalizeRequest where
  "sample_normalize =
     \<lparr>nq_raw_body = [], nq_merchant_id = ''m1'', nq_provider_event_id = ''p1'', nq_event_id = ''evt_1'',
      nq_received_at = Aware 0, nq_correlation_id = ''c1'', nq_source_payload_reference = ''webhook_events/p1'',
      nq_causation_id = None, nq_source = RAZORPAY\<rparr>"

lemma sample_normalizes:
  "case normalize_razorpay_event (\<lambda>_. Some (PDict sample_document)) sample_normalize of
     Inl _ \<Rightarrow> False
   | Inr e \<Rightarrow> ev_failure_category e = INSUFFICIENT_FUNDS \<and> ev_amount_minor e = 4200"
  by code_simp

theorem normalized_event_faithful_witness:
  "\<exists>e. wf_event e \<and> ev_merchant_id e = ''m1'' \<and> ev_failure_category e = INSUFFICIENT_FUNDS"
proof -
  from sample_normalizes obtain e where
    e: "normalize_razorpay_event (\<lambda>_. Some (PDict sample_document)) sample_normalize = Inr e"
    and c: "ev_failure_category e = INSUFFICIENT_FUNDS" by (simp split: sum.splits)
  from normalized_event_faithful [OF e] have "wf_event e" "ev_merchant_id e = nq_merchant_id sample_normalize" by blast+
  with c show ?thesis by (auto simp: sample_normalize_def)
qed

end
