(* ===== verification/Ingestion.thy ===== *)
theory Ingestion
  imports Outbox Razorpay Evidence_Order
begin

text \<open>
  \<open>persistence/repositories.py\<close>: the verified webhook inbox, its durable dispatches and the
  normalised events, with the tables \<open>merchants\<close>, \<open>customers\<close>, \<open>payments\<close>, \<open>subscriptions\<close>,
  \<open>webhook_events\<close>, \<open>event_dispatches\<close>, \<open>normalized_events\<close> and \<open>event_correlations\<close> of
  \<open>persistence/models.py\<close>. Foreign keys and the lengths of columns are not modelled. The clock
  of the database server and of the process, where a method reads it, is an argument.
\<close>


section \<open>Tables\<close>

datatype IngestionStatus = ACCEPTED | REJECTED_INVALID_SIGNATURE

datatype ProcessingState =
  NOT_QUEUED | IN_PENDING | IN_PROCESSING | PROCESSED | IN_RETRY_SCHEDULED | IN_DEAD_LETTER

datatype DispatchState =
  DS_PENDING | DS_PROCESSING | DS_PUBLISHED | DS_RETRY_SCHEDULED | DS_SUCCEEDED | DS_DEAD_LETTER

record MerchantRow =
  mc_id :: string
  mc_display_name :: string
  mc_provider :: string
  mc_provider_account_id :: "string option"
  mc_status :: string
  mc_updated_at :: datetime

record CustomerRow =
  cu_merchant_id :: string
  cu_id :: string
  cu_provider_customer_id :: "string option"
  cu_provider_updated_at :: "datetime option"
  cu_updated_at :: datetime

record PaymentRow =
  py_merchant_id :: string
  py_id :: string
  py_provider_payment_id :: string
  py_customer_id :: "string option"
  py_order_id :: "string option"
  py_amount_minor :: int
  py_currency :: string
  py_status :: string
  py_provider_occurred_at :: datetime
  py_provider_updated_at :: "datetime option"
  py_updated_at :: datetime

record SubscriptionRow =
  su_merchant_id :: string
  su_id :: string
  su_provider_subscription_id :: string
  su_customer_id :: "string option"
  su_amount_minor :: int
  su_currency :: string
  su_status :: string
  su_provider_occurred_at :: datetime
  su_provider_updated_at :: "datetime option"
  su_updated_at :: datetime

record WebhookRow =
  wh_id :: string
  wh_merchant_id :: string
  wh_provider :: string
  wh_provider_event_id :: "string option"
  wh_event_type :: "string option"
  wh_entity_id :: "string option"
  wh_raw_body :: "byte list option"
  wh_raw_payload :: "doc option"
  wh_raw_payload_sha256 :: string
  wh_signature_valid :: bool
  wh_signature_failure_code :: "string option"
  wh_ingestion_status :: IngestionStatus
  wh_processing_state :: ProcessingState
  wh_occurred_at :: "datetime option"
  wh_received_at :: datetime
  wh_processed_at :: "datetime option"
  wh_correlation_id :: string
  wh_last_error_code :: "string option"
  wh_last_error_detail :: "string option"

record DispatchRow =
  dp_id :: string
  dp_merchant_id :: string
  dp_webhook_event_id :: string
  dp_normalized_event_id :: "string option"
  dp_queue_name :: string
  dp_state :: DispatchState
  dp_attempt_count :: int
  dp_max_attempts :: int
  dp_replay_count :: int
  dp_available_at :: datetime
  dp_lease_token :: "string option"
  dp_lease_expires_at :: "datetime option"
  dp_broker_task_id :: "string option"
  dp_last_error_code :: "string option"
  dp_last_error_detail :: "string option"
  dp_created_at :: datetime
  dp_published_at :: "datetime option"
  dp_completed_at :: "datetime option"
  dp_dead_lettered_at :: "datetime option"
  dp_last_replayed_at :: "datetime option"
  dp_last_replayed_by :: "string option"

text \<open>A row of \<open>normalized_events\<close> has the columns of the event and those of its inbox.\<close>

record NormalizedRow = RevenueRiskEvent +
  ne_webhook_event_id :: "string option"
  ne_merchant_event_id :: "string option"
  ne_normalized_payload :: doc

record CorrelationRow =
  co_merchant_id :: string
  co_normalized_event_id :: string
  co_reference_type :: string
  co_external_id :: string
  co_internal_id :: "string option"

record ingest_db = action_db +
  db_merchants :: "MerchantRow list"
  db_customers :: "CustomerRow list"
  db_payments :: "PaymentRow list"
  db_subscriptions :: "SubscriptionRow list"
  db_webhooks :: "WebhookRow list"
  db_dispatches :: "DispatchRow list"
  db_normalized :: "NormalizedRow list"
  db_correlations :: "CorrelationRow list"

record WebhookInsertResult =
  wi_event :: WebhookRow
  wi_created :: bool
  wi_dispatch_id :: "string option"

record DispatchFailureResult =
  df_dispatch_id :: string
  df_state :: DispatchState
  df_attempt_count :: int


section \<open>Constraints\<close>

definition merchants_ok :: "MerchantRow list \<Rightarrow> bool" where
  "merchants_ok rows \<longleftrightarrow>
     distinct (map mc_id rows)
     \<and> unique_index (\<lambda>m. mc_provider_account_id m \<noteq> None) (\<lambda>m. (mc_provider m, mc_provider_account_id m)) rows
     \<and> (\<forall>m\<in>set rows. mc_status m \<in> {''ACTIVE'', ''DISABLED''})"

definition customers_ok :: "CustomerRow list \<Rightarrow> bool" where
  "customers_ok rows \<longleftrightarrow>
     distinct (map (\<lambda>c. (cu_merchant_id c, cu_id c)) rows)
     \<and> unique_index (\<lambda>c. cu_provider_customer_id c \<noteq> None) (\<lambda>c. (cu_merchant_id c, cu_provider_customer_id c)) rows"

definition payments_ok :: "PaymentRow list \<Rightarrow> bool" where
  "payments_ok rows \<longleftrightarrow>
     distinct (map (\<lambda>p. (py_merchant_id p, py_id p)) rows)
     \<and> distinct (map (\<lambda>p. (py_merchant_id p, py_provider_payment_id p)) rows)
     \<and> (\<forall>p\<in>set rows. 0 \<le> py_amount_minor p \<and> currency_pattern (py_currency p))"

definition subscriptions_ok :: "SubscriptionRow list \<Rightarrow> bool" where
  "subscriptions_ok rows \<longleftrightarrow>
     distinct (map (\<lambda>p. (su_merchant_id p, su_id p)) rows)
     \<and> distinct (map (\<lambda>p. (su_merchant_id p, su_provider_subscription_id p)) rows)
     \<and> (\<forall>p\<in>set rows. 0 \<le> su_amount_minor p \<and> currency_pattern (su_currency p))"

definition webhook_row_ok :: "WebhookRow \<Rightarrow> bool" where
  "webhook_row_ok w \<longleftrightarrow>
     (\<not> wh_signature_valid w \<or> wh_provider_event_id w \<noteq> None \<and> wh_raw_body w \<noteq> None)
     \<and> (wh_signature_valid w \<or> wh_raw_body w = None \<and> wh_raw_payload w = None)"

definition webhooks_ok :: "WebhookRow list \<Rightarrow> bool" where
  "webhooks_ok rows \<longleftrightarrow>
     distinct (map wh_id rows) \<and> (\<forall>w\<in>set rows. webhook_row_ok w)
     \<and> unique_index (\<lambda>w. wh_signature_valid w \<and> wh_provider_event_id w \<noteq> None)
         (\<lambda>w. (wh_provider w, wh_merchant_id w, wh_provider_event_id w)) rows"

definition dispatch_row_ok :: "DispatchRow \<Rightarrow> bool" where
  "dispatch_row_ok d \<longleftrightarrow>
     0 \<le> dp_attempt_count d \<and> 0 < dp_max_attempts d \<and> 0 \<le> dp_replay_count d
     \<and> dp_attempt_count d \<le> dp_max_attempts d
     \<and> (dp_state d \<noteq> DS_DEAD_LETTER \<or> dp_dead_lettered_at d \<noteq> None)"

definition dispatches_ok :: "DispatchRow list \<Rightarrow> bool" where
  "dispatches_ok rows \<longleftrightarrow>
     distinct (map dp_id rows) \<and> distinct (map dp_webhook_event_id rows)
     \<and> (\<forall>d\<in>set rows. dispatch_row_ok d)"

definition normalized_row_ok :: "NormalizedRow \<Rightarrow> bool" where
  "normalized_row_ok n \<longleftrightarrow>
     ev_schema_version n = ''1.0'' \<and> 0 \<le> ev_amount_minor n \<and> currency_pattern (ev_currency n)
     \<and> (ne_webhook_event_id n \<noteq> None \<longleftrightarrow> ne_merchant_event_id n = None)
     \<and> (ev_customer_id n \<noteq> None \<or> ev_payment_id n \<noteq> None \<or> ev_subscription_id n \<noteq> None
        \<or> ev_invoice_id n \<noteq> None \<or> ev_payment_link_id n \<noteq> None)"

definition normalized_ok :: "NormalizedRow list \<Rightarrow> bool" where
  "normalized_ok rows \<longleftrightarrow>
     distinct (map ev_event_id rows) \<and> (\<forall>n\<in>set rows. normalized_row_ok n)
     \<and> unique_index (\<lambda>n. ne_webhook_event_id n \<noteq> None) ne_webhook_event_id rows
     \<and> unique_index (\<lambda>n. ne_merchant_event_id n \<noteq> None) ne_merchant_event_id rows
     \<and> distinct (map (\<lambda>n. (ev_merchant_id n, ev_source n, ev_source_event_id n)) rows)"

definition flush_dispatches :: "('a ingest_db_scheme, unit) tx" where
  "flush_dispatches = checkT (\<lambda>s. dispatches_ok (db_dispatches s)) ''event_dispatches''"

definition flush_webhooks :: "('a ingest_db_scheme, unit) tx" where
  "flush_webhooks = checkT (\<lambda>s. webhooks_ok (db_webhooks s)) ''webhook_events''"


section \<open>Merchants, customers, payments and subscriptions\<close>

definition upsert_merchant ::
    "string \<Rightarrow> string \<Rightarrow> string \<Rightarrow> string option \<Rightarrow> string \<Rightarrow> datetime \<Rightarrow> ('a ingest_db_scheme, MerchantRow) tx" where
  "upsert_merchant merchant_id display_name provider provider_account_id status now =
     seqT (modifyT (\<lambda>s. s\<lparr>db_merchants :=
        (if \<exists>m\<in>set (db_merchants s). mc_id m = merchant_id
         then update_where (\<lambda>m. mc_id m = merchant_id)
                (\<lambda>m. m\<lparr>mc_display_name := display_name, mc_provider_account_id := provider_account_id,
                       mc_status := status, mc_updated_at := now\<rparr>) (db_merchants s)
         else db_merchants s @
                [\<lparr>mc_id = merchant_id, mc_display_name = display_name, mc_provider = provider,
                  mc_provider_account_id = provider_account_id, mc_status = status, mc_updated_at = now\<rparr>])\<rparr>))
     (seqT (checkT (\<lambda>s. merchants_ok (db_merchants s)) ''merchants'')
     (bindT (getT (\<lambda>s. filter (\<lambda>m. mc_id m = merchant_id) (db_merchants s))) oneT))"

definition customer_update_applies :: "CustomerRow \<Rightarrow> CustomerRow \<Rightarrow> bool" where
  "customer_update_applies excluded c \<longleftrightarrow>
     (case cu_provider_updated_at c of
        None \<Rightarrow> True
      | Some current \<Rightarrow> (\<exists>t\<in>set_option (cu_provider_updated_at excluded). current \<le> t))"

definition upsert_customer :: "CustomerRow \<Rightarrow> ('a ingest_db_scheme, CustomerRow) tx" where
  "upsert_customer excluded =
     (let same = (\<lambda>c. cu_merchant_id c = cu_merchant_id excluded \<and> cu_id c = cu_id excluded) in
      seqT (modifyT (\<lambda>s. s\<lparr>db_customers :=
        (if \<exists>c\<in>set (db_customers s). same c
         then update_where (\<lambda>c. same c \<and> customer_update_applies excluded c) (\<lambda>c. excluded) (db_customers s)
         else db_customers s @ [excluded])\<rparr>))
      (seqT (checkT (\<lambda>s. customers_ok (db_customers s)) ''customers'')
      (bindT (getT (\<lambda>s. filter same (db_customers s))) oneT)))"

text \<open>The SQL \<open>case\<close> over the precedence table compares the stored status as it is.\<close>

definition stored_rank :: "string \<Rightarrow> int" where
  "stored_rank status = (case map_of PROVIDER_STATUS_PRECEDENCE status of Some n \<Rightarrow> n | None \<Rightarrow> 0)"

definition provider_update_is_authoritative ::
    "string \<Rightarrow> datetime option \<Rightarrow> string \<Rightarrow> datetime option \<Rightarrow> bool" where
  "provider_update_is_authoritative current_status current_updated_at excluded_status excluded_updated_at \<longleftrightarrow>
     (case current_updated_at of
        None \<Rightarrow> True
      | Some current \<Rightarrow>
          (\<exists>t\<in>set_option excluded_updated_at.
             current < t \<or> t = current \<and> stored_rank current_status \<le> stored_rank excluded_status))"

definition upsert_payment :: "PaymentRow \<Rightarrow> ('a ingest_db_scheme, PaymentRow) tx" where
  "upsert_payment excluded =
     (let same = (\<lambda>p. py_merchant_id p = py_merchant_id excluded \<and> py_id p = py_id excluded) in
      seqT (modifyT (\<lambda>s. s\<lparr>db_payments :=
        (if \<exists>p\<in>set (db_payments s). same p
         then update_where
                (\<lambda>p. same p \<and> provider_update_is_authoritative (py_status p) (py_provider_updated_at p)
                   (py_status excluded) (py_provider_updated_at excluded))
                (\<lambda>p. excluded) (db_payments s)
         else db_payments s @ [excluded])\<rparr>))
      (seqT (checkT (\<lambda>s. payments_ok (db_payments s)) ''payments'')
      (bindT (getT (\<lambda>s. filter same (db_payments s))) oneT)))"

definition upsert_subscription :: "SubscriptionRow \<Rightarrow> ('a ingest_db_scheme, SubscriptionRow) tx" where
  "upsert_subscription excluded =
     (let same = (\<lambda>p. su_merchant_id p = su_merchant_id excluded \<and> su_id p = su_id excluded) in
      seqT (modifyT (\<lambda>s. s\<lparr>db_subscriptions :=
        (if \<exists>p\<in>set (db_subscriptions s). same p
         then update_where
                (\<lambda>p. same p \<and> provider_update_is_authoritative (su_status p) (su_provider_updated_at p)
                   (su_status excluded) (su_provider_updated_at excluded))
                (\<lambda>p. excluded) (db_subscriptions s)
         else db_subscriptions s @ [excluded])\<rparr>))
      (seqT (checkT (\<lambda>s. subscriptions_ok (db_subscriptions s)) ''subscriptions'')
      (bindT (getT (\<lambda>s. filter same (db_subscriptions s))) oneT)))"

section \<open>The webhook inbox\<close>

text \<open>The keyword arguments of \<open>record_webhook\<close> and of \<open>record_invalid_webhook\<close>.\<close>

record WebhookRequest =
  wq_event_id :: string
  wq_merchant_id :: string
  wq_provider :: string
  wq_provider_event_id :: string
  wq_event_type :: string
  wq_entity_id :: "string option"
  wq_raw_body :: "byte list"
  wq_raw_payload :: doc
  wq_occurred_at :: "datetime option"
  wq_received_at :: datetime
  wq_correlation_id :: string
  wq_max_dispatch_attempts :: int

record InvalidWebhookRequest =
  iq_event_id :: string
  iq_merchant_id :: string
  iq_provider :: string
  iq_provider_event_id :: "string option"
  iq_raw_payload_sha256 :: string
  iq_received_at :: datetime
  iq_correlation_id :: string
  iq_failure_code :: string

text \<open>The verified row of a delivery: what the partial unique index identifies.\<close>

definition same_delivery :: "string \<Rightarrow> string \<Rightarrow> string \<Rightarrow> WebhookRow \<Rightarrow> bool" where
  "same_delivery provider merchant_id provider_event_id w \<longleftrightarrow>
     wh_provider w = provider \<and> wh_merchant_id w = merchant_id
     \<and> wh_provider_event_id w = Some provider_event_id \<and> wh_signature_valid w"

definition webhook_row :: "WebhookRequest \<Rightarrow> WebhookRow" where
  "webhook_row q =
     \<lparr>wh_id = wq_event_id q, wh_merchant_id = wq_merchant_id q, wh_provider = wq_provider q,
      wh_provider_event_id = Some (wq_provider_event_id q), wh_event_type = Some (wq_event_type q),
      wh_entity_id = wq_entity_id q, wh_raw_body = Some (wq_raw_body q),
      wh_raw_payload = Some (wq_raw_payload q),
      wh_raw_payload_sha256 = hexdigest (sha256 (wq_raw_body q)), wh_signature_valid = True,
      wh_signature_failure_code = None, wh_ingestion_status = ACCEPTED,
      wh_processing_state = IN_PENDING, wh_occurred_at = wq_occurred_at q,
      wh_received_at = wq_received_at q, wh_processed_at = None,
      wh_correlation_id = wq_correlation_id q, wh_last_error_code = None, wh_last_error_detail = None\<rparr>"

definition dispatch_row :: "WebhookRequest \<Rightarrow> string \<Rightarrow> datetime \<Rightarrow> DispatchRow" where
  "dispatch_row q dispatch_id db_now =
     \<lparr>dp_id = dispatch_id, dp_merchant_id = wq_merchant_id q, dp_webhook_event_id = wq_event_id q,
      dp_normalized_event_id = None, dp_queue_name = ''event_ingestion'', dp_state = DS_PENDING,
      dp_attempt_count = 0, dp_max_attempts = wq_max_dispatch_attempts q, dp_replay_count = 0,
      dp_available_at = wq_received_at q, dp_lease_token = None, dp_lease_expires_at = None,
      dp_broker_task_id = None, dp_last_error_code = None, dp_last_error_detail = None,
      dp_created_at = db_now, dp_published_at = None, dp_completed_at = None,
      dp_dead_lettered_at = None, dp_last_replayed_at = None, dp_last_replayed_by = None\<rparr>"

definition accepted_append :: "WebhookRequest \<Rightarrow> AuditAppend" where
  "accepted_append q =
     new_append (wq_merchant_id q) ''WEBHOOK_ACCEPTED'' ''WEBHOOK_EVENT'' (wq_event_id q)
       (wq_correlation_id q) ''PROVIDER'' (wq_provider q)
       [(''event_type'', PStr (wq_event_type q)),
        (''provider_event_id'', PStr (wq_provider_event_id q)),
        (''raw_payload_sha256'', PStr (hexdigest (sha256 (wq_raw_body q))))]
       (wq_received_at q)"

definition dispatch_id_for :: "string \<Rightarrow> ('a ingest_db_scheme, string option) tx" where
  "dispatch_id_for webhook_event_id =
     getT (\<lambda>s. map_option dp_id (find (\<lambda>d. dp_webhook_event_id d = webhook_event_id) (db_dispatches s)))"

definition record_webhook ::
    "(nat \<Rightarrow> string) \<Rightarrow> datetime \<Rightarrow> WebhookRequest \<Rightarrow> ('a ingest_db_scheme, WebhookInsertResult) tx" where
  "record_webhook uuids db_now q =
     bindT (getT (\<lambda>s. filter (same_delivery (wq_provider q) (wq_merchant_id q) (wq_provider_event_id q)) (db_webhooks s)))
     (\<lambda>rows.
     if rows \<noteq> [] then
       bindT (oneT rows) (\<lambda>existing.
       bindT (dispatch_id_for (wh_id existing)) (\<lambda>dispatch_id.
       returnT \<lparr>wi_event = existing, wi_created = False, wi_dispatch_id = dispatch_id\<rparr>))
     else
       seqT (modifyT (\<lambda>s. s\<lparr>db_webhooks := db_webhooks s @ [webhook_row q]\<rparr>))
       (seqT flush_webhooks
       (bindT (draw_uuid uuids) (\<lambda>dispatch_id.
        seqT (modifyT (\<lambda>s. s\<lparr>db_dispatches := db_dispatches s @ [dispatch_row q dispatch_id db_now]\<rparr>))
        (seqT flush_dispatches
        (seqT (append_entry uuids (accepted_append q))
        (returnT \<lparr>wi_event = webhook_row q, wi_created = True, wi_dispatch_id = Some dispatch_id\<rparr>)))))))"

definition invalid_webhook_row :: "InvalidWebhookRequest \<Rightarrow> WebhookRow" where
  "invalid_webhook_row q =
     \<lparr>wh_id = iq_event_id q, wh_merchant_id = iq_merchant_id q, wh_provider = iq_provider q,
      wh_provider_event_id = iq_provider_event_id q, wh_event_type = None, wh_entity_id = None,
      wh_raw_body = None, wh_raw_payload = None, wh_raw_payload_sha256 = iq_raw_payload_sha256 q,
      wh_signature_valid = False, wh_signature_failure_code = Some (iq_failure_code q),
      wh_ingestion_status = REJECTED_INVALID_SIGNATURE, wh_processing_state = NOT_QUEUED,
      wh_occurred_at = None, wh_received_at = iq_received_at q, wh_processed_at = None,
      wh_correlation_id = iq_correlation_id q, wh_last_error_code = None, wh_last_error_detail = None\<rparr>"

definition rejected_append :: "InvalidWebhookRequest \<Rightarrow> AuditAppend" where
  "rejected_append q =
     new_append (iq_merchant_id q) ''WEBHOOK_REJECTED_INVALID_SIGNATURE'' ''WEBHOOK_EVENT'' (iq_event_id q)
       (iq_correlation_id q) ''PROVIDER'' (iq_provider q)
       [(''failure_code'', PStr (iq_failure_code q)),
        (''payload_sha256'', PStr (iq_raw_payload_sha256 q)),
        (''provider_event_id'', opt_str (iq_provider_event_id q))]
       (iq_received_at q)"

definition record_invalid_webhook ::
    "(nat \<Rightarrow> string) \<Rightarrow> InvalidWebhookRequest \<Rightarrow> ('a ingest_db_scheme, WebhookRow) tx" where
  "record_invalid_webhook uuids q =
     seqT (modifyT (\<lambda>s. s\<lparr>db_webhooks := db_webhooks s @ [invalid_webhook_row q]\<rparr>))
     (seqT flush_webhooks
     (seqT (append_entry uuids (rejected_append q)) (returnT (invalid_webhook_row q))))"

definition fetch_webhook_for_processing ::
    "string \<Rightarrow> string \<Rightarrow> ('a ingest_db_scheme, WebhookRow option) tx" where
  "fetch_webhook_for_processing merchant_id webhook_event_id =
     bindT (getT (\<lambda>s. filter (\<lambda>w. wh_merchant_id w = merchant_id \<and> wh_id w = webhook_event_id
         \<and> wh_signature_valid w \<and> wh_ingestion_status w = ACCEPTED) (db_webhooks s))) one_or_noneT"


section \<open>Normalised events\<close>

text \<open>
  \<open>_as_datetime\<close> reads the timestamps back that \<open>to_dict\<close> printed, which have no fraction of
  a second.
\<close>

definition whole_seconds :: "datetime \<Rightarrow> datetime" where
  "whole_seconds t = Aware (seconds (instant t div 1000000))"

definition normalized_row :: "RevenueRiskEvent \<Rightarrow> string \<Rightarrow> NormalizedRow" where
  "normalized_row e webhook_event_id =
     \<lparr>ev_event_id = ev_event_id e, ev_merchant_id = ev_merchant_id e, ev_source = ev_source e,
      ev_source_event_id = ev_source_event_id e, ev_event_type = ev_event_type e,
      ev_occurred_at = whole_seconds (ev_occurred_at e),
      ev_received_at = whole_seconds (ev_received_at e), ev_amount_minor = ev_amount_minor e,
      ev_currency = ev_currency e, ev_failure_category = ev_failure_category e,
      ev_correlation_id = ev_correlation_id e,
      ev_source_payload_reference = ev_source_payload_reference e, ev_customer_id = ev_customer_id e,
      ev_payment_id = ev_payment_id e, ev_order_id = ev_order_id e,
      ev_subscription_id = ev_subscription_id e, ev_invoice_id = ev_invoice_id e,
      ev_payment_link_id = ev_payment_link_id e, ev_failure_code = ev_failure_code e,
      ev_causation_id = ev_causation_id e, ev_schema_version = ev_schema_version e,
      ne_webhook_event_id = Some webhook_event_id, ne_merchant_event_id = None,
      ne_normalized_payload = event_to_dict e\<rparr>"

text \<open>Whether an insert of the row would violate one of the table's unique constraints.\<close>

definition normalized_conflict :: "NormalizedRow list \<Rightarrow> NormalizedRow \<Rightarrow> bool" where
  "normalized_conflict rows n \<longleftrightarrow>
     (\<exists>r\<in>set rows. ev_event_id r = ev_event_id n
        \<or> ne_webhook_event_id r \<noteq> None \<and> ne_webhook_event_id r = ne_webhook_event_id n
        \<or> ne_merchant_event_id r \<noteq> None \<and> ne_merchant_event_id r = ne_merchant_event_id n
        \<or> (ev_merchant_id r, ev_source r, ev_source_event_id r)
            = (ev_merchant_id n, ev_source n, ev_source_event_id n))"

definition correlation_key :: "CorrelationRow \<Rightarrow> string \<times> string \<times> string \<times> string" where
  "correlation_key c =
     (co_merchant_id c, co_normalized_event_id c, co_reference_type c, co_external_id c)"

definition add_correlation :: "CorrelationRow \<Rightarrow> ('a ingest_db_scheme, unit) tx" where
  "add_correlation c = modifyT (\<lambda>s.
     if correlation_key c \<in> correlation_key ` set (db_correlations s) then s
     else s\<lparr>db_correlations := db_correlations s @ [c]\<rparr>)"

definition persist_normalized_event ::
    "RevenueRiskEvent \<Rightarrow> string \<Rightarrow> (string \<times> string \<times> string option) list \<Rightarrow>
     ('a ingest_db_scheme, NormalizedRow) tx" where
  "persist_normalized_event e webhook_event_id correlations =
     (let row = normalized_row e webhook_event_id in
      bindT (getT (\<lambda>s. normalized_conflict (db_normalized s) row)) (\<lambda>conflict.
      bindT (if conflict
             then bindT (getT (\<lambda>s. filter (\<lambda>n. ev_merchant_id n = ev_merchant_id e
                     \<and> ne_webhook_event_id n = Some webhook_event_id) (db_normalized s))) oneT
             else
               seqT (modifyT (\<lambda>s. s\<lparr>db_normalized := db_normalized s @ [row]\<rparr>))
               (seqT (checkT (\<lambda>s. normalized_ok (db_normalized s)) ''normalized_events'')
               (seqT (mapT (\<lambda>(reference_type, external_id, internal_id). add_correlation
                        \<lparr>co_merchant_id = ev_merchant_id row, co_normalized_event_id = ev_event_id row,
                         co_reference_type = reference_type, co_external_id = external_id,
                         co_internal_id = internal_id\<rparr>) correlations)
               (returnT row))))
      (\<lambda>normalized.
      seqT (modifyT (\<lambda>s. s\<lparr>db_dispatches := update_where
          (\<lambda>d. dp_merchant_id d = ev_merchant_id normalized \<and> dp_webhook_event_id d = webhook_event_id)
          (\<lambda>d. d\<lparr>dp_normalized_event_id := Some (ev_event_id normalized)\<rparr>) (db_dispatches s)\<rparr>))
      (returnT normalized))))"


section \<open>Dispatches\<close>

definition stored_dispatch :: "'a ingest_db_scheme \<Rightarrow> string \<Rightarrow> DispatchRow option" where
  "stored_dispatch s i = find (\<lambda>d. dp_id d = i) (db_dispatches s)"

definition update_dispatch :: "string \<Rightarrow> (DispatchRow \<Rightarrow> DispatchRow) \<Rightarrow> ('a ingest_db_scheme, unit) tx" where
  "update_dispatch i f = modifyT (\<lambda>s. s\<lparr>db_dispatches := update_where (\<lambda>d. dp_id d = i) f (db_dispatches s)\<rparr>)"

definition update_webhook :: "string \<Rightarrow> (WebhookRow \<Rightarrow> WebhookRow) \<Rightarrow> ('a ingest_db_scheme, unit) tx" where
  "update_webhook i f = modifyT (\<lambda>s. s\<lparr>db_webhooks := update_where (\<lambda>w. wh_id w = i) f (db_webhooks s)\<rparr>)"

definition dispatch_claimable :: "datetime \<Rightarrow> DispatchRow \<Rightarrow> bool" where
  "dispatch_claimable now d \<longleftrightarrow>
     (dp_state d \<in> {DS_PENDING, DS_RETRY_SCHEDULED} \<and> dp_available_at d \<le> now
      \<or> dp_state d \<in> {DS_PROCESSING, DS_PUBLISHED} \<and> (\<exists>t\<in>set_option (dp_lease_expires_at d). t \<le> now))
     \<and> dp_attempt_count d < dp_max_attempts d"

definition claimed_dispatch :: "datetime \<Rightarrow> int \<Rightarrow> string \<Rightarrow> DispatchRow \<Rightarrow> DispatchRow" where
  "claimed_dispatch now lease_for token d =
     d\<lparr>dp_state := DS_PROCESSING, dp_attempt_count := dp_attempt_count d + 1,
       dp_lease_token := Some token, dp_lease_expires_at := Some (plus_delta now lease_for)\<rparr>"

definition claim_dispatch ::
    "(nat \<Rightarrow> string) \<Rightarrow> datetime \<Rightarrow> int \<Rightarrow> DispatchRow \<Rightarrow> ('a ingest_db_scheme, DispatchRow) tx" where
  "claim_dispatch uuids now lease_for d =
     bindT (draw_uuid uuids) (\<lambda>token.
     seqT (update_dispatch (dp_id d) (claimed_dispatch now lease_for token))
     (returnT (claimed_dispatch now lease_for token d)))"

definition claim_dispatches ::
    "(nat \<Rightarrow> string) \<Rightarrow> datetime \<Rightarrow> int \<Rightarrow> int \<Rightarrow> ('a ingest_db_scheme, DispatchRow list) tx" where
  "claim_dispatches uuids now lease_for limit =
     bindT (getT (\<lambda>s. take (nat limit) (sort_key (\<lambda>d. (dp_available_at d, dp_created_at d))
        (filter (dispatch_claimable now) (db_dispatches s))))) (\<lambda>dispatches.
     bindT (mapT (claim_dispatch uuids now lease_for) dispatches) (\<lambda>claimed.
     seqT flush_dispatches (returnT claimed)))"

definition published_dispatch :: "string \<Rightarrow> datetime \<Rightarrow> DispatchRow \<Rightarrow> DispatchRow" where
  "published_dispatch broker_task_id published_at d =
     d\<lparr>dp_state := DS_PUBLISHED, dp_broker_task_id := Some broker_task_id,
       dp_published_at := Some published_at\<rparr>"

definition mark_dispatch_published ::
    "string \<Rightarrow> string \<Rightarrow> string \<Rightarrow> datetime \<Rightarrow> ('a ingest_db_scheme, bool) tx" where
  "mark_dispatch_published dispatch_id lease_token broker_task_id published_at =
     (let owned = (\<lambda>d. dp_id d = dispatch_id \<and> dp_state d = DS_PROCESSING \<and> dp_lease_token d = Some lease_token) in
      bindT (getT (\<lambda>s. \<exists>d\<in>set (db_dispatches s). owned d)) (\<lambda>found.
      seqT (modifyT (\<lambda>s. s\<lparr>db_dispatches :=
              update_where owned (published_dispatch broker_task_id published_at) (db_dispatches s)\<rparr>))
      (returnT found)))"

definition succeeded_dispatch :: "datetime \<Rightarrow> DispatchRow \<Rightarrow> DispatchRow" where
  "succeeded_dispatch completed_at d =
     d\<lparr>dp_state := DS_SUCCEEDED, dp_completed_at := Some completed_at, dp_lease_token := None,
       dp_lease_expires_at := None\<rparr>"

definition mark_dispatch_succeeded :: "string \<Rightarrow> datetime \<Rightarrow> ('a ingest_db_scheme, bool) tx" where
  "mark_dispatch_succeeded dispatch_id completed_at =
     bindT (getT (\<lambda>s. stored_dispatch s dispatch_id)) (\<lambda>dispatch.
     case dispatch of
       None \<Rightarrow> returnT False
     | Some d \<Rightarrow>
         if dp_state d = DS_DEAD_LETTER then returnT False
         else
           seqT (update_dispatch dispatch_id (succeeded_dispatch completed_at))
           (seqT (update_webhook (dp_webhook_event_id d)
                    (\<lambda>w. w\<lparr>wh_processing_state := PROCESSED, wh_processed_at := Some completed_at\<rparr>))
           (seqT flush_dispatches (returnT True))))"

definition failed_dispatch ::
    "datetime \<Rightarrow> datetime \<Rightarrow> string \<Rightarrow> string \<Rightarrow> DispatchRow \<Rightarrow> DispatchRow" where
  "failed_dispatch now retry_at error_code error_detail d =
     (let d' = d\<lparr>dp_last_error_code := Some error_code, dp_last_error_detail := Some error_detail,
                dp_lease_token := None, dp_lease_expires_at := None\<rparr> in
      if dp_max_attempts d \<le> dp_attempt_count d
      then d'\<lparr>dp_state := DS_DEAD_LETTER, dp_dead_lettered_at := Some now\<rparr>
      else d'\<lparr>dp_state := DS_RETRY_SCHEDULED, dp_available_at := retry_at\<rparr>)"

definition record_dispatch_failure ::
    "string \<Rightarrow> datetime \<Rightarrow> datetime \<Rightarrow> string \<Rightarrow> string \<Rightarrow> ('a ingest_db_scheme, DispatchFailureResult) tx" where
  "record_dispatch_failure dispatch_id now retry_at error_code error_detail =
     bindT (getT (\<lambda>s. stored_dispatch s dispatch_id)) (\<lambda>dispatch.
     bindT (requireT (LookupError (''Unknown dispatch '' @ dispatch_id)) dispatch) (\<lambda>d.
     let d' = failed_dispatch now retry_at error_code error_detail d in
     seqT (update_dispatch dispatch_id (failed_dispatch now retry_at error_code error_detail))
     (seqT (update_webhook (dp_webhook_event_id d)
              (\<lambda>w. w\<lparr>wh_processing_state :=
                       (if dp_max_attempts d \<le> dp_attempt_count d then IN_DEAD_LETTER else IN_RETRY_SCHEDULED),
                     wh_last_error_code := Some error_code, wh_last_error_detail := Some error_detail\<rparr>))
     (seqT flush_dispatches
     (returnT \<lparr>df_dispatch_id = dp_id d', df_state = dp_state d', df_attempt_count = dp_attempt_count d'\<rparr>)))))"

definition requeued_dispatch :: "datetime \<Rightarrow> string \<Rightarrow> DispatchRow \<Rightarrow> DispatchRow" where
  "requeued_dispatch replayed_at replayed_by d =
     d\<lparr>dp_state := DS_PENDING, dp_attempt_count := 0, dp_replay_count := dp_replay_count d + 1,
       dp_available_at := replayed_at, dp_lease_token := None, dp_lease_expires_at := None,
       dp_broker_task_id := None, dp_last_replayed_at := Some replayed_at,
       dp_last_replayed_by := Some replayed_by\<rparr>"

definition requeue_dead_letter :: "string \<Rightarrow> datetime \<Rightarrow> string \<Rightarrow> ('a ingest_db_scheme, bool) tx" where
  "requeue_dead_letter dispatch_id replayed_at replayed_by =
     bindT (getT (\<lambda>s. stored_dispatch s dispatch_id)) (\<lambda>dispatch.
     case dispatch of
       None \<Rightarrow> returnT False
     | Some d \<Rightarrow>
         if dp_state d \<noteq> DS_DEAD_LETTER then returnT False
         else
           seqT (update_dispatch dispatch_id (requeued_dispatch replayed_at replayed_by))
           (seqT (update_webhook (dp_webhook_event_id d) (\<lambda>w. w\<lparr>wh_processing_state := IN_PENDING\<rparr>))
           (seqT flush_dispatches (returnT True))))"

section \<open>Failures of the worker\<close>

text \<open>
  \<open>_record_processing_failure\<close> of \<open>revenueguard_worker/tasks.py\<close>: exponential back-off, and a
  terminal failure uses up the attempts that are left.
\<close>

definition retry_delay_seconds :: "int \<Rightarrow> int" where
  "retry_delay_seconds attempt_count = min 300 (5 * 2 ^ nat (max (attempt_count - 1) 0))"

definition exhausted_dispatch :: "DispatchRow \<Rightarrow> DispatchRow" where
  "exhausted_dispatch d = d\<lparr>dp_attempt_count := dp_max_attempts d\<rparr>"

definition record_processing_failure ::
    "string \<Rightarrow> string \<Rightarrow> string \<Rightarrow> bool \<Rightarrow> datetime \<Rightarrow> ('a ingest_db_scheme, DispatchState) tx" where
  "record_processing_failure dispatch_id error_code error_detail terminal now =
     bindT (getT (\<lambda>s. stored_dispatch s dispatch_id)) (\<lambda>dispatch.
     bindT (requireT (LookupError ''dispatch does not exist'') dispatch) (\<lambda>d.
     seqT (if terminal then update_dispatch dispatch_id exhausted_dispatch else returnT ())
     (bindT (record_dispatch_failure dispatch_id now
              (plus_delta now (seconds (retry_delay_seconds (dp_attempt_count d)))) error_code error_detail)
      (\<lambda>result. returnT (df_state result)))))"

end
