(* ===== verification/Frames.thy ===== *)
theory Frames
  imports Case_Store
begin

text \<open>
  The interface of a frame: a reflexive and transitive relation between states, such as ``only
  the audit tables differ'' or ``rows are only added''. That every operation of a component
  stays inside a frame is proved from the way the operation is composed; the rules are proved
  here once. The audit ledger provides the first frame.
\<close>

locale step_order =
  fixes R :: "'s \<Rightarrow> 's \<Rightarrow> bool"
  assumes step_refl: "R s s"
    and step_trans: "R s t \<Longrightarrow> R t u \<Longrightarrow> R s u"
begin

definition stays :: "('s, 'a) tx \<Rightarrow> bool" where
  "stays m \<longleftrightarrow> (\<forall>s x s'. m s = Inr (x, s') \<longrightarrow> R s s')"

lemma staysI: "(\<And>s x s'. m s = Inr (x, s') \<Longrightarrow> R s s') \<Longrightarrow> stays m"
  by (auto simp: stays_def)

lemma staysD: "stays m \<Longrightarrow> m s = Inr (x, s') \<Longrightarrow> R s s'"
  by (auto simp: stays_def)

lemma stays_bindT: "stays m \<Longrightarrow> (\<And>x. stays (f x)) \<Longrightarrow> stays (bindT m f)"
  unfolding stays_def bindT_eq_Inr by (blast intro: step_trans)

lemma stays_seqT: "stays m \<Longrightarrow> stays n \<Longrightarrow> stays (seqT m n)"
  unfolding seqT_def by (rule stays_bindT)

lemma stays_pure:
  "stays (returnT x)" "stays (raiseT e)" "stays (getT g)" "stays (liftR r)"
  "stays (guardT b e)" "stays (requireT e v)" "stays (one_or_noneT rows)"
  "stays (oneT rows)" "stays (checkT ok n)"
  by (auto simp: stays_def tx_eq_Inr one_or_noneT_eq_Inr oneT_eq_Inr checkT_eq_Inr step_refl)

lemma stays_modifyT: "(\<And>s. R s (h s)) \<Longrightarrow> stays (modifyT h)"
  by (auto simp: stays_def tx_eq_Inr)

lemma stays_if: "(b \<Longrightarrow> stays m) \<Longrightarrow> (\<not> b \<Longrightarrow> stays n) \<Longrightarrow> stays (if b then m else n)"
  by simp

lemma stays_case_option:
  "stays m \<Longrightarrow> (\<And>x. stays (f x)) \<Longrightarrow> stays (case v of None \<Rightarrow> m | Some x \<Rightarrow> f x)"
  by (cases v) auto

lemma stays_case_prod: "(\<And>x y. stays (f x y)) \<Longrightarrow> stays (case v of (x, y) \<Rightarrow> f x y)"
  by (cases v) auto

lemma stays_Let: "stays (f v) \<Longrightarrow> stays (let x = v in f x)"
  by simp

lemma stays_mapT: "(\<And>x. stays (f x)) \<Longrightarrow> stays (mapT f xs)"
  by (induction xs) (auto intro!: stays_bindT stays_pure)

lemmas stays_intros = stays_bindT stays_seqT stays_pure stays_if
  stays_case_option stays_case_prod stays_Let stays_mapT

end

text \<open>A value of the state that no step of a transaction changes.\<close>

lemma step_order_const: "step_order (\<lambda>s s'. g s' = g s)"
  by unfold_locales auto


section \<open>An audit entry leaves every other table alone\<close>

definition audit_only :: "'a audit_db_scheme \<Rightarrow> 'a audit_db_scheme \<Rightarrow> bool" where
  "audit_only s s' \<longleftrightarrow> s' = s\<lparr>db_audit_entries := db_audit_entries s',
     db_audit_heads := db_audit_heads s', db_uuids := db_uuids s'\<rparr>"

lemma audit_only_fields:
  "audit_only s (s\<lparr>db_audit_entries := es, db_audit_heads := hs\<rparr>)"
  "audit_only s (s\<lparr>db_audit_heads := hs\<rparr>)" "audit_only s (s\<lparr>db_uuids := n\<rparr>)" "audit_only s s"
  by (simp_all add: audit_only_def)

interpretation audit_frame: step_order audit_only
proof
  fix s t u :: "'a audit_db_scheme"
  show "audit_only s s" by (rule audit_only_fields)
  assume "audit_only s t" "audit_only t u"
  then have t: "t = s\<lparr>db_audit_entries := db_audit_entries t, db_audit_heads := db_audit_heads t, db_uuids := db_uuids t\<rparr>"
    and u: "u = t\<lparr>db_audit_entries := db_audit_entries u, db_audit_heads := db_audit_heads u, db_uuids := db_uuids u\<rparr>"
    by (simp_all only: audit_only_def)
  show "audit_only s u" unfolding audit_only_def by (subst u, subst t) simp
qed

lemma draw_uuid_audit_only: "audit_frame.stays (draw_uuid uuids)"
  unfolding draw_uuid_def
  by (intro audit_frame.stays_intros audit_frame.stays_modifyT) (simp add: audit_only_fields)

lemma append_entry_audit_only: "audit_frame.stays (append_entry uuids r)"
  unfolding append_entry_def locked_head_def entry_from_request_def add_entry_def
  by (intro audit_frame.stays_intros audit_frame.stays_modifyT draw_uuid_audit_only)
    (simp add: audit_only_fields)+

text \<open>What every extension of the ledger's state keeps across an audit entry.\<close>

lemma append_entry_frame:
  assumes "append_entry uuids r s = Inr (e, s')"
  shows "\<exists>es hs n. s' = s\<lparr>db_audit_entries := es, db_audit_heads := hs, db_uuids := n\<rparr>"
  using audit_frame.staysD [OF append_entry_audit_only assms] unfolding audit_only_def by blast

end
