(* ===== verification/Ingestion_Theorems.thy ===== *)
theory Ingestion_Theorems
  imports Ingestion Frames "HOL-Library.Product_Lexorder"
begin

text \<open>
  The webhook inbox and its dispatches over any run: a delivery is stored once, a dispatch
  belongs to one webhook, a dead letter moves only by an explicit replay, and the provider's
  entities do not depend on the order in which webhooks arrive.
\<close>

section \<open>What the operations keep\<close>

text \<open>The columns of a webhook and of a dispatch that no operation writes again.\<close>

definition webhook_identity :: "WebhookRow \<Rightarrow> string \<times> string \<times> string \<times> string option \<times> bool \<times> byte list option \<times> doc option" where
  "webhook_identity w = (wh_id w, wh_provider w, wh_merchant_id w, wh_provider_event_id w,
     wh_signature_valid w, wh_raw_body w, wh_raw_payload w)"

definition dispatch_identity :: "DispatchRow \<Rightarrow> string \<times> string \<times> string" where
  "dispatch_identity d = (dp_id d, dp_merchant_id d, dp_webhook_event_id d)"

definition extends :: "'x list \<Rightarrow> 'x list \<Rightarrow> bool" where
  "extends xs ys \<longleftrightarrow> (\<exists>zs. ys = xs @ zs)"

lemma extends_refl [simp]: "extends xs xs" by (simp add: extends_def)
lemma extends_snoc [simp]: "extends xs (xs @ ys)" by (auto simp: extends_def)
lemma extends_trans: "extends xs ys \<Longrightarrow> extends ys zs \<Longrightarrow> extends xs zs" by (auto simp: extends_def)

definition inbox_grows :: "'a ingest_db_scheme \<Rightarrow> 'a ingest_db_scheme \<Rightarrow> bool" where
  "inbox_grows s s' \<longleftrightarrow>
     extends (map webhook_identity (db_webhooks s)) (map webhook_identity (db_webhooks s'))
     \<and> extends (map dispatch_identity (db_dispatches s)) (map dispatch_identity (db_dispatches s'))
     \<and> (webhooks_ok (db_webhooks s) \<longrightarrow> webhooks_ok (db_webhooks s'))"

interpretation inbox: step_order inbox_grows
  by unfold_locales (auto simp: inbox_grows_def intro: extends_trans)

text \<open>The constraints of the table read only these columns.\<close>

definition identities_ok :: "(string \<times> string \<times> string \<times> string option \<times> bool \<times> byte list option \<times> doc option) list \<Rightarrow> bool" where
  "identities_ok is \<longleftrightarrow> distinct (map fst is)
     \<and> (\<forall>(i, p, m, e, v, b, d)\<in>set is. (\<not> v \<or> e \<noteq> None \<and> b \<noteq> None) \<and> (v \<or> b = None \<and> d = None))
     \<and> distinct (map (\<lambda>(i, p, m, e, v, b, d). (p, m, e)) (filter (\<lambda>(i, p, m, e, v, b, d). v \<and> e \<noteq> None) is))"

lemma webhooks_ok_identities: "webhooks_ok rows = identities_ok (map webhook_identity rows)"
proof -
  have "map (\<lambda>(i, p, m, e, v, b, d). (p, m, e)) (filter (\<lambda>(i, p, m, e, v, b, d). v \<and> e \<noteq> None) (map webhook_identity rows))
      = map (\<lambda>w. (wh_provider w, wh_merchant_id w, wh_provider_event_id w))
          (filter (\<lambda>w. wh_signature_valid w \<and> wh_provider_event_id w \<noteq> None) rows)"
    by (induction rows) (auto simp: webhook_identity_def)
  moreover have "map fst (map webhook_identity rows) = map wh_id rows"
    by (simp add: webhook_identity_def)
  moreover have "(\<forall>(i, p, m, e, v, b, d)\<in>set (map webhook_identity rows). (\<not> v \<or> e \<noteq> None \<and> b \<noteq> None) \<and> (v \<or> b = None \<and> d = None))
      \<longleftrightarrow> (\<forall>w\<in>set rows. webhook_row_ok w)"
    by (simp add: webhook_identity_def webhook_row_ok_def)
  ultimately show ?thesis by (simp only: webhooks_ok_def identities_ok_def unique_index_def)
qed

lemma inbox_grows_webhooks:
  assumes "\<And>w. webhook_identity (f w) = webhook_identity w"
  shows "inbox_grows s (s\<lparr>db_webhooks := update_where p f (db_webhooks s)\<rparr>)"
proof -
  have "map webhook_identity (update_where p f (db_webhooks s)) = map webhook_identity (db_webhooks s)"
    by (rule map_update_where_key) (rule assms)
  then show ?thesis by (simp add: inbox_grows_def webhooks_ok_identities)
qed

lemma inbox_grows_dispatches:
  assumes "\<And>d. dispatch_identity (f d) = dispatch_identity d"
  shows "inbox_grows s (s\<lparr>db_dispatches := update_where p f (db_dispatches s)\<rparr>)"
proof -
  have "map dispatch_identity (update_where p f (db_dispatches s)) = map dispatch_identity (db_dispatches s)"
    by (rule map_update_where_key) (rule assms)
  then show ?thesis by (simp add: inbox_grows_def)
qed

lemma dispatch_updates_identity [simp]:
  "dispatch_identity (claimed_dispatch now lease token d) = dispatch_identity d"
  "dispatch_identity (published_dispatch task at_time d) = dispatch_identity d"
  "dispatch_identity (succeeded_dispatch at_time d) = dispatch_identity d"
  "dispatch_identity (failed_dispatch now retry code detail d) = dispatch_identity d"
  "dispatch_identity (requeued_dispatch at_time who d) = dispatch_identity d"
  by (simp_all add: dispatch_identity_def claimed_dispatch_def published_dispatch_def
      succeeded_dispatch_def failed_dispatch_def requeued_dispatch_def Let_def)

lemma audit_only_ingest:
  assumes "audit_only s s'"
  shows "db_webhooks s' = db_webhooks s" "db_dispatches s' = db_dispatches s"
    "db_payments s' = db_payments s" "db_normalized s' = db_normalized s"
  using arg_cong [OF assms [unfolded audit_only_def], of db_webhooks]
    arg_cong [OF assms [unfolded audit_only_def], of db_dispatches]
    arg_cong [OF assms [unfolded audit_only_def], of db_payments]
    arg_cong [OF assms [unfolded audit_only_def], of db_normalized] by simp_all

lemma inbox_grows_audit: "audit_only s s' \<Longrightarrow> inbox_grows s s'"
  by (simp add: inbox_grows_def audit_only_ingest)

lemma inbox_audit [simp]: "inbox.stays (append_entry uuids r)" "inbox.stays (draw_uuid uuids)"
  using audit_frame.staysD [OF append_entry_audit_only] audit_frame.staysD [OF draw_uuid_audit_only]
  by (auto intro!: inbox.staysI inbox_grows_audit)


section \<open>Every operation keeps the inbox\<close>

lemma update_dispatch_inbox:
  "(\<And>d. dispatch_identity (f d) = dispatch_identity d) \<Longrightarrow> inbox.stays (update_dispatch i f)"
  unfolding update_dispatch_def by (intro inbox.stays_modifyT inbox_grows_dispatches)

lemma update_webhook_inbox:
  "(\<And>w. webhook_identity (f w) = webhook_identity w) \<Longrightarrow> inbox.stays (update_webhook i f)"
  unfolding update_webhook_def by (intro inbox.stays_modifyT inbox_grows_webhooks)

lemmas inbox_rules = inbox.stays_intros inbox_audit update_dispatch_inbox update_webhook_inbox

lemma inbox_flush [simp]: "inbox.stays flush_webhooks" "inbox.stays flush_dispatches"
  unfolding flush_webhooks_def flush_dispatches_def by (intro inbox_rules)+

lemma claim_dispatches_inbox: "inbox.stays (claim_dispatches uuids now lease_for limit)"
  unfolding claim_dispatches_def claim_dispatch_def by (intro inbox_rules inbox_flush) simp

lemma mark_dispatch_published_inbox: "inbox.stays (mark_dispatch_published i t b p)"
  unfolding mark_dispatch_published_def by (intro inbox_rules inbox.stays_modifyT inbox_grows_dispatches) simp

lemma mark_dispatch_succeeded_inbox: "inbox.stays (mark_dispatch_succeeded i t)"
  unfolding mark_dispatch_succeeded_def by (intro inbox_rules inbox_flush) (simp_all add: webhook_identity_def)

lemma record_dispatch_failure_inbox: "inbox.stays (record_dispatch_failure i now r c e)"
  unfolding record_dispatch_failure_def by (intro inbox_rules inbox_flush) (simp_all add: webhook_identity_def)

lemma requeue_dead_letter_inbox: "inbox.stays (requeue_dead_letter i t b)"
  unfolding requeue_dead_letter_def by (intro inbox_rules inbox_flush) (simp_all add: webhook_identity_def)

lemma persist_normalized_event_inbox: "inbox.stays (persist_normalized_event e w cs)"
  unfolding persist_normalized_event_def add_correlation_def
  by (intro inbox_rules inbox.stays_modifyT inbox_grows_dispatches) (simp_all add: inbox_grows_def dispatch_identity_def)

lemma record_processing_failure_inbox: "inbox.stays (record_processing_failure i c e b now)"
  unfolding record_processing_failure_def
  by (intro inbox_rules inbox_flush record_dispatch_failure_inbox)
    (simp_all add: dispatch_identity_def exhausted_dispatch_def)

lemma append_entry_ingest:
  assumes "append_entry uuids a s = Inr (e, s')"
  shows "db_webhooks s' = db_webhooks s" "db_dispatches s' = db_dispatches s"
  using audit_only_ingest [OF audit_frame.staysD [OF append_entry_audit_only assms]] by auto

text \<open>The two ways in which a verified delivery is recorded.\<close>

lemma record_webhook_cases:
  fixes s s' :: "'a ingest_db_scheme"
  assumes "record_webhook uuids t q s = Inr (r, s')"
  obtains (existing) w where
      "filter (same_delivery (wq_provider q) (wq_merchant_id q) (wq_provider_event_id q)) (db_webhooks s) = [w]"
      "s' = s" "r = \<lparr>wi_event = w, wi_created = False,
        wi_dispatch_id = map_option dp_id (find (\<lambda>d. dp_webhook_event_id d = wh_id w) (db_dispatches s))\<rparr>"
  | (created) i where
      "filter (same_delivery (wq_provider q) (wq_merchant_id q) (wq_provider_event_id q)) (db_webhooks s) = []"
      "db_webhooks s' = db_webhooks s @ [webhook_row q]" "webhooks_ok (db_webhooks s')"
      "db_dispatches s' = db_dispatches s @ [dispatch_row q i t]" "dispatches_ok (db_dispatches s')"
      "r = \<lparr>wi_event = webhook_row q, wi_created = True, wi_dispatch_id = Some i\<rparr>"
proof (cases "filter (same_delivery (wq_provider q) (wq_merchant_id q) (wq_provider_event_id q)) (db_webhooks s) = []")
  case False
  with assms obtain w where
    "filter (same_delivery (wq_provider q) (wq_merchant_id q) (wq_provider_event_id q)) (db_webhooks s) = [w]"
    "s' = s \<and> r = \<lparr>wi_event = w, wi_created = False,
        wi_dispatch_id = map_option dp_id (find (\<lambda>d. dp_webhook_event_id d = wh_id w) (db_dispatches s))\<rparr>"
    by (auto simp: record_webhook_def dispatch_id_for_def result_simps)
  then show ?thesis by (intro existing) simp_all
next
  case True
  define s1 :: "'a ingest_db_scheme" where "s1 = s\<lparr>db_webhooks := db_webhooks s @ [webhook_row q]\<rparr>"
  from assms True obtain i s2 s3 e where
    ok: "webhooks_ok (db_webhooks s1)" and d: "draw_uuid uuids s1 = Inr (i, s2)"
    and s3: "s3 = s2\<lparr>db_dispatches := db_dispatches s2 @ [dispatch_row q i t]\<rparr>" "dispatches_ok (db_dispatches s3)"
    and e: "append_entry uuids (accepted_append q) s3 = Inr (e, s')"
    and r: "r = \<lparr>wi_event = webhook_row q, wi_created = True, wi_dispatch_id = Some i\<rparr>"
    by (auto simp: record_webhook_def flush_webhooks_def flush_dispatches_def result_simps s1_def)
  note f = audit_only_ingest [OF audit_frame.staysD [OF draw_uuid_audit_only d]] append_entry_ingest [OF e]
  show ?thesis
    by (rule created [OF True _ _ _ _ r]) (use ok s3 f in \<open>simp_all add: s1_def\<close>)
qed

lemma record_webhook_inbox: "inbox.stays (record_webhook uuids t q)"
proof (rule inbox.staysI)
  fix s s' :: "'a ingest_db_scheme" and r
  assume "record_webhook uuids t q s = Inr (r, s')"
  then show "inbox_grows s s'"
    by (cases rule: record_webhook_cases) (auto simp: inbox_grows_def)
qed

lemma record_invalid_webhook_inbox: "inbox.stays (record_invalid_webhook uuids q)"
proof (rule inbox.staysI)
  fix s s' :: "'a ingest_db_scheme" and r
  assume "record_invalid_webhook uuids q s = Inr (r, s')"
  then obtain s1 e where "s1 = s\<lparr>db_webhooks := db_webhooks s @ [invalid_webhook_row q]\<rparr>"
    "webhooks_ok (db_webhooks s1)" "append_entry uuids (rejected_append q) s1 = Inr (e, s')"
    by (auto simp: record_invalid_webhook_def flush_webhooks_def result_simps)
  then show "inbox_grows s s'" by (simp add: inbox_grows_def append_entry_ingest)
qed


section \<open>Runs\<close>

text \<open>
  A run of transactions of the gateway and of the workers; the dead letters of \<open>replayed\<close> may be
  requeued by an operator.
\<close>

inductive inbox_run :: "string set \<Rightarrow> 'a ingest_db_scheme \<Rightarrow> 'a ingest_db_scheme \<Rightarrow> bool" for replayed where
  start: "inbox_run replayed s s"
| recorded: "inbox_run replayed s t \<Longrightarrow> record_webhook uuids now q t = Inr (r, u) \<Longrightarrow> inbox_run replayed s u"
| rejected: "inbox_run replayed s t \<Longrightarrow> record_invalid_webhook uuids iq t = Inr (w, u) \<Longrightarrow> inbox_run replayed s u"
| persisted: "inbox_run replayed s t \<Longrightarrow> persist_normalized_event e wi cs t = Inr (n, u) \<Longrightarrow> inbox_run replayed s u"
| claimed: "inbox_run replayed s t \<Longrightarrow> claim_dispatches uuids now lease limit t = Inr (ds, u) \<Longrightarrow> inbox_run replayed s u"
| published: "inbox_run replayed s t \<Longrightarrow> mark_dispatch_published i token task now t = Inr (b, u) \<Longrightarrow> inbox_run replayed s u"
| succeeded: "inbox_run replayed s t \<Longrightarrow> mark_dispatch_succeeded i now t = Inr (b, u) \<Longrightarrow> inbox_run replayed s u"
| failed: "inbox_run replayed s t \<Longrightarrow> record_processing_failure i code detail terminal now t = Inr (st, u) \<Longrightarrow>
    inbox_run replayed s u"
| replay: "inbox_run replayed s t \<Longrightarrow> i \<in> replayed \<Longrightarrow> requeue_dead_letter i now who t = Inr (b, u) \<Longrightarrow>
    inbox_run replayed s u"

lemmas inbox_operations = record_webhook_inbox record_invalid_webhook_inbox
  persist_normalized_event_inbox claim_dispatches_inbox mark_dispatch_published_inbox
  mark_dispatch_succeeded_inbox record_processing_failure_inbox requeue_dead_letter_inbox

lemma inbox_run_grows: "inbox_run replayed s s' \<Longrightarrow> inbox_grows s s'"
  by (induction rule: inbox_run.induct)
    (rule inbox.step_refl, (erule inbox.step_trans, erule inbox.staysD [rotated], rule inbox_operations)+)


section \<open>A delivery is stored once\<close>

lemma same_delivery_identity:
  "same_delivery p m e w \<longleftrightarrow> (\<lambda>(i, p', m', e', v, b, d). p' = p \<and> m' = m \<and> e' = Some e \<and> v) (webhook_identity w)"
  by (auto simp: same_delivery_def webhook_identity_def)

lemma dispatch_id_identity:
  "map_option dp_id (find (\<lambda>d. dp_webhook_event_id d = w) ds) =
   map_option fst (find (\<lambda>(i, m, w'). w' = w) (map dispatch_identity ds))"
  by (induction ds) (auto simp: dispatch_identity_def)

lemma filter_unique_row:
  "distinct (map key rs) \<Longrightarrow> r \<in> set rs \<Longrightarrow> filter (\<lambda>x. key x = key r) rs = [r]"
proof (induction rs)
  case (Cons a rs)
  from Cons.prems(1) have "key a \<notin> key ` set rs" by simp
  then have a: "x \<in> set rs \<Longrightarrow> key x \<noteq> key a" for x by (metis imageI)
  show ?case
  proof (cases "r = a")
    case True
    with a show ?thesis by (simp add: filter_empty_conv)
  next
    case False
    with Cons have "filter (\<lambda>x. key x = key r) rs = [r]" "r \<in> set rs" by auto
    with a [of r] show ?thesis by auto
  qed
qed simp

lemma one_delivery:
  assumes "webhooks_ok rows" "w \<in> set rows" "same_delivery p m e w"
  shows "filter (same_delivery p m e) rows = [w]"
proof -
  let ?key = "\<lambda>w. (wh_provider w, wh_merchant_id w, wh_provider_event_id w)"
  let ?rows = "filter (\<lambda>w. wh_signature_valid w \<and> wh_provider_event_id w \<noteq> None) rows"
  have "distinct (map ?key ?rows)" using assms(1) by (simp add: webhooks_ok_def unique_index_def)
  moreover have "w \<in> set ?rows" using assms(2,3) by (simp add: same_delivery_def)
  ultimately have "filter (\<lambda>x. ?key x = ?key w) ?rows = [w]" by (rule filter_unique_row)
  moreover have "filter (\<lambda>x. ?key x = ?key w) ?rows = filter (same_delivery p m e) rows"
    unfolding filter_filter by (rule filter_cong) (use assms(3) in \<open>auto simp: same_delivery_def\<close>)
  ultimately show ?thesis by simp
qed

lemma new_rows [simp]:
  "wh_id (webhook_row q) = wq_event_id q"
  "same_delivery (wq_provider q) (wq_merchant_id q) (wq_provider_event_id q) (webhook_row q)"
  "dp_webhook_event_id (dispatch_row q i t) = wq_event_id q" "dp_id (dispatch_row q i t) = i"
  by (simp_all add: same_delivery_def webhook_row_def dispatch_row_def)

lemma stored_delivery_persists:
  assumes "inbox_grows s s'" "w \<in> set (db_webhooks s)" "same_delivery p m e w"
  shows "\<exists>w'\<in>set (db_webhooks s'). webhook_identity w' = webhook_identity w \<and> same_delivery p m e w'"
proof -
  have "webhook_identity w \<in> set (map webhook_identity (db_webhooks s'))"
  proof -
    from assms(1) obtain zs where
      "map webhook_identity (db_webhooks s') = map webhook_identity (db_webhooks s) @ zs"
      unfolding inbox_grows_def extends_def by blast
    from arg_cong [OF this, of set] assms(2) show ?thesis by auto
  qed
  then obtain w' where "w' \<in> set (db_webhooks s')" "webhook_identity w' = webhook_identity w" by auto
  with assms(3) show ?thesis by (auto simp: same_delivery_identity)
qed


lemma stored_dispatch_persists:
  assumes "inbox_grows s s'"
    and "map_option dp_id (find (\<lambda>d. dp_webhook_event_id d = w) (db_dispatches s)) = Some i"
  shows "map_option dp_id (find (\<lambda>d. dp_webhook_event_id d = w) (db_dispatches s')) = Some i"
  using assms unfolding dispatch_id_identity inbox_grows_def extends_def
  by (elim conjE exE) (auto dest: find_append_Some)

text \<open>
  Property C37. A verified delivery is stored and dispatched once: whatever the workers, the
  gateway and the operators do after it was recorded, a further delivery of the same provider
  event to the same merchant changes nothing, and returns the row and the dispatch of the first.
\<close>

theorem delivery_recorded_once:
  assumes "webhooks_ok (db_webhooks s)" "record_webhook uuids now q s = Inr (r, t)" "inbox_run replayed t u"
    and "wq_provider p = wq_provider q" "wq_merchant_id p = wq_merchant_id q"
    and "wq_provider_event_id p = wq_provider_event_id q" "wi_dispatch_id r = Some i"
  shows "\<exists>r'. record_webhook uuids' now' p u = Inr (r', u) \<and> \<not> wi_created r'
    \<and> webhook_identity (wi_event r') = webhook_identity (wi_event r) \<and> wi_dispatch_id r' = Some i"
proof -
  let ?same = "same_delivery (wq_provider q) (wq_merchant_id q) (wq_provider_event_id q)"
  have t: "webhooks_ok (db_webhooks t)"
    using assms(1) inbox.staysD [OF record_webhook_inbox assms(2)] by (simp add: inbox_grows_def)
  have first: "wi_event r \<in> set (db_webhooks t) \<and> ?same (wi_event r)
    \<and> map_option dp_id (find (\<lambda>d. dp_webhook_event_id d = wh_id (wi_event r)) (db_dispatches t)) = Some i"
    using assms(2)
  proof (cases rule: record_webhook_cases)
    case (existing w)
    then have "{x \<in> set (db_webhooks s). ?same x} = {w}" unfolding set_filter [symmetric] by simp
    then have "w \<in> set (db_webhooks s) \<and> ?same w" by blast
    with existing assms(7) show ?thesis by simp
  next
    case (created j)
    have "wq_event_id q \<notin> dp_webhook_event_id ` set (db_dispatches s)"
      using created(5) unfolding created(4) by (simp add: dispatches_ok_def)
    then have "find (\<lambda>d. dp_webhook_event_id d = wq_event_id q) (db_dispatches s) = None"
      unfolding find_None_iff by (metis imageI)
    with created assms(7) show ?thesis by (simp add: find_append_None)
  qed
  note grows = inbox_run_grows [OF assms(3)]
  have u: "webhooks_ok (db_webhooks u)" using grows t by (simp add: inbox_grows_def)
  from stored_delivery_persists [OF grows] first obtain w where
    w: "w \<in> set (db_webhooks u)" "webhook_identity w = webhook_identity (wi_event r)" "?same w" by blast
  then have "wh_id w = wh_id (wi_event r)" by (simp add: webhook_identity_def)
  moreover have "map_option dp_id (find (\<lambda>d. dp_webhook_event_id d = wh_id (wi_event r)) (db_dispatches u)) = Some i"
    using stored_dispatch_persists [OF grows] first by blast
  ultimately show ?thesis
    using one_delivery [OF u w(1,3)] w(2) assms(4-6)
    by (simp add: record_webhook_def dispatch_id_for_def run_tx)
qed


section \<open>Dead letters\<close>

text \<open>A dead letter has used up its attempts, so that a further failure leaves it one.\<close>

definition exhausted :: "DispatchRow \<Rightarrow> bool" where
  "exhausted d \<longleftrightarrow> dp_state d = DS_DEAD_LETTER \<and> dp_max_attempts d \<le> dp_attempt_count d"

definition dispatches_inv :: "'a ingest_db_scheme \<Rightarrow> bool" where
  "dispatches_inv s \<longleftrightarrow> dispatches_ok (db_dispatches s)
     \<and> (\<forall>d\<in>set (db_dispatches s). dp_state d = DS_DEAD_LETTER \<longrightarrow> exhausted d)"

definition stays_dead :: "string \<Rightarrow> 'a ingest_db_scheme \<Rightarrow> 'a ingest_db_scheme \<Rightarrow> bool" where
  "stays_dead i s s' \<longleftrightarrow>
     (\<forall>d. stored_dispatch s i = Some d \<longrightarrow> exhausted d \<longrightarrow> (\<exists>d'. stored_dispatch s' i = Some d' \<and> exhausted d'))"

definition keeps_dead :: "string \<Rightarrow> ('a ingest_db_scheme, 'x) tx \<Rightarrow> bool" where
  "keeps_dead i m \<longleftrightarrow>
     (\<forall>s x s'. dispatches_inv s \<longrightarrow> m s = Inr (x, s') \<longrightarrow> dispatches_inv s' \<and> stays_dead i s s')"

lemma stays_dead_refl [simp]: "stays_dead i s s"
  by (simp add: stays_dead_def)

lemma stays_dead_trans: "stays_dead i s t \<Longrightarrow> stays_dead i t u \<Longrightarrow> stays_dead i s u"
  by (fastforce simp: stays_dead_def)

lemma keeps_deadI:
  "(\<And>s x s'. dispatches_inv s \<Longrightarrow> m s = Inr (x, s') \<Longrightarrow> dispatches_inv s' \<and> stays_dead i s s') \<Longrightarrow> keeps_dead i m"
  by (auto simp: keeps_dead_def)

lemma keeps_deadD: "keeps_dead i m \<Longrightarrow> m s = Inr (x, s') \<Longrightarrow> dispatches_inv s \<Longrightarrow> dispatches_inv s' \<and> stays_dead i s s'"
  by (auto simp: keeps_dead_def)

lemma same_dispatches:
  "db_dispatches s' = db_dispatches s \<Longrightarrow> dispatches_inv s \<Longrightarrow> dispatches_inv s' \<and> stays_dead i s s'"
  by (simp add: dispatches_inv_def stays_dead_def stored_dispatch_def)

lemma updated_dispatches:
  assumes "dispatches_inv s" "db_dispatches s' = update_where p f (db_dispatches s)"
    and "dispatches_ok (db_dispatches s')" "\<And>d. dp_id (f d) = dp_id d"
    and "\<And>d. p d \<Longrightarrow> (dp_state d = DS_DEAD_LETTER \<Longrightarrow> exhausted d) \<Longrightarrow> dp_state (f d) = DS_DEAD_LETTER \<Longrightarrow> exhausted (f d)"
    and "\<And>d. stored_dispatch s i = Some d \<Longrightarrow> p d \<Longrightarrow> exhausted d \<Longrightarrow> exhausted (f d)"
  shows "dispatches_inv s' \<and> stays_dead i s s'"
proof
  show "dispatches_inv s'"
    using assms(1,3,5) by (auto simp: dispatches_inv_def assms(2) set_update_where)
  have "find (\<lambda>d. dp_id d = i) (update_where p f ds) = map_option (\<lambda>d. if p d then f d else d) (find (\<lambda>d. dp_id d = i) ds)" for ds
    by (induction ds) (auto simp: assms(4))
  with assms(2,6) show "stays_dead i s s'" by (auto simp: stays_dead_def stored_dispatch_def)
qed

lemma record_webhook_keeps_dead: "keeps_dead i (record_webhook uuids now q)"
proof (rule keeps_deadI)
  fix s s' :: "'a ingest_db_scheme" and r
  assume inv: "dispatches_inv s" and "record_webhook uuids now q s = Inr (r, s')"
  from this(2) show "dispatches_inv s' \<and> stays_dead i s s'"
  proof (cases rule: record_webhook_cases)
    case (created j)
    with inv show ?thesis
      by (auto simp: dispatches_inv_def stays_dead_def stored_dispatch_def dispatch_row_def dest: find_append_Some)
  qed (simp add: inv)
qed

lemma record_invalid_webhook_keeps_dead: "keeps_dead i (record_invalid_webhook uuids q)"
proof (rule keeps_deadI)
  fix s s' :: "'a ingest_db_scheme" and r
  assume inv: "dispatches_inv s" and "record_invalid_webhook uuids q s = Inr (r, s')"
  then have "db_dispatches s' = db_dispatches s"
    by (auto simp: record_invalid_webhook_def flush_webhooks_def result_simps append_entry_ingest)
  with inv show "dispatches_inv s' \<and> stays_dead i s s'" by (rule same_dispatches [rotated])
qed

lemma add_correlations_dispatches:
  "mapT (\<lambda>(a, b, c). add_correlation (g a b c)) cs s = Inr (xs, s') \<Longrightarrow> db_dispatches s' = db_dispatches s"
  by (induction cs arbitrary: s xs) (auto simp: result_simps add_correlation_def split: if_splits)

lemma persist_normalized_event_keeps_dead: "keeps_dead i (persist_normalized_event e w cs)"
proof (rule keeps_deadI)
  fix s s' :: "'a ingest_db_scheme" and r
  assume inv: "dispatches_inv s" and "persist_normalized_event e w cs s = Inr (r, s')"
  then have s': "db_dispatches s' = update_where
      (\<lambda>d. dp_merchant_id d = ev_merchant_id r \<and> dp_webhook_event_id d = w)
      (\<lambda>d. d\<lparr>dp_normalized_event_id := Some (ev_event_id r)\<rparr>) (db_dispatches s)"
    unfolding persist_normalized_event_def Let_def
    by (auto simp: result_simps dest!: add_correlations_dispatches split: if_splits)
  have "dispatches_ok (update_where p (\<lambda>d. d\<lparr>dp_normalized_event_id := x\<rparr>) ds) = dispatches_ok ds" for p x ds
  proof -
    have "map dp_id (update_where p (\<lambda>d. d\<lparr>dp_normalized_event_id := x\<rparr>) ds) = map dp_id ds"
      "map dp_webhook_event_id (update_where p (\<lambda>d. d\<lparr>dp_normalized_event_id := x\<rparr>) ds) = map dp_webhook_event_id ds"
      by (rule map_update_where_key; simp)+
    moreover have row: "dispatch_row_ok (d\<lparr>dp_normalized_event_id := x\<rparr>) = dispatch_row_ok d" for d
      by (simp add: dispatch_row_ok_def)
    have "(\<forall>d\<in>set (update_where p (\<lambda>d. d\<lparr>dp_normalized_event_id := x\<rparr>) ds). dispatch_row_ok d) = (\<forall>d\<in>set ds. dispatch_row_ok d)"
      by (induction ds) (simp_all add: row)
    ultimately show ?thesis by (simp add: dispatches_ok_def)
  qed
  then have "dispatches_ok (db_dispatches s')" unfolding s' using inv by (simp add: dispatches_inv_def)
  then show "dispatches_inv s' \<and> stays_dead i s s'"
    by (rule updated_dispatches [OF inv s']) (simp_all add: exhausted_def)
qed

lemma claim_dispatch_eq:
  "claim_dispatch uuids now lease d s = Inr (c, s') \<longleftrightarrow> (\<exists>token s1. draw_uuid uuids s = Inr (token, s1)
     \<and> s' = s1\<lparr>db_dispatches := update_where (\<lambda>r. dp_id r = dp_id d) (claimed_dispatch now lease token) (db_dispatches s1)\<rparr>
     \<and> c = claimed_dispatch now lease token d)"
  by (auto simp: claim_dispatch_def update_dispatch_def result_simps)

lemma claim_list:
  assumes "mapT (claim_dispatch uuids now lease) ds s = Inr (cs, s')"
  shows "(\<forall>d\<in>set (db_dispatches s'). dp_state d = DS_DEAD_LETTER \<longrightarrow> d \<in> set (db_dispatches s))
    \<and> (\<forall>i. i \<notin> dp_id ` set ds \<longrightarrow> stored_dispatch s' i = stored_dispatch s i)
    \<and> map dp_id cs = map dp_id ds"
  using assms
proof (induction ds arbitrary: s cs)
  case (Cons d ds)
  from Cons.prems obtain token s1 s2 cs' where
    u: "draw_uuid uuids s = Inr (token, s1)"
    and s2: "s2 = s1\<lparr>db_dispatches := update_where (\<lambda>r. dp_id r = dp_id d) (claimed_dispatch now lease token) (db_dispatches s1)\<rparr>"
    and m: "mapT (claim_dispatch uuids now lease) ds s2 = Inr (cs', s')" "cs = claimed_dispatch now lease token d # cs'"
    by (auto simp: claim_dispatch_eq result_simps)
  have s1: "db_dispatches s1 = db_dispatches s"
    using audit_only_ingest [OF audit_frame.staysD [OF draw_uuid_audit_only u]] by simp
  have "dp_id (claimed_dispatch now lease token r) = dp_id r" "dp_state (claimed_dispatch now lease token r) = DS_PROCESSING" for r
    by (simp_all add: claimed_dispatch_def)
  note claimed = this
  have "stored_dispatch s2 i = stored_dispatch s i" if "i \<noteq> dp_id d" for i
    unfolding s2 stored_dispatch_def using that s1 claimed by (simp add: find_update_where_other)
  moreover have "\<forall>r\<in>set (db_dispatches s2). dp_state r = DS_DEAD_LETTER \<longrightarrow> r \<in> set (db_dispatches s)"
    using claimed by (auto simp: s2 s1 set_update_where)
  ultimately show ?case using Cons.IH [OF m(1)] m(2) claimed by auto
qed (simp add: result_simps)

text \<open>A row that is not claimable is left alone by a claim.\<close>

lemma claim_leaves:
  assumes "claim_dispatches uuids now lease limit s = Inr (cs, s')" "dispatches_ok (db_dispatches s)"
    and "stored_dispatch s i = Some d" "\<not> dispatch_claimable now d"
  shows "stored_dispatch s' i = Some d \<and> i \<notin> dp_id ` set cs"
proof -
  let ?ds = "take (nat limit) (sort_key (\<lambda>d. (dp_available_at d, dp_created_at d)) (filter (dispatch_claimable now) (db_dispatches s)))"
  from assms(1) have m: "mapT (claim_dispatch uuids now lease) ?ds s = Inr (cs, s')"
    by (auto simp: claim_dispatches_def flush_dispatches_def result_simps)
  have "i \<notin> dp_id ` set ?ds"
  proof
    assume "i \<in> dp_id ` set ?ds"
    then obtain r where r: "r \<in> set ?ds" "dp_id r = i" by blast
    then have "r \<in> set (db_dispatches s)" "dispatch_claimable now r" by (auto dest!: in_set_takeD)
    moreover have "find (\<lambda>x. dp_id x = dp_id r) (db_dispatches s) = Some r"
      using assms(2) calculation(1) by (intro find_unique_key) (simp_all add: dispatches_ok_def)
    ultimately show False using assms(3,4) r(2) by (simp add: stored_dispatch_def)
  qed
  moreover have "dp_id ` set cs = dp_id ` set ?ds"
    using claim_list [OF m] by (metis list.set_map)
  ultimately show ?thesis using claim_list [OF m] assms(3) by simp
qed

lemma claim_dispatches_keeps_dead: "keeps_dead i (claim_dispatches uuids now lease limit)"
proof (rule keeps_deadI)
  fix s s' :: "'a ingest_db_scheme" and cs
  assume inv: "dispatches_inv s" and c: "claim_dispatches uuids now lease limit s = Inr (cs, s')"
  have "stays_dead i s s'"
    using claim_leaves [OF c] inv by (auto simp: stays_dead_def dispatches_inv_def dispatch_claimable_def exhausted_def)
  moreover from c obtain ds where "mapT (claim_dispatch uuids now lease) ds s = Inr (cs, s')" "dispatches_ok (db_dispatches s')"
    by (auto simp: claim_dispatches_def flush_dispatches_def result_simps)
  moreover from claim_list [OF this(1)] inv have "\<forall>d\<in>set (db_dispatches s'). dp_state d = DS_DEAD_LETTER \<longrightarrow> exhausted d"
    by (auto simp: dispatches_inv_def)
  ultimately show "dispatches_inv s' \<and> stays_dead i s s'" by (simp add: dispatches_inv_def)
qed

lemma update_tables_eq [result_simps]:
  "update_dispatch i f s = Inr (u, s') \<longleftrightarrow> s' = s\<lparr>db_dispatches := update_where (\<lambda>d. dp_id d = i) f (db_dispatches s)\<rparr>"
  "update_webhook i g s = Inr (u, s') \<longleftrightarrow> s' = s\<lparr>db_webhooks := update_where (\<lambda>w. wh_id w = i) g (db_webhooks s)\<rparr>"
  "flush_dispatches s = Inr (u, s') \<longleftrightarrow> dispatches_ok (db_dispatches s) \<and> s' = s"
  by (simp_all add: update_dispatch_def update_webhook_def flush_dispatches_def result_simps)

lemma mark_dispatch_published_keeps_dead: "keeps_dead i (mark_dispatch_published j token task now)"
proof (rule keeps_deadI)
  fix s s' :: "'a ingest_db_scheme" and b
  assume inv: "dispatches_inv s" and "mark_dispatch_published j token task now s = Inr (b, s')"
  moreover define p where "p = (\<lambda>d :: DispatchRow. dp_id d = j \<and> dp_state d = DS_PROCESSING \<and> dp_lease_token d = Some token)"
  ultimately have s': "db_dispatches s' = update_where p (published_dispatch task now) (db_dispatches s)"
    by (auto simp: mark_dispatch_published_def result_simps Let_def)
  have "map dp_id (db_dispatches s') = map dp_id (db_dispatches s)"
    "map dp_webhook_event_id (db_dispatches s') = map dp_webhook_event_id (db_dispatches s)"
    unfolding s' by (rule map_update_where_key; simp add: published_dispatch_def)+
  moreover have "dispatch_row_ok d \<Longrightarrow> dispatch_row_ok (published_dispatch task now d)" for d
    by (simp add: dispatch_row_ok_def published_dispatch_def)
  ultimately have "dispatches_ok (db_dispatches s')"
    using inv by (auto simp: dispatches_inv_def dispatches_ok_def s' set_update_where)
  then show "dispatches_inv s' \<and> stays_dead i s s'"
    by (intro updated_dispatches [OF inv s']) (auto simp: p_def published_dispatch_def exhausted_def)
qed

lemma mark_dispatch_succeeded_Inr:
  assumes "mark_dispatch_succeeded j now s = Inr (b, s')"
  shows "s' = s \<or> (\<exists>d. stored_dispatch s j = Some d \<and> dp_state d \<noteq> DS_DEAD_LETTER)
    \<and> db_dispatches s' = update_where (\<lambda>d. dp_id d = j) (succeeded_dispatch now) (db_dispatches s)
    \<and> dispatches_ok (db_dispatches s')"
proof (cases "stored_dispatch s j")
  case None
  with assms show ?thesis by (simp add: mark_dispatch_succeeded_def result_simps)
next
  case (Some d)
  with assms show ?thesis
    by (cases "dp_state d = DS_DEAD_LETTER") (auto simp: mark_dispatch_succeeded_def result_simps)
qed

lemma mark_dispatch_succeeded_keeps_dead: "keeps_dead i (mark_dispatch_succeeded j now)"
proof (rule keeps_deadI)
  fix s s' :: "'a ingest_db_scheme" and b
  assume inv: "dispatches_inv s" and m: "mark_dispatch_succeeded j now s = Inr (b, s')"
  show "dispatches_inv s' \<and> stays_dead i s s'"
  proof (cases "s' = s")
    case False
    with mark_dispatch_succeeded_Inr [OF m] obtain d where
      d: "stored_dispatch s j = Some d" "dp_state d \<noteq> DS_DEAD_LETTER"
      and s': "db_dispatches s' = update_where (\<lambda>d. dp_id d = j) (succeeded_dispatch now) (db_dispatches s)"
      and ok: "dispatches_ok (db_dispatches s')" by blast
    have "exhausted (succeeded_dispatch now e)" if "stored_dispatch s i = Some e" "dp_id e = j" "exhausted e" for e
    proof -
      have "dp_id e = i" using that(1) by (auto simp: stored_dispatch_def find_Some_iff)
      with that d show ?thesis by (simp add: exhausted_def)
    qed
    then show ?thesis
      by (intro updated_dispatches [OF inv s' ok]) (simp_all add: succeeded_dispatch_def)
  qed (simp add: inv)
qed

lemma failed_dispatch_id [simp]:
  "dp_id (failed_dispatch now retry code detail d) = dp_id d" "dp_id (exhausted_dispatch d) = dp_id d"
  by (simp_all add: failed_dispatch_def exhausted_dispatch_def Let_def)

lemma failed_dispatch_dead:
  "dp_state (failed_dispatch now retry code detail d) = DS_DEAD_LETTER \<Longrightarrow> exhausted (failed_dispatch now retry code detail d)"
  "exhausted d \<Longrightarrow> exhausted (failed_dispatch now retry code detail d)"
  by (auto simp: failed_dispatch_def exhausted_def Let_def split: if_splits)

lemma update_where_twice:
  "(\<And>d. p (g d) = p d) \<Longrightarrow> update_where p f (update_where p g ds) = update_where p (\<lambda>d. f (g d)) ds"
  by (induction ds) auto

lemma record_processing_failure_Inr:
  assumes "record_processing_failure j code detail terminal now s = Inr (st, s')"
  shows "\<exists>retry. db_dispatches s' = update_where (\<lambda>d. dp_id d = j)
      (\<lambda>d. failed_dispatch now retry code detail (if terminal then exhausted_dispatch d else d)) (db_dispatches s)
    \<and> dispatches_ok (db_dispatches s')"
proof -
  define s1 where
    s1: "s1 = (if terminal then s\<lparr>db_dispatches := update_where (\<lambda>d. dp_id d = j) exhausted_dispatch (db_dispatches s)\<rparr> else s)"
  from assms obtain d :: DispatchRow and r where
    "record_dispatch_failure j now (plus_delta now (seconds (retry_delay_seconds (dp_attempt_count d)))) code detail s1 = Inr (r, s')"
    unfolding s1 by (cases terminal) (auto simp: record_processing_failure_def result_simps)
  then have "db_dispatches s' = update_where (\<lambda>d. dp_id d = j)
      (failed_dispatch now (plus_delta now (seconds (retry_delay_seconds (dp_attempt_count d)))) code detail) (db_dispatches s1)
    \<and> dispatches_ok (db_dispatches s')"
    by (auto simp: record_dispatch_failure_def result_simps Let_def)
  then show ?thesis
    by (intro exI [of _ "plus_delta now (seconds (retry_delay_seconds (dp_attempt_count d)))"])
      (cases terminal; auto simp: s1 update_where_twice exhausted_dispatch_def)
qed

lemma record_processing_failure_keeps_dead: "keeps_dead i (record_processing_failure j code detail terminal now)"
proof (rule keeps_deadI)
  fix s s' :: "'a ingest_db_scheme" and st
  assume inv: "dispatches_inv s" and "record_processing_failure j code detail terminal now s = Inr (st, s')"
  from record_processing_failure_Inr [OF this(2)] obtain retry where
    s': "db_dispatches s' = update_where (\<lambda>d. dp_id d = j)
        (\<lambda>d. failed_dispatch now retry code detail (if terminal then exhausted_dispatch d else d)) (db_dispatches s)"
    and ok: "dispatches_ok (db_dispatches s')" by blast
  have "exhausted d \<Longrightarrow> exhausted (exhausted_dispatch d)" for d by (simp add: exhausted_def exhausted_dispatch_def)
  then show "dispatches_inv s' \<and> stays_dead i s s'"
    by (intro updated_dispatches [OF inv s' ok])
      (auto intro: failed_dispatch_dead)
qed

lemma requeue_dead_letter_Inr:
  assumes "requeue_dead_letter j now who s = Inr (b, s')"
  shows "s' = s \<or> db_dispatches s' = update_where (\<lambda>d. dp_id d = j) (requeued_dispatch now who) (db_dispatches s)
    \<and> dispatches_ok (db_dispatches s')"
proof (cases "stored_dispatch s j")
  case None
  with assms show ?thesis by (simp add: requeue_dead_letter_def result_simps)
next
  case (Some d)
  with assms show ?thesis
    by (cases "dp_state d = DS_DEAD_LETTER") (auto simp: requeue_dead_letter_def result_simps)
qed

lemma requeue_dead_letter_keeps_dead: "i \<noteq> j \<Longrightarrow> keeps_dead i (requeue_dead_letter j now who)"
proof (rule keeps_deadI)
  fix s s' :: "'a ingest_db_scheme" and b
  assume "i \<noteq> j" and inv: "dispatches_inv s" and m: "requeue_dead_letter j now who s = Inr (b, s')"
  from requeue_dead_letter_Inr [OF m] consider "s' = s"
    | "db_dispatches s' = update_where (\<lambda>d. dp_id d = j) (requeued_dispatch now who) (db_dispatches s)"
      "dispatches_ok (db_dispatches s')" by blast
  then show "dispatches_inv s' \<and> stays_dead i s s'"
  proof cases
    case 2
    with \<open>i \<noteq> j\<close> show ?thesis
      by (intro updated_dispatches [OF inv 2]) (auto simp: requeued_dispatch_def stored_dispatch_def find_Some_iff)
  qed (simp add: inv)
qed

lemma inbox_run_keeps_dead:
  "inbox_run replayed s s' \<Longrightarrow> i \<notin> replayed \<Longrightarrow> dispatches_inv s \<Longrightarrow> dispatches_inv s' \<and> stays_dead i s s'"
proof (induction rule: inbox_run.induct)
  case (replay s t j now who b u)
  then have "keeps_dead i (requeue_dead_letter j now who :: ('a ingest_db_scheme, bool) tx)"
    by (intro requeue_dead_letter_keeps_dead) auto
  from keeps_deadD [OF this replay.hyps(3)] replay show ?case by (blast intro: stays_dead_trans)
qed (simp, (blast intro: stays_dead_trans dest: keeps_deadD [OF record_webhook_keeps_dead]
      keeps_deadD [OF record_invalid_webhook_keeps_dead] keeps_deadD [OF persist_normalized_event_keeps_dead]
      keeps_deadD [OF claim_dispatches_keeps_dead] keeps_deadD [OF mark_dispatch_published_keeps_dead]
      keeps_deadD [OF mark_dispatch_succeeded_keeps_dead] keeps_deadD [OF record_processing_failure_keeps_dead])+)

lemma inbox_run_dispatches_inv: "inbox_run replayed s s' \<Longrightarrow> dispatches_inv s \<Longrightarrow> dispatches_inv s'"
proof (induction rule: inbox_run.induct)
  case (replay s t j now who b u)
  then have "dispatches_inv t" by blast
  show ?case
  proof (cases "u = t")
    case False
    with requeue_dead_letter_Inr [OF replay.hyps(3)] have
      u: "db_dispatches u = update_where (\<lambda>d. dp_id d = j) (requeued_dispatch now who) (db_dispatches t)"
      "dispatches_ok (db_dispatches u)" by blast+
    have "dp_state (requeued_dispatch now who d) = DS_PENDING" for d by (simp add: requeued_dispatch_def)
    with u \<open>dispatches_inv t\<close> show ?thesis by (auto simp: dispatches_inv_def set_update_where)
  qed (simp add: \<open>dispatches_inv t\<close>)
qed (simp, (blast dest: keeps_deadD [OF record_webhook_keeps_dead]
      keeps_deadD [OF record_invalid_webhook_keeps_dead] keeps_deadD [OF persist_normalized_event_keeps_dead]
      keeps_deadD [OF claim_dispatches_keeps_dead] keeps_deadD [OF mark_dispatch_published_keeps_dead]
      keeps_deadD [OF mark_dispatch_succeeded_keeps_dead] keeps_deadD [OF record_processing_failure_keeps_dead])+)

text \<open>
  Property C38. A dead letter is not processed again behind the operator's back: in any run of
  the gateway and the workers, including duplicate deliveries, late successes and further
  failures, a dead-lettered dispatch stays one until an operator replays exactly this dispatch.
\<close>

theorem dead_letter_needs_replay:
  assumes "inbox_run everything s t" "dispatches_inv s" "stored_dispatch t i = Some d" "dp_state d = DS_DEAD_LETTER"
    and "inbox_run replayed t u" "i \<notin> replayed"
  shows "\<exists>d'. stored_dispatch u i = Some d' \<and> dp_state d' = DS_DEAD_LETTER"
proof -
  have "dispatches_inv t" by (rule inbox_run_dispatches_inv [OF assms(1,2)])
  moreover from this assms(3,4) have "exhausted d"
    by (auto simp: dispatches_inv_def stored_dispatch_def find_Some_iff)
  ultimately show ?thesis
    using inbox_run_keeps_dead [OF assms(5,6)] assms(3) by (auto simp: stays_dead_def exhausted_def)
qed

text \<open>
  Property C39. A dispatch whose last allowed attempt was lost is stuck: once its attempts are
  used up and its worker is gone, no later claim, at whatever time, takes it up or changes it,
  although its lease has expired and it was never dead-lettered.
\<close>

theorem exhausted_dispatch_is_stuck:
  assumes "dispatches_ok (db_dispatches s)" "stored_dispatch s i = Some d"
    and "dp_state d \<in> {DS_PROCESSING, DS_PUBLISHED}" "dp_attempt_count d = dp_max_attempts d"
    and "claim_dispatches uuids now lease limit s = Inr (cs, s')"
  shows "stored_dispatch s' i = Some d \<and> i \<notin> dp_id ` set cs \<and> dp_state d \<noteq> DS_DEAD_LETTER"
proof -
  have "\<not> dispatch_claimable now d" using assms(4) by (simp add: dispatch_claimable_def)
  from claim_leaves [OF assms(5,1,2) this] assms(3) show ?thesis by auto
qed


section \<open>Provider entities\<close>

text \<open>The order of two states of a payment: the provider's time, then the rank of the status.\<close>

definition payment_order :: "PaymentRow \<Rightarrow> (datetime \<times> int) option" where
  "payment_order p = map_option (\<lambda>t. (t, stored_rank (py_status p))) (py_provider_updated_at p)"

definition same_payment :: "PaymentRow \<Rightarrow> PaymentRow \<Rightarrow> bool" where
  "same_payment a p \<longleftrightarrow> py_merchant_id p = py_merchant_id a \<and> py_id p = py_id a"

definition payment_wins :: "PaymentRow \<Rightarrow> PaymentRow \<Rightarrow> bool" where
  "payment_wins a p \<longleftrightarrow> provider_update_is_authoritative (py_status p) (py_provider_updated_at p)
     (py_status a) (py_provider_updated_at a)"

lemma payment_wins_order:
  "payment_order a = Some x \<Longrightarrow> payment_wins a p \<longleftrightarrow> (case payment_order p of None \<Rightarrow> True | Some y \<Rightarrow> y \<le> x)"
  by (cases "py_provider_updated_at p"; cases "py_provider_updated_at a")
    (auto simp: payment_wins_def payment_order_def provider_update_is_authoritative_def less_eq_prod_def)

definition merge_payment :: "PaymentRow \<Rightarrow> PaymentRow list \<Rightarrow> PaymentRow list" where
  "merge_payment a rows =
     (if \<exists>p\<in>set rows. same_payment a p
      then update_where (\<lambda>p. same_payment a p \<and> payment_wins a p) (\<lambda>p. a) rows else rows @ [a])"

lemma upsert_payment_Inr:
  "upsert_payment a s = Inr (r, s') \<Longrightarrow> s' = s\<lparr>db_payments := merge_payment a (db_payments s)\<rparr>"
  by (auto simp: upsert_payment_def merge_payment_def same_payment_def payment_wins_def result_simps Let_def)

definition updated_payment :: "PaymentRow \<Rightarrow> PaymentRow \<Rightarrow> PaymentRow" where
  "updated_payment a p = (if same_payment a p \<and> payment_wins a p then a else p)"

lemma merge_payment_map:
  "merge_payment a rows = (if \<exists>p\<in>set rows. same_payment a p then map (updated_payment a) rows else rows @ [a])"
  by (simp add: merge_payment_def update_where_def updated_payment_def)

lemma updated_payment_key [simp]: "same_payment c (updated_payment a p) = same_payment c p"
  by (auto simp: updated_payment_def same_payment_def)

lemma payment_order_None: "payment_order p = None \<Longrightarrow> payment_wins a p"
  by (simp add: payment_wins_def payment_order_def provider_update_is_authoritative_def)

lemma updated_payment_commute:
  assumes "same_payment a b" "payment_order a = Some x" "payment_order b = Some y" "x \<noteq> y"
  shows "updated_payment b (updated_payment a p) = updated_payment a (updated_payment b p)"
proof -
  have "same_payment a p = same_payment b p" "same_payment b a" "same_payment a b"
    using assms(1) by (auto simp: same_payment_def)
  note same = this
  note wins = payment_wins_order [OF assms(2)] payment_wins_order [OF assms(3)]
  have "x \<le> y \<and> \<not> y \<le> x \<or> y \<le> x \<and> \<not> x \<le> y" using assms(4) by auto
  then show ?thesis
  proof (elim disjE conjE)
    assume "x \<le> y" "\<not> y \<le> x"
    then show ?thesis
      using assms(2,3) same
      by (cases "payment_order p") (auto simp: updated_payment_def wins intro: order_trans)
  next
    assume "y \<le> x" "\<not> x \<le> y"
    then show ?thesis
      using assms(2,3) same
      by (cases "payment_order p") (auto simp: updated_payment_def wins intro: order_trans)
  qed
qed

lemma merge_payment_commute:
  assumes "same_payment a b" "payment_order a = Some x" "payment_order b = Some y" "x \<noteq> y"
  shows "merge_payment b (merge_payment a rows) = merge_payment a (merge_payment b rows)"
proof -
  have same: "same_payment a p = same_payment b p" for p using assms(1) by (auto simp: same_payment_def)
  note commute = updated_payment_commute [OF assms]
  show ?thesis
  proof (cases "\<exists>p\<in>set rows. same_payment a p")
    case True
    then show ?thesis by (simp add: merge_payment_map same commute)
  next
    case False
    then have "map (updated_payment c) rows = rows" if "c = a \<or> c = b" for c
      using that same by (intro map_idI) (auto simp: updated_payment_def)
    moreover have "updated_payment b a = updated_payment a b"
      using payment_wins_order [OF assms(2)] payment_wins_order [OF assms(3)] assms same
      by (auto simp: updated_payment_def same_payment_def)
    moreover have "merge_payment b (rows @ [a]) = rows @ [updated_payment b a]" "merge_payment a (rows @ [b]) = rows @ [updated_payment a b]"
      using calculation(1) assms(1) same [of a] same [of b] by (simp_all add: merge_payment_map same_payment_def)
    moreover have "merge_payment a rows = rows @ [a]" "merge_payment b rows = rows @ [b]"
      using False same by (simp_all add: merge_payment_map)
    ultimately show ?thesis by simp
  qed
qed

text \<open>
  The stored state of a payment does not depend on the order in which its
  webhooks are processed: two updates with different provider times or status ranks leave the
  same database whichever comes first.
\<close>

theorem payment_updates_commute:
  assumes "same_payment a b" "payment_order a = Some x" "payment_order b = Some y" "x \<noteq> y"
    and "upsert_payment a s = Inr (p, s1)" "upsert_payment b s1 = Inr (q, s2)"
    and "upsert_payment b s = Inr (q', t1)" "upsert_payment a t1 = Inr (p', t2)"
  shows "s2 = t2"
  using upsert_payment_Inr [OF assms(5)] upsert_payment_Inr [OF assms(6)]
    upsert_payment_Inr [OF assms(7)] upsert_payment_Inr [OF assms(8)]
    merge_payment_commute [OF assms(1-4), of "db_payments s"] by simp

end
