(* ===== verification/Ingestion_Witnesses.thy ===== *)
theory Ingestion_Witnesses
  imports Ingestion_Theorems
begin

text \<open>A small inbox on which the statements about webhooks and dispatches are instantiated.\<close>

definition empty_ingest :: ingest_db where
  "empty_ingest =
     \<lparr>db_audit_entries = [], db_audit_heads = Map.empty, db_uuids = 0, db_cases = [],
      db_transitions = [], db_case_events = [], db_actions = [], db_attempts = [], db_outcomes = [],
      db_merchants = [], db_customers = [], db_payments = [], db_subscriptions = [], db_webhooks = [],
      db_dispatches = [], db_normalized = [], db_correlations = []\<rparr>"

definition sample_webhook :: WebhookRequest where
  "sample_webhook =
     \<lparr>wq_event_id = ''wh_1'', wq_merchant_id = ''merchant_1'', wq_provider = ''RAZORPAY'',
      wq_provider_event_id = ''evt_1'', wq_event_type = ''payment.failed'', wq_entity_id = None,
      wq_raw_body = [1, 2], wq_raw_payload = [], wq_occurred_at = None, wq_received_at = Aware 100,
      wq_correlation_id = ''corr_1'', wq_max_dispatch_attempts = 5\<rparr>"

definition sample_dispatch :: "DispatchState \<Rightarrow> int \<Rightarrow> DispatchRow" where
  "sample_dispatch st attempts =
     (dispatch_row sample_webhook ''d_1'' (Aware 100))
     \<lparr>dp_state := st, dp_attempt_count := attempts, dp_lease_token := Some ''lease_1'',
       dp_lease_expires_at := Some (Aware 200), dp_dead_lettered_at := Some (Aware 150)\<rparr>"

definition sample_inbox :: "DispatchState \<Rightarrow> int \<Rightarrow> ingest_db" where
  "sample_inbox st attempts = empty_ingest\<lparr>db_dispatches := [sample_dispatch st attempts]\<rparr>"

lemma sample_webhook_recorded:
  "\<exists>r t. record_webhook sample_uuids (Aware 100) sample_webhook empty_ingest = Inr (r, t)
     \<and> (\<exists>i. wi_dispatch_id r = Some i)"
proof -
  have w: "webhooks_ok [webhook_row sample_webhook]"
    by (simp add: webhooks_ok_def webhook_row_ok_def unique_index_def webhook_row_def)
  have d: "dispatches_ok [dispatch_row sample_webhook i t]" for i t
    by (simp add: dispatches_ok_def dispatch_row_ok_def dispatch_row_def sample_webhook_def)
  have "validate_append (accepted_append sample_webhook) = Inr ()"
    by (simp add: validate_append_def accepted_append_def new_append_def raise_first_okI too_long_def
        audit_utc_def Let_def sample_webhook_def)
  then obtain e s' where "append_entry sample_uuids (accepted_append sample_webhook)
      (empty_ingest\<lparr>db_webhooks := [webhook_row sample_webhook], db_uuids := 1,
         db_dispatches := [dispatch_row sample_webhook (sample_uuids 0) (Aware 100)]\<rparr>) = Inr (e, s')"
    using append_entry_returns by blast
  with w d show ?thesis
    by (simp add: record_webhook_def run_tx flush_webhooks_def flush_dispatches_def checkT_def draw_uuid_def
        empty_ingest_def)
qed

theorem delivery_recorded_once_witness:
  "\<exists>r t. record_webhook sample_uuids (Aware 100) sample_webhook empty_ingest = Inr (r, t)
     \<and> (\<exists>r'. record_webhook sample_uuids (Aware 500) sample_webhook t = Inr (r', t) \<and> \<not> wi_created r')"
proof -
  from sample_webhook_recorded obtain r t i where
    r: "record_webhook sample_uuids (Aware 100) sample_webhook empty_ingest = Inr (r, t)" "wi_dispatch_id r = Some i" by blast
  have "webhooks_ok (db_webhooks empty_ingest)" by (simp add: empty_ingest_def webhooks_ok_def unique_index_def)
  from delivery_recorded_once [OF this r(1) inbox_run.start refl refl refl r(2)] r(1) show ?thesis by blast
qed

lemma sample_inbox_dispatch [simp]:
  "stored_dispatch (sample_inbox st n) ''d_1'' = Some (sample_dispatch st n)"
  "dp_state (sample_dispatch st n) = st" "dp_attempt_count (sample_dispatch st n) = n"
  "dp_max_attempts (sample_dispatch st n) = 5" "dp_id (sample_dispatch st n) = ''d_1''"
  by (simp_all add: stored_dispatch_def sample_inbox_def sample_dispatch_def dispatch_row_def sample_webhook_def)

lemma sample_dispatches_ok: "0 \<le> n \<Longrightarrow> n \<le> 5 \<Longrightarrow> dispatches_ok (db_dispatches (sample_inbox st n))"
  by (simp add: dispatches_ok_def sample_inbox_def dispatch_row_ok_def)
    (simp add: sample_dispatch_def dispatch_row_def)

theorem dead_letter_needs_replay_witness:
  "\<exists>u. inbox_run {} (sample_inbox DS_DEAD_LETTER 5) u
     \<and> (\<exists>d'. stored_dispatch u ''d_1'' = Some d' \<and> dp_state d' = DS_DEAD_LETTER)"
proof -
  have inv: "dispatches_inv (sample_inbox DS_DEAD_LETTER 5)"
    using sample_dispatches_ok [of 5 DS_DEAD_LETTER]
    by (simp add: dispatches_inv_def) (simp add: sample_inbox_def exhausted_def)
  let ?r = "\<lparr>df_dispatch_id = ''d_1'', df_state = DS_DEAD_LETTER, df_attempt_count = 5\<rparr>"
  have "mark_dispatch_published ''d_1'' ''lease_1'' ''task_1'' (Aware 300) (sample_inbox DS_DEAD_LETTER 5)
      = Inr (False, sample_inbox DS_DEAD_LETTER 5)"
    by (simp add: mark_dispatch_published_def run_tx sample_inbox_def Let_def)
  then have run: "inbox_run {} (sample_inbox DS_DEAD_LETTER 5) (sample_inbox DS_DEAD_LETTER 5)"
    by (rule inbox_run.published [OF inbox_run.start])
  from dead_letter_needs_replay [OF inbox_run.start inv sample_inbox_dispatch(1) _ run] run show ?thesis by auto
qed

theorem exhausted_dispatch_is_stuck_witness:
  "claim_dispatches sample_uuids (Aware 100000) 600 10 (sample_inbox DS_PROCESSING 5)
      = Inr ([], sample_inbox DS_PROCESSING 5)
   \<and> stored_dispatch (sample_inbox DS_PROCESSING 5) ''d_1'' = Some (sample_dispatch DS_PROCESSING 5)"
proof -
  have ok: "dispatches_ok (db_dispatches (sample_inbox DS_PROCESSING 5))" by (rule sample_dispatches_ok) simp_all
  then have c: "claim_dispatches sample_uuids (Aware 100000) 600 10 (sample_inbox DS_PROCESSING 5)
      = Inr ([], sample_inbox DS_PROCESSING 5)"
    by (simp add: claim_dispatches_def run_tx flush_dispatches_def checkT_def)
      (simp add: sample_inbox_def dispatch_claimable_def run_tx)
  have "dp_state (sample_dispatch DS_PROCESSING 5) \<in> {DS_PROCESSING, DS_PUBLISHED}"
    "dp_attempt_count (sample_dispatch DS_PROCESSING 5) = dp_max_attempts (sample_dispatch DS_PROCESSING 5)" by simp_all
  from exhausted_dispatch_is_stuck [OF ok sample_inbox_dispatch(1) this c] c show ?thesis by simp
qed

definition sample_payment :: "datetime \<Rightarrow> string \<Rightarrow> PaymentRow" where
  "sample_payment t status =
     \<lparr>py_merchant_id = ''merchant_1'', py_id = ''pay_1'', py_provider_payment_id = ''pay_1'',
      py_customer_id = None, py_order_id = None, py_amount_minor = 4200, py_currency = ''INR'',
      py_status = status, py_provider_occurred_at = Aware 50, py_provider_updated_at = Some t,
      py_updated_at = t\<rparr>"

lemma upsert_payment_first:
  assumes "0 \<le> py_amount_minor a" "currency_pattern (py_currency a)"
  shows "upsert_payment a (empty_ingest\<lparr>db_payments := []\<rparr>) = Inr (a, empty_ingest\<lparr>db_payments := [a]\<rparr>)"
  using assms by (simp add: upsert_payment_def run_tx checkT_def Let_def payments_ok_def)

lemma upsert_payment_second:
  assumes "same_payment a b" "0 \<le> py_amount_minor a" "currency_pattern (py_currency a)" "payments_ok [b]"
    and "c = (if payment_wins a b then a else b)"
  shows "upsert_payment a (empty_ingest\<lparr>db_payments := [b]\<rparr>) = Inr (c, empty_ingest\<lparr>db_payments := [c]\<rparr>)"
  using assms
  by (cases "payment_wins a b")
    (simp_all add: upsert_payment_def run_tx checkT_def Let_def payments_ok_def same_payment_def payment_wins_def)

theorem payment_updates_commute_witness:
  "\<exists>t :: ingest_db. upsert_payment (sample_payment (Aware 100) ''FAILED'')
       (empty_ingest\<lparr>db_payments := [sample_payment (Aware 200) ''CAPTURED'']\<rparr>)
     = Inr (sample_payment (Aware 200) ''CAPTURED'', t) \<and> db_payments t = [sample_payment (Aware 200) ''CAPTURED'']"
proof -
  let ?a = "sample_payment (Aware 100) ''FAILED''" and ?b = "sample_payment (Aware 200) ''CAPTURED''"
  have ok: "0 \<le> py_amount_minor (sample_payment t st)" "currency_pattern (py_currency (sample_payment t st))"
    "payments_ok [sample_payment t st]" for t st
    by (simp_all add: payments_ok_def sample_payment_def currency_pattern_def is_ascii_upper_def)
  have same: "same_payment ?a ?b" "same_payment ?b ?a" by (simp_all add: same_payment_def sample_payment_def)
  have wins: "?b = (if payment_wins ?b ?a then ?b else ?a)" "?b = (if payment_wins ?a ?b then ?a else ?b)"
    by (simp_all add: payment_wins_def provider_update_is_authoritative_def sample_payment_def)
  note 1 = upsert_payment_first [OF ok(1,2)]
  note 2 = upsert_payment_second [OF same(2) ok wins(1)] upsert_payment_second [OF same(1) ok wins(2)]
  have o': "payment_order ?a = Some (Aware 100, 20)" "payment_order ?b = Some (Aware 200, 100)"
    by (simp_all add: payment_order_def sample_payment_def stored_rank_def PROVIDER_STATUS_PRECEDENCE_def)
  from payment_updates_commute [OF same(1) o' _ 1 2(1) 1 2(2)]
  have "empty_ingest\<lparr>db_payments := [?b]\<rparr> = empty_ingest\<lparr>db_payments := [?b]\<rparr>" by simp
  with 2(2) show ?thesis by auto
qed

end
