(* ===== verification/Gateway.thy ===== *)
theory Gateway
  imports Ingestion_Witnesses
begin

text \<open>
  \<open>revenueguard_api/routes/webhooks.py\<close> with \<open>webhooks.py\<close> and \<open>persistence.py\<close>: the gateway that
  authenticates a webhook and stores it. Each use of the database is a transaction of its own:
  a failed one leaves the state as it was. The decoder of JSON bodies, the clocks and the
  random identifiers are arguments, and of the HTTP request the model has what the handler
  reads: four headers and the chunks of the body.
\<close>


section \<open>Requests and responses\<close>

record GatewayRequest =
  gq_signature :: "string option"
  gq_event_id :: "string option"
  gq_routing :: "string option"
  gq_content_length :: "int option option"
  gq_chunks :: "byte list list"

record GatewaySettings =
  gs_routing_header :: string
  gs_merchant_id :: "string option"
  gs_webhook_secret :: string
  gs_max_body_bytes :: int
  gs_max_dispatch_attempts :: int

record ResolvedMerchant =
  rm_merchant_id :: string
  rm_webhook_secret :: string

datatype IngestionDisposition = ACCEPTED_NEW | DUPLICATE

datatype response =
    Receipt IngestionDisposition string
  | HTTPError int string
  | ServerError exn

text \<open>The exceptions of the database layer, which the adapters translate.\<close>

fun is_sqlalchemy_error :: "exn \<Rightarrow> bool" where
  "is_sqlalchemy_error (IntegrityError t) = True"
| "is_sqlalchemy_error NoResultFound = True"
| "is_sqlalchemy_error MultipleResultsFound = True"
| "is_sqlalchemy_error e = False"


section \<open>Reading the request\<close>

definition required_header :: "string option \<Rightarrow> string \<Rightarrow> (response, string) sum" where
  "required_header value header_name =
     (case value of
        None \<Rightarrow> Inl (HTTPError 400 (''missing required header: '' @ header_name))
      | Some v \<Rightarrow>
          if strip v = [] then Inl (HTTPError 400 (''missing required header: '' @ header_name))
          else Inr (strip v))"

definition merchant_routing_identifier :: "string option \<Rightarrow> GatewaySettings \<Rightarrow> (response, string) sum" where
  "merchant_routing_identifier header_value settings =
     (case header_value of
        Some v \<Rightarrow> required_header (Some v) (gs_routing_header settings)
      | None \<Rightarrow>
          (case gs_merchant_id settings of
             Some m \<Rightarrow> Inr m
           | None \<Rightarrow> required_header None (gs_routing_header settings)))"

fun read_chunks :: "byte list \<Rightarrow> byte list list \<Rightarrow> int \<Rightarrow> (response, byte list) sum" where
  "read_chunks body [] maximum_bytes = Inr body"
| "read_chunks body (part # parts) maximum_bytes =
     (if int (length (body @ part)) > maximum_bytes
      then Inl (HTTPError 413 ''webhook body exceeds configured limit'')
      else read_chunks (body @ part) parts maximum_bytes)"

definition read_bounded_raw_body :: "GatewayRequest \<Rightarrow> int \<Rightarrow> (response, byte list) sum" where
  "read_bounded_raw_body q maximum_bytes =
     (case gq_content_length q of
        None \<Rightarrow> read_chunks [] (gq_chunks q) maximum_bytes
      | Some None \<Rightarrow> Inl (HTTPError 400 ''invalid Content-Length header'')
      | Some (Some declared_length) \<Rightarrow>
          if declared_length < 0 then Inl (HTTPError 400 ''invalid Content-Length header'')
          else if declared_length > maximum_bytes
          then Inl (HTTPError 413 ''webhook body exceeds configured limit'')
          else read_chunks [] (gq_chunks q) maximum_bytes)"


section \<open>The adapters\<close>

definition resolve_merchant ::
    "GatewaySettings \<Rightarrow> string \<Rightarrow> 'a ingest_db_scheme \<Rightarrow> ResolvedMerchant option" where
  "resolve_merchant settings routing_identifier s =
     (if Some routing_identifier \<noteq> gs_merchant_id settings \<or> gs_webhook_secret settings = [] then None
      else if \<exists>m\<in>set (db_merchants s). mc_id m = routing_identifier \<and> mc_status m = ''ACTIVE''
      then Some \<lparr>rm_merchant_id = routing_identifier, rm_webhook_secret = gs_webhook_secret settings\<rparr>
      else None)"

definition webhook_correlation_id :: "string \<Rightarrow> string \<Rightarrow> string" where
  "webhook_correlation_id merchant_id provider_event_id =
     ''corr_'' @ take 48 (sha256_hex (merchant_id @ CHR 0x00 # provider_event_id))"

definition string_or_default :: "pyval \<Rightarrow> string \<Rightarrow> string" where
  "string_or_default value dflt = (case value of PStr s \<Rightarrow> (if s = [] then dflt else s) | _ \<Rightarrow> dflt)"

definition provider_occurred_at :: "doc \<Rightarrow> datetime option" where
  "provider_occurred_at payload =
     (case dict_get payload ''created_at'' of
        PInt n \<Rightarrow> if n < 0 then None else from_timestamp n
      | _ \<Rightarrow> None)"

fun first_entity_id :: "doc \<Rightarrow> string list \<Rightarrow> string option" where
  "first_entity_id wrapped [] = None"
| "first_entity_id wrapped (entity_type # entity_types) =
     (case entity_of wrapped entity_type of
        None \<Rightarrow> first_entity_id wrapped entity_types
      | Some entity \<Rightarrow>
          (case dict_get entity ''id'' of
             PStr i \<Rightarrow> if i = [] then first_entity_id wrapped entity_types else Some i
           | _ \<Rightarrow> first_entity_id wrapped entity_types))"

definition primary_entity_id :: "doc \<Rightarrow> string option" where
  "primary_entity_id payload =
     (case dict_get payload ''payload'' of
        PDict wrapped \<Rightarrow> first_entity_id wrapped [''payment'', ''subscription'', ''payment_link'', ''invoice'']
      | _ \<Rightarrow> None)"

definition verified_webhook ::
    "string \<Rightarrow> string \<Rightarrow> byte list \<Rightarrow> doc \<Rightarrow> datetime \<Rightarrow> int \<Rightarrow> string \<Rightarrow> WebhookRequest" where
  "verified_webhook merchant_id provider_event_id raw_body payload received_at max_attempts event_id =
     \<lparr>wq_event_id = event_id, wq_merchant_id = merchant_id, wq_provider = ''RAZORPAY'',
      wq_provider_event_id = provider_event_id,
      wq_event_type = string_or_default (dict_get payload ''event'') ''UNKNOWN'',
      wq_entity_id = primary_entity_id payload, wq_raw_body = raw_body, wq_raw_payload = payload,
      wq_occurred_at = provider_occurred_at payload, wq_received_at = received_at,
      wq_correlation_id = webhook_correlation_id merchant_id provider_event_id,
      wq_max_dispatch_attempts = max_attempts\<rparr>"

definition ingest_verified ::
    "(nat \<Rightarrow> string) \<Rightarrow> datetime \<Rightarrow> string \<Rightarrow> string \<Rightarrow> byte list \<Rightarrow> doc \<Rightarrow> datetime \<Rightarrow> int \<Rightarrow>
     ('a ingest_db_scheme, IngestionDisposition) tx" where
  "ingest_verified uuids db_now merchant_id provider_event_id raw_body payload received_at max_attempts =
     bindT (draw_uuid uuids) (\<lambda>event_id.
     bindT (record_webhook uuids db_now
              (verified_webhook merchant_id provider_event_id raw_body payload received_at max_attempts event_id))
     (\<lambda>result. returnT (if wi_created result then ACCEPTED_NEW else DUPLICATE)))"

definition invalid_webhook :: "string \<Rightarrow> string \<Rightarrow> byte list \<Rightarrow> datetime \<Rightarrow> string \<Rightarrow> InvalidWebhookRequest" where
  "invalid_webhook merchant_id provider_event_id raw_body received_at event_id =
     \<lparr>iq_event_id = event_id, iq_merchant_id = merchant_id, iq_provider = ''RAZORPAY'',
      iq_provider_event_id = Some provider_event_id,
      iq_raw_payload_sha256 = hexdigest (sha256 raw_body), iq_received_at = received_at,
      iq_correlation_id = webhook_correlation_id merchant_id provider_event_id,
      iq_failure_code = ''SIGNATURE_MISMATCH''\<rparr>"

definition record_invalid_signature ::
    "(nat \<Rightarrow> string) \<Rightarrow> string \<Rightarrow> string \<Rightarrow> byte list \<Rightarrow> datetime \<Rightarrow> ('a ingest_db_scheme, unit) tx" where
  "record_invalid_signature uuids merchant_id provider_event_id raw_body received_at =
     bindT (draw_uuid uuids) (\<lambda>event_id.
     seqT (record_invalid_webhook uuids
             (invalid_webhook merchant_id provider_event_id raw_body received_at event_id)) (returnT ()))"

text \<open>\<open>session_scope\<close>: commit on success, roll back and translate on an error.\<close>

definition in_scope ::
    "string \<Rightarrow> ('s, 'a) tx \<Rightarrow> ('a \<Rightarrow> response) \<Rightarrow> 's \<Rightarrow> response \<times> 's" where
  "in_scope unavailable m k s =
     (case m s of
        Inr (x, s') \<Rightarrow> (k x, s')
      | Inl e \<Rightarrow> ((if is_sqlalchemy_error e then HTTPError 503 unavailable else ServerError e), s))"


section \<open>The handler\<close>

definition verify_razorpay_signature :: "byte list \<Rightarrow> string \<Rightarrow> string \<Rightarrow> bool result" where
  "verify_razorpay_signature raw_body signature secret =
     verify_webhook_signature raw_body (Some (strip signature)) (utf8 secret)"

definition handle_authenticated ::
    "decoder \<Rightarrow> (nat \<Rightarrow> string) \<Rightarrow> datetime \<Rightarrow> datetime \<Rightarrow> GatewaySettings \<Rightarrow> ResolvedMerchant \<Rightarrow> string \<Rightarrow>
     byte list \<Rightarrow> 'a ingest_db_scheme \<Rightarrow> response \<times> 'a ingest_db_scheme" where
  "handle_authenticated loads uuids db_now received_at settings merchant provider_event_id raw_body s =
     (case loads raw_body of
        Some (PDict payload) \<Rightarrow>
          in_scope ''durable webhook inbox unavailable''
            (ingest_verified uuids db_now (rm_merchant_id merchant) provider_event_id raw_body payload
               received_at (gs_max_dispatch_attempts settings))
            (\<lambda>disposition. Receipt disposition provider_event_id) s
      | _ \<Rightarrow> (HTTPError 400 ''signed webhook body must be a JSON object'', s))"

definition handle_body ::
    "decoder \<Rightarrow> (nat \<Rightarrow> string) \<Rightarrow> datetime \<Rightarrow> datetime \<Rightarrow> GatewaySettings \<Rightarrow> string \<Rightarrow> string \<Rightarrow> string \<Rightarrow>
     byte list \<Rightarrow> 'a ingest_db_scheme \<Rightarrow> response \<times> 'a ingest_db_scheme" where
  "handle_body loads uuids db_now received_at settings signature provider_event_id routing raw_body s =
     (case resolve_merchant settings routing s of
        None \<Rightarrow> (HTTPError 401 ''webhook authentication failed'', s)
      | Some merchant \<Rightarrow>
          (case verify_razorpay_signature raw_body signature (rm_webhook_secret merchant) of
             Inl e \<Rightarrow> (ServerError e, s)
           | Inr valid \<Rightarrow>
               if \<not> valid then
                 in_scope ''webhook audit storage unavailable''
                   (record_invalid_signature uuids (rm_merchant_id merchant) provider_event_id raw_body received_at)
                   (\<lambda>_. HTTPError 401 ''webhook authentication failed'') s
               else handle_authenticated loads uuids db_now received_at settings merchant provider_event_id raw_body s))"

definition ingest_razorpay_webhook ::
    "decoder \<Rightarrow> (nat \<Rightarrow> string) \<Rightarrow> datetime \<Rightarrow> datetime \<Rightarrow> GatewaySettings \<Rightarrow> GatewayRequest \<Rightarrow>
     'a ingest_db_scheme \<Rightarrow> response \<times> 'a ingest_db_scheme" where
  "ingest_razorpay_webhook loads uuids db_now received_at settings q s =
     (case required_header (gq_signature q) ''X-Razorpay-Signature'' of
        Inl r \<Rightarrow> (r, s)
      | Inr signature \<Rightarrow>
     (case required_header (gq_event_id q) ''X-Razorpay-Event-Id'' of
        Inl r \<Rightarrow> (r, s)
      | Inr provider_event_id \<Rightarrow>
     (case merchant_routing_identifier (gq_routing q) settings of
        Inl r \<Rightarrow> (r, s)
      | Inr routing \<Rightarrow>
     (case read_bounded_raw_body q (gs_max_body_bytes settings) of
        Inl r \<Rightarrow> (r, s)
      | Inr raw_body \<Rightarrow>
          handle_body loads uuids db_now received_at settings signature provider_event_id routing raw_body s))))"


section \<open>Only signed webhooks are dispatched\<close>

lemma read_chunks_Inr:
  "read_chunks body parts n = Inr b \<Longrightarrow> b = body @ concat parts \<and> (parts \<noteq> [] \<longrightarrow> int (length b) \<le> n)"
  by (induction body parts n rule: read_chunks.induct) (auto split: if_splits)

lemma read_bounded_raw_body_Inr:
  "read_bounded_raw_body q n = Inr b \<Longrightarrow> b = concat (gq_chunks q) \<and> (gq_chunks q \<noteq> [] \<longrightarrow> int (length b) \<le> n)"
  using read_chunks_Inr [of "[]" "gq_chunks q" n b]
  by (auto simp: read_bounded_raw_body_def split: option.splits if_splits)

lemma read_chunks_no_receipt [simp]: "read_chunks body parts n \<noteq> Inl (Receipt d p)"
  by (induction body parts n rule: read_chunks.induct) auto

lemma append_entry_inbox:
  "append_entry uuids a s = Inr (e, t) \<Longrightarrow> db_webhooks t = db_webhooks s \<and> db_dispatches t = db_dispatches s"
  using append_entry_ingest by blast

lemma draw_uuid_ingest:
  "draw_uuid uuids s = Inr (u, t) \<Longrightarrow> db_webhooks t = db_webhooks s \<and> db_dispatches t = db_dispatches s"
  using audit_only_ingest audit_frame.staysD [OF draw_uuid_audit_only] by blast

lemma record_invalid_signature_Inr:
  assumes "record_invalid_signature uuids m p b now s = Inr (u, s')"
  shows "db_dispatches s' = db_dispatches s
    \<and> (\<exists>i. db_webhooks s' = db_webhooks s @ [invalid_webhook_row (invalid_webhook m p b now i)])"
  using assms
  by (auto simp: record_invalid_signature_def record_invalid_webhook_def flush_webhooks_def result_simps
      dest!: draw_uuid_ingest append_entry_inbox)

lemma ingest_verified_Inr:
  assumes "ingest_verified uuids db_now m p b payload now n s = Inr (d, s')"
  shows "(case d of
      DUPLICATE \<Rightarrow> db_webhooks s' = db_webhooks s \<and> db_dispatches s' = db_dispatches s
    | ACCEPTED_NEW \<Rightarrow> \<exists>i j. db_webhooks s' = db_webhooks s @ [webhook_row (verified_webhook m p b payload now n i)]
        \<and> db_dispatches s' = db_dispatches s @ [dispatch_row (verified_webhook m p b payload now n i) j db_now])"
proof -
  from assms obtain i t r where t: "draw_uuid uuids s = Inr (i, t)"
    and r: "record_webhook uuids db_now (verified_webhook m p b payload now n i) t = Inr (r, s')"
    and d: "d = (if wi_created r then ACCEPTED_NEW else DUPLICATE)"
    by (auto simp: ingest_verified_def result_simps)
  from r show ?thesis
    using draw_uuid_ingest [OF t] by (cases rule: record_webhook_cases) (auto simp: d)
qed

lemma in_scope_cases:
  assumes "in_scope u m k s = (a, s')"
  shows "(\<exists>x. m s = Inr (x, s') \<and> a = k x) \<or> (s' = s \<and> (\<forall>d p. a \<noteq> Receipt d p))"
  using assms by (auto simp: in_scope_def split: sum.splits if_splits)

definition quiet :: "response \<Rightarrow> 'a ingest_db_scheme \<Rightarrow> 'a ingest_db_scheme \<Rightarrow> bool" where
  "quiet answer s s' \<longleftrightarrow> (\<forall>p. answer \<noteq> Receipt ACCEPTED_NEW p) \<and> db_dispatches s' = db_dispatches s"

definition audited :: "'a ingest_db_scheme \<Rightarrow> 'a ingest_db_scheme \<Rightarrow> bool" where
  "audited s s' \<longleftrightarrow> db_webhooks s' = db_webhooks s
     \<or> (\<exists>w. db_webhooks s' = db_webhooks s @ [w] \<and> \<not> wh_signature_valid w
          \<and> wh_raw_body w = None \<and> wh_raw_payload w = None)"

lemma handle_authenticated_cases:
  assumes "handle_authenticated loads uuids db_now now settings merchant pid body s = (answer, s')"
  obtains (nothing) "quiet answer s s'" "db_webhooks s' = db_webhooks s"
  | (queued) payload i j where "answer = Receipt ACCEPTED_NEW pid"
      "db_webhooks s' = db_webhooks s @ [webhook_row (verified_webhook (rm_merchant_id merchant) pid body payload
         now (gs_max_dispatch_attempts settings) i)]"
      "db_dispatches s' = db_dispatches s @ [dispatch_row (verified_webhook (rm_merchant_id merchant) pid body payload
         now (gs_max_dispatch_attempts settings) i) j db_now]"
proof (cases "\<exists>payload. loads body = Some (PDict payload)")
  case False
  with assms have "s' = s \<and> (\<forall>d p. answer \<noteq> Receipt d p)"
    by (auto simp: handle_authenticated_def split: option.splits pyval.splits)
  then have "quiet answer s s'" "db_webhooks s' = db_webhooks s" by (simp_all add: quiet_def)
  then show ?thesis by (rule nothing)
next
  case True
  then obtain payload where l: "loads body = Some (PDict payload)" by blast
  with assms have "in_scope ''durable webhook inbox unavailable''
      (ingest_verified uuids db_now (rm_merchant_id merchant) pid body payload now (gs_max_dispatch_attempts settings))
      (\<lambda>disposition. Receipt disposition pid) s = (answer, s')"
    by (simp add: handle_authenticated_def)
  from in_scope_cases [OF this] show ?thesis
  proof (elim disjE exE conjE)
    fix d
    assume r: "ingest_verified uuids db_now (rm_merchant_id merchant) pid body payload now
        (gs_max_dispatch_attempts settings) s = Inr (d, s')" and a: "answer = Receipt d pid"
    show ?thesis
    proof (cases d)
      case DUPLICATE
      with ingest_verified_Inr [OF r] a have "quiet answer s s'" "db_webhooks s' = db_webhooks s"
        by (simp_all add: quiet_def)
      then show ?thesis by (rule nothing)
    next
      case ACCEPTED_NEW
      with ingest_verified_Inr [OF r] a queued show ?thesis by auto
    qed
  next
    assume "s' = s" "\<forall>d p. answer \<noteq> Receipt d p"
    then have "quiet answer s s'" "db_webhooks s' = db_webhooks s" by (simp_all add: quiet_def)
    then show ?thesis by (rule nothing)
  qed
qed

lemma handle_body_refused:
  assumes "handle_body loads uuids db_now now settings signature pid routing body s = (answer, s')"
    and "\<not> (gs_merchant_id settings = Some routing
        \<and> (\<exists>row\<in>set (db_merchants s). mc_id row = routing \<and> mc_status row = ''ACTIVE'')
        \<and> verify_razorpay_signature body signature (gs_webhook_secret settings) = Inr True)"
  shows "quiet answer s s' \<and> audited s s'"
proof -
  have stop: "quiet a s s \<and> audited s s" if "\<And>d p. a \<noteq> Receipt d p" for a
    using that by (auto simp: quiet_def audited_def)
  show ?thesis
  proof (cases "resolve_merchant settings routing s")
    case None
    with assms(1) stop show ?thesis by (auto simp: handle_body_def)
  next
    case (Some merchant)
    then have m: "gs_merchant_id settings = Some routing" "rm_merchant_id merchant = routing"
        "rm_webhook_secret merchant = gs_webhook_secret settings"
        "\<exists>row\<in>set (db_merchants s). mc_id row = routing \<and> mc_status row = ''ACTIVE''"
      by (auto simp: resolve_merchant_def split: if_split_asm)
    show ?thesis
    proof (cases "verify_razorpay_signature body signature (gs_webhook_secret settings)")
      case (Inl e)
      with assms(1) Some m stop show ?thesis by (auto simp: handle_body_def)
    next
      case (Inr valid)
      with assms(2) m have "\<not> valid" by auto
      with assms(1) Some m Inr have "in_scope ''webhook audit storage unavailable''
           (record_invalid_signature uuids routing pid body now)
           (\<lambda>_. HTTPError 401 ''webhook authentication failed'') s = (answer, s')"
        by (simp add: handle_body_def)
      from in_scope_cases [OF this] show ?thesis
        by (auto simp: quiet_def audited_def invalid_webhook_row_def dest!: record_invalid_signature_Inr)
    qed
  qed
qed

lemma handle_body_authentic:
  assumes "gs_merchant_id settings = Some routing"
    "verify_razorpay_signature body signature (gs_webhook_secret settings) = Inr True"
    "\<exists>row\<in>set (db_merchants s). mc_id row = routing \<and> mc_status row = ''ACTIVE''"
  shows "gs_webhook_secret settings = [] \<Longrightarrow>
      handle_body loads uuids db_now now settings signature pid routing body s
        = (HTTPError 401 ''webhook authentication failed'', s)"
    "gs_webhook_secret settings \<noteq> [] \<Longrightarrow>
      handle_body loads uuids db_now now settings signature pid routing body s
        = handle_authenticated loads uuids db_now now settings
            \<lparr>rm_merchant_id = routing, rm_webhook_secret = gs_webhook_secret settings\<rparr> pid body s"
  using assms by (auto simp: handle_body_def resolve_merchant_def)



definition sample_settings :: GatewaySettings where
  "sample_settings =
     \<lparr>gs_routing_header = ''X-RevenueGuard-Merchant-Id'', gs_merchant_id = Some ''merchant_1'',
      gs_webhook_secret = ''secret'', gs_max_body_bytes = 1000, gs_max_dispatch_attempts = 5\<rparr>"

definition sample_request :: "string \<Rightarrow> GatewayRequest" where
  "sample_request signature =
     \<lparr>gq_signature = Some signature, gq_event_id = Some ''evt_1'', gq_routing = None,
      gq_content_length = None, gq_chunks = [[1, 2], [3]]\<rparr>"

definition sample_gateway :: ingest_db where
  "sample_gateway =
     empty_ingest\<lparr>db_merchants := [\<lparr>mc_id = ''merchant_1'', mc_display_name = ''Shop'', mc_provider = ''RAZORPAY'',
      mc_provider_account_id = None, mc_status = ''ACTIVE'', mc_updated_at = Aware 1\<rparr>]\<rparr>"

definition sample_signature :: string where
  "sample_signature = hexdigest (hmac_sha256 (utf8 ''secret'') [1, 2, 3])"

lemma dropWhile_none: "(\<forall>x\<in>set xs. \<not> P x) \<Longrightarrow> dropWhile P xs = xs"
  by (cases xs) auto

lemma strip_no_space: "(\<And>c. c \<in> set xs \<Longrightarrow> \<not> is_space c) \<Longrightarrow> strip xs = xs"
  by (simp add: strip_def dropWhile_none)

lemma strip_sample_signature [simp]: "strip sample_signature = sample_signature" "sample_signature \<noteq> []"
proof -
  show "strip sample_signature = sample_signature" unfolding sample_signature_def
    by (rule strip_no_space)
      (auto dest!: hexdigest_lower_hex simp: is_lower_hex_def is_digit_def is_space_def Let_def)
  have "length sample_signature = 64" by (simp add: sample_signature_def hmac_sha256_parts)
  then show "sample_signature \<noteq> []" by auto
qed

lemma sample_signature_verifies:
  "verify_razorpay_signature [1, 2, 3] sample_signature ''secret'' = Inr True"
proof -
  have "utf8 ''secret'' \<noteq> []" by code_simp
  from own_signature_verifies [OF this]
  show ?thesis by (simp only: verify_razorpay_signature_def strip_sample_signature) (simp only: sample_signature_def)
qed

lemma sample_headers [simp]: "strip ''evt_1'' = ''evt_1''" "show_nat 0 = ''0''"
  by code_simp+

lemma sample_request_handled:
  "ingest_razorpay_webhook (\<lambda>_. Some (PDict [])) sample_uuids (Aware 1) (Aware 1) sample_settings
      (sample_request sample_signature) sample_gateway
   = in_scope ''durable webhook inbox unavailable''
       (ingest_verified sample_uuids (Aware 1) ''merchant_1'' ''evt_1'' [1, 2, 3] [] (Aware 1) 5)
       (\<lambda>d. Receipt d ''evt_1'') sample_gateway"
  using sample_signature_verifies
  by (simp add: ingest_razorpay_webhook_def required_header_def sample_request_def sample_settings_def
      merchant_routing_identifier_def read_bounded_raw_body_def handle_body_def resolve_merchant_def
      sample_gateway_def handle_authenticated_def)

lemma sample_request_recorded:
  "\<exists>t. ingest_verified sample_uuids (Aware 1) ''merchant_1'' ''evt_1'' [1, 2, 3] [] (Aware 1) 5 sample_gateway
     = Inr (ACCEPTED_NEW, t)"
proof -
  define q where "q = verified_webhook ''merchant_1'' ''evt_1'' [1, 2, 3] [] (Aware 1) 5 (sample_uuids 0)"
  have w: "webhooks_ok [webhook_row q]"
    by (simp add: webhooks_ok_def webhook_row_ok_def unique_index_def webhook_row_def)
  have d: "dispatches_ok [dispatch_row q i t]" for i t
    by (simp add: dispatches_ok_def dispatch_row_ok_def dispatch_row_def q_def verified_webhook_def)
  have "validate_append (accepted_append q) = Inr ()"
    by (simp add: validate_append_def accepted_append_def new_append_def raise_first_okI too_long_def
        audit_utc_def Let_def q_def verified_webhook_def webhook_correlation_id_def sample_uuids_def
        string_or_default_def dict_get_def)
  then obtain e s' where "append_entry sample_uuids (accepted_append q)
      (sample_gateway\<lparr>db_webhooks := [webhook_row q], db_uuids := Suc (Suc 0),
         db_dispatches := [dispatch_row q (sample_uuids (Suc 0)) (Aware 1)]\<rparr>) = Inr (e, s')"
    using append_entry_returns by blast
  with w d show ?thesis
    by (simp add: ingest_verified_def q_def [symmetric] record_webhook_def run_tx flush_webhooks_def
        flush_dispatches_def checkT_def draw_uuid_def sample_gateway_def empty_ingest_def)
qed


end
