(* ===== verification/Py_Iso.thy ===== *)
theory Py_Iso
  imports Py_Time
begin

text \<open>
  Reading back the timestamps the code prints: \<open>datetime.fromisoformat\<close> and
  \<open>time.fromisoformat\<close> on the fixed-width form \<open>YYYY-MM-DDTHH:MM:SSZ\<close> and \<open>HH:MM:SS\<close> that
  \<open>to_dict\<close> and \<open>canonical_document\<close> write. The main results are the round trips.
\<close>


section \<open>Day numbers\<close>

definition days_of_ymd :: "int \<Rightarrow> int \<Rightarrow> int \<Rightarrow> int" where
  "days_of_ymd y m d =
     (let y' = (if m \<le> 2 then y - 1 else y);
          mp = (if m \<le> 2 then m + 9 else m - 3);
          doy = (153 * mp + 2) div 5 + d - 1;
          yoe = y' mod 400
      in y' div 400 * 146097 + (365 * yoe + yoe div 4 - yoe div 100 + doy) - 719468)"

text \<open>The year of an era and the day of that year, for the days of an era but the last.\<close>

definition year_of_era :: "int \<Rightarrow> int" where
  "year_of_era doe = (doe - doe div 1460 + doe div 36524 - doe div 146096) div 365"

lemma year_of_century:
  fixes q u b :: int
  assumes "0 \<le> u" "u \<le> 1460" "0 \<le> q" "q \<le> 24" "0 \<le> b" "b \<le> 3"
  defines "r \<equiv> 1461 * q + u"
  obtains k where "(r - (24 * b + r) div 1460) div 365 = 4 * q + k" "0 \<le> k" "k \<le> 3"
    "0 \<le> u - 365 * k" "u - 365 * k \<le> 365"
proof -
  define e :: int where "e = (if 1460 \<le> 24 * b + q + u then 1 else 0)"
  have "(24 * b + r) div 1460 = (1460 * q + (24 * b + q + u)) div 1460" by (simp add: r_def algebra_simps)
  also have "\<dots> = q + (24 * b + q + u) div 1460" by simp
  also have "(24 * b + q + u) div 1460 = e" using assms by (auto simp: e_def)
  finally have "r - (24 * b + r) div 1460 = 365 * (4 * q) + (u - e)" by (simp add: r_def)
  then have t: "(r - (24 * b + r) div 1460) div 365 = 4 * q + (u - e) div 365" by simp
  have e: "0 \<le> e" "e \<le> 1" "e \<le> u" "u - e < 1460" using assms by (auto simp: e_def split: if_splits)
  define k where "k = (u - e) div 365"
  have k: "0 \<le> k" "k \<le> 3" "365 * k \<le> u - e" "u - e < 365 * k + 365"
    using e unfolding k_def by linarith+
  show ?thesis by (rule that [of k]) (use t k e in \<open>auto simp: k_def\<close>)
qed

lemma year_of_era_bounds:
  assumes "0 \<le> doe" "doe \<le> 146096"
  shows "0 \<le> year_of_era doe" "year_of_era doe < 400"
    "0 \<le> doe - (365 * year_of_era doe + year_of_era doe div 4 - year_of_era doe div 100)"
    "doe - (365 * year_of_era doe + year_of_era doe div 4 - year_of_era doe div 100) \<le> 366"
proof -
  have *: "0 \<le> year_of_era doe \<and> year_of_era doe < 400
    \<and> 0 \<le> doe - (365 * year_of_era doe + year_of_era doe div 4 - year_of_era doe div 100)
    \<and> doe - (365 * year_of_era doe + year_of_era doe div 4 - year_of_era doe div 100) \<le> 366"
  proof (cases "doe = 146096")
    case True
    then show ?thesis by (simp add: year_of_era_def)
  next
    case False
    define b where "b = doe div 36524"
    define r where "r = doe - 36524 * b"
    define q where "q = r div 1461"
    define u where "u = r - 1461 * q"
    have b: "0 \<le> b" "b \<le> 3" "0 \<le> r" "r < 36524" using assms False unfolding b_def r_def by linarith+
    then have q: "0 \<le> q" "q \<le> 24" "0 \<le> u" "u \<le> 1460" unfolding q_def u_def by linarith+
    have c: "doe div 146096 = 0" using assms False by simp
    obtain k where k: "(r - (24 * b + r) div 1460) div 365 = 4 * q + k" "0 \<le> k" "k \<le> 3"
      "0 \<le> u - 365 * k" "u - 365 * k \<le> 365"
      using year_of_century [OF q(3,4,1,2) b(1,2)] by (auto simp: u_def)
    have "doe div 1460 = (1460 * (25 * b) + (24 * b + r)) div 1460" by (simp add: r_def)
    also have "\<dots> = 25 * b + (24 * b + r) div 1460" by simp
    finally have "doe - doe div 1460 + doe div 36524 - doe div 146096
        = 365 * (100 * b) + (r - (24 * b + r) div 1460)"
      by (simp add: c b_def [symmetric]) (simp add: r_def)
    moreover have "(365 * a + x) div 365 = a + x div 365" for a x :: int by simp
    ultimately have y: "year_of_era doe = 100 * b + 4 * q + k"
      unfolding year_of_era_def by (metis k(1) add.assoc)
    have "0 \<le> 4 * q + k" "4 * q + k < 100" using q k by linarith+
    then have y100: "year_of_era doe div 100 = b" unfolding y by linarith
    have y4: "year_of_era doe div 4 = 25 * b + q" unfolding y using k by linarith
    show ?thesis
      unfolding y100 y4 using y b q k by (simp add: u_def r_def)
  qed
  then show "0 \<le> year_of_era doe" "year_of_era doe < 400"
    "0 \<le> doe - (365 * year_of_era doe + year_of_era doe div 4 - year_of_era doe div 100)"
    "doe - (365 * year_of_era doe + year_of_era doe div 4 - year_of_era doe div 100) \<le> 366" by auto
qed

lemma ymd_of_days_parts:
  fixes z :: int
  defines "Y \<equiv> year_of_era ((z + 719468) mod 146097)"
  defines "doy \<equiv> (z + 719468) mod 146097 - (365 * Y + Y div 4 - Y div 100)"
  defines "mp \<equiv> (5 * doy + 2) div 153"
  shows "ymd_of_days z =
      (Y + (z + 719468) div 146097 * 400 + (if (if mp < 10 then mp + 3 else mp - 9) \<le> 2 then 1 else 0),
       if mp < 10 then mp + 3 else mp - 9, doy - (153 * mp + 2) div 5 + 1)"
    and "0 \<le> Y" "Y < 400" "0 \<le> doy" "doy \<le> 366" "0 \<le> mp" "mp \<le> 11"
proof -
  show "ymd_of_days z =
      (Y + (z + 719468) div 146097 * 400 + (if (if mp < 10 then mp + 3 else mp - 9) \<le> 2 then 1 else 0),
       if mp < 10 then mp + 3 else mp - 9, doy - (153 * mp + 2) div 5 + 1)"
    unfolding ymd_of_days_def Let_def Y_def doy_def mp_def year_of_era_def by (rule refl)
  show "0 \<le> Y" "Y < 400" "0 \<le> doy" "doy \<le> 366"
    using year_of_era_bounds [of "(z + 719468) mod 146097"] by (simp_all add: Y_def doy_def)
  then show "0 \<le> mp" "mp \<le> 11" unfolding mp_def by linarith+
qed

lemma ymd_of_days_inverse:
  assumes "ymd_of_days z = (y, m, d)"
  shows "days_of_ymd y m d = z"
proof -
  define n where "n = z + 719468"
  define doe where "doe = n mod 146097"
  define Y where "Y = year_of_era doe"
  define doy where "doy = doe - (365 * Y + Y div 4 - Y div 100)"
  define mp where "mp = (5 * doy + 2) div 153"
  note parts = ymd_of_days_parts [of z, folded n_def, folded doe_def, folded Y_def, folded doy_def, folded mp_def]
  note Y = parts(2,3) and mp = parts(6,7)
  have r: "y = Y + n div 146097 * 400 + (if m \<le> 2 then 1 else 0)" "m = (if mp < 10 then mp + 3 else mp - 9)"
    "d = doy - (153 * mp + 2) div 5 + 1"
    using assms unfolding parts(1) prod.inject by blast+
  have m: "m \<le> 2 \<longleftrightarrow> 10 \<le> mp" using r(2) mp by auto
  have "(if m \<le> 2 then y - 1 else y) = 400 * (n div 146097) + Y" using r(1) by auto
  moreover have "(if m \<le> 2 then m + 9 else m - 3) = mp" using r(2) m by auto
  ultimately have "days_of_ymd y m d = n div 146097 * 146097 + (365 * Y + Y div 4 - Y div 100 + doy) - 719468"
    using Y r(3) by (simp add: days_of_ymd_def Let_def)
  also have "\<dots> = n - 719468" by (simp add: doy_def doe_def minus_mod_eq_div_mult [symmetric])
  finally show ?thesis by (simp add: n_def)
qed

lemma ymd_of_days_ranges:
  assumes "ymd_of_days z = (y, m, d)"
  shows "1 \<le> m" "m \<le> 12" "1 \<le> d" "d \<le> 31"
proof -
  define doy mp where "doy = (z + 719468) mod 146097 - (365 * year_of_era ((z + 719468) mod 146097)
      + year_of_era ((z + 719468) mod 146097) div 4 - year_of_era ((z + 719468) mod 146097) div 100)"
    and "mp = (5 * doy + 2) div 153"
  note parts = ymd_of_days_parts [of z, folded doy_def, folded mp_def]
  note mp = parts(6,7)
  have r: "m = (if mp < 10 then mp + 3 else mp - 9)" "d = doy - (153 * mp + 2) div 5 + 1"
    using assms unfolding parts(1) prod.inject by blast+
  have "153 * mp \<le> 5 * doy + 2" "5 * doy + 2 < 153 * mp + 153" unfolding mp_def by linarith+
  then have "1 \<le> doy - (153 * mp + 2) div 5 + 1 \<and> doy - (153 * mp + 2) div 5 + 1 \<le> 31" by linarith
  with r mp show "1 \<le> m" "m \<le> 12" "1 \<le> d" "d \<le> 31" by auto
qed


section \<open>Reading\<close>

definition all_digits :: "string \<Rightarrow> bool" where
  "all_digits s \<longleftrightarrow> (\<forall>c\<in>set s. is_digit c)"

definition int_of_digits :: "string \<Rightarrow> int" where
  "int_of_digits s = int (digits_value s)"

definition invalid_isoformat :: exn where
  "invalid_isoformat = ValueError ''Invalid isoformat string''"

fun time_fromisoformat :: "string \<Rightarrow> int result" where
  "time_fromisoformat [h, i, x, m, n, y, s, t] =
     (let hour = int_of_digits [h, i]; minute = int_of_digits [m, n]; second = int_of_digits [s, t] in
      if x = CHR '':'' \<and> y = CHR '':'' \<and> all_digits [h, i, m, n, s, t] \<and> hour < 24 \<and> minute < 60 \<and> second < 60
      then Inr (seconds (hour * 3600 + minute * 60 + second))
      else Inl invalid_isoformat)"
| "time_fromisoformat _ = Inl invalid_isoformat"

fun date_fromisoformat :: "string \<Rightarrow> int result" where
  "date_fromisoformat [a, b, c, d, x, m, n, y, e, f] =
     (let year = int_of_digits [a, b, c, d]; month = int_of_digits [m, n]; day = int_of_digits [e, f];
          date = days_of_ymd year month day in
      if x = CHR ''-'' \<and> y = CHR ''-'' \<and> all_digits [a, b, c, d, m, n, e, f]
         \<and> ymd_of_days date = (year, month, day) \<and> 1 \<le> year
      then Inr date else Inl invalid_isoformat)"
| "date_fromisoformat _ = Inl invalid_isoformat"

text \<open>\<open>datetime.fromisoformat(value.replace("Z", "+00:00"))\<close> on what \<open>_format\<close> prints.\<close>

definition datetime_fromisoformat :: "string \<Rightarrow> datetime result" where
  "datetime_fromisoformat s =
     (if length s = 20 \<and> s ! 10 = CHR ''T'' \<and> s ! 19 = CHR ''Z''
      then bindR (date_fromisoformat (take 10 s)) (\<lambda>date.
           bindR (time_fromisoformat (take 8 (drop 11 s))) (\<lambda>time.
           Inr (combine_utc date time)))
      else Inl invalid_isoformat)"


section \<open>Round trips\<close>

lemma show_nat_one: "n < 10 \<Longrightarrow> show_nat n = [digit_char n]"
  by (simp add: show_nat.simps [of n])

lemma show_nat_two: "10 \<le> n \<Longrightarrow> n < 100 \<Longrightarrow> show_nat n = [digit_char (n div 10), digit_char (n mod 10)]"
  by (subst show_nat.simps) (simp add: show_nat_one)

lemma show_nat_three:
  "100 \<le> n \<Longrightarrow> n < 1000 \<Longrightarrow>
     show_nat n = [digit_char (n div 100), digit_char (n div 10 mod 10), digit_char (n mod 10)]"
  by (subst show_nat.simps) (simp add: show_nat_two div_mult2_eq [symmetric])

lemma show_nat_four:
  "1000 \<le> n \<Longrightarrow> n < 10000 \<Longrightarrow>
     show_nat n = [digit_char (n div 1000), digit_char (n div 100 mod 10), digit_char (n div 10 mod 10),
       digit_char (n mod 10)]"
  by (subst show_nat.simps) (simp add: show_nat_three div_mult2_eq [symmetric])

lemma digit_char_0: "CHR ''0'' = digit_char 0"
  by code_simp

lemma padded_two:
  assumes "0 \<le> n" "n < 100"
  shows "padded 2 n = [digit_char (nat n div 10), digit_char (nat n mod 10)]"
proof (cases "nat n < 10")
  case True
  then show ?thesis
    using assms by (simp add: padded_def show_int_def show_nat_one Let_def digit_char_0 numeral_2_eq_2)
next
  case False
  then show ?thesis using assms by (simp add: padded_def show_int_def show_nat_two Let_def)
qed

lemma padded_four:
  assumes "0 \<le> n" "n < 10000"
  shows "padded 4 n = [digit_char (nat n div 1000), digit_char (nat n div 100 mod 10),
     digit_char (nat n div 10 mod 10), digit_char (nat n mod 10)]"
proof -
  have r: "replicate 3 c = [c, c, c]" "replicate 2 c = [c, c]" for c :: char
    by (simp_all add: numeral_eq_Suc)
  consider "nat n < 10" | "10 \<le> nat n" "nat n < 100" | "100 \<le> nat n" "nat n < 1000" | "1000 \<le> nat n" "nat n < 10000"
    using assms by linarith
  then show ?thesis
    by cases (use assms in \<open>simp_all add: padded_def show_int_def Let_def show_nat_one show_nat_two
        show_nat_three show_nat_four r digit_char_0\<close>)
qed

lemma int_of_two_digits:
  "0 \<le> n \<Longrightarrow> n < 100 \<Longrightarrow> int_of_digits [digit_char (nat n div 10), digit_char (nat n mod 10)] = n"
  by (simp add: int_of_digits_def digits_value_def)

lemma int_of_four_digits:
  assumes "0 \<le> n" "n < 10000"
  shows "int_of_digits [digit_char (nat n div 1000), digit_char (nat n div 100 mod 10),
     digit_char (nat n div 10 mod 10), digit_char (nat n mod 10)] = n"
proof -
  define k where "k = nat n"
  have "10 * (10 * (10 * (k div 1000) + k div 100 mod 10) + k div 10 mod 10) + k mod 10 = k"
  proof -
    have "k div 1000 = k div 100 div 10" "k div 100 = k div 10 div 10" by (simp_all add: div_mult2_eq [symmetric])
    then have "10 * (k div 1000) + k div 100 mod 10 = k div 100" "10 * (k div 100) + k div 10 mod 10 = k div 10"
      by (simp_all only: mult_div_mod_eq)
    then show ?thesis by simp
  qed
  moreover have "k div 1000 < 10" using assms by (simp add: k_def)
  ultimately show ?thesis using assms by (simp add: int_of_digits_def digits_value_def k_def)
qed

lemma time_fromisoformat_clock:
  assumes "0 \<le> tod" "tod < day_us"
  shows "time_fromisoformat (iso_clock tod) = Inr (seconds (tod div 1000000))"
proof -
  define h m s where "h = tod div 3600000000" and "m = tod div 60000000 mod 60" and "s = tod div 1000000 mod 60"
  have b: "0 \<le> h" "h < 24" "0 \<le> m" "m < 60" "0 \<le> s" "s < 60"
    using assms by (auto simp: h_def m_def s_def day_us_def)
  have "h * 3600 + m * 60 + s = tod div 1000000"
  proof -
    have e: "tod div 3600000000 = tod div 1000000 div 60 div 60" "tod div 60000000 = tod div 1000000 div 60"
      by (simp_all add: zdiv_zmult2_eq [symmetric])
    have "h * 60 + m = tod div 1000000 div 60" "(tod div 1000000 div 60) * 60 + s = tod div 1000000"
      unfolding h_def m_def s_def e by simp_all
    then show ?thesis by linarith
  qed
  with b show ?thesis
    by (simp add: iso_clock_def h_def [symmetric] m_def [symmetric] s_def [symmetric] padded_two
        int_of_two_digits all_digits_def Let_def)
qed

lemma length_iso_clock: "0 \<le> tod \<Longrightarrow> tod < day_us \<Longrightarrow> length (iso_clock tod) = 8"
  by (simp add: iso_clock_def padded_two day_us_def)

definition year_of :: "int \<Rightarrow> int" where
  "year_of date = fst (ymd_of_days date)"

lemma iso_date_digits:
  assumes "1 \<le> year_of date" "year_of date < 10000"
  shows "date_fromisoformat (iso_date date) = Inr date" "length (iso_date date) = 10"
proof -
  obtain y m d where e: "ymd_of_days date = (y, m, d)" by (cases "ymd_of_days date") auto
  note r = ymd_of_days_ranges [OF e] and i = ymd_of_days_inverse [OF e]
  have y: "1 \<le> y" "y < 10000" using assms e by (simp_all add: year_of_def)
  have small: "nat y div 1000 < 10" using y by simp
  show "date_fromisoformat (iso_date date) = Inr date"
    using r y i small
    by (simp add: iso_date_def e padded_two padded_four int_of_two_digits int_of_four_digits all_digits_def Let_def)
  show "length (iso_date date) = 10" using r y by (simp add: iso_date_def e padded_two padded_four)
qed

text \<open>A printed timestamp is read back, up to the fraction of a second that printing drops.\<close>

lemma datetime_fromisoformat_format:
  assumes "1 \<le> year_of (date_of t)" "year_of (date_of t) < 10000"
  shows "datetime_fromisoformat (format_seconds t) = Inr (Aware (seconds (instant t div 1000000)))"
proof -
  note d = iso_date_digits [OF assms] and b = time_of_day_bounds [of t]
  note c = time_fromisoformat_clock [OF b] length_iso_clock [OF b]
  have "date_of t * day_us + seconds (time_of_day t div 1000000) = seconds (instant t div 1000000)"
  proof -
    have "instant t = day_us * date_of t + time_of_day t" by (simp add: date_of_def time_of_day_def)
    then have "instant t div 1000000 = 86400 * date_of t + time_of_day t div 1000000"
      by (simp add: day_us_def)
    then show ?thesis by (simp add: seconds_def day_us_def)
  qed
  with d c show ?thesis
    by (simp add: datetime_fromisoformat_def format_seconds_def nth_append combine_utc_def)
qed

end
