(* ===== verification/Recovery_Store.thy ===== *)
theory Recovery_Store
  imports Ingestion Portfolio Intelligence Policy_Digest Py_Iso
begin

text \<open>
  The rest of \<open>RecoveryRepository\<close> (\<open>persistence/recovery_repositories.py\<close>): merchant policies,
  human reviews, decision receipts, model predictions, customer interventions and the facts a
  decision reads (consent, incidents, provider state), with their tables of
  \<open>persistence/models.py\<close> and their constraints.

  \<open>human_reviews\<close>, \<open>model_predictions\<close> and \<open>customer_interventions\<close> have exactly the columns of
  \<open>HumanReviewRequest\<close>, \<open>ModelPrediction\<close> and \<open>CustomerIntervention\<close>, which are their row types.
  The session does not flush on its own, so a query sees the rows of the last flush. Foreign
  keys and row or advisory locks are not modelled.
\<close>


section \<open>Tables\<close>

record PolicyRow =
  pv_merchant_id :: string
  pv_version :: string
  pv_snapshot :: "(string \<times> json) list"
  pv_content_sha256 :: string
  pv_published_by :: string
  pv_effective_at :: datetime

record ReceiptRow =
  rr_merchant_id :: string
  rr_id :: string
  rr_recovery_case_id :: string
  rr_correlation_id :: string
  rr_evidence_references :: "string list"
  rr_candidate_actions :: "(string \<times> pyval) list list"
  rr_selected_action_type :: ActionType
  rr_explanation :: string
  rr_policy_result :: PolicyResult
  rr_policy_reason_codes :: "string list"
  rr_policy_version :: string
  rr_version_bundle :: "(string \<times> pyval) list"
  rr_human_review_id :: "string option"
  rr_resulting_action_id :: "string option"
  rr_resulting_state :: CaseState
  rr_audit_entry_id :: "string option"
  rr_model_prediction_ids :: "string list"
  rr_scoring_model_version :: string
  rr_scoring_feature_version :: string
  rr_scoring_economics_version :: string
  rr_scoring_artifact_classification :: string
  rr_scoring_fallback_reason :: "string option"
  rr_schema_version :: string
  rr_created_at :: datetime

record ConsentRow =
  cs_merchant_id :: string
  cs_customer_id :: string
  cs_channel :: ContactChannel
  cs_state :: ConsentState
  cs_opted_out :: bool
  cs_source :: string
  cs_effective_at :: datetime

datatype IncidentStatus = INCIDENT_ACTIVE | INCIDENT_RESOLVED

record IncidentRow =
  in_merchant_id :: string
  in_id :: string
  in_scope :: IncidentScope
  in_channel :: "ContactChannel option"
  in_starts_at :: datetime
  in_ends_at :: datetime
  in_status :: IncidentStatus
  in_dimension_key :: string
  in_payment_method :: "string option"
  in_issuer_family :: "string option"
  in_error_family :: "string option"
  in_baseline_total :: int
  in_baseline_failures :: int
  in_current_total :: int
  in_current_failures :: int
  in_baseline_rate :: int
  in_current_rate :: int
  in_threshold_version :: string
  in_evidence :: "(string \<times> pyval) list"
  in_clear_window_count :: int
  in_resolved_at :: "datetime option"
  in_resolution_reason :: "string option"
  in_created_at :: datetime
  in_updated_at :: datetime

record IncidentLinkRow =
  il_merchant_id :: string
  il_incident_id :: string
  il_recovery_case_id :: string
  il_attached_at :: datetime
  il_resume_after :: "datetime option"
  il_resumed_at :: "datetime option"

record InvoiceRow =
  iv_merchant_id :: string
  iv_id :: string
  iv_provider_invoice_id :: string
  iv_customer_id :: string
  iv_amount_minor :: int
  iv_outstanding_amount_minor :: int
  iv_currency :: string
  iv_status :: string
  iv_due_at :: datetime
  iv_provider_updated_at :: datetime
  iv_automation_frozen_at :: "datetime option"
  iv_updated_at :: datetime

record PromiseRow =
  pr_merchant_id :: string
  pr_id :: string
  pr_recovery_case_id :: string
  pr_invoice_id :: string
  pr_customer_id :: string
  pr_customer_response_id :: string
  pr_amount_minor :: int
  pr_currency :: string
  pr_promised_for :: datetime
  pr_reminder_at :: datetime
  pr_status :: string
  pr_extractor_version :: string
  pr_extraction_confidence_basis_points :: int
  pr_fulfilled_at :: "datetime option"
  pr_broken_at :: "datetime option"
  pr_reminder_sent_at :: "datetime option"
  pr_reminder_action_id :: "string option"
  pr_created_at :: datetime
  pr_updated_at :: datetime

record recovery_db = ingest_db +
  db_policies :: "PolicyRow list"
  db_reviews :: "HumanReviewRequest list"
  db_receipts :: "ReceiptRow list"
  db_predictions :: "ModelPrediction list"
  db_interventions :: "CustomerIntervention list"
  db_consents :: "ConsentRow list"
  db_incidents :: "IncidentRow list"
  db_incident_links :: "IncidentLinkRow list"
  db_invoices :: "InvoiceRow list"
  db_promises :: "PromiseRow list"

record CustomerContactSnapshot =
  cx_aggregate_contact_count :: int
  cx_active_case_ids :: "string list"
  cx_active_intervention_id :: "string option"
  cx_active_intervention_action_id :: "string option"


section \<open>Constraints\<close>

definition policies_ok :: "PolicyRow list \<Rightarrow> bool" where
  "policies_ok rows \<longleftrightarrow>
     distinct (map (\<lambda>p. (pv_merchant_id p, pv_version p)) rows)
     \<and> distinct (map (\<lambda>p. (pv_merchant_id p, pv_effective_at p)) rows)
     \<and> (\<forall>p\<in>set rows. hex64 (pv_content_sha256 p))"

text \<open>\<open>ck_human_reviews_decision_chronology\<close> and \<open>ck_human_reviews_decision_metadata\<close>.\<close>

definition review_chronology :: "HumanReviewRequest \<Rightarrow> bool" where
  "review_chronology r \<longleftrightarrow>
     (case rv_decided_at r of
        None \<Rightarrow> True
      | Some d \<Rightarrow>
          rv_status r \<in> {APPROVED, REJECTED} \<and> rv_requested_at r \<le> d \<and> d < rv_expires_at r
          \<or> rv_status r = EXPIRED \<and> rv_expires_at r \<le> d)"

definition review_metadata :: "HumanReviewRequest \<Rightarrow> bool" where
  "review_metadata r \<longleftrightarrow>
     (if rv_status r = REQUESTED
      then rv_reviewer_id r = None \<and> rv_rationale r = None \<and> rv_decided_at r = None
      else rv_reviewer_id r \<noteq> None \<and> rv_rationale r \<noteq> None \<and> rv_decided_at r \<noteq> None)"

definition review_row_ok :: "HumanReviewRequest \<Rightarrow> bool" where
  "review_row_ok r \<longleftrightarrow>
     hex64 (rv_action_fingerprint r) \<and> hex64 (rv_policy_digest r)
     \<and> rv_requested_at r < rv_expires_at r \<and> review_chronology r \<and> review_metadata r"

abbreviation review_key :: "HumanReviewRequest \<Rightarrow> string \<times> string" where
  "review_key r \<equiv> (rv_merchant_id r, rv_review_id r)"

definition reviews_ok :: "HumanReviewRequest list \<Rightarrow> bool" where
  "reviews_ok rows \<longleftrightarrow> distinct (map review_key rows) \<and> (\<forall>r\<in>set rows. review_row_ok r)"

definition receipts_ok :: "ReceiptRow list \<Rightarrow> bool" where
  "receipts_ok rows \<longleftrightarrow>
     distinct (map (\<lambda>r. (rr_merchant_id r, rr_id r)) rows)
     \<and> (\<forall>r\<in>set rows. rr_schema_version r = ''1.0''
          \<and> rr_resulting_state r \<in> {READY, DEFERRED, DECISION_PENDING, ESCALATED, STOPPED}
          \<and> rr_scoring_artifact_classification r \<in> {''SYNTHETIC'', ''PRODUCTION'', ''NOT_APPLICABLE''})"

definition predictions_ok :: "ModelPrediction list \<Rightarrow> bool" where
  "predictions_ok rows \<longleftrightarrow>
     distinct (map (\<lambda>p. (mo_merchant_id p, mo_prediction_id p)) rows)
     \<and> distinct (map (\<lambda>p. (mo_merchant_id p, mo_run_id p, mo_node p)) rows)
     \<and> (\<forall>p\<in>set rows. hex64 (mo_input_sha256 p)
          \<and> 0 \<le> mo_latency_ms p \<and> 0 \<le> mo_input_tokens p \<and> 0 \<le> mo_output_tokens p
          \<and> (mo_status p = FALLBACK \<longleftrightarrow> mo_failure_code p \<noteq> None))"

definition intervention_row_ok :: "CustomerIntervention \<Rightarrow> bool" where
  "intervention_row_ok i \<longleftrightarrow>
     ci_created_at i < ci_cooldown_until i \<and> ci_coordinated_case_ids i \<noteq> []
     \<and> (if ci_status i = CustomerInterventionStatus.ACTIVE
        then ci_closed_at i = None \<and> ci_close_reason i = None
        else ci_closed_at i \<noteq> None \<and> ci_close_reason i \<noteq> None)"

definition interventions_ok :: "CustomerIntervention list \<Rightarrow> bool" where
  "interventions_ok rows \<longleftrightarrow>
     distinct (map (\<lambda>i. (ci_merchant_id i, ci_intervention_id i)) rows)
     \<and> distinct (map (\<lambda>i. (ci_merchant_id i, ci_action_id i)) rows)
     \<and> unique_index (\<lambda>i. ci_status i = CustomerInterventionStatus.ACTIVE)
         (\<lambda>i. (ci_merchant_id i, ci_customer_id i)) rows
     \<and> (\<forall>i\<in>set rows. intervention_row_ok i)"

definition flush_reviews :: "('a recovery_db_scheme, unit) tx" where
  "flush_reviews = checkT (\<lambda>s. reviews_ok (db_reviews s)) ''human_reviews''"

definition flush_interventions :: "('a recovery_db_scheme, unit) tx" where
  "flush_interventions = checkT (\<lambda>s. interventions_ok (db_interventions s)) ''customer_interventions''"


section \<open>Customer contact\<close>

definition active_intervention :: "'a recovery_db_scheme \<Rightarrow> string \<Rightarrow> string \<Rightarrow> CustomerIntervention option" where
  "active_intervention s merchant_id customer_id =
     find (\<lambda>i. ci_merchant_id i = merchant_id \<and> ci_customer_id i = customer_id
       \<and> ci_status i = CustomerInterventionStatus.ACTIVE) (db_interventions s)"

definition customer_cases :: "'a recovery_db_scheme \<Rightarrow> string \<Rightarrow> string \<Rightarrow> RecoveryCase list" where
  "customer_cases s merchant_id customer_id =
     filter (\<lambda>c. rc_merchant_id c = merchant_id \<and> rc_customer_id c = Some customer_id) (map cw_case (db_cases s))"

definition customer_contact_snapshot ::
    "string \<Rightarrow> string \<Rightarrow> ('a recovery_db_scheme, CustomerContactSnapshot) tx" where
  "customer_contact_snapshot merchant_id customer_id =
     bindT (getT (\<lambda>s. \<exists>c\<in>set (db_customers s). cu_merchant_id c = merchant_id \<and> cu_id c = customer_id)) (\<lambda>known.
     seqT (guardT (\<not> known) (LookupError ''tenant-scoped customer does not exist''))
     (getT (\<lambda>s.
        let cases = customer_cases s merchant_id customer_id;
            active = active_intervention s merchant_id customer_id in
        \<lparr>cx_aggregate_contact_count = sum_list (map rc_contact_count cases),
         cx_active_case_ids = sort (map rc_case_id (filter (\<lambda>c. rc_state c \<notin> {RECOVERED, STOPPED}) cases)),
         cx_active_intervention_id = map_option ci_intervention_id active,
         cx_active_intervention_action_id = map_option ci_action_id active\<rparr>)))"

definition store_customer_intervention ::
    "CustomerIntervention \<Rightarrow> ('a recovery_db_scheme, CustomerIntervention) tx" where
  "store_customer_intervention i =
     bindT (getT (\<lambda>s. find (\<lambda>r. ci_merchant_id r = ci_merchant_id i \<and> ci_action_id r = ci_action_id i)
       (db_interventions s))) (\<lambda>existing.
     case existing of
       Some r \<Rightarrow>
         seqT (guardT (ci_customer_id r \<noteq> ci_customer_id i \<or> ci_owner_case_id r \<noteq> ci_owner_case_id i
             \<or> ci_coordinated_case_ids r \<noteq> ci_coordinated_case_ids i)
           (RecoveryPersistenceError ''INTERVENTION_IDEMPOTENCY_CONFLICT''
              ''the recovery action is already attached to a different intervention''))
         (returnT r)
     | None \<Rightarrow>
         seqT (modifyT (\<lambda>s. s\<lparr>db_interventions := db_interventions s @ [i]\<rparr>))
         (seqT flush_interventions (returnT i)))"

definition update_intervention ::
    "string \<times> string \<Rightarrow> (CustomerIntervention \<Rightarrow> CustomerIntervention) \<Rightarrow> ('a recovery_db_scheme, unit) tx" where
  "update_intervention k f = modifyT (\<lambda>s. s\<lparr>db_interventions :=
     update_where (\<lambda>i. (ci_merchant_id i, ci_intervention_id i) = k) f (db_interventions s)\<rparr>)"

definition coordinate_case_with_active_intervention ::
    "string \<Rightarrow> string \<Rightarrow> string \<Rightarrow> datetime \<Rightarrow> ('a recovery_db_scheme, unit) tx" where
  "coordinate_case_with_active_intervention merchant_id customer_id case_id updated_at =
     bindT (getT (\<lambda>s. active_intervention s merchant_id customer_id)) (\<lambda>row.
     case row of
       None \<Rightarrow> returnT ()
     | Some r \<Rightarrow>
         (let coordinated = sort (remdups (case_id # ci_coordinated_case_ids r)) in
          if coordinated \<noteq> ci_coordinated_case_ids r then
            bindT (liftR (evidence_utc updated_at)) (\<lambda>now.
            seqT (update_intervention (ci_merchant_id r, ci_intervention_id r)
               (\<lambda>i. i\<lparr>ci_coordinated_case_ids := coordinated, ci_updated_at := now\<rparr>))
            flush_interventions)
          else returnT ()))"

definition closed_intervention :: "datetime \<Rightarrow> ActionStatus option \<Rightarrow> CustomerIntervention \<Rightarrow> CustomerIntervention" where
  "closed_intervention closed_at action_status i =
     i\<lparr>ci_status := CLOSED, ci_closed_at := Some closed_at,
       ci_close_reason := Some (if action_status = Some ActionStatus.SUCCEEDED then ''CONTACT_COOLDOWN_COMPLETED''
          else ''CONTACT_ACTION_FAILED''),
       ci_updated_at := closed_at\<rparr>"

definition closable_intervention :: "'a recovery_db_scheme \<Rightarrow> datetime \<Rightarrow> CustomerIntervention \<Rightarrow> bool" where
  "closable_intervention s t i \<longleftrightarrow>
     ci_status i = CustomerInterventionStatus.ACTIVE \<and> ci_cooldown_until i \<le> t
     \<and> (\<exists>a\<in>set (db_actions s). action_key a = (ci_merchant_id i, ci_action_id i)
          \<and> ao_status a \<in> {ActionStatus.SUCCEEDED, FAILED})"

definition close_expired_customer_interventions ::
    "datetime \<Rightarrow> int \<Rightarrow> ('a recovery_db_scheme, int) tx" where
  "close_expired_customer_interventions due_at limit =
     seqT (guardT (limit \<le> 0) (ValueError ''limit must be positive''))
     (bindT (liftR (evidence_utc due_at)) (\<lambda>t.
      bindT (getT (\<lambda>s. take (nat limit) (sort_key (\<lambda>i. (ci_cooldown_until i, ci_merchant_id i, ci_intervention_id i))
        (filter (closable_intervention s t) (db_interventions s))))) (\<lambda>rows.
      seqT (mapT (\<lambda>r. bindT (getT (\<lambda>s. stored_action s (ci_merchant_id r, ci_action_id r))) (\<lambda>action.
         update_intervention (ci_merchant_id r, ci_intervention_id r)
           (closed_intervention t (map_option ao_status action)))) rows)
      (seqT flush_interventions (returnT (int (length rows)))))))"


section \<open>Policies\<close>

definition policy_row :: "string \<Rightarrow> MerchantPolicySnapshot \<Rightarrow> string \<Rightarrow> PolicyRow" where
  "policy_row merchant_id policy published_by =
     \<lparr>pv_merchant_id = merchant_id, pv_version = mp_version policy,
      pv_snapshot = canonical_document policy, pv_content_sha256 = content_digest policy,
      pv_published_by = published_by, pv_effective_at = mp_effective_at policy\<rparr>"

definition publish_policy ::
    "string \<Rightarrow> MerchantPolicySnapshot \<Rightarrow> string \<Rightarrow> ('a recovery_db_scheme, PolicyRow) tx" where
  "publish_policy merchant_id policy published_by =
     seqT (guardT (published_by = []) (ValueError ''published_by is required''))
     (bindT (getT (\<lambda>s. find (\<lambda>p. (pv_merchant_id p, pv_version p) = (merchant_id, mp_version policy))
        (db_policies s))) (\<lambda>existing.
      case existing of
        Some p \<Rightarrow>
          seqT (guardT (pv_content_sha256 p \<noteq> content_digest policy)
            (RecoveryPersistenceError ''POLICY_VERSION_CONTENT_MISMATCH''
               ''policy version already exists with different content''))
          (returnT p)
      | None \<Rightarrow>
          bindT (getT (\<lambda>s. filter (\<lambda>p. pv_merchant_id p = merchant_id
             \<and> pv_effective_at p = mp_effective_at policy) (db_policies s))) (\<lambda>rows.
          bindT (one_or_noneT rows) (\<lambda>effective_collision.
          seqT (guardT (effective_collision \<noteq> None)
            (RecoveryPersistenceError ''POLICY_EFFECTIVE_TIME_CONFLICT''
               ''another policy version has the same effective timestamp''))
          (let row = policy_row merchant_id policy published_by in
           seqT (modifyT (\<lambda>s. s\<lparr>db_policies := db_policies s @ [row]\<rparr>))
           (seqT (checkT (\<lambda>s. policies_ok (db_policies s)) ''merchant_policy_versions'') (returnT row)))))))"

text \<open>
  Reading a stored document: \<open>document[key]\<close>, \<open>int(\<dots>)\<close> and \<open>str(\<dots>)\<close> on the values that
  \<open>canonical_document\<close> writes. A value of another type, which \<open>publish_policy\<close> never stores,
  raises here.
\<close>

definition doc_field :: "(string \<times> json) list \<Rightarrow> string \<Rightarrow> json result" where
  "doc_field document key = (case map_of document key of None \<Rightarrow> Inl (LookupError key) | Some v \<Rightarrow> Inr v)"

definition doc_str :: "(string \<times> json) list \<Rightarrow> string \<Rightarrow> string result" where
  "doc_str document key = bindR (doc_field document key) (\<lambda>v.
     case v of JStr s \<Rightarrow> Inr s | _ \<Rightarrow> Inl (TypeError key))"

definition doc_int :: "(string \<times> json) list \<Rightarrow> string \<Rightarrow> int result" where
  "doc_int document key = bindR (doc_field document key) (\<lambda>v.
     case v of JInt n \<Rightarrow> Inr n | _ \<Rightarrow> Inl (TypeError key))"

text \<open>\<open>ActionType(value)\<close>, \<open>ContactChannel(value)\<close>.\<close>

definition ACTION_TYPES :: "ActionType list" where
  "ACTION_TYPES = [DEFER_RETRY, CREATE_PAYMENT_LINK, REQUEST_PAYMENT_METHOD_UPDATE, SEND_REMINDER,
     SCHEDULE_PROMISE_REMINDER, PAUSE_RETRIES, RESUME_DEFERRED_CASE, ESCALATE_HUMAN, STOP_AUTOMATION,
     ActionType.NO_ACTION]"

definition action_of_value :: "string \<Rightarrow> ActionType result" where
  "action_of_value v = (case find (\<lambda>a. action_value a = v) ACTION_TYPES of
     Some a \<Rightarrow> Inr a | None \<Rightarrow> Inl (ValueError v))"

definition channel_of_value :: "string \<Rightarrow> ContactChannel result" where
  "channel_of_value v = (case find (\<lambda>a. channel_value a = v) [EMAIL, SMS, WHATSAPP] of
     Some a \<Rightarrow> Inr a | None \<Rightarrow> Inl (ValueError v))"

definition doc_actions :: "(string \<times> json) list \<Rightarrow> string \<Rightarrow> ActionType set result" where
  "doc_actions document key = bindR (doc_field document key) (\<lambda>v.
     case v of
       JArr vs \<Rightarrow> bindR (mapR (\<lambda>j. case j of JStr s \<Rightarrow> action_of_value s | _ \<Rightarrow> Inl (ValueError key)) vs)
         (\<lambda>actions. Inr (set actions))
     | _ \<Rightarrow> Inl (TypeError key))"

definition parse_datetime :: "json \<Rightarrow> datetime result" where
  "parse_datetime value = (case value of
     JStr s \<Rightarrow> bindR (datetime_fromisoformat s) evidence_utc
   | _ \<Rightarrow> Inl (TypeError ''policy effective_at must be an ISO-8601 string''))"

definition policy_from_document ::
    "(string \<Rightarrow> zone option) \<Rightarrow> (string \<times> json) list \<Rightarrow> MerchantPolicySnapshot result" where
  "policy_from_document zones d =
     bindR (doc_str d ''version'') (\<lambda>version.
     bindR (bindR (doc_field d ''effective_at'') parse_datetime) (\<lambda>effective_at.
     bindR (doc_actions d ''allowed_actions'') (\<lambda>allowed_actions.
     bindR (doc_int d ''retry_limit'') (\<lambda>retry_limit.
     bindR (doc_int d ''contact_limit'') (\<lambda>contact_limit.
     bindR (doc_int d ''minimum_expected_net_recovery_minor'') (\<lambda>minimum_net.
     bindR (doc_int d ''human_review_amount_minor'') (\<lambda>review_amount.
     bindR (doc_int d ''minimum_confidence_basis_points'') (\<lambda>minimum_confidence.
     bindR (doc_int d ''default_defer_seconds'') (\<lambda>default_defer_seconds.
     bindR (doc_str d ''timezone'') (\<lambda>timezone.
     bindR (bindR (doc_str d ''quiet_hours_start'') time_fromisoformat) (\<lambda>quiet_start.
     bindR (bindR (doc_str d ''quiet_hours_end'') time_fromisoformat) (\<lambda>quiet_end.
     bindR (doc_str d ''currency'') (\<lambda>currency.
     bindR (doc_str d ''features_version'') (\<lambda>features_version.
     post_init_policy zones
       \<lparr>mp_version = version, mp_effective_at = effective_at, mp_allowed_actions = allowed_actions,
        mp_retry_limit = retry_limit, mp_contact_limit = contact_limit,
        mp_minimum_expected_net_recovery_minor = minimum_net, mp_human_review_amount_minor = review_amount,
        mp_minimum_confidence_basis_points = minimum_confidence,
        mp_default_defer_seconds = default_defer_seconds, mp_timezone = timezone,
        mp_quiet_hours_start = quiet_start, mp_quiet_hours_end = quiet_end, mp_currency = currency,
        mp_features_version = features_version\<rparr>))))))))))))))"

definition effective_policy ::
    "(string \<Rightarrow> zone option) \<Rightarrow> string \<Rightarrow> datetime \<Rightarrow> ('a recovery_db_scheme, MerchantPolicySnapshot) tx" where
  "effective_policy zones merchant_id evaluated_at =
     bindT (getT (\<lambda>s. take 1 (rev (sort_key pv_effective_at
       (filter (\<lambda>p. pv_merchant_id p = merchant_id \<and> pv_effective_at p \<le> evaluated_at) (db_policies s)))))) (\<lambda>rows.
     bindT (one_or_noneT rows) (\<lambda>row.
     bindT (requireT (RecoveryPersistenceError ''MISSING_EFFECTIVE_POLICY''
        (''no policy is effective for merchant '' @ merchant_id)) row) (\<lambda>r.
     bindT (liftR (policy_from_document zones (pv_snapshot r))) (\<lambda>policy.
     seqT (guardT (content_digest policy \<noteq> pv_content_sha256 r)
       (RecoveryPersistenceError ''POLICY_DIGEST_MISMATCH'' ''stored policy content does not match its digest''))
     (returnT policy)))))"

section \<open>Reviews and receipts\<close>

definition stored_review :: "'a recovery_db_scheme \<Rightarrow> string \<Rightarrow> string \<Rightarrow> HumanReviewRequest option" where
  "stored_review s merchant_id review_id = find (\<lambda>r. review_key r = (merchant_id, review_id)) (db_reviews s)"

definition get_review ::
    "string \<Rightarrow> string \<Rightarrow> ('a recovery_db_scheme, HumanReviewRequest option) tx" where
  "get_review merchant_id review_id =
     bindT (getT (\<lambda>s. stored_review s merchant_id review_id)) (\<lambda>row.
     case row of
       None \<Rightarrow> returnT None
     | Some r \<Rightarrow> bindT (liftR (post_init_review r)) (\<lambda>d. returnT (Some d)))"

definition get_decision_receipt ::
    "string \<Rightarrow> string \<Rightarrow> ('a recovery_db_scheme, ReceiptRow option) tx" where
  "get_decision_receipt merchant_id receipt_id =
     getT (\<lambda>s. find (\<lambda>r. (rr_merchant_id r, rr_id r) = (merchant_id, receipt_id)) (db_receipts s))"

primrec review_status_value :: "ReviewStatus \<Rightarrow> string" where
  "review_status_value REQUESTED = ''REQUESTED''"
| "review_status_value APPROVED = ''APPROVED''"
| "review_status_value REJECTED = ''REJECTED''"
| "review_status_value EXPIRED = ''EXPIRED''"

definition requested_append :: "HumanReviewRequest \<Rightarrow> AuditAppend" where
  "requested_append r =
     (new_append (rv_merchant_id r) ''HUMAN_REVIEW_REQUESTED'' ''HUMAN_REVIEW'' (rv_review_id r)
        (rv_review_id r) ''SYSTEM'' ''recovery-service''
        [(''proposed_action_type'', PStr (rv_proposed_action_type r)),
         (''reason_code'', PStr (rv_reason_code r)),
         (''status'', PStr (review_status_value (rv_status r)))]
        (rv_requested_at r))
     \<lparr>aa_policy_version := Some (rv_policy_version r)\<rparr>"

definition store_review ::
    "(nat \<Rightarrow> string) \<Rightarrow> HumanReviewRequest \<Rightarrow> ('a recovery_db_scheme, HumanReviewRequest) tx" where
  "store_review uuids review =
     seqT (modifyT (\<lambda>s. s\<lparr>db_reviews := db_reviews s @ [review]\<rparr>))
     (seqT flush_reviews
     (seqT (append_entry uuids (requested_append review)) (returnT review)))"

definition decided_row :: "HumanReviewRequest \<Rightarrow> HumanReviewRequest \<Rightarrow> HumanReviewRequest" where
  "decided_row review r =
     r\<lparr>rv_status := rv_status review, rv_reviewer_id := rv_reviewer_id review,
       rv_rationale := rv_rationale review, rv_decided_at := rv_decided_at review\<rparr>"

definition decided_append :: "string \<Rightarrow> HumanReviewRequest \<Rightarrow> AuditAppend" where
  "decided_append merchant_id review =
     (new_append merchant_id ''HUMAN_REVIEW_DECIDED'' ''HUMAN_REVIEW'' (rv_review_id review)
        (rv_review_id review) ''HUMAN'' (or_default (rv_reviewer_id review) ''unknown-reviewer'')
        [(''status'', PStr (review_status_value (rv_status review)))]
        (case rv_decided_at review of Some t \<Rightarrow> t | None \<Rightarrow> rv_requested_at review))
     \<lparr>aa_policy_version := Some (rv_policy_version review)\<rparr>"

definition update_review_decision ::
    "(nat \<Rightarrow> string) \<Rightarrow> string \<Rightarrow> HumanReviewRequest \<Rightarrow> ('a recovery_db_scheme, HumanReviewRequest) tx" where
  "update_review_decision uuids merchant_id review =
     seqT (guardT (rv_status review = REQUESTED) (ValueError ''review decision must be terminal''))
     (let matches = (\<lambda>r. review_key r = (merchant_id, rv_review_id review) \<and> rv_status r = REQUESTED) in
      bindT (getT (\<lambda>s. length (filter matches (db_reviews s)))) (\<lambda>rowcount.
      seqT (modifyT (\<lambda>s. s\<lparr>db_reviews := update_where matches (decided_row review) (db_reviews s)\<rparr>))
      (seqT flush_reviews
      (seqT (guardT (rowcount \<noteq> 1)
         (RecoveryPersistenceError ''REVIEW_ALREADY_DECIDED'' ''review is missing or no longer requested''))
      (bindT (bindT (getT (\<lambda>s. stored_review s merchant_id (rv_review_id review))) (requireT NoResultFound)) (\<lambda>row.
      seqT (append_entry uuids (decided_append merchant_id review)) (returnT row)))))))"

definition recorded_append :: "DecisionReceipt \<Rightarrow> AuditAppend" where
  "recorded_append r =
     (let v = dr_versions r in
      (new_append (dr_merchant_id r) ''DECISION_RECORDED'' ''DECISION_RECEIPT'' (dr_receipt_id r)
         (dr_correlation_id r) ''SYSTEM'' ''recovery-service''
         [(''policy_result'', PStr (policy_result_value (dr_policy_result r))),
          (''resulting_state'', PStr (case_state_value (dr_resulting_state r))),
          (''selected_action_type'', PStr (action_value (dr_selected_action_type r)))]
         (dr_created_at r))
      \<lparr>aa_policy_version := Some (vb_policy v), aa_model_version := Some (vb_model v),
       aa_prompt_version := Some (vb_prompt v), aa_schema_version := Some (vb_schema v),
       aa_feature_version := Some (vb_features v), aa_application_version := Some (vb_application v)\<rparr>)"

definition receipt_row :: "DecisionReceipt \<Rightarrow> string \<Rightarrow> ReceiptRow" where
  "receipt_row r audit_entry_id =
     \<lparr>rr_merchant_id = dr_merchant_id r, rr_id = dr_receipt_id r, rr_recovery_case_id = dr_case_id r,
      rr_correlation_id = dr_correlation_id r, rr_evidence_references = dr_evidence_references r,
      rr_candidate_actions = map candidate_to_dict (dr_candidate_actions r),
      rr_selected_action_type = dr_selected_action_type r, rr_explanation = dr_explanation r,
      rr_policy_result = dr_policy_result r, rr_policy_reason_codes = dr_policy_reason_codes r,
      rr_policy_version = vb_policy (dr_versions r), rr_version_bundle = versions_to_dict (dr_versions r),
      rr_human_review_id = dr_human_review_id r, rr_resulting_action_id = dr_resulting_action_id r,
      rr_resulting_state = dr_resulting_state r, rr_audit_entry_id = Some audit_entry_id,
      rr_model_prediction_ids = dr_model_prediction_ids r,
      rr_scoring_model_version = dr_scoring_model_version r,
      rr_scoring_feature_version = dr_scoring_feature_version r,
      rr_scoring_economics_version = dr_scoring_economics_version r,
      rr_scoring_artifact_classification = dr_scoring_artifact_classification r,
      rr_scoring_fallback_reason = dr_scoring_fallback_reason r,
      rr_schema_version = dr_schema_version r, rr_created_at = dr_created_at r\<rparr>"

definition store_receipt ::
    "(nat \<Rightarrow> string) \<Rightarrow> DecisionReceipt \<Rightarrow> ('a recovery_db_scheme, ReceiptRow) tx" where
  "store_receipt uuids receipt =
     bindT (append_entry uuids (recorded_append receipt)) (\<lambda>entry.
     let row = receipt_row receipt (ae_entry_id entry) in
     seqT (modifyT (\<lambda>s. s\<lparr>db_receipts := db_receipts s @ [row]\<rparr>))
     (seqT (checkT (\<lambda>s. receipts_ok (db_receipts s)) ''decision_receipts'') (returnT row)))"


section \<open>Model predictions\<close>

definition stored_prediction :: "'a recovery_db_scheme \<Rightarrow> ModelPrediction \<Rightarrow> ModelPrediction option" where
  "stored_prediction s p = find (\<lambda>r. (mo_merchant_id r, mo_prediction_id r)
     = (mo_merchant_id p, mo_prediction_id p)) (db_predictions s)"

text \<open>
  One prediction: the stored row it identifies, or the new row to add. The lookups see the rows
  of the last flush, not the ones the loop has added.
\<close>

definition prediction_result :: "'a recovery_db_scheme \<Rightarrow> ModelPrediction \<Rightarrow> (bool \<times> ModelPrediction) result" where
  "prediction_result s p =
     (case stored_prediction s p of
        None \<Rightarrow> Inr (True, p)
      | Some r \<Rightarrow>
          if mo_run_id r \<noteq> mo_run_id p \<or> mo_node r \<noteq> mo_node p \<or> mo_input_sha256 r \<noteq> mo_input_sha256 p
          then Inl (RecoveryPersistenceError ''MODEL_PREDICTION_ID_CONFLICT''
                 ''prediction ID already identifies different model evidence'')
          else Inr (False, r))"

definition store_model_predictions ::
    "ModelPrediction list \<Rightarrow> ('a recovery_db_scheme, ModelPrediction list) tx" where
  "store_model_predictions predictions =
     bindT (bindT (getT (\<lambda>s. mapR (prediction_result s) predictions)) liftR) (\<lambda>rows.
     seqT (modifyT (\<lambda>s. s\<lparr>db_predictions := db_predictions s @ map snd (filter fst rows)\<rparr>))
     (seqT (checkT (\<lambda>s. predictions_ok (db_predictions s)) ''model_predictions'') (returnT (map snd rows))))"


section \<open>Facts for a decision\<close>

definition consent_facts ::
    "string \<Rightarrow> string option \<Rightarrow>
     ('a recovery_db_scheme, (ContactChannel \<times> ConsentState) list \<times> ContactChannel set) tx" where
  "consent_facts merchant_id customer_id =
     (case customer_id of
        None \<Rightarrow> returnT ([], {})
      | Some c \<Rightarrow> getT (\<lambda>s.
          let rows = filter (\<lambda>r. cs_merchant_id r = merchant_id \<and> cs_customer_id r = c) (db_consents s) in
          (map (\<lambda>r. (cs_channel r, cs_state r)) (sort_key (\<lambda>r. channel_value (cs_channel r)) rows),
           set (map cs_channel (filter cs_opted_out rows)))))"

definition incident_matches_diagnosis :: "IncidentRow \<Rightarrow> string option \<Rightarrow> bool" where
  "incident_matches_diagnosis i diagnosis_code =
     (case diagnosis_code of
        None \<Rightarrow> False
      | Some code \<Rightarrow>
          let normalized = str_upper code in
          (case in_scope i of
             ISSUER \<Rightarrow> normalized = ''ISSUER_TEMPORARILY_UNAVAILABLE''
           | GATEWAY \<Rightarrow> normalized = ''GATEWAY_TEMPORARILY_UNAVAILABLE''
           | PAYMENT_RAIL \<Rightarrow> normalized \<in> {''ISSUER_TEMPORARILY_UNAVAILABLE'',
               ''GATEWAY_TEMPORARILY_UNAVAILABLE'', ''UNKNOWN_PAYMENT_FAILURE''}
           | _ \<Rightarrow> False))"

definition incident_link :: "datetime \<Rightarrow> string \<Rightarrow> IncidentRow \<Rightarrow> IncidentLinkRow" where
  "incident_link attached_at case_id i =
     \<lparr>il_merchant_id = in_merchant_id i, il_incident_id = in_id i, il_recovery_case_id = case_id,
      il_attached_at = attached_at, il_resume_after = None, il_resumed_at = None\<rparr>"

abbreviation link_key :: "IncidentLinkRow \<Rightarrow> string \<times> string \<times> string" where
  "link_key l \<equiv> (il_merchant_id l, il_incident_id l, il_recovery_case_id l)"

definition insert_link :: "IncidentLinkRow \<Rightarrow> ('a recovery_db_scheme, unit) tx" where
  "insert_link l = modifyT (\<lambda>s. if link_key l \<in> link_key ` set (db_incident_links s) then s
     else s\<lparr>db_incident_links := db_incident_links s @ [l]\<rparr>)"

text \<open>The first newly matched incident becomes the incident of a case that has none.\<close>

definition set_active_incident :: "string \<Rightarrow> string \<Rightarrow> string \<Rightarrow> ('a recovery_db_scheme, unit) tx" where
  "set_active_incident merchant_id case_id incident_id =
     modifyT (\<lambda>s. s\<lparr>db_cases := update_where
       (\<lambda>r. row_key r = (merchant_id, case_id) \<and> rc_active_incident_id (cw_case r) = None)
       (\<lambda>r. r\<lparr>cw_case := (cw_case r)\<lparr>rc_active_incident_id := Some incident_id\<rparr>\<rparr>) (db_cases s)\<rparr>)"

definition ongoing_incident :: "string \<Rightarrow> datetime \<Rightarrow> IncidentRow \<Rightarrow> bool" where
  "ongoing_incident merchant_id evaluated_at i \<longleftrightarrow>
     in_merchant_id i = merchant_id \<and> in_status i = INCIDENT_ACTIVE
     \<and> in_starts_at i \<le> evaluated_at \<and> evaluated_at < in_ends_at i"

definition incident_constraint :: "IncidentRow \<Rightarrow> IncidentConstraint result" where
  "incident_constraint i =
     post_init_incident \<lparr>ic_incident_id = in_id i, ic_scope = in_scope i, ic_starts_at = in_starts_at i,
       ic_ends_at = in_ends_at i, ic_channel = in_channel i\<rparr>"

definition attach_incidents ::
    "string \<Rightarrow> datetime \<Rightarrow> string \<Rightarrow> IncidentRow list \<Rightarrow> ('a recovery_db_scheme, unit) tx" where
  "attach_incidents merchant_id evaluated_at case_id newly_matched =
     seqT (mapT (\<lambda>i. insert_link (incident_link evaluated_at case_id i)) newly_matched)
     (if newly_matched = [] then returnT ()
      else seqT (set_active_incident merchant_id case_id (hd (sort (map in_id newly_matched))))
             (checkT (\<lambda>s. cases_ok (db_cases s)) ''recovery_cases''))"

definition active_incidents ::
    "string \<Rightarrow> datetime \<Rightarrow> string option \<Rightarrow> string option \<Rightarrow> ('a recovery_db_scheme, IncidentConstraint list) tx" where
  "active_incidents merchant_id evaluated_at case_id diagnosis_code =
     bindT (getT (\<lambda>s. filter (ongoing_incident merchant_id evaluated_at) (db_incidents s))) (\<lambda>rows.
     bindT (case case_id of
         None \<Rightarrow> returnT rows
       | Some c \<Rightarrow>
           bindT (getT (\<lambda>s. map il_incident_id (filter (\<lambda>l. il_merchant_id l = merchant_id
              \<and> il_recovery_case_id l = c) (db_incident_links s)))) (\<lambda>linked.
           let everyone = (\<lambda>i. in_scope i \<in> {ALL_AUTOMATION, CONTACT_CHANNEL});
               known = (\<lambda>i. everyone i \<or> in_id i \<in> set linked);
               newly_matched = filter (\<lambda>i. \<not> known i \<and> incident_matches_diagnosis i diagnosis_code) rows in
           seqT (attach_incidents merchant_id evaluated_at c newly_matched)
           (returnT (filter (\<lambda>i. known i \<or> incident_matches_diagnosis i diagnosis_code) rows)))) (\<lambda>applicable.
     liftR (mapR incident_constraint (sort_key in_id applicable))))"

text \<open>What the provider last reported about the subject of a case.\<close>

definition no_facts :: AuthoritativeFacts where
  "no_facts = \<lparr>af_provider_updated_at = None, af_status = None, af_promise_due_at = None\<rparr>"

definition provider_facts :: "datetime option \<Rightarrow> datetime \<Rightarrow> string \<Rightarrow> AuthoritativeFacts" where
  "provider_facts provider_updated_at provider_occurred_at status =
     \<lparr>af_provider_updated_at = Some (case provider_updated_at of Some t \<Rightarrow> t | None \<Rightarrow> provider_occurred_at),
      af_status = Some status, af_promise_due_at = None\<rparr>"

definition payment_facts :: "string \<Rightarrow> string \<Rightarrow> ('a recovery_db_scheme, AuthoritativeFacts) tx" where
  "payment_facts merchant_id payment_id = getT (\<lambda>s.
     case find (\<lambda>p. (py_merchant_id p, py_id p) = (merchant_id, payment_id)) (db_payments s) of
       None \<Rightarrow> no_facts
     | Some p \<Rightarrow> provider_facts (py_provider_updated_at p) (py_provider_occurred_at p) (py_status p))"

definition subscription_facts :: "string \<Rightarrow> string \<Rightarrow> ('a recovery_db_scheme, AuthoritativeFacts) tx" where
  "subscription_facts merchant_id subscription_id = getT (\<lambda>s.
     case find (\<lambda>p. (su_merchant_id p, su_id p) = (merchant_id, subscription_id)) (db_subscriptions s) of
       None \<Rightarrow> no_facts
     | Some p \<Rightarrow> provider_facts (su_provider_updated_at p) (su_provider_occurred_at p) (su_status p))"

definition invoice_facts :: "string \<Rightarrow> string \<Rightarrow> ('a recovery_db_scheme, AuthoritativeFacts) tx" where
  "invoice_facts merchant_id invoice_id = getT (\<lambda>s.
     case find (\<lambda>v. (iv_merchant_id v, iv_id v) = (merchant_id, invoice_id)) (db_invoices s) of
       None \<Rightarrow> no_facts
     | Some v \<Rightarrow>
         \<lparr>af_provider_updated_at = Some (iv_provider_updated_at v), af_status = Some (iv_status v),
          af_promise_due_at =
            (case rev (sort (map pr_promised_for (filter (\<lambda>p. pr_merchant_id p = merchant_id
                \<and> pr_invoice_id p = invoice_id \<and> pr_status p = ''ACTIVE'') (db_promises s)))) of
               [] \<Rightarrow> None | t # _ \<Rightarrow> Some t)\<rparr>)"

definition authoritative_facts :: "'b NormalizedRow_scheme \<Rightarrow> ('a recovery_db_scheme, AuthoritativeFacts) tx" where
  "authoritative_facts e =
     (case ev_subscription_id e of
        Some i \<Rightarrow> subscription_facts (ev_merchant_id e) i
      | None \<Rightarrow> (case ev_payment_id e of
        Some i \<Rightarrow> payment_facts (ev_merchant_id e) i
      | None \<Rightarrow> (case ev_invoice_id e of
        Some i \<Rightarrow> invoice_facts (ev_merchant_id e) i
      | None \<Rightarrow> returnT no_facts)))"

definition authoritative_facts_for_case ::
    "string \<Rightarrow> RecoveryCase \<Rightarrow> ('a recovery_db_scheme, AuthoritativeFacts) tx" where
  "authoritative_facts_for_case merchant_id c =
     seqT (guardT (rc_merchant_id c \<noteq> merchant_id)
             (ValueError ''case does not belong to the requested merchant''))
     (case rc_subject_type c of
        SUBSCRIPTION \<Rightarrow> subscription_facts merchant_id (rc_subject_id c)
      | PAYMENT \<Rightarrow> payment_facts merchant_id (rc_subject_id c)
      | INVOICE \<Rightarrow> invoice_facts merchant_id (rc_subject_id c)
      | _ \<Rightarrow> returnT no_facts)"

end
