(* ===== verification/Execution.thy ===== *)
theory Execution
  imports Recovery_Store
begin

text \<open>
  \<open>execution/service.py\<close>: the service that takes a claimed action through its final policy
  check, its provider attempt, reconciliation and authoritative verification, moving the case
  along. A row object is the stored row of its key; where a method reads an attribute after it
  wrote the row, the model reads the row again.
\<close>


section \<open>Data\<close>

record ProviderExecutionResult =
  px_status :: ActionStatus
  px_evidence_source :: EvidenceSource
  px_observed_at :: datetime
  px_response_category :: string
  px_provider_object_id :: "string option"
  px_response_reference :: "string option"
  px_provider_status_code :: "int option"
  px_error_code :: "string option"
  px_retryable :: bool

definition post_init_execution_result :: "ProviderExecutionResult \<Rightarrow> ProviderExecutionResult result" where
  "post_init_execution_result r =
     bindR (raise_first
       [(px_status r \<notin> {ActionStatus.SUCCEEDED, FAILED, ActionStatus.UNKNOWN},
           ValueError ''provider execution must be succeeded, failed, or unknown''),
        (px_status r = ActionStatus.UNKNOWN \<and> px_retryable r,
           ValueError ''ambiguous results must reconcile instead of retrying'')]) (\<lambda>_.
     bindR (evidence_utc (px_observed_at r)) (\<lambda>t. Inr (r\<lparr>px_observed_at := t\<rparr>)))"

record ProviderLookupResult =
  pl_status :: ActionStatus
  pl_evidence_source :: EvidenceSource
  pl_evidence_reference :: string
  pl_observed_at :: datetime
  pl_is_authoritative :: bool
  pl_provider_object_id :: "string option"
  pl_reason_code :: "string option"

definition post_init_lookup_result :: "ProviderLookupResult \<Rightarrow> ProviderLookupResult result" where
  "post_init_lookup_result r =
     bindR (evidence_utc (pl_observed_at r)) (\<lambda>t.
     bindR (raise_first
       [(pl_evidence_source r \<notin> {PROVIDER_LOOKUP, EvidenceSource.SIMULATOR},
           ValueError ''lookup evidence must come from lookup or simulator''),
        (pl_status r = ActionStatus.UNKNOWN \<and> pl_is_authoritative r,
           ValueError ''UNKNOWN lookup results cannot be authoritative'')])
     (\<lambda>_. Inr (r\<lparr>pl_observed_at := t\<rparr>)))"

record PreparedExecution =
  xe_action :: RecoveryAction
  xe_attempt_id :: string

record ExecutionDisposition =
  xd_action_id :: string
  xd_action_status :: ActionStatus
  xd_case_state :: CaseState
  xd_reason_code :: string

record FinalPolicyCheck =
  fp_decision :: PolicyDecision
  fp_policy :: MerchantPolicySnapshot
  fp_evidence_references :: "string list"

datatype preparation = Prepared PreparedExecution | Blocked ExecutionDisposition

record ExecutionSettings =
  es_retry_base :: int
  es_unknown_ttl :: int

definition SIGNED_SUCCESS_EVENTS :: "string list" where
  "SIGNED_SUCCESS_EVENTS = [''payment_link.paid'', ''payment.captured'', ''subscription.charged'']"

definition RECOVERY_CREDIT_ACTIONS :: "ActionType list" where
  "RECOVERY_CREDIT_ACTIONS = [CREATE_PAYMENT_LINK]"

text \<open>
  \<open>parameters[key]\<close> through \<open>int\<close>, \<open>float\<close> and \<open>str\<close>, on the values that the recovery service and the
  decision receipt store there: numbers and strings. Other values raise here.
\<close>

definition item :: "(string \<times> pyval) list \<Rightarrow> string \<Rightarrow> pyval result" where
  "item d key = (case map_of d key of None \<Rightarrow> Inl (LookupError key) | Some v \<Rightarrow> Inr v)"

definition int_item :: "(string \<times> pyval) list \<Rightarrow> string \<Rightarrow> int result" where
  "int_item d key = bindR (item d key) (\<lambda>v. case v of
     PInt n \<Rightarrow> Inr n
   | PBool b \<Rightarrow> Inr (of_bool b)
   | PFloat x \<Rightarrow> Inr (if 0 \<le> x then \<lfloor>x\<rfloor> else \<lceil>x\<rceil>)
   | _ \<Rightarrow> Inl (TypeError key))"

definition float_item :: "(string \<times> pyval) list \<Rightarrow> string \<Rightarrow> rat result" where
  "float_item d key = bindR (item d key) (\<lambda>v. case v of
     PInt n \<Rightarrow> Inr (of_int n)
   | PFloat x \<Rightarrow> Inr x
   | _ \<Rightarrow> Inl (TypeError key))"

definition str_item :: "(string \<times> pyval) list \<Rightarrow> string \<Rightarrow> string result" where
  "str_item d key = bindR (item d key) (\<lambda>v. case v of
     PStr s \<Rightarrow> Inr s
   | PInt n \<Rightarrow> Inr (show_int n)
   | PNone \<Rightarrow> Inr ''None''
   | _ \<Rightarrow> Inl (TypeError key))"


section \<open>Shared steps\<close>

definition required_case :: "ActionRow \<Rightarrow> ('a recovery_db_scheme, RecoveryCase) tx" where
  "required_case a =
     bindT (get_case (ao_merchant_id a) (ao_recovery_case_id a))
       (requireT (LookupError ''recovery action case does not exist''))"

text \<open>The keyword arguments of \<open>_transition\<close> that have a default.\<close>

record TransitionExtras =
  te_authoritative_evidence_reference :: "string option"
  te_terminal_reason :: "string option"
  te_next_evaluation_at :: "datetime option"
  te_policy_version :: "string option"

definition no_extras :: TransitionExtras where
  "no_extras = \<lparr>te_authoritative_evidence_reference = None, te_terminal_reason = None,
     te_next_evaluation_at = None, te_policy_version = None\<rparr>"

definition execution_request ::
    "RecoveryCase \<Rightarrow> ActionRow \<Rightarrow> CaseState \<Rightarrow> string \<Rightarrow> datetime \<Rightarrow> TransitionExtras \<Rightarrow> TransitionRequest" where
  "execution_request c a to_state reason_code occurred_at x =
     \<lparr>tr_expected_version = rc_state_version c, tr_to_state = to_state,
      tr_actor = (if truthy (te_authoritative_evidence_reference x) then ''OUTCOME_VERIFIER'' else ''ACTION_EXECUTOR''),
      tr_reason_code = reason_code, tr_correlation_id = ao_correlation_id a,
      tr_occurred_at = occurred_at, tr_reason_detail = None,
      tr_policy_version = or_default (te_policy_version x) (ao_policy_version a),
      tr_authoritative_evidence_reference = te_authoritative_evidence_reference x,
      tr_terminal_reason = te_terminal_reason x, tr_next_evaluation_at = te_next_evaluation_at x\<rparr>"

definition execution_transition ::
    "(nat \<Rightarrow> string) \<Rightarrow> ActionRow \<Rightarrow> CaseState \<Rightarrow> string \<Rightarrow> datetime \<Rightarrow> TransitionExtras \<Rightarrow> RecoveryCase \<Rightarrow>
     ('a recovery_db_scheme, RecoveryCase) tx" where
  "execution_transition uuids a to_state reason_code occurred_at x c =
     bindT (liftR (transition_case c (execution_request c a to_state reason_code occurred_at x))) (\<lambda>(updated, t).
     seqT (apply_transition uuids updated t None) (returnT updated))"

text \<open>The keyword arguments of \<open>_store_observation\<close>.\<close>

record Observation =
  ob_status :: ActionStatus
  ob_source :: EvidenceSource
  ob_observed_at :: datetime
  ob_evidence_reference :: "string option"
  ob_reason_code :: "string option"
  ob_authoritative :: bool
  ob_recovered_amount_minor :: int
  ob_verified_at :: "datetime option"

definition observation_material :: "ActionRow \<Rightarrow> Observation \<Rightarrow> string" where
  "observation_material a b =
     (let reference = or_default (ob_evidence_reference b)
        (evidence_source_value (ob_source b) @ '':''
           @ or_default (ob_reason_code b) (action_status_value (ob_status b)))
      in ao_merchant_id a @ '':'' @ ao_id a @ '':'' @ evidence_source_value (ob_source b) @ '':''
           @ reference @ '':'' @ action_status_value (ob_status b))"

definition observed_outcome :: "ActionRow \<Rightarrow> Observation \<Rightarrow> string \<Rightarrow> VerifiedOutcome" where
  "observed_outcome a b currency =
     (let verified = (case ob_verified_at b of Some t \<Rightarrow> t | None \<Rightarrow> ob_observed_at b) in
      \<lparr>vo_outcome_id = ''outcome_'' @ take 32 (sha256_hex (observation_material a b)),
       vo_action_id = ao_id a, vo_case_id = ao_recovery_case_id a, vo_merchant_id = ao_merchant_id a,
       vo_outcome_status = ob_status b, vo_is_authoritative = ob_authoritative b,
       vo_evidence_source = ob_source b, vo_recovered_amount_minor = ob_recovered_amount_minor b,
       vo_currency = currency, vo_observed_at = ob_observed_at b, vo_created_at = verified,
       vo_evidence_reference = ob_evidence_reference b,
       vo_provider_object_id = ao_provider_object_id a, vo_reason_code = ob_reason_code b,
       vo_verified_at = (if ob_authoritative b then Some verified else None),
       vo_schema_version = ''1.0''\<rparr>)"

definition store_observation ::
    "(nat \<Rightarrow> string) \<Rightarrow> string \<times> string \<Rightarrow> Observation \<Rightarrow> ('a recovery_db_scheme, unit) tx" where
  "store_observation uuids k b =
     bindT (the_action k) (\<lambda>a.
     bindT (liftR (str_item (ao_parameters a) ''currency'')) (\<lambda>currency.
     bindT (liftR (post_init_outcome (observed_outcome a b currency))) (\<lambda>v.
     seqT (store_outcome uuids v) (returnT ()))))"


section \<open>The final policy check\<close>

definition receipt_candidate :: "ActionRow \<Rightarrow> (string \<times> pyval) list \<Rightarrow> CandidateAction result" where
  "receipt_candidate a selected =
     (let channel_value = dict_get selected ''channel'' in
      bindR (float_item selected ''recovery_probability'') (\<lambda>probability.
      bindR (int_item selected ''expected_net_recovery_minor'') (\<lambda>net.
      bindR (case channel_value of
          PNone \<Rightarrow> Inr None
        | PStr v \<Rightarrow> bindR (channel_of_value v) (\<lambda>c. Inr (Some c))
        | _ \<Rightarrow> Inl (ValueError ''channel'')) (\<lambda>channel.
      post_init_candidate
        \<lparr>ca_action_type = ao_action_type a,
         ca_recovery_probability_basis_points = round_half_even (probability * 10000),
         ca_expected_net_recovery_minor = net, ca_rank = 1, ca_target = ao_target_id a,
         ca_logical_attempt = ao_logical_attempt a, ca_channel = channel, ca_action_cost_minor = 0,
         ca_risk_penalty_minor = 0, ca_customer_friction_penalty_minor = 0\<rparr>))))"

definition no_action_candidate :: "string \<Rightarrow> CandidateAction" where
  "no_action_candidate target =
     \<lparr>ca_action_type = ActionType.NO_ACTION, ca_recovery_probability_basis_points = 0,
      ca_expected_net_recovery_minor = 0, ca_rank = 2, ca_target = target, ca_logical_attempt = 1,
      ca_channel = None, ca_action_cost_minor = 0, ca_risk_penalty_minor = 0,
      ca_customer_friction_penalty_minor = 0\<rparr>"

text \<open>The contact count of the customer, and whether another action is in contact with them.\<close>

definition contact_facts :: "ActionRow \<Rightarrow> RecoveryCase \<Rightarrow> ('a recovery_db_scheme, int \<times> bool) tx" where
  "contact_facts a c =
     (case rc_customer_id c of
        None \<Rightarrow> returnT (rc_contact_count c, False)
      | Some customer \<Rightarrow>
          bindT (customer_contact_snapshot (ao_merchant_id a) customer) (\<lambda>snapshot.
          returnT (cx_aggregate_contact_count snapshot,
            cx_active_intervention_action_id snapshot \<noteq> None
            \<and> cx_active_intervention_action_id snapshot \<noteq> Some (ao_id a))))"

definition final_evaluation ::
    "RecoveryCase \<Rightarrow> datetime \<Rightarrow> CandidateAction list \<Rightarrow> string list \<Rightarrow>
     (ContactChannel \<times> ConsentState) list \<times> ContactChannel set \<Rightarrow> IncidentConstraint list \<Rightarrow>
     AuthoritativeFacts \<Rightarrow> int \<times> bool \<Rightarrow> HumanReviewRequest option \<Rightarrow> PolicyEvaluationInput" where
  "final_evaluation c evaluated_at candidates evidence consent incidents facts contact approval =
     (let status = str_upper (or_default (af_status facts) []) in
      \<lparr>pe_case_id = rc_case_id c, pe_amount_minor = rc_revenue_at_risk_minor c,
       pe_currency = rc_currency c,
       pe_confidence_basis_points =
         round_half_even ((case rc_diagnosis_confidence c of None \<Rightarrow> 0 | Some x \<Rightarrow> x) * 10000),
       pe_retry_count = rc_retry_count c, pe_contact_count = fst contact,
       pe_evaluated_at = evaluated_at, pe_candidates = candidates, pe_evidence_references = evidence,
       pe_consent_by_channel = fst consent, pe_opted_out_channels = snd consent,
       pe_incidents = incidents,
       pe_already_paid = (status \<in> {''CAPTURED'', ''CHARGED'', ''COMPLETED'', ''PAID''}),
       pe_disputed = (status = ''DISPUTED''), pe_cancelled = (status \<in> {''CANCELLED'', ''ESCALATED''}),
       pe_terminal = False, pe_diagnosis_defer_until = None, pe_approval = approval,
       pe_unknown_equivalent_action = False, pe_customer_contact_in_progress = snd contact,
       pe_customer_identity_resolved = (rc_customer_id c \<noteq> None),
       pe_active_promise_to_pay = (af_promise_due_at facts \<noteq> None),
       pe_promise_due_at = af_promise_due_at facts\<rparr>)"

definition final_policy_decision ::
    "(string \<Rightarrow> zone option) \<Rightarrow> ActionRow \<Rightarrow> RecoveryCase \<Rightarrow> datetime \<Rightarrow> ('a recovery_db_scheme, FinalPolicyCheck) tx" where
  "final_policy_decision zones a c evaluated_at =
     (let m = ao_merchant_id a in
      bindT (bindT (get_decision_receipt m (ao_decision_receipt_id a))
        (requireT (LookupError ''action decision receipt does not exist''))) (\<lambda>receipt.
      bindT (requireT (ValueError ''action is not present in its authorization receipt'')
        (find (\<lambda>d. dict_get d ''action_type'' = PStr (action_value (ao_action_type a)))
           (rr_candidate_actions receipt))) (\<lambda>selected.
      bindT (liftR (receipt_candidate a selected)) (\<lambda>candidate.
      bindT (liftR (post_init_candidate (no_action_candidate (ao_target_id a)))) (\<lambda>no_action.
      bindT (effective_policy zones m evaluated_at) (\<lambda>policy.
      bindT (consent_facts m (rc_customer_id c)) (\<lambda>consent.
      bindT (active_incidents m evaluated_at (Some (rc_case_id c)) (rc_diagnosis c)) (\<lambda>incidents.
      bindT (authoritative_facts_for_case m c) (\<lambda>facts.
      bindT (contact_facts a c) (\<lambda>contact.
      bindT (case rr_human_review_id receipt of
          None \<Rightarrow> returnT None | Some i \<Rightarrow> get_review m i) (\<lambda>approval.
      bindT (liftR (bindR (post_init_evaluation
          (final_evaluation c evaluated_at [candidate, no_action] (rr_evidence_references receipt)
             consent incidents facts contact approval)) (evaluate_policy zones policy))) (\<lambda>decision.
      returnT \<lparr>fp_decision = decision, fp_policy = policy,
               fp_evidence_references = rr_evidence_references receipt\<rparr>))))))))))))"

definition pre_execution_fingerprint :: "RecoveryCase \<Rightarrow> FinalPolicyCheck \<Rightarrow> ActionFingerprintInput" where
  "pre_execution_fingerprint c check =
     (let candidate = pd_selected_action (fp_decision check) in
      \<lparr>fi_case_id = rc_case_id c, fi_action_type = action_value (ca_action_type candidate),
       fi_target = ca_target candidate, fi_amount_minor = rc_revenue_at_risk_minor c,
       fi_currency = rc_currency c, fi_logical_attempt = ca_logical_attempt candidate,
       fi_policy_digest = content_digest (fp_policy check)\<rparr>)"

definition build_pre_execution_review ::
    "ActionRow \<Rightarrow> RecoveryCase \<Rightarrow> FinalPolicyCheck \<Rightarrow> datetime \<Rightarrow> HumanReviewRequest result" where
  "build_pre_execution_review a c check requested_at =
     bindR (post_init_fingerprint (pre_execution_fingerprint c check)) (\<lambda>i.
     let fingerprint = fingerprint_digest i;
         material = ao_merchant_id a @ '':'' @ ao_id a @ '':'' @ mp_version (fp_policy check) @ '':'' @ fingerprint in
     post_init_review
       \<lparr>rv_review_id = ''review_'' @ take 32 (sha256_hex material), rv_merchant_id = ao_merchant_id a,
        rv_case_id = rc_case_id c, rv_action_fingerprint = fingerprint,
        rv_proposed_action_type = action_value (ca_action_type (pd_selected_action (fp_decision check))),
        rv_evidence_references = fp_evidence_references check,
        rv_policy_version = mp_version (fp_policy check),
        rv_policy_digest = content_digest (fp_policy check),
        rv_reason_code = last (pd_reason_codes (fp_decision check)),
        rv_risk_detail = ''Current policy requires a fresh approval before provider execution'',
        rv_requested_at = requested_at, rv_expires_at = plus_delta requested_at (hours 24),
        rv_status = REQUESTED, rv_reviewer_id = None, rv_rationale = None, rv_decided_at = None\<rparr>)"


section \<open>Preparing an execution\<close>

definition policy_reason :: "string list \<Rightarrow> string" where
  "policy_reason codes =
     (case find (\<lambda>code. code \<noteq> ''NO_ELIGIBLE_ACTION'') codes of Some code \<Rightarrow> code | None \<Rightarrow> last codes)"

definition blocks_execution :: "PolicyDecision \<Rightarrow> ActionRow \<Rightarrow> bool" where
  "blocks_execution d a \<longleftrightarrow> pd_result d \<noteq> PROCEED \<or> ca_action_type (pd_selected_action d) \<noteq> ao_action_type a"

text \<open>What follows the return to the decision: a deferral or a new review.\<close>

definition after_reevaluation ::
    "(nat \<Rightarrow> string) \<Rightarrow> ActionRow \<Rightarrow> FinalPolicyCheck \<Rightarrow> string \<Rightarrow> datetime \<Rightarrow> TransitionExtras \<Rightarrow> RecoveryCase \<Rightarrow>
     ('a recovery_db_scheme, RecoveryCase) tx" where
  "after_reevaluation uuids a check reason_code now x c =
     (let d = fp_decision check;
          move = (\<lambda>to_state reason y. execution_transition uuids a to_state reason now y) in
      if pd_result d = DEFER then
        bindT (move POLICY_CHECK ''PRE_EXECUTION_POLICY_REEVALUATED'' x c)
          (move DEFERRED reason_code (x\<lparr>te_next_evaluation_at := pd_next_evaluation_at d\<rparr>))
      else if pd_result d = REQUIRE_HUMAN then
        bindT (liftR (build_pre_execution_review a c check now)) (\<lambda>review.
        seqT (store_review uuids review)
        (bindT (move POLICY_CHECK ''PRE_EXECUTION_POLICY_REEVALUATED'' x c) (move ESCALATED reason_code x)))
      else returnT c)"

definition block_execution ::
    "(nat \<Rightarrow> string) \<Rightarrow> ActionRow \<Rightarrow> FinalPolicyCheck \<Rightarrow> datetime \<Rightarrow> RecoveryCase \<Rightarrow>
     ('a recovery_db_scheme, ExecutionDisposition) tx" where
  "block_execution uuids a check now c =
     (let d = fp_decision check;
          reason_code = ''PRE_EXECUTION_'' @ policy_reason (pd_reason_codes d);
          x = no_extras\<lparr>te_policy_version := Some (mp_version (fp_policy check))\<rparr>;
          move = (\<lambda>to_state reason y. execution_transition uuids a to_state reason now y) in
      seqT (cancel_before_execution (action_key a) now reason_code)
      (bindT (if rc_state c = READY then move EXECUTING ''PRE_EXECUTION_POLICY_BLOCKED'' x c else returnT c) (\<lambda>c1.
       bindT (move VERIFYING reason_code x c1) (\<lambda>c2.
       bindT (if pd_result d = PolicyResult.STOP
              then move STOPPED reason_code (x\<lparr>te_terminal_reason := Some reason_code\<rparr>) c2
              else bindT (move DECISION_PENDING reason_code x c2)
                     (after_reevaluation uuids a check reason_code now x)) (\<lambda>c3.
       returnT \<lparr>xd_action_id = ao_id a, xd_action_status = FAILED, xd_case_state = rc_state c3,
                xd_reason_code = reason_code\<rparr>)))))"

definition start_execution ::
    "(nat \<Rightarrow> string) \<Rightarrow> ActionRow \<Rightarrow> string \<Rightarrow> datetime \<Rightarrow> RecoveryCase \<Rightarrow> ('a recovery_db_scheme, PreparedExecution) tx" where
  "start_execution uuids a lease_token now c =
     bindT (begin_attempt uuids (ao_merchant_id a) (ao_id a) lease_token now) (\<lambda>(_, attempt).
     (let action_class = ACTION_CLASSES (ao_action_type a) in
      bindT (record_execution_attempt_counters c (of_bool (action_class = RETRY))
               (of_bool (action_class = CUSTOMER_CONTACT)) now) (\<lambda>c1.
      seqT (if rc_state c1 = READY
            then seqT (execution_transition uuids a EXECUTING ''ACTION_EXECUTION_STARTED'' now no_extras c1) (returnT ())
            else returnT ())
      (bindT (domain_action (ao_merchant_id a) (ao_id a)) (\<lambda>d.
       bindT (requireT (AssertionError ''locked action disappeared'') d) (\<lambda>action.
       returnT \<lparr>xe_action = action, xe_attempt_id = ap_id attempt\<rparr>))))))"

definition prepare_execution ::
    "(string \<Rightarrow> zone option) \<Rightarrow> (nat \<Rightarrow> string) \<Rightarrow> string \<Rightarrow> string \<Rightarrow> string \<Rightarrow> datetime \<Rightarrow>
     ('a recovery_db_scheme, preparation) tx" where
  "prepare_execution zones uuids merchant_id action_id lease_token started_at =
     bindT (liftR (evidence_utc started_at)) (\<lambda>now.
     bindT (bindT (get_action merchant_id action_id)
       (requireT (LookupError ''tenant-scoped recovery action does not exist''))) (\<lambda>a.
     bindT (bindT (get_case merchant_id (ao_recovery_case_id a))
       (requireT (LookupError ''recovery action case does not exist''))) (\<lambda>c.
     seqT (guardT (rc_state c \<notin> {READY, EXECUTING}) (ValueError ''case is not executable''))
     (bindT (final_policy_decision zones a c now) (\<lambda>check.
      if blocks_execution (fp_decision check) a
      then bindT (block_execution uuids a check now c) (\<lambda>d. returnT (Blocked d))
      else bindT (start_execution uuids a lease_token now c) (\<lambda>p. returnT (Prepared p)))))))"

section \<open>The result of a provider call\<close>

text \<open>\<open>min(retry_base * 2 ** exponent, 5 minutes)\<close>.\<close>

definition retry_delay :: "ExecutionSettings \<Rightarrow> int \<Rightarrow> int" where
  "retry_delay settings attempt_count =
     min (es_retry_base settings * 2 ^ nat (max (attempt_count - 1) 0)) (minutes 5)"

definition attempt_result :: "ExecutionSettings \<Rightarrow> int \<Rightarrow> ProviderExecutionResult \<Rightarrow> AttemptResult" where
  "attempt_result settings attempt_count r =
     \<lparr>ar_completed_at = px_observed_at r, ar_outcome_status = px_status r,
      ar_response_category = px_response_category r, ar_provider_object_id = px_provider_object_id r,
      ar_provider_status_code = px_provider_status_code r, ar_error_code = px_error_code r,
      ar_response_reference = px_response_reference r, ar_retryable = px_retryable r,
      ar_retry_at = Some (plus_delta (px_observed_at r) (retry_delay settings attempt_count)),
      ar_reconciliation_deadline = plus_delta (px_observed_at r) (es_unknown_ttl settings)\<rparr>"

definition result_observation :: "ProviderExecutionResult \<Rightarrow> ActionStatus \<Rightarrow> string \<Rightarrow> bool \<Rightarrow> Observation" where
  "result_observation r status reason_code authoritative =
     \<lparr>ob_status = status, ob_source = px_evidence_source r, ob_observed_at = px_observed_at r,
      ob_evidence_reference = px_response_reference r, ob_reason_code = Some reason_code,
      ob_authoritative = authoritative, ob_recovered_amount_minor = 0, ob_verified_at = None\<rparr>"

definition disposition :: "ActionRow \<Rightarrow> ActionStatus \<Rightarrow> RecoveryCase \<Rightarrow> string \<Rightarrow> ExecutionDisposition" where
  "disposition a status c reason_code =
     \<lparr>xd_action_id = ao_id a, xd_action_status = status, xd_case_state = rc_state c, xd_reason_code = reason_code\<rparr>"

definition settle_result ::
    "(nat \<Rightarrow> string) \<Rightarrow> ActionRow \<Rightarrow> ProviderExecutionResult \<Rightarrow> RecoveryCase \<Rightarrow>
     ('a recovery_db_scheme, ExecutionDisposition) tx" where
  "settle_result uuids a r c =
     (let now = px_observed_at r;
          move = (\<lambda>to_state reason. execution_transition uuids a to_state reason now no_extras);
          observe = (\<lambda>status reason authoritative.
            store_observation uuids (action_key a) (result_observation r status reason authoritative)) in
      if px_status r = ActionStatus.UNKNOWN then
        (let reason = or_default (px_error_code r) ''PROVIDER_RESULT_UNKNOWN'' in
         bindT (move CaseState.UNKNOWN reason c) (\<lambda>c1.
         seqT (observe ActionStatus.UNKNOWN reason False)
         (returnT (disposition a ActionStatus.UNKNOWN c1 ''UNKNOWN''))))
      else if px_status r = ActionStatus.SUCCEEDED then
        bindT (move VERIFYING ''PROVIDER_REQUEST_ACCEPTED'' c) (\<lambda>c1.
        seqT (observe PENDING ''AWAITING_AUTHORITATIVE_OUTCOME'' False)
        (returnT (disposition a ActionStatus.SUCCEEDED c1 ''VERIFYING'')))
      else
        bindT (move VERIFYING ''PROVIDER_REQUEST_REJECTED'' c) (\<lambda>c1.
        seqT (observe FAILED (or_default (px_error_code r) ''PROVIDER_REQUEST_REJECTED'') True)
        (bindT (move DECISION_PENDING ''VERIFIED_ACTION_FAILURE'' c1) (\<lambda>c2.
         returnT (disposition a FAILED c2 ''FAILED'')))))"

definition record_execution_result ::
    "ExecutionSettings \<Rightarrow> (nat \<Rightarrow> string) \<Rightarrow> string \<Rightarrow> string \<Rightarrow> string \<Rightarrow> ProviderExecutionResult \<Rightarrow>
     ('a recovery_db_scheme, ExecutionDisposition) tx" where
  "record_execution_result settings uuids merchant_id action_id lease_token r =
     bindT (bindT (get_action merchant_id action_id)
       (requireT (LookupError ''tenant-scoped recovery action does not exist''))) (\<lambda>action_before.
     bindT (finish_attempt uuids merchant_id action_id lease_token
         (attempt_result settings (ao_attempt_count action_before) r)) (\<lambda>(a, _).
     bindT (required_case a) (\<lambda>c.
     if ao_status a = PENDING
     then returnT (disposition a PENDING c ''EXPLICIT_FAILURE_RETRY_SCHEDULED'')
     else settle_result uuids a r c)))"


section \<open>Reconciliation\<close>

definition lost_observation :: "datetime \<Rightarrow> Observation" where
  "lost_observation observed_at =
     \<lparr>ob_status = ActionStatus.UNKNOWN, ob_source = EvidenceSource.NONE, ob_observed_at = observed_at,
      ob_evidence_reference = None, ob_reason_code = Some ''INCOMPLETE_PROVIDER_CALL'',
      ob_authoritative = False, ob_recovered_amount_minor = 0, ob_verified_at = None\<rparr>"

definition mark_stale_call ::
    "ExecutionSettings \<Rightarrow> (nat \<Rightarrow> string) \<Rightarrow> datetime \<Rightarrow> ActionRow \<Rightarrow> ('a recovery_db_scheme, ExecutionDisposition) tx" where
  "mark_stale_call settings uuids observed_at a =
     seqT (mark_stale_inflight_unknown (action_key a) observed_at (plus_delta observed_at (es_unknown_ttl settings)))
     (bindT (required_case a) (\<lambda>c.
      bindT (if rc_state c = EXECUTING
             then execution_transition uuids a CaseState.UNKNOWN ''INCOMPLETE_PROVIDER_CALL'' observed_at no_extras c
             else returnT c) (\<lambda>c1.
      seqT (store_observation uuids (action_key a) (lost_observation observed_at))
      (returnT (disposition a ActionStatus.UNKNOWN c1 ''UNKNOWN'')))))"

definition mark_stale_calls_unknown ::
    "ExecutionSettings \<Rightarrow> (nat \<Rightarrow> string) \<Rightarrow> datetime \<Rightarrow> int \<Rightarrow> ('a recovery_db_scheme, ExecutionDisposition list) tx" where
  "mark_stale_calls_unknown settings uuids now limit =
     bindT (liftR (evidence_utc now)) (\<lambda>observed_at.
     bindT (stale_inflight_actions observed_at limit) (mapT (mark_stale_call settings uuids observed_at)))"

definition lookup_observation :: "ProviderLookupResult \<Rightarrow> ActionStatus \<Rightarrow> string option \<Rightarrow> bool \<Rightarrow> int \<Rightarrow> Observation" where
  "lookup_observation r status reason_code authoritative recovered =
     \<lparr>ob_status = status, ob_source = pl_evidence_source r, ob_observed_at = pl_observed_at r,
      ob_evidence_reference = Some (pl_evidence_reference r), ob_reason_code = reason_code,
      ob_authoritative = authoritative, ob_recovered_amount_minor = recovered, ob_verified_at = None\<rparr>"

text \<open>The reconciliation deadline has passed and the lookup does not settle the action.\<close>

definition unresolved_at_deadline :: "ActionRow \<Rightarrow> ProviderLookupResult \<Rightarrow> bool" where
  "unresolved_at_deadline a r \<longleftrightarrow>
     (\<exists>d\<in>set_option (ao_reconciliation_deadline a). d \<le> pl_observed_at r)
     \<and> \<not> (pl_is_authoritative r \<and> pl_status r \<in> {ActionStatus.SUCCEEDED, FAILED})"

definition expire_verification ::
    "(nat \<Rightarrow> string) \<Rightarrow> ActionRow \<Rightarrow> ProviderLookupResult \<Rightarrow> RecoveryCase \<Rightarrow> ('a recovery_db_scheme, RecoveryCase) tx" where
  "expire_verification uuids a r c =
     seqT (mark_verification_expired_unknown (action_key a) (pl_observed_at r))
     (bindT (execution_transition uuids a CaseState.UNKNOWN ''VERIFICATION_DEADLINE_EXCEEDED''
               (pl_observed_at r) no_extras c) (\<lambda>c1.
      seqT (store_observation uuids (action_key a)
              (lookup_observation r ActionStatus.UNKNOWN (Some ''VERIFICATION_DEADLINE_EXCEEDED'') False 0))
      (returnT c1)))"

definition escalated_action :: "datetime \<Rightarrow> ActionRow \<Rightarrow> ActionRow" where
  "escalated_action t a = a\<lparr>ao_dead_lettered_at := Some t, ao_updated_at := t\<rparr>"

definition escalate_unresolved ::
    "(nat \<Rightarrow> string) \<Rightarrow> ActionRow \<Rightarrow> ProviderLookupResult \<Rightarrow> RecoveryCase \<Rightarrow> ('a recovery_db_scheme, ExecutionDisposition) tx" where
  "escalate_unresolved uuids a r c =
     seqT (update_action (action_key a) (escalated_action (pl_observed_at r)))
     (bindT (execution_transition uuids a ESCALATED ''RECONCILIATION_DEADLINE_EXCEEDED''
               (pl_observed_at r) no_extras c) (\<lambda>c1.
      seqT flush_actions (returnT (disposition a ActionStatus.UNKNOWN c1 ''ESCALATED''))))"

definition settle_lookup ::
    "(nat \<Rightarrow> string) \<Rightarrow> ActionRow \<Rightarrow> ProviderLookupResult \<Rightarrow> RecoveryCase \<Rightarrow> ('a recovery_db_scheme, ExecutionDisposition) tx" where
  "settle_lookup uuids a r c =
     (let now = pl_observed_at r;
          resolved_status = (if pl_status r \<in> {ActionStatus.SUCCEEDED, PENDING} then ActionStatus.SUCCEEDED else FAILED);
          settled = pl_is_authoritative r \<and> pl_status r = ActionStatus.SUCCEEDED;
          x = no_extras\<lparr>te_authoritative_evidence_reference := Some (pl_evidence_reference r)\<rparr> in
      seqT (if rc_state c = CaseState.UNKNOWN \<or> resolved_status = FAILED
            then set_action_resolution (action_key a) resolved_status now (pl_provider_object_id r)
                   (if resolved_status = FAILED then pl_reason_code r else None)
            else returnT ())
      (bindT (if rc_state c = CaseState.UNKNOWN
              then execution_transition uuids a VERIFYING ''UNKNOWN_RECONCILED'' now x c
              else returnT c) (\<lambda>c1.
       bindT (if settled then liftR (int_item (ao_parameters a) ''amount_minor'') else returnT 0) (\<lambda>recovered.
       seqT (store_observation uuids (action_key a)
               (lookup_observation r (pl_status r) (pl_reason_code r) (pl_is_authoritative r) recovered))
       (bindT (if settled then
                 (let reason = or_default (pl_reason_code r) ''AUTHORITATIVE_RECOVERY'' in
                  execution_transition uuids a RECOVERED reason now (x\<lparr>te_terminal_reason := Some reason\<rparr>) c1)
               else if pl_status r = FAILED \<and> pl_is_authoritative r then
                 execution_transition uuids a DECISION_PENDING
                   (or_default (pl_reason_code r) ''AUTHORITATIVE_ACTION_FAILURE'') now no_extras c1
               else returnT c1) (\<lambda>c2.
        returnT (disposition a resolved_status c2 ''RECONCILED'')))))))"

definition record_lookup ::
    "(nat \<Rightarrow> string) \<Rightarrow> string \<Rightarrow> string \<Rightarrow> ProviderLookupResult \<Rightarrow> ('a recovery_db_scheme, ExecutionDisposition) tx" where
  "record_lookup uuids merchant_id action_id r =
     bindT (bindT (get_action merchant_id action_id)
       (requireT (LookupError ''tenant-scoped recovery action does not exist''))) (\<lambda>a.
     bindT (required_case a) (\<lambda>c.
     if rc_state c \<notin> {CaseState.UNKNOWN, VERIFYING}
     then returnT (disposition a (ao_status a) c ''STALE_LOOKUP'')
     else
       bindT (if rc_state c = VERIFYING \<and> unresolved_at_deadline a r
              then expire_verification uuids a r c else returnT c) (\<lambda>c1.
       bindT (the_action (action_key a)) (\<lambda>a1.
       if rc_state c1 = CaseState.UNKNOWN \<and> unresolved_at_deadline a1 r
       then escalate_unresolved uuids a1 r c1
       else if pl_status r = ActionStatus.UNKNOWN
       then returnT (disposition a1 (ao_status a1) c1
              (if rc_state c1 = CaseState.UNKNOWN then ''STILL_UNKNOWN'' else ''AWAITING_VERIFICATION''))
       else settle_lookup uuids a1 r c1))))"


section \<open>Signed evidence\<close>

text \<open>The action that a signed success is about: that of the payment link, or the latest of the subject.\<close>

definition credited_action :: "RevenueRiskEvent \<Rightarrow> ('a recovery_db_scheme, ActionRow option) tx" where
  "credited_action e =
     (case ev_payment_link_id e of
        Some p \<Rightarrow> find_action_for_provider_object (ev_merchant_id e) p RECOVERY_CREDIT_ACTIONS
      | None \<Rightarrow>
          (case or_else (ev_subscription_id e) (ev_payment_id e) of
             Some subject_id \<Rightarrow> find_latest_action_for_target (ev_merchant_id e) subject_id RECOVERY_CREDIT_ACTIONS
           | None \<Rightarrow> returnT None))"

definition stop_on_mismatch ::
    "(nat \<Rightarrow> string) \<Rightarrow> ActionRow \<Rightarrow> RevenueRiskEvent \<Rightarrow> TransitionExtras \<Rightarrow> RecoveryCase \<Rightarrow>
     ('a recovery_db_scheme, ExecutionDisposition) tx" where
  "stop_on_mismatch uuids a e x c =
     bindT (if rc_state c = CaseState.UNKNOWN
            then execution_transition uuids a VERIFYING ''SIGNED_EVIDENCE_RECEIVED'' (ev_received_at e) x c
            else returnT c) (\<lambda>c1.
     bindT (execution_transition uuids a STOPPED ''RECOVERY_AMOUNT_MISMATCH'' (ev_received_at e)
              (x\<lparr>te_terminal_reason := Some ''RECOVERY_AMOUNT_MISMATCH''\<rparr>) c1) (\<lambda>c2.
     returnT (disposition a FAILED c2 ''AMOUNT_MISMATCH'')))"

definition signed_observation :: "RevenueRiskEvent \<Rightarrow> string \<Rightarrow> Observation" where
  "signed_observation e evidence_reference =
     \<lparr>ob_status = ActionStatus.SUCCEEDED, ob_source = SIGNED_WEBHOOK, ob_observed_at = ev_occurred_at e,
      ob_evidence_reference = Some evidence_reference, ob_reason_code = Some ''PAYMENT_LINK_PAID'',
      ob_authoritative = True, ob_recovered_amount_minor = ev_amount_minor e,
      ob_verified_at = Some (ev_received_at e)\<rparr>"

definition credit_recovery ::
    "(nat \<Rightarrow> string) \<Rightarrow> ActionRow \<Rightarrow> RevenueRiskEvent \<Rightarrow> string \<Rightarrow> TransitionExtras \<Rightarrow> RecoveryCase \<Rightarrow>
     ('a recovery_db_scheme, ExecutionDisposition) tx" where
  "credit_recovery uuids a e evidence_reference x c =
     seqT (set_action_resolution (action_key a) ActionStatus.SUCCEEDED (ev_received_at e) (ev_payment_link_id e) None)
     (bindT (if rc_state c = CaseState.UNKNOWN
             then execution_transition uuids a VERIFYING ''SIGNED_EVIDENCE_RECEIVED'' (ev_received_at e) x c
             else returnT c) (\<lambda>c1.
      if rc_state c1 \<noteq> VERIFYING
      then returnT (disposition a ActionStatus.SUCCEEDED c1 ''STALE_EVIDENCE'')
      else
        seqT (store_observation uuids (action_key a) (signed_observation e evidence_reference))
        (bindT (execution_transition uuids a RECOVERED ''PAYMENT_LINK_PAID'' (ev_received_at e)
                  (x\<lparr>te_terminal_reason := Some ''PAYMENT_LINK_PAID''\<rparr>) c1) (\<lambda>c2.
         returnT (disposition a ActionStatus.SUCCEEDED c2 ''RECOVERED'')))))"

definition verify_signed_event ::
    "(nat \<Rightarrow> string) \<Rightarrow> RevenueRiskEvent \<Rightarrow> string \<Rightarrow> ('a recovery_db_scheme, ExecutionDisposition option) tx" where
  "verify_signed_event uuids e webhook_event_id =
     (if ev_event_type e \<notin> set SIGNED_SUCCESS_EVENTS then returnT None
      else bindT (credited_action e) (\<lambda>found.
        case found of
          None \<Rightarrow> returnT None
        | Some a \<Rightarrow>
            bindT (required_case a) (\<lambda>c.
            if rc_state c = RECOVERED
            then returnT (Some (disposition a ActionStatus.SUCCEEDED c ''ALREADY_VERIFIED''))
            else
              (let evidence_reference = ''webhook_events/'' @ webhook_event_id;
                   x = no_extras\<lparr>te_authoritative_evidence_reference := Some evidence_reference\<rparr> in
               bindT (liftR (int_item (ao_parameters a) ''amount_minor'')) (\<lambda>expected_amount.
               bindT (liftR (str_item (ao_parameters a) ''currency'')) (\<lambda>expected_currency.
               if ev_amount_minor e \<noteq> expected_amount \<or> ev_currency e \<noteq> expected_currency
               then bindT (stop_on_mismatch uuids a e x c) (\<lambda>d. returnT (Some d))
               else bindT (credit_recovery uuids a e evidence_reference x c) (\<lambda>d. returnT (Some d))))))))"

end
