(* ===== verification/Execution_Theorems.thy ===== *)
theory Execution_Theorems
  imports Execution Outbox_Invariant Frames
begin

text \<open>
  What the execution service guarantees. Every one of its operations keeps the invariant of the
  outbox, the case store and the ledger together; the money it books is the money that was
  authorised; a provider attempt starts only on a fresh \<open>PROCEED\<close> of the policy.
\<close>


section \<open>Actions keep their terms\<close>

text \<open>No operation changes the parameters of a stored action or removes it.\<close>

definition same_terms :: "'a action_db_scheme \<Rightarrow> 'a action_db_scheme \<Rightarrow> bool" where
  "same_terms s s' \<longleftrightarrow> (\<forall>k a. stored_action s k = Some a \<longrightarrow>
     (\<exists>b. stored_action s' k = Some b \<and> ao_parameters b = ao_parameters a))"

lemma same_terms_same: "db_actions s' = db_actions s \<Longrightarrow> same_terms s s'"
  by (simp add: same_terms_def stored_action_def)

lemma same_terms_append: "db_actions s' = db_actions s @ xs \<Longrightarrow> same_terms s s'"
  by (auto simp: same_terms_def stored_action_def dest: find_append_Some)

lemma same_terms_update:
  assumes "keeps_identity f" "\<And>a. ao_parameters (f a) = ao_parameters a"
  shows "same_terms s (s\<lparr>db_actions := update_where (\<lambda>r. action_key r = k) f (db_actions s)\<rparr>)"
  using assms(2) by (auto simp: same_terms_def stored_action_update [OF assms(1)])

lemma terms_updates [simp]:
  "ao_parameters (released_action q a) = ao_parameters a"
  "ao_parameters (retried_action q a) = ao_parameters a"
  "ao_parameters (settled_action q a) = ao_parameters a"
  "ao_parameters (lost_action t d a) = ao_parameters a"
  "ao_parameters (resolved_action st t p e a) = ao_parameters a"
  "ao_parameters (expired_action t a) = ao_parameters a"
  "ao_parameters (cancelled_action t reason a) = ao_parameters a"
  "ao_parameters (leased_action t dur token a) = ao_parameters a"
  "ao_parameters (started_action t a) = ao_parameters a"
  "ao_parameters (escalated_action t a) = ao_parameters a"
  by (simp_all add: leased_action_def expired_action_def cancelled_action_def started_action_def
      released_action_def retried_action_def settled_action_def lost_action_def resolved_action_def
      escalated_action_def Let_def)

lemma keeps_identity_escalated [simp]: "keeps_identity (escalated_action t)"
  by (simp add: keeps_identity_def escalated_action_def)

definition unbooked :: "'a action_db_scheme \<Rightarrow> 'a action_db_scheme \<Rightarrow> bool" where
  "unbooked s s' \<longleftrightarrow> same_terms s s' \<and> db_outcomes s' = db_outcomes s"

interpretation unbooked: step_order unbooked
  by unfold_locales (fastforce simp: unbooked_def same_terms_def)+

lemma unbooked_updates:
  "unbooked s (s\<lparr>db_cases := cs\<rparr>)" "unbooked s (s\<lparr>db_transitions := ts\<rparr>)"
  "unbooked s (s\<lparr>db_attempts := as\<rparr>)" "unbooked s (s\<lparr>db_actions := db_actions s @ xs\<rparr>)"
  "unbooked s s"
  by (auto simp: unbooked_def intro: same_terms_same same_terms_append)

lemma append_entry_unbooked: "unbooked.stays (append_entry uuids r)"
proof (rule unbooked.staysI)
  fix s s' :: "'a action_db_scheme" and e
  assume "append_entry uuids r s = Inr (e, s')"
  from append_entry_frame [OF this] show "unbooked s s'"
    by (auto simp: unbooked_def intro: same_terms_same)
qed

lemma draw_uuid_unbooked: "unbooked.stays (draw_uuid uuids)"
  unfolding draw_uuid_def
  by (intro unbooked.stays_intros unbooked.stays_modifyT) (simp add: unbooked_def same_terms_same)

lemma update_action_unbooked:
  "keeps_identity f \<Longrightarrow> (\<And>a. ao_parameters (f a) = ao_parameters a) \<Longrightarrow> unbooked.stays (update_action k f)"
  unfolding update_action_def
  by (rule unbooked.stays_modifyT) (simp add: unbooked_def same_terms_update)

lemma flush_unbooked: "unbooked.stays flush_actions" "unbooked.stays flush_attempts"
  unfolding flush_actions_def flush_attempts_def by (rule unbooked.stays_pure)+

lemma small_unbooked:
  "unbooked.stays (get_action m a)" "unbooked.stays (the_action k)" "unbooked.stays (get_case m c)"
  unfolding get_action_def the_action_def get_case_def by (intro unbooked.stays_intros)+

lemmas unbooked_intros = unbooked.stays_intros append_entry_unbooked draw_uuid_unbooked
  update_action_unbooked flush_unbooked small_unbooked

lemma update_attempt_unbooked: "unbooked.stays (update_attempt i f)"
  unfolding update_attempt_def by (rule unbooked.stays_modifyT) (rule unbooked_updates)

lemma outbox_unbooked:
  "unbooked.stays (cancel_before_execution k t reason)"
  "unbooked.stays (mark_verification_expired_unknown k t)"
  "unbooked.stays (set_action_resolution k st t p e)"
  "unbooked.stays (mark_stale_inflight_unknown k t d)"
  "unbooked.stays (begin_attempt uuids m i token t)"
  "unbooked.stays (finish_attempt uuids m i token q)"
  "unbooked.stays (claim_due_actions uuids t dur limit)"
  unfolding cancel_before_execution_def mark_verification_expired_unknown_def set_action_resolution_def
    mark_stale_inflight_unknown_def begin_attempt_def finish_attempt_def claim_due_actions_def claim_one_def
  by (intro unbooked_intros update_attempt_unbooked unbooked.stays_modifyT unbooked_updates; simp)+

lemma cases_unbooked:
  "unbooked.stays (apply_transition uuids u t ev)"
  "unbooked.stays (record_execution_attempt_counters c i j now)"
  unfolding apply_transition_def record_execution_attempt_counters_def Let_def
  by (intro unbooked_intros unbooked.stays_modifyT unbooked_updates)+

section \<open>The books\<close>

text \<open>An outcome that moves money moves the amount and currency that its action was authorised for.\<close>

definition funded :: "'a action_db_scheme \<Rightarrow> VerifiedOutcome \<Rightarrow> bool" where
  "funded s v \<longleftrightarrow> vo_recovered_amount_minor v = 0
     \<or> (\<exists>a. stored_action s (vo_merchant_id v, vo_action_id v) = Some a
          \<and> int_item (ao_parameters a) ''amount_minor'' = Inr (vo_recovered_amount_minor v)
          \<and> str_item (ao_parameters a) ''currency'' = Inr (vo_currency v))"

lemma funded_mono: "same_terms s s' \<Longrightarrow> funded s v \<Longrightarrow> funded s' v"
  unfolding funded_def same_terms_def by metis

text \<open>
  A step of the books under what is known of the state: the outbox invariant holds on, and
  every outcome it adds is funded.
\<close>

definition fund_step :: "('a action_db_scheme \<Rightarrow> bool) \<Rightarrow> 'a action_db_scheme \<Rightarrow> 'a action_db_scheme \<Rightarrow> bool" where
  "fund_step K s s' \<longleftrightarrow> (outbox_ok s \<and> K s \<longrightarrow>
     outbox_ok s' \<and> K s' \<and> grows s s' \<and> same_terms s s'
     \<and> (\<forall>v\<in>set (db_outcomes s'). v \<in> set (db_outcomes s) \<or> funded s' v))"

lemma same_terms_trans: "same_terms s t \<Longrightarrow> same_terms t u \<Longrightarrow> same_terms s u"
  by (fastforce simp: same_terms_def)

interpretation funds: step_order "fund_step K" for K
proof
  fix s t u :: "'a action_db_scheme"
  show "fund_step K s s" by (simp add: fund_step_def same_terms_same)
  assume st: "fund_step K s t" and tu: "fund_step K t u"
  show "fund_step K s u"
    unfolding fund_step_def
  proof (intro impI conjI ballI)
    assume "outbox_ok s \<and> K s"
    with st have s: "outbox_ok t" "K t" "grows s t" "same_terms s t"
      "\<forall>v\<in>set (db_outcomes t). v \<in> set (db_outcomes s) \<or> funded t v" by (auto simp: fund_step_def)
    with tu have t: "outbox_ok u" "K u" "grows t u" "same_terms t u"
      "\<forall>v\<in>set (db_outcomes u). v \<in> set (db_outcomes t) \<or> funded u v" by (auto simp: fund_step_def)
    show "outbox_ok u" "K u" by (fact t)+
    show "grows s u" by (rule grows_trans [OF s(3) t(3)])
    show "same_terms s u" by (rule same_terms_trans [OF s(4) t(4)])
    fix v assume "v \<in> set (db_outcomes u)"
    with s(5) t(5) funded_mono [OF t(4)] show "v \<in> set (db_outcomes s) \<or> funded u v" by blast
  qed
qed

text \<open>What stays known: a fact about the parameters of actions.\<close>

definition lasting :: "('a action_db_scheme \<Rightarrow> bool) \<Rightarrow> bool" where
  "lasting K \<longleftrightarrow> (\<forall>s s'. same_terms s s' \<longrightarrow> K s \<longrightarrow> K s')"

definition knows :: "string \<times> string \<Rightarrow> (string \<times> pyval) list \<Rightarrow> 'a action_db_scheme \<Rightarrow> bool" where
  "knows k ps s \<longleftrightarrow> (\<exists>a. stored_action s k = Some a \<and> ao_parameters a = ps)"

lemma lasting_knows [simp]: "lasting (knows k ps)" "lasting (\<lambda>_. True)"
proof -
  show "lasting (knows k ps)"
    unfolding lasting_def knows_def same_terms_def by (metis (no_types, lifting))
qed (simp add: lasting_def)

lemma funds_unbooked: "lasting K \<Longrightarrow> keeps m \<Longrightarrow> unbooked.stays m \<Longrightarrow> funds.stays K m"
  unfolding step_order.stays_def [OF funds.step_order_axioms] step_order.stays_def [OF unbooked.step_order_axioms]
    fund_step_def unbooked_def keeps_def lasting_def
  by (metis (no_types, lifting))

lemma keeps_of_case_tables:
  assumes "\<And>s x s'. m s = Inr (x, s') \<Longrightarrow> consistent s \<Longrightarrow> consistent s'"
    and "\<And>s x s'. m s = Inr (x, s') \<Longrightarrow> db_actions s' = db_actions s \<and> db_attempts s' = db_attempts s
           \<and> db_outcomes s' = db_outcomes s"
  shows "keeps m"
proof (rule keepsI)
  fix s x s'
  assume ok: "outbox_ok s" and r: "m s = Inr (x, s')"
  note T = assms(2) [OF r]
  have "consistent s'" using assms(1) [OF r] ok by (simp add: outbox_ok_def outbox_core_def)
  with ok T show "outbox_ok s' \<and> grows s s'"
    by (simp add: grows_same outbox_ok_def outbox_core_def attempts_inv_def stored_action_def open_attempts_def)
qed

text \<open>The other tables that the outbox does not read.\<close>

definition outbox_tables :: "'a action_db_scheme \<Rightarrow> 'a action_db_scheme \<Rightarrow> bool" where
  "outbox_tables s s' \<longleftrightarrow> db_actions s' = db_actions s \<and> db_attempts s' = db_attempts s
     \<and> db_outcomes s' = db_outcomes s"

interpretation outbox_tables: step_order outbox_tables
  by unfold_locales (auto simp: outbox_tables_def)

lemma append_entry_outbox_tables: "outbox_tables.stays (append_entry uuids r)"
proof (rule outbox_tables.staysI)
  fix s s' :: "'a action_db_scheme" and e
  assume "append_entry uuids r s = Inr (e, s')"
  from append_entry_frame [OF this] show "outbox_tables s s'" by (auto simp: outbox_tables_def)
qed

lemma case_operations_outbox_tables:
  "outbox_tables.stays (apply_transition uuids u t ev)"
  "outbox_tables.stays (record_execution_attempt_counters c i j now)"
  unfolding apply_transition_def record_execution_attempt_counters_def Let_def
  by (intro outbox_tables.stays_intros outbox_tables.stays_modifyT append_entry_outbox_tables;
      simp add: outbox_tables_def)+

lemma keeps_execution_transition: "keeps (execution_transition uuids a st reason now x c)"
proof (rule keeps_of_case_tables)
  fix s y s'
  assume r: "execution_transition uuids a st reason now x c s = Inr (y, s')"
  then obtain v t w where t: "transition_case c (execution_request c a st reason now x) = Inr (v, t)"
    and ap: "apply_transition uuids v t None s = Inr (w, s')"
    by (auto simp: execution_transition_def result_simps split: prod.splits)
  show "db_actions s' = db_actions s \<and> db_attempts s' = db_attempts s \<and> db_outcomes s' = db_outcomes s"
    using outbox_tables.staysD [OF case_operations_outbox_tables(1) ap] by (simp add: outbox_tables_def)
  show "consistent s'" if "consistent s"
    using that preservesD [OF apply_transition_preserves _ ap] apply_transition_history [OF ap _ _ t]
    by (simp add: consistent_def same_lifecycle_def)
qed

lemma execution_transition_unbooked: "unbooked.stays (execution_transition uuids a st reason now x c)"
  unfolding execution_transition_def by (intro unbooked_intros cases_unbooked)

lemma keeps_counters: "keeps (record_execution_attempt_counters c i j now)"
proof (rule keeps_of_case_tables)
  fix s s' :: "'a action_db_scheme" and y
  assume r: "record_execution_attempt_counters c i j now s = Inr (y, s')"
  show "consistent s'" if "consistent s" using that by (rule counters_consistent [OF r])
  show "db_actions s' = db_actions s \<and> db_attempts s' = db_attempts s \<and> db_outcomes s' = db_outcomes s"
    using outbox_tables.staysD [OF case_operations_outbox_tables(2) r] by (simp add: outbox_tables_def)
qed

lemma funds_case_operations:
  "lasting K \<Longrightarrow> funds.stays K (execution_transition uuids a st reason now x c)"
  "lasting K \<Longrightarrow> funds.stays K (record_execution_attempt_counters c i j now)"
  by (rule funds_unbooked, assumption, rule keeps_execution_transition keeps_counters,
      rule execution_transition_unbooked cases_unbooked)+

lemma funds_outbox_operations:
  assumes "lasting K"
  shows "funds.stays K (cancel_before_execution k t reason)"
    "funds.stays K (mark_verification_expired_unknown k t)"
    "funds.stays K (set_action_resolution k st t p e)"
    "funds.stays K (mark_stale_inflight_unknown k t d)"
    "funds.stays K (begin_attempt uuids m i token t)"
    "funds.stays K (finish_attempt uuids m i token q)"
    "funds.stays K (claim_due_actions uuids t dur limit)"
  using assms
  by (auto intro!: funds_unbooked outbox_unbooked keeps_cancel keeps_verification_expired keeps_resolution
      keeps_mark_stale keeps_begin keeps_finish keeps_claim)

text \<open>Steps on tables that neither the outbox nor the books read.\<close>

lemma fund_step_other:
  assumes "lasting K" "db_cases s' = db_cases s" "db_transitions s' = db_transitions s"
    "db_audit_entries s' = db_audit_entries s" "db_audit_heads s' = db_audit_heads s"
    "db_actions s' = db_actions s" "db_attempts s' = db_attempts s" "db_outcomes s' = db_outcomes s"
  shows "fund_step K s s'"
proof -
  have "consistent s' = consistent s"
    using assms(2-5) by (simp add: consistent_def store_ok_def history_ok_def case_log_def ledger_ok_def own_entries_def)
  with assms show ?thesis
    using same_terms_same [of s' s]
    by (auto simp: fund_step_def lasting_def grows_same outbox_ok_def outbox_core_def attempts_inv_def
        stored_action_def open_attempts_def)
qed

lemma funds_append_entry: "lasting K \<Longrightarrow> funds.stays K (append_entry uuids r)"
proof (rule funds_unbooked, assumption)
  show "keeps (append_entry uuids r)"
    by (rule keepsI) (use append_entry_outbox grows_same in blast)
qed (rule append_entry_unbooked)

lemma funds_flush:
  "funds.stays K flush_actions" "funds.stays K flush_reviews"
  unfolding flush_actions_def flush_reviews_def by (rule funds.stays_pure)+

lemma funds_store_review: "lasting K \<Longrightarrow> funds.stays K (store_review uuids r)"
  unfolding store_review_def
  by (intro funds.stays_intros funds.stays_modifyT funds_append_entry funds_flush fund_step_other; simp)

lemma consistent_active_incident:
  assumes "cases_ok (update_where p (\<lambda>r. r\<lparr>cw_case := (cw_case r)\<lparr>rc_active_incident_id := i\<rparr>\<rparr>) (db_cases s))"
    and "consistent s"
  shows "consistent (s\<lparr>db_cases := update_where p (\<lambda>r. r\<lparr>cw_case := (cw_case r)\<lparr>rc_active_incident_id := i\<rparr>\<rparr>) (db_cases s)\<rparr>)"
    (is "consistent ?t")
proof -
  have "only_counters (db_cases s) (db_cases ?t)" by (simp add: only_counters_def update_where_def)
  from only_counters_history [OF this] assms show ?thesis by (simp add: consistent_def store_ok_def)
qed

lemma insert_links:
  "mapT (\<lambda>i. insert_link (f i)) ins s = Inr (xs, t) \<Longrightarrow> \<exists>ls. t = s\<lparr>db_incident_links := ls\<rparr>"
proof (induction "ins" arbitrary: s xs)
  case Nil
  then show ?case by (auto simp: result_simps intro!: exI [of _ "db_incident_links s"])
next
  case (Cons i ins)
  then obtain u ys where "insert_link (f i) s = Inr ((), u)" "mapT (\<lambda>i. insert_link (f i)) ins u = Inr (ys, t)"
    by (auto simp: result_simps)
  then have t: "mapT (\<lambda>i. insert_link (f i)) ins u = Inr (ys, t)"
    and "u = s\<lparr>db_incident_links := db_incident_links u\<rparr>"
    by (auto simp: insert_link_def result_simps split: if_splits)
  then obtain ls where u: "u = s\<lparr>db_incident_links := ls\<rparr>" by blast
  from Cons.IH [OF t] show ?case by (auto simp: u)
qed

lemma funds_attach_incidents: "lasting K \<Longrightarrow> funds.stays K (attach_incidents m now c ins)"
proof (rule funds.staysI)
  fix s s' :: "'a recovery_db_scheme" and x
  assume K: "lasting K" and r: "attach_incidents m now c ins s = Inr (x, s')"
  then obtain t xs where links: "mapT (\<lambda>i. insert_link (incident_link now c i)) ins s = Inr (xs, t)"
    and rest: "(if ins = [] then returnT () else seqT (set_active_incident m c (hd (sort (map in_id ins))))
       (checkT (\<lambda>s. cases_ok (db_cases s)) ''recovery_cases'')) t = Inr (x, s')"
    by (auto simp: attach_incidents_def result_simps)
  from insert_links [OF links] obtain ls where t: "t = s\<lparr>db_incident_links := ls\<rparr>" by blast
  have st: "fund_step K s t" by (rule fund_step_other) (use K in \<open>simp_all add: t\<close>)
  show "fund_step K s s'"
  proof (cases "ins = []")
    case True
    with rest st show ?thesis by (simp add: result_simps)
  next
    case False
    have kp: "keeps (seqT (set_active_incident m c i) (checkT (\<lambda>s. cases_ok (db_cases s)) ''recovery_cases''))" for i
      by (rule keeps_of_case_tables)
        (auto simp: set_active_incident_def result_simps consistent_active_incident)
    have up: "unbooked.stays (seqT (set_active_incident m c i) (checkT (\<lambda>s. cases_ok (db_cases s)) ''recovery_cases''))" for i
      unfolding set_active_incident_def
      by (intro unbooked_intros unbooked.stays_modifyT unbooked_updates)
    from rest False have "seqT (set_active_incident m c (hd (sort (map in_id ins))))
       (checkT (\<lambda>s. cases_ok (db_cases s)) ''recovery_cases'') t = Inr (x, s')" by simp
    then have "fund_step K t s'" by (rule funds.staysD [OF funds_unbooked [OF K kp up]])
    with st show ?thesis by (rule funds.step_trans)
  qed
qed

text \<open>An observation books nothing, or what the known parameters of its action say.\<close>

lemma observed_outcome_valid:
  "post_init_outcome (observed_outcome a b cur) = Inr v \<Longrightarrow> v = observed_outcome a b cur"
  by (auto simp: post_init_outcome_def result_simps)

lemma observed_outcome_fields:
  "vo_recovered_amount_minor (observed_outcome a b cur) = ob_recovered_amount_minor b"
  "vo_currency (observed_outcome a b cur) = cur"
  "vo_merchant_id (observed_outcome a b cur) = ao_merchant_id a"
  "vo_action_id (observed_outcome a b cur) = ao_id a"
  by (simp_all add: observed_outcome_def Let_def)

lemma store_outcome_tables:
  assumes "store_outcome uuids v s = Inr (w, s')"
  shows "same_terms s s'" "set (db_outcomes s') \<subseteq> insert v (set (db_outcomes s))"
proof -
  have "db_actions s' = db_actions s \<and> (db_outcomes s' = db_outcomes s \<or> db_outcomes s' = db_outcomes s @ [v])"
  proof (cases "find (\<lambda>w. (vo_merchant_id w, vo_outcome_id w) = (vo_merchant_id v, vo_outcome_id v)) (db_outcomes s)")
    case (Some w)
    with assms show ?thesis by (auto simp: store_outcome_def result_simps)
  next
    case None
    with assms obtain a e where "append_entry uuids (outcome_append a v) (s\<lparr>db_outcomes := db_outcomes s @ [v]\<rparr>) = Inr (e, s')"
      by (auto simp: store_outcome_def result_simps get_action_def)
    from append_entry_frame [OF this] show ?thesis by auto
  qed
  then show "same_terms s s'" "set (db_outcomes s') \<subseteq> insert v (set (db_outcomes s))"
    by (auto intro: same_terms_same)
qed

lemma funds_store_observation:
  assumes "lasting K"
    and "ob_recovered_amount_minor b = 0
      \<or> (\<forall>s a. K s \<longrightarrow> stored_action s k = Some a \<longrightarrow>
           int_item (ao_parameters a) ''amount_minor'' = Inr (ob_recovered_amount_minor b))"
  shows "funds.stays K (store_observation uuids k b)"
proof (rule funds.staysI)
  fix s s' :: "'a recovery_db_scheme" and x
  assume "store_observation uuids k b s = Inr (x, s')"
  then obtain a cur v w where a: "stored_action s k = Some a" and cur: "str_item (ao_parameters a) ''currency'' = Inr cur"
    and v: "post_init_outcome (observed_outcome a b cur) = Inr v" and st: "store_outcome uuids v s = Inr (w, s')"
    by (auto simp: store_observation_def the_action_def result_simps)
  note v = observed_outcome_valid [OF v] and T = store_outcome_tables [OF st]
  have k: "action_key a = k" by (rule stored_action_key [OF a])
  show "fund_step K s s'"
    unfolding fund_step_def
  proof (intro impI conjI ballI)
    assume ok: "outbox_ok s \<and> K s"
    with keepsD [OF keeps_store_outcome _ st] show "outbox_ok s'" "grows s s'" by auto
    show "K s'" using assms(1) ok T(1) by (auto simp: lasting_def)
    show "same_terms s s'" by (rule T(1))
    fix u assume "u \<in> set (db_outcomes s')"
    moreover have "funded s v"
      using assms(2) ok a cur k by (auto simp: funded_def v observed_outcome_fields)
    ultimately show "u \<in> set (db_outcomes s) \<or> funded s' u"
      using T funded_mono [OF T(1)] by auto
  qed
qed

section \<open>The operations of the service\<close>

lemma funds_reads:
  "funds.stays K (get_action m a)" "funds.stays K (the_action k)" "funds.stays K (get_case m c)"
  "funds.stays K (required_case r)" "funds.stays K (get_review m i)" "funds.stays K (get_decision_receipt m i)"
  "funds.stays K (effective_policy zones m t)" "funds.stays K (consent_facts m cu)"
  "funds.stays K (authoritative_facts_for_case m c')" "funds.stays K (contact_facts r c')"
  "funds.stays K (domain_action m a)" "funds.stays K (credited_action e)"
  "funds.stays K (stale_inflight_actions t n)"
  unfolding get_action_def the_action_def get_case_def required_case_def get_review_def get_decision_receipt_def
    effective_policy_def consent_facts_def authoritative_facts_for_case_def contact_facts_def domain_action_def
    credited_action_def payment_facts_def subscription_facts_def invoice_facts_def customer_contact_snapshot_def
    find_action_for_provider_object_def find_latest_action_for_target_def stale_inflight_actions_def
  by (intro funds.stays_intros | cases "rc_subject_type c'", simp_all)+

lemma funds_active_incidents: "lasting K \<Longrightarrow> funds.stays K (active_incidents m t c d)"
  unfolding active_incidents_def by (intro funds.stays_intros funds_attach_incidents)

lemmas funds_steps = funds.stays_intros funds_reads funds_active_incidents funds_outbox_operations
  funds_case_operations funds_store_review funds_flush

lemma funds_final_policy: "lasting K \<Longrightarrow> funds.stays K (final_policy_decision zones a c t)"
  unfolding final_policy_decision_def by (intro funds_steps)

lemma funds_block_execution: "lasting K \<Longrightarrow> funds.stays K (block_execution uuids a check t c)"
  unfolding block_execution_def after_reevaluation_def by (intro funds_steps)

lemma funds_start_execution: "lasting K \<Longrightarrow> funds.stays K (start_execution uuids a token t c)"
  unfolding start_execution_def by (intro funds_steps)

lemma funds_prepare_execution: "lasting K \<Longrightarrow> funds.stays K (prepare_execution zones uuids m a token t)"
  unfolding prepare_execution_def
  by (intro funds_steps funds_final_policy funds_block_execution funds_start_execution)

lemma funds_quiet_observation:
  "lasting K \<Longrightarrow> ob_recovered_amount_minor b = 0 \<Longrightarrow> funds.stays K (store_observation uuids k b)"
  by (rule funds_store_observation) simp_all

lemma funds_record_execution_result: "lasting K \<Longrightarrow> funds.stays K (record_execution_result settings uuids m a token r)"
  unfolding record_execution_result_def settle_result_def
  by (intro funds_steps funds_quiet_observation) (simp_all add: result_observation_def)

lemma funds_mark_stale: "lasting K \<Longrightarrow> funds.stays K (mark_stale_calls_unknown settings uuids t n)"
  unfolding mark_stale_calls_unknown_def mark_stale_call_def
  by (intro funds_steps funds_quiet_observation) (simp_all add: lost_observation_def)

text \<open>
  The two operations that book money. What the stored row of the action says about its amount
  stays known until the observation is stored.
\<close>

lemma funds_bindT_result:
  "funds.stays K m \<Longrightarrow> (\<And>x s s'. m s = Inr (x, s') \<Longrightarrow> funds.stays K (f x)) \<Longrightarrow> funds.stays K (bindT m f)"
  unfolding step_order.stays_def [OF funds.step_order_axioms] bindT_eq_Inr
  by (blast intro: funds.step_trans)

lemma funds_knowing:
  assumes "\<And>s x s'. m s = Inr (x, s') \<Longrightarrow> outbox_ok s \<Longrightarrow> s' = s \<and> (\<forall>a. key x = Some a \<longrightarrow> stored_action s (action_key a) = Some a)"
    and "\<And>x. key x = None \<Longrightarrow> funds.stays (\<lambda>_. True) (f x)"
    and "\<And>x a. key x = Some a \<Longrightarrow> funds.stays (knows (action_key a) (ao_parameters a)) (f x)"
  shows "funds.stays (\<lambda>_. True) (bindT m f)"
proof (rule funds.staysI)
  fix s y s'
  assume "bindT m f s = Inr (y, s')"
  then obtain x t where x: "m s = Inr (x, t)" "f x t = Inr (y, s')" by (auto simp: result_simps)
  show "fund_step (\<lambda>_. True) s s'"
  proof (cases "outbox_ok s")
    case True
    note t = assms(1) [OF x(1) True]
    show ?thesis
    proof (cases "key x")
      case None
      with funds.staysD [OF assms(2) [OF None] x(2)] t show ?thesis by simp
    next
      case (Some a)
      with t have "knows (action_key a) (ao_parameters a) s" by (simp add: knows_def)
      with funds.staysD [OF assms(3) [OF Some] x(2)] t show ?thesis by (auto simp: fund_step_def)
    qed
  qed (simp add: fund_step_def)
qed

lemma knows_item:
  "knows k ps s \<Longrightarrow> stored_action s k = Some a \<Longrightarrow> ao_parameters a = ps"
  by (simp add: knows_def)

lemma funds_lookup_observation:
  assumes "r \<noteq> 0 \<longrightarrow> int_item (ao_parameters a) ''amount_minor'' = Inr r"
  shows "funds.stays (knows (action_key a) (ao_parameters a))
    (store_observation uuids (action_key a) (lookup_observation l st reason b r))"
proof (rule funds_store_observation [OF lasting_knows(1)], cases "r = 0")
  case False
  then show "ob_recovered_amount_minor (lookup_observation l st reason b r) = 0 \<or>
    (\<forall>s a'. knows (action_key a) (ao_parameters a) s \<longrightarrow> stored_action s (action_key a) = Some a' \<longrightarrow>
      int_item (ao_parameters a') ''amount_minor'' = Inr (ob_recovered_amount_minor (lookup_observation l st reason b r)))"
    using assms by (auto simp: lookup_observation_def dest: knows_item)
qed (simp add: lookup_observation_def)

lemma funds_recovered_amount:
  assumes "\<And>n. b \<or> n = 0 \<Longrightarrow> (n \<noteq> 0 \<longrightarrow> int_item ps ''amount_minor'' = Inr n) \<Longrightarrow> funds.stays K (f n)"
  shows "funds.stays K (bindT (if b then liftR (int_item ps ''amount_minor'') else returnT 0) f)"
proof (rule funds_bindT_result)
  fix n s s'
  assume "(if b then liftR (int_item ps ''amount_minor'') else returnT 0) s = Inr (n, s')"
  then show "funds.stays K (f n)" by (intro assms) (auto simp: result_simps split: if_splits)
qed (intro funds.stays_intros)

lemma funds_settle_lookup: "funds.stays (knows (action_key a) (ao_parameters a)) (settle_lookup uuids a r c)"
  unfolding settle_lookup_def Let_def
  apply (rule funds.stays_seqT, intro funds.stays_if funds.stays_pure funds_outbox_operations lasting_knows)
  apply (rule funds.stays_bindT, intro funds.stays_if funds.stays_pure funds_case_operations lasting_knows)
  apply (rule funds_recovered_amount, rule funds.stays_seqT, erule funds_lookup_observation)
  apply (intro funds.stays_bindT funds.stays_pure funds.stays_if funds_case_operations lasting_knows)
  done

lemma action_row_ok_escalated [simp]: "action_row_ok (escalated_action t a) = action_row_ok a"
  by (simp add: action_row_ok_def escalated_action_def)

lemma actions_ok_escalated:
  "actions_ok (update_where p (escalated_action t) rows) = actions_ok rows"
proof -
  let ?f = "update_where p (escalated_action t)"
  have "map action_key (?f rows) = map action_key rows" "map ao_idempotency_key (?f rows) = map ao_idempotency_key rows"
    by (simp_all add: map_update_where_key escalated_action_def)
  moreover have "(\<forall>a\<in>set (?f rows). action_row_ok a) \<longleftrightarrow> (\<forall>a\<in>set rows. action_row_ok a)"
    by (induction rows) (simp_all add: update_where_def)
  moreover have "map active_equivalent (filter (\<lambda>a. ao_status a \<in> {PENDING, ActionStatus.SUCCEEDED, ActionStatus.UNKNOWN}) (?f rows))
      = map active_equivalent (filter (\<lambda>a. ao_status a \<in> {PENDING, ActionStatus.SUCCEEDED, ActionStatus.UNKNOWN}) rows)"
    by (induction rows) (simp_all add: escalated_action_def active_equivalent_def)
  ultimately show ?thesis by (simp add: actions_ok_def unique_index_def)
qed

lemma keeps_escalated: "keeps (update_action k (escalated_action t))"
proof (rule keepsI)
  fix s s' :: "'a action_db_scheme" and x
  assume ok: "outbox_ok s" and "update_action k (escalated_action t) s = Inr (x, s')"
  then have s': "s' = s\<lparr>db_actions := update_where (\<lambda>r. action_key r = k) (escalated_action t) (db_actions s)\<rparr>"
    by (simp add: update_action_def result_simps)
  show "outbox_ok s' \<and> grows s s'"
  proof (rule updated_action_ok [OF ok keeps_identity_escalated _ s'])
    show "actions_ok (db_actions s')" using ok by (simp add: s' actions_ok_escalated outbox_ok_def)
  qed (simp add: escalated_action_def)
qed

lemma funds_escalated: "lasting K \<Longrightarrow> funds.stays K (update_action k (escalated_action t))"
  by (rule funds_unbooked [OF _ keeps_escalated]) (simp_all add: update_action_unbooked)

lemma funds_record_lookup: "funds.stays (\<lambda>_. True) (record_lookup uuids m a r)"
proof -
  have read: "funds.stays (\<lambda>_. True) (bindT (the_action k) f)"
    if "\<And>a. funds.stays (knows (action_key a) (ao_parameters a)) (f a)" for k and f :: "ActionRow \<Rightarrow> ('a recovery_db_scheme, ExecutionDisposition) tx"
    by (rule funds_knowing [where key = Some]) (use that in \<open>auto simp: the_action_def result_simps dest: stored_action_key\<close>)
  show ?thesis
    unfolding record_lookup_def expire_verification_def escalate_unresolved_def
    by (intro read funds_steps funds_quiet_observation funds_settle_lookup funds_escalated lasting_knows)
      (simp_all add: lookup_observation_def)
qed

lemma credited_action_stored:
  assumes "credited_action e s = Inr (x, s')" "outbox_ok s"
  shows "s' = s \<and> (\<forall>a. x = Some a \<longrightarrow> stored_action s (action_key a) = Some a)"
proof -
  have "distinct (map action_key (db_actions s))" using assms(2) by (simp add: outbox_ok_def actions_ok_def)
  then have "stored_action s (action_key a) = Some a" if "a \<in> set (db_actions s)" for a
    using find_unique_key that by (fastforce simp: stored_action_def)
  moreover have "s' = s \<and> (\<forall>a. x = Some a \<longrightarrow> a \<in> set (db_actions s))"
    using assms(1)
    by (auto simp: credited_action_def find_action_for_provider_object_def find_latest_action_for_target_def
        result_simps filter_eq_Cons_iff dest!: arg_cong [where f = set] set_mp [OF set_take_subset]
        split: option.splits)
  ultimately show ?thesis by blast
qed

lemma funds_credit_recovery:
  assumes "int_item (ao_parameters a) ''amount_minor'' = Inr (ev_amount_minor e)"
  shows "funds.stays (knows (action_key a) (ao_parameters a)) (credit_recovery uuids a e ref x c)"
  unfolding credit_recovery_def
  by (intro funds_steps funds_store_observation lasting_knows)
    (use assms in \<open>auto simp: signed_observation_def dest!: knows_item\<close>)

lemma funds_stop_on_mismatch: "lasting K \<Longrightarrow> funds.stays K (stop_on_mismatch uuids a e x c)"
  unfolding stop_on_mismatch_def by (intro funds_steps)

lemma funds_credited:
  fixes f :: "ActionRow option \<Rightarrow> ('a recovery_db_scheme, 'b) tx"
  assumes "funds.stays (\<lambda>_. True) (f None)"
    and "\<And>a. funds.stays (knows (action_key a) (ao_parameters a)) (f (Some a))"
  shows "funds.stays (\<lambda>_. True) (bindT (credited_action e) f)"
  by (rule funds_knowing [where key = "\<lambda>x. x"], erule (1) credited_action_stored) (simp_all add: assms)

lemma funds_verify_signed_event: "funds.stays (\<lambda>_. True) (verify_signed_event uuids e w)"
  unfolding verify_signed_event_def Let_def
  apply (intro funds.stays_if funds.stays_pure funds_credited)
  apply (auto intro!: funds_steps funds_bindT_result funds_credit_recovery funds_stop_on_mismatch simp: result_simps)
  done

section \<open>An attempt starts only on a fresh decision to proceed\<close>

lemma post_init_policy_wf: "post_init_policy zones q = Inr p \<Longrightarrow> wf_policy zones p"
  by (auto simp: wf_policy_def post_init_policy_def bindR_eq_Inr utc_eq_Inr)

lemma post_init_candidate_wf: "post_init_candidate a = Inr b \<Longrightarrow> b = a \<and> wf_candidate a"
  by (auto simp: wf_candidate_def post_init_candidate_def bindR_eq_Inr)

lemma incident_constraint_wf: "incident_constraint i = Inr c \<Longrightarrow> post_init_incident c = Inr c"
  by (auto simp: incident_constraint_def post_init_incident_def bindR_eq_Inr utc_eq_Inr)

lemma policy_from_document_wf: "policy_from_document zones d = Inr p \<Longrightarrow> wf_policy zones p"
  by (auto simp: policy_from_document_def bindR_eq_Inr dest: post_init_policy_wf)

lemma effective_policy_wf: "effective_policy zones m t s = Inr (p, s') \<Longrightarrow> wf_policy zones p \<and> s' = s"
  by (auto simp: effective_policy_def result_simps split: option.splits dest: policy_from_document_wf)

lemma get_review_wf: "get_review m i s = Inr (r, s') \<Longrightarrow> s' = s \<and> (\<forall>x\<in>set_option r. wf_review x)"
  by (auto simp: get_review_def result_simps split: option.splits dest: post_init_review_Inr)

lemma active_incidents_wf:
  assumes "active_incidents m t c d s = Inr (cs, s')"
  shows "\<forall>i\<in>set cs. post_init_incident i = Inr i"
proof -
  from assms obtain rows where "mapR incident_constraint rows = Inr cs"
    by (auto simp: active_incidents_def result_simps)
  then show ?thesis
    by (induction rows arbitrary: cs) (auto simp: bindR_eq_Inr dest: incident_constraint_wf)
qed

lemma receipt_candidate_wf:
  "receipt_candidate a selected = Inr c \<Longrightarrow> wf_candidate c \<and> ca_action_type c = ao_action_type a"
  by (auto simp: receipt_candidate_def Let_def bindR_eq_Inr dest: post_init_candidate_wf)

lemma final_evaluation_fields [simp]:
  "pe_candidates (final_evaluation c t cs refs consent ins facts contact r) = cs"
  "pe_incidents (final_evaluation c t cs refs consent ins facts contact r) = ins"
  "pe_approval (final_evaluation c t cs refs consent ins facts contact r) = r"
  "pe_evaluated_at (final_evaluation c t cs refs consent ins facts contact r) = t"
  "pe_customer_contact_in_progress (final_evaluation c t cs refs consent ins facts contact r) = snd contact"
  "pe_contact_count (final_evaluation c t cs refs consent ins facts contact r) = fst contact"
  "pe_already_paid (final_evaluation c t cs refs consent ins facts contact r) \<longleftrightarrow>
     str_upper (or_default (af_status facts) []) \<in> {''CAPTURED'', ''CHARGED'', ''COMPLETED'', ''PAID''}"
  "pe_disputed (final_evaluation c t cs refs consent ins facts contact r) \<longleftrightarrow>
     str_upper (or_default (af_status facts) []) = ''DISPUTED''"
  "pe_cancelled (final_evaluation c t cs refs consent ins facts contact r) \<longleftrightarrow>
     str_upper (or_default (af_status facts) []) \<in> {''CANCELLED'', ''ESCALATED''}"
  by (simp_all add: final_evaluation_def Let_def)

lemma post_init_evaluation_wf:
  assumes "post_init_evaluation e = Inr e'"
    and "\<forall>a\<in>set (pe_candidates e). wf_candidate a" "\<forall>i\<in>set (pe_incidents e). post_init_incident i = Inr i"
    and "\<forall>r\<in>set_option (pe_approval e). wf_review r"
  shows "e' = e \<and> wf_evaluation e"
  using assms
  by (auto simp: wf_evaluation_def post_init_evaluation_def bindR_eq_Inr utc_eq_Inr utc_opt_eq_Inr)

text \<open>
  What the policy was asked, and on which facts: the policy and the consent of the state before,
  the authoritative facts and contacts once the incidents that concern the case are linked.
\<close>

definition asked :: "(string \<Rightarrow> zone option) \<Rightarrow> ActionRow \<Rightarrow> RecoveryCase \<Rightarrow> datetime \<Rightarrow>
    'a recovery_db_scheme \<Rightarrow> 'a recovery_db_scheme \<Rightarrow> MerchantPolicySnapshot \<Rightarrow> PolicyEvaluationInput \<Rightarrow> bool" where
  "asked zones a c t s s' policy e \<longleftrightarrow>
     (\<exists>candidate refs consent ins facts contact approval.
        e = final_evaluation c t [candidate, no_action_candidate (ao_target_id a)] refs consent ins facts contact approval
        \<and> effective_policy zones (ao_merchant_id a) t s = Inr (policy, s)
        \<and> consent_facts (ao_merchant_id a) (rc_customer_id c) s = Inr (consent, s)
        \<and> active_incidents (ao_merchant_id a) t (Some (rc_case_id c)) (rc_diagnosis c) s = Inr (ins, s')
        \<and> authoritative_facts_for_case (ao_merchant_id a) c s' = Inr (facts, s')
        \<and> contact_facts a c s' = Inr (contact, s'))"

text \<open>Reads leave the state alone.\<close>

interpretation reads: step_order "\<lambda>s s' :: 'a recovery_db_scheme. s' = s"
  by unfold_locales simp_all

lemma fact_reads:
  "reads.stays (consent_facts m cu)" "reads.stays (authoritative_facts_for_case m c)"
  "reads.stays (contact_facts a c)" "reads.stays (get_decision_receipt m i)"
  unfolding consent_facts_def authoritative_facts_for_case_def contact_facts_def get_decision_receipt_def
    payment_facts_def subscription_facts_def invoice_facts_def customer_contact_snapshot_def
  by (intro reads.stays_intros | cases "rc_subject_type c", simp_all)+

lemma final_policy_decision_Inr:
  assumes "final_policy_decision zones a c t s = Inr (check, s')"
  shows "\<exists>policy e. asked zones a c t s s' policy e \<and> wf_policy zones policy \<and> wf_evaluation e
    \<and> (\<forall>x\<in>set (pe_candidates e). ca_action_type x \<in> {ao_action_type a, ActionType.NO_ACTION})
    \<and> evaluate_policy zones policy e = Inr (fp_decision check)"
proof -
  from assms obtain receipt s0 selected cand no policy consent ins facts contact approval e d s1 s2 s3 s4 s5 s6 where
    r: "receipt_candidate a selected = Inr cand" "post_init_candidate (no_action_candidate (ao_target_id a)) = Inr no"
      "get_decision_receipt (ao_merchant_id a) (ao_decision_receipt_id a) s = Inr (Some receipt, s0)"
    and q: "effective_policy zones (ao_merchant_id a) t s0 = Inr (policy, s1)"
      "consent_facts (ao_merchant_id a) (rc_customer_id c) s1 = Inr (consent, s2)"
      "active_incidents (ao_merchant_id a) t (Some (rc_case_id c)) (rc_diagnosis c) s2 = Inr (ins, s3)"
      "authoritative_facts_for_case (ao_merchant_id a) c s3 = Inr (facts, s4)"
      "contact_facts a c s4 = Inr (contact, s5)"
      "(case rr_human_review_id receipt of None \<Rightarrow> returnT None | Some i \<Rightarrow> get_review (ao_merchant_id a) i) s5 = Inr (approval, s6)"
    and e: "post_init_evaluation (final_evaluation c t [cand, no] (rr_evidence_references receipt) consent ins facts contact approval) = Inr e"
      "evaluate_policy zones policy e = Inr d" "check = \<lparr>fp_decision = d, fp_policy = policy,
         fp_evidence_references = rr_evidence_references receipt\<rparr>" "s' = s6"
    unfolding final_policy_decision_def Let_def result_simps by blast
  have st: "s0 = s" "s1 = s0" "s2 = s1" "s4 = s3" "s5 = s4"
    using reads.staysD [OF fact_reads(4) r(3)] effective_policy_wf [OF q(1)]
      reads.staysD [OF fact_reads(1) q(2)] reads.staysD [OF fact_reads(2) q(4)] reads.staysD [OF fact_reads(3) q(5)]
    by simp_all
  have ap: "s6 = s5" "\<forall>x\<in>set_option approval. wf_review x"
    using q(6) by (auto simp: result_simps split: option.splits dest: get_review_wf)
  note no = post_init_candidate_wf [OF r(2)] and cand = receipt_candidate_wf [OF r(1)]
  note wf = post_init_evaluation_wf [OF e(1)] and ins = active_incidents_wf [OF q(3)]
  have "e = final_evaluation c t [cand, no] (rr_evidence_references receipt) consent ins facts contact approval"
    "wf_evaluation e"
    using wf no cand ins ap(2) by auto
  moreover have "ca_action_type no = ActionType.NO_ACTION" using no by (simp add: no_action_candidate_def)
  moreover have "asked zones a c t s s' policy e"
    unfolding asked_def
    by (rule exI [of _ cand], rule exI [of _ "rr_evidence_references receipt"], rule exI [of _ consent],
        rule exI [of _ ins], rule exI [of _ facts], rule exI [of _ contact], rule exI [of _ approval])
      (use q(1-5) e(4) st ap(1) no calculation(1) in simp)
  ultimately show ?thesis
    using e(2,3) cand effective_policy_wf [OF q(1)]
    by (intro exI [of _ policy] exI [of _ e]) simp
qed

text \<open>The attempts of an action, and what adds one.\<close>

definition attempts_for :: "'a action_db_scheme \<Rightarrow> string \<times> string \<Rightarrow> AttemptRow list" where
  "attempts_for s k = filter (\<lambda>t. attempt_action t = k) (db_attempts s)"

interpretation same_attempts: step_order "\<lambda>s s' :: 'a action_db_scheme. db_attempts s' = db_attempts s"
  by (rule step_order_const)

lemma same_attempts_append_entry: "same_attempts.stays (append_entry uuids r)"
proof (rule same_attempts.staysI)
  fix s s' :: "'a action_db_scheme" and e
  assume "append_entry uuids r s = Inr (e, s')"
  from append_entry_frame [OF this] show "db_attempts s' = db_attempts s" by auto
qed

lemma same_attempts_case_operations:
  "same_attempts.stays (execution_transition uuids a st reason now x c)"
  "same_attempts.stays (record_execution_attempt_counters c' i j now)"
  "same_attempts.stays (cancel_before_execution k now reason)"
  unfolding execution_transition_def apply_transition_def record_execution_attempt_counters_def Let_def
    cancel_before_execution_def update_action_def flush_actions_def the_action_def
  by (intro same_attempts.stays_intros same_attempts.stays_modifyT same_attempts_append_entry; simp)+

lemma same_attempts_store_review: "same_attempts.stays (store_review uuids r :: ('a recovery_db_scheme, _) tx)"
  unfolding store_review_def flush_reviews_def
  by (intro same_attempts.stays_intros same_attempts.stays_modifyT same_attempts_append_entry) simp

lemma same_attempts_active_incidents: "same_attempts.stays (active_incidents m t c d)"
  unfolding active_incidents_def attach_incidents_def insert_link_def set_active_incident_def
  by (intro same_attempts.stays_intros same_attempts.stays_modifyT) simp_all

lemma same_attempts_block: "same_attempts.stays (block_execution uuids a check now c)"
  unfolding block_execution_def after_reevaluation_def
  by (intro same_attempts.stays_intros same_attempts_case_operations same_attempts_store_review)

lemma prepare_execution_InrD:
  assumes "prepare_execution zones uuids m i token t s = Inr (r, s')"
  obtains now a c check s1 where "evidence_utc t = Inr now" "stored_action s (m, i) = Some a"
    "get_case m (ao_recovery_case_id a) s = Inr (Some c, s)" "rc_state c \<in> {READY, EXECUTING}"
    "final_policy_decision zones a c now s = Inr (check, s1)"
    "blocks_execution (fp_decision check) a \<Longrightarrow> \<exists>d. r = Blocked d \<and> block_execution uuids a check now c s1 = Inr (d, s')"
    "\<not> blocks_execution (fp_decision check) a \<Longrightarrow> \<exists>p. r = Prepared p \<and> start_execution uuids a token now c s1 = Inr (p, s')"
proof -
  from assms obtain now a c check s1 where *: "evidence_utc t = Inr now" "stored_action s (m, i) = Some a"
    "get_case m (ao_recovery_case_id a) s = Inr (Some c, s)" "rc_state c \<in> {READY, EXECUTING}"
    "final_policy_decision zones a c now s = Inr (check, s1)"
    "(if blocks_execution (fp_decision check) a
      then bindT (block_execution uuids a check now c) (\<lambda>d. returnT (Blocked d))
      else bindT (start_execution uuids a token now c) (\<lambda>p. returnT (Prepared p))) s1 = Inr (r, s')"
    by (fastforce simp: prepare_execution_def get_action_def get_case_def result_simps simp del: if_split split del: if_split)
  show ?thesis by (rule that [OF *(1-5)]) (use *(6) in \<open>auto simp: result_simps\<close>)
qed

lemma final_policy_decision_tables:
  assumes "final_policy_decision zones a c t s = Inr (check, s')"
  shows "db_attempts s' = db_attempts s"
  using final_policy_decision_Inr [OF assms] same_attempts.staysD [OF same_attempts_active_incidents]
  by (auto simp: asked_def)

lemma start_execution_attempts:
  assumes "start_execution uuids a token now c s = Inr (p, s')"
  shows "\<exists>t. db_attempts s' = db_attempts s @ [t] \<and> attempt_action t = action_key a \<and> ap_completed_at t = None"
proof -
  from assms obtain x s1 c1 s2 s3 u v where b: "begin_attempt uuids (ao_merchant_id a) (ao_id a) token now s = Inr (x, s1)"
    and n: "record_execution_attempt_counters c (of_bool (ACTION_CLASSES (ao_action_type a) = RETRY))
        (of_bool (ACTION_CLASSES (ao_action_type a) = CUSTOMER_CONTACT)) now s1 = Inr (c1, s2)"
      "(if rc_state c1 = READY
        then seqT (execution_transition uuids a EXECUTING ''ACTION_EXECUTION_STARTED'' now no_extras c1) (returnT ())
        else returnT ()) s2 = Inr (u, s3)"
      "domain_action (ao_merchant_id a) (ao_id a) s3 = Inr (v, s')"
    unfolding start_execution_def Let_def
    by (auto simp: result_simps)
  have "same_attempts.stays (domain_action (ao_merchant_id a) (ao_id a))"
    unfolding domain_action_def get_action_def by (intro same_attempts.stays_intros)
  moreover have "same_attempts.stays (if rc_state c1 = READY
        then seqT (execution_transition uuids a EXECUTING ''ACTION_EXECUTION_STARTED'' now no_extras c1) (returnT ())
        else returnT ())"
    by (intro same_attempts.stays_intros same_attempts_case_operations)
  ultimately have "db_attempts s' = db_attempts s1"
    using n same_attempts.staysD [OF same_attempts_case_operations(2) n(1)] same_attempts.staysD by metis
  moreover obtain action s0 e where action: "stored_action s (ao_merchant_id a, ao_id a) = Some action"
    and s0: "s0 = s\<lparr>db_attempts := db_attempts s @ [new_attempt (started_action now action) token now],
       db_actions := update_where (\<lambda>r. action_key r = (ao_merchant_id a, ao_id a)) (started_action now) (db_actions s)\<rparr>"
    and e: "append_entry uuids (started_append (started_action now action)
       (new_attempt (started_action now action) token now) now) s0 = Inr (e, s1)"
    using b by (rule begin_attempt_InrD)
  moreover have "db_attempts s1 = db_attempts s0" by (rule same_attempts.staysD [OF same_attempts_append_entry e])
  moreover have "action_key action = action_key a" using stored_action_key [OF action] by simp
  ultimately have "db_attempts s' = db_attempts s @ [new_attempt (started_action now action) token now]"
    "action_key action = action_key a"
    by (simp_all add: s0)
  moreover have "attempt_action (new_attempt (started_action now action) token now) = action_key action"
    "ap_completed_at (new_attempt (started_action now action) token now) = None"
    by (simp_all add: new_attempt_def started_action_def Let_def)
  ultimately show ?thesis by metis
qed


inductive execution_run :: "'a recovery_db_scheme \<Rightarrow> 'a recovery_db_scheme \<Rightarrow> bool" for s where
  none: "execution_run s s"
| claimed: "execution_run s t \<Longrightarrow> claim_due_actions uuids now dur n t = Inr (cs, u) \<Longrightarrow> execution_run s u"
| prepared: "execution_run s t \<Longrightarrow> prepare_execution zones uuids m a token now t = Inr (r, u) \<Longrightarrow> execution_run s u"
| recorded: "execution_run s t \<Longrightarrow> record_execution_result settings uuids m a token px t = Inr (d, u) \<Longrightarrow> execution_run s u"
| stale: "execution_run s t \<Longrightarrow> mark_stale_calls_unknown settings uuids now n t = Inr (ds, u) \<Longrightarrow> execution_run s u"
| looked_up: "execution_run s t \<Longrightarrow> record_lookup uuids m a pl t = Inr (d, u) \<Longrightarrow> execution_run s u"
| signed: "execution_run s t \<Longrightarrow> verify_signed_event uuids e w t = Inr (x, u) \<Longrightarrow> execution_run s u"

definition books_ok :: "'a action_db_scheme \<Rightarrow> bool" where
  "books_ok s \<longleftrightarrow> outbox_ok s \<and> (\<forall>v\<in>set (db_outcomes s). funded s v)"

lemma books_step:
  assumes "funds.stays (\<lambda>_. True) m" "m s = Inr (x, s')" "books_ok s"
  shows "books_ok s'"
  using funds.staysD [OF assms(1,2)] assms(3) funded_mono by (fastforce simp: fund_step_def books_ok_def)

lemma books_run: "execution_run s s' \<Longrightarrow> books_ok s \<Longrightarrow> books_ok s'"
  by (induction rule: execution_run.induct)
    (blast intro: books_step funds_outbox_operations(7) funds_prepare_execution funds_record_execution_result
      funds_mark_stale funds_record_lookup funds_verify_signed_event lasting_knows(2))+

end
