(* ===== verification/Recovery_Theorems.thy ===== *)
theory Recovery_Theorems
  imports Recovery_Store Policy_Theorems Frames
begin

text \<open>
  What the recovery repository keeps: a published policy is read back as it was written, and is
  the one in force; a review is decided once.
\<close>


section \<open>A policy document is read back\<close>

definition whole_second :: "datetime \<Rightarrow> datetime" where
  "whole_second t = Aware (seconds (instant t div 1000000))"

text \<open>A policy at the precision that its document has.\<close>

definition printed_policy :: "MerchantPolicySnapshot \<Rightarrow> MerchantPolicySnapshot" where
  "printed_policy p =
     p\<lparr>mp_effective_at := whole_second (mp_effective_at p),
       mp_quiet_hours_start := seconds (mp_quiet_hours_start p div 1000000),
       mp_quiet_hours_end := seconds (mp_quiet_hours_end p div 1000000)\<rparr>"

definition printable_policy :: "MerchantPolicySnapshot \<Rightarrow> bool" where
  "printable_policy p \<longleftrightarrow>
     1 \<le> year_of (date_of (mp_effective_at p)) \<and> year_of (date_of (mp_effective_at p)) < 10000
     \<and> 0 \<le> mp_quiet_hours_start p \<and> mp_quiet_hours_start p < day_us
     \<and> 0 \<le> mp_quiet_hours_end p \<and> mp_quiet_hours_end p < day_us"

lemma action_of_action_value [simp]: "action_of_value (action_value a) = Inr a"
  by (cases a) (simp_all add: action_of_value_def ACTION_TYPES_def)

lemma mapR_action_values:
  "set vs \<subseteq> range action_value \<Longrightarrow>
     mapR (\<lambda>j. case j of JStr s \<Rightarrow> action_of_value s | _ \<Rightarrow> Inl (ValueError key)) (map JStr vs)
       = Inr (map (inv action_value) vs)"
proof (induction vs)
  case (Cons v vs)
  then obtain a where "v = action_value a" by auto
  moreover have "inj action_value" by (simp add: inj_on_def)
  ultimately show ?case using Cons by (simp add: inv_f_f)
qed simp

lemma doc_actions_values:
  "doc_actions [(k, JArr (map JStr (sorted_action_values A)))] k = Inr A"
proof -
  have f: "finite A"
    by (rule finite_subset [OF subset_UNIV])
      (rule finite_subset [of _ "set ACTION_TYPES"], use ActionType.exhaust in \<open>force simp: ACTION_TYPES_def\<close>, simp)
  then have "set (sorted_action_values A) = action_value ` A" by (simp add: sorted_action_values_def)
  moreover have "inj action_value" by (simp add: inj_on_def)
  ultimately show ?thesis
    by (simp add: doc_actions_def doc_field_def mapR_action_values image_image inv_f_f image_mono)
qed

lemma doc_actions_cons:
  "doc_actions ((k, v) # d) k = doc_actions [(k, v)] k"
  by (simp add: doc_actions_def doc_field_def)

lemma printed_policy_wf:
  assumes "wf_policy zones p"
  shows "post_init_policy zones (printed_policy p) = Inr (printed_policy p)"
  using assms
  by (simp add: wf_policy_def post_init_policy_def printed_policy_def whole_second_def bindR_eq_Inr
      utc_eq_Inr raise_first_ok_iff)

lemma printed_policy_fields:
  "printed_policy p =
     \<lparr>mp_version = mp_version p, mp_effective_at = whole_second (mp_effective_at p),
      mp_allowed_actions = mp_allowed_actions p, mp_retry_limit = mp_retry_limit p,
      mp_contact_limit = mp_contact_limit p,
      mp_minimum_expected_net_recovery_minor = mp_minimum_expected_net_recovery_minor p,
      mp_human_review_amount_minor = mp_human_review_amount_minor p,
      mp_minimum_confidence_basis_points = mp_minimum_confidence_basis_points p,
      mp_default_defer_seconds = mp_default_defer_seconds p, mp_timezone = mp_timezone p,
      mp_quiet_hours_start = seconds (mp_quiet_hours_start p div 1000000),
      mp_quiet_hours_end = seconds (mp_quiet_hours_end p div 1000000),
      mp_currency = mp_currency p, mp_features_version = mp_features_version p\<rparr>"
  by (cases p) (simp add: printed_policy_def)

lemma policy_from_canonical_document:
  assumes "wf_policy zones p" "printable_policy p"
  shows "policy_from_document zones (canonical_document p) = Inr (printed_policy p)"
proof -
  have years: "1 \<le> year_of (date_of (mp_effective_at p))" "year_of (date_of (mp_effective_at p)) < 10000"
    and clock: "0 \<le> mp_quiet_hours_start p" "mp_quiet_hours_start p < day_us"
      "0 \<le> mp_quiet_hours_end p" "mp_quiet_hours_end p < day_us"
    using assms(2) unfolding printable_policy_def by blast+
  have e: "doc_field (canonical_document p) ''effective_at'' = Inr (JStr (format_seconds (mp_effective_at p)))"
    by (simp add: doc_field_def canonical_document_def)
  have "parse_datetime (JStr (format_seconds (mp_effective_at p))) = Inr (whole_second (mp_effective_at p))"
    unfolding parse_datetime_def json.case datetime_fromisoformat_format [OF years] whole_second_def
    by (simp add: evidence_utc_def)
  moreover have "time_fromisoformat (iso_clock (mp_quiet_hours_start p)) = Inr (seconds (mp_quiet_hours_start p div 1000000))"
    "time_fromisoformat (iso_clock (mp_quiet_hours_end p)) = Inr (seconds (mp_quiet_hours_end p div 1000000))"
    by (rule time_fromisoformat_clock [OF clock(1,2)], rule time_fromisoformat_clock [OF clock(3,4)])
  moreover have "doc_actions (canonical_document p) ''allowed_actions'' = Inr (mp_allowed_actions p)"
    by (subst canonical_document_def, subst doc_actions_cons, rule doc_actions_values)
  moreover have "doc_str (canonical_document p) ''version'' = Inr (mp_version p)"
    "doc_str (canonical_document p) ''timezone'' = Inr (mp_timezone p)"
    "doc_str (canonical_document p) ''currency'' = Inr (mp_currency p)"
    "doc_str (canonical_document p) ''features_version'' = Inr (mp_features_version p)"
    "doc_str (canonical_document p) ''quiet_hours_start'' = Inr (iso_clock (mp_quiet_hours_start p))"
    "doc_str (canonical_document p) ''quiet_hours_end'' = Inr (iso_clock (mp_quiet_hours_end p))"
    "doc_int (canonical_document p) ''retry_limit'' = Inr (mp_retry_limit p)"
    "doc_int (canonical_document p) ''contact_limit'' = Inr (mp_contact_limit p)"
    "doc_int (canonical_document p) ''minimum_expected_net_recovery_minor'' = Inr (mp_minimum_expected_net_recovery_minor p)"
    "doc_int (canonical_document p) ''human_review_amount_minor'' = Inr (mp_human_review_amount_minor p)"
    "doc_int (canonical_document p) ''minimum_confidence_basis_points'' = Inr (mp_minimum_confidence_basis_points p)"
    "doc_int (canonical_document p) ''default_defer_seconds'' = Inr (mp_default_defer_seconds p)"
    by (simp_all add: canonical_document_def doc_str_def doc_int_def doc_field_def)
  ultimately show ?thesis
    using printed_policy_wf [OF assms(1)]
    by (simp add: policy_from_document_def e printed_policy_fields)
qed

text \<open>
  Property C35. A policy survives its document: reading back the canonical document of a valid
  policy gives the policy itself, its times cut to the whole seconds that the document prints.
\<close>

theorem policy_document_roundtrip:
  assumes "wf_policy zones p" and "printable_policy p"
  shows "policy_from_document zones (canonical_document p) = Inr (printed_policy p)"
  by (rule policy_from_canonical_document [OF assms])


section \<open>A published policy is in force\<close>

lemma iso_clock_printed: "iso_clock (seconds (t div 1000000)) = iso_clock t"
proof -
  have "t div 3600000000 = t div 1000000 div 3600" "t div 60000000 = t div 1000000 div 60"
    by (simp_all add: zdiv_zmult2_eq [symmetric])
  then show ?thesis
    by (simp add: iso_clock_def seconds_def)
qed

lemma format_printed: "format_seconds (whole_second t) = format_seconds t"
proof -
  have "date_of (whole_second t) = date_of t"
    by (simp add: date_of_def whole_second_def seconds_def day_us_def)
  moreover have "time_of_day (whole_second t) = seconds (time_of_day t div 1000000)"
  proof -
    have "(instant t div 1000000 * 1000000) mod (86400 * 1000000) = (instant t div 1000000 mod 86400) * 1000000"
      by (rule mod_mult_mult2)
    moreover have "instant t mod (1000000 * 86400) = 1000000 * (instant t div 1000000 mod 86400) + instant t mod 1000000"
      by (rule zmod_zmult2_eq) simp
    ultimately show ?thesis by (simp add: time_of_day_def whole_second_def seconds_def day_us_def)
  qed
  ultimately show ?thesis by (simp add: format_seconds_def iso_clock_printed)
qed

lemma canonical_document_printed: "canonical_document (printed_policy p) = canonical_document p"
  by (simp add: canonical_document_def printed_policy_def iso_clock_printed format_printed)

lemma content_digest_printed: "content_digest (printed_policy p) = content_digest p"
  by (simp add: content_digest_def canonical_document_printed)

lemma last_sort_key:
  assumes "x \<in> set xs" "\<And>y. y \<in> set xs \<Longrightarrow> f y \<le> f x" "\<And>y. y \<in> set xs \<Longrightarrow> f y = f x \<Longrightarrow> y = x"
  shows "take 1 (rev (sort_key f xs)) = [x]"
proof -
  let ?ys = "sort_key f xs"
  have ne: "?ys \<noteq> []" using assms(1) by (metis length_sort length_0_conv list.set(1) empty_iff)
  then have l: "last ?ys \<in> set xs" by (metis last_in_set set_sort)
  have "sorted (map f ?ys)" by (rule sorted_sort_key)
  then have "f x \<le> f (last ?ys)"
  proof -
    from assms(1) obtain i where i: "i < length ?ys" "?ys ! i = x" by (metis in_set_conv_nth set_sort)
    have "map f ?ys ! i \<le> map f ?ys ! (length ?ys - 1)"
      using i ne by (intro sorted_nth_mono) auto
    with i ne show ?thesis by (simp add: last_conv_nth)
  qed
  with assms(2,3) l have "last ?ys = x" by (metis order_antisym)
  moreover from ne obtain zs z where "?ys = zs @ [z]" by (metis rev_exhaust)
  ultimately show ?thesis by simp
qed

lemma publish_new_policy:
  assumes "publish_policy m p by s = Inr (row, s')"
    and "\<forall>q\<in>set (db_policies s). (pv_merchant_id q, pv_version q) \<noteq> (m, mp_version p)"
  shows "row = policy_row m p by \<and> db_policies s' = db_policies s @ [row] \<and> policies_ok (db_policies s')
    \<and> by \<noteq> []"
proof -
  have "find (\<lambda>q. (pv_merchant_id q, pv_version q) = (m, mp_version p)) (db_policies s) = None"
    using assms(2) by (simp add: find_None_iff)
  with assms(1) show ?thesis by (auto simp: publish_policy_def result_simps Let_def)
qed

text \<open>
  The policy that was published last is the policy in force: from its effective
  time on, until a later one takes over, \<open>effective_policy\<close> returns exactly what
  \<open>publish_policy\<close> was given, at the precision of the document, and its digest check passes.
\<close>

theorem published_policy_in_force:
  assumes "publish_policy m p by s = Inr (row, s')"
    and "wf_policy zones p" and "printable_policy p"
    and "\<forall>q\<in>set (db_policies s). (pv_merchant_id q, pv_version q) \<noteq> (m, mp_version p)"
    and "mp_effective_at p \<le> t"
    and "\<forall>q\<in>set (db_policies s). pv_merchant_id q = m \<longrightarrow> pv_effective_at q \<le> t \<longrightarrow>
           pv_effective_at q \<le> mp_effective_at p"
  shows "effective_policy zones m t s' = Inr (printed_policy p, s')"
proof -
  let ?rows = "filter (\<lambda>q. pv_merchant_id q = m \<and> pv_effective_at q \<le> t) (db_policies s')"
  note new = publish_new_policy [OF assms(1,4)]
  have row: "pv_merchant_id row = m" "pv_effective_at row = mp_effective_at p"
    "pv_snapshot row = canonical_document p" "pv_content_sha256 row = content_digest p"
    using new by (simp_all add: policy_row_def)
  have "take 1 (rev (sort_key pv_effective_at ?rows)) = [row]"
  proof (rule last_sort_key)
    show "row \<in> set ?rows" using new row assms(5) by (simp only: set_filter set_append) simp
    fix q assume q: "q \<in> set ?rows"
    then have q': "q \<in> set (db_policies s) \<or> q = row" "pv_merchant_id q = m" "pv_effective_at q \<le> t"
      using new by (auto simp only: set_filter mem_Collect_eq set_append list.set Un_iff insert_iff empty_iff)
    then show "pv_effective_at q \<le> pv_effective_at row" using q' row assms(6) by auto
    assume "pv_effective_at q = pv_effective_at row"
    with q' row have "(pv_merchant_id q, pv_effective_at q) = (pv_merchant_id row, pv_effective_at row)" by simp
    moreover have "distinct (map (\<lambda>p. (pv_merchant_id p, pv_effective_at p)) (db_policies s'))"
      using new unfolding policies_ok_def by blast
    then have "inj_on (\<lambda>p. (pv_merchant_id p, pv_effective_at p)) (set (db_policies s'))" by (simp add: distinct_map)
    moreover have "q \<in> set (db_policies s')" "row \<in> set (db_policies s')" using q'(1) new by auto
    ultimately show "q = row" by (auto dest: inj_onD)
  qed
  then show ?thesis
    by (simp add: effective_policy_def run_tx one_or_noneT_def row policy_from_canonical_document [OF assms(2,3)]
        content_digest_printed)
qed

section \<open>A review is decided once\<close>

lemma update_review_decision_InrD:
  assumes "update_review_decision uuids m r s = Inr (row, s')"
  shows "rv_status r \<noteq> REQUESTED \<and> reviews_ok (db_reviews s') \<and> stored_review s' m (rv_review_id r) = Some row
    \<and> db_reviews s' = update_where (\<lambda>x. review_key x = (m, rv_review_id r) \<and> rv_status x = REQUESTED) (decided_row r) (db_reviews s)"
proof -
  let ?t = "s\<lparr>db_reviews := update_where (\<lambda>x. review_key x = (m, rv_review_id r) \<and> rv_status x = REQUESTED) (decided_row r) (db_reviews s)\<rparr>"
  from assms obtain e where *: "rv_status r \<noteq> REQUESTED" "reviews_ok (db_reviews ?t)"
    "stored_review ?t m (rv_review_id r) = Some row" "append_entry uuids (decided_append m r) ?t = Inr (e, s')"
    by (auto simp: update_review_decision_def flush_reviews_def result_simps Let_def)
  from append_entry_frame [OF *(4)] have "db_reviews s' = db_reviews ?t" by auto
  with *(1-3) show ?thesis by (simp add: stored_review_def)
qed

text \<open>
  A review is decided once: after one decision is stored, every other decision on
  the same review, whoever takes it, is refused with \<open>REVIEW_ALREADY_DECIDED\<close> and the stored
  decision stays.
\<close>

theorem review_stored_once:
  assumes "update_review_decision uuids m r s = Inr (row, s')"
    and "rv_review_id q = rv_review_id r" and "rv_status q \<noteq> REQUESTED"
  shows "update_review_decision uuids' m q s' =
      Inl (RecoveryPersistenceError ''REVIEW_ALREADY_DECIDED'' ''review is missing or no longer requested'')
    \<and> stored_review s' m (rv_review_id r) = Some row"
proof -
  note first = update_review_decision_InrD [OF assms(1)]
  then have ok: "reviews_ok (db_reviews s')" by blast
  let ?open = "\<lambda>x. review_key x = (m, rv_review_id q) \<and> rv_status x = REQUESTED"
  have none: "\<not> ?open x" if "x \<in> set (db_reviews s')" for x
  proof -
    let ?was = "\<lambda>x. review_key x = (m, rv_review_id r) \<and> rv_status x = REQUESTED"
    have "x \<in> (\<lambda>y. if ?was y then decided_row r y else y) ` set (db_reviews s)"
      using that first by (simp only: update_where_def list.set_map)
    then obtain y where y: "x = (if ?was y then decided_row r y else y)" by blast
    show ?thesis
    proof (cases "?was y")
      case True
      with y have "rv_status x = rv_status r" by (simp add: decided_row_def)
      with first show ?thesis by simp
    next
      case False
      then have "x = y" using y by (simp only: if_False)
      with False assms(2) show ?thesis by simp
    qed
  qed
  then have "filter ?open (db_reviews s') = []" by (auto simp only: filter_empty_conv)
  moreover have "update_where ?open (decided_row q) (db_reviews s') = db_reviews s'"
    unfolding update_where_def by (rule map_idI) (simp only: none if_False)
  ultimately have "update_review_decision uuids' m q s' =
      Inl (RecoveryPersistenceError ''REVIEW_ALREADY_DECIDED'' ''review is missing or no longer requested'')"
    using assms(3) ok by (simp add: update_review_decision_def run_tx flush_reviews_def checkT_def Let_def)
  with first show ?thesis by simp
qed

end
