(* ===== verification/Recovery_Witnesses.thy ===== *)
theory Recovery_Witnesses
  imports Recovery_Theorems Policy_Witnesses
begin

text \<open>Concrete instances of the repository theorems: an empty store, the sample policy and review.\<close>

definition empty_store :: recovery_db where
  "empty_store = \<lparr>db_audit_entries = [], db_audit_heads = Map.empty, db_uuids = 0,
     db_cases = [], db_transitions = [], db_case_events = [],
     db_actions = [], db_attempts = [], db_outcomes = [],
     db_merchants = [], db_customers = [], db_payments = [], db_subscriptions = [], db_webhooks = [],
     db_dispatches = [], db_normalized = [], db_correlations = [], db_policies = [], db_reviews = [], db_receipts = [], db_predictions = [],
     db_interventions = [], db_consents = [], db_incidents = [], db_incident_links = [],
     db_invoices = [], db_promises = []\<rparr>"

lemma printable_sample_policy: "printable_policy sample_policy"
  by code_simp

theorem policy_document_roundtrip_witness:
  "policy_from_document sample_zones (canonical_document sample_policy) = Inr sample_policy"
proof -
  have "printed_policy sample_policy = sample_policy"
    by (simp add: printed_policy_def whole_second_def sample_policy_def duration_defs day_us_def)
  with policy_document_roundtrip [OF wf_sample_policy printable_sample_policy] show ?thesis by simp
qed

theorem published_policy_in_force_witness:
  "\<exists>row s'. publish_policy ''merchant_1'' sample_policy ''alice'' empty_store = Inr (row, s')
     \<and> effective_policy sample_zones ''merchant_1'' (Aware (20700 * day_us)) s' = Inr (printed_policy sample_policy, s')"
proof -
  let ?row = "policy_row ''merchant_1'' sample_policy ''alice''"
  have "policies_ok [?row]" by (simp add: policies_ok_def policy_row_def content_digest_def)
  then have p: "publish_policy ''merchant_1'' sample_policy ''alice'' empty_store
      = Inr (?row, empty_store\<lparr>db_policies := [?row]\<rparr>)"
    by (simp add: publish_policy_def run_tx empty_store_def one_or_noneT_def checkT_def Let_def)
  have t: "mp_effective_at sample_policy \<le> Aware (20700 * day_us)" by (simp add: sample_policy_def day_us_def)
  from published_policy_in_force [OF p wf_sample_policy printable_sample_policy _ t] p
  show ?thesis by (auto simp: empty_store_def)
qed

definition decided_sample :: HumanReviewRequest where
  "decided_sample = sample_review\<lparr>rv_status := APPROVED, rv_reviewer_id := Some ''alice'',
     rv_rationale := Some ''ok'', rv_decided_at := Some (Aware 500)\<rparr>"

lemma decided_sample_keys:
  "rv_status decided_sample = APPROVED" "rv_review_id decided_sample = ''review_1''"
  "rv_review_id sample_review = ''review_1''" "rv_merchant_id sample_review = ''merchant_1''"
  "rv_status sample_review = REQUESTED"
  "rv_review_id (decided_row decided_sample sample_review) = ''review_1''"
  "rv_merchant_id (decided_row decided_sample sample_review) = ''merchant_1''"
  by (simp_all add: decided_row_def decided_sample_def sample_review_def)

lemma sample_decision_stored:
  "\<exists>row s'. update_review_decision sample_uuids ''merchant_1'' decided_sample (empty_store\<lparr>db_reviews := [sample_review]\<rparr>)
     = Inr (row, s')"
proof -
  have ok: "reviews_ok [decided_row decided_sample sample_review]"
    by (simp add: reviews_ok_def review_row_ok_def review_chronology_def review_metadata_def decided_row_def
        decided_sample_def sample_review_def fingerprint_digest_def, simp add: hex64_def is_lower_hex_def)
  have "validate_append (decided_append ''merchant_1'' decided_sample) = Inr ()"
    by (simp add: validate_append_def decided_append_def new_append_def raise_first_okI too_long_def
        audit_utc_def Let_def decided_sample_def sample_review_def)
  then obtain e s' where "append_entry sample_uuids (decided_append ''merchant_1'' decided_sample)
      (empty_store\<lparr>db_reviews := [decided_row decided_sample sample_review]\<rparr>) = Inr (e, s')"
    using append_entry_returns by blast
  with ok show ?thesis
    by (simp add: update_review_decision_def run_tx flush_reviews_def checkT_def Let_def
        stored_review_def decided_sample_keys)
qed

theorem review_stored_once_witness:
  "\<exists>row s'. update_review_decision sample_uuids ''merchant_1'' decided_sample
       (empty_store\<lparr>db_reviews := [sample_review]\<rparr>) = Inr (row, s')
     \<and> update_review_decision sample_uuids ''merchant_1'' (decided_sample\<lparr>rv_status := REJECTED\<rparr>) s' =
        Inl (RecoveryPersistenceError ''REVIEW_ALREADY_DECIDED'' ''review is missing or no longer requested'')"
proof -
  obtain row s' where r: "update_review_decision sample_uuids ''merchant_1'' decided_sample
      (empty_store\<lparr>db_reviews := [sample_review]\<rparr>) = Inr (row, s')"
    using sample_decision_stored by blast
  from review_stored_once [OF r, of "decided_sample\<lparr>rv_status := REJECTED\<rparr>"] r show ?thesis by auto
qed

end
