(* ===== verification/Execution_Witnesses.thy ===== *)
theory Execution_Witnesses
  imports Execution_Theorems Recovery_Witnesses Outbox_Witnesses
begin

text \<open>Concrete instances of the execution theorems: one authorised payment link, about to be sent.\<close>


section \<open>The books\<close>

definition paid_store :: recovery_db where
  "paid_store = empty_store\<lparr>db_cases := [sample_row], db_actions := [sample_action_row], db_outcomes := [sample_outcome]\<rparr>"

lemma paid_store_books: "books_ok paid_store"
proof -
  have "consistent paid_store"
    by (simp add: consistent_def store_ok_def paid_store_def empty_store_def cases_ok_single case_row_ok_def
        sample_row_def sample_case_def currency_pattern_def is_ascii_upper_def transitions_ok_def
        unique_index_def ledger_ok_def own_entries_def history_ok_def case_log_def TERMINAL_STATES_def)
  moreover have "outcomes_ok [sample_outcome]"
    by (simp add: outcomes_ok_def unique_index_def outcome_row_ok_def sample_outcome_def currency_pattern_def
        is_ascii_upper_def)
  moreover have "attempts_inv paid_store" "actions_ok [sample_action_row]" "attempts_ok []"
    by (simp_all add: attempts_inv_def open_attempts_def paid_store_def empty_store_def actions_ok_def
        unique_index_def attempts_ok_def)
  ultimately have "outbox_ok paid_store"
    by (simp add: outbox_ok_def outbox_core_def) (simp add: paid_store_def empty_store_def)
  moreover have "funded paid_store sample_outcome"
    by (simp add: funded_def stored_action_def paid_store_def)
      (simp add: sample_outcome_def sample_action_row_def action_row_def sample_action_def int_item_def
        str_item_def item_def)
  moreover have "db_outcomes paid_store = [sample_outcome]" by (simp add: paid_store_def)
  ultimately show ?thesis by (simp add: books_ok_def)
qed

lemma paid_store_claim:
  "\<exists>cs u. claim_due_actions (\<lambda>_. ''lease_1'') (Aware 200) 600 10 paid_store = Inr (cs, u) \<and> cs \<noteq> []"
proof -
  have "claimable paid_store (Aware 200) sample_action_row"
    by (simp add: claimable_def open_attempts_def paid_store_def empty_store_def)
      (simp add: sample_action_row_def action_row_def sample_action_def)
  moreover have "actions_ok [sample_leased_row]" by (simp add: actions_ok_def unique_index_def)
  then have "actions_ok [leased_action (Aware 200) 600 ''lease_1'' sample_action_row]"
    by (simp add: sample_leased_row_def)
  ultimately show ?thesis
    by (simp add: claim_due_actions_def run_tx claim_one_def draw_uuid_def update_action_def
        flush_actions_def checkT_def paid_store_def empty_store_def)
qed

section \<open>A prepared execution\<close>

definition link_policy :: MerchantPolicySnapshot where
  "link_policy = sample_policy\<lparr>mp_allowed_actions := {CREATE_PAYMENT_LINK}, mp_effective_at := Aware 0\<rparr>"

definition link_case :: RecoveryCase where
  "link_case = sample_case\<lparr>rc_state := EXECUTING, rc_customer_id := None, rc_diagnosis_confidence := Some (9/10)\<rparr>"

definition link_candidate :: CandidateAction where
  "link_candidate = \<lparr>ca_action_type = CREATE_PAYMENT_LINK, ca_recovery_probability_basis_points = 4000,
     ca_expected_net_recovery_minor = 2000, ca_rank = 1, ca_target = ''pay_1'', ca_logical_attempt = 1,
     ca_channel = None, ca_action_cost_minor = 0, ca_risk_penalty_minor = 0,
     ca_customer_friction_penalty_minor = 0\<rparr>"

definition link_row :: ActionRow where
  "link_row = sample_leased_row\<lparr>ao_idempotency_key := ''rg:v1:'' @ sha256_hex (identity_document (action_identity sample_action))\<rparr>"

definition link_receipt :: ReceiptRow where
  "link_receipt =
     \<lparr>rr_merchant_id = ''merchant_1'', rr_id = ''receipt_1'', rr_recovery_case_id = ''case_1'',
      rr_correlation_id = ''corr_1'', rr_evidence_references = [''event/1''],
      rr_candidate_actions = [candidate_to_dict link_candidate], rr_selected_action_type = CREATE_PAYMENT_LINK,
      rr_explanation = ''expected value'', rr_policy_result = PROCEED, rr_policy_reason_codes = [''ALLOWED''],
      rr_policy_version = ''policy_1'', rr_version_bundle = [], rr_human_review_id = None,
      rr_resulting_action_id = Some ''action_1'', rr_resulting_state = READY, rr_audit_entry_id = None,
      rr_model_prediction_ids = [], rr_scoring_model_version = ''m'', rr_scoring_feature_version = ''f'',
      rr_scoring_economics_version = ''e'', rr_scoring_artifact_classification = ''c'',
      rr_scoring_fallback_reason = None, rr_schema_version = ''1.0'', rr_created_at = Aware 100\<rparr>"

definition link_store :: recovery_db where
  "link_store = empty_store\<lparr>db_cases := [sample_row\<lparr>cw_case := link_case\<rparr>], db_actions := [link_row],
     db_policies := [policy_row ''merchant_1'' link_policy ''alice''], db_receipts := [link_receipt]\<rparr>"

lemma wf_link_policy: "wf_policy sample_zones link_policy" "printable_policy link_policy"
  by (simp add: wf_policy_def post_init_policy_def run_validation link_policy_def sample_defs, code_simp)

lemma link_policy_in_force: "effective_policy sample_zones ''merchant_1'' (Aware 300) link_store = Inr (link_policy, link_store)"
proof -
  have "printed_policy link_policy = link_policy"
    by (simp add: printed_policy_def whole_second_def link_policy_def sample_policy_def duration_defs day_us_def)
  then show ?thesis
    using policy_from_canonical_document [OF wf_link_policy]
    by (simp add: effective_policy_def run_tx link_store_def policy_row_def one_or_noneT_def)
      (simp add: link_policy_def)
qed

definition link_evaluation :: PolicyEvaluationInput where
  "link_evaluation = final_evaluation link_case (Aware 300) [link_candidate, no_action_candidate ''pay_1'']
     [''event/1''] ([], {}) [] no_facts (0, False) None"

lemma link_proceeds:
  "\<exists>e d. post_init_evaluation link_evaluation = Inr e \<and> evaluate_policy sample_zones link_policy e = Inr d
     \<and> pd_result d = PROCEED \<and> ca_action_type (pd_selected_action d) = CREATE_PAYMENT_LINK"
proof -
  have "case bindR (post_init_evaluation link_evaluation) (evaluate_policy sample_zones link_policy) of
      Inr d \<Rightarrow> pd_result d = PROCEED \<and> ca_action_type (pd_selected_action d) = CREATE_PAYMENT_LINK | Inl _ \<Rightarrow> False"
    by code_simp
  then show ?thesis by (auto simp: bindR_eq_Inr split: sum.splits)
qed

lemma no_action_valid: "post_init_candidate (no_action_candidate ''pay_1'') = Inr (no_action_candidate ''pay_1'')"
  by code_simp

lemma link_row_fields [simp]:
  "ao_decision_receipt_id link_row = ''receipt_1''" "ao_target_id link_row = ''pay_1''"
  "ao_action_type link_row = CREATE_PAYMENT_LINK" "ao_recovery_case_id link_row = ''case_1''"
  "ao_logical_attempt link_row = 1" "ao_parameters link_row = ra_parameters sample_action"
  "ao_id link_row = ''action_1''" "ao_merchant_id link_row = ''merchant_1''"
  "ao_status link_row = PENDING" "ao_lease_token link_row = Some ''lease_1''"
  "ao_lease_expires_at link_row = Some (Aware 800)" "ao_attempt_count link_row = 0"
  "ao_max_attempts link_row = 3" "ao_correlation_id link_row = ''corr_1''"
  by (simp_all add: link_row_def)
    (simp_all add: sample_leased_row_def leased_action_def sample_action_row_def action_row_def sample_action_def)

lemma link_candidate_read:
  "receipt_candidate link_row (candidate_to_dict link_candidate) = Inr link_candidate"
proof -
  let ?d = "candidate_to_dict link_candidate"
  have "float_item ?d ''recovery_probability'' = Inr (2/5)" "int_item ?d ''expected_net_recovery_minor'' = Inr 2000"
    "dict_get ?d ''channel'' = PNone"
    by (simp_all add: candidate_to_dict_def float_item_def int_item_def item_def dict_get_def link_candidate_def)
  moreover have "round_half_even (2/5 * 10000) = 4000" by code_simp
  moreover have "post_init_candidate link_candidate = Inr link_candidate" by code_simp
  ultimately show ?thesis
    by (simp add: receipt_candidate_def) (simp add: link_candidate_def)
qed

lemma link_case_fields [simp]:
  "rc_merchant_id link_case = ''merchant_1''" "rc_case_id link_case = ''case_1''" "rc_state link_case = EXECUTING"
  "rc_customer_id link_case = None" "rc_subject_type link_case = PAYMENT" "rc_contact_count link_case = 0"
  "rc_subject_id link_case = ''pay_1''" "rc_diagnosis link_case = None"
  by (simp_all add: link_case_def sample_case_def)

lemma link_checked:
  "\<exists>check. final_policy_decision sample_zones link_row link_case (Aware 300) link_store = Inr (check, link_store)
     \<and> \<not> blocks_execution (fp_decision check) link_row"
proof -
  obtain e d where d: "post_init_evaluation link_evaluation = Inr e" "evaluate_policy sample_zones link_policy e = Inr d"
    "pd_result d = PROCEED" "ca_action_type (pd_selected_action d) = CREATE_PAYMENT_LINK"
    using link_proceeds by blast
  have receipt: "get_decision_receipt ''merchant_1'' ''receipt_1'' link_store = Inr (Some link_receipt, link_store)"
    by (simp add: get_decision_receipt_def run_tx link_store_def) (simp add: link_receipt_def)
  have sel: "find (\<lambda>d. dict_get d ''action_type'' = PStr ''CREATE_PAYMENT_LINK'') (rr_candidate_actions link_receipt)
      = Some (candidate_to_dict link_candidate)"
    by (simp add: link_receipt_def candidate_to_dict_def dict_get_def link_candidate_def)
  have facts: "consent_facts ''merchant_1'' None link_store = Inr (([], {}), link_store)"
    "active_incidents ''merchant_1'' (Aware 300) (Some ''case_1'') None link_store = Inr ([], link_store)"
    "authoritative_facts_for_case ''merchant_1'' link_case link_store = Inr (no_facts, link_store)"
    "contact_facts link_row link_case link_store = Inr ((0, False), link_store)"
    by (simp_all add: consent_facts_def active_incidents_def attach_incidents_def authoritative_facts_for_case_def
        payment_facts_def contact_facts_def run_tx Let_def)
      (simp_all add: link_store_def empty_store_def)
  have refs: "rr_evidence_references link_receipt = [''event/1'']" "rr_human_review_id link_receipt = None"
    by (simp_all add: link_receipt_def)
  show ?thesis
    by (simp add: final_policy_decision_def run_tx receipt sel link_candidate_read no_action_valid facts
        link_policy_in_force refs link_evaluation_def [symmetric] d blocks_execution_def Let_def)
qed

lemma link_row_read: "\<exists>d. action_from_row (started_action (Aware 300) link_row) = Inr d"
proof -
  let ?a = "started_action (Aware 300) link_row"
  have f: "ao_recovery_case_id ?a = ''case_1''" "ao_decision_receipt_id ?a = ''receipt_1''" "ao_target_type ?a = PAYMENT"
    "ao_logical_attempt ?a = 1" "ao_provider_object_id ?a = None"
    "ao_authorized_at ?a = Aware 100" "ao_execute_after ?a = Aware 100" "ao_created_at ?a = Aware 100"
    "ao_updated_at ?a = Aware 300" "ao_schema_version ?a = ''1.0''" "ao_id ?a = ''action_1''"
    "ao_merchant_id ?a = ''merchant_1''" "ao_target_id ?a = ''pay_1''" "ao_action_type ?a = CREATE_PAYMENT_LINK"
    "ao_idempotency_key ?a = ''rg:v1:'' @ sha256_hex (identity_document (action_identity sample_action))"
    by (simp_all add: started_action_def link_row_def)
      (simp_all add: sample_leased_row_def leased_action_def sample_action_row_def action_row_def sample_action_def)
  show ?thesis
    by (simp add: action_from_row_def f post_init_action_def action_idempotency_key_def action_identity_def
        raise_first_okI amount_parameter_ok_def currency_parameter_ok_def blank_or_longer_def)
      (simp add: sample_action_def currency_pattern_def is_ascii_upper_def raise_first_okI)
qed

lemma link_prepared:
  "\<exists>p s'. prepare_execution sample_zones sample_uuids ''merchant_1'' ''action_1'' ''lease_1'' (Aware 300) link_store
     = Inr (Prepared p, s')"
proof -
  obtain check where check: "final_policy_decision sample_zones link_row link_case (Aware 300) link_store = Inr (check, link_store)"
    "\<not> blocks_execution (fp_decision check) link_row"
    using link_checked by blast
  let ?a = "started_action (Aware 300) link_row"
  let ?t = "new_attempt ?a ''lease_1'' (Aware 300)"
  have a: "actions_ok [?a]"
    by (simp add: actions_ok_def unique_index_def action_row_ok_def started_action_def)
      (simp add: link_row_def sample_leased_row_def sample_action_row_def leased_action_def action_row_def sample_action_def)
  have t: "attempts_ok [?t]"
    by (simp add: attempts_ok_def attempt_row_ok_def) (simp add: new_attempt_def)
  have "validate_append (started_append ?a ?t (Aware 300)) = Inr ()"
    by (simp add: validate_append_def started_append_def new_append_def raise_first_okI too_long_def
        audit_utc_def Let_def new_attempt_def started_action_def)
  then obtain e s' where ap: "append_entry sample_uuids (started_append ?a ?t (Aware 300))
      (link_store\<lparr>db_attempts := [?t], db_actions := [?a]\<rparr>) = Inr (e, s')"
    using append_entry_returns by blast
  have stored: "stored_action link_store (''merchant_1'', ''action_1'') = Some link_row"
    "db_actions link_store = [link_row]" "db_attempts link_store = []"
    by (simp_all add: stored_action_def link_store_def empty_store_def)
  have b: "begin_attempt sample_uuids ''merchant_1'' ''action_1'' ''lease_1'' (Aware 300) link_store = Inr ((?a, ?t), s')"
    using a t ap stored
    by (simp add: begin_attempt_def get_action_def run_tx open_attempts_def update_action_def
        flush_actions_def flush_attempts_def checkT_def Let_def)
  from append_entry_frame [OF ap] have "db_actions s' = [?a]" by auto
  then have row: "stored_action s' (''merchant_1'', ''action_1'') = Some ?a"
    by (simp add: stored_action_def) (simp add: started_action_def)
  obtain d where d: "action_from_row ?a = Inr d" using link_row_read by blast
  have case_row: "get_case ''merchant_1'' ''case_1'' link_store = Inr (Some link_case, link_store)"
    by (simp add: get_case_def run_tx case_row_def link_store_def sample_row_def)
  show ?thesis
    using check
    by (simp add: prepare_execution_def run_tx get_action_def stored case_row start_execution_def b Let_def
        record_execution_attempt_counters_def domain_action_def row d evidence_utc_def)
qed


end
