(* ===== verification/Redaction.thy ===== *)
theory Redaction
  imports Razorpay
begin

text \<open>
  \<open>revenueguard_agents/redaction.py\<close>: what is removed from a payload before a model sees it, with
  what the module uses of Python's \<open>re\<close> written out as a backtracking matcher.
\<close>


section \<open>Regular expressions\<close>

text \<open>
  The constructs of the three patterns: one character of a set, a greedy run of at least \<open>n\<close>
  characters of a set, an optional character, sequence, choice, a character that must not stand
  before or after, and \<open>\b\<close>.
\<close>

datatype regex =
    Empty
  | One "char \<Rightarrow> bool"
  | Runs "char \<Rightarrow> bool" nat
  | Optional "char \<Rightarrow> bool"
  | Sequence regex regex
  | Choice regex regex
  | NotBehind "char \<Rightarrow> bool"
  | NotAhead "char \<Rightarrow> bool"
  | Boundary

text \<open>A position in a text: the character before it, if there is one, and what follows it.\<close>

type_synonym position = "char option \<times> string"

definition skip :: "position \<Rightarrow> nat \<Rightarrow> position" where
  "skip p n = (if n = 0 then p else (Some (snd p ! (n - 1)), drop n (snd p)))"

text \<open>\<open>\w\<close> on the code points up to U+00FF: what \<open>str.isalnum\<close> accepts, and the underscore.\<close>

definition is_word :: "char \<Rightarrow> bool" where
  "is_word c \<longleftrightarrow> is_digit c \<or> is_ascii_alpha c \<or> c = CHR ''_''
     \<or> (let n = (of_char c :: nat) in
          n \<in> {170, 178, 179, 181, 185, 186, 188, 189, 190} \<or> 192 \<le> n \<and> n \<noteq> 215 \<and> n \<noteq> 247)"

definition word_at :: "char option \<Rightarrow> bool" where
  "word_at c = (case c of None \<Rightarrow> False | Some d \<Rightarrow> is_word d)"

definition next_char :: "string \<Rightarrow> char option" where
  "next_char s = (case s of [] \<Rightarrow> None | c # _ \<Rightarrow> Some c)"

text \<open>The ends of the matches at a position, in the order backtracking tries them.\<close>

fun matches :: "regex \<Rightarrow> position \<Rightarrow> position list" where
  "matches Empty p = [p]"
| "matches (One f) p = (case snd p of [] \<Rightarrow> [] | c # s \<Rightarrow> if f c then [(Some c, s)] else [])"
| "matches (Runs f n) p = map (skip p) (rev [n..<Suc (length (takeWhile f (snd p)))])"
| "matches (Optional f) p = (case snd p of [] \<Rightarrow> [p] | c # s \<Rightarrow> if f c then [(Some c, s), p] else [p])"
| "matches (Sequence r t) p = concat (map (matches t) (matches r p))"
| "matches (Choice r t) p = matches r p @ matches t p"
| "matches (NotBehind f) p = (case fst p of None \<Rightarrow> [p] | Some c \<Rightarrow> if f c then [] else [p])"
| "matches (NotAhead f) p = (case next_char (snd p) of None \<Rightarrow> [p] | Some c \<Rightarrow> if f c then [] else [p])"
| "matches Boundary p = (if word_at (fst p) \<noteq> word_at (next_char (snd p)) then [p] else [])"

definition sequence_of :: "regex list \<Rightarrow> regex" where
  "sequence_of rs = foldr Sequence rs Empty"

definition literal :: "string \<Rightarrow> regex" where
  "literal s = sequence_of (map (\<lambda>c. One (\<lambda>d. d = c)) s)"

text \<open>
  \<open>pattern.sub(replacement, text)\<close> for a pattern that matches no empty text: scan from left to
  right, replace the preferred match at a position and go on behind it.
\<close>

function sub_from :: "regex \<Rightarrow> string \<Rightarrow> position \<Rightarrow> string" where
  "sub_from r replacement p =
     (case filter (\<lambda>q. length (snd q) < length (snd p)) (matches r p) of
        q # _ \<Rightarrow> replacement @ sub_from r replacement q
      | [] \<Rightarrow> (case snd p of [] \<Rightarrow> [] | c # s \<Rightarrow> c # sub_from r replacement (Some c, s)))"
  by pat_completeness auto

termination
  by (relation "measure (\<lambda>(r, t, p). length (snd p))")
    (auto dest!: Cons_eq_filterD [OF sym])

declare sub_from.simps [simp del]

definition sub :: "regex \<Rightarrow> string \<Rightarrow> string \<Rightarrow> string" where
  "sub r replacement s = sub_from r replacement (None, s)"


section \<open>The patterns\<close>

definition email_domain_char :: "char \<Rightarrow> bool" where
  "email_domain_char c \<longleftrightarrow> is_word c \<or> c = CHR ''.'' \<or> c = CHR ''-''"

definition EMAIL_PATTERN :: regex where
  "EMAIL_PATTERN = sequence_of
     [NotBehind email_domain_char, Runs (\<lambda>c. email_domain_char c \<or> c = CHR ''+'') 1, literal ''@'',
      Runs email_domain_char 1, literal ''.'', Runs is_ascii_alpha 2, NotAhead email_domain_char]"

definition PHONE_PATTERN :: regex where
  "PHONE_PATTERN = sequence_of
     [NotBehind is_digit, Optional (\<lambda>c. c = CHR ''+''), One is_digit,
      Runs (\<lambda>c. is_digit c \<or> c \<in> {CHR '' '', CHR ''('', CHR '')'', CHR ''-''}) 7, One is_digit, NotAhead is_digit]"

text \<open>With \<open>re.IGNORECASE\<close>.\<close>

definition literal_ignoring_case :: "string \<Rightarrow> regex" where
  "literal_ignoring_case s = sequence_of (map (\<lambda>c. One (\<lambda>d. lower_char d = c)) s)"

definition is_ascii_alnum :: "char \<Rightarrow> bool" where
  "is_ascii_alnum c \<longleftrightarrow> is_ascii_alpha c \<or> is_digit c"

definition CREDENTIAL_PATTERN :: regex where
  "CREDENTIAL_PATTERN = sequence_of
     [Boundary,
      Choice
        (sequence_of [literal_ignoring_case ''rzp_'', Choice (literal_ignoring_case ''test'') (literal_ignoring_case ''live''),
           literal ''_'', Runs is_ascii_alnum 1])
        (sequence_of [literal_ignoring_case ''sk-'',
           Runs (\<lambda>c. is_ascii_alnum c \<or> c = CHR ''_'' \<or> c = CHR ''-'') 12]),
      Boundary]"


section \<open>Payloads\<close>

definition SENSITIVE_KEYS :: "string set" where
  "SENSITIVE_KEYS = {''authorization'', ''card'', ''card_number'', ''customer_id'', ''email'', ''merchant_id'',
     ''password'', ''payment_id'', ''phone'', ''raw_body'', ''secret'', ''subject_id'', ''token''}"

definition redact_text :: "string \<Rightarrow> string" where
  "redact_text s =
     sub CREDENTIAL_PATTERN ''[REDACTED_CREDENTIAL]''
       (sub PHONE_PATTERN ''[REDACTED_PHONE]'' (sub EMAIL_PATTERN ''[REDACTED_EMAIL]'' s))"

text \<open>
  \<open>redact_model_payload\<close> on JSON values, which is all the graph hands to it. The recursion carries
  the key a value stands under.
\<close>

definition sensitive :: "string option \<Rightarrow> bool" where
  "sensitive key = (case key of None \<Rightarrow> False | Some k \<Rightarrow> str_lower k \<in> SENSITIVE_KEYS)"

fun redact_model_payload :: "string option \<Rightarrow> json \<Rightarrow> json" where
  "redact_model_payload key (JStr s) = JStr (if sensitive key then ''[REDACTED]'' else redact_text s)"
| "redact_model_payload key (JObj kvs) =
     (if sensitive key then JStr ''[REDACTED]''
      else JObj (map (\<lambda>kv. (fst kv, redact_model_payload (Some (fst kv)) (snd kv))) kvs))"
| "redact_model_payload key (JArr vs) =
     (if sensitive key then JStr ''[REDACTED]'' else JArr (map (redact_model_payload None) vs))"
| "redact_model_payload key v = (if sensitive key then JStr ''[REDACTED]'' else v)"

lemma redact_sensitive: "sensitive key \<Longrightarrow> redact_model_payload key v = JStr ''[REDACTED]''"
  by (cases v) simp_all

text \<open>The values a key of a document reaches, at any depth.\<close>

fun values_under :: "string \<Rightarrow> json \<Rightarrow> json set" where
  "values_under k (JObj kvs) = (\<Union>kv\<in>set kvs. (if fst kv = k then {snd kv} else {}) \<union> values_under k (snd kv))"
| "values_under k (JArr vs) = (\<Union>v\<in>set vs. values_under k v)"
| "values_under k v = {}"

lemma redacted_keys:
  "str_lower k \<in> SENSITIVE_KEYS \<Longrightarrow> v \<in> values_under k (redact_model_payload key d) \<Longrightarrow> v = JStr ''[REDACTED]''"
proof (induction key d rule: redact_model_payload.induct)
  case (2 key kvs)
  then show ?case by (fastforce simp: redact_sensitive sensitive_def split: if_splits)
next
  case (3 key vs)
  then show ?case by (fastforce split: if_splits)
qed (auto split: if_splits)

text \<open>
  The pattern of e-mail addresses refuses a match that a dot follows, so an address at the end of
  a sentence stays in the text.
\<close>

lemma sentence_end_leaks: "redact_text ''mail jo@ex.com.'' = ''mail jo@ex.com.''"
  by code_simp

end
