(* ===== verification/Agent_Contracts.thy ===== *)
theory Agent_Contracts
  imports Intelligence Portfolio Redaction
begin

text \<open>
  \<open>revenueguard_agents/contracts.py\<close>: the typed contracts between the recovery service and the
  advisory intelligence. A pydantic \<open>ValidationError\<close> is a \<open>ValueError\<close>; the checks of a model are
  run in the order of its fields and the first that fails names the error.
\<close>

definition AGENT_SCHEMA_VERSION :: string where
  "AGENT_SCHEMA_VERSION = ''phase5-agent-schema-1.0''"

definition DEFAULT_PROMPT_VERSION :: string where
  "DEFAULT_PROMPT_VERSION = ''phase5-case-intelligence-1.0''"


section \<open>Field constraints\<close>

text \<open>\<open>Field(min_length=lo, max_length=hi)\<close> and \<open>Field(ge=lo, le=hi)\<close>.\<close>

definition length_field :: "string \<Rightarrow> nat \<Rightarrow> nat \<Rightarrow> 'a list \<Rightarrow> bool \<times> exn" where
  "length_field name lo hi v = (length v < lo \<or> hi < length v, ValueError name)"

definition range_field :: "string \<Rightarrow> int \<Rightarrow> int \<Rightarrow> int \<Rightarrow> bool \<times> exn" where
  "range_field name lo hi v = (v < lo \<or> hi < v, ValueError name)"

definition least_field :: "string \<Rightarrow> int \<Rightarrow> int \<Rightarrow> bool \<times> exn" where
  "least_field name lo v = (v < lo, ValueError name)"

lemma fst_fields [simp]:
  "fst (length_field n lo hi v) \<longleftrightarrow> length v < lo \<or> hi < length v"
  "fst (range_field n a b i) \<longleftrightarrow> i < a \<or> b < i" "fst (least_field n a i) \<longleftrightarrow> i < a"
  by (simp_all add: length_field_def range_field_def least_field_def)

text \<open>\<open>^[A-Z][A-Z0-9_]{0,127}$\<close>, the pattern of a diagnosis code.\<close>

definition code_char :: "char \<Rightarrow> bool" where
  "code_char c \<longleftrightarrow> is_ascii_upper c \<or> is_digit c \<or> c = CHR ''_''"

definition code_pattern :: "string \<Rightarrow> bool" where
  "code_pattern s \<longleftrightarrow> s \<noteq> [] \<and> length s \<le> 128 \<and> is_ascii_upper (hd s) \<and> (\<forall>c\<in>set s. code_char c)"


section \<open>Evidence and context\<close>

text \<open>\<open>value.isoformat()\<close> of a UTC timestamp.\<close>

definition isoformat :: "datetime \<Rightarrow> string" where
  "isoformat t = butlast (format_full t) @ ''+00:00''"

record EvidenceItem =
  ei_reference :: string
  ei_event_type :: string
  ei_failure_category :: string
  ei_summary :: string
  ei_occurred_at :: datetime

definition post_init_evidence :: "EvidenceItem \<Rightarrow> EvidenceItem result" where
  "post_init_evidence e =
     bindR (raise_first
       [length_field ''reference'' 1 128 (ei_reference e),
        length_field ''event_type'' 1 128 (ei_event_type e),
        length_field ''failure_category'' 1 64 (ei_failure_category e),
        length_field ''summary'' 1 1000 (ei_summary e)]) (\<lambda>_.
     bindR (utc ''occurred_at'' (ei_occurred_at e)) (\<lambda>t. Inr (e\<lparr>ei_occurred_at := t\<rparr>)))"

record SanitizedCaseContext =
  sc_workflow_type :: WorkflowType
  sc_subject_type :: SubjectType
  sc_amount_minor :: int
  sc_currency :: string
  sc_diagnosis_code :: string
  sc_diagnosis_confidence_basis_points :: int
  sc_retry_count :: int
  sc_contact_count :: int
  sc_supported_action_types :: "ActionType list"

definition post_init_sanitized :: "SanitizedCaseContext \<Rightarrow> SanitizedCaseContext result" where
  "post_init_sanitized c =
     bindR (raise_first
       [least_field ''amount_minor'' 0 (sc_amount_minor c),
        (\<not> currency_pattern (sc_currency c), ValueError ''currency''),
        (\<not> code_pattern (sc_diagnosis_code c), ValueError ''diagnosis_code''),
        range_field ''diagnosis_confidence_basis_points'' 0 10000 (sc_diagnosis_confidence_basis_points c),
        least_field ''retry_count'' 0 (sc_retry_count c),
        least_field ''contact_count'' 0 (sc_contact_count c)]) (\<lambda>_. Inr c)"


section \<open>Outputs of the reasoning nodes\<close>

record DiagnosisOutput =
  do_diagnosis_code :: string
  do_confidence_basis_points :: int
  do_rationale :: string

definition post_init_diagnosis_output :: "DiagnosisOutput \<Rightarrow> DiagnosisOutput result" where
  "post_init_diagnosis_output d =
     bindR (raise_first
       [(\<not> code_pattern (do_diagnosis_code d), ValueError ''diagnosis_code''),
        range_field ''confidence_basis_points'' 0 10000 (do_confidence_basis_points d),
        length_field ''rationale'' 1 1000 (do_rationale d)]) (\<lambda>_. Inr d)"

record StrategyOutputItem =
  so_action_type :: ActionType
  so_recovery_probability_basis_points :: int
  so_expected_net_recovery_minor :: int
  so_channel :: "ContactChannel option"

definition CONTACT_ACTIONS :: "ActionType set" where
  "CONTACT_ACTIONS = {REQUEST_PAYMENT_METHOD_UPDATE, SEND_REMINDER, SCHEDULE_PROMISE_REMINDER}"

definition post_init_strategy :: "StrategyOutputItem \<Rightarrow> StrategyOutputItem result" where
  "post_init_strategy i =
     bindR (raise_first
       [range_field ''recovery_probability_basis_points'' 0 10000 (so_recovery_probability_basis_points i),
        (so_action_type i \<in> CONTACT_ACTIONS \<and> so_channel i = None,
           ValueError ''customer-contact strategies require a channel''),
        (so_action_type i \<notin> CONTACT_ACTIONS \<and> so_channel i \<noteq> None,
           ValueError ''only customer-contact strategies accept a channel'')]) (\<lambda>_. Inr i)"

definition post_init_strategies :: "StrategyOutputItem list \<Rightarrow> StrategyOutputItem list result" where
  "post_init_strategies items =
     bindR (mapR post_init_strategy items) (\<lambda>is.
     bindR (raise_first
       [length_field ''strategies'' 1 9 is,
        (\<not> distinct (map so_action_type is), ValueError ''strategy action types must be unique'')])
     (\<lambda>_. Inr is))"

definition post_init_ranking :: "ActionType list \<Rightarrow> ActionType list result" where
  "post_init_ranking types =
     bindR (raise_first
       [length_field ''ordered_action_types'' 1 10 types,
        (\<not> distinct types, ValueError ''ranked action types must be unique'')]) (\<lambda>_. Inr types)"

definition post_init_explanation :: "string \<Rightarrow> string result" where
  "post_init_explanation e = bindR (raise_first [length_field ''explanation'' 1 2000 e]) (\<lambda>_. Inr e)"


section \<open>The request and the result\<close>

record CaseIntelligenceRequest =
  cq_run_id :: string
  cq_case_id :: string
  cq_merchant_id :: string
  cq_correlation_id :: string
  cq_workflow_type :: WorkflowType
  cq_subject_type :: SubjectType
  cq_target :: string
  cq_amount_minor :: int
  cq_currency :: string
  cq_diagnosis_code :: string
  cq_diagnosis_confidence_basis_points :: int
  cq_candidates :: "CandidateAction list"
  cq_retry_count :: int
  cq_contact_count :: int
  cq_evidence :: "EvidenceItem list"
  cq_feature_version :: string
  cq_evaluated_at :: datetime
  cq_terminal_diagnosis :: bool

definition ends_with_no_action :: "CandidateAction list \<Rightarrow> bool" where
  "ends_with_no_action cs \<longleftrightarrow> cs \<noteq> [] \<and> ca_action_type (last cs) = ActionType.NO_ACTION"

definition post_init_request :: "CaseIntelligenceRequest \<Rightarrow> CaseIntelligenceRequest result" where
  "post_init_request q =
     bindR (raise_first
       [required ''run_id'' (cq_run_id q), required ''case_id'' (cq_case_id q),
        required ''merchant_id'' (cq_merchant_id q), required ''correlation_id'' (cq_correlation_id q),
        required ''target'' (cq_target q), required ''currency'' (cq_currency q),
        required ''diagnosis_code'' (cq_diagnosis_code q),
        required ''feature_version'' (cq_feature_version q),
        (cq_amount_minor q < 0 \<or> cq_retry_count q < 0 \<or> cq_contact_count q < 0,
           ValueError ''amount and counters cannot be negative''),
        (\<not> (0 \<le> cq_diagnosis_confidence_basis_points q \<and> cq_diagnosis_confidence_basis_points q \<le> 10000),
           ValueError ''diagnosis confidence must be within basis-point bounds''),
        (\<not> ends_with_no_action (cq_candidates q), ValueError ''candidate list must end with NO_ACTION''),
        (cq_evidence q = [], ValueError ''case intelligence requires evidence'')]) (\<lambda>_.
     bindR (utc ''evaluated_at'' (cq_evaluated_at q)) (\<lambda>t. Inr (q\<lparr>cq_evaluated_at := t\<rparr>)))"

text \<open>The candidates of a request are validated objects.\<close>

definition wf_candidates :: "CaseIntelligenceRequest \<Rightarrow> bool" where
  "wf_candidates q \<longleftrightarrow> (\<forall>c\<in>set (cq_candidates q). wf_candidate c)"

record CaseIntelligenceResult =
  cr_diagnosis_code :: string
  cr_confidence_basis_points :: int
  cr_candidates :: "CandidateAction list"
  cr_explanation :: string
  cr_predictions :: "ModelPrediction list"
  cr_model_version :: string
  cr_prompt_version :: string
  cr_schema_version :: string
  cr_feature_version :: string
  cr_fallback_used :: bool

definition post_init_result :: "CaseIntelligenceResult \<Rightarrow> CaseIntelligenceResult result" where
  "post_init_result r =
     bindR (raise_first
       [(cr_diagnosis_code r = [] \<or> cr_explanation r = [],
           ValueError ''diagnosis and explanation are required''),
        (\<not> (0 \<le> cr_confidence_basis_points r \<and> cr_confidence_basis_points r \<le> 10000),
           ValueError ''confidence must be within basis-point bounds''),
        (\<not> ends_with_no_action (cr_candidates r),
           ValueError ''recommendation candidates must end with NO_ACTION''),
        (cr_predictions r = [], ValueError ''recommendation requires traceable predictions''),
        required ''model_version'' (cr_model_version r), required ''prompt_version'' (cr_prompt_version r),
        required ''schema_version'' (cr_schema_version r),
        required ''feature_version'' (cr_feature_version r)]) (\<lambda>_. Inr r)"

text \<open>Validation accepts a value unchanged or raises.\<close>

lemma post_init_request_Inr: "post_init_request q = Inr q' \<Longrightarrow> q' = q \<and> ends_with_no_action (cq_candidates q)"
  by (auto simp: post_init_request_def bindR_eq_Inr utc_eq_Inr raise_first_ok_iff)

lemma post_init_result_Inr:
  "post_init_result r = Inr r' \<Longrightarrow> r' = r \<and> ends_with_no_action (cr_candidates r) \<and> cr_predictions r \<noteq> []
     \<and> 0 \<le> cr_confidence_basis_points r \<and> cr_confidence_basis_points r \<le> 10000"
  by (auto simp: post_init_result_def bindR_eq_Inr raise_first_ok_iff)

end
