(* ===== verification/Agent_Graph.thy ===== *)
theory Agent_Graph
  imports Agent_Contracts
begin

text \<open>
  \<open>revenueguard_agents/graph.py\<close>: the bounded graph of advisory nodes behind a recommendation.
  Every node asks the model for a typed output, checks the output against the deterministic facts
  and keeps a deterministic fallback when it gets none.

  What the module waits for is an argument of the definitions: the answers of the model (one for
  each node and attempt), pydantic's reading of a mapping as the fields of an output, the measured
  latencies, and the interruption of the whole graph by its timeout or by the framework.
\<close>


section \<open>The budget\<close>

record AgentBudget =
  ab_model_timeout_seconds :: rat
  ab_workflow_timeout_seconds :: rat
  ab_max_model_retries :: int
  ab_max_output_tokens :: int
  ab_max_graph_steps :: int

definition default_budget :: AgentBudget where
  "default_budget = \<lparr>ab_model_timeout_seconds = 2, ab_workflow_timeout_seconds = 8, ab_max_model_retries = 1,
     ab_max_output_tokens = 512, ab_max_graph_steps = 8\<rparr>"

definition post_init_budget :: "AgentBudget \<Rightarrow> AgentBudget result" where
  "post_init_budget b =
     bindR (raise_first
       [(ab_model_timeout_seconds b \<le> 0 \<or> ab_workflow_timeout_seconds b \<le> 0,
           ValueError ''model and workflow timeouts must be positive''),
        (ab_workflow_timeout_seconds b < ab_model_timeout_seconds b,
           ValueError ''workflow timeout cannot be shorter than a model timeout''),
        (\<not> (0 \<le> ab_max_model_retries b \<and> ab_max_model_retries b \<le> 3),
           ValueError ''model retry limit must be between zero and three''),
        (\<not> (64 \<le> ab_max_output_tokens b \<and> ab_max_output_tokens b \<le> 4096),
           ValueError ''output token limit must be between 64 and 4096''),
        (\<not> (8 \<le> ab_max_graph_steps b \<and> ab_max_graph_steps b \<le> 32),
           ValueError ''graph step limit must be between 8 and 32'')]) (\<lambda>_. Inr b)"


section \<open>The model\<close>

record ModelResponse =
  mr_payload :: doc
  mr_input_tokens :: int
  mr_output_tokens :: int

definition post_init_response :: "ModelResponse \<Rightarrow> ModelResponse result" where
  "post_init_response r =
     bindR (raise_first
       [(mr_input_tokens r < 0, ValueError ''input_tokens must be a non-negative integer''),
        (mr_output_tokens r < 0, ValueError ''output_tokens must be a non-negative integer'')]) (\<lambda>_. Inr r)"

text \<open>How \<open>await model.generate(...)\<close> ends: a response, or an exception by its class.\<close>

datatype Generated =
    Responded ModelResponse
  | RaisedUnavailable
  | RaisedTimeout
  | RaisedValidation
  | RaisedValue string
  | RaisedOther

record StructuredModel =
  sm_model_version :: string
  sm_generate :: "ModelNode \<Rightarrow> nat \<Rightarrow> json \<Rightarrow> int \<Rightarrow> Generated"

text \<open>\<open>UnavailableStructuredModel\<close>, the model when none is configured.\<close>

definition unavailable_model :: StructuredModel where
  "unavailable_model = \<lparr>sm_model_version = ''UNAVAILABLE'', sm_generate = (\<lambda>_ _ _ _. RaisedUnavailable)\<rparr>"

record Pydantic =
  py_diagnosis :: "doc \<Rightarrow> DiagnosisOutput option"
  py_strategies :: "doc \<Rightarrow> StrategyOutputItem list option"
  py_ranking :: "doc \<Rightarrow> ActionType list option"
  py_explanation :: "doc \<Rightarrow> string option"

record World =
  wd_pydantic :: Pydantic
  wd_latency_ms :: "ModelNode \<Rightarrow> int"
  wd_interrupted :: "string option"

record BoundedCaseIntelligence =
  bi_model :: StructuredModel
  bi_budget :: AgentBudget
  bi_prompt_version :: string
  bi_schema_version :: string

definition new_intelligence :: "StructuredModel \<Rightarrow> AgentBudget \<Rightarrow> string \<Rightarrow> string \<Rightarrow> BoundedCaseIntelligence result" where
  "new_intelligence model budget prompt_version schema_version =
     bindR (raise_first
       [(prompt_version = [] \<or> schema_version = [], ValueError ''prompt and schema versions are required'')]) (\<lambda>_.
     Inr \<lparr>bi_model = model, bi_budget = budget, bi_prompt_version = prompt_version,
          bi_schema_version = schema_version\<rparr>)"


section \<open>Payloads\<close>

text \<open>\<open>model_dump(mode="json")\<close> of the contracts.\<close>

definition dump_context :: "SanitizedCaseContext \<Rightarrow> json" where
  "dump_context c = JObj
     [(''workflow_type'', JStr (workflow_value (sc_workflow_type c))),
      (''subject_type'', JStr (subject_value (sc_subject_type c))), (''amount_minor'', JInt (sc_amount_minor c)),
      (''currency'', JStr (sc_currency c)), (''diagnosis_code'', JStr (sc_diagnosis_code c)),
      (''diagnosis_confidence_basis_points'', JInt (sc_diagnosis_confidence_basis_points c)),
      (''retry_count'', JInt (sc_retry_count c)), (''contact_count'', JInt (sc_contact_count c)),
      (''supported_action_types'', JArr (map (\<lambda>t. JStr (action_value t)) (sc_supported_action_types c)))]"

definition dump_diagnosis :: "DiagnosisOutput \<Rightarrow> json" where
  "dump_diagnosis d = JObj
     [(''diagnosis_code'', JStr (do_diagnosis_code d)),
      (''confidence_basis_points'', JInt (do_confidence_basis_points d)), (''rationale'', JStr (do_rationale d))]"

definition dump_strategies :: "StrategyOutputItem list \<Rightarrow> json" where
  "dump_strategies is = JObj [(''strategies'', JArr (map (\<lambda>i. JObj
     [(''action_type'', JStr (action_value (so_action_type i))),
      (''recovery_probability_basis_points'', JInt (so_recovery_probability_basis_points i)),
      (''expected_net_recovery_minor'', JInt (so_expected_net_recovery_minor i)),
      (''channel'', json_opt (map_option channel_value (so_channel i)))]) is))]"

definition dump_ranking :: "ActionType list \<Rightarrow> json" where
  "dump_ranking ts = JObj [(''ordered_action_types'', JArr (map (\<lambda>t. JStr (action_value t)) ts))]"

definition dump_explanation :: "string \<Rightarrow> json" where
  "dump_explanation e = JObj [(''explanation'', JStr e)]"

definition model_evidence :: "EvidenceItem \<Rightarrow> json" where
  "model_evidence i = JObj
     [(''event_type'', JStr (ei_event_type i)), (''failure_category'', JStr (ei_failure_category i)),
      (''summary'', JStr (ei_summary i)), (''occurred_at'', JStr (isoformat (ei_occurred_at i)))]"

definition model_candidate :: "CandidateAction \<Rightarrow> json" where
  "model_candidate a = JObj
     [(''action_type'', JStr (action_value (ca_action_type a))),
      (''recovery_probability_basis_points'', JInt (ca_recovery_probability_basis_points a)),
      (''expected_net_recovery_minor'', JInt (ca_expected_net_recovery_minor a)), (''rank'', JInt (ca_rank a)),
      (''channel'', json_opt (map_option channel_value (ca_channel a)))]"

text \<open>A JSON value as the Python value it is, and the members of an object.\<close>

fun py_value :: "json \<Rightarrow> pyval" where
  "py_value JNull = PNone"
| "py_value (JBool b) = PBool b"
| "py_value (JInt i) = PInt i"
| "py_value (JStr s) = PStr s"
| "py_value (JArr vs) = PList (map py_value vs)"
| "py_value (JObj kvs) = PDict (map (\<lambda>kv. (fst kv, py_value (snd kv))) kvs)"

definition members :: "json \<Rightarrow> doc" where
  "members v = (case v of JObj kvs \<Rightarrow> map (\<lambda>kv. (fst kv, py_value (snd kv))) kvs | _ \<Rightarrow> [])"

definition payload_digest :: "json \<Rightarrow> string" where
  "payload_digest v = sha256_hex (json_dumps True v)"


section \<open>Predictions\<close>

definition prediction_material :: "BoundedCaseIntelligence \<Rightarrow> CaseIntelligenceRequest \<Rightarrow> ModelNode \<Rightarrow> string" where
  "prediction_material b q node =
     join '':'' [cq_run_id q, model_node_value node, bi_prompt_version b, bi_schema_version b]"

definition new_prediction :: "BoundedCaseIntelligence \<Rightarrow> CaseIntelligenceRequest \<Rightarrow> ModelNode \<Rightarrow> PredictionStatus \<Rightarrow>
    string \<Rightarrow> json \<Rightarrow> int \<Rightarrow> int \<times> int \<Rightarrow> string option \<Rightarrow> ModelPrediction result" where
  "new_prediction b q node status input_digest output latency_ms tokens failure_code = post_init_prediction
     \<lparr>mo_prediction_id = ''prediction_'' @ take 32 (sha256_hex (prediction_material b q node)),
      mo_run_id = cq_run_id q, mo_case_id = cq_case_id q, mo_merchant_id = cq_merchant_id q,
      mo_correlation_id = cq_correlation_id q, mo_node = node, mo_status = status, mo_input_sha256 = input_digest,
      mo_output_payload = members (redact_model_payload None output),
      mo_model_version = sm_model_version (bi_model b), mo_prompt_version = bi_prompt_version b,
      mo_schema_version = bi_schema_version b, mo_feature_version = cq_feature_version q,
      mo_latency_ms = latency_ms, mo_input_tokens = fst tokens, mo_output_tokens = snd tokens,
      mo_created_at = cq_evaluated_at q, mo_failure_code = failure_code\<rparr>"


section \<open>Asking the model\<close>

text \<open>The failure code of an exception that is not a timeout or a \<open>ValidationError\<close>.\<close>

definition value_error_code :: "string \<Rightarrow> string" where
  "value_error_code message =
     (if contains ''token limit'' message then ''MODEL_TOKEN_LIMIT_EXCEEDED'' else ''MODEL_OUTPUT_REJECTED'')"

definition failure_code_of :: "exn \<Rightarrow> string" where
  "failure_code_of e = (case e of ValueError message \<Rightarrow> value_error_code message | _ \<Rightarrow> ''MODEL_ERROR'')"

text \<open>A kind of output: how pydantic reads it, its own checks, and how it is dumped.\<close>

record 'o Schema =
  sh_coerce :: "doc \<Rightarrow> 'o option"
  sh_check :: "'o \<Rightarrow> 'o result"
  sh_dump :: "'o \<Rightarrow> json"

definition model_validate :: "'o Schema \<Rightarrow> doc \<Rightarrow> 'o option" where
  "model_validate schema payload =
     (case sh_coerce schema payload of
        None \<Rightarrow> None
      | Some v \<Rightarrow> (case sh_check schema v of Inl _ \<Rightarrow> None | Inr u \<Rightarrow> Some u))"

text \<open>
  What is done with a response: the limit on tokens, the two validations around the redaction, the
  checks of the node, the prediction. A failure carries its code and the tokens counted so far.
\<close>

definition accept_response :: "int \<Rightarrow> 'o Schema \<Rightarrow> ('o \<Rightarrow> unit result) \<Rightarrow>
    ('o \<Rightarrow> int \<times> int \<Rightarrow> ModelPrediction result) \<Rightarrow> ModelResponse \<Rightarrow> int \<times> int \<Rightarrow>
    (string \<times> int \<times> int) + ('o \<times> ModelPrediction)" where
  "accept_response max_tokens schema validate predict r tokens =
     (if max_tokens < mr_output_tokens r then Inl (''MODEL_TOKEN_LIMIT_EXCEEDED'', tokens)
      else let tokens = (mr_input_tokens r, mr_output_tokens r) in
        case model_validate schema (mr_payload r) of
          None \<Rightarrow> Inl (''MODEL_OUTPUT_INVALID'', tokens)
        | Some raw \<Rightarrow>
            (case model_validate schema (members (redact_model_payload None (sh_dump schema raw))) of
               None \<Rightarrow> Inl (''MODEL_OUTPUT_INVALID'', tokens)
             | Some output \<Rightarrow>
                 (case bindR (validate output) (\<lambda>_. predict output tokens) of
                    Inl e \<Rightarrow> Inl (failure_code_of e, tokens)
                  | Inr p \<Rightarrow> Inr (output, p))))"

text \<open>
  The attempts: attempt \<open>k\<close> is made when attempts are left; every failure but an unavailable model
  leads to the next one.
\<close>

fun attempt_loop :: "(nat \<Rightarrow> Generated) \<Rightarrow>
    (ModelResponse \<Rightarrow> int \<times> int \<Rightarrow> (string \<times> int \<times> int) + 'r) \<Rightarrow> nat \<Rightarrow> nat \<Rightarrow> string \<times> int \<times> int \<Rightarrow>
    (string \<times> int \<times> int) + 'r" where
  "attempt_loop ask accept k 0 failure = Inl failure"
| "attempt_loop ask accept k (Suc n) failure =
     (case ask k of
        RaisedUnavailable \<Rightarrow> Inl (''MODEL_UNAVAILABLE'', snd failure)
      | RaisedTimeout \<Rightarrow> attempt_loop ask accept (Suc k) n (''MODEL_TIMEOUT'', snd failure)
      | RaisedValidation \<Rightarrow> attempt_loop ask accept (Suc k) n (''MODEL_OUTPUT_INVALID'', snd failure)
      | RaisedValue message \<Rightarrow> attempt_loop ask accept (Suc k) n (value_error_code message, snd failure)
      | RaisedOther \<Rightarrow> attempt_loop ask accept (Suc k) n (''MODEL_ERROR'', snd failure)
      | Responded r \<Rightarrow>
          (case accept r (snd failure) of
             Inr x \<Rightarrow> Inr x
           | Inl failure' \<Rightarrow> attempt_loop ask accept (Suc k) n failure'))"

definition invoke_model :: "BoundedCaseIntelligence \<Rightarrow> World \<Rightarrow> CaseIntelligenceRequest \<Rightarrow> ModelNode \<Rightarrow> json \<Rightarrow>
    'o Schema \<Rightarrow> 'o \<Rightarrow> ('o \<Rightarrow> unit result) \<Rightarrow> ('o \<times> ModelPrediction \<times> bool) result" where
  "invoke_model b w q node payload schema fallback validate =
     (let safe_payload = redact_model_payload None payload; digest = payload_digest safe_payload;
          latency = max 0 (wd_latency_ms w node); limit = ab_max_output_tokens (bi_budget b);
          predict = (\<lambda>output tokens.
            new_prediction b q node PredictionStatus.SUCCEEDED digest (sh_dump schema output) latency tokens None) in
      case attempt_loop (\<lambda>k. sm_generate (bi_model b) node k safe_payload limit)
             (accept_response limit schema validate predict) 0 (nat (ab_max_model_retries (bi_budget b) + 1))
             (''MODEL_ERROR'', 0, 0) of
        Inr (output, p) \<Rightarrow> Inr (output, p, False)
      | Inl (failure_code, tokens) \<Rightarrow>
          bindR (new_prediction b q node FALLBACK digest (sh_dump schema fallback) latency tokens (Some failure_code))
            (\<lambda>p. Inr (fallback, p, True)))"

section \<open>The nodes\<close>

definition load_context :: "CaseIntelligenceRequest \<Rightarrow> SanitizedCaseContext result" where
  "load_context q = post_init_sanitized
     \<lparr>sc_workflow_type = cq_workflow_type q, sc_subject_type = cq_subject_type q,
      sc_amount_minor = cq_amount_minor q, sc_currency = cq_currency q, sc_diagnosis_code = cq_diagnosis_code q,
      sc_diagnosis_confidence_basis_points = cq_diagnosis_confidence_basis_points q,
      sc_retry_count = cq_retry_count q, sc_contact_count = cq_contact_count q,
      sc_supported_action_types = map ca_action_type (cq_candidates q)\<rparr>"

definition validate_diagnosis :: "CaseIntelligenceRequest \<Rightarrow> DiagnosisOutput \<Rightarrow> unit result" where
  "validate_diagnosis q output = raise_first
     [(cq_terminal_diagnosis q \<and> do_diagnosis_code output \<noteq> cq_diagnosis_code q,
         ValueError ''terminal deterministic diagnosis cannot be changed''),
      (cq_diagnosis_confidence_basis_points q < do_confidence_basis_points output,
         ValueError ''model confidence cannot exceed deterministic confidence'')]"

definition diagnose :: "BoundedCaseIntelligence \<Rightarrow> World \<Rightarrow> CaseIntelligenceRequest \<Rightarrow> SanitizedCaseContext \<Rightarrow>
    (DiagnosisOutput \<times> ModelPrediction \<times> bool) result" where
  "diagnose b w q snapshot =
     bindR (post_init_diagnosis_output
       \<lparr>do_diagnosis_code = cq_diagnosis_code q,
        do_confidence_basis_points = cq_diagnosis_confidence_basis_points q,
        do_rationale = ''Deterministic diagnosis retained.''\<rparr>) (\<lambda>fallback.
     invoke_model b w q DIAGNOSIS_ASSISTANCE
       (JObj [(''context'', dump_context snapshot), (''evidence'', JArr (map model_evidence (cq_evidence q))),
              (''task'', JStr ''Assist diagnosis using only supplied evidence.'')])
       \<lparr>sh_coerce = py_diagnosis (wd_pydantic w), sh_check = post_init_diagnosis_output,
        sh_dump = dump_diagnosis\<rparr>
       fallback (validate_diagnosis q))"

text \<open>\<open>{candidate.action_type: candidate for ...}.get(...)\<close>: the last candidate of a type.\<close>

definition by_action :: "CandidateAction list \<Rightarrow> ActionType \<Rightarrow> CandidateAction option" where
  "by_action cs t = find (\<lambda>c. ca_action_type c = t) (rev cs)"

definition supported :: "CaseIntelligenceRequest \<Rightarrow> CandidateAction list" where
  "supported q = filter (\<lambda>c. ca_action_type c \<noteq> ActionType.NO_ACTION) (cq_candidates q)"

definition validate_strategy :: "CaseIntelligenceRequest \<Rightarrow> StrategyOutputItem \<Rightarrow> unit result" where
  "validate_strategy q i =
     (case by_action (supported q) (so_action_type i) of
        None \<Rightarrow> Inl (ValueError ''model proposed an unsupported action type'')
      | Some template \<Rightarrow> raise_first
          [(so_channel i \<noteq> ca_channel template,
              ValueError ''model cannot change the deterministic contact channel''),
           (\<not> (- cq_amount_minor q \<le> so_expected_net_recovery_minor i
               \<and> so_expected_net_recovery_minor i \<le> cq_amount_minor q),
              ValueError ''model expected value exceeds case amount bounds'')])"

definition validate_strategies :: "CaseIntelligenceRequest \<Rightarrow> StrategyOutputItem list \<Rightarrow> unit result" where
  "validate_strategies q is = bindR (mapR (validate_strategy q) is) (\<lambda>_. Inr ())"

text \<open>\<open>CandidateAction(...)\<close> with the default costs.\<close>

definition advised_candidate :: "ActionType \<Rightarrow> int \<Rightarrow> int \<Rightarrow> int \<Rightarrow> CandidateAction \<Rightarrow> ContactChannel option \<Rightarrow>
    CandidateAction result" where
  "advised_candidate action_type probability value rank template channel = post_init_candidate
     \<lparr>ca_action_type = action_type, ca_recovery_probability_basis_points = probability,
      ca_expected_net_recovery_minor = value, ca_rank = rank, ca_target = ca_target template,
      ca_logical_attempt = ca_logical_attempt template, ca_channel = channel, ca_action_cost_minor = 0,
      ca_risk_penalty_minor = 0, ca_customer_friction_penalty_minor = 0\<rparr>"

definition the_template :: "CandidateAction list \<Rightarrow> ActionType \<Rightarrow> CandidateAction result" where
  "the_template cs t = (case by_action cs t of None \<Rightarrow> Inl (LookupError (action_value t)) | Some c \<Rightarrow> Inr c)"

fun hydrate_from :: "CandidateAction list \<Rightarrow> int \<Rightarrow> StrategyOutputItem list \<Rightarrow> CandidateAction list result" where
  "hydrate_from templates rank [] =
     bindR (the_template templates ActionType.NO_ACTION) (\<lambda>t.
     bindR (advised_candidate ActionType.NO_ACTION 0 0 rank t None) (\<lambda>c. Inr [c]))"
| "hydrate_from templates rank (i # is) =
     bindR (the_template templates (so_action_type i)) (\<lambda>t.
     bindR (advised_candidate (so_action_type i) (so_recovery_probability_basis_points i)
       (so_expected_net_recovery_minor i) rank t (so_channel i)) (\<lambda>c.
     bindR (hydrate_from templates (rank + 1) is) (\<lambda>cs. Inr (c # cs))))"

definition hydrate_candidates :: "CaseIntelligenceRequest \<Rightarrow> StrategyOutputItem list \<Rightarrow> CandidateAction list result" where
  "hydrate_candidates q is = hydrate_from (cq_candidates q) 1 is"

definition strategy_of :: "CandidateAction \<Rightarrow> StrategyOutputItem" where
  "strategy_of c =
     \<lparr>so_action_type = ca_action_type c,
      so_recovery_probability_basis_points = ca_recovery_probability_basis_points c,
      so_expected_net_recovery_minor = ca_expected_net_recovery_minor c, so_channel = ca_channel c\<rparr>"

definition generate_strategies :: "BoundedCaseIntelligence \<Rightarrow> World \<Rightarrow> CaseIntelligenceRequest \<Rightarrow>
    SanitizedCaseContext \<Rightarrow> DiagnosisOutput \<Rightarrow> (CandidateAction list \<times> ModelPrediction \<times> bool) result" where
  "generate_strategies b w q snapshot d =
     bindR (post_init_strategies (map strategy_of (supported q))) (\<lambda>fallback.
     bindR (invoke_model b w q STRATEGY_GENERATION
       (JObj [(''context'', dump_context snapshot), (''diagnosis'', dump_diagnosis d),
              (''supported_candidates'', JArr (map model_candidate (cq_candidates q))),
              (''task'', JStr ''Score only the supported candidate action types.'')])
       \<lparr>sh_coerce = py_strategies (wd_pydantic w), sh_check = post_init_strategies, sh_dump = dump_strategies\<rparr>
       fallback (validate_strategies q)) (\<lambda>(output, p, used_fallback).
     bindR (hydrate_candidates q output) (\<lambda>candidates. Inr (candidates, p, used_fallback))))"

definition validate_ranking :: "CandidateAction list \<Rightarrow> ActionType list \<Rightarrow> unit result" where
  "validate_ranking candidates types = raise_first
     [(set types \<noteq> ca_action_type ` set candidates,
         ValueError ''ranking must contain every generated action exactly once''),
      (last types \<noteq> ActionType.NO_ACTION, ValueError ''NO_ACTION must remain the final safe fallback'')]"

fun ranked_from :: "CandidateAction list \<Rightarrow> int \<Rightarrow> ActionType list \<Rightarrow> CandidateAction list result" where
  "ranked_from candidates index [] = Inr []"
| "ranked_from candidates index (t # ts) =
     bindR (the_template candidates t) (\<lambda>c.
     bindR (advised_candidate t (ca_recovery_probability_basis_points c) (ca_expected_net_recovery_minor c) index c
       (ca_channel c)) (\<lambda>a.
     bindR (ranked_from candidates (index + 1) ts) (\<lambda>as. Inr (a # as))))"

definition rank :: "BoundedCaseIntelligence \<Rightarrow> World \<Rightarrow> CaseIntelligenceRequest \<Rightarrow> DiagnosisOutput \<Rightarrow>
    CandidateAction list \<Rightarrow> (CandidateAction list \<times> ModelPrediction \<times> bool) result" where
  "rank b w q d candidates =
     bindR (post_init_ranking (map ca_action_type candidates)) (\<lambda>fallback.
     bindR (invoke_model b w q RANKING
       (JObj [(''diagnosis'', dump_diagnosis d), (''candidates'', JArr (map model_candidate candidates)),
              (''task'', JStr ''Rank all candidates; keep NO_ACTION last.'')])
       \<lparr>sh_coerce = py_ranking (wd_pydantic w), sh_check = post_init_ranking, sh_dump = dump_ranking\<rparr>
       fallback (validate_ranking candidates)) (\<lambda>(output, p, used_fallback).
     bindR (ranked_from candidates 1 output) (\<lambda>ranked. Inr (ranked, p, used_fallback))))"

definition fallback_explanation :: "string \<Rightarrow> string" where
  "fallback_explanation code = ''Deterministic fallback retained '' @ code
     @ ''; the deterministic policy engine makes the final authorization decision.''"

definition explain :: "BoundedCaseIntelligence \<Rightarrow> World \<Rightarrow> CaseIntelligenceRequest \<Rightarrow> DiagnosisOutput \<Rightarrow>
    CandidateAction list \<Rightarrow> (string \<times> ModelPrediction \<times> bool) result" where
  "explain b w q d ranked =
     bindR (post_init_explanation (fallback_explanation (do_diagnosis_code d))) (\<lambda>fallback.
     invoke_model b w q EXPLANATION
       (JObj [(''diagnosis'', dump_diagnosis d), (''ranked_candidates'', JArr (map model_candidate ranked)),
              (''evidence_summaries'', JArr (map (\<lambda>i. JStr (ei_summary i)) (cq_evidence q))),
              (''task'', JStr ''Explain the advisory ranking without inventing evidence.'')])
       \<lparr>sh_coerce = py_explanation (wd_pydantic w), sh_check = post_init_explanation, sh_dump = dump_explanation\<rparr>
       fallback (\<lambda>_. Inr ()))"


section \<open>The recommendation\<close>

text \<open>The edges of the graph: the six nodes in sequence. \<open>max_graph_steps\<close> is at least eight.\<close>

definition run_graph :: "BoundedCaseIntelligence \<Rightarrow> World \<Rightarrow> CaseIntelligenceRequest \<Rightarrow>
    (DiagnosisOutput \<times> CandidateAction list \<times> string \<times> ModelPrediction list \<times> bool) result" where
  "run_graph b w q =
     bindR (load_context q) (\<lambda>snapshot.
     bindR (diagnose b w q snapshot) (\<lambda>(d, p1, f1).
     bindR (generate_strategies b w q snapshot d) (\<lambda>(candidates, p2, f2).
     bindR (rank b w q d candidates) (\<lambda>(ranked, p3, f3).
     bindR (explain b w q d ranked) (\<lambda>(explanation, p4, f4).
     Inr (d, ranked, explanation, [p1, p2, p3, p4], f1 \<or> f2 \<or> f3 \<or> f4))))))"

definition graph_fallback :: "BoundedCaseIntelligence \<Rightarrow> CaseIntelligenceRequest \<Rightarrow> string \<Rightarrow>
    CaseIntelligenceResult result" where
  "graph_fallback b q failure_code =
     bindR (post_init_explanation (fallback_explanation (cq_diagnosis_code q))) (\<lambda>explanation.
     bindR (new_prediction b q GRAPH FALLBACK
       (payload_digest (JObj [(''workflow_type'', JStr (workflow_value (cq_workflow_type q))),
          (''subject_type'', JStr (subject_value (cq_subject_type q))),
          (''diagnosis_code'', JStr (cq_diagnosis_code q))]))
       (dump_explanation explanation) (round_half_even (ab_workflow_timeout_seconds (bi_budget b) * 1000)) (0, 0)
       (Some failure_code)) (\<lambda>p.
     post_init_result
       \<lparr>cr_diagnosis_code = cq_diagnosis_code q,
        cr_confidence_basis_points = cq_diagnosis_confidence_basis_points q, cr_candidates = cq_candidates q,
        cr_explanation = explanation, cr_predictions = [p], cr_model_version = sm_model_version (bi_model b),
        cr_prompt_version = bi_prompt_version b, cr_schema_version = bi_schema_version b,
        cr_feature_version = cq_feature_version q, cr_fallback_used = True\<rparr>))"

definition recommend :: "BoundedCaseIntelligence \<Rightarrow> World \<Rightarrow> CaseIntelligenceRequest \<Rightarrow> CaseIntelligenceResult result" where
  "recommend b w q =
     (case wd_interrupted w of
        Some failure_code \<Rightarrow> graph_fallback b q failure_code
      | None \<Rightarrow>
          (case run_graph b w q of
             Inl _ \<Rightarrow> graph_fallback b q ''GRAPH_ERROR''
           | Inr (d, ranked, explanation, predictions, used_fallback) \<Rightarrow> post_init_result
               \<lparr>cr_diagnosis_code = do_diagnosis_code d, cr_confidence_basis_points = do_confidence_basis_points d,
                cr_candidates = ranked, cr_explanation = explanation, cr_predictions = predictions,
                cr_model_version = sm_model_version (bi_model b), cr_prompt_version = bi_prompt_version b,
                cr_schema_version = bi_schema_version b, cr_feature_version = cq_feature_version q,
                cr_fallback_used = used_fallback\<rparr>))"

end
