(* ===== verification/Agent_Theorems.thy ===== *)
theory Agent_Theorems
  imports Agent_Graph
begin

text \<open>
  What the advisory graph can and cannot do, whatever the model answers: it always returns, its
  recommendation is valid, and it only reorders and rescores the candidates it was given.
\<close>


section \<open>One node\<close>

text \<open>The outputs of a node: its fallback, or an output that passed the schema and the node's checks.\<close>

lemma attempt_loop_Inr:
  "attempt_loop ask accept k n failure = Inr x \<Longrightarrow> \<exists>r tokens. accept r tokens = Inr x"
  by (induction n arbitrary: k failure) (fastforce split: Generated.splits sum.splits)+

lemma attempt_loop_cong:
  "(\<And>i. k \<le> i \<Longrightarrow> i < k + n \<Longrightarrow> ask i = ask' i) \<Longrightarrow>
   attempt_loop ask accept k n failure = attempt_loop ask' accept k n failure"
proof (induction n arbitrary: k failure)
  case (Suc n)
  have "attempt_loop ask accept (Suc k) n f = attempt_loop ask' accept (Suc k) n f" for f
    by (rule Suc.IH) (use Suc.prems in auto)
  moreover have "ask k = ask' k" using Suc.prems by simp
  ultimately show ?case by (simp split: Generated.split sum.split)
qed simp

lemma accept_response_Inr:
  assumes "accept_response limit schema validate predict r tokens = Inr (v, p)"
  shows "(\<exists>raw. sh_check schema raw = Inr v) \<and> validate v = Inr ()
    \<and> predict v (mr_input_tokens r, mr_output_tokens r) = Inr p \<and> mr_output_tokens r \<le> limit"
proof (cases "limit < mr_output_tokens r")
  case True
  with assms show ?thesis by (simp add: accept_response_def)
next
  case False
  with assms obtain raw u where "model_validate schema (mr_payload r) = Some raw"
    "model_validate schema (members (redact_model_payload None (sh_dump schema raw))) = Some u"
    "bindR (validate u) (\<lambda>_. predict u (mr_input_tokens r, mr_output_tokens r)) = Inr p" "u = v"
    by (auto simp: accept_response_def Let_def split: option.splits sum.splits)
  with False show ?thesis
    by (auto simp: model_validate_def bindR_eq_Inr split: option.splits sum.splits)
qed

lemma new_prediction_Inr:
  "new_prediction b q node status digest out l tokens code = Inr p \<Longrightarrow>
   mo_node p = node \<and> mo_status p = status \<and> mo_failure_code p = code \<and> mo_run_id p = cq_run_id q
   \<and> mo_case_id p = cq_case_id q \<and> mo_merchant_id p = cq_merchant_id q"
  by (auto simp: new_prediction_def dest!: post_init_prediction_Inr)

definition settled :: "bool \<Rightarrow> 'o \<Rightarrow> ('o \<Rightarrow> 'o result) \<Rightarrow> ('o \<Rightarrow> unit result) \<Rightarrow> 'o \<Rightarrow> bool" where
  "settled used_fallback fallback check validate v \<longleftrightarrow>
     (if used_fallback then v = fallback else (\<exists>raw. check raw = Inr v) \<and> validate v = Inr ())"

lemma invoke_model_Inr:
  assumes "invoke_model b w q node payload schema fallback validate = Inr (v, p, f)"
  shows "settled f fallback (sh_check schema) validate v
    \<and> mo_node p = node \<and> mo_status p = (if f then FALLBACK else PredictionStatus.SUCCEEDED)"
  using assms
  by (auto simp: invoke_model_def settled_def Let_def bindR_eq_Inr split: sum.splits prod.splits
      dest!: attempt_loop_Inr accept_response_Inr dest: new_prediction_Inr)

text \<open>The checks of the contracts return what they accept.\<close>

lemma post_init_strategy_Inr: "post_init_strategy i = Inr j \<Longrightarrow> j = i"
  by (auto simp: post_init_strategy_def bindR_eq_Inr)

lemma post_init_outputs_Inr:
  "post_init_diagnosis_output d = Inr d' \<Longrightarrow> d' = d \<and> code_pattern (do_diagnosis_code d)
     \<and> 0 \<le> do_confidence_basis_points d \<and> do_confidence_basis_points d \<le> 10000"
  "post_init_strategies is = Inr js \<Longrightarrow> js = is \<and> distinct (map so_action_type is)
     \<and> (\<forall>i\<in>set is. post_init_strategy i = Inr i)"
  "post_init_ranking ts = Inr us \<Longrightarrow> us = ts \<and> distinct ts \<and> ts \<noteq> []"
  "post_init_explanation e = Inr e' \<Longrightarrow> e' = e \<and> e \<noteq> []"
proof -
  show "post_init_strategies is = Inr js \<Longrightarrow> js = is \<and> distinct (map so_action_type is)
     \<and> (\<forall>i\<in>set is. post_init_strategy i = Inr i)"
  proof -
    assume "post_init_strategies is = Inr js"
    then have "mapR post_init_strategy is = Inr js" and d: "distinct (map so_action_type js)"
      by (auto simp: post_init_strategies_def bindR_eq_Inr raise_first_ok_iff)
    then have all: "list_all2 (\<lambda>x y. post_init_strategy x = Inr y) is js" by (simp add: mapR_eq_Inr)
    then have "js = is" by (induction rule: list_all2_induct) (auto dest: post_init_strategy_Inr)
    with all d show ?thesis by (auto simp: list.rel_refl_strong list_all2_same)
  qed
qed (auto simp: post_init_diagnosis_output_def post_init_ranking_def post_init_explanation_def bindR_eq_Inr
    raise_first_ok_iff)

section \<open>The candidates\<close>

lemma by_action_Some: "by_action cs t = Some c \<Longrightarrow> c \<in> set cs \<and> ca_action_type c = t"
  unfolding by_action_def find_Some_iff by (metis length_rev nth_mem set_rev)

lemma by_action_the: "the_template cs t = Inr c \<longleftrightarrow> by_action cs t = Some c"
  by (auto simp: the_template_def split: option.splits)

lemma by_action_present: "t \<in> ca_action_type ` set cs \<Longrightarrow> \<exists>c. by_action cs t = Some c"
  by (cases "by_action cs t") (auto simp: by_action_def find_None_iff)

lemma by_action_distinct:
  assumes "distinct (map ca_action_type cs)" "c \<in> set cs"
  shows "by_action cs (ca_action_type c) = Some c"
proof -
  obtain d where d: "by_action cs (ca_action_type c) = Some d" using assms(2) by_action_present by blast
  from by_action_Some [OF d] assms have "d = c" by (auto simp: distinct_map dest: inj_onD)
  with d show ?thesis by simp
qed

lemma by_action_supported:
  "t \<noteq> ActionType.NO_ACTION \<Longrightarrow> by_action (supported q) t = by_action (cq_candidates q) t"
proof -
  assume "t \<noteq> ActionType.NO_ACTION"
  then have "find (\<lambda>c. ca_action_type c = t) (filter (\<lambda>c. ca_action_type c \<noteq> ActionType.NO_ACTION) cs)
      = find (\<lambda>c. ca_action_type c = t) cs" for cs by (induction cs) auto
  then show ?thesis by (simp add: by_action_def supported_def rev_filter)
qed

text \<open>A strategy that keeps to a candidate of the request.\<close>

definition keeps_to :: "CaseIntelligenceRequest \<Rightarrow> StrategyOutputItem \<Rightarrow> bool" where
  "keeps_to q i \<longleftrightarrow> so_action_type i \<noteq> ActionType.NO_ACTION
     \<and> (\<exists>c. by_action (cq_candidates q) (so_action_type i) = Some c \<and> so_channel i = ca_channel c)"

lemma validate_strategies_Inr: "validate_strategies q is = Inr () \<Longrightarrow> i \<in> set is \<Longrightarrow> keeps_to q i"
proof -
  assume "validate_strategies q is = Inr ()" and i: "i \<in> set is"
  then obtain us where "list_all2 (\<lambda>x u. validate_strategy q x = Inr u) is us"
    by (auto simp: validate_strategies_def bindR_eq_Inr mapR_eq_Inr)
  with i obtain u where "validate_strategy q i = Inr u"
    by (auto simp: list_all2_conv_all_nth in_set_conv_nth)
  then obtain c where c: "by_action (supported q) (so_action_type i) = Some c" "so_channel i = ca_channel c"
    by (auto simp: validate_strategy_def raise_first_ok_iff split: option.splits)
  have "so_action_type i \<noteq> ActionType.NO_ACTION" using by_action_Some [OF c(1)] by (auto simp: supported_def)
  with c show ?thesis by (auto simp: keeps_to_def by_action_supported)
qed

lemma fallback_strategies_keep:
  assumes "distinct (map so_action_type (map strategy_of (supported q)))" "i \<in> set (map strategy_of (supported q))"
  shows "keeps_to q i"
proof -
  obtain c where c: "c \<in> set (supported q)" "i = strategy_of c" using assms(2) by auto
  have "distinct (map ca_action_type (supported q))" using assms(1) by (simp add: strategy_of_def comp_def)
  from by_action_distinct [OF this c(1)] c show ?thesis
    by (auto simp: keeps_to_def strategy_of_def supported_def by_action_supported [unfolded supported_def])
qed

text \<open>What the graph derives from the candidates of a request.\<close>

definition derived :: "CaseIntelligenceRequest \<Rightarrow> CandidateAction \<Rightarrow> bool" where
  "derived q a \<longleftrightarrow> wf_candidate a \<and> (\<exists>c\<in>set (cq_candidates q).
     ca_action_type a = ca_action_type c \<and> ca_target a = ca_target c \<and> ca_logical_attempt a = ca_logical_attempt c
     \<and> (ca_action_type a = ActionType.NO_ACTION \<and> ca_channel a = None \<or> ca_channel a = ca_channel c))"

lemma advised_candidate_Inr:
  "advised_candidate t p v r c ch = Inr a \<Longrightarrow> wf_candidate a \<and> ca_action_type a = t
     \<and> ca_recovery_probability_basis_points a = p \<and> ca_expected_net_recovery_minor a = v \<and> ca_rank a = r
     \<and> ca_target a = ca_target c \<and> ca_logical_attempt a = ca_logical_attempt c \<and> ca_channel a = ch"
  by (auto simp: advised_candidate_def wf_candidate_def post_init_candidate_def bindR_eq_Inr)

lemma hydrate_from_derived:
  assumes "hydrate_from (cq_candidates q) r is = Inr cs" "\<forall>i\<in>set is. keeps_to q i"
  shows "(\<forall>a\<in>set cs. derived q a)
    \<and> map ca_action_type cs = map so_action_type is @ [ActionType.NO_ACTION]"
  using assms
proof (induction "is" arbitrary: r cs)
  case Nil
  then obtain t c where "by_action (cq_candidates q) ActionType.NO_ACTION = Some t"
    "advised_candidate ActionType.NO_ACTION 0 0 r t None = Inr c" "cs = [c]"
    by (auto simp: bindR_eq_Inr by_action_the)
  with by_action_Some [of "cq_candidates q" ActionType.NO_ACTION t] advised_candidate_Inr [of ActionType.NO_ACTION 0 0 r t None c]
  show ?case by (auto simp: derived_def intro!: bexI [of _ t])
next
  case (Cons i "is")
  from Cons.prems obtain t c ds where t: "by_action (cq_candidates q) (so_action_type i) = Some t"
    and c: "advised_candidate (so_action_type i) (so_recovery_probability_basis_points i)
      (so_expected_net_recovery_minor i) r t (so_channel i) = Inr c"
    and ds: "hydrate_from (cq_candidates q) (r + 1) is = Inr ds" "cs = c # ds"
    by (auto simp: bindR_eq_Inr by_action_the)
  have "derived q c"
    using Cons.prems(2) t by_action_Some [OF t] advised_candidate_Inr [OF c]
    by (auto simp: derived_def keeps_to_def intro!: bexI [of _ t])
  with Cons.IH [OF ds(1)] Cons.prems(2) ds(2) advised_candidate_Inr [OF c] show ?case by simp
qed

lemma ranked_from_derived:
  assumes "ranked_from cs r ts = Inr as" "\<forall>c\<in>set cs. derived q c"
  shows "(\<forall>a\<in>set as. derived q a) \<and> map ca_action_type as = ts
    \<and> map ca_rank as = [r..r + int (length ts) - 1]"
  using assms(1)
proof (induction ts arbitrary: r "as")
  case (Cons t ts)
  then obtain c a "bs" where c: "by_action cs t = Some c"
    and a: "advised_candidate t (ca_recovery_probability_basis_points c) (ca_expected_net_recovery_minor c) r c
      (ca_channel c) = Inr a"
    and bs: "ranked_from cs (r + 1) ts = Inr bs" "as = a # bs"
    by (auto simp: bindR_eq_Inr by_action_the)
  have "derived q a"
    using assms(2) by_action_Some [OF c] advised_candidate_Inr [OF a] by (fastforce simp: derived_def)
  moreover have "[r..r + int (length (t # ts)) - 1] = r # [r + 1..r + 1 + int (length ts) - 1]"
    by (subst upto.simps) simp
  ultimately show ?case using Cons.IH [OF bs(1)] bs(2) advised_candidate_Inr [OF a] by simp
qed simp

lemma generate_strategies_derived:
  assumes "generate_strategies b w q snapshot d = Inr (cs, p, f)"
  shows "(\<forall>a\<in>set cs. derived q a) \<and> ends_with_no_action cs \<and> distinct (map ca_action_type cs)
    \<and> mo_node p = STRATEGY_GENERATION \<and> (f \<longleftrightarrow> mo_status p = FALLBACK)"
proof -
  from assms obtain fallback res where fb: "post_init_strategies (map strategy_of (supported q)) = Inr fallback"
    and h: "hydrate_candidates q res = Inr cs"
    and out: "settled f fallback post_init_strategies (validate_strategies q) res"
      "mo_node p = STRATEGY_GENERATION" "mo_status p = (if f then FALLBACK else PredictionStatus.SUCCEEDED)"
    by (auto simp: generate_strategies_def bindR_eq_Inr dest!: invoke_model_Inr)
  have ok: "distinct (map so_action_type res) \<and> (\<forall>i\<in>set res. keeps_to q i)"
  proof (cases f)
    case True
    with out(1) post_init_outputs_Inr(2) [OF fb] fallback_strategies_keep [of q] show ?thesis by (simp add: settled_def)
  next
    case False
    with out(1) validate_strategies_Inr show ?thesis by (auto simp: settled_def dest: post_init_outputs_Inr(2))
  qed
  have H: "(\<forall>a\<in>set cs. derived q a) \<and> map ca_action_type cs = map so_action_type res @ [ActionType.NO_ACTION]"
    using hydrate_from_derived [of q 1 res cs] h ok by (simp add: hydrate_candidates_def)
  have cs: "cs \<noteq> []" using H by auto
  then have "ca_action_type (last cs) = last (map ca_action_type cs)" by (simp add: last_map)
  then have "ends_with_no_action cs" using H cs by (simp add: ends_with_no_action_def)
  moreover have "ActionType.NO_ACTION \<notin> so_action_type ` set res" using ok by (auto simp: keeps_to_def)
  ultimately show ?thesis using H ok out by (auto split: if_splits)
qed

lemma rank_derived:
  assumes "rank b w q d cs = Inr (ranked, p, f)" "\<forall>c\<in>set cs. derived q c" "ends_with_no_action cs"
  shows "(\<forall>a\<in>set ranked. derived q a) \<and> ends_with_no_action ranked
    \<and> map ca_rank ranked = ranks_from_one (length ranked)
    \<and> mset (map ca_action_type ranked) = mset (map ca_action_type cs)
    \<and> mo_node p = RANKING \<and> (f \<longleftrightarrow> mo_status p = FALLBACK)"
proof -
  from assms(1) obtain fallback res where fb: "post_init_ranking (map ca_action_type cs) = Inr fallback"
    and r: "ranked_from cs 1 res = Inr ranked"
    and out: "settled f fallback post_init_ranking (validate_ranking cs) res"
      "mo_node p = RANKING" "mo_status p = (if f then FALLBACK else PredictionStatus.SUCCEEDED)"
    by (auto simp: rank_def bindR_eq_Inr dest!: invoke_model_Inr)
  note F = post_init_outputs_Inr(3) [OF fb]
  have last: "last (map ca_action_type cs) = ActionType.NO_ACTION"
    using assms(3) by (simp add: ends_with_no_action_def last_map)
  have ok: "res \<noteq> [] \<and> last res = ActionType.NO_ACTION \<and> mset res = mset (map ca_action_type cs)"
  proof (cases f)
    case True
    with out(1) F last show ?thesis by (simp add: settled_def)
  next
    case False
    with out(1) have o': "distinct res" "res \<noteq> []" "set res = ca_action_type ` set cs"
      "last res = ActionType.NO_ACTION"
      by (auto simp: settled_def validate_ranking_def raise_first_ok_iff dest: post_init_outputs_Inr(3))
    then show ?thesis using F set_eq_iff_mset_eq_distinct [of res "map ca_action_type cs"] by simp
  qed
  note R = ranked_from_derived [OF r assms(2)]
  then have len: "length ranked = length res" by (metis length_map)
  have "ranked \<noteq> []" using ok len by auto
  then have "ends_with_no_action ranked" using ok R by (metis ends_with_no_action_def last_map)
  then show ?thesis using R ok out len by (auto simp: ranks_from_one_def split: if_splits)
qed

section \<open>The recommendation\<close>

lemma diagnose_bounded:
  assumes "diagnose b w q snapshot = Inr (d, p, f)"
  shows "code_pattern (do_diagnosis_code d) \<and> 0 \<le> do_confidence_basis_points d \<and> do_confidence_basis_points d \<le> 10000
    \<and> do_confidence_basis_points d \<le> cq_diagnosis_confidence_basis_points q
    \<and> (cq_terminal_diagnosis q \<longrightarrow> do_diagnosis_code d = cq_diagnosis_code q)
    \<and> mo_node p = DIAGNOSIS_ASSISTANCE \<and> (f \<longleftrightarrow> mo_status p = FALLBACK)"
proof -
  let ?kept = "\<lparr>do_diagnosis_code = cq_diagnosis_code q,
        do_confidence_basis_points = cq_diagnosis_confidence_basis_points q,
        do_rationale = ''Deterministic diagnosis retained.''\<rparr>"
  from assms obtain fallback where fb: "post_init_diagnosis_output ?kept = Inr fallback"
    and out: "settled f fallback post_init_diagnosis_output (validate_diagnosis q) d"
      "mo_node p = DIAGNOSIS_ASSISTANCE" "mo_status p = (if f then FALLBACK else PredictionStatus.SUCCEEDED)"
    by (auto simp: diagnose_def bindR_eq_Inr dest!: invoke_model_Inr)
  note F = post_init_outputs_Inr(1) [OF fb]
  show ?thesis
  proof (cases f)
    case True
    with out F show ?thesis by (auto simp: settled_def)
  next
    case False
    with out show ?thesis
      by (auto simp: settled_def validate_diagnosis_def raise_first_ok_iff dest!: post_init_outputs_Inr(1))
  qed
qed

lemma explain_nonempty:
  "explain b w q d ranked = Inr (e, p, f) \<Longrightarrow> e \<noteq> [] \<and> mo_node p = EXPLANATION \<and> (f \<longleftrightarrow> mo_status p = FALLBACK)"
  by (cases f) (auto simp: explain_def bindR_eq_Inr settled_def dest!: invoke_model_Inr post_init_outputs_Inr(4))

definition graph_nodes :: "ModelNode list" where
  "graph_nodes = [DIAGNOSIS_ASSISTANCE, STRATEGY_GENERATION, RANKING, EXPLANATION]"

lemma run_graph_bounded:
  assumes "run_graph b w q = Inr (d, ranked, e, ps, f)"
  shows "code_pattern (do_diagnosis_code d) \<and> 0 \<le> do_confidence_basis_points d \<and> do_confidence_basis_points d \<le> 10000
    \<and> do_confidence_basis_points d \<le> cq_diagnosis_confidence_basis_points q
    \<and> (cq_terminal_diagnosis q \<longrightarrow> do_diagnosis_code d = cq_diagnosis_code q)
    \<and> (\<forall>a\<in>set ranked. derived q a) \<and> ends_with_no_action ranked
    \<and> map ca_rank ranked = ranks_from_one (length ranked) \<and> distinct (map ca_action_type ranked)
    \<and> e \<noteq> [] \<and> map mo_node ps = graph_nodes \<and> (f \<longleftrightarrow> (\<exists>p\<in>set ps. mo_status p = FALLBACK))"
proof -
  from assms obtain snapshot p1 f1 cs p2 f2 p3 f3 p4 f4 where
    1: "diagnose b w q snapshot = Inr (d, p1, f1)" and 2: "generate_strategies b w q snapshot d = Inr (cs, p2, f2)"
    and 3: "rank b w q d cs = Inr (ranked, p3, f3)" and 4: "explain b w q d ranked = Inr (e, p4, f4)"
    and ps: "ps = [p1, p2, p3, p4]" "f \<longleftrightarrow> f1 \<or> f2 \<or> f3 \<or> f4"
    unfolding run_graph_def
    by (simp only: bindR_eq_Inr split_paired_Ex prod.case sum.inject prod.inject) blast
  note D = diagnose_bounded [OF 1] and S = generate_strategies_derived [OF 2]
  note R = rank_derived [OF 3 S [THEN conjunct1] S [THEN conjunct2, THEN conjunct1]] and E = explain_nonempty [OF 4]
  have "distinct (map ca_action_type ranked)" using S R by (metis mset_eq_imp_distinct_iff)
  with D S R E ps show ?thesis by (auto simp: graph_nodes_def)
qed

lemma recommend_cases:
  assumes "recommend b w q = Inr r"
  obtains (graph) d ranked e ps f where "wd_interrupted w = None" "run_graph b w q = Inr (d, ranked, e, ps, f)"
      "cr_diagnosis_code r = do_diagnosis_code d" "cr_confidence_basis_points r = do_confidence_basis_points d"
      "cr_candidates r = ranked" "cr_explanation r = e" "cr_predictions r = ps" "cr_fallback_used r = f"
      "post_init_result r = Inr r"
  | (fallback) code p where "wd_interrupted w = Some code \<or> code = ''GRAPH_ERROR''"
      "cr_diagnosis_code r = cq_diagnosis_code q"
      "cr_confidence_basis_points r = cq_diagnosis_confidence_basis_points q" "cr_candidates r = cq_candidates q"
      "cr_predictions r = [p]" "mo_node p = GRAPH" "mo_status p = FALLBACK" "cr_fallback_used r"
      "post_init_result r = Inr r"
proof -
  have fb: thesis if "graph_fallback b q code = Inr r" "wd_interrupted w = Some code \<or> code = ''GRAPH_ERROR''" for code
  proof -
    from that(1) obtain e digest out l t c p where p: "new_prediction b q GRAPH FALLBACK digest out l t c = Inr p"
      and r: "post_init_result \<lparr>cr_diagnosis_code = cq_diagnosis_code q,
        cr_confidence_basis_points = cq_diagnosis_confidence_basis_points q, cr_candidates = cq_candidates q,
        cr_explanation = e, cr_predictions = [p], cr_model_version = sm_model_version (bi_model b),
        cr_prompt_version = bi_prompt_version b, cr_schema_version = bi_schema_version b,
        cr_feature_version = cq_feature_version q, cr_fallback_used = True\<rparr> = Inr r"
      by (auto simp: graph_fallback_def bindR_eq_Inr)
    from post_init_result_Inr [OF r] r new_prediction_Inr [OF p] that(2) show thesis
      by (intro fallback [of code p]) auto
  qed
  show thesis
  proof (cases "wd_interrupted w")
    case (Some code)
    with assms fb [of code] show thesis by (simp add: recommend_def)
  next
    case None
    show thesis
    proof (cases "run_graph b w q")
      case (Inl x)
      with None assms fb [of "''GRAPH_ERROR''"] show thesis by (simp add: recommend_def)
    next
      case (Inr g)
      obtain d ranked e ps f where g: "g = (d, ranked, e, ps, f)" by (cases g)
      with None Inr assms have r: "post_init_result
               \<lparr>cr_diagnosis_code = do_diagnosis_code d, cr_confidence_basis_points = do_confidence_basis_points d,
                cr_candidates = ranked, cr_explanation = e, cr_predictions = ps,
                cr_model_version = sm_model_version (bi_model b), cr_prompt_version = bi_prompt_version b,
                cr_schema_version = bi_schema_version b, cr_feature_version = cq_feature_version q,
                cr_fallback_used = f\<rparr> = Inr r" by (simp add: recommend_def)
      from post_init_result_Inr [OF r] r None Inr g show thesis by (intro graph [of d ranked e ps f]) auto
    qed
  qed
qed

lemma derived_moves:
  assumes "wf_candidates q" "derived q a"
  shows "\<exists>c\<in>set (cq_candidates q). ca_action_type a = ca_action_type c \<and> ca_target a = ca_target c
      \<and> ca_logical_attempt a = ca_logical_attempt c \<and> ca_channel a = ca_channel c"
  using assms wf_candidateD(4) by (fastforce simp: derived_def wf_candidates_def)

lemma recommendation_moves:
  assumes "recommend b w q = Inr r" "wf_candidates q" "a \<in> set (cr_candidates r)"
  shows "wf_candidate a \<and> (\<exists>c\<in>set (cq_candidates q). ca_action_type a = ca_action_type c
    \<and> ca_target a = ca_target c \<and> ca_logical_attempt a = ca_logical_attempt c \<and> ca_channel a = ca_channel c)"
  using assms(1)
proof (cases rule: recommend_cases)
  case (graph d ranked e ps f)
  then have "derived q a" using run_graph_bounded [OF graph(2)] assms(3) by simp
  with derived_moves [OF assms(2)] show ?thesis by (simp add: derived_def)
next
  case (fallback code p)
  with assms(2,3) show ?thesis by (auto simp: wf_candidates_def)
qed

lemma recommendation_confidence:
  "recommend b w q = Inr r \<Longrightarrow> cr_confidence_basis_points r \<le> cq_diagnosis_confidence_basis_points q"
  by (elim recommend_cases) (auto dest: run_graph_bounded)

text \<open>
  Property C16. Advice stays within its bounds. Whatever the model answers, a recommendation for a request
  with valid candidates passes its validation; every candidate is valid and has the action type,
  target, logical attempt and channel of a candidate of the request; the last one does nothing; the
  confidence is at most the deterministic one and a terminal diagnosis keeps its code. A
  recommendation that used no fallback comes with one successful prediction of every node.
\<close>

theorem recommendation_is_bounded:
  assumes "wf_candidates q" and "recommend b w q = Inr r"
  shows "post_init_result r = Inr r \<and> ends_with_no_action (cr_candidates r)
    \<and> (\<forall>a\<in>set (cr_candidates r). wf_candidate a \<and> (\<exists>c\<in>set (cq_candidates q).
         ca_action_type a = ca_action_type c \<and> ca_target a = ca_target c
         \<and> ca_logical_attempt a = ca_logical_attempt c \<and> ca_channel a = ca_channel c))
    \<and> cr_confidence_basis_points r \<le> cq_diagnosis_confidence_basis_points q
    \<and> (cq_terminal_diagnosis q \<longrightarrow> cr_diagnosis_code r = cq_diagnosis_code q)
    \<and> (\<not> cr_fallback_used r \<longrightarrow> map mo_node (cr_predictions r) = graph_nodes
         \<and> (\<forall>p\<in>set (cr_predictions r). mo_status p = PredictionStatus.SUCCEEDED))"
  using assms(2)
proof (cases rule: recommend_cases)
  case (graph d ranked e ps f)
  note G = run_graph_bounded [OF graph(2)]
  have "\<forall>p\<in>set ps. mo_status p = PredictionStatus.SUCCEEDED" if "\<not> f"
    using that G PredictionStatus.exhaust by blast
  then show ?thesis
    using G graph post_init_result_Inr [OF graph(9)] recommendation_moves [OF assms(2,1)] by auto
next
  case (fallback code p)
  with assms(1) post_init_result_Inr [OF fallback(9)] show ?thesis by (auto simp: wf_candidates_def)
qed

text \<open>A request whose identifiers fit their columns, and a configured intelligence.\<close>

definition wf_request :: "CaseIntelligenceRequest \<Rightarrow> bool" where
  "wf_request q \<longleftrightarrow> post_init_request q = Inr q
     \<and> (\<forall>i\<in>{cq_run_id q, cq_case_id q, cq_merchant_id q, cq_correlation_id q, cq_feature_version q}. length i \<le> 128)
     \<and> length (cq_diagnosis_code q) \<le> 128"

definition wf_intelligence :: "BoundedCaseIntelligence \<Rightarrow> bool" where
  "wf_intelligence b \<longleftrightarrow> post_init_budget (bi_budget b) = Inr (bi_budget b)
     \<and> (\<forall>v\<in>{sm_model_version (bi_model b), bi_prompt_version b, bi_schema_version b}. v \<noteq> [] \<and> length v \<le> 128)"

lemma round_half_even_nonneg: "0 \<le> x \<Longrightarrow> 0 \<le> round_half_even x"
  by (auto simp: round_half_even_def Let_def)

lemma new_prediction_ok:
  assumes "wf_request q" "wf_intelligence b" "0 \<le> l" "0 \<le> fst tokens" "0 \<le> snd tokens" "hex64 digest"
    "isupper code" "length code \<le> 128"
  shows "\<exists>p. new_prediction b q node FALLBACK digest out l tokens (Some code) = Inr p"
proof -
  have code: "code \<noteq> []" using assms(7) by (auto simp: isupper_def)
  have "utc ''evaluated_at'' (cq_evaluated_at q) = Inr (cq_evaluated_at q)" 
    using assms(1) by (auto simp: wf_request_def post_init_request_def bindR_eq_Inr utc_eq_Inr)
  then have t: "is_aware (cq_evaluated_at q)" by (auto simp: utc_eq_Inr)
  show ?thesis
    using assms code t
    by (auto simp: new_prediction_def post_init_prediction_def wf_request_def wf_intelligence_def post_init_request_def
        bindR_eq_Inr raise_first_ok_iff prediction_identifier_def prediction_count_def blank_or_longer_def
        intro!: raise_first_okI)
qed

lemma graph_fallback_ok:
  assumes "wf_request q" "wf_intelligence b" "code \<in> {''GRAPH_TIMEOUT'', ''GRAPH_ERROR''}"
  shows "\<exists>r. graph_fallback b q code = Inr r"
proof -
  have code: "isupper code" "length code \<le> 128"
    using assms(3) by (auto simp: isupper_def is_upper_char_def is_lower_char_def Let_def)
  have budget: "0 \<le> round_half_even (ab_workflow_timeout_seconds (bi_budget b) * 1000)"
    using assms(2) by (intro round_half_even_nonneg)
      (auto simp: wf_intelligence_def post_init_budget_def bindR_eq_Inr raise_first_ok_iff)
  let ?e = "fallback_explanation (cq_diagnosis_code q)"
  have e: "post_init_explanation ?e = Inr ?e"
    using assms(1) by (auto simp: post_init_explanation_def fallback_explanation_def wf_request_def bindR_eq_Inr
        intro!: raise_first_okI)
  let ?digest = "payload_digest (JObj [(''workflow_type'', JStr (workflow_value (cq_workflow_type q))),
          (''subject_type'', JStr (subject_value (cq_subject_type q))),
          (''diagnosis_code'', JStr (cq_diagnosis_code q))])"
  obtain p where p: "new_prediction b q GRAPH FALLBACK ?digest (dump_explanation ?e)
      (round_half_even (ab_workflow_timeout_seconds (bi_budget b) * 1000)) (0, 0) (Some code) = Inr p"
    using new_prediction_ok [OF assms(1,2) budget _ _ _ code] by (fastforce simp: payload_digest_def)
  show ?thesis
    using e p assms(1,2)
    by (auto simp: graph_fallback_def post_init_result_def wf_request_def wf_intelligence_def post_init_request_def
        bindR_eq_Inr raise_first_ok_iff fallback_explanation_def intro!: raise_first_okI)
qed


text \<open>
  A request that offers nothing but \<open>NO_ACTION\<close> never reaches the end of the graph: the fallback
  of the strategies is an empty tuple, which its contract refuses.
\<close>

lemma lone_no_action_falls_back:
  assumes "supported q = []" and "wd_interrupted w = None"
  shows "recommend b w q = graph_fallback b q ''GRAPH_ERROR''"
proof -
  have "\<exists>e. post_init_strategies [] = Inl e"
    by (simp add: post_init_strategies_def length_field_def raise_first.simps)
  then obtain e where "post_init_strategies [] = Inl e" by blast
  then have "generate_strategies b w q x d = Inl e" for x d
    using assms(1) by (simp add: generate_strategies_def)
  then have "\<exists>e. run_graph b w q = Inl e"
    by (auto simp: run_graph_def bindR_def split: sum.splits)
  then show ?thesis using assms(2) by (auto simp: recommend_def)
qed

end
