(* ===== verification/Recovery.thy ===== *)
theory Recovery
  imports Agent_Contracts Execution_Theorems Diagnosis
begin

text \<open>
  \<open>recovery/service.py\<close>: the service that turns a normalised event into a recovery case, asks the
  advisory intelligence and the policy, and authorises durable actions. The intelligence
  (\<open>recommend\<close>), the zones of the database, the identifiers of \<open>uuid4\<close> and the clock reading are
  parameters. Every operation is one database transaction.
\<close>


section \<open>Data\<close>

definition APPLICATION_VERSION :: string where
  "APPLICATION_VERSION = ''0.1.0-phase7''"

definition PAID_STATUSES :: "string set" where
  "PAID_STATUSES = {''CAPTURED'', ''CHARGED'', ''COMPLETED'', ''PAID''}"

definition CANCELLED_STATUSES :: "string set" where
  "CANCELLED_STATUSES = {''CANCELLED'', ''ESCALATED''}"

record RecoveryServiceResult =
  rx_normalized_event_id :: "string option"
  rx_case_id :: "string option"
  rx_case_state :: "CaseState option"
  rx_disposition :: "EvidenceDisposition option"
  rx_reason_code :: string
  rx_receipt_id :: "string option"
  rx_review_id :: "string option"
  rx_action_id :: "string option"

record RecoverySettings =
  rs_application_version :: string
  rs_review_ttl :: int
  rs_scoring_artifact :: LogisticScoringArtifact
  rs_action_economics :: ActionEconomics

text \<open>The constructor, with the artifact and the economics it falls back to.\<close>

definition new_service ::
    "string \<Rightarrow> int \<Rightarrow> LogisticScoringArtifact option \<Rightarrow> ActionEconomics option \<Rightarrow> RecoverySettings result" where
  "new_service application_version review_ttl artifact economics =
     bindR (raise_first
       [(application_version = [], ValueError ''application_version is required''),
        (review_ttl \<le> 0, ValueError ''review_ttl must be positive'')]) (\<lambda>_.
     bindR (case artifact of Some a \<Rightarrow> Inr a | None \<Rightarrow> synthetic_default_scoring_artifact) (\<lambda>a.
     bindR (case economics of Some e \<Rightarrow> Inr e | None \<Rightarrow> default_action_economics) (\<lambda>e.
     Inr \<lparr>rs_application_version = application_version, rs_review_ttl = review_ttl,
          rs_scoring_artifact = a, rs_action_economics = e\<rparr>)))"

primrec classification_value :: "ArtifactClassification \<Rightarrow> string" where
  "classification_value SYNTHETIC = ''SYNTHETIC''"
| "classification_value PRODUCTION = ''PRODUCTION''"

type_synonym intelligence = "CaseIntelligenceRequest \<Rightarrow> CaseIntelligenceResult result"

text \<open>\<open>_new_id\<close>; \<open>uuid4().hex\<close> is the identifier without its hyphens.\<close>

definition new_id :: "(nat \<Rightarrow> string) \<Rightarrow> string \<Rightarrow> ('a recovery_db_scheme, string) tx" where
  "new_id uuids prefix =
     bindT (draw_uuid uuids) (\<lambda>u.
     let material = prefix @ '':'' @ filter (\<lambda>c. c \<noteq> CHR ''-'') u in
     returnT (prefix @ ''_'' @ take 32 (sha256_hex material)))"

text \<open>The part of a string after the last occurrence of a character: \<open>rsplit(c, maxsplit=1)[-1]\<close>.\<close>

definition after_last :: "char \<Rightarrow> string \<Rightarrow> string" where
  "after_last c s = rev (takeWhile (\<lambda>d. d \<noteq> c) (rev s))"

definition event_status :: "string \<Rightarrow> string" where
  "event_status event_type = str_upper (after_last CHR ''.'' event_type)"

definition event_from_row :: "NormalizedRow \<Rightarrow> RevenueRiskEvent result" where
  "event_from_row row = post_init_event (RevenueRiskEvent.truncate row)"

definition no_action_diagnosis :: "RecoveryCase \<Rightarrow> Diagnosis result" where
  "no_action_diagnosis c =
     bindR (post_init_candidate
       \<lparr>ca_action_type = ActionType.NO_ACTION, ca_recovery_probability_basis_points = 0,
        ca_expected_net_recovery_minor = 0, ca_rank = 1, ca_target = rc_subject_id c,
        ca_logical_attempt = 1, ca_channel = None, ca_action_cost_minor = 0,
        ca_risk_penalty_minor = 0, ca_customer_friction_penalty_minor = 0\<rparr>) (\<lambda>a.
     Inr \<lparr>dg_code = or_default (rc_diagnosis c) ''NO_RECOVERY_DIAGNOSIS'',
          dg_confidence_basis_points =
            round_half_even ((case rc_diagnosis_confidence c of None \<Rightarrow> 0 | Some x \<Rightarrow> x) * 10000),
          dg_candidates = [a], dg_defer_until = None, dg_terminal = False\<rparr>)"

text \<open>\<open>get_normalized_event\<close> of the repository.\<close>

definition get_normalized_event ::
    "string \<Rightarrow> string \<Rightarrow> ('a recovery_db_scheme, NormalizedRow option) tx" where
  "get_normalized_event merchant_id normalized_event_id =
     bindT (getT (\<lambda>s. filter (\<lambda>n. ev_merchant_id n = merchant_id \<and> ev_event_id n = normalized_event_id)
       (db_normalized s))) one_or_noneT"


section \<open>Transitions\<close>

text \<open>The keyword arguments of \<open>_transition\<close>.\<close>

record ServiceTransition =
  sv_to_state :: CaseState
  sv_actor :: string
  sv_reason_code :: string
  sv_correlation_id :: string
  sv_policy_version :: string
  sv_occurred_at :: datetime
  sv_reason_detail :: "string option"
  sv_terminal_reason :: "string option"
  sv_next_evaluation_at :: "datetime option"
  sv_diagnosis :: "Diagnosis option"
  sv_latest_event :: "RevenueRiskEvent option"
  sv_increment_retry :: bool

definition new_transition ::
    "CaseState \<Rightarrow> string \<Rightarrow> string \<Rightarrow> string \<Rightarrow> MerchantPolicySnapshot \<Rightarrow> datetime \<Rightarrow> ServiceTransition" where
  "new_transition to_state actor reason_code correlation_id policy occurred_at =
     \<lparr>sv_to_state = to_state, sv_actor = actor, sv_reason_code = reason_code,
      sv_correlation_id = correlation_id, sv_policy_version = mp_version policy,
      sv_occurred_at = occurred_at, sv_reason_detail = None, sv_terminal_reason = None,
      sv_next_evaluation_at = None, sv_diagnosis = None, sv_latest_event = None,
      sv_increment_retry = False\<rparr>"

definition service_request :: "RecoveryCase \<Rightarrow> ServiceTransition \<Rightarrow> TransitionRequest" where
  "service_request c q =
     \<lparr>tr_expected_version = rc_state_version c, tr_to_state = sv_to_state q, tr_actor = sv_actor q,
      tr_reason_code = sv_reason_code q, tr_correlation_id = sv_correlation_id q,
      tr_occurred_at = sv_occurred_at q, tr_reason_detail = sv_reason_detail q,
      tr_policy_version = sv_policy_version q, tr_authoritative_evidence_reference = None,
      tr_terminal_reason = sv_terminal_reason q, tr_next_evaluation_at = sv_next_evaluation_at q\<rparr>"

definition with_diagnosis :: "Diagnosis \<Rightarrow> RecoveryCase \<Rightarrow> RecoveryCase result" where
  "with_diagnosis d c = post_init_case
     (c\<lparr>rc_diagnosis := Some (dg_code d),
        rc_diagnosis_confidence := Some (of_int (dg_confidence_basis_points d) / 10000)\<rparr>)"

definition service_transition ::
    "(nat \<Rightarrow> string) \<Rightarrow> ServiceTransition \<Rightarrow> RecoveryCase \<Rightarrow> ('a recovery_db_scheme, RecoveryCase) tx" where
  "service_transition uuids q c =
     bindT (liftR (transition_case c (service_request c q))) (\<lambda>(updated, transition).
     bindT (liftR (case sv_diagnosis q of None \<Rightarrow> Inr updated | Some d \<Rightarrow> with_diagnosis d updated)) (\<lambda>u1.
     bindT (liftR (if sv_increment_retry q then post_init_case (u1\<lparr>rc_retry_count := rc_retry_count u1 + 1\<rparr>)
                   else Inr u1)) (\<lambda>u2.
     seqT (apply_transition uuids u2 transition
             (map_option (\<lambda>e. (ev_event_id e, Some (ev_occurred_at e))) (sv_latest_event q)))
     (returnT u2))))"

definition require_case :: "string \<Rightarrow> string \<Rightarrow> ('a recovery_db_scheme, RecoveryCase) tx" where
  "require_case merchant_id case_id =
     bindT (get_case merchant_id case_id)
       (requireT (LookupError ''tenant-scoped recovery case does not exist''))"

definition link_audit_only ::
    "NormalizedRow \<Rightarrow> string option \<Rightarrow> CaseState option \<Rightarrow> string \<Rightarrow> ('a recovery_db_scheme, RecoveryServiceResult) tx" where
  "link_audit_only row case_id case_state reason_code =
     bindT (link_evidence (ev_merchant_id row) (ev_event_id row) case_id AUDIT_ONLY reason_code) (\<lambda>link.
     returnT \<lparr>rx_normalized_event_id = Some (ev_event_id row), rx_case_id = case_id,
       rx_case_state = case_state, rx_disposition = Some (ce_disposition (el_link link)),
       rx_reason_code = (if el_created link then reason_code else ''EVENT_ALREADY_LINKED''),
       rx_receipt_id = None, rx_review_id = None, rx_action_id = None\<rparr>)"

definition advance_to_decision_pending ::
    "(nat \<Rightarrow> string) \<Rightarrow> Diagnosis \<Rightarrow> RevenueRiskEvent \<Rightarrow> MerchantPolicySnapshot \<Rightarrow> datetime \<Rightarrow> RecoveryCase \<Rightarrow>
     ('a recovery_db_scheme, RecoveryCase) tx" where
  "advance_to_decision_pending uuids diagnosis e policy evaluated_at c0 =
     (let move = (\<lambda>to_state reason.
            new_transition to_state ''RECOVERY_SERVICE'' reason (ev_correlation_id e) policy evaluated_at);
          informed = (\<lambda>q. q\<lparr>sv_diagnosis := Some diagnosis, sv_latest_event := Some e\<rparr>) in
      bindT (if rc_state c0 = DETECTED
             then service_transition uuids (move DIAGNOSING ''DIAGNOSIS_STARTED'') c0
             else returnT c0) (\<lambda>c.
      if rc_state c = DIAGNOSING
      then service_transition uuids (informed (move DECISION_PENDING ''DIAGNOSIS_COMPLETED'')) c
      else if rc_state c = DEFERRED
      then service_transition uuids (informed (move DECISION_PENDING ''NEW_EVIDENCE_REEVALUATION'')) c
      else if rc_state c = DECISION_PENDING then liftR (with_diagnosis diagnosis c)
      else returnT c))"

section \<open>Deliberation\<close>

definition evidence_summary :: "NormalizedRow \<Rightarrow> string" where
  "evidence_summary row = ''A normalized provider event reports ''
     @ failure_category_value (ev_failure_category row) @ '' for this case.''"

definition run_material :: "RecoveryCase \<Rightarrow> NormalizedRow \<Rightarrow> datetime \<Rightarrow> string" where
  "run_material c row evaluated_at =
     join '':'' [rc_case_id c, ev_correlation_id row, show_int (rc_state_version c), isoformat evaluated_at]"

text \<open>\<open>diagnosis.candidates[0]\<close> raises an \<open>IndexError\<close>, a \<open>LookupError\<close>, when there is none.\<close>

definition intelligence_request ::
    "RecoveryCase \<Rightarrow> Diagnosis \<Rightarrow> NormalizedRow \<Rightarrow> datetime \<Rightarrow> CaseIntelligenceRequest result" where
  "intelligence_request c diagnosis row evaluated_at =
     bindR (case dg_candidates diagnosis of [] \<Rightarrow> Inl (LookupError ''tuple index out of range'')
            | a # _ \<Rightarrow> Inr (ca_target a)) (\<lambda>target.
     bindR (post_init_evidence
       \<lparr>ei_reference = ev_event_id row, ei_event_type = ev_event_type row,
        ei_failure_category = failure_category_value (ev_failure_category row),
        ei_summary = evidence_summary row, ei_occurred_at = ev_occurred_at row\<rparr>) (\<lambda>evidence.
     post_init_request
       \<lparr>cq_run_id = ''intelligence_'' @ take 32 (sha256_hex (run_material c row evaluated_at)),
        cq_case_id = rc_case_id c, cq_merchant_id = rc_merchant_id c,
        cq_correlation_id = ev_correlation_id row, cq_workflow_type = rc_workflow_type c,
        cq_subject_type = rc_subject_type c, cq_target = target,
        cq_amount_minor = rc_revenue_at_risk_minor c, cq_currency = rc_currency c,
        cq_diagnosis_code = dg_code diagnosis,
        cq_diagnosis_confidence_basis_points = dg_confidence_basis_points diagnosis,
        cq_candidates = dg_candidates diagnosis, cq_retry_count = rc_retry_count c,
        cq_contact_count = rc_contact_count c, cq_evidence = [evidence],
        cq_feature_version = ''phase5-case-features-1.0'', cq_evaluated_at = evaluated_at,
        cq_terminal_diagnosis = dg_terminal diagnosis\<rparr>))"

text \<open>The intelligence may rename a diagnosis that is not terminal, and only lower its confidence.\<close>

definition advisory_diagnosis :: "Diagnosis \<Rightarrow> CaseIntelligenceResult \<Rightarrow> Diagnosis" where
  "advisory_diagnosis diagnosis r =
     \<lparr>dg_code = (if dg_terminal diagnosis then dg_code diagnosis else cr_diagnosis_code r),
      dg_confidence_basis_points = min (dg_confidence_basis_points diagnosis) (cr_confidence_basis_points r),
      dg_candidates = cr_candidates r, dg_defer_until = dg_defer_until diagnosis,
      dg_terminal = dg_terminal diagnosis\<rparr>"

definition systemic_incident :: "IncidentConstraint list \<Rightarrow> IncidentConstraint option" where
  "systemic_incident incidents = find (\<lambda>i. ic_scope i \<in> {PAYMENT_RAIL, GATEWAY, ISSUER}) incidents"

definition attach_incident :: "IncidentConstraint list \<Rightarrow> RecoveryCase \<Rightarrow> RecoveryCase result" where
  "attach_incident incidents c =
     (case systemic_incident incidents of
        None \<Rightarrow> Inr c
      | Some i \<Rightarrow> post_init_case (c\<lparr>rc_active_incident_id := Some (ic_incident_id i)\<rparr>))"

record ContactFacts =
  cf_aggregate_contact_count :: int
  cf_active_case_ids :: "string list"
  cf_active_intervention_id :: "string option"

definition portfolio_facts :: "RecoveryCase \<Rightarrow> datetime \<Rightarrow> ('a recovery_db_scheme, ContactFacts) tx" where
  "portfolio_facts c evaluated_at =
     (case rc_customer_id c of
        None \<Rightarrow> returnT \<lparr>cf_aggregate_contact_count = rc_contact_count c,
                  cf_active_case_ids = [rc_case_id c], cf_active_intervention_id = None\<rparr>
      | Some customer \<Rightarrow>
          bindT (customer_contact_snapshot (rc_merchant_id c) customer) (\<lambda>x.
          seqT (if cx_active_intervention_id x \<noteq> None
                then coordinate_case_with_active_intervention (rc_merchant_id c) customer (rc_case_id c) evaluated_at
                else returnT ())
          (returnT \<lparr>cf_aggregate_contact_count = cx_aggregate_contact_count x,
             cf_active_case_ids = (if cx_active_case_ids x = [] then [rc_case_id c] else cx_active_case_ids x),
             cf_active_intervention_id = cx_active_intervention_id x\<rparr>)))"

text \<open>\<open>except ArithmeticError, ValueError\<close>.\<close>

fun scoring_error :: "exn \<Rightarrow> bool" where
  "scoring_error (ValueError _) = True"
| "scoring_error (ArithmeticError _) = True"
| "scoring_error _ = False"

definition score_candidates ::
    "RecoverySettings \<Rightarrow> CandidateAction list \<Rightarrow> RecoveryScoringContext \<Rightarrow> ActionType set \<Rightarrow>
     RecoveryScoringResult result" where
  "score_candidates settings candidates x allowed =
     (let artifact = rs_scoring_artifact settings; economics = rs_action_economics settings in
      case bindR (post_init_context x) (\<lambda>y.
             rank_candidates_by_expected_net_recovery candidates y artifact economics allowed) of
        Inr r \<Rightarrow> Inr r
      | Inl e \<Rightarrow>
          if scoring_error e
          then Inr \<lparr>sr_candidates = candidates, sr_model_version = sa_model_version artifact,
                 sr_feature_version = sa_feature_version artifact, sr_economics_version = ec_version economics,
                 sr_artifact_classification = sa_classification artifact,
                 sr_fallback_reason = Some ''SCORING_INFERENCE_FAILED''\<rparr>
          else Inl e)"

definition scoring_context ::
    "RecoveryCase \<Rightarrow> ContactFacts \<Rightarrow> Diagnosis \<Rightarrow> NormalizedRow \<Rightarrow> IncidentConstraint list \<Rightarrow> datetime \<Rightarrow>
     RecoveryScoringContext" where
  "scoring_context c contact advisory row incidents evaluated_at =
     \<lparr>sx_amount_minor = rc_revenue_at_risk_minor c, sx_retry_count = rc_retry_count c,
      sx_aggregate_contact_count = cf_aggregate_contact_count contact,
      sx_diagnosis_confidence_basis_points = dg_confidence_basis_points advisory,
      sx_failure_category = failure_category_value (ev_failure_category row),
      sx_active_systemic_incident = (incidents \<noteq> []), sx_evaluated_at = evaluated_at\<rparr>"

fun any_unknown_equivalent ::
    "RecoveryCase \<Rightarrow> CandidateAction list \<Rightarrow> ('a recovery_db_scheme, bool) tx" where
  "any_unknown_equivalent c [] = returnT False"
| "any_unknown_equivalent c (a # as) =
     (if ca_action_type a = ActionType.NO_ACTION then any_unknown_equivalent c as
      else bindT (has_unknown_equivalent (rc_merchant_id c) (rc_case_id c) (ca_action_type a) (ca_target a)) (\<lambda>b.
        if b then returnT True else any_unknown_equivalent c as))"

definition policy_input ::
    "RecoveryCase \<Rightarrow> NormalizedRow \<Rightarrow> datetime \<Rightarrow> Diagnosis \<Rightarrow> string \<Rightarrow> ContactFacts \<Rightarrow>
     (ContactChannel \<times> ConsentState) list \<times> ContactChannel set \<Rightarrow> IncidentConstraint list \<Rightarrow>
     AuthoritativeFacts \<Rightarrow> HumanReviewRequest option \<Rightarrow> bool \<Rightarrow> PolicyEvaluationInput" where
  "policy_input c row evaluated_at ranked diagnosis_code contact consent incidents facts approval unknown =
     (let status = str_upper (or_default (af_status facts) []) in
      \<lparr>pe_case_id = rc_case_id c, pe_amount_minor = rc_revenue_at_risk_minor c,
       pe_currency = rc_currency c, pe_confidence_basis_points = dg_confidence_basis_points ranked,
       pe_retry_count = rc_retry_count c, pe_contact_count = cf_aggregate_contact_count contact,
       pe_evaluated_at = evaluated_at, pe_candidates = dg_candidates ranked,
       pe_evidence_references = [ev_event_id row], pe_consent_by_channel = fst consent,
       pe_opted_out_channels = snd consent, pe_incidents = incidents,
       pe_already_paid = (status \<in> PAID_STATUSES),
       pe_disputed = (status = ''DISPUTED'' \<or> diagnosis_code = ''PAYMENT_DISPUTED''),
       pe_cancelled = (status \<in> CANCELLED_STATUSES), pe_terminal = False,
       pe_diagnosis_defer_until = dg_defer_until ranked, pe_approval = approval,
       pe_unknown_equivalent_action = unknown,
       pe_customer_contact_in_progress = (cf_active_intervention_id contact \<noteq> None),
       pe_customer_identity_resolved = (rc_customer_id c \<noteq> None),
       pe_active_promise_to_pay = (af_promise_due_at facts \<noteq> None),
       pe_promise_due_at = af_promise_due_at facts\<rparr>)"

text \<open>What \<open>_evaluate_case\<close> knows once the policy has decided.\<close>

record Deliberation =
  dl_checking :: RecoveryCase
  dl_intelligence :: CaseIntelligenceResult
  dl_scoring :: RecoveryScoringResult
  dl_contact :: ContactFacts
  dl_evaluation :: PolicyEvaluationInput
  dl_decision :: PolicyDecision

definition deliberate ::
    "RecoverySettings \<Rightarrow> intelligence \<Rightarrow> (string \<Rightarrow> zone option) \<Rightarrow> (nat \<Rightarrow> string) \<Rightarrow> RecoveryCase \<Rightarrow> Diagnosis \<Rightarrow>
     NormalizedRow \<Rightarrow> MerchantPolicySnapshot \<Rightarrow> datetime \<Rightarrow> HumanReviewRequest option \<Rightarrow>
     ('a recovery_db_scheme, Deliberation) tx" where
  "deliberate settings recommend zones uuids c diagnosis row policy evaluated_at approval =
     bindT (liftR (bindR (intelligence_request c diagnosis row evaluated_at) recommend)) (\<lambda>intelligence.
     let advisory = advisory_diagnosis diagnosis intelligence; m = rc_merchant_id c in
     bindT (liftR (event_from_row row)) (\<lambda>e.
     bindT (service_transition uuids
       ((new_transition POLICY_CHECK ''RECOVERY_SERVICE'' ''POLICY_EVALUATION_STARTED'' (ev_correlation_id row)
           policy evaluated_at)\<lparr>sv_diagnosis := Some advisory, sv_latest_event := Some e\<rparr>) c) (\<lambda>moved.
     bindT (consent_facts m (rc_customer_id c)) (\<lambda>consent.
     bindT (active_incidents m evaluated_at (Some (rc_case_id moved)) (Some (dg_code advisory))) (\<lambda>incidents.
     bindT (liftR (attach_incident incidents moved)) (\<lambda>checking.
     bindT (portfolio_facts c evaluated_at) (\<lambda>contact.
     bindT (liftR (score_candidates settings (dg_candidates advisory)
       (scoring_context c contact advisory row incidents evaluated_at) (mp_allowed_actions policy))) (\<lambda>scoring.
     let ranked = advisory\<lparr>dg_candidates := sr_candidates scoring\<rparr> in
     bindT (authoritative_facts_for_case m checking) (\<lambda>facts.
     bindT (any_unknown_equivalent checking (dg_candidates ranked)) (\<lambda>unknown.
     bindT (liftR (post_init_evaluation
       (policy_input c row evaluated_at ranked (dg_code diagnosis) contact consent incidents facts approval unknown))) (\<lambda>evaluation.
     bindT (liftR (evaluate_policy zones policy evaluation)) (\<lambda>decision.
     returnT \<lparr>dl_checking = checking, dl_intelligence = intelligence, dl_scoring = scoring,
       dl_contact = contact, dl_evaluation = evaluation, dl_decision = decision\<rparr>))))))))))))"


section \<open>Authorisation\<close>

definition build_review ::
    "RecoverySettings \<Rightarrow> (nat \<Rightarrow> string) \<Rightarrow> RecoveryCase \<Rightarrow> MerchantPolicySnapshot \<Rightarrow> PolicyDecision \<Rightarrow> string list \<Rightarrow>
     datetime \<Rightarrow> ('a recovery_db_scheme, HumanReviewRequest) tx" where
  "build_review settings uuids c policy decision evidence requested_at =
     (let candidate = pd_selected_action decision in
      bindT (liftR (post_init_fingerprint
        \<lparr>fi_case_id = rc_case_id c, fi_action_type = action_value (ca_action_type candidate),
         fi_target = ca_target candidate, fi_amount_minor = rc_revenue_at_risk_minor c,
         fi_currency = rc_currency c, fi_logical_attempt = ca_logical_attempt candidate,
         fi_policy_digest = content_digest policy\<rparr>)) (\<lambda>i.
      bindT (new_id uuids ''review'') (\<lambda>review_id.
      liftR (post_init_review
        \<lparr>rv_review_id = review_id, rv_merchant_id = rc_merchant_id c, rv_case_id = rc_case_id c,
         rv_action_fingerprint = fingerprint_digest i,
         rv_proposed_action_type = action_value (ca_action_type candidate),
         rv_evidence_references = evidence, rv_policy_version = mp_version policy,
         rv_policy_digest = content_digest policy, rv_reason_code = last (pd_reason_codes decision),
         rv_risk_detail = ''Policy requires explicit operator approval'',
         rv_requested_at = requested_at, rv_expires_at = plus_delta requested_at (rs_review_ttl settings),
         rv_status = REQUESTED, rv_reviewer_id = None, rv_rationale = None, rv_decided_at = None\<rparr>))))"

definition action_parameters :: "RecoveryCase \<Rightarrow> CandidateAction \<Rightarrow> string list \<Rightarrow> (string \<times> pyval) list" where
  "action_parameters c candidate coordinated =
     [(''amount_minor'', PInt (rc_revenue_at_risk_minor c)), (''currency'', PStr (rc_currency c)),
      (''provider_mode'', PStr ''TEST'')]
     @ (case ca_channel candidate of
          None \<Rightarrow> []
        | Some channel \<Rightarrow> [(''channel'', PStr (''SIMULATED_'' @ channel_value channel)),
            (''coordinated_case_ids'', PList (map PStr coordinated))])"

definition build_action ::
    "RecoveryCase \<Rightarrow> PolicyDecision \<Rightarrow> string \<Rightarrow> datetime \<Rightarrow> string list \<Rightarrow> RecoveryAction option result" where
  "build_action c decision receipt_id authorized_at coordinated =
     (let candidate = pd_selected_action decision; logical_attempt = max 1 (ca_logical_attempt candidate) in
      if pd_result decision \<noteq> PROCEED \<or> ca_action_type candidate = ESCALATE_HUMAN then Inr None
      else
        bindR (action_idempotency_key
          \<lparr>ai_merchant_id = rc_merchant_id c, ai_case_id = rc_case_id c,
           ai_action_type = ca_action_type candidate, ai_target_type = rc_subject_type c,
           ai_target_id = ca_target candidate, ai_logical_attempt = logical_attempt\<rparr>) (\<lambda>key.
        bindR (post_init_action
          \<lparr>ra_action_id = ''action_'' @ take 32 (after_last CHR '':'' key), ra_case_id = rc_case_id c,
           ra_merchant_id = rc_merchant_id c, ra_decision_receipt_id = receipt_id,
           ra_action_type = ca_action_type candidate, ra_target_type = rc_subject_type c,
           ra_target_id = ca_target candidate, ra_logical_attempt = logical_attempt,
           ra_idempotency_key = key, ra_status = PENDING,
           ra_parameters = action_parameters c candidate coordinated, ra_authorized_at = authorized_at,
           ra_execute_after = authorized_at, ra_created_at = authorized_at, ra_updated_at = None,
           ra_schema_version = ''1.0''\<rparr>) (\<lambda>a. Inr (Some a))))"

definition service_receipt ::
    "RecoverySettings \<Rightarrow> RecoveryCase \<Rightarrow> NormalizedRow \<Rightarrow> MerchantPolicySnapshot \<Rightarrow> datetime \<Rightarrow> string option \<Rightarrow>
     Deliberation \<Rightarrow> string \<Rightarrow> CaseState \<Rightarrow> RecoveryAction option \<Rightarrow> DecisionReceipt" where
  "service_receipt settings c row policy evaluated_at review_id d receipt_id resulting_state action =
     (let i = dl_intelligence d; scoring = dl_scoring d; decision = dl_decision d in
      \<lparr>dr_receipt_id = receipt_id, dr_case_id = rc_case_id c, dr_merchant_id = rc_merchant_id c,
       dr_correlation_id = ev_correlation_id row,
       dr_evidence_references = pe_evidence_references (dl_evaluation d),
       dr_candidate_actions = sr_candidates scoring,
       dr_selected_action_type = ca_action_type (pd_selected_action decision),
       dr_explanation = cr_explanation i @ '' Policy evaluation: '' @ join '','' (pd_reason_codes decision),
       dr_policy_result = pd_result decision, dr_policy_reason_codes = pd_reason_codes decision,
       dr_versions = \<lparr>vb_policy = mp_version policy, vb_features = cr_feature_version i,
         vb_application = rs_application_version settings, vb_model = cr_model_version i,
         vb_prompt = cr_prompt_version i, vb_schema = SCHEMA_VERSION\<rparr>,
       dr_created_at = evaluated_at, dr_resulting_state = resulting_state, dr_human_review_id = review_id,
       dr_resulting_action_id = map_option ra_action_id action, dr_audit_entry_id = None,
       dr_model_prediction_ids = map mo_prediction_id (cr_predictions i),
       dr_scoring_model_version = sr_model_version scoring,
       dr_scoring_feature_version = sr_feature_version scoring,
       dr_scoring_economics_version = sr_economics_version scoring,
       dr_scoring_artifact_classification = classification_value (sr_artifact_classification scoring),
       dr_scoring_fallback_reason = sr_fallback_reason scoring, dr_schema_version = ''1.0''\<rparr>)"

definition contact_intervention ::
    "RecoveryCase \<Rightarrow> string \<Rightarrow> RecoveryAction \<Rightarrow> string list \<Rightarrow> MerchantPolicySnapshot \<Rightarrow> string \<Rightarrow> datetime \<Rightarrow>
     CustomerIntervention result" where
  "contact_intervention c customer action coordinated policy model_version evaluated_at =
     post_init_intervention
       \<lparr>ci_intervention_id = ''intervention_''
          @ take 32 (sha256_hex (join '':'' [rc_merchant_id c, customer, ra_action_id action])),
        ci_merchant_id = rc_merchant_id c, ci_customer_id = customer, ci_owner_case_id = rc_case_id c,
        ci_action_id = ra_action_id action, ci_coordinated_case_ids = coordinated,
        ci_status = CustomerInterventionStatus.ACTIVE,
        ci_cooldown_until = plus_delta evaluated_at (seconds (mp_default_defer_seconds policy)),
        ci_model_version = model_version, ci_policy_version = mp_version policy,
        ci_created_at = evaluated_at, ci_updated_at = evaluated_at, ci_closed_at = None,
        ci_close_reason = None\<rparr>"

definition authorize_action ::
    "(nat \<Rightarrow> string) \<Rightarrow> RecoveryCase \<Rightarrow> NormalizedRow \<Rightarrow> MerchantPolicySnapshot \<Rightarrow> datetime \<Rightarrow> Deliberation \<Rightarrow>
     RecoveryAction \<Rightarrow> ('a recovery_db_scheme, unit) tx" where
  "authorize_action uuids c row policy evaluated_at d action =
     seqT (store_action uuids action (mp_version policy) (ev_correlation_id row) 3
             (plus_delta evaluated_at (hours 1)))
     (case rc_customer_id c of
        None \<Rightarrow> returnT ()
      | Some customer \<Rightarrow>
          if ACTION_CLASSES (ra_action_type action) = CUSTOMER_CONTACT
          then bindT (liftR (contact_intervention c customer action (cf_active_case_ids (dl_contact d)) policy
                        (sr_model_version (dl_scoring d)) evaluated_at)) (\<lambda>i.
               seqT (store_customer_intervention i) (returnT ()))
          else returnT ())"

text \<open>The transition that carries a decision out, and the review it may ask for.\<close>

definition decision_transition ::
    "PolicyDecision \<Rightarrow> NormalizedRow \<Rightarrow> MerchantPolicySnapshot \<Rightarrow> datetime \<Rightarrow> ServiceTransition" where
  "decision_transition decision row policy evaluated_at =
     (let reasons = pd_reason_codes decision in
      (new_transition (pd_resulting_state decision) ''POLICY_ENGINE'' (last reasons) (ev_correlation_id row)
          policy evaluated_at)
      \<lparr>sv_reason_detail := Some (join '','' reasons),
       sv_terminal_reason := (if pd_result decision = PolicyResult.STOP then Some (last reasons) else None),
       sv_next_evaluation_at := pd_next_evaluation_at decision,
       sv_increment_retry := (pd_result decision = DEFER
          \<and> ca_action_type (pd_selected_action decision) = DEFER_RETRY
          \<and> last reasons = ''LOW_CONFIDENCE_RETRY_DEFERRED'')\<rparr>)"

definition request_review ::
    "RecoverySettings \<Rightarrow> (nat \<Rightarrow> string) \<Rightarrow> MerchantPolicySnapshot \<Rightarrow> datetime \<Rightarrow> Deliberation \<Rightarrow>
     ('a recovery_db_scheme, HumanReviewRequest option) tx" where
  "request_review settings uuids policy evaluated_at d =
     (if pd_result (dl_decision d) = REQUIRE_HUMAN
      then bindT (build_review settings uuids (dl_checking d) policy (dl_decision d)
                    (pe_evidence_references (dl_evaluation d)) evaluated_at) (\<lambda>r.
           seqT (store_review uuids r) (returnT (Some r)))
      else returnT None)"

definition conclude ::
    "RecoverySettings \<Rightarrow> (nat \<Rightarrow> string) \<Rightarrow> RecoveryCase \<Rightarrow> NormalizedRow \<Rightarrow> MerchantPolicySnapshot \<Rightarrow> datetime \<Rightarrow>
     HumanReviewRequest option \<Rightarrow> Deliberation \<Rightarrow> ('a recovery_db_scheme, RecoveryServiceResult) tx" where
  "conclude settings uuids c row policy evaluated_at approval d =
     (let decision = dl_decision d; reasons = pd_reason_codes decision in
      bindT (request_review settings uuids policy evaluated_at d) (\<lambda>review.
      bindT (service_transition uuids (decision_transition decision row policy evaluated_at) (dl_checking d)) (\<lambda>decided.
      bindT (new_id uuids ''receipt'') (\<lambda>receipt_id.
      bindT (liftR (build_action decided decision receipt_id evaluated_at (cf_active_case_ids (dl_contact d)))) (\<lambda>action.
      bindT (liftR (post_init_receipt (service_receipt settings c row policy evaluated_at
        (case approval of Some a \<Rightarrow> Some (rv_review_id a) | None \<Rightarrow> map_option rv_review_id review)
        d receipt_id (rc_state decided) action))) (\<lambda>receipt.
      seqT (store_model_predictions (cr_predictions (dl_intelligence d)))
      (seqT (store_receipt uuids receipt)
      (seqT (case action of None \<Rightarrow> returnT () | Some a \<Rightarrow> authorize_action uuids c row policy evaluated_at d a)
      (returnT \<lparr>rx_normalized_event_id = Some (ev_event_id row), rx_case_id = Some (rc_case_id decided),
         rx_case_state = Some (rc_state decided), rx_disposition = Some APPLIED,
         rx_reason_code = last reasons, rx_receipt_id = Some (dr_receipt_id receipt),
         rx_review_id = map_option rv_review_id review,
         rx_action_id = map_option ra_action_id action\<rparr>)))))))))"

definition evaluate_case ::
    "RecoverySettings \<Rightarrow> intelligence \<Rightarrow> (string \<Rightarrow> zone option) \<Rightarrow> (nat \<Rightarrow> string) \<Rightarrow> Diagnosis \<Rightarrow> NormalizedRow \<Rightarrow>
     MerchantPolicySnapshot \<Rightarrow> datetime \<Rightarrow> HumanReviewRequest option \<Rightarrow> RecoveryCase \<Rightarrow>
     ('a recovery_db_scheme, RecoveryServiceResult) tx" where
  "evaluate_case settings recommend zones uuids diagnosis row policy evaluated_at approval c =
     bindT (deliberate settings recommend zones uuids c diagnosis row policy evaluated_at approval)
       (conclude settings uuids c row policy evaluated_at approval)"

section \<open>Events\<close>

definition unsupported_subject ::
    "string \<Rightarrow> string \<Rightarrow> ('a recovery_db_scheme, RecoveryServiceResult) tx" where
  "unsupported_subject merchant_id normalized_event_id =
     bindT (link_evidence merchant_id normalized_event_id None AUDIT_ONLY ''UNSUPPORTED_EVENT_SUBJECT'') (\<lambda>link.
     returnT \<lparr>rx_normalized_event_id = Some normalized_event_id, rx_case_id = None, rx_case_state = None,
       rx_disposition = Some (ce_disposition (el_link link)),
       rx_reason_code = (if el_created link then ''UNSUPPORTED_EVENT_SUBJECT'' else ''EVENT_ALREADY_LINKED''),
       rx_receipt_id = None, rx_review_id = None, rx_action_id = None\<rparr>)"

text \<open>The case an event is about: the active one of its subject, else the one of its episode.\<close>

definition case_of_event :: "string \<Rightarrow> CaseIdentity \<Rightarrow> ('a recovery_db_scheme, CaseRow option) tx" where
  "case_of_event merchant_id i =
     bindT (find_active_case merchant_id (id_workflow_type i) (id_subject_type i) (id_subject_id i)) (\<lambda>row.
     case row of
       Some r \<Rightarrow> returnT (Some r)
     | None \<Rightarrow> (case id_episode_key i of
         None \<Rightarrow> returnT None
       | Some key \<Rightarrow> find_episode_case merchant_id (id_workflow_type i) (id_subject_type i) key))"

definition open_case ::
    "(nat \<Rightarrow> string) \<Rightarrow> string \<Rightarrow> CaseIdentity \<Rightarrow> RevenueRiskEvent \<Rightarrow> datetime \<Rightarrow> ('a recovery_db_scheme, RecoveryCase) tx" where
  "open_case uuids merchant_id i e evaluated_at =
     bindT (new_id uuids ''case'') (\<lambda>case_id.
     bindT (liftR (post_init_case
       \<lparr>rc_case_id = case_id, rc_merchant_id = merchant_id, rc_workflow_type = id_workflow_type i,
        rc_subject_type = id_subject_type i, rc_subject_id = id_subject_id i,
        rc_revenue_at_risk_minor = ev_amount_minor e, rc_currency = ev_currency e, rc_state = DETECTED,
        rc_state_version = 1, rc_retry_count = 0, rc_contact_count = 0, rc_created_at = evaluated_at,
        rc_updated_at = evaluated_at, rc_customer_id = ev_customer_id e, rc_diagnosis = None,
        rc_diagnosis_confidence = None, rc_active_incident_id = None, rc_next_evaluation_at = None,
        rc_terminal_reason = None, rc_schema_version = ''1.0''\<rparr>)) (\<lambda>c.
     seqT (create_case c (id_episode_key i) (ev_event_id e) (ev_occurred_at e) None) (returnT c)))"

text \<open>
  Evidence for an open case: \<open>Inl\<close> the result when it changes nothing, else \<open>Inr\<close> the case to
  advance.
\<close>

definition linked_result ::
    "NormalizedRow \<Rightarrow> string option \<Rightarrow> CaseState \<Rightarrow> EvidenceDisposition \<Rightarrow> string \<Rightarrow> RecoveryServiceResult" where
  "linked_result row case_id state kind reason_code =
     \<lparr>rx_normalized_event_id = Some (ev_event_id row), rx_case_id = case_id, rx_case_state = Some state,
      rx_disposition = Some kind, rx_reason_code = reason_code, rx_receipt_id = None,
      rx_review_id = None, rx_action_id = None\<rparr>"

definition order_row ::
    "NormalizedRow \<Rightarrow> RevenueRiskEvent \<Rightarrow> CaseRow \<Rightarrow> ('a recovery_db_scheme, EvidenceOrder) tx" where
  "order_row row e r =
     bindT (authoritative_facts row) (\<lambda>authoritative.
     bindT (case cw_latest_evidence_event_id r of
         None \<Rightarrow> returnT None
       | Some i \<Rightarrow> get_normalized_event (ev_merchant_id row) i) (\<lambda>latest.
     liftR (order_evidence (ev_occurred_at e) (ev_event_id e) (Some (event_status (ev_event_type e))) authoritative
       (cw_latest_evidence_occurred_at r) (cw_latest_evidence_event_id r)
       (map_option (\<lambda>n. event_status (ev_event_type n)) latest))))"

definition add_evidence ::
    "NormalizedRow \<Rightarrow> RevenueRiskEvent \<Rightarrow> CaseRow \<Rightarrow>
     ('a recovery_db_scheme, RecoveryServiceResult + RecoveryCase) tx" where
  "add_evidence row e r =
     (let m = ev_merchant_id row; case_id = rc_case_id (cw_case r); state = rc_state (cw_case r) in
      bindT (order_row row e r) (\<lambda>ordering.
      bindT (link_evidence m (ev_event_id row) (Some case_id) (eo_disposition ordering) (eo_reason_code ordering)) (\<lambda>link.
      if \<not> el_created link
      then returnT (Inl (linked_result row (ce_recovery_case_id (el_link link)) state
             (ce_disposition (el_link link)) ''EVENT_ALREADY_LINKED''))
      else if eo_disposition ordering \<noteq> APPLIED
      then returnT (Inl (linked_result row (Some case_id) state (eo_disposition ordering) (eo_reason_code ordering)))
      else bindT (require_case m case_id) (\<lambda>c. returnT (Inr c)))))"

definition new_evidence_case ::
    "(nat \<Rightarrow> string) \<Rightarrow> CaseIdentity \<Rightarrow> NormalizedRow \<Rightarrow> RevenueRiskEvent \<Rightarrow> datetime \<Rightarrow>
     ('a recovery_db_scheme, RecoveryServiceResult + RecoveryCase) tx" where
  "new_evidence_case uuids i row e evaluated_at =
     bindT (open_case uuids (ev_merchant_id row) i e evaluated_at) (\<lambda>c.
     bindT (link_evidence (ev_merchant_id row) (ev_event_id row) (Some (rc_case_id c)) APPLIED ''EVIDENCE_ACCEPTED'') (\<lambda>link.
     if \<not> el_created link
     then returnT (Inl (linked_result row (Some (rc_case_id c)) (rc_state c) (ce_disposition (el_link link))
            ''EVENT_ALREADY_LINKED''))
     else returnT (Inr c)))"

definition advance_and_evaluate ::
    "RecoverySettings \<Rightarrow> intelligence \<Rightarrow> (string \<Rightarrow> zone option) \<Rightarrow> (nat \<Rightarrow> string) \<Rightarrow> Diagnosis \<Rightarrow>
     RevenueRiskEvent \<Rightarrow> NormalizedRow \<Rightarrow> MerchantPolicySnapshot \<Rightarrow> datetime \<Rightarrow> RecoveryCase \<Rightarrow>
     ('a recovery_db_scheme, RecoveryServiceResult) tx" where
  "advance_and_evaluate settings recommend zones uuids diagnosis e row policy evaluated_at c0 =
     bindT (advance_to_decision_pending uuids diagnosis e policy evaluated_at c0) (\<lambda>c.
     if rc_state c \<noteq> DECISION_PENDING
     then returnT (linked_result row (Some (rc_case_id c)) (rc_state c) APPLIED ''CASE_NOT_ELIGIBLE_FOR_REEVALUATION'')
     else evaluate_case settings recommend zones uuids diagnosis row policy evaluated_at None c)"

definition process_subject ::
    "RecoverySettings \<Rightarrow> intelligence \<Rightarrow> (string \<Rightarrow> zone option) \<Rightarrow> (nat \<Rightarrow> string) \<Rightarrow> datetime \<Rightarrow> NormalizedRow \<Rightarrow>
     RevenueRiskEvent \<Rightarrow> CaseIdentity \<Rightarrow> ('a recovery_db_scheme, RecoveryServiceResult) tx" where
  "process_subject settings recommend zones uuids evaluated_at row e i =
     bindT (liftR (diagnose_event e)) (\<lambda>diagnosis.
     bindT (case_of_event (ev_merchant_id row) i) (\<lambda>case_row.
     let case_id = map_option (\<lambda>r. rc_case_id (cw_case r)) case_row;
         state = map_option (\<lambda>r. rc_state (cw_case r)) case_row in
     case diagnosis of
       None \<Rightarrow> link_audit_only row case_id state ''EVENT_HAS_NO_RECOVERY_DIAGNOSIS''
     | Some d \<Rightarrow>
         if state \<in> {Some RECOVERED, Some STOPPED}
         then link_audit_only row case_id state ''TERMINAL_CASE_EVIDENCE''
         else
           bindT (effective_policy zones (ev_merchant_id row) evaluated_at) (\<lambda>policy.
           bindT (case case_row of
               None \<Rightarrow> new_evidence_case uuids i row e evaluated_at
             | Some r \<Rightarrow> add_evidence row e r) (\<lambda>next.
           case next of
             Inl result \<Rightarrow> returnT result
           | Inr c \<Rightarrow> advance_and_evaluate settings recommend zones uuids d e row policy evaluated_at c))))"

definition process_event ::
    "RecoverySettings \<Rightarrow> intelligence \<Rightarrow> (string \<Rightarrow> zone option) \<Rightarrow> (nat \<Rightarrow> string) \<Rightarrow> datetime \<Rightarrow> string \<Rightarrow> string \<Rightarrow>
     ('a recovery_db_scheme, RecoveryServiceResult) tx" where
  "process_event settings recommend zones uuids now merchant_id normalized_event_id =
     bindT (liftR (evidence_utc now)) (\<lambda>evaluated_at.
     bindT (bindT (get_normalized_event merchant_id normalized_event_id)
       (requireT (LookupError ''tenant-scoped normalized event does not exist''))) (\<lambda>row.
     bindT (liftR (event_from_row row)) (\<lambda>e.
     case select_case_identity e of
       None \<Rightarrow> unsupported_subject merchant_id normalized_event_id
     | Some i \<Rightarrow> process_subject settings recommend zones uuids evaluated_at row e i)))"


section \<open>Deferred cases\<close>

definition reevaluate_case ::
    "RecoverySettings \<Rightarrow> intelligence \<Rightarrow> (string \<Rightarrow> zone option) \<Rightarrow> (nat \<Rightarrow> string) \<Rightarrow> datetime \<Rightarrow> CaseRow \<Rightarrow>
     ('a recovery_db_scheme, RecoveryServiceResult) tx" where
  "reevaluate_case settings recommend zones uuids evaluated_at r =
     (let m = rc_merchant_id (cw_case r) in
      bindT (requireT (LookupError ''deferred case has no persisted evidence watermark'')
        (cw_latest_evidence_event_id r)) (\<lambda>event_id.
      bindT (bindT (get_normalized_event m event_id)
        (requireT (LookupError ''deferred case evidence does not exist''))) (\<lambda>row.
      bindT (liftR (bindR (event_from_row row) diagnose_event)) (\<lambda>diagnosed.
      bindT (requireT (ValueError ''deferred case evidence has no recovery diagnosis'') diagnosed) (\<lambda>diagnosis.
      bindT (effective_policy zones m evaluated_at) (\<lambda>policy.
      bindT (require_case m (rc_case_id (cw_case r))) (\<lambda>c.
      bindT (service_transition uuids
        (new_transition DECISION_PENDING ''SYSTEM'' ''DEFERRED_CASE_DUE'' (ev_correlation_id row) policy evaluated_at) c)
        (evaluate_case settings recommend zones uuids diagnosis row policy evaluated_at None))))))))"

definition reevaluate_deferred ::
    "RecoverySettings \<Rightarrow> intelligence \<Rightarrow> (string \<Rightarrow> zone option) \<Rightarrow> (nat \<Rightarrow> string) \<Rightarrow> datetime \<Rightarrow> int \<Rightarrow>
     ('a recovery_db_scheme, RecoveryServiceResult list) tx" where
  "reevaluate_deferred settings recommend zones uuids due_at limit =
     seqT (guardT (limit \<le> 0) (ValueError ''limit must be positive''))
     (bindT (liftR (evidence_utc due_at)) (\<lambda>evaluated_at.
      bindT (due_deferred_cases evaluated_at (nat limit))
        (mapT (reevaluate_case settings recommend zones uuids evaluated_at))))"


section \<open>Review decisions\<close>

definition stop_reviewed_case ::
    "(nat \<Rightarrow> string) \<Rightarrow> HumanReviewDecision \<Rightarrow> HumanReviewRequest \<Rightarrow> MerchantPolicySnapshot \<Rightarrow> datetime \<Rightarrow> string \<Rightarrow>
     RecoveryCase \<Rightarrow> ('a recovery_db_scheme, RecoveryServiceResult) tx" where
  "stop_reviewed_case uuids decision request policy evaluated_at reason_code c =
     bindT (service_transition uuids
       ((new_transition STOPPED (rd_reviewer_id decision) reason_code (rv_review_id request) policy evaluated_at)
        \<lparr>sv_terminal_reason := Some reason_code\<rparr>) c) (\<lambda>stopped.
     returnT \<lparr>rx_normalized_event_id = None, rx_case_id = Some (rc_case_id stopped),
       rx_case_state = Some (rc_state stopped), rx_disposition = None, rx_reason_code = reason_code,
       rx_receipt_id = None, rx_review_id = Some (rv_review_id request), rx_action_id = None\<rparr>)"

definition resume_reviewed_case ::
    "RecoverySettings \<Rightarrow> intelligence \<Rightarrow> (string \<Rightarrow> zone option) \<Rightarrow> (nat \<Rightarrow> string) \<Rightarrow> HumanReviewDecision \<Rightarrow>
     HumanReviewRequest \<Rightarrow> HumanReviewRequest \<Rightarrow> MerchantPolicySnapshot \<Rightarrow> datetime \<Rightarrow> string \<Rightarrow> RecoveryCase \<Rightarrow>
     ('a recovery_db_scheme, RecoveryServiceResult) tx" where
  "resume_reviewed_case settings recommend zones uuids decision request decided policy evaluated_at merchant_id c =
     bindT (getT (\<lambda>s. Option.bind (case_row s merchant_id (rc_case_id c)) cw_latest_evidence_event_id)) (\<lambda>latest.
     bindT (requireT (LookupError ''reviewed case has no persisted evidence'') latest) (\<lambda>event_id.
     bindT (bindT (get_normalized_event merchant_id event_id)
       (requireT (LookupError ''reviewed case evidence does not exist''))) (\<lambda>row.
     bindT (liftR (bindR (event_from_row row) diagnose_event)) (\<lambda>diagnosed.
     bindT (liftR (case diagnosed of Some d \<Rightarrow> Inr d | None \<Rightarrow> no_action_diagnosis c)) (\<lambda>diagnosis.
     bindT (service_transition uuids
       (new_transition DECISION_PENDING (rd_reviewer_id decision) ''HUMAN_REVIEW_APPROVED''
          (rv_review_id request) policy evaluated_at) c)
       (evaluate_case settings recommend zones uuids diagnosis row policy evaluated_at (Some decided)))))))"

definition apply_review ::
    "RecoverySettings \<Rightarrow> intelligence \<Rightarrow> (string \<Rightarrow> zone option) \<Rightarrow> (nat \<Rightarrow> string) \<Rightarrow> datetime \<Rightarrow> string \<Rightarrow>
     HumanReviewDecision \<Rightarrow> ('a recovery_db_scheme, RecoveryServiceResult) tx" where
  "apply_review settings recommend zones uuids now merchant_id decision =
     bindT (liftR (evidence_utc now)) (\<lambda>evaluated_at.
     seqT (guardT (evaluated_at < rd_decided_at decision)
       (ValueError ''review decision time cannot be in the future''))
     (bindT (bindT (get_review merchant_id (rd_review_id decision))
       (requireT (LookupError ''tenant-scoped human review does not exist''))) (\<lambda>request.
      bindT (require_case merchant_id (rv_case_id request)) (\<lambda>c.
      bindT (effective_policy zones merchant_id evaluated_at) (\<lambda>policy.
      if rv_expires_at request \<le> evaluated_at
      then
        bindT (liftR (expire_review request evaluated_at ''SYSTEM'')) (\<lambda>decided.
        seqT (update_review_decision uuids merchant_id decided)
          (stop_reviewed_case uuids decision request policy evaluated_at ''HUMAN_REVIEW_EXPIRED'' c))
      else
        bindT (liftR (Reviews.decide_review request decision)) (\<lambda>decided.
        seqT (update_review_decision uuids merchant_id decided)
          (if rd_decision decision = REJECT
           then stop_reviewed_case uuids decision request policy evaluated_at ''HUMAN_REVIEW_REJECTED'' c
           else resume_reviewed_case settings recommend zones uuids decision request decided policy
                  evaluated_at merchant_id c)))))))"

end
