(* ===== verification/Recovery_Books.thy ===== *)
theory Recovery_Books
  imports Recovery
begin

text \<open>
  The recovery service and the execution service work on one database. Whatever sequence of
  their operations runs, the invariant of the outbox, the case store and the ledger holds and
  the books agree with the authorisations.
\<close>


section \<open>Steps\<close>

context step_order
begin

lemma stays_case_sum:
  "(\<And>x. stays (f x)) \<Longrightarrow> (\<And>y. stays (g y)) \<Longrightarrow> stays (case v of Inl x \<Rightarrow> f x | Inr y \<Rightarrow> g y)"
  by (cases v) auto

lemma stays_read: "(\<And>s x s'. m s = Inr (x, s') \<Longrightarrow> s' = s) \<Longrightarrow> stays m"
  by (rule staysI) (use step_refl in blast)

end

text \<open>The reads of the recovery service.\<close>

lemma any_unknown_read: "reads.stays (any_unknown_equivalent c as)"
  by (induction "as") (simp_all add: reads.stays_pure reads.stays_bindT has_unknown_equivalent_def)

lemma recovery_reads:
  "reads.stays (get_normalized_event m i)" "reads.stays (customer_contact_snapshot m cu)"
  "reads.stays (authoritative_facts n)" "reads.stays (find_active_case m w st si)"
  "reads.stays (find_episode_case m w st key)" "reads.stays (due_deferred_cases t k)"
  "reads.stays (require_case m ci)" "reads.stays (get_review m ri)" "reads.stays (order_row n e r)"
  "reads.stays (effective_policy zones m t)" "reads.stays (case_of_event m identity)"
  unfolding get_normalized_event_def customer_contact_snapshot_def authoritative_facts_def find_active_case_def
    find_episode_case_def due_deferred_cases_def require_case_def get_case_def payment_facts_def
    subscription_facts_def invoice_facts_def get_review_def order_row_def effective_policy_def case_of_event_def
  by (intro reads.stays_intros)+

lemmas recovery_read = recovery_reads [THEN reads.staysD] any_unknown_read [THEN reads.staysD]
  fact_reads [THEN reads.staysD]

lemma transition_evidence_cases: "service_transition uuids q c s = Inr (u, s') \<Longrightarrow>
  \<exists>v t r ev. transition_case c (service_request c q) = Inr (v, t) \<and> same_lifecycle v u
    \<and> apply_transition uuids u t ev s = Inr (r, s')"
  by (auto simp: service_transition_def with_diagnosis_def result_simps same_lifecycle_def
      split: prod.splits option.splits if_splits dest!: post_init_case_Inr) blast+


section \<open>The outbox tables\<close>

lemma recovery_outbox_tables:
  "outbox_tables.stays (draw_uuid uuids)"
  "outbox_tables.stays (create_case c k ev t conf)"
  "outbox_tables.stays (link_evidence m ev lc d reason)"
  "outbox_tables.stays (store_review uuids r)"
  "outbox_tables.stays (update_review_decision uuids m r)"
  "outbox_tables.stays (store_receipt uuids rc)"
  "outbox_tables.stays (store_model_predictions ps)"
  "outbox_tables.stays (coordinate_case_with_active_intervention m cu ci t)"
  "outbox_tables.stays (store_customer_intervention i)"
  "outbox_tables.stays (active_incidents m t ci' dc)"
  unfolding draw_uuid_def create_case_def link_evidence_def store_review_def update_review_decision_def store_receipt_def
    store_model_predictions_def coordinate_case_with_active_intervention_def store_customer_intervention_def
    active_incidents_def attach_incidents_def insert_link_def set_active_incident_def update_intervention_def
    flush_reviews_def flush_interventions_def Let_def
  by (intro outbox_tables.stays_intros outbox_tables.stays_modifyT append_entry_outbox_tables;
      simp add: outbox_tables_def)+

lemma service_transition_outbox_tables: "outbox_tables.stays (service_transition uuids q c)"
  unfolding service_transition_def
  by (intro outbox_tables.stays_intros case_operations_outbox_tables)

lemma outbox_tables_unbooked: "outbox_tables s s' \<Longrightarrow> unbooked s s'"
  by (simp add: outbox_tables_def unbooked_def same_terms_same)

lemma funds_of_tables:
  assumes "lasting K" "outbox_tables.stays m" "\<And>s x s'. m s = Inr (x, s') \<Longrightarrow> consistent s \<Longrightarrow> consistent s'"
  shows "funds.stays K m"
proof (rule funds_unbooked [OF assms(1)])
  show "keeps m"
    by (rule keeps_of_case_tables [OF assms(3)])
      (use outbox_tables.staysD [OF assms(2)] in \<open>auto simp: outbox_tables_def\<close>)
  show "unbooked.stays m"
    by (rule unbooked.staysI) (use outbox_tables.staysD [OF assms(2)] outbox_tables_unbooked in blast)
qed

lemma service_transition_consistent:
  assumes "service_transition uuids q c s = Inr (u, s')" "consistent s"
  shows "consistent s'"
proof -
  obtain v t r ev where "transition_case c (service_request c q) = Inr (v, t)" "same_lifecycle v u"
    "apply_transition uuids u t ev s = Inr (r, s')"
    using transition_evidence_cases [OF assms(1)] by blast
  with assms(2) show ?thesis
    using preservesD [OF apply_transition_preserves] apply_transition_history
    unfolding consistent_def by blast
qed


section \<open>The books\<close>

lemma funds_case_writes:
  assumes "lasting K"
  shows "funds.stays K (service_transition uuids q c)" "funds.stays K (create_case c k ev t conf)"
    "funds.stays K (link_evidence m ev lc d reason)"
  using assms
  by (auto intro!: funds_of_tables service_transition_outbox_tables recovery_outbox_tables
      elim: service_transition_consistent create_case_consistent link_evidence_consistent)

lemma funds_table_writes:
  assumes "lasting K"
  shows "funds.stays K (draw_uuid uuids)"
    "funds.stays K (update_review_decision uuids m r)" "funds.stays K (store_receipt uuids rc)"
    "funds.stays K (store_model_predictions ps)"
    "funds.stays K (coordinate_case_with_active_intervention m cu ci t)"
    "funds.stays K (store_customer_intervention i)"
  unfolding draw_uuid_def update_review_decision_def store_receipt_def store_model_predictions_def
    coordinate_case_with_active_intervention_def store_customer_intervention_def update_intervention_def
    flush_reviews_def flush_interventions_def Let_def
  using assms
  by (intro funds.stays_intros funds.stays_modifyT funds_append_entry fund_step_other; simp)+

lemma store_action_unbooked: "unbooked.stays (store_action uuids a p c n d)"
  unfolding store_action_def Let_def
  by (intro unbooked_intros unbooked.stays_modifyT unbooked_updates)

lemma funds_store_action: "lasting K \<Longrightarrow> funds.stays K (store_action uuids a p c n d)"
  by (rule funds_unbooked [OF _ keeps_store_action store_action_unbooked])

lemma funds_recovery_reads:
  "funds.stays K (get_normalized_event m i)" "funds.stays K (customer_contact_snapshot m cu)"
  "funds.stays K (require_case m ci)" "funds.stays K (any_unknown_equivalent c as)"
  "funds.stays K (order_row n e r)" "funds.stays K (case_of_event m identity)"
  "funds.stays K (due_deferred_cases t k)"
  by (rule funds.stays_read, erule recovery_read)+

lemmas funds_recovery = funds.stays_intros funds.stays_case_sum funds_reads funds_recovery_reads
  funds_active_incidents funds_case_writes funds_table_writes funds_store_review funds_store_action

lemma funds_evaluate_case: "lasting K \<Longrightarrow> funds.stays K (evaluate_case settings recommend zones uuids d row p t approval c)"
  unfolding evaluate_case_def deliberate_def conclude_def portfolio_facts_def authorize_action_def build_review_def
    request_review_def     new_id_def Let_def
  by (intro funds_recovery)

lemma funds_process_event: "lasting K \<Longrightarrow> funds.stays K (process_event settings recommend zones uuids now m i)"
  unfolding process_event_def process_subject_def unsupported_subject_def link_audit_only_def new_evidence_case_def
    open_case_def add_evidence_def advance_and_evaluate_def advance_to_decision_pending_def new_id_def Let_def
  by (intro funds_recovery funds_evaluate_case)

lemma funds_reevaluate_deferred: "lasting K \<Longrightarrow> funds.stays K (reevaluate_deferred settings recommend zones uuids t n)"
  unfolding reevaluate_deferred_def reevaluate_case_def Let_def
  by (intro funds_recovery funds_evaluate_case)

lemma funds_apply_review: "lasting K \<Longrightarrow> funds.stays K (apply_review settings recommend zones uuids now m d)"
  unfolding apply_review_def stop_reviewed_case_def resume_reviewed_case_def
  by (intro funds_recovery funds_evaluate_case)

section \<open>The whole system\<close>

text \<open>The intake of webhooks, the policy repository and the closing of interventions.\<close>

lemma funds_intake:
  assumes "lasting K"
  shows "funds.stays K (record_webhook uuids now wq)" "funds.stays K (record_invalid_webhook uuids iq)"
    "funds.stays K (persist_normalized_event e w cs)" "funds.stays K (upsert_customer c)"
    "funds.stays K (upsert_payment p)" "funds.stays K (upsert_subscription sb)"
    "funds.stays K (claim_dispatches uuids now d n)" "funds.stays K (mark_dispatch_published di tk bt now)"
    "funds.stays K (mark_dispatch_succeeded di now)" "funds.stays K (record_processing_failure di ec ed final now)"
    "funds.stays K (requeue_dead_letter di now ra)"
  unfolding record_webhook_def record_invalid_webhook_def persist_normalized_event_def upsert_customer_def
    upsert_payment_def upsert_subscription_def claim_dispatches_def claim_dispatch_def mark_dispatch_published_def
    mark_dispatch_succeeded_def record_processing_failure_def record_dispatch_failure_def requeue_dead_letter_def
    update_dispatch_def update_webhook_def flush_dispatches_def flush_webhooks_def add_correlation_def
    dispatch_id_for_def draw_uuid_def Let_def
  using assms
  by (intro funds.stays_intros funds.stays_modifyT funds_append_entry fund_step_other; simp)+

lemma funds_policy_writes:
  assumes "lasting K"
  shows "funds.stays K (publish_policy mi p who)" "funds.stays K (close_expired_customer_interventions t n)"
  unfolding publish_policy_def close_expired_customer_interventions_def update_intervention_def flush_interventions_def
    Let_def
  using assms
  by (intro funds.stays_intros funds.stays_modifyT funds_append_entry fund_step_other; simp)+

text \<open>A run of the system: any interleaving of the transactions of its components.\<close>

inductive system_run :: "'a recovery_db_scheme \<Rightarrow> 'a recovery_db_scheme \<Rightarrow> bool" for s where
  none: "system_run s s"
| executed: "system_run s t \<Longrightarrow> execution_run t u \<Longrightarrow> system_run s u"
| event: "system_run s t \<Longrightarrow> process_event settings advice zones uuids now m i t = Inr (r, u) \<Longrightarrow> system_run s u"
| due: "system_run s t \<Longrightarrow> reevaluate_deferred settings advice zones uuids now n t = Inr (rs, u) \<Longrightarrow> system_run s u"
| reviewed: "system_run s t \<Longrightarrow> apply_review settings advice zones uuids now m d t = Inr (r, u) \<Longrightarrow> system_run s u"
| policy: "system_run s t \<Longrightarrow> publish_policy m p who t = Inr (pr, u) \<Longrightarrow> system_run s u"
| closed: "system_run s t \<Longrightarrow> close_expired_customer_interventions now n t = Inr (k, u) \<Longrightarrow> system_run s u"
| webhook: "system_run s t \<Longrightarrow> record_webhook uuids now wq t = Inr (wi, u) \<Longrightarrow> system_run s u"
| rejected: "system_run s t \<Longrightarrow> record_invalid_webhook uuids iq t = Inr (wr, u) \<Longrightarrow> system_run s u"
| normalized: "system_run s t \<Longrightarrow> persist_normalized_event e w cs t = Inr (nr, u) \<Longrightarrow> system_run s u"
| customer: "system_run s t \<Longrightarrow> upsert_customer c t = Inr (cu, u) \<Longrightarrow> system_run s u"
| payment: "system_run s t \<Longrightarrow> upsert_payment py t = Inr (pa, u) \<Longrightarrow> system_run s u"
| subscription: "system_run s t \<Longrightarrow> upsert_subscription sb t = Inr (su, u) \<Longrightarrow> system_run s u"
| dispatched: "system_run s t \<Longrightarrow> claim_dispatches uuids now lease n t = Inr (ds, u) \<Longrightarrow> system_run s u"
| published: "system_run s t \<Longrightarrow> mark_dispatch_published di tk bt now t = Inr (b, u) \<Longrightarrow> system_run s u"
| processed: "system_run s t \<Longrightarrow> mark_dispatch_succeeded di now t = Inr (b, u) \<Longrightarrow> system_run s u"
| failed: "system_run s t \<Longrightarrow> record_processing_failure di ec ed final now t = Inr (st, u) \<Longrightarrow> system_run s u"
| replayed: "system_run s t \<Longrightarrow> requeue_dead_letter di now ra t = Inr (b, u) \<Longrightarrow> system_run s u"

text \<open>
  The system never makes up money. Whatever sequence of webhooks, dispatches, recovery
  decisions, human reviews, executions, lookups and signed events runs, and whatever the model
  answers: every outcome with money that is stored is for the amount and currency that the stored
  action was authorised with, and the invariant of the outbox, the case store and the ledger holds.
\<close>

theorem system_keeps_books:
  assumes "system_run s s'" and "books_ok s"
  shows "books_ok s'"
  using assms
proof (induction rule: system_run.induct)
  case (executed t u)
  with books_run show ?case by blast
qed (blast intro: books_step funds_process_event funds_reevaluate_deferred funds_apply_review funds_policy_writes
    funds_intake lasting_knows(2))+

end
