(* ===== verification/Recovery_Safety.thy ===== *)
theory Recovery_Safety
  imports Recovery_Books
begin

text \<open>
  An action is authorised only by a decision of the merchant's policy on the facts of the
  database, whatever the advisory intelligence answers.
\<close>


section \<open>The intelligence\<close>

text \<open>
  What the service relies on: the answer is a validated \<open>CaseIntelligenceResult\<close> with validated
  candidates. A bounded intelligence also invents nothing.
\<close>

definition same_move :: "CandidateAction \<Rightarrow> CandidateAction \<Rightarrow> bool" where
  "same_move c d \<longleftrightarrow> ca_action_type c = ca_action_type d \<and> ca_target c = ca_target d
     \<and> ca_channel c = ca_channel d \<and> ca_logical_attempt c = ca_logical_attempt d"

locale case_intelligence =
  fixes recommend :: intelligence
  assumes result_valid: "recommend q = Inr r \<Longrightarrow> post_init_result r = Inr r"
    and candidates_valid: "recommend q = Inr r \<Longrightarrow> wf_candidates q \<Longrightarrow> c \<in> set (cr_candidates r) \<Longrightarrow>
      wf_candidate c"

locale bounded_intelligence = case_intelligence +
  assumes no_new_move: "recommend q = Inr r \<Longrightarrow> wf_candidates q \<Longrightarrow> c \<in> set (cr_candidates r) \<Longrightarrow>
      \<exists>d\<in>set (cq_candidates q). same_move c d"
    and no_more_confidence: "recommend q = Inr r \<Longrightarrow>
      cr_confidence_basis_points r \<le> cq_diagnosis_confidence_basis_points q"


section \<open>Frames\<close>

text \<open>The tables with the facts of a decision; only other components write them.\<close>

definition same_facts :: "'a recovery_db_scheme \<Rightarrow> 'a recovery_db_scheme \<Rightarrow> bool" where
  "same_facts s s' \<longleftrightarrow> db_policies s' = db_policies s \<and> db_consents s' = db_consents s
     \<and> db_payments s' = db_payments s \<and> db_subscriptions s' = db_subscriptions s
     \<and> db_invoices s' = db_invoices s \<and> db_promises s' = db_promises s \<and> db_customers s' = db_customers s
     \<and> db_normalized s' = db_normalized s"

interpretation same_facts: step_order same_facts
  by unfold_locales (auto simp: same_facts_def)

interpretation same_interventions: step_order "\<lambda>s s' :: 'a recovery_db_scheme. db_interventions s' = db_interventions s"
  by (rule step_order_const)

interpretation same_receipts: step_order "\<lambda>s s' :: 'a recovery_db_scheme. db_receipts s' = db_receipts s"
  by (rule step_order_const)

lemma append_entry_recovery_tables:
  "same_facts.stays (append_entry uuids r)" "same_interventions.stays (append_entry uuids r)"
  "same_receipts.stays (append_entry uuids r)"
  by (rule same_facts.staysI same_interventions.staysI same_receipts.staysI,
      drule append_entry_frame, auto simp: same_facts_def)+

lemma service_transition_frames:
  "same_facts.stays (service_transition uuids q c)" "same_interventions.stays (service_transition uuids q c)"
  "same_receipts.stays (service_transition uuids q c)"
  unfolding service_transition_def apply_transition_def Let_def
  by (intro same_facts.stays_intros same_interventions.stays_intros same_receipts.stays_intros
      same_facts.stays_modifyT same_interventions.stays_modifyT same_receipts.stays_modifyT
      append_entry_recovery_tables; simp add: same_facts_def)+

lemma active_incidents_frames:
  "same_facts.stays (active_incidents m t ci dc)" "same_interventions.stays (active_incidents m t ci dc)"
  "same_receipts.stays (active_incidents m t ci dc)"
  unfolding active_incidents_def attach_incidents_def insert_link_def set_active_incident_def Let_def
  by (intro same_facts.stays_intros same_interventions.stays_intros same_receipts.stays_intros
      same_facts.stays_modifyT same_interventions.stays_modifyT same_receipts.stays_modifyT;
      simp add: same_facts_def)+

lemma recovery_writes_same_facts:
  "same_facts.stays (draw_uuid uuids)" "same_facts.stays (create_case c k ev t conf)"
  "same_facts.stays (link_evidence m ev lc d reason)" "same_facts.stays (store_review uuids r)"
  "same_facts.stays (update_review_decision uuids m r)"
  "same_facts.stays (coordinate_case_with_active_intervention m cu ci t)"
  unfolding draw_uuid_def create_case_def link_evidence_def store_review_def update_review_decision_def
    coordinate_case_with_active_intervention_def update_intervention_def flush_reviews_def
    flush_interventions_def Let_def
  by (intro same_facts.stays_intros same_facts.stays_modifyT append_entry_recovery_tables;
      simp add: same_facts_def)+

lemma action_writes_same_receipts:
  "same_receipts.stays (store_action uuids a p c n d)" "same_receipts.stays (store_customer_intervention i)"
  unfolding store_action_def store_customer_intervention_def flush_actions_def flush_interventions_def Let_def
  by (intro same_receipts.stays_intros same_receipts.stays_modifyT append_entry_recovery_tables; simp)+

text \<open>Reading the same tables gives the same facts.\<close>

lemma consent_facts_cong:
  "same_facts s t \<Longrightarrow> consent_facts m cu t = Inr (x, t) \<Longrightarrow> consent_facts m cu s = Inr (x, s)"
  by (auto simp: consent_facts_def same_facts_def tx_eq_Inr split: option.splits)

lemma case_facts_cong:
  "same_facts s t \<Longrightarrow> authoritative_facts_for_case m c t = Inr (x, t) \<Longrightarrow>
   authoritative_facts_for_case m c s = Inr (x, s)"
  by (cases "rc_subject_type c")
    (auto simp: authoritative_facts_for_case_def payment_facts_def subscription_facts_def invoice_facts_def
      same_facts_def result_simps cong: option.case_cong)

lemma effective_policy_cong:
  "same_facts s t \<Longrightarrow> effective_policy zones m now t = Inr (p, t) \<Longrightarrow> effective_policy zones m now s = Inr (p, s)"
  by (auto simp: effective_policy_def same_facts_def result_simps)


section \<open>The claim of a case\<close>

definition same_claim :: "RecoveryCase \<Rightarrow> RecoveryCase \<Rightarrow> bool" where
  "same_claim c d \<longleftrightarrow> rc_case_id d = rc_case_id c \<and> rc_merchant_id d = rc_merchant_id c
     \<and> rc_subject_type d = rc_subject_type c \<and> rc_subject_id d = rc_subject_id c
     \<and> rc_revenue_at_risk_minor d = rc_revenue_at_risk_minor c \<and> rc_currency d = rc_currency c
     \<and> rc_customer_id d = rc_customer_id c"

lemma same_claim_refl [simp]: "same_claim c c"
  by (simp add: same_claim_def)

lemma same_claim_trans: "same_claim c d \<Longrightarrow> same_claim d e \<Longrightarrow> same_claim c e"
  by (simp add: same_claim_def)

lemma service_transition_claim:
  "service_transition uuids q c s = Inr (u, s') \<Longrightarrow> same_claim c u \<and> rc_state u = sv_to_state q"
  by (auto simp: service_transition_def with_diagnosis_def result_simps same_claim_def moved_def service_request_def
      split: prod.splits option.splits if_splits dest!: post_init_case_Inr transition_case_InrD(1))

lemma attach_incident_claim: "attach_incident ins c = Inr d \<Longrightarrow> same_claim c d"
  by (auto simp: attach_incident_def same_claim_def split: option.splits dest!: post_init_case_Inr)

lemma case_facts_claim:
  "same_claim c d \<Longrightarrow> authoritative_facts_for_case m d = authoritative_facts_for_case m c"
  by (cases "rc_subject_type c") (simp_all add: same_claim_def authoritative_facts_for_case_def)

lemma portfolio_facts_InrD:
  assumes "portfolio_facts c t s = Inr (x, s')"
  shows "same_facts s s' \<and> outbox_tables s s' \<and> db_receipts s' = db_receipts s
    \<and> cf_active_intervention_id x = (case rc_customer_id c of None \<Rightarrow> None
         | Some cu \<Rightarrow> map_option ci_intervention_id (active_intervention s (rc_merchant_id c) cu))"
proof -
  have f: "same_facts.stays (portfolio_facts c t)" "outbox_tables.stays (portfolio_facts c t)"
    unfolding portfolio_facts_def
    by (intro same_facts.stays_intros outbox_tables.stays_intros recovery_writes_same_facts recovery_outbox_tables
        same_facts.stays_read outbox_tables.stays_read; erule recovery_read)+
  have r: "same_receipts.stays (portfolio_facts c t)"
    unfolding portfolio_facts_def coordinate_case_with_active_intervention_def update_intervention_def
      flush_interventions_def Let_def customer_contact_snapshot_def
    by (intro same_receipts.stays_intros same_receipts.stays_modifyT) simp
  show ?thesis
    using same_facts.staysD [OF f(1) assms] outbox_tables.staysD [OF f(2) assms] same_receipts.staysD [OF r assms] assms
    by (auto simp: portfolio_facts_def customer_contact_snapshot_def result_simps Let_def split: option.splits)
qed

section \<open>The deliberation\<close>

lemma enumerate_ranks_elem:
  "x \<in> set (enumerate_ranks n cs) \<Longrightarrow> \<exists>c\<in>set cs. \<exists>k. x = c\<lparr>ca_rank := k\<rparr>"
  by (induction cs arbitrary: n) auto

lemma rank_candidates_moves:
  assumes "rank_candidates_by_expected_net_recovery cs x artifact economics allowed = Inr r"
    and "a \<in> set (sr_candidates r)"
  shows "wf_candidate a \<and> (\<exists>c\<in>set cs. ca_action_type a = ca_action_type c \<and> ca_target a = ca_target c
    \<and> ca_logical_attempt a = ca_logical_attempt c \<and> ca_channel a = ca_channel c)"
proof -
  let ?orig = "filter (eligible allowed) cs"
  let ?scores = "sort_key score_key (map (scored x artifact economics) (filter (\<lambda>c. \<not> value_exempt c) ?orig))"
  from assms(1) obtain ranked where "cs \<noteq> []" and
    r: "mapR post_init_candidate (enumerate_ranks 1 (fill ?orig ?scores @ [no_value (last cs)])) = Inr ranked"
      "sr_candidates r = ranked"
    by (auto simp: rank_candidates_by_expected_net_recovery_def Let_def bindR_eq_Inr split: if_splits)
  have same: "mapR post_init_candidate ys = Inr zs \<Longrightarrow> zs = ys \<and> (\<forall>z\<in>set zs. wf_candidate z)" for ys zs
    by (induction ys arbitrary: zs) (auto simp: bindR_eq_Inr dest: post_init_candidate_wf)
  from same [OF r(1)] assms(2) r(2) have a: "wf_candidate a"
    "a \<in> set (enumerate_ranks 1 (fill ?orig ?scores @ [no_value (last cs)]))" by auto
  from enumerate_ranks_elem [OF a(2)] obtain b k where b: "b \<in> set (fill ?orig ?scores @ [no_value (last cs)])"
    "a = b\<lparr>ca_rank := k\<rparr>" by blast
  have "\<exists>c\<in>set cs. ca_action_type b = ca_action_type c \<and> ca_target b = ca_target c
    \<and> ca_logical_attempt b = ca_logical_attempt c \<and> ca_channel b = ca_channel c"
  proof (cases "b = no_value (last cs)")
    case True
    then show ?thesis using \<open>cs \<noteq> []\<close> by (intro bexI [of _ "last cs"]) (simp_all add: no_value_def)
  next
    case False
    with b(1) set_fill [of ?orig ?scores] have "b \<in> set ?orig \<or> b \<in> set ?scores" by auto
    then show ?thesis by (auto simp: scored_def Let_def)
  qed
  with a(1) b(2) show ?thesis by simp
qed

lemma score_candidates_moves:
  assumes "score_candidates settings cs x allowed = Inr r" "\<forall>c\<in>set cs. wf_candidate c" "a \<in> set (sr_candidates r)"
  shows "wf_candidate a \<and> (\<exists>c\<in>set cs. same_move a c)"
proof (cases "bindR (post_init_context x) (\<lambda>y. rank_candidates_by_expected_net_recovery cs y
    (rs_scoring_artifact settings) (rs_action_economics settings) allowed)")
  case (Inl e)
  with assms(1) have "sr_candidates r = cs" by (auto simp: score_candidates_def Let_def split: if_splits)
  with assms(2,3) show ?thesis by (auto simp: same_move_def)
next
  case (Inr r')
  with assms(1) have "r' = r" by (simp add: score_candidates_def Let_def)
  with Inr obtain y where "rank_candidates_by_expected_net_recovery cs y (rs_scoring_artifact settings)
      (rs_action_economics settings) allowed = Inr r" by (auto simp: bindR_eq_Inr)
  from rank_candidates_moves [OF this assms(3)] show ?thesis by (auto simp: same_move_def)
qed

text \<open>The policy input states what the database holds about the case.\<close>

definition reports :: "'a recovery_db_scheme \<Rightarrow> RecoveryCase \<Rightarrow> PolicyEvaluationInput \<Rightarrow> bool" where
  "reports s c e \<longleftrightarrow>
     pe_case_id e = rc_case_id c \<and> pe_amount_minor e = rc_revenue_at_risk_minor c \<and> pe_currency e = rc_currency c
     \<and> (\<exists>consent. consent_facts (rc_merchant_id c) (rc_customer_id c) s = Inr (consent, s)
          \<and> pe_consent_by_channel e = fst consent \<and> pe_opted_out_channels e = snd consent)
     \<and> (\<exists>facts. authoritative_facts_for_case (rc_merchant_id c) c s = Inr (facts, s)
          \<and> (let status = str_upper (or_default (af_status facts) []) in
               (pe_already_paid e \<longleftrightarrow> status \<in> PAID_STATUSES) \<and> (status = ''DISPUTED'' \<longrightarrow> pe_disputed e)
               \<and> (pe_cancelled e \<longleftrightarrow> status \<in> CANCELLED_STATUSES))
          \<and> pe_promise_due_at e = af_promise_due_at facts)
     \<and> (pe_customer_identity_resolved e \<longleftrightarrow> rc_customer_id c \<noteq> None)
     \<and> (\<forall>cu. rc_customer_id c = Some cu \<longrightarrow>
          (pe_customer_contact_in_progress e \<longleftrightarrow> active_intervention s (rc_merchant_id c) cu \<noteq> None))"

lemma active_intervention_cong:
  "db_interventions t = db_interventions s \<Longrightarrow> active_intervention t m cu = active_intervention s m cu"
  by (simp add: active_intervention_def)

lemma deliberate_steps:
  assumes "deliberate settings recommend zones uuids c dg row policy now approval s = Inr (d, s')"
  shows "\<exists>q x moved chk consent ins contact facts unknown e s1 s2 s3.
    intelligence_request c dg row now = Inr q \<and> recommend q = Inr (dl_intelligence d)
    \<and> service_transition uuids ((new_transition POLICY_CHECK ''RECOVERY_SERVICE'' ''POLICY_EVALUATION_STARTED''
         (ev_correlation_id row) policy now)\<lparr>sv_diagnosis := Some (advisory_diagnosis dg (dl_intelligence d)),
         sv_latest_event := Some e\<rparr>) c s = Inr (moved, s1)
    \<and> consent_facts (rc_merchant_id c) (rc_customer_id c) s1 = Inr (consent, s1)
    \<and> active_incidents (rc_merchant_id c) now (Some (rc_case_id moved))
        (Some (dg_code (advisory_diagnosis dg (dl_intelligence d)))) s1 = Inr (ins, s2)
    \<and> attach_incident ins moved = Inr chk \<and> dl_checking d = chk
    \<and> portfolio_facts c now s2 = Inr (contact, s3) \<and> dl_contact d = contact
    \<and> score_candidates settings (cr_candidates (dl_intelligence d)) x (mp_allowed_actions policy) = Inr (dl_scoring d)
    \<and> authoritative_facts_for_case (rc_merchant_id c) chk s3 = Inr (facts, s3) \<and> s' = s3
    \<and> post_init_evaluation (policy_input c row now
         ((advisory_diagnosis dg (dl_intelligence d))\<lparr>dg_candidates := sr_candidates (dl_scoring d)\<rparr>)
         (dg_code dg) contact consent ins facts approval unknown) = Inr (dl_evaluation d)
    \<and> evaluate_policy zones policy (dl_evaluation d) = Inr (dl_decision d)"
proof -
  from assms obtain q i e moved s1 consent s1' ins s2 chk contact s3 scoring facts s3' unknown s4 input decision where *:
    "intelligence_request c dg row now = Inr q" "recommend q = Inr i"
    "service_transition uuids ((new_transition POLICY_CHECK ''RECOVERY_SERVICE'' ''POLICY_EVALUATION_STARTED''
         (ev_correlation_id row) policy now)\<lparr>sv_diagnosis := Some (advisory_diagnosis dg i), sv_latest_event := Some e\<rparr>) c s = Inr (moved, s1)"
    "consent_facts (rc_merchant_id c) (rc_customer_id c) s1 = Inr (consent, s1')"
    "active_incidents (rc_merchant_id c) now (Some (rc_case_id moved)) (Some (dg_code (advisory_diagnosis dg i))) s1' = Inr (ins, s2)"
    "attach_incident ins moved = Inr chk"
    "portfolio_facts c now s2 = Inr (contact, s3)"
    "score_candidates settings (dg_candidates (advisory_diagnosis dg i))
       (scoring_context c contact (advisory_diagnosis dg i) row ins now) (mp_allowed_actions policy) = Inr scoring"
    "authoritative_facts_for_case (rc_merchant_id c) chk s3 = Inr (facts, s3')"
    "any_unknown_equivalent chk (sr_candidates scoring) s3' = Inr (unknown, s4)"
    "post_init_evaluation (policy_input c row now ((advisory_diagnosis dg i)\<lparr>dg_candidates := sr_candidates scoring\<rparr>)
         (dg_code dg) contact consent ins facts approval unknown) = Inr input"
    "evaluate_policy zones policy input = Inr decision"
    "d = \<lparr>dl_checking = chk, dl_intelligence = i, dl_scoring = scoring,
       dl_contact = contact, dl_evaluation = input, dl_decision = decision\<rparr>" "s' = s4"
    unfolding deliberate_def Let_def
    by (auto simp: result_simps)
  moreover have "s1' = s1" "s3' = s3" "s4 = s3'"
    using fact_reads(1) [THEN reads.staysD, OF *(4)] fact_reads(2) [THEN reads.staysD, OF *(9)]
      any_unknown_read [THEN reads.staysD, OF *(10)] by simp_all
  moreover have "dg_candidates (advisory_diagnosis dg i) = cr_candidates i" by (simp add: advisory_diagnosis_def)
  ultimately show ?thesis by (simp only: Deliberation.simps) blast
qed

lemma policy_input_fields [simp]:
  "pe_candidates (policy_input c row t ranked dc contact consent ins facts approval unknown) = dg_candidates ranked"
  "pe_incidents (policy_input c row t ranked dc contact consent ins facts approval unknown) = ins"
  "pe_approval (policy_input c row t ranked dc contact consent ins facts approval unknown) = approval"
  "pe_evaluated_at (policy_input c row t ranked dc contact consent ins facts approval unknown) = t"
  "pe_evidence_references (policy_input c row t ranked dc contact consent ins facts approval unknown) = [ev_event_id row]"
  by (simp_all add: policy_input_def Let_def)

lemma policy_input_reports:
  assumes "consent_facts (rc_merchant_id c) (rc_customer_id c) s = Inr (consent, s)"
    and "authoritative_facts_for_case (rc_merchant_id c) c s = Inr (facts, s)"
    and "cf_active_intervention_id contact = (case rc_customer_id c of None \<Rightarrow> None
         | Some cu \<Rightarrow> map_option ci_intervention_id (active_intervention s (rc_merchant_id c) cu))"
  shows "reports s c (policy_input c row t ranked dc contact consent ins facts approval unknown)"
  using assms(3) unfolding reports_def
  by (intro conjI exI [of _ consent] exI [of _ facts] assms(1,2)) (auto simp: policy_input_def Let_def)

text \<open>What a deliberation has established, over the state it started from.\<close>

definition deliberated :: "(string \<Rightarrow> zone option) \<Rightarrow> 'a recovery_db_scheme \<Rightarrow> RecoveryCase \<Rightarrow> MerchantPolicySnapshot \<Rightarrow>
    datetime \<Rightarrow> HumanReviewRequest option \<Rightarrow> Deliberation \<Rightarrow> bool" where
  "deliberated zones s c policy now approval d \<longleftrightarrow>
     same_claim c (dl_checking d) \<and> reports s c (dl_evaluation d) \<and> pe_evaluated_at (dl_evaluation d) = now
     \<and> pe_approval (dl_evaluation d) = approval \<and> wf_evaluation (dl_evaluation d)
     \<and> pe_candidates (dl_evaluation d) = sr_candidates (dl_scoring d)
     \<and> evaluate_policy zones policy (dl_evaluation d) = Inr (dl_decision d)"

lemma intelligence_request_candidates:
  "intelligence_request c dg row now = Inr q \<Longrightarrow> cq_candidates q = dg_candidates dg"
  by (auto simp: intelligence_request_def bindR_eq_Inr dest!: post_init_request_Inr)

context case_intelligence
begin

lemma scored_valid:
  "recommend q = Inr i \<Longrightarrow> wf_candidates q \<Longrightarrow> score_candidates settings (cr_candidates i) x allowed = Inr r \<Longrightarrow>
   a \<in> set (sr_candidates r) \<Longrightarrow> wf_candidate a \<and> (\<exists>c\<in>set (cr_candidates i). same_move a c)"
  by (rule score_candidates_moves) (use candidates_valid in auto)

lemma deliberate_InrD:
  assumes "deliberate settings recommend zones uuids c dg row policy now approval s = Inr (d, s')"
    and "\<forall>x\<in>set_option approval. wf_review x" and "\<forall>x\<in>set (dg_candidates dg). wf_candidate x"
  shows "deliberated zones s c policy now approval d \<and> same_facts s s' \<and> outbox_tables s s'
    \<and> db_receipts s' = db_receipts s
    \<and> (\<exists>q. intelligence_request c dg row now = Inr q \<and> recommend q = Inr (dl_intelligence d))
    \<and> (\<forall>a\<in>set (sr_candidates (dl_scoring d)). \<exists>b\<in>set (cr_candidates (dl_intelligence d)). same_move a b)"
proof -
  let ?ranked = "(advisory_diagnosis dg (dl_intelligence d))\<lparr>dg_candidates := sr_candidates (dl_scoring d)\<rparr>"
  obtain q x moved chk consent ins contact facts unknown e s1 s2 s3 where
    q: "intelligence_request c dg row now = Inr q" "recommend q = Inr (dl_intelligence d)" and
    t: "service_transition uuids ((new_transition POLICY_CHECK ''RECOVERY_SERVICE'' ''POLICY_EVALUATION_STARTED''
         (ev_correlation_id row) policy now)\<lparr>sv_diagnosis := Some (advisory_diagnosis dg (dl_intelligence d)),
         sv_latest_event := Some e\<rparr>) c s = Inr (moved, s1)" and
    r: "consent_facts (rc_merchant_id c) (rc_customer_id c) s1 = Inr (consent, s1)"
      "active_incidents (rc_merchant_id c) now (Some (rc_case_id moved))
        (Some (dg_code (advisory_diagnosis dg (dl_intelligence d)))) s1 = Inr (ins, s2)"
      "attach_incident ins moved = Inr chk" "dl_checking d = chk"
      "portfolio_facts c now s2 = Inr (contact, s3)" "dl_contact d = contact" and
    sc: "score_candidates settings (cr_candidates (dl_intelligence d)) x (mp_allowed_actions policy) = Inr (dl_scoring d)" and
    f: "authoritative_facts_for_case (rc_merchant_id c) chk s3 = Inr (facts, s3)" "s' = s3" and
    e: "post_init_evaluation (policy_input c row now ?ranked (dg_code dg) contact consent ins facts approval unknown)
        = Inr (dl_evaluation d)" and
    p: "evaluate_policy zones policy (dl_evaluation d) = Inr (dl_decision d)"
    using deliberate_steps [OF assms(1)] by blast
  note T = service_transition_claim [OF t] and P = portfolio_facts_InrD [OF r(5)]
  have claim: "same_claim c chk" using T attach_incident_claim [OF r(3)] same_claim_trans by blast
  have facts: "same_facts s s1" "same_facts s1 s2" "same_facts s2 s3"
    using same_facts.staysD [OF service_transition_frames(1) t] same_facts.staysD [OF active_incidents_frames(1) r(2)] P
    by blast+
  have interventions: "db_interventions s2 = db_interventions s"
    using same_interventions.staysD [OF service_transition_frames(2) t]
      same_interventions.staysD [OF active_incidents_frames(2) r(2)] by simp
  have s3: "same_facts s s3" using facts same_facts.step_trans by blast
  have outbox: "outbox_tables s s3"
    using outbox_tables.staysD [OF service_transition_outbox_tables t] outbox_tables.staysD [OF recovery_outbox_tables(10) r(2)]
      P outbox_tables.step_trans by blast
  have receipts: "db_receipts s3 = db_receipts s"
    using same_receipts.staysD [OF service_transition_frames(3) t] same_receipts.staysD [OF active_incidents_frames(3) r(2)] P
    by simp
  have wf: "\<forall>a\<in>set (sr_candidates (dl_scoring d)). wf_candidate a"
    "\<forall>a\<in>set (sr_candidates (dl_scoring d)). \<exists>b\<in>set (cr_candidates (dl_intelligence d)). same_move a b"
    using scored_valid [OF q(2) _ sc] assms(3) intelligence_request_candidates [OF q(1)]
    by (auto simp: wf_candidates_def)
  have E: "dl_evaluation d = policy_input c row now ?ranked (dg_code dg) contact consent ins facts approval unknown
      \<and> wf_evaluation (dl_evaluation d)"
    using post_init_evaluation_wf [OF e] wf(1) active_incidents_wf [OF r(2)] assms(2) by auto
  have "reports s c (dl_evaluation d)"
    unfolding E [THEN conjunct1]
  proof (rule policy_input_reports)
    show "consent_facts (rc_merchant_id c) (rc_customer_id c) s = Inr (consent, s)"
      by (rule consent_facts_cong [OF facts(1) r(1)])
    show "authoritative_facts_for_case (rc_merchant_id c) c s = Inr (facts, s)"
      using case_facts_cong [OF s3 f(1)] by (simp only: case_facts_claim [OF claim])
    show "cf_active_intervention_id contact = (case rc_customer_id c of None \<Rightarrow> None
         | Some cu \<Rightarrow> map_option ci_intervention_id (active_intervention s (rc_merchant_id c) cu))"
      using P active_intervention_cong [OF interventions] by (simp split: option.splits)
  qed
  then show ?thesis
    using claim E p s3 outbox receipts f(2) q r(4) wf(2) by (auto simp: deliberated_def)
qed

end


section \<open>The conclusion\<close>

text \<open>An action with its receipt, as a decision to proceed authorises it.\<close>

definition authorised_row :: "RecoveryCase \<Rightarrow> PolicyDecision \<Rightarrow> ActionRow \<Rightarrow> ReceiptRow \<Rightarrow> bool" where
  "authorised_row c decision a receipt \<longleftrightarrow>
     (let x = pd_selected_action decision in
      ao_merchant_id a = rc_merchant_id c \<and> ao_recovery_case_id a = rc_case_id c \<and> ao_status a = PENDING
      \<and> ao_attempt_count a = 0 \<and> ao_action_type a = ca_action_type x \<and> ao_target_id a = ca_target x
      \<and> ao_target_type a = rc_subject_type c
      \<and> int_item (ao_parameters a) ''amount_minor'' = Inr (rc_revenue_at_risk_minor c)
      \<and> str_item (ao_parameters a) ''currency'' = Inr (rc_currency c)
      \<and> ao_decision_receipt_id a = rr_id receipt \<and> rr_merchant_id receipt = rc_merchant_id c
      \<and> rr_policy_result receipt = PROCEED \<and> rr_selected_action_type receipt = ao_action_type a
      \<and> rr_resulting_action_id receipt = Some (ao_id a))"

lemma build_action_InrD:
  assumes "build_action c decision receipt_id now coordinated = Inr (Some a)"
  shows "pd_result decision = PROCEED \<and> ra_case_id a = rc_case_id c \<and> ra_merchant_id a = rc_merchant_id c
    \<and> ra_decision_receipt_id a = receipt_id \<and> ra_action_type a = ca_action_type (pd_selected_action decision)
    \<and> ra_target_id a = ca_target (pd_selected_action decision) \<and> ra_target_type a = rc_subject_type c
    \<and> ra_status a = PENDING \<and> ra_parameters a = action_parameters c (pd_selected_action decision) coordinated"
  using assms
  by (auto simp: build_action_def Let_def bindR_eq_Inr split: if_splits dest!: post_init_action_Inr)

lemma action_parameters_items [simp]:
  "int_item (action_parameters c x ids) ''amount_minor'' = Inr (rc_revenue_at_risk_minor c)"
  "str_item (action_parameters c x ids) ''currency'' = Inr (rc_currency c)"
  by (simp_all add: action_parameters_def int_item_def str_item_def item_def)

lemma store_action_adds:
  "store_action uuids a p co n dl s = Inr (row, s') \<Longrightarrow>
   db_actions s' = db_actions s \<or> db_actions s' = db_actions s @ [action_row a p co n dl]"
  by (auto simp: store_action_def flush_actions_def result_simps Let_def split: option.splits dest!: append_entry_frame)

lemma authorize_action_adds:
  assumes "authorize_action uuids c row policy now d a s = Inr (u, s')"
  shows "db_receipts s' = db_receipts s \<and> (db_actions s' = db_actions s
    \<or> db_actions s' = db_actions s @ [action_row a (mp_version policy) (ev_correlation_id row) 3 (plus_delta now (hours 1))])"
proof -
  let ?rest = "case rc_customer_id c of None \<Rightarrow> returnT ()
      | Some customer \<Rightarrow>
          if ACTION_CLASSES (ra_action_type a) = CUSTOMER_CONTACT
          then bindT (liftR (contact_intervention c customer a (cf_active_case_ids (dl_contact d)) policy
                        (sr_model_version (dl_scoring d)) now)) (\<lambda>i. seqT (store_customer_intervention i) (returnT ()))
          else returnT ()"
  obtain r s1 where st: "store_action uuids a (mp_version policy) (ev_correlation_id row) 3 (plus_delta now (hours 1)) s = Inr (r, s1)"
    and rest: "?rest s1 = Inr (u, s')"
    using assms unfolding authorize_action_def result_simps by blast
  have "outbox_tables.stays ?rest" "same_receipts.stays ?rest"
    by (intro outbox_tables.stays_intros same_receipts.stays_intros recovery_outbox_tables action_writes_same_receipts)+
  from outbox_tables.staysD [OF this(1) rest] same_receipts.staysD [OF this(2) rest]
  show ?thesis
    using store_action_adds [OF st] same_receipts.staysD [OF action_writes_same_receipts(1) st]
    by (simp add: outbox_tables_def)
qed

lemma store_receipt_adds:
  "store_receipt uuids r s = Inr (row, s') \<Longrightarrow> row \<in> set (db_receipts s') \<and> (\<exists>e. row = receipt_row r e)"
  by (auto simp: store_receipt_def result_simps Let_def)

lemma post_init_receipt_Inr: "post_init_receipt r = Inr q \<Longrightarrow> q = r"
  by (auto simp: post_init_receipt_def bindR_eq_Inr utc_eq_Inr)

text \<open>The steps of a conclusion.\<close>

lemma conclude_steps:
  assumes "conclude settings uuids c row policy now approval d s = Inr (r, s')"
  obtains review s1 decided s2 rid s3 action human s4 s5 rrow u where
    "request_review settings uuids policy now d s = Inr (review, s1)" "outbox_tables s s1"
    "service_transition uuids (decision_transition (dl_decision d) row policy now) (dl_checking d) s1 = Inr (decided, s2)"
    "outbox_tables s2 s3"
    "build_action decided (dl_decision d) rid now (cf_active_case_ids (dl_contact d)) = Inr action"
    "outbox_tables s3 s4"
    "store_receipt uuids (service_receipt settings c row policy now human d rid (rc_state decided) action) s4 = Inr (rrow, s5)"
    "(case action of None \<Rightarrow> returnT () | Some a \<Rightarrow> authorize_action uuids c row policy now d a) s5 = Inr (u, s')"
    "r = \<lparr>rx_normalized_event_id = Some (ev_event_id row), rx_case_id = Some (rc_case_id decided),
         rx_case_state = Some (rc_state decided), rx_disposition = Some APPLIED,
         rx_reason_code = last (pd_reason_codes (dl_decision d)), rx_receipt_id = Some rid,
         rx_review_id = map_option rv_review_id review, rx_action_id = map_option ra_action_id action\<rparr>"
proof -
  let ?d = "dl_decision d"
  obtain review s1 decided s2 rid s3 action receipt ps s4 rrow s5 u where *:
    "request_review settings uuids policy now d s = Inr (review, s1)"
    "service_transition uuids (decision_transition ?d row policy now) (dl_checking d) s1 = Inr (decided, s2)"
    "new_id uuids ''receipt'' s2 = Inr (rid, s3)"
    "build_action decided ?d rid now (cf_active_case_ids (dl_contact d)) = Inr action"
    "post_init_receipt (service_receipt settings c row policy now
        (case approval of Some a \<Rightarrow> Some (rv_review_id a) | None \<Rightarrow> map_option rv_review_id review)
        d rid (rc_state decided) action) = Inr receipt"
    "store_model_predictions (cr_predictions (dl_intelligence d)) s3 = Inr (ps, s4)"
    "store_receipt uuids receipt s4 = Inr (rrow, s5)"
    "(case action of None \<Rightarrow> returnT () | Some a \<Rightarrow> authorize_action uuids c row policy now d a) s5 = Inr (u, s')"
    "r = \<lparr>rx_normalized_event_id = Some (ev_event_id row), rx_case_id = Some (rc_case_id decided),
         rx_case_state = Some (rc_state decided), rx_disposition = Some APPLIED,
         rx_reason_code = last (pd_reason_codes ?d), rx_receipt_id = Some (dr_receipt_id receipt),
         rx_review_id = map_option rv_review_id review, rx_action_id = map_option ra_action_id action\<rparr>"
    using assms unfolding conclude_def Let_def result_simps by blast
  have "outbox_tables.stays (request_review settings uuids policy now d)"
    unfolding request_review_def build_review_def new_id_def Let_def
    by (intro outbox_tables.stays_intros recovery_outbox_tables)
  from outbox_tables.staysD [OF this *(1)] have 1: "outbox_tables s s1" .
  have "outbox_tables.stays (new_id uuids ''receipt'')"
    unfolding new_id_def Let_def by (intro outbox_tables.stays_intros recovery_outbox_tables)
  from outbox_tables.staysD [OF this *(3)] have 2: "outbox_tables s2 s3" .
  have 3: "outbox_tables s3 s4" by (rule outbox_tables.staysD [OF recovery_outbox_tables(7) *(6)])
  note receipt = post_init_receipt_Inr [OF *(5)]
  show ?thesis
    by (rule that [OF *(1) 1 *(2) 2 *(4) 3 *(7) [unfolded receipt] *(8)])
      (simp add: *(9) receipt service_receipt_def Let_def)
qed

lemma conclude_InrD:
  assumes "conclude settings uuids c row policy now approval d s = Inr (r, s')" "same_claim c (dl_checking d)"
  shows "db_actions s' = db_actions s \<or> pd_result (dl_decision d) = PROCEED \<and> (\<exists>a receipt.
    db_actions s' = db_actions s @ [a] \<and> receipt \<in> set (db_receipts s') \<and> authorised_row c (dl_decision d) a receipt
    \<and> rx_action_id r = Some (ao_id a))"
  using assms(1)
proof (rule conclude_steps)
  fix review s1 decided s2 rid s3 action human s4 s5 rrow u
  assume 1: "outbox_tables s s1"
    and t: "service_transition uuids (decision_transition (dl_decision d) row policy now) (dl_checking d) s1 = Inr (decided, s2)"
    and 2: "outbox_tables s2 s3"
    and a: "build_action decided (dl_decision d) rid now (cf_active_case_ids (dl_contact d)) = Inr action"
    and 3: "outbox_tables s3 s4"
    and rc: "store_receipt uuids (service_receipt settings c row policy now human d rid (rc_state decided) action) s4 = Inr (rrow, s5)"
    and au: "(case action of None \<Rightarrow> returnT () | Some a \<Rightarrow> authorize_action uuids c row policy now d a) s5 = Inr (u, s')"
    and r: "r = \<lparr>rx_normalized_event_id = Some (ev_event_id row), rx_case_id = Some (rc_case_id decided),
         rx_case_state = Some (rc_state decided), rx_disposition = Some APPLIED,
         rx_reason_code = last (pd_reason_codes (dl_decision d)), rx_receipt_id = Some rid,
         rx_review_id = map_option rv_review_id review, rx_action_id = map_option ra_action_id action\<rparr>"
  note claim = same_claim_trans [OF assms(2) service_transition_claim [OF t, THEN conjunct1]]
  have same: "db_actions s5 = db_actions s"
    using 1 2 3 outbox_tables.staysD [OF service_transition_outbox_tables t]
      outbox_tables.staysD [OF recovery_outbox_tables(6) rc] by (simp add: outbox_tables_def)
  show ?thesis
  proof (cases action)
    case None
    with au same show ?thesis by (simp add: result_simps)
  next
    case (Some ra)
    note A = build_action_InrD [OF a [unfolded Some]]
    let ?row = "action_row ra (mp_version policy) (ev_correlation_id row) 3 (plus_delta now (hours 1))"
    from au Some have add: "db_receipts s' = db_receipts s5"
      "db_actions s' = db_actions s5 \<or> db_actions s' = db_actions s5 @ [?row]"
      using authorize_action_adds [of uuids c row policy now d ra s5 u s'] by auto
    obtain e where e: "rrow \<in> set (db_receipts s5)"
      "rrow = receipt_row (service_receipt settings c row policy now human d rid (rc_state decided) action) e"
      using store_receipt_adds [OF rc] by blast
    have "authorised_row c (dl_decision d) ?row rrow"
      using A claim Some by (simp add: authorised_row_def e(2) receipt_row_def service_receipt_def action_row_def
          Let_def same_claim_def)
    moreover have "rx_action_id r = Some (ao_id ?row)" using r Some by (simp add: action_row_def)
    ultimately show ?thesis using add same e(1) A by auto
  qed
qed

section \<open>The operations\<close>

text \<open>What happens before a case is evaluated touches neither facts nor actions.\<close>

definition preparatory :: "'a recovery_db_scheme \<Rightarrow> 'a recovery_db_scheme \<Rightarrow> bool" where
  "preparatory s s' \<longleftrightarrow> same_facts s s' \<and> outbox_tables s s' \<and> db_interventions s' = db_interventions s
     \<and> db_receipts s' = db_receipts s"

interpretation preparatory: step_order preparatory
  by unfold_locales (auto simp: preparatory_def same_facts_def outbox_tables_def)

lemma preparatory_writes:
  "preparatory.stays (service_transition uuids q c)" "preparatory.stays (draw_uuid uuids)"
  "preparatory.stays (create_case c' k ev t conf)" "preparatory.stays (link_evidence m ev lc d reason)"
  "preparatory.stays (update_review_decision uuids m rv)"
proof -
  show "preparatory.stays (service_transition uuids q c)"
    using service_transition_frames(1) [THEN same_facts.staysD] service_transition_frames(2) [THEN same_interventions.staysD]
      service_transition_frames(3) [THEN same_receipts.staysD] service_transition_outbox_tables [THEN outbox_tables.staysD]
    by (intro preparatory.staysI) (auto simp: preparatory_def)
  have ap: "preparatory.stays (append_entry uuids r)" for r
    using append_entry_frame by (intro preparatory.staysI) (fastforce simp: preparatory_def same_facts_def outbox_tables_def)
  show "preparatory.stays (draw_uuid uuids)" "preparatory.stays (create_case c' k ev t conf)"
    "preparatory.stays (link_evidence m ev lc d reason)" "preparatory.stays (update_review_decision uuids m rv)"
    unfolding draw_uuid_def create_case_def link_evidence_def update_review_decision_def flush_reviews_def Let_def
    by (intro preparatory.stays_intros preparatory.stays_modifyT ap;
        simp add: preparatory_def same_facts_def outbox_tables_def)+
qed

lemma reports_cong:
  assumes "preparatory s t" "reports t c e"
  shows "reports s c e"
proof -
  have "same_facts s t" and i: "active_intervention t m cu = active_intervention s m cu" for m cu
    using assms(1) active_intervention_cong by (auto simp: preparatory_def)
  then show ?thesis
    using assms(2) unfolding reports_def i by (blast intro: consent_facts_cong case_facts_cong)
qed

text \<open>A new action is licensed by the policy in force on what the database held before.\<close>

definition licensed :: "(string \<Rightarrow> zone option) \<Rightarrow> string \<Rightarrow> datetime \<Rightarrow> 'a recovery_db_scheme \<Rightarrow>
    'a recovery_db_scheme \<Rightarrow> ActionRow \<Rightarrow> bool" where
  "licensed zones m now s s' a \<longleftrightarrow> (\<exists>c policy e decision receipt.
     rc_merchant_id c = m \<and> effective_policy zones m now s = Inr (policy, s) \<and> reports s c e
     \<and> pe_evaluated_at e = now \<and> evaluate_policy zones policy e = Inr decision
     \<and> authorized zones policy e (pd_selected_action decision) \<and> \<not> must_stop policy e
     \<and> ao_action_type a \<notin> {ActionType.NO_ACTION, ESCALATE_HUMAN}
     \<and> receipt \<in> set (db_receipts s') \<and> authorised_row c decision a receipt)"

text \<open>
  The evidence and the deterministic diagnosis behind an evaluation, and an action that the
  intelligence named when it was asked about them.
\<close>

definition diagnosed :: "'a recovery_db_scheme \<Rightarrow> string \<Rightarrow> NormalizedRow \<Rightarrow> Diagnosis \<Rightarrow> bool" where
  "diagnosed s m row dg \<longleftrightarrow> row \<in> set (db_normalized s) \<and> ev_merchant_id row = m
     \<and> (\<exists>e. event_from_row row = Inr e \<and> (diagnose_event e = Inr (Some dg)
          \<or> diagnose_event e = Inr None \<and> (\<exists>c. no_action_diagnosis c = Inr dg)))"

lemma diagnosed_candidates:
  assumes "diagnosed s m row dg"
  shows "\<forall>x\<in>set (dg_candidates dg). wf_candidate x"
proof -
  from assms obtain e where e: "event_from_row row = Inr e"
    and d: "diagnose_event e = Inr (Some dg) \<or> (\<exists>c. no_action_diagnosis c = Inr dg)" by (auto simp: diagnosed_def)
  from e have "wf_event e" by (auto simp: event_from_row_def dest: post_init_event_Inr)
  from diagnose_event_fits [OF this] d show ?thesis
    by (auto simp: diagnosis_fits_def candidate_fits_def no_action_diagnosis_def bindR_eq_Inr dest: post_init_candidate_wf)
qed

definition advised :: "intelligence \<Rightarrow> string \<Rightarrow> 'a recovery_db_scheme \<Rightarrow> ActionRow \<Rightarrow> bool" where
  "advised recommend m s a \<longleftrightarrow> (\<exists>q i b row dg. diagnosed s m row dg \<and> cq_candidates q = dg_candidates dg
     \<and> recommend q = Inr i \<and> b \<in> set (cr_candidates i)
     \<and> ao_action_type a = ca_action_type b \<and> ao_target_id a = ca_target b)"

definition only_licensed :: "intelligence \<Rightarrow> (string \<Rightarrow> zone option) \<Rightarrow> string \<Rightarrow> datetime \<Rightarrow> 'a recovery_db_scheme \<Rightarrow>
    RecoveryServiceResult \<Rightarrow> 'a recovery_db_scheme \<Rightarrow> bool" where
  "only_licensed recommend zones m now s r s' \<longleftrightarrow> db_actions s' = db_actions s
     \<or> (\<exists>a. db_actions s' = db_actions s @ [a] \<and> rx_action_id r = Some (ao_id a) \<and> licensed zones m now s s' a
          \<and> advised recommend m s a)"

lemma normalized_event_InrD:
  assumes "get_normalized_event m n s = Inr (Some row, s')"
  shows "s' = s \<and> row \<in> set (db_normalized s) \<and> ev_merchant_id row = m \<and> ev_event_id row = n"
proof -
  let ?p = "\<lambda>r. ev_merchant_id r = m \<and> ev_event_id r = n"
  from assms have "filter ?p (db_normalized s) = [row]" and s: "s' = s"
    by (auto simp: get_normalized_event_def result_simps split: option.splits)
  then have "row \<in> set (filter ?p (db_normalized s))" by (simp only: list.set) blast
  with s show ?thesis by simp
qed

lemma only_licensed_quiet: "preparatory s s' \<Longrightarrow> only_licensed recommend zones m now s r s'"
  by (simp add: only_licensed_def preparatory_def outbox_tables_def)

context case_intelligence
begin

lemma evaluate_case_licensed:
  assumes "evaluate_case settings recommend zones uuids dg row policy now approval c t = Inr (r, s')"
    and "preparatory s t" and "effective_policy zones (rc_merchant_id c) now s = Inr (policy, s)"
    and "\<forall>x\<in>set_option approval. wf_review x" and "diagnosed s (rc_merchant_id c) row dg"
  shows "only_licensed recommend zones (rc_merchant_id c) now s r s'"
proof -
  obtain d u where d: "deliberate settings recommend zones uuids c dg row policy now approval t = Inr (d, u)"
    and r: "conclude settings uuids c row policy now approval d u = Inr (r, s')"
    using assms(1) unfolding evaluate_case_def result_simps by blast
  note D = deliberate_InrD [OF d assms(4) diagnosed_candidates [OF assms(5)]]
  then have del: "deliberated zones t c policy now approval d" and claim: "same_claim c (dl_checking d)"
    by (simp_all add: deliberated_def)
  have same: "db_actions u = db_actions s"
    using D assms(2) by (simp add: outbox_tables_def preparatory_def)
  have rep: "reports s c (dl_evaluation d)"
    using reports_cong [OF assms(2)] del by (simp add: deliberated_def)
  show ?thesis
    using conclude_InrD [OF r claim]
  proof (elim disjE conjE exE)
    assume "db_actions s' = db_actions u"
    then show ?thesis using same by (simp add: only_licensed_def)
  next
    fix a receipt
    assume p: "pd_result (dl_decision d) = PROCEED" and a: "db_actions s' = db_actions u @ [a]"
      and rc: "receipt \<in> set (db_receipts s')" and row: "authorised_row c (dl_decision d) a receipt"
      and id: "rx_action_id r = Some (ao_id a)"
    have P: "authorized zones policy (dl_evaluation d) (pd_selected_action (dl_decision d))"
      "ca_action_type (pd_selected_action (dl_decision d)) \<notin> {ActionType.NO_ACTION, ESCALATE_HUMAN}"
      "\<not> must_stop policy (dl_evaluation d)"
      "pd_selected_action (dl_decision d) \<in> set (pe_candidates (dl_evaluation d))"
      using proceed_authorized [OF _ _ _ p, of zones policy "dl_evaluation d"] effective_policy_wf [OF assms(3)] del
      by (auto simp: deliberated_def)
    have "ao_action_type a = ca_action_type (pd_selected_action (dl_decision d))"
      using row by (simp add: authorised_row_def Let_def)
    then have "licensed zones (rc_merchant_id c) now s s' a"
      unfolding licensed_def using assms(3) rep del P(1-3) rc row by (auto simp: deliberated_def)
    moreover have "advised recommend (rc_merchant_id c) s a"
    proof -
      have "pd_selected_action (dl_decision d) \<in> set (sr_candidates (dl_scoring d))"
        using P(4) del by (simp add: deliberated_def)
      with D obtain q b where "intelligence_request c dg row now = Inr q" "recommend q = Inr (dl_intelligence d)"
        "b \<in> set (cr_candidates (dl_intelligence d))" "same_move (pd_selected_action (dl_decision d)) b" by blast
      moreover from this(1) have "cq_candidates q = dg_candidates dg" by (rule intelligence_request_candidates)
      ultimately show ?thesis
        using assms(5) row unfolding advised_def by (fastforce simp: authorised_row_def same_move_def Let_def)
    qed
    ultimately show ?thesis using a id same by (simp add: only_licensed_def)
  qed
qed

end

lemma link_audit_only_preparatory: "preparatory.stays (link_audit_only row ci st reason)"
  unfolding link_audit_only_def by (intro preparatory.stays_intros preparatory_writes)

lemma advance_preparatory: "preparatory.stays (advance_to_decision_pending uuids dg e policy now c)"
  unfolding advance_to_decision_pending_def Let_def by (intro preparatory.stays_intros preparatory_writes)

lemma advance_claim:
  assumes "advance_to_decision_pending uuids dg e policy now c s = Inr (d, s')"
  shows "same_claim c d"
proof -
  from assms obtain c1 s1 where 1: "c1 = c \<or> (\<exists>q s. service_transition uuids q c s = Inr (c1, s1))"
    and 2: "d = c1 \<or> (\<exists>q. service_transition uuids q c1 s1 = Inr (d, s')) \<or> with_diagnosis dg c1 = Inr d"
    by (auto simp: advance_to_decision_pending_def Let_def result_simps split: if_splits)
  have "same_claim c c1" using 1 service_transition_claim by fastforce
  moreover have "same_claim c1 d"
    using 2 service_transition_claim by (fastforce simp: with_diagnosis_def same_claim_def dest: post_init_case_Inr)
  ultimately show ?thesis by (rule same_claim_trans)
qed

lemma open_case_InrD:
  "open_case uuids m i e now s = Inr (c, s') \<Longrightarrow> preparatory s s' \<and> rc_merchant_id c = m"
proof -
  assume r: "open_case uuids m i e now s = Inr (c, s')"
  have "preparatory.stays (open_case uuids m i e now)"
    unfolding open_case_def new_id_def Let_def by (intro preparatory.stays_intros preparatory_writes)
  from preparatory.staysD [OF this r] r show ?thesis
    by (auto simp: open_case_def result_simps dest!: post_init_case_Inr)
qed

text \<open>The case that is advanced, found or opened, is the merchant's.\<close>

lemma next_case_preparatory:
  assumes "(case found of None \<Rightarrow> new_evidence_case uuids i row e now | Some r \<Rightarrow> add_evidence row e r) s = Inr (x, s')"
  shows "preparatory s s' \<and> (\<forall>c. x = Inr c \<longrightarrow> rc_merchant_id c = ev_merchant_id row)"
proof (cases found)
  case None
  with assms obtain c s1 l where o: "open_case uuids (ev_merchant_id row) i e now s = Inr (c, s1)"
    and l: "link_evidence (ev_merchant_id row) (ev_event_id row) (Some (rc_case_id c)) APPLIED ''EVIDENCE_ACCEPTED'' s1 = Inr (l, s')"
    and x: "\<forall>d. x = Inr d \<longrightarrow> d = c"
    by (auto simp: new_evidence_case_def result_simps split: if_splits)
  from open_case_InrD [OF o] preparatory.staysD [OF preparatory_writes(4) l] x show ?thesis
    using preparatory.step_trans by blast
next
  case (Some r)
  have "preparatory.stays (add_evidence row e r)"
    unfolding add_evidence_def Let_def
    by (intro preparatory.stays_intros preparatory_writes preparatory.stays_read; erule recovery_read)
  moreover have "x = Inr c \<Longrightarrow> rc_merchant_id c = ev_merchant_id row" for c
    using assms Some
    by (auto simp: add_evidence_def require_case_def get_case_def case_row_def result_simps Let_def find_Some_iff
        split: if_splits)
  ultimately show ?thesis using assms Some preparatory.staysD by auto
qed

text \<open>The ways of an event through the service.\<close>

lemma process_subject_cases:
  assumes "process_subject settings recommend zones uuids now row e i s = Inr (r, s')"
  obtains (audit) found reason where "case_of_event (ev_merchant_id row) i s = Inr (found, s)"
      "link_audit_only row (map_option (\<lambda>r. rc_case_id (cw_case r)) found)
         (map_option (\<lambda>r. rc_state (cw_case r)) found) reason s = Inr (r, s')"
      "diagnose_event e = Inr None \<or> map_option (\<lambda>r. rc_state (cw_case r)) found \<in> {Some RECOVERED, Some STOPPED}"
  | (evaluate) d found policy x s1 where "diagnose_event e = Inr (Some d)"
      "case_of_event (ev_merchant_id row) i s = Inr (found, s)"
      "map_option (\<lambda>r. rc_state (cw_case r)) found \<notin> {Some RECOVERED, Some STOPPED}"
      "effective_policy zones (ev_merchant_id row) now s = Inr (policy, s)"
      "(case found of None \<Rightarrow> new_evidence_case uuids i row e now | Some r \<Rightarrow> add_evidence row e r) s = Inr (x, s1)"
      "(case x of Inl result \<Rightarrow> returnT result
        | Inr c \<Rightarrow> advance_and_evaluate settings recommend zones uuids d e row policy now c) s1 = Inr (r, s')"
proof -
  let ?state = "\<lambda>found. map_option (\<lambda>r. rc_state (cw_case r)) found"
  let ?audit = "\<lambda>found. link_audit_only row (map_option (\<lambda>r. rc_case_id (cw_case r)) found) (?state found)"
  let ?next = "\<lambda>found. case found of None \<Rightarrow> new_evidence_case uuids i row e now | Some r \<Rightarrow> add_evidence row e r"
  let ?go = "\<lambda>d policy x. case x of Inl result \<Rightarrow> returnT result
        | Inr c \<Rightarrow> advance_and_evaluate settings recommend zones uuids d e row policy now c"
  obtain dg found s1 where dg: "diagnose_event e = Inr dg" and f: "case_of_event (ev_merchant_id row) i s = Inr (found, s1)"
    and rest: "(case dg of None \<Rightarrow> ?audit found ''EVENT_HAS_NO_RECOVERY_DIAGNOSIS''
     | Some d \<Rightarrow> if ?state found \<in> {Some RECOVERED, Some STOPPED} then ?audit found ''TERMINAL_CASE_EVIDENCE''
         else bindT (effective_policy zones (ev_merchant_id row) now) (\<lambda>policy. bindT (?next found) (?go d policy))) s1
       = Inr (r, s')"
    using assms unfolding process_subject_def Let_def result_simps by blast
  have s1: "s1 = s" using recovery_read(11) [OF f] .
  show ?thesis
  proof (cases dg)
    case None
    with rest f dg s1 show ?thesis by (intro audit [of found]) simp_all
  next
    case (Some d)
    show ?thesis
    proof (cases "?state found \<in> {Some RECOVERED, Some STOPPED}")
      case True
      with rest Some f s1 show ?thesis by (intro audit [of found]) (simp_all only: option.case if_True simp_thms)
    next
      case False
      with rest Some s1 obtain policy x s2 s3 where p: "effective_policy zones (ev_merchant_id row) now s = Inr (policy, s2)"
        and n: "?next found s2 = Inr (x, s3)" "?go d policy x s3 = Inr (r, s')"
        by (simp only: option.case if_False result_simps) blast
      have "s2 = s" using effective_policy_wf [OF p] by simp
      with dg Some f s1 False p n show ?thesis by (intro evaluate [of d found policy x s3]) simp_all
    qed
  qed
qed

text \<open>The ways of a review decision: expired, rejected, or back to the policy.\<close>

lemma apply_review_cases:
  assumes "apply_review settings recommend zones uuids now m decision s = Inr (r, s')"
  obtains (stop) request c policy decided row s1 reason where
      "get_review m (rd_review_id decision) s = Inr (Some request, s)"
      "get_case m (rv_case_id request) s = Inr (Some c, s)"
      "rv_expires_at request \<le> now \<and> expire_review request now ''SYSTEM'' = Inr decided
         \<and> reason = ''HUMAN_REVIEW_EXPIRED''
       \<or> \<not> rv_expires_at request \<le> now \<and> Reviews.decide_review request decision = Inr decided
         \<and> rd_decision decision = REJECT \<and> reason = ''HUMAN_REVIEW_REJECTED''"
      "effective_policy zones m now s = Inr (policy, s)" "rd_decided_at decision \<le> now"
      "update_review_decision uuids m decided s = Inr (row, s1)"
      "stop_reviewed_case uuids decision request policy now reason c s1 = Inr (r, s')"
  | (resume) request c policy decided row s1 where "rc_merchant_id c = m"
      "get_review m (rd_review_id decision) s = Inr (Some request, s)"
      "get_case m (rv_case_id request) s = Inr (Some c, s)"
      "\<not> rv_expires_at request \<le> now" "rd_decision decision = APPROVE" "rd_decided_at decision \<le> now"
      "effective_policy zones m now s = Inr (policy, s)"
      "Reviews.decide_review request decision = Inr decided"
      "update_review_decision uuids m decided s = Inr (row, s1)"
      "resume_reviewed_case settings recommend zones uuids decision request decided policy now m c s1 = Inr (r, s')"
proof -
  let ?expire = "\<lambda>request policy c. bindT (liftR (expire_review request now ''SYSTEM'')) (\<lambda>decided.
        seqT (update_review_decision uuids m decided)
          (stop_reviewed_case uuids decision request policy now ''HUMAN_REVIEW_EXPIRED'' c))"
  let ?decide = "\<lambda>request policy c. bindT (liftR (Reviews.decide_review request decision)) (\<lambda>decided.
        seqT (update_review_decision uuids m decided)
          (if rd_decision decision = REJECT
           then stop_reviewed_case uuids decision request policy now ''HUMAN_REVIEW_REJECTED'' c
           else resume_reviewed_case settings recommend zones uuids decision request decided policy now m c))"
  from assms obtain t where t: "evidence_utc now = Inr t" by (auto simp: apply_review_def result_simps)
  then have "t = now" by (auto simp: evidence_utc_def split: if_splits)
  with assms t obtain request c policy s1 s2 s3 where order: "\<not> now < rd_decided_at decision"
    and q: "get_review m (rd_review_id decision) s = Inr (Some request, s1)"
      "require_case m (rv_case_id request) s1 = Inr (c, s2)" "effective_policy zones m now s2 = Inr (policy, s3)"
    and rest: "(if rv_expires_at request \<le> now then ?expire request policy c else ?decide request policy c) s3 = Inr (r, s')"
    unfolding apply_review_def result_simps by blast
  have s: "s1 = s" "s2 = s" "s3 = s"
    using recovery_read(8) [OF q(1)] recovery_read(7) [OF q(2)] effective_policy_wf [OF q(3)] by simp_all
  have c: "get_case m (rv_case_id request) s = Inr (Some c, s)"
    using q(2) s by (auto simp: require_case_def get_case_def result_simps)
  have m: "rc_merchant_id c = m"
    using q(2) by (auto simp: require_case_def get_case_def case_row_def result_simps find_Some_iff)
  show ?thesis
  proof (cases "rv_expires_at request \<le> now")
    case True
    with rest s obtain decided row u where "expire_review request now ''SYSTEM'' = Inr decided"
      "update_review_decision uuids m decided s = Inr (row, u)"
      "stop_reviewed_case uuids decision request policy now ''HUMAN_REVIEW_EXPIRED'' c u = Inr (r, s')"
      by (simp only: if_True result_simps) blast
    with True q c s order show ?thesis by (intro stop [of request c decided]) (auto simp: m)
  next
    case False
    with rest s obtain decided row u where d: "Reviews.decide_review request decision = Inr decided"
      "update_review_decision uuids m decided s = Inr (row, u)"
      "(if rd_decision decision = REJECT
           then stop_reviewed_case uuids decision request policy now ''HUMAN_REVIEW_REJECTED'' c
           else resume_reviewed_case settings recommend zones uuids decision request decided policy now m c) u = Inr (r, s')"
      by (simp only: if_False result_simps) blast
    show ?thesis
    proof (cases "rd_decision decision")
      case APPROVE
      with d False q c s order show ?thesis by (intro resume [of c request]) (auto simp: m)
    next
      case REJECT
      with d False q c s order show ?thesis by (intro stop [of request c decided]) (auto simp: m)
    qed
  qed
qed

context case_intelligence
begin

lemma process_subject_licensed:
  assumes "process_subject settings recommend zones uuids now row e i s = Inr (r, s')"
    and "row \<in> set (db_normalized s)" "event_from_row row = Inr e"
  shows "only_licensed recommend zones (ev_merchant_id row) now s r s'"
  using assms(1)
proof (cases rule: process_subject_cases)
  case (audit found reason)
  from preparatory.staysD [OF link_audit_only_preparatory audit(2)] show ?thesis by (rule only_licensed_quiet)
next
  case (evaluate d found policy x s3)
  note N = next_case_preparatory [OF evaluate(5)]
  show ?thesis
  proof (cases x)
    case (Inl result)
    with evaluate(6) N show ?thesis by (auto simp: result_simps intro: only_licensed_quiet)
  next
    case (Inr c0)
    with evaluate(6) obtain c s4 where c: "advance_to_decision_pending uuids d e policy now c0 s3 = Inr (c, s4)"
      and ev: "rc_state c \<noteq> DECISION_PENDING \<and> s' = s4 \<or>
        evaluate_case settings recommend zones uuids d row policy now None c s4 = Inr (r, s')"
      by (auto simp: advance_and_evaluate_def result_simps split: if_splits)
    have pre: "preparatory s s4"
      using N preparatory.staysD [OF advance_preparatory c] preparatory.step_trans by blast
    have m: "rc_merchant_id c = ev_merchant_id row"
      using N Inr advance_claim [OF c] by (simp add: same_claim_def)
    from ev show ?thesis
    proof
      assume e: "evaluate_case settings recommend zones uuids d row policy now None c s4 = Inr (r, s')"
      have "diagnosed s (ev_merchant_id row) row d" using assms(2,3) evaluate(1) by (auto simp: diagnosed_def)
      then show ?thesis using evaluate_case_licensed [OF e pre] evaluate(4) m by simp
    qed (use pre in \<open>simp add: only_licensed_quiet\<close>)
  qed
qed

lemma process_event_licensed:
  assumes "process_event settings recommend zones uuids now m n s = Inr (r, s')"
  shows "only_licensed recommend zones m now s r s'"
proof -
  from assms obtain row e s1 where t: "evidence_utc now = Inr now" and row: "get_normalized_event m n s = Inr (Some row, s1)"
    and e: "event_from_row row = Inr e"
    and rest: "(case select_case_identity e of None \<Rightarrow> unsupported_subject m n
      | Some i \<Rightarrow> process_subject settings recommend zones uuids now row e i) s1 = Inr (r, s')"
    by (auto simp: process_event_def result_simps evidence_utc_def split: if_splits)
  note R = normalized_event_InrD [OF row]
  show ?thesis
  proof (cases "select_case_identity e")
    case None
    have "preparatory.stays (unsupported_subject m n)"
      unfolding unsupported_subject_def by (intro preparatory.stays_intros preparatory_writes)
    from preparatory.staysD [OF this] rest None R have "preparatory s s'" by simp
    then show ?thesis by (rule only_licensed_quiet)
  next
    case (Some i)
    with rest R have p: "process_subject settings recommend zones uuids now row e i s = Inr (r, s')" by simp
    from process_subject_licensed [OF p _ e] R show ?thesis by simp
  qed
qed

lemma reevaluate_case_licensed:
  assumes "reevaluate_case settings recommend zones uuids now r0 s = Inr (r, s')"
  shows "only_licensed recommend zones (rc_merchant_id (cw_case r0)) now s r s'"
proof -
  let ?m = "rc_merchant_id (cw_case r0)"
  obtain event_id row e dg policy c q c' s1 s2 s3 s4 where row: "get_normalized_event ?m event_id s = Inr (Some row, s1)"
    and dg: "event_from_row row = Inr e" "diagnose_event e = Inr (Some dg)"
    and p: "effective_policy zones ?m now s1 = Inr (policy, s2)"
    and c: "require_case ?m (rc_case_id (cw_case r0)) s2 = Inr (c, s3)"
    and t: "service_transition uuids q c s3 = Inr (c', s4)"
    and ev: "evaluate_case settings recommend zones uuids dg row policy now None c' s4 = Inr (r, s')"
    using assms unfolding reevaluate_case_def Let_def by (auto simp: result_simps)
  have s: "s1 = s" "s2 = s" "s3 = s"
    using recovery_read(1) [OF row] effective_policy_wf [OF p] recovery_read(7) [OF c] by simp_all
  have "rc_merchant_id c = ?m"
    using c by (auto simp: require_case_def get_case_def case_row_def result_simps find_Some_iff)
  then have m: "rc_merchant_id c' = ?m" using service_transition_claim [OF t] by (simp add: same_claim_def)
  have "diagnosed s ?m row dg" using normalized_event_InrD [OF row] dg by (auto simp: diagnosed_def)
  then show ?thesis
    using evaluate_case_licensed [OF ev preparatory.staysD [OF preparatory_writes(1) t [unfolded s]]] p m s by simp
qed

lemma apply_review_licensed:
  assumes "apply_review settings recommend zones uuids now m decision s = Inr (r, s')"
  shows "only_licensed recommend zones m now s r s'"
  using assms
proof (rule apply_review_cases)
  fix request c policy decided row s1 reason
  assume u: "update_review_decision uuids m decided s = Inr (row, s1)"
    and stop: "stop_reviewed_case uuids decision request policy now reason c s1 = Inr (r, s')"
  have "preparatory.stays (stop_reviewed_case uuids decision request policy now reason c)"
    unfolding stop_reviewed_case_def by (intro preparatory.stays_intros preparatory_writes)
  from preparatory.staysD [OF this stop] preparatory.staysD [OF preparatory_writes(5) u] show ?thesis
    using preparatory.step_trans only_licensed_quiet by blast
next
  fix request c policy decided row s1
  assume c: "rc_merchant_id c = m" and p: "effective_policy zones m now s = Inr (policy, s)"
    and d: "Reviews.decide_review request decision = Inr decided"
    and u: "update_review_decision uuids m decided s = Inr (row, s1)"
    and go: "resume_reviewed_case settings recommend zones uuids decision request decided policy now m c s1 = Inr (r, s')"
  obtain event_id n e known dg q c' s2 s3 where row: "get_normalized_event m event_id s1 = Inr (Some n, s2)"
    and dg: "event_from_row n = Inr e" "diagnose_event e = Inr known"
      "(case known of Some d \<Rightarrow> Inr d | None \<Rightarrow> no_action_diagnosis c) = Inr dg"
    and t: "service_transition uuids q c s2 = Inr (c', s3)"
    and ev: "evaluate_case settings recommend zones uuids dg n policy now (Some decided) c' s3 = Inr (r, s')"
    using go unfolding resume_reviewed_case_def by (force simp: result_simps)
  have pre: "preparatory s s3"
    using preparatory.staysD [OF preparatory_writes(5) u] preparatory.staysD [OF preparatory_writes(1) t]
      recovery_read(1) [OF row] preparatory.step_trans by blast
  have m: "rc_merchant_id c' = m" using service_transition_claim [OF t] c by (simp add: same_claim_def)
  have "wf_review decided" using d by (auto simp: Reviews.decide_review_def Let_def bindR_eq_Inr dest: post_init_review_Inr)
  moreover have "diagnosed s m n dg"
    using normalized_event_InrD [OF row] preparatory.staysD [OF preparatory_writes(5) u] dg
    by (auto simp: diagnosed_def preparatory_def same_facts_def split: option.splits)
  ultimately show ?thesis using evaluate_case_licensed [OF ev pre] p m by simp
qed

end

text \<open>A step of the service for one event, one due case or one review of a merchant.\<close>

inductive service_step :: "intelligence \<Rightarrow> (string \<Rightarrow> zone option) \<Rightarrow> datetime \<Rightarrow> string \<Rightarrow>
    'a recovery_db_scheme \<Rightarrow> RecoveryServiceResult \<Rightarrow> 'a recovery_db_scheme \<Rightarrow> bool"
  for recommend zones now m where
  event: "process_event settings recommend zones uuids now m n s = Inr (r, s') \<Longrightarrow>
    service_step recommend zones now m s r s'"
| due: "reevaluate_case settings recommend zones uuids now row s = Inr (r, s') \<Longrightarrow>
    rc_merchant_id (cw_case row) = m \<Longrightarrow> service_step recommend zones now m s r s'"
| review: "apply_review settings recommend zones uuids now m d s = Inr (r, s') \<Longrightarrow>
    service_step recommend zones now m s r s'"

lemma service_step_licensed:
  assumes "case_intelligence recommend" and "service_step recommend zones now m s r s'"
  shows "only_licensed recommend zones m now s r s'"
  using assms(2)
proof cases
  case (event settings uuids n)
  from case_intelligence.process_event_licensed [OF assms(1) event] show ?thesis .
next
  case (due settings uuids row)
  from case_intelligence.reevaluate_case_licensed [OF assms(1) due(1)] due(2) show ?thesis by simp
next
  case (review settings uuids d)
  from case_intelligence.apply_review_licensed [OF assms(1) review] show ?thesis .
qed

text \<open>
  With a bounded intelligence (it only reorders, drops and rescores the candidates it is given)
  every new action is a candidate of a deterministic diagnosis.
\<close>

lemma service_step_advised:
  assumes "bounded_intelligence recommend" and "service_step recommend zones now m s r s'"
    and "a \<in> set (db_actions s')" and "a \<notin> set (db_actions s)"
  shows "\<exists>row e dg x. row \<in> set (db_normalized s) \<and> ev_merchant_id row = m \<and> event_from_row row = Inr e
    \<and> diagnose_event e = Inr (Some dg) \<and> x \<in> set (dg_candidates dg)
    \<and> ao_action_type a = ca_action_type x \<and> ao_target_id a = ca_target x"
proof -
  have "case_intelligence recommend" using assms(1) by (rule bounded_intelligence.axioms(1))
  from service_step_licensed [OF this assms(2)] assms(3,4)
  have L: "licensed zones m now s s' a" and A: "advised recommend m s a" by (auto simp: only_licensed_def)
  obtain q i b row dg where d: "diagnosed s m row dg" "cq_candidates q = dg_candidates dg" "recommend q = Inr i"
    "b \<in> set (cr_candidates i)" "ao_action_type a = ca_action_type b" "ao_target_id a = ca_target b"
    using A by (auto simp: advised_def)
  have "wf_candidates q" using diagnosed_candidates [OF d(1)] d(2) by (simp add: wf_candidates_def)
  from bounded_intelligence.no_new_move [OF assms(1) d(3) this d(4)] d(2) obtain x where x: "x \<in> set (dg_candidates dg)" "same_move b x" by auto
  have "\<nexists>c. no_action_diagnosis c = Inr dg"
  proof
    assume "\<exists>c. no_action_diagnosis c = Inr dg"
    with x(1) have "ca_action_type x = ActionType.NO_ACTION"
      by (auto simp: no_action_diagnosis_def bindR_eq_Inr dest!: post_init_candidate_wf)
    with L x d(5) show False by (auto simp: licensed_def same_move_def)
  qed
  with d x show ?thesis by (fastforce simp: diagnosed_def same_move_def)
qed

end
