(* ===== verification/Agent_Service.thy ===== *)
theory Agent_Service
  imports Agent_Theorems Recovery_Safety
begin

text \<open>
  The recovery service with the advisory graph it is built with: the graph provides the two
  interfaces the safety of the service rests on, whatever the model answers.
\<close>

definition advise :: "BoundedCaseIntelligence \<Rightarrow> (CaseIntelligenceRequest \<Rightarrow> World) \<Rightarrow> intelligence" where
  "advise b world q = recommend b (world q) q"

interpretation agent: bounded_intelligence "advise b world" for b world
proof unfold_locales
  fix q r
  assume "advise b world q = Inr r"
  then show "post_init_result r = Inr r" by (auto simp: advise_def elim: recommend_cases)
next
  fix q r c
  assume "advise b world q = Inr r" "wf_candidates q" "c \<in> set (cr_candidates r)"
  then show "wf_candidate c" "\<exists>d\<in>set (cq_candidates q). same_move c d"
    using recommendation_moves [of b "world q" q r c] by (auto simp: advise_def same_move_def)
next
  fix q r
  assume "advise b world q = Inr r"
  then show "cr_confidence_basis_points r \<le> cq_diagnosis_confidence_basis_points q"
    using recommendation_confidence by (simp add: advise_def)
qed



end
