(* ===== verification/Recovery_Service_Witnesses.thy ===== *)
theory Recovery_Service_Witnesses
  imports Agent_Service Recovery_Outcomes Execution_Witnesses
begin

text \<open>
  Concrete runs of the recovery service: a deferred case comes due, its re-evaluation is advised by
  a graph whose workflow timed out, and the policy authorises the pause of its retries.
\<close>


section \<open>The store\<close>

definition due_event :: NormalizedRow where
  "due_event = \<lparr>ev_event_id = ''event_1'', ev_merchant_id = ''merchant_1'', ev_source = RAZORPAY,
     ev_source_event_id = ''rzp_1'', ev_event_type = ''payment.failed'', ev_occurred_at = Aware 1000,
     ev_received_at = Aware 1100, ev_amount_minor = 12000, ev_currency = ''INR'',
     ev_failure_category = GATEWAY_UNAVAILABLE, ev_correlation_id = ''corr_1'',
     ev_source_payload_reference = ''webhook_events/1'', ev_customer_id = None,
     ev_payment_id = Some ''pay_1'', ev_order_id = None, ev_subscription_id = None,
     ev_invoice_id = None, ev_payment_link_id = None, ev_failure_code = None, ev_causation_id = None,
     ev_schema_version = ''1.0'', ne_webhook_event_id = Some ''webhook_1'', ne_merchant_event_id = None,
     ne_normalized_payload = []\<rparr>"

definition due_at :: datetime where
  "due_at = Aware 4000000000"

definition due_case :: RecoveryCase where
  "due_case = sample_case\<lparr>rc_state := DEFERRED, rc_next_evaluation_at := Some (Aware 2000000000),
     rc_customer_id := None\<rparr>"

definition due_row :: CaseRow where
  "due_row = sample_row\<lparr>cw_case := due_case, cw_latest_evidence_event_id := Some ''event_1'',
     cw_latest_evidence_occurred_at := Some (Aware 1000)\<rparr>"

definition pause_policy :: MerchantPolicySnapshot where
  "pause_policy = sample_policy\<lparr>mp_allowed_actions := {PAUSE_RETRIES}, mp_effective_at := Aware 0\<rparr>"

definition due_store :: recovery_db where
  "due_store = empty_store\<lparr>db_cases := [due_row], db_normalized := [due_event],
     db_policies := [policy_row ''merchant_1'' pause_policy ''alice'']\<rparr>"

definition due_settings :: RecoverySettings where
  "due_settings = \<lparr>rs_application_version = APPLICATION_VERSION, rs_review_ttl = hours 1,
     rs_scoring_artifact = sample_artifact,
     rs_action_economics = \<lparr>ec_version = ''v'', ec_action_cost_minor = [], ec_risk_penalty_minor = [],
       ec_customer_friction_penalty_minor = []\<rparr>\<rparr>"

definition default_graph :: BoundedCaseIntelligence where
  "default_graph = \<lparr>bi_model = unavailable_model, bi_budget = default_budget,
     bi_prompt_version = DEFAULT_PROMPT_VERSION, bi_schema_version = AGENT_SCHEMA_VERSION\<rparr>"

definition slow_world :: World where
  "slow_world = \<lparr>wd_pydantic = \<lparr>py_diagnosis = (\<lambda>_. None), py_strategies = (\<lambda>_. None),
       py_ranking = (\<lambda>_. None), py_explanation = (\<lambda>_. None)\<rparr>,
     wd_latency_ms = (\<lambda>_. 0), wd_interrupted = Some ''GRAPH_TIMEOUT''\<rparr>"


section \<open>One transition of a stored case\<close>

text \<open>What a transition of the only stored case does, when its checks succeed.\<close>

definition next_row :: "RecoveryCase \<Rightarrow> ServiceTransition \<Rightarrow> CaseRow \<Rightarrow> CaseTransition list \<Rightarrow>
    (RecoveryCase \<times> CaseRow \<times> CaseTransition) option" where
  "next_row c q r ts =
     (case transition_case c (service_request c q) of
        Inl _ \<Rightarrow> None
      | Inr (v, t) \<Rightarrow>
          (case bindR (case sv_diagnosis q of None \<Rightarrow> Inr v | Some d \<Rightarrow> with_diagnosis d v) (\<lambda>u.
                 if sv_increment_retry q then post_init_case (u\<lparr>rc_retry_count := rc_retry_count u + 1\<rparr>) else Inr u) of
             Inl _ \<Rightarrow> None
           | Inr u \<Rightarrow>
               let r' = transition_update u (map_option (\<lambda>e. (ev_event_id e, Some (ev_occurred_at e))) (sv_latest_event q)) r in
               if transition_matches t r \<and> cases_ok [r'] \<and> transitions_ok (ts @ [t])
                  \<and> validate_append (transition_append t) = Inr ()
               then Some (u, r', t) else None))"

lemma next_row_stored:
  assumes "next_row c q r ts = Some (u, r', t)" "db_cases s = [r]" "db_transitions s = ts"
  shows "\<exists>es hs n. service_transition uuids q c s = Inr (u, s\<lparr>db_cases := [r'], db_transitions := ts @ [t],
    db_audit_entries := es, db_audit_heads := hs, db_uuids := n\<rparr>)"
proof -
  from assms(1) obtain v where t: "transition_case c (service_request c q) = Inr (v, t)"
    and u: "bindR (case sv_diagnosis q of None \<Rightarrow> Inr v | Some d \<Rightarrow> with_diagnosis d v) (\<lambda>u.
                 if sv_increment_retry q then post_init_case (u\<lparr>rc_retry_count := rc_retry_count u + 1\<rparr>) else Inr u) = Inr u"
    and r': "r' = transition_update u (map_option (\<lambda>e. (ev_event_id e, Some (ev_occurred_at e))) (sv_latest_event q)) r"
    and ok: "transition_matches t r" "cases_ok [r']" "transitions_ok (ts @ [t])" "validate_append (transition_append t) = Inr ()"
    by (auto simp: next_row_def Let_def split: sum.splits prod.splits if_splits)
  obtain e s' where a: "append_entry uuids (transition_append t) (s\<lparr>db_cases := [r'], db_transitions := ts @ [t]\<rparr>) = Inr (e, s')"
    using append_entry_returns [OF ok(4)] by blast
  from append_entry_frame [OF a] obtain es hs n where
    s': "s' = s\<lparr>db_cases := [r'], db_transitions := ts @ [t], db_audit_entries := es, db_audit_heads := hs, db_uuids := n\<rparr>"
    by auto
  have key: "row_key r' = (ct_merchant_id t, ct_case_id t)"
    using ok(1) by (auto simp: r' transition_matches_def)
  from u obtain u1 where u1: "(case sv_diagnosis q of None \<Rightarrow> Inr v | Some d \<Rightarrow> with_diagnosis d v) = Inr u1"
    "(if sv_increment_retry q then post_init_case (u1\<lparr>rc_retry_count := rc_retry_count u1 + 1\<rparr>) else Inr u1) = Inr u"
    by (auto simp: bindR_eq_Inr)
  have "apply_transition uuids u t (map_option (\<lambda>e. (ev_event_id e, Some (ev_occurred_at e))) (sv_latest_event q)) s = Inr (r', s')"
    using assms(2,3) ok(1,2,3) a key s'
    by (simp add: apply_transition_def run_tx checkT_def r' [symmetric] case_row_def)
  then have "service_transition uuids q c s = Inr (u, s')"
    using t u1 by (simp add: service_transition_def run_tx)
  with s' show ?thesis by blast
qed

section \<open>The concrete steps\<close>

definition due_risk_event :: RevenueRiskEvent where
  "due_risk_event = RevenueRiskEvent.truncate due_event"

definition sample_candidate :: "ActionType \<Rightarrow> int \<Rightarrow> int \<Rightarrow> int \<Rightarrow> CandidateAction" where
  "sample_candidate t p v r = \<lparr>ca_action_type = t, ca_recovery_probability_basis_points = p,
     ca_expected_net_recovery_minor = v, ca_rank = r, ca_target = ''pay_1'', ca_logical_attempt = 1, ca_channel = None,
     ca_action_cost_minor = 0, ca_risk_penalty_minor = 0, ca_customer_friction_penalty_minor = 0\<rparr>"

definition due_diagnosis :: Diagnosis where
  "due_diagnosis = \<lparr>dg_code = ''GATEWAY_TEMPORARILY_UNAVAILABLE'', dg_confidence_basis_points = 9000,
     dg_candidates = [sample_candidate PAUSE_RETRIES 1000 0 1, sample_candidate DEFER_RETRY 7600 8520 2,
       sample_candidate ActionType.NO_ACTION 0 0 3],
     dg_defer_until = Some (Aware 1800001000), dg_terminal = False\<rparr>"

lemma due_event_read: "event_from_row due_event = Inr due_risk_event"
  by code_simp

lemma due_event_diagnosed: "diagnose_event due_risk_event = Inr (Some due_diagnosis)"
  by code_simp

definition due_move :: ServiceTransition where
  "due_move = new_transition DECISION_PENDING ''SYSTEM'' ''DEFERRED_CASE_DUE'' ''corr_1'' pause_policy due_at"

definition sample_move :: "CaseState \<Rightarrow> CaseState \<Rightarrow> int \<Rightarrow> string \<Rightarrow> string \<Rightarrow> CaseTransition" where
  "sample_move before after version actor reason = \<lparr>ct_case_id = ''case_1'', ct_merchant_id = ''merchant_1'',
     ct_before_state = before, ct_after_state = after, ct_before_version = version, ct_after_version = version + 1,
     ct_actor = actor, ct_reason_code = reason, ct_reason_detail = None, ct_correlation_id = ''corr_1'',
     ct_policy_version = mp_version pause_policy, ct_authoritative_evidence_reference = None, ct_occurred_at = due_at\<rparr>"

definition pending_case :: RecoveryCase where
  "pending_case = due_case\<lparr>rc_state := DECISION_PENDING, rc_state_version := 2, rc_updated_at := due_at,
     rc_next_evaluation_at := None\<rparr>"

definition pending_row :: CaseRow where
  "pending_row = due_row\<lparr>cw_case := pending_case\<rparr>"

definition pending_transition :: CaseTransition where
  "pending_transition = sample_move DEFERRED DECISION_PENDING 1 ''SYSTEM'' ''DEFERRED_CASE_DUE''"

lemma pending: "next_row due_case due_move due_row [] = Some (pending_case, pending_row, pending_transition)"
  by code_simp

definition check_move :: ServiceTransition where
  "check_move = (new_transition POLICY_CHECK ''RECOVERY_SERVICE'' ''POLICY_EVALUATION_STARTED'' ''corr_1''
     pause_policy due_at)\<lparr>sv_diagnosis := Some due_diagnosis, sv_latest_event := Some due_risk_event\<rparr>"

definition checked_case :: RecoveryCase where
  "checked_case = pending_case\<lparr>rc_state := POLICY_CHECK, rc_state_version := 3,
     rc_diagnosis := Some ''GATEWAY_TEMPORARILY_UNAVAILABLE'', rc_diagnosis_confidence := Some (9 / 10)\<rparr>"

definition checked_row :: CaseRow where
  "checked_row = due_row\<lparr>cw_case := checked_case\<rparr>"

definition checked_transition :: CaseTransition where
  "checked_transition = sample_move DECISION_PENDING POLICY_CHECK 2 ''RECOVERY_SERVICE'' ''POLICY_EVALUATION_STARTED''"

lemma checked: "next_row pending_case check_move pending_row [pending_transition]
    = Some (checked_case, checked_row, checked_transition)"
  by code_simp

definition due_contact :: ContactFacts where
  "due_contact = \<lparr>cf_aggregate_contact_count = 0, cf_active_case_ids = [''case_1''], cf_active_intervention_id = None\<rparr>"

text \<open>The pause is exempt from scoring and the deferral is not allowed: nothing is scored.\<close>

definition due_ranked :: "CandidateAction list" where
  "due_ranked = (let cs = dg_candidates due_diagnosis in enumerate_ranks 1 ([hd cs] @ [no_value (last cs)]))"

definition due_scoring :: RecoveryScoringResult where
  "due_scoring = \<lparr>sr_candidates = due_ranked, sr_model_version = ''m'', sr_feature_version = ''f'',
     sr_economics_version = ''v'', sr_artifact_classification = SYNTHETIC, sr_fallback_reason = None\<rparr>"

lemma due_scored:
  "score_candidates due_settings (dg_candidates due_diagnosis)
     (scoring_context pending_case due_contact due_diagnosis due_event [] due_at) (mp_allowed_actions pause_policy)
   = Inr due_scoring"
proof -
  let ?cs = "dg_candidates due_diagnosis"
  let ?x = "scoring_context pending_case due_contact due_diagnosis due_event [] due_at"
  have "filter (eligible (mp_allowed_actions pause_policy)) ?cs = [hd ?cs]"
    "filter (\<lambda>c. \<not> value_exempt c) [hd ?cs] = []" "fill [hd ?cs] [] = [hd ?cs]"
    "mapR post_init_candidate due_ranked = Inr due_ranked" "post_init_context ?x = Inr ?x"
    "?cs \<noteq> []" "ca_action_type (last ?cs) = ActionType.NO_ACTION"
    by code_simp+
  then show ?thesis
    by (simp add: score_candidates_def rank_candidates_by_expected_net_recovery_def due_ranked_def Let_def)
      (simp add: due_settings_def sample_artifact_def due_scoring_def due_ranked_def Let_def)
qed

definition due_evaluation :: PolicyEvaluationInput where
  "due_evaluation = policy_input pending_case due_event due_at (due_diagnosis\<lparr>dg_candidates := sr_candidates due_scoring\<rparr>)
     (dg_code due_diagnosis) due_contact ([], {}) [] no_facts None False"

lemma due_evaluated: "post_init_evaluation due_evaluation = Inr due_evaluation"
  by code_simp

definition due_decision :: PolicyDecision where
  "due_decision = \<lparr>pd_selected_action = sample_candidate PAUSE_RETRIES 1000 0 1, pd_result = PROCEED,
     pd_reason_codes = [''POLICY_AUTHORIZED''], pd_resulting_state = READY, pd_next_evaluation_at = None,
     pd_evaluated_candidates = [sample_candidate PAUSE_RETRIES 1000 0 1]\<rparr>"

lemma due_decided: "evaluate_policy sample_zones pause_policy due_evaluation = Inr due_decision"
  by code_simp


section \<open>The advice\<close>

definition due_request :: CaseIntelligenceRequest where
  "due_request =
     \<lparr>cq_run_id = ''intelligence_'' @ take 32 (sha256_hex (run_material pending_case due_event due_at)),
      cq_case_id = ''case_1'', cq_merchant_id = ''merchant_1'', cq_correlation_id = ''corr_1'',
      cq_workflow_type = PAYMENT_DEGRADATION, cq_subject_type = PAYMENT, cq_target = ''pay_1'',
      cq_amount_minor = 12000, cq_currency = ''INR'', cq_diagnosis_code = dg_code due_diagnosis,
      cq_diagnosis_confidence_basis_points = dg_confidence_basis_points due_diagnosis,
      cq_candidates = dg_candidates due_diagnosis, cq_retry_count = 0, cq_contact_count = 0,
      cq_evidence = [\<lparr>ei_reference = ''event_1'', ei_event_type = ''payment.failed'',
        ei_failure_category = ''GATEWAY_UNAVAILABLE'', ei_summary = evidence_summary due_event,
        ei_occurred_at = Aware 1000\<rparr>],
      cq_feature_version = ''phase5-case-features-1.0'', cq_evaluated_at = due_at,
      cq_terminal_diagnosis = dg_terminal due_diagnosis\<rparr>"

lemma due_diagnosis_facts:
  "map ca_target (dg_candidates due_diagnosis) = [''pay_1'', ''pay_1'', ''pay_1'']"
  "dg_confidence_basis_points due_diagnosis = 9000" "ends_with_no_action (dg_candidates due_diagnosis)"
  "dg_code due_diagnosis = ''GATEWAY_TEMPORARILY_UNAVAILABLE''"
  by code_simp+

lemma pending_case_facts:
  "rc_case_id pending_case = ''case_1''" "rc_merchant_id pending_case = ''merchant_1''"
  "rc_workflow_type pending_case = PAYMENT_DEGRADATION" "rc_subject_type pending_case = PAYMENT"
  "rc_revenue_at_risk_minor pending_case = 12000" "rc_currency pending_case = ''INR''"
  "rc_retry_count pending_case = 0" "rc_contact_count pending_case = 0" "rc_customer_id pending_case = None"
  by code_simp+

lemma due_asked: "intelligence_request pending_case due_diagnosis due_event due_at = Inr due_request"
proof -
  obtain a b c where cs: "dg_candidates due_diagnosis = [a, b, c]" "ca_target a = ''pay_1''"
    using due_diagnosis_facts(1) by (auto simp: map_eq_Cons_conv)
  have e: "evidence_summary due_event \<noteq> [] \<and> length (evidence_summary due_event) \<le> 1000"
    "failure_category_value (ev_failure_category due_event) = ''GATEWAY_UNAVAILABLE''"
    by code_simp+
  show ?thesis
    using due_diagnosis_facts e pending_case_facts
    by (simp add: intelligence_request_def cs post_init_evidence_def raise_first_okI post_init_request_def)
      (simp add: due_request_def cs due_event_def due_at_def raise_first_okI)
qed

lemma due_request_wf: "wf_request due_request" "wf_candidates due_request"
proof -
  show "wf_request due_request"
    using due_diagnosis_facts
    by (simp add: wf_request_def post_init_request_def raise_first_okI) (simp add: due_request_def due_at_def raise_first_okI)
  have "\<forall>c\<in>set (dg_candidates due_diagnosis). wf_candidate c" by code_simp
  then show "wf_candidates due_request" by (simp add: wf_candidates_def due_request_def)
qed

lemma default_graph_wf: "wf_intelligence default_graph"
  by code_simp

text \<open>The answer of the timed-out graph: the request's own candidates, and one fallback prediction.\<close>

lemma due_advised:
  "\<exists>r p. advise default_graph (\<lambda>_. slow_world) due_request = Inr r \<and> cr_predictions r = [p]
     \<and> advisory_diagnosis due_diagnosis r = due_diagnosis \<and> cr_candidates r = dg_candidates due_diagnosis
     \<and> cr_explanation r = fallback_explanation (dg_code due_diagnosis) \<and> predictions_ok [p]
     \<and> length (mo_prediction_id p) = 43 \<and> cr_feature_version r = ''phase5-case-features-1.0''
     \<and> cr_model_version r = ''UNAVAILABLE'' \<and> cr_prompt_version r = DEFAULT_PROMPT_VERSION"
proof -
  obtain r where r: "graph_fallback default_graph due_request ''GRAPH_TIMEOUT'' = Inr r"
    using graph_fallback_ok [OF due_request_wf(1) default_graph_wf] by blast
  then have a: "advise default_graph (\<lambda>_. slow_world) due_request = Inr r"
    by (simp add: advise_def recommend_def slow_world_def)
  have names: "sm_model_version (bi_model default_graph) = ''UNAVAILABLE''"
    "bi_prompt_version default_graph = DEFAULT_PROMPT_VERSION" "bi_schema_version default_graph = AGENT_SCHEMA_VERSION"
    by (simp_all add: default_graph_def unavailable_model_def)
  from r obtain p digest out l where
    p: "new_prediction default_graph due_request GRAPH FALLBACK (payload_digest digest) out l (0, 0) (Some ''GRAPH_TIMEOUT'') = Inr p"
    and r': "post_init_result
       \<lparr>cr_diagnosis_code = cq_diagnosis_code due_request,
        cr_confidence_basis_points = cq_diagnosis_confidence_basis_points due_request,
        cr_candidates = cq_candidates due_request,
        cr_explanation = fallback_explanation (cq_diagnosis_code due_request), cr_predictions = [p],
        cr_model_version = ''UNAVAILABLE'', cr_prompt_version = DEFAULT_PROMPT_VERSION,
        cr_schema_version = AGENT_SCHEMA_VERSION, cr_feature_version = cq_feature_version due_request,
        cr_fallback_used = True\<rparr> = Inr r"
    by (auto simp: graph_fallback_def bindR_eq_Inr names dest!: post_init_outputs_Inr(4))
  note R = post_init_result_Inr [OF r', THEN conjunct1]
  have "predictions_ok [p] \<and> length (mo_prediction_id p) = 43"
    using p by (auto simp: new_prediction_def predictions_ok_def payload_digest_def post_init_prediction_def
        prediction_count_def bindR_eq_Inr raise_first_ok_iff)
  moreover have "advisory_diagnosis due_diagnosis r = due_diagnosis"
    by (simp add: advisory_diagnosis_def R) (simp add: due_request_def)
  ultimately show ?thesis using a by (simp add: R) (simp add: due_request_def)
qed

section \<open>The deliberation\<close>

definition due_state :: "CaseRow list \<Rightarrow> CaseTransition list \<Rightarrow> AuditEntry list \<Rightarrow> (string \<rightharpoonup> int \<times> string) \<Rightarrow> nat \<Rightarrow> recovery_db" where
  "due_state rows ts es hs n = due_store\<lparr>db_cases := rows, db_transitions := ts, db_audit_entries := es,
     db_audit_heads := hs, db_uuids := n\<rparr>"

lemma due_state_tables:
  "db_cases (due_state rows ts es hs n) = rows" "db_transitions (due_state rows ts es hs n) = ts"
  "db_actions (due_state rows ts es hs n) = []" "db_predictions (due_state rows ts es hs n) = []"
  "db_receipts (due_state rows ts es hs n) = []" "db_payments (due_state rows ts es hs n) = []"
  "db_consents (due_state rows ts es hs n) = []" "db_incidents (due_state rows ts es hs n) = []"
  "db_incident_links (due_state rows ts es hs n) = []" "db_interventions (due_state rows ts es hs n) = []"
  "db_normalized (due_state rows ts es hs n) = [due_event]" "db_promises (due_state rows ts es hs n) = []"
  by (simp_all add: due_state_def due_store_def empty_store_def)

lemma due_state_moved:
  "(due_state rows ts es hs n)\<lparr>db_cases := rows', db_transitions := ts', db_audit_entries := es', db_audit_heads := hs',
     db_uuids := n'\<rparr> = due_state rows' ts' es' hs' n'"
  by (simp add: due_state_def)

definition due_deliberation :: "CaseIntelligenceResult \<Rightarrow> Deliberation" where
  "due_deliberation r = \<lparr>dl_checking = checked_case, dl_intelligence = r, dl_scoring = due_scoring,
     dl_contact = due_contact, dl_evaluation = due_evaluation, dl_decision = due_decision\<rparr>"

lemma checked_case_facts:
  "rc_case_id checked_case = ''case_1''" "rc_merchant_id checked_case = ''merchant_1''"
  "rc_subject_type checked_case = PAYMENT" "rc_subject_id checked_case = ''pay_1''"
  by code_simp+

lemma due_event_facts:
  "ev_correlation_id due_event = ''corr_1''" "ev_event_id due_event = ''event_1''"
  by (simp_all add: due_event_def)

lemma due_deliberated:
  assumes r: "advise default_graph (\<lambda>_. slow_world) due_request = Inr r"
    "advisory_diagnosis due_diagnosis r = due_diagnosis"
  shows "\<exists>es' hs' n'. deliberate due_settings (advise default_graph (\<lambda>_. slow_world)) sample_zones uuids pending_case
      due_diagnosis due_event pause_policy due_at None (due_state [pending_row] [pending_transition] es hs n)
    = Inr (due_deliberation r, due_state [checked_row] [pending_transition, checked_transition] es' hs' n')"
proof -
  let ?s = "due_state [pending_row] [pending_transition] es hs n"
  from next_row_stored [OF checked, of ?s uuids] obtain es' hs' n' where
    t: "service_transition uuids check_move pending_case ?s
      = Inr (checked_case, due_state [checked_row] [pending_transition, checked_transition] es' hs' n')"
    by (auto simp: due_state_tables due_state_moved)
  let ?t = "due_state [checked_row] [pending_transition, checked_transition] es' hs' n'"
  have reads: "consent_facts ''merchant_1'' None ?t = Inr (([], {}), ?t)"
    "active_incidents ''merchant_1'' due_at (Some ''case_1'') (Some (dg_code due_diagnosis)) ?t = Inr ([], ?t)"
    "portfolio_facts pending_case due_at ?t = Inr (due_contact, ?t)"
    "authoritative_facts_for_case ''merchant_1'' checked_case ?t = Inr (no_facts, ?t)"
    "any_unknown_equivalent checked_case cs ?t = Inr (False, ?t)" for cs
    by (simp_all add: consent_facts_def active_incidents_def attach_incidents_def portfolio_facts_def due_contact_def
        authoritative_facts_for_case_def payment_facts_def run_tx Let_def due_state_tables pending_case_facts
        checked_case_facts)
      (induction cs; simp add: has_unknown_equivalent_def run_tx due_state_tables)
  have move: "(new_transition POLICY_CHECK ''RECOVERY_SERVICE'' ''POLICY_EVALUATION_STARTED'' ''corr_1'' pause_policy due_at)
      \<lparr>sv_diagnosis := Some due_diagnosis, sv_latest_event := Some due_risk_event\<rparr> = check_move"
    by (simp add: check_move_def)
  show ?thesis
    using r t reads due_scored due_evaluated due_decided
    by (intro exI [of _ es'] exI [of _ hs'] exI [of _ n']) (simp add: deliberate_def run_tx Let_def due_asked due_event_read due_event_facts pending_case_facts
        checked_case_facts move attach_incident_def systemic_incident_def due_evaluation_def [symmetric]
        due_deliberation_def)
qed


section \<open>The conclusion\<close>

definition decide_move :: ServiceTransition where
  "decide_move = decision_transition due_decision due_event pause_policy due_at"

definition ready_case :: RecoveryCase where
  "ready_case = checked_case\<lparr>rc_state := READY, rc_state_version := 4\<rparr>"

definition ready_row :: CaseRow where
  "ready_row = due_row\<lparr>cw_case := ready_case\<rparr>"

definition ready_transition :: CaseTransition where
  "ready_transition = (sample_move POLICY_CHECK READY 3 ''POLICY_ENGINE'' ''POLICY_AUTHORIZED'')
     \<lparr>ct_reason_detail := Some ''POLICY_AUTHORIZED''\<rparr>"

lemma ready: "next_row checked_case decide_move checked_row [pending_transition, checked_transition]
    = Some (ready_case, ready_row, ready_transition)"
  by code_simp

lemma ready_case_facts:
  "rc_case_id ready_case = ''case_1''" "rc_merchant_id ready_case = ''merchant_1''"
  "rc_subject_type ready_case = PAYMENT" "rc_revenue_at_risk_minor ready_case = 12000"
  "rc_currency ready_case = ''INR''" "rc_state ready_case = READY"
  by code_simp+

lemma due_decision_facts:
  "pd_result due_decision = PROCEED" "ca_action_type (pd_selected_action due_decision) = PAUSE_RETRIES"
  "ca_target (pd_selected_action due_decision) = ''pay_1''" "ca_logical_attempt (pd_selected_action due_decision) = 1"
  "ca_channel (pd_selected_action due_decision) = None" "pd_reason_codes due_decision = [''POLICY_AUTHORIZED'']"
  by (simp_all add: due_decision_def sample_candidate_def)

definition due_identity :: ActionIdentity where
  "due_identity = \<lparr>ai_merchant_id = ''merchant_1'', ai_case_id = ''case_1'', ai_action_type = PAUSE_RETRIES,
     ai_target_type = PAYMENT, ai_target_id = ''pay_1'', ai_logical_attempt = 1\<rparr>"

definition due_action :: "string \<Rightarrow> RecoveryAction" where
  "due_action rid = (let key = ''rg:v1:'' @ sha256_hex (identity_document due_identity) in
     \<lparr>ra_action_id = ''action_'' @ take 32 (after_last CHR '':'' key), ra_case_id = ''case_1'',
      ra_merchant_id = ''merchant_1'', ra_decision_receipt_id = rid, ra_action_type = PAUSE_RETRIES,
      ra_target_type = PAYMENT, ra_target_id = ''pay_1'', ra_logical_attempt = 1, ra_idempotency_key = key,
      ra_status = PENDING, ra_parameters = [(''amount_minor'', PInt 12000), (''currency'', PStr ''INR''),
        (''provider_mode'', PStr ''TEST'')],
      ra_authorized_at = due_at, ra_execute_after = due_at, ra_created_at = due_at, ra_updated_at = None,
      ra_schema_version = ''1.0''\<rparr>)"

lemma due_built:
  assumes "rid \<noteq> []" "length rid \<le> 128"
  shows "build_action ready_case due_decision rid due_at [''case_1''] = Inr (Some (due_action rid))"
proof -
  have key: "action_idempotency_key due_identity = Inr (''rg:v1:'' @ sha256_hex (identity_document due_identity))"
    by (simp add: action_idempotency_key_def due_identity_def raise_first_okI blank_or_longer_def)
  have identity: "action_identity (due_action rid) = due_identity"
    by (simp add: action_identity_def due_action_def due_identity_def Let_def)
  have parameters: "action_parameters ready_case (pd_selected_action due_decision) [''case_1''] = ra_parameters (due_action rid)"
    by (simp add: action_parameters_def ready_case_facts due_decision_facts due_action_def Let_def)
  have "post_init_action (due_action rid) = Inr (due_action rid)"
    using assms key
    by (simp add: post_init_action_def identity raise_first_okI blank_or_longer_def)
      (simp add: due_action_def Let_def raise_first_okI amount_parameter_ok_def currency_parameter_ok_def due_at_def
        currency_pattern_def is_ascii_upper_def blank_or_longer_def)
  then show ?thesis
    using key parameters
    by (simp add: build_action_def ready_case_facts due_decision_facts due_identity_def [symmetric] Let_def)
      (simp add: due_action_def due_identity_def Let_def)
qed

definition due_receipt :: "CaseIntelligenceResult \<Rightarrow> string \<Rightarrow> DecisionReceipt" where
  "due_receipt i rid = service_receipt due_settings pending_case due_event pause_policy due_at None
     (due_deliberation i) rid READY (Some (due_action rid))"

lemma due_receipt_ok:
  assumes "rid \<noteq> []" "cr_predictions i = [p]" "mo_prediction_id p \<noteq> []"
  shows "post_init_receipt (due_receipt i rid) = Inr (due_receipt i rid)"
proof -
  have "reason_pattern ''POLICY_AUTHORIZED''" by code_simp
  moreover have "due_ranked \<noteq> []" by code_simp
  moreover have "pe_evidence_references due_evaluation = [''event_1'']"
    by (simp add: due_evaluation_def policy_input_def due_event_facts Let_def)
  moreover have "sr_candidates due_scoring = due_ranked" by (simp add: due_scoring_def)
  ultimately show ?thesis
    using assms
    by (simp add: post_init_receipt_def due_receipt_def service_receipt_def due_deliberation_def due_decision_facts
        pending_case_facts due_event_facts raise_first_okI Let_def version_length_check_def)
      (simp add: due_scoring_def due_at_def raise_first_okI blank_or_longer_def)
qed

lemma due_append_ok:
  assumes "rid \<noteq> []" "length rid \<le> 128" "cr_model_version i = ''UNAVAILABLE''"
  shows "validate_append (recorded_append (due_receipt i rid)) = Inr ()"
    "validate_append (authorized_append (action_row (due_action rid) v ''corr_1'' 3 (plus_delta due_at (hours 1)))) = Inr ()"
  using assms
  by (simp_all add: validate_append_def recorded_append_def authorized_append_def new_append_def raise_first_okI
      too_long_def audit_utc_def Let_def due_receipt_def service_receipt_def pending_case_facts due_event_facts
      due_at_def action_row_def due_action_def)

lemma due_action_row_ok: "actions_ok [action_row (due_action rid) v ''corr_1'' 3 (plus_delta due_at (hours 1))]"
  by (simp add: actions_ok_def unique_index_def action_row_ok_def action_row_def due_action_def Let_def)

lemma due_concluded:
  assumes "cr_predictions i = [p]" "predictions_ok [p]" "mo_prediction_id p \<noteq> []" "cr_model_version i = ''UNAVAILABLE''"
  shows "\<exists>r s' a. conclude due_settings uuids pending_case due_event pause_policy due_at None (due_deliberation i)
      (due_state [checked_row] [pending_transition, checked_transition] es hs n) = Inr (r, s') \<and> db_actions s' = [a]
    \<and> ao_action_type a = PAUSE_RETRIES"
proof -
  let ?d = "due_deliberation i" and ?s = "due_state [checked_row] [pending_transition, checked_transition] es hs n"
  from next_row_stored [OF ready, of ?s uuids] obtain es' hs' n' where
    t: "service_transition uuids decide_move checked_case ?s
      = Inr (ready_case, due_state [ready_row] [pending_transition, checked_transition, ready_transition] es' hs' n')"
    by (auto simp: due_state_tables due_state_moved)
  let ?t = "due_state [ready_row] [pending_transition, checked_transition, ready_transition] es' hs' n'"
  define rid where "rid = ''receipt_'' @ take 32 (sha256_hex (''receipt:'' @ filter (\<lambda>c. c \<noteq> CHR ''-'') (uuids n')))"
  have rid: "rid \<noteq> []" "length rid \<le> 128" by (simp_all add: rid_def)
  let ?u = "?t\<lparr>db_uuids := Suc n'\<rparr>"
  have id: "new_id uuids ''receipt'' ?t = Inr (rid, ?u)"
    by (simp add: new_id_def draw_uuid_def run_tx rid_def due_state_def Let_def)
  let ?v = "?u\<lparr>db_predictions := [p]\<rparr>"
  have ps: "store_model_predictions [p] ?u = Inr ([p], ?v)"
    using assms(2) by (simp add: store_model_predictions_def prediction_result_def stored_prediction_def run_tx checkT_def
        due_state_tables)
  let ?R = "due_receipt i rid"
  note ok = due_append_ok [OF rid assms(4)]
  obtain e w where ap: "append_entry uuids (recorded_append ?R) ?v = Inr (e, w)"
    using append_entry_returns [OF ok(1)] by blast
  from append_entry_frame [OF ap] have w: "db_receipts w = []" "db_actions w = []"
    by (auto simp: due_state_tables)
  let ?row = "receipt_row ?R (ae_entry_id e)"
  have "receipts_ok [?row]"
    by (simp add: receipts_ok_def receipt_row_def due_receipt_def service_receipt_def due_deliberation_def due_scoring_def
        Let_def)
  then have rc: "store_receipt uuids ?R ?v = Inr (?row, w\<lparr>db_receipts := [?row]\<rparr>)"
    using ap w by (simp add: store_receipt_def run_tx checkT_def Let_def)
  let ?a = "action_row (due_action rid) (mp_version pause_policy) ''corr_1'' 3 (plus_delta due_at (hours 1))"
  obtain f x where ax: "append_entry uuids (authorized_append ?a) (w\<lparr>db_receipts := [?row], db_actions := [?a]\<rparr>) = Inr (f, x)"
    using append_entry_returns [OF ok(2)] by blast
  have late: "\<not> plus_delta due_at (hours 1) \<le> due_at" "ra_authorized_at (due_action rid) = due_at"
    by (code_simp, simp add: due_action_def Let_def)
  have st: "store_action uuids (due_action rid) (mp_version pause_policy) ''corr_1'' 3 (plus_delta due_at (hours 1))
      (w\<lparr>db_receipts := [?row]\<rparr>) = Inr (?a, x)"
    using ax w late due_action_row_ok
    by (simp add: store_action_def run_tx one_or_noneT_def flush_actions_def checkT_def Let_def)
  from append_entry_frame [OF ax] have x: "db_actions x = [?a]" by auto
  have type: "ao_action_type ?a = PAUSE_RETRIES" by (simp add: action_row_def due_action_def Let_def)
  have fields: "dl_decision ?d = due_decision" "dl_checking ?d = checked_case" "dl_contact ?d = due_contact"
    "cf_active_case_ids due_contact = [''case_1'']" "dl_intelligence ?d = i" "rc_state ready_case = READY"
    by (simp_all add: due_deliberation_def due_contact_def ready_case_facts)
  show ?thesis
    using t id due_built [OF rid] due_receipt_ok [OF rid(1) assms(1,3)] ps rc st x type
    by (simp add: conclude_def request_review_def authorize_action_def run_tx Let_def fields due_decision_facts
        decide_move_def [symmetric] due_receipt_def [symmetric] assms(1) pending_case_facts due_event_facts)
qed


section \<open>The run\<close>

lemma pause_policy_in_force:
  "effective_policy sample_zones ''merchant_1'' due_at due_store = Inr (pause_policy, due_store)"
proof -
  have wf: "wf_policy sample_zones pause_policy" "printable_policy pause_policy" by code_simp+
  have "printed_policy pause_policy = pause_policy"
    by (simp add: printed_policy_def whole_second_def pause_policy_def sample_policy_def duration_defs day_us_def)
  then show ?thesis
    using policy_from_canonical_document [OF wf]
    by (simp add: effective_policy_def run_tx due_store_def policy_row_def one_or_noneT_def)
      (simp add: pause_policy_def due_at_def)
qed

lemma due_run:
  "\<exists>r s' a. reevaluate_case due_settings (advise default_graph (\<lambda>_. slow_world)) sample_zones sample_uuids due_at due_row due_store
     = Inr (r, s') \<and> db_actions s' = [a] \<and> ao_action_type a = PAUSE_RETRIES"
proof -
  obtain i p where i: "advise default_graph (\<lambda>_. slow_world) due_request = Inr i"
    "advisory_diagnosis due_diagnosis i = due_diagnosis" "cr_predictions i = [p]" "predictions_ok [p]"
    "length (mo_prediction_id p) = 43" "cr_model_version i = ''UNAVAILABLE''"
    using due_advised by blast
  have base: "due_store = due_state [due_row] [] [] Map.empty 0"
    by (simp add: due_state_def due_store_def empty_store_def)
  from next_row_stored [OF pending, of due_store sample_uuids] obtain es hs n where
    t: "service_transition sample_uuids due_move due_case due_store = Inr (pending_case,
      due_state [pending_row] [pending_transition] es hs n)"
    by (auto simp: base due_state_tables due_state_moved)
  obtain es' hs' n' where d: "deliberate due_settings (advise default_graph (\<lambda>_. slow_world)) sample_zones sample_uuids
      pending_case due_diagnosis due_event pause_policy due_at None (due_state [pending_row] [pending_transition] es hs n)
    = Inr (due_deliberation i, due_state [checked_row] [pending_transition, checked_transition] es' hs' n')"
    using due_deliberated [OF i(1,2)] by blast
  have "mo_prediction_id p \<noteq> []" using i(5) by auto
  from due_concluded [OF i(3,4) this i(6)] obtain r s' a where
    c: "conclude due_settings sample_uuids pending_case due_event pause_policy due_at None (due_deliberation i)
      (due_state [checked_row] [pending_transition, checked_transition] es' hs' n') = Inr (r, s')"
      "db_actions s' = [a]" "ao_action_type a = PAUSE_RETRIES"
    by blast
  have row: "rc_merchant_id due_case = ''merchant_1''" "cw_latest_evidence_event_id due_row = Some ''event_1''"
    "rc_case_id due_case = ''case_1''" "cw_case due_row = due_case"
    by (simp_all add: due_row_def due_case_def sample_case_def)
  have reads: "get_normalized_event ''merchant_1'' ''event_1'' due_store = Inr (Some due_event, due_store)"
    "require_case ''merchant_1'' ''case_1'' due_store = Inr (due_case, due_store)"
    by (simp_all add: get_normalized_event_def require_case_def get_case_def case_row_def run_tx one_or_noneT_def
        base due_state_tables row) (simp_all add: due_event_def due_case_def sample_case_def)
  show ?thesis
    using t d c reads pause_policy_in_force
    by (simp add: reevaluate_case_def evaluate_case_def run_tx Let_def row due_event_read due_event_diagnosed
        due_event_facts due_move_def [symmetric])
qed

lemma due_service_step:
  "\<exists>r s' a. service_step (advise default_graph (\<lambda>_. slow_world)) sample_zones due_at ''merchant_1'' due_store r s'
     \<and> db_actions s' = [a] \<and> ao_action_type a = PAUSE_RETRIES"
proof -
  have "rc_merchant_id (cw_case due_row) = ''merchant_1''" by (simp add: due_row_def due_case_def sample_case_def)
  with due_run service_step.due show ?thesis by blast
qed




theorem recommendation_is_bounded_witness:
  "\<exists>r. recommend default_graph slow_world due_request = Inr r \<and> ends_with_no_action (cr_candidates r)
     \<and> cr_confidence_basis_points r \<le> 9000"
proof -
  obtain r where r: "recommend default_graph slow_world due_request = Inr r"
    using due_advised by (auto simp: advise_def)
  have "cq_diagnosis_confidence_basis_points due_request = 9000" by (simp add: due_request_def due_diagnosis_facts)
  with recommendation_is_bounded [OF due_request_wf(2) r] r show ?thesis by auto
qed

theorem system_keeps_books_witness:
  "\<exists>s' :: recovery_db. system_run paid_store s' \<and> books_ok s' \<and> s' \<noteq> paid_store"
proof -
  obtain cs u where c: "claim_due_actions (\<lambda>_. ''lease_1'') (Aware 200) 600 10 paid_store = Inr (cs, u)" "cs \<noteq> []"
    using paid_store_claim by blast
  have run: "system_run paid_store u"
    by (rule system_run.executed [OF system_run.none execution_run.claimed [OF execution_run.none c(1)]])
  have "db_uuids u \<noteq> db_uuids paid_store"
    using c by (auto simp: claim_due_actions_def result_simps claim_one_def draw_uuid_def update_action_def
        flush_actions_def paid_store_def empty_store_def split: if_splits)
  with system_keeps_books [OF run paid_store_books] run show ?thesis by auto
qed


section \<open>A linked event without a case\<close>

definition linked_store :: recovery_db where
  "linked_store = due_store\<lparr>db_cases := [], db_case_events := [\<lparr>ce_merchant_id = ''merchant_1'',
     ce_recovery_case_id = Some ''case_0'', ce_normalized_event_id = ''event_1'', ce_disposition = APPLIED,
     ce_reason_code = ''EVIDENCE_ACCEPTED''\<rparr>]\<rparr>"

lemma linked_store_policy:
  "effective_policy sample_zones ''merchant_1'' due_at linked_store = Inr (pause_policy, linked_store)"
  by (rule effective_policy_cong [OF _ pause_policy_in_force]) (simp add: same_facts_def linked_store_def)

definition due_identity_key :: string where
  "due_identity_key = sha256_hex (episode_material ''merchant_1'' PAYMENT_DEGRADATION PAYMENT ''pay_1'')"

lemma due_case_identity:
  "select_case_identity due_risk_event = Some \<lparr>id_workflow_type = PAYMENT_DEGRADATION, id_subject_type = PAYMENT,
     id_subject_id = ''pay_1'', id_episode_key = Some due_identity_key\<rparr>"
  by (simp add: select_case_identity_def case_subject_def episode_reference_def or_else_def due_risk_event_def
      due_event_def RevenueRiskEvent.truncate_def due_identity_key_def)

lemma linked_run:
  "\<exists>r s'. process_event due_settings (advise default_graph (\<lambda>_. slow_world)) sample_zones sample_uuids due_at
     ''merchant_1'' ''event_1'' linked_store = Inr (r, s')"
proof -
  let ?i = "\<lparr>id_workflow_type = PAYMENT_DEGRADATION, id_subject_type = PAYMENT, id_subject_id = ''pay_1'',
     id_episode_key = Some due_identity_key\<rparr>"
  have tables: "db_cases linked_store = []" "db_normalized linked_store = [due_event]"
    "map (\<lambda>l. (ce_merchant_id l, ce_normalized_event_id l)) (db_case_events linked_store) = [(''merchant_1'', ''event_1'')]"
    by (simp_all add: linked_store_def due_store_def)
  have event: "ev_merchant_id due_event = ''merchant_1''" "ev_event_id due_event = ''event_1''"
    "ev_merchant_id due_risk_event = ''merchant_1''" "ev_event_id due_risk_event = ''event_1''"
    "ev_amount_minor due_risk_event = 12000" "ev_currency due_risk_event = ''INR''" "ev_customer_id due_risk_event = None"
    by (simp_all add: due_event_def due_risk_event_def RevenueRiskEvent.truncate_def)
  have row: "get_normalized_event ''merchant_1'' ''event_1'' linked_store = Inr (Some due_event, linked_store)"
    by (simp add: get_normalized_event_def run_tx one_or_noneT_def tables event)
  have none: "case_of_event ''merchant_1'' ?i linked_store = Inr (None, linked_store)"
    by (simp add: case_of_event_def find_active_case_def find_episode_case_def run_tx one_or_noneT_def tables)
  obtain c s1 where o: "open_case sample_uuids ''merchant_1'' ?i due_risk_event due_at linked_store = Inr (c, s1)"
    and s1: "db_case_events s1 = db_case_events linked_store"
  proof -
    obtain cid where cid: "cid \<noteq> []" "length cid \<le> 128"
      and new: "new_id sample_uuids ''case'' linked_store
        = Inr (cid, linked_store\<lparr>db_uuids := Suc (db_uuids linked_store)\<rparr>)"
      by (rule that [of "''case_'' @ take 32 (sha256_hex (''case:'' @ filter (\<lambda>c. c \<noteq> CHR ''-'')
        (sample_uuids (db_uuids linked_store))))"]) (simp_all add: new_id_def draw_uuid_def run_tx)
    define c where "c = \<lparr>rc_case_id = cid, rc_merchant_id = ''merchant_1'', rc_workflow_type = PAYMENT_DEGRADATION,
        rc_subject_type = PAYMENT, rc_subject_id = ''pay_1'', rc_revenue_at_risk_minor = 12000, rc_currency = ''INR'',
        rc_state = DETECTED, rc_state_version = 1, rc_retry_count = 0, rc_contact_count = 0, rc_created_at = due_at,
        rc_updated_at = due_at, rc_customer_id = None, rc_diagnosis = None, rc_diagnosis_confidence = None,
        rc_active_incident_id = None, rc_next_evaluation_at = None, rc_terminal_reason = None,
        rc_schema_version = ''1.0''\<rparr>"
    have c: "post_init_case c = Inr c"
      using cid by (simp add: c_def post_init_case_def run_validation TERMINAL_STATES_def due_at_def)
    define r where "r = \<lparr>cw_case = c\<lparr>rc_diagnosis_confidence := None\<rparr>,
        cw_recovery_episode_key = Some due_identity_key, cw_latest_evidence_event_id = Some ''event_1'',
        cw_latest_evidence_occurred_at = Some (ev_occurred_at due_risk_event)\<rparr>"
    have r: "cases_ok [r]"
      by (simp add: cases_ok_single case_row_ok_def r_def c_def currency_pattern_def is_ascii_upper_def
          TERMINAL_STATES_def due_identity_key_def)
    have "open_case sample_uuids ''merchant_1'' ?i due_risk_event due_at linked_store
      = Inr (c, linked_store\<lparr>db_uuids := Suc (db_uuids linked_store), db_cases := [r]\<rparr>)"
      using c r by (simp add: open_case_def new create_case_def run_tx checkT_def Let_def tables event c_def r_def)
    then show thesis by (rule that) simp
  qed
  obtain l where l: "db_case_events linked_store = [l]" "ce_merchant_id l = ''merchant_1''" "ce_normalized_event_id l = ''event_1''"
    using tables(3) by (auto simp: map_eq_Cons_conv)
  have now: "is_aware due_at" by (simp add: due_at_def)
  show ?thesis
    using row none o s1 l linked_store_policy now
    by (simp add: process_event_def process_subject_def new_evidence_case_def link_evidence_def run_tx Let_def
        due_event_read due_event_diagnosed due_case_identity event evidence_utc_def)
qed

theorem linked_event_is_inert_witness:
  "\<exists>r s' row. process_event due_settings (advise default_graph (\<lambda>_. slow_world)) sample_zones sample_uuids due_at
       ''merchant_1'' ''event_1'' linked_store = Inr (r, s')
     \<and> rx_reason_code r = ''EVENT_ALREADY_LINKED'' \<and> db_actions s' = []"
proof -
  obtain r s' where p: "process_event due_settings (advise default_graph (\<lambda>_. slow_world)) sample_zones sample_uuids due_at
      ''merchant_1'' ''event_1'' linked_store = Inr (r, s')"
    using linked_run by blast
  have "linked linked_store ''merchant_1'' ''event_1''" "db_actions linked_store = []"
    by (simp_all add: linked_def linked_store_def due_store_def empty_store_def)
  with linked_event_is_inert [OF p] p show ?thesis by (auto split: if_splits)
qed

section \<open>A review that expired\<close>

definition escalated_row :: CaseRow where
  "escalated_row = due_row\<lparr>cw_case := due_case\<lparr>rc_state := ESCALATED, rc_next_evaluation_at := None\<rparr>\<rparr>"

definition reviewed_store :: recovery_db where
  "reviewed_store = due_store\<lparr>db_cases := [escalated_row], db_reviews := [sample_review]\<rparr>"

definition lapsed_review :: HumanReviewRequest where
  "lapsed_review = sample_review\<lparr>rv_status := EXPIRED, rv_reviewer_id := Some ''SYSTEM'',
     rv_rationale := Some ''REVIEW_EXPIRED'', rv_decided_at := Some due_at\<rparr>"

definition stop_move :: ServiceTransition where
  "stop_move = (new_transition STOPPED ''alice'' ''HUMAN_REVIEW_EXPIRED'' ''review_1'' pause_policy due_at)
     \<lparr>sv_terminal_reason := Some ''HUMAN_REVIEW_EXPIRED''\<rparr>"

lemma stoppable: "next_row (cw_case escalated_row) stop_move escalated_row [] \<noteq> None"
  by code_simp

lemma reviewed_store_ok: "outbox_ok reviewed_store"
proof -
  have "consistent reviewed_store"
    by (simp add: consistent_def store_ok_def reviewed_store_def escalated_row_def due_store_def due_row_def due_case_def
        empty_store_def cases_ok_single case_row_ok_def
        sample_row_def sample_case_def currency_pattern_def is_ascii_upper_def transitions_ok_def
        unique_index_def ledger_ok_def own_entries_def history_ok_def case_log_def TERMINAL_STATES_def)
  then show ?thesis
    by (simp add: outbox_ok_def outbox_core_def)
      (simp add: attempts_inv_def open_attempts_def reviewed_store_def due_store_def empty_store_def actions_ok_def
        unique_index_def attempts_ok_def outcomes_ok_def)
qed

lemma expired: "expire_review sample_review due_at ''SYSTEM'' = Inr lapsed_review"
  by (simp add: expire_review_def post_init_review_def lapsed_review_def sample_review_def raise_first_okI
      review_decision_checks_def fingerprint_digest_def Let_def utc_def due_at_def)

lemma expired_stored:
  "\<exists>es hs n. update_review_decision uuids ''merchant_1'' lapsed_review reviewed_store = Inr (decided_row lapsed_review sample_review,
     reviewed_store\<lparr>db_reviews := [decided_row lapsed_review sample_review], db_audit_entries := es, db_audit_heads := hs,
       db_uuids := n\<rparr>)"
proof -
  have keys: "review_key sample_review = (''merchant_1'', ''review_1'')" "rv_review_id lapsed_review = ''review_1''"
    "rv_status sample_review = REQUESTED" "rv_status lapsed_review = EXPIRED"
    "rv_merchant_id (decided_row lapsed_review sample_review) = ''merchant_1''"
    "rv_review_id (decided_row lapsed_review sample_review) = ''review_1''"
    by (simp_all add: sample_review_def lapsed_review_def decided_row_def del: decided_row_key)
  have ok: "reviews_ok [decided_row lapsed_review sample_review]"
    by (simp add: reviews_ok_def review_row_ok_def review_chronology_def review_metadata_def decided_row_def
        lapsed_review_def sample_review_def fingerprint_digest_def due_at_def, simp add: hex64_def is_lower_hex_def)
  have "validate_append (decided_append ''merchant_1'' lapsed_review) = Inr ()"
    by (simp add: validate_append_def decided_append_def new_append_def raise_first_okI too_long_def
        audit_utc_def Let_def lapsed_review_def sample_review_def due_at_def)
  then obtain e s' where a: "append_entry uuids (decided_append ''merchant_1'' lapsed_review)
      (reviewed_store\<lparr>db_reviews := [decided_row lapsed_review sample_review]\<rparr>) = Inr (e, s')"
    using append_entry_returns by blast
  from append_entry_frame [OF a] obtain es hs n where s': "s' = reviewed_store
      \<lparr>db_reviews := [decided_row lapsed_review sample_review], db_audit_entries := es, db_audit_heads := hs, db_uuids := n\<rparr>"
    by auto
  have "db_reviews reviewed_store = [sample_review]" by (simp add: reviewed_store_def)
  with a ok s' keys have "update_review_decision uuids ''merchant_1'' lapsed_review reviewed_store
      = Inr (decided_row lapsed_review sample_review, s')"
    by (simp add: update_review_decision_def run_tx flush_reviews_def checkT_def Let_def
        stored_review_def update_where_def del: decided_row_key)
  with s' show ?thesis by blast
qed

lemma expired_run:
  "\<exists>r s'. apply_review due_settings (advise default_graph (\<lambda>_. slow_world)) sample_zones sample_uuids due_at
     ''merchant_1'' sample_approval reviewed_store = Inr (r, s')"
proof -
  obtain es hs n where u: "update_review_decision sample_uuids ''merchant_1'' lapsed_review reviewed_store
      = Inr (decided_row lapsed_review sample_review,
     reviewed_store\<lparr>db_reviews := [decided_row lapsed_review sample_review], db_audit_entries := es, db_audit_heads := hs,
       db_uuids := n\<rparr>)" (is "_ = Inr (_, ?s)")
    using expired_stored by blast
  from stoppable obtain c r t where "next_row (cw_case escalated_row) stop_move escalated_row [] = Some (c, r, t)" by auto
  moreover have "db_cases ?s = [escalated_row]" "db_transitions ?s = []"
    by (simp_all add: reviewed_store_def due_store_def empty_store_def)
  ultimately obtain s' where t: "service_transition sample_uuids stop_move (cw_case escalated_row) ?s = Inr (c, s')"
    using next_row_stored by blast
  have tables: "db_cases reviewed_store = [escalated_row]" "db_reviews reviewed_store = [sample_review]"
    by (simp_all add: reviewed_store_def)
  have keys: "review_key sample_review = (''merchant_1'', ''review_1'')" "rv_review_id sample_review = ''review_1''"
    "rv_case_id sample_review = ''case_1''" "rd_review_id sample_approval = ''review_1''"
    "rd_reviewer_id sample_approval = ''alice''" "row_key escalated_row = (''merchant_1'', ''case_1'')"
    by (simp_all add: sample_review_def sample_approval_def escalated_row_def due_row_def due_case_def
        sample_case_def)
  have times: "rv_expires_at sample_review \<le> due_at" "\<not> due_at < rd_decided_at sample_approval" "is_aware due_at"
    by (simp_all add: due_at_def sample_review_def sample_approval_def)
  have p: "effective_policy sample_zones ''merchant_1'' due_at reviewed_store = Inr (pause_policy, reviewed_store)"
    by (rule effective_policy_cong [OF _ pause_policy_in_force]) (simp add: same_facts_def reviewed_store_def)
  have q: "get_review ''merchant_1'' ''review_1'' reviewed_store = Inr (Some sample_review, reviewed_store)"
    "require_case ''merchant_1'' ''case_1'' reviewed_store = Inr (cw_case escalated_row, reviewed_store)"
    using keys wf_sample_review [unfolded wf_review_def]
    by (simp_all add: get_review_def require_case_def get_case_def case_row_def stored_review_def run_tx tables)
  show ?thesis
    using u t p q times keys expired
    by (simp add: apply_review_def run_tx evidence_utc_def stop_reviewed_case_def stop_move_def [symmetric])
qed

theorem refused_review_stops_case_witness:
  "\<exists>r s'. apply_review due_settings (advise default_graph (\<lambda>_. slow_world)) sample_zones sample_uuids due_at
     ''merchant_1'' sample_approval reviewed_store = Inr (r, s')
     \<and> rx_case_state r = Some STOPPED \<and> db_actions s' = []"
proof -
  obtain r s' where p: "apply_review due_settings (advise default_graph (\<lambda>_. slow_world)) sample_zones sample_uuids due_at
     ''merchant_1'' sample_approval reviewed_store = Inr (r, s')"
    using expired_run by blast
  have "get_review ''merchant_1'' (rd_review_id sample_approval) reviewed_store = Inr (Some sample_review, reviewed_store)"
    "rv_expires_at sample_review \<le> due_at" "db_actions reviewed_store = []"
    using wf_sample_review [unfolded wf_review_def]
    by (simp_all add: get_review_def stored_review_def run_tx reviewed_store_def due_store_def empty_store_def)
      (simp_all add: sample_review_def sample_approval_def due_at_def)
  with refused_review_stops_case [OF p reviewed_store_ok, of sample_review] p show ?thesis by auto
qed

end
