(* ===== verification/Playbook_Store.thy ===== *)
theory Playbook_Store
  imports Recovery_Store Agent_Contracts Playbooks
begin

text \<open>
  \<open>PlaybookRepository\<close> (\<open>persistence/playbook_repositories.py\<close>): overdue invoices, customer
  responses, promises to pay, escalations, payment observations and the incidents that payment
  degradation opens, with their tables of \<open>persistence/models.py\<close>.

  Two ways to write a row. An \<open>update(...)\<close> statement changes the table at once. An assignment to
  an attribute of a fetched object changes the object only, until the session flushes, and the
  sessions of this program do not flush by themselves (\<open>autoflush=False\<close>): a query in between
  selects by what the table holds and returns the changed object. For promises this matters, so
  the changed and not yet flushed promises are a component of the state, \<open>db_dirty_promises\<close>. For
  incidents and cases every query that could tell the difference follows a flush.
\<close>


section \<open>Tables\<close>

record MerchantEventRow =
  me_merchant_id :: string
  me_id :: string
  me_source_event_id :: string
  me_event_type :: string
  me_payload :: "(string \<times> json) list"
  me_payload_sha256 :: string
  me_occurred_at :: datetime
  me_received_at :: datetime
  me_correlation_id :: string

record ResponseRow =
  rp_merchant_id :: string
  rp_id :: string
  rp_source_response_id :: string
  rp_recovery_case_id :: string
  rp_invoice_id :: string
  rp_customer_id :: string
  rp_body_sha256 :: string
  rp_intent :: PromiseIntent
  rp_promised_for :: "datetime option"
  rp_amount_minor :: "int option"
  rp_currency :: "string option"
  rp_confidence_basis_points :: int
  rp_extractor_version :: string
  rp_received_at :: datetime

record EscalationRow =
  es_merchant_id :: string
  es_id :: string
  es_recovery_case_id :: string
  es_invoice_id :: string
  es_customer_response_id :: string
  es_reason_code :: string
  es_status :: string
  es_created_at :: datetime

record ObservationRow =
  ob_merchant_id :: string
  ob_id :: string
  ob_payment_id :: string
  ob_source_event_id :: string
  ob_succeeded :: bool
  ob_payment_method :: string
  ob_issuer_family :: string
  ob_error_family :: string
  ob_occurred_at :: datetime

record playbook_db = recovery_db +
  db_merchant_events :: "MerchantEventRow list"
  db_responses :: "ResponseRow list"
  db_escalations :: "EscalationRow list"
  db_observations :: "ObservationRow list"
  db_dirty_promises :: "PromiseRow list"


section \<open>Constraints\<close>

definition merchant_events_ok :: "MerchantEventRow list \<Rightarrow> bool" where
  "merchant_events_ok rows \<longleftrightarrow>
     distinct (map (\<lambda>e. (me_merchant_id e, me_id e)) rows)
     \<and> distinct (map (\<lambda>e. (me_merchant_id e, me_source_event_id e)) rows)
     \<and> (\<forall>e\<in>set rows. me_event_type e \<in> {''invoice.overdue'', ''customer.response''} \<and> hex64 (me_payload_sha256 e))"

definition invoice_row_ok :: "InvoiceRow \<Rightarrow> bool" where
  "invoice_row_ok v \<longleftrightarrow>
     0 \<le> iv_amount_minor v \<and> 0 \<le> iv_outstanding_amount_minor v
     \<and> iv_outstanding_amount_minor v \<le> iv_amount_minor v \<and> currency_pattern (iv_currency v)
     \<and> iv_status v \<in> {''OPEN'', ''OVERDUE'', ''PROMISED'', ''PAID'', ''DISPUTED'', ''ESCALATED'', ''CANCELLED''}
     \<and> (iv_status v = ''DISPUTED'' \<longrightarrow> iv_automation_frozen_at v \<noteq> None)"

definition invoices_ok :: "InvoiceRow list \<Rightarrow> bool" where
  "invoices_ok rows \<longleftrightarrow>
     distinct (map (\<lambda>v. (iv_merchant_id v, iv_id v)) rows)
     \<and> distinct (map (\<lambda>v. (iv_merchant_id v, iv_provider_invoice_id v)) rows)
     \<and> (\<forall>v\<in>set rows. invoice_row_ok v)"

definition response_row_ok :: "ResponseRow \<Rightarrow> bool" where
  "response_row_ok r \<longleftrightarrow>
     hex64 (rp_body_sha256 r) \<and> 0 \<le> rp_confidence_basis_points r \<and> rp_confidence_basis_points r \<le> 10000
     \<and> (if rp_intent r = PROMISE_TO_PAY
        then rp_promised_for r \<noteq> None \<and> (\<exists>n. rp_amount_minor r = Some n \<and> 0 < n)
             \<and> (\<exists>c. rp_currency r = Some c \<and> currency_pattern c)
        else rp_promised_for r = None \<and> rp_amount_minor r = None \<and> rp_currency r = None)"

definition responses_ok :: "ResponseRow list \<Rightarrow> bool" where
  "responses_ok rows \<longleftrightarrow>
     distinct (map (\<lambda>r. (rp_merchant_id r, rp_id r)) rows)
     \<and> distinct (map (\<lambda>r. (rp_merchant_id r, rp_source_response_id r)) rows)
     \<and> (\<forall>r\<in>set rows. response_row_ok r)"

definition promise_row_ok :: "PromiseRow \<Rightarrow> bool" where
  "promise_row_ok p \<longleftrightarrow>
     0 < pr_amount_minor p \<and> currency_pattern (pr_currency p)
     \<and> pr_status p \<in> {''ACTIVE'', ''FULFILLED'', ''BROKEN'', ''DISPUTED'', ''CANCELLED''}
     \<and> 0 \<le> pr_extraction_confidence_basis_points p \<and> pr_extraction_confidence_basis_points p \<le> 10000
     \<and> (pr_status p = ''FULFILLED'' \<longrightarrow> pr_fulfilled_at p \<noteq> None)
     \<and> (pr_status p = ''BROKEN'' \<longrightarrow> pr_broken_at p \<noteq> None)"

definition promise_key :: "PromiseRow \<Rightarrow> string \<times> string" where
  "promise_key p = (pr_merchant_id p, pr_id p)"

definition promises_ok :: "PromiseRow list \<Rightarrow> bool" where
  "promises_ok rows \<longleftrightarrow>
     distinct (map promise_key rows)
     \<and> distinct (map (\<lambda>p. (pr_merchant_id p, pr_customer_response_id p)) rows)
     \<and> (\<forall>p\<in>set rows. promise_row_ok p)"

definition escalations_ok :: "EscalationRow list \<Rightarrow> bool" where
  "escalations_ok rows \<longleftrightarrow>
     distinct (map (\<lambda>e. (es_merchant_id e, es_id e)) rows)
     \<and> distinct (map (\<lambda>e. (es_merchant_id e, es_customer_response_id e)) rows)
     \<and> (\<forall>e\<in>set rows. es_status e \<in> {''OPEN'', ''RESOLVED''})"

definition observations_ok :: "ObservationRow list \<Rightarrow> bool" where
  "observations_ok rows \<longleftrightarrow>
     distinct (map (\<lambda>b. (ob_merchant_id b, ob_id b)) rows)
     \<and> distinct (map (\<lambda>b. (ob_merchant_id b, ob_source_event_id b)) rows)"

definition incident_row_ok :: "IncidentRow \<Rightarrow> bool" where
  "incident_row_ok i \<longleftrightarrow>
     in_starts_at i < in_ends_at i
     \<and> 0 \<le> in_baseline_failures i \<and> in_baseline_failures i \<le> in_baseline_total i
     \<and> 0 \<le> in_current_failures i \<and> in_current_failures i \<le> in_current_total i
     \<and> 0 \<le> in_baseline_rate i \<and> in_baseline_rate i \<le> 10000
     \<and> 0 \<le> in_current_rate i \<and> in_current_rate i \<le> 10000 \<and> 0 \<le> in_clear_window_count i
     \<and> (if in_status i = INCIDENT_ACTIVE
        then in_resolved_at i = None \<and> in_resolution_reason i = None
        else in_resolved_at i \<noteq> None \<and> in_resolution_reason i \<noteq> None)
     \<and> (in_scope i = CONTACT_CHANNEL \<longleftrightarrow> in_channel i \<noteq> None)"

definition incident_key :: "IncidentRow \<Rightarrow> string \<times> string" where
  "incident_key i = (in_merchant_id i, in_id i)"

definition incidents_ok :: "IncidentRow list \<Rightarrow> bool" where
  "incidents_ok rows \<longleftrightarrow>
     distinct (map incident_key rows)
     \<and> unique_index (\<lambda>i. in_status i = INCIDENT_ACTIVE) (\<lambda>i. (in_merchant_id i, in_dimension_key i)) rows
     \<and> (\<forall>i\<in>set rows. incident_row_ok i)"

definition incident_links_ok :: "IncidentLinkRow list \<Rightarrow> bool" where
  "incident_links_ok rows \<longleftrightarrow>
     distinct (map link_key rows)
     \<and> (\<forall>l\<in>set rows. \<forall>t\<in>set_option (il_resume_after l). il_attached_at l \<le> t)"


section \<open>Inserts\<close>

text \<open>
  \<open>insert(...).on_conflict_do_nothing(index_elements=...).returning(...)\<close>: nothing when a row of the
  same index entry is there. A violation of any other constraint is an error.
\<close>

definition insert_new ::
    "('s \<Rightarrow> 'r list) \<Rightarrow> (('r list \<Rightarrow> 'r list) \<Rightarrow> 's \<Rightarrow> 's) \<Rightarrow> ('r list \<Rightarrow> bool) \<Rightarrow> string \<Rightarrow> ('r \<Rightarrow> bool) \<Rightarrow> 'r \<Rightarrow>
     ('s, 'r option) tx" where
  "insert_new rows change ok table same row =
     bindT (getT (\<lambda>s. \<exists>r\<in>set (rows s). same r)) (\<lambda>conflict.
     if conflict then returnT None
     else seqT (modifyT (change (\<lambda>rs. rs @ [row])))
          (seqT (checkT (\<lambda>s. ok (rows s)) table) (returnT (Some row))))"

text \<open>The row of the index entry: what the code selects when the insert did nothing.\<close>

definition select_one :: "('s \<Rightarrow> 'r list) \<Rightarrow> ('r \<Rightarrow> bool) \<Rightarrow> ('s, 'r) tx" where
  "select_one rows same = bindT (getT (\<lambda>s. filter same (rows s))) oneT"


section \<open>Overdue invoices\<close>

text \<open>The keyword arguments of \<open>record_overdue_invoice\<close>.\<close>

record OverdueInvoice =
  oi_merchant_event_id :: string
  oi_normalized_event_id :: string
  oi_merchant_id :: string
  oi_source_event_id :: string
  oi_correlation_id :: string
  oi_invoice_id :: string
  oi_customer_id :: string
  oi_amount_minor :: int
  oi_outstanding_amount_minor :: int
  oi_currency :: string
  oi_due_at :: datetime
  oi_occurred_at :: datetime
  oi_received_at :: datetime

definition overdue_payload :: "OverdueInvoice \<Rightarrow> (string \<times> json) list" where
  "overdue_payload q =
     [(''invoice_id'', JStr (oi_invoice_id q)), (''customer_id'', JStr (oi_customer_id q)),
      (''amount_minor'', JInt (oi_amount_minor q)),
      (''outstanding_amount_minor'', JInt (oi_outstanding_amount_minor q)),
      (''currency'', JStr (oi_currency q)), (''due_at'', JStr (format_seconds (oi_due_at q)))]"

definition overdue_event_row :: "OverdueInvoice \<Rightarrow> MerchantEventRow" where
  "overdue_event_row q =
     \<lparr>me_merchant_id = oi_merchant_id q, me_id = oi_merchant_event_id q,
      me_source_event_id = oi_source_event_id q, me_event_type = ''invoice.overdue'',
      me_payload = overdue_payload q, me_payload_sha256 = sha256_hex (json_dumps True (JObj (overdue_payload q))),
      me_occurred_at = oi_occurred_at q, me_received_at = oi_received_at q,
      me_correlation_id = oi_correlation_id q\<rparr>"

definition record_merchant_event :: "MerchantEventRow \<Rightarrow> ('a playbook_db_scheme, MerchantEventRow) tx" where
  "record_merchant_event row =
     (let same = (\<lambda>e. me_merchant_id e = me_merchant_id row \<and> me_source_event_id e = me_source_event_id row) in
      bindT (insert_new db_merchant_events db_merchant_events_update merchant_events_ok ''merchant_events'' same row) (\<lambda>new.
      case new of
        Some e \<Rightarrow> returnT e
      | None \<Rightarrow>
          bindT (select_one db_merchant_events same) (\<lambda>e.
          seqT (guardT (me_payload_sha256 e \<noteq> me_payload_sha256 row)
            (PlaybookPersistenceError ''MERCHANT_EVENT_ID_CONFLICT''
               ''source event ID already identifies a different payload''))
          (returnT e))))"

definition overdue_invoice_row :: "OverdueInvoice \<Rightarrow> datetime \<Rightarrow> InvoiceRow" where
  "overdue_invoice_row q db_now =
     \<lparr>iv_merchant_id = oi_merchant_id q, iv_id = oi_invoice_id q, iv_provider_invoice_id = oi_invoice_id q,
      iv_customer_id = oi_customer_id q, iv_amount_minor = oi_amount_minor q,
      iv_outstanding_amount_minor = oi_outstanding_amount_minor q, iv_currency = oi_currency q,
      iv_status = ''OVERDUE'', iv_due_at = oi_due_at q, iv_provider_updated_at = oi_occurred_at q,
      iv_automation_frozen_at = None, iv_updated_at = db_now\<rparr>"

text \<open>\<open>on_conflict_do_update\<close> with its \<open>where\<close>.\<close>

definition overdue_applies :: "InvoiceRow \<Rightarrow> InvoiceRow \<Rightarrow> bool" where
  "overdue_applies excluded v \<longleftrightarrow>
     iv_provider_updated_at v \<le> iv_provider_updated_at excluded
     \<and> iv_status v \<notin> {''PAID'', ''DISPUTED'', ''CANCELLED''}"

definition overdue_update :: "InvoiceRow \<Rightarrow> datetime \<Rightarrow> InvoiceRow \<Rightarrow> InvoiceRow" where
  "overdue_update excluded received_at v =
     v\<lparr>iv_amount_minor := iv_amount_minor excluded,
       iv_outstanding_amount_minor := iv_outstanding_amount_minor excluded,
       iv_currency := iv_currency excluded, iv_status := iv_status excluded, iv_due_at := iv_due_at excluded,
       iv_provider_updated_at := iv_provider_updated_at excluded, iv_updated_at := received_at\<rparr>"

definition invoice_key :: "InvoiceRow \<Rightarrow> string \<times> string" where
  "invoice_key v = (iv_merchant_id v, iv_id v)"

definition flush_invoices :: "('a recovery_db_scheme, unit) tx" where
  "flush_invoices = checkT (\<lambda>s. invoices_ok (db_invoices s)) ''invoices''"

definition upsert_overdue_invoice :: "InvoiceRow \<Rightarrow> datetime \<Rightarrow> ('a recovery_db_scheme, unit) tx" where
  "upsert_overdue_invoice excluded received_at =
     seqT (modifyT (\<lambda>s. s\<lparr>db_invoices :=
       (if \<exists>v\<in>set (db_invoices s). invoice_key v = invoice_key excluded
        then update_where (\<lambda>v. invoice_key v = invoice_key excluded \<and> overdue_applies excluded v)
               (overdue_update excluded received_at) (db_invoices s)
        else db_invoices s @ [excluded])\<rparr>))
     flush_invoices"

definition overdue_normalized_payload :: "OverdueInvoice \<Rightarrow> doc" where
  "overdue_normalized_payload q =
     [(''schema_version'', PStr ''1.0''), (''event_id'', PStr (oi_normalized_event_id q)),
      (''merchant_id'', PStr (oi_merchant_id q)), (''source'', PStr ''MERCHANT''),
      (''source_event_id'', PStr (oi_source_event_id q)), (''event_type'', PStr ''invoice.overdue''),
      (''occurred_at'', PStr (format_seconds (oi_occurred_at q))),
      (''received_at'', PStr (format_seconds (oi_received_at q))),
      (''customer_id'', PStr (oi_customer_id q)), (''payment_id'', PNone), (''order_id'', PNone),
      (''subscription_id'', PNone), (''invoice_id'', PStr (oi_invoice_id q)), (''payment_link_id'', PNone),
      (''amount_minor'', PInt (oi_outstanding_amount_minor q)), (''currency'', PStr (oi_currency q)),
      (''failure_code'', PStr ''INVOICE_OVERDUE''),
      (''normalized_failure_category'', PStr ''CUSTOMER_ACTION_REQUIRED''),
      (''correlation_id'', PStr (oi_correlation_id q)), (''causation_id'', PNone),
      (''source_payload_reference'', PStr (''merchant_events/'' @ oi_source_event_id q))]"

definition overdue_normalized_row :: "OverdueInvoice \<Rightarrow> string \<Rightarrow> NormalizedRow" where
  "overdue_normalized_row q merchant_event_id =
     \<lparr>ev_event_id = oi_normalized_event_id q, ev_merchant_id = oi_merchant_id q, ev_source = MERCHANT,
      ev_source_event_id = oi_source_event_id q, ev_event_type = ''invoice.overdue'',
      ev_occurred_at = oi_occurred_at q, ev_received_at = oi_received_at q,
      ev_amount_minor = oi_outstanding_amount_minor q, ev_currency = oi_currency q,
      ev_failure_category = CUSTOMER_ACTION_REQUIRED, ev_correlation_id = oi_correlation_id q,
      ev_source_payload_reference = ''merchant_events/'' @ oi_source_event_id q,
      ev_customer_id = Some (oi_customer_id q), ev_payment_id = None, ev_order_id = None,
      ev_subscription_id = None, ev_invoice_id = Some (oi_invoice_id q), ev_payment_link_id = None,
      ev_failure_code = Some ''INVOICE_OVERDUE'', ev_causation_id = None, ev_schema_version = ''1.0'',
      ne_webhook_event_id = None, ne_merchant_event_id = Some merchant_event_id,
      ne_normalized_payload = overdue_normalized_payload q\<rparr>"

definition record_overdue_invoice :: "datetime \<Rightarrow> OverdueInvoice \<Rightarrow> ('a playbook_db_scheme, NormalizedRow) tx" where
  "record_overdue_invoice db_now q =
     seqT (liftR (bindR (evidence_utc (oi_due_at q)) (\<lambda>_. bindR (evidence_utc (oi_occurred_at q)) (\<lambda>_.
             evidence_utc (oi_received_at q)))))
     (bindT (record_merchant_event (overdue_event_row q)) (\<lambda>merchant_event.
      seqT (upsert_overdue_invoice (overdue_invoice_row q db_now) (oi_received_at q))
      (let row = overdue_normalized_row q (me_id merchant_event);
           same = (\<lambda>n. ev_merchant_id n = oi_merchant_id q \<and> ev_source n = MERCHANT
                     \<and> ev_source_event_id n = oi_source_event_id q) in
       bindT (insert_new db_normalized db_normalized_update normalized_ok ''normalized_events'' same row) (\<lambda>new.
       case new of Some n \<Rightarrow> returnT n | None \<Rightarrow> select_one db_normalized same))))"

definition invoice :: "string \<Rightarrow> string \<Rightarrow> ('a recovery_db_scheme, InvoiceRow option) tx" where
  "invoice merchant_id invoice_id =
     bindT (getT (\<lambda>s. filter (\<lambda>v. invoice_key v = (merchant_id, invoice_id)) (db_invoices s))) one_or_noneT"


section \<open>Customer responses\<close>

record CustomerResponseRequest =
  xr_response_id :: string
  xr_merchant_id :: string
  xr_source_response_id :: string
  xr_case_id :: string
  xr_invoice_id :: string
  xr_customer_id :: string
  xr_body :: string
  xr_extraction :: PromiseExtraction
  xr_received_at :: datetime

definition response_row :: "CustomerResponseRequest \<Rightarrow> ResponseRow" where
  "response_row q =
     (let x = xr_extraction q in
      \<lparr>rp_merchant_id = xr_merchant_id q, rp_id = xr_response_id q,
       rp_source_response_id = xr_source_response_id q, rp_recovery_case_id = xr_case_id q,
       rp_invoice_id = xr_invoice_id q, rp_customer_id = xr_customer_id q,
       rp_body_sha256 = sha256_hex (xr_body q), rp_intent = px_intent x,
       rp_promised_for = map_option (\<lambda>d. combine_utc d 0) (px_promised_date x),
       rp_amount_minor = px_amount_minor x, rp_currency = px_currency x,
       rp_confidence_basis_points = px_confidence_basis_points x,
       rp_extractor_version = px_extractor_version x, rp_received_at = xr_received_at q\<rparr>)"

definition store_customer_response ::
    "CustomerResponseRequest \<Rightarrow> ('a playbook_db_scheme, ResponseRow \<times> bool) tx" where
  "store_customer_response q =
     seqT (liftR (evidence_utc (xr_received_at q)))
     (let row = response_row q;
          same = (\<lambda>r. rp_merchant_id r = xr_merchant_id q \<and> rp_source_response_id r = xr_source_response_id q) in
      bindT (insert_new db_responses db_responses_update responses_ok ''customer_responses'' same row) (\<lambda>new.
      case new of
        Some r \<Rightarrow> returnT (r, True)
      | None \<Rightarrow>
          bindT (select_one db_responses same) (\<lambda>r.
          seqT (guardT (rp_body_sha256 r \<noteq> rp_body_sha256 row)
            (PlaybookPersistenceError ''CUSTOMER_RESPONSE_ID_CONFLICT''
               ''source response ID already identifies a different body''))
          (returnT (r, False)))))"


section \<open>Promises\<close>

primrec promise_status_value :: "PromiseStatus \<Rightarrow> string" where
  "promise_status_value PromiseStatus.ACTIVE = ''ACTIVE''"
| "promise_status_value FULFILLED = ''FULFILLED''"
| "promise_status_value BROKEN = ''BROKEN''"
| "promise_status_value DISPUTED = ''DISPUTED''"
| "promise_status_value CANCELLED = ''CANCELLED''"

definition promise_row :: "PromiseToPay \<Rightarrow> string \<Rightarrow> PromiseRow" where
  "promise_row p customer_response_id =
     \<lparr>pr_merchant_id = pp_merchant_id p, pr_id = pp_promise_id p, pr_recovery_case_id = pp_case_id p,
      pr_invoice_id = pp_invoice_id p, pr_customer_id = pp_customer_id p,
      pr_customer_response_id = customer_response_id, pr_amount_minor = pp_amount_minor p,
      pr_currency = pp_currency p, pr_promised_for = combine_utc (pp_promised_for p) 0,
      pr_reminder_at = pp_reminder_at p, pr_status = promise_status_value (pp_status p),
      pr_extractor_version = pp_extractor_version p,
      pr_extraction_confidence_basis_points = pp_extraction_confidence_basis_points p, pr_fulfilled_at = None,
      pr_broken_at = None, pr_reminder_sent_at = None, pr_reminder_action_id = None,
      pr_created_at = pp_created_at p, pr_updated_at = pp_updated_at p\<rparr>"

definition update_invoices :: "(InvoiceRow \<Rightarrow> bool) \<Rightarrow> (InvoiceRow \<Rightarrow> InvoiceRow) \<Rightarrow> ('a recovery_db_scheme, unit) tx" where
  "update_invoices p f =
     seqT (modifyT (\<lambda>s. s\<lparr>db_invoices := update_where p f (db_invoices s)\<rparr>)) flush_invoices"

definition update_promises :: "(PromiseRow \<Rightarrow> bool) \<Rightarrow> (PromiseRow \<Rightarrow> PromiseRow) \<Rightarrow> ('a recovery_db_scheme, unit) tx" where
  "update_promises p f =
     seqT (modifyT (\<lambda>s. s\<lparr>db_promises := update_where p f (db_promises s)\<rparr>))
       (checkT (\<lambda>s. promises_ok (db_promises s)) ''promises_to_pay'')"

definition store_promise :: "PromiseToPay \<Rightarrow> string \<Rightarrow> ('a recovery_db_scheme, PromiseRow) tx" where
  "store_promise p customer_response_id =
     (let same = (\<lambda>r. pr_merchant_id r = pp_merchant_id p \<and> pr_customer_response_id r = customer_response_id) in
      bindT (insert_new db_promises db_promises_update promises_ok ''promises_to_pay'' same
        (promise_row p customer_response_id)) (\<lambda>new.
      case new of
        Some r \<Rightarrow>
          seqT (update_invoices (\<lambda>v. invoice_key v = (pp_merchant_id p, pp_invoice_id p) \<and> iv_status v = ''OVERDUE'')
                  (\<lambda>v. v\<lparr>iv_status := ''PROMISED'', iv_updated_at := pp_updated_at p\<rparr>))
          (returnT r)
      | None \<Rightarrow> select_one db_promises same))"


section \<open>Escalations\<close>

record Escalation =
  ex_escalation_id :: string
  ex_merchant_id :: string
  ex_case_id :: string
  ex_invoice_id :: string
  ex_customer_response_id :: string
  ex_occurred_at :: datetime

definition escalation_row :: "Escalation \<Rightarrow> string \<Rightarrow> EscalationRow" where
  "escalation_row q reason_code =
     \<lparr>es_merchant_id = ex_merchant_id q, es_id = ex_escalation_id q, es_recovery_case_id = ex_case_id q,
      es_invoice_id = ex_invoice_id q, es_customer_response_id = ex_customer_response_id q,
      es_reason_code = reason_code, es_status = ''OPEN'', es_created_at = ex_occurred_at q\<rparr>"

definition store_receivable_escalation :: "Escalation \<Rightarrow> string \<Rightarrow> ('a playbook_db_scheme, EscalationRow) tx" where
  "store_receivable_escalation q reason_code =
     seqT (liftR (evidence_utc (ex_occurred_at q)))
     (let same = (\<lambda>e. es_merchant_id e = ex_merchant_id q \<and> es_customer_response_id e = ex_customer_response_id q) in
      bindT (insert_new db_escalations db_escalations_update escalations_ok ''receivable_escalations'' same
        (escalation_row q reason_code)) (\<lambda>new.
      case new of Some e \<Rightarrow> returnT e | None \<Rightarrow> select_one db_escalations same))"

definition freeze_invoice :: "string \<Rightarrow> datetime \<Rightarrow> InvoiceRow \<Rightarrow> InvoiceRow" where
  "freeze_invoice status t v = v\<lparr>iv_status := status, iv_automation_frozen_at := Some t, iv_updated_at := t\<rparr>"

definition close_active_promises :: "Escalation \<Rightarrow> string \<Rightarrow> ('a recovery_db_scheme, unit) tx" where
  "close_active_promises q status = update_promises
     (\<lambda>p. pr_merchant_id p = ex_merchant_id q \<and> pr_invoice_id p = ex_invoice_id q \<and> pr_status p = ''ACTIVE'')
     (\<lambda>p. p\<lparr>pr_status := status, pr_updated_at := ex_occurred_at q\<rparr>)"

definition freeze_dispute_and_escalate :: "Escalation \<Rightarrow> ('a playbook_db_scheme, EscalationRow) tx" where
  "freeze_dispute_and_escalate q =
     bindT (liftR (evidence_utc (ex_occurred_at q))) (\<lambda>t.
     seqT (update_invoices (\<lambda>v. invoice_key v = (ex_merchant_id q, ex_invoice_id q)) (freeze_invoice ''DISPUTED'' t))
     (seqT (close_active_promises q ''DISPUTED'')
     (store_receivable_escalation q ''CUSTOMER_DISPUTE'')))"

definition freeze_already_paid_claim_and_escalate :: "Escalation \<Rightarrow> ('a playbook_db_scheme, EscalationRow) tx" where
  "freeze_already_paid_claim_and_escalate q =
     bindT (liftR (evidence_utc (ex_occurred_at q))) (\<lambda>t.
     seqT (update_invoices (\<lambda>v. invoice_key v = (ex_merchant_id q, ex_invoice_id q)
             \<and> iv_status v \<in> {''OPEN'', ''OVERDUE'', ''PROMISED''}) (freeze_invoice ''ESCALATED'' t))
     (seqT (close_active_promises q ''CANCELLED'')
     (store_receivable_escalation q ''CUSTOMER_REPORTED_ALREADY_PAID'')))"


section \<open>Maintenance of promises\<close>

text \<open>The object of the session for a row: the one that was changed, if there is one.\<close>

definition session_promise :: "'a playbook_db_scheme \<Rightarrow> PromiseRow \<Rightarrow> PromiseRow" where
  "session_promise s p =
     (case find (\<lambda>q. promise_key q = promise_key p) (db_dirty_promises s) of None \<Rightarrow> p | Some q \<Rightarrow> q)"

definition change_promise :: "PromiseRow \<Rightarrow> ('a playbook_db_scheme, unit) tx" where
  "change_promise p = modifyT (\<lambda>s. s\<lparr>db_dirty_promises := p # db_dirty_promises s\<rparr>)"

definition flush_promises :: "('a playbook_db_scheme, unit) tx" where
  "flush_promises =
     seqT (modifyT (\<lambda>s. s\<lparr>db_promises := map (session_promise s) (db_promises s), db_dirty_promises := []\<rparr>))
       (checkT (\<lambda>s. promises_ok (db_promises s)) ''promises_to_pay'')"

definition due_column :: "bool \<Rightarrow> PromiseRow \<Rightarrow> datetime" where
  "due_column overdue p = (if overdue then pr_promised_for p else pr_reminder_at p)"

definition promise_due :: "bool \<Rightarrow> datetime \<Rightarrow> PromiseRow \<Rightarrow> bool" where
  "promise_due overdue t p \<longleftrightarrow>
     pr_status p = ''ACTIVE'' \<and> (if overdue then due_column overdue p < t else due_column overdue p \<le> t)
     \<and> (overdue \<or> pr_reminder_action_id p = None)"

definition due_promises :: "datetime \<Rightarrow> int \<Rightarrow> bool \<Rightarrow> ('a playbook_db_scheme, PromiseRow list) tx" where
  "due_promises due_at limit overdue =
     seqT (guardT (limit \<le> 0) (ValueError ''limit must be positive''))
     (bindT (liftR (evidence_utc due_at)) (\<lambda>t.
      getT (\<lambda>s. map (session_promise s) (take (nat limit)
        (sort_key (\<lambda>p. (due_column overdue p, pr_merchant_id p, pr_id p))
          (filter (promise_due overdue t) (db_promises s)))))))"

definition awaits_reminder :: "string \<Rightarrow> string \<Rightarrow> PromiseRow \<Rightarrow> bool" where
  "awaits_reminder merchant_id promise_id p \<longleftrightarrow>
     promise_key p = (merchant_id, promise_id) \<and> pr_status p = ''ACTIVE'' \<and> pr_reminder_action_id p = None"

definition mark_promise_reminder_scheduled ::
    "string \<Rightarrow> string \<Rightarrow> string \<Rightarrow> datetime \<Rightarrow> ('a recovery_db_scheme, unit) tx" where
  "mark_promise_reminder_scheduled merchant_id promise_id action_id scheduled_at =
     bindT (liftR (evidence_utc scheduled_at)) (\<lambda>t.
     bindT (getT (\<lambda>s. length (filter (awaits_reminder merchant_id promise_id) (db_promises s)))) (\<lambda>rowcount.
     seqT (update_promises (awaits_reminder merchant_id promise_id)
             (\<lambda>p. p\<lparr>pr_reminder_action_id := Some action_id, pr_updated_at := t\<rparr>))
     (guardT (rowcount \<noteq> 1) (PlaybookPersistenceError ''PROMISE_REMINDER_ALREADY_SCHEDULED''
        ''promise is no longer eligible for reminder scheduling''))))"

definition reschedule_promise_reminder ::
    "string \<Rightarrow> string \<Rightarrow> datetime \<Rightarrow> ('a recovery_db_scheme, unit) tx" where
  "reschedule_promise_reminder merchant_id promise_id reminder_at =
     bindT (liftR (evidence_utc reminder_at)) (\<lambda>t.
     update_promises (awaits_reminder merchant_id promise_id) (\<lambda>p. p\<lparr>pr_reminder_at := t, pr_updated_at := t\<rparr>))"

definition mark_broken_promise_and_escalate ::
    "PromiseRow \<Rightarrow> string \<Rightarrow> datetime \<Rightarrow> ('a playbook_db_scheme, EscalationRow) tx" where
  "mark_broken_promise_and_escalate p escalation_id broken_at =
     bindT (liftR (evidence_utc broken_at)) (\<lambda>t.
     seqT (change_promise (p\<lparr>pr_status := ''BROKEN'', pr_broken_at := Some t, pr_updated_at := t\<rparr>))
     (seqT (update_invoices (\<lambda>v. invoice_key v = (pr_merchant_id p, pr_invoice_id p) \<and> iv_status v = ''PROMISED'')
             (freeze_invoice ''ESCALATED'' t))
     (store_receivable_escalation
        \<lparr>ex_escalation_id = escalation_id, ex_merchant_id = pr_merchant_id p, ex_case_id = pr_recovery_case_id p,
         ex_invoice_id = pr_invoice_id p, ex_customer_response_id = pr_customer_response_id p, ex_occurred_at = t\<rparr>
        ''BROKEN_PROMISE_TO_PAY'')))"


section \<open>Payment observations\<close>

definition observation_row :: "PaymentOutcomeObservation \<Rightarrow> string \<Rightarrow> ObservationRow" where
  "observation_row p source_event_id =
     \<lparr>ob_merchant_id = po_merchant_id p, ob_id = po_observation_id p, ob_payment_id = po_payment_id p,
      ob_source_event_id = source_event_id, ob_succeeded = po_succeeded p,
      ob_payment_method = po_payment_method p, ob_issuer_family = po_issuer_family p,
      ob_error_family = po_error_family p, ob_occurred_at = po_occurred_at p\<rparr>"

definition record_payment_observation ::
    "PaymentOutcomeObservation \<Rightarrow> string \<Rightarrow> ('a playbook_db_scheme, bool) tx" where
  "record_payment_observation p source_event_id =
     bindT (insert_new db_observations db_observations_update observations_ok ''payment_outcome_observations''
        (\<lambda>b. ob_merchant_id b = po_merchant_id p \<and> ob_source_event_id b = source_event_id)
        (observation_row p source_event_id))
     (\<lambda>new. returnT (new \<noteq> None))"

definition observation_of :: "ObservationRow \<Rightarrow> PaymentOutcomeObservation result" where
  "observation_of b = post_init_observation
     \<lparr>po_observation_id = ob_id b, po_merchant_id = ob_merchant_id b, po_payment_id = ob_payment_id b,
      po_succeeded = ob_succeeded b, po_payment_method = ob_payment_method b,
      po_issuer_family = ob_issuer_family b, po_error_family = ob_error_family b, po_occurred_at = ob_occurred_at b\<rparr>"

definition payment_observations ::
    "string \<Rightarrow> datetime \<Rightarrow> datetime \<Rightarrow> ('a playbook_db_scheme, PaymentOutcomeObservation list) tx" where
  "payment_observations merchant_id since until =
     bindT (liftR (evidence_utc since)) (\<lambda>a.
     bindT (liftR (evidence_utc until)) (\<lambda>b.
     bindT (getT (\<lambda>s. filter (\<lambda>r. ob_merchant_id r = merchant_id \<and> a \<le> ob_occurred_at r \<and> ob_occurred_at r \<le> b)
       (db_observations s))) (\<lambda>rows.
     liftR (mapR observation_of rows))))"

definition portfolio_merchant_ids :: "datetime \<Rightarrow> int \<Rightarrow> ('a playbook_db_scheme, string list) tx" where
  "portfolio_merchant_ids since limit =
     seqT (guardT (limit \<le> 0) (ValueError ''limit must be positive''))
     (bindT (liftR (evidence_utc since)) (\<lambda>t.
      getT (\<lambda>s. take (nat limit) (sorted_list_of_set
        (ob_merchant_id ` set (filter (\<lambda>b. t \<le> ob_occurred_at b) (db_observations s))
         \<union> in_merchant_id ` set (filter (\<lambda>i. in_status i = INCIDENT_ACTIVE) (db_incidents s)))))))"

definition active_incidents_for_maintenance :: "string \<Rightarrow> ('a recovery_db_scheme, IncidentRow list) tx" where
  "active_incidents_for_maintenance merchant_id = getT (\<lambda>s. sort_key in_dimension_key
     (filter (\<lambda>i. in_merchant_id i = merchant_id \<and> in_status i = INCIDENT_ACTIVE) (db_incidents s)))"


section \<open>Incidents\<close>

definition dimension_key :: "DegradationAssessment \<Rightarrow> string" where
  "dimension_key a = join ''|'' [da_payment_method a, da_issuer_family a, da_error_family a]"

definition scope_for :: "string \<Rightarrow> IncidentScope" where
  "scope_for error_family =
     (let normalized = str_upper error_family in
      if contains ''ISSUER'' normalized \<or> contains ''BANK'' normalized then ISSUER
      else if contains ''GATEWAY'' normalized then GATEWAY
      else PAYMENT_RAIL)"

definition diagnosis_tokens :: "string \<Rightarrow> string list" where
  "diagnosis_tokens error_family =
     (let normalized = str_upper error_family in
      if contains ''ISSUER'' normalized \<or> contains ''BANK'' normalized then [''ISSUER_TEMPORARILY_UNAVAILABLE'']
      else if contains ''GATEWAY'' normalized then [''GATEWAY_TEMPORARILY_UNAVAILABLE'']
      else [''ISSUER_TEMPORARILY_UNAVAILABLE'', ''GATEWAY_TEMPORARILY_UNAVAILABLE'', ''UNKNOWN_PAYMENT_FAILURE''])"

definition assessment_evidence :: "DegradationAssessment \<Rightarrow> (string \<times> pyval) list" where
  "assessment_evidence a =
     [(''baseline_total'', PInt (da_baseline_total a)), (''baseline_failures'', PInt (da_baseline_failures a)),
      (''current_total'', PInt (da_current_total a)), (''current_failures'', PInt (da_current_failures a)),
      (''baseline_failure_rate_basis_points'', PInt (da_baseline_failure_rate_basis_points a)),
      (''current_failure_rate_basis_points'', PInt (da_current_failure_rate_basis_points a)),
      (''failure_rate_increase_basis_points'', PInt (da_failure_rate_increase_basis_points a)),
      (''failure_rate_ratio_basis_points'', PInt (da_failure_rate_ratio_basis_points a)),
      (''evaluated_at'', PStr (format_seconds (da_evaluated_at a)))]"

text \<open>\<open>_incident_values\<close>, written to an incident.\<close>

definition incident_values :: "DegradationAssessment \<Rightarrow> DegradationPolicy \<Rightarrow> IncidentRow \<Rightarrow> IncidentRow" where
  "incident_values a policy i =
     i\<lparr>in_payment_method := Some (da_payment_method a), in_issuer_family := Some (da_issuer_family a),
       in_error_family := Some (da_error_family a), in_baseline_total := da_baseline_total a,
       in_baseline_failures := da_baseline_failures a, in_current_total := da_current_total a,
       in_current_failures := da_current_failures a,
       in_baseline_rate := da_baseline_failure_rate_basis_points a,
       in_current_rate := da_current_failure_rate_basis_points a,
       in_threshold_version := dp_version policy, in_evidence := assessment_evidence a,
       in_clear_window_count := 0\<rparr>"

definition opened_incident :: "DegradationAssessment \<Rightarrow> DegradationPolicy \<Rightarrow> string \<Rightarrow> IncidentRow" where
  "opened_incident a policy incident_id = incident_values a policy
     \<lparr>in_merchant_id = da_merchant_id a, in_id = incident_id, in_scope = scope_for (da_error_family a),
      in_channel = None, in_starts_at = da_evaluated_at a,
      in_ends_at = plus_delta (da_evaluated_at a) (dp_incident_ttl policy), in_status = INCIDENT_ACTIVE,
      in_dimension_key = dimension_key a, in_payment_method = None, in_issuer_family = None,
      in_error_family = None, in_baseline_total = 0, in_baseline_failures = 0, in_current_total = 0,
      in_current_failures = 0, in_baseline_rate = 0, in_current_rate = 0, in_threshold_version = [],
      in_evidence = [], in_clear_window_count = 0, in_resolved_at = None, in_resolution_reason = None,
      in_created_at = da_evaluated_at a, in_updated_at = da_evaluated_at a\<rparr>"

definition renewed_incident :: "DegradationAssessment \<Rightarrow> DegradationPolicy \<Rightarrow> IncidentRow \<Rightarrow> IncidentRow" where
  "renewed_incident a policy i =
     (incident_values a policy i)\<lparr>in_ends_at := plus_delta (da_evaluated_at a) (dp_incident_ttl policy),
       in_clear_window_count := 0, in_updated_at := da_evaluated_at a\<rparr>"

definition cleared_incident :: "DegradationAssessment \<Rightarrow> DegradationPolicy \<Rightarrow> IncidentRow \<Rightarrow> IncidentRow" where
  "cleared_incident a policy i =
     i\<lparr>in_clear_window_count := in_clear_window_count i + 1,
       in_ends_at := plus_delta (da_evaluated_at a) (dp_incident_ttl policy),
       in_updated_at := da_evaluated_at a, in_evidence := assessment_evidence a\<rparr>"

definition resolved_incident :: "datetime \<Rightarrow> IncidentRow \<Rightarrow> IncidentRow" where
  "resolved_incident resolved_at i =
     i\<lparr>in_status := INCIDENT_RESOLVED, in_resolved_at := Some resolved_at,
       in_resolution_reason := Some ''FAILURE_RATE_RECOVERED'',
       in_ends_at := max (plus_delta (in_starts_at i) 1) resolved_at\<rparr>"

definition flush_incidents :: "('a recovery_db_scheme, unit) tx" where
  "flush_incidents = checkT (\<lambda>s. incidents_ok (db_incidents s)) ''portfolio_incidents''"

text \<open>The object of an incident is changed, the session's object is the row of the table.\<close>

definition change_incident :: "IncidentRow \<Rightarrow> ('a recovery_db_scheme, unit) tx" where
  "change_incident i =
     seqT (modifyT (\<lambda>s. s\<lparr>db_incidents := update_where (\<lambda>r. incident_key r = incident_key i) (\<lambda>_. i) (db_incidents s)\<rparr>))
     flush_incidents"

definition affected_case :: "string \<Rightarrow> string list \<Rightarrow> RecoveryCase \<Rightarrow> bool" where
  "affected_case merchant_id tokens c \<longleftrightarrow>
     rc_merchant_id c = merchant_id \<and> rc_state c \<notin> {RECOVERED, STOPPED}
     \<and> (\<exists>d\<in>set tokens. rc_diagnosis c = Some d)"

definition attach_affected_cases :: "IncidentRow \<Rightarrow> DegradationAssessment \<Rightarrow> ('a recovery_db_scheme, unit) tx" where
  "attach_affected_cases i a =
     bindT (getT (\<lambda>s. filter (affected_case (in_merchant_id i) (diagnosis_tokens (da_error_family a)))
       (map cw_case (db_cases s)))) (\<lambda>affected.
     seqT (mapT (\<lambda>c.
        seqT (insert_link (incident_link (da_evaluated_at a) (rc_case_id c) i))
          (set_active_incident (in_merchant_id i) (rc_case_id c) (in_id i))) affected)
     (checkT (\<lambda>s. cases_ok (db_cases s)) ''recovery_cases''))"

definition released_case :: "string \<Rightarrow> datetime \<Rightarrow> CaseRow \<Rightarrow> CaseRow" where
  "released_case incident_id resume_at r =
     (let c = cw_case r in
      if rc_active_incident_id c = Some incident_id
      then r\<lparr>cw_case := c\<lparr>rc_active_incident_id := None,
               rc_next_evaluation_at := (if rc_state c = DEFERRED then Some resume_at else rc_next_evaluation_at c)\<rparr>\<rparr>
      else r)"

definition release_case :: "IncidentRow \<Rightarrow> datetime \<Rightarrow> nat \<times> string \<Rightarrow> ('a recovery_db_scheme, unit) tx" where
  "release_case i resolved_at = (\<lambda>(offset, case_id).
     let resume_at = plus_delta resolved_at (seconds (int offset * 30)) in
     seqT (modifyT (\<lambda>s. s\<lparr>db_incident_links := update_where
        (\<lambda>l. link_key l = (in_merchant_id i, in_id i, case_id)) (\<lambda>l. l\<lparr>il_resume_after := Some resume_at\<rparr>)
        (db_incident_links s)\<rparr>))
     (modifyT (\<lambda>s. s\<lparr>db_cases := update_where (\<lambda>r. row_key r = (in_merchant_id i, case_id))
        (released_case (in_id i) resume_at) (db_cases s)\<rparr>)))"

definition linked_cases :: "IncidentRow \<Rightarrow> 'a recovery_db_scheme \<Rightarrow> string list" where
  "linked_cases i s = sort (map il_recovery_case_id
     (filter (\<lambda>l. il_merchant_id l = in_merchant_id i \<and> il_incident_id l = in_id i) (db_incident_links s)))"

definition resolve_incident :: "IncidentRow \<Rightarrow> datetime \<Rightarrow> ('a recovery_db_scheme, IncidentRow) tx" where
  "resolve_incident i resolved_at =
     (let r = resolved_incident resolved_at i in
      seqT (change_incident r)
      (bindT (getT (linked_cases i)) (\<lambda>cases.
       seqT (mapT (release_case i resolved_at) (enumerate 0 cases))
       (seqT (checkT (\<lambda>s. incident_links_ok (db_incident_links s)) ''incident_case_links'')
       (seqT (checkT (\<lambda>s. cases_ok (db_cases s)) ''recovery_cases'')
       (returnT r))))))"

definition merchant_for_assessment :: "DegradationAssessment \<Rightarrow> string result" where
  "merchant_for_assessment a =
     (if da_merchant_id a = [] then Inl (ValueError ''assessment requires merchant context'') else Inr (da_merchant_id a))"

definition active_incident_of :: "string \<Rightarrow> string \<Rightarrow> ('a recovery_db_scheme, IncidentRow option) tx" where
  "active_incident_of merchant_id key =
     bindT (getT (\<lambda>s. filter (\<lambda>i. in_merchant_id i = merchant_id \<and> in_dimension_key i = key
       \<and> in_status i = INCIDENT_ACTIVE) (db_incidents s))) one_or_noneT"

definition apply_degradation_assessment ::
    "DegradationAssessment \<Rightarrow> DegradationPolicy \<Rightarrow> string \<Rightarrow> ('a recovery_db_scheme, IncidentRow option) tx" where
  "apply_degradation_assessment a policy incident_id =
     bindT (liftR (merchant_for_assessment a)) (\<lambda>merchant_id.
     bindT (active_incident_of merchant_id (dimension_key a)) (\<lambda>active.
     if da_degraded a then
       bindT (case active of
           None \<Rightarrow> (let i = opened_incident a policy incident_id in
             seqT (modifyT (\<lambda>s. s\<lparr>db_incidents := db_incidents s @ [i]\<rparr>)) (seqT flush_incidents (returnT i)))
         | Some i \<Rightarrow> (let r = renewed_incident a policy i in seqT (change_incident r) (returnT r))) (\<lambda>i.
       seqT (attach_affected_cases i a) (returnT (Some i)))
     else
       case active of
         None \<Rightarrow> returnT None
       | Some i \<Rightarrow>
           if da_evaluated_at a < plus_delta (in_updated_at i) (dp_current_window policy) then returnT (Some i)
           else
             (let r = cleared_incident a policy i in
              if in_clear_window_count r \<ge> dp_clear_consecutive_windows policy
              then bindT (resolve_incident r (da_evaluated_at a)) (\<lambda>x. returnT (Some x))
              else seqT (change_incident r) (returnT (Some r)))))"

text \<open>The advisory lock of a merchant, of which the check that the merchant exists is visible.\<close>

definition lock_merchant :: "string \<Rightarrow> ('a ingest_db_scheme, unit) tx" where
  "lock_merchant merchant_id =
     bindT (getT (\<lambda>s. merchant_id \<in> mc_id ` set (db_merchants s))) (\<lambda>known.
     guardT (\<not> known) (LookupError ''merchant does not exist''))"

end
