(* ===== verification/Playbook_Service.thy ===== *)
theory Playbook_Service
  imports Playbook_Store Recovery
begin

text \<open>
  The services of \<open>revenueguard_integrations/playbooks/\<close>: the bounded extraction of a promise from
  a customer's words (\<open>extraction.py\<close>), the receivables playbook and the payment-degradation
  playbook (\<open>service.py\<close>). The extraction model is a parameter, \<open>Inl\<close> when it raises or times
  out; so are the advisor and the settings of the recovery service, the zones, the identifiers
  and the clock reading. Every operation runs in a database transaction of its caller.
\<close>


section \<open>Dates\<close>

text \<open>
  \<open>date.fromisoformat\<close>: a year, then a week and a day or a month and a day, with a hyphen before
  every part or none; texts of 7, 8 or 10 characters, of which the forms without hyphens read
  the first 7 or 8.
\<close>

definition read_digits :: "nat \<Rightarrow> string \<Rightarrow> (int \<times> string) result" where
  "read_digits n s =
     (if n \<le> length s \<and> all_digits (take n s) then Inr (int_of_digits (take n s), drop n s)
      else Inl invalid_isoformat)"

definition skip_separator :: "bool \<Rightarrow> string \<Rightarrow> string result" where
  "skip_separator sep s =
     (if \<not> sep then Inr s
      else case s of c # r \<Rightarrow> if c = CHR ''-'' then Inr r else Inl invalid_isoformat | [] \<Rightarrow> Inl invalid_isoformat)"

definition iso_week_one :: "int \<Rightarrow> int" where
  "iso_week_one year =
     (let first = days_of_ymd year 1 1; weekday = (first + 3) mod 7; monday = first - weekday in
      if weekday > 3 then monday + 7 else monday)"

definition iso_week_date :: "int \<Rightarrow> int \<Rightarrow> int \<Rightarrow> int result" where
  "iso_week_date year week day =
     (let monday = iso_week_one year + (week - 1) * 7; date = monday + day - 1 in
      if 1 \<le> year \<and> 1 \<le> week \<and> monday < iso_week_one (year + 1) \<and> 1 \<le> day \<and> day \<le> 7
         \<and> (case ymd_of_days date of (y, _, _) \<Rightarrow> 1 \<le> y \<and> y \<le> 9999)
      then Inr date else Inl invalid_isoformat)"

definition calendar_date :: "int \<Rightarrow> int \<Rightarrow> int \<Rightarrow> int result" where
  "calendar_date year month day =
     (if 1 \<le> year \<and> ymd_of_days (days_of_ymd year month day) = (year, month, day)
      then Inr (days_of_ymd year month day) else Inl invalid_isoformat)"

definition week_of_text :: "int \<Rightarrow> bool \<Rightarrow> string \<Rightarrow> int result" where
  "week_of_text year sep s =
     bindR (read_digits 2 s) (\<lambda>(week, r).
     if r = [] then iso_week_date year week 1
     else bindR (skip_separator sep r) (\<lambda>r. bindR (read_digits 1 r) (\<lambda>(day, _). iso_week_date year week day)))"

definition date_of_text :: "string \<Rightarrow> int result" where
  "date_of_text s =
     (if length s \<notin> {7, 8, 10} then Inl invalid_isoformat
      else
        bindR (read_digits 4 s) (\<lambda>(year, r).
        let sep = (hd r = CHR ''-''); p = (if sep then List.tl r else r) in
        if hd p = CHR ''W'' then week_of_text year sep (List.tl p)
        else
          bindR (read_digits 2 p) (\<lambda>(month, r).
          bindR (skip_separator sep r) (\<lambda>r.
          bindR (read_digits 2 r) (\<lambda>(day, _). calendar_date year month day)))))"


section \<open>Extraction\<close>

record ExtractionProvider =
  xp_model_version :: string
  xp_extract :: "string \<Rightarrow> int \<Rightarrow> pyval result"

record ExtractorSettings =
  xs_provider :: "ExtractionProvider option"
  xs_timeout_seconds :: rat
  xs_max_input_characters :: int
  xs_max_output_tokens :: int

definition new_extractor :: "ExtractorSettings \<Rightarrow> ExtractorSettings result" where
  "new_extractor x =
     (if xs_timeout_seconds x \<le> 0 \<or> xs_max_input_characters x \<le> 0 \<or> xs_max_output_tokens x \<le> 0
      then Inl (ValueError ''extraction bounds must be positive'') else Inr x)"

definition default_extractor :: ExtractorSettings where
  "default_extractor = \<lparr>xs_provider = None, xs_timeout_seconds = 3, xs_max_input_characters = 2000,
     xs_max_output_tokens = 200\<rparr>"

definition extraction_fallback :: "string \<Rightarrow> PromiseExtraction result" where
  "extraction_fallback reason = post_init_extraction
     \<lparr>px_intent = PromiseIntent.UNKNOWN, px_confidence_basis_points = 0,
      px_extractor_version = ''phase6-deterministic-fallback:'' @ reason, px_promised_date = None,
      px_amount_minor = None, px_currency = None\<rparr>"

definition extraction_string :: "doc \<Rightarrow> string \<Rightarrow> string result" where
  "extraction_string payload field =
     (case dict_get payload field of
        PStr s \<Rightarrow> if s \<noteq> [] then Inr s else Inl (TypeError (field @ '' must be a non-empty string''))
      | _ \<Rightarrow> Inl (TypeError (field @ '' must be a non-empty string'')))"

definition extraction_integer :: "doc \<Rightarrow> string \<Rightarrow> int result" where
  "extraction_integer payload field =
     (case dict_get payload field of PInt n \<Rightarrow> Inr n | _ \<Rightarrow> Inl (TypeError (field @ '' must be an integer'')))"

text \<open>\<open>PromiseIntent(value)\<close>.\<close>

primrec intent_value :: "PromiseIntent \<Rightarrow> string" where
  "intent_value PROMISE_TO_PAY = ''PROMISE_TO_PAY''"
| "intent_value DISPUTE = ''DISPUTE''"
| "intent_value ALREADY_PAID = ''ALREADY_PAID''"
| "intent_value NEEDS_HELP = ''NEEDS_HELP''"
| "intent_value PromiseIntent.UNKNOWN = ''UNKNOWN''"

definition intent_of_value :: "string \<Rightarrow> PromiseIntent result" where
  "intent_of_value v =
     (case find (\<lambda>i. intent_value i = v) [PROMISE_TO_PAY, DISPUTE, ALREADY_PAID, NEEDS_HELP, PromiseIntent.UNKNOWN] of
        Some i \<Rightarrow> Inr i | None \<Rightarrow> Inl (ValueError v))"

definition EXTRACTION_FIELDS :: "string set" where
  "EXTRACTION_FIELDS = {''intent'', ''confidence_basis_points'', ''promised_date'', ''amount_minor'', ''currency''}"

definition extraction_of_doc :: "doc \<Rightarrow> string \<Rightarrow> PromiseExtraction result" where
  "extraction_of_doc payload model_version =
     bindR (raise_first [(\<not> fst ` set payload \<subseteq> EXTRACTION_FIELDS,
       ValueError ''model output contains unexpected fields'')]) (\<lambda>_.
     bindR (bindR (extraction_string payload ''intent'') intent_of_value) (\<lambda>intent.
     bindR (extraction_integer payload ''confidence_basis_points'') (\<lambda>confidence.
     let x = \<lparr>px_intent = intent, px_confidence_basis_points = confidence, px_extractor_version = model_version,
              px_promised_date = None, px_amount_minor = None, px_currency = None\<rparr> in
     if intent \<noteq> PROMISE_TO_PAY then post_init_extraction x
     else
       bindR (bindR (extraction_string payload ''promised_date'') date_of_text) (\<lambda>promised_date.
       bindR (extraction_integer payload ''amount_minor'') (\<lambda>amount.
       bindR (extraction_string payload ''currency'') (\<lambda>currency.
       post_init_extraction (x\<lparr>px_promised_date := Some promised_date, px_amount_minor := Some amount,
         px_currency := Some currency\<rparr>)))))))"

definition validated_extraction :: "pyval \<Rightarrow> string \<Rightarrow> PromiseExtraction result" where
  "validated_extraction payload model_version =
     (case payload of PDict d \<Rightarrow> extraction_of_doc d model_version
      | _ \<Rightarrow> Inl (TypeError ''model output must be a mapping''))"

definition extract_promise :: "ExtractorSettings \<Rightarrow> string \<Rightarrow> PromiseExtraction result" where
  "extract_promise x text =
     (if strip text = [] then Inl (ValueError ''customer response text is required'')
      else if int (length text) > xs_max_input_characters x then extraction_fallback ''INPUT_LIMIT_EXCEEDED''
      else case xs_provider x of
        None \<Rightarrow> extraction_fallback ''MODEL_UNAVAILABLE''
      | Some p \<Rightarrow>
          (case bindR (xp_extract p text (xs_max_output_tokens x)) (\<lambda>payload.
                  validated_extraction payload (xp_model_version p)) of
             Inr e \<Rightarrow> Inr e
           | Inl _ \<Rightarrow> extraction_fallback ''MALFORMED_OR_UNAVAILABLE_MODEL''))"

section \<open>Receivables\<close>

text \<open>\<open>_stable_token\<close>.\<close>

definition stable_token :: "string list \<Rightarrow> string" where
  "stable_token parts = take 32 (sha256_hex (join '':'' parts))"

text \<open>The keyword arguments of \<open>ingest_overdue_invoice\<close>.\<close>

record OverdueNotice =
  on_merchant_id :: string
  on_source_event_id :: string
  on_correlation_id :: string
  on_invoice_id :: string
  on_customer_id :: string
  on_amount_minor :: int
  on_outstanding_amount_minor :: int
  on_currency :: string
  on_due_at :: datetime
  on_occurred_at :: datetime
  on_received_at :: datetime

definition overdue_invoice_of :: "OverdueNotice \<Rightarrow> OverdueInvoice" where
  "overdue_invoice_of q =
     (let token = stable_token [on_merchant_id q, on_source_event_id q] in
      \<lparr>oi_merchant_event_id = ''merchant_event_'' @ token, oi_normalized_event_id = ''event_'' @ token,
       oi_merchant_id = on_merchant_id q, oi_source_event_id = on_source_event_id q,
       oi_correlation_id = on_correlation_id q, oi_invoice_id = on_invoice_id q,
       oi_customer_id = on_customer_id q, oi_amount_minor = on_amount_minor q,
       oi_outstanding_amount_minor = on_outstanding_amount_minor q, oi_currency = on_currency q,
       oi_due_at = on_due_at q, oi_occurred_at = on_occurred_at q, oi_received_at = on_received_at q\<rparr>)"

text \<open>\<open>db_now\<close> is the server's \<open>now()\<close>, the default of the invoice's \<open>updated_at\<close>.\<close>

definition ingest_overdue_invoice ::
    "RecoverySettings \<Rightarrow> intelligence \<Rightarrow> (string \<Rightarrow> zone option) \<Rightarrow> (nat \<Rightarrow> string) \<Rightarrow> datetime \<Rightarrow> datetime \<Rightarrow>
     OverdueNotice \<Rightarrow> ('a playbook_db_scheme, RecoveryServiceResult) tx" where
  "ingest_overdue_invoice settings recommend zones uuids now db_now q =
     bindT (record_overdue_invoice db_now (overdue_invoice_of q)) (\<lambda>normalized.
     process_event settings recommend zones uuids now (on_merchant_id q) (ev_event_id normalized))"

text \<open>The keyword arguments of \<open>record_customer_response\<close>.\<close>

record CustomerMessage =
  cm_merchant_id :: string
  cm_source_response_id :: string
  cm_invoice_id :: string
  cm_body :: string
  cm_received_at :: "datetime option"

record CustomerResponseResult =
  sp_response_id :: string
  sp_case_id :: string
  sp_intent :: PromiseIntent
  sp_disposition :: string
  sp_promise_id :: "string option"
  sp_escalation_id :: "string option"

definition response_token :: "CustomerMessage \<Rightarrow> string" where
  "response_token q = stable_token [cm_merchant_id q, cm_source_response_id q]"

definition response_request ::
    "CustomerMessage \<Rightarrow> datetime \<Rightarrow> InvoiceRow \<Rightarrow> string \<Rightarrow> PromiseExtraction \<Rightarrow> CustomerResponseRequest" where
  "response_request q t v case_id x =
     \<lparr>xr_response_id = ''response_'' @ response_token q, xr_merchant_id = cm_merchant_id q,
      xr_source_response_id = cm_source_response_id q, xr_case_id = case_id, xr_invoice_id = cm_invoice_id q,
      xr_customer_id = iv_customer_id v, xr_body = cm_body q, xr_extraction = x, xr_received_at = t\<rparr>"

definition promise_request ::
    "CustomerMessage \<Rightarrow> datetime \<Rightarrow> InvoiceRow \<Rightarrow> string \<Rightarrow> PromiseExtraction \<Rightarrow> PromiseRequest" where
  "promise_request q t v case_id x =
     \<lparr>pq_promise_id = ''promise_'' @ response_token q, pq_merchant_id = cm_merchant_id q, pq_case_id = case_id,
      pq_invoice_id = cm_invoice_id q, pq_customer_id = iv_customer_id v,
      pq_outstanding_amount_minor = iv_outstanding_amount_minor v, pq_invoice_currency = iv_currency v,
      pq_extraction = x, pq_source_response_id = cm_source_response_id q, pq_received_at = t,
      pq_reminder_lead = hours 24\<rparr>"

definition response_escalation :: "CustomerMessage \<Rightarrow> datetime \<Rightarrow> string \<Rightarrow> string \<Rightarrow> Escalation" where
  "response_escalation q t case_id response_id =
     \<lparr>ex_escalation_id = ''escalation_'' @ response_token q, ex_merchant_id = cm_merchant_id q,
      ex_case_id = case_id, ex_invoice_id = cm_invoice_id q, ex_customer_response_id = response_id,
      ex_occurred_at = t\<rparr>"

definition escalate_response ::
    "PromiseIntent \<Rightarrow> Escalation \<Rightarrow> ('a playbook_db_scheme, string) tx" where
  "escalate_response intent q =
     (if intent = DISPUTE
      then seqT (freeze_dispute_and_escalate q) (returnT ''AUTOMATION_FROZEN_HUMAN_ESCALATION'')
      else if intent = ALREADY_PAID
      then seqT (freeze_already_paid_claim_and_escalate q) (returnT ''AUTHORITATIVE_VERIFICATION_REQUIRED'')
      else seqT (store_receivable_escalation q ''CUSTOMER_RESPONSE_REQUIRES_REVIEW'')
             (returnT ''HUMAN_REVIEW_REQUIRED''))"

text \<open>What follows a response that was not stored before.\<close>

definition act_on_response ::
    "CustomerMessage \<Rightarrow> datetime \<Rightarrow> InvoiceRow \<Rightarrow> string \<Rightarrow> PromiseExtraction \<Rightarrow> string \<Rightarrow>
     ('a playbook_db_scheme, CustomerResponseResult) tx" where
  "act_on_response q t v case_id x response_id =
     (if px_intent x = PROMISE_TO_PAY then
        bindT (liftR (create_promise (promise_request q t v case_id x))) (\<lambda>promise.
        seqT (store_promise promise response_id)
        (returnT \<lparr>sp_response_id = response_id, sp_case_id = case_id, sp_intent = px_intent x,
           sp_disposition = ''PROMISE_SCHEDULED'', sp_promise_id = Some (pp_promise_id promise),
           sp_escalation_id = None\<rparr>))
      else
        (let e = response_escalation q t case_id response_id in
         bindT (escalate_response (px_intent x) e) (\<lambda>d.
         returnT \<lparr>sp_response_id = response_id, sp_case_id = case_id, sp_intent = px_intent x,
           sp_disposition = d, sp_promise_id = None, sp_escalation_id = Some (ex_escalation_id e)\<rparr>)))"

definition record_customer_response ::
    "ExtractorSettings \<Rightarrow> datetime \<Rightarrow> CustomerMessage \<Rightarrow> ('a playbook_db_scheme, CustomerResponseResult) tx" where
  "record_customer_response extractor now q =
     bindT (liftR (evidence_utc (case cm_received_at q of Some t \<Rightarrow> t | None \<Rightarrow> now))) (\<lambda>t.
     bindT (bindT (invoice (cm_merchant_id q) (cm_invoice_id q))
       (requireT (LookupError ''tenant-scoped invoice does not exist''))) (\<lambda>v.
     bindT (bindT (find_active_case (cm_merchant_id q) B2B_PROMISE_TO_PAY INVOICE (cm_invoice_id q))
       (requireT (LookupError ''invoice has no active recovery case''))) (\<lambda>r.
     bindT (liftR (extract_promise extractor (cm_body q))) (\<lambda>x.
     let case_id = rc_case_id (cw_case r) in
     bindT (store_customer_response (response_request q t v case_id x)) (\<lambda>(response, created).
     if \<not> created
     then returnT \<lparr>sp_response_id = rp_id response, sp_case_id = case_id, sp_intent = rp_intent response,
            sp_disposition = ''DUPLICATE_RESPONSE'', sp_promise_id = None, sp_escalation_id = None\<rparr>
     else act_on_response q t v case_id x (rp_id response))))))"


section \<open>Reminders of promises\<close>

record PromiseMaintenanceResult =
  pm_promise_id :: string
  pm_disposition :: string
  pm_action_id :: "string option"
  pm_escalation_id :: "string option"

text \<open>
  \<open>_persist_transition\<close>. The repository flushes the session when it has added the transition, so
  the changed promises reach their table here.
\<close>

definition persist_transition ::
    "(nat \<Rightarrow> string) \<Rightarrow> ServiceTransition \<Rightarrow> RecoveryCase \<Rightarrow> ('a playbook_db_scheme, RecoveryCase) tx" where
  "persist_transition uuids q c =
     bindT (liftR (transition_case c (service_request c q))) (\<lambda>(updated, transition).
     seqT (apply_transition uuids updated transition None)
     (seqT flush_promises (returnT updated)))"

definition playbook_move ::
    "CaseState \<Rightarrow> string \<Rightarrow> PromiseRow \<Rightarrow> MerchantPolicySnapshot \<Rightarrow> datetime \<Rightarrow> ServiceTransition" where
  "playbook_move to_state reason_code promise policy evaluated_at =
     new_transition to_state ''RECEIVABLES_PLAYBOOK'' reason_code (''promise:'' @ pr_id promise) policy evaluated_at"

definition reminder_candidate :: "PromiseRow \<Rightarrow> CandidateAction" where
  "reminder_candidate p =
     \<lparr>ca_action_type = SCHEDULE_PROMISE_REMINDER, ca_recovery_probability_basis_points = 7000,
      ca_expected_net_recovery_minor = pr_amount_minor p * 6000 div 10000, ca_rank = 1,
      ca_target = pr_invoice_id p, ca_logical_attempt = 1, ca_channel = Some EMAIL, ca_action_cost_minor = 0,
      ca_risk_penalty_minor = 0, ca_customer_friction_penalty_minor = 0\<rparr>"

definition no_reminder_candidate :: "PromiseRow \<Rightarrow> CandidateAction" where
  "no_reminder_candidate p =
     \<lparr>ca_action_type = ActionType.NO_ACTION, ca_recovery_probability_basis_points = 0,
      ca_expected_net_recovery_minor = 0, ca_rank = 2, ca_target = pr_invoice_id p, ca_logical_attempt = 1,
      ca_channel = None, ca_action_cost_minor = 0, ca_risk_penalty_minor = 0,
      ca_customer_friction_penalty_minor = 0\<rparr>"

definition reminder_input ::
    "RecoveryCase \<Rightarrow> PromiseRow \<Rightarrow> datetime \<Rightarrow> CandidateAction list \<Rightarrow>
     (ContactChannel \<times> ConsentState) list \<times> ContactChannel set \<Rightarrow> IncidentConstraint list \<Rightarrow> PolicyEvaluationInput" where
  "reminder_input c p evaluated_at candidates consent incidents =
     \<lparr>pe_case_id = rc_case_id c, pe_amount_minor = pr_amount_minor p, pe_currency = pr_currency p,
      pe_confidence_basis_points = pr_extraction_confidence_basis_points p,
      pe_retry_count = rc_retry_count c, pe_contact_count = rc_contact_count c,
      pe_evaluated_at = evaluated_at, pe_candidates = candidates,
      pe_evidence_references = [pr_customer_response_id p], pe_consent_by_channel = fst consent,
      pe_opted_out_channels = snd consent, pe_incidents = incidents, pe_already_paid = False,
      pe_disputed = False, pe_cancelled = False, pe_terminal = False, pe_diagnosis_defer_until = None,
      pe_approval = None, pe_unknown_equivalent_action = False, pe_customer_contact_in_progress = False,
      pe_customer_identity_resolved = True, pe_active_promise_to_pay = True,
      pe_promise_due_at = Some (pr_promised_for p)\<rparr>"

text \<open>What the policy is asked about a due promise, and what it answers.\<close>

record ReminderDecision =
  rm_checking :: RecoveryCase
  rm_candidates :: "CandidateAction list"
  rm_decision :: PolicyDecision

definition decide_reminder ::
    "(string \<Rightarrow> zone option) \<Rightarrow> (nat \<Rightarrow> string) \<Rightarrow> datetime \<Rightarrow> PromiseRow \<Rightarrow> MerchantPolicySnapshot \<Rightarrow> RecoveryCase \<Rightarrow>
     ('a playbook_db_scheme, ReminderDecision) tx" where
  "decide_reminder zones uuids evaluated_at p policy c =
     bindT (persist_transition uuids
       (playbook_move POLICY_CHECK ''PROMISE_REMINDER_POLICY_CHECK'' p policy evaluated_at) c) (\<lambda>checking.
     bindT (liftR (post_init_candidate (reminder_candidate p))) (\<lambda>candidate.
     bindT (liftR (post_init_candidate (no_reminder_candidate p))) (\<lambda>no_action.
     let candidates = [candidate, no_action] in
     bindT (consent_facts (pr_merchant_id p) (Some (pr_customer_id p))) (\<lambda>consent.
     bindT (active_incidents (pr_merchant_id p) evaluated_at (Some (rc_case_id checking)) (rc_diagnosis checking)) (\<lambda>incidents.
     bindT (liftR (bindR (post_init_evaluation (reminder_input checking p evaluated_at candidates consent incidents))
       (evaluate_policy zones policy))) (\<lambda>decision.
     returnT \<lparr>rm_checking = checking, rm_candidates = candidates, rm_decision = decision\<rparr>))))))"

definition reminder_transition ::
    "PolicyDecision \<Rightarrow> PromiseRow \<Rightarrow> MerchantPolicySnapshot \<Rightarrow> datetime \<Rightarrow> ServiceTransition" where
  "reminder_transition decision p policy evaluated_at =
     (let reason = last (pd_reason_codes decision) in
      (playbook_move (pd_resulting_state decision) reason p policy evaluated_at)
      \<lparr>sv_terminal_reason := (if pd_result decision = PolicyResult.STOP then Some reason else None),
       sv_next_evaluation_at := pd_next_evaluation_at decision\<rparr>)"

definition reminder_receipt_id :: "PromiseRow \<Rightarrow> datetime \<Rightarrow> string" where
  "reminder_receipt_id p evaluated_at =
     ''receipt_'' @ stable_token [pr_merchant_id p, pr_id p, isoformat evaluated_at]"

definition reminder_action :: "PromiseRow \<Rightarrow> string \<Rightarrow> datetime \<Rightarrow> RecoveryAction result" where
  "reminder_action p case_id evaluated_at =
     bindR (action_idempotency_key
       \<lparr>ai_merchant_id = pr_merchant_id p, ai_case_id = case_id, ai_action_type = SCHEDULE_PROMISE_REMINDER,
        ai_target_type = INVOICE, ai_target_id = pr_invoice_id p, ai_logical_attempt = 1\<rparr>) (\<lambda>key.
     post_init_action
       \<lparr>ra_action_id = ''action_'' @ take 32 (after_last CHR '':'' key), ra_case_id = case_id,
        ra_merchant_id = pr_merchant_id p, ra_decision_receipt_id = reminder_receipt_id p evaluated_at,
        ra_action_type = SCHEDULE_PROMISE_REMINDER, ra_target_type = INVOICE, ra_target_id = pr_invoice_id p,
        ra_logical_attempt = 1, ra_idempotency_key = key, ra_status = PENDING,
        ra_parameters = [(''amount_minor'', PInt (pr_amount_minor p)), (''currency'', PStr (pr_currency p)),
          (''provider_mode'', PStr ''TEST''), (''channel'', PStr ''SIMULATED_EMAIL''),
          (''promise_id'', PStr (pr_id p))],
        ra_authorized_at = evaluated_at, ra_execute_after = evaluated_at, ra_created_at = evaluated_at,
        ra_updated_at = None, ra_schema_version = SCHEMA_VERSION\<rparr>)"

definition reminder_receipt ::
    "PromiseRow \<Rightarrow> string \<Rightarrow> MerchantPolicySnapshot \<Rightarrow> datetime \<Rightarrow> ReminderDecision \<Rightarrow> CaseState \<Rightarrow>
     RecoveryAction option \<Rightarrow> DecisionReceipt" where
  "reminder_receipt p case_id policy evaluated_at d resulting_state action =
     (let decision = rm_decision d in
      \<lparr>dr_receipt_id = reminder_receipt_id p evaluated_at, dr_case_id = case_id,
       dr_merchant_id = pr_merchant_id p, dr_correlation_id = ''promise:'' @ pr_id p,
       dr_evidence_references = [pr_customer_response_id p], dr_candidate_actions = rm_candidates d,
       dr_selected_action_type = ca_action_type (pd_selected_action decision),
       dr_explanation = ''Deterministic promise reminder policy evaluation.'',
       dr_policy_result = pd_result decision, dr_policy_reason_codes = pd_reason_codes decision,
       dr_versions = \<lparr>vb_policy = mp_version policy, vb_features = ''phase6-promise-reminder-1.0'',
         vb_application = ''phase6-playbooks-1.0'', vb_model = ''NOT_APPLICABLE'',
         vb_prompt = ''NOT_APPLICABLE'', vb_schema = SCHEMA_VERSION\<rparr>,
       dr_created_at = evaluated_at, dr_resulting_state = resulting_state, dr_human_review_id = None,
       dr_resulting_action_id = map_option ra_action_id action, dr_audit_entry_id = None,
       dr_model_prediction_ids = [], dr_scoring_model_version = ''NOT_APPLICABLE'',
       dr_scoring_feature_version = ''NOT_APPLICABLE'', dr_scoring_economics_version = ''NOT_APPLICABLE'',
       dr_scoring_artifact_classification = ''NOT_APPLICABLE'', dr_scoring_fallback_reason = None,
       dr_schema_version = SCHEMA_VERSION\<rparr>)"

definition maintenance_result :: "PromiseRow \<Rightarrow> string \<Rightarrow> PromiseMaintenanceResult" where
  "maintenance_result p result_code =
     \<lparr>pm_promise_id = pr_id p, pm_disposition = result_code, pm_action_id = None, pm_escalation_id = None\<rparr>"

definition authorize_reminder ::
    "(nat \<Rightarrow> string) \<Rightarrow> PromiseRow \<Rightarrow> MerchantPolicySnapshot \<Rightarrow> datetime \<Rightarrow> RecoveryAction \<Rightarrow>
     ('a playbook_db_scheme, PromiseMaintenanceResult) tx" where
  "authorize_reminder uuids p policy evaluated_at action =
     seqT (store_action uuids action (mp_version policy) (''promise:'' @ pr_id p) 3 (plus_delta evaluated_at (hours 1)))
     (seqT (mark_promise_reminder_scheduled (pr_merchant_id p) (pr_id p) (ra_action_id action) evaluated_at)
     (returnT ((maintenance_result p ''REMINDER_AUTHORIZED'')\<lparr>pm_action_id := Some (ra_action_id action)\<rparr>)))"

definition postpone_reminder ::
    "PromiseRow \<Rightarrow> PolicyDecision \<Rightarrow> ('a playbook_db_scheme, PromiseMaintenanceResult) tx" where
  "postpone_reminder p decision =
     seqT (case pd_next_evaluation_at decision of
         None \<Rightarrow> returnT ()
       | Some t \<Rightarrow> reschedule_promise_reminder (pr_merchant_id p) (pr_id p) t)
     (returnT (maintenance_result p (last (pd_reason_codes decision))))"

definition conclude_reminder ::
    "(nat \<Rightarrow> string) \<Rightarrow> datetime \<Rightarrow> PromiseRow \<Rightarrow> MerchantPolicySnapshot \<Rightarrow> string \<Rightarrow> ReminderDecision \<Rightarrow>
     ('a playbook_db_scheme, PromiseMaintenanceResult) tx" where
  "conclude_reminder uuids evaluated_at p policy case_id d =
     (let decision = rm_decision d in
      bindT (persist_transition uuids (reminder_transition decision p policy evaluated_at) (rm_checking d)) (\<lambda>decided.
      bindT (liftR (if pd_result decision = PROCEED
          then bindR (reminder_action p case_id evaluated_at) (\<lambda>a. Inr (Some a)) else Inr None)) (\<lambda>action.
      bindT (liftR (post_init_receipt (reminder_receipt p case_id policy evaluated_at d (rc_state decided) action))) (\<lambda>receipt.
      seqT (store_receipt uuids receipt)
      (case action of
         Some a \<Rightarrow> authorize_reminder uuids p policy evaluated_at a
       | None \<Rightarrow> postpone_reminder p decision)))))"

definition schedule_reminder ::
    "(string \<Rightarrow> zone option) \<Rightarrow> (nat \<Rightarrow> string) \<Rightarrow> datetime \<Rightarrow> PromiseRow \<Rightarrow>
     ('a playbook_db_scheme, PromiseMaintenanceResult) tx" where
  "schedule_reminder zones uuids evaluated_at p =
     bindT (bindT (get_case (pr_merchant_id p) (pr_recovery_case_id p))
       (requireT (LookupError ''promise recovery case does not exist''))) (\<lambda>c0.
     bindT (effective_policy zones (pr_merchant_id p) evaluated_at) (\<lambda>policy.
     bindT (if rc_state c0 \<in> {DEFERRED, VERIFYING}
            then persist_transition uuids
              (playbook_move DECISION_PENDING ''PROMISE_REMINDER_DUE'' p policy evaluated_at) c0
            else returnT c0) (\<lambda>c.
     if rc_state c \<noteq> DECISION_PENDING
     then returnT (maintenance_result p ''CASE_NOT_ELIGIBLE_FOR_REMINDER'')
     else bindT (decide_reminder zones uuids evaluated_at p policy c)
            (conclude_reminder uuids evaluated_at p policy (rc_case_id c)))))"

definition schedule_due_promise_reminders ::
    "(string \<Rightarrow> zone option) \<Rightarrow> (nat \<Rightarrow> string) \<Rightarrow> datetime \<Rightarrow> int \<Rightarrow>
     ('a playbook_db_scheme, PromiseMaintenanceResult list) tx" where
  "schedule_due_promise_reminders zones uuids due_at limit =
     bindT (liftR (evidence_utc due_at)) (\<lambda>evaluated_at.
     bindT (due_promises evaluated_at limit False) (mapT (schedule_reminder zones uuids evaluated_at)))"


section \<open>Broken promises\<close>

definition broken_escalation_id :: "PromiseRow \<Rightarrow> string" where
  "broken_escalation_id p = ''escalation_'' @ stable_token [pr_merchant_id p, pr_id p, ''broken'']"

definition settle_overdue_promise ::
    "datetime \<Rightarrow> PromiseRow \<Rightarrow> ('a playbook_db_scheme, PromiseMaintenanceResult) tx" where
  "settle_overdue_promise t p =
     bindT (bindT (invoice (pr_merchant_id p) (pr_invoice_id p))
       (requireT (LookupError ''promise invoice does not exist''))) (\<lambda>v.
     if iv_status v = ''PAID'' then
       seqT (change_promise (p\<lparr>pr_status := ''FULFILLED'', pr_fulfilled_at := Some t, pr_updated_at := t\<rparr>))
         (returnT (maintenance_result p ''PROMISE_FULFILLED''))
     else
       seqT (mark_broken_promise_and_escalate p (broken_escalation_id p) t)
         (returnT ((maintenance_result p ''BROKEN_PROMISE_ESCALATED'')
            \<lparr>pm_escalation_id := Some (broken_escalation_id p)\<rparr>)))"

definition escalate_broken_promises ::
    "datetime \<Rightarrow> int \<Rightarrow> ('a playbook_db_scheme, PromiseMaintenanceResult list) tx" where
  "escalate_broken_promises due_at limit =
     bindT (liftR (evidence_utc due_at)) (\<lambda>t.
     bindT (due_promises t limit True) (mapT (settle_overdue_promise t)))"


section \<open>Payment degradation\<close>

record PortfolioMaintenanceResult =
  pf_merchants_evaluated :: int
  pf_assessments_applied :: int
  pf_incidents_resolved :: int

definition incident_id_for :: "DegradationAssessment \<Rightarrow> string" where
  "incident_id_for a = ''incident_'' @ stable_token
     [da_merchant_id a, da_payment_method a, da_issuer_family a, da_error_family a, isoformat (da_evaluated_at a)]"

definition apply_assessment ::
    "DegradationPolicy \<Rightarrow> DegradationAssessment \<Rightarrow> ('a playbook_db_scheme, IncidentRow option) tx" where
  "apply_assessment policy a = apply_degradation_assessment a policy (incident_id_for a)"

definition observe_and_evaluate ::
    "DegradationPolicy \<Rightarrow> PaymentOutcomeObservation \<Rightarrow> string \<Rightarrow> datetime \<Rightarrow>
     ('a playbook_db_scheme, DegradationAssessment list) tx" where
  "observe_and_evaluate policy observation source_event_id evaluated_at =
     bindT (liftR (evidence_utc evaluated_at)) (\<lambda>evaluated.
     seqT (lock_merchant (po_merchant_id observation))
     (bindT (record_payment_observation observation source_event_id) (\<lambda>created.
      bindT (payment_observations (po_merchant_id observation)
        (plus_delta evaluated (- dp_baseline_window policy)) evaluated) (\<lambda>observations.
      bindT (liftR (assess_payment_degradation observations evaluated policy)) (\<lambda>assessments.
      if \<not> created then returnT assessments
      else seqT (mapT (apply_assessment policy) assessments) (returnT assessments))))))"

text \<open>The assessment of a dimension without failures left: nothing observed, not degraded.\<close>

definition unknown_or :: "string option \<Rightarrow> string" where
  "unknown_or v = or_default v ''UNKNOWN''"

definition quiet_assessment :: "DegradationPolicy \<Rightarrow> string \<Rightarrow> datetime \<Rightarrow> IncidentRow \<Rightarrow> DegradationAssessment" where
  "quiet_assessment policy merchant_id evaluated i =
     \<lparr>da_merchant_id = merchant_id, da_payment_method = unknown_or (in_payment_method i),
      da_issuer_family = unknown_or (in_issuer_family i), da_error_family = unknown_or (in_error_family i),
      da_baseline_total = 0, da_baseline_failures = 0, da_current_total = 0, da_current_failures = 0,
      da_baseline_failure_rate_basis_points = 0, da_current_failure_rate_basis_points = 0,
      da_failure_rate_increase_basis_points = 0, da_failure_rate_ratio_basis_points = 10000,
      da_degraded = False, da_evaluated_at = evaluated, da_policy_version = dp_version policy\<rparr>"

definition assessment_dimension :: "DegradationAssessment \<Rightarrow> string \<times> string \<times> string" where
  "assessment_dimension a = (da_payment_method a, da_issuer_family a, da_error_family a)"

definition portfolio_assessments ::
    "DegradationPolicy \<Rightarrow> string \<Rightarrow> datetime \<Rightarrow> DegradationAssessment list \<Rightarrow> IncidentRow list \<Rightarrow>
     DegradationAssessment list" where
  "portfolio_assessments policy merchant_id evaluated assessed incidents =
     assessed @ filter (\<lambda>a. assessment_dimension a \<notin> assessment_dimension ` set assessed)
       (map (quiet_assessment policy merchant_id evaluated) incidents)"

definition maintain_portfolio ::
    "DegradationPolicy \<Rightarrow> datetime \<Rightarrow> string \<Rightarrow> ('a playbook_db_scheme, IncidentRow option list) tx" where
  "maintain_portfolio policy evaluated merchant_id =
     seqT (lock_merchant merchant_id)
     (bindT (payment_observations merchant_id (plus_delta evaluated (- dp_baseline_window policy)) evaluated) (\<lambda>observations.
      bindT (liftR (assess_payment_degradation observations evaluated policy)) (\<lambda>assessed.
      bindT (active_incidents_for_maintenance merchant_id) (\<lambda>incidents.
      mapT (apply_assessment policy) (portfolio_assessments policy merchant_id evaluated assessed incidents)))))"

definition maintain_portfolios ::
    "DegradationPolicy \<Rightarrow> datetime \<Rightarrow> int \<Rightarrow> ('a playbook_db_scheme, PortfolioMaintenanceResult) tx" where
  "maintain_portfolios policy evaluated_at merchant_limit =
     bindT (liftR (evidence_utc evaluated_at)) (\<lambda>evaluated.
     bindT (portfolio_merchant_ids (plus_delta evaluated (- dp_baseline_window policy)) merchant_limit) (\<lambda>merchants.
     bindT (mapT (maintain_portfolio policy evaluated) merchants) (\<lambda>outcomes.
     let applied = concat (map (List.map_filter id) outcomes) in
     returnT \<lparr>pf_merchants_evaluated = int (length merchants), pf_assessments_applied = int (length applied),
       pf_incidents_resolved = int (length (filter (\<lambda>i. in_status i = INCIDENT_RESOLVED) applied))\<rparr>)))"

end
