(* ===== verification/Playbook_Books.thy ===== *)
theory Playbook_Books
  imports Playbook_Service Recovery_Books
begin

text \<open>
  The playbooks share the database with the recovery and the execution service. Their steps keep
  the invariant of the outbox, the case store and the ledger, and leave the books of the recovered
  money as they are: they add cases' incidents, transitions, receipts and authorised reminders, but
  never an outcome.
\<close>


section \<open>Incidents of cases\<close>

text \<open>The constraints of the case table do not read the incident or the wake-up of a case.\<close>

definition without_incident :: "CaseRow \<Rightarrow> CaseRow" where
  "without_incident r = r\<lparr>cw_case := (cw_case r)\<lparr>rc_active_incident_id := None, rc_next_evaluation_at := None\<rparr>\<rparr>"

lemma without_incident_fields [simp]:
  "row_key (without_incident r) = row_key r" "rc_state (cw_case (without_incident r)) = rc_state (cw_case r)"
  "rc_state_version (cw_case (without_incident r)) = rc_state_version (cw_case r)"
  "active_subject (without_incident r) = active_subject r" "episode (without_incident r) = episode r"
  "cw_recovery_episode_key (without_incident r) = cw_recovery_episode_key r"
  "case_row_ok (without_incident r) = case_row_ok r"
  by (simp_all add: without_incident_def active_subject_def episode_def case_row_ok_def Let_def)

lemma unique_index_map: "(\<And>r. covers (g r) = covers r \<and> key (g r) = key r) \<Longrightarrow>
  unique_index covers key (map g rows) = unique_index covers key rows"
  by (simp add: unique_index_def filter_map o_def)

lemma cases_ok_without_incident: "cases_ok (map without_incident rows) = cases_ok rows"
  by (simp add: cases_ok_def o_def unique_index_map)

text \<open>A step that changes at most the incidents and the wake-ups of cases.\<close>

definition incident_step :: "'a case_db_scheme \<Rightarrow> 'a case_db_scheme \<Rightarrow> bool" where
  "incident_step s s' \<longleftrightarrow>
     map without_incident (db_cases s') = map without_incident (db_cases s)
     \<and> db_transitions s' = db_transitions s \<and> db_audit_entries s' = db_audit_entries s
     \<and> db_audit_heads s' = db_audit_heads s"

lemma incident_step_counters: "incident_step s s' \<Longrightarrow> only_counters (db_cases s) (db_cases s')"
proof -
  let ?f = "\<lambda>r. (row_key r, rc_state (cw_case r), rc_state_version (cw_case r))"
  assume "incident_step s s'"
  then have "map ?f (map without_incident (db_cases s')) = map ?f (map without_incident (db_cases s))"
    by (simp only: incident_step_def)
  then show ?thesis by (simp add: only_counters_def o_def)
qed

lemma incident_step_consistent: "incident_step s s' \<Longrightarrow> consistent s \<Longrightarrow> consistent s'"
  using incident_step_counters [of s s'] only_counters_history [of s s']
    cases_ok_without_incident [of "db_cases s"] cases_ok_without_incident [of "db_cases s'"]
  by (auto simp: incident_step_def consistent_def store_ok_def ledger_ok_def own_entries_def)

lemma funds_incident_step:
  assumes "lasting K" "\<And>s. incident_step s (h s) \<and> outbox_tables s (h s)"
  shows "funds.stays K (modifyT h)"
proof (rule funds_of_tables [OF assms(1)])
  show "outbox_tables.stays (modifyT h)" by (rule outbox_tables.stays_modifyT) (simp add: assms(2))
  fix s s' :: "'a action_db_scheme" and x
  assume "modifyT h s = Inr (x, s')" "consistent s"
  then show "consistent s'" using incident_step_consistent assms(2) by (metis modifyT_def prod.inject sum.inject(2))
qed

lemma incident_step_update:
  "(\<And>r. without_incident (f r) = without_incident r) \<Longrightarrow>
     incident_step s (s\<lparr>db_cases := update_where p f (db_cases s)\<rparr>)"
  by (simp add: incident_step_def update_where_def o_def)

lemma funds_set_active_incident: "lasting K \<Longrightarrow> funds.stays K (set_active_incident m c i)"
  unfolding set_active_incident_def
proof (rule funds_incident_step, assumption, rule conjI)
  fix s :: "'a recovery_db_scheme"
  let ?f = "\<lambda>r. r\<lparr>cw_case := (cw_case r)\<lparr>rc_active_incident_id := Some i\<rparr>\<rparr>"
  have "without_incident (?f r) = without_incident r" for r by (simp add: without_incident_def)
  then show "incident_step s (s\<lparr>db_cases := update_where (\<lambda>r. row_key r = (m, c) \<and> rc_active_incident_id (cw_case r) = None)
      ?f (db_cases s)\<rparr>)" by (rule incident_step_update)
qed (simp add: outbox_tables_def)

lemma funds_release_case: "lasting K \<Longrightarrow> funds.stays K (release_case inc t x)"
proof -
  assume K: "lasting K"
  have f: "without_incident (released_case a b r) = without_incident r" for a b r
    by (simp add: without_incident_def released_case_def Let_def)
  show ?thesis
    unfolding release_case_def Let_def
    by (intro funds.stays_intros)
      (rule funds.stays_modifyT, rule fund_step_other, use K in simp_all,
       rule funds_incident_step, rule K, rule conjI, rule incident_step_update, rule f, simp add: outbox_tables_def)
qed

section \<open>The repository of the playbooks\<close>

lemmas playbook_tables = insert_new_def select_one_def record_merchant_event_def upsert_overdue_invoice_def
  record_overdue_invoice_def invoice_def store_customer_response_def update_invoices_def update_promises_def
  store_promise_def store_receivable_escalation_def close_active_promises_def freeze_dispute_and_escalate_def
  freeze_already_paid_claim_and_escalate_def change_promise_def flush_promises_def due_promises_def
  mark_promise_reminder_scheduled_def reschedule_promise_reminder_def mark_broken_promise_and_escalate_def
  record_payment_observation_def payment_observations_def portfolio_merchant_ids_def
  active_incidents_for_maintenance_def active_incident_of_def change_incident_def flush_incidents_def
  flush_invoices_def insert_link_def lock_merchant_def

lemma funds_playbook_tables:
  assumes "lasting K"
  shows "funds.stays K (record_overdue_invoice t q)" "funds.stays K (invoice m i)"
    "funds.stays K (store_customer_response rq)" "funds.stays K (store_promise p ri)"
    "funds.stays K (store_receivable_escalation e reason)" "funds.stays K (freeze_dispute_and_escalate e)"
    "funds.stays K (freeze_already_paid_claim_and_escalate e)" "funds.stays K (change_promise pr)"
    "funds.stays K flush_promises" "funds.stays K (due_promises t n b)"
    "funds.stays K (mark_promise_reminder_scheduled m i a t)" "funds.stays K (reschedule_promise_reminder m i t)"
    "funds.stays K (mark_broken_promise_and_escalate pr i t)" "funds.stays K (record_payment_observation po i)"
    "funds.stays K (payment_observations m t u)" "funds.stays K (portfolio_merchant_ids t n)"
    "funds.stays K (active_incidents_for_maintenance m)" "funds.stays K (active_incident_of m k)"
    "funds.stays K (change_incident ic)" "funds.stays K flush_incidents" "funds.stays K (insert_link l)"
    "funds.stays K (lock_merchant m)"
  unfolding playbook_tables Let_def
  using assms
  by (intro funds.stays_intros funds.stays_modifyT fund_step_other; simp)+

lemma funds_apply_assessment:
  fixes K :: "'a playbook_db_scheme \<Rightarrow> bool"
  assumes K: "lasting K"
  shows "funds.stays K (apply_degradation_assessment a policy i)"
proof -
  have add: "funds.stays K (modifyT (\<lambda>s. s\<lparr>db_incidents := db_incidents s @ [opened_incident a policy i]\<rparr>))"
    by (rule funds.stays_modifyT, rule fund_step_other) (use K in simp_all)
  show ?thesis
    unfolding apply_degradation_assessment_def attach_affected_cases_def resolve_incident_def Let_def
    by (intro funds.stays_intros funds_playbook_tables funds_set_active_incident funds_release_case K add)
qed


section \<open>The services of the playbooks\<close>

lemma persist_transition_parts: "persist_transition uuids q c s = Inr (u, s') \<Longrightarrow>
  \<exists>v t r s1. transition_case c (service_request c q) = Inr (u, t)
    \<and> apply_transition uuids u t None s = Inr (r, s1) \<and> flush_promises s1 = Inr (v, s')"
  by (auto simp: persist_transition_def result_simps split: prod.splits)

lemma funds_persist_transition: "lasting K \<Longrightarrow> funds.stays K (persist_transition uuids q c)"
proof (rule funds.staysI)
  fix s s' :: "'a playbook_db_scheme" and u
  assume K: "lasting K" and "persist_transition uuids q c s = Inr (u, s')"
  then obtain v t r s1 where t: "transition_case c (service_request c q) = Inr (u, t)"
    and a: "apply_transition uuids u t None s = Inr (r, s1)" and f: "flush_promises s1 = Inr (v, s')"
    using persist_transition_parts by blast
  have "service_transition uuids (q\<lparr>sv_diagnosis := None, sv_increment_retry := False, sv_latest_event := None\<rparr>) c s = Inr (u, s1)"
    using t a by (simp add: service_transition_def service_request_def run_tx)
  from funds.staysD [OF funds_case_writes(1) [OF K] this] funds.staysD [OF funds_playbook_tables(9) [OF K] f]
  show "fund_step K s s'" by (rule funds.step_trans)
qed

lemma funds_find_active_case: "funds.stays (K :: 'a recovery_db_scheme \<Rightarrow> bool) (find_active_case m w st i)"
  by (rule funds.stays_read, erule recovery_read)

lemmas funds_playbook = funds_recovery funds_find_active_case funds_playbook_tables funds_persist_transition funds_apply_assessment

lemma funds_playbook_services:
  assumes "lasting K"
  shows "funds.stays K (ingest_overdue_invoice settings advice zones uuids now db_now on)"
    "funds.stays K (record_customer_response extractor now cm)"
    "funds.stays K (schedule_due_promise_reminders zones uuids now n)"
    "funds.stays K (escalate_broken_promises now n)"
    "funds.stays K (observe_and_evaluate policy po w now)" "funds.stays K (maintain_portfolios policy now n)"
  unfolding ingest_overdue_invoice_def record_customer_response_def act_on_response_def escalate_response_def
    schedule_due_promise_reminders_def schedule_reminder_def decide_reminder_def conclude_reminder_def
    authorize_reminder_def postpone_reminder_def escalate_broken_promises_def settle_overdue_promise_def
    observe_and_evaluate_def maintain_portfolios_def maintain_portfolio_def apply_assessment_def Let_def
  using assms
  by (intro funds_playbook funds_process_event; assumption)+

end
