(* ===== verification/Worker.thy ===== *)
theory Worker
  imports Playbook_Service
begin

text \<open>
  The tasks of the worker (\<open>revenueguard_worker/tasks.py\<close> and \<open>playbook_tasks.py\<close>). A task is a
  sequence of database transactions with calls of the broker or of a provider between them: what
  a transaction has committed stays when a later step raises. The broker, the providers, the JSON
  decoder, the advisor, the random identifiers and the readings of the clock are parameters; the
  \<open>n\<close>-th reading of the clock in a task is \<open>clock n\<close>. The Celery wiring is not modelled.
\<close>


section \<open>Tasks\<close>

type_synonym ('s, 'a) task = "'s \<Rightarrow> 'a result \<times> 's"

definition returnJ :: "'a \<Rightarrow> ('s, 'a) task" where
  "returnJ x s = (Inr x, s)"

definition bindJ :: "('s, 'a) task \<Rightarrow> ('a \<Rightarrow> ('s, 'b) task) \<Rightarrow> ('s, 'b) task" where
  "bindJ m f s = (case m s of (Inl e, s') \<Rightarrow> (Inl e, s') | (Inr x, s') \<Rightarrow> f x s')"

text \<open>\<open>async with session_scope(...)\<close>: the transaction is committed or rolled back.\<close>

definition commit :: "('s, 'a) tx \<Rightarrow> ('s, 'a) task" where
  "commit m s = (case m s of Inl e \<Rightarrow> (Inl e, s) | Inr (x, s') \<Rightarrow> (Inr x, s'))"

definition catchJ :: "('s, 'a) task \<Rightarrow> (exn \<Rightarrow> ('s, 'a) task) \<Rightarrow> ('s, 'a) task" where
  "catchJ m handler s = (case m s of (Inl e, s') \<Rightarrow> handler e s' | (Inr x, s') \<Rightarrow> (Inr x, s'))"

fun mapJ :: "('a \<Rightarrow> ('s, 'b) task) \<Rightarrow> 'a list \<Rightarrow> ('s, 'b list) task" where
  "mapJ f [] = returnJ []"
| "mapJ f (x # xs) = bindJ (f x) (\<lambda>y. bindJ (mapJ f xs) (\<lambda>ys. returnJ (y # ys)))"

text \<open>The settings of the worker that the tasks read.\<close>

record WorkerSettings =
  ws_event_dispatch_batch_size :: int
  ws_event_dispatch_stale_after_seconds :: int
  ws_action_provider :: string
  ws_action_dispatch_batch_size :: int
  ws_action_dispatch_stale_after_seconds :: int
  ws_action_reconciliation_batch_size :: int
  ws_action_unknown_ttl_seconds :: int
  ws_deferred_case_reevaluation_batch_size :: int
  ws_portfolio_maintenance_merchant_batch_size :: int
  ws_customer_intervention_maintenance_batch_size :: int
  ws_razorpay_credentials :: bool

definition PROMISE_MAINTENANCE_BATCH_SIZE :: int where
  "PROMISE_MAINTENANCE_BATCH_SIZE = 100"

definition bounded_setting :: "string \<Rightarrow> int \<Rightarrow> int \<Rightarrow> int \<Rightarrow> bool \<times> exn" where
  "bounded_setting name lo hi v = (v < lo \<or> hi < v, ValueError name)"

definition validated_settings :: "WorkerSettings \<Rightarrow> WorkerSettings result" where
  "validated_settings w =
     bindR (raise_first
       [bounded_setting ''event_dispatch_batch_size'' 1 1000 (ws_event_dispatch_batch_size w),
        bounded_setting ''event_dispatch_stale_after_seconds'' 5 3600 (ws_event_dispatch_stale_after_seconds w),
        (ws_action_provider w \<notin> {''SIMULATOR'', ''RAZORPAY_TEST''}, ValueError ''action_provider''),
        bounded_setting ''action_dispatch_batch_size'' 1 1000 (ws_action_dispatch_batch_size w),
        bounded_setting ''action_dispatch_stale_after_seconds'' 5 3600 (ws_action_dispatch_stale_after_seconds w),
        bounded_setting ''action_reconciliation_batch_size'' 1 1000 (ws_action_reconciliation_batch_size w),
        bounded_setting ''action_unknown_ttl_seconds'' 60 604800 (ws_action_unknown_ttl_seconds w),
        bounded_setting ''deferred_case_reevaluation_batch_size'' 1 1000
          (ws_deferred_case_reevaluation_batch_size w),
        bounded_setting ''portfolio_maintenance_merchant_batch_size'' 1 1000
          (ws_portfolio_maintenance_merchant_batch_size w),
        bounded_setting ''customer_intervention_maintenance_batch_size'' 1 1000
          (ws_customer_intervention_maintenance_batch_size w)])
     (\<lambda>_. Inr w)"


section \<open>Reading a stored webhook\<close>

definition provider_entity :: "doc \<Rightarrow> string \<Rightarrow> doc option" where
  "provider_entity document entity_type =
     (case dict_get document ''payload'' of
        PDict payload \<Rightarrow>
          (case dict_get payload entity_type of
             PDict wrapper \<Rightarrow> (case dict_get wrapper ''entity'' of PDict e \<Rightarrow> Some e | _ \<Rightarrow> None)
           | _ \<Rightarrow> None)
      | _ \<Rightarrow> None)"

definition bounded_dimension :: "doc option \<Rightarrow> string \<Rightarrow> string" where
  "bounded_dimension entity key =
     (case entity of
        None \<Rightarrow> ''UNKNOWN''
      | Some e \<Rightarrow> (case dict_get e key of
          PStr v \<Rightarrow> if v = [] then ''UNKNOWN'' else take 128 (str_upper v)
        | _ \<Rightarrow> ''UNKNOWN''))"

definition entity_status :: "doc option \<Rightarrow> string \<Rightarrow> string" where
  "entity_status entity event_type =
     (case entity of
        None \<Rightarrow> event_status event_type
      | Some e \<Rightarrow> (case dict_get e ''status'' of PStr v \<Rightarrow> str_upper v | _ \<Rightarrow> event_status event_type))"

definition provider_timestamp :: "doc option \<Rightarrow> string \<Rightarrow> datetime option" where
  "provider_timestamp entity key =
     (case entity of
        None \<Rightarrow> None
      | Some e \<Rightarrow> (case dict_get e key of PInt n \<Rightarrow> if n < 0 then None else from_timestamp n | _ \<Rightarrow> None))"

text \<open>The timestamps of an event reach the upserts as \<open>to_dict\<close> prints them.\<close>

definition event_datetime :: "datetime \<Rightarrow> datetime" where
  "event_datetime t = whole_seconds t"

definition customer_of_event :: "RevenueRiskEvent \<Rightarrow> datetime \<Rightarrow> string \<Rightarrow> CustomerRow" where
  "customer_of_event e db_now customer_id =
     \<lparr>cu_merchant_id = ev_merchant_id e, cu_id = customer_id, cu_provider_customer_id = Some customer_id,
      cu_provider_updated_at = Some (event_datetime (ev_occurred_at e)), cu_updated_at = db_now\<rparr>"

definition payment_of_event :: "RevenueRiskEvent \<Rightarrow> doc \<Rightarrow> datetime \<Rightarrow> string \<Rightarrow> PaymentRow" where
  "payment_of_event e document db_now payment_id =
     (let payment = provider_entity document ''payment''; occurred_at = event_datetime (ev_occurred_at e) in
      \<lparr>py_merchant_id = ev_merchant_id e, py_id = payment_id, py_provider_payment_id = payment_id,
       py_customer_id = ev_customer_id e, py_order_id = ev_order_id e, py_amount_minor = ev_amount_minor e,
       py_currency = ev_currency e, py_status = entity_status payment (ev_event_type e),
       py_provider_occurred_at =
         (case provider_timestamp payment ''created_at'' of Some t \<Rightarrow> t | None \<Rightarrow> occurred_at),
       py_provider_updated_at = Some occurred_at, py_updated_at = db_now\<rparr>)"

definition subscription_of_event :: "RevenueRiskEvent \<Rightarrow> doc \<Rightarrow> datetime \<Rightarrow> string \<Rightarrow> SubscriptionRow" where
  "subscription_of_event e document db_now subscription_id =
     (let subscription = provider_entity document ''subscription'';
          occurred_at = event_datetime (ev_occurred_at e) in
      \<lparr>su_merchant_id = ev_merchant_id e, su_id = subscription_id, su_provider_subscription_id = subscription_id,
       su_customer_id = ev_customer_id e, su_amount_minor = ev_amount_minor e, su_currency = ev_currency e,
       su_status = entity_status subscription (ev_event_type e),
       su_provider_occurred_at =
         (case provider_timestamp subscription ''created_at'' of Some t \<Rightarrow> t | None \<Rightarrow> occurred_at),
       su_provider_updated_at = Some occurred_at, su_updated_at = db_now\<rparr>)"

definition upsert_provider_entities ::
    "datetime \<Rightarrow> RevenueRiskEvent \<Rightarrow> doc \<Rightarrow> ('a ingest_db_scheme, unit) tx" where
  "upsert_provider_entities db_now e document =
     seqT (case ev_customer_id e of
         None \<Rightarrow> returnT ()
       | Some i \<Rightarrow> seqT (upsert_customer (customer_of_event e db_now i)) (returnT ()))
     (seqT (case ev_payment_id e of
         None \<Rightarrow> returnT ()
       | Some i \<Rightarrow> seqT (upsert_payment (payment_of_event e document db_now i)) (returnT ()))
     (case ev_subscription_id e of
         None \<Rightarrow> returnT ()
       | Some i \<Rightarrow> seqT (upsert_subscription (subscription_of_event e document db_now i)) (returnT ())))"

definition event_correlations :: "RevenueRiskEvent \<Rightarrow> (string \<times> string \<times> string option) list" where
  "event_correlations e =
     concat (map (\<lambda>(identifier, reference_type, internal). case identifier of
         None \<Rightarrow> []
       | Some i \<Rightarrow> [(reference_type, i, if internal then Some i else None)])
       [(ev_customer_id e, ''CUSTOMER'', True), (ev_payment_id e, ''PAYMENT'', True),
        (ev_order_id e, ''ORDER'', False), (ev_subscription_id e, ''SUBSCRIPTION'', True),
        (ev_invoice_id e, ''INVOICE'', False), (ev_payment_link_id e, ''PAYMENT_LINK'', False)])"

definition issuer_family_of :: "doc option \<Rightarrow> string" where
  "issuer_family_of payment =
     (case find (\<lambda>v. v \<noteq> ''UNKNOWN'') (map (bounded_dimension payment) [''bank'', ''issuer'', ''wallet'']) of
        Some v \<Rightarrow> v | None \<Rightarrow> ''UNKNOWN'')"

definition payment_outcome_observation ::
    "RevenueRiskEvent \<Rightarrow> doc \<Rightarrow> PaymentOutcomeObservation option result" where
  "payment_outcome_observation e document =
     (case ev_payment_id e of
        None \<Rightarrow> Inr None
      | Some payment_id \<Rightarrow>
          if ev_event_type e \<notin> set PAYMENT_EVENTS then Inr None
          else
            (let payment = provider_entity document ''payment'';
                 material = join '':'' [ev_merchant_id e, ev_source_event_id e, payment_id] in
             bindR (post_init_observation
               \<lparr>po_observation_id = ''observation_'' @ take 32 (sha256_hex material),
                po_merchant_id = ev_merchant_id e, po_payment_id = payment_id,
                po_succeeded = (ev_event_type e \<in> {''payment.authorized'', ''payment.captured''}),
                po_payment_method = bounded_dimension payment ''method'',
                po_issuer_family = issuer_family_of payment,
                po_error_family = (if ev_event_type e \<noteq> ''payment.failed'' then ''NONE''
                  else failure_category_value (ev_failure_category e)),
                po_occurred_at = ev_occurred_at e\<rparr>) (\<lambda>x. Inr (Some x))))"

section \<open>Processing a webhook\<close>

text \<open>What a task is given from outside: the decoder, the advisor, the zones and the identifiers.\<close>

record WorkerEnvironment =
  we_loads :: decoder
  we_recovery :: RecoverySettings
  we_advice :: intelligence
  we_zones :: "string \<Rightarrow> zone option"
  we_uuids :: "nat \<Rightarrow> string"
  we_settings :: WorkerSettings

text \<open>The arguments of a message of the event queue.\<close>

record EventTask =
  et_dispatch_id :: string
  et_merchant_id :: string
  et_webhook_event_id :: string

definition dispatch_of_task :: "EventTask \<Rightarrow> DispatchRow \<Rightarrow> bool" where
  "dispatch_of_task q d \<longleftrightarrow> dp_id d = et_dispatch_id q \<and> dp_merchant_id d = et_merchant_id q
     \<and> dp_webhook_event_id d = et_webhook_event_id q"

datatype ProcessingStatus = TASK_PROCESSED | TASK_ALREADY_PROCESSED | TASK_DEAD_LETTER | TASK_RETRY_SCHEDULED

definition webhook_request :: "WebhookRow \<Rightarrow> byte list \<Rightarrow> string \<Rightarrow> NormalizeRequest" where
  "webhook_request w body provider_event_id =
     \<lparr>nq_raw_body = body, nq_merchant_id = wh_merchant_id w, nq_provider_event_id = provider_event_id,
      nq_event_id = ''evt_'' @ wh_id w, nq_received_at = wh_received_at w,
      nq_correlation_id = wh_correlation_id w,
      nq_source_payload_reference = ''webhook_events/'' @ provider_event_id, nq_causation_id = None,
      nq_source = (if wh_provider w = ''SIMULATOR'' then EventSource.SYNTHETIC else RAZORPAY)\<rparr>"

text \<open>The verified body and the event it says; a stored valid delivery has a provider event ID.\<close>

definition event_of_webhook :: "decoder \<Rightarrow> WebhookRow option \<Rightarrow> RevenueRiskEvent result" where
  "event_of_webhook loads webhook =
     (case webhook of
        None \<Rightarrow> Inl (LookupError ''verified webhook body is unavailable'')
      | Some w \<Rightarrow> (case wh_raw_body w of
          None \<Rightarrow> Inl (LookupError ''verified webhook body is unavailable'')
        | Some body \<Rightarrow> (case wh_provider_event_id w of
            None \<Rightarrow> Inl (TypeError ''source_event_id must be a string'')
          | Some i \<Rightarrow> normalize_razorpay_event loads (webhook_request w body i))))"

definition document_of_webhook :: "WebhookRow option \<Rightarrow> doc" where
  "document_of_webhook webhook = (case Option.bind webhook wh_raw_payload of None \<Rightarrow> [] | Some d \<Rightarrow> d)"

definition observe_payment ::
    "RevenueRiskEvent \<Rightarrow> PaymentOutcomeObservation option \<Rightarrow> ('a playbook_db_scheme, unit) tx" where
  "observe_payment e observation =
     (case observation of
        None \<Rightarrow> returnT ()
      | Some p \<Rightarrow> seqT (observe_and_evaluate default_degradation_policy p (ev_source_event_id e) (ev_received_at e))
                   (returnT ()))"

definition process_event_of_webhook ::
    "WorkerEnvironment \<Rightarrow> (nat \<Rightarrow> datetime) \<Rightarrow> EventTask \<Rightarrow> RevenueRiskEvent \<Rightarrow> doc \<Rightarrow>
     ('a playbook_db_scheme, ProcessingStatus) tx" where
  "process_event_of_webhook w clock q e document =
     seqT (upsert_provider_entities (clock 0) e document)
     (bindT (persist_normalized_event e (et_webhook_event_id q) (event_correlations e)) (\<lambda>normalized.
      bindT (liftR (payment_outcome_observation e document)) (\<lambda>observation.
      seqT (observe_payment e observation)
      (seqT (process_event (we_recovery w) (we_advice w) (we_zones w) (we_uuids w) (clock 1) (et_merchant_id q)
               (ev_event_id normalized))
      (seqT (verify_signed_event (we_uuids w) e (et_webhook_event_id q))
      (seqT (mark_dispatch_succeeded (et_dispatch_id q) (clock 2)) (returnT TASK_PROCESSED)))))))"

definition process_dispatch ::
    "WorkerEnvironment \<Rightarrow> (nat \<Rightarrow> datetime) \<Rightarrow> EventTask \<Rightarrow> ('a playbook_db_scheme, ProcessingStatus) tx" where
  "process_dispatch w clock q =
     bindT (bindT (getT (\<lambda>s. find (dispatch_of_task q) (db_dispatches s)))
       (requireT (LookupError ''tenant-scoped dispatch does not exist''))) (\<lambda>d.
     if dp_state d = DS_SUCCEEDED then returnT TASK_ALREADY_PROCESSED
     else if dp_state d = DS_DEAD_LETTER then returnT TASK_DEAD_LETTER
     else
       bindT (fetch_webhook_for_processing (et_merchant_id q) (et_webhook_event_id q)) (\<lambda>webhook.
       bindT (liftR (event_of_webhook (we_loads w) webhook)) (\<lambda>e.
       process_event_of_webhook w clock q e (document_of_webhook webhook))))"

text \<open>\<open>repr\<close> of a string, which the message of an unsupported event type quotes.\<close>

definition repr_char :: "char \<Rightarrow> char \<Rightarrow> string" where
  "repr_char quote c =
     (let n = (of_char c :: nat); backslash = CHR 0x5C in
      if c = quote \<or> c = backslash then [backslash, c]
      else if n = 9 then [backslash, CHR ''t''] else if n = 10 then [backslash, CHR ''n'']
      else if n = 13 then [backslash, CHR ''r'']
      else if n < 32 \<or> 127 \<le> n \<and> n \<le> 160 \<or> n = 173
      then [backslash, CHR ''x'', hex_digit (n div 16), hex_digit (n mod 16)]
      else [c])"

definition py_repr :: "string \<Rightarrow> string" where
  "py_repr s =
     (let apostrophe = CHR 0x27; quote = (if apostrophe \<in> set s \<and> CHR 0x22 \<notin> set s then CHR 0x22 else apostrophe) in
      [quote] @ concat (map (repr_char quote) s) @ [quote])"

text \<open>\<open>error.code\<close> and \<open>str(error)\<close> of a \<open>RazorpayEventError\<close>.\<close>

fun razorpay_error :: "exn \<Rightarrow> (string \<times> string) option" where
  "razorpay_error (MalformedRazorpayEventError message) = Some (''MALFORMED_RAZORPAY_EVENT'', message)"
| "razorpay_error (UnsupportedRazorpayEventError event_type) =
     Some (''UNSUPPORTED_RAZORPAY_EVENT'', ''unsupported Razorpay event type: '' @ py_repr event_type)"
| "razorpay_error e = None"

definition processing_failed ::
    "(nat \<Rightarrow> datetime) \<Rightarrow> EventTask \<Rightarrow> exn \<Rightarrow> ('a playbook_db_scheme, ProcessingStatus) task" where
  "processing_failed clock q e =
     (case razorpay_error e of
        Some (code, message) \<Rightarrow>
          bindJ (commit (record_processing_failure (et_dispatch_id q) code (take 500 message) True (clock 3)))
            (\<lambda>_. returnJ TASK_DEAD_LETTER)
      | None \<Rightarrow>
          bindJ (commit (record_processing_failure (et_dispatch_id q) ''TRANSIENT_PROCESSING_ERROR''
              ''transient worker processing failure'' False (clock 3)))
            (\<lambda>state. returnJ (if state = DS_DEAD_LETTER then TASK_DEAD_LETTER else TASK_RETRY_SCHEDULED)))"

definition process_webhook_event ::
    "WorkerEnvironment \<Rightarrow> (nat \<Rightarrow> datetime) \<Rightarrow> EventTask \<Rightarrow> ('a playbook_db_scheme, ProcessingStatus) task" where
  "process_webhook_event w clock q = catchJ (commit (process_dispatch w clock q)) (processing_failed clock q)"


section \<open>Publishing events and actions\<close>

record DispatchResult =
  xr_claimed :: int
  xr_published :: int
  xr_rescheduled :: int

datatype publication = PUBLISHED | RESCHEDULED | SKIPPED

definition count_publications :: "publication \<Rightarrow> publication list \<Rightarrow> int" where
  "count_publications p ps = int (length (filter (\<lambda>x. x = p) ps))"

text \<open>\<open>apply_async\<close> of the broker takes the message of a task ID or raises: \<open>accepts\<close> says which.\<close>

definition event_task_id :: "DispatchRow \<Rightarrow> string" where
  "event_task_id d = ''event-dispatch-'' @ dp_id d @ ''-attempt-'' @ show_int (dp_attempt_count d)"

definition publish_event ::
    "(string \<Rightarrow> bool) \<Rightarrow> (nat \<Rightarrow> datetime) \<Rightarrow> nat \<times> DispatchRow \<Rightarrow> ('a playbook_db_scheme, publication) task" where
  "publish_event accepts clock = (\<lambda>(n, d).
     case dp_lease_token d of
       None \<Rightarrow> returnJ SKIPPED
     | Some token \<Rightarrow>
         if \<not> accepts (event_task_id d) then
           bindJ (commit (record_processing_failure (dp_id d) ''BROKER_PUBLISH_FAILED''
             ''broker publication failed'' False (clock n))) (\<lambda>_. returnJ RESCHEDULED)
         else
           bindJ (commit (mark_dispatch_published (dp_id d) token (event_task_id d) (clock n))) (\<lambda>marked.
           returnJ (if marked then PUBLISHED else SKIPPED)))"

definition dispatch_pending_events ::
    "WorkerEnvironment \<Rightarrow> (string \<Rightarrow> bool) \<Rightarrow> (nat \<Rightarrow> datetime) \<Rightarrow> ('a playbook_db_scheme, DispatchResult) task" where
  "dispatch_pending_events w accepts clock =
     bindJ (commit (claim_dispatches (we_uuids w) (clock 0)
        (seconds (ws_event_dispatch_stale_after_seconds (we_settings w)))
        (ws_event_dispatch_batch_size (we_settings w)))) (\<lambda>claimed.
     bindJ (mapJ (publish_event accepts clock) (enumerate 1 claimed)) (\<lambda>ps.
     returnJ \<lparr>xr_claimed = int (length claimed), xr_published = count_publications PUBLISHED ps,
       xr_rescheduled = count_publications RESCHEDULED ps\<rparr>))"

definition action_task_id :: "ClaimedAction \<Rightarrow> string" where
  "action_task_id c = ''action-'' @ cl_action_id c @ ''-'' @ cl_lease_token c"

definition dispatch_pending_actions ::
    "WorkerEnvironment \<Rightarrow> (string \<Rightarrow> bool) \<Rightarrow> (nat \<Rightarrow> datetime) \<Rightarrow> ('a playbook_db_scheme, DispatchResult) task" where
  "dispatch_pending_actions w accepts clock =
     bindJ (commit (claim_due_actions (we_uuids w) (clock 0)
        (seconds (ws_action_dispatch_stale_after_seconds (we_settings w)))
        (ws_action_dispatch_batch_size (we_settings w)))) (\<lambda>claimed.
     let published = filter (\<lambda>c. accepts (action_task_id c)) claimed in
     returnJ \<lparr>xr_claimed = int (length claimed), xr_published = int (length published),
       xr_rescheduled = int (length claimed) - int (length published)\<rparr>)"

section \<open>Executing and reconciling actions\<close>

text \<open>The interface of a provider adapter; a call may raise.\<close>

record ActionProvider =
  prov_execute :: "RecoveryAction \<Rightarrow> ProviderExecutionResult result"
  prov_lookup :: "RecoveryAction \<Rightarrow> ProviderLookupResult result"

definition execution_settings :: "WorkerSettings \<Rightarrow> ExecutionSettings" where
  "execution_settings w = \<lparr>es_retry_base = seconds 5, es_unknown_ttl = seconds (ws_action_unknown_ttl_seconds w)\<rparr>"

text \<open>\<open>_provider_for\<close>: the Razorpay adapter only for payment links, and only with credentials.\<close>

definition provider_for ::
    "WorkerSettings \<Rightarrow> ActionProvider \<Rightarrow> ActionProvider \<Rightarrow> RecoveryAction \<Rightarrow> ActionProvider result" where
  "provider_for w razorpay simulator a =
     (if ws_action_provider w = ''RAZORPAY_TEST'' \<and> ra_action_type a = CREATE_PAYMENT_LINK
      then if \<not> ws_razorpay_credentials w
           then Inl (RuntimeError ''Razorpay Test Mode execution requires configured credentials'')
           else Inr razorpay
      else Inr simulator)"

text \<open>A call of a provider between two transactions.\<close>

definition callJ :: "'a result \<Rightarrow> ('s, 'a) task" where
  "callJ r s = (r, s)"

record ActionTask =
  at_merchant_id :: string
  at_action_id :: string
  at_lease_token :: string

record ActionExecutionResult =
  ax_action_id :: string
  ax_status :: ActionStatus
  ax_case_state :: CaseState

definition execution_outcome :: "ActionTask \<Rightarrow> ExecutionDisposition \<Rightarrow> ActionExecutionResult" where
  "execution_outcome q d =
     \<lparr>ax_action_id = at_action_id q, ax_status = xd_action_status d, ax_case_state = xd_case_state d\<rparr>"

definition execute_recovery_action ::
    "WorkerEnvironment \<Rightarrow> ActionProvider \<Rightarrow> ActionProvider \<Rightarrow> (nat \<Rightarrow> datetime) \<Rightarrow> ActionTask \<Rightarrow>
     ('a recovery_db_scheme, ActionExecutionResult) task" where
  "execute_recovery_action w razorpay simulator clock q =
     bindJ (commit (prepare_execution (we_zones w) (we_uuids w) (at_merchant_id q) (at_action_id q)
        (at_lease_token q) (clock 0))) (\<lambda>prepared.
     case prepared of
       Blocked d \<Rightarrow> returnJ (execution_outcome q d)
     | Prepared p \<Rightarrow>
         bindJ (callJ (bindR (provider_for (we_settings w) razorpay simulator (xe_action p))
           (\<lambda>provider. prov_execute provider (xe_action p)))) (\<lambda>r.
         bindJ (commit (record_execution_result (execution_settings (we_settings w)) (we_uuids w)
           (at_merchant_id q) (at_action_id q) (at_lease_token q) r)) (\<lambda>d.
         returnJ (execution_outcome q d))))"

text \<open>Whether the action of a row was looked up: it may be gone by then.\<close>

definition reconcile_action ::
    "WorkerEnvironment \<Rightarrow> ActionProvider \<Rightarrow> ActionProvider \<Rightarrow> string \<times> string \<Rightarrow> ('a recovery_db_scheme, bool) task" where
  "reconcile_action w razorpay simulator = (\<lambda>(merchant_id, action_id).
     bindJ (commit (domain_action merchant_id action_id)) (\<lambda>action.
     case action of
       None \<Rightarrow> returnJ False
     | Some a \<Rightarrow>
         bindJ (callJ (bindR (provider_for (we_settings w) razorpay simulator a)
           (\<lambda>provider. prov_lookup provider a))) (\<lambda>r.
         bindJ (commit (record_lookup (we_uuids w) merchant_id action_id r)) (\<lambda>_. returnJ True))))"

record ReconciliationResult =
  rl_stale_calls_marked_unknown :: int
  rl_reconciled :: int

definition reconcile_unknown_actions ::
    "WorkerEnvironment \<Rightarrow> ActionProvider \<Rightarrow> ActionProvider \<Rightarrow> (nat \<Rightarrow> datetime) \<Rightarrow>
     ('a recovery_db_scheme, ReconciliationResult) task" where
  "reconcile_unknown_actions w razorpay simulator clock =
     (let limit = ws_action_reconciliation_batch_size (we_settings w) in
      bindJ (commit (mark_stale_calls_unknown (execution_settings (we_settings w)) (we_uuids w) (clock 0) limit)) (\<lambda>stale.
      bindJ (commit (actions_for_reconciliation (clock 0) limit)) (\<lambda>rows.
      bindJ (mapJ (reconcile_action w razorpay simulator) (map action_key rows)) (\<lambda>ds.
      returnJ \<lparr>rl_stale_calls_marked_unknown = int (length stale),
        rl_reconciled = int (length (filter id ds))\<rparr>))))"

definition reevaluate_deferred_cases ::
    "WorkerEnvironment \<Rightarrow> (nat \<Rightarrow> datetime) \<Rightarrow> ('a recovery_db_scheme, int) task" where
  "reevaluate_deferred_cases w clock =
     bindJ (commit (reevaluate_deferred (we_recovery w) (we_advice w) (we_zones w) (we_uuids w) (clock 0)
        (ws_deferred_case_reevaluation_batch_size (we_settings w)))) (\<lambda>results. returnJ (int (length results)))"


section \<open>The simulator\<close>

definition simulated_object_id :: "RecoveryAction \<Rightarrow> string" where
  "simulated_object_id a = ''sim_'' @ take 24 (sha256_hex (ra_idempotency_key a))"

text \<open>\<open>str(value)\<close> of a parameter; \<open>other\<close> prints floats, timestamps and containers.\<close>

definition py_str :: "(pyval \<Rightarrow> string) \<Rightarrow> pyval \<Rightarrow> string" where
  "py_str other v =
     (case v of PStr s \<Rightarrow> s | PInt n \<Rightarrow> show_int n | PBool b \<Rightarrow> (if b then ''True'' else ''False'')
      | PNone \<Rightarrow> ''None'' | _ \<Rightarrow> other v)"

definition simulation_setting :: "(pyval \<Rightarrow> string) \<Rightarrow> RecoveryAction \<Rightarrow> string \<Rightarrow> string \<Rightarrow> string" where
  "simulation_setting other a key standard =
     str_upper (case map_of (ra_parameters a) key of None \<Rightarrow> standard | Some v \<Rightarrow> py_str other v)"

definition simulator_execute ::
    "(pyval \<Rightarrow> string) \<Rightarrow> datetime \<Rightarrow> RecoveryAction \<Rightarrow> ProviderExecutionResult result" where
  "simulator_execute other now a =
     (let simulated = simulation_setting other a ''simulation_outcome'' ''ACCEPTED'';
          accepted = \<lparr>px_status = ActionStatus.SUCCEEDED, px_evidence_source = EvidenceSource.SIMULATOR,
            px_observed_at = now, px_response_category = ''SIMULATED_ACCEPTED'',
            px_provider_object_id = Some (simulated_object_id a),
            px_response_reference = Some (''simulator/'' @ simulated_object_id a),
            px_provider_status_code = None, px_error_code = None, px_retryable = False\<rparr> in
      post_init_execution_result
        (if simulated \<in> {''TIMEOUT'', ''AMBIGUOUS''} then
           accepted\<lparr>px_status := ActionStatus.UNKNOWN, px_response_category := ''SIMULATED_AMBIGUOUS'',
             px_response_reference := None, px_error_code := Some ''SIMULATED_TIMEOUT''\<rparr>
         else if simulated \<in> {''RETRYABLE_FAILURE'', ''REJECTED''} then
           accepted\<lparr>px_status := FAILED, px_response_category := ''SIMULATED_REJECTION'',
             px_provider_object_id := None, px_response_reference := None,
             px_error_code := Some (if simulated = ''RETRYABLE_FAILURE'' then ''SIMULATED_RETRYABLE''
               else ''SIMULATED_REJECTED''),
             px_retryable := (simulated = ''RETRYABLE_FAILURE'')\<rparr>
         else accepted))"

definition simulated_status :: "string \<Rightarrow> ActionStatus" where
  "simulated_status simulated =
     (if simulated = ''SUCCEEDED'' then ActionStatus.SUCCEEDED
      else if simulated = ''FAILED'' then FAILED
      else if simulated = ''UNKNOWN'' then ActionStatus.UNKNOWN else PENDING)"

definition simulator_lookup ::
    "(pyval \<Rightarrow> string) \<Rightarrow> datetime \<Rightarrow> RecoveryAction \<Rightarrow> ProviderLookupResult result" where
  "simulator_lookup other now a =
     (let simulated = simulation_setting other a ''simulation_lookup_outcome'' ''PENDING'';
          object_id = (case map_of (ra_parameters a) ''simulation_provider_object_id'' of
            Some (PStr i) \<Rightarrow> i | _ \<Rightarrow> simulated_object_id a) in
      post_init_lookup_result
        \<lparr>pl_status = simulated_status simulated, pl_evidence_source = EvidenceSource.SIMULATOR,
         pl_evidence_reference = ''simulator/'' @ object_id @ ''/'' @ str_lower simulated,
         pl_observed_at = now, pl_is_authoritative = False, pl_provider_object_id = Some object_id,
         pl_reason_code = Some (''SIMULATED_'' @ simulated)\<rparr>)"


section \<open>Maintenance of the playbooks\<close>

record PromiseMaintenanceTaskResult =
  pt_reminders_considered :: int
  pt_reminders_authorized :: int
  pt_broken_promises_escalated :: int

definition with_disposition :: "string \<Rightarrow> PromiseMaintenanceResult list \<Rightarrow> int" where
  "with_disposition d rs = int (length (filter (\<lambda>r. pm_disposition r = d) rs))"

text \<open>Both halves run in one session, which flushes the changed promises when it commits.\<close>

definition maintain_promises_tx ::
    "WorkerEnvironment \<Rightarrow> datetime \<Rightarrow> ('a playbook_db_scheme, PromiseMaintenanceTaskResult) tx" where
  "maintain_promises_tx w now =
     bindT (escalate_broken_promises now PROMISE_MAINTENANCE_BATCH_SIZE) (\<lambda>broken.
     bindT (schedule_due_promise_reminders (we_zones w) (we_uuids w) now PROMISE_MAINTENANCE_BATCH_SIZE) (\<lambda>reminders.
     seqT flush_promises
     (returnT \<lparr>pt_reminders_considered = int (length reminders),
        pt_reminders_authorized = with_disposition ''REMINDER_AUTHORIZED'' reminders,
        pt_broken_promises_escalated = with_disposition ''BROKEN_PROMISE_ESCALATED'' broken\<rparr>)))"

definition maintain_promises ::
    "WorkerEnvironment \<Rightarrow> (nat \<Rightarrow> datetime) \<Rightarrow> ('a playbook_db_scheme, PromiseMaintenanceTaskResult) task" where
  "maintain_promises w clock = commit (maintain_promises_tx w (clock 0))"

definition maintain_portfolio_tx ::
    "WorkerEnvironment \<Rightarrow> datetime \<Rightarrow> ('a playbook_db_scheme, PortfolioMaintenanceResult \<times> int) tx" where
  "maintain_portfolio_tx w now =
     bindT (maintain_portfolios default_degradation_policy now
       (ws_portfolio_maintenance_merchant_batch_size (we_settings w))) (\<lambda>result.
     bindT (close_expired_customer_interventions now
       (ws_customer_intervention_maintenance_batch_size (we_settings w))) (\<lambda>closed.
     returnT (result, closed)))"

definition maintain_portfolio_task ::
    "WorkerEnvironment \<Rightarrow> (nat \<Rightarrow> datetime) \<Rightarrow> ('a playbook_db_scheme, PortfolioMaintenanceResult \<times> int) task" where
  "maintain_portfolio_task w clock = commit (maintain_portfolio_tx w (clock 0))"

end
