(* ===== verification/Playbook_Frames.thy ===== *)
theory Playbook_Frames
  imports Playbook_Books Worker
begin

text \<open>
  Which operations leave the receivables alone: the recovery service, the execution service, the
  intake of webhooks and the policy repository write neither invoices nor promises nor incidents.
\<close>

section \<open>Tasks in a frame\<close>

context step_order
begin

definition staysJ :: "('s, 'a) task \<Rightarrow> bool" where
  "staysJ m \<longleftrightarrow> (\<forall>s. R s (snd (m s)))"

lemma staysJD: "staysJ m \<Longrightarrow> m s = (r, s') \<Longrightarrow> R s s'"
  by (metis snd_conv staysJ_def)

lemma staysJ_bindJ: "staysJ m \<Longrightarrow> (\<And>x. staysJ (f x)) \<Longrightarrow> staysJ (bindJ m f)"
  unfolding staysJ_def bindJ_def
  by (auto split: prod.splits sum.splits) (metis snd_conv, metis snd_conv step_trans)

lemma staysJ_pure: "staysJ (returnJ x)" "staysJ (callJ r)"
  by (simp_all add: staysJ_def returnJ_def callJ_def step_refl)

lemma staysJ_commit: "stays m \<Longrightarrow> staysJ (commit m)"
  unfolding staysJ_def commit_def by (auto split: sum.splits intro: step_refl dest: staysD)

lemma staysJ_catchJ: "staysJ m \<Longrightarrow> (\<And>e. staysJ (h e)) \<Longrightarrow> staysJ (catchJ m h)"
  unfolding staysJ_def catchJ_def
  by (auto split: prod.splits sum.splits) (metis snd_conv step_trans, metis snd_conv)

lemma staysJ_mapJ: "(\<And>x. staysJ (f x)) \<Longrightarrow> staysJ (mapJ f xs)"
  by (induction xs) (auto intro!: staysJ_bindJ staysJ_pure)

lemma staysJ_if: "(b \<Longrightarrow> staysJ m) \<Longrightarrow> (\<not> b \<Longrightarrow> staysJ n) \<Longrightarrow> staysJ (if b then m else n)"
  by simp

lemma staysJ_option: "staysJ m \<Longrightarrow> (\<And>x. staysJ (f x)) \<Longrightarrow> staysJ (case v of None \<Rightarrow> m | Some x \<Rightarrow> f x)"
  by (cases v) auto

lemma staysJ_preparation:
  "(\<And>x. staysJ (f x)) \<Longrightarrow> (\<And>x. staysJ (g x)) \<Longrightarrow> staysJ (case v of Prepared x \<Rightarrow> f x | Blocked x \<Rightarrow> g x)"
  by (cases v) auto

lemma staysJ_prod: "(\<And>x y. staysJ (f x y)) \<Longrightarrow> staysJ (case v of (x, y) \<Rightarrow> f x y)"
  by (cases v) auto

lemma staysJ_Let: "staysJ (f v) \<Longrightarrow> staysJ (let x = v in f x)"
  by simp

lemmas staysJ_intros = staysJ_bindJ staysJ_pure staysJ_commit staysJ_catchJ staysJ_mapJ staysJ_if
  staysJ_option staysJ_preparation staysJ_prod staysJ_Let

lemma stays_bind_liftR: "(\<And>x. r = Inr x \<Longrightarrow> stays (f x)) \<Longrightarrow> stays (bindT (liftR r) f)"
  by (rule staysI) (auto simp: result_simps dest: staysD)

end


section \<open>The tables of other components\<close>

definition same_receivables :: "'a playbook_db_scheme \<Rightarrow> 'a playbook_db_scheme \<Rightarrow> bool" where
  "same_receivables s s' \<longleftrightarrow> db_promises s' = db_promises s \<and> db_dirty_promises s' = db_dirty_promises s
     \<and> db_invoices s' = db_invoices s \<and> db_incidents s' = db_incidents s"

interpretation same_receivables: step_order same_receivables
  by unfold_locales (auto simp: same_receivables_def)

text \<open>The recovery and the execution service do not write the dispatches either.\<close>

definition same_services :: "'a playbook_db_scheme \<Rightarrow> 'a playbook_db_scheme \<Rightarrow> bool" where
  "same_services s s' \<longleftrightarrow> same_receivables s s' \<and> db_dispatches s' = db_dispatches s"

interpretation same_services: step_order same_services
  by unfold_locales (auto simp: same_services_def same_receivables_def)

lemmas same_services_defs = same_services_def same_receivables_def

lemma services_receivables: "same_services.stays m \<Longrightarrow> same_receivables.stays m"
  by (rule same_receivables.staysI) (drule (1) same_services.staysD, simp add: same_services_def)

lemma append_entry_same_services: "same_services.stays (append_entry uuids r)"
  by (rule same_services.staysI) (drule append_entry_frame, auto simp: same_services_defs)

lemmas service_intros = same_services.stays_intros same_services.stays_case_sum
  same_services.stays_modifyT append_entry_same_services

lemmas case_write_defs = draw_uuid_def create_case_def link_evidence_def apply_transition_def
  record_execution_attempt_counters_def store_review_def update_review_decision_def store_receipt_def
  store_model_predictions_def coordinate_case_with_active_intervention_def store_customer_intervention_def
  active_incidents_def attach_incidents_def insert_link_def set_active_incident_def update_intervention_def
  flush_reviews_def flush_interventions_def store_action_def flush_actions_def update_action_def
  update_attempt_def store_outcome_def flush_attempts_def flush_outcomes_def

lemma case_writes_same_services:
  "same_services.stays (draw_uuid uuids)" "same_services.stays (create_case c k ev t conf)"
  "same_services.stays (link_evidence m ev lc d reason)" "same_services.stays (apply_transition uuids u tr ev')"
  "same_services.stays (record_execution_attempt_counters c i j t)" "same_services.stays (store_review uuids r)"
  "same_services.stays (update_review_decision uuids m r)" "same_services.stays (store_receipt uuids rc)"
  "same_services.stays (store_model_predictions ps)"
  "same_services.stays (coordinate_case_with_active_intervention m cu ci t)"
  "same_services.stays (store_customer_intervention iv)" "same_services.stays (active_incidents m t ci' dc)"
  "same_services.stays (store_action uuids a p co n d')" "same_services.stays (update_action ak f)"
  "same_services.stays (update_attempt ai g)" "same_services.stays (store_outcome uuids vo)"
  "same_services.stays flush_actions" "same_services.stays flush_attempts" "same_services.stays (get_action m gi)" "same_services.stays (get_case m gi)"
  "same_services.stays (get_decision_receipt m gi)"
  "same_services.stays (set_active_incident m gi ii)" "same_services.stays (insert_link il)"
  unfolding case_write_defs get_action_def get_case_def get_decision_receipt_def Let_def
  by (intro service_intros; simp add: same_services_defs)+

lemma recovery_reads_same_services:
  "same_services.stays (get_normalized_event m i)" "same_services.stays (customer_contact_snapshot m cu)"
  "same_services.stays (authoritative_facts n)" "same_services.stays (find_active_case m w st si)"
  "same_services.stays (find_episode_case m w st key)" "same_services.stays (due_deferred_cases t k)"
  "same_services.stays (require_case m ci)" "same_services.stays (get_review m ri)"
  "same_services.stays (order_row n e r)" "same_services.stays (effective_policy zones m t)"
  "same_services.stays (case_of_event m identity)" "same_services.stays (any_unknown_equivalent c as)"
  "same_services.stays (consent_facts m cu')" "same_services.stays (authoritative_facts_for_case m c)"
  by (rule same_services.stays_read, erule recovery_read)+

lemmas service_leaves = same_services.stays_intros same_services.stays_case_sum
  case_writes_same_services recovery_reads_same_services append_entry_same_services

lemma service_transition_same_services: "same_services.stays (service_transition uuids q c)"
  unfolding service_transition_def by (intro service_leaves)

lemma evaluate_case_same_services:
  "same_services.stays (evaluate_case settings recommend zones uuids d row p t approval c)"
  unfolding evaluate_case_def deliberate_def conclude_def portfolio_facts_def authorize_action_def build_review_def
    request_review_def new_id_def Let_def
  by (intro service_leaves service_transition_same_services)

lemma recovery_same_services:
  "same_services.stays (process_event settings recommend zones uuids now m i)"
  "same_services.stays (reevaluate_deferred settings recommend zones uuids t n)"
  "same_services.stays (apply_review settings recommend zones uuids now m rd)"
  unfolding process_event_def process_subject_def unsupported_subject_def link_audit_only_def new_evidence_case_def
    open_case_def add_evidence_def advance_and_evaluate_def advance_to_decision_pending_def new_id_def
    reevaluate_deferred_def reevaluate_case_def apply_review_def stop_reviewed_case_def resume_reviewed_case_def
    Let_def
  by (intro service_leaves service_transition_same_services evaluate_case_same_services)+

lemmas outbox_write_defs = cancel_before_execution_def mark_verification_expired_unknown_def
  set_action_resolution_def mark_stale_inflight_unknown_def begin_attempt_def finish_attempt_def
  claim_due_actions_def claim_one_def stale_inflight_actions_def domain_action_def the_action_def
  actions_for_reconciliation_def

lemma outbox_writes_same_services:
  "same_services.stays (cancel_before_execution k t reason)"
  "same_services.stays (mark_verification_expired_unknown k t)"
  "same_services.stays (set_action_resolution k st t po er)"
  "same_services.stays (mark_stale_inflight_unknown k t dl)"
  "same_services.stays (begin_attempt uuids m i token t)"
  "same_services.stays (finish_attempt uuids m i token q)"
  "same_services.stays (claim_due_actions uuids t lease n)"
  "same_services.stays (stale_inflight_actions t n)" "same_services.stays (domain_action m i)"
  "same_services.stays (the_action k)" "same_services.stays (actions_for_reconciliation t n)"
  unfolding outbox_write_defs Let_def
  by (intro service_leaves same_services.stays_modifyT; simp add: same_services_defs)+

lemma execution_same_services:
  "same_services.stays (prepare_execution zones uuids m a token t)"
  "same_services.stays (record_execution_result settings uuids m a token px)"
  "same_services.stays (mark_stale_calls_unknown settings uuids t n)"
  "same_services.stays (record_lookup uuids m a pl)"
  "same_services.stays (verify_signed_event uuids e w)"
proof -
  have subject: "same_services.stays (case x of SUBSCRIPTION \<Rightarrow> m1 | PAYMENT \<Rightarrow> m2 | INVOICE \<Rightarrow> m3 | _ \<Rightarrow> m4)"
    if "same_services.stays m1" "same_services.stays m2" "same_services.stays m3" "same_services.stays m4"
    for x and m1 m2 m3 m4 :: "('b playbook_db_scheme, 'c) tx" using that by (cases x) simp_all
  show "same_services.stays (prepare_execution zones uuids m a token t)"
    "same_services.stays (record_execution_result settings uuids m a token px)"
    "same_services.stays (mark_stale_calls_unknown settings uuids t n)"
    "same_services.stays (record_lookup uuids m a pl)"
    "same_services.stays (verify_signed_event uuids e w)"
    unfolding prepare_execution_def block_execution_def after_reevaluation_def start_execution_def
      final_policy_decision_def contact_facts_def required_case_def execution_transition_def store_observation_def
      record_execution_result_def settle_result_def mark_stale_calls_unknown_def mark_stale_call_def
      record_lookup_def settle_lookup_def expire_verification_def escalate_unresolved_def
      verify_signed_event_def credited_action_def stop_on_mismatch_def credit_recovery_def
      find_action_for_provider_object_def find_latest_action_for_target_def Let_def
    by (intro service_leaves outbox_writes_same_services subject)+
qed

lemmas append_entry_same_receivables = append_entry_same_services [THEN services_receivables]
lemmas case_writes_same_receivables = case_writes_same_services [THEN services_receivables]
lemmas recovery_reads_same_receivables = recovery_reads_same_services [THEN services_receivables]
lemmas recovery_same_receivables = recovery_same_services [THEN services_receivables]
lemmas outbox_writes_same_receivables = outbox_writes_same_services [THEN services_receivables]
lemmas execution_same_receivables = execution_same_services [THEN services_receivables]

lemmas receivable_leaves = same_receivables.stays_intros same_receivables.stays_case_sum
  case_writes_same_receivables recovery_reads_same_receivables append_entry_same_receivables

lemma intake_same_receivables:
  "same_receivables.stays (record_webhook uuids now wq)" "same_receivables.stays (record_invalid_webhook uuids iq)"
  "same_receivables.stays (persist_normalized_event e w cs)" "same_receivables.stays (upsert_customer c)"
  "same_receivables.stays (upsert_payment p)" "same_receivables.stays (upsert_subscription sb)"
  "same_receivables.stays (claim_dispatches uuids now lease n)"
  "same_receivables.stays (mark_dispatch_published di tk bt now)"
  "same_receivables.stays (mark_dispatch_succeeded di now)"
  "same_receivables.stays (record_processing_failure di ec ed final now)"
  "same_receivables.stays (requeue_dead_letter di now ra)" "same_receivables.stays (publish_policy mi po who)"
  "same_receivables.stays (close_expired_customer_interventions now n)"
  "same_receivables.stays (fetch_webhook_for_processing mi wi)"
  unfolding record_webhook_def record_invalid_webhook_def persist_normalized_event_def upsert_customer_def
    upsert_payment_def upsert_subscription_def claim_dispatches_def claim_dispatch_def mark_dispatch_published_def
    mark_dispatch_succeeded_def record_processing_failure_def record_dispatch_failure_def requeue_dead_letter_def
    update_dispatch_def update_webhook_def flush_dispatches_def flush_webhooks_def add_correlation_def
    dispatch_id_for_def draw_uuid_def publish_policy_def close_expired_customer_interventions_def
    update_intervention_def flush_interventions_def fetch_webhook_for_processing_def Let_def
  by (intro receivable_leaves same_receivables.stays_modifyT; simp add: same_receivables_def)+

lemma execution_run_same_receivables: "execution_run s t \<Longrightarrow> same_receivables s t"
  by (induction rule: execution_run.induct)
    (blast intro: same_receivables.step_refl same_receivables.step_trans
      dest: execution_same_receivables [THEN same_receivables.staysD]
        outbox_writes_same_receivables [THEN same_receivables.staysD])+

lemma system_run_same_receivables: "system_run s t \<Longrightarrow> same_receivables s t"
  by (induction rule: system_run.induct)
    (blast intro: same_receivables.step_refl same_receivables.step_trans execution_run_same_receivables
      dest: recovery_same_receivables [THEN same_receivables.staysD]
        intake_same_receivables [THEN same_receivables.staysD])+

end
