(* ===== verification/Playbook_Promises.thy ===== *)
theory Playbook_Promises
  imports Playbook_Frames
begin

text \<open>
  What a promise to pay and its invoice can go through. A promise is read as the session sees it:
  the row, or the changed object that is not flushed yet.
\<close>


section \<open>The life of a promise\<close>

definition promise_view :: "'a playbook_db_scheme \<Rightarrow> PromiseRow list" where
  "promise_view s = map (session_promise s) (db_promises s)"

definition promise_terms :: "PromiseRow \<Rightarrow> _" where
  "promise_terms p = (pr_merchant_id p, pr_id p, pr_recovery_case_id p, pr_invoice_id p, pr_customer_id p,
     pr_customer_response_id p, pr_amount_minor p, pr_currency p, pr_promised_for p, pr_extractor_version p,
     pr_extraction_confidence_basis_points p, pr_created_at p)"

text \<open>
  The terms never change, a promise that is no longer active does not change at all, and the
  reminder it has is the one it keeps.
\<close>

definition advances :: "PromiseRow \<Rightarrow> PromiseRow \<Rightarrow> bool" where
  "advances p p' \<longleftrightarrow> promise_terms p' = promise_terms p \<and> (pr_status p \<noteq> ''ACTIVE'' \<longrightarrow> p' = p)
     \<and> (pr_reminder_action_id p \<noteq> None \<longrightarrow> pr_reminder_action_id p' = pr_reminder_action_id p)"

lemma advances_refl [simp]: "advances p p"
  by (simp add: advances_def)

lemma advances_trans:
  assumes "advances p q" "advances q r"
  shows "advances p r"
proof (cases "pr_status p = ''ACTIVE''")
  case True
  with assms show ?thesis by (auto simp: advances_def)
next
  case False
  with assms(1) have "q = p" by (simp add: advances_def)
  with assms(2) show ?thesis by simp
qed

lemma promise_terms_key: "promise_terms p' = promise_terms p \<Longrightarrow> promise_key p' = promise_key p"
  by (simp add: promise_terms_def promise_key_def)

lemma advances_key: "advances p p' \<Longrightarrow> promise_key p' = promise_key p"
  unfolding advances_def by (blast intro: promise_terms_key)

definition committed :: "'a playbook_db_scheme \<Rightarrow> bool" where
  "committed s \<longleftrightarrow> db_dirty_promises s = [] \<and> promises_ok (db_promises s)"

definition promises_advance :: "'a playbook_db_scheme \<Rightarrow> 'a playbook_db_scheme \<Rightarrow> bool" where
  "promises_advance s s' \<longleftrightarrow> (\<forall>p\<in>set (promise_view s). \<exists>p'\<in>set (promise_view s'). advances p p')"

definition promise_step :: "'a playbook_db_scheme \<Rightarrow> 'a playbook_db_scheme \<Rightarrow> bool" where
  "promise_step s s' \<longleftrightarrow> promises_advance s s' \<and> (committed s \<longrightarrow> committed s')"

interpretation promise_step: step_order promise_step
proof
  fix s t u :: "'a playbook_db_scheme"
  show "promise_step s s" unfolding promise_step_def promises_advance_def using advances_refl by blast
  show "promise_step s t \<Longrightarrow> promise_step t u \<Longrightarrow> promise_step s u"
    unfolding promise_step_def promises_advance_def using advances_trans by blast
qed

lemma session_promise_dirty [simp]: "db_dirty_promises s = [] \<Longrightarrow> session_promise s p = p"
  by (simp add: session_promise_def)

lemma promise_view_committed [simp]: "db_dirty_promises s = [] \<Longrightarrow> promise_view s = db_promises s"
  by (simp add: promise_view_def map_idI)

lemma session_promise_cong: "db_dirty_promises s' = db_dirty_promises s \<Longrightarrow> session_promise s' = session_promise s"
  by (rule ext) (simp add: session_promise_def)

lemma same_view_advance: "promise_view s' = promise_view s \<Longrightarrow> promises_advance s s'"
  unfolding promises_advance_def using advances_refl by (metis (no_types))

lemma same_receivables_promise_step: "same_receivables s s' \<Longrightarrow> promise_step s s'"
  unfolding promise_step_def committed_def same_receivables_def
  using session_promise_cong [of s' s] by (auto simp: promise_view_def intro: same_view_advance)

lemma promise_step_tables:
  "same_receivables.stays m \<Longrightarrow> promise_step.stays m"
  by (rule promise_step.staysI) (blast dest: same_receivables.staysD same_receivables_promise_step)

lemma update_promises_step:
  assumes "\<And>q. c q \<Longrightarrow> advances q (f q)"
  shows "promise_step.stays (update_promises c f)"
proof (rule promise_step.staysI)
  fix s s' :: "'a playbook_db_scheme" and x
  assume "update_promises c f s = Inr (x, s')"
  then have s': "s' = s\<lparr>db_promises := update_where c f (db_promises s)\<rparr>" and ok: "promises_ok (db_promises s')"
    by (auto simp: update_promises_def result_simps checkT_eq_Inr)
  have same: "session_promise s' = session_promise s" by (rule session_promise_cong) (simp add: s')
  have "advances (session_promise s q) (session_promise s (if c q then f q else q))" for q
    using assms [of q] advances_key [OF assms, of q] by (auto simp: session_promise_def split: option.splits)
  moreover have "(if c q then f q else q) \<in> set (db_promises s')" if "q \<in> set (db_promises s)" for q
    using that by (auto simp: s' set_update_where)
  ultimately have "promises_advance s s'"
    unfolding promises_advance_def promise_view_def same set_map by blast
  with ok show "promise_step s s'" by (auto simp: promise_step_def committed_def s')
qed

lemma flush_promises_step: "promise_step.stays flush_promises"
proof (rule promise_step.staysI)
  fix s s' :: "'a playbook_db_scheme" and x
  assume "flush_promises s = Inr (x, s')"
  then have s': "s' = s\<lparr>db_promises := promise_view s, db_dirty_promises := []\<rparr>" and ok: "promises_ok (db_promises s')"
    by (auto simp: flush_promises_def promise_view_def result_simps checkT_eq_Inr)
  have "promise_view s' = promise_view s" by (simp add: s')
  with ok show "promise_step s s'" by (auto simp: promise_step_def committed_def s' intro: same_view_advance)
qed

lemma promise_step_same:
  "db_promises s' = db_promises s \<Longrightarrow> db_dirty_promises s' = db_dirty_promises s \<Longrightarrow> promise_step s s'"
  using session_promise_cong [of s' s]
  by (auto simp: promise_step_def committed_def promise_view_def intro: same_view_advance)

lemma insert_promise_step:
  "promise_step.stays (insert_new db_promises db_promises_update promises_ok ''promises_to_pay'' same row)"
proof (rule promise_step.staysI)
  fix s s' :: "'a playbook_db_scheme" and x
  assume r: "insert_new db_promises db_promises_update promises_ok ''promises_to_pay'' same row s = Inr (x, s')"
  show "promise_step s s'"
  proof (cases "\<exists>r\<in>set (db_promises s). same r")
    case True
    with r have "s' = s" by (simp add: insert_new_def bindT_def getT_def returnT_def)
    then show ?thesis by (simp add: promise_step.step_refl)
  next
    case False
    with r have s': "s' = db_promises_update (\<lambda>rs. rs @ [row]) s" and ok: "promises_ok (db_promises s')"
      by (auto simp: insert_new_def bindT_def seqT_def getT_def modifyT_def returnT_def checkT_def guardT_def split: if_splits)
    have "session_promise s' = session_promise s" by (rule session_promise_cong) (simp add: s')
    then have "set (promise_view s) \<subseteq> set (promise_view s')" by (auto simp: promise_view_def s')
    then have "promises_advance s s'" unfolding promises_advance_def using advances_refl by blast
    with ok show ?thesis by (simp add: promise_step_def committed_def s')
  qed
qed

lemma advancesI:
  "pr_status q = ''ACTIVE'' \<Longrightarrow> promise_terms q' = promise_terms q \<Longrightarrow>
     pr_reminder_action_id q = None \<or> pr_reminder_action_id q' = pr_reminder_action_id q \<Longrightarrow> advances q q'"
  by (auto simp: advances_def)

lemma terms_updates_promise [simp]:
  "promise_terms (q\<lparr>pr_status := st\<rparr>) = promise_terms q" "promise_terms (q\<lparr>pr_updated_at := t\<rparr>) = promise_terms q"
  "promise_terms (q\<lparr>pr_reminder_at := t\<rparr>) = promise_terms q" "promise_terms (q\<lparr>pr_broken_at := b\<rparr>) = promise_terms q"
  "promise_terms (q\<lparr>pr_fulfilled_at := b\<rparr>) = promise_terms q"
  "promise_terms (q\<lparr>pr_reminder_action_id := a\<rparr>) = promise_terms q"
  by (simp_all add: promise_terms_def)

lemma promise_advances:
  "awaits_reminder m i q \<Longrightarrow> advances q (q\<lparr>pr_reminder_action_id := Some a, pr_updated_at := t\<rparr>)"
  "awaits_reminder m i q \<Longrightarrow> advances q (q\<lparr>pr_reminder_at := t, pr_updated_at := t\<rparr>)"
  "pr_status q = ''ACTIVE'' \<Longrightarrow> advances q (q\<lparr>pr_status := st, pr_updated_at := t\<rparr>)"
  "pr_status q = ''ACTIVE'' \<Longrightarrow> advances q (q\<lparr>pr_status := ''BROKEN'', pr_broken_at := b, pr_updated_at := t\<rparr>)"
  "pr_status q = ''ACTIVE'' \<Longrightarrow> advances q (q\<lparr>pr_status := ''FULFILLED'', pr_fulfilled_at := b, pr_updated_at := t\<rparr>)"
  by (rule advancesI; simp add: awaits_reminder_def)+

lemma promise_writes_step:
  "promise_step.stays (close_active_promises e st)" "promise_step.stays (mark_promise_reminder_scheduled m i a t)"
  "promise_step.stays (reschedule_promise_reminder m i t)"
  unfolding close_active_promises_def mark_promise_reminder_scheduled_def reschedule_promise_reminder_def
  by (intro promise_step.stays_intros update_promises_step promise_advances; simp)+

lemmas promise_step_leaves = promise_step.stays_intros promise_step.stays_case_sum promise_writes_step
  insert_promise_step flush_promises_step

lemma playbook_tables_step:
  "promise_step.stays (record_overdue_invoice t q)" "promise_step.stays (invoice m i)"
  "promise_step.stays (store_customer_response rq)" "promise_step.stays (store_promise p ri)"
  "promise_step.stays (freeze_dispute_and_escalate e)" "promise_step.stays (store_receivable_escalation e reason)"
  "promise_step.stays (freeze_already_paid_claim_and_escalate e)" "promise_step.stays (due_promises t n b)"
  "promise_step.stays (record_payment_observation po ei)" "promise_step.stays (payment_observations m t u)"
  "promise_step.stays (portfolio_merchant_ids t n)" "promise_step.stays (active_incidents_for_maintenance m)"
  "promise_step.stays (apply_degradation_assessment a policy i)" "promise_step.stays (lock_merchant m)"
  unfolding record_overdue_invoice_def record_merchant_event_def upsert_overdue_invoice_def flush_invoices_def
    invoice_def store_customer_response_def store_promise_def freeze_dispute_and_escalate_def
    freeze_already_paid_claim_and_escalate_def store_receivable_escalation_def update_invoices_def due_promises_def
    record_payment_observation_def payment_observations_def portfolio_merchant_ids_def
    active_incidents_for_maintenance_def apply_degradation_assessment_def active_incident_of_def
    attach_affected_cases_def resolve_incident_def change_incident_def flush_incidents_def release_case_def
    insert_link_def set_active_incident_def lock_merchant_def select_one_def Let_def
    insert_new_def [where change = db_merchant_events_update] insert_new_def [where change = db_normalized_update]
    insert_new_def [where change = db_responses_update] insert_new_def [where change = db_escalations_update]
    insert_new_def [where change = db_observations_update]
  by (intro promise_step_leaves promise_step.stays_modifyT promise_step_same; simp)+

lemma persist_transition_step: "promise_step.stays (persist_transition uuids q c)"
  unfolding persist_transition_def
  by (intro promise_step_leaves promise_step_tables [OF case_writes_same_receivables(4)])

lemmas promise_step_services = promise_step_leaves playbook_tables_step persist_transition_step
  recovery_reads_same_receivables [THEN promise_step_tables] case_writes_same_receivables [THEN promise_step_tables]
  recovery_same_receivables [THEN promise_step_tables] intake_same_receivables [THEN promise_step_tables]
  execution_same_receivables [THEN promise_step_tables]

lemma playbook_services_step:
  "promise_step.stays (ingest_overdue_invoice settings advice zones uuids now db_now on)"
  "promise_step.stays (record_customer_response extractor now cm)"
  "promise_step.stays (schedule_due_promise_reminders zones uuids now n)"
  "promise_step.stays (observe_and_evaluate policy po w now)" "promise_step.stays (maintain_portfolios policy now n)"
  unfolding ingest_overdue_invoice_def record_customer_response_def act_on_response_def escalate_response_def
    schedule_due_promise_reminders_def schedule_reminder_def decide_reminder_def conclude_reminder_def
    authorize_reminder_def postpone_reminder_def
    observe_and_evaluate_def maintain_portfolios_def maintain_portfolio_def apply_assessment_def Let_def
  by (intro promise_step_services)+

section \<open>Broken promises\<close>

interpretation same_promises: step_order
  "\<lambda>s s' :: 'a playbook_db_scheme. db_promises s' = db_promises s \<and> db_dirty_promises s' = db_dirty_promises s"
  by unfold_locales auto

lemma invoice_writes_same_promises:
  "same_promises.stays (update_invoices c f)" "same_promises.stays (store_receivable_escalation e reason)"
  "same_promises.stays (invoice m i)" "same_promises.stays (due_promises t n b)"
  unfolding update_invoices_def flush_invoices_def store_receivable_escalation_def select_one_def invoice_def
    due_promises_def insert_new_def Let_def
  by (intro same_promises.stays_intros same_promises.stays_modifyT; simp)+

lemma settle_overdue_promise_Inr:
  assumes "settle_overdue_promise t p s = Inr (r, s')" "pr_status p = ''ACTIVE''"
  shows "\<exists>q. advances p q \<and> pr_status q \<in> {''FULFILLED'', ''BROKEN''} \<and> db_dirty_promises s' = q # db_dirty_promises s
     \<and> db_promises s' = db_promises s"
proof -
  from assms(1) obtain v s1 where v: "invoice (pr_merchant_id p) (pr_invoice_id p) s = Inr (Some v, s1)"
    and rest: "(if iv_status v = ''PAID'' then
       seqT (change_promise (p\<lparr>pr_status := ''FULFILLED'', pr_fulfilled_at := Some t, pr_updated_at := t\<rparr>))
         (returnT (maintenance_result p ''PROMISE_FULFILLED''))
     else
       seqT (mark_broken_promise_and_escalate p (broken_escalation_id p) t)
         (returnT ((maintenance_result p ''BROKEN_PROMISE_ESCALATED'')
            \<lparr>pm_escalation_id := Some (broken_escalation_id p)\<rparr>))) s1 = Inr (r, s')"
    by (auto simp: settle_overdue_promise_def result_simps)
  note s1 = same_promises.staysD [OF invoice_writes_same_promises(3) v]
  show ?thesis
  proof (cases "iv_status v = ''PAID''")
    case True
    with rest have "s' = s1\<lparr>db_dirty_promises := p\<lparr>pr_status := ''FULFILLED'', pr_fulfilled_at := Some t,
        pr_updated_at := t\<rparr> # db_dirty_promises s1\<rparr>"
      by (simp add: change_promise_def seqT_def bindT_def modifyT_def returnT_def)
    with s1 show ?thesis
      by (intro exI [of _ "p\<lparr>pr_status := ''FULFILLED'', pr_fulfilled_at := Some t, pr_updated_at := t\<rparr>"])
        (simp add: promise_advances(5) [OF assms(2)])
  next
    case False
    with rest obtain u e s2 s3 where u: "evidence_utc t = Inr u"
      and s2: "update_invoices (\<lambda>v. invoice_key v = (pr_merchant_id p, pr_invoice_id p) \<and> iv_status v = ''PROMISED'')
         (freeze_invoice ''ESCALATED'' u) (s1\<lparr>db_dirty_promises := p\<lparr>pr_status := ''BROKEN'', pr_broken_at := Some u,
        pr_updated_at := u\<rparr> # db_dirty_promises s1\<rparr>) = Inr ((), s2)"
      and s3: "store_receivable_escalation
        \<lparr>ex_escalation_id = broken_escalation_id p, ex_merchant_id = pr_merchant_id p, ex_case_id = pr_recovery_case_id p,
         ex_invoice_id = pr_invoice_id p, ex_customer_response_id = pr_customer_response_id p, ex_occurred_at = u\<rparr>
        ''BROKEN_PROMISE_TO_PAY'' s2 = Inr (e, s')"
      by (auto simp: mark_broken_promise_and_escalate_def change_promise_def result_simps)
    from same_promises.staysD [OF invoice_writes_same_promises(1) s2]
      same_promises.staysD [OF invoice_writes_same_promises(2) s3] s1
    show ?thesis
      by (intro exI [of _ "p\<lparr>pr_status := ''BROKEN'', pr_broken_at := Some u, pr_updated_at := u\<rparr>"])
        (simp add: promise_advances(4) [OF assms(2)])
  qed
qed

lemma dirty_promise_advance:
  assumes "db_dirty_promises s' = q # db_dirty_promises s" "db_promises s' = db_promises s"
    and "advances p q" "p \<in> set (db_promises s)" "distinct (map promise_key (db_promises s))"
    and "promise_key p \<notin> promise_key ` set (db_dirty_promises s)"
  shows "promises_advance s s'"
proof -
  have key: "promise_key q = promise_key p" by (rule advances_key [OF assms(3)])
  have "advances (session_promise s x) (session_promise s' x)" if x: "x \<in> set (db_promises s)" for x
  proof (cases "promise_key x = promise_key p")
    case True
    with assms(4,5) x have "x = p" by (auto simp: distinct_map dest: inj_onD)
    moreover have "find (\<lambda>y. promise_key y = promise_key p) (db_dirty_promises s) = None"
      using assms(6) unfolding find_None_iff by (metis imageI)
    ultimately show ?thesis using assms(1,3) key by (simp add: session_promise_def)
  next
    case False
    then show ?thesis using assms(1) key by (simp add: session_promise_def)
  qed
  with assms(2) show ?thesis by (auto simp: promises_advance_def promise_view_def)
qed

lemma settle_loop:
  assumes "mapT (settle_overdue_promise t) ps s = Inr (rs, s')"
    and "distinct (map promise_key ps)" "distinct (map promise_key (db_promises s))"
    and "\<forall>p\<in>set ps. p \<in> set (db_promises s) \<and> pr_status p = ''ACTIVE'' \<and> promise_key p \<notin> promise_key ` set (db_dirty_promises s)"
  shows "promises_advance s s' \<and> db_promises s' = db_promises s"
  using assms
proof (induction ps arbitrary: s rs)
  case Nil
  then show ?case by (simp add: returnT_def same_view_advance)
next
  case (Cons p ps)
  then obtain r rs' s1 where s1: "settle_overdue_promise t p s = Inr (r, s1)"
    and rest: "mapT (settle_overdue_promise t) ps s1 = Inr (rs', s')"
    by (auto simp: result_simps)
  from settle_overdue_promise_Inr [OF s1] Cons.prems(4) obtain q where q: "advances p q"
    "db_dirty_promises s1 = q # db_dirty_promises s" "db_promises s1 = db_promises s" by auto
  have one: "promises_advance s s1"
    by (rule dirty_promise_advance [OF q(2,3,1)]) (use Cons.prems in auto)
  have "promises_advance s1 s' \<and> db_promises s' = db_promises s1"
  proof (rule Cons.IH [OF rest])
    show "distinct (map promise_key ps)" "distinct (map promise_key (db_promises s1))"
      using Cons.prems(2,3) q(3) by simp_all
    have "promise_key x \<noteq> promise_key p" if "x \<in> set ps" for x using Cons.prems(2) that by (auto simp: image_iff)
    then show "\<forall>x\<in>set ps. x \<in> set (db_promises s1) \<and> pr_status x = ''ACTIVE''
        \<and> promise_key x \<notin> promise_key ` set (db_dirty_promises s1)"
      using Cons.prems(4) q(2,3) advances_key [OF q(1)] by simp
  qed
  with one q(3) show ?case
    unfolding promises_advance_def by (metis advances_trans)
qed

section \<open>Whole transactions\<close>

text \<open>From one committed state to the next.\<close>

definition promise_history :: "'a playbook_db_scheme \<Rightarrow> 'a playbook_db_scheme \<Rightarrow> bool" where
  "promise_history s s' \<longleftrightarrow> (committed s \<longrightarrow> committed s' \<and> promises_advance s s')"

interpretation promise_history: step_order promise_history
proof
  fix s t u :: "'a playbook_db_scheme"
  show "promise_history s s" by (simp add: promise_history_def same_view_advance)
  show "promise_history s t \<Longrightarrow> promise_history t u \<Longrightarrow> promise_history s u"
    unfolding promise_history_def promises_advance_def using advances_trans by blast
qed

lemma promise_step_history: "promise_step.stays m \<Longrightarrow> promise_history.stays m"
  by (rule promise_history.staysI) (auto dest: promise_step.staysD simp: promise_step_def promise_history_def)

lemma due_promises_Inr:
  assumes "due_promises t n b s = Inr (ps, s')" "committed s"
  shows "s' = s \<and> distinct (map promise_key ps) \<and> (\<forall>p\<in>set ps. p \<in> set (db_promises s) \<and> pr_status p = ''ACTIVE'')"
proof -
  from assms obtain u where s': "s' = s"
    and ps: "ps = take (nat n) (sort_key (\<lambda>p. (due_column b p, pr_merchant_id p, pr_id p))
      (filter (promise_due b u) (db_promises s)))" (is "_ = take _ ?qs")
    by (auto simp: due_promises_def committed_def result_simps map_idI)
  have sub: "set ps \<subseteq> set ?qs" unfolding ps by (rule set_take_subset)
  have "distinct (db_promises s)" "inj_on promise_key (set (db_promises s))"
    using assms(2) by (auto simp: committed_def promises_ok_def distinct_map)
  moreover have "set ?qs \<subseteq> set (db_promises s)" by auto
  ultimately have "distinct ps" "inj_on promise_key (set ps)"
    using sub by (auto simp: ps distinct_take intro: inj_on_subset)
  with s' sub show ?thesis by (auto simp: distinct_map promise_due_def)
qed

lemma escalate_broken_advance:
  assumes "escalate_broken_promises now n s = Inr (rs, s')" "committed s"
  shows "promises_advance s s' \<and> db_promises s' = db_promises s"
proof -
  from assms(1) obtain t ps s1 where ps: "due_promises t n True s = Inr (ps, s1)"
    and loop: "mapT (settle_overdue_promise t) ps s1 = Inr (rs, s')"
    by (auto simp: escalate_broken_promises_def result_simps)
  note d = due_promises_Inr [OF ps assms(2)]
  then have "mapT (settle_overdue_promise t) ps s = Inr (rs, s')" using loop by simp
  then show ?thesis
    by (rule settle_loop) (use d assms(2) in \<open>simp_all add: committed_def promises_ok_def\<close>)
qed

lemma flush_commits: "flush_promises s = Inr (x, s') \<Longrightarrow> committed s'"
  by (auto simp: flush_promises_def committed_def result_simps checkT_eq_Inr)

lemma maintain_promises_history: "promise_history.stays (maintain_promises_tx w now)"
proof (rule promise_history.staysI)
  fix s s' :: "'a playbook_db_scheme" and r
  assume "maintain_promises_tx w now s = Inr (r, s')"
  then obtain bs s1 rs s2 u where b: "escalate_broken_promises now PROMISE_MAINTENANCE_BATCH_SIZE s = Inr (bs, s1)"
    and m: "schedule_due_promise_reminders (we_zones w) (we_uuids w) now PROMISE_MAINTENANCE_BATCH_SIZE s1 = Inr (rs, s2)"
    and f: "flush_promises s2 = Inr (u, s')"
    by (auto simp: maintain_promises_tx_def result_simps)
  from promise_step.staysD [OF playbook_services_step(3) m] promise_step.staysD [OF flush_promises_step f]
  have "promises_advance s1 s'"
    using promise_step.step_trans by (auto simp: promise_step_def intro: promise_step.step_trans)
  with escalate_broken_advance [OF b] flush_commits [OF f] show "promise_history s s'"
    unfolding promise_history_def promises_advance_def using advances_trans by blast
qed

lemma observe_payment_step: "promise_step.stays (observe_payment e ob)"
  unfolding observe_payment_def by (intro promise_step.stays_intros playbook_services_step)

lemma process_dispatch_step: "promise_step.stays (process_dispatch w clock q)"
  unfolding process_dispatch_def process_event_of_webhook_def upsert_provider_entities_def
  by (intro promise_step_services observe_payment_step)

lemma maintain_portfolio_step: "promise_step.stays (maintain_portfolio_tx w now)"
  unfolding maintain_portfolio_tx_def by (intro promise_step_services playbook_services_step)

end
