(* ===== verification/Playbook_Invoices.thy ===== *)
theory Playbook_Invoices
  imports Playbook_Promises
begin

text \<open>
  What an invoice can go through: a dispute is final, and no operation of the program marks an
  invoice as paid, so no promise is ever fulfilled.
\<close>


section \<open>The invoices\<close>

definition unpaid :: "'a playbook_db_scheme \<Rightarrow> bool" where
  "unpaid s \<longleftrightarrow> (\<forall>v\<in>set (db_invoices s). iv_status v \<noteq> ''PAID'')
     \<and> (\<forall>p\<in>set (db_promises s) \<union> set (db_dirty_promises s). pr_status p \<noteq> ''FULFILLED'')"

text \<open>A disputed invoice stays disputed.\<close>

definition keeps_dispute :: "InvoiceRow \<Rightarrow> InvoiceRow \<Rightarrow> bool" where
  "keeps_dispute v v' \<longleftrightarrow> invoice_key v' = invoice_key v
     \<and> (iv_status v = ''DISPUTED'' \<longrightarrow> iv_status v' = ''DISPUTED'')"

definition invoice_step :: "'a playbook_db_scheme \<Rightarrow> 'a playbook_db_scheme \<Rightarrow> bool" where
  "invoice_step s s' \<longleftrightarrow>
     (\<forall>v\<in>set (db_invoices s). \<exists>v'\<in>set (db_invoices s'). keeps_dispute v v') \<and> (unpaid s \<longrightarrow> unpaid s')"

lemma keeps_dispute_refl [simp]: "keeps_dispute v v"
  by (simp add: keeps_dispute_def)

lemma keeps_dispute_trans: "keeps_dispute u v \<Longrightarrow> keeps_dispute v w \<Longrightarrow> keeps_dispute u w"
  by (simp add: keeps_dispute_def)

interpretation invoice_step: step_order invoice_step
proof
  fix s t u :: "'a playbook_db_scheme"
  show "invoice_step s s" unfolding invoice_step_def using keeps_dispute_refl by blast
  show "invoice_step s t \<Longrightarrow> invoice_step t u \<Longrightarrow> invoice_step s u"
    unfolding invoice_step_def using keeps_dispute_trans by blast
qed

lemma invoice_step_same:
  assumes "db_invoices s' = db_invoices s" "unpaid s \<Longrightarrow> unpaid s'"
  shows "invoice_step s s'"
  unfolding invoice_step_def assms(1) using assms(2) keeps_dispute_refl by blast

lemma invoice_step_other:
  "db_invoices s' = db_invoices s \<Longrightarrow> db_promises s' = db_promises s \<Longrightarrow>
     db_dirty_promises s' = db_dirty_promises s \<Longrightarrow> invoice_step s s'"
  by (rule invoice_step_same) (simp_all add: unpaid_def)

lemma invoice_step_tables: "same_receivables.stays m \<Longrightarrow> invoice_step.stays m"
  by (rule invoice_step.staysI, drule (1) same_receivables.staysD)
    (rule invoice_step_other, simp_all add: same_receivables_def)

lemma update_invoices_rows:
  assumes "\<And>v. c v \<Longrightarrow> keeps_dispute v (f v) \<and> iv_status (f v) \<noteq> ''PAID''"
  shows "invoice_step s (s\<lparr>db_invoices := update_where c f (db_invoices s)\<rparr>)"
proof -
  have "keeps_dispute v (if c v then f v else v)" for v using assms [of v] by simp
  moreover have "(if c v then f v else v) \<in> set (update_where c f (db_invoices s))" if "v \<in> set (db_invoices s)" for v
    using that by (auto simp: set_update_where)
  ultimately have "\<forall>v\<in>set (db_invoices s). \<exists>v'\<in>set (update_where c f (db_invoices s)). keeps_dispute v v'" by blast
  moreover have "unpaid s \<Longrightarrow> unpaid (s\<lparr>db_invoices := update_where c f (db_invoices s)\<rparr>)"
    using assms by (auto simp: unpaid_def set_update_where)
  ultimately show ?thesis by (simp add: invoice_step_def)
qed

lemma update_invoices_step:
  assumes "\<And>v. c v \<Longrightarrow> keeps_dispute v (f v) \<and> iv_status (f v) \<noteq> ''PAID''"
  shows "invoice_step.stays (update_invoices c f)"
  unfolding update_invoices_def flush_invoices_def
  by (intro invoice_step.stays_intros invoice_step.stays_modifyT update_invoices_rows assms)

lemma upsert_overdue_step: "invoice_step.stays (upsert_overdue_invoice (overdue_invoice_row q t) r)"
proof -
  let ?x = "overdue_invoice_row q t"
  have "invoice_step s (s\<lparr>db_invoices :=
       (if \<exists>v\<in>set (db_invoices s). invoice_key v = invoice_key ?x
        then update_where (\<lambda>v. invoice_key v = invoice_key ?x \<and> overdue_applies ?x v) (overdue_update ?x r) (db_invoices s)
        else db_invoices s @ [?x])\<rparr>)" for s :: "'a playbook_db_scheme"
  proof (cases "\<exists>v\<in>set (db_invoices s). invoice_key v = invoice_key ?x")
    case True
    then show ?thesis
      by (simp only: if_True)
        (rule update_invoices_rows, auto simp: keeps_dispute_def overdue_applies_def overdue_update_def
          invoice_key_def overdue_invoice_row_def)
  next
    case False
    have "unpaid s \<Longrightarrow> unpaid (s\<lparr>db_invoices := db_invoices s @ [?x]\<rparr>)"
      by (auto simp: unpaid_def overdue_invoice_row_def)
    moreover have "\<forall>v\<in>set (db_invoices s). \<exists>v'\<in>set (db_invoices s @ [?x]). keeps_dispute v v'"
      using keeps_dispute_refl by fastforce
    ultimately show ?thesis by (simp only: if_not_P [OF False] invoice_step_def) simp
  qed
  then show ?thesis
    unfolding upsert_overdue_invoice_def flush_invoices_def
    by (intro invoice_step.stays_intros invoice_step.stays_modifyT)
qed

lemma update_promises_invoice_step:
  assumes "\<And>p. c p \<Longrightarrow> pr_status p \<noteq> ''FULFILLED'' \<Longrightarrow> pr_status (f p) \<noteq> ''FULFILLED''"
  shows "invoice_step.stays (update_promises c f)"
  unfolding update_promises_def
  by (intro invoice_step.stays_intros invoice_step.stays_modifyT invoice_step_same)
    (use assms in \<open>auto simp: unpaid_def set_update_where\<close>)

lemma session_promise_in: "session_promise s p = p \<or> session_promise s p \<in> set (db_dirty_promises s)"
  by (auto simp: session_promise_def find_Some_iff split: option.splits)

lemma unpaid_flushed:
  assumes "unpaid s"
  shows "unpaid (s\<lparr>db_promises := map (session_promise s) (db_promises s), db_dirty_promises := []\<rparr>)"
proof -
  have "pr_status (session_promise s p) \<noteq> ''FULFILLED''" if "p \<in> set (db_promises s)" for p
    using that session_promise_in [of s p] assms by (auto simp: unpaid_def)
  with assms show ?thesis by (simp add: unpaid_def)
qed

lemma flush_promises_invoice_step: "invoice_step.stays flush_promises"
  unfolding flush_promises_def
  by (intro invoice_step.stays_intros invoice_step.stays_modifyT invoice_step_same unpaid_flushed) simp_all

section \<open>The services\<close>

lemma create_promise_active: "create_promise q = Inr p \<Longrightarrow> pp_status p = PromiseStatus.ACTIVE"
  by (auto simp: create_promise_def post_init_promise_def Let_def bindR_eq_Inr)

lemma store_promise_invoice_step:
  assumes "pp_status p = PromiseStatus.ACTIVE"
  shows "invoice_step.stays (store_promise p ri)"
proof -
  have "pr_status (promise_row p ri) \<noteq> ''FULFILLED''" using assms by (simp add: promise_row_def)
  then have "unpaid s \<Longrightarrow> unpaid (db_promises_update (\<lambda>rs. rs @ [promise_row p ri]) s)" for s :: "'a playbook_db_scheme"
    by (auto simp: unpaid_def)
  then show ?thesis
    unfolding store_promise_def insert_new_def select_one_def Let_def
    by (intro invoice_step.stays_intros invoice_step.stays_modifyT update_invoices_step invoice_step_same)
      (auto simp: keeps_dispute_def invoice_key_def)
qed

lemma promise_writes_invoice_step:
  "st \<noteq> ''FULFILLED'' \<Longrightarrow> invoice_step.stays (close_active_promises e st)"
  "invoice_step.stays (mark_promise_reminder_scheduled m i a t)"
  "invoice_step.stays (reschedule_promise_reminder m i t)"
  unfolding close_active_promises_def mark_promise_reminder_scheduled_def reschedule_promise_reminder_def
  by (intro invoice_step.stays_intros update_promises_invoice_step; simp)+

lemmas invoice_step_leaves = invoice_step.stays_intros invoice_step.stays_case_sum upsert_overdue_step
  update_invoices_step flush_promises_invoice_step

lemma playbook_tables_invoice_step:
  "invoice_step.stays (record_overdue_invoice t q)" "invoice_step.stays (invoice m i)"
  "invoice_step.stays (store_customer_response rq)" "invoice_step.stays (store_receivable_escalation e reason)"
  "invoice_step.stays (due_promises t n b)" "invoice_step.stays (record_payment_observation po ei)"
  "invoice_step.stays (payment_observations m t u)" "invoice_step.stays (portfolio_merchant_ids t n)"
  "invoice_step.stays (active_incidents_for_maintenance m)" "invoice_step.stays (lock_merchant m)"
  "invoice_step.stays (apply_degradation_assessment a policy i)"
  unfolding record_overdue_invoice_def record_merchant_event_def
    invoice_def store_customer_response_def store_receivable_escalation_def due_promises_def
    record_payment_observation_def payment_observations_def portfolio_merchant_ids_def
    active_incidents_for_maintenance_def apply_degradation_assessment_def active_incident_of_def
    attach_affected_cases_def resolve_incident_def change_incident_def flush_incidents_def release_case_def
    insert_link_def set_active_incident_def lock_merchant_def select_one_def insert_new_def Let_def
  by (intro invoice_step_leaves invoice_step.stays_modifyT invoice_step_other; simp)+

lemma freeze_invoice_step:
  "invoice_step.stays (freeze_dispute_and_escalate e)" "invoice_step.stays (freeze_already_paid_claim_and_escalate e)"
  unfolding freeze_dispute_and_escalate_def freeze_already_paid_claim_and_escalate_def
  by (intro invoice_step_leaves promise_writes_invoice_step playbook_tables_invoice_step;
      auto simp: keeps_dispute_def freeze_invoice_def invoice_key_def)+

lemma persist_transition_invoice_step: "invoice_step.stays (persist_transition uuids q c)"
  unfolding persist_transition_def
  by (intro invoice_step_leaves invoice_step_tables [OF case_writes_same_receivables(4)])

lemmas invoice_step_services = invoice_step_leaves playbook_tables_invoice_step persist_transition_invoice_step
  freeze_invoice_step promise_writes_invoice_step
  recovery_reads_same_receivables [THEN invoice_step_tables] case_writes_same_receivables [THEN invoice_step_tables]
  recovery_same_receivables [THEN invoice_step_tables] intake_same_receivables [THEN invoice_step_tables]
  execution_same_receivables [THEN invoice_step_tables]

lemma act_on_response_invoice_step: "invoice_step.stays (act_on_response q t v ci x ri)"
  unfolding act_on_response_def escalate_response_def Let_def
  by (intro invoice_step.stays_if invoice_step.stays_bind_liftR invoice_step_services store_promise_invoice_step)
    (erule create_promise_active)

lemma playbook_services_invoice_step:
  "invoice_step.stays (ingest_overdue_invoice settings advice zones uuids now db_now on)"
  "invoice_step.stays (record_customer_response extractor now cm)"
  "invoice_step.stays (schedule_due_promise_reminders zones uuids now n)"
  "invoice_step.stays (observe_and_evaluate policy po w now)" "invoice_step.stays (maintain_portfolios policy now n)"
  unfolding ingest_overdue_invoice_def record_customer_response_def
    schedule_due_promise_reminders_def schedule_reminder_def decide_reminder_def conclude_reminder_def
    authorize_reminder_def postpone_reminder_def
    observe_and_evaluate_def maintain_portfolios_def maintain_portfolio_def apply_assessment_def Let_def
  by (intro invoice_step_services act_on_response_invoice_step)+

lemma change_promise_invoice_step:
  "pr_status p \<noteq> ''FULFILLED'' \<Longrightarrow> invoice_step.stays (change_promise p)"
  unfolding change_promise_def
  by (rule invoice_step.stays_modifyT, rule invoice_step_same) (auto simp: unpaid_def)

lemma mark_broken_invoice_step: "invoice_step.stays (mark_broken_promise_and_escalate p ei t)"
  unfolding mark_broken_promise_and_escalate_def
  by (intro invoice_step_leaves change_promise_invoice_step playbook_tables_invoice_step)
    (auto simp: keeps_dispute_def freeze_invoice_def invoice_key_def)

lemma settle_invoice_step: "invoice_step.stays (settle_overdue_promise t p)"
proof (rule invoice_step.staysI)
  fix s s' :: "'a playbook_db_scheme" and r
  assume "settle_overdue_promise t p s = Inr (r, s')"
  then obtain v s1 where v: "invoice (pr_merchant_id p) (pr_invoice_id p) s = Inr (Some v, s1)"
    and rest: "(if iv_status v = ''PAID'' then
       seqT (change_promise (p\<lparr>pr_status := ''FULFILLED'', pr_fulfilled_at := Some t, pr_updated_at := t\<rparr>))
         (returnT (maintenance_result p ''PROMISE_FULFILLED''))
     else
       seqT (mark_broken_promise_and_escalate p (broken_escalation_id p) t)
         (returnT ((maintenance_result p ''BROKEN_PROMISE_ESCALATED'')
            \<lparr>pm_escalation_id := Some (broken_escalation_id p)\<rparr>))) s1 = Inr (r, s')"
    by (auto simp: settle_overdue_promise_def result_simps)
  from v have s1: "s1 = s" and "filter (\<lambda>v. invoice_key v = (pr_merchant_id p, pr_invoice_id p)) (db_invoices s) = [v]"
    by (auto simp: invoice_def result_simps)
  then have "v \<in> set (filter (\<lambda>v. invoice_key v = (pr_merchant_id p, pr_invoice_id p)) (db_invoices s))" by simp
  then have mem: "v \<in> set (db_invoices s)" by simp
  show "invoice_step s s'"
  proof (cases "iv_status v = ''PAID''")
    case True
    with mem have "\<not> unpaid s" by (auto simp: unpaid_def)
    with True rest s1 show ?thesis
      by (intro invoice_step_same) (auto simp: change_promise_def result_simps)
  next
    case False
    with rest s1 obtain e where "mark_broken_promise_and_escalate p (broken_escalation_id p) t s = Inr (e, s')"
      by (auto simp: result_simps)
    then show ?thesis by (rule invoice_step.staysD [OF mark_broken_invoice_step])
  qed
qed

lemma maintain_promises_invoice_step: "invoice_step.stays (maintain_promises_tx w now)"
  unfolding maintain_promises_tx_def escalate_broken_promises_def
  by (intro invoice_step_services settle_invoice_step playbook_services_invoice_step)

lemma process_dispatch_invoice_step: "invoice_step.stays (process_dispatch w clock q)"
  unfolding process_dispatch_def process_event_of_webhook_def upsert_provider_entities_def observe_payment_def
  by (intro invoice_step_services playbook_services_invoice_step)

lemma maintain_portfolio_invoice_step: "invoice_step.stays (maintain_portfolio_tx w now)"
  unfolding maintain_portfolio_tx_def by (intro invoice_step_services playbook_services_invoice_step)

end
