(* ===== verification/Playbook_Incidents.thy ===== *)
theory Playbook_Incidents
  imports Playbook_Frames
begin

text \<open>
  The incidents that payment degradation opens, keeps and closes, as a machine per merchant and
  dimension: \<open>apply_degradation_assessment\<close> on the tables is one step of the machine on the
  dimension of the assessment and leaves every other dimension alone.
\<close>


section \<open>The machine\<close>

text \<open>
  An open incident has a count of clear windows and the time of its last change. A degraded
  assessment opens it or starts its count again, a clear one counts when a window has passed since
  the last change and closes the incident when the count is reached.
\<close>

type_synonym window = "(int \<times> datetime) option"

definition incident_machine :: "DegradationPolicy \<Rightarrow> bool \<times> datetime \<Rightarrow> window \<Rightarrow> window" where
  "incident_machine policy = (\<lambda>(degraded, t) w.
     if degraded then Some (0, t)
     else case w of
       None \<Rightarrow> None
     | Some (n, u) \<Rightarrow>
         if t < plus_delta u (dp_current_window policy) then w
         else if dp_clear_consecutive_windows policy \<le> n + 1 then None
         else Some (n + 1, t))"

definition assessed_dimension :: "DegradationAssessment \<Rightarrow> string \<times> string" where
  "assessed_dimension a = (da_merchant_id a, dimension_key a)"

definition assessed :: "DegradationAssessment \<Rightarrow> bool \<times> datetime" where
  "assessed a = (da_degraded a, da_evaluated_at a)"

definition open_in :: "string \<times> string \<Rightarrow> IncidentRow \<Rightarrow> bool" where
  "open_in k i \<longleftrightarrow> (in_merchant_id i, in_dimension_key i) = k \<and> in_status i = INCIDENT_ACTIVE"

definition incident_window :: "'a recovery_db_scheme \<Rightarrow> string \<times> string \<Rightarrow> window" where
  "incident_window s k = map_option (\<lambda>i. (in_clear_window_count i, in_updated_at i)) (find (open_in k) (db_incidents s))"


section \<open>Open incidents\<close>

lemma incidents_unique:
  assumes "incidents_ok rows" "i \<in> set rows" "j \<in> set rows" "open_in k i" "open_in k j"
  shows "i = j"
proof -
  have "inj_on (\<lambda>i. (in_merchant_id i, in_dimension_key i)) (set (filter (\<lambda>i. in_status i = INCIDENT_ACTIVE) rows))"
    using assms(1) by (simp add: incidents_ok_def unique_index_def distinct_map)
  then show ?thesis by (rule inj_onD) (use assms in \<open>simp_all add: open_in_def\<close>)
qed

lemma find_open:
  assumes "incidents_ok rows" "i \<in> set rows" "open_in k i"
  shows "find (open_in k) rows = Some i"
proof (cases "find (open_in k) rows")
  case None
  with assms show ?thesis by (auto simp: find_None_iff)
next
  case (Some j)
  then have "j \<in> set rows" "open_in k j" by (auto simp: find_Some_iff)
  with incidents_unique [OF assms(1) _ assms(2) _ assms(3)] Some show ?thesis by blast
qed

lemma incident_window_open:
  "incidents_ok (db_incidents s) \<Longrightarrow> i \<in> set (db_incidents s) \<Longrightarrow> open_in k i \<Longrightarrow>
     incident_window s k = Some (in_clear_window_count i, in_updated_at i)"
  by (simp add: incident_window_def find_open)

lemma incident_window_none:
  "(\<And>i. i \<in> set (db_incidents s) \<Longrightarrow> \<not> open_in k i) \<Longrightarrow> incident_window s k = None"
  by (simp add: incident_window_def find_None_iff)

definition replace_incident :: "IncidentRow \<Rightarrow> IncidentRow list \<Rightarrow> IncidentRow list" where
  "replace_incident r = update_where (\<lambda>x. incident_key x = incident_key r) (\<lambda>_. r)"

lemma set_replaced:
  assumes "distinct (map incident_key rows)" "i \<in> set rows" "incident_key r = incident_key i"
  shows "set (replace_incident r rows) = insert r (set rows - {i})"
proof -
  have "incident_key x = incident_key r \<longleftrightarrow> x = i" if "x \<in> set rows" for x
    using assms that by (auto simp: distinct_map dest: inj_onD)
  then show ?thesis using assms(2) by (auto simp: replace_incident_def set_update_where)
qed

lemma window_elsewhere:
  assumes "incidents_ok (db_incidents s)" "incidents_ok (db_incidents s')"
    and "\<And>i. open_in k i \<Longrightarrow> i \<in> set (db_incidents s') \<longleftrightarrow> i \<in> set (db_incidents s)"
  shows "incident_window s' k = incident_window s k"
proof (cases "\<exists>i\<in>set (db_incidents s). open_in k i")
  case True
  with assms show ?thesis by (metis incident_window_open)
next
  case False
  with assms(3) show ?thesis by (metis incident_window_none)
qed


section \<open>One assessment\<close>

interpretation same_incidents: step_order "\<lambda>s s' :: 'a recovery_db_scheme. db_incidents s' = db_incidents s"
  by (rule step_order_const)

lemma attach_affected_same_incidents: "same_incidents.stays (attach_affected_cases i a)"
  unfolding attach_affected_cases_def insert_link_def set_active_incident_def Let_def
  by (intro same_incidents.stays_intros same_incidents.stays_modifyT; simp)

lemma release_same_incidents: "same_incidents.stays (release_case i t x)"
  unfolding release_case_def Let_def
  by (intro same_incidents.stays_intros same_incidents.stays_modifyT; simp)

lemma change_incident_Inr:
  "change_incident r s = Inr (u, s') \<Longrightarrow>
     db_incidents s' = replace_incident r (db_incidents s) \<and> incidents_ok (db_incidents s')"
  by (auto simp: change_incident_def flush_incidents_def replace_incident_def seqT_def bindT_def modifyT_def checkT_def
      getT_def guardT_def returnT_def raiseT_def split: if_splits)

lemma resolve_incident_Inr:
  assumes "resolve_incident i t s = Inr (r, s')"
  shows "r = resolved_incident t i \<and> db_incidents s' = replace_incident r (db_incidents s) \<and> incidents_ok (db_incidents s')"
proof -
  obtain s1 cases s2 x u where s1: "change_incident (resolved_incident t i) s = Inr (u, s1)"
    and cases: "mapT (release_case i t) (enumerate 0 cases) s1 = Inr (x, s2)" and "s' = s2" "r = resolved_incident t i"
    using assms unfolding resolve_incident_def Let_def result_simps by (auto simp: result_simps checkT_eq_Inr)
  with same_incidents.staysD [OF same_incidents.stays_mapT [OF release_same_incidents] cases] change_incident_Inr [OF s1]
  show ?thesis by metis
qed

text \<open>What happens to the incidents: one is added, one replaced or none.\<close>

definition incident_effect :: "DegradationAssessment \<Rightarrow> DegradationPolicy \<Rightarrow> string \<Rightarrow> IncidentRow list \<Rightarrow> IncidentRow list \<Rightarrow> bool" where
  "incident_effect a policy fresh_id rows rows' \<longleftrightarrow>
     (case find (open_in (assessed_dimension a)) rows of
        None \<Rightarrow> rows' = rows @ (if da_degraded a then [opened_incident a policy fresh_id] else [])
      | Some i \<Rightarrow>
          let r = cleared_incident a policy i in
          if da_degraded a then rows' = replace_incident (renewed_incident a policy i) rows
          else if da_evaluated_at a < plus_delta (in_updated_at i) (dp_current_window policy) then rows' = rows
          else if dp_clear_consecutive_windows policy \<le> in_clear_window_count r
          then rows' = replace_incident (resolved_incident (da_evaluated_at a) r) rows else rows' = replace_incident r rows)"

lemma find_open_filter:
  assumes "incidents_ok rows" "one_or_noneT (filter (open_in k) rows) s = Inr (v, s')"
  shows "s' = s \<and> find (open_in k) rows = v"
proof (cases v)
  case None
  with assms(2) have "filter (open_in k) rows = []" "s' = s" by (auto simp: one_or_noneT_eq_Inr)
  then show ?thesis using None by (simp add: find_None_iff filter_empty_conv)
next
  case (Some i)
  with assms(2) have f: "filter (open_in k) rows = [i]" "s' = s" by (auto simp: one_or_noneT_eq_Inr)
  then have "i \<in> set (filter (open_in k) rows)" by simp
  then show ?thesis using Some f(2) find_open [OF assms(1)] by simp
qed

lemma active_incident_of_Inr:
  assumes "active_incident_of m k s = Inr (v, s')" "incidents_ok (db_incidents s)"
  shows "s' = s \<and> find (open_in (m, k)) (db_incidents s) = v"
proof -
  have "(\<lambda>i. in_merchant_id i = m \<and> in_dimension_key i = k \<and> in_status i = INCIDENT_ACTIVE) = open_in (m, k)"
    by (rule ext) (simp add: open_in_def)
  with assms(1) have "one_or_noneT (filter (open_in (m, k)) (db_incidents s)) s = Inr (v, s')"
    by (auto simp: active_incident_of_def result_simps)
  from find_open_filter [OF assms(2) this] show ?thesis .
qed

lemma apply_assessment_effect:
  assumes "apply_degradation_assessment a policy i s = Inr (r, s')" "incidents_ok (db_incidents s)"
  shows "incident_effect a policy i (db_incidents s) (db_incidents s') \<and> incidents_ok (db_incidents s')"
proof -
  let ?close = "\<lambda>v. let r = cleared_incident a policy v in
              if in_clear_window_count r \<ge> dp_clear_consecutive_windows policy
              then bindT (resolve_incident r (da_evaluated_at a)) (\<lambda>x. returnT (Some x))
              else seqT (change_incident r) (returnT (Some r))"
  let ?open = "\<lambda>active. case active of
           None \<Rightarrow> (let i = opened_incident a policy i in
             seqT (modifyT (\<lambda>s. s\<lparr>db_incidents := db_incidents s @ [i]\<rparr>)) (seqT flush_incidents (returnT i)))
         | Some i \<Rightarrow> (let r = renewed_incident a policy i in seqT (change_incident r) (returnT r))"
  from assms(1) obtain m v s1 where m: "merchant_for_assessment a = Inr m"
    and v: "active_incident_of m (dimension_key a) s = Inr (v, s1)"
    and rest: "(if da_degraded a then bindT (?open v) (\<lambda>i. seqT (attach_affected_cases i a) (returnT (Some i)))
     else case v of None \<Rightarrow> returnT None
       | Some i \<Rightarrow> if da_evaluated_at a < plus_delta (in_updated_at i) (dp_current_window policy) then returnT (Some i)
           else ?close i) s1 = Inr (r, s')"
    unfolding apply_degradation_assessment_def result_simps by blast
  have "m = da_merchant_id a" using m by (simp add: merchant_for_assessment_def split: if_splits)
  with active_incident_of_Inr [OF v assms(2)] have s1: "s1 = s"
    and found: "find (open_in (assessed_dimension a)) (db_incidents s) = v" by (auto simp: assessed_dimension_def)
  show ?thesis
  proof (cases "da_degraded a")
    case True
    with rest obtain j s2 u where j: "?open v s1 = Inr (j, s2)" and u: "attach_affected_cases j a s2 = Inr (u, s')"
      unfolding if_P [OF True] result_simps by blast
    have "db_incidents s' = db_incidents s2" by (rule same_incidents.staysD [OF attach_affected_same_incidents u])
    moreover have "incident_effect a policy i (db_incidents s) (db_incidents s2) \<and> incidents_ok (db_incidents s2)"
    proof (cases v)
      case None
      with j True found s1 show ?thesis
        by (auto simp: incident_effect_def flush_incidents_def Let_def seqT_def bindT_def modifyT_def checkT_def getT_def
            guardT_def returnT_def raiseT_def split: if_splits)
    next
      case (Some w)
      with j obtain x where "change_incident (renewed_incident a policy w) s1 = Inr (x, s2)"
        by (auto simp: Let_def result_simps)
      note c = change_incident_Inr [OF this, unfolded s1]
      have "incident_effect a policy i (db_incidents s) (replace_incident (renewed_incident a policy w) (db_incidents s))"
        using Some True found by (simp add: incident_effect_def)
      with c show ?thesis by metis
    qed
    ultimately show ?thesis by simp
  next
    case False
    show ?thesis
    proof (cases v)
      case None
      with rest False found s1 assms(2) show ?thesis by (simp add: incident_effect_def returnT_def)
    next
      case (Some w)
      let ?r = "cleared_incident a policy w"
      consider (early) "da_evaluated_at a < plus_delta (in_updated_at w) (dp_current_window policy)"
        | (counted) "\<not> da_evaluated_at a < plus_delta (in_updated_at w) (dp_current_window policy)"
            "\<not> dp_clear_consecutive_windows policy \<le> in_clear_window_count ?r"
        | (closed) "\<not> da_evaluated_at a < plus_delta (in_updated_at w) (dp_current_window policy)"
            "dp_clear_consecutive_windows policy \<le> in_clear_window_count ?r" by blast
      then show ?thesis
      proof cases
        case early
        with rest False Some s1 have "s' = s" by (simp add: returnT_def)
        with early False Some found assms(2) show ?thesis by (simp add: incident_effect_def Let_def)
      next
        case counted
        with rest False Some obtain x where "change_incident ?r s1 = Inr (x, s')"
          by (auto simp: Let_def result_simps)
        note c = change_incident_Inr [OF this, unfolded s1]
        have "incident_effect a policy i (db_incidents s) (replace_incident ?r (db_incidents s))"
          using Some False counted found by (simp add: incident_effect_def)
        with c show ?thesis by metis
      next
        case closed
        with rest False Some obtain x where "resolve_incident ?r (da_evaluated_at a) s1 = Inr (x, s')"
          by (auto simp: Let_def result_simps)
        from resolve_incident_Inr [OF this] closed False Some found s1 show ?thesis
          by (auto simp: incident_effect_def Let_def)
      qed
    qed
  qed
qed

lemma replaced_window:
  assumes "incidents_ok (db_incidents s)" "incidents_ok (db_incidents s')"
    and "db_incidents s' = replace_incident r (db_incidents s)"
    and "i \<in> set (db_incidents s)" "open_in k i" "incident_key r = incident_key i"
    and "(in_merchant_id r, in_dimension_key r) = k"
  shows "incident_window s' k' = (if k' \<noteq> k then incident_window s k'
    else if in_status r = INCIDENT_ACTIVE then Some (in_clear_window_count r, in_updated_at r) else None)"
proof -
  have set: "set (db_incidents s') = insert r (set (db_incidents s) - {i})"
    unfolding assms(3) by (rule set_replaced) (use assms in \<open>auto simp: incidents_ok_def\<close>)
  show ?thesis
  proof (cases "k' = k")
    case False
    with assms(5,7) have "open_in k' x \<Longrightarrow> x \<in> set (db_incidents s') \<longleftrightarrow> x \<in> set (db_incidents s)" for x
      unfolding set by (auto simp: open_in_def)
    from window_elsewhere [OF assms(1,2) this] False show ?thesis by simp
  next
    case same: True
    show ?thesis
    proof (cases "in_status r = INCIDENT_ACTIVE")
      case True
      with assms(7) have "open_in k r" by (simp add: open_in_def)
      with incident_window_open [OF assms(2)] set same True show ?thesis by simp
    next
      case False
      have "\<not> open_in k x" if "x \<in> set (db_incidents s')" for x
        using that False incidents_unique [OF assms(1) assms(4) _ assms(5), of x] unfolding set
        by (auto simp: open_in_def)
      from incident_window_none [OF this] same False show ?thesis by simp
    qed
  qed
qed

lemma changed_incident_fields [simp]:
  "incident_key (renewed_incident a p i) = incident_key i" "in_merchant_id (renewed_incident a p i) = in_merchant_id i"
  "in_dimension_key (renewed_incident a p i) = in_dimension_key i" "in_status (renewed_incident a p i) = in_status i"
  "in_clear_window_count (renewed_incident a p i) = 0" "in_updated_at (renewed_incident a p i) = da_evaluated_at a"
  "incident_key (cleared_incident a p i) = incident_key i" "in_merchant_id (cleared_incident a p i) = in_merchant_id i"
  "in_dimension_key (cleared_incident a p i) = in_dimension_key i" "in_status (cleared_incident a p i) = in_status i"
  "in_clear_window_count (cleared_incident a p i) = in_clear_window_count i + 1"
  "in_updated_at (cleared_incident a p i) = da_evaluated_at a"
  "incident_key (resolved_incident t i) = incident_key i" "in_merchant_id (resolved_incident t i) = in_merchant_id i"
  "in_dimension_key (resolved_incident t i) = in_dimension_key i" "in_status (resolved_incident t i) = INCIDENT_RESOLVED"
  "in_clear_window_count (resolved_incident t i) = in_clear_window_count i"
  by (simp_all add: incident_key_def renewed_incident_def cleared_incident_def resolved_incident_def incident_values_def)

lemma opened_incident_fields [simp]:
  "in_merchant_id (opened_incident a p n) = da_merchant_id a" "in_dimension_key (opened_incident a p n) = dimension_key a"
  "in_status (opened_incident a p n) = INCIDENT_ACTIVE" "in_clear_window_count (opened_incident a p n) = 0"
  "in_updated_at (opened_incident a p n) = da_evaluated_at a"
  by (simp_all add: opened_incident_def incident_values_def)

lemma assessment_step:
  assumes "apply_degradation_assessment a policy n s = Inr (r, s')" "incidents_ok (db_incidents s)"
  shows "incident_window s' k = (if k = assessed_dimension a then incident_machine policy (assessed a) (incident_window s k)
    else incident_window s k)"
proof -
  let ?k = "assessed_dimension a"
  have eff: "incident_effect a policy n (db_incidents s) (db_incidents s')" and ok: "incidents_ok (db_incidents s')"
    using apply_assessment_effect [OF assms] by auto
  show ?thesis
  proof (cases "find (open_in ?k) (db_incidents s)")
    case None
    then have none: "incident_window s ?k = None" by (simp add: incident_window_def)
    let ?i = "opened_incident a policy n"
    have rows: "db_incidents s' = db_incidents s @ (if da_degraded a then [?i] else [])"
      using eff None by (simp add: incident_effect_def)
    have i: "open_in ?k ?i" by (simp add: open_in_def assessed_dimension_def)
    show ?thesis
    proof (cases "k = ?k \<and> da_degraded a")
      case True
      with rows incident_window_open [OF ok _ i] show ?thesis by (simp add: incident_machine_def assessed_def)
    next
      case False
      have "open_in k x \<Longrightarrow> x \<in> set (db_incidents s') \<longleftrightarrow> x \<in> set (db_incidents s)" for x
        using False i unfolding rows by (auto simp: open_in_def)
      from window_elsewhere [OF assms(2) ok this] False none show ?thesis
        by (auto simp: incident_machine_def assessed_def)
    qed
  next
    case (Some i)
    then have i: "i \<in> set (db_incidents s)" "open_in ?k i" by (auto simp: find_Some_iff)
    note w = incident_window_open [OF assms(2) i]
    note R = replaced_window [OF assms(2) ok _ i, where k' = k]
    have key: "(in_merchant_id i, in_dimension_key i) = ?k" "in_status i = INCIDENT_ACTIVE" using i(2) by (simp_all add: open_in_def)
    let ?t = "da_evaluated_at a"
    consider (renewed) "da_degraded a" "db_incidents s' = replace_incident (renewed_incident a policy i) (db_incidents s)"
      | (early) "\<not> da_degraded a" "?t < plus_delta (in_updated_at i) (dp_current_window policy)" "db_incidents s' = db_incidents s"
      | (closed) "\<not> da_degraded a" "\<not> ?t < plus_delta (in_updated_at i) (dp_current_window policy)"
          "dp_clear_consecutive_windows policy \<le> in_clear_window_count i + 1"
          "db_incidents s' = replace_incident (resolved_incident ?t (cleared_incident a policy i)) (db_incidents s)"
      | (counted) "\<not> da_degraded a" "\<not> ?t < plus_delta (in_updated_at i) (dp_current_window policy)"
          "\<not> dp_clear_consecutive_windows policy \<le> in_clear_window_count i + 1"
          "db_incidents s' = replace_incident (cleared_incident a policy i) (db_incidents s)"
      using eff Some unfolding incident_effect_def by (auto simp: Let_def split: if_splits)
    then show ?thesis
    proof cases
      case renewed
      with R [OF renewed(2)] key w show ?thesis by (simp add: incident_machine_def assessed_def)
    next
      case early
      then have "incident_window s' k = incident_window s k" by (simp add: incident_window_def)
      with early w show ?thesis by (simp add: incident_machine_def assessed_def)
    next
      case closed
      with R [OF closed(4)] key w show ?thesis by (simp add: incident_machine_def assessed_def)
    next
      case counted
      with R [OF counted(4)] key w show ?thesis by (simp add: incident_machine_def assessed_def)
    qed
  qed
qed

section \<open>Many assessments\<close>

text \<open>The reference: the machine of a dimension, run over a list of assessments.\<close>

definition machine_run :: "DegradationPolicy \<Rightarrow> string \<times> string \<Rightarrow> DegradationAssessment list \<Rightarrow> window \<Rightarrow> window" where
  "machine_run policy k as w =
     foldl (\<lambda>w a. incident_machine policy (assessed a) w) w (filter (\<lambda>a. assessed_dimension a = k) as)"

lemma machine_run_simps [simp]:
  "machine_run policy k [] w = w"
  "machine_run policy k (a # as) w = machine_run policy k as
     (if k = assessed_dimension a then incident_machine policy (assessed a) w else w)"
  "machine_run policy k (as @ bs) w = machine_run policy k bs (machine_run policy k as w)"
  by (simp_all add: machine_run_def)

lemma plus_delta_mono: "t \<le> u \<Longrightarrow> plus_delta t d \<le> plus_delta u d"
  by (cases t; cases u; simp add: less_eq_datetime_def)

lemma plus_delta_plus: "plus_delta (plus_delta t d) e = plus_delta t (d + e)"
  by (cases t) simp_all

text \<open>Closing takes the number of clear assessments of the policy, each a window after the one before.\<close>

lemma machine_closes:
  assumes "machine_run policy k as (Some (n, u)) = None" "n < dp_clear_consecutive_windows policy"
    and "0 \<le> dp_current_window policy" "\<forall>a\<in>set as. assessed_dimension a = k \<longrightarrow> \<not> da_degraded a"
  shows "dp_clear_consecutive_windows policy - n \<le> int (length (filter (\<lambda>a. assessed_dimension a = k) as))
    \<and> (\<exists>a\<in>set as. assessed_dimension a = k
         \<and> plus_delta u ((dp_clear_consecutive_windows policy - n) * dp_current_window policy) \<le> da_evaluated_at a)"
  using assms
proof (induction as arbitrary: n u)
  case Nil
  then show ?case by simp
next
  case (Cons a as)
  let ?w = "dp_current_window policy" and ?c = "dp_clear_consecutive_windows policy"
  show ?case
  proof (cases "assessed_dimension a = k \<and> \<not> da_evaluated_at a < plus_delta u ?w")
    case False
    with Cons.prems have "machine_run policy k as (Some (n, u)) = None"
      by (auto simp: incident_machine_def assessed_def split: if_splits)
    from Cons.IH [OF this] Cons.prems show ?thesis by auto
  next
    case True
    then have t: "plus_delta u ?w \<le> da_evaluated_at a" by (simp add: not_less)
    show ?thesis
    proof (cases "?c \<le> n + 1")
      case True
      with Cons.prems(2) have "?c = n + 1" by simp
      with t \<open>assessed_dimension a = k \<and> _\<close> show ?thesis by auto
    next
      case False
      with Cons.prems \<open>assessed_dimension a = k \<and> _\<close> have "machine_run policy k as (Some (n + 1, da_evaluated_at a)) = None"
        by (auto simp: incident_machine_def assessed_def)
      from Cons.IH [OF this] False Cons.prems obtain b where n: "?c - (n + 1) \<le> int (length (filter (\<lambda>a. assessed_dimension a = k) as))"
        and b: "b \<in> set as" "assessed_dimension b = k"
        "plus_delta (da_evaluated_at a) ((?c - (n + 1)) * ?w) \<le> da_evaluated_at b" by auto
      have "?w + (?c - (n + 1)) * ?w = (?c - n) * ?w" by (simp add: algebra_simps)
      with plus_delta_mono [OF t, of "(?c - (n + 1)) * ?w"] b(3)
      have "plus_delta u ((?c - n) * ?w) \<le> da_evaluated_at b" by (simp add: plus_delta_plus)
      with n b \<open>assessed_dimension a = k \<and> _\<close> show ?thesis by auto
    qed
  qed
qed


section \<open>Frames\<close>

definition follows_machine :: "'a recovery_db_scheme \<Rightarrow> 'a recovery_db_scheme \<Rightarrow> bool" where
  "follows_machine s s' \<longleftrightarrow> (incidents_ok (db_incidents s) \<longrightarrow> incidents_ok (db_incidents s')
     \<and> (\<exists>as. \<forall>k. incident_window s' k = machine_run default_degradation_policy k as (incident_window s k)))"

interpretation follows_machine: step_order follows_machine
proof
  fix s t u :: "'a recovery_db_scheme"
  have "\<forall>k. incident_window s k = machine_run default_degradation_policy k [] (incident_window s k)" by simp
  then show "follows_machine s s" unfolding follows_machine_def by blast
  show "follows_machine s t \<Longrightarrow> follows_machine t u \<Longrightarrow> follows_machine s u"
    unfolding follows_machine_def by (metis machine_run_simps(3))
qed

lemma same_incidents_follow: "db_incidents s' = db_incidents s \<Longrightarrow> follows_machine s s'"
proof -
  assume s: "db_incidents s' = db_incidents s"
  then have "\<forall>k. incident_window s' k = machine_run default_degradation_policy k [] (incident_window s k)"
    by (simp add: incident_window_def)
  with s show ?thesis unfolding follows_machine_def by metis
qed

lemma assessment_follows: "follows_machine.stays (apply_assessment default_degradation_policy a)"
proof (rule follows_machine.staysI)
  fix s s' :: "'a playbook_db_scheme" and r
  assume r: "apply_assessment default_degradation_policy a s = Inr (r, s')"
  show "follows_machine s s'"
    unfolding follows_machine_def
  proof
    assume ok: "incidents_ok (db_incidents s)"
    note r' = r [unfolded apply_assessment_def]
    have "\<forall>k. incident_window s' k = machine_run default_degradation_policy k [a] (incident_window s k)"
      using assessment_step [OF r' ok] by simp
    with apply_assessment_effect [OF r' ok] show "incidents_ok (db_incidents s') \<and>
      (\<exists>as. \<forall>k. incident_window s' k = machine_run default_degradation_policy k as (incident_window s k))" by blast
  qed
qed

lemma follows_tables: "same_receivables.stays m \<Longrightarrow> follows_machine.stays m"
  by (rule follows_machine.staysI, drule (1) same_receivables.staysD)
    (rule same_incidents_follow, simp add: same_receivables_def)

lemma playbook_tables_follow:
  "follows_machine.stays (record_overdue_invoice t q)" "follows_machine.stays (invoice m i)"
  "follows_machine.stays (store_customer_response rq)" "follows_machine.stays (store_promise p ri)"
  "follows_machine.stays (freeze_dispute_and_escalate e)" "follows_machine.stays (store_receivable_escalation e reason)"
  "follows_machine.stays (freeze_already_paid_claim_and_escalate e)" "follows_machine.stays (due_promises t n b)"
  "follows_machine.stays (mark_promise_reminder_scheduled m i ra t)" "follows_machine.stays (reschedule_promise_reminder m i t)"
  "follows_machine.stays (mark_broken_promise_and_escalate pr i t)" "follows_machine.stays (change_promise pr)"
  "follows_machine.stays flush_promises"
  "follows_machine.stays (record_payment_observation po ei)" "follows_machine.stays (payment_observations m t u)"
  "follows_machine.stays (portfolio_merchant_ids t n)" "follows_machine.stays (active_incidents_for_maintenance m)"
  "follows_machine.stays (lock_merchant m)"
  unfolding record_overdue_invoice_def record_merchant_event_def upsert_overdue_invoice_def flush_invoices_def
    invoice_def store_customer_response_def store_promise_def freeze_dispute_and_escalate_def
    freeze_already_paid_claim_and_escalate_def store_receivable_escalation_def update_invoices_def update_promises_def
    close_active_promises_def due_promises_def mark_promise_reminder_scheduled_def reschedule_promise_reminder_def
    mark_broken_promise_and_escalate_def change_promise_def flush_promises_def
    record_payment_observation_def payment_observations_def portfolio_merchant_ids_def
    active_incidents_for_maintenance_def lock_merchant_def select_one_def insert_new_def Let_def
  by (intro follows_machine.stays_intros follows_machine.stays_case_sum follows_machine.stays_modifyT
      same_incidents_follow; simp)+

lemma persist_transition_follows: "follows_machine.stays (persist_transition uuids q c)"
  unfolding persist_transition_def
  by (intro follows_machine.stays_intros playbook_tables_follow follows_tables [OF case_writes_same_receivables(4)])

lemmas follows_services = follows_machine.stays_intros follows_machine.stays_case_sum playbook_tables_follow
  persist_transition_follows assessment_follows
  recovery_reads_same_receivables [THEN follows_tables] case_writes_same_receivables [THEN follows_tables]
  recovery_same_receivables [THEN follows_tables] intake_same_receivables [THEN follows_tables]
  execution_same_receivables [THEN follows_tables]

lemma playbook_services_follow:
  "follows_machine.stays (ingest_overdue_invoice settings advice zones uuids now db_now on)"
  "follows_machine.stays (record_customer_response extractor now cm)"
  "follows_machine.stays (schedule_due_promise_reminders zones uuids now n)"
  "follows_machine.stays (escalate_broken_promises now n)"
  "follows_machine.stays (observe_and_evaluate default_degradation_policy po w now)"
  "follows_machine.stays (maintain_portfolios default_degradation_policy now n)"
  unfolding ingest_overdue_invoice_def record_customer_response_def act_on_response_def escalate_response_def
    schedule_due_promise_reminders_def schedule_reminder_def decide_reminder_def conclude_reminder_def
    authorize_reminder_def postpone_reminder_def escalate_broken_promises_def settle_overdue_promise_def
    observe_and_evaluate_def maintain_portfolios_def maintain_portfolio_def Let_def
  by (intro follows_services)+

lemma worker_transactions_follow:
  "follows_machine.stays (process_dispatch w clock q)" "follows_machine.stays (maintain_promises_tx w now)"
  "follows_machine.stays (maintain_portfolio_tx w now)"
  unfolding process_dispatch_def process_event_of_webhook_def upsert_provider_entities_def observe_payment_def
    maintain_promises_tx_def maintain_portfolio_tx_def
  by (intro follows_services playbook_services_follow)+

end
