(* ===== verification/Platform.thy ===== *)
theory Platform
  imports Playbook_Invoices Playbook_Incidents
begin

text \<open>
  The whole platform: the gateway, the recovery and execution services, the playbooks and the
  tasks of the worker on one database. A relation between states that every transaction respects
  holds across every run.
\<close>


section \<open>Runs\<close>

text \<open>
  Any sequence of the transactions of the system, of the playbooks and of the worker's tasks. A task
  commits some of its transactions and may then raise; the run goes on from the state it left.
\<close>

inductive platform_run :: "'a playbook_db_scheme \<Rightarrow> 'a playbook_db_scheme \<Rightarrow> bool" for s where
  none: "platform_run s s"
| system: "platform_run s t \<Longrightarrow> system_run t u \<Longrightarrow> platform_run s u"
| overdue: "platform_run s t \<Longrightarrow> ingest_overdue_invoice settings advice zones uuids now db_now q t = Inr (r, u) \<Longrightarrow>
    platform_run s u"
| response: "platform_run s t \<Longrightarrow> record_customer_response extractor now m t = Inr (r', u) \<Longrightarrow> platform_run s u"
| processed: "platform_run s t \<Longrightarrow> platform_run s (snd (process_webhook_event w clock e t))"
| events: "platform_run s t \<Longrightarrow> platform_run s (snd (dispatch_pending_events w accepts clock t))"
| actions: "platform_run s t \<Longrightarrow> platform_run s (snd (dispatch_pending_actions w accepts clock t))"
| executed: "platform_run s t \<Longrightarrow> platform_run s (snd (execute_recovery_action w razorpay simulator clock a t))"
| reconciled: "platform_run s t \<Longrightarrow> platform_run s (snd (reconcile_unknown_actions w razorpay simulator clock t))"
| reevaluated: "platform_run s t \<Longrightarrow> platform_run s (snd (reevaluate_deferred_cases w clock t))"
| promises: "platform_run s t \<Longrightarrow> platform_run s (snd (maintain_promises w clock t))"
| portfolio: "platform_run s t \<Longrightarrow> platform_run s (snd (maintain_portfolio_task w clock t))"

locale platform_frame = step_order R
  for R :: "'a playbook_db_scheme \<Rightarrow> 'a playbook_db_scheme \<Rightarrow> bool" +
  assumes system_step: "system_run s t \<Longrightarrow> R s t"
    and overdue_step: "stays (ingest_overdue_invoice settings advice zones uuids now db_now q)"
    and response_step: "stays (record_customer_response extractor now m)"
    and process_step: "stays (process_dispatch w clock e)"
    and promises_step: "stays (maintain_promises_tx w now)"
    and portfolio_step: "stays (maintain_portfolio_tx w now)"
begin

lemma stays_system: "(\<And>s x s'. m s = Inr (x, s') \<Longrightarrow> system_run s s') \<Longrightarrow> stays m"
  by (rule staysI) (blast intro: system_step)

lemma execution_step: "(\<And>s x s'. m s = Inr (x, s') \<Longrightarrow> execution_run s s') \<Longrightarrow> stays m"
  by (rule stays_system) (blast intro: system_run.none system_run.executed)

lemma stays_transactions:
  "stays (record_processing_failure i code detail final now)" "stays (claim_dispatches uuids now lease n)"
  "stays (mark_dispatch_published i token task now)" "stays (claim_due_actions uuids now lease n)"
  "stays (prepare_execution zones uuids mi a token now)"
  "stays (record_execution_result es uuids mi a token px)" "stays (mark_stale_calls_unknown es uuids now n)"
  "stays (record_lookup uuids mi a pl)" "stays (reevaluate_deferred settings advice zones uuids now n)"
  by ((rule stays_system, erule system_run.failed [OF system_run.none] system_run.dispatched [OF system_run.none]
        system_run.published [OF system_run.none] system_run.due [OF system_run.none])
    | (rule execution_step, erule execution_run.claimed [OF execution_run.none]
        execution_run.prepared [OF execution_run.none] execution_run.recorded [OF execution_run.none]
        execution_run.stale [OF execution_run.none] execution_run.looked_up [OF execution_run.none]))+

lemma stays_lookups: "stays (domain_action mi a)" "stays (actions_for_reconciliation now n)"
  unfolding domain_action_def get_action_def actions_for_reconciliation_def by (intro stays_intros)+

lemma tasks_stay:
  "staysJ (process_webhook_event w clock e)" "staysJ (dispatch_pending_events w accepts clock)"
  "staysJ (dispatch_pending_actions w accepts clock)"
  "staysJ (execute_recovery_action w razorpay simulator clock a)"
  "staysJ (reconcile_unknown_actions w razorpay simulator clock)" "staysJ (reevaluate_deferred_cases w clock)"
  "staysJ (maintain_promises w clock)" "staysJ (maintain_portfolio_task w clock)"
  unfolding process_webhook_event_def processing_failed_def dispatch_pending_events_def publish_event_def
    dispatch_pending_actions_def execute_recovery_action_def reconcile_unknown_actions_def reconcile_action_def
    reevaluate_deferred_cases_def maintain_promises_def maintain_portfolio_task_def Let_def
  by (intro staysJ_intros process_step promises_step portfolio_step stays_transactions stays_lookups)+

lemma run_step: "platform_run s t \<Longrightarrow> R s t"
  by (induction rule: platform_run.induct)
    (blast intro: step_refl step_trans system_step overdue_step [THEN staysD] response_step [THEN staysD]
      tasks_stay [unfolded staysJ_def, rule_format])+

end

section \<open>The books\<close>

interpretation keeps_books: step_order "\<lambda>s s' :: 'a playbook_db_scheme. books_ok s \<longrightarrow> books_ok s'"
  by unfold_locales auto

lemma funds_keep_books: "funds.stays (\<lambda>_. True) m \<Longrightarrow> keeps_books.stays m"
  by (rule keeps_books.staysI) (blast intro: books_step)

lemma books_system: "system_run s t \<Longrightarrow> books_ok s \<Longrightarrow> books_ok t"
proof (induction rule: system_run.induct)
  case (executed t u)
  with books_run show ?case by blast
qed (blast intro: books_step funds_process_event funds_reevaluate_deferred funds_apply_review funds_policy_writes
    funds_intake lasting_knows(2))+

lemma funds_fetch_webhook: "funds.stays K (fetch_webhook_for_processing m i)"
  unfolding fetch_webhook_for_processing_def by (intro funds.stays_intros)

lemma process_dispatch_funds: "funds.stays (\<lambda>_. True) (process_dispatch w clock q)"
  unfolding process_dispatch_def process_event_of_webhook_def upsert_provider_entities_def observe_payment_def
  by (intro funds.stays_intros funds_fetch_webhook funds_intake [OF lasting_knows(2)]
      funds_playbook_services [OF lasting_knows(2)] funds_process_event [OF lasting_knows(2)] funds_verify_signed_event)

lemma maintenance_funds:
  "funds.stays (\<lambda>_. True) (maintain_promises_tx w now)" "funds.stays (\<lambda>_. True) (maintain_portfolio_tx w now)"
  unfolding maintain_promises_tx_def maintain_portfolio_tx_def
  by (intro funds.stays_intros funds_playbook_services [OF lasting_knows(2)] funds_policy_writes [OF lasting_knows(2)]
      funds_playbook_tables(9) [OF lasting_knows(2)])+

interpretation platform_books: platform_frame "\<lambda>s s' :: 'a playbook_db_scheme. books_ok s \<longrightarrow> books_ok s'"
  by unfold_locales
    (auto intro: books_system funds_keep_books process_dispatch_funds maintenance_funds
      funds_playbook_services(1,2) [OF lasting_knows(2)])

interpretation platform_promises: platform_frame promise_history
proof
  fix s t :: "'a playbook_db_scheme"
  assume "system_run s t"
  then have "promise_step s t" by (rule same_receivables_promise_step [OF system_run_same_receivables])
  then show "promise_history s t" by (simp add: promise_step_def promise_history_def)
qed (intro promise_step_history playbook_services_step process_dispatch_step maintain_portfolio_step
    maintain_promises_history)+

interpretation platform_invoices: platform_frame invoice_step
proof
  fix s t :: "'a playbook_db_scheme"
  assume "system_run s t"
  then have "same_receivables s t" by (rule system_run_same_receivables)
  then show "invoice_step s t" by (intro invoice_step_other) (simp_all add: same_receivables_def)
qed (intro playbook_services_invoice_step process_dispatch_invoice_step maintain_portfolio_invoice_step
    maintain_promises_invoice_step)+

interpretation platform_incidents: platform_frame "follows_machine :: 'a playbook_db_scheme \<Rightarrow> _"
proof
  fix s t :: "'a playbook_db_scheme"
  assume "system_run s t"
  then have "same_receivables s t" by (rule system_run_same_receivables)
  then show "follows_machine s t" by (intro same_incidents_follow) (simp add: same_receivables_def)
qed (intro playbook_services_follow worker_transactions_follow)+


section \<open>Properties of every run\<close>

text \<open>
  Property C4. The platform never makes up money. Whatever sequence of webhooks, dispatches, recovery
  decisions, human reviews, executions, lookups, signed events, overdue invoices, customer responses,
  promise and portfolio maintenance and worker tasks runs, in whatever order and with whatever answers
  of models, providers and the broker: every outcome with money that is stored is for the amount and
  currency that the stored action was authorised with, and the invariant of the outbox, the case
  store and the ledger holds.
\<close>

theorem platform_keeps_books:
  assumes "platform_run s s'" and "books_ok s"
  shows "books_ok s'"
  using platform_books.run_step [OF assms(1)] assms(2) by blast

text \<open>
  Property C9. A promise to pay is a record that cannot be rewritten: over every run its terms stay
  (customer, invoice, case, response, amount, currency, day), the reminder that was authorised for it
  stays the only one, and once it is broken, disputed or cancelled it does not change at all.
\<close>

theorem promises_are_final:
  assumes "platform_run s s'" and "committed s" and "p \<in> set (db_promises s)"
  shows "\<exists>p'\<in>set (db_promises s'). (\<forall>q\<in>set (db_promises s'). promise_key q = promise_key p \<longleftrightarrow> q = p')
      \<and> promise_terms p' = promise_terms p \<and> (pr_status p \<noteq> ''ACTIVE'' \<longrightarrow> p' = p)
      \<and> (pr_reminder_action_id p \<noteq> None \<longrightarrow> pr_reminder_action_id p' = pr_reminder_action_id p)"
proof -
  have s': "committed s'" and adv: "promises_advance s s'"
    using platform_promises.run_step [OF assms(1)] assms(2) by (auto simp: promise_history_def)
  with assms obtain p' where p': "p' \<in> set (db_promises s')" "advances p p'"
    by (auto simp: promises_advance_def committed_def)
  have "inj_on promise_key (set (db_promises s'))"
    using s' by (simp add: committed_def promises_ok_def distinct_map)
  then have "\<forall>q\<in>set (db_promises s'). promise_key q = promise_key p \<longleftrightarrow> q = p'"
    using p'(1) advances_key [OF p'(2)] by (metis inj_onD)
  with p' show ?thesis unfolding advances_def by blast
qed



lemma machine_closes_after:
  assumes "machine_run policy k as (Some (0, u)) = None" "0 < dp_clear_consecutive_windows policy" "0 \<le> dp_current_window policy"
  shows "\<exists>bs cs v. as = bs @ cs \<and> (v = u \<or> (\<exists>a\<in>set bs. assessed_dimension a = k \<and> da_degraded a \<and> v = da_evaluated_at a))
    \<and> (\<forall>a\<in>set cs. assessed_dimension a = k \<longrightarrow> \<not> da_degraded a)
    \<and> dp_clear_consecutive_windows policy \<le> int (length (filter (\<lambda>a. assessed_dimension a = k) cs))
    \<and> (\<exists>a\<in>set cs. assessed_dimension a = k
         \<and> plus_delta v (dp_clear_consecutive_windows policy * dp_current_window policy) \<le> da_evaluated_at a)"
proof (cases "\<exists>a\<in>set as. assessed_dimension a = k \<and> da_degraded a")
  case False
  with machine_closes [OF assms(1,2,3)] show ?thesis by (intro exI [of _ "[]"] exI [of _ as] exI [of _ u]) auto
next
  case True
  from split_list_last_prop [OF this] obtain ys a cs where as: "as = ys @ a # cs"
    and a: "assessed_dimension a = k" "da_degraded a" and cs: "\<forall>z\<in>set cs. \<not> (assessed_dimension z = k \<and> da_degraded z)" by blast
  have "incident_machine policy (assessed a) w = Some (0, da_evaluated_at a)" for w
    using a(2) by (simp add: incident_machine_def assessed_def)
  with assms(1) as a(1) have "machine_run policy k cs (Some (0, da_evaluated_at a)) = None" by simp
  from machine_closes [OF this assms(2,3)] cs as a show ?thesis
    by (intro exI [of _ "ys @ [a]"] exI [of _ cs] exI [of _ "da_evaluated_at a"]) auto
qed


end
