(* ===== verification/Playbook_Theorems.thy ===== *)
theory Playbook_Theorems
  imports Platform
begin

text \<open>
  What the receivables playbook guarantees: a disputed invoice is out of the automation for good, a
  reminder is authorised by the merchant's policy and goes to an active promise without one, and
  the extraction of a promise always answers.
\<close>


section \<open>Disputes\<close>

lemma filter_singleD: "filter p xs = [x] \<Longrightarrow> x \<in> set xs \<and> p x"
  by (drule arg_cong [of _ _ set]) auto

lemma receivable_escalation_stored:
  assumes "store_receivable_escalation q reason s = Inr (e, s')"
  shows "e \<in> set (db_escalations s') \<and> es_merchant_id e = ex_merchant_id q
    \<and> es_customer_response_id e = ex_customer_response_id q
    \<and> db_invoices s' = db_invoices s \<and> db_promises s' = db_promises s"
proof (cases "\<exists>e\<in>set (db_escalations s). es_merchant_id e = ex_merchant_id q
    \<and> es_customer_response_id e = ex_customer_response_id q")
  case True
  with assms have "s' = s" and f: "filter (\<lambda>e. es_merchant_id e = ex_merchant_id q
    \<and> es_customer_response_id e = ex_customer_response_id q) (db_escalations s) = [e]"
    by (auto simp: store_receivable_escalation_def insert_new_def select_one_def Let_def result_simps)
  with filter_singleD [OF f] show ?thesis by simp
next
  case False
  with assms have "s' = db_escalations_update (\<lambda>es. es @ [escalation_row q reason]) s \<and> e = escalation_row q reason"
    by (auto simp: store_receivable_escalation_def insert_new_def Let_def bindT_def seqT_def getT_def modifyT_def
        returnT_def checkT_def guardT_def liftR_def split: if_splits sum.splits)
  then show ?thesis by (simp add: escalation_row_def)
qed

lemma freeze_dispute_Inr:
  assumes "freeze_dispute_and_escalate q s = Inr (e, s')"
  shows "e \<in> set (db_escalations s') \<and> es_merchant_id e = ex_merchant_id q
    \<and> es_customer_response_id e = ex_customer_response_id q
    \<and> (\<forall>v\<in>set (db_invoices s'). invoice_key v = (ex_merchant_id q, ex_invoice_id q) \<longrightarrow> iv_status v = ''DISPUTED'')
    \<and> (\<forall>p\<in>set (db_promises s'). pr_merchant_id p = ex_merchant_id q \<and> pr_invoice_id p = ex_invoice_id q
         \<longrightarrow> pr_status p \<noteq> ''ACTIVE'')
    \<and> invoice_key ` set (db_invoices s') = invoice_key ` set (db_invoices s)"
proof -
  from assms obtain t s1 s2 where
    s1: "update_invoices (\<lambda>v. invoice_key v = (ex_merchant_id q, ex_invoice_id q)) (freeze_invoice ''DISPUTED'' t) s = Inr ((), s1)"
    and s2: "close_active_promises q ''DISPUTED'' s1 = Inr ((), s2)"
    and e: "store_receivable_escalation q ''CUSTOMER_DISPUTE'' s2 = Inr (e, s')"
    by (auto simp: freeze_dispute_and_escalate_def result_simps)
  from s1 have i: "db_invoices s1 = update_where (\<lambda>v. invoice_key v = (ex_merchant_id q, ex_invoice_id q))
      (freeze_invoice ''DISPUTED'' t) (db_invoices s)"
    by (auto simp: update_invoices_def flush_invoices_def result_simps checkT_eq_Inr)
  from s2 have "db_invoices s2 = db_invoices s1" and p: "db_promises s2 = update_where
      (\<lambda>p. pr_merchant_id p = ex_merchant_id q \<and> pr_invoice_id p = ex_invoice_id q \<and> pr_status p = ''ACTIVE'')
      (\<lambda>p. p\<lparr>pr_status := ''DISPUTED'', pr_updated_at := ex_occurred_at q\<rparr>) (db_promises s1)"
    by (auto simp: close_active_promises_def update_promises_def result_simps checkT_eq_Inr)
  moreover have "invoice_key ` set (db_invoices s1) = invoice_key ` set (db_invoices s)"
    unfolding i set_update_where image_image by (rule image_cong) (simp_all add: freeze_invoice_def invoice_key_def)
  ultimately show ?thesis
    using receivable_escalation_stored [OF e]
    by (auto simp: i set_update_where freeze_invoice_def invoice_key_def)
qed

lemma escalate_response_frozen:
  assumes "escalate_response intent q s = Inr (''AUTOMATION_FROZEN_HUMAN_ESCALATION'', s')"
  shows "\<exists>e. freeze_dispute_and_escalate q s = Inr (e, s')"
  using assms by (auto simp: escalate_response_def result_simps split: if_splits)

lemma store_customer_response_same_receivables: "same_receivables.stays (store_customer_response rq)"
  unfolding store_customer_response_def insert_new_def select_one_def Let_def
  by (intro receivable_leaves same_receivables.stays_modifyT) (simp add: same_receivables_def)

lemma record_customer_response_frozen:
  assumes "record_customer_response extractor now q s = Inr (r, s')"
    and "sp_disposition r = ''AUTOMATION_FROZEN_HUMAN_ESCALATION''"
  shows "\<exists>v t case_id s1 e. invoice (cm_merchant_id q) (cm_invoice_id q) s = Inr (Some v, s)
    \<and> db_invoices s1 = db_invoices s
    \<and> freeze_dispute_and_escalate (response_escalation q t case_id (sp_response_id r)) s1 = Inr (e, s')"
proof -
  obtain t v s1 c s2 x response s3 created where v: "invoice (cm_merchant_id q) (cm_invoice_id q) s = Inr (Some v, s1)"
    and c: "find_active_case (cm_merchant_id q) B2B_PROMISE_TO_PAY INVOICE (cm_invoice_id q) s1 = Inr (Some c, s2)"
    and r: "store_customer_response (response_request q t v (rc_case_id (cw_case c)) x) s2 = Inr ((response, created), s3)"
    and rest: "(if \<not> created
     then returnT \<lparr>sp_response_id = rp_id response, sp_case_id = rc_case_id (cw_case c), sp_intent = rp_intent response,
            sp_disposition = ''DUPLICATE_RESPONSE'', sp_promise_id = None, sp_escalation_id = None\<rparr>
     else act_on_response q t v (rc_case_id (cw_case c)) x (rp_id response)) s3 = Inr (r, s')"
    using assms(1) unfolding record_customer_response_def Let_def result_simps by (auto simp: result_simps split: option.splits)
  have created: created
    using rest assms(2) by (auto simp: returnT_def split: if_splits)
  from v have "s1 = s" by (auto simp: invoice_def result_simps)
  with same_receivables.staysD [OF recovery_reads_same_receivables(4) c]
    same_receivables.staysD [OF store_customer_response_same_receivables r]
  have "db_invoices s3 = db_invoices s" by (simp add: same_receivables_def)
  moreover obtain e where "freeze_dispute_and_escalate (response_escalation q t (rc_case_id (cw_case c)) (sp_response_id r)) s3 = Inr (e, s')"
  proof (cases "px_intent x = PROMISE_TO_PAY")
    case True
    with rest created assms(2) show ?thesis by (auto simp: act_on_response_def result_simps)
  next
    case False
    with rest created obtain d where
      "escalate_response (px_intent x) (response_escalation q t (rc_case_id (cw_case c)) (rp_id response)) s3 = Inr (d, s')"
      "sp_disposition r = d" "sp_response_id r = rp_id response"
      by (auto simp: act_on_response_def Let_def result_simps)
    with assms(2) that escalate_response_frozen show ?thesis by metis
  qed
  ultimately show ?thesis using v \<open>s1 = s\<close> by blast
qed

lemma dispute_frozen:
  assumes "record_customer_response extractor now q s = Inr (r, s')"
    and "sp_disposition r = ''AUTOMATION_FROZEN_HUMAN_ESCALATION''"
  shows "(\<exists>v\<in>set (db_invoices s'). invoice_key v = (cm_merchant_id q, cm_invoice_id q) \<and> iv_status v = ''DISPUTED'')
    \<and> (\<forall>p\<in>set (db_promises s'). pr_merchant_id p = cm_merchant_id q \<and> pr_invoice_id p = cm_invoice_id q
         \<longrightarrow> pr_status p \<noteq> ''ACTIVE'')
    \<and> (\<exists>e\<in>set (db_escalations s'). es_merchant_id e = cm_merchant_id q \<and> es_customer_response_id e = sp_response_id r)"
proof -
  obtain v t case_id s1 e where v: "invoice (cm_merchant_id q) (cm_invoice_id q) s = Inr (Some v, s)"
    and i: "db_invoices s1 = db_invoices s"
    and f: "freeze_dispute_and_escalate (response_escalation q t case_id (sp_response_id r)) s1 = Inr (e, s')"
    using record_customer_response_frozen [OF assms] by blast
  from v have "filter (\<lambda>v. invoice_key v = (cm_merchant_id q, cm_invoice_id q)) (db_invoices s) = [v]"
    by (auto simp: invoice_def result_simps)
  from filter_singleD [OF this] have "(cm_merchant_id q, cm_invoice_id q) \<in> invoice_key ` set (db_invoices s)"
    by (metis image_eqI)
  then have "(cm_merchant_id q, cm_invoice_id q) \<in> invoice_key ` set (db_invoices s')"
    using freeze_dispute_Inr [OF f] i by simp
  then obtain v' where "v' \<in> set (db_invoices s')" "invoice_key v' = (cm_merchant_id q, cm_invoice_id q)"
    by (metis imageE)
  with freeze_dispute_Inr [OF f] show ?thesis by (auto simp: response_escalation_def)
qed

text \<open>
  Property C11. A dispute takes the invoice out of the automation for good. When the answer to a customer is that
  automation is frozen, an escalation of the response to a human is stored and no promise for the
  invoice is active any more; and whatever the platform does from then on, overdue notices, further
  responses, maintenance, webhooks, in any order, the invoice stays disputed.
\<close>

theorem dispute_is_final:
  assumes "record_customer_response extractor now q s = Inr (r, s1)"
    and "sp_disposition r = ''AUTOMATION_FROZEN_HUMAN_ESCALATION''" and "platform_run s1 s2"
  shows "(\<exists>e\<in>set (db_escalations s1). es_merchant_id e = cm_merchant_id q \<and> es_customer_response_id e = sp_response_id r)
    \<and> (\<forall>p\<in>set (db_promises s1). pr_merchant_id p = cm_merchant_id q \<and> pr_invoice_id p = cm_invoice_id q
         \<longrightarrow> pr_status p \<noteq> ''ACTIVE'')
    \<and> (\<exists>v\<in>set (db_invoices s2). invoice_key v = (cm_merchant_id q, cm_invoice_id q) \<and> iv_status v = ''DISPUTED'')"
proof -
  note now = dispute_frozen [OF assms(1,2)]
  then obtain v where v: "v \<in> set (db_invoices s1)" "invoice_key v = (cm_merchant_id q, cm_invoice_id q)" "iv_status v = ''DISPUTED''"
    by blast
  with platform_invoices.run_step [OF assms(3)] obtain v' where "v' \<in> set (db_invoices s2)" "keeps_dispute v v'"
    by (auto simp: invoice_step_def)
  with v now show ?thesis by (auto simp: keeps_dispute_def)
qed

section \<open>Reminders\<close>

interpretation same_view: step_order "\<lambda>s s' :: 'a playbook_db_scheme. promise_view s' = promise_view s"
  by unfold_locales auto

lemma same_receivables_view: "same_receivables.stays m \<Longrightarrow> same_view.stays m"
proof (rule same_view.staysI)
  fix s s' :: "'a playbook_db_scheme" and x
  assume "same_receivables.stays m" "m s = Inr (x, s')"
  then have "same_receivables s s'" by (rule same_receivables.staysD)
  then show "promise_view s' = promise_view s"
    using session_promise_cong [of s' s] by (simp add: same_receivables_def promise_view_def)
qed

lemma flush_same_view: "same_view.stays flush_promises"
proof (rule same_view.staysI)
  fix s s' :: "'a playbook_db_scheme" and x
  assume "flush_promises s = Inr (x, s')"
  then have s': "s' = s\<lparr>db_promises := promise_view s, db_dirty_promises := []\<rparr>"
    by (auto simp: flush_promises_def promise_view_def result_simps checkT_eq_Inr)
  show "promise_view s' = promise_view s" by (simp add: s')
qed

lemma persist_transition_view: "same_view.stays (persist_transition uuids q c)"
  unfolding persist_transition_def
  by (intro same_view.stays_intros flush_same_view same_receivables_view [OF case_writes_same_receivables(4)])

lemma decide_reminder_view: "same_view.stays (decide_reminder zones uuids t p policy c)"
  unfolding decide_reminder_def Let_def
  by (intro same_view.stays_intros persist_transition_view
      recovery_reads_same_receivables [THEN same_receivables_view] case_writes_same_receivables [THEN same_receivables_view])

text \<open>The rows of the table a reminder is recorded for, after a flush those the session sees.\<close>

lemma persist_transition_clean: "persist_transition uuids q c s = Inr (u, s') \<Longrightarrow> db_promises s' = promise_view s'"
  by (auto simp: persist_transition_def result_simps dest!: flush_commits) (simp add: committed_def)

lemma mark_reminder_Inr:
  assumes "mark_promise_reminder_scheduled m i a t s = Inr (x, s')"
  shows "length (filter (awaits_reminder m i) (db_promises s)) = 1
    \<and> (\<exists>p\<in>set (db_promises s'). promise_key p = (m, i) \<and> pr_status p = ''ACTIVE'' \<and> pr_reminder_action_id p = Some a)
    \<and> db_actions s' = db_actions s"
proof -
  from assms obtain u where u: "length (filter (awaits_reminder m i) (db_promises s)) = 1"
    "update_promises (awaits_reminder m i) (\<lambda>p. p\<lparr>pr_reminder_action_id := Some a, pr_updated_at := u\<rparr>) s = Inr ((), s')"
    by (auto simp: mark_promise_reminder_scheduled_def result_simps)
  then obtain p where p: "p \<in> set (db_promises s)" "awaits_reminder m i p"
    by (metis filter_singleD length_Suc_conv length_0_conv One_nat_def)
  let ?p = "p\<lparr>pr_reminder_action_id := Some a, pr_updated_at := u\<rparr>"
  from u(2) have s': "s' = s\<lparr>db_promises := update_where (awaits_reminder m i)
      (\<lambda>p. p\<lparr>pr_reminder_action_id := Some a, pr_updated_at := u\<rparr>) (db_promises s)\<rparr>"
    by (auto simp: update_promises_def result_simps checkT_eq_Inr)
  with p have "?p \<in> set (db_promises s')" unfolding s' by (auto simp: set_update_where)
  moreover have "promise_key ?p = (m, i)" "pr_status ?p = ''ACTIVE''" "pr_reminder_action_id ?p = Some a"
    using p(2) by (simp_all add: awaits_reminder_def promise_key_def)
  ultimately show ?thesis using u(1) s' by auto
qed

interpretation same_consents: step_order
  "\<lambda>s s' :: 'a playbook_db_scheme. db_consents s' = db_consents s"
  by unfold_locales auto

lemma persist_transition_consents: "same_consents.stays (persist_transition uuids q c)"
proof -
  have "same_consents.stays (append_entry uuids r)" for uuids r
    by (rule same_consents.staysI, drule append_entry_frame) auto
  then show ?thesis
    unfolding persist_transition_def apply_transition_def flush_promises_def Let_def
    by (intro same_consents.stays_intros same_consents.stays_modifyT; simp)
qed

text \<open>What the policy is asked about a due promise.\<close>

definition reminder_asked :: "(string \<Rightarrow> zone option) \<Rightarrow> datetime \<Rightarrow> PromiseRow \<Rightarrow> 'a playbook_db_scheme \<Rightarrow>
    MerchantPolicySnapshot \<Rightarrow> PolicyEvaluationInput \<Rightarrow> bool" where
  "reminder_asked zones t p s policy e \<longleftrightarrow>
     effective_policy zones (pr_merchant_id p) t s = Inr (policy, s)
     \<and> (\<exists>c consent incidents. e = reminder_input c p t [reminder_candidate p, no_reminder_candidate p] consent incidents
          \<and> consent_facts (pr_merchant_id p) (Some (pr_customer_id p)) s = Inr (consent, s))"

lemma decide_reminder_Inr:
  fixes s s' :: "'a playbook_db_scheme"
  assumes "decide_reminder zones uuids t p policy c s = Inr (d, s')"
  shows "promise_view s' = promise_view s \<and> (\<exists>checked consent incidents.
      (\<forall>a :: 'a playbook_db_scheme. db_consents a = db_consents s \<longrightarrow> consent_facts (pr_merchant_id p) (Some (pr_customer_id p)) a = Inr (consent, a))
      \<and> wf_evaluation (reminder_input checked p t [reminder_candidate p, no_reminder_candidate p] consent incidents)
      \<and> evaluate_policy zones policy (reminder_input checked p t [reminder_candidate p, no_reminder_candidate p] consent incidents)
          = Inr (rm_decision d))"
proof -
  obtain checked a b consent incidents e s1 s2 s3 where
    s1: "persist_transition uuids (playbook_move POLICY_CHECK ''PROMISE_REMINDER_POLICY_CHECK'' p policy t) c s = Inr (checked, s1)"
    and ab: "post_init_candidate (reminder_candidate p) = Inr a" "post_init_candidate (no_reminder_candidate p) = Inr b"
    and s2: "consent_facts (pr_merchant_id p) (Some (pr_customer_id p)) s1 = Inr (consent, s2)"
    and s3: "active_incidents (pr_merchant_id p) t (Some (rc_case_id checked)) (rc_diagnosis checked) s2 = Inr (incidents, s3)"
    and e: "post_init_evaluation (reminder_input checked p t [a, b] consent incidents) = Inr e"
      "evaluate_policy zones policy e = Inr (rm_decision d)"
    using assms unfolding decide_reminder_def Let_def result_simps by (auto simp: result_simps)
  from post_init_candidate_wf [OF ab(1)] post_init_candidate_wf [OF ab(2)] have
    c: "a = reminder_candidate p" "b = no_reminder_candidate p" "wf_candidate a" "wf_candidate b" by auto
  from post_init_evaluation_wf [OF e(1)] c(3,4) active_incidents_wf [OF s3]
  have "e = reminder_input checked p t [a, b] consent incidents" "wf_evaluation e"
    by (auto simp: reminder_input_def)
  moreover have "consent_facts (pr_merchant_id p) (Some (pr_customer_id p)) u = Inr (consent, u)"
    if "db_consents u = db_consents s" for u :: "'a playbook_db_scheme"
    using s2 that same_consents.staysD [OF persist_transition_consents s1] by (auto simp: consent_facts_def result_simps)
  ultimately show ?thesis
    using e(2) c same_view.staysD [OF decide_reminder_view assms] by blast
qed

lemma store_action_row:
  assumes "store_action uuids a p c n d s = Inr (r, s')"
  shows "r \<in> set (db_actions s') \<and> action_key r = (ra_merchant_id a, ra_action_id a)"
proof (cases "filter (\<lambda>x. ao_idempotency_key x = ra_idempotency_key a) (db_actions s) = []")
  case True
  with assms obtain e where r: "r = action_row a p c n d"
    and e: "append_entry uuids (authorized_append r) (s\<lparr>db_actions := db_actions s @ [r]\<rparr>) = Inr (e, s')"
    by (auto simp: store_action_def result_simps Let_def split: option.splits)
  from append_entry_frame [OF e] r show ?thesis by (auto simp: action_row_def)
next
  case False
  with assms have "s' = s \<and> filter (\<lambda>x. ao_idempotency_key x = ra_idempotency_key a) (db_actions s) = [r]
      \<and> action_key r = (ra_merchant_id a, ra_action_id a)"
    by (auto simp: store_action_def result_simps Let_def split: option.splits)
  with filter_singleD [of "\<lambda>x. ao_idempotency_key x = ra_idempotency_key a" "db_actions s" r] show ?thesis by simp
qed

lemma conclude_reminder_Inr:
  assumes "conclude_reminder uuids t p policy case_id d s = Inr (r, s')" and "pm_action_id r = Some a"
  shows "pd_result (rm_decision d) = PROCEED
    \<and> length (filter (awaits_reminder (pr_merchant_id p) (pr_id p)) (promise_view s)) = 1
    \<and> (\<exists>p'\<in>set (db_promises s'). promise_key p' = promise_key p \<and> pr_status p' = ''ACTIVE'' \<and> pr_reminder_action_id p' = Some a)
    \<and> (\<exists>row\<in>set (db_actions s'). action_key row = (pr_merchant_id p, a))"
proof -
  obtain decided action receipt s1 s2 x where
    s1: "persist_transition uuids (reminder_transition (rm_decision d) p policy t) (rm_checking d) s = Inr (decided, s1)"
    and action: "(if pd_result (rm_decision d) = PROCEED
          then bindR (reminder_action p case_id t) (\<lambda>a. Inr (Some a)) else Inr None) = Inr action"
    and s2: "store_receipt uuids receipt s1 = Inr (x, s2)"
    and rest: "(case action of Some a \<Rightarrow> authorize_reminder uuids p policy t a
      | None \<Rightarrow> postpone_reminder p (rm_decision d)) s2 = Inr (r, s')"
    using assms(1) unfolding conclude_reminder_def Let_def result_simps by (auto simp: result_simps)
  have "action \<noteq> None"
    using rest assms(2) by (auto simp: postpone_reminder_def maintenance_result_def result_simps split: option.splits)
  then obtain b where b: "action = Some b" by blast
  with action have go: "pd_result (rm_decision d) = PROCEED" and m: "reminder_action p case_id t = Inr b"
    by (auto simp: bindR_eq_Inr split: if_splits)
  from m have mer: "ra_merchant_id b = pr_merchant_id p"
    by (auto simp: reminder_action_def bindR_eq_Inr dest!: post_init_action_Inr)
  from rest b obtain row s3 y where
    s3: "store_action uuids b (mp_version policy) (''promise:'' @ pr_id p) 3 (plus_delta t (hours 1)) s2 = Inr (row, s3)"
    and mk: "mark_promise_reminder_scheduled (pr_merchant_id p) (pr_id p) (ra_action_id b) t s3 = Inr (y, s')"
    and id: "a = ra_action_id b"
    using assms(2) by (auto simp: authorize_reminder_def result_simps)
  have "promise_view s1 = promise_view s" by (rule same_view.staysD [OF persist_transition_view s1])
  moreover have "db_promises s1 = promise_view s1" by (rule persist_transition_clean [OF s1])
  moreover have "same_receivables s1 s2" "same_receivables s2 s3"
    by (rule same_receivables.staysD [OF case_writes_same_receivables(8) s2]
        same_receivables.staysD [OF case_writes_same_receivables(13) s3])+
  ultimately have "db_promises s3 = promise_view s" by (simp add: same_receivables_def)
  moreover have "row \<in> set (db_actions s3) \<and> action_key row = (ra_merchant_id b, ra_action_id b)"
    by (rule store_action_row [OF s3])
  ultimately show ?thesis
    using go mark_reminder_Inr [OF mk] mer id by (auto simp: promise_key_def)
qed


section \<open>The extraction\<close>

lemma post_init_extraction_Inr: "post_init_extraction x = Inr e \<Longrightarrow> e = x \<and> post_init_extraction e = Inr e"
  by (auto simp: post_init_extraction_def bindR_eq_Inr)

lemma extraction_fallback_returns:
  assumes "reason \<in> {''INPUT_LIMIT_EXCEEDED'', ''MODEL_UNAVAILABLE'', ''MALFORMED_OR_UNAVAILABLE_MODEL''}"
  shows "\<exists>e. extraction_fallback reason = Inr e \<and> post_init_extraction e = Inr e \<and> px_intent e = PromiseIntent.UNKNOWN"
proof -
  have "post_init_extraction \<lparr>px_intent = PromiseIntent.UNKNOWN, px_confidence_basis_points = 0,
      px_extractor_version = ''phase6-deterministic-fallback:'' @ reason, px_promised_date = None,
      px_amount_minor = None, px_currency = None\<rparr> = Inr \<lparr>px_intent = PromiseIntent.UNKNOWN, px_confidence_basis_points = 0,
      px_extractor_version = ''phase6-deterministic-fallback:'' @ reason, px_promised_date = None,
      px_amount_minor = None, px_currency = None\<rparr>"
    using assms by (elim insertE) (simp_all, code_simp+)
  then show ?thesis by (simp add: extraction_fallback_def)
qed

lemma extraction_of_doc_valid: "extraction_of_doc payload v = Inr e \<Longrightarrow> post_init_extraction e = Inr e"
  by (auto simp: extraction_of_doc_def Let_def bindR_eq_Inr split: if_splits dest!: post_init_extraction_Inr)

lemma validated_extraction_valid: "validated_extraction payload v = Inr e \<Longrightarrow> post_init_extraction e = Inr e"
  by (cases payload) (auto simp: validated_extraction_def dest: extraction_of_doc_valid)

text \<open>
  Property C25. The extraction always answers, and never invents a promise. For every text that is not blank it
  returns a validated extraction, whatever the model does: too long an input, no model, an exception,
  a timeout or an answer of the wrong shape all end in the intent \<open>UNKNOWN\<close>, which goes to a human. Any
  other intent is the model's own answer to a text within the bounds.
\<close>

theorem extraction_always_answers:
  assumes "strip text \<noteq> []"
  shows "\<exists>e. extract_promise x text = Inr e \<and> post_init_extraction e = Inr e
    \<and> (px_intent e \<noteq> PromiseIntent.UNKNOWN \<longrightarrow> int (length text) \<le> xs_max_input_characters x
        \<and> (\<exists>p payload. xs_provider x = Some p \<and> xp_extract p text (xs_max_output_tokens x) = Inr payload
             \<and> validated_extraction payload (xp_model_version p) = Inr e))"
proof -
  note fall = extraction_fallback_returns [of "''INPUT_LIMIT_EXCEEDED''"] extraction_fallback_returns [of "''MODEL_UNAVAILABLE''"]
    extraction_fallback_returns [of "''MALFORMED_OR_UNAVAILABLE_MODEL''"]
  show ?thesis
  proof (cases "int (length text) > xs_max_input_characters x")
    case True
    with assms fall(1) show ?thesis by (auto simp: extract_promise_def)
  next
    case short: False
    show ?thesis
    proof (cases "xs_provider x")
      case None
      with assms short fall(2) show ?thesis by (auto simp: extract_promise_def)
    next
      case (Some p)
      let ?answer = "bindR (xp_extract p text (xs_max_output_tokens x)) (\<lambda>payload. validated_extraction payload (xp_model_version p))"
      have x: "extract_promise x text = (case ?answer of Inr e \<Rightarrow> Inr e | Inl _ \<Rightarrow> extraction_fallback ''MALFORMED_OR_UNAVAILABLE_MODEL'')"
        using assms short Some by (simp add: extract_promise_def)
      show ?thesis
      proof (cases ?answer)
        case (Inl e)
        with x fall(3) show ?thesis by auto
      next
        case (Inr e)
        then obtain payload where "xp_extract p text (xs_max_output_tokens x) = Inr payload"
          "validated_extraction payload (xp_model_version p) = Inr e" by (auto simp: bindR_eq_Inr)
        with validated_extraction_valid [OF this(2)] x Inr Some short show ?thesis by auto
      qed
    qed
  qed
qed

end
