(* ===== verification/Worker_Theorems.thy ===== *)
theory Worker_Theorems
  imports Playbook_Frames
begin

text \<open>
  What processing a webhook does to its dispatch: the effects of the event and the success of the
  dispatch are one transaction, and a failure leaves nothing but its own record.
\<close>


section \<open>The state of a dispatch\<close>

definition dispatch_states :: "'a ingest_db_scheme \<Rightarrow> (string \<times> DispatchState) list" where
  "dispatch_states s = map (\<lambda>d. (dp_id d, dp_state d)) (db_dispatches s)"

interpretation same_states: step_order "\<lambda>s s' :: 'a playbook_db_scheme. dispatch_states s' = dispatch_states s"
  by (rule step_order_const)

lemma stored_dispatch_state:
  "dispatch_states s' = dispatch_states s \<Longrightarrow> map_option dp_state (stored_dispatch s' i) = map_option dp_state (stored_dispatch s i)"
proof -
  have find: "map_option dp_state (find (\<lambda>d. dp_id d = i) ds) = map_option snd (find (\<lambda>x. fst x = i) (map (\<lambda>d. (dp_id d, dp_state d)) ds))" for ds
    by (induction ds) auto
  assume "dispatch_states s' = dispatch_states s"
  then show ?thesis by (simp add: stored_dispatch_def find dispatch_states_def)
qed

lemma states_of_services: "same_services.stays m \<Longrightarrow> same_states.stays m"
  by (rule same_states.staysI) (drule (1) same_services.staysD, simp add: same_services_def dispatch_states_def)

lemma same_states_dispatches: "db_dispatches s' = db_dispatches s \<Longrightarrow> dispatch_states s' = dispatch_states s"
  by (simp add: dispatch_states_def)

lemma same_states_update: "(\<And>d. dp_id (f d) = dp_id d \<and> dp_state (f d) = dp_state d) \<Longrightarrow>
  dispatch_states (s\<lparr>db_dispatches := update_where p f (db_dispatches s)\<rparr>) = dispatch_states s"
  by (simp add: dispatch_states_def update_where_def comp_def)

lemma intake_same_states:
  "same_states.stays (upsert_customer c)" "same_states.stays (upsert_payment p)" "same_states.stays (upsert_subscription sb)"
  "same_states.stays (add_correlation co)" "same_states.stays (fetch_webhook_for_processing m i)"
  "same_states.stays (observe_and_evaluate policy po w now)"
  unfolding upsert_customer_def upsert_payment_def upsert_subscription_def add_correlation_def
    fetch_webhook_for_processing_def observe_and_evaluate_def lock_merchant_def record_payment_observation_def
    payment_observations_def apply_assessment_def apply_degradation_assessment_def active_incident_of_def
    attach_affected_cases_def resolve_incident_def change_incident_def flush_incidents_def release_case_def
    insert_link_def set_active_incident_def insert_new_def Let_def
  by (intro same_states.stays_intros same_states.stays_case_sum same_states.stays_modifyT same_states_dispatches; simp)+

lemma persist_normalized_same_states: "same_states.stays (persist_normalized_event e w cs)"
  unfolding persist_normalized_event_def Let_def
  by (intro same_states.stays_intros intake_same_states same_states.stays_modifyT same_states_dispatches same_states_update; simp)

section \<open>The transactions\<close>

lemma stored_dispatch_update:
  "(\<And>d. dp_id (f d) = dp_id d) \<Longrightarrow> db_dispatches s' = update_where (\<lambda>d. dp_id d = i) f (db_dispatches s) \<Longrightarrow>
     stored_dispatch s' i = map_option f (stored_dispatch s i)"
proof -
  assume "\<And>d. dp_id (f d) = dp_id d"
  then have "find (\<lambda>d. dp_id d = i) (update_where (\<lambda>d. dp_id d = i) f ds) = map_option f (find (\<lambda>d. dp_id d = i) ds)" for ds
    by (induction ds) auto
  then show "db_dispatches s' = update_where (\<lambda>d. dp_id d = i) f (db_dispatches s) \<Longrightarrow>
      stored_dispatch s' i = map_option f (stored_dispatch s i)" by (simp add: stored_dispatch_def)
qed

text \<open>A state of which only the inbox and its dispatches differ.\<close>

definition inbox_only :: "'a ingest_db_scheme \<Rightarrow> 'a ingest_db_scheme \<Rightarrow> bool" where
  "inbox_only s s' \<longleftrightarrow> s' = s\<lparr>db_dispatches := db_dispatches s', db_webhooks := db_webhooks s'\<rparr>"

lemma processing_failure_stored:
  assumes "record_processing_failure i code detail final now s = Inr (st, s')"
  shows "map_option dp_state (stored_dispatch s' i) = Some st \<and> st \<in> {DS_DEAD_LETTER, DS_RETRY_SCHEDULED}
    \<and> (final \<longrightarrow> st = DS_DEAD_LETTER) \<and> inbox_only s s'"
proof -
  define s1 where
    s1: "s1 = (if final then s\<lparr>db_dispatches := update_where (\<lambda>d. dp_id d = i) exhausted_dispatch (db_dispatches s)\<rparr> else s)"
  from assms obtain d where d: "stored_dispatch s i = Some d" by (auto simp: record_processing_failure_def result_simps)
  let ?retry = "plus_delta now (seconds (retry_delay_seconds (dp_attempt_count d)))"
  let ?d = "if final then exhausted_dispatch d else d"
  from assms d obtain r where r: "record_dispatch_failure i now ?retry code detail s1 = Inr (r, s')" and st: "st = df_state r"
    unfolding s1 by (cases final) (auto simp: record_processing_failure_def update_dispatch_def result_simps)
  have d1: "stored_dispatch s1 i = Some ?d"
    using d stored_dispatch_update [of exhausted_dispatch s1 i s] by (cases final) (simp_all add: s1 exhausted_dispatch_def)
  let ?f = "failed_dispatch now ?retry code detail"
  define mark where "mark = (\<lambda>w :: WebhookRow. w\<lparr>wh_processing_state :=
      (if dp_max_attempts ?d \<le> dp_attempt_count ?d then IN_DEAD_LETTER else IN_RETRY_SCHEDULED),
      wh_last_error_code := Some code, wh_last_error_detail := Some detail\<rparr>)"
  have s': "s' = s1\<lparr>db_dispatches := update_where (\<lambda>d. dp_id d = i) ?f (db_dispatches s1),
      db_webhooks := update_where (\<lambda>w. wh_id w = dp_webhook_event_id ?d) mark (db_webhooks s1)\<rparr>" and "df_state r = dp_state (?f ?d)"
    using r d1 by (auto simp: record_dispatch_failure_def update_dispatch_def update_webhook_def flush_dispatches_def
        mark_def Let_def result_simps checkT_eq_Inr)
  moreover have "stored_dispatch s' i = Some (?f ?d)"
    using d1 stored_dispatch_update [of ?f s' i s1] by (simp add: s' failed_dispatch_def Let_def)
  moreover have "inbox_only s s1" by (simp add: s1 inbox_only_def)
  ultimately show ?thesis
    using st by (auto simp: inbox_only_def s' s1 failed_dispatch_def exhausted_dispatch_def Let_def)
qed

lemma dispatch_of_task_stored:
  assumes "dispatches_ok (db_dispatches s)" "find (dispatch_of_task q) (db_dispatches s) = Some d"
  shows "stored_dispatch s (et_dispatch_id q) = Some d"
proof -
  from assms(2) have "d \<in> set (db_dispatches s)" "dp_id d = et_dispatch_id q"
    by (auto simp: find_Some_iff dispatch_of_task_def)
  with find_unique_key [of dp_id "db_dispatches s" d] assms(1) show ?thesis
    by (simp add: dispatches_ok_def stored_dispatch_def)
qed

lemma process_dispatch_Inr:
  assumes "process_dispatch w clock q s = Inr (status, s')" "dispatches_ok (db_dispatches s)"
  shows "(status = TASK_PROCESSED \<longrightarrow> map_option dp_state (stored_dispatch s' (et_dispatch_id q)) = Some DS_SUCCEEDED)
    \<and> (status \<noteq> TASK_PROCESSED \<longrightarrow> s' = s
         \<and> (status, map_option dp_state (stored_dispatch s (et_dispatch_id q)))
           \<in> {(TASK_ALREADY_PROCESSED, Some DS_SUCCEEDED), (TASK_DEAD_LETTER, Some DS_DEAD_LETTER)})"
proof -
  from assms(1) obtain d where f: "find (dispatch_of_task q) (db_dispatches s) = Some d"
    and rest: "(if dp_state d = DS_SUCCEEDED then returnT TASK_ALREADY_PROCESSED
     else if dp_state d = DS_DEAD_LETTER then returnT TASK_DEAD_LETTER
     else
       bindT (fetch_webhook_for_processing (et_merchant_id q) (et_webhook_event_id q)) (\<lambda>webhook.
       bindT (liftR (event_of_webhook (we_loads w) webhook)) (\<lambda>e.
       process_event_of_webhook w clock q e (document_of_webhook webhook)))) s = Inr (status, s')"
    unfolding process_dispatch_def result_simps by (auto simp: result_simps)
  note d = dispatch_of_task_stored [OF assms(2) f]
  show ?thesis
  proof (cases "dp_state d = DS_SUCCEEDED \<or> dp_state d = DS_DEAD_LETTER")
    case True
    with rest d show ?thesis by (auto simp: returnT_def split: if_splits)
  next
    case False
    with rest obtain webhook s1 e where w: "fetch_webhook_for_processing (et_merchant_id q) (et_webhook_event_id q) s = Inr (webhook, s1)"
      and p: "process_event_of_webhook w clock q e (document_of_webhook webhook) s1 = Inr (status, s')"
      by (auto simp: result_simps)
    from p obtain x1 s2 n s3 ob x2 s4 r s5 x3 s6 b where
      steps: "upsert_provider_entities (clock 0) e (document_of_webhook webhook) s1 = Inr (x1, s2)"
        "persist_normalized_event e (et_webhook_event_id q) (event_correlations e) s2 = Inr (n, s3)"
        "observe_payment e ob s3 = Inr (x2, s4)"
        "process_event (we_recovery w) (we_advice w) (we_zones w) (we_uuids w) (clock 1) (et_merchant_id q) (ev_event_id n) s4 = Inr (r, s5)"
        "verify_signed_event (we_uuids w) e (et_webhook_event_id q) s5 = Inr (x3, s6)"
      and mark: "mark_dispatch_succeeded (et_dispatch_id q) (clock 2) s6 = Inr (b, s')" and status: "status = TASK_PROCESSED"
      unfolding process_event_of_webhook_def result_simps by (auto simp: result_simps)
    have entities: "same_states.stays (upsert_provider_entities (clock 0) e (document_of_webhook webhook))"
      "same_states.stays (observe_payment e ob)"
      unfolding upsert_provider_entities_def observe_payment_def by (intro same_states.stays_intros intake_same_states)+
    have "dispatch_states s6 = dispatch_states s"
      using same_states.staysD [OF intake_same_states(5) w] same_states.staysD [OF entities(1) steps(1)]
        same_states.staysD [OF persist_normalized_same_states steps(2)] same_states.staysD [OF entities(2) steps(3)]
        same_states.staysD [OF recovery_same_services(1) [THEN states_of_services] steps(4)]
        same_states.staysD [OF execution_same_services(5) [THEN states_of_services] steps(5)] by simp
    from stored_dispatch_state [OF this, of "et_dispatch_id q"] d obtain d6 where
      d6: "stored_dispatch s6 (et_dispatch_id q) = Some d6" "dp_state d6 = dp_state d" by auto
    with mark False have "db_dispatches s' = update_where (\<lambda>d. dp_id d = et_dispatch_id q) (succeeded_dispatch (clock 2)) (db_dispatches s6)"
      by (auto simp: mark_dispatch_succeeded_def update_dispatch_def update_webhook_def flush_dispatches_def result_simps checkT_eq_Inr)
    from stored_dispatch_update [OF _ this] d6 status show ?thesis by (simp add: succeeded_dispatch_def)
  qed
qed

text \<open>
  Property C5. Processing a webhook is all or nothing. The task answers that the event is processed exactly when
  everything it does, entities, event, observation, case, decision, verified outcome, was committed
  together with the success of the dispatch; an event that was processed before changes nothing; and
  whatever exception is raised anywhere in between, only the inbox and its dispatches change, and the
  answer is the state, dead letter or retry, that the dispatch is left in.
\<close>

theorem webhook_processing_atomic:
  assumes "process_webhook_event w clock q s = (Inr status, s')" and "dispatches_ok (db_dispatches s)"
  shows "map_option dp_state (stored_dispatch s' (et_dispatch_id q)) = Some (case status of
        TASK_PROCESSED \<Rightarrow> DS_SUCCEEDED | TASK_ALREADY_PROCESSED \<Rightarrow> DS_SUCCEEDED
      | TASK_DEAD_LETTER \<Rightarrow> DS_DEAD_LETTER | TASK_RETRY_SCHEDULED \<Rightarrow> DS_RETRY_SCHEDULED)
    \<and> (status = TASK_PROCESSED \<longrightarrow> process_dispatch w clock q s = Inr (TASK_PROCESSED, s'))
    \<and> (status = TASK_ALREADY_PROCESSED \<longrightarrow> s' = s)
    \<and> (status \<noteq> TASK_PROCESSED \<longrightarrow> inbox_only s s')"
proof (cases "process_dispatch w clock q s")
  case (Inr y)
  then obtain st u where y: "process_dispatch w clock q s = Inr (st, u)" by (cases y) auto
  with assms(1) have st: "st = status" "u = s'"
    by (auto simp: process_webhook_event_def catchJ_def commit_def)
  have "inbox_only s s" by (simp add: inbox_only_def)
  with process_dispatch_Inr [OF y assms(2)] st y show ?thesis by (cases status) auto
next
  case (Inl e)
  with assms(1) have f: "processing_failed clock q e s = (Inr status, s')"
    by (simp add: process_webhook_event_def catchJ_def commit_def)
  show ?thesis
  proof (cases "razorpay_error e")
    case None
    with f obtain st where
      r: "record_processing_failure (et_dispatch_id q) ''TRANSIENT_PROCESSING_ERROR''
        ''transient worker processing failure'' False (clock 3) s = Inr (st, s')"
      and "status = (if st = DS_DEAD_LETTER then TASK_DEAD_LETTER else TASK_RETRY_SCHEDULED)"
      by (auto simp: processing_failed_def bindJ_def commit_def returnJ_def split: sum.splits prod.splits)
    with processing_failure_stored [OF r] show ?thesis by auto
  next
    case (Some c)
    with f obtain st where
      r: "record_processing_failure (et_dispatch_id q) (fst c) (take 500 (snd c)) True (clock 3) s = Inr (st, s')"
      and "status = TASK_DEAD_LETTER"
      by (cases c) (auto simp: processing_failed_def bindJ_def commit_def returnJ_def split: sum.splits prod.splits)
    with processing_failure_stored [OF r] show ?thesis by auto
  qed
qed

end
