(* ===== verification/Playbook_Witnesses.thy ===== *)
theory Playbook_Witnesses
  imports Playbook_Theorems Worker_Theorems Recovery_Service_Witnesses
begin

text \<open>Concrete runs of the playbooks and of the worker's tasks.\<close>


section \<open>An overdue invoice\<close>

definition invoice_case :: RecoveryCase where
  "invoice_case = sample_case\<lparr>rc_workflow_type := B2B_PROMISE_TO_PAY, rc_subject_type := INVOICE, rc_subject_id := ''inv_1''\<rparr>"

definition invoice_row :: CaseRow where
  "invoice_row = sample_row\<lparr>cw_case := invoice_case\<rparr>"

definition overdue_invoice :: InvoiceRow where
  "overdue_invoice = \<lparr>iv_merchant_id = ''merchant_1'', iv_id = ''inv_1'', iv_provider_invoice_id = ''inv_1'',
     iv_customer_id = ''cust_1'', iv_amount_minor = 12000, iv_outstanding_amount_minor = 12000, iv_currency = ''INR'',
     iv_status = ''OVERDUE'', iv_due_at = Aware 100, iv_provider_updated_at = Aware 1000,
     iv_automation_frozen_at = None, iv_updated_at = Aware 1000\<rparr>"

definition receivable_store :: playbook_db where
  "receivable_store = \<lparr>db_audit_entries = [], db_audit_heads = Map.empty, db_uuids = 0,
     db_cases = [invoice_row], db_transitions = [], db_case_events = [],
     db_actions = [], db_attempts = [], db_outcomes = [],
     db_merchants = [], db_customers = [], db_payments = [], db_subscriptions = [], db_webhooks = [],
     db_dispatches = [], db_normalized = [], db_correlations = [], db_policies = [], db_reviews = [], db_receipts = [],
     db_predictions = [], db_interventions = [], db_consents = [], db_incidents = [], db_incident_links = [],
     db_invoices = [overdue_invoice], db_promises = [], db_merchant_events = [], db_responses = [],
     db_escalations = [], db_observations = [], db_dirty_promises = []\<rparr>"

lemma receivable_store_books: "books_ok receivable_store"
proof -
  have "consistent receivable_store"
    by (simp add: consistent_def store_ok_def receivable_store_def cases_ok_single case_row_ok_def invoice_row_def
        invoice_case_def sample_row_def sample_case_def currency_pattern_def is_ascii_upper_def transitions_ok_def
        unique_index_def ledger_ok_def own_entries_def history_ok_def case_log_def TERMINAL_STATES_def)
  moreover have "outcomes_ok []" "attempts_inv receivable_store" "actions_ok []" "attempts_ok []"
    by (simp_all add: outcomes_ok_def attempts_inv_def open_attempts_def receivable_store_def actions_ok_def
        unique_index_def attempts_ok_def)
  ultimately have "outbox_ok receivable_store"
    by (simp add: outbox_ok_def outbox_core_def) (simp add: receivable_store_def)
  then show ?thesis by (simp add: books_ok_def receivable_store_def)
qed

text \<open>A model that reads a dispute, and the customer's words.\<close>

definition dispute_extractor :: ExtractorSettings where
  "dispute_extractor = \<lparr>xs_provider = Some \<lparr>xp_model_version = ''model_1'', xp_extract = (\<lambda>_ _. Inr (PDict
     [(''intent'', PStr ''DISPUTE''), (''confidence_basis_points'', PInt 9000)]))\<rparr>,
     xs_timeout_seconds = 3, xs_max_input_characters = 2000, xs_max_output_tokens = 200\<rparr>"

definition dispute_message :: CustomerMessage where
  "dispute_message = \<lparr>cm_merchant_id = ''merchant_1'', cm_source_response_id = ''mail_1'', cm_invoice_id = ''inv_1'',
     cm_body = ''We never ordered this'', cm_received_at = Some (Aware 5000)\<rparr>"

definition dispute_extraction :: PromiseExtraction where
  "dispute_extraction = \<lparr>px_intent = DISPUTE, px_confidence_basis_points = 9000, px_extractor_version = ''model_1'',
     px_promised_date = None, px_amount_minor = None, px_currency = None\<rparr>"

lemma dispute_extracted: "extract_promise dispute_extractor (cm_body dispute_message) = Inr dispute_extraction"
  by code_simp

lemma dispute_recorded:
  "\<exists>r s1. record_customer_response dispute_extractor (Aware 6000) dispute_message receivable_store = Inr (r, s1)
    \<and> sp_disposition r = ''AUTOMATION_FROZEN_HUMAN_ESCALATION'' \<and> s1 \<noteq> receivable_store"
proof -
  have case1: "active_subject invoice_row = (''merchant_1'', B2B_PROMISE_TO_PAY, INVOICE, ''inv_1'')"
    "rc_state (cw_case invoice_row) \<notin> TERMINAL_STATES"
    by (simp_all add: active_subject_def invoice_row_def invoice_case_def sample_row_def sample_case_def TERMINAL_STATES_def)
  let ?q = "response_request dispute_message (Aware 5000) overdue_invoice ''case_1'' dispute_extraction"
  have row: "responses_ok [response_row ?q]"
    by (simp add: responses_ok_def response_row_ok_def response_row_def response_request_def dispute_extraction_def)
  have id: "rc_case_id (cw_case invoice_row) = ''case_1''"
    by (simp add: invoice_row_def invoice_case_def sample_row_def sample_case_def)
  let ?e = "response_escalation dispute_message (Aware 5000) ''case_1'' (rp_id (response_row ?q))"
  let ?v = "freeze_invoice ''DISPUTED'' (Aware 5000) overdue_invoice"
  have ok: "invoices_ok [?v]" "escalations_ok [escalation_row ?e ''CUSTOMER_DISPUTE'']" "promises_ok []"
    by (simp_all add: invoices_ok_def invoice_row_ok_def overdue_invoice_def freeze_invoice_def currency_pattern_def
        is_ascii_upper_def escalations_ok_def escalation_row_def promises_ok_def)
  have tables: "db_invoices receivable_store = [overdue_invoice]" "db_cases receivable_store = [invoice_row]"
    "db_responses receivable_store = []" "db_escalations receivable_store = []" "db_promises receivable_store = []"
    by (simp_all add: receivable_store_def)
  have keys: "invoice_key overdue_invoice = (''merchant_1'', ''inv_1'')"
    by (simp add: invoice_key_def overdue_invoice_def)
  have message: "cm_merchant_id dispute_message = ''merchant_1''" "cm_invoice_id dispute_message = ''inv_1''"
    "cm_received_at dispute_message = Some (Aware 5000)"
    by (simp_all add: dispute_message_def)
  let ?s1 = "db_responses_update (\<lambda>rs. rs @ [response_row ?q]) receivable_store"
  have stored: "store_customer_response ?q receivable_store = Inr ((response_row ?q, True), ?s1)"
    using row tables by (simp add: evidence_utc_def store_customer_response_def insert_new_def run_tx checkT_def Let_def response_request_def)
  let ?s2 = "db_escalations_update (\<lambda>es. es @ [escalation_row ?e ''CUSTOMER_DISPUTE'']) (?s1\<lparr>db_invoices := [?v], db_promises := []\<rparr>)"
  have frozen: "freeze_dispute_and_escalate ?e ?s1 = Inr (escalation_row ?e ''CUSTOMER_DISPUTE'', ?s2)"
    using ok tables keys
    by (simp add: evidence_utc_def freeze_dispute_and_escalate_def update_invoices_def flush_invoices_def close_active_promises_def
        update_promises_def store_receivable_escalation_def insert_new_def run_tx checkT_def Let_def
        response_escalation_def message)
  have "record_customer_response dispute_extractor (Aware 6000) dispute_message receivable_store
      = Inr (\<lparr>sp_response_id = rp_id (response_row ?q), sp_case_id = ''case_1'', sp_intent = DISPUTE,
           sp_disposition = ''AUTOMATION_FROZEN_HUMAN_ESCALATION'', sp_promise_id = None,
           sp_escalation_id = Some (ex_escalation_id ?e)\<rparr>, ?s2)"
    using stored frozen case1
    by (simp add: evidence_utc_def record_customer_response_def invoice_def one_or_noneT_def find_active_case_def run_tx tables keys message
        dispute_extracted id act_on_response_def escalate_response_def dispute_extraction_def Let_def)
  moreover have "?s2 \<noteq> receivable_store" by (simp add: receivable_store_def)
  ultimately show ?thesis by auto
qed

section \<open>A broken promise\<close>

definition sample_worker :: WorkerEnvironment where
  "sample_worker = \<lparr>we_loads = (\<lambda>_. None), we_recovery = due_settings, we_advice = advise default_graph (\<lambda>_. slow_world),
     we_zones = sample_zones, we_uuids = sample_uuids,
     we_settings = \<lparr>ws_event_dispatch_batch_size = 100, ws_event_dispatch_stale_after_seconds = 60,
       ws_action_provider = ''SIMULATOR'', ws_action_dispatch_batch_size = 100,
       ws_action_dispatch_stale_after_seconds = 60, ws_action_reconciliation_batch_size = 100,
       ws_action_unknown_ttl_seconds = 900, ws_deferred_case_reevaluation_batch_size = 100,
       ws_portfolio_maintenance_merchant_batch_size = 100,
       ws_customer_intervention_maintenance_batch_size = 100, ws_razorpay_credentials = False\<rparr>\<rparr>"

definition sample_promise :: PromiseRow where
  "sample_promise = \<lparr>pr_merchant_id = ''merchant_1'', pr_id = ''promise_1'', pr_recovery_case_id = ''case_1'',
     pr_invoice_id = ''inv_1'', pr_customer_id = ''cust_1'', pr_customer_response_id = ''response_1'',
     pr_amount_minor = 12000, pr_currency = ''INR'', pr_promised_for = Aware 4000, pr_reminder_at = Aware 2000,
     pr_status = ''ACTIVE'', pr_extractor_version = ''model_1'', pr_extraction_confidence_basis_points = 9000,
     pr_fulfilled_at = None, pr_broken_at = None, pr_reminder_sent_at = None, pr_reminder_action_id = Some ''action_1'',
     pr_created_at = Aware 1500, pr_updated_at = Aware 2000\<rparr>"

definition promise_store :: playbook_db where
  "promise_store = receivable_store\<lparr>db_invoices := [overdue_invoice\<lparr>iv_status := ''PROMISED''\<rparr>],
     db_promises := [sample_promise]\<rparr>"

definition broken_promise :: PromiseRow where
  "broken_promise = sample_promise\<lparr>pr_status := ''BROKEN'', pr_broken_at := Some (Aware 5000), pr_updated_at := Aware 5000\<rparr>"

lemma promise_store_committed: "committed promise_store" "unpaid promise_store"
  by (simp_all add: committed_def unpaid_def promise_store_def receivable_store_def promises_ok_def promise_row_ok_def
      sample_promise_def overdue_invoice_def currency_pattern_def is_ascii_upper_def)

lemma promise_broken:
  "\<exists>r s'. maintain_promises_tx sample_worker (Aware 5000) promise_store = Inr (r, s') \<and> db_promises s' = [broken_promise]"
proof -
  let ?v = "overdue_invoice\<lparr>iv_status := ''PROMISED''\<rparr>"
  have tables: "db_invoices promise_store = [?v]" "db_promises promise_store = [sample_promise]"
    "db_escalations promise_store = []" "db_dirty_promises promise_store = []"
    by (simp_all add: promise_store_def receivable_store_def)
  have due: "due_promises (Aware 5000) PROMISE_MAINTENANCE_BATCH_SIZE True promise_store = Inr ([sample_promise], promise_store)"
    by (simp add: due_promises_def evidence_utc_def run_tx tables PROMISE_MAINTENANCE_BATCH_SIZE_def promise_due_def
        due_column_def session_promise_def)
      (simp add: sample_promise_def)
  have inv: "invoice ''merchant_1'' ''inv_1'' promise_store = Inr (Some ?v, promise_store)"
    by (simp add: invoice_def run_tx tables one_or_noneT_def invoice_key_def overdue_invoice_def)
  let ?e = "\<lparr>ex_escalation_id = broken_escalation_id sample_promise, ex_merchant_id = pr_merchant_id sample_promise,
         ex_case_id = pr_recovery_case_id sample_promise, ex_invoice_id = pr_invoice_id sample_promise,
         ex_customer_response_id = pr_customer_response_id sample_promise, ex_occurred_at = Aware 5000\<rparr>"
  let ?x = "freeze_invoice ''ESCALATED'' (Aware 5000) ?v"
  have ok: "invoices_ok [?x]" "escalations_ok [escalation_row ?e ''BROKEN_PROMISE_TO_PAY'']" "promises_ok [broken_promise]"
    by (simp_all add: invoices_ok_def invoice_row_ok_def overdue_invoice_def freeze_invoice_def currency_pattern_def
        is_ascii_upper_def escalations_ok_def escalation_row_def promises_ok_def promise_row_ok_def broken_promise_def
        sample_promise_def)
  let ?s1 = "db_escalations_update (\<lambda>es. es @ [escalation_row ?e ''BROKEN_PROMISE_TO_PAY''])
    (promise_store\<lparr>db_dirty_promises := [broken_promise], db_invoices := [?x]\<rparr>)"
  have keys: "pr_merchant_id sample_promise = ''merchant_1''" "pr_invoice_id sample_promise = ''inv_1''"
    "invoice_key ?v = (''merchant_1'', ''inv_1'')" "iv_status ?v = ''PROMISED''"
    by (simp_all add: sample_promise_def invoice_key_def overdue_invoice_def)
  have settled: "settle_overdue_promise (Aware 5000) sample_promise promise_store
      = Inr ((maintenance_result sample_promise ''BROKEN_PROMISE_ESCALATED'')
            \<lparr>pm_escalation_id := Some (broken_escalation_id sample_promise)\<rparr>, ?s1)"
    using inv ok tables
    by (simp add: settle_overdue_promise_def mark_broken_promise_and_escalate_def change_promise_def evidence_utc_def
        update_invoices_def flush_invoices_def store_receivable_escalation_def insert_new_def run_tx checkT_def Let_def
        keys broken_promise_def)
  have none: "due_promises (Aware 5000) PROMISE_MAINTENANCE_BATCH_SIZE False ?s1 = Inr ([], ?s1)"
    by (simp add: due_promises_def evidence_utc_def run_tx tables PROMISE_MAINTENANCE_BATCH_SIZE_def promise_due_def)
      (simp add: sample_promise_def)
  have key: "promise_key broken_promise = promise_key sample_promise"
    by (simp add: promise_key_def broken_promise_def)
  show ?thesis
    using due settled none ok key
    by (simp add: maintain_promises_tx_def escalate_broken_promises_def schedule_due_promise_reminders_def
        flush_promises_def run_tx evidence_utc_def checkT_def tables session_promise_def)
qed

lemma promise_broken_run:
  "\<exists>s'. platform_run promise_store s' \<and> db_promises s' = [broken_promise]"
proof -
  obtain r s' where "maintain_promises_tx sample_worker (Aware 5000) promise_store = Inr (r, s')" "db_promises s' = [broken_promise]"
    using promise_broken by blast
  moreover from this have "snd (maintain_promises sample_worker (\<lambda>_. Aware 5000) promise_store) = s'"
    by (simp add: maintain_promises_def commit_def)
  ultimately show ?thesis
    using platform_run.promises [OF platform_run.none, of promise_store sample_worker "\<lambda>_. Aware 5000"] by auto
qed

theorem promises_are_final_witness:
  "\<exists>s'. platform_run promise_store s' \<and> sample_promise \<notin> set (db_promises s')
    \<and> (\<exists>p'\<in>set (db_promises s'). promise_terms p' = promise_terms sample_promise
         \<and> pr_reminder_action_id p' = Some ''action_1'')"
proof -
  obtain s' where s': "platform_run promise_store s'" "db_promises s' = [broken_promise]" using promise_broken_run by blast
  have "sample_promise \<in> set (db_promises promise_store)" by (simp add: promise_store_def)
  moreover have "pr_reminder_action_id sample_promise = Some ''action_1''" by (simp add: sample_promise_def)
  moreover have "sample_promise \<noteq> broken_promise" by (simp add: broken_promise_def sample_promise_def)
  ultimately show ?thesis
    using promises_are_final [OF s'(1) promise_store_committed(1)] s' by fastforce
qed


theorem dispute_is_final_witness:
  "\<exists>r s1 s2. record_customer_response dispute_extractor (Aware 6000) dispute_message receivable_store = Inr (r, s1)
    \<and> platform_run s1 s2 \<and> (\<exists>v\<in>set (db_invoices s2). invoice_key v = (''merchant_1'', ''inv_1'') \<and> iv_status v = ''DISPUTED'')"
proof -
  obtain r s1 where r: "record_customer_response dispute_extractor (Aware 6000) dispute_message receivable_store = Inr (r, s1)"
    "sp_disposition r = ''AUTOMATION_FROZEN_HUMAN_ESCALATION''" using dispute_recorded by blast
  have run: "platform_run s1 (snd (maintain_promises sample_worker (\<lambda>_. Aware 7000) s1))"
    by (rule platform_run.promises [OF platform_run.none])
  have "cm_merchant_id dispute_message = ''merchant_1''" "cm_invoice_id dispute_message = ''inv_1''"
    by (simp_all add: dispute_message_def)
  with dispute_is_final [OF r run] r(1) run show ?thesis by auto
qed

theorem platform_keeps_books_witness:
  "\<exists>s'. platform_run receivable_store s' \<and> books_ok s' \<and> s' \<noteq> receivable_store"
proof -
  obtain r s1 where r: "record_customer_response dispute_extractor (Aware 6000) dispute_message receivable_store = Inr (r, s1)"
    "s1 \<noteq> receivable_store" using dispute_recorded by blast
  have run: "platform_run receivable_store s1" by (rule platform_run.response [OF platform_run.none r(1)])
  with platform_keeps_books [OF run receivable_store_books] r(2) show ?thesis by blast
qed

theorem extraction_always_answers_witness:
  "strip ''We never ordered this'' \<noteq> [] \<and> (\<exists>e. extract_promise dispute_extractor ''We never ordered this'' = Inr e
    \<and> post_init_extraction e = Inr e)"
proof -
  have "strip ''We never ordered this'' \<noteq> []" by code_simp
  with extraction_always_answers [OF this, of dispute_extractor] show ?thesis by blast
qed


section \<open>A webhook without a body\<close>

definition lost_dispatch :: DispatchRow where
  "lost_dispatch = \<lparr>dp_id = ''dispatch_1'', dp_merchant_id = ''merchant_1'', dp_webhook_event_id = ''webhook_1'',
     dp_normalized_event_id = None, dp_queue_name = ''events'', dp_state = DS_PUBLISHED, dp_attempt_count = 1,
     dp_max_attempts = 3, dp_replay_count = 0, dp_available_at = Aware 0, dp_lease_token = Some ''lease_1'',
     dp_lease_expires_at = Some (Aware 9000), dp_broker_task_id = Some ''task_1'', dp_last_error_code = None,
     dp_last_error_detail = None, dp_created_at = Aware 0, dp_published_at = Some (Aware 100), dp_completed_at = None,
     dp_dead_lettered_at = None, dp_last_replayed_at = None, dp_last_replayed_by = None\<rparr>"

definition lost_store :: playbook_db where
  "lost_store = receivable_store\<lparr>db_dispatches := [lost_dispatch]\<rparr>"

definition lost_task :: EventTask where
  "lost_task = \<lparr>et_dispatch_id = ''dispatch_1'', et_merchant_id = ''merchant_1'', et_webhook_event_id = ''webhook_1''\<rparr>"

lemma lost_processed:
  "\<exists>s'. process_webhook_event sample_worker (\<lambda>n. Aware (1000 + int n)) lost_task lost_store = (Inr TASK_RETRY_SCHEDULED, s')"
proof -
  have d: "db_dispatches lost_store = [lost_dispatch]" "db_webhooks lost_store = []"
    by (simp_all add: lost_store_def receivable_store_def)
  have p: "process_dispatch sample_worker (\<lambda>n. Aware (1000 + int n)) lost_task lost_store
      = Inl (LookupError ''verified webhook body is unavailable'')"
    by (simp add: process_dispatch_def run_tx d fetch_webhook_for_processing_def one_or_noneT_def event_of_webhook_def)
      (simp add: dispatch_of_task_def lost_dispatch_def lost_task_def)
  have ok: "dispatches_ok [failed_dispatch now retry code detail lost_dispatch]" for now retry code detail
    by (simp add: dispatches_ok_def dispatch_row_ok_def failed_dispatch_def lost_dispatch_def Let_def)
  have id: "dp_id lost_dispatch = et_dispatch_id lost_task" by (simp add: lost_dispatch_def lost_task_def)
  have state: "dp_state (failed_dispatch now retry code detail lost_dispatch) = DS_RETRY_SCHEDULED" for now retry code detail
    by (simp add: failed_dispatch_def lost_dispatch_def)
  have "\<exists>s'. record_processing_failure (et_dispatch_id lost_task) ''TRANSIENT_PROCESSING_ERROR''
      ''transient worker processing failure'' False (Aware 1003) lost_store = Inr (DS_RETRY_SCHEDULED, s')"
    using ok by (simp add: record_processing_failure_def record_dispatch_failure_def stored_dispatch_def update_dispatch_def
        update_webhook_def flush_dispatches_def run_tx checkT_def d id Let_def state)
  then show ?thesis
    by (auto simp: process_webhook_event_def catchJ_def commit_def p processing_failed_def bindJ_def returnJ_def)
qed

theorem webhook_processing_atomic_witness:
  "\<exists>s'. process_webhook_event sample_worker (\<lambda>n. Aware (1000 + int n)) lost_task lost_store = (Inr TASK_RETRY_SCHEDULED, s')
    \<and> map_option dp_state (stored_dispatch s' ''dispatch_1'') = Some DS_RETRY_SCHEDULED \<and> inbox_only lost_store s'"
proof -
  obtain s' where s': "process_webhook_event sample_worker (\<lambda>n. Aware (1000 + int n)) lost_task lost_store
      = (Inr TASK_RETRY_SCHEDULED, s')" using lost_processed by blast
  have "dispatches_ok (db_dispatches lost_store)"
    by (simp add: dispatches_ok_def dispatch_row_ok_def lost_store_def lost_dispatch_def)
  moreover have "et_dispatch_id lost_task = ''dispatch_1''" by (simp add: lost_task_def)
  ultimately show ?thesis using webhook_processing_atomic [OF s'] s' by simp
qed

section \<open>An incident that is closed\<close>

definition upi_incident :: IncidentRow where
  "upi_incident = \<lparr>in_merchant_id = ''merchant_1'', in_id = ''incident_1'', in_scope = GATEWAY, in_channel = None,
     in_starts_at = Aware 0, in_ends_at = Aware (minutes 30), in_status = INCIDENT_ACTIVE,
     in_dimension_key = ''UPI|HDFC|GATEWAY_UNAVAILABLE'', in_payment_method = Some ''UPI'', in_issuer_family = Some ''HDFC'',
     in_error_family = Some ''GATEWAY_UNAVAILABLE'', in_baseline_total = 40, in_baseline_failures = 2,
     in_current_total = 10, in_current_failures = 6, in_baseline_rate = 500, in_current_rate = 6000,
     in_threshold_version = PLAYBOOK_FEATURE_VERSION, in_evidence = [], in_clear_window_count = 0, in_resolved_at = None,
     in_resolution_reason = None, in_created_at = Aware 0, in_updated_at = Aware 0\<rparr>"

definition upi_clear :: "int \<Rightarrow> DegradationAssessment" where
  "upi_clear t = quiet_assessment default_degradation_policy ''merchant_1'' (Aware t) upi_incident"

definition upi_counted :: IncidentRow where
  "upi_counted = cleared_incident (upi_clear (minutes 15)) default_degradation_policy upi_incident"

definition upi_closed :: IncidentRow where
  "upi_closed = resolved_incident (Aware (minutes 30))
     (cleared_incident (upi_clear (minutes 30)) default_degradation_policy upi_counted)"

definition sample_merchant :: MerchantRow where
  "sample_merchant = \<lparr>mc_id = ''merchant_1'', mc_display_name = ''Shop'', mc_provider = ''RAZORPAY'',
     mc_provider_account_id = None, mc_status = ''ACTIVE'', mc_updated_at = Aware 0\<rparr>"

definition incident_store :: "IncidentRow \<Rightarrow> playbook_db" where
  "incident_store i = receivable_store\<lparr>db_merchants := [sample_merchant], db_incidents := [i]\<rparr>"

lemma incident_store_tables:
  "db_merchants (incident_store i) = [sample_merchant]" "db_incidents (incident_store i) = [i]"
  "db_observations (incident_store i) = []" "db_interventions (incident_store i) = []" "db_cases (incident_store i) = [invoice_row]"
  "db_incident_links (incident_store i) = []" "(incident_store i)\<lparr>db_incidents := [j]\<rparr> = incident_store j"
  by (simp_all add: incident_store_def receivable_store_def)

definition upi_like :: "IncidentRow \<Rightarrow> bool" where
  "upi_like i \<longleftrightarrow> in_merchant_id i = ''merchant_1'' \<and> in_status i = INCIDENT_ACTIVE
     \<and> in_dimension_key i = in_dimension_key upi_incident \<and> in_payment_method i = in_payment_method upi_incident
     \<and> in_issuer_family i = in_issuer_family upi_incident \<and> in_error_family i = in_error_family upi_incident"

lemma upi_clear_fields:
  "da_merchant_id (upi_clear t) = ''merchant_1''" "da_evaluated_at (upi_clear t) = Aware t" "\<not> da_degraded (upi_clear t)"
  "dimension_key (upi_clear t) = in_dimension_key upi_incident"
  "upi_like i \<Longrightarrow> quiet_assessment default_degradation_policy ''merchant_1'' (Aware t) i = upi_clear t"
  by (simp_all add: upi_clear_def quiet_assessment_def upi_incident_def unknown_or_def dimension_key_def or_default_def upi_like_def)

lemma portfolio_maintained:
  assumes "upi_like i"
    and "\<And>n. apply_degradation_assessment (upi_clear t) default_degradation_policy n (incident_store i) = Inr (Some j, incident_store j)"
  shows "\<exists>r. maintain_portfolio_tx sample_worker (Aware t) (incident_store i) = Inr (r, incident_store j)"
proof -
  have i: "in_merchant_id i = ''merchant_1''" "in_status i = INCIDENT_ACTIVE" using assms(1) by (simp_all add: upi_like_def)
  have m: "mc_id sample_merchant = ''merchant_1''" by (simp add: sample_merchant_def)
  have none: "assess_payment_degradation [] (Aware t) default_degradation_policy = Inr []"
    by (simp add: assess_payment_degradation_def utc_def Let_def)
  have "maintain_portfolio default_degradation_policy (Aware t) ''merchant_1'' (incident_store i) = Inr ([Some j], incident_store j)"
    using assms(2) by (simp add: maintain_portfolio_def lock_merchant_def payment_observations_def active_incidents_for_maintenance_def
        evidence_utc_def run_tx incident_store_tables i m none portfolio_assessments_def upi_clear_fields(5) [OF assms(1)]
        apply_assessment_def)
  moreover have "flush_interventions (incident_store j) = Inr ((), incident_store j)"
    by (simp add: flush_interventions_def checkT_def run_tx incident_store_tables interventions_ok_def unique_index_def)
  moreover have "portfolio_merchant_ids (Aware u) 100 (incident_store i) = Inr ([''merchant_1''], incident_store i)" for u
    by (simp add: portfolio_merchant_ids_def evidence_utc_def run_tx incident_store_tables i del: set_filter)
  ultimately show ?thesis
    by (simp add: maintain_portfolio_tx_def maintain_portfolios_def evidence_utc_def run_tx
        incident_store_tables i sample_worker_def close_expired_customer_interventions_def Let_def)
qed

lemma upi_rows:
  "upi_like upi_incident" "upi_like upi_counted" "incidents_ok [upi_incident]" "incidents_ok [upi_counted]" "incidents_ok [upi_closed]"
  "in_updated_at upi_incident = Aware 0" "in_updated_at upi_counted = Aware (minutes 15)"
  "in_clear_window_count upi_incident = 0" "in_clear_window_count upi_counted = 1"
  "incident_key upi_counted = incident_key upi_incident" "incident_key upi_closed = incident_key upi_incident"
  "in_merchant_id upi_closed = ''merchant_1''" "in_status upi_closed = INCIDENT_RESOLVED"
  by (simp_all add: upi_like_def incidents_ok_def unique_index_def incident_row_ok_def upi_incident_def upi_counted_def upi_closed_def
      cleared_incident_def resolved_incident_def incident_key_def upi_clear_fields(2) default_degradation_policy_def
      minutes_def seconds_def max_def)

lemma upi_found:
  "upi_like i \<Longrightarrow> active_incident_of ''merchant_1'' (in_dimension_key upi_incident) (incident_store i) = Inr (Some i, incident_store i)"
  by (simp add: active_incident_of_def run_tx incident_store_tables one_or_noneT_def upi_like_def)

lemma changed_in_store:
  "incident_key j = incident_key i \<Longrightarrow> incidents_ok [j] \<Longrightarrow> change_incident j (incident_store i) = Inr ((), incident_store j)"
  by (simp add: change_incident_def flush_incidents_def run_tx checkT_def incident_store_tables)

lemma upi_applied:
  "apply_degradation_assessment (upi_clear (minutes 15)) default_degradation_policy n (incident_store upi_incident)
     = Inr (Some upi_counted, incident_store upi_counted)"
  "apply_degradation_assessment (upi_clear (minutes 30)) default_degradation_policy n (incident_store upi_counted)
     = Inr (Some upi_closed, incident_store upi_closed)"
proof -
  have window: "dp_current_window default_degradation_policy = minutes 15" "dp_clear_consecutive_windows default_degradation_policy = 2"
    "\<not> Aware (minutes 15) < plus_delta (Aware 0) (minutes 15)" "\<not> Aware (minutes 30) < plus_delta (Aware (minutes 15)) (minutes 15)"
    by (simp_all add: default_degradation_policy_def minutes_def seconds_def less_datetime_def)
  have merchant: "merchant_for_assessment (upi_clear t) = Inr ''merchant_1''" for t
    by (simp add: merchant_for_assessment_def upi_clear_fields)
  have "in_clear_window_count (cleared_incident (upi_clear t) default_degradation_policy i) = in_clear_window_count i + 1" for t i
    by (simp add: cleared_incident_def)
  note rows = this upi_rows upi_clear_fields
  show "apply_degradation_assessment (upi_clear (minutes 15)) default_degradation_policy n (incident_store upi_incident)
     = Inr (Some upi_counted, incident_store upi_counted)"
    by (simp add: apply_degradation_assessment_def run_tx merchant rows upi_found window Let_def upi_counted_def [symmetric]
        changed_in_store)
  have "resolve_incident (cleared_incident (upi_clear (minutes 30)) default_degradation_policy upi_counted) (Aware (minutes 30))
      (incident_store upi_counted) = Inr (upi_closed, incident_store upi_closed)"
    by (simp add: resolve_incident_def upi_closed_def [symmetric] run_tx changed_in_store rows linked_cases_def checkT_def
        incident_store_tables incident_links_ok_def Let_def)
      (simp add: cases_ok_single case_row_ok_def invoice_row_def invoice_case_def sample_row_def sample_case_def
        currency_pattern_def is_ascii_upper_def TERMINAL_STATES_def)
  then show "apply_degradation_assessment (upi_clear (minutes 30)) default_degradation_policy n (incident_store upi_counted)
     = Inr (Some upi_closed, incident_store upi_closed)"
    by (simp add: apply_degradation_assessment_def run_tx merchant rows upi_found window Let_def)
      (simp add: minutes_def seconds_def)
qed

lemma upi_run: "platform_run (incident_store upi_incident) (incident_store upi_closed)"
proof -
  have step: "platform_run s (incident_store j)"
    if "platform_run s (incident_store i)" "maintain_portfolio_tx sample_worker (Aware t) (incident_store i) = Inr (r, incident_store j)"
    for s i j t r
    using platform_run.portfolio [OF that(1), of sample_worker "\<lambda>_. Aware t"] that(2)
    by (simp add: maintain_portfolio_task_def commit_def)
  obtain r1 r2 where "maintain_portfolio_tx sample_worker (Aware (minutes 15)) (incident_store upi_incident) = Inr (r1, incident_store upi_counted)"
    "maintain_portfolio_tx sample_worker (Aware (minutes 30)) (incident_store upi_counted) = Inr (r2, incident_store upi_closed)"
    using portfolio_maintained [OF upi_rows(1) upi_applied(1)] portfolio_maintained [OF upi_rows(2) upi_applied(2)] by blast
  then show ?thesis by (blast intro: step platform_run.none)
qed

lemma upi_windows:
  "incidents_ok (db_incidents (incident_store upi_incident))"
  "incident_window (incident_store upi_incident) (''merchant_1'', in_dimension_key upi_incident) = Some (0, Aware 0)"
  "incident_window (incident_store upi_closed) (''merchant_1'', in_dimension_key upi_incident) = None"
  using upi_rows by (simp_all add: incident_store_tables incident_window_def open_in_def upi_like_def)



end
