(* ===== verification/Reminder_Witness.thy ===== *)
theory Reminder_Witness
  imports Playbook_Witnesses
begin

text \<open>A due promise whose reminder the policy authorises.\<close>


section \<open>The store\<close>

definition noon :: datetime where
  "noon = Aware 43200000000"

definition reminder_policy :: MerchantPolicySnapshot where
  "reminder_policy = sample_policy\<lparr>mp_allowed_actions := {SCHEDULE_PROMISE_REMINDER}, mp_effective_at := Aware 0\<rparr>"

definition waiting_promise :: PromiseRow where
  "waiting_promise = sample_promise\<lparr>pr_reminder_action_id := None, pr_promised_for := Aware (days 3)\<rparr>"

definition waiting_case :: RecoveryCase where
  "waiting_case = invoice_case\<lparr>rc_state := DECISION_PENDING, rc_state_version := 3\<rparr>"

definition waiting_row :: CaseRow where
  "waiting_row = invoice_row\<lparr>cw_case := waiting_case\<rparr>"

definition given_consent :: ConsentRow where
  "given_consent = \<lparr>cs_merchant_id = ''merchant_1'', cs_customer_id = ''cust_1'', cs_channel = EMAIL, cs_state = GRANTED,
     cs_opted_out = False, cs_source = ''signup'', cs_effective_at = Aware 0\<rparr>"

definition reminder_state :: "CaseRow list \<Rightarrow> CaseTransition list \<Rightarrow> AuditEntry list \<Rightarrow> (string \<rightharpoonup> int \<times> string) \<Rightarrow> nat \<Rightarrow> playbook_db" where
  "reminder_state rows ts es hs n = receivable_store\<lparr>db_invoices := [overdue_invoice\<lparr>iv_status := ''PROMISED''\<rparr>],
     db_promises := [waiting_promise], db_consents := [given_consent],
     db_policies := [policy_row ''merchant_1'' reminder_policy ''alice''],
     db_cases := rows, db_transitions := ts, db_audit_entries := es, db_audit_heads := hs, db_uuids := n\<rparr>"

lemma reminder_state_tables:
  "db_cases (reminder_state rows ts es hs n) = rows" "db_transitions (reminder_state rows ts es hs n) = ts"
  "db_promises (reminder_state rows ts es hs n) = [waiting_promise]" "db_dirty_promises (reminder_state rows ts es hs n) = []"
  "db_consents (reminder_state rows ts es hs n) = [given_consent]" "db_incidents (reminder_state rows ts es hs n) = []"
  "db_incident_links (reminder_state rows ts es hs n) = []" "db_receipts (reminder_state rows ts es hs n) = []"
  "db_actions (reminder_state rows ts es hs n) = []"
  "db_policies (reminder_state rows ts es hs n) = [policy_row ''merchant_1'' reminder_policy ''alice'']"
  by (simp_all add: reminder_state_def receivable_store_def)

lemma reminder_state_moved:
  "(reminder_state rows ts es hs n)\<lparr>db_cases := rows', db_transitions := ts', db_audit_entries := es', db_audit_heads := hs',
     db_uuids := n'\<rparr> = reminder_state rows' ts' es' hs' n'"
  by (simp add: reminder_state_def)

lemma reminder_policy_in_force:
  "effective_policy sample_zones ''merchant_1'' noon (reminder_state rows ts es hs n) = Inr (reminder_policy, reminder_state rows ts es hs n)"
proof -
  have wf: "wf_policy sample_zones reminder_policy" "printable_policy reminder_policy" by code_simp+
  have "printed_policy reminder_policy = reminder_policy"
    by (simp add: printed_policy_def whole_second_def reminder_policy_def sample_policy_def duration_defs day_us_def)
  then show ?thesis
    using policy_from_canonical_document [OF wf]
    by (simp add: effective_policy_def run_tx reminder_state_tables policy_row_def one_or_noneT_def)
      (simp add: reminder_policy_def noon_def)
qed


section \<open>The transitions\<close>

lemma flushed_reminder_state: "flush_promises (reminder_state rows ts es hs n) = Inr ((), reminder_state rows ts es hs n)"
proof -
  have "promises_ok [waiting_promise]"
    by (simp add: promises_ok_def promise_row_ok_def waiting_promise_def sample_promise_def currency_pattern_def is_ascii_upper_def)
  moreover have "(reminder_state rows ts es hs n)\<lparr>db_promises := [waiting_promise], db_dirty_promises := []\<rparr> = reminder_state rows ts es hs n"
    by (simp add: reminder_state_def receivable_store_def)
  ultimately show ?thesis
    by (simp add: flush_promises_def run_tx checkT_def reminder_state_tables session_promise_def)
qed

lemma persisted:
  assumes "next_row c q r ts = Some (u, r', t)"
    and "sv_diagnosis q = None" "\<not> sv_increment_retry q" "sv_latest_event q = None"
  shows "\<exists>es' hs' n'. persist_transition uuids q c (reminder_state [r] ts es hs n)
    = Inr (u, reminder_state [r'] (ts @ [t]) es' hs' n')"
proof -
  from next_row_stored [OF assms(1), of "reminder_state [r] ts es hs n" uuids] obtain es' hs' n' where
    s: "service_transition uuids q c (reminder_state [r] ts es hs n) = Inr (u, reminder_state [r'] (ts @ [t]) es' hs' n')"
    by (auto simp: reminder_state_tables reminder_state_moved)
  then obtain v t' row where "transition_case c (service_request c q) = Inr (v, t')" "u = v"
    "apply_transition uuids v t' None (reminder_state [r] ts es hs n) = Inr (row, reminder_state [r'] (ts @ [t]) es' hs' n')"
    using assms(2-4) by (auto simp: service_transition_def result_simps)
  then show ?thesis
    by (intro exI [of _ es'] exI [of _ hs'] exI [of _ n']) (simp add: persist_transition_def run_tx flushed_reminder_state)
qed

definition remind_check :: ServiceTransition where
  "remind_check = playbook_move POLICY_CHECK ''PROMISE_REMINDER_POLICY_CHECK'' waiting_promise reminder_policy noon"

definition remind_checked :: RecoveryCase where
  "remind_checked = waiting_case\<lparr>rc_state := POLICY_CHECK, rc_state_version := 4, rc_updated_at := noon\<rparr>"

definition remind_evaluation :: PolicyEvaluationInput where
  "remind_evaluation = reminder_input remind_checked waiting_promise noon
     [reminder_candidate waiting_promise, no_reminder_candidate waiting_promise] ([(EMAIL, GRANTED)], {}) []"

definition remind_decision :: PolicyDecision where
  "remind_decision = \<lparr>pd_selected_action = reminder_candidate waiting_promise, pd_result = PROCEED,
     pd_reason_codes = [''POLICY_AUTHORIZED''], pd_resulting_state = READY, pd_next_evaluation_at = None,
     pd_evaluated_candidates = [reminder_candidate waiting_promise]\<rparr>"

lemma remind_evaluated: "post_init_evaluation remind_evaluation = Inr remind_evaluation"
  by code_simp

lemma remind_decided: "evaluate_policy sample_zones reminder_policy remind_evaluation = Inr remind_decision"
  by code_simp

definition reminder_step :: "CaseState \<Rightarrow> CaseState \<Rightarrow> int \<Rightarrow> string \<Rightarrow> CaseTransition" where
  "reminder_step before after version reason = \<lparr>ct_case_id = ''case_1'', ct_merchant_id = ''merchant_1'',
     ct_before_state = before, ct_after_state = after, ct_before_version = version, ct_after_version = version + 1,
     ct_actor = ''RECEIVABLES_PLAYBOOK'', ct_reason_code = reason, ct_reason_detail = None,
     ct_correlation_id = ''promise:promise_1'', ct_policy_version = mp_version reminder_policy,
     ct_authoritative_evidence_reference = None, ct_occurred_at = noon\<rparr>"

definition checked_step :: CaseTransition where
  "checked_step = reminder_step DECISION_PENDING POLICY_CHECK 3 ''PROMISE_REMINDER_POLICY_CHECK''"

definition remind_move :: ServiceTransition where
  "remind_move = reminder_transition remind_decision waiting_promise reminder_policy noon"

definition reminded_case :: RecoveryCase where
  "reminded_case = remind_checked\<lparr>rc_state := READY, rc_state_version := 5\<rparr>"

definition ready_step :: CaseTransition where
  "ready_step = reminder_step POLICY_CHECK READY 4 ''POLICY_AUTHORIZED''"

lemma remind_moves:
  "next_row waiting_case remind_check waiting_row [] = Some (remind_checked, waiting_row\<lparr>cw_case := remind_checked\<rparr>, checked_step)"
  "next_row remind_checked remind_move (waiting_row\<lparr>cw_case := remind_checked\<rparr>) [checked_step]
     = Some (reminded_case, waiting_row\<lparr>cw_case := reminded_case\<rparr>, ready_step)"
  by code_simp+

lemma plain_moves:
  "sv_diagnosis remind_check = None" "\<not> sv_increment_retry remind_check" "sv_latest_event remind_check = None"
  "sv_diagnosis remind_move = None" "\<not> sv_increment_retry remind_move" "sv_latest_event remind_move = None"
  by code_simp+

lemma waiting_facts:
  "pr_merchant_id waiting_promise = ''merchant_1''" "pr_id waiting_promise = ''promise_1''"
  "pr_recovery_case_id waiting_promise = ''case_1''" "pr_customer_id waiting_promise = ''cust_1''"
  "pr_customer_response_id waiting_promise = ''response_1''" "pr_invoice_id waiting_promise = ''inv_1''"
  "pr_amount_minor waiting_promise = 12000" "pr_currency waiting_promise = ''INR''"
  "rc_case_id waiting_case = ''case_1''" "rc_merchant_id waiting_case = ''merchant_1''" "rc_state waiting_case = DECISION_PENDING"
  "rc_case_id remind_checked = ''case_1''" "rc_diagnosis remind_checked = None" "rc_state reminded_case = READY"
  "cw_case waiting_row = waiting_case" "is_aware noon"
  by code_simp+

lemma candidates_valid:
  "post_init_candidate (reminder_candidate waiting_promise) = Inr (reminder_candidate waiting_promise)"
  "post_init_candidate (no_reminder_candidate waiting_promise) = Inr (no_reminder_candidate waiting_promise)"
  by code_simp+

definition remind_outcome :: ReminderDecision where
  "remind_outcome = \<lparr>rm_checking = remind_checked,
     rm_candidates = [reminder_candidate waiting_promise, no_reminder_candidate waiting_promise], rm_decision = remind_decision\<rparr>"

lemma remind_deliberated:
  "\<exists>es' hs' n'. decide_reminder sample_zones uuids noon waiting_promise reminder_policy waiting_case (reminder_state [waiting_row] [] es hs n)
    = Inr (remind_outcome, reminder_state [waiting_row\<lparr>cw_case := remind_checked\<rparr>] [checked_step] es' hs' n')"
proof -
  from persisted [OF remind_moves(1) plain_moves(1-3), of uuids es hs n] obtain es' hs' n' where
    t: "persist_transition uuids remind_check waiting_case (reminder_state [waiting_row] [] es hs n)
      = Inr (remind_checked, reminder_state [waiting_row\<lparr>cw_case := remind_checked\<rparr>] [checked_step] es' hs' n')" by auto
  let ?t = "reminder_state [waiting_row\<lparr>cw_case := remind_checked\<rparr>] [checked_step] es' hs' n'"
  have consent: "consent_facts ''merchant_1'' (Some ''cust_1'') ?t = Inr (([(EMAIL, GRANTED)], {}), ?t)"
    by (simp add: consent_facts_def run_tx reminder_state_tables given_consent_def)
  have incidents: "active_incidents ''merchant_1'' noon (Some ''case_1'') None ?t = Inr ([], ?t)"
    using waiting_facts(16) by (simp add: active_incidents_def attach_incidents_def run_tx reminder_state_tables Let_def)
  show ?thesis
    using t consent incidents remind_evaluated remind_decided
    by (intro exI [of _ es'] exI [of _ hs'] exI [of _ n'])
      (simp add: decide_reminder_def remind_check_def [symmetric] run_tx waiting_facts candidates_valid
        remind_evaluation_def [symmetric] remind_outcome_def Let_def)
qed

section \<open>The action\<close>

definition remind_identity :: ActionIdentity where
  "remind_identity = \<lparr>ai_merchant_id = ''merchant_1'', ai_case_id = ''case_1'', ai_action_type = SCHEDULE_PROMISE_REMINDER,
     ai_target_type = INVOICE, ai_target_id = ''inv_1'', ai_logical_attempt = 1\<rparr>"

lemma receipt_id_ok: "reminder_receipt_id waiting_promise noon \<noteq> []" "length (reminder_receipt_id waiting_promise noon) = 40"
  by (simp_all add: reminder_receipt_id_def stable_token_def)

definition remind_action :: RecoveryAction where
  "remind_action = (let key = ''rg:v1:'' @ sha256_hex (identity_document remind_identity) in
     \<lparr>ra_action_id = ''action_'' @ take 32 (after_last CHR '':'' key), ra_case_id = ''case_1'',
      ra_merchant_id = ''merchant_1'', ra_decision_receipt_id = reminder_receipt_id waiting_promise noon,
      ra_action_type = SCHEDULE_PROMISE_REMINDER, ra_target_type = INVOICE, ra_target_id = ''inv_1'',
      ra_logical_attempt = 1, ra_idempotency_key = key, ra_status = PENDING,
      ra_parameters = [(''amount_minor'', PInt 12000), (''currency'', PStr ''INR''), (''provider_mode'', PStr ''TEST''),
        (''channel'', PStr ''SIMULATED_EMAIL''), (''promise_id'', PStr ''promise_1'')],
      ra_authorized_at = noon, ra_execute_after = noon, ra_created_at = noon, ra_updated_at = None,
      ra_schema_version = ''1.0''\<rparr>)"

lemma reminder_built: "reminder_action waiting_promise ''case_1'' noon = Inr remind_action"
proof -
  have key: "action_idempotency_key remind_identity = Inr (''rg:v1:'' @ sha256_hex (identity_document remind_identity))"
    by (simp add: action_idempotency_key_def remind_identity_def raise_first_okI blank_or_longer_def)
  have identity: "action_identity remind_action = remind_identity"
    by (simp add: action_identity_def remind_action_def remind_identity_def Let_def)
  have "post_init_action remind_action = Inr remind_action"
    using receipt_id_ok key
    by (simp add: post_init_action_def identity raise_first_okI blank_or_longer_def)
      (simp add: remind_action_def Let_def raise_first_okI amount_parameter_ok_def currency_parameter_ok_def noon_def
        currency_pattern_def is_ascii_upper_def blank_or_longer_def)
  then show ?thesis
    using key
    by (simp add: reminder_action_def waiting_facts remind_identity_def [symmetric] Let_def)
      (simp add: remind_action_def remind_identity_def Let_def)
qed

definition remind_receipt :: DecisionReceipt where
  "remind_receipt = reminder_receipt waiting_promise ''case_1'' reminder_policy noon remind_outcome READY (Some remind_action)"

lemma remind_receipt_ok: "post_init_receipt remind_receipt = Inr remind_receipt"
proof -
  have "reason_pattern ''POLICY_AUTHORIZED''" by code_simp
  then show ?thesis
    using receipt_id_ok
    by (simp add: post_init_receipt_def remind_receipt_def reminder_receipt_def remind_outcome_def remind_decision_def
        waiting_facts raise_first_okI Let_def version_length_check_def)
      (simp add: noon_def raise_first_okI blank_or_longer_def)
qed

definition remind_row :: ActionRow where
  "remind_row = action_row remind_action (mp_version reminder_policy) ''promise:promise_1'' 3 (plus_delta noon (hours 1))"

lemma remind_appends:
  "validate_append (recorded_append remind_receipt) = Inr ()" "validate_append (authorized_append remind_row) = Inr ()"
  using receipt_id_ok
  by (simp_all add: validate_append_def recorded_append_def authorized_append_def new_append_def raise_first_okI
      too_long_def audit_utc_def Let_def remind_receipt_def reminder_receipt_def waiting_facts remind_row_def
      noon_def action_row_def remind_action_def)

lemma remind_row_ok: "actions_ok [remind_row]"
  by (simp add: actions_ok_def unique_index_def action_row_ok_def action_row_def remind_row_def remind_action_def Let_def)

section \<open>The run\<close>

lemma remind_authorized:
  assumes "db_promises s = [waiting_promise]" "db_actions s = []"
  shows "\<exists>s'. authorize_reminder uuids waiting_promise reminder_policy noon remind_action s
    = Inr ((maintenance_result waiting_promise ''REMINDER_AUTHORIZED'')\<lparr>pm_action_id := Some (ra_action_id remind_action)\<rparr>, s')"
proof -
  obtain f x where a: "append_entry uuids (authorized_append remind_row) (s\<lparr>db_actions := [remind_row]\<rparr>) = Inr (f, x)"
    using append_entry_returns [OF remind_appends(2)] by blast
  have late: "\<not> plus_delta noon (hours 1) \<le> noon" "ra_authorized_at remind_action = noon"
    by (code_simp, simp add: remind_action_def Let_def)
  have st: "store_action uuids remind_action (mp_version reminder_policy) ''promise:promise_1'' 3 (plus_delta noon (hours 1)) s
      = Inr (remind_row, x)"
    using a late remind_row_ok assms(2)
    by (simp add: store_action_def run_tx one_or_noneT_def flush_actions_def checkT_def Let_def remind_row_def [symmetric])
  from append_entry_frame [OF a] assms(1) have x: "db_promises x = [waiting_promise]" by auto
  have await: "awaits_reminder ''merchant_1'' ''promise_1'' waiting_promise"
    by (simp add: awaits_reminder_def promise_key_def waiting_promise_def sample_promise_def)
  have ok: "promises_ok [waiting_promise\<lparr>pr_reminder_action_id := Some i, pr_updated_at := noon\<rparr>]" for i
    by (simp add: promises_ok_def promise_row_ok_def waiting_promise_def sample_promise_def currency_pattern_def is_ascii_upper_def)
  show ?thesis
    using st x await ok waiting_facts(16)
    by (simp add: authorize_reminder_def mark_promise_reminder_scheduled_def update_promises_def evidence_utc_def checkT_def
        run_tx waiting_facts)
qed

lemma remind_concluded:
  "\<exists>r s'. conclude_reminder uuids noon waiting_promise reminder_policy ''case_1'' remind_outcome
      (reminder_state [waiting_row\<lparr>cw_case := remind_checked\<rparr>] [checked_step] es hs n) = Inr (r, s')
    \<and> pm_action_id r = Some (ra_action_id remind_action)"
proof -
  from persisted [OF remind_moves(2) plain_moves(4-6), of uuids es hs n] obtain es' hs' n' where
    t: "persist_transition uuids remind_move remind_checked (reminder_state [waiting_row\<lparr>cw_case := remind_checked\<rparr>] [checked_step] es hs n)
      = Inr (reminded_case, reminder_state [waiting_row\<lparr>cw_case := reminded_case\<rparr>] [checked_step, ready_step] es' hs' n')" by auto
  let ?t = "reminder_state [waiting_row\<lparr>cw_case := reminded_case\<rparr>] [checked_step, ready_step] es' hs' n'"
  obtain e w where ap: "append_entry uuids (recorded_append remind_receipt) ?t = Inr (e, w)"
    using append_entry_returns [OF remind_appends(1)] by blast
  from append_entry_frame [OF ap] have w: "db_receipts w = []" "db_actions w = []" "db_promises w = [waiting_promise]"
    by (auto simp: reminder_state_tables)
  let ?row = "receipt_row remind_receipt (ae_entry_id e)"
  have "receipts_ok [?row]"
    by (simp add: receipts_ok_def receipt_row_def remind_receipt_def reminder_receipt_def Let_def)
  then have rc: "store_receipt uuids remind_receipt ?t = Inr (?row, w\<lparr>db_receipts := [?row]\<rparr>)"
    using ap w by (simp add: store_receipt_def run_tx checkT_def Let_def)
  obtain s' where au: "authorize_reminder uuids waiting_promise reminder_policy noon remind_action (w\<lparr>db_receipts := [?row]\<rparr>)
    = Inr ((maintenance_result waiting_promise ''REMINDER_AUTHORIZED'')\<lparr>pm_action_id := Some (ra_action_id remind_action)\<rparr>, s')"
    using remind_authorized [of "w\<lparr>db_receipts := [?row]\<rparr>" uuids] w by auto
  have fields: "rm_decision remind_outcome = remind_decision" "rm_checking remind_outcome = remind_checked"
    "pd_result remind_decision = PROCEED"
    by (simp_all add: remind_outcome_def remind_decision_def)
  show ?thesis
    using t rc au reminder_built remind_receipt_ok
    by (simp add: conclude_reminder_def run_tx fields remind_move_def [symmetric] remind_receipt_def [symmetric]
        waiting_facts Let_def)
qed


end
