(* ===== verification/Settled.thy ===== *)
theory Settled
  imports Platform
begin

text \<open>
  What becomes of an action once its provider call has an answer. An action that is not pending and
  has no open attempt is settled; every transaction of the platform leaves a settled action settled
  and never adds a provider call for it. In particular an ambiguous answer is never retried.
\<close>


section \<open>Settled actions\<close>

definition settled :: "'a action_db_scheme \<Rightarrow> string \<times> string \<Rightarrow> bool" where
  "settled s k \<longleftrightarrow> (\<exists>a\<in>set_option (stored_action s k). ao_status a \<noteq> PENDING) \<and> open_attempts s k = []"

text \<open>The request IDs of the provider calls made for an action.\<close>

definition provider_calls :: "'a action_db_scheme \<Rightarrow> string \<times> string \<Rightarrow> string list" where
  "provider_calls s k = map ap_request_id (filter (\<lambda>t. attempt_action t = k) (db_attempts s))"

definition keeps_settled :: "'a action_db_scheme \<Rightarrow> 'a action_db_scheme \<Rightarrow> bool" where
  "keeps_settled s s' \<longleftrightarrow> (\<forall>k. settled s k \<longrightarrow> settled s' k \<and> provider_calls s' k = provider_calls s k)"

interpretation settling: step_order keeps_settled
  by unfold_locales (auto simp: keeps_settled_def)

lemma keeps_settled_same: "db_actions s' = db_actions s \<Longrightarrow> db_attempts s' = db_attempts s \<Longrightarrow> keeps_settled s s'"
  by (simp add: keeps_settled_def settled_def provider_calls_def stored_action_def open_attempts_def)

lemma settling_tables: "outbox_tables.stays m \<Longrightarrow> settling.stays m"
  by (rule settling.staysI) (drule (1) outbox_tables.staysD, simp add: outbox_tables_def keeps_settled_same)


section \<open>The outbox\<close>

text \<open>An update that does not put an action back.\<close>

definition not_reopened :: "(ActionRow \<Rightarrow> ActionRow) \<Rightarrow> bool" where
  "not_reopened f \<longleftrightarrow> (\<forall>a. ao_status a \<noteq> PENDING \<longrightarrow> ao_status (f a) \<noteq> PENDING)"

lemma not_reopened_updates [simp]:
  "not_reopened (started_action t)" "not_reopened (lost_action t d)" "not_reopened (expired_action t)"
  "not_reopened (cancelled_action t reason)" "not_reopened (leased_action t dur token)"
  "not_reopened (escalated_action t)" "st \<noteq> PENDING \<Longrightarrow> not_reopened (resolved_action st t p e)"
  by (auto simp: not_reopened_def started_action_def lost_action_def expired_action_def cancelled_action_def
      leased_action_def escalated_action_def resolved_action_def Let_def)

lemma settled_update_action:
  assumes "keeps_identity f" "not_reopened f"
  shows "keeps_settled s (s\<lparr>db_actions := update_where (\<lambda>r. action_key r = k) f (db_actions s)\<rparr>)"
  using assms(2) by (auto simp: keeps_settled_def settled_def provider_calls_def stored_action_update [OF assms(1)]
      not_reopened_def split: if_splits)

lemma settling_update_action: "keeps_identity f \<Longrightarrow> not_reopened f \<Longrightarrow> settling.stays (update_action k f)"
  unfolding update_action_def by (intro settling.stays_modifyT settled_update_action)

lemma calls_completed:
  assumes "completes f"
  shows "provider_calls (s\<lparr>db_attempts := update_where p f (db_attempts s)\<rparr>) k = provider_calls s k"
proof -
  have "map ap_request_id (filter (\<lambda>t. attempt_action t = k) (update_where p f ts))
      = map ap_request_id (filter (\<lambda>t. attempt_action t = k) ts)" for ts
    using assms by (induction ts) (auto simp: completes_def)
  then show ?thesis unfolding provider_calls_def by simp
qed

lemma settled_update_attempt:
  "completes f \<Longrightarrow> keeps_settled s (s\<lparr>db_attempts := update_where p f (db_attempts s)\<rparr>)"
  by (simp add: keeps_settled_def settled_def calls_completed open_attempts_completed)

lemma settling_update_attempt: "completes f \<Longrightarrow> settling.stays (update_attempt i f)"
  unfolding update_attempt_def by (intro settling.stays_modifyT settled_update_attempt)

lemma settling_flush: "settling.stays flush_actions" "settling.stays flush_attempts" "settling.stays flush_outcomes"
  unfolding flush_actions_def flush_attempts_def flush_outcomes_def by (rule settling.stays_pure)+

lemma settling_append_entry: "settling.stays (append_entry uuids r)"
  by (rule settling_tables [OF append_entry_outbox_tables])

lemma settling_reads:
  "settling.stays (get_action m a)" "settling.stays (the_action k)" "settling.stays (get_case m c)"
  "settling.stays (domain_action m a)" "settling.stays (actions_for_reconciliation t n)"
  "settling.stays (stale_inflight_actions t n)" "settling.stays (get_decision_receipt m d)"
  unfolding get_action_def the_action_def get_case_def domain_action_def actions_for_reconciliation_def
    stale_inflight_actions_def get_decision_receipt_def
  by (intro settling.stays_intros)+

lemma settling_draw_uuid: "settling.stays (draw_uuid uuids)"
  unfolding draw_uuid_def by (intro settling.stays_intros settling.stays_modifyT keeps_settled_same) simp_all

lemmas settling_leaves = settling.stays_intros settling.stays_case_sum settling_append_entry settling_flush
  settling_reads settling_draw_uuid

lemma settling_store_action: "settling.stays (store_action uuids a p c n d)"
proof -
  have "keeps_settled s (s\<lparr>db_actions := db_actions s @ [row]\<rparr>)" for s :: "'b action_db_scheme" and row
    by (auto simp: keeps_settled_def settled_def provider_calls_def stored_action_def open_attempts_def
        dest: find_append_Some)
  then show ?thesis
    unfolding store_action_def Let_def by (intro settling_leaves settling.stays_modifyT)
qed

lemma settling_store_outcome: "settling.stays (store_outcome uuids v)"
  unfolding store_outcome_def Let_def
  by (intro settling_leaves settling.stays_modifyT keeps_settled_same) simp_all

lemma settling_outbox:
  "settling.stays (claim_due_actions uuids t dur n)" "settling.stays (mark_stale_inflight_unknown k t d)"
  "settling.stays (mark_verification_expired_unknown k t)" "settling.stays (cancel_before_execution k t reason)"
  "st \<noteq> PENDING \<Longrightarrow> settling.stays (set_action_resolution k st t po er)"
  unfolding claim_due_actions_def claim_one_def mark_stale_inflight_unknown_def mark_verification_expired_unknown_def
    cancel_before_execution_def set_action_resolution_def
  by (intro settling_leaves settling_update_action settling_update_attempt; simp)+

text \<open>Only a pending action begins an attempt, and only an open attempt is finished.\<close>

lemma settling_begin_attempt: "settling.stays (begin_attempt uuids m a token t)"
proof (rule settling.staysI)
  fix s s' :: "'a action_db_scheme" and x
  assume "begin_attempt uuids m a token t s = Inr (x, s')"
  then obtain act s1 e where act: "stored_action s (m, a) = Some act" "ao_status act = PENDING"
    and s1: "s1 = s\<lparr>db_attempts := db_attempts s @ [new_attempt (started_action t act) token t],
        db_actions := update_where (\<lambda>r. action_key r = (m, a)) (started_action t) (db_actions s)\<rparr>"
    and rest: "append_entry uuids (started_append (started_action t act) (new_attempt (started_action t act) token t) t)
        s1 = Inr (e, s')"
    by (rule begin_attempt_InrD)
  let ?t = "new_attempt (started_action t act) token t"
  let ?s2 = "s\<lparr>db_attempts := db_attempts s @ [?t]\<rparr>"
  have "attempt_action ?t = (m, a)"
    using stored_action_key [OF act(1)] by (simp add: started_action_def new_attempt_def)
  then have "keeps_settled s ?s2"
    using act by (auto simp: keeps_settled_def settled_def provider_calls_def stored_action_def open_attempts_def)
  moreover have "keeps_settled ?s2 s1" unfolding s1 using settled_update_action [of "started_action t" ?s2 "(m, a)"] by simp
  moreover have "keeps_settled s1 s'" by (rule settling.staysD [OF settling_append_entry rest])
  ultimately show "keeps_settled s s'" by (meson settling.step_trans)
qed

lemma settled_elsewhere:
  assumes "keeps_identity f" and "k' \<noteq> k"
  shows "settled (s\<lparr>db_actions := update_where (\<lambda>r. action_key r = k) f (db_actions s)\<rparr>) k' = settled s k'"
    "provider_calls (s\<lparr>db_actions := update_where (\<lambda>r. action_key r = k) f (db_actions s)\<rparr>) k' = provider_calls s k'"
  using assms(2) unfolding settled_def stored_action_update [OF assms(1)] by (simp_all add: provider_calls_def)

lemma settling_finish_attempt: "settling.stays (finish_attempt uuids m a token q)"
proof (rule settling.staysI)
  fix s s' :: "'a action_db_scheme" and x
  assume "finish_attempt uuids m a token q s = Inr (x, s')"
  then obtain act t s1 where opened: "filter (\<lambda>t. ap_lease_token t = token) (open_attempts s (m, a)) = [t]"
    and s1: "s1 = s\<lparr>db_attempts := update_where (\<lambda>u. ap_id u = ap_id t) (completed_attempt q) (db_attempts s),
       db_actions := update_where (\<lambda>r. action_key r = (m, a))
         (if retries q act then retried_action q else settled_action q) (db_actions s)\<rparr>"
    and rest: "if retries q act then s' = s1
     else \<exists>e. append_entry uuids (finished_append (settled_action q act) (completed_attempt q t) q) s1 = Inr (e, s')"
    by (rule finish_attempt_InrD)
  let ?f = "if retries q act then retried_action q else settled_action q"
  let ?s2 = "s\<lparr>db_attempts := update_where (\<lambda>u. ap_id u = ap_id t) (completed_attempt q) (db_attempts s)\<rparr>"
  have "keeps_identity ?f" by simp
  note elsewhere = settled_elsewhere [OF this, where k = "(m, a)" and s = ?s2]
  have s1': "s1 = ?s2\<lparr>db_actions := update_where (\<lambda>r. action_key r = (m, a)) ?f (db_actions ?s2)\<rparr>"
    unfolding s1 by simp
  have attempts: "keeps_settled s ?s2" by (rule settled_update_attempt) simp
  have unsettled: "\<not> settled s (m, a)" using opened by (auto simp: settled_def)
  have "keeps_settled s s1"
    unfolding keeps_settled_def
  proof (intro allI impI)
    fix k assume k: "settled s k"
    with unsettled have "k \<noteq> (m, a)" by blast
    from elsewhere [OF this] have "settled s1 k = settled ?s2 k" "provider_calls s1 k = provider_calls ?s2 k"
      unfolding s1' .
    with attempts k show "settled s1 k \<and> provider_calls s1 k = provider_calls s k"
      unfolding keeps_settled_def by (simp only:)
  qed
  have "keeps_settled s1 s'"
    using rest settling.staysD [OF settling_append_entry] settling.step_refl by (auto split: if_splits)
  then show "keeps_settled s s'" using \<open>keeps_settled s s1\<close> settling.step_trans by blast
qed

lemmas settling_operations = settling_leaves settling_store_action settling_store_outcome settling_outbox
  settling_begin_attempt settling_finish_attempt settling_update_action

section \<open>The services\<close>

lemma settling_case_writes:
  "settling.stays (apply_transition uuids u tr ev')" "settling.stays (record_execution_attempt_counters c i j t)"
  "settling.stays (create_case c k ev t conf)" "settling.stays (link_evidence m ev lc d reason)"
  "settling.stays (store_review uuids r)" "settling.stays (update_review_decision uuids m r)"
  "settling.stays (store_receipt uuids rc)" "settling.stays (store_model_predictions ps)"
  "settling.stays (coordinate_case_with_active_intervention m cu ci t)"
  "settling.stays (store_customer_intervention iv)" "settling.stays (active_incidents m t ci' dc)"
  "settling.stays (service_transition uuids q c)" "settling.stays (execution_transition uuids a st reason now x c)"
  "settling.stays (set_active_incident m gi ii)" "settling.stays (insert_link il)"
  unfolding execution_transition_def set_active_incident_def insert_link_def
  by ((rule settling_tables, rule case_operations_outbox_tables recovery_outbox_tables service_transition_outbox_tables)
    | (intro settling_leaves settling.stays_modifyT settling_tables [OF case_operations_outbox_tables(1)] keeps_settled_same; simp))+

lemma settling_recovery_reads:
  "settling.stays (get_normalized_event m i :: ('a recovery_db_scheme, _) tx)" "settling.stays (customer_contact_snapshot m cu :: ('a recovery_db_scheme, _) tx)"
  "settling.stays (authoritative_facts n :: ('a recovery_db_scheme, _) tx)" "settling.stays (find_active_case m w st si :: ('a recovery_db_scheme, _) tx)"
  "settling.stays (find_episode_case m w st key :: ('a recovery_db_scheme, _) tx)" "settling.stays (due_deferred_cases t k :: ('a recovery_db_scheme, _) tx)"
  "settling.stays (require_case m ci :: ('a recovery_db_scheme, _) tx)" "settling.stays (get_review m ri :: ('a recovery_db_scheme, _) tx)"
  "settling.stays (order_row n e r :: ('a recovery_db_scheme, _) tx)" "settling.stays (effective_policy zones m t :: ('a recovery_db_scheme, _) tx)"
  "settling.stays (case_of_event m identity :: ('a recovery_db_scheme, _) tx)" "settling.stays (any_unknown_equivalent c as :: ('a recovery_db_scheme, _) tx)"
  "settling.stays (consent_facts m cu' :: ('a recovery_db_scheme, _) tx)" "settling.stays (authoritative_facts_for_case m c :: ('a recovery_db_scheme, _) tx)"
  by (rule settling.stays_read, erule recovery_read)+

lemmas settling_services = settling_operations settling_case_writes settling_recovery_reads

lemma settling_evaluate_case: "settling.stays (evaluate_case settings recommend zones uuids d row p t approval c)"
  unfolding evaluate_case_def deliberate_def conclude_def portfolio_facts_def authorize_action_def build_review_def
    request_review_def new_id_def Let_def
  by (intro settling_services)

lemma settling_recovery:
  "settling.stays (process_event settings recommend zones uuids now m i)"
  "settling.stays (reevaluate_deferred settings recommend zones uuids t n)"
  "settling.stays (apply_review settings recommend zones uuids now m rd)"
  unfolding process_event_def process_subject_def unsupported_subject_def link_audit_only_def new_evidence_case_def
    open_case_def add_evidence_def advance_and_evaluate_def advance_to_decision_pending_def new_id_def
    reevaluate_deferred_def reevaluate_case_def apply_review_def stop_reviewed_case_def resume_reviewed_case_def
    Let_def
  by (intro settling_services settling_evaluate_case)+

lemma settling_execution:
  "settling.stays (prepare_execution zones uuids m a token t)"
  "settling.stays (record_execution_result settings uuids m a token px)"
  "settling.stays (mark_stale_calls_unknown settings uuids t n)"
  "settling.stays (record_lookup uuids m a pl)"
  "settling.stays (verify_signed_event uuids e w)"
proof -
  have subject: "settling.stays (case x of SUBSCRIPTION \<Rightarrow> m1 | PAYMENT \<Rightarrow> m2 | INVOICE \<Rightarrow> m3 | _ \<Rightarrow> m4)"
    if "settling.stays m1" "settling.stays m2" "settling.stays m3" "settling.stays m4"
    for x and m1 m2 m3 m4 :: "('b recovery_db_scheme, 'c) tx" using that by (cases x) simp_all
  show "settling.stays (prepare_execution zones uuids m a token t)"
    "settling.stays (record_execution_result settings uuids m a token px)"
    "settling.stays (mark_stale_calls_unknown settings uuids t n)"
    "settling.stays (record_lookup uuids m a pl)"
    "settling.stays (verify_signed_event uuids e w)"
    unfolding prepare_execution_def block_execution_def after_reevaluation_def start_execution_def
      final_policy_decision_def contact_facts_def required_case_def store_observation_def
      record_execution_result_def settle_result_def mark_stale_calls_unknown_def mark_stale_call_def
      record_lookup_def settle_lookup_def expire_verification_def escalate_unresolved_def
      verify_signed_event_def credited_action_def stop_on_mismatch_def credit_recovery_def
      find_action_for_provider_object_def find_latest_action_for_target_def Let_def
    by (intro settling_services subject; simp add: keeps_identity_def escalated_action_def)+
qed

lemma settling_intake:
  "settling.stays (record_webhook uuids now wq)" "settling.stays (record_invalid_webhook uuids iq)"
  "settling.stays (persist_normalized_event e w cs)" "settling.stays (upsert_customer c)"
  "settling.stays (upsert_payment p)" "settling.stays (upsert_subscription sb)"
  "settling.stays (claim_dispatches uuids now lease n)" "settling.stays (mark_dispatch_published di tk bt now)"
  "settling.stays (mark_dispatch_succeeded di now)" "settling.stays (record_processing_failure di ec ed final now)"
  "settling.stays (requeue_dead_letter di now ra)" "settling.stays (publish_policy mi po who)"
  "settling.stays (close_expired_customer_interventions now n)"
  "settling.stays (fetch_webhook_for_processing mi wi)"
  unfolding record_webhook_def record_invalid_webhook_def persist_normalized_event_def upsert_customer_def
    upsert_payment_def upsert_subscription_def claim_dispatches_def claim_dispatch_def mark_dispatch_published_def
    mark_dispatch_succeeded_def record_processing_failure_def record_dispatch_failure_def requeue_dead_letter_def
    update_dispatch_def update_webhook_def flush_dispatches_def flush_webhooks_def add_correlation_def
    dispatch_id_for_def publish_policy_def close_expired_customer_interventions_def
    update_intervention_def flush_interventions_def fetch_webhook_for_processing_def Let_def
  by (intro settling_leaves settling.stays_modifyT keeps_settled_same; simp)+

lemma settling_playbook_tables:
  "settling.stays (record_overdue_invoice t q)" "settling.stays (invoice m i)"
  "settling.stays (store_customer_response rq)" "settling.stays (store_promise p ri)"
  "settling.stays (store_receivable_escalation e reason)" "settling.stays (freeze_dispute_and_escalate e)"
  "settling.stays (freeze_already_paid_claim_and_escalate e)" "settling.stays (change_promise pr)"
  "settling.stays flush_promises" "settling.stays (due_promises t n b)"
  "settling.stays (mark_promise_reminder_scheduled m i a t)" "settling.stays (reschedule_promise_reminder m i t)"
  "settling.stays (mark_broken_promise_and_escalate pr i t)" "settling.stays (record_payment_observation po i)"
  "settling.stays (payment_observations m t u)" "settling.stays (portfolio_merchant_ids t n)"
  "settling.stays (active_incidents_for_maintenance m)" "settling.stays (active_incident_of m k)"
  "settling.stays (change_incident ic)" "settling.stays (lock_merchant m)"
  "settling.stays (apply_degradation_assessment da policy ii)"
  unfolding playbook_tables apply_degradation_assessment_def attach_affected_cases_def resolve_incident_def
    release_case_def set_active_incident_def Let_def
  by (intro settling.stays_intros settling.stays_modifyT keeps_settled_same; simp)+

lemma settling_persist_transition: "settling.stays (persist_transition uuids q c)"
  unfolding persist_transition_def by (intro settling_services settling_playbook_tables)

lemmas settling_playbook = settling_services settling_playbook_tables settling_persist_transition

lemma settling_playbook_services:
  "settling.stays (ingest_overdue_invoice settings advice zones uuids now db_now on)"
  "settling.stays (record_customer_response extractor now cm)"
  "settling.stays (schedule_due_promise_reminders zones uuids now n)"
  "settling.stays (escalate_broken_promises now n)"
  "settling.stays (observe_and_evaluate policy po w now)" "settling.stays (maintain_portfolios policy now n)"
  unfolding ingest_overdue_invoice_def record_customer_response_def act_on_response_def escalate_response_def
    schedule_due_promise_reminders_def schedule_reminder_def decide_reminder_def conclude_reminder_def
    authorize_reminder_def postpone_reminder_def escalate_broken_promises_def settle_overdue_promise_def
    observe_and_evaluate_def maintain_portfolios_def maintain_portfolio_def apply_assessment_def Let_def
  by (intro settling_playbook settling_recovery)+

lemma settling_worker:
  "settling.stays (process_dispatch w clock q)" "settling.stays (maintain_promises_tx w now)"
  "settling.stays (maintain_portfolio_tx w now)"
  unfolding process_dispatch_def process_event_of_webhook_def upsert_provider_entities_def observe_payment_def
    maintain_promises_tx_def maintain_portfolio_tx_def
  by (intro settling.stays_intros settling_intake settling_playbook_services settling_playbook_tables
      settling_recovery settling_execution)+


section \<open>The platform\<close>

lemma settling_system: "system_run s t \<Longrightarrow> keeps_settled s t"
proof (induction rule: system_run.induct)
  case (executed t u)
  have "execution_run t u \<Longrightarrow> keeps_settled t u" for t u :: "'a recovery_db_scheme"
    by (induction rule: execution_run.induct)
      (blast intro: settling.step_refl settling.step_trans dest: settling_execution [THEN settling.staysD]
        settling_outbox(1) [THEN settling.staysD])+
  with executed show ?case using settling.step_trans by blast
qed (blast intro: settling.step_refl settling.step_trans dest: settling_recovery [THEN settling.staysD]
    settling_intake [THEN settling.staysD])+

interpretation platform_settled: platform_frame "keeps_settled :: 'a playbook_db_scheme \<Rightarrow> _"
  by unfold_locales (intro settling_system settling_playbook_services settling_worker; assumption)+

end
