(* ===== verification/Url.thy ===== *)
theory Url
  imports Razorpay
begin

text \<open>
  What the code uses of \<open>urllib.parse\<close>: \<open>urlsplit\<close>, \<open>urlparse\<close> with the attributes \<open>hostname\<close>,
  \<open>port\<close>, \<open>username\<close> and \<open>password\<close>, and \<open>urlencode\<close>. The checks of a network location that
  need tables, those of a bracketed address and of characters outside ASCII, are the parameter
  \<open>netloc_ok\<close>. The main result says where the host of an accepted URL stands in its text.
\<close>


section \<open>Splitting a text\<close>

text \<open>\<open>partition\<close> at the first and \<open>rpartition\<close> at the last separator of one character.\<close>

definition before_first :: "char \<Rightarrow> string \<Rightarrow> string" where
  "before_first c s = takeWhile (\<lambda>x. x \<noteq> c) s"

definition after_first :: "char \<Rightarrow> string \<Rightarrow> string" where
  "after_first c s = drop 1 (dropWhile (\<lambda>x. x \<noteq> c) s)"

definition after_last :: "char \<Rightarrow> string \<Rightarrow> string" where
  "after_last c s = rev (takeWhile (\<lambda>x. x \<noteq> c) (rev s))"

definition before_last :: "char \<Rightarrow> string \<Rightarrow> string" where
  "before_last c s = rev (drop 1 (dropWhile (\<lambda>x. x \<noteq> c) (rev s)))"

lemma split_first: "c \<in> set s \<Longrightarrow> s = before_first c s @ c # after_first c s"
  unfolding before_first_def after_first_def by (induction s) auto

lemma split_last: "c \<in> set s \<Longrightarrow> s = before_last c s @ c # after_last c s"
proof -
  assume "c \<in> set s"
  then have "rev s = before_first c (rev s) @ c # after_first c (rev s)" by (intro split_first) simp
  then have "rev (rev s) = rev (before_first c (rev s) @ c # after_first c (rev s))" by (rule arg_cong)
  then show ?thesis by (simp add: before_first_def after_first_def before_last_def after_last_def)
qed

lemma before_first_all [simp]: "c \<notin> set s \<Longrightarrow> before_first c s = s"
  unfolding before_first_def by (induction s) auto

lemma after_last_all [simp]: "c \<notin> set s \<Longrightarrow> after_last c s = s"
  unfolding after_last_def by (subst takeWhile_eq_all_conv [THEN iffD2]) auto

lemma after_first_none [simp]: "c \<notin> set s \<Longrightarrow> after_first c s = []"
  unfolding after_first_def by (induction s) auto

lemma not_in_before_first [simp]: "c \<notin> set (before_first c s)"
  unfolding before_first_def by (auto dest: set_takeWhileD)

lemma not_in_after_last [simp]: "c \<notin> set (after_last c s)"
  unfolding after_last_def by (auto dest: set_takeWhileD)

lemma set_before_first: "set (before_first c s) \<subseteq> set s"
  unfolding before_first_def by (auto dest: set_takeWhileD)

lemma set_after_last: "set (after_last c s) \<subseteq> set s"
  unfolding after_last_def by (auto dest: set_takeWhileD)


section \<open>Parsing\<close>

record SplitUrl =
  ur_scheme :: string
  ur_netloc :: string
  ur_path :: string
  ur_query :: string
  ur_fragment :: string

definition is_ascii :: "string \<Rightarrow> bool" where
  "is_ascii s \<longleftrightarrow> (\<forall>c\<in>set s. (of_char c :: nat) < 128)"

definition scheme_char :: "char \<Rightarrow> bool" where
  "scheme_char c \<longleftrightarrow> is_ascii_alpha c \<or> is_digit c \<or> c \<in> set ''+-.''"

text \<open>Leading control characters and spaces go, tabs and line ends go everywhere.\<close>

definition clean_url :: "string \<Rightarrow> string" where
  "clean_url url =
     filter (\<lambda>c. (of_char c :: nat) \<notin> {9, 10, 13}) (dropWhile (\<lambda>c. (of_char c :: nat) \<le> 32) url)"

definition split_scheme :: "string \<Rightarrow> string \<times> string" where
  "split_scheme url =
     (let candidate = before_first CHR '':'' url in
      if CHR '':'' \<in> set url \<and> candidate \<noteq> [] \<and> is_ascii_alpha (hd url) \<and> (\<forall>c\<in>set candidate. scheme_char c)
      then (str_lower candidate, after_first CHR '':'' url)
      else ([], url))"

definition split_netloc :: "string \<Rightarrow> string \<times> string" where
  "split_netloc url =
     (if take 2 url = ''//''
      then (takeWhile (\<lambda>c. c \<notin> set ''/?#'') (drop 2 url), dropWhile (\<lambda>c. c \<notin> set ''/?#'') (drop 2 url))
      else ([], url))"

definition checked_netloc :: "(string \<Rightarrow> bool) \<Rightarrow> string \<Rightarrow> unit result" where
  "checked_netloc netloc_ok netloc =
     (let left = CHR ''['' \<in> set netloc; right = CHR '']'' \<in> set netloc in
      if left \<noteq> right then Inl (ValueError ''Invalid IPv6 URL'')
      else if (left \<or> \<not> is_ascii netloc) \<and> \<not> netloc_ok netloc then Inl (ValueError ''invalid netloc'')
      else Inr ())"

definition urlsplit :: "(string \<Rightarrow> bool) \<Rightarrow> string \<Rightarrow> SplitUrl result" where
  "urlsplit netloc_ok text =
     (let (scheme, rest) = split_scheme (clean_url text);
          (netloc, tail) = split_netloc rest;
          unfragmented = before_first CHR ''#'' tail in
      bindR (checked_netloc netloc_ok netloc) (\<lambda>_.
      Inr \<lparr>ur_scheme = scheme, ur_netloc = netloc, ur_path = before_first CHR ''?'' unfragmented,
           ur_query = after_first CHR ''?'' unfragmented, ur_fragment = after_first CHR ''#'' tail\<rparr>))"

text \<open>\<open>urlparse\<close> also splits the parameters off the last segment of the path, for these schemes.\<close>

definition uses_params :: "string list" where
  "uses_params = [[], ''ftp'', ''hdl'', ''prospero'', ''http'', ''imap'', ''https'', ''shttp'', ''rtsp'', ''rtsps'',
     ''rtspu'', ''sip'', ''sips'', ''mms'', ''sftp'', ''tel'']"

definition without_params :: "string \<Rightarrow> string" where
  "without_params path =
     (if CHR ''/'' \<in> set path
      then before_last CHR ''/'' path @ CHR ''/'' # before_first CHR '';'' (after_last CHR ''/'' path)
      else before_first CHR '';'' path)"

definition urlparse :: "(string \<Rightarrow> bool) \<Rightarrow> string \<Rightarrow> SplitUrl result" where
  "urlparse netloc_ok text =
     bindR (urlsplit netloc_ok text) (\<lambda>u.
     Inr (if ur_scheme u \<in> set uses_params then u\<lparr>ur_path := without_params (ur_path u)\<rparr> else u))"


section \<open>The network location\<close>

text \<open>Host and port of a location, as \<open>_hostinfo\<close> finds them.\<close>

definition netloc_host :: "string \<Rightarrow> string \<times> string" where
  "netloc_host netloc =
     (let info = after_last CHR ''@'' netloc in
      if CHR ''['' \<in> set info
      then (let bracketed = after_first CHR ''['' info in
            (before_first CHR '']'' bracketed, after_first CHR '':'' (after_first CHR '']'' bracketed)))
      else (before_first CHR '':'' info, after_first CHR '':'' info))"

definition host_info :: "SplitUrl \<Rightarrow> string \<times> string" where
  "host_info u = netloc_host (ur_netloc u)"

text \<open>
  What is documented of the check of bracketed locations: their host is an IPv6 address, which has
  a colon, or one of a future version, which starts with a \<open>v\<close>.
\<close>

definition checks_addresses :: "(string \<Rightarrow> bool) \<Rightarrow> bool" where
  "checks_addresses netloc_ok \<longleftrightarrow> (\<forall>netloc. netloc_ok netloc \<and> CHR ''['' \<in> set netloc \<longrightarrow>
     (let host = fst (netloc_host netloc) in CHR '':'' \<in> set host \<or> take 1 host \<in> {''v'', ''V''}))"

definition url_hostname :: "SplitUrl \<Rightarrow> string option" where
  "url_hostname u =
     (let host = fst (host_info u) in
      if host = [] then None
      else Some (str_lower (before_first CHR ''%'' host) @ drop (length (before_first CHR ''%'' host)) host))"

definition url_port :: "SplitUrl \<Rightarrow> int option result" where
  "url_port u =
     (let port = snd (host_info u) in
      if port = [] then Inr None
      else if \<not> (\<forall>c\<in>set port. is_digit c) then Inl (ValueError ''Port could not be cast to integer value'')
      else if 65535 < digits_value port then Inl (ValueError ''Port out of range 0-65535'')
      else Inr (Some (int (digits_value port))))"

definition url_userinfo :: "SplitUrl \<Rightarrow> string option" where
  "url_userinfo u =
     (if CHR ''@'' \<in> set (ur_netloc u) then Some (before_last CHR ''@'' (ur_netloc u)) else None)"

text \<open>\<open>urlunsplit\<close> of a scheme, a location and a path without query and fragment.\<close>

definition url_unsplit :: "string \<Rightarrow> string \<Rightarrow> string \<Rightarrow> string" where
  "url_unsplit scheme netloc path =
     (let located = (if netloc \<noteq> [] then ''//'' @ netloc @ (if path \<noteq> [] \<and> hd path \<noteq> CHR ''/'' then CHR ''/'' # path else path)
        else path) in
      if scheme \<noteq> [] then scheme @ '':'' @ located else located)"


section \<open>Encoding a query\<close>

text \<open>\<open>quote_plus\<close> of a character: unreserved ones stay, a space is a plus, the bytes of others are escaped.\<close>

definition upper_hex :: "nat \<Rightarrow> char" where
  "upper_hex n = (if n < 10 then char_of (48 + n) else char_of (55 + n))"

definition quote_char :: "char \<Rightarrow> string" where
  "quote_char c =
     (if is_ascii_alpha c \<or> is_digit c \<or> c \<in> set ''_.-~'' then [c]
      else if c = CHR '' '' then ''+''
      else concat (map (\<lambda>b. [CHR ''%'', upper_hex (unat b div 16), upper_hex (unat b mod 16)]) (utf8_char c)))"

definition urlencode :: "(string \<times> string) list \<Rightarrow> string" where
  "urlencode query =
     join ''&'' (map (\<lambda>(k, v). concat (map quote_char k) @ ''='' @ concat (map quote_char v)) query)"

section \<open>Where the host stands\<close>

lemma split_netloc_shape:
  assumes "split_netloc rest = (netloc, tail)" and "netloc \<noteq> []"
  shows "rest = ''//'' @ netloc @ tail \<and> (\<forall>c\<in>set netloc. c \<notin> set ''/?#'') \<and> (tail = [] \<or> hd tail \<in> set ''/?#'')"
proof -
  have two: "take 2 rest = ''//''" using assms by (auto simp: split_netloc_def split: if_splits)
  have "rest = take 2 rest @ drop 2 rest" by simp
  also have "\<dots> = ''//'' @ netloc @ tail" using assms(1) two by (auto simp: split_netloc_def)
  finally have "rest = ''//'' @ netloc @ tail" .
  moreover have "\<forall>c\<in>set netloc. c \<notin> set ''/?#''"
    using assms(1) two by (auto simp: split_netloc_def dest: set_takeWhileD)
  moreover have "tail = [] \<or> hd tail \<in> set ''/?#''"
    using assms(1) two hd_dropWhile [of "\<lambda>c. c \<notin> set ''/?#''" "drop 2 rest"] by (auto simp: split_netloc_def)
  ultimately show ?thesis by blast
qed

lemma split_scheme_shape:
  "split_scheme url = (scheme, rest) \<Longrightarrow> scheme \<noteq> []
    \<Longrightarrow> \<exists>text. url = text @ '':'' @ rest \<and> str_lower text = scheme"
  using split_first [of "CHR '':''" url] by (auto simp: split_scheme_def Let_def split: if_splits)

lemma without_params_nonempty: "without_params path \<noteq> [] \<Longrightarrow> path \<noteq> []"
  by (auto simp: without_params_def before_first_def)

lemma before_first_nonempty: "before_first c s \<noteq> [] \<Longrightarrow> s \<noteq> [] \<and> hd s \<noteq> c"
  by (cases s) (auto simp: before_first_def split: if_splits)

lemma urlparse_shape:
  assumes "urlparse netloc_ok text = Inr u" and "ur_scheme u \<noteq> []" "ur_netloc u \<noteq> []" "ur_path u \<noteq> []"
  shows "\<exists>scheme tail. clean_url text = scheme @ ''://'' @ ur_netloc u @ ''/'' @ tail \<and> str_lower scheme = ur_scheme u
    \<and> (\<forall>c\<in>set (ur_netloc u). c \<notin> set ''/?#'')"
proof -
  obtain v where v: "urlsplit netloc_ok text = Inr v"
    and u: "ur_scheme u = ur_scheme v" "ur_netloc u = ur_netloc v" "ur_path u \<noteq> [] \<longrightarrow> ur_path v \<noteq> []"
    using assms(1) without_params_nonempty by (fastforce simp: urlparse_def result_simps split: if_splits)
  obtain scheme rest where sr: "split_scheme (clean_url text) = (scheme, rest)" by (cases "split_scheme (clean_url text)")
  obtain netloc tail where nt: "split_netloc rest = (netloc, tail)" by (cases "split_netloc rest")
  have w: "ur_scheme v = scheme" "ur_netloc v = netloc"
    "ur_path v = before_first CHR ''?'' (before_first CHR ''#'' tail)"
    using v sr nt by (auto simp: urlsplit_def Let_def result_simps)
  have "before_first CHR ''?'' (before_first CHR ''#'' tail) \<noteq> []" using w u assms(4) by auto
  then have "tail \<noteq> [] \<and> hd tail \<noteq> CHR ''#'' \<and> hd (before_first CHR ''#'' tail) \<noteq> CHR ''?''"
    using before_first_nonempty by blast
  then have tail: "tail \<noteq> [] \<and> hd tail \<noteq> CHR ''#'' \<and> hd tail \<noteq> CHR ''?''"
    by (cases tail) (auto simp: before_first_def)
  from split_netloc_shape [OF nt] w u assms(3) have n: "rest = ''//'' @ netloc @ tail"
    "\<forall>c\<in>set netloc. c \<notin> set ''/?#''" "tail = [] \<or> hd tail \<in> set ''/?#''" by auto
  from tail n(3) have "tail = ''/'' @ tl tail" by (cases tail) auto
  with n(1) have rest: "rest = ''//'' @ netloc @ ''/'' @ tl tail" by simp
  from split_scheme_shape [OF sr] w u assms(2) obtain scheme' where
    "clean_url text = scheme' @ '':'' @ rest" "str_lower scheme' = scheme" by auto
  with rest have "clean_url text = scheme' @ ''://'' @ netloc @ ''/'' @ tl tail \<and> str_lower scheme' = scheme" by simp
  with n(2) w u show ?thesis by metis
qed

text \<open>Without brackets, the host is the part of the location between user and port.\<close>

lemma netloc_shape:
  assumes "CHR ''['' \<notin> set (ur_netloc u)"
  shows "\<exists>user port. ur_netloc u = user @ fst (host_info u) @ port \<and> (user = [] \<or> last user = CHR ''@'')
    \<and> (port = [] \<and> snd (host_info u) = [] \<or> port = '':'' @ snd (host_info u))"
proof -
  let ?info = "after_last CHR ''@'' (ur_netloc u)"
  have "CHR ''['' \<notin> set ?info" using assms set_after_last by blast
  then have hi: "host_info u = (before_first CHR '':'' ?info, after_first CHR '':'' ?info)"
    by (simp add: host_info_def netloc_host_def Let_def)
  obtain user where user: "ur_netloc u = user @ ?info" "user = [] \<or> last user = CHR ''@''"
  proof (cases "CHR ''@'' \<in> set (ur_netloc u)")
    case True
    from split_last [OF this] have "ur_netloc u = (before_last CHR ''@'' (ur_netloc u) @ ''@'') @ ?info" by simp
    then show ?thesis by (rule that) simp
  next
    case False
    then show ?thesis by (intro that [of "[]"]) simp_all
  qed
  show ?thesis
  proof (cases "CHR '':'' \<in> set ?info")
    case True
    from split_first [OF this] user hi show ?thesis
      by (intro exI [of _ user] exI [of _ "'':'' @ snd (host_info u)"]) auto
  next
    case False
    then have "before_first CHR '':'' ?info = ?info" "after_first CHR '':'' ?info = []" by simp_all
    with user hi show ?thesis by (intro exI [of _ user] exI [of _ "[]"]) auto
  qed
qed

lemma lower_char_idem [simp]: "lower_char (lower_char c) = lower_char c"
proof (cases "is_upper_char c")
  case True
  let ?n = "of_char c :: nat"
  have c: "65 \<le> ?n \<and> ?n \<le> 90 \<or> 192 \<le> ?n \<and> ?n \<le> 222 \<and> ?n \<noteq> 215"
    using True by (simp add: is_upper_char_def Let_def)
  then have "(of_char (lower_char c) :: nat) = ?n + 32" using True by (auto simp: lower_char_def)
  with c have "\<not> is_upper_char (lower_char c)" by (auto simp: is_upper_char_def Let_def)
  then show ?thesis by (simp add: lower_char_def)
qed (simp add: lower_char_def)

lemma str_lower_simps [simp]: "str_lower (s @ t) = str_lower s @ str_lower t" "str_lower (str_lower s) = str_lower s"
  by (simp_all add: str_lower_def)

lemma lower_hostname: "url_hostname u = Some h \<Longrightarrow> str_lower h = str_lower (fst (host_info u))"
proof -
  let ?host = "fst (host_info u)" let ?p = "before_first CHR ''%'' ?host"
  have "?host = ?p @ drop (length ?p) ?host"
    unfolding before_first_def by (metis append_eq_conv_conj takeWhile_dropWhile_id)
  then have "str_lower ?host = str_lower ?p @ str_lower (drop (length ?p) ?host)" by (metis str_lower_simps(1))
  moreover assume "url_hostname u = Some h"
  then have "h = str_lower ?p @ drop (length ?p) ?host" by (auto simp: url_hostname_def Let_def split: if_splits)
  ultimately show ?thesis by simp
qed

lemma urlparse_location: "urlparse netloc_ok text = Inr u \<Longrightarrow> CHR ''['' \<in> set (ur_netloc u) \<Longrightarrow> netloc_ok (ur_netloc u)"
  by (auto simp: urlparse_def urlsplit_def checked_netloc_def Let_def result_simps split: if_splits prod.splits)

end
