(* ===== verification/Razorpay_Adapter.thy ===== *)
theory Razorpay_Adapter
  imports Worker Url
begin

text \<open>
  The Razorpay adapter of \<open>integrations/execution/providers.py\<close>: how it asks the provider for a
  payment link, how it classifies the answer and how it looks a link up. The network is the
  parameter \<open>transport\<close>, the JSON decoder \<open>loads\<close>, and \<open>other\<close> prints the values a JSON text or
  \<open>str\<close> needs no table for: floats, and for \<open>str\<close> containers.
\<close>


section \<open>Requests and answers\<close>

record HttpResponse =
  hr_status_code :: int
  hr_body :: "byte list"
  hr_request_reference :: string

record HttpRequest =
  hq_method :: string
  hq_url :: string
  hq_headers :: "(string \<times> string) list"
  hq_body :: "byte list option"
  hq_timeout_seconds :: rat

text \<open>What a transport does: it answers, raises \<open>TimeoutError\<close>, or raises something else.\<close>

datatype transport_answer = Answered HttpResponse | TimedOut | TransportFailed exn

type_synonym transport = "HttpRequest \<Rightarrow> transport_answer"

text \<open>What \<open>urlopen\<close> does, of which \<open>HTTPError\<close> carries an answer and \<open>URLError\<close> none.\<close>

datatype opened = Opened int "byte list" | HttpErrored int "byte list" | Unreachable | OpenFailed exn

definition urllib_transport :: "(HttpRequest \<Rightarrow> opened) \<Rightarrow> transport" where
  "urllib_transport urlopen q =
     (case urlopen q of
        Opened code body \<Rightarrow> Answered \<lparr>hr_status_code = code, hr_body = body, hr_request_reference = hq_url q\<rparr>
      | HttpErrored code body \<Rightarrow> Answered \<lparr>hr_status_code = code, hr_body = body, hr_request_reference = hq_url q\<rparr>
      | Unreachable \<Rightarrow> TimedOut
      | OpenFailed e \<Rightarrow> TransportFailed e)"


section \<open>The adapter\<close>

definition base64_char :: "nat \<Rightarrow> char" where
  "base64_char n = ''ABCDEFGHIJKLMNOPQRSTUVWXYZabcdefghijklmnopqrstuvwxyz0123456789+/'' ! n"

fun base64 :: "byte list \<Rightarrow> string" where
  "base64 [] = []"
| "base64 [a] = [base64_char (unat a div 4), base64_char (unat a mod 4 * 16), CHR ''='', CHR ''='']"
| "base64 [a, b] =
     [base64_char (unat a div 4), base64_char (unat a mod 4 * 16 + unat b div 16),
      base64_char (unat b mod 16 * 4), CHR ''='']"
| "base64 (a # b # c # bs) =
     [base64_char (unat a div 4), base64_char (unat a mod 4 * 16 + unat b div 16),
      base64_char (unat b mod 16 * 4 + unat c div 64), base64_char (unat c mod 64)] @ base64 bs"

record RazorpayTestModeAdapter =
  rz_headers :: "(string \<times> string) list"
  rz_transport :: transport
  rz_timeout_seconds :: rat
  rz_base_url :: string

definition strip_slashes :: "string \<Rightarrow> string" where
  "strip_slashes s = rev (dropWhile (\<lambda>c. c = CHR ''/'') (rev s))"

definition new_razorpay_adapter ::
    "string \<Rightarrow> string \<Rightarrow> transport \<Rightarrow> rat \<Rightarrow> string \<Rightarrow> RazorpayTestModeAdapter result" where
  "new_razorpay_adapter key_id key_secret transport timeout_seconds base_url =
     bindR (raise_first
       [(take 9 key_id \<noteq> ''rzp_test_'', ValueError ''Razorpay adapter requires an rzp_test_ key''),
        (key_secret = [], ValueError ''Razorpay key secret is required''),
        (timeout_seconds \<le> 0, ValueError ''timeout_seconds must be positive'')]) (\<lambda>_.
     Inr \<lparr>rz_headers = [(''Authorization'', ''Basic '' @ base64 (utf8 (key_id @ '':'' @ key_secret))),
            (''Content-Type'', ''application/json'')],
          rz_transport = transport, rz_timeout_seconds = timeout_seconds, rz_base_url = strip_slashes base_url\<rparr>)"

definition reference_id :: "RecoveryAction \<Rightarrow> string" where
  "reference_id a = (let key = ra_idempotency_key a in drop (length key - 40) key)"

text \<open>\<open>_json_document\<close>: a body that is no JSON object counts as an empty one.\<close>

definition json_document :: "decoder \<Rightarrow> byte list \<Rightarrow> doc" where
  "json_document loads body = (case loads body of Some (PDict d) \<Rightarrow> d | _ \<Rightarrow> [])"

definition LINK_HOSTS :: "string set" where
  "LINK_HOSTS = {''rzp.io'', ''www.rzp.io''}"

definition razorpay_payment_link_url :: "(string \<Rightarrow> bool) \<Rightarrow> doc \<Rightarrow> string option result" where
  "razorpay_payment_link_url netloc_ok document =
     (case dict_get document ''short_url'' of
        PStr value \<Rightarrow>
          if 512 < length value then Inr None
          else
            bindR (urlparse netloc_ok value) (\<lambda>parsed.
            Inr (case url_port parsed of
                Inl _ \<Rightarrow> None
              | Inr port \<Rightarrow>
                  if ur_scheme parsed \<noteq> ''https'' \<or> ur_path parsed = []
                     \<or> str_lower (or_default (url_hostname parsed) []) \<notin> LINK_HOSTS
                     \<or> port \<notin> {None, Some 443}
                  then None else Some value))
      | _ \<Rightarrow> Inr None)"


section \<open>Creating a payment link\<close>

text \<open>\<open>json.dumps(value, separators=(",", ":"))\<close> of a parameter.\<close>

fun json_text :: "(pyval \<Rightarrow> string) \<Rightarrow> pyval \<Rightarrow> string result" where
  "json_text other PNone = Inr ''null''"
| "json_text other (PBool b) = Inr (if b then ''true'' else ''false'')"
| "json_text other (PInt n) = Inr (show_int n)"
| "json_text other (PStr s) = Inr (json_str True s)"
| "json_text other (PFloat r) = Inr (other (PFloat r))"
| "json_text other (PDatetime t) = Inl (TypeError ''Object of type datetime is not JSON serializable'')"
| "json_text other (PList vs) =
     bindR (mapR (json_text other) vs) (\<lambda>ts. Inr (''['' @ comma_sep ts @ '']''))"
| "json_text other (PDict kvs) =
     bindR (mapR (\<lambda>kv. bindR (json_text other (snd kv)) (\<lambda>t. Inr (json_str True (fst kv) @ '':'' @ t))) kvs)
       (\<lambda>ts. Inr (''{'' @ comma_sep ts @ ''}''))"

definition required_parameter :: "RecoveryAction \<Rightarrow> string \<Rightarrow> pyval result" where
  "required_parameter a key =
     (case map_of (ra_parameters a) key of None \<Rightarrow> Inl (LookupError key) | Some v \<Rightarrow> Inr v)"

definition link_payload :: "RecoveryAction \<Rightarrow> pyval result" where
  "link_payload a =
     bindR (required_parameter a ''amount_minor'') (\<lambda>amount.
     bindR (required_parameter a ''currency'') (\<lambda>currency.
     Inr (PDict
       [(''amount'', amount), (''currency'', currency), (''description'', PStr ''RevenueGuard Test Mode recovery''),
        (''reference_id'', PStr (reference_id a)),
        (''notes'', PDict [(''revenueguard_idempotency_key'', PStr (ra_idempotency_key a))])])))"

definition create_request :: "(pyval \<Rightarrow> string) \<Rightarrow> RazorpayTestModeAdapter \<Rightarrow> RecoveryAction \<Rightarrow> HttpRequest result" where
  "create_request other r a =
     bindR (link_payload a) (\<lambda>payload.
     bindR (json_text other payload) (\<lambda>text.
     Inr \<lparr>hq_method = ''POST'', hq_url = rz_base_url r @ ''/payment_links'', hq_headers = rz_headers r,
          hq_body = Some (utf8 text), hq_timeout_seconds = rz_timeout_seconds r\<rparr>))"

text \<open>A result of the provider with the fields most answers have.\<close>

definition execution_answer ::
    "datetime \<Rightarrow> ActionStatus \<Rightarrow> string \<Rightarrow> int option \<Rightarrow> string \<Rightarrow> ProviderExecutionResult" where
  "execution_answer now status category code error =
     \<lparr>px_status = status, px_evidence_source = PROVIDER_RESPONSE, px_observed_at = now,
      px_response_category = category, px_provider_object_id = None, px_response_reference = None,
      px_provider_status_code = code, px_error_code = Some error, px_retryable = False\<rparr>"

definition success_code :: "int \<Rightarrow> bool" where
  "success_code code \<longleftrightarrow> 200 \<le> code \<and> code < 300"

definition classify_execution ::
    "datetime \<Rightarrow> int \<Rightarrow> string option \<Rightarrow> string option \<Rightarrow> ProviderExecutionResult" where
  "classify_execution now code provider_id link_url =
     (if success_code code \<and> provider_id \<noteq> None then
        (execution_answer now ActionStatus.SUCCEEDED ''API_ACCEPTED'' (Some code) [])
          \<lparr>px_provider_object_id := provider_id, px_response_reference := link_url, px_error_code := None\<rparr>
      else if code = 429 then
        (execution_answer now FAILED ''RATE_LIMITED'' (Some code) ''PROVIDER_RATE_LIMITED'')\<lparr>px_retryable := True\<rparr>
      else if 400 \<le> code \<and> code < 500 then
        execution_answer now FAILED ''API_REJECTED'' (Some code) ''PROVIDER_REJECTED''
      else
        execution_answer now ActionStatus.UNKNOWN ''AMBIGUOUS_PROVIDER_RESPONSE'' (Some code) ''PROVIDER_RESPONSE_AMBIGUOUS'')"

definition string_value :: "pyval \<Rightarrow> string option" where
  "string_value v = (case v of PStr s \<Rightarrow> Some s | _ \<Rightarrow> None)"

definition razorpay_execute ::
    "decoder \<Rightarrow> (string \<Rightarrow> bool) \<Rightarrow> (pyval \<Rightarrow> string) \<Rightarrow> RazorpayTestModeAdapter \<Rightarrow> datetime \<Rightarrow> RecoveryAction \<Rightarrow>
     ProviderExecutionResult result" where
  "razorpay_execute loads netloc_ok other r now a =
     (if ra_action_type a \<noteq> CREATE_PAYMENT_LINK then
        post_init_execution_result
          (execution_answer now FAILED ''UNSUPPORTED_ACTION'' None ''RAZORPAY_ACTION_UNSUPPORTED'')
      else
        bindR (create_request other r a) (\<lambda>q.
        case rz_transport r q of
          TransportFailed e \<Rightarrow> Inl e
        | TimedOut \<Rightarrow>
            post_init_execution_result
              (execution_answer now ActionStatus.UNKNOWN ''TRANSPORT_TIMEOUT'' None ''PROVIDER_TIMEOUT'')
        | Answered response \<Rightarrow>
            (let document = json_document loads (hr_body response) in
             bindR (razorpay_payment_link_url netloc_ok document) (\<lambda>link_url.
             post_init_execution_result
               (classify_execution now (hr_status_code response) (string_value (dict_get document ''id'')) link_url)))))"


section \<open>Looking a payment link up\<close>

text \<open>\<open>bool(value)\<close>.\<close>

fun truthy_value :: "pyval \<Rightarrow> bool" where
  "truthy_value PNone \<longleftrightarrow> False"
| "truthy_value (PBool b) \<longleftrightarrow> b"
| "truthy_value (PInt n) \<longleftrightarrow> n \<noteq> 0"
| "truthy_value (PFloat r) \<longleftrightarrow> r \<noteq> 0"
| "truthy_value (PStr s) \<longleftrightarrow> s \<noteq> []"
| "truthy_value (PDatetime t) \<longleftrightarrow> True"
| "truthy_value (PList vs) \<longleftrightarrow> vs \<noteq> []"
| "truthy_value (PDict kvs) \<longleftrightarrow> kvs \<noteq> []"

definition known_provider_id :: "(pyval \<Rightarrow> string) \<Rightarrow> RecoveryAction \<Rightarrow> string option" where
  "known_provider_id other a =
     (let v = dict_get (ra_parameters a) ''provider_object_id'' in
      if truthy_value v then Some (py_str other v) else None)"

definition lookup_request :: "(pyval \<Rightarrow> string) \<Rightarrow> RazorpayTestModeAdapter \<Rightarrow> RecoveryAction \<Rightarrow> HttpRequest" where
  "lookup_request other r a =
     \<lparr>hq_method = ''GET'',
      hq_url = (case known_provider_id other a of
          Some i \<Rightarrow> rz_base_url r @ ''/payment_links/'' @ i
        | None \<Rightarrow> rz_base_url r @ ''/payment_links/?'' @ urlencode [(''reference_id'', reference_id a)]),
      hq_headers = rz_headers r, hq_body = None, hq_timeout_seconds = rz_timeout_seconds r\<rparr>"

text \<open>The links of a list answer that carry the reference of the action.\<close>

definition matching_item :: "RecoveryAction \<Rightarrow> pyval \<Rightarrow> doc list" where
  "matching_item a link =
     (case link of
        PDict d \<Rightarrow> if dict_get d ''reference_id'' = PStr (reference_id a) then [d] else []
      | _ \<Rightarrow> [])"

definition matching_links :: "RecoveryAction \<Rightarrow> doc \<Rightarrow> doc list" where
  "matching_links a document =
     (case dict_get document ''payment_links'' of
        PList items \<Rightarrow> concat (map (matching_item a) items)
      | _ \<Rightarrow> [])"

definition link_state :: "(pyval \<Rightarrow> string) \<Rightarrow> doc \<Rightarrow> string" where
  "link_state other d = (case map_of d ''status'' of None \<Rightarrow> [] | Some v \<Rightarrow> str_lower (py_str other v))"

definition link_status :: "string \<Rightarrow> ActionStatus" where
  "link_status state =
     (if state = ''paid'' then ActionStatus.SUCCEEDED
      else if state \<in> {''cancelled'', ''expired''} then FAILED
      else if state \<in> {''created'', ''partially_paid''} then PENDING
      else ActionStatus.UNKNOWN)"

definition lookup_answer ::
    "datetime \<Rightarrow> ActionStatus \<Rightarrow> string \<Rightarrow> bool \<Rightarrow> string option \<Rightarrow> string \<Rightarrow> ProviderLookupResult result" where
  "lookup_answer now status reference authoritative provider_id reason =
     post_init_lookup_result
       \<lparr>pl_status = status, pl_evidence_source = PROVIDER_LOOKUP, pl_evidence_reference = reference,
        pl_observed_at = now, pl_is_authoritative = authoritative, pl_provider_object_id = provider_id,
        pl_reason_code = Some reason\<rparr>"

definition classify_link ::
    "(pyval \<Rightarrow> string) \<Rightarrow> datetime \<Rightarrow> HttpResponse \<Rightarrow> string option \<Rightarrow> doc \<Rightarrow> ProviderLookupResult result" where
  "classify_link other now response provider_id d =
     (let state = link_state other d; status = link_status state in
      lookup_answer now status (hr_request_reference response)
        (success_code (hr_status_code response) \<and> status \<noteq> ActionStatus.UNKNOWN) provider_id
        (if state \<noteq> [] then ''PAYMENT_LINK_'' @ str_upper state else ''PROVIDER_LOOKUP_UNRECOGNIZED''))"

definition razorpay_lookup ::
    "decoder \<Rightarrow> (pyval \<Rightarrow> string) \<Rightarrow> RazorpayTestModeAdapter \<Rightarrow> datetime \<Rightarrow> RecoveryAction \<Rightarrow>
     ProviderLookupResult result" where
  "razorpay_lookup loads other r now a =
     (let provider_id = known_provider_id other a in
      case rz_transport r (lookup_request other r a) of
        TransportFailed e \<Rightarrow> Inl e
      | TimedOut \<Rightarrow>
          lookup_answer now ActionStatus.UNKNOWN
            (''razorpay/payment_links/'' @ or_default provider_id (reference_id a) @ ''/timeout'') False provider_id
            ''PROVIDER_LOOKUP_TIMEOUT''
      | Answered response \<Rightarrow>
          (let document = json_document loads (hr_body response) in
           if provider_id \<noteq> None then classify_link other now response provider_id document
           else case matching_links a document of
               [d] \<Rightarrow>
                 (case dict_get d ''id'' of
                    PStr i \<Rightarrow> classify_link other now response (Some i) d
                  | _ \<Rightarrow> lookup_answer now ActionStatus.UNKNOWN (hr_request_reference response) False None
                           ''PROVIDER_LOOKUP_MALFORMED'')
             | _ \<Rightarrow> lookup_answer now ActionStatus.UNKNOWN (hr_request_reference response) False None
                      ''PROVIDER_REFERENCE_NOT_RESOLVED''))"

text \<open>The adapter as a provider of the worker; each call reads the clock.\<close>

definition razorpay_provider ::
    "decoder \<Rightarrow> (string \<Rightarrow> bool) \<Rightarrow> (pyval \<Rightarrow> string) \<Rightarrow> RazorpayTestModeAdapter \<Rightarrow> datetime \<Rightarrow> ActionProvider" where
  "razorpay_provider loads netloc_ok other r now =
     \<lparr>prov_execute = razorpay_execute loads netloc_ok other r now,
      prov_lookup = razorpay_lookup loads other r now\<rparr>"

end
