(* ===== verification/Adapter_Theorems.thy ===== *)
theory Adapter_Theorems
  imports Settled Razorpay_Adapter Outbox_Theorems
begin

text \<open>
  What the Razorpay adapter guarantees: a call that was answered, or may have been, is never made
  again; a lookup settles an action only on the provider's word about exactly its payment link; and
  a payment link handed to an operator leads to a host of the provider.
\<close>


section \<open>Calls\<close>

lemma finish_settles:
  assumes "outbox_ok s" and "finish_attempt uuids m a token q s = Inr (x, s')"
    and "\<not> ar_retryable q" and "ar_outcome_status q \<noteq> PENDING"
  shows "settled s' (m, a) \<and> provider_calls s' (m, a) = provider_calls s (m, a)"
proof -
  from assms(2) obtain act t s1 where D: "stored_action s (m, a) = Some act"
    "filter (\<lambda>t. ap_lease_token t = token) (open_attempts s (m, a)) = [t]"
    and s1: "s1 = s\<lparr>db_attempts := update_where (\<lambda>u. ap_id u = ap_id t) (completed_attempt q) (db_attempts s),
       db_actions := update_where (\<lambda>r. action_key r = (m, a))
         (if retries q act then retried_action q else settled_action q) (db_actions s)\<rparr>"
    and last: "if retries q act then s' = s1
     else \<exists>e. append_entry uuids (finished_append (settled_action q act) (completed_attempt q t) q) s1 = Inr (e, s')"
    by (rule finish_attempt_InrD)
  have settles: "\<not> retries q act" using assms(3) by (simp add: retries_def)
  with last obtain e where e: "append_entry uuids (finished_append (settled_action q act) (completed_attempt q t) q) s1
      = Inr (e, s')" by auto
  from outbox_tables.staysD [OF append_entry_outbox_tables e]
  have same: "db_actions s' = db_actions s1" "db_attempts s' = db_attempts s1" by (simp_all add: outbox_tables_def)
  let ?s2 = "s\<lparr>db_attempts := update_where (\<lambda>u. ap_id u = ap_id t) (completed_attempt q) (db_attempts s)\<rparr>"
  have "stored_action s1 (m, a) = Some (settled_action q act)"
    using stored_action_update [of "settled_action q", where s = ?s2 and k = "(m, a)" and k' = "(m, a)"] D(1) settles
    by (simp add: s1 stored_action_def)
  moreover have "ao_status (settled_action q act) = ar_outcome_status q" by (simp add: settled_action_def Let_def)
  moreover have "open_attempts s' (m, a) = []" using finish_closes [OF assms(1,2)] by simp
  moreover have "provider_calls ?s2 (m, a) = provider_calls s (m, a)" by (rule calls_completed) simp
  ultimately show ?thesis
    using assms(4) same by (simp add: settled_def stored_action_def provider_calls_def s1)
qed

lemma recorded_result_settles:
  assumes "outbox_ok s" and "record_execution_result settings uuids m i token x s = Inr (d, s1)"
    and "\<not> px_retryable x" and "px_status x \<noteq> PENDING"
  shows "settled s1 (m, i) \<and> provider_calls s1 (m, i) = provider_calls s (m, i)"
proof -
  from assms(2) obtain n u s0 where f: "finish_attempt uuids m i token (attempt_result settings n x) s = Inr (u, s0)"
    and rest: "(\<lambda>(a, _). bindT (required_case a) (\<lambda>c. if ao_status a = PENDING
        then returnT (disposition a PENDING c ''EXPLICIT_FAILURE_RETRY_SCHEDULED'')
        else settle_result uuids a x c)) u s0 = Inr (d, s1)"
    unfolding record_execution_result_def by (auto simp: result_simps get_action_def)
  have "settled s0 (m, i) \<and> provider_calls s0 (m, i) = provider_calls s (m, i)"
    by (rule finish_settles [OF assms(1) f]) (use assms(3,4) in \<open>simp_all add: attempt_result_def\<close>)
  moreover have "settling.stays ((\<lambda>(a, _). bindT (required_case a) (\<lambda>c. if ao_status a = PENDING
        then returnT (disposition a PENDING c ''EXPLICIT_FAILURE_RETRY_SCHEDULED'')
        else settle_result uuids a x c)) u)"
    unfolding required_case_def settle_result_def store_observation_def Let_def
    by (intro settling_services)
  then have "keeps_settled s0 s1" using rest by (rule settling.staysD)
  ultimately show ?thesis by (simp only: keeps_settled_def)
qed

lemma execution_answer_simps [simp]:
  "px_status (execution_answer now st category code error) = st"
  "px_retryable (execution_answer now st category code error) = False"
  "px_observed_at (execution_answer now st category code error) = now"
  by (simp_all add: execution_answer_def)

lemma post_init_execution_result_Inr: "post_init_execution_result r = Inr x \<Longrightarrow>
    px_status x = px_status r \<and> px_retryable x = px_retryable r \<and> px_provider_object_id x = px_provider_object_id r
    \<and> px_response_reference x = px_response_reference r \<and> px_status r \<noteq> PENDING"
  by (auto simp: post_init_execution_result_def result_simps)

lemma classify_execution_retryable:
  "px_retryable (classify_execution now code i url) \<longleftrightarrow> code = 429 \<and> \<not> (success_code code \<and> i \<noteq> None)"
  by (simp add: classify_execution_def)

lemma razorpay_retryable:
  assumes "razorpay_execute loads netloc_ok other r now a = Inr x"
  shows "px_status x \<noteq> PENDING
    \<and> (px_retryable x \<longrightarrow> (\<exists>q p. create_request other r a = Inr q \<and> rz_transport r q = Answered p \<and> hr_status_code p = 429))"
proof (cases "ra_action_type a = CREATE_PAYMENT_LINK")
  case False
  with assms have "post_init_execution_result
      (execution_answer now FAILED ''UNSUPPORTED_ACTION'' None ''RAZORPAY_ACTION_UNSUPPORTED'') = Inr x"
    by (simp add: razorpay_execute_def)
  from post_init_execution_result_Inr [OF this] show ?thesis by simp
next
  case True
  then obtain q where q: "create_request other r a = Inr q" using assms by (auto simp: razorpay_execute_def result_simps)
  show ?thesis
  proof (cases "rz_transport r q")
    case (Answered p)
    with assms True q obtain url where "post_init_execution_result (classify_execution now (hr_status_code p)
        (string_value (dict_get (json_document loads (hr_body p)) ''id'')) url) = Inr x"
      by (auto simp: razorpay_execute_def Let_def result_simps)
    from post_init_execution_result_Inr [OF this] q Answered show ?thesis
      by (auto simp: classify_execution_retryable)
  next
    case TimedOut
    with assms True q have "post_init_execution_result
        (execution_answer now ActionStatus.UNKNOWN ''TRANSPORT_TIMEOUT'' None ''PROVIDER_TIMEOUT'') = Inr x"
      by (simp add: razorpay_execute_def)
    from post_init_execution_result_Inr [OF this] show ?thesis by simp
  next
    case (TransportFailed e)
    with assms True q show ?thesis by (simp add: razorpay_execute_def)
  qed
qed

text \<open>
  Property C7. An answered call is final. When the Razorpay adapter was asked for a payment link and the
  answer was anything but an explicit rate limit (a success, a rejection, a server error, a
  malformed answer or a timeout), and the result is recorded, then over every run of the whole
  platform the action is never pending again and no further provider call is made for it: a link
  that may exist is never created twice.
\<close>

theorem answered_call_is_final:
  assumes "razorpay_execute loads netloc_ok other ad now act = Inr x"
    and "\<forall>q p. rz_transport ad q = Answered p \<longrightarrow> hr_status_code p \<noteq> 429"
    and "record_execution_result settings uuids m i token x s = Inr (d, s1)" and "books_ok s"
    and "platform_run s1 s2"
  shows "provider_calls s2 (m, i) = provider_calls s (m, i)
    \<and> (\<exists>a. stored_action s2 (m, i) = Some a \<and> ao_status a \<noteq> PENDING)"
proof -
  have x: "px_status x \<noteq> PENDING" "\<not> px_retryable x" using razorpay_retryable [OF assms(1)] assms(2) by blast+
  have "outbox_ok s" using assms(4) by (simp add: books_ok_def)
  from recorded_result_settles [OF this assms(3) x(2,1)]
  have "settled s1 (m, i)" "provider_calls s1 (m, i) = provider_calls s (m, i)" by simp_all
  moreover have "keeps_settled s1 s2" by (rule platform_settled.run_step [OF assms(5)])
  ultimately have "settled s2 (m, i)" "provider_calls s2 (m, i) = provider_calls s (m, i)"
    by (simp_all only: keeps_settled_def)
  then show ?thesis by (auto simp: settled_def)
qed

section \<open>Lookups\<close>

lemma lookup_answer_Inr: "lookup_answer now st reference auth i reason = Inr r \<Longrightarrow>
    pl_status r = st \<and> pl_is_authoritative r = auth"
  by (auto simp: lookup_answer_def post_init_lookup_result_def result_simps)

lemma classify_link_authoritative:
  assumes "classify_link other now p i d = Inr r" and "pl_is_authoritative r"
  shows "success_code (hr_status_code p) \<and> pl_status r = link_status (link_state other d)"
  using assms unfolding classify_link_def Let_def by (auto dest!: lookup_answer_Inr)

text \<open>The document an authoritative lookup rests on.\<close>

definition looked_up_document :: "decoder \<Rightarrow> (pyval \<Rightarrow> string) \<Rightarrow> RecoveryAction \<Rightarrow> HttpResponse \<Rightarrow> doc \<Rightarrow> bool" where
  "looked_up_document loads other a p d \<longleftrightarrow>
     (case known_provider_id other a of
        Some i \<Rightarrow> d = json_document loads (hr_body p)
      | None \<Rightarrow> dict_get d ''reference_id'' = PStr (reference_id a)
          \<and> (\<exists>items i. dict_get (json_document loads (hr_body p)) ''payment_links'' = PList items
              \<and> PDict d \<in> set items \<and> dict_get d ''id'' = PStr i
              \<and> (\<forall>e. PDict e \<in> set items \<and> dict_get e ''reference_id'' = PStr (reference_id a) \<longrightarrow> e = d)))"

lemma matching_links_one:
  assumes "matching_links a document = [d]"
  shows "\<exists>items. dict_get document ''payment_links'' = PList items \<and> PDict d \<in> set items
    \<and> dict_get d ''reference_id'' = PStr (reference_id a)
    \<and> (\<forall>e. PDict e \<in> set items \<and> dict_get e ''reference_id'' = PStr (reference_id a) \<longrightarrow> e = d)"
proof -
  from assms obtain items where items: "dict_get document ''payment_links'' = PList items"
    "concat (map (matching_item a) items) = [d]"
    by (auto simp: matching_links_def split: pyval.splits)
  have "set (concat (map (matching_item a) items)) = {d}" unfolding items(2) by simp
  then have members: "x \<in> set items \<Longrightarrow> e \<in> set (matching_item a x) \<Longrightarrow> e = d"
    and "\<exists>x\<in>set items. d \<in> set (matching_item a x)" for x e by auto
  then have "PDict d \<in> set items \<and> dict_get d ''reference_id'' = PStr (reference_id a)"
    by (auto simp: matching_item_def split: pyval.splits if_splits)
  moreover have "e = d" if "PDict e \<in> set items" "dict_get e ''reference_id'' = PStr (reference_id a)" for e
    by (rule members [OF that(1)]) (simp add: matching_item_def that(2))
  ultimately show ?thesis using items(1) by blast
qed

lemma authoritative_lookup:
  assumes "razorpay_lookup loads other ad now a = Inr r" and "pl_is_authoritative r"
  shows "\<exists>p d. rz_transport ad (lookup_request other ad a) = Answered p \<and> success_code (hr_status_code p)
    \<and> pl_status r = link_status (link_state other d) \<and> looked_up_document loads other a p d"
proof (cases "rz_transport ad (lookup_request other ad a)")
  case (Answered p)
  let ?document = "json_document loads (hr_body p)"
  show ?thesis
  proof (cases "known_provider_id other a")
    case (Some i)
    with assms(1) Answered have "classify_link other now p (Some i) ?document = Inr r"
      by (simp add: razorpay_lookup_def Let_def)
    from classify_link_authoritative [OF this assms(2)] Answered Some show ?thesis
      by (intro exI [of _ p] exI [of _ ?document]) (simp add: looked_up_document_def)
  next
    case None
    from assms(1) Answered None have "\<exists>d i. matching_links a ?document = [d] \<and> dict_get d ''id'' = PStr i
        \<and> classify_link other now p (Some i) d = Inr r"
      using assms(2) by (auto simp: razorpay_lookup_def Let_def split: list.splits pyval.splits dest!: lookup_answer_Inr)
    then obtain d i where d: "matching_links a ?document = [d]" "dict_get d ''id'' = PStr i"
      "classify_link other now p (Some i) d = Inr r" by blast
    from classify_link_authoritative [OF d(3) assms(2)] matching_links_one [OF d(1)] d(2) Answered None show ?thesis
      by (intro exI [of _ p] exI [of _ d]) (auto simp: looked_up_document_def)
  qed
next
  case TimedOut
  with assms show ?thesis by (auto simp: razorpay_lookup_def Let_def dest!: lookup_answer_Inr)
next
  case (TransportFailed e)
  with assms show ?thesis by (simp add: razorpay_lookup_def Let_def)
qed

lemma execution_transition_moves: "execution_transition uuids a st reason t x c s = Inr (v, s') \<Longrightarrow> rc_state v = st"
  by (auto simp: execution_transition_def execution_request_def result_simps dest: transition_case_state split: prod.splits)

lemma settle_lookup_recovers:
  fixes s :: "'a recovery_db_scheme"
  assumes "settle_lookup uuids a r c s = Inr (d, s')" and "xd_case_state d = RECOVERED" and "rc_state c \<in> {CaseState.UNKNOWN, VERIFYING}"
  shows "pl_is_authoritative r \<and> pl_status r = ActionStatus.SUCCEEDED"
proof (rule ccontr)
  assume no: "\<not> ?thesis"
  let ?x = "no_extras\<lparr>te_authoritative_evidence_reference := Some (pl_evidence_reference r)\<rparr>"
  have "\<exists>c1 (s1 :: 'a recovery_db_scheme) s2 (s4 :: 'a recovery_db_scheme) s5 c2. (if rc_state c = CaseState.UNKNOWN
          then execution_transition uuids a VERIFYING ''UNKNOWN_RECONCILED'' (pl_observed_at r) ?x c
          else returnT c) s1 = Inr (c1, s2)
    \<and> (if pl_is_authoritative r \<and> pl_status r = ActionStatus.SUCCEEDED then
           execution_transition uuids a RECOVERED (or_default (pl_reason_code r) ''AUTHORITATIVE_RECOVERY'') (pl_observed_at r)
             (?x\<lparr>te_terminal_reason := Some (or_default (pl_reason_code r) ''AUTHORITATIVE_RECOVERY'')\<rparr>) c1
         else if pl_status r = FAILED \<and> pl_is_authoritative r then
           execution_transition uuids a DECISION_PENDING (or_default (pl_reason_code r) ''AUTHORITATIVE_ACTION_FAILURE'')
             (pl_observed_at r) no_extras c1
         else returnT c1) s4 = Inr (c2, s5)
    \<and> xd_case_state d = rc_state c2"
    using assms(1) unfolding settle_lookup_def Let_def result_simps
    apply -
    apply (elim exE conjE)
    by (intro exI conjI, assumption, assumption) (simp add: disposition_def)
  then obtain c1 c2 and s1 s2 s4 s5 :: "'a recovery_db_scheme" where
    c1: "(if rc_state c = CaseState.UNKNOWN
          then execution_transition uuids a VERIFYING ''UNKNOWN_RECONCILED'' (pl_observed_at r) ?x c
          else returnT c) s1 = Inr (c1, s2)"
    and settle: "(if pl_is_authoritative r \<and> pl_status r = ActionStatus.SUCCEEDED then
           execution_transition uuids a RECOVERED (or_default (pl_reason_code r) ''AUTHORITATIVE_RECOVERY'') (pl_observed_at r)
             (?x\<lparr>te_terminal_reason := Some (or_default (pl_reason_code r) ''AUTHORITATIVE_RECOVERY'')\<rparr>) c1
         else if pl_status r = FAILED \<and> pl_is_authoritative r then
           execution_transition uuids a DECISION_PENDING (or_default (pl_reason_code r) ''AUTHORITATIVE_ACTION_FAILURE'')
             (pl_observed_at r) no_extras c1
         else returnT c1) s4 = Inr (c2, s5)"
    and d: "xd_case_state d = rc_state c2" by blast
  have "c2 = c1 \<or> rc_state c2 = DECISION_PENDING"
    using settle no by (auto simp: result_simps dest: execution_transition_moves split: if_splits)
  moreover have "rc_state c1 = VERIFYING"
    using c1 assms(3) by (auto simp: result_simps dest: execution_transition_moves split: if_splits)
  ultimately show False using d assms(2) by auto
qed

lemma record_lookup_settles:
  assumes "record_lookup uuids m i r s = Inr (d, s')" and "xd_reason_code d = ''RECONCILED''"
  shows "\<exists>a c s0. settle_lookup uuids a r c s0 = Inr (d, s') \<and> rc_state c \<in> {CaseState.UNKNOWN, VERIFYING}"
proof -
  let ?rest = "\<lambda>c1 a1. if rc_state c1 = CaseState.UNKNOWN \<and> unresolved_at_deadline a1 r
       then escalate_unresolved uuids a1 r c1
       else if pl_status r = ActionStatus.UNKNOWN
       then returnT (disposition a1 (ao_status a1) c1
              (if rc_state c1 = CaseState.UNKNOWN then ''STILL_UNKNOWN'' else ''AWAITING_VERIFICATION''))
       else settle_lookup uuids a1 r c1"
  from assms(1) obtain a c s1 where c: "(if rc_state c \<notin> {CaseState.UNKNOWN, VERIFYING}
       then returnT (disposition a (ao_status a) c ''STALE_LOOKUP'')
       else bindT (if rc_state c = VERIFYING \<and> unresolved_at_deadline a r
              then expire_verification uuids a r c else returnT c) (\<lambda>c1.
            bindT (the_action (action_key a)) (\<lambda>a1. ?rest c1 a1))) s1 = Inr (d, s')"
    unfolding record_lookup_def by (auto simp only: bindT_eq_Inr)
  with assms(2) have state: "rc_state c \<in> {CaseState.UNKNOWN, VERIFYING}"
    by (cases "rc_state c \<in> {CaseState.UNKNOWN, VERIFYING}") (simp_all add: disposition_def result_simps)
  with c obtain c1 s2 a1 s3 where c1: "(if rc_state c = VERIFYING \<and> unresolved_at_deadline a r
              then expire_verification uuids a r c else returnT c) s1 = Inr (c1, s2)"
    and rest: "?rest c1 a1 s3 = Inr (d, s')"
    by (auto simp only: bindT_eq_Inr if_False if_True not_True_eq_False)
  have "rc_state c1 \<in> {CaseState.UNKNOWN, VERIFYING}"
    using c1 state by (auto simp: expire_verification_def result_simps dest: execution_transition_moves split: if_splits)
  moreover have "settle_lookup uuids a1 r c1 s3 = Inr (d, s')"
    using rest assms(2) by (auto simp: escalate_unresolved_def disposition_def result_simps split: if_splits)
  ultimately show ?thesis by blast
qed

text \<open>
  Property C8. A lookup recovers money only on the provider's word that exactly this payment link is paid.
  When the answer of the Razorpay adapter to a lookup closes a case as recovered, the provider
  answered with success and the document it rests on has the status \<open>paid\<close>: it is the one asked for
  by its provider ID, or, when the call that created the link was lost, the only entry of the answered
  list that carries the reference of the action.
\<close>

theorem lookup_recovers_only_paid_links:
  assumes "razorpay_lookup loads other ad now act = Inr r" and "record_lookup uuids m i r s = Inr (d, s')"
    and "xd_case_state d = RECOVERED" and "xd_reason_code d = ''RECONCILED''"
  shows "\<exists>p doc. rz_transport ad (lookup_request other ad act) = Answered p
    \<and> 200 \<le> hr_status_code p \<and> hr_status_code p < 300 \<and> link_state other doc = ''paid''
    \<and> looked_up_document loads other act p doc"
proof -
  obtain a c s0 where "settle_lookup uuids a r c s0 = Inr (d, s')" "rc_state c \<in> {CaseState.UNKNOWN, VERIFYING}"
    using record_lookup_settles [OF assms(2,4)] by blast
  from settle_lookup_recovers [OF this(1) assms(3) this(2)]
  have r: "pl_is_authoritative r" "pl_status r = ActionStatus.SUCCEEDED" by simp_all
  from authoritative_lookup [OF assms(1) r(1)] obtain p doc where
    p: "rz_transport ad (lookup_request other ad act) = Answered p" "success_code (hr_status_code p)"
    "pl_status r = link_status (link_state other doc)" "looked_up_document loads other act p doc" by blast
  have "link_state other doc = ''paid''" using p(3) r(2) by (auto simp: link_status_def split: if_splits)
  with p show ?thesis by (auto simp: success_code_def)
qed


section \<open>Links\<close>

text \<open>
  Property C33. A payment link that is kept for the operator is hosted by the provider: as far as its text
  goes, whatever the provider answered, it is an \<open>https\<close> URL whose location ends, after an optional
  user part, in a host of Razorpay and at most the standard port.
\<close>

theorem link_leads_to_provider:
  assumes "razorpay_payment_link_url netloc_ok document = Inr (Some url)" and "checks_addresses netloc_ok"
  shows "dict_get document ''short_url'' = PStr url \<and> length url \<le> 512
    \<and> (\<exists>scheme user host port tail. clean_url url = scheme @ ''://'' @ user @ host @ port @ ''/'' @ tail
        \<and> str_lower scheme = ''https'' \<and> str_lower host \<in> {''rzp.io'', ''www.rzp.io''}
        \<and> (user = [] \<or> last user = CHR ''@'') \<and> (\<forall>c\<in>set (user @ host @ port). c \<notin> set ''/?#'')
        \<and> (port \<in> {[], '':''} \<or> (\<exists>n. port = '':'' @ n \<and> (\<forall>c\<in>set n. is_digit c) \<and> digits_value n = 443)))"
proof -
  obtain u where u: "dict_get document ''short_url'' = PStr url" "length url \<le> 512"
    "urlparse netloc_ok url = Inr u" and ok: "ur_scheme u = ''https''" "ur_path u \<noteq> []"
    "str_lower (or_default (url_hostname u) []) \<in> LINK_HOSTS" "url_port u \<in> {Inr None, Inr (Some 443)}"
  proof (cases "dict_get document ''short_url''")
    case (PStr v)
    with assms(1) obtain u where v: "length v \<le> 512" "urlparse netloc_ok v = Inr u"
      and rest: "(case url_port u of Inl _ \<Rightarrow> None | Inr port \<Rightarrow>
         if ur_scheme u \<noteq> ''https'' \<or> ur_path u = [] \<or> str_lower (or_default (url_hostname u) []) \<notin> LINK_HOSTS
            \<or> port \<notin> {None, Some 443} then None else Some v) = Some url"
      by (auto simp: razorpay_payment_link_url_def result_simps split: if_splits)
    from rest obtain port where "url_port u = Inr port" by (cases "url_port u") auto
    with rest PStr v that show ?thesis by (auto split: if_splits)
  qed (use assms(1) in \<open>simp_all add: razorpay_payment_link_url_def\<close>)
  obtain h where h: "url_hostname u = Some h" using ok(3) by (cases "url_hostname u") (simp_all add: LINK_HOSTS_def str_lower_def)
  let ?host = "fst (host_info u)"
  have host: "str_lower ?host \<in> {''rzp.io'', ''www.rzp.io''}"
    using ok(3) lower_hostname [OF h] h by (auto simp: LINK_HOSTS_def or_default_def str_lower_def split: if_splits)
  have no_bracket: "CHR ''['' \<notin> set (ur_netloc u)"
  proof
    assume "CHR ''['' \<in> set (ur_netloc u)"
    with urlparse_location [OF u(3)] assms(2) have "CHR '':'' \<in> set ?host \<or> take 1 ?host \<in> {''v'', ''V''}"
      unfolding checks_addresses_def host_info_def Let_def by blast
    moreover have "lower_char CHR '':'' = CHR '':''" "str_lower ''v'' = ''v''" "str_lower ''V'' = ''v''" by code_simp+
    ultimately have "CHR '':'' \<in> set (str_lower ?host) \<or> take 1 (str_lower ?host) = ''v''"
      unfolding str_lower_def take_map by (auto simp: image_iff) metis+
    with host show False by auto
  qed
  from netloc_shape [OF no_bracket] obtain user port where n: "ur_netloc u = user @ ?host @ port"
    "user = [] \<or> last user = CHR ''@''" "port = [] \<and> snd (host_info u) = [] \<or> port = '':'' @ snd (host_info u)" by blast
  have "ur_netloc u \<noteq> []" using n(1) host by (auto simp: str_lower_def)
  with urlparse_shape [OF u(3)] ok(1,2) obtain scheme tail where
    parts: "clean_url url = scheme @ ''://'' @ ur_netloc u @ ''/'' @ tail" "str_lower scheme = ''https''"
    "\<forall>c\<in>set (ur_netloc u). c \<notin> set ''/?#''" by auto
  have "port \<in> {[], '':''} \<or> (\<exists>n. port = '':'' @ n \<and> (\<forall>c\<in>set n. is_digit c) \<and> digits_value n = 443)"
    using ok(4) n(3) by (auto simp: url_port_def Let_def split: if_splits)
  with u(1,2) parts n(1,2) host show ?thesis
    by (intro conjI exI [of _ scheme] exI [of _ user] exI [of _ ?host] exI [of _ port] exI [of _ tail]) simp_all
qed

end
