(* ===== verification/Adapter_Witnesses.thy ===== *)
theory Adapter_Witnesses
  imports Adapter_Theorems Execution_Witnesses
begin

text \<open>Concrete answers of the provider: a failing one, a paid link, and links it might answer with.\<close>


section \<open>Steps that go through\<close>

definition moved_row :: "RecoveryCase \<Rightarrow> TransitionRequest \<Rightarrow> CaseRow \<Rightarrow> CaseTransition list \<Rightarrow>
    (RecoveryCase \<times> CaseRow \<times> CaseTransition) option" where
  "moved_row c q r ts =
     (case transition_case c q of
        Inl _ \<Rightarrow> None
      | Inr (u, t) \<Rightarrow>
          let r' = transition_update u None r in
          if transition_matches t r \<and> cases_ok [r'] \<and> transitions_ok (ts @ [t]) \<and> validate_append (transition_append t) = Inr ()
          then Some (u, r', t) else None)"

lemma moved_row_stored:
  assumes "moved_row c (execution_request c a st reason now x) r ts = Some (u, r', t)"
    and "db_cases s = [r]" "db_transitions s = ts"
  shows "\<exists>es hs n. execution_transition uuids a st reason now x c s = Inr (u, s\<lparr>db_cases := [r'], db_transitions := ts @ [t],
    db_audit_entries := es, db_audit_heads := hs, db_uuids := n\<rparr>)"
proof -
  from assms(1) have t: "transition_case c (execution_request c a st reason now x) = Inr (u, t)"
    and r': "r' = transition_update u None r"
    and ok: "transition_matches t r" "cases_ok [r']" "transitions_ok (ts @ [t])" "validate_append (transition_append t) = Inr ()"
    by (auto simp: moved_row_def Let_def split: sum.splits prod.splits if_splits)
  obtain e s' where a: "append_entry uuids (transition_append t) (s\<lparr>db_cases := [r'], db_transitions := ts @ [t]\<rparr>) = Inr (e, s')"
    using append_entry_returns [OF ok(4)] by blast
  from append_entry_frame [OF a] obtain es hs n where
    s': "s' = s\<lparr>db_cases := [r'], db_transitions := ts @ [t], db_audit_entries := es, db_audit_heads := hs, db_uuids := n\<rparr>"
    by auto
  have key: "row_key r' = (ct_merchant_id t, ct_case_id t)"
    using ok(1) by (auto simp: r' transition_matches_def)
  have "apply_transition uuids u t None s = Inr (r', s')"
    using assms(2,3) ok(1,2,3) a key s'
    by (simp add: apply_transition_def run_tx checkT_def r' [symmetric] case_row_def)
  then have "execution_transition uuids a st reason now x c s = Inr (u, s')"
    using t by (simp add: execution_transition_def run_tx)
  with s' show ?thesis by blast
qed

lemma observation_stored:
  assumes "stored_action s k = Some a" "str_item (ao_parameters a) ''currency'' = Inr currency" "db_outcomes s = []"
    and "v = observed_outcome a b currency" "post_init_outcome v = Inr v" "outcome_row_ok v"
    and "validate_append (outcome_append a v) = Inr ()" "k = (ao_merchant_id a, ao_id a)"
  shows "\<exists>es hs n. store_observation uuids k b s = Inr ((), s\<lparr>db_outcomes := [v],
    db_audit_entries := es, db_audit_heads := hs, db_uuids := n\<rparr>)"
proof -
  obtain e s' where e: "append_entry uuids (outcome_append a v) (s\<lparr>db_outcomes := [v]\<rparr>) = Inr (e, s')"
    using append_entry_returns [OF assms(7)] by blast
  from append_entry_frame [OF e] obtain es hs n where
    s': "s' = s\<lparr>db_outcomes := [v], db_audit_entries := es, db_audit_heads := hs, db_uuids := n\<rparr>" by auto
  have key: "vo_merchant_id v = ao_merchant_id a" "vo_action_id v = ao_id a"
    unfolding assms(4) by (simp_all add: observed_outcome_def Let_def)
  have "outcomes_ok [v]" using assms(6) by (simp add: outcomes_ok_def unique_index_def)
  moreover have "stored_action (s\<lparr>db_outcomes := [v]\<rparr>) k = Some a" using assms(1) by (simp add: stored_action_def)
  ultimately have "store_observation uuids k b s = Inr ((), s')"
    using assms(1-3,5,8) e key
    by (simp add: store_observation_def the_action_def run_tx assms(4) [symmetric] store_outcome_def flush_outcomes_def
        checkT_def get_action_def)
  with s' show ?thesis by blast
qed


section \<open>A call and its link\<close>

definition link_state_with ::
    "RecoveryCase \<Rightarrow> CaseTransition list \<Rightarrow> ActionRow \<Rightarrow> AttemptRow list \<Rightarrow> VerifiedOutcome list \<Rightarrow> AuditEntry list \<Rightarrow>
     (string \<rightharpoonup> int \<times> string) \<Rightarrow> nat \<Rightarrow> playbook_db" where
  "link_state_with c ts a calls vs es hs n = \<lparr>db_audit_entries = es, db_audit_heads = hs, db_uuids = n,
     db_cases = [sample_row\<lparr>cw_case := c\<rparr>], db_transitions = ts, db_case_events = [],
     db_actions = [a], db_attempts = calls, db_outcomes = vs,
     db_merchants = [], db_customers = [], db_payments = [], db_subscriptions = [], db_webhooks = [],
     db_dispatches = [], db_normalized = [], db_correlations = [], db_policies = [], db_reviews = [], db_receipts = [],
     db_predictions = [], db_interventions = [], db_consents = [], db_incidents = [], db_incident_links = [],
     db_invoices = [], db_promises = [], db_merchant_events = [], db_responses = [],
     db_escalations = [], db_observations = [], db_dirty_promises = []\<rparr>"

lemma link_state_tables [simp]:
  "db_cases (link_state_with c ts a calls vs es hs n) = [sample_row\<lparr>cw_case := c\<rparr>]"
  "db_transitions (link_state_with c ts a calls vs es hs n) = ts"
  "db_actions (link_state_with c ts a calls vs es hs n) = [a]"
  "db_attempts (link_state_with c ts a calls vs es hs n) = calls"
  "db_outcomes (link_state_with c ts a calls vs es hs n) = vs"
  "db_audit_entries (link_state_with c ts a calls vs es hs n) = es"
  "db_audit_heads (link_state_with c ts a calls vs es hs n) = hs"
  by (simp_all add: link_state_with_def)

lemma link_state_stored [simp]:
  "stored_action (link_state_with c ts a calls vs es hs n) k = (if action_key a = k then Some a else None)"
  by (simp add: stored_action_def)

lemma link_state_moved:
  "(link_state_with c ts a calls vs es hs n)\<lparr>db_cases := [sample_row\<lparr>cw_case := c'\<rparr>], db_transitions := ts', db_audit_entries := es',
     db_audit_heads := hs', db_uuids := n'\<rparr> = link_state_with c' ts' a calls vs es' hs' n'"
  "(link_state_with c ts a calls vs es hs n)\<lparr>db_outcomes := vs', db_audit_entries := es', db_audit_heads := hs', db_uuids := n'\<rparr>
     = link_state_with c ts a calls vs' es' hs' n'"
  "(link_state_with c ts a calls vs es hs n)\<lparr>db_attempts := calls', db_actions := [a']\<rparr>
     = link_state_with c ts a' calls' vs es hs n"
  "(link_state_with c ts a calls vs es hs n)\<lparr>db_audit_entries := es', db_audit_heads := hs', db_uuids := n'\<rparr>
     = link_state_with c ts a calls vs es' hs' n'"
  by (simp_all add: link_state_with_def)

lemma link_state_case:
  "get_case ''merchant_1'' ''case_1'' (link_state_with c ts a calls vs es hs n)
     = Inr (if rc_merchant_id c = ''merchant_1'' \<and> rc_case_id c = ''case_1'' then Some c else None, link_state_with c ts a calls vs es hs n)"
  by (simp add: get_case_def run_tx case_row_def)

section \<open>A paid link\<close>

definition paid_at :: datetime where
  "paid_at = Aware 3000"

definition paid_answer :: doc where
  "paid_answer = [(''payment_links'', PList [PDict [(''id'', PStr ''plink_1''),
     (''reference_id'', PStr ''rg:v1:key''), (''status'', PStr ''Paid'')]])]"

definition paid_adapter :: RazorpayTestModeAdapter where
  "paid_adapter = \<lparr>rz_headers = [], rz_transport = (\<lambda>_. Answered \<lparr>hr_status_code = 200, hr_body = [],
     hr_request_reference = ''razorpay/payment_links''\<rparr>), rz_timeout_seconds = 10, rz_base_url = ''https://api''\<rparr>"

definition paid_result :: ProviderLookupResult where
  "paid_result = \<lparr>pl_status = ActionStatus.SUCCEEDED, pl_evidence_source = PROVIDER_LOOKUP,
     pl_evidence_reference = ''razorpay/payment_links'', pl_observed_at = paid_at, pl_is_authoritative = True,
     pl_provider_object_id = Some ''plink_1'', pl_reason_code = Some ''PAYMENT_LINK_PAID''\<rparr>"

lemma paid_looked_up: "razorpay_lookup (\<lambda>_. Some (PDict paid_answer)) (\<lambda>_. []) paid_adapter paid_at sample_action = Inr paid_result"
proof -
  have fields: "rz_transport paid_adapter q = Answered \<lparr>hr_status_code = 200, hr_body = [], hr_request_reference = ''razorpay/payment_links''\<rparr>"
    "known_provider_id (\<lambda>_. []) sample_action = None" for q
    by (simp add: paid_adapter_def, code_simp)
  have "matching_links sample_action paid_answer = [[(''id'', PStr ''plink_1''),
     (''reference_id'', PStr ''rg:v1:key''), (''status'', PStr ''Paid'')]]"
    by code_simp
  moreover have "classify_link (\<lambda>_. []) paid_at \<lparr>hr_status_code = 200, hr_body = [], hr_request_reference = ''razorpay/payment_links''\<rparr>
      (Some ''plink_1'') [(''id'', PStr ''plink_1''), (''reference_id'', PStr ''rg:v1:key''), (''status'', PStr ''Paid'')] = Inr paid_result"
    by code_simp
  ultimately show ?thesis by (simp add: razorpay_lookup_def fields json_document_def dict_get_def)
qed

definition verifying_case :: RecoveryCase where
  "verifying_case = sample_case\<lparr>rc_state := VERIFYING, rc_state_version := 6\<rparr>"

definition sent_row :: ActionRow where
  "sent_row = sample_action_row\<lparr>ao_status := ActionStatus.SUCCEEDED\<rparr>"

definition paid_extras :: TransitionExtras where
  "paid_extras = no_extras\<lparr>te_authoritative_evidence_reference := Some ''razorpay/payment_links'', te_terminal_reason := Some ''PAYMENT_LINK_PAID''\<rparr>"

definition paid_case :: RecoveryCase where
  "paid_case = verifying_case\<lparr>rc_state := RECOVERED, rc_state_version := 7, rc_updated_at := paid_at,
     rc_terminal_reason := Some ''PAYMENT_LINK_PAID''\<rparr>"

definition paid_step :: CaseTransition where
  "paid_step = \<lparr>ct_case_id = ''case_1'', ct_merchant_id = ''merchant_1'',
     ct_before_state = VERIFYING, ct_after_state = RECOVERED, ct_before_version = 6, ct_after_version = 7,
     ct_actor = ''OUTCOME_VERIFIER'', ct_reason_code = ''PAYMENT_LINK_PAID'', ct_reason_detail = None,
     ct_correlation_id = ''corr_1'', ct_policy_version = ''policy_1'',
     ct_authoritative_evidence_reference = Some ''razorpay/payment_links'', ct_occurred_at = paid_at\<rparr>"

lemma paid_moves:
  "moved_row verifying_case (execution_request verifying_case sent_row RECOVERED ''PAYMENT_LINK_PAID'' paid_at paid_extras)
     (sample_row\<lparr>cw_case := verifying_case\<rparr>) [] = Some (paid_case, sample_row\<lparr>cw_case := paid_case\<rparr>, paid_step)"
  by code_simp

definition paid_outcome :: VerifiedOutcome where
  "paid_outcome = observed_outcome sent_row
     (lookup_observation paid_result ActionStatus.SUCCEEDED (Some ''PAYMENT_LINK_PAID'') True 12000) ''INR''"

lemma sent_row_facts:
  "int_item (ao_parameters sent_row) ''amount_minor'' = Inr 12000" "str_item (ao_parameters sent_row) ''currency'' = Inr ''INR''"
  "action_key sent_row = (''merchant_1'', ''action_1'')" "ao_recovery_case_id sent_row = ''case_1''"
  "ao_merchant_id sent_row = ''merchant_1''" "ao_id sent_row = ''action_1''" "ao_correlation_id sent_row = ''corr_1''"
  by code_simp+

lemma paid_outcome_facts:
  "vo_outcome_id paid_outcome = ''outcome_'' @ take 32 (sha256_hex (observation_material sent_row
     (lookup_observation paid_result ActionStatus.SUCCEEDED (Some ''PAYMENT_LINK_PAID'') True 12000)))"
  "vo_action_id paid_outcome = ''action_1''" "vo_case_id paid_outcome = ''case_1''"
  "vo_merchant_id paid_outcome = ''merchant_1''" "vo_schema_version paid_outcome = ''1.0''"
  "vo_recovered_amount_minor paid_outcome = 12000" "vo_currency paid_outcome = ''INR''"
  "vo_outcome_status paid_outcome = ActionStatus.SUCCEEDED" "vo_is_authoritative paid_outcome"
  "vo_observed_at paid_outcome = paid_at" "vo_created_at paid_outcome = paid_at" "vo_verified_at paid_outcome = Some paid_at"
  "vo_evidence_reference paid_outcome = Some ''razorpay/payment_links''"
  by (simp_all add: paid_outcome_def observed_outcome_def Let_def sent_row_facts)
    (simp_all add: lookup_observation_def paid_result_def)

lemma paid_outcome_ok:
  "post_init_outcome paid_outcome = Inr paid_outcome" "outcome_row_ok paid_outcome"
  "validate_append (outcome_append sent_row paid_outcome) = Inr ()"
proof -
  have utc: "utc name paid_at = Inr paid_at" "audit_utc paid_at = Inr paid_at" for name by (simp_all add: paid_at_def utc_def audit_utc_def)
  have "currency_pattern ''INR''" by code_simp
  then show "post_init_outcome paid_outcome = Inr paid_outcome" "outcome_row_ok paid_outcome"
    by (simp_all add: post_init_outcome_def outcome_row_ok_def paid_outcome_facts raise_first_okI blank_or_longer_def utc utc_opt_def)
  show "validate_append (outcome_append sent_row paid_outcome) = Inr ()"
    by (simp add: validate_append_def outcome_append_def new_append_def raise_first_okI too_long_def Let_def utc
        paid_outcome_facts sent_row_facts)
qed

text \<open>The lookup closes the case as recovered.\<close>

lemma paid_recorded:
  "\<exists>d s'. record_lookup sample_uuids ''merchant_1'' ''action_1'' paid_result
      (link_state_with verifying_case [] sent_row [] [] [] Map.empty 0) = Inr (d, s')
    \<and> xd_case_state d = RECOVERED \<and> xd_reason_code d = ''RECONCILED''"
proof -
  let ?s = "link_state_with verifying_case [] sent_row [] [] [] Map.empty 0"
  let ?b = "lookup_observation paid_result ActionStatus.SUCCEEDED (Some ''PAYMENT_LINK_PAID'') True 12000"
  have case_facts: "rc_merchant_id verifying_case = ''merchant_1''" "rc_case_id verifying_case = ''case_1''"
    "rc_state verifying_case = VERIFYING" "rc_state paid_case = RECOVERED"
    by code_simp+
  have result_facts: "pl_status paid_result = ActionStatus.SUCCEEDED" "pl_is_authoritative paid_result"
    "pl_reason_code paid_result = Some ''PAYMENT_LINK_PAID''" "pl_observed_at paid_result = paid_at"
    "pl_evidence_reference paid_result = ''razorpay/payment_links''"
    by (simp_all add: paid_result_def)
  have "\<exists>es hs n. store_observation sample_uuids (''merchant_1'', ''action_1'') ?b ?s = Inr ((), ?s\<lparr>db_outcomes := [paid_outcome],
      db_audit_entries := es, db_audit_heads := hs, db_uuids := n\<rparr>)"
    by (rule observation_stored [where a = sent_row])
      (simp_all add: sent_row_facts paid_outcome_ok, simp add: paid_outcome_def)
  then obtain es hs n where o: "store_observation sample_uuids (''merchant_1'', ''action_1'') ?b ?s
      = Inr ((), link_state_with verifying_case [] sent_row [] [paid_outcome] es hs n)"
    by (auto simp: link_state_moved)
  from moved_row_stored [OF paid_moves, of "link_state_with verifying_case [] sent_row [] [paid_outcome] es hs n" sample_uuids]
  obtain es' hs' n' where t: "execution_transition sample_uuids sent_row RECOVERED ''PAYMENT_LINK_PAID'' paid_at paid_extras verifying_case
      (link_state_with verifying_case [] sent_row [] [paid_outcome] es hs n)
      = Inr (paid_case, link_state_with paid_case [paid_step] sent_row [] [paid_outcome] es' hs' n')"
    by (auto simp: link_state_moved)
  have extras: "no_extras\<lparr>te_authoritative_evidence_reference := Some ''razorpay/payment_links'', te_terminal_reason := Some ''PAYMENT_LINK_PAID''\<rparr>
      = paid_extras" by (simp add: paid_extras_def)
  show ?thesis
    by (simp add: record_lookup_def settle_lookup_def required_case_def get_action_def the_action_def run_tx link_state_case
        sent_row_facts case_facts result_facts unresolved_at_deadline_def Let_def or_default_def o t extras disposition_def)
qed

theorem lookup_recovers_only_paid_links_witness:
  "\<exists>d s' p doc. record_lookup sample_uuids ''merchant_1'' ''action_1'' paid_result
      (link_state_with verifying_case [] sent_row [] [] [] Map.empty 0) = Inr (d, s') \<and> xd_case_state d = RECOVERED
    \<and> rz_transport paid_adapter (lookup_request (\<lambda>_. []) paid_adapter sample_action) = Answered p
    \<and> link_state (\<lambda>_. []) doc = ''paid''
    \<and> looked_up_document (\<lambda>_. Some (PDict paid_answer)) (\<lambda>_. []) sample_action p doc"
proof -
  obtain d s' where d: "record_lookup sample_uuids ''merchant_1'' ''action_1'' paid_result
      (link_state_with verifying_case [] sent_row [] [] [] Map.empty 0) = Inr (d, s')"
    "xd_case_state d = RECOVERED" "xd_reason_code d = ''RECONCILED''"
    using paid_recorded by blast
  from lookup_recovers_only_paid_links [OF paid_looked_up d] d(1,2) show ?thesis by blast
qed


section \<open>Links\<close>

theorem link_leads_to_provider_witness:
  "razorpay_payment_link_url (\<lambda>n. CHR ''['' \<notin> set n) [(''short_url'', PStr ''https://rzp.io/i/abc'')]
     = Inr (Some ''https://rzp.io/i/abc'')
   \<and> (\<exists>scheme user host port tail. clean_url ''https://rzp.io/i/abc'' = scheme @ ''://'' @ user @ host @ port @ ''/'' @ tail
        \<and> str_lower host \<in> {''rzp.io'', ''www.rzp.io''})"
proof -
  have e: "razorpay_payment_link_url (\<lambda>n. CHR ''['' \<notin> set n) [(''short_url'', PStr ''https://rzp.io/i/abc'')]
     = Inr (Some ''https://rzp.io/i/abc'')"
    by code_simp
  have "checks_addresses (\<lambda>n. CHR ''['' \<notin> set n)" by (simp add: checks_addresses_def)
  from link_leads_to_provider [OF e this] e show ?thesis by blast
qed

text \<open>
  The host of a URL is what follows the last \<open>@\<close> of its location, so a location whose user part
  names another host before a backslash is accepted; a browser ends the location at the backslash.
\<close>

lemma backslash_link_accepted:
  "razorpay_payment_link_url netloc_ok [(''short_url'', PStr (''https://evil.example'' @ [CHR 0x5C] @ ''@rzp.io/x''))]
     = Inr (Some (''https://evil.example'' @ [CHR 0x5C] @ ''@rzp.io/x''))"
  by code_simp

text \<open>An unclosed bracket makes \<open>urlparse\<close> raise after the provider has accepted the link.\<close>

lemma sample_request_built: "\<exists>q. create_request other ad sample_action = Inr q"
proof -
  have "\<exists>t. json_text other (PDict
      [(''amount'', PInt 12000), (''currency'', PStr ''INR''), (''description'', PStr ''RevenueGuard Test Mode recovery''),
       (''reference_id'', PStr (reference_id sample_action)),
       (''notes'', PDict [(''revenueguard_idempotency_key'', PStr (ra_idempotency_key sample_action))])]) = Inr t"
    by (simp add: bindR_def)
  moreover have "required_parameter sample_action ''amount_minor'' = Inr (PInt 12000)"
    "required_parameter sample_action ''currency'' = Inr (PStr ''INR'')"
    by (simp_all add: required_parameter_def sample_action_def)
  ultimately show ?thesis by (auto simp: create_request_def link_payload_def)
qed

lemma sample_creates: "ra_action_type sample_action = CREATE_PAYMENT_LINK" by (simp add: sample_action_def)

lemma bracket_link_raises:
  "\<exists>e. razorpay_execute (\<lambda>_. Some (PDict [(''id'', PStr ''plink_1''), (''short_url'', PStr ''https://['')]))
     (\<lambda>n. CHR ''['' \<notin> set n) other paid_adapter paid_at sample_action = Inl e"
proof -
  obtain q where "create_request other paid_adapter sample_action = Inr q" using sample_request_built by blast
  moreover have "case razorpay_payment_link_url (\<lambda>n. CHR ''['' \<notin> set n) [(''id'', PStr ''plink_1''), (''short_url'', PStr ''https://['')]
      of Inl _ \<Rightarrow> True | Inr _ \<Rightarrow> False" by code_simp
  ultimately show ?thesis
    by (auto simp: razorpay_execute_def sample_creates paid_adapter_def json_document_def Let_def split: sum.splits)
qed


section \<open>A call that fails on the provider's side\<close>

definition failing_adapter :: RazorpayTestModeAdapter where
  "failing_adapter = paid_adapter\<lparr>rz_transport := (\<lambda>_. Answered \<lparr>hr_status_code = 502, hr_body = [], hr_request_reference = ''r''\<rparr>)\<rparr>"

definition failed_result :: ProviderExecutionResult where
  "failed_result = execution_answer paid_at ActionStatus.UNKNOWN ''AMBIGUOUS_PROVIDER_RESPONSE'' (Some 502) ''PROVIDER_RESPONSE_AMBIGUOUS''"

lemma failed_answer: "razorpay_execute (\<lambda>_. None) (\<lambda>_. True) other failing_adapter paid_at sample_action = Inr failed_result"
proof -
  obtain q where "create_request other failing_adapter sample_action = Inr q" using sample_request_built by blast
  moreover have "razorpay_payment_link_url (\<lambda>_. True) [] = Inr None" by (simp add: razorpay_payment_link_url_def dict_get_def)
  moreover have "classify_execution paid_at 502 None None = failed_result"
    by (simp add: classify_execution_def success_code_def failed_result_def)
  moreover have "post_init_execution_result failed_result = Inr failed_result" by code_simp
  ultimately show ?thesis
    by (simp add: razorpay_execute_def sample_creates failing_adapter_def json_document_def string_value_def dict_get_def)
qed

definition called_row :: ActionRow where
  "called_row = started_action (Aware 300) sample_leased_row"

definition open_call :: AttemptRow where
  "open_call = new_attempt called_row ''lease_1'' (Aware 300)"

definition executing_case :: RecoveryCase where
  "executing_case = sample_case\<lparr>rc_state := EXECUTING, rc_state_version := 5\<rparr>"

abbreviation called_store :: playbook_db where
  "called_store \<equiv> link_state_with executing_case [] called_row [open_call] [] [] Map.empty 0"

lemma called_row_facts:
  "action_key called_row = (''merchant_1'', ''action_1'')" "ao_recovery_case_id called_row = ''case_1''"
  "ao_merchant_id called_row = ''merchant_1''" "ao_id called_row = ''action_1''" "ao_correlation_id called_row = ''corr_1''"
  "ao_attempt_count called_row = 1" "ao_status called_row = PENDING"
  by (simp_all add: called_row_def started_action_def sample_leased_row_def leased_action_def sample_action_row_def
      action_row_def sample_action_def)

lemma open_call_facts:
  "attempt_action open_call = (''merchant_1'', ''action_1'')" "attempt_open open_call" "ap_lease_token open_call = ''lease_1''"
  "ap_merchant_id open_call = ''merchant_1''" "ap_recovery_action_id open_call = ''action_1''"
  "ap_attempt_number open_call = 1" "ap_completed_at open_call = None" "ap_started_at open_call = Aware 300"
  by (simp_all add: open_call_def new_attempt_def called_row_facts)

lemma called_store_books: "books_ok called_store"
proof -
  have "consistent called_store"
    by (simp add: consistent_def store_ok_def cases_ok_single case_row_ok_def
        sample_row_def executing_case_def sample_case_def currency_pattern_def is_ascii_upper_def transitions_ok_def
        unique_index_def ledger_ok_def own_entries_def history_ok_def case_log_def TERMINAL_STATES_def)
  moreover have "attempts_inv called_store"
    by (simp add: attempts_inv_def open_attempts_def called_row_facts open_call_facts)
  moreover have "actions_ok [called_row]"
    by (simp add: actions_ok_def unique_index_def action_row_ok_def called_row_def started_action_def)
      (simp add: sample_leased_row_def sample_action_row_def leased_action_def action_row_def sample_action_def)
  moreover have "attempts_ok [open_call]"
    by (simp add: attempts_ok_def attempt_row_ok_def open_call_facts) (simp add: open_call_def new_attempt_def)
  moreover have "outcomes_ok []" by (simp add: outcomes_ok_def unique_index_def)
  ultimately show ?thesis by (simp add: books_ok_def outbox_ok_def outbox_core_def)
qed

definition lost_case :: RecoveryCase where
  "lost_case = executing_case\<lparr>rc_state := CaseState.UNKNOWN, rc_state_version := 6, rc_updated_at := paid_at\<rparr>"

definition lost_step :: CaseTransition where
  "lost_step = \<lparr>ct_case_id = ''case_1'', ct_merchant_id = ''merchant_1'',
     ct_before_state = EXECUTING, ct_after_state = CaseState.UNKNOWN, ct_before_version = 5, ct_after_version = 6,
     ct_actor = ''ACTION_EXECUTOR'', ct_reason_code = ''PROVIDER_RESPONSE_AMBIGUOUS'', ct_reason_detail = None,
     ct_correlation_id = ''corr_1'', ct_policy_version = ''policy_1'',
     ct_authoritative_evidence_reference = None, ct_occurred_at = paid_at\<rparr>"

definition ambiguous_row :: "ExecutionSettings \<Rightarrow> ActionRow" where
  "ambiguous_row settings = settled_action (attempt_result settings 1 failed_result) called_row"

lemma ambiguous_row_facts:
  "action_key (ambiguous_row settings) = (''merchant_1'', ''action_1'')" "ao_recovery_case_id (ambiguous_row settings) = ''case_1''"
  "ao_merchant_id (ambiguous_row settings) = ''merchant_1''" "ao_id (ambiguous_row settings) = ''action_1''"
  "ao_correlation_id (ambiguous_row settings) = ''corr_1''" "ao_status (ambiguous_row settings) = ActionStatus.UNKNOWN"
  "str_item (ao_parameters (ambiguous_row settings)) ''currency'' = Inr ''INR''" "ao_policy_version (ambiguous_row settings) = ''policy_1''"
  by (simp_all add: ambiguous_row_def settled_action_def released_action_def attempt_result_def failed_result_def
      called_row_facts Let_def)
    (simp_all add: called_row_def started_action_def sample_leased_row_def leased_action_def sample_action_row_def
      action_row_def sample_action_def str_item_def item_def)

lemma lost_moves:
  "moved_row executing_case (execution_request executing_case (ambiguous_row settings) CaseState.UNKNOWN ''PROVIDER_RESPONSE_AMBIGUOUS''
     paid_at no_extras) (sample_row\<lparr>cw_case := executing_case\<rparr>) [] = Some (lost_case, sample_row\<lparr>cw_case := lost_case\<rparr>, lost_step)"
proof -
  have "execution_request executing_case (ambiguous_row settings) CaseState.UNKNOWN ''PROVIDER_RESPONSE_AMBIGUOUS'' paid_at no_extras
      = execution_request executing_case sample_action_row CaseState.UNKNOWN ''PROVIDER_RESPONSE_AMBIGUOUS'' paid_at no_extras"
    by (simp add: execution_request_def ambiguous_row_facts) (simp add: sample_action_row_def action_row_def)
  moreover have "moved_row executing_case (execution_request executing_case sample_action_row CaseState.UNKNOWN ''PROVIDER_RESPONSE_AMBIGUOUS''
     paid_at no_extras) (sample_row\<lparr>cw_case := executing_case\<rparr>) [] = Some (lost_case, sample_row\<lparr>cw_case := lost_case\<rparr>, lost_step)"
    by code_simp
  ultimately show ?thesis by simp
qed

lemma failed_finished:
  "\<exists>t es hs n. finish_attempt sample_uuids ''merchant_1'' ''action_1'' ''lease_1'' (attempt_result settings 1 failed_result) called_store
     = Inr ((ambiguous_row settings, t), link_state_with executing_case [] (ambiguous_row settings) [t] [] es hs n)"
proof -
  let ?q = "attempt_result settings 1 failed_result"
  let ?t = "completed_attempt ?q open_call"
  let ?s = "link_state_with executing_case [] (ambiguous_row settings) [?t] [] [] Map.empty 0"
  have q: "\<not> retries ?q called_row" "ar_completed_at ?q = paid_at" "ar_response_category ?q = ''AMBIGUOUS_PROVIDER_RESPONSE''"
    "ar_outcome_status ?q = ActionStatus.UNKNOWN"
    by (simp_all add: retries_def attempt_result_def) (simp_all add: failed_result_def execution_answer_def)
  have code: "ar_error_code ?q = Some ''PROVIDER_RESPONSE_AMBIGUOUS''"
    by (simp add: attempt_result_def) (simp add: failed_result_def execution_answer_def)
  have a: "actions_ok [ambiguous_row settings]"
    by (simp add: actions_ok_def unique_index_def action_row_ok_def ambiguous_row_facts)
      (simp add: ambiguous_row_def settled_action_def released_action_def q called_row_def started_action_def Let_def
        sample_leased_row_def sample_action_row_def leased_action_def action_row_def sample_action_def)
  have t: "attempts_ok [?t]"
    by (simp add: attempts_ok_def attempt_row_ok_def completed_attempt_def open_call_facts q)
      (simp add: open_call_def new_attempt_def paid_at_def)
  have "validate_append (finished_append (ambiguous_row settings) ?t ?q) = Inr ()"
    by (simp add: validate_append_def finished_append_def new_append_def raise_first_okI too_long_def
        audit_utc_def Let_def q code opt_str_def paid_at_def ambiguous_row_facts bindR_def)
  then obtain e s' where e: "append_entry sample_uuids (finished_append (ambiguous_row settings) ?t ?q) ?s = Inr (e, s')"
    using append_entry_returns by blast
  from append_entry_frame [OF e] obtain es hs n where
    s': "s' = link_state_with executing_case [] (ambiguous_row settings) [?t] [] es hs n"
    by (auto simp: link_state_moved)
  have "finish_attempt sample_uuids ''merchant_1'' ''action_1'' ''lease_1'' ?q called_store = Inr ((ambiguous_row settings, ?t), s')"
    using a t e by (simp add: finish_attempt_def get_action_def run_tx open_attempts_def called_row_facts open_call_facts q
        update_action_def update_attempt_def flush_actions_def flush_attempts_def checkT_def Let_def link_state_moved
        ambiguous_row_def [symmetric])
  with s' show ?thesis by blast
qed

definition lost_outcome :: "ExecutionSettings \<Rightarrow> VerifiedOutcome" where
  "lost_outcome settings = observed_outcome (ambiguous_row settings)
     (result_observation failed_result ActionStatus.UNKNOWN ''PROVIDER_RESPONSE_AMBIGUOUS'' False) ''INR''"

lemma lost_outcome_ok:
  "post_init_outcome (lost_outcome settings) = Inr (lost_outcome settings)" "outcome_row_ok (lost_outcome settings)"
  "validate_append (outcome_append (ambiguous_row settings) (lost_outcome settings)) = Inr ()"
proof -
  let ?v = "lost_outcome settings"
  have f: "vo_action_id ?v = ''action_1''" "vo_case_id ?v = ''case_1''" "vo_merchant_id ?v = ''merchant_1''"
    "vo_schema_version ?v = ''1.0''" "vo_recovered_amount_minor ?v = 0" "vo_currency ?v = ''INR''"
    "vo_outcome_status ?v = ActionStatus.UNKNOWN" "\<not> vo_is_authoritative ?v" "vo_observed_at ?v = paid_at"
    "vo_created_at ?v = paid_at" "vo_verified_at ?v = None"
    "\<exists>x. vo_outcome_id ?v = ''outcome_'' @ take 32 x"
    by (simp_all add: lost_outcome_def observed_outcome_def Let_def ambiguous_row_facts result_observation_def failed_result_def
        execution_answer_def) blast
  have utc: "utc name paid_at = Inr paid_at" "audit_utc paid_at = Inr paid_at" for name by (simp_all add: paid_at_def utc_def audit_utc_def)
  have "currency_pattern ''INR''" by code_simp
  then show "post_init_outcome ?v = Inr ?v" "outcome_row_ok ?v"
    using f by (auto simp: post_init_outcome_def outcome_row_ok_def raise_first_okI blank_or_longer_def utc utc_opt_def)
  show "validate_append (outcome_append (ambiguous_row settings) ?v) = Inr ()"
    using f by (simp add: validate_append_def outcome_append_def new_append_def raise_first_okI too_long_def Let_def utc
        ambiguous_row_facts)
qed

lemma failed_recorded:
  "\<exists>d s'. record_execution_result settings sample_uuids ''merchant_1'' ''action_1'' ''lease_1'' failed_result called_store = Inr (d, s')"
proof -
  let ?a = "ambiguous_row settings"
  obtain t es hs n where f: "finish_attempt sample_uuids ''merchant_1'' ''action_1'' ''lease_1'' (attempt_result settings 1 failed_result)
      called_store = Inr ((?a, t), link_state_with executing_case [] ?a [t] [] es hs n)"
    using failed_finished by blast
  from moved_row_stored [OF lost_moves [of settings], of "link_state_with executing_case [] ?a [t] [] es hs n" sample_uuids]
  obtain es' hs' n' where m: "execution_transition sample_uuids ?a CaseState.UNKNOWN ''PROVIDER_RESPONSE_AMBIGUOUS'' paid_at no_extras
      executing_case (link_state_with executing_case [] ?a [t] [] es hs n)
      = Inr (lost_case, link_state_with lost_case [lost_step] ?a [t] [] es' hs' n')"
    by (auto simp: link_state_moved)
  have "\<exists>es hs n. store_observation sample_uuids (''merchant_1'', ''action_1'')
      (result_observation failed_result ActionStatus.UNKNOWN ''PROVIDER_RESPONSE_AMBIGUOUS'' False)
      (link_state_with lost_case [lost_step] ?a [t] [] es' hs' n') = Inr ((),
      (link_state_with lost_case [lost_step] ?a [t] [] es' hs' n')\<lparr>db_outcomes := [lost_outcome settings],
        db_audit_entries := es, db_audit_heads := hs, db_uuids := n\<rparr>)"
    by (rule observation_stored [where a = ?a])
      (simp_all add: ambiguous_row_facts lost_outcome_ok, simp add: lost_outcome_def)
  then obtain s' where o: "store_observation sample_uuids (''merchant_1'', ''action_1'')
      (result_observation failed_result ActionStatus.UNKNOWN ''PROVIDER_RESPONSE_AMBIGUOUS'' False)
      (link_state_with lost_case [lost_step] ?a [t] [] es' hs' n') = Inr ((), s')" by blast
  have case_facts: "rc_merchant_id executing_case = ''merchant_1''" "rc_case_id executing_case = ''case_1''"
    by code_simp+
  have result_facts: "px_status failed_result = ActionStatus.UNKNOWN" "px_observed_at failed_result = paid_at"
    "px_error_code failed_result = Some ''PROVIDER_RESPONSE_AMBIGUOUS''"
    by (simp_all add: failed_result_def) (simp add: execution_answer_def)
  show ?thesis
    by (simp add: record_execution_result_def get_action_def run_tx called_row_facts f required_case_def ambiguous_row_facts
        link_state_case case_facts settle_result_def result_facts or_default_def Let_def m o)
qed

definition call_settings :: ExecutionSettings where
  "call_settings = \<lparr>es_retry_base = seconds 5, es_unknown_ttl = hours 1\<rparr>"

theorem answered_call_is_final_witness:
  "\<exists>d s1. record_execution_result call_settings sample_uuids ''merchant_1'' ''action_1'' ''lease_1'' failed_result called_store = Inr (d, s1)
    \<and> length (provider_calls s1 (''merchant_1'', ''action_1'')) = 1
    \<and> (\<exists>a. stored_action s1 (''merchant_1'', ''action_1'') = Some a \<and> ao_status a \<noteq> PENDING)"
proof -
  obtain d s1 where r: "record_execution_result call_settings sample_uuids ''merchant_1'' ''action_1'' ''lease_1'' failed_result called_store
      = Inr (d, s1)" using failed_recorded by blast
  have "\<forall>q p. rz_transport failing_adapter q = Answered p \<longrightarrow> hr_status_code p \<noteq> 429" by (simp add: failing_adapter_def)
  from answered_call_is_final [OF failed_answer this r called_store_books platform_run.none]
  have "provider_calls s1 (''merchant_1'', ''action_1'') = provider_calls called_store (''merchant_1'', ''action_1'')"
    "\<exists>a. stored_action s1 (''merchant_1'', ''action_1'') = Some a \<and> ao_status a \<noteq> PENDING" by simp_all
  moreover have "length (provider_calls called_store (''merchant_1'', ''action_1'')) = 1"
    by (simp add: provider_calls_def open_call_facts)
  ultimately show ?thesis using r by auto
qed

end
