(* ===== verification/Sha256_Test.thy ===== *)
theory Sha256_Test
  imports Sha256
begin

text \<open>
  The standard's test vector for the message \<open>abc\<close>, evaluated by the simplifier: the model
  of \<open>hashlib.sha256\<close> is the function of FIPS 180-4. It stands in a theory of its own
  because the evaluation takes about two minutes.
\<close>

lemma sha256_test_abc:
  "sha256_hex ''abc'' = ''ba7816bf8f01cfea414140de5dae2223b00361a396177a9cb410ff61f20015ad''"
  by code_simp

end
