(* ===== verification/Spec2Isabelle.thy ===== *)
theory Spec2Isabelle
  imports Cases Reviews Policy_Witnesses Policy_Digest Actions Evidence_Order Outbox_Witnesses Diagnosis Portfolio Intelligence Playbooks Gateway Execution_Witnesses Recovery_Service_Witnesses Reminder_Witness Adapter_Witnesses Sha256_Test
begin

text \<open>
  \<^bold>\<open>RevenueGuard\<close> recovers revenue at risk: signed provider webhooks become risk events, an event
  becomes a recovery case with a diagnosis and candidate actions, a deterministic merchant policy
  decides which action may run, the action is executed at most a bounded number of times through
  an outbox, and money counts as recovered only on authoritative evidence. This development
  models that path, from the bytes of a webhook to the recovered amount, and proves what makes it
  correct. Paths below are relative to \<open>src/\<close>; \<open>domain/\<close>, \<open>integrations/\<close> and \<open>api/\<close> abbreviate
  \<open>packages/domain/src/revenueguard_domain/\<close>, \<open>packages/integrations/src/revenueguard_integrations/\<close>
  and \<open>apps/api/src/revenueguard_api/\<close>.

  \<^bold>\<open>How the program is modelled.\<close>
  \<^item> Data classes are records, enumerations are datatypes with the source's members, and a
    \<open>__post_init__\<close> is a function \<open>post_init_\<dots>\<close> that returns the validated value or the exception.
    A value is well formed (\<open>wf_\<dots>\<close>) when its own \<open>__post_init__\<close> returns it unchanged.
  \<^item> Exceptions are values of \<open>exn\<close>; a function that may raise returns \<open>exn + 'a\<close> (\<open>Prelude\<close>).
  \<^item> A repository method is a transaction \<open>('s, 'a) tx\<close>: a function from the database to an
    exception or a result and the next database, so that a raised exception rolls back. The
    database is a record of tables that grows by record extension with each component:
    \<open>audit_db\<close>, \<open>case_db\<close>, \<open>action_db\<close>, \<open>ingest_db\<close>, \<open>recovery_db\<close>, \<open>playbook_db\<close>. Row locks
    (\<open>FOR UPDATE\<close>) make transactions atomic, so runs are sequences of transactions. A task of the
    worker (\<open>task\<close>, theory \<open>Worker\<close>) is a sequence of committed transactions and provider calls: an
    exception keeps what was committed before it. The
    \<open>CHECK\<close> and unique constraints of \<open>integrations/persistence/models.py\<close> are the predicates
    \<open>\<dots>_ok\<close>, tested where the code flushes.
  \<^item> Timestamps (\<open>Py_Time\<close>) are instants in microseconds, naive or aware; integers are unbounded,
    as in Python; floats that the code rounds at once are exact rationals.
  \<^item> What is not under \<open>src/\<close> is a parameter: the JSON decoder (\<open>loads\<close>), the generator of UUIDs,
    the time-zone database (\<open>zones\<close>), the database clock; for the agents the language model, how
    pydantic coerces its answers, the latencies and whether the workflow is interrupted (\<open>World\<close>);
    for the playbooks the extraction model; for the worker the provider adapters and which messages
    the broker accepts; for the Razorpay adapter what the network answers (\<open>transport\<close>), whether
    \<open>ipaddress\<close> and the Unicode normalisation accept a location (\<open>netloc_ok\<close>, of which the theorem
    on links assumes that a bracketed host is an address, \<open>checks_addresses\<close>) and how floats and
    containers print (\<open>other\<close>).

  \<^bold>\<open>Theories.\<close>
  \<^item> \<open>Prelude\<close>, \<open>Py_Time\<close>, \<open>Py_Iso\<close>, \<open>Py_Json\<close>, \<open>Sha256\<close> (with a test vector in \<open>Sha256_Test\<close>): results,
    transactions and tables; \<open>datetime\<close> with the calendar and \<open>isoformat\<close>/\<open>fromisoformat\<close>; canonical
    JSON, proved injective; SHA-256 and HMAC on 32-bit words. \<open>State_Tables\<close>: the
    locales of transition tables with terminal states and of ranked ones.
  \<^item> \<open>Digests\<close>: the locale \<open>digest_scheme\<close>, an injective document under SHA-256. Its
    interpretations give the facts on action fingerprints, policy digests and idempotency keys:
    equal digests mean equal contents or exhibit a collision.
  \<^item> \<open>Events\<close>, \<open>Cases\<close>, \<open>Reviews\<close>, \<open>Actions\<close>, \<open>Diagnosis\<close>, \<open>Portfolio\<close>, \<open>Intelligence\<close>, \<open>Playbooks\<close>: the
    modules of \<open>domain/\<close>. \<open>Cases\<close> has the frozen transition table, \<open>transition_case\<close> and what every
    history of accepted transitions looks like (closed once, policy before execution).
  \<^item> \<open>Policy\<close>, \<open>Policy_Evaluation\<close>, \<open>Policy_Guards\<close>, \<open>Policy_Theorems\<close>, \<open>Policy_Witnesses\<close>, \<open>Policy_Digest\<close>:
    \<open>domain/policy.py\<close>. \<open>authorized\<close> states the rules of the policy declaratively; \<open>evaluate_policy\<close>
    is shown to proceed exactly with what it authorises, first in rank order, after the stops.
  \<^item> \<open>Audit_Ledger\<close>, \<open>Audit_Chain\<close>: \<open>integrations/persistence/audit_ledger.py\<close>; appends keep every
    ledger valid, and a verified head pins the whole history.
  \<^item> \<open>Versioned\<close>, \<open>Case_Store\<close>, \<open>Evidence_Order\<close>, \<open>Frames\<close>: cases, transitions and evidence of
    \<open>integrations/persistence/recovery_repositories.py\<close>. The locale of \<open>Versioned\<close> states optimistic
    locking once; \<open>Frames\<close> has the locale \<open>step_order\<close>: what a transaction leaves alone, proved
    compositionally and interpreted for each frame.
  \<^item> \<open>Outbox\<close>, \<open>Outbox_Invariant\<close>, \<open>Outbox_Theorems\<close>, \<open>Outbox_Witnesses\<close>:
    \<open>integrations/persistence/action_repositories.py\<close>, with the invariant \<open>outbox_ok\<close> of actions,
    attempts and outcomes that every operation keeps.
  \<^item> \<open>Razorpay\<close>, \<open>Ingestion\<close>, \<open>Ingestion_Theorems\<close>, \<open>Ingestion_Witnesses\<close>, \<open>Gateway\<close>: webhook
    signatures and normalisation (\<open>integrations/razorpay/\<close>), the inbox and its dispatches
    (\<open>integrations/persistence/repositories.py\<close>) and the HTTP handler (\<open>api/routes/webhooks.py\<close>).
  \<^item> \<open>Recovery_Store\<close>, \<open>Recovery_Theorems\<close>, \<open>Recovery_Witnesses\<close>: the rest of the recovery
    repository: policies, reviews, receipts, predictions, interventions, incidents and facts.
  \<^item> \<open>Execution\<close>, \<open>Execution_Theorems\<close>, \<open>Execution_Witnesses\<close>: \<open>integrations/execution/service.py\<close>.
    Every operation keeps the outbox, case store and ledger together; the money booked is the
    money authorised; a provider attempt needs a fresh decision to proceed.
  \<^item> \<open>Redaction\<close>, \<open>Agent_Contracts\<close>, \<open>Agent_Graph\<close>, \<open>Agent_Theorems\<close>: the bounded agents of
    \<open>packages/agents/\<close> (\<open>redaction.py\<close>, \<open>contracts.py\<close>, \<open>graph.py\<close>): what is redacted before a model
    sees it, the typed contracts of its answers, the retries, validators and fallbacks of each node
    and of the whole graph. Whatever the model answers, the recommendation is bounded by the request.
  \<^item> \<open>Recovery\<close>, \<open>Recovery_Books\<close>, \<open>Recovery_Safety\<close>, \<open>Recovery_Outcomes\<close>, \<open>Agent_Service\<close>,
    \<open>Recovery_Service_Witnesses\<close>: \<open>integrations/recovery/service.py\<close>, the service that turns events,
    due deferrals and review decisions into policy decisions and authorised actions. The locale
    \<open>bounded_intelligence\<close> of \<open>Recovery_Safety\<close> states what the service needs of its advisor;
    \<open>Agent_Service\<close> interprets it on the graph, so that every action the two store together is
    licensed by policy and offered by the deterministic diagnosis. \<open>Recovery_Books\<close> joins the runs of
    this service and of the execution service (\<open>system_run\<close>).
  \<^item> \<open>Playbook_Store\<close>, \<open>Playbook_Service\<close>: \<open>integrations/persistence/playbook_repositories.py\<close> and
    \<open>integrations/playbooks/\<close>: overdue invoices, answers of customers and their bounded extraction,
    promises to pay with their reminders and escalations, and incidents of payment degradation.
    Objects the session changed and did not flush yet are part of the state (\<open>db_dirty_promises\<close>).
  \<^item> \<open>Worker\<close>, \<open>Worker_Theorems\<close>: the tasks of \<open>apps/worker/src/revenueguard_worker/\<close> with the
    simulator of \<open>integrations/execution/providers.py\<close>; the processing of a webhook commits
    everything or nothing but its failure.
  \<^item> \<open>Playbook_Frames\<close>, \<open>Playbook_Books\<close>, \<open>Playbook_Promises\<close>, \<open>Playbook_Invoices\<close>, \<open>Playbook_Incidents\<close>,
    \<open>Platform\<close>: \<open>platform_run\<close> joins every service and every task. Its locale \<open>platform_frame\<close> says
    what a relation between states has to satisfy to hold over all runs; it is interpreted for the
    books of outbox and ledger, the history of promises, the invoices and the incidents, which are
    shown equivalent to a machine per dimension (\<open>incident_machine\<close>).
  \<^item> \<open>Url\<close>, \<open>Razorpay_Adapter\<close>: what the code uses of \<open>urllib.parse\<close>, and the Razorpay adapter of
    \<open>integrations/execution/providers.py\<close>: the request for a payment link, the classification of the
    answer, the lookup and the check of the link kept for the operator. \<open>razorpay_provider\<close> is a
    provider of the worker.
  \<^item> \<open>Settled\<close>, \<open>Adapter_Theorems\<close>, \<open>Adapter_Witnesses\<close>: \<open>keeps_settled\<close>, one more interpretation of
    \<open>platform_frame\<close>, says that an action that is neither pending nor in flight stays so and gets no
    further provider call. With it an answered call is never repeated; a lookup recovers money only
    for a link that is paid; a kept link leads to a host of the provider.
  \<^item> \<open>Playbook_Theorems\<close>, \<open>Playbook_Witnesses\<close>, \<open>Reminder_Witness\<close>: disputes, reminders and the
    extraction, and concrete runs of the platform.

  \<^bold>\<open>Bounds.\<close> No definition uses fuel: loops are recursions over finite lists, the retry loop of the
  model calls one over its retry budget. The calendar and
  the ISO formats cover years 1 to 9999 where a lemma says so.

  \<^bold>\<open>Not modelled.\<close> SQLAlchemy, FastAPI, Celery, LangGraph and the HTTP transport are libraries;
  their glue (application factories, task registration and schedule, configuration, probes), the
  migrations and the database engine are left out. The HTTP adapter of the language
  model is a parameter. The web frontend and the dashboards only read and format, and the evaluation
  harness runs the system on synthetic data.
\<close>

end
